(* ===== verification/Prelude.thy ===== *)
theory Prelude
  imports Main "HOL-Library.Sublist" "HOL-Library.Char_ord" "HOL-Library.List_Lexorder"
begin

text \<open>
  Shared vocabulary of the development: Go strings as byte lists, the parts of the packages
  \<^verbatim>\<open>strings\<close>, \<^verbatim>\<open>unicode/utf8\<close>, \<^verbatim>\<open>strconv\<close> and \<^verbatim>\<open>path\<close> that the modelled code calls, and the
  lemmas about them that several components use. A Go \<^verbatim>\<open>string\<close> is a sequence of bytes, so it is
  an Isabelle \<open>string\<close> whose characters are those bytes. A function that returns
  \<^verbatim>\<open>(value, error)\<close> is a sum (\<open>Inl\<close> the error); a function that returns only \<^verbatim>\<open>error\<close> is an
  \<open>option\<close> (\<open>None\<close> is \<^verbatim>\<open>nil\<close>).
\<close>

named_theorems go_string \<open>facts about the string operations of the Go library\<close>

type_synonym ('e, 'a) result = "'e + 'a"

abbreviation byte :: "char \<Rightarrow> nat" where
  "byte c \<equiv> of_char c"

section \<open>White space: \<^verbatim>\<open>strings.TrimSpace\<close>\<close>

text \<open>
  \<^verbatim>\<open>unicode.IsSpace\<close> holds for the six ASCII blanks, U+0085, U+00A0, U+1680, U+2000 to U+200A,
  U+2028, U+2029, U+202F, U+205F and U+3000. \<open>space_code\<close> recognises their UTF-8 encodings,
  \<open>ws_front\<close> measures such an encoding at the start of a string and \<open>ws_back\<close> one at the start of
  a reversed string.
\<close>

fun space_code :: "nat list \<Rightarrow> bool" where
  "space_code [a] = (a \<in> {9, 10, 11, 12, 13, 32})"
| "space_code [a, b] = (a = 194 \<and> b \<in> {133, 160})"
| "space_code [a, b, c] =
     ((a = 225 \<and> b = 154 \<and> c = 128) \<or>
      (a = 226 \<and> b = 128 \<and> (128 \<le> c \<and> c \<le> 138 \<or> c \<in> {168, 169, 175})) \<or>
      (a = 226 \<and> b = 129 \<and> c = 159) \<or>
      (a = 227 \<and> b = 128 \<and> c = 128))"
| "space_code _ = False"

definition ws_front :: "string \<Rightarrow> nat" where
  "ws_front s =
     (if space_code (map byte (take 1 s)) then 1
      else if space_code (map byte (take 2 s)) then 2
      else if space_code (map byte (take 3 s)) then 3
      else 0)"

definition ws_back :: "string \<Rightarrow> nat" where
  "ws_back s =
     (if space_code (rev (map byte (take 1 s))) then 1
      else if space_code (rev (map byte (take 2 s))) then 2
      else if space_code (rev (map byte (take 3 s))) then 3
      else 0)"

function trim_left :: "string \<Rightarrow> string" where
  "trim_left s = (if s = [] \<or> ws_front s = 0 then s else trim_left (drop (ws_front s) s))"
  by pat_completeness auto
termination
  by (relation "measure length") (auto simp: neq_Nil_conv)

function trim_back :: "string \<Rightarrow> string" where
  "trim_back s = (if s = [] \<or> ws_back s = 0 then s else trim_back (drop (ws_back s) s))"
  by pat_completeness auto
termination
  by (relation "measure length") (auto simp: neq_Nil_conv)

declare trim_left.simps [simp del] trim_back.simps [simp del]

definition trim_space :: "string \<Rightarrow> string" where
  "trim_space s = rev (trim_back (rev (trim_left s)))"

lemma space_code_Nil [simp]: "\<not> space_code []"
  by simp

lemma trim_left_Nil [simp]: "trim_left [] = []"
  by (simp add: trim_left.simps)

lemma trim_back_Nil [simp]: "trim_back [] = []"
  by (simp add: trim_back.simps)

lemma trim_space_Nil [simp, go_string]: "trim_space [] = []"
  by (simp add: trim_space_def)

lemma trim_left_stop: "ws_front s = 0 \<Longrightarrow> trim_left s = s"
  by (simp add: trim_left.simps)

lemma trim_back_stop: "ws_back s = 0 \<Longrightarrow> trim_back s = s"
  by (simp add: trim_back.simps)

lemma ws_front_Nil [simp]: "ws_front [] = 0"
  by (simp add: ws_front_def)

lemma ws_back_Nil [simp]: "ws_back [] = 0"
  by (simp add: ws_back_def)

lemma ws_front_trim_left: "ws_front (trim_left s) = 0"
proof (induction s rule: trim_left.induct)
  case (1 s)
  then show ?case
    by (cases "s = [] \<or> ws_front s = 0") (auto simp: trim_left.simps [of s])
qed

lemma ws_back_trim_back: "ws_back (trim_back s) = 0"
proof (induction s rule: trim_back.induct)
  case (1 s)
  then show ?case
    by (cases "s = [] \<or> ws_back s = 0") (auto simp: trim_back.simps [of s])
qed

lemma trim_back_suffix: "suffix (trim_back s) s"
proof (induction s rule: trim_back.induct)
  case (1 s)
  show ?case
  proof (cases "s = [] \<or> ws_back s = 0")
    case False
    with "1.IH" have "suffix (trim_back (drop (ws_back s) s)) (drop (ws_back s) s)" by simp
    then have "suffix (trim_back (drop (ws_back s) s)) s"
      by (rule suffix_order.trans) (rule suffix_drop)
    with False show ?thesis by (simp add: trim_back.simps [of s])
  qed (simp add: trim_back.simps [of s])
qed

lemma trim_left_suffix: "suffix (trim_left s) s"
proof (induction s rule: trim_left.induct)
  case (1 s)
  show ?case
  proof (cases "s = [] \<or> ws_front s = 0")
    case False
    with "1.IH" have "suffix (trim_left (drop (ws_front s) s)) (drop (ws_front s) s)" by simp
    then have "suffix (trim_left (drop (ws_front s) s)) s"
      by (rule suffix_order.trans) (rule suffix_drop)
    with False show ?thesis by (simp add: trim_left.simps [of s])
  qed (simp add: trim_left.simps [of s])
qed

lemma space_code_len: "space_code xs \<Longrightarrow> length xs \<in> {1, 2, 3}"
  by (cases xs rule: space_code.cases) auto

lemma space_code_take_append:
  "space_code (map byte (take n p)) \<Longrightarrow> n \<le> length p \<Longrightarrow> space_code (map byte (take n (p @ q)))"
  by simp

text \<open>No white space code is a proper prefix of another one.\<close>

lemma space_code_1_not_2: "space_code [a] \<Longrightarrow> \<not> space_code [a, b]"
  by auto

lemma ws_front_append: "ws_front p \<noteq> 0 \<Longrightarrow> ws_front (p @ q) \<noteq> 0"
proof -
  assume "ws_front p \<noteq> 0"
  then obtain n where n: "n \<in> {1, 2, 3}" "space_code (map byte (take n p))"
    by (auto simp: ws_front_def split: if_splits)
  define k where "k = min n (length p)"
  have k: "space_code (map byte (take k p))" "k \<le> length p"
    using n by (auto simp: k_def min_def)
  then have len: "k \<in> {1, 2, 3}"
    using space_code_len [OF k(1)] by (simp add: min_absorb2)
  from space_code_take_append [OF k, of q] len show ?thesis
    by (auto simp: ws_front_def)
qed

lemma ws_front_prefix: "ws_front s = 0 \<Longrightarrow> prefix p s \<Longrightarrow> ws_front p = 0"
  by (metis prefix_def ws_front_append)

lemma prefix_rev_trim_back: "prefix (rev (trim_back (rev s))) s"
  using trim_back_suffix [of "rev s"] by (metis rev_rev_ident suffix_to_prefix)

lemma trim_space_idem [simp, go_string]: "trim_space (trim_space s) = trim_space s"
proof -
  let ?t = "rev (trim_back (rev (trim_left s)))"
  have "ws_front ?t = 0"
    by (rule ws_front_prefix [OF ws_front_trim_left prefix_rev_trim_back])
  then have "trim_left ?t = ?t" by (rule trim_left_stop)
  moreover have "trim_back (trim_back (rev (trim_left s))) = trim_back (rev (trim_left s))"
    by (rule trim_back_stop [OF ws_back_trim_back])
  ultimately show ?thesis by (simp add: trim_space_def)
qed

lemma length_trim_space [go_string]: "length (trim_space s) \<le> length s"
proof -
  have "length (trim_space s) \<le> length (trim_left s)"
    using suffix_length_le [OF trim_back_suffix [of "rev (trim_left s)"]]
    by (simp add: trim_space_def)
  also have "\<dots> \<le> length s" by (rule suffix_length_le [OF trim_left_suffix])
  finally show ?thesis .
qed

lemma trim_space_nonempty: "trim_space s \<noteq> [] \<Longrightarrow> s \<noteq> []"
  by auto

text \<open>Strings of printable ASCII characters have nothing to trim.\<close>

definition graphic :: "char \<Rightarrow> bool" where
  "graphic c \<longleftrightarrow> 33 \<le> byte c \<and> byte c \<le> 126"

lemma space_code_hd: "space_code (a # xs) \<Longrightarrow> a \<le> 32 \<or> 194 \<le> a"
  by (cases "a # xs" rule: space_code.cases) auto

lemma space_code_last: "space_code (xs @ [a]) \<Longrightarrow> a \<le> 32 \<or> 128 \<le> a"
  by (cases "xs @ [a]" rule: space_code.cases) auto

lemma ws_front_graphic: "graphic c \<Longrightarrow> ws_front (c # s) = 0"
  by (auto simp: ws_front_def graphic_def numeral_eq_Suc dest!: space_code_hd)

lemma ws_back_graphic: "graphic c \<Longrightarrow> ws_back (c # s) = 0"
  by (auto simp: ws_back_def graphic_def numeral_eq_Suc simp del: space_code.simps
      dest!: space_code_last space_code_last [where xs = "[]", simplified])

lemma trim_space_graphic [go_string]:
  assumes "list_all graphic s"
  shows "trim_space s = s"
proof (cases s rule: rev_cases)
  case (snoc t d)
  have "ws_front s = 0"
    using assms by (cases s) (simp_all add: ws_front_graphic)
  moreover have "ws_back (rev s) = 0"
    using assms snoc by (auto intro: ws_back_graphic)
  ultimately show ?thesis
    by (simp add: trim_space_def trim_left_stop trim_back_stop)
qed simp

lemma trim_space_line:
  assumes "list_all graphic s"
  shows "trim_space (s @ [CHR 0x0A]) = s"
proof (cases "s = []")
  case True
  have "trim_space [CHR 0x0A] = []" by code_simp
  with True show ?thesis by simp
next
  case False
  have "trim_left (s @ [CHR 0x0A]) = s @ [CHR 0x0A]"
    using assms False by (cases s) (auto intro!: trim_left_stop ws_front_graphic)
  moreover have "ws_back (CHR 0x0A # t) = Suc 0" for t
    by (simp add: ws_back_def)
  then have "trim_back (CHR 0x0A # rev s) = trim_back (rev s)"
    by (simp add: trim_back.simps [of "CHR 0x0A # rev s"])
  moreover have "trim_back (rev s) = rev s"
    using assms False by (cases s rule: rev_cases) (auto intro!: trim_back_stop ws_back_graphic)
  ultimately show ?thesis
    by (simp add: trim_space_def)
qed

section \<open>Other operations of package \<^verbatim>\<open>strings\<close>\<close>

definition has_prefix :: "string \<Rightarrow> string \<Rightarrow> bool" where
  "has_prefix s p \<longleftrightarrow> take (length p) s = p"

definition has_suffix :: "string \<Rightarrow> string \<Rightarrow> bool" where
  "has_suffix s p \<longleftrightarrow> has_prefix (rev s) (rev p)"

definition trim_prefix :: "string \<Rightarrow> string \<Rightarrow> string" where
  "trim_prefix s p = (if has_prefix s p then drop (length p) s else s)"

fun contains :: "string \<Rightarrow> string \<Rightarrow> bool" where
  "contains [] p = (p = [])"
| "contains (c # cs) p = (has_prefix (c # cs) p \<or> contains cs p)"

definition contains_any :: "string \<Rightarrow> string \<Rightarrow> bool" where
  "contains_any s cs \<longleftrightarrow> list_ex (\<lambda>c. c \<in> set cs) s"

text \<open>\<^verbatim>\<open>strings.Split\<close> on a one-byte separator; the result is never empty.\<close>

fun split_on :: "char \<Rightarrow> string \<Rightarrow> string list" where
  "split_on d [] = [[]]"
| "split_on d (c # cs) =
     (if c = d then [] # split_on d cs
      else (case split_on d cs of [] \<Rightarrow> [[c]] | w # ws \<Rightarrow> (c # w) # ws))"

text \<open>\<^verbatim>\<open>strings.SplitN\<close> on a one-byte separator: at most \<open>n\<close> parts, the last one unsplit.\<close>

fun split_n :: "nat \<Rightarrow> char \<Rightarrow> string \<Rightarrow> string list" where
  "split_n 0 d s = []"
| "split_n (Suc 0) d s = [s]"
| "split_n (Suc (Suc n)) d s =
     (let w = takeWhile (\<lambda>c. c \<noteq> d) s; r = dropWhile (\<lambda>c. c \<noteq> d) s
      in if r = [] then [w] else w # split_n (Suc n) d (tl r))"

fun join_with :: "string \<Rightarrow> string list \<Rightarrow> string" where
  "join_with d [] = []"
| "join_with d [w] = w"
| "join_with d (w # ws) = w @ d @ join_with d ws"

lemma has_prefix_iff [go_string]: "has_prefix s p \<longleftrightarrow> prefix p s"
  by (metis has_prefix_def prefix_def append_eq_conv_conj take_is_prefix)

lemma split_on_neq_Nil [simp]: "split_on d s \<noteq> []"
  by (induction s) (auto split: list.splits)

lemma split_on_no_sep: "d \<notin> set s \<Longrightarrow> split_on d s = [s]"
  by (induction s) auto

lemma split_on_parts_no_sep: "w \<in> set (split_on d s) \<Longrightarrow> d \<notin> set w"
  by (induction s arbitrary: w) (auto split: if_splits list.splits)

lemma split_join: "ls \<noteq> [] \<Longrightarrow> \<forall>l \<in> set ls. d \<notin> set l \<Longrightarrow> split_on d (join_with [d] ls) = ls"
proof (induction ls rule: induct_list012)
  case (3 w w' ws)
  have "split_on d (w @ d # s) = w # split_on d s" if "d \<notin> set w" for s w
    using that by (induction w) auto
  with 3 show ?case by simp
qed (simp_all add: split_on_no_sep)

lemma join_split_on [go_string]: "join_with [d] (split_on d s) = s"
proof (induction s)
  case (Cons c cs)
  obtain w ws where "split_on d cs = w # ws"
    by (cases "split_on d cs") auto
  with Cons show ?case
    by (cases ws) auto
qed simp

text \<open>
  \<^verbatim>\<open>strings.EqualFold\<close> against an ASCII string: besides the two cases of each ASCII letter, the
  simple case folding orbits of ASCII letters hold U+212A (for \<open>k\<close>) and U+017F (for \<open>s\<close>).
\<close>

definition lower_byte :: "char \<Rightarrow> char" where
  "lower_byte c = (if 65 \<le> byte c \<and> byte c \<le> 90 then char_of (byte c + 32) else c)"

fun fold_ascii :: "string \<Rightarrow> string" where
  "fold_ascii (a # b # c # s) =
     (if byte a = 226 \<and> byte b = 132 \<and> byte c = 170 then CHR ''k'' # fold_ascii s
      else if byte a = 197 \<and> byte b = 191 then CHR ''s'' # fold_ascii (c # s)
      else lower_byte a # fold_ascii (b # c # s))"
| "fold_ascii [a, b] =
     (if byte a = 197 \<and> byte b = 191 then ''s'' else [lower_byte a, lower_byte b])"
| "fold_ascii [a] = [lower_byte a]"
| "fold_ascii [] = []"

definition equal_fold_ascii :: "string \<Rightarrow> string \<Rightarrow> bool" where
  "equal_fold_ascii s t \<longleftrightarrow> fold_ascii s = fold_ascii t"

section \<open>UTF-8: \<^verbatim>\<open>utf8.DecodeRuneInString\<close>\<close>

definition cont_byte :: "nat \<Rightarrow> bool" where
  "cont_byte b \<longleftrightarrow> 128 \<le> b \<and> b \<le> 191"

text \<open>
  The width of the rune at the start of a string. Width 1 on a byte of at least 128 is the
  decoder's error result \<^verbatim>\<open>(RuneError, 1)\<close>.
\<close>

fun rune_width :: "nat list \<Rightarrow> nat" where
  "rune_width [] = 0"
| "rune_width (a # s) =
     (if a < 128 then 1
      else case s of
        [] \<Rightarrow> 1
      | b # s2 \<Rightarrow>
          if 194 \<le> a \<and> a \<le> 223 then (if cont_byte b then 2 else 1)
          else (case s2 of
            [] \<Rightarrow> 1
          | c # s3 \<Rightarrow>
              if 224 \<le> a \<and> a \<le> 239 then
                (if cont_byte b \<and> cont_byte c \<and> (a = 224 \<longrightarrow> 160 \<le> b) \<and> (a = 237 \<longrightarrow> b \<le> 159)
                 then 3 else 1)
              else (case s3 of
                [] \<Rightarrow> 1
              | d # _ \<Rightarrow>
                  if 240 \<le> a \<and> a \<le> 244 \<and> cont_byte b \<and> cont_byte c \<and> cont_byte d \<and>
                     (a = 240 \<longrightarrow> 144 \<le> b) \<and> (a = 244 \<longrightarrow> b \<le> 143)
                  then 4 else 1)))"

fun rune_value :: "nat list \<Rightarrow> nat" where
  "rune_value [a] = (if a < 128 then a else 65533)"
| "rune_value [a, b] = (a - 192) * 64 + (b - 128)"
| "rune_value [a, b, c] = (a - 224) * 4096 + (b - 128) * 64 + (c - 128)"
| "rune_value [a, b, c, d] = (a - 240) * 262144 + (b - 128) * 4096 + (c - 128) * 64 + (d - 128)"
| "rune_value _ = 65533"

lemma rune_width_bounds: "s \<noteq> [] \<Longrightarrow> 0 < rune_width s \<and> rune_width s \<le> 4 \<and> rune_width s \<le> length s"
  by (cases s) (auto split: list.splits)

text \<open>The runes of a string as \<^verbatim>\<open>for _, c := range s\<close> yields them.\<close>

function runes :: "nat list \<Rightarrow> nat list" where
  "runes s = (if s = [] then []
     else rune_value (take (rune_width s) s) # runes (drop (rune_width s) s))"
  by pat_completeness auto
termination
  by (relation "measure length") (auto dest: rune_width_bounds)

declare runes.simps [simp del]

section \<open>Decimal numbers: \<^verbatim>\<open>strconv.Itoa\<close>\<close>

fun nat_digits :: "nat \<Rightarrow> string" where
  "nat_digits n = (if n < 10 then [char_of (48 + n)] else nat_digits (n div 10) @ [char_of (48 + n mod 10)])"

declare nat_digits.simps [simp del]

definition itoa :: "int \<Rightarrow> string" where
  "itoa i = (if i < 0 then ''-'' @ nat_digits (nat (- i)) else nat_digits (nat i))"

section \<open>Lexical path cleaning: \<^verbatim>\<open>path.Clean\<close>\<close>

definition path_sep :: char where "path_sep = CHR ''/''"

text \<open>
  One component is pushed on the (reversed) list of kept components: empty components and
  \<^verbatim>\<open>.\<close> vanish, \<^verbatim>\<open>..\<close> removes the component before it when there is one, is dropped at the root of
  an absolute path and is kept at the front of a relative one.
\<close>

definition clean_push :: "bool \<Rightarrow> string list \<Rightarrow> string \<Rightarrow> string list" where
  "clean_push rooted acc w =
     (if w = [] \<or> w = ''.'' then acc
      else if w = ''..'' then
        (case acc of
           [] \<Rightarrow> if rooted then [] else [''..'']
         | a # as \<Rightarrow> if a = ''..'' then ''..'' # acc else as)
      else w # acc)"

definition path_clean :: "string \<Rightarrow> string" where
  "path_clean p =
     (let rooted = has_prefix p ''/'';
          out = join_with ''/'' (rev (foldl (clean_push rooted) [] (split_on path_sep p)))
      in if rooted then CHR ''/'' # out else if out = [] then ''.'' else out)"

section \<open>Lists and first errors\<close>

text \<open>\<open>first_err\<close> runs a sequence of checks and returns the first error, as a chain of
  \<^verbatim>\<open>if err := f(); err != nil { return err }\<close> does.\<close>

fun first_err :: "'e option list \<Rightarrow> 'e option" where
  "first_err [] = None"
| "first_err (c # cs) = (case c of None \<Rightarrow> first_err cs | Some e \<Rightarrow> Some e)"

lemma first_err_None_iff [simp]: "first_err cs = None \<longleftrightarrow> (\<forall>c \<in> set cs. c = None)"
  by (induction cs) (auto split: option.splits)

lemma first_err_in: "first_err cs = Some e \<Longrightarrow> Some e \<in> set cs"
  by (induction cs) (auto split: option.splits)

lemma list_ex_eq_mem: "list_ex (\<lambda>y. x = y) ys \<longleftrightarrow> x \<in> set ys"
  by (induction ys) auto

end
