(* ===== verification/Go_Json.thy ===== *)
theory Go_Json
  imports Prelude
begin

text \<open>
  The part of \<^verbatim>\<open>encoding/json\<close> that the packet code writes with: \<^verbatim>\<open>json.NewEncoder\<close> with
  \<^verbatim>\<open>SetEscapeHTML(false)\<close>, on strings, integers, booleans, slices, structs (members in
  declaration order) and \<^verbatim>\<open>map[string]any\<close> (members in increasing byte order of their keys).
  An empty list stands for a nil slice, which Go writes as \<^verbatim>\<open>null\<close>.
\<close>

datatype json =
    JString string
  | JInt int
  | JBool bool
  | JNull
  | JArr "json list"
  | JObj "(string \<times> json) list"

definition hex_digit :: "nat \<Rightarrow> char" where
  "hex_digit n = (if n < 10 then char_of (48 + n) else char_of (87 + n))"

text \<open>One ASCII byte inside a JSON string.\<close>

definition escape_ascii :: "char \<Rightarrow> string" where
  "escape_ascii c =
     (if byte c = 34 \<or> byte c = 92 then [CHR 0x5C, c]
      else if 32 \<le> byte c then [c]
      else if byte c = 8 then [CHR 0x5C, CHR ''b'']
      else if byte c = 12 then [CHR 0x5C, CHR ''f'']
      else if byte c = 10 then [CHR 0x5C, CHR ''n'']
      else if byte c = 13 then [CHR 0x5C, CHR ''r'']
      else if byte c = 9 then [CHR 0x5C, CHR ''t'']
      else CHR 0x5C # ''u00'' @ [hex_digit (byte c div 16), hex_digit (byte c mod 16)])"

text \<open>
  One rune: ASCII as above, an invalid byte as \<^verbatim>\<open>\ufffd\<close>, U+2028 and U+2029 by their escapes, and
  every other rune by its own bytes.
\<close>

definition escape_rune :: "string \<Rightarrow> string" where
  "escape_rune r =
     (case r of
        [] \<Rightarrow> []
      | [c] \<Rightarrow> if byte c < 128 then escape_ascii c else CHR 0x5C # ''ufffd''
      | _ \<Rightarrow> if map byte r = [226, 128, 168] then CHR 0x5C # ''u2028''
             else if map byte r = [226, 128, 169] then CHR 0x5C # ''u2029''
             else r)"

function escape_string :: "string \<Rightarrow> string" where
  "escape_string s =
     (if s = [] then []
      else escape_rune (take (rune_width (map byte s)) s) @
           escape_string (drop (rune_width (map byte s)) s))"
  by pat_completeness auto
termination
proof (relation "measure length")
  fix s :: string
  assume "s \<noteq> []"
  then have "0 < rune_width (map byte s)"
    using rune_width_bounds [of "map byte s"] by simp
  with \<open>s \<noteq> []\<close> show "(drop (rune_width (map byte s)) s, s) \<in> measure length" by simp
qed simp

declare escape_string.simps [simp del]

definition encode_string :: "string \<Rightarrow> string" where
  "encode_string s = [CHR 0x22] @ escape_string s @ [CHR 0x22]"

fun encode_json :: "json \<Rightarrow> string" where
  "encode_json (JString s) = encode_string s"
| "encode_json (JInt i) = itoa i"
| "encode_json (JBool b) = (if b then ''true'' else ''false'')"
| "encode_json JNull = ''null''"
| "encode_json (JArr xs) = ''['' @ join_with '','' (map encode_json xs) @ '']''"
| "encode_json (JObj kvs) =
     ''{'' @ join_with '','' (map (\<lambda>kv. encode_string (fst kv) @ '':'' @ encode_json (snd kv)) kvs) @ ''}''"

text \<open>
  A \<^verbatim>\<open>map[string]any\<close> built by assignments: a later assignment to a key replaces the earlier one,
  and the encoder writes the members sorted by key.
\<close>

definition map_put :: "string \<Rightarrow> json \<Rightarrow> (string \<times> json) list \<Rightarrow> (string \<times> json) list" where
  "map_put k v m = (k, v) # filter (\<lambda>kv. fst kv \<noteq> k) m"

definition json_of_map :: "(string \<times> json) list \<Rightarrow> json" where
  "json_of_map m = JObj (sort_key fst m)"

definition json_of_strings :: "string list \<Rightarrow> json" where
  "json_of_strings xs = (if xs = [] then JNull else JArr (map JString xs))"

lemma map_put_lookup [simp]: "map_of (map_put k v m) = (map_of m)(k \<mapsto> v)"
proof
  fix x
  show "map_of (map_put k v m) x = ((map_of m)(k \<mapsto> v)) x"
    by (induction m) (auto simp: map_put_def)
qed

lemma distinct_keys_map_put: "distinct (map fst m) \<Longrightarrow> distinct (map fst (map_put k v m))"
  by (auto simp: map_put_def distinct_map_filter)

text \<open>Text whose runes need no escape is written verbatim between the quotes.\<close>

definition plain_byte :: "char \<Rightarrow> bool" where
  "plain_byte c \<longleftrightarrow> 32 \<le> byte c \<and> byte c < 128 \<and> byte c \<noteq> 34 \<and> byte c \<noteq> 92"

lemma escape_string_plain: "list_all plain_byte s \<Longrightarrow> escape_string s = s"
proof (induction s)
  case (Cons c s)
  then have "rune_width (map byte (c # s)) = 1" by (simp add: plain_byte_def)
  with Cons show ?case
    by (subst escape_string.simps) (simp add: escape_rune_def escape_ascii_def plain_byte_def)
qed (simp add: escape_string.simps)

lemma length_encode_string_plain:
  "list_all plain_byte s \<Longrightarrow> length (encode_string s) = length s + 2"
  by (simp add: encode_string_def escape_string_plain)

end
