(* ===== verification/Review_Target.thy ===== *)
theory Review_Target
  imports Prelude
begin

text \<open>
  \<^verbatim>\<open>internal/reviewtarget/target.go\<close>: the canonical form \<^verbatim>\<open>path:locator\<close> of a review target, where
  the locator is a line, a line range, \<^verbatim>\<open>@diff\<close> or, for Go files, a symbol. The parser rejects
  every other spelling, so that a target names its place in one way only.

  \<^verbatim>\<open>token.IsIdentifier\<close> consults the Unicode tables for runes above 127; those tables are the
  parameter \<open>unicode_tables\<close> of the definitions that need them.
\<close>

record unicode_tables =
  uc_letter :: "nat \<Rightarrow> bool"
  uc_digit :: "nat \<Rightarrow> bool"

definition ascii_tables :: unicode_tables where
  "ascii_tables = \<lparr>uc_letter = (\<lambda>_. False), uc_digit = (\<lambda>_. False)\<rparr>"

datatype LocatorKind = LocatorLineRange | LocatorWholeDiff | LocatorGoSymbol

record Target =
  t_Path :: string
  t_Locator :: string
  t_Kind :: LocatorKind
  t_LineStart :: int
  t_LineEnd :: int
  t_Owner :: string
  t_Symbol :: string

record ParseError =
  pe_Code :: string
  pe_Target :: string
  pe_Correction :: string

definition canonicalCorrection :: string where
  "canonicalCorrection = ''use repository-relative path:N, path:N-M, path:@diff, or for Go source path:TopLevel / path:Type.Member''"

definition WholeFileDiffLocator :: string where
  "WholeFileDiffLocator = ''@diff''"

definition parseError :: "string \<Rightarrow> string \<Rightarrow> ParseError" where
  "parseError code raw = \<lparr>pe_Code = code, pe_Target = raw, pe_Correction = canonicalCorrection\<rparr>"

section \<open>Numbers and identifiers of the standard library\<close>

definition is_digit :: "char \<Rightarrow> bool" where
  "is_digit c \<longleftrightarrow> 48 \<le> byte c \<and> byte c \<le> 57"

definition digits_value :: "string \<Rightarrow> nat" where
  "digits_value s = foldl (\<lambda>n c. 10 * n + (byte c - 48)) 0 s"

text \<open>\<^verbatim>\<open>strconv.Atoi\<close>: an optional sign, decimal digits, and the range of a 64-bit \<^verbatim>\<open>int\<close>.\<close>

definition atoi :: "string \<Rightarrow> int option" where
  "atoi s =
     (let neg = has_prefix s ''-'';
          ds = (if neg \<or> has_prefix s ''+'' then drop 1 s else s);
          v = (if neg then - int (digits_value ds) else int (digits_value ds))
      in if ds = [] \<or> \<not> list_all is_digit ds then None
         else if v < - (2 ^ 63) \<or> 2 ^ 63 - 1 < v then None
         else Some v)"

definition go_keywords :: "string list" where
  "go_keywords = [''break'', ''case'', ''chan'', ''const'', ''continue'', ''default'', ''defer'',
     ''else'', ''fallthrough'', ''for'', ''func'', ''go'', ''goto'', ''if'', ''import'',
     ''interface'', ''map'', ''package'', ''range'', ''return'', ''select'', ''struct'',
     ''switch'', ''type'', ''var'']"

definition rune_letter :: "unicode_tables \<Rightarrow> nat \<Rightarrow> bool" where
  "rune_letter uc r \<longleftrightarrow>
     (if r < 128 then 65 \<le> r \<and> r \<le> 90 \<or> 97 \<le> r \<and> r \<le> 122 else uc_letter uc r)"

definition rune_digit :: "unicode_tables \<Rightarrow> nat \<Rightarrow> bool" where
  "rune_digit uc r \<longleftrightarrow> (if r < 128 then 48 \<le> r \<and> r \<le> 57 else uc_digit uc r)"

text \<open>\<^verbatim>\<open>token.IsIdentifier\<close>.\<close>

definition is_identifier :: "unicode_tables \<Rightarrow> string \<Rightarrow> bool" where
  "is_identifier uc name \<longleftrightarrow>
     name \<noteq> [] \<and> name \<notin> set go_keywords \<and>
     (case runes (map byte name) of
        [] \<Rightarrow> True
      | r # rs \<Rightarrow> (rune_letter uc r \<or> r = 95) \<and>
          list_all (\<lambda>c. rune_letter uc c \<or> c = 95 \<or> rune_digit uc c) rs)"

section \<open>The parser\<close>

definition relativePath :: "string \<Rightarrow> bool" where
  "relativePath path \<longleftrightarrow>
     \<not> contains path [CHR 0x5C] \<and>
     (let clean = path_clean path
      in clean = path \<and> clean \<noteq> [] \<and> clean \<noteq> ''.'' \<and> clean \<noteq> ''..'' \<and>
         \<not> has_prefix clean ''../'' \<and> \<not> has_prefix clean ''/'')"

definition ParseLineRange :: "string \<Rightarrow> (int \<times> int) option" where
  "ParseLineRange locator =
     (if locator = [] \<or> trim_space locator \<noteq> locator then None
      else let parts = split_on (CHR ''-'') locator
        in if 2 < length parts \<or> parts ! 0 = [] then None
           else (case atoi (parts ! 0) of
               None \<Rightarrow> None
             | Some start \<Rightarrow>
                 if start \<le> 0 \<or> itoa start \<noteq> parts ! 0 then None
                 else if length parts = 1 then Some (start, start)
                 else (case atoi (parts ! 1) of
                     None \<Rightarrow> None
                   | Some end' \<Rightarrow>
                       if end' < start \<or> itoa end' \<noteq> parts ! 1 then None
                       else Some (start, end'))))"

definition validGoLocatorIdentifier :: "unicode_tables \<Rightarrow> string \<Rightarrow> bool" where
  "validGoLocatorIdentifier uc value \<longleftrightarrow> value \<noteq> ''_'' \<and> is_identifier uc value"

definition parseGoSymbolLocator :: "unicode_tables \<Rightarrow> string \<Rightarrow> (string \<times> string) option" where
  "parseGoSymbolLocator uc locator =
     (case split_on (CHR ''.'') locator of
        [a] \<Rightarrow> if validGoLocatorIdentifier uc a then Some ([], a) else None
      | [a, b] \<Rightarrow>
          if validGoLocatorIdentifier uc a \<and> validGoLocatorIdentifier uc b then Some (a, b) else None
      | _ \<Rightarrow> None)"

definition parseGoTarget ::
    "unicode_tables \<Rightarrow> string \<Rightarrow> string \<Rightarrow> string \<Rightarrow> (ParseError, Target) result" where
  "parseGoTarget uc raw path locator =
     (if \<not> has_suffix path ''.go'' then Inl (parseError ''locator-language'' raw)
      else (case parseGoSymbolLocator uc locator of
          None \<Rightarrow> Inl (parseError ''locator'' raw)
        | Some (owner, symbol) \<Rightarrow>
            Inr \<lparr>t_Path = path, t_Locator = locator, t_Kind = LocatorGoSymbol,
                 t_LineStart = 0, t_LineEnd = 0, t_Owner = owner, t_Symbol = symbol\<rparr>))"

definition splitCanonicalTarget :: "string \<Rightarrow> (ParseError, string \<times> string) result" where
  "splitCanonicalTarget raw =
     (if raw = [] \<or> trim_space raw \<noteq> raw then Inl (parseError ''shape'' raw)
      else let path = takeWhile (\<lambda>c. c \<noteq> CHR '':'') raw;
               rest = dropWhile (\<lambda>c. c \<noteq> CHR '':'') raw
        in if rest = [] \<or> path = [] \<or> length rest = 1 then Inl (parseError ''shape'' raw)
           else let locator = tl rest
             in if trim_space path \<noteq> path \<or> trim_space locator \<noteq> locator \<or>
                   \<not> relativePath path \<or> contains_any path '' ,()''
                then Inl (parseError ''path'' raw)
                else Inr (path, locator))"

definition ParseTarget :: "unicode_tables \<Rightarrow> string \<Rightarrow> (ParseError, Target) result" where
  "ParseTarget uc raw =
     (case splitCanonicalTarget raw of
        Inl e \<Rightarrow> Inl e
      | Inr (path, locator) \<Rightarrow>
          (case ParseLineRange locator of
             Some (start, end') \<Rightarrow>
               Inr \<lparr>t_Path = path, t_Locator = locator, t_Kind = LocatorLineRange,
                    t_LineStart = start, t_LineEnd = end', t_Owner = [], t_Symbol = []\<rparr>
           | None \<Rightarrow>
               if locator = WholeFileDiffLocator then
                 Inr \<lparr>t_Path = path, t_Locator = locator, t_Kind = LocatorWholeDiff,
                      t_LineStart = 0, t_LineEnd = 0, t_Owner = [], t_Symbol = []\<rparr>
               else parseGoTarget uc raw path locator))"

definition Parse :: "unicode_tables \<Rightarrow> string \<Rightarrow> (ParseError, string \<times> string) result" where
  "Parse uc raw =
     (case ParseTarget uc raw of
        Inl e \<Rightarrow> Inl e
      | Inr target \<Rightarrow> Inr (t_Path target, t_Locator target))"

section \<open>Decimal numbers\<close>

lemma byte_digit [simp]: "d < 10 \<Longrightarrow> byte (char_of (48 + d)) = 48 + d"
  by simp

lemma nat_digits_digit: "list_all is_digit (nat_digits n)"
proof (induction n rule: nat_digits.induct)
  case (1 n)
  then show ?case
    by (cases "n < 10") (auto simp: nat_digits.simps [of n] is_digit_def)
qed

lemma nat_digits_neq_Nil [simp]: "nat_digits n \<noteq> []"
  by (simp add: nat_digits.simps [of n])

lemma digits_value_nat_digits: "digits_value (nat_digits n) = n"
proof (induction n rule: nat_digits.induct)
  case (1 n)
  then show ?case
    by (cases "n < 10") (auto simp: nat_digits.simps [of n] digits_value_def)
qed

lemma digit_graphic: "list_all is_digit s \<Longrightarrow> list_all graphic s"
  by (auto simp: list_all_iff is_digit_def graphic_def)

lemma digits_no_char: "list_all is_digit s \<Longrightarrow> \<not> is_digit c \<Longrightarrow> c \<notin> set s"
  by (auto simp: list_all_iff)

lemma not_digit [simp]:
  "\<not> is_digit (CHR ''-'')" "\<not> is_digit (CHR ''+'')" "\<not> is_digit (CHR ''.'')" "\<not> is_digit (CHR '':'')"
  by (simp_all add: is_digit_def)

lemma itoa_nat [simp]: "itoa (int n) = nat_digits n"
  by (simp add: itoa_def)

lemma atoi_digits:
  assumes "list_all is_digit s" "s \<noteq> []" "digits_value s < 2 ^ 63"
  shows "atoi s = Some (int (digits_value s))"
proof -
  obtain c t where s: "s = c # t" using assms(2) by (cases s) auto
  with assms(1) have "c \<noteq> CHR ''-''" "c \<noteq> CHR ''+''" by auto
  then have p: "\<not> has_prefix s ''-''" "\<not> has_prefix s ''+''"
    by (simp_all add: s has_prefix_def)
  have "int (digits_value s) \<le> 2 ^ 63 - 1" using assms(3) by simp
  with p assms show ?thesis by (simp add: atoi_def Let_def)
qed

lemma atoi_itoa: "n < 2 ^ 63 \<Longrightarrow> atoi (nat_digits n) = Some (int n)"
  using atoi_digits [OF nat_digits_digit, of n] by (simp add: digits_value_nat_digits)

lemma split_on_append_sep: "d \<notin> set a \<Longrightarrow> split_on d (a @ d # b) = a # split_on d b"
  by (induction a) auto

section \<open>What the parser accepts\<close>

lemma ParseLineRange_bounds: "ParseLineRange l = Some (a, b) \<Longrightarrow> 1 \<le> a \<and> a \<le> b"
  by (auto simp: ParseLineRange_def Let_def split: if_splits option.splits)

lemma ParseLineRange_printed:
  assumes "0 < a" "a \<le> b" "b < 2 ^ 63"
  shows "ParseLineRange (nat_digits a @ ''-'' @ nat_digits b) = Some (int a, int b)"
proof -
  let ?l = "nat_digits a @ ''-'' @ nat_digits b"
  have "list_all graphic ?l"
    using digit_graphic [OF nat_digits_digit] by (simp add: graphic_def)
  then have trim: "trim_space ?l = ?l" by (rule trim_space_graphic)
  have parts: "split_on (CHR ''-'') ?l = [nat_digits a, nat_digits b]"
    using digits_no_char [OF nat_digits_digit, of "CHR ''-''"]
    by (simp add: split_on_append_sep split_on_no_sep)
  have "atoi (nat_digits a) = Some (int a)" "atoi (nat_digits b) = Some (int b)"
    using assms by (auto intro: atoi_itoa)
  with trim parts assms show ?thesis by (simp add: ParseLineRange_def Let_def)
qed

lemma ParseLineRange_printed_single:
  assumes "0 < a" "a < 2 ^ 63"
  shows "ParseLineRange (nat_digits a) = Some (int a, int a)"
proof -
  have "trim_space (nat_digits a) = nat_digits a"
    by (rule trim_space_graphic [OF digit_graphic [OF nat_digits_digit]])
  moreover have "split_on (CHR ''-'') (nat_digits a) = [nat_digits a]"
    by (rule split_on_no_sep [OF digits_no_char [OF nat_digits_digit]]) simp
  ultimately show ?thesis
    using assms by (simp add: ParseLineRange_def Let_def atoi_itoa)
qed

lemma splitCanonicalTarget_join:
  assumes "splitCanonicalTarget raw = Inr (path, locator)"
  shows "raw = path @ '':'' @ locator \<and> CHR '':'' \<notin> set path \<and> relativePath path \<and> path \<noteq> [] \<and> locator \<noteq> []"
proof -
  let ?r = "dropWhile (\<lambda>c. c \<noteq> CHR '':'') raw"
  from assms have p: "path = takeWhile (\<lambda>c. c \<noteq> CHR '':'') raw" and l: "locator = tl ?r"
    and r: "?r \<noteq> []" and len: "length ?r \<noteq> 1" and rel: "relativePath path" and ne: "path \<noteq> []"
    by (auto simp: splitCanonicalTarget_def Let_def split: if_splits)
  have "hd ?r = CHR '':''" using r hd_dropWhile [of "\<lambda>c. c \<noteq> CHR '':''" raw] by auto
  with r have r2: "?r = CHR '':'' # locator" by (cases ?r) (auto simp: l)
  have "raw = path @ ?r" unfolding p by simp
  with r2 have join: "raw = path @ '':'' @ locator" by simp
  have "CHR '':'' \<notin> set path" unfolding p by (auto dest: set_takeWhileD)
  moreover have "locator \<noteq> []" using r2 len by auto
  ultimately show ?thesis using join rel ne by simp
qed

lemma ParseTarget_split:
  "ParseTarget uc raw = Inr t \<Longrightarrow> splitCanonicalTarget raw = Inr (t_Path t, t_Locator t)"
  by (auto simp: ParseTarget_def parseGoTarget_def split: sum.splits prod.splits option.splits if_splits)

text \<open>
  C14. A target that the parser accepts is exactly its path, a colon and its locator; the path is
  a clean repository-relative one without a colon; a line-range target has positive, ordered
  lines; a target of a symbol names a Go file.
\<close>

theorem ParseTarget_canonical:
  assumes "ParseTarget uc raw = Inr t"
  shows "raw = t_Path t @ '':'' @ t_Locator t \<and>
    CHR '':'' \<notin> set (t_Path t) \<and> relativePath (t_Path t) \<and>
    (t_Kind t = LocatorLineRange \<longrightarrow> 1 \<le> t_LineStart t \<and> t_LineStart t \<le> t_LineEnd t) \<and>
    (t_Kind t = LocatorGoSymbol \<longrightarrow> has_suffix (t_Path t) ''.go'') \<and>
    (t_Kind t = LocatorWholeDiff \<longrightarrow> t_Locator t = WholeFileDiffLocator)"
proof -
  have "raw = t_Path t @ '':'' @ t_Locator t \<and> CHR '':'' \<notin> set (t_Path t) \<and> relativePath (t_Path t)"
    using splitCanonicalTarget_join [OF ParseTarget_split [OF assms]] by simp
  moreover have "t_Kind t = LocatorLineRange \<longrightarrow> 1 \<le> t_LineStart t \<and> t_LineStart t \<le> t_LineEnd t"
    using assms by (auto simp: ParseTarget_def parseGoTarget_def
        split: sum.splits prod.splits option.splits if_splits dest: ParseLineRange_bounds)
  moreover have "t_Kind t = LocatorGoSymbol \<longrightarrow> has_suffix (t_Path t) ''.go''"
    using assms by (auto simp: ParseTarget_def parseGoTarget_def
        split: sum.splits prod.splits option.splits if_splits)
  moreover have "t_Kind t = LocatorWholeDiff \<longrightarrow> t_Locator t = WholeFileDiffLocator"
    using assms by (auto simp: ParseTarget_def parseGoTarget_def
        split: sum.splits prod.splits option.splits if_splits)
  ultimately show ?thesis by blast
qed

theorem ParseTarget_canonical_witness:
  "\<exists>t. ParseTarget ascii_tables ''pkg/a.go:3-7'' = Inr t \<and> relativePath (t_Path t) \<and> t_LineStart t \<le> t_LineEnd t"
proof -
  obtain t where t: "ParseTarget ascii_tables ''pkg/a.go:3-7'' = Inr t" and kind: "t_Kind t = LocatorLineRange"
  proof -
    have "(case ParseTarget ascii_tables ''pkg/a.go:3-7'' of Inl _ \<Rightarrow> False | Inr t \<Rightarrow> t_Kind t = LocatorLineRange)"
      by code_simp
    then show thesis using that by (auto split: sum.splits)
  qed
  from ParseTarget_canonical [OF t] t kind show ?thesis by blast
qed

end
