(* ===== verification/Packet.thy ===== *)
theory Packet
  imports Go_Json Review_Target
begin

text \<open>
  \<^verbatim>\<open>internal/packet/contract.go\<close> and \<^verbatim>\<open>result.go\<close>: the result packet that a worker or a reviewer
  returns, the contract of each status (its risks and its required fields), the machine JSON of a
  packet and the bounding of a failure-path advisory to the packet limit. A Go panic is the error
  \<open>Panic\<close>, so that the lookups that can panic have that outcome as a branch.
\<close>

section \<open>Statuses, risks and fields\<close>

type_synonym Status = string
type_synonym Risk = string

definition StatusImplemented :: Status where "StatusImplemented = ''IMPLEMENTED''"
definition StatusNeedsSolDecision :: Status where "StatusNeedsSolDecision = ''NEEDS_SOL_DECISION''"
definition StatusPass :: Status where "StatusPass = ''PASS''"
definition StatusFixRequired :: Status where "StatusFixRequired = ''FIX_REQUIRED''"
definition StatusNeedsSolReview :: Status where "StatusNeedsSolReview = ''NEEDS_SOL_REVIEW''"

definition RiskLow :: Risk where "RiskLow = ''LOW''"
definition RiskHigh :: Risk where "RiskHigh = ''HIGH''"

definition ParentValidationGoTest :: string where "ParentValidationGoTest = ''go-test''"
definition ParentValidationGoTestRace :: string where "ParentValidationGoTestRace = ''go-test-race''"

lemmas status_defs = StatusImplemented_def StatusNeedsSolDecision_def StatusPass_def
  StatusFixRequired_def StatusNeedsSolReview_def

lemmas risk_defs = RiskLow_def RiskHigh_def

datatype machineField =
    fieldStatus | fieldRisk | fieldSummary | fieldRequirementCoverage | fieldTests
  | fieldUnverified | fieldParentValidation | fieldParentValidationWorkingDir
  | fieldParentValidationEvidence | fieldDecision | fieldEvidence | fieldOptions
  | fieldRecommendation | fieldTestObligations | fieldInvariants | fieldTestEvidence
  | fieldIssues | fieldResidualRisk | fieldSolQuestion | fieldTargets | fieldArtifacts
  | fieldFailurePathAdvisory

fun field_name :: "machineField \<Rightarrow> string" where
  "field_name fieldStatus = ''status''"
| "field_name fieldRisk = ''risk''"
| "field_name fieldSummary = ''summary''"
| "field_name fieldRequirementCoverage = ''requirement_coverage''"
| "field_name fieldTests = ''tests''"
| "field_name fieldUnverified = ''unverified''"
| "field_name fieldParentValidation = ''parent_validation''"
| "field_name fieldParentValidationWorkingDir = ''parent_validation_working_dir''"
| "field_name fieldParentValidationEvidence = ''parent_validation_evidence''"
| "field_name fieldDecision = ''decision''"
| "field_name fieldEvidence = ''evidence''"
| "field_name fieldOptions = ''options''"
| "field_name fieldRecommendation = ''recommendation''"
| "field_name fieldTestObligations = ''test_obligations''"
| "field_name fieldInvariants = ''invariants''"
| "field_name fieldTestEvidence = ''test_evidence''"
| "field_name fieldIssues = ''issues''"
| "field_name fieldResidualRisk = ''residual_risk''"
| "field_name fieldSolQuestion = ''sol_question''"
| "field_name fieldTargets = ''targets''"
| "field_name fieldArtifacts = ''artifacts''"
| "field_name fieldFailurePathAdvisory = ''failure_path_advisory''"

datatype machineFieldKind =
    machineFieldString | machineFieldStrings | machineFieldStatus | machineFieldRisk
  | machineFieldParentValidationForm

section \<open>The packet\<close>

record ParentValidationRequest =
  pvr_Form :: string
  pvr_WorkingDir :: string

record ParentValidationEvidence =
  pve_ValidationRunID :: string
  pve_Form :: string
  pve_Repository :: string
  pve_WorkingDir :: string
  pve_Head :: string
  pve_IndexDigest :: string
  pve_WorktreeDigest :: string
  pve_Status :: string
  pve_ExitCode :: int
  pve_DurationMS :: int
  pve_Log :: string

record FailurePathAdvisoryFinding =
  fpf_Target :: string
  fpf_Class :: string
  fpf_Issue :: string

record FailurePathAdvisoryIndeterminate =
  fpi_Target :: string
  fpi_Class :: string

record FailurePathAdvisory =
  fpa_CallID :: string
  fpa_Findings :: "FailurePathAdvisoryFinding list"
  fpa_Indeterminate :: "FailurePathAdvisoryIndeterminate list"
  fpa_Truncated :: bool

record Result =
  r_Status :: Status
  r_Risk :: Risk
  r_Summary :: string
  r_RequirementCoverage :: string
  r_Tests :: string
  r_Unverified :: string
  r_ParentValidation :: string
  r_ParentValidationWorkingDir :: string
  r_ParentValidationEvidence :: "ParentValidationEvidence option"
  r_Decision :: string
  r_Evidence :: string
  r_Options :: string
  r_Recommendation :: string
  r_TestObligations :: string
  r_Invariants :: string
  r_TestEvidence :: string
  r_Issues :: string
  r_ResidualRisk :: string
  r_SolQuestion :: string
  r_Targets :: "string list"
  r_Artifacts :: "string list"
  r_FailurePathAdvisory :: "FailurePathAdvisory option"

definition empty_Result :: Result where
  "empty_Result = \<lparr>r_Status = [], r_Risk = [], r_Summary = [], r_RequirementCoverage = [],
     r_Tests = [], r_Unverified = [], r_ParentValidation = [], r_ParentValidationWorkingDir = [],
     r_ParentValidationEvidence = None, r_Decision = [], r_Evidence = [], r_Options = [],
     r_Recommendation = [], r_TestObligations = [], r_Invariants = [], r_TestEvidence = [],
     r_Issues = [], r_ResidualRisk = [], r_SolQuestion = [], r_Targets = [], r_Artifacts = [],
     r_FailurePathAdvisory = None\<rparr>"

definition MaxPacketBytes :: nat where "MaxPacketBytes = 8 * 1024"
definition MaxFieldBytes :: nat where "MaxFieldBytes = 2048"
definition MaxDiagnosticBytes :: nat where "MaxDiagnosticBytes = 6 * 1024"
definition advisoryFindingsMax :: nat where "advisoryFindingsMax = 8"
definition advisoryIndeterminateMax :: nat where "advisoryIndeterminateMax = 8"
definition advisoryIssueBytes :: nat where "advisoryIssueBytes = 200"
definition advisoryTargetBytes :: nat where "advisoryTargetBytes = 256"
definition ReportOnlyTargets :: string where "ReportOnlyTargets = ''PACKET''"
definition noneTargetsSentinel :: string where "noneTargetsSentinel = ''none''"

section \<open>Errors\<close>

text \<open>
  The message of an error is the format that built it with its arguments; two messages of the
  code are equal as strings exactly when they are equal here.
\<close>

datatype reason =
    StatusNotAllowed string Status
  | RiskLowOrHigh Risk
  | DecisionRiskHigh
  | PassRiskLow
  | ReviewRiskHigh
  | AdvisoryMachineOnly
  | EvidenceWrapperOnly
  | ParentValidationImplementedOnly
  | ParentValidationPair
  | ParentValidationUnknownForm string
  | ParentValidationBadWorkingDir string
  | ReviewerParentValidation
  | TargetsEmpty Status
  | TargetElementEmpty
  | TargetDuplicate
  | TargetNoneSpelling
  | TargetPacketReserved
  | TargetReviewShape string
  | TargetNoneMixed
  | TargetNoneReview
  | FieldMissing machineField
  | FieldMultiline machineField
  | FieldTooLong machineField
  | ElementMultiline
  | ElementTooLong
  | PacketTooLong nat
  | StructuredOutputMissing
  | StructuredOutputUnparsable
  | StructuredStatusEmpty
  | Joined "reason list" nat

record constraintError =
  ce_reason :: reason
  ce_reasons :: "reason list"
  ce_keys :: "string list"
  ce_category :: string

datatype go_error =
    MismatchError reason
  | ConstraintError constraintError
  | OtherError string
  | Panic string

section \<open>The contracts\<close>

definition modelFieldContracts ::
    "machineField \<Rightarrow> (machineFieldKind \<times> (Result \<Rightarrow> string) option) option" where
  "modelFieldContracts f =
     (case f of
        fieldStatus \<Rightarrow> Some (machineFieldStatus, None)
      | fieldRisk \<Rightarrow> Some (machineFieldRisk, None)
      | fieldSummary \<Rightarrow> Some (machineFieldString, Some r_Summary)
      | fieldRequirementCoverage \<Rightarrow> Some (machineFieldString, Some r_RequirementCoverage)
      | fieldTests \<Rightarrow> Some (machineFieldString, Some r_Tests)
      | fieldUnverified \<Rightarrow> Some (machineFieldString, Some r_Unverified)
      | fieldParentValidation \<Rightarrow> Some (machineFieldParentValidationForm, None)
      | fieldParentValidationWorkingDir \<Rightarrow> Some (machineFieldString, None)
      | fieldDecision \<Rightarrow> Some (machineFieldString, Some r_Decision)
      | fieldEvidence \<Rightarrow> Some (machineFieldString, Some r_Evidence)
      | fieldOptions \<Rightarrow> Some (machineFieldString, Some r_Options)
      | fieldRecommendation \<Rightarrow> Some (machineFieldString, Some r_Recommendation)
      | fieldTestObligations \<Rightarrow> Some (machineFieldString, Some r_TestObligations)
      | fieldInvariants \<Rightarrow> Some (machineFieldString, Some r_Invariants)
      | fieldTestEvidence \<Rightarrow> Some (machineFieldString, Some r_TestEvidence)
      | fieldIssues \<Rightarrow> Some (machineFieldString, Some r_Issues)
      | fieldResidualRisk \<Rightarrow> Some (machineFieldString, Some r_ResidualRisk)
      | fieldSolQuestion \<Rightarrow> Some (machineFieldString, Some r_SolQuestion)
      | fieldTargets \<Rightarrow> Some (machineFieldStrings, None)
      | fieldArtifacts \<Rightarrow> Some (machineFieldStrings, None)
      | fieldParentValidationEvidence \<Rightarrow> None
      | fieldFailurePathAdvisory \<Rightarrow> None)"

record packetStatusContract =
  psc_risks :: "Risk list"
  psc_resultFields :: "machineField list"
  psc_invalidRisk :: "Risk \<Rightarrow> reason"

definition reviewerResultFields :: "machineField list" where
  "reviewerResultFields = [fieldSummary, fieldRequirementCoverage, fieldInvariants,
     fieldTestEvidence, fieldIssues, fieldResidualRisk]"

definition invalidLowHighRisk :: "Risk \<Rightarrow> reason" where
  "invalidLowHighRisk risk = RiskLowOrHigh risk"

definition packetStatusContracts :: "Status \<Rightarrow> packetStatusContract option" where
  "packetStatusContracts status =
     (if status = StatusImplemented then
        Some \<lparr>psc_risks = [RiskLow, RiskHigh],
              psc_resultFields = [fieldSummary, fieldRequirementCoverage, fieldTests, fieldUnverified],
              psc_invalidRisk = invalidLowHighRisk\<rparr>
      else if status = StatusNeedsSolDecision then
        Some \<lparr>psc_risks = [RiskHigh],
              psc_resultFields = [fieldDecision, fieldEvidence, fieldOptions, fieldRecommendation,
                fieldTestObligations],
              psc_invalidRisk = (\<lambda>_. DecisionRiskHigh)\<rparr>
      else if status = StatusPass then
        Some \<lparr>psc_risks = [RiskLow], psc_resultFields = reviewerResultFields,
              psc_invalidRisk = (\<lambda>_. PassRiskLow)\<rparr>
      else if status = StatusFixRequired then
        Some \<lparr>psc_risks = [RiskLow, RiskHigh], psc_resultFields = reviewerResultFields,
              psc_invalidRisk = invalidLowHighRisk\<rparr>
      else if status = StatusNeedsSolReview then
        Some \<lparr>psc_risks = [RiskHigh], psc_resultFields = reviewerResultFields @ [fieldSolQuestion],
              psc_invalidRisk = (\<lambda>_. ReviewRiskHigh)\<rparr>
      else None)"

record machineContract =
  mc_name :: string
  mc_modelFields :: "machineField list"
  mc_statuses :: "Status list"
  mc_strictRequiredStatus :: Status

definition workerModelFields :: "machineField list" where
  "workerModelFields = [fieldStatus, fieldRisk, fieldSummary, fieldRequirementCoverage, fieldTests,
     fieldUnverified, fieldParentValidation, fieldParentValidationWorkingDir, fieldDecision,
     fieldEvidence, fieldOptions, fieldRecommendation, fieldTestObligations, fieldTargets,
     fieldArtifacts]"

definition reviewerModelFields :: "machineField list" where
  "reviewerModelFields = [fieldStatus, fieldRisk, fieldSummary, fieldRequirementCoverage,
     fieldInvariants, fieldTestEvidence, fieldIssues, fieldResidualRisk, fieldSolQuestion,
     fieldDecision, fieldEvidence, fieldOptions, fieldRecommendation, fieldTestObligations,
     fieldTargets, fieldArtifacts]"

definition workerMachineContract :: machineContract where
  "workerMachineContract = \<lparr>mc_name = ''worker'', mc_modelFields = workerModelFields,
     mc_statuses = [StatusImplemented, StatusNeedsSolDecision], mc_strictRequiredStatus = []\<rparr>"

definition reviewerMachineContract :: machineContract where
  "reviewerMachineContract = \<lparr>mc_name = ''reviewer'', mc_modelFields = reviewerModelFields,
     mc_statuses = [StatusPass, StatusFixRequired, StatusNeedsSolReview, StatusNeedsSolDecision],
     mc_strictRequiredStatus = []\<rparr>"

definition highFloorReviewerMachineContract :: machineContract where
  "highFloorReviewerMachineContract = \<lparr>mc_name = ''reviewer'', mc_modelFields = reviewerModelFields,
     mc_statuses = [StatusFixRequired, StatusNeedsSolReview, StatusNeedsSolDecision],
     mc_strictRequiredStatus = []\<rparr>"

definition riskFloorReviewerMachineContract :: machineContract where
  "riskFloorReviewerMachineContract = \<lparr>mc_name = ''reviewer'', mc_modelFields = reviewerModelFields,
     mc_statuses = [StatusNeedsSolReview], mc_strictRequiredStatus = StatusNeedsSolReview\<rparr>"

definition resultFieldsForStatus :: "Status \<Rightarrow> machineField list" where
  "resultFieldsForStatus status =
     (case packetStatusContracts status of
        Some contract \<Rightarrow> psc_resultFields contract
      | None \<Rightarrow> reviewerResultFields)"

definition machineFieldValue :: "Result \<Rightarrow> machineField \<Rightarrow> (go_error, string) result" where
  "machineFieldValue r f =
     (case modelFieldContracts f of
        Some (_, Some value) \<Rightarrow> Inr (value r)
      | _ \<Rightarrow> Inl (Panic (field_name f)))"

definition machineFieldSpec ::
    "machineField \<Rightarrow> (go_error, machineFieldKind \<times> (Result \<Rightarrow> string) option) result" where
  "machineFieldSpec f =
     (case modelFieldContracts f of None \<Rightarrow> Inl (Panic (field_name f)) | Some c \<Rightarrow> Inr c)"

text \<open>\<open>keep_new\<close> is the \<^verbatim>\<open>seen\<close> loop over the risks of one status.\<close>

fun keep_new :: "Risk list \<Rightarrow> Risk list \<Rightarrow> Risk list" where
  "keep_new acc [] = acc"
| "keep_new acc (x # xs) = (if x \<in> set acc then keep_new acc xs else keep_new (acc @ [x]) xs)"

fun contract_risks :: "Risk list \<Rightarrow> Status list \<Rightarrow> (go_error, Risk list) result" where
  "contract_risks acc [] = Inr acc"
| "contract_risks acc (status # rest) =
     (case packetStatusContracts status of
        None \<Rightarrow> Inl (Panic status)
      | Some sc \<Rightarrow> contract_risks (keep_new acc (psc_risks sc)) rest)"

definition machineContractRisks :: "machineContract \<Rightarrow> (go_error, Risk list) result" where
  "machineContractRisks contract = contract_risks [] (mc_statuses contract)"

definition schemaRequiredFields :: "machineContract \<Rightarrow> (go_error, machineField list) result" where
  "schemaRequiredFields contract =
     (if mc_strictRequiredStatus contract = [] then
        Inr [fieldStatus, fieldRisk, fieldTargets, fieldArtifacts]
      else (case packetStatusContracts (mc_strictRequiredStatus contract) of
          None \<Rightarrow> Inl (Panic (mc_strictRequiredStatus contract))
        | Some sc \<Rightarrow>
            Inr ([fieldStatus, fieldRisk] @ psc_resultFields sc @ [fieldTargets, fieldArtifacts])))"

definition machineContractAllowsStatus :: "machineContract \<Rightarrow> Status \<Rightarrow> bool" where
  "machineContractAllowsStatus contract status \<longleftrightarrow> list_ex (\<lambda>allowed. status = allowed) (mc_statuses contract)"

definition statusAllowsRisk :: "packetStatusContract \<Rightarrow> Risk \<Rightarrow> bool" where
  "statusAllowsRisk contract risk \<longleftrightarrow> list_ex (\<lambda>allowed. risk = allowed) (psc_risks contract)"

section \<open>Parent validation\<close>

definition get_ParentValidationRequest :: "Result \<Rightarrow> ParentValidationRequest option" where
  "get_ParentValidationRequest r =
     (if r_ParentValidation r = [] \<and> r_ParentValidationWorkingDir r = [] then None
      else Some \<lparr>pvr_Form = r_ParentValidation r, pvr_WorkingDir = r_ParentValidationWorkingDir r\<rparr>)"

definition SetParentValidationRequest :: "Result \<Rightarrow> ParentValidationRequest option \<Rightarrow> Result" where
  "SetParentValidationRequest r request =
     (case request of
        None \<Rightarrow> r\<lparr>r_ParentValidation := [], r_ParentValidationWorkingDir := []\<rparr>
      | Some q \<Rightarrow> r\<lparr>r_ParentValidation := pvr_Form q, r_ParentValidationWorkingDir := pvr_WorkingDir q\<rparr>)"

definition ResolvedFor :: "ParentValidationEvidence option \<Rightarrow> string \<Rightarrow> bool" where
  "ResolvedFor evidence form =
     (case evidence of
        None \<Rightarrow> False
      | Some e \<Rightarrow>
          if pve_Status e \<noteq> ''pass'' \<or> pve_Form e \<noteq> form then False
          else if form \<noteq> ParentValidationGoTest \<and> form \<noteq> ParentValidationGoTestRace then False
          else pve_ValidationRunID e \<noteq> [] \<and> pve_Repository e \<noteq> [] \<and> pve_WorkingDir e \<noteq> [] \<and>
               pve_Head e \<noteq> [] \<and> pve_IndexDigest e \<noteq> [] \<and> pve_WorktreeDigest e \<noteq> [] \<and> pve_Log e \<noteq> [])"

section \<open>Machine JSON\<close>

definition evidence_json :: "ParentValidationEvidence \<Rightarrow> json" where
  "evidence_json e = JObj [
     (''validation_run_id'', JString (pve_ValidationRunID e)),
     (''form'', JString (pve_Form e)),
     (''repository'', JString (pve_Repository e)),
     (''working_dir'', JString (pve_WorkingDir e)),
     (''head'', JString (pve_Head e)),
     (''index_digest'', JString (pve_IndexDigest e)),
     (''worktree_digest'', JString (pve_WorktreeDigest e)),
     (''status'', JString (pve_Status e)),
     (''exit_code'', JInt (pve_ExitCode e)),
     (''duration_ms'', JInt (pve_DurationMS e)),
     (''log'', JString (pve_Log e))]"

definition finding_json :: "FailurePathAdvisoryFinding \<Rightarrow> json" where
  "finding_json f = JObj [(''target'', JString (fpf_Target f)), (''class'', JString (fpf_Class f)),
     (''issue'', JString (fpf_Issue f))]"

definition indeterminate_json :: "FailurePathAdvisoryIndeterminate \<Rightarrow> json" where
  "indeterminate_json i = JObj [(''target'', JString (fpi_Target i)), (''class'', JString (fpi_Class i))]"

definition advisory_json :: "FailurePathAdvisory \<Rightarrow> json" where
  "advisory_json a = JObj (
     [(''call_id'', JString (fpa_CallID a)),
      (''findings'', if fpa_Findings a = [] then JNull else JArr (map finding_json (fpa_Findings a)))] @
     (if fpa_Indeterminate a = [] then []
      else [(''indeterminate'', JArr (map indeterminate_json (fpa_Indeterminate a)))]) @
     (if fpa_Truncated a then [(''truncated'', JBool True)] else []))"

definition AdvisoryVisibleStatus :: "Status \<Rightarrow> bool" where
  "AdvisoryVisibleStatus status \<longleftrightarrow>
     status = StatusPass \<or> status = StatusNeedsSolReview \<or> status = StatusNeedsSolDecision"

text \<open>The loop of \<^verbatim>\<open>MachineJSON\<close> over the result fields of the status.\<close>

fun put_fields :: "Result \<Rightarrow> machineField list \<Rightarrow> (string \<times> json) list \<Rightarrow>
    (go_error, (string \<times> json) list) result" where
  "put_fields r [] m = Inr m"
| "put_fields r (f # fs) m =
     (case machineFieldValue r f of
        Inl e \<Rightarrow> Inl e
      | Inr value \<Rightarrow>
          put_fields r fs (if value \<noteq> [] then map_put (field_name f) (JString value) m else m))"

definition put_if :: "bool \<Rightarrow> machineField \<Rightarrow> json \<Rightarrow> (string \<times> json) list \<Rightarrow> (string \<times> json) list" where
  "put_if b f v m = (if b then map_put (field_name f) v m else m)"

definition machine_object :: "Result \<Rightarrow> (go_error, (string \<times> json) list) result" where
  "machine_object r =
     (case put_fields r (resultFieldsForStatus (r_Status r))
             [(field_name fieldRisk, JString (r_Risk r)), (field_name fieldStatus, JString (r_Status r))] of
        Inl e \<Rightarrow> Inl e
      | Inr m \<Rightarrow>
          let validation = r_Status r = StatusImplemented \<and> r_ParentValidation r \<noteq> [];
              m = put_if validation fieldParentValidation (JString (r_ParentValidation r)) m;
              m = put_if validation fieldParentValidationWorkingDir
                    (JString (r_ParentValidationWorkingDir r)) m;
              m = (case r_ParentValidationEvidence r of
                     None \<Rightarrow> m
                   | Some e \<Rightarrow> put_if (r_Status r = StatusImplemented) fieldParentValidationEvidence
                                 (evidence_json e) m);
              m = (case r_FailurePathAdvisory r of
                     None \<Rightarrow> m
                   | Some a \<Rightarrow> put_if (AdvisoryVisibleStatus (r_Status r)) fieldFailurePathAdvisory
                                 (advisory_json a) m);
              m = put_if (r_Targets r \<noteq> []) fieldTargets (json_of_strings (r_Targets r)) m;
              m = put_if (r_Artifacts r \<noteq> []) fieldArtifacts (json_of_strings (r_Artifacts r)) m
          in Inr m)"

definition MachineJSON :: "Result \<Rightarrow> (go_error, string) result" where
  "MachineJSON r =
     (case machine_object r of Inl e \<Rightarrow> Inl e | Inr m \<Rightarrow> Inr (encode_json (json_of_map m)))"

text \<open>\<^verbatim>\<open>ByteSize\<close> turns an encoding error into 0; a panic goes through it.\<close>

definition ByteSize :: "Result \<Rightarrow> (go_error, nat) result" where
  "ByteSize r =
     (case MachineJSON r of
        Inl (Panic m) \<Rightarrow> Inl (Panic m)
      | Inl _ \<Rightarrow> Inr 0
      | Inr data \<Rightarrow> Inr (length data))"

section \<open>Bounding an advisory\<close>

text \<open>The rune boundary search of \<^verbatim>\<open>boundAdvisoryText\<close>: skip continuation bytes.\<close>

definition boundAdvisoryText :: "string \<Rightarrow> nat \<Rightarrow> string" where
  "boundAdvisoryText text limit =
     (if length text \<le> limit then text
      else dropWhile (\<lambda>c. byte c div 64 = 2) (drop (length text - limit) text))"

definition bound_finding :: "FailurePathAdvisoryFinding \<Rightarrow> FailurePathAdvisoryFinding" where
  "bound_finding f = \<lparr>fpf_Target = boundAdvisoryText (fpf_Target f) advisoryTargetBytes,
     fpf_Class = fpf_Class f, fpf_Issue = boundAdvisoryText (fpf_Issue f) advisoryIssueBytes\<rparr>"

definition bound_indeterminate :: "FailurePathAdvisoryIndeterminate \<Rightarrow> FailurePathAdvisoryIndeterminate" where
  "bound_indeterminate i = \<lparr>fpi_Target = boundAdvisoryText (fpi_Target i) advisoryTargetBytes,
     fpi_Class = fpi_Class i\<rparr>"

text \<open>A loop that appends at most \<open>k\<close> elements and reports whether it stopped early.\<close>

fun append_max :: "nat \<Rightarrow> ('a \<Rightarrow> 'b) \<Rightarrow> 'b list \<Rightarrow> 'a list \<Rightarrow> 'b list \<times> bool" where
  "append_max k g acc [] = (acc, False)"
| "append_max k g acc (x # xs) =
     (if k \<le> length acc then (acc, True) else append_max k g (acc @ [g x]) xs)"

text \<open>The size of the packet that carries an advisory.\<close>

definition fits :: "Result \<Rightarrow> FailurePathAdvisory \<Rightarrow> (go_error, bool) result" where
  "fits base a =
     (case ByteSize (base\<lparr>r_FailurePathAdvisory := Some a\<rparr>) of
        Inl e \<Rightarrow> Inl e
      | Inr n \<Rightarrow> Inr (n \<le> MaxPacketBytes))"

function fit_loop :: "Result \<Rightarrow> FailurePathAdvisory \<Rightarrow> (go_error, FailurePathAdvisory option) result" where
  "fit_loop base a =
     (if fpa_Indeterminate a = [] \<and> length (fpa_Findings a) \<le> 1 then Inr None
      else let a' = (if fpa_Indeterminate a \<noteq> []
                     then a\<lparr>fpa_Indeterminate := butlast (fpa_Indeterminate a), fpa_Truncated := True\<rparr>
                     else a\<lparr>fpa_Findings := butlast (fpa_Findings a), fpa_Truncated := True\<rparr>)
        in (case fits base a' of
              Inl e \<Rightarrow> Inl e
            | Inr True \<Rightarrow> Inr (Some a')
            | Inr False \<Rightarrow> fit_loop base a'))"
  by pat_completeness auto
termination
  by (relation "measure (\<lambda>(base, a). length (fpa_Indeterminate a) + length (fpa_Findings a))")
     (auto simp: Let_def split: if_splits)

declare fit_loop.simps [simp del]

definition fitFailurePathAdvisory ::
    "Result \<Rightarrow> FailurePathAdvisory \<Rightarrow> (go_error, FailurePathAdvisory option) result" where
  "fitFailurePathAdvisory base a =
     (case fits base a of
        Inl e \<Rightarrow> Inl e
      | Inr True \<Rightarrow> Inr (Some a)
      | Inr False \<Rightarrow> fit_loop base a)"

definition BoundFailurePathAdvisory ::
    "Result \<Rightarrow> FailurePathAdvisory option \<Rightarrow> (go_error, FailurePathAdvisory option) result" where
  "BoundFailurePathAdvisory base advisory =
     (case advisory of
        None \<Rightarrow> Inr None
      | Some a \<Rightarrow>
          if fpa_Findings a = [] then Inr None
          else let (fs, ft) = append_max advisoryFindingsMax bound_finding [] (fpa_Findings a);
                   (ins, it) = append_max advisoryIndeterminateMax bound_indeterminate [] (fpa_Indeterminate a)
               in fitFailurePathAdvisory base
                    \<lparr>fpa_CallID = fpa_CallID a, fpa_Findings = fs, fpa_Indeterminate = ins,
                     fpa_Truncated = fpa_Truncated a \<or> ft \<or> it\<rparr>)"

section \<open>No contract lookup panics\<close>

definition owned :: "machineField \<Rightarrow> bool" where
  "owned f \<longleftrightarrow> (\<exists>k value. modelFieldContracts f = Some (k, Some value))"

lemma reviewerResultFields_owned: "list_all owned reviewerResultFields"
  by (simp add: reviewerResultFields_def owned_def modelFieldContracts_def)

lemma resultFieldsForStatus_owned: "list_all owned (resultFieldsForStatus status)"
  using reviewerResultFields_owned
  by (auto simp: resultFieldsForStatus_def packetStatusContracts_def list_all_append
      owned_def [of fieldSummary] owned_def [of fieldRequirementCoverage] owned_def [of fieldTests]
      owned_def [of fieldUnverified] owned_def [of fieldDecision] owned_def [of fieldEvidence]
      owned_def [of fieldOptions] owned_def [of fieldRecommendation]
      owned_def [of fieldTestObligations] owned_def [of fieldSolQuestion] modelFieldContracts_def)

lemma machineFieldValue_owned: "owned f \<Longrightarrow> \<exists>v. machineFieldValue r f = Inr v"
  by (auto simp: owned_def machineFieldValue_def)

lemma put_fields_owned: "list_all owned fs \<Longrightarrow> \<exists>m'. put_fields r fs m = Inr m'"
  by (induction fs arbitrary: m) (auto dest!: machineFieldValue_owned [where r = r])

lemma machine_object_total: "\<exists>m. machine_object r = Inr m"
  using put_fields_owned [OF resultFieldsForStatus_owned, of r "r_Status r"
      "[(field_name fieldRisk, JString (r_Risk r)), (field_name fieldStatus, JString (r_Status r))]"]
  by (auto simp: machine_object_def Let_def)

lemma MachineJSON_total: "\<exists>d. MachineJSON r = Inr d"
  using machine_object_total [of r] by (auto simp: MachineJSON_def)

lemma ByteSize_total: "\<exists>d. MachineJSON r = Inr d \<and> ByteSize r = Inr (length d)"
  using MachineJSON_total [of r] by (auto simp: ByteSize_def)

definition packet_size :: "Result \<Rightarrow> nat" where
  "packet_size r = (case ByteSize r of Inr n \<Rightarrow> n | Inl _ \<Rightarrow> 0)"

lemma ByteSize_packet_size [simp]: "ByteSize r = Inr (packet_size r)"
  using ByteSize_total [of r] by (auto simp: packet_size_def)

lemma fits_iff [simp]:
  "fits base a = Inr (packet_size (base\<lparr>r_FailurePathAdvisory := Some a\<rparr>) \<le> MaxPacketBytes)"
  by (simp add: fits_def)

section \<open>The bounded advisory\<close>

lemma append_max_eq:
  "length acc \<le> k \<Longrightarrow>
   append_max k g acc xs = (acc @ map g (take (k - length acc) xs), k < length acc + length xs)"
  by (induction xs arbitrary: acc) (auto simp: take_Cons' le_Suc_eq)

lemma boundAdvisoryText_le: "length (boundAdvisoryText t n) \<le> n"
proof (cases "length t \<le> n")
  case False
  have "length (dropWhile P xs) \<le> length xs" for P and xs :: string
    by (rule length_dropWhile_le)
  from this [of _ "drop (length t - n) t"] False show ?thesis
    by (simp add: boundAdvisoryText_def)
qed (simp add: boundAdvisoryText_def)

lemma boundAdvisoryText_suffix: "suffix (boundAdvisoryText t n) t"
  by (auto simp: boundAdvisoryText_def intro: suffix_order.trans [OF suffix_dropWhile suffix_drop])

text \<open>\<open>smaller a a'\<close>: \<open>a\<close> is \<open>a'\<close> with trailing entries removed and the removal recorded.\<close>

definition smaller :: "FailurePathAdvisory \<Rightarrow> FailurePathAdvisory \<Rightarrow> bool" where
  "smaller a a' \<longleftrightarrow>
     fpa_CallID a = fpa_CallID a' \<and>
     prefix (fpa_Findings a) (fpa_Findings a') \<and>
     prefix (fpa_Indeterminate a) (fpa_Indeterminate a') \<and>
     (fpa_Findings a = [] \<longrightarrow> fpa_Findings a' = []) \<and>
     (a = a' \<or> fpa_Truncated a)"

lemma smaller_refl: "smaller a a"
  by (simp add: smaller_def)

lemma smaller_trans: "smaller a b \<Longrightarrow> smaller b c \<Longrightarrow> smaller a c"
  unfolding smaller_def by (auto dest: prefix_order.trans)

definition drop_one :: "FailurePathAdvisory \<Rightarrow> FailurePathAdvisory" where
  "drop_one a =
     (if fpa_Indeterminate a \<noteq> []
      then a\<lparr>fpa_Indeterminate := butlast (fpa_Indeterminate a), fpa_Truncated := True\<rparr>
      else a\<lparr>fpa_Findings := butlast (fpa_Findings a), fpa_Truncated := True\<rparr>)"

definition minimal :: "FailurePathAdvisory \<Rightarrow> bool" where
  "minimal a \<longleftrightarrow> fpa_Indeterminate a = [] \<and> length (fpa_Findings a) \<le> 1"

lemma butlast_prefix: "prefix (butlast xs) xs"
  by (cases xs rule: rev_cases) auto

lemma drop_one_smaller:
  assumes "\<not> minimal a"
  shows "smaller (drop_one a) a"
proof (cases "fpa_Indeterminate a = []")
  case True
  with assms have "1 < length (fpa_Findings a)" by (simp add: minimal_def)
  then have "butlast (fpa_Findings a) \<noteq> []" by (cases "fpa_Findings a" rule: rev_cases) auto
  with True show ?thesis by (simp add: smaller_def drop_one_def butlast_prefix)
qed (simp add: smaller_def drop_one_def butlast_prefix)

lemma fit_loop_step:
  "fit_loop base a =
     (if minimal a then Inr None
      else if packet_size (base\<lparr>r_FailurePathAdvisory := Some (drop_one a)\<rparr>) \<le> MaxPacketBytes
      then Inr (Some (drop_one a)) else fit_loop base (drop_one a))"
  by (subst fit_loop.simps) (auto simp: Let_def minimal_def drop_one_def split: bool.splits)

lemma fit_loop_total: "\<exists>x. fit_loop base a = Inr x"
proof (induction base a rule: fit_loop.induct)
  case (1 base a)
  show ?case
  proof (cases "minimal a")
    case False
    let ?fit = "packet_size (base\<lparr>r_FailurePathAdvisory := Some (drop_one a)\<rparr>) \<le> MaxPacketBytes"
    show ?thesis
    proof (cases ?fit)
      case nofit: False
      have "\<exists>x. fit_loop base (drop_one a) = Inr x"
        using False nofit by (intro "1") (auto simp: minimal_def drop_one_def)
      with False nofit show ?thesis by (simp add: fit_loop_step [of base a])
    qed (use False in \<open>simp add: fit_loop_step [of base a]\<close>)
  qed (simp add: fit_loop_step [of base a])
qed

lemma fit_loop_spec:
  "\<not> packet_size (base\<lparr>r_FailurePathAdvisory := Some a\<rparr>) \<le> MaxPacketBytes \<Longrightarrow> fit_loop base a = Inr x \<Longrightarrow>
   (case x of
      Some b \<Rightarrow> packet_size (base\<lparr>r_FailurePathAdvisory := Some b\<rparr>) \<le> MaxPacketBytes \<and> smaller b a
    | None \<Rightarrow> \<exists>b. smaller b a \<and> minimal b \<and>
        \<not> packet_size (base\<lparr>r_FailurePathAdvisory := Some b\<rparr>) \<le> MaxPacketBytes)"
proof (induction base a rule: fit_loop.induct)
  case (1 base a)
  show ?case
  proof (cases "minimal a")
    case True
    with "1.prems" show ?thesis
      by (auto simp: fit_loop_step [of base a] intro: smaller_refl)
  next
    case nm: False
    let ?b = "drop_one a"
    note sm = drop_one_smaller [OF nm]
    show ?thesis
    proof (cases "packet_size (base\<lparr>r_FailurePathAdvisory := Some ?b\<rparr>) \<le> MaxPacketBytes")
      case True
      with "1.prems" nm sm show ?thesis by (auto simp: fit_loop_step [of base a])
    next
      case False
      with "1.prems" nm have x: "fit_loop base ?b = Inr x"
        by (simp add: fit_loop_step [of base a])
      have "(case x of
          Some b \<Rightarrow> packet_size (base\<lparr>r_FailurePathAdvisory := Some b\<rparr>) \<le> MaxPacketBytes \<and> smaller b ?b
        | None \<Rightarrow> \<exists>b. smaller b ?b \<and> minimal b \<and>
            \<not> packet_size (base\<lparr>r_FailurePathAdvisory := Some b\<rparr>) \<le> MaxPacketBytes)"
        using nm False x by (intro "1.IH") (auto simp: minimal_def drop_one_def)
      with sm show ?thesis by (auto split: option.splits intro: smaller_trans)
    qed
  qed
qed

lemma fitFailurePathAdvisory_total: "\<exists>x. fitFailurePathAdvisory base a = Inr x"
  using fit_loop_total [of base a] by (auto simp: fitFailurePathAdvisory_def split: bool.splits)

lemma fitFailurePathAdvisory_spec:
  assumes "fitFailurePathAdvisory base a = Inr x"
  shows "case x of
      Some b \<Rightarrow> packet_size (base\<lparr>r_FailurePathAdvisory := Some b\<rparr>) \<le> MaxPacketBytes \<and> smaller b a
    | None \<Rightarrow> \<exists>b. smaller b a \<and> minimal b \<and>
        \<not> packet_size (base\<lparr>r_FailurePathAdvisory := Some b\<rparr>) \<le> MaxPacketBytes"
proof (cases "packet_size (base\<lparr>r_FailurePathAdvisory := Some a\<rparr>) \<le> MaxPacketBytes")
  case True
  with assms show ?thesis by (auto simp: fitFailurePathAdvisory_def smaller_refl)
next
  case False
  with assms have "fit_loop base a = Inr x" by (simp add: fitFailurePathAdvisory_def)
  with False show ?thesis by (rule fit_loop_spec)
qed

text \<open>The bounded copy that the loops of \<^verbatim>\<open>BoundFailurePathAdvisory\<close> build.\<close>

definition bounded_copy :: "FailurePathAdvisory \<Rightarrow> FailurePathAdvisory" where
  "bounded_copy a =
     \<lparr>fpa_CallID = fpa_CallID a,
      fpa_Findings = map bound_finding (take advisoryFindingsMax (fpa_Findings a)),
      fpa_Indeterminate = map bound_indeterminate (take advisoryIndeterminateMax (fpa_Indeterminate a)),
      fpa_Truncated = fpa_Truncated a \<or> advisoryFindingsMax < length (fpa_Findings a) \<or>
        advisoryIndeterminateMax < length (fpa_Indeterminate a)\<rparr>"

lemma BoundFailurePathAdvisory_eq:
  "BoundFailurePathAdvisory base advisory =
     (case advisory of
        None \<Rightarrow> Inr None
      | Some a \<Rightarrow> if fpa_Findings a = [] then Inr None
                  else fitFailurePathAdvisory base (bounded_copy a))"
  by (simp add: BoundFailurePathAdvisory_def append_max_eq bounded_copy_def split: option.split)

lemma bounded_copy_texts:
  "f \<in> set (fpa_Findings (bounded_copy a)) \<Longrightarrow>
     length (fpf_Target f) \<le> advisoryTargetBytes \<and> length (fpf_Issue f) \<le> advisoryIssueBytes"
  by (auto simp: bounded_copy_def bound_finding_def boundAdvisoryText_le)

lemma bounded_copy_lengths:
  "length (fpa_Findings (bounded_copy a)) \<le> advisoryFindingsMax"
  "length (fpa_Indeterminate (bounded_copy a)) \<le> advisoryIndeterminateMax"
  by (simp_all add: bounded_copy_def)

text \<open>
  C13. Bounding a failure-path advisory always returns, and an advisory it returns makes a packet
  within the 8 KiB limit: it keeps between one and eight findings and at most eight
  indeterminate entries, each text within its byte limit, the entries are the first ones of the
  input, and whatever was dropped is recorded by the truncation flag.
\<close>

theorem BoundFailurePathAdvisory_fits:
  assumes "BoundFailurePathAdvisory base (Some a) = Inr (Some b)"
  shows "packet_size (base\<lparr>r_FailurePathAdvisory := Some b\<rparr>) \<le> MaxPacketBytes \<and>
    1 \<le> length (fpa_Findings b) \<and> length (fpa_Findings b) \<le> 8 \<and> length (fpa_Indeterminate b) \<le> 8 \<and>
    (\<forall>f \<in> set (fpa_Findings b). length (fpf_Target f) \<le> 256 \<and> length (fpf_Issue f) \<le> 200) \<and>
    prefix (fpa_Findings b) (map bound_finding (fpa_Findings a)) \<and>
    prefix (fpa_Indeterminate b) (map bound_indeterminate (fpa_Indeterminate a)) \<and>
    (length (fpa_Findings b) < length (fpa_Findings a) \<or>
     length (fpa_Indeterminate b) < length (fpa_Indeterminate a) \<longrightarrow> fpa_Truncated b)"
proof -
  from assms have ne: "fpa_Findings a \<noteq> []"
    and fit: "fitFailurePathAdvisory base (bounded_copy a) = Inr (Some b)"
    by (auto simp: BoundFailurePathAdvisory_eq split: if_splits)
  from fitFailurePathAdvisory_spec [OF fit]
  have size: "packet_size (base\<lparr>r_FailurePathAdvisory := Some b\<rparr>) \<le> MaxPacketBytes"
    and sm: "smaller b (bounded_copy a)" by simp_all
  from sm have pf: "prefix (fpa_Findings b) (fpa_Findings (bounded_copy a))"
    and pi: "prefix (fpa_Indeterminate b) (fpa_Indeterminate (bounded_copy a))"
    and nonempty: "fpa_Findings b = [] \<longrightarrow> fpa_Findings (bounded_copy a) = []"
    and trunc: "b = bounded_copy a \<or> fpa_Truncated b"
    by (auto simp: smaller_def)
  have "fpa_Findings b \<noteq> []"
    using nonempty ne by (simp add: bounded_copy_def advisoryFindingsMax_def)
  then have one: "1 \<le> length (fpa_Findings b)" by (cases "fpa_Findings b") auto
  have eight: "length (fpa_Findings b) \<le> 8" "length (fpa_Indeterminate b) \<le> 8"
    using prefix_length_le [OF pf] prefix_length_le [OF pi] bounded_copy_lengths [of a]
    by (auto simp: advisoryFindingsMax_def advisoryIndeterminateMax_def)
  have texts: "\<forall>f \<in> set (fpa_Findings b). length (fpf_Target f) \<le> 256 \<and> length (fpf_Issue f) \<le> 200"
    using set_mono_prefix [OF pf] bounded_copy_texts
    by (fastforce simp: advisoryTargetBytes_def advisoryIssueBytes_def)
  have pf': "prefix (fpa_Findings b) (map bound_finding (fpa_Findings a))"
    using pf by (rule prefix_order.trans) (simp add: bounded_copy_def take_is_prefix flip: take_map)
  have pi': "prefix (fpa_Indeterminate b) (map bound_indeterminate (fpa_Indeterminate a))"
    using pi by (rule prefix_order.trans) (simp add: bounded_copy_def take_is_prefix flip: take_map)
  have "length (fpa_Findings b) < length (fpa_Findings a) \<or>
     length (fpa_Indeterminate b) < length (fpa_Indeterminate a) \<longrightarrow> fpa_Truncated b"
    using trunc by (auto simp: bounded_copy_def)
  with size one eight texts pf' pi' show ?thesis by blast
qed

text \<open>
Bounding gives an advisory up only when it has no finding or when no advisory reduced to
  its first finding fits; it never fails otherwise.
\<close>

theorem BoundFailurePathAdvisory_total:
  "\<exists>x. BoundFailurePathAdvisory base (Some a) = Inr x \<and>
     (x = None \<longrightarrow> fpa_Findings a = [] \<or>
        (\<exists>b. minimal b \<and> smaller b (bounded_copy a) \<and>
           MaxPacketBytes < packet_size (base\<lparr>r_FailurePathAdvisory := Some b\<rparr>)))"
proof (cases "fpa_Findings a = []")
  case False
  obtain x where x: "fitFailurePathAdvisory base (bounded_copy a) = Inr x"
    using fitFailurePathAdvisory_total by blast
  from fitFailurePathAdvisory_spec [OF x] False x show ?thesis
    by (auto simp: BoundFailurePathAdvisory_eq not_le)
qed (simp add: BoundFailurePathAdvisory_eq)

definition sample_advisory :: FailurePathAdvisory where
  "sample_advisory = \<lparr>fpa_CallID = ''c1'', fpa_Findings = [\<lparr>fpf_Target = ''a.go:1'', fpf_Class = ''leak'',
     fpf_Issue = ''x''\<rparr>], fpa_Indeterminate = [], fpa_Truncated = False\<rparr>"

theorem BoundFailurePathAdvisory_fits_witness:
  "\<exists>b. BoundFailurePathAdvisory (empty_Result\<lparr>r_Status := StatusPass\<rparr>) (Some sample_advisory) = Inr (Some b) \<and>
     packet_size (empty_Result\<lparr>r_Status := StatusPass, r_FailurePathAdvisory := Some b\<rparr>) \<le> 8192"
proof -
  have "(case BoundFailurePathAdvisory (empty_Result\<lparr>r_Status := StatusPass\<rparr>) (Some sample_advisory) of
      Inr (Some b) \<Rightarrow> True | _ \<Rightarrow> False)" by code_simp
  then obtain b where
    b: "BoundFailurePathAdvisory (empty_Result\<lparr>r_Status := StatusPass\<rparr>) (Some sample_advisory) = Inr (Some b)"
    by (auto split: sum.splits option.splits)
  from BoundFailurePathAdvisory_fits [OF b] b show ?thesis by (auto simp: MaxPacketBytes_def)
qed

theorem BoundFailurePathAdvisory_total_witness:
  "\<exists>x. BoundFailurePathAdvisory empty_Result (Some sample_advisory) = Inr x"
  using BoundFailurePathAdvisory_total [of empty_Result sample_advisory] by blast

end
