(* ===== verification/Packet_Validate.thy ===== *)
theory Packet_Validate
  imports Packet
begin

text \<open>
  \<^verbatim>\<open>internal/packet/validate.go\<close>: the constraint collector and the validation of a worker's and of
  a reviewer's packet. The locale \<open>violation_collector\<close> is the contract between the collector and
  the validators that feed their checks into it; it is interpreted on \<open>collector_add\<close> and
  \<open>collector_err\<close>. The main results characterise acceptance and the shape of rejections.
\<close>

section \<open>Constraint errors and the collector\<close>

definition maxConstraintReasons :: nat where "maxConstraintReasons = 16"

record constraintCollector =
  cc_reasons :: "reason list"
  cc_keys :: "string list"
  cc_seen :: "reason list"
  cc_omitted :: nat
  cc_category :: string

definition rejectCategoryForKey :: "string \<Rightarrow> string" where
  "rejectCategoryForKey key =
     (if has_prefix key ''artifact'' then ''artifacts''
      else if has_prefix key ''multiline-field'' \<or> key = ''list-element-multiline'' then ''multiline-field''
      else if has_prefix key ''field-size'' \<or> key = ''list-element-size'' \<or> key = ''packet-size'' then ''size''
      else if has_prefix key ''missing-field'' then ''missing-field''
      else if has_prefix key ''targets'' then ''targets-none''
      else if contains key ''risk'' then ''risk''
      else if contains key ''status'' then ''status''
      else ''other'')"

definition newConstraintError :: "string \<Rightarrow> reason \<Rightarrow> go_error" where
  "newConstraintError key reason =
     ConstraintError \<lparr>ce_reason = reason, ce_reasons = [reason], ce_keys = [key],
       ce_category = rejectCategoryForKey key\<rparr>"

definition IsMismatchError :: "go_error \<Rightarrow> bool" where
  "IsMismatchError e \<longleftrightarrow> (case e of MismatchError _ \<Rightarrow> True | _ \<Rightarrow> False)"

definition IsConstraintError :: "go_error \<Rightarrow> bool" where
  "IsConstraintError e \<longleftrightarrow> (case e of ConstraintError _ \<Rightarrow> True | _ \<Rightarrow> False)"

definition ConstraintReasons :: "go_error \<Rightarrow> reason list" where
  "ConstraintReasons e =
     (case e of
        ConstraintError c \<Rightarrow> if ce_reasons c \<noteq> [] then ce_reasons c else [ce_reason c]
      | _ \<Rightarrow> [])"

text \<open>
  Both constructors of a constraint error, \<open>newConstraintError\<close> and \<open>collector_err\<close>, set a
  non-empty list of keys, so the fallback of the code to the reason text is never taken.
\<close>

definition ConstraintViolationKeys :: "go_error \<Rightarrow> string list" where
  "ConstraintViolationKeys e = (case e of ConstraintError c \<Rightarrow> ce_keys c | _ \<Rightarrow> [])"

definition newConstraintCollector :: constraintCollector where
  "newConstraintCollector =
     \<lparr>cc_reasons = [], cc_keys = [], cc_seen = [], cc_omitted = 0, cc_category = []\<rparr>"

definition addReason :: "constraintCollector \<Rightarrow> string \<times> reason \<Rightarrow> constraintCollector" where
  "addReason c kr =
     (let (key, reason) = kr
      in if key = [] then c
         else if reason \<in> set (cc_seen c) then c
         else let c = c\<lparr>cc_seen := reason # cc_seen c\<rparr>;
                  c = (if cc_category c = [] then c\<lparr>cc_category := rejectCategoryForKey key\<rparr> else c)
           in if maxConstraintReasons \<le> length (cc_reasons c)
              then c\<lparr>cc_omitted := cc_omitted c + 1\<rparr>
              else c\<lparr>cc_reasons := cc_reasons c @ [reason], cc_keys := cc_keys c @ [key]\<rparr>)"

definition collector_add ::
    "constraintCollector \<Rightarrow> go_error option \<Rightarrow> go_error option \<times> constraintCollector" where
  "collector_add c err =
     (case err of
        None \<Rightarrow> (None, c)
      | Some e \<Rightarrow>
          let reasons = ConstraintReasons e; keys = ConstraintViolationKeys e
          in if reasons = [] \<or> length keys \<noteq> length reasons then (Some e, c)
             else (None, foldl addReason c (zip keys reasons)))"

definition collector_err :: "constraintCollector \<Rightarrow> go_error option" where
  "collector_err c =
     (if cc_reasons c = [] then None
      else Some (ConstraintError
        \<lparr>ce_reason = Joined (cc_reasons c) (cc_omitted c), ce_reasons = cc_reasons c,
         ce_keys = cc_keys c, ce_category = cc_category c\<rparr>))"

text \<open>
  A sequence \<^verbatim>\<open>if err := collector.add(check); err != nil { return err }\<close> that ends in
  \<^verbatim>\<open>return collector.err()\<close>.
\<close>

fun run_checks :: "('c \<Rightarrow> 'e option \<Rightarrow> 'e option \<times> 'c) \<Rightarrow> ('c \<Rightarrow> 'e option) \<Rightarrow> 'c \<Rightarrow>
    'e option list \<Rightarrow> 'e option" where
  "run_checks add err c [] = err c"
| "run_checks add err c (e # es) =
     (case add c e of
        (Some failure, _) \<Rightarrow> Some failure
      | (None, c') \<Rightarrow> run_checks add err c' es)"

abbreviation collect :: "go_error option list \<Rightarrow> go_error option" where
  "collect \<equiv> run_checks collector_add collector_err newConstraintCollector"

section \<open>The checks\<close>

definition validateMachineStatusRisk :: "Result \<Rightarrow> machineContract \<Rightarrow> go_error option" where
  "validateMachineStatusRisk r contract =
     (if \<not> machineContractAllowsStatus contract (r_Status r)
      then Some (MismatchError (StatusNotAllowed (mc_name contract) (r_Status r)))
      else (case packetStatusContracts (r_Status r) of
          None \<Rightarrow> Some (Panic (r_Status r))
        | Some sc \<Rightarrow>
            if statusAllowsRisk sc (r_Risk r) then None
            else Some (newConstraintError (''risk:'' @ r_Status r) (psc_invalidRisk sc (r_Risk r)))))"

definition validateFailurePathAdvisoryField :: "Result \<Rightarrow> go_error option" where
  "validateFailurePathAdvisoryField r =
     (if r_FailurePathAdvisory r \<noteq> None
      then Some (newConstraintError ''failure-path-advisory'' AdvisoryMachineOnly) else None)"

definition validParentValidationForm :: "string \<Rightarrow> bool" where
  "validParentValidationForm form \<longleftrightarrow> form = ParentValidationGoTest \<or> form = ParentValidationGoTestRace"

definition working_dir_invalid :: "string \<Rightarrow> bool" where
  "working_dir_invalid d \<longleftrightarrow>
     has_prefix d ''/'' \<or> contains d [CHR 0x5C] \<or> path_clean d \<noteq> d \<or> d = ''..'' \<or> has_prefix d ''../''"

definition validateParentValidationWorkingDir :: "string \<Rightarrow> go_error option" where
  "validateParentValidationWorkingDir d =
     (if working_dir_invalid d
      then Some (newConstraintError ''parent-validation-working-dir'' (ParentValidationBadWorkingDir d))
      else None)"

definition validateParentValidation :: "Result \<Rightarrow> go_error option" where
  "validateParentValidation r =
     (if r_ParentValidationEvidence r \<noteq> None
      then Some (newConstraintError ''parent-validation-evidence'' EvidenceWrapperOnly)
      else if r_ParentValidation r = [] \<and> r_ParentValidationWorkingDir r = [] then None
      else if r_Status r \<noteq> StatusImplemented
      then Some (newConstraintError ''parent-validation-status'' ParentValidationImplementedOnly)
      else if r_ParentValidation r = [] \<or> r_ParentValidationWorkingDir r = []
      then Some (newConstraintError ''parent-validation-pair'' ParentValidationPair)
      else if \<not> validParentValidationForm (r_ParentValidation r)
      then Some (newConstraintError ''parent-validation-form''
                  (ParentValidationUnknownForm (r_ParentValidation r)))
      else validateParentValidationWorkingDir (r_ParentValidationWorkingDir r))"

definition validateReviewerParentValidation :: "Result \<Rightarrow> go_error option" where
  "validateReviewerParentValidation r =
     (if r_ParentValidation r \<noteq> [] \<or> r_ParentValidationWorkingDir r \<noteq> [] \<or>
         r_ParentValidationEvidence r \<noteq> None
      then Some (newConstraintError ''reviewer-parent-validation'' ReviewerParentValidation) else None)"

text \<open>\<^verbatim>\<open>validateTargetElement\<close> returns (is it \<^verbatim>\<open>none\<close>, error) and extends the map of seen targets.\<close>

definition validateTargetElement ::
    "unicode_tables \<Rightarrow> Result \<Rightarrow> string \<Rightarrow> string list \<Rightarrow> (bool \<times> go_error option) \<times> string list" where
  "validateTargetElement uc r element seen =
     (let trimmed = trim_space element
      in if trimmed = [] then
           ((False, Some (newConstraintError ''targets-element-empty'' TargetElementEmpty)), seen)
         else if trimmed \<in> set seen then
           ((False, Some (newConstraintError ''targets-duplicate'' TargetDuplicate)), seen)
         else
           (if equal_fold_ascii trimmed noneTargetsSentinel then
              (if element \<noteq> noneTargetsSentinel then
                 (False, Some (newConstraintError ''targets-none-case'' TargetNoneSpelling))
               else (True, None))
            else if equal_fold_ascii trimmed ReportOnlyTargets \<and>
                (r_Status r \<noteq> StatusFixRequired \<or> element \<noteq> ReportOnlyTargets \<or> length (r_Targets r) \<noteq> 1) then
              (False, Some (newConstraintError ''targets-packet-reserved'' TargetPacketReserved))
            else if r_Status r = StatusNeedsSolReview then
              (case Parse uc trimmed of
                 Inl _ \<Rightarrow> (False, Some (newConstraintError ''targets-review-shape'' (TargetReviewShape element)))
               | Inr _ \<Rightarrow> (False, None))
            else (False, None), trimmed # seen))"

fun target_results ::
    "unicode_tables \<Rightarrow> Result \<Rightarrow> string list \<Rightarrow> string list \<Rightarrow> (bool \<times> go_error option) list" where
  "target_results uc r seen [] = []"
| "target_results uc r seen (e # es) =
     (case validateTargetElement uc r e seen of (res, seen') \<Rightarrow> res # target_results uc r seen' es)"

definition validateNoneTarget :: "Result \<Rightarrow> bool \<Rightarrow> go_error option" where
  "validateNoneTarget r hasNone =
     (if \<not> hasNone then None
      else if 1 < length (r_Targets r) then Some (newConstraintError ''targets-none-mixed'' TargetNoneMixed)
      else if r_Status r = StatusNeedsSolReview
      then Some (newConstraintError ''targets-none-review'' TargetNoneReview)
      else None)"

definition validateTargets :: "unicode_tables \<Rightarrow> Result \<Rightarrow> go_error option" where
  "validateTargets uc r =
     (if r_Targets r = [] then
        (if r_Status r = StatusImplemented then None
         else Some (newConstraintError ''targets-empty'' (TargetsEmpty (r_Status r))))
      else let results = target_results uc r [] (r_Targets r)
        in collect (map snd results @ [validateNoneTarget r (list_ex fst results)]))"

fun field_values :: "Result \<Rightarrow> machineField list \<Rightarrow> (go_error, (machineField \<times> string) list) result" where
  "field_values r [] = Inr []"
| "field_values r (f # fs) =
     (case machineFieldValue r f of
        Inl e \<Rightarrow> Inl e
      | Inr v \<Rightarrow> (case field_values r fs of Inl e \<Rightarrow> Inl e | Inr vs \<Rightarrow> Inr ((f, v) # vs)))"

definition has_line_break :: "string \<Rightarrow> bool" where
  "has_line_break s \<longleftrightarrow> contains_any s [CHR 0x0A, CHR 0x0D]"

definition field_violations :: "machineField \<times> string \<Rightarrow> (string \<times> reason) list" where
  "field_violations fv =
     (let (f, value) = fv
      in if trim_space value = [] then [(''missing-field:'' @ field_name f, FieldMissing f)]
         else (if has_line_break value then [(''multiline-field:'' @ field_name f, FieldMultiline f)] else []) @
              (if MaxFieldBytes < length value then [(''field-size:'' @ field_name f, FieldTooLong f)] else []))"

definition element_violations :: "string \<Rightarrow> (string \<times> reason) list" where
  "element_violations value =
     (if has_line_break value then [(''list-element-multiline'', ElementMultiline)] else []) @
     (if MaxFieldBytes < length value then [(''list-element-size'', ElementTooLong)] else [])"

definition validateFields :: "Result \<Rightarrow> machineField list \<Rightarrow> go_error option" where
  "validateFields r fs =
     (case field_values r fs of
        Inl e \<Rightarrow> Some e
      | Inr vals \<Rightarrow>
          (case ByteSize r of
             Inl e \<Rightarrow> Some e
           | Inr n \<Rightarrow>
               collector_err (foldl addReason newConstraintCollector
                 (concat (map field_violations vals) @
                  concat (map element_violations (r_Targets r @ r_Artifacts r)) @
                  (if MaxPacketBytes < n then [(''packet-size'', PacketTooLong n)] else [])))))"

definition validateResultConstraints ::
    "unicode_tables \<Rightarrow> Result \<Rightarrow> machineContract \<Rightarrow> (Result \<Rightarrow> go_error option) list \<Rightarrow> go_error option" where
  "validateResultConstraints uc r contract roleChecks =
     collect ([validateMachineStatusRisk r contract] @
       map (\<lambda>check. check r) roleChecks @
       [validateFailurePathAdvisoryField r,
        validateFields r (resultFieldsForStatus (r_Status r)),
        validateTargets uc r])"

definition ValidateWorkerResult :: "unicode_tables \<Rightarrow> Result \<Rightarrow> go_error option" where
  "ValidateWorkerResult uc r =
     validateResultConstraints uc r workerMachineContract [validateParentValidation]"

definition ValidateReviewerResult :: "unicode_tables \<Rightarrow> Result \<Rightarrow> go_error option" where
  "ValidateReviewerResult uc r =
     validateResultConstraints uc r reviewerMachineContract [validateReviewerParentValidation]"

definition IsReportOnlyFix :: "Result \<Rightarrow> bool" where
  "IsReportOnlyFix r \<longleftrightarrow>
     r_Status r = StatusFixRequired \<and> length (r_Targets r) = 1 \<and> r_Targets r ! 0 = ReportOnlyTargets"

section \<open>The collector's contract\<close>

text \<open>
  What the validators rely on: a collector starts without an error, ignores \<^verbatim>\<open>nil\<close>, never forgets,
  and after accepting a well-formed error it has one to report.
\<close>

locale violation_collector =
  fixes new :: 'c
    and add :: "'c \<Rightarrow> 'e option \<Rightarrow> 'e option \<times> 'c"
    and err :: "'c \<Rightarrow> 'e option"
    and inv :: "'c \<Rightarrow> bool"
    and wf :: "'e \<Rightarrow> bool"
  assumes inv_new: "inv new"
    and err_new: "err new = None"
    and add_nil: "add c None = (None, c)"
    and add_inv: "inv c \<Longrightarrow> wf x \<Longrightarrow> add c (Some x) = (None, c') \<Longrightarrow> inv c'"
    and add_records: "inv c \<Longrightarrow> wf x \<Longrightarrow> add c (Some x) = (None, c') \<Longrightarrow> err c' \<noteq> None"
    and add_refuses: "add c (Some x) = (Some y, c') \<Longrightarrow> y = x"
    and err_wf: "inv c \<Longrightarrow> err c = Some x \<Longrightarrow> wf x"
begin

lemma run_dirty:
  "inv c \<Longrightarrow> err c \<noteq> None \<Longrightarrow> list_all (pred_option wf) es \<Longrightarrow> run_checks add err c es \<noteq> None"
proof (induction es arbitrary: c)
  case (Cons e es)
  show ?case
  proof (cases e)
    case None
    with Cons show ?thesis by (auto simp: add_nil)
  next
    case (Some x)
    show ?thesis
    proof (cases "add c (Some x)")
      case (Pair f c')
      with Some Cons show ?thesis
        using add_inv [of c x c'] add_records [of c x c'] by (cases f) auto
    qed
  qed
qed simp

lemma run_None_iff:
  "inv c \<Longrightarrow> err c = None \<Longrightarrow> list_all (pred_option wf) es \<Longrightarrow>
   run_checks add err c es = None \<longleftrightarrow> (\<forall>e \<in> set es. e = None)"
proof (induction es arbitrary: c)
  case (Cons e es)
  show ?case
  proof (cases e)
    case None
    with Cons show ?thesis by (auto simp: add_nil)
  next
    case (Some x)
    show ?thesis
    proof (cases "add c (Some x)")
      case (Pair f c')
      with Some Cons.prems show ?thesis
        using add_inv [of c x c'] add_records [of c x c'] run_dirty [of c' es] by (cases f) auto
    qed
  qed
qed simp

lemma collect_None_iff:
  "list_all (pred_option wf) es \<Longrightarrow> run_checks add err new es = None \<longleftrightarrow> (\<forall>e \<in> set es. e = None)"
  by (rule run_None_iff [OF inv_new err_new])

lemma run_wf:
  "inv c \<Longrightarrow> list_all (pred_option wf) es \<Longrightarrow> run_checks add err c es = Some x \<Longrightarrow> wf x"
proof (induction es arbitrary: c)
  case Nil
  then show ?case by (auto dest: err_wf)
next
  case (Cons e es)
  show ?case
  proof (cases e)
    case None
    with Cons show ?thesis by (auto simp: add_nil)
  next
    case (Some y)
    show ?thesis
    proof (cases "add c (Some y)")
      case (Pair f c')
      with Some Cons show ?thesis
        using add_inv [of c y c'] add_refuses [of c y _ c'] by (cases f) auto
    qed
  qed
qed

lemma run_origin:
  "run_checks add err c es = Some x \<Longrightarrow> Some x \<in> set es \<or> (\<exists>c'. err c' = Some x)"
proof (induction es arbitrary: c)
  case (Cons e es)
  then show ?case
    by (cases e; cases "add c e"; cases "fst (add c e)") (auto simp: add_nil dest: add_refuses)
qed auto

lemma collect_wf:
  "list_all (pred_option wf) es \<Longrightarrow> run_checks add err new es = Some x \<Longrightarrow> wf x"
  by (rule run_wf [OF inv_new])

end

section \<open>The collector satisfies the contract\<close>

definition wf_error :: "go_error \<Rightarrow> bool" where
  "wf_error e \<longleftrightarrow>
     (case e of
        ConstraintError c \<Rightarrow>
          ce_reasons c \<noteq> [] \<and> length (ce_reasons c) \<le> maxConstraintReasons \<and>
          length (ce_keys c) = length (ce_reasons c) \<and> distinct (ce_reasons c) \<and>
          [] \<notin> set (ce_keys c) \<and> ce_category c = rejectCategoryForKey (hd (ce_keys c))
      | _ \<Rightarrow> True)"

definition collector_inv :: "constraintCollector \<Rightarrow> bool" where
  "collector_inv c \<longleftrightarrow>
     length (cc_keys c) = length (cc_reasons c) \<and> length (cc_reasons c) \<le> maxConstraintReasons \<and>
     distinct (cc_reasons c) \<and> set (cc_reasons c) \<subseteq> set (cc_seen c) \<and>
     (cc_reasons c = [] \<longrightarrow> cc_seen c = [] \<and> cc_category c = []) \<and> [] \<notin> set (cc_keys c) \<and>
     (cc_reasons c \<noteq> [] \<longrightarrow> cc_category c = rejectCategoryForKey (hd (cc_keys c))) \<and>
     (0 < cc_omitted c \<longrightarrow> length (cc_reasons c) = maxConstraintReasons)"

lemma rejectCategoryForKey_neq_Nil [simp]: "rejectCategoryForKey key \<noteq> []"
  by (simp add: rejectCategoryForKey_def)

lemmas Nil_neq_rejectCategoryForKey [simp] = rejectCategoryForKey_neq_Nil [symmetric]

lemma collector_inv_new: "collector_inv newConstraintCollector"
  by (simp add: collector_inv_def newConstraintCollector_def)

lemma addReason_inv:
  assumes "collector_inv c"
  shows "collector_inv (addReason c (key, reason))"
proof -
  have cat: "cc_reasons c \<noteq> [] \<Longrightarrow> cc_category c \<noteq> []"
    using assms by (auto simp: collector_inv_def)
  have "0 < length (cc_keys c)" if "cc_reasons c \<noteq> []"
    using assms that by (simp add: collector_inv_def)
  with assms cat show ?thesis
    by (auto simp: collector_inv_def addReason_def Let_def hd_append maxConstraintReasons_def)
qed

lemma addReason_reasons: "cc_reasons c \<noteq> [] \<Longrightarrow> cc_reasons (addReason c kr) \<noteq> []"
  by (auto simp: addReason_def Let_def split: prod.splits)

lemma addReason_records:
  "collector_inv c \<Longrightarrow> key \<noteq> [] \<Longrightarrow> cc_reasons (addReason c (key, reason)) \<noteq> []"
  by (cases "cc_reasons c = []") (auto simp: addReason_def Let_def collector_inv_def maxConstraintReasons_def)

lemma foldl_addReason_inv: "collector_inv c \<Longrightarrow> collector_inv (foldl addReason c krs)"
proof (induction krs arbitrary: c)
  case (Cons kr krs)
  then show ?case by (cases kr) (simp add: addReason_inv)
qed simp

lemma foldl_addReason_reasons: "cc_reasons c \<noteq> [] \<Longrightarrow> cc_reasons (foldl addReason c krs) \<noteq> []"
  by (induction krs arbitrary: c) (simp_all add: addReason_reasons)

lemma foldl_addReason_records:
  assumes "collector_inv c" "krs \<noteq> []" "[] \<notin> fst ` set krs"
  shows "cc_reasons (foldl addReason c krs) \<noteq> []"
proof -
  obtain k r rest where krs: "krs = (k, r) # rest" using assms(2) by (cases krs) auto
  have "cc_reasons (addReason c (k, r)) \<noteq> []"
    using assms by (intro addReason_records) (auto simp: krs)
  then show ?thesis unfolding krs by (simp add: foldl_addReason_reasons)
qed

lemma collector_err_None [simp]: "collector_err c = None \<longleftrightarrow> cc_reasons c = []"
  by (simp add: collector_err_def)

lemma collector_err_wf: "collector_inv c \<Longrightarrow> collector_err c = Some e \<Longrightarrow> wf_error e"
  by (auto simp: collector_err_def collector_inv_def wf_error_def split: if_splits)

lemma collector_add_Some:
  "collector_add c (Some e) =
     (case e of
        ConstraintError x \<Rightarrow>
          if length (ce_keys x) \<noteq> length (ConstraintReasons e) then (Some e, c)
          else (None, foldl addReason c (zip (ce_keys x) (ConstraintReasons e)))
      | _ \<Rightarrow> (Some e, c))"
  by (auto simp: collector_add_def Let_def ConstraintReasons_def ConstraintViolationKeys_def split: go_error.splits)

interpretation collector: violation_collector
  newConstraintCollector collector_add collector_err collector_inv wf_error
proof unfold_locales
  show "collector_inv newConstraintCollector" by (rule collector_inv_new)
  show "collector_err newConstraintCollector = None" by (simp add: newConstraintCollector_def)
next
  fix c
  show "collector_add c None = (None, c)" by (simp add: collector_add_def)
next
  fix c c' x
  assume "collector_inv c" "wf_error x" "collector_add c (Some x) = (None, c')"
  then show "collector_inv c'"
    by (auto simp: collector_add_Some foldl_addReason_inv split: go_error.splits if_splits)
next
  fix c c' x
  assume a: "collector_inv c" "wf_error x" "collector_add c (Some x) = (None, c')"
  then obtain e where x: "x = ConstraintError e"
    and c': "c' = foldl addReason c (zip (ce_keys e) (ce_reasons e))"
    by (auto simp: collector_add_Some wf_error_def ConstraintReasons_def split: go_error.splits if_splits)
  have "zip (ce_keys e) (ce_reasons e) \<noteq> []" "[] \<notin> fst ` set (zip (ce_keys e) (ce_reasons e))"
    using a(2) by (auto simp: x wf_error_def zip_eq_Nil_iff dest: set_zip_leftD)
  then show "collector_err c' \<noteq> None"
    using foldl_addReason_records [OF a(1)] by (simp add: c')
next
  fix c c' x y
  assume "collector_add c (Some x) = (Some y, c')"
  then show "y = x" by (auto simp: collector_add_Some split: go_error.splits if_splits)
next
  fix c x
  assume "collector_inv c" "collector_err c = Some x"
  then show "wf_error x" by (rule collector_err_wf)
qed

section \<open>What the checks accept\<close>

lemma wf_newConstraintError [simp]: "wf_error (newConstraintError key reason) \<longleftrightarrow> key \<noteq> []"
  by (simp add: wf_error_def newConstraintError_def maxConstraintReasons_def eq_commute)

lemma wf_error_simps [simp]: "wf_error (MismatchError m)" "wf_error (Panic p)" "wf_error (OtherError o')"
  by (simp_all add: wf_error_def)

lemma validateMachineStatusRisk_wf: "pred_option wf_error (validateMachineStatusRisk r contract)"
  by (simp add: validateMachineStatusRisk_def split: option.splits)

lemma validateParentValidation_wf: "pred_option wf_error (validateParentValidation r)"
  by (simp add: validateParentValidation_def validateParentValidationWorkingDir_def)

lemma validateReviewerParentValidation_wf: "pred_option wf_error (validateReviewerParentValidation r)"
  by (simp add: validateReviewerParentValidation_def)

lemma validateFailurePathAdvisoryField_wf: "pred_option wf_error (validateFailurePathAdvisoryField r)"
  by (simp add: validateFailurePathAdvisoryField_def)

lemma validateTargetElement_wf:
  "pred_option wf_error (snd (fst (validateTargetElement uc r e seen)))"
  by (simp add: validateTargetElement_def Let_def split: sum.splits)

lemma target_results_wf: "list_all (pred_option wf_error) (map snd (target_results uc r seen es))"
proof (induction es arbitrary: seen)
  case (Cons e es)
  then show ?case
    using validateTargetElement_wf [of uc r e seen]
    by (cases "validateTargetElement uc r e seen") simp
qed simp

lemma validateNoneTarget_wf: "pred_option wf_error (validateNoneTarget r b)"
  by (simp add: validateNoneTarget_def)

lemma validateTargets_wf: "pred_option wf_error (validateTargets uc r)"
proof -
  have "list_all (pred_option wf_error)
      (map snd (target_results uc r [] (r_Targets r)) @ [validateNoneTarget r b])" for b
    using target_results_wf [of uc r "[]" "r_Targets r"] by (simp add: validateNoneTarget_wf)
  from collector.collect_wf [OF this] show ?thesis
    by (auto simp: validateTargets_def Let_def pred_option_def)
qed

lemma validateFields_wf: "pred_option wf_error (validateFields r fs)"
proof (cases "field_values r fs")
  case (Inl e)
  then have "\<exists>m. e = Panic m"
  proof (induction fs arbitrary: e)
    case (Cons f fs)
    then show ?case
      by (auto simp: machineFieldValue_def split: sum.splits option.splits prod.splits)
  qed simp
  with Inl show ?thesis by (auto simp: validateFields_def)
next
  case (Inr vals)
  then show ?thesis
    unfolding validateFields_def pred_option_def
    using collector_err_wf [OF foldl_addReason_inv [OF collector_inv_new]]
    by (auto simp del: foldl_append map_append concat_append)
qed

lemmas checks_wf = validateMachineStatusRisk_wf validateParentValidation_wf
  validateReviewerParentValidation_wf validateFailurePathAdvisoryField_wf validateFields_wf
  validateTargets_wf

subsection \<open>Fields and list elements\<close>

definition value_ok :: "string \<Rightarrow> bool" where
  "value_ok v \<longleftrightarrow> \<not> has_line_break v \<and> length v \<le> MaxFieldBytes"

definition required_fields_ok :: "Result \<Rightarrow> bool" where
  "required_fields_ok r \<longleftrightarrow>
     (\<forall>f \<in> set (resultFieldsForStatus (r_Status r)).
        \<exists>v. machineFieldValue r f = Inr v \<and> trim_space v \<noteq> [] \<and> value_ok v)"

lemma field_values_owned:
  "list_all owned fs \<Longrightarrow> \<exists>vals. field_values r fs = Inr vals \<and>
     (\<forall>f v. (f, v) \<in> set vals \<longleftrightarrow> f \<in> set fs \<and> machineFieldValue r f = Inr v)"
proof (induction fs)
  case (Cons f fs)
  obtain v where v: "machineFieldValue r f = Inr v"
    using Cons.prems machineFieldValue_owned [of f r] by auto
  obtain vals where "field_values r fs = Inr vals"
    and "\<forall>f v. (f, v) \<in> set vals \<longleftrightarrow> f \<in> set fs \<and> machineFieldValue r f = Inr v"
    using Cons by auto
  with v show ?case by auto
qed simp

lemma field_violations_Nil: "field_violations (f, v) = [] \<longleftrightarrow> trim_space v \<noteq> [] \<and> value_ok v"
  by (simp add: field_violations_def value_ok_def not_less)

lemma element_violations_Nil: "element_violations v = [] \<longleftrightarrow> value_ok v"
  by (simp add: element_violations_def value_ok_def not_less)

lemma field_violations_keys: "[] \<notin> fst ` set (field_violations fv)"
  by (auto simp: field_violations_def Let_def split: prod.splits if_splits)

lemma element_violations_keys: "[] \<notin> fst ` set (element_violations v)"
  by (auto simp: element_violations_def split: if_splits)

lemma foldl_addReason_Nil_iff:
  "[] \<notin> fst ` set krs \<Longrightarrow> cc_reasons (foldl addReason newConstraintCollector krs) = [] \<longleftrightarrow> krs = []"
  using foldl_addReason_records [OF collector_inv_new] by (auto simp: newConstraintCollector_def)

lemma validateFields_None_iff:
  "validateFields r (resultFieldsForStatus (r_Status r)) = None \<longleftrightarrow>
     required_fields_ok r \<and> list_all value_ok (r_Targets r @ r_Artifacts r) \<and> packet_size r \<le> MaxPacketBytes"
proof -
  obtain vals where vals: "field_values r (resultFieldsForStatus (r_Status r)) = Inr vals"
    and vals_iff: "\<forall>f v. (f, v) \<in> set vals \<longleftrightarrow>
      f \<in> set (resultFieldsForStatus (r_Status r)) \<and> machineFieldValue r f = Inr v"
    using field_values_owned [OF resultFieldsForStatus_owned] by blast
  let ?krs = "concat (map field_violations vals) @
    concat (map element_violations (r_Targets r @ r_Artifacts r)) @
    (if MaxPacketBytes < packet_size r then [(''packet-size'', PacketTooLong (packet_size r))] else [])"
  have keys: "[] \<notin> fst ` set ?krs"
  proof -
    have "[] \<notin> fst ` set (concat (map field_violations vals))"
      using field_violations_keys by auto
    moreover have "[] \<notin> fst ` set (concat (map element_violations xs))" for xs
      using element_violations_keys by auto
    ultimately show ?thesis by (auto simp add: image_Un simp del: set_concat set_map map_append)
  qed
  have owned: "\<exists>v. machineFieldValue r f = Inr v" if "f \<in> set (resultFieldsForStatus (r_Status r))" for f
    using resultFieldsForStatus_owned [of "r_Status r"] that
    by (auto simp: list_all_iff intro: machineFieldValue_owned)
  have req: "(\<forall>x \<in> set vals. field_violations x = []) \<longleftrightarrow> required_fields_ok r"
    using vals_iff owned by (fastforce simp: required_fields_ok_def field_violations_Nil)
  have "validateFields r (resultFieldsForStatus (r_Status r)) = None \<longleftrightarrow> ?krs = []"
    using foldl_addReason_Nil_iff [OF keys] by (simp add: validateFields_def vals del: map_append)
  also have "\<dots> \<longleftrightarrow> required_fields_ok r \<and> list_all value_ok (r_Targets r @ r_Artifacts r) \<and>
      packet_size r \<le> MaxPacketBytes"
    by (auto simp: req element_violations_Nil list_all_iff not_less)
  finally show ?thesis .
qed

subsection \<open>Targets\<close>

definition target_ok :: "unicode_tables \<Rightarrow> Result \<Rightarrow> string \<Rightarrow> bool" where
  "target_ok uc r e \<longleftrightarrow>
     trim_space e \<noteq> [] \<and>
     (if equal_fold_ascii (trim_space e) ''none'' then e = ''none''
      else (equal_fold_ascii (trim_space e) ''PACKET'' \<longrightarrow>
              r_Status r = StatusFixRequired \<and> r_Targets r = [''PACKET'']) \<and>
           (r_Status r = StatusNeedsSolReview \<longrightarrow> (\<exists>pl. Parse uc (trim_space e) = Inr pl)))"

definition targets_ok :: "unicode_tables \<Rightarrow> Result \<Rightarrow> bool" where
  "targets_ok uc r \<longleftrightarrow>
     (if r_Targets r = [] then r_Status r = StatusImplemented
      else distinct (map trim_space (r_Targets r)) \<and> list_all (target_ok uc r) (r_Targets r) \<and>
           (''none'' \<in> set (r_Targets r) \<longrightarrow> r_Targets r = [''none''] \<and> r_Status r \<noteq> StatusNeedsSolReview))"

lemma validateTargetElement_None_iff:
  assumes "e \<in> set (r_Targets r)"
  shows "snd (fst (validateTargetElement uc r e seen)) = None \<longleftrightarrow>
     trim_space e \<notin> set seen \<and> target_ok uc r e"
proof -
  have "e = ''PACKET'' \<and> length (r_Targets r) = 1 \<longleftrightarrow> r_Targets r = [''PACKET'']"
    using assms by (cases "r_Targets r") auto
  then show ?thesis
    by (auto simp: validateTargetElement_def target_ok_def Let_def noneTargetsSentinel_def
        ReportOnlyTargets_def split: sum.splits)
qed

lemma validateTargetElement_seen:
  "snd (fst (validateTargetElement uc r e seen)) = None \<Longrightarrow>
   snd (validateTargetElement uc r e seen) = trim_space e # seen"
  by (auto simp: validateTargetElement_def Let_def split: if_splits)

lemma trim_space_none: "trim_space ''none'' = ''none''"
  by (rule trim_space_graphic) (simp add: graphic_def)

lemma validateTargetElement_fst:
  "snd (fst (validateTargetElement uc r e seen)) = None \<Longrightarrow>
   fst (fst (validateTargetElement uc r e seen)) \<longleftrightarrow> e = ''none''"
  using trim_space_none
  by (auto simp: validateTargetElement_def Let_def noneTargetsSentinel_def equal_fold_ascii_def
      split: if_splits sum.splits)

lemma target_results_None_iff:
  "set es \<subseteq> set (r_Targets r) \<Longrightarrow>
   (\<forall>res \<in> set (target_results uc r seen es). snd res = None) \<longleftrightarrow>
     distinct (map trim_space es) \<and> set (map trim_space es) \<inter> set seen = {} \<and> list_all (target_ok uc r) es"
proof (induction es arbitrary: seen)
  case (Cons e es)
  obtain res seen' where v: "validateTargetElement uc r e seen = (res, seen')" by fastforce
  have first: "snd res = None \<longleftrightarrow> trim_space e \<notin> set seen \<and> target_ok uc r e"
    using validateTargetElement_None_iff [of e r uc seen] Cons.prems v by simp
  have "snd res = None \<Longrightarrow> seen' = trim_space e # seen"
    using validateTargetElement_seen [of uc r e seen] v by simp
  moreover have "(\<forall>res \<in> set (target_results uc r (trim_space e # seen) es). snd res = None) \<longleftrightarrow>
      distinct (map trim_space es) \<and> set (map trim_space es) \<inter> set (trim_space e # seen) = {} \<and>
      list_all (target_ok uc r) es"
    using Cons.prems by (intro Cons.IH) simp
  ultimately show ?case
    using v first by (cases "snd res = None") (auto simp: disjoint_iff image_iff)
qed simp

lemma target_results_none:
  "(\<forall>res \<in> set (target_results uc r seen es). snd res = None) \<Longrightarrow>
   list_ex fst (target_results uc r seen es) \<longleftrightarrow> ''none'' \<in> set es"
proof (induction es arbitrary: seen)
  case (Cons e es)
  obtain res seen' where v: "validateTargetElement uc r e seen = (res, seen')" by fastforce
  with Cons.prems have "fst res \<longleftrightarrow> e = ''none''"
    using validateTargetElement_fst [of uc r e seen] by simp
  with Cons v show ?case by auto
qed simp

lemma validateTargets_None_iff: "validateTargets uc r = None \<longleftrightarrow> targets_ok uc r"
proof (cases "r_Targets r = []")
  case False
  let ?res = "target_results uc r [] (r_Targets r)"
  have wf: "list_all (pred_option wf_error) (map snd ?res @ [validateNoneTarget r (list_ex fst ?res)])"
    using target_results_wf [of uc r "[]" "r_Targets r"] by (simp add: validateNoneTarget_wf)
  have "validateTargets uc r = None \<longleftrightarrow>
      (\<forall>res \<in> set ?res. snd res = None) \<and> validateNoneTarget r (list_ex fst ?res) = None"
    using collector.collect_None_iff [OF wf] False by (auto simp: validateTargets_def Let_def)
  also have "\<dots> \<longleftrightarrow> (\<forall>res \<in> set ?res. snd res = None) \<and>
      validateNoneTarget r (''none'' \<in> set (r_Targets r)) = None"
    using target_results_none [of uc r "[]" "r_Targets r"] by auto
  also have "\<dots> \<longleftrightarrow> targets_ok uc r"
    using False target_results_None_iff [of "r_Targets r" r uc "[]"]
    by (cases "r_Targets r") (auto simp: targets_ok_def validateNoneTarget_def split: if_splits)
  finally show ?thesis .
qed (simp add: validateTargets_def targets_ok_def)

section \<open>Acceptance and rejection of packets\<close>

text \<open>
  The conditions on a packet that do not depend on the role: no advisory from the model, every
  required field present and well-formed, list elements well-formed, the machine JSON within
  8 KiB, and proper targets.
\<close>

definition common_ok :: "unicode_tables \<Rightarrow> Result \<Rightarrow> bool" where
  "common_ok uc r \<longleftrightarrow>
     r_FailurePathAdvisory r = None \<and> required_fields_ok r \<and>
     list_all value_ok (r_Targets r @ r_Artifacts r) \<and> packet_size r \<le> 8192 \<and> targets_ok uc r"

definition parent_validation_ok :: "Result \<Rightarrow> bool" where
  "parent_validation_ok r \<longleftrightarrow>
     r_ParentValidationEvidence r = None \<and>
     (r_ParentValidation r = [] \<and> r_ParentValidationWorkingDir r = [] \<or>
      r_Status r = StatusImplemented \<and>
      r_ParentValidation r \<in> {''go-test'', ''go-test-race''} \<and>
      r_ParentValidationWorkingDir r \<noteq> [] \<and> \<not> working_dir_invalid (r_ParentValidationWorkingDir r))"

lemma validateParentValidation_None_iff: "validateParentValidation r = None \<longleftrightarrow> parent_validation_ok r"
  by (auto simp: validateParentValidation_def parent_validation_ok_def
      validateParentValidationWorkingDir_def validParentValidationForm_def
      ParentValidationGoTest_def ParentValidationGoTestRace_def)

lemma validateReviewerParentValidation_None_iff:
  "validateReviewerParentValidation r = None \<longleftrightarrow>
     r_ParentValidation r = [] \<and> r_ParentValidationWorkingDir r = [] \<and> r_ParentValidationEvidence r = None"
  by (auto simp: validateReviewerParentValidation_def)

lemma validateResultConstraints_None_iff:
  assumes "pred_option wf_error (check r)"
  shows "validateResultConstraints uc r contract [check] = None \<longleftrightarrow>
     validateMachineStatusRisk r contract = None \<and> check r = None \<and> common_ok uc r"
proof -
  have "list_all (pred_option wf_error) ([validateMachineStatusRisk r contract] @
      map (\<lambda>check. check r) [check] @ [validateFailurePathAdvisoryField r,
        validateFields r (resultFieldsForStatus (r_Status r)), validateTargets uc r])"
    using assms by (simp add: checks_wf)
  from collector.collect_None_iff [OF this] show ?thesis
    by (simp add: validateResultConstraints_def validateFields_None_iff validateTargets_None_iff
        validateFailurePathAdvisoryField_def common_ok_def MaxPacketBytes_def conj_ac)
qed

lemmas contract_defs = machineContractAllowsStatus_def statusAllowsRisk_def packetStatusContracts_def
  workerMachineContract_def reviewerMachineContract_def

lemma worker_status_risk_None_iff:
  "validateMachineStatusRisk r workerMachineContract = None \<longleftrightarrow>
     r_Status r = StatusImplemented \<and> r_Risk r \<in> {RiskLow, RiskHigh} \<or>
     r_Status r = StatusNeedsSolDecision \<and> r_Risk r = RiskHigh"
  by (auto simp: validateMachineStatusRisk_def contract_defs status_defs)

lemma reviewer_status_risk_None_iff:
  "validateMachineStatusRisk r reviewerMachineContract = None \<longleftrightarrow>
     r_Status r = StatusPass \<and> r_Risk r = RiskLow \<or>
     r_Status r = StatusFixRequired \<and> r_Risk r \<in> {RiskLow, RiskHigh} \<or>
     r_Status r = StatusNeedsSolReview \<and> r_Risk r = RiskHigh \<or>
     r_Status r = StatusNeedsSolDecision \<and> r_Risk r = RiskHigh"
  by (auto simp: validateMachineStatusRisk_def contract_defs status_defs)

text \<open>
  C3. A worker's packet is accepted exactly when its status is \<^verbatim>\<open>IMPLEMENTED\<close> with a known risk or
  \<^verbatim>\<open>NEEDS_SOL_DECISION\<close> with risk \<^verbatim>\<open>HIGH\<close>, its parent-validation request is absent or a known form in
  a clean repository-relative directory of an \<^verbatim>\<open>IMPLEMENTED\<close> packet, and it meets the common
  conditions on fields, size and targets.
\<close>

theorem ValidateWorkerResult_accepts_iff:
  "ValidateWorkerResult uc r = None \<longleftrightarrow>
     (r_Status r = StatusImplemented \<and> r_Risk r \<in> {RiskLow, RiskHigh} \<or>
      r_Status r = StatusNeedsSolDecision \<and> r_Risk r = RiskHigh) \<and>
     parent_validation_ok r \<and> common_ok uc r"
  unfolding ValidateWorkerResult_def
  by (simp add: validateResultConstraints_None_iff checks_wf worker_status_risk_None_iff
      validateParentValidation_None_iff)

text \<open>
  C4. A reviewer's packet is accepted exactly when its status and risk are one of the allowed
  pairs (so a \<^verbatim>\<open>PASS\<close> is always of low risk, and both escalations are of high risk), it carries no
  parent-validation field, and it meets the common conditions.
\<close>

theorem ValidateReviewerResult_accepts_iff:
  "ValidateReviewerResult uc r = None \<longleftrightarrow>
     (r_Status r = StatusPass \<and> r_Risk r = RiskLow \<or>
      r_Status r = StatusFixRequired \<and> r_Risk r \<in> {RiskLow, RiskHigh} \<or>
      r_Status r = StatusNeedsSolReview \<and> r_Risk r = RiskHigh \<or>
      r_Status r = StatusNeedsSolDecision \<and> r_Risk r = RiskHigh) \<and>
     (r_ParentValidation r = [] \<and> r_ParentValidationWorkingDir r = [] \<and> r_ParentValidationEvidence r = None) \<and>
     common_ok uc r"
  unfolding ValidateReviewerResult_def
  by (simp add: validateResultConstraints_None_iff checks_wf reviewer_status_risk_None_iff
      validateReviewerParentValidation_None_iff)

lemma collect_first_mismatch:
  "collect (Some (MismatchError m) # es) = Some (MismatchError m)"
  by (simp add: collector_add_Some)

lemma collector_err_shape: "collector_err c = Some e \<Longrightarrow> \<exists>x. e = ConstraintError x"
  by (auto simp: collector_err_def split: if_splits)

lemma validateParentValidation_constraint:
  "validateParentValidation r = Some e \<Longrightarrow> \<exists>x. e = ConstraintError x"
  by (auto simp: validateParentValidation_def validateParentValidationWorkingDir_def
      newConstraintError_def split: if_splits)

lemma validateFailurePathAdvisoryField_constraint:
  "validateFailurePathAdvisoryField r = Some e \<Longrightarrow> \<exists>x. e = ConstraintError x"
  by (auto simp: validateFailurePathAdvisoryField_def newConstraintError_def split: if_splits)

lemma worker_status_risk_constraint:
  "r_Status r \<in> {StatusImplemented, StatusNeedsSolDecision} \<Longrightarrow>
   validateMachineStatusRisk r workerMachineContract = Some e \<Longrightarrow> \<exists>x. e = ConstraintError x"
  by (auto simp: validateMachineStatusRisk_def contract_defs newConstraintError_def status_defs split: if_splits)

lemma validateFields_constraint:
  "validateFields r (resultFieldsForStatus (r_Status r)) = Some e \<Longrightarrow> \<exists>x. e = ConstraintError x"
  using field_values_owned [OF resultFieldsForStatus_owned, of r "r_Status r"]
  by (auto simp: validateFields_def dest!: collector_err_shape)

lemma target_results_constraint:
  "Some e \<in> set (map snd (target_results uc r seen es)) \<Longrightarrow> \<exists>x. e = ConstraintError x"
proof (induction es arbitrary: seen)
  case (Cons t es)
  have "snd (fst (validateTargetElement uc r t seen)) = Some e \<Longrightarrow> \<exists>x. e = ConstraintError x"
    by (auto simp: validateTargetElement_def Let_def newConstraintError_def split: if_splits sum.splits)
  with Cons show ?case by (cases "validateTargetElement uc r t seen") auto
qed simp

lemma validateTargets_constraint:
  assumes "validateTargets uc r = Some e"
  shows "\<exists>x. e = ConstraintError x"
proof (cases "r_Targets r = []")
  case True
  with assms show ?thesis by (auto simp: validateTargets_def newConstraintError_def split: if_splits)
next
  case False
  let ?res = "target_results uc r [] (r_Targets r)"
  from assms False have "collect (map snd ?res @ [validateNoneTarget r (list_ex fst ?res)]) = Some e"
    by (simp add: validateTargets_def Let_def)
  from collector.run_origin [OF this] show ?thesis
    using target_results_constraint [of e uc r "[]" "r_Targets r"]
    by (auto simp: validateNoneTarget_def newConstraintError_def split: if_splits dest: collector_err_shape)
qed

text \<open>
  C12. Validation of a worker's packet never panics; it reports a schema mismatch exactly when the
  status is not one of the worker's; any other rejection is a constraint error with between one
  and sixteen distinct reasons, a key for each, and the category of its first key.
\<close>

theorem ValidateWorkerResult_rejection:
  assumes "ValidateWorkerResult uc r = Some e"
  shows "if r_Status r \<in> {StatusImplemented, StatusNeedsSolDecision}
     then \<exists>c. e = ConstraintError c \<and> 1 \<le> length (ce_reasons c) \<and> length (ce_reasons c) \<le> 16 \<and>
       distinct (ce_reasons c) \<and> length (ce_keys c) = length (ce_reasons c) \<and>
       ce_category c = rejectCategoryForKey (hd (ce_keys c))
     else e = MismatchError (StatusNotAllowed ''worker'' (r_Status r))"
proof (cases "r_Status r \<in> {StatusImplemented, StatusNeedsSolDecision}")
  case False
  then have "validateMachineStatusRisk r workerMachineContract =
      Some (MismatchError (StatusNotAllowed ''worker'' (r_Status r)))"
    by (auto simp: validateMachineStatusRisk_def machineContractAllowsStatus_def workerMachineContract_def)
  with assms False show ?thesis
    by (simp add: ValidateWorkerResult_def validateResultConstraints_def collector_add_Some)
next
  case True
  let ?es = "[validateMachineStatusRisk r workerMachineContract, validateParentValidation r,
    validateFailurePathAdvisoryField r, validateFields r (resultFieldsForStatus (r_Status r)),
    validateTargets uc r]"
  from assms have run: "collect ?es = Some e"
    by (simp add: ValidateWorkerResult_def validateResultConstraints_def)
  have "\<exists>c. e = ConstraintError c"
    using collector.run_origin [OF run]
  proof
    assume "Some e \<in> set ?es"
    then show ?thesis
      using worker_status_risk_constraint [OF True] validateParentValidation_constraint
        validateFailurePathAdvisoryField_constraint validateFields_constraint validateTargets_constraint
      by (simp add: eq_commute [of "Some e"]) blast
  next
    assume "\<exists>c'. collector_err c' = Some e"
    then show ?thesis by (blast dest: collector_err_shape)
  qed
  moreover have "wf_error e"
    by (rule collector.collect_wf [OF _ run]) (simp add: checks_wf)
  ultimately show ?thesis
    using True by (auto simp: wf_error_def maxConstraintReasons_def Suc_le_eq)
qed

theorem ValidateWorkerResult_rejection_witness:
  "\<exists>e. ValidateWorkerResult ascii_tables (empty_Result\<lparr>r_Status := StatusImplemented\<rparr>) = Some (ConstraintError e) \<and>
     length (ce_reasons e) \<le> 16"
proof -
  have "ValidateWorkerResult ascii_tables (empty_Result\<lparr>r_Status := StatusImplemented\<rparr>) \<noteq> None"
    by code_simp
  then obtain e where
    e: "ValidateWorkerResult ascii_tables (empty_Result\<lparr>r_Status := StatusImplemented\<rparr>) = Some e" by blast
  from ValidateWorkerResult_rejection [OF e] e show ?thesis by (auto simp: status_defs)
qed

end
