(* ===== verification/File_Store.thy ===== *)
theory File_Store
  imports Packet_Validate
begin

text \<open>
  The state directory that \<^verbatim>\<open>internal/state\<close> works on, and the way its operations run. A store maps
  file names to contents: plain text, a JSON document in decoded form, or a (non-empty) directory
  that stands in a file's place. Every access to the file system may fail: the \<open>n\<close>-th access of a
  run fails exactly when the oracle \<open>fault n\<close> says so, and the theorems hold for every oracle. A
  write goes through a temporary file and a rename, so that it either installs the whole content
  or leaves the old one. \<open>listing\<close> holds the file names under which something was ever stored, in the
  byte order in which a directory is listed; it makes the listing of a subdirectory computable.

  An operation is a function from a store to a result and a store. \<open>bindE\<close> runs one operation
  after another unless the first one failed, \<open>catchE\<close> runs a handler after a failure, and
  \<open>triple P m Q E\<close> is the Hoare triple that the lemmas about operations are stated with.
\<close>

section \<open>Errors of the state package\<close>

text \<open>
  \<open>Errorf\<close> carries the text of a refusal and the values formatted into it; \<open>Wrapf\<close> is
  \<^verbatim>\<open>fmt.Errorf("...%w", err)\<close>, which \<^verbatim>\<open>errors.Is\<close> looks through; \<open>JoinErr\<close> is \<^verbatim>\<open>errors.Join\<close>.
\<close>

datatype state_error =
    NotExist string
  | IsDir string
  | IoFault string
  | Errorf string "string list"
  | Wrapf string state_error
  | JoinErr "state_error list"
  | RollbackErr string state_error state_error
  | PacketErr go_error
  | NoResumeCheckpoint
  | NoParentActionBegin
  | NoParentReopenTransaction
  | LifecycleInconsistency string string "state_error option"

fun is_not_exist :: "state_error \<Rightarrow> bool" where
  "is_not_exist (NotExist _) = True"
| "is_not_exist (Wrapf _ e) = is_not_exist e"
| "is_not_exist (JoinErr es) = list_ex is_not_exist es"
| "is_not_exist (RollbackErr _ e f) = (is_not_exist e \<or> is_not_exist f)"
| "is_not_exist _ = False"

text \<open>A failure whose rollback failed as well, possibly wrapped by a caller.\<close>

fun rollback_failed :: "state_error \<Rightarrow> bool" where
  "rollback_failed (RollbackErr _ _ _) = True"
| "rollback_failed (Wrapf _ e) = rollback_failed e"
| "rollback_failed (JoinErr es) = list_ex rollback_failed es"
| "rollback_failed _ = False"

section \<open>The store\<close>

datatype 'd content = Text string | Doc 'd | Directory

record TaskLifecycleRecord =
  lr_Version :: int
  lr_TaskID :: string
  lr_Timestamp :: int
  lr_From :: string
  lr_To :: string

record OutcomeEvent =
  oe_TaskID :: string
  oe_Phase :: string
  oe_Role :: string
  oe_Outcome :: string
  oe_PacketStatus :: string
  oe_ModelAlias :: string
  oe_WorkerReportedRisk :: string
  oe_ParentOrigin :: string
  oe_ParentCause :: string

record 'd StateStore =
  files :: "string \<Rightarrow> 'd content option"
  listing :: "string list"
  access :: nat
  fault :: "nat \<Rightarrow> bool"
  now :: int
  lifecycle_log :: "TaskLifecycleRecord list"
  outcome_log :: "OutcomeEvent list"

type_synonym ('d, 'a) op = "'d StateStore \<Rightarrow> (state_error, 'a) result \<times> 'd StateStore"

section \<open>Running operations\<close>

definition returnE :: "'a \<Rightarrow> ('d, 'a) op" where
  "returnE v st = (Inr v, st)"

definition throwE :: "state_error \<Rightarrow> ('d, 'a) op" where
  "throwE e st = (Inl e, st)"

definition bindE :: "('d, 'a) op \<Rightarrow> ('a \<Rightarrow> ('d, 'b) op) \<Rightarrow> ('d, 'b) op" where
  "bindE m k st = (case m st of (Inl e, st') \<Rightarrow> (Inl e, st') | (Inr v, st') \<Rightarrow> k v st')"

definition thenE :: "('d, 'a) op \<Rightarrow> ('d, 'b) op \<Rightarrow> ('d, 'b) op" where
  "thenE m k = bindE m (\<lambda>_. k)"

definition catchE :: "('d, 'a) op \<Rightarrow> (state_error \<Rightarrow> ('d, 'a) op) \<Rightarrow> ('d, 'a) op" where
  "catchE m h st = (case m st of (Inl e, st') \<Rightarrow> h e st' | (Inr v, st') \<Rightarrow> (Inr v, st'))"

text \<open>\<open>attempt\<close> hands a failure to the caller as a value, \<open>of_result\<close> lifts a pure result.\<close>

definition attempt :: "('d, 'a) op \<Rightarrow> ('d, (state_error, 'a) result) op" where
  "attempt m st = (case m st of (r, st') \<Rightarrow> (Inr r, st'))"

definition of_result :: "(state_error, 'a) result \<Rightarrow> ('d, 'a) op" where
  "of_result r st = (r, st)"

definition check :: "state_error option \<Rightarrow> ('d, unit) op" where
  "check c st = (case c of None \<Rightarrow> (Inr (), st) | Some e \<Rightarrow> (Inl e, st))"

definition wrapE :: "string \<Rightarrow> ('d, 'a) op \<Rightarrow> ('d, 'a) op" where
  "wrapE msg m = catchE m (\<lambda>e. throwE (Wrapf msg e))"

section \<open>File system access\<close>

definition tick :: "'d StateStore \<Rightarrow> 'd StateStore" where
  "tick st = st\<lparr>access := Suc (access st)\<rparr>"

definition ReadFile :: "string \<Rightarrow> ('d, 'd content) op" where
  "ReadFile name st =
     (if fault st (access st) then (Inl (IoFault name), tick st)
      else case files st name of
        None \<Rightarrow> (Inl (NotExist name), tick st)
      | Some Directory \<Rightarrow> (Inl (IsDir name), tick st)
      | Some c \<Rightarrow> (Inr c, tick st))"

definition Stat :: "string \<Rightarrow> ('d, bool) op" where
  "Stat name st =
     (if fault st (access st) then (Inl (IoFault name), tick st)
      else case files st name of
        None \<Rightarrow> (Inl (NotExist name), tick st)
      | Some c \<Rightarrow> (Inr (case c of Directory \<Rightarrow> True | _ \<Rightarrow> False), tick st))"

definition writeFileAtomic :: "string \<Rightarrow> 'd content \<Rightarrow> ('d, unit) op" where
  "writeFileAtomic name c st =
     (if fault st (access st) then (Inl (IoFault name), tick st)
      else case files st name of
        Some Directory \<Rightarrow> (Inl (IsDir name), tick st)
      | _ \<Rightarrow> (Inr (), (tick st)\<lparr>files := (files st)(name \<mapsto> c), listing := insort_insert name (listing st)\<rparr>))"

definition removeStatePath :: "string \<Rightarrow> ('d, unit) op" where
  "removeStatePath name st =
     (if fault st (access st) then (Inl (IoFault name), tick st)
      else case files st name of
        None \<Rightarrow> (Inl (NotExist name), tick st)
      | Some Directory \<Rightarrow> (Inl (IsDir name), tick st)
      | Some c \<Rightarrow> (Inr (), (tick st)\<lparr>files := (files st)(name := None)\<rparr>))"

text \<open>
  \<^verbatim>\<open>os.ReadDir\<close> on a subdirectory: the names of its files in order. A subdirectory exists once it
  holds a file.
\<close>

definition stored :: "'d StateStore \<Rightarrow> string \<Rightarrow> bool" where
  "stored st n = (case files st n of None \<Rightarrow> False | Some _ \<Rightarrow> True)"

definition dir_entries :: "string \<Rightarrow> 'd StateStore \<Rightarrow> string list" where
  "dir_entries dir st = map (drop (length dir + 1))
     (filter (\<lambda>n. prefix (dir @ ''/'') n \<and> CHR ''/'' \<notin> set (drop (length dir + 1) n) \<and> stored st n) (listing st))"

definition ReadDir :: "string \<Rightarrow> ('d, string list) op" where
  "ReadDir dir st =
     (if fault st (access st) then (Inl (IoFault dir), tick st)
      else case dir_entries dir st of
        [] \<Rightarrow> (Inl (NotExist dir), tick st)
      | ns \<Rightarrow> (Inr ns, tick st))"

text \<open>\<^verbatim>\<open>repolock.AcquireWait\<close>: taking the lock may fail; the lock itself holds no state of the task.\<close>

definition AcquireWait :: "string \<Rightarrow> ('d, unit) op" where
  "AcquireWait name st =
     (if fault st (access st) then (Inl (IoFault name), tick st) else (Inr (), tick st))"

text \<open>\<^verbatim>\<open>time.Now().UTC()\<close>.\<close>

definition Now :: "('d, int) op" where
  "Now st = (Inr (now st), st)"

section \<open>Hoare triples\<close>

named_theorems triple_intro \<open>introduction rules for triples\<close>

definition triple ::
  "('d StateStore \<Rightarrow> bool) \<Rightarrow> ('d, 'a) op \<Rightarrow> ('a \<Rightarrow> 'd StateStore \<Rightarrow> bool) \<Rightarrow>
   (state_error \<Rightarrow> 'd StateStore \<Rightarrow> bool) \<Rightarrow> bool" where
  "triple P m Q E \<longleftrightarrow>
     (\<forall>st. P st \<longrightarrow> (case m st of (Inl e, st') \<Rightarrow> E e st' | (Inr v, st') \<Rightarrow> Q v st'))"

lemma tripleI:
  assumes "\<And>st e st'. P st \<Longrightarrow> m st = (Inl e, st') \<Longrightarrow> E e st'"
    and "\<And>st v st'. P st \<Longrightarrow> m st = (Inr v, st') \<Longrightarrow> Q v st'"
  shows "triple P m Q E"
  using assms by (auto simp: triple_def split: prod.split sum.split)

lemma triple_InlD: "triple P m Q E \<Longrightarrow> P st \<Longrightarrow> m st = (Inl e, st') \<Longrightarrow> E e st'"
  by (auto simp: triple_def split: prod.splits sum.splits)

lemma triple_InrD: "triple P m Q E \<Longrightarrow> P st \<Longrightarrow> m st = (Inr v, st') \<Longrightarrow> Q v st'"
  by (auto simp: triple_def split: prod.splits sum.splits)

lemma triple_bothD: "triple P m (\<lambda>_. R) (\<lambda>_. R) \<Longrightarrow> P st \<Longrightarrow> m st = (r, st') \<Longrightarrow> R st'"
  by (cases r) (auto dest: triple_InlD triple_InrD)

lemma triple_weaken:
  assumes "triple P' m Q' E'" "\<And>st. P st \<Longrightarrow> P' st"
    "\<And>v st. Q' v st \<Longrightarrow> Q v st" "\<And>e st. E' e st \<Longrightarrow> E e st"
  shows "triple P m Q E"
proof (rule tripleI)
  show "E e st'" if "P st" "m st = (Inl e, st')" for st e st'
    using assms(4) triple_InlD [OF assms(1) assms(2) [OF that(1)] that(2)] by blast
  show "Q v st'" if "P st" "m st = (Inr v, st')" for st v st'
    using assms(3) triple_InrD [OF assms(1) assms(2) [OF that(1)] that(2)] by blast
qed

lemma triple_pre: "(\<And>st. P st \<Longrightarrow> triple (\<lambda>st'. st' = st) m Q E) \<Longrightarrow> triple P m Q E"
  by (simp add: triple_def)

lemma triple_assume: "(C \<Longrightarrow> triple P m Q E) \<Longrightarrow> triple (\<lambda>st. C \<and> P st) m Q E"
  by (simp add: triple_def)

lemma triple_assume': "(C \<Longrightarrow> triple P m Q E) \<Longrightarrow> triple (\<lambda>st. P st \<and> C) m Q E"
  by (simp add: triple_def)

lemma triple_bind [triple_intro]:
  assumes "triple P m R E" "\<And>v. triple (R v) (k v) Q E"
  shows "triple P (bindE m k) Q E"
proof (rule tripleI)
  fix st e st' assume "P st" "bindE m k st = (Inl e, st')"
  then show "E e st'"
    by (auto simp: bindE_def split: prod.splits sum.splits
        dest: triple_InlD [OF assms(1)] triple_InrD [OF assms(1)] triple_InlD [OF assms(2)])
next
  fix st v st' assume "P st" "bindE m k st = (Inr v, st')"
  then show "Q v st'"
    by (auto simp: bindE_def split: prod.splits sum.splits
        dest: triple_InrD [OF assms(1)] triple_InrD [OF assms(2)])
qed

lemma triple_then [triple_intro]:
  assumes "triple P m (\<lambda>_. R) E" "triple R k Q E"
  shows "triple P (thenE m k) Q E"
  unfolding thenE_def by (rule triple_bind [OF assms(1)]) (rule assms(2))

lemma triple_catch [triple_intro]:
  assumes "triple P m Q R" "\<And>e. triple (R e) (h e) Q E"
  shows "triple P (catchE m h) Q E"
proof (rule tripleI)
  fix st e st' assume "P st" "catchE m h st = (Inl e, st')"
  then show "E e st'"
    by (auto simp: catchE_def split: prod.splits sum.splits
        dest: triple_InlD [OF assms(1)] triple_InlD [OF assms(2)])
next
  fix st v st' assume "P st" "catchE m h st = (Inr v, st')"
  then show "Q v st'"
    by (auto simp: catchE_def split: prod.splits sum.splits
        dest: triple_InrD [OF assms(1)] triple_InlD [OF assms(1)] triple_InrD [OF assms(2)])
qed

lemma triple_attempt:
  assumes "triple P m (\<lambda>v. Q (Inr v)) (\<lambda>e. Q (Inl e))"
  shows "triple P (attempt m) Q E"
proof (rule tripleI)
  show "Q r st'" if "P st" "attempt m st = (Inr r, st')" for st r st'
    using that triple_InlD [OF assms that(1)] triple_InrD [OF assms that(1)]
    by (cases r) (auto simp: attempt_def split: prod.splits)
qed (auto simp: attempt_def split: prod.splits)

lemma triple_return [triple_intro]: "(\<And>st. P st \<Longrightarrow> Q v st) \<Longrightarrow> triple P (returnE v) Q E"
  by (simp add: triple_def returnE_def)

lemma triple_throw [triple_intro]: "(\<And>st. P st \<Longrightarrow> E e st) \<Longrightarrow> triple P (throwE e) Q E"
  by (simp add: triple_def throwE_def)

lemma triple_check [triple_intro]:
  "(\<And>st. c = None \<Longrightarrow> P st \<Longrightarrow> Q () st) \<Longrightarrow> (\<And>e st. c = Some e \<Longrightarrow> P st \<Longrightarrow> E e st) \<Longrightarrow>
   triple P (check c) Q E"
  by (auto simp: triple_def check_def split: option.splits)

lemma triple_of_result [triple_intro]:
  "(\<And>v st. r = Inr v \<Longrightarrow> P st \<Longrightarrow> Q v st) \<Longrightarrow> (\<And>e st. r = Inl e \<Longrightarrow> P st \<Longrightarrow> E e st) \<Longrightarrow>
   triple P (of_result r) Q E"
  by (auto simp: triple_def of_result_def split: sum.splits)

lemma triple_if [triple_intro]:
  "(c \<Longrightarrow> triple P a Q E) \<Longrightarrow> (\<not> c \<Longrightarrow> triple P b Q E) \<Longrightarrow> triple P (if c then a else b) Q E"
  by simp

lemma triple_sum:
  "(\<And>e. r = Inl e \<Longrightarrow> triple P (f e) Q E) \<Longrightarrow> (\<And>v. r = Inr v \<Longrightarrow> triple P (g v) Q E) \<Longrightarrow>
   triple P (case r of Inl e \<Rightarrow> f e | Inr v \<Rightarrow> g v) Q E"
  by (cases r) simp_all

lemma triple_option:
  "(x = None \<Longrightarrow> triple P f Q E) \<Longrightarrow> (\<And>v. x = Some v \<Longrightarrow> triple P (g v) Q E) \<Longrightarrow>
   triple P (case x of None \<Rightarrow> f | Some v \<Rightarrow> g v) Q E"
  by (cases x) simp_all

lemma triple_wrap [triple_intro]:
  "triple P m Q (\<lambda>e. E (Wrapf msg e)) \<Longrightarrow> triple P (wrapE msg m) Q E"
  unfolding wrapE_def by (rule triple_catch) (auto intro: triple_throw)

section \<open>Laws of file access\<close>

text \<open>
  \<open>on F\<close> is the assertion that the file map is \<open>F\<close>. The laws below say what each access returns
  and what it leaves, for every fault oracle.
\<close>

definition on :: "(string \<Rightarrow> 'd content option) \<Rightarrow> 'd StateStore \<Rightarrow> bool" where
  "on F st \<longleftrightarrow> files st = F"

lemma files_tick [simp]: "files (tick st) = files st"
  by (simp add: tick_def)

lemma ReadFile_triple [triple_intro]:
  "triple (on F) (ReadFile n) (\<lambda>c st. F n = Some c \<and> c \<noteq> Directory \<and> on F st)
     (\<lambda>e st. (is_not_exist e \<longrightarrow> F n = None) \<and> \<not> rollback_failed e \<and> on F st)"
  by (rule tripleI) (auto simp: ReadFile_def on_def split: if_splits option.splits content.splits)

lemma writeFileAtomic_triple [triple_intro]:
  "triple (on F) (writeFileAtomic n c) (\<lambda>_ st. F n \<noteq> Some Directory \<and> on (F(n \<mapsto> c)) st)
     (\<lambda>e st. \<not> rollback_failed e \<and> on F st)"
  by (rule tripleI) (auto simp: writeFileAtomic_def on_def split: if_splits option.splits content.splits)

lemma removeStatePath_triple [triple_intro]:
  "triple (on F) (removeStatePath n) (\<lambda>_ st. F n \<noteq> Some Directory \<and> on (F(n := None)) st)
     (\<lambda>e st. (is_not_exist e \<longrightarrow> F n = None) \<and> \<not> rollback_failed e \<and> on F st)"
  by (rule tripleI) (auto simp: removeStatePath_def on_def split: if_splits option.splits content.splits)

lemma Stat_triple [triple_intro]:
  "triple (on F) (Stat n) (\<lambda>d st. F n \<noteq> None \<and> (d \<longleftrightarrow> F n = Some Directory) \<and> on F st)
     (\<lambda>e st. (is_not_exist e \<longrightarrow> F n = None) \<and> \<not> rollback_failed e \<and> on F st)"
  by (rule tripleI) (auto simp: Stat_def on_def split: if_splits option.splits content.splits)

lemma AcquireWait_triple [triple_intro]:
  "triple (on F) (AcquireWait n) (\<lambda>_. on F) (\<lambda>e st. \<not> rollback_failed e \<and> on F st)"
  by (rule tripleI) (auto simp: AcquireWait_def on_def split: if_splits)

lemma ReadDir_triple [triple_intro]:
  "triple (on F) (ReadDir d) (\<lambda>_. on F) (\<lambda>e st. \<not> rollback_failed e \<and> on F st)"
  by (rule tripleI) (auto simp: ReadDir_def on_def split: if_splits list.splits)

lemma Now_triple [triple_intro]: "triple (on F) Now (\<lambda>_. on F) (\<lambda>e st. False)"
  by (rule tripleI) (auto simp: Now_def on_def)

text \<open>
  Without faults the laws become equations, which the witnesses evaluate with.
\<close>

lemmas run_defs = bindE_def thenE_def catchE_def attempt_def returnE_def throwE_def check_def
  of_result_def wrapE_def ReadFile_def Stat_def writeFileAtomic_def removeStatePath_def
  AcquireWait_def Now_def tick_def ReadDir_def

end
