(* ===== verification/Resume.thy ===== *)
theory Resume
  imports File_Store
begin

text \<open>
  \<^verbatim>\<open>internal/state/resume.go\<close>: the resume checkpoint, the kinds of stop it can record, the rules
  that tie the payload of a checkpoint to its stop kind, and saving and loading it. The task
  statuses and session roles of \<^verbatim>\<open>store.go\<close> are here as well. A \<^verbatim>\<open>time.Time\<close> is an integer, 0 for the
  zero time. \<open>go_runtime\<close> holds what the code takes from outside: the Unicode tables, the RFC 3339
  parser, the formatters of times and the SHA-256 digest (in hexadecimal) of the Go library, and the
  Git snapshot of a working tree; the theorems hold for all of them.
\<close>

section \<open>Task statuses and roles\<close>

type_synonym TaskStatus = string
type_synonym SessionRole = string
type_synonym ResumeStage = string
type_synonym ResumeStopKind = string

definition WorkerRole :: SessionRole where "WorkerRole = ''worker''"
definition ReviewerRole :: SessionRole where "ReviewerRole = ''reviewer''"
definition FailurePathReviewerRole :: SessionRole where "FailurePathReviewerRole = ''failure-path-reviewer''"

definition TaskStatusActive :: TaskStatus where "TaskStatusActive = ''active''"
definition TaskStatusWaitingDecision :: TaskStatus where "TaskStatusWaitingDecision = ''waiting-decision''"
definition TaskStatusWaitingSolReview :: TaskStatus where "TaskStatusWaitingSolReview = ''waiting-sol-review''"
definition TaskStatusAwaitingParentCompletion :: TaskStatus where
  "TaskStatusAwaitingParentCompletion = ''awaiting-parent-completion''"
definition TaskStatusComplete :: TaskStatus where "TaskStatusComplete = ''complete''"
definition TaskStatusUserTerminated :: TaskStatus where "TaskStatusUserTerminated = ''user-terminated''"
definition TaskStatusRateLimited :: TaskStatus where "TaskStatusRateLimited = ''rate-limited''"
definition TaskStatusProviderUnavailable :: TaskStatus where
  "TaskStatusProviderUnavailable = ''provider-unavailable''"
definition TaskStatusGuardRecoverable :: TaskStatus where "TaskStatusGuardRecoverable = ''guard-recoverable''"
definition TaskStatusQualityGateRecoverable :: TaskStatus where
  "TaskStatusQualityGateRecoverable = ''quality-gate-recoverable''"
definition TaskStatusResultFormatRecoverable :: TaskStatus where
  "TaskStatusResultFormatRecoverable = ''result-format-recoverable''"
definition TaskStatusInterrupted :: TaskStatus where "TaskStatusInterrupted = ''interrupted''"
definition TaskStatusNone :: TaskStatus where "TaskStatusNone = ''none''"

lemmas task_status_defs = TaskStatusActive_def TaskStatusWaitingDecision_def
  TaskStatusWaitingSolReview_def TaskStatusAwaitingParentCompletion_def TaskStatusComplete_def
  TaskStatusUserTerminated_def TaskStatusRateLimited_def TaskStatusProviderUnavailable_def
  TaskStatusGuardRecoverable_def TaskStatusQualityGateRecoverable_def
  TaskStatusResultFormatRecoverable_def TaskStatusInterrupted_def TaskStatusNone_def

definition TaskStatus_Known :: "TaskStatus \<Rightarrow> bool" where
  "TaskStatus_Known status \<longleftrightarrow> status \<in> {TaskStatusNone, TaskStatusActive, TaskStatusWaitingDecision,
     TaskStatusWaitingSolReview, TaskStatusAwaitingParentCompletion, TaskStatusComplete,
     TaskStatusUserTerminated, TaskStatusRateLimited, TaskStatusProviderUnavailable,
     TaskStatusGuardRecoverable, TaskStatusQualityGateRecoverable,
     TaskStatusResultFormatRecoverable, TaskStatusInterrupted}"

section \<open>Stop kinds\<close>

definition ResumeStageWorker :: ResumeStage where "ResumeStageWorker = ''worker''"
definition ResumeStageReview :: ResumeStage where "ResumeStageReview = ''reviewer''"
definition ResumeStageAutoFix :: ResumeStage where "ResumeStageAutoFix = ''auto-fix''"

definition ResumeStopNone :: ResumeStopKind where "ResumeStopNone = ''''"
definition ResumeStopRateLimited :: ResumeStopKind where "ResumeStopRateLimited = ''rate-limited''"
definition ResumeStopProviderUnavailable :: ResumeStopKind where
  "ResumeStopProviderUnavailable = ''provider-unavailable''"
definition ResumeStopInterrupted :: ResumeStopKind where "ResumeStopInterrupted = ''interrupted''"
definition ResumeStopGuardRecoverable :: ResumeStopKind where
  "ResumeStopGuardRecoverable = ''guard-recoverable''"
definition ResumeStopQualityGate :: ResumeStopKind where
  "ResumeStopQualityGate = ''quality-gate-recoverable''"
definition ResumeStopResultFormat :: ResumeStopKind where
  "ResumeStopResultFormat = ''result-format-recoverable''"

lemmas stop_kind_defs = ResumeStopNone_def ResumeStopRateLimited_def ResumeStopProviderUnavailable_def
  ResumeStopInterrupted_def ResumeStopGuardRecoverable_def ResumeStopQualityGate_def
  ResumeStopResultFormat_def

definition stop_Valid :: "ResumeStopKind \<Rightarrow> bool" where
  "stop_Valid kind \<longleftrightarrow> kind \<in> {ResumeStopNone, ResumeStopRateLimited, ResumeStopProviderUnavailable,
     ResumeStopInterrupted, ResumeStopGuardRecoverable, ResumeStopQualityGate, ResumeStopResultFormat}"

definition stop_IsStopped :: "ResumeStopKind \<Rightarrow> bool" where
  "stop_IsStopped kind \<longleftrightarrow> kind \<noteq> ResumeStopNone \<and> stop_Valid kind"

definition CanInterruptQualitySurfaceApproval :: "ResumeStopKind \<Rightarrow> bool" where
  "CanInterruptQualitySurfaceApproval kind \<longleftrightarrow>
     kind \<in> {ResumeStopRateLimited, ResumeStopProviderUnavailable, ResumeStopInterrupted}"

definition stop_TaskStatus :: "ResumeStopKind \<Rightarrow> TaskStatus" where
  "stop_TaskStatus kind =
     (if kind = ResumeStopRateLimited then TaskStatusRateLimited
      else if kind = ResumeStopProviderUnavailable then TaskStatusProviderUnavailable
      else if kind = ResumeStopInterrupted then TaskStatusInterrupted
      else if kind = ResumeStopGuardRecoverable then TaskStatusGuardRecoverable
      else if kind = ResumeStopQualityGate then TaskStatusQualityGateRecoverable
      else if kind = ResumeStopResultFormat then TaskStatusResultFormatRecoverable
      else TaskStatusActive)"

definition ResumeSource :: "ResumeStopKind \<Rightarrow> string" where
  "ResumeSource kind =
     (if kind = ResumeStopRateLimited then ''rate-limit''
      else if kind = ResumeStopProviderUnavailable then ''provider-unavailable''
      else if kind = ResumeStopInterrupted then ''user-interrupt''
      else if kind = ResumeStopGuardRecoverable then ''guard-recovery''
      else if kind = ResumeStopQualityGate then ''quality-gate-recovery''
      else if kind = ResumeStopResultFormat then ''result-format-recovery''
      else '''')"

section \<open>The checkpoint\<close>

record GuardRefState =
  grs_Name :: string
  grs_ObjectID :: string
  grs_Symref :: string

record GuardRefChange =
  grc_Name :: string
  grc_Before :: "GuardRefState option"
  grc_After :: "GuardRefState option"

record ParentFileState =
  pfs_Path :: string
  pfs_Exists :: bool
  pfs_SHA256 :: string

record GitSnapshot =
  gs_Head :: string
  gs_IndexDigest :: string
  gs_WorktreeDigest :: string
  gs_WorktreeDigestExcludingParent :: string
  gs_ParentFiles :: "ParentFileState list option"

record StopDirtyFile =
  sdf_Path :: string
  sdf_IndexSHA :: string
  sdf_WorktreeSHA :: string
  sdf_IndexIdentity :: string
  sdf_WorktreeIdentity :: string

record ResumeCheckpoint =
  rc_Version :: int
  rc_Stage :: ResumeStage
  rc_Phase :: string
  rc_Role :: SessionRole
  rc_Model :: string
  rc_ReadOnly :: bool
  rc_Effort :: string
  rc_Prompt :: string
  rc_OriginalPrompt :: string
  rc_Request :: string
  rc_Decision :: string
  rc_ActivatedRuleFiles :: "string list"
  rc_DecisionBoundaryApplied :: bool
  rc_ExecutionMilestoneID :: string
  rc_WorkerResult :: "Result option"
  rc_CompletedResult :: "Result option"
  rc_ReviewNumber :: int
  rc_AutoFixes :: int
  rc_StopKind :: ResumeStopKind
  rc_ResetAtCST :: string
  rc_ResetAtRFC3339 :: string
  rc_ResultCorrection :: bool
  rc_SummaryRecovered :: bool
  rc_ReportOnly :: bool
  rc_EffectiveRisk :: string
  rc_EffectiveRiskSource :: string
  rc_ProviderUnavailableClassification :: string
  rc_ProviderUnavailableProbes :: int
  rc_ProviderUnavailableStartedAt :: int
  rc_GuardFailure :: string
  rc_GuardRefBeforeDigest :: string
  rc_GuardRefAfterDigest :: string
  rc_GuardRefChanges :: "GuardRefChange list"
  rc_GuardRefChangesTruncated :: bool
  rc_QualityGateFailure :: string
  rc_QualitySurfaceApprovalPending :: bool
  rc_QualitySurfaceApprovalActivated :: bool
  rc_StopGitSnapshot :: "GitSnapshot option"
  rc_StopDirtyFiles :: "StopDirtyFile list"

definition checkpoint_IsStopped :: "ResumeCheckpoint \<Rightarrow> bool" where
  "checkpoint_IsStopped c = stop_IsStopped (rc_StopKind c)"

definition MarkQualitySurfaceApprovalActivated ::
    "ResumeCheckpoint \<Rightarrow> (state_error, ResumeCheckpoint) result" where
  "MarkQualitySurfaceApprovalActivated c =
     (if \<not> rc_QualitySurfaceApprovalPending c then
        Inl (Errorf ''quality-surface approval activation requires a pending approval checkpoint'' [])
      else if checkpoint_IsStopped c then
        Inl (Errorf ''quality-surface approval activation cannot mark a stopped checkpoint'' [])
      else Inr (c\<lparr>rc_QualitySurfaceApprovalActivated := True\<rparr>))"

definition ContinueActivatedQualitySurfaceApproval ::
    "ResumeCheckpoint \<Rightarrow> (state_error, ResumeCheckpoint) result" where
  "ContinueActivatedQualitySurfaceApproval c =
     (if \<not> rc_QualitySurfaceApprovalPending c \<or> \<not> rc_QualitySurfaceApprovalActivated c \<or>
         \<not> checkpoint_IsStopped c then
        Inl (Errorf ''activated quality-surface approval continuation requires a stopped activated approval checkpoint'' [])
      else Inr (c\<lparr>rc_QualitySurfaceApprovalPending := False, rc_QualitySurfaceApprovalActivated := False\<rparr>))"

definition clearStopPayload :: "ResumeCheckpoint \<Rightarrow> ResumeCheckpoint" where
  "clearStopPayload c =
     (let clearCompletedResult = rc_StopKind c = ResumeStopGuardRecoverable \<or>
            rc_StopKind c = ResumeStopQualityGate \<or> \<not> rc_QualitySurfaceApprovalPending c;
          c = c\<lparr>rc_ResetAtCST := [], rc_ResetAtRFC3339 := [],
                rc_ProviderUnavailableClassification := [], rc_ProviderUnavailableProbes := 0,
                rc_ProviderUnavailableStartedAt := 0, rc_GuardFailure := [],
                rc_GuardRefBeforeDigest := [], rc_GuardRefAfterDigest := [],
                rc_GuardRefChanges := [], rc_GuardRefChangesTruncated := False,
                rc_QualityGateFailure := [], rc_SummaryRecovered := False\<rparr>;
          c = (if clearCompletedResult then c\<lparr>rc_CompletedResult := None\<rparr> else c)
      in c\<lparr>rc_StopGitSnapshot := None, rc_StopDirtyFiles := []\<rparr>)"

definition SetStopKind :: "ResumeStopKind \<Rightarrow> ResumeCheckpoint \<Rightarrow> ResumeCheckpoint" where
  "SetStopKind kind c =
     (let retainedSnapshot = rc_StopGitSnapshot c;
          retainedDirtyFiles = rc_StopDirtyFiles c;
          retainApprovalEvidence = rc_QualitySurfaceApprovalPending c;
          c = clearStopPayload c;
          c = (if retainApprovalEvidence
               then c\<lparr>rc_StopGitSnapshot := retainedSnapshot, rc_StopDirtyFiles := retainedDirtyFiles\<rparr>
               else c)
      in c\<lparr>rc_StopKind := kind\<rparr>)"

definition SetStopRepositoryBoundary :: "GitSnapshot \<Rightarrow> ResumeCheckpoint \<Rightarrow> ResumeCheckpoint" where
  "SetStopRepositoryBoundary snapshot c = c\<lparr>rc_StopGitSnapshot := Some snapshot\<rparr>"

definition ClearStop :: "ResumeCheckpoint \<Rightarrow> ResumeCheckpoint" where
  "ClearStop c = (clearStopPayload c)\<lparr>rc_StopKind := ResumeStopNone\<rparr>"

section \<open>Validation of the stop state\<close>

record go_runtime =
  rt_unicode :: unicode_tables
  rt_ParseRFC3339 :: "string \<Rightarrow> int option"
  rt_FormatCST :: "int \<Rightarrow> string"
  rt_FormatRFC3339Nano :: "int \<Rightarrow> string"
  rt_SHA256 :: "string \<Rightarrow> string"
  rt_CaptureGitSnapshot :: "nat \<Rightarrow> string \<Rightarrow> GitSnapshot option"

definition validateQualitySurfaceApprovalStop :: "ResumeCheckpoint \<Rightarrow> state_error option" where
  "validateQualitySurfaceApprovalStop c =
     (if rc_QualitySurfaceApprovalActivated c \<and> \<not> rc_QualitySurfaceApprovalPending c then
        Some (Errorf ''activated quality-surface approval checkpoint must retain the pending approval fact'' [])
      else if rc_QualitySurfaceApprovalPending c \<and> checkpoint_IsStopped c then
        (if \<not> CanInterruptQualitySurfaceApproval (rc_StopKind c) then
           Some (Errorf ''quality-surface approval checkpoint cannot carry non-transient resume stop kind'' [rc_StopKind c])
         else if rc_CompletedResult c = None then
           Some (Errorf ''stopped quality-surface approval checkpoint requires the completed worker result'' [])
         else None)
      else None)"

definition validateSummaryRecoveryStop :: "go_runtime \<Rightarrow> ResumeCheckpoint \<Rightarrow> state_error option" where
  "validateSummaryRecoveryStop rt c =
     (case rc_CompletedResult c of
        Some result \<Rightarrow>
          if rc_StopKind c \<noteq> ResumeStopInterrupted \<or> rc_Stage c \<noteq> ResumeStageWorker \<or>
             rc_Role c \<noteq> WorkerRole \<or> rc_ResultCorrection c \<or> r_Status result \<noteq> StatusImplemented
          then Some (Errorf ''summary recovery requires an interrupted completed worker report'' [])
          else map_option PacketErr (ValidateWorkerResult (rt_unicode rt) result)
      | None \<Rightarrow> Some (Errorf ''summary recovery requires an interrupted completed worker report'' []))"

definition validateRateLimitStopPayload :: "go_runtime \<Rightarrow> ResumeCheckpoint \<Rightarrow> state_error option" where
  "validateRateLimitStopPayload rt c =
     (if rc_StopKind c \<noteq> ResumeStopRateLimited then
        (if rc_ResetAtCST c = [] \<and> rc_ResetAtRFC3339 c = [] then None
         else Some (Errorf ''resume stop payload does not match stop kind: rate-limit reset metadata is present'' [rc_StopKind c]))
      else if rc_ResetAtRFC3339 c = [] then None
      else if rt_ParseRFC3339 rt (rc_ResetAtRFC3339 c) = None then
        Some (Errorf ''rate-limit reset_at_rfc3339 is invalid'' [])
      else None)"

definition validateProviderStopPayload :: "ResumeCheckpoint \<Rightarrow> state_error option" where
  "validateProviderStopPayload c =
     (if rc_StopKind c \<noteq> ResumeStopProviderUnavailable then
        (if rc_ProviderUnavailableClassification c = [] \<and> rc_ProviderUnavailableProbes c = 0 \<and>
            rc_ProviderUnavailableStartedAt c = 0 then None
         else Some (Errorf ''resume stop payload does not match stop kind: provider metadata is present'' [rc_StopKind c]))
      else if rc_ProviderUnavailableClassification c = [] then
        Some (Errorf ''provider-unavailable resume stop requires provider classification'' [])
      else if rc_ProviderUnavailableProbes c \<le> 0 then
        Some (Errorf ''provider-unavailable resume stop requires a positive probe count'' [])
      else if rc_ProviderUnavailableStartedAt c = 0 then
        Some (Errorf ''provider-unavailable resume stop requires recovery start time'' [])
      else None)"

definition validateGuardStopPayload :: "ResumeCheckpoint \<Rightarrow> state_error option" where
  "validateGuardStopPayload c =
     (if rc_StopKind c = ResumeStopGuardRecoverable then None
      else
        let guardEvidence = rc_GuardFailure c \<noteq> [] \<or> rc_GuardRefBeforeDigest c \<noteq> [] \<or>
              rc_GuardRefAfterDigest c \<noteq> [] \<or> rc_GuardRefChanges c \<noteq> [] \<or> rc_GuardRefChangesTruncated c;
            guardResult = rc_CompletedResult c \<noteq> None \<and> \<not> rc_QualitySurfaceApprovalPending c \<and>
              rc_StopKind c \<noteq> ResumeStopQualityGate \<and> \<not> rc_SummaryRecovered c
        in if \<not> guardEvidence \<and> \<not> guardResult then None
           else Some (Errorf ''resume stop payload does not match stop kind: guard-recovery metadata is present'' [rc_StopKind c]))"

definition validateQualityGateStopPayload :: "ResumeCheckpoint \<Rightarrow> state_error option" where
  "validateQualityGateStopPayload c =
     (if rc_StopKind c = ResumeStopQualityGate then
        (if rc_QualityGateFailure c = [] \<or> rc_CompletedResult c = None then
           Some (Errorf ''quality-gate recovery checkpoint requires the gate failure and the completed worker result'' [])
         else None)
      else if rc_QualityGateFailure c \<noteq> [] then
        Some (Errorf ''resume stop payload does not match stop kind: quality-gate metadata is present'' [rc_StopKind c])
      else None)"

definition validateStopState :: "go_runtime \<Rightarrow> ResumeCheckpoint \<Rightarrow> state_error option" where
  "validateStopState rt c = first_err
     [if rc_SummaryRecovered c then validateSummaryRecoveryStop rt c else None,
      if \<not> stop_Valid (rc_StopKind c) then Some (Errorf ''unknown resume stop kind'' [rc_StopKind c]) else None,
      validateQualitySurfaceApprovalStop c,
      validateRateLimitStopPayload rt c,
      validateProviderStopPayload c,
      validateGuardStopPayload c,
      validateQualityGateStopPayload c]"

definition rateLimitResetAtCST :: "go_runtime \<Rightarrow> string \<Rightarrow> string" where
  "rateLimitResetAtCST rt resetAtRFC3339 =
     (if resetAtRFC3339 = [] then []
      else case rt_ParseRFC3339 rt resetAtRFC3339 of
        None \<Rightarrow> []
      | Some resetAt \<Rightarrow> rt_FormatCST rt resetAt)"

section \<open>Persisted documents\<close>

text \<open>
  A persisted checkpoint in decoded form: the decoded fields, whether the keys \<^verbatim>\<open>report_only\<close> and
  \<^verbatim>\<open>stop_kind\<close> are present, and the names of the other top-level keys. The syntax of JSON (field tags, fields omitted when empty,
  the replacement of invalid UTF-8) is not modelled. \<open>marshal_checkpoint\<close> is the document that
  \<^verbatim>\<open>json.MarshalIndent\<close> writes, in this form: both keys always, no legacy key, and no \<^verbatim>\<open>ResetAtCST\<close> (its
  tag is \<^verbatim>\<open>json:"-"\<close>).
\<close>

record CheckpointDoc =
  cd_checkpoint :: ResumeCheckpoint
  cd_has_report_only :: bool
  cd_has_stop_kind :: bool
  cd_other_keys :: "string list"

definition resumeStateFile :: string where "resumeStateFile = ''resume-state.json''"
definition resumeStateVersion :: int where "resumeStateVersion = 6"

definition marshal_checkpoint :: "ResumeCheckpoint \<Rightarrow> CheckpointDoc" where
  "marshal_checkpoint c = \<lparr>cd_checkpoint = c\<lparr>rc_ResetAtCST := []\<rparr>, cd_has_report_only = True,
     cd_has_stop_kind = True, cd_other_keys = []\<rparr>"

definition validateResumePersistedKeys :: "CheckpointDoc \<Rightarrow> state_error option" where
  "validateResumePersistedKeys d =
     first_err (map (\<lambda>key. if key \<in> set (cd_other_keys d)
       then Some (Errorf ''resume state: legacy key'' [key]) else None)
       [''stop_parent_files'', ''reset_at_cst''])"

definition decode_checkpoint :: "go_runtime \<Rightarrow> CheckpointDoc \<Rightarrow> (state_error, ResumeCheckpoint) result" where
  "decode_checkpoint rt d =
     (let c = cd_checkpoint d in
      if rc_Version c \<noteq> resumeStateVersion then
        Inl (Errorf ''unsupported resume state version'' [itoa (rc_Version c)])
      else if \<not> cd_has_report_only d then Inl (Errorf ''resume state v6: no report_only key'' [])
      else if \<not> cd_has_stop_kind d then Inl (Errorf ''resume state v6: no stop_kind key'' [])
      else case validateResumePersistedKeys d of
        Some e \<Rightarrow> Inl e
      | None \<Rightarrow>
          if rc_Model c = [] then Inl (Errorf ''resume state model is required'' [])
          else case validateStopState rt c of
            Some e \<Rightarrow> Inl e
          | None \<Rightarrow> Inr (c\<lparr>rc_ResetAtCST := rateLimitResetAtCST rt (rc_ResetAtRFC3339 c)\<rparr>))"

section \<open>Facts\<close>

lemma stop_Valid_iff: "stop_Valid k \<longleftrightarrow> stop_IsStopped k \<or> k = ResumeStopNone"
  by (auto simp: stop_IsStopped_def stop_Valid_def)

lemma IsStopped_cases:
  "stop_IsStopped k \<longleftrightarrow> k \<in> {ResumeStopRateLimited, ResumeStopProviderUnavailable,
     ResumeStopInterrupted, ResumeStopGuardRecoverable, ResumeStopQualityGate, ResumeStopResultFormat}"
  by (auto simp: stop_IsStopped_def stop_Valid_def stop_kind_defs)

lemma stop_TaskStatus_not_active: "stop_IsStopped k \<Longrightarrow> stop_TaskStatus k \<noteq> TaskStatusActive"
  by (auto simp: IsStopped_cases stop_TaskStatus_def stop_kind_defs task_status_defs)

lemma stop_TaskStatus_inj:
  assumes "stop_IsStopped a" "stop_IsStopped b" "stop_TaskStatus a = stop_TaskStatus b"
  shows "a = b"
proof -
  have inj: "inj_on stop_TaskStatus {ResumeStopRateLimited, ResumeStopProviderUnavailable,
     ResumeStopInterrupted, ResumeStopGuardRecoverable, ResumeStopQualityGate, ResumeStopResultFormat}"
    by (simp add: stop_TaskStatus_def stop_kind_defs task_status_defs)
  show ?thesis
    by (rule inj_onD [OF inj assms(3) assms(1) [unfolded IsStopped_cases] assms(2) [unfolded IsStopped_cases]])
qed

text \<open>
  The stop kinds and the stopped task statuses correspond one to one: the status of a stopped
  kind is a known status other than active, and two stopped kinds with the same status are equal.
  A kind that is not a stop has status active.
\<close>

theorem stop_TaskStatus_bijective:
  "bij_betw stop_TaskStatus {k. stop_IsStopped k}
     {TaskStatusRateLimited, TaskStatusProviderUnavailable, TaskStatusInterrupted,
      TaskStatusGuardRecoverable, TaskStatusQualityGateRecoverable, TaskStatusResultFormatRecoverable} \<and>
   (\<forall>k. stop_TaskStatus k = TaskStatusActive \<longleftrightarrow> \<not> stop_IsStopped k)"
proof
  have "{k. stop_IsStopped k} = {ResumeStopRateLimited, ResumeStopProviderUnavailable,
     ResumeStopInterrupted, ResumeStopGuardRecoverable, ResumeStopQualityGate, ResumeStopResultFormat}"
    by (auto simp: IsStopped_cases)
  then show "bij_betw stop_TaskStatus {k. stop_IsStopped k}
     {TaskStatusRateLimited, TaskStatusProviderUnavailable, TaskStatusInterrupted,
      TaskStatusGuardRecoverable, TaskStatusQualityGateRecoverable, TaskStatusResultFormatRecoverable}"
    by (simp add: bij_betw_def stop_TaskStatus_def stop_kind_defs task_status_defs insert_commute)
  show "\<forall>k. stop_TaskStatus k = TaskStatusActive \<longleftrightarrow> \<not> stop_IsStopped k"
    by (auto simp: IsStopped_cases stop_TaskStatus_def stop_kind_defs task_status_defs)
qed

lemmas stop_state_defs = validateQualitySurfaceApprovalStop_def validateRateLimitStopPayload_def
  validateProviderStopPayload_def validateGuardStopPayload_def validateQualityGateStopPayload_def

lemma clearStopPayload_cleared:
  "rc_ResetAtCST (clearStopPayload c) = []" "rc_ResetAtRFC3339 (clearStopPayload c) = []"
  "rc_ProviderUnavailableClassification (clearStopPayload c) = []"
  "rc_ProviderUnavailableProbes (clearStopPayload c) = 0"
  "rc_ProviderUnavailableStartedAt (clearStopPayload c) = 0"
  "rc_GuardFailure (clearStopPayload c) = []" "rc_GuardRefBeforeDigest (clearStopPayload c) = []"
  "rc_GuardRefAfterDigest (clearStopPayload c) = []" "rc_GuardRefChanges (clearStopPayload c) = []"
  "\<not> rc_GuardRefChangesTruncated (clearStopPayload c)" "rc_QualityGateFailure (clearStopPayload c) = []"
  "\<not> rc_SummaryRecovered (clearStopPayload c)"
  "\<not> rc_QualitySurfaceApprovalPending c \<Longrightarrow> rc_CompletedResult (clearStopPayload c) = None"
  "rc_QualitySurfaceApprovalPending (clearStopPayload c) = rc_QualitySurfaceApprovalPending c"
  "rc_QualitySurfaceApprovalActivated (clearStopPayload c) = rc_QualitySurfaceApprovalActivated c"
  "rc_StopKind (clearStopPayload c) = rc_StopKind c"
  by (simp_all add: clearStopPayload_def Let_def)

text \<open>
  Clearing a stop always yields a checkpoint without a stop whose state validates, as long as
  the approval flags of the checkpoint were consistent: no payload of any stop kind survives.
\<close>

theorem ClearStop_validates:
  assumes "rc_QualitySurfaceApprovalActivated c \<longrightarrow> rc_QualitySurfaceApprovalPending c"
  shows "validateStopState rt (ClearStop c) = None \<and> \<not> checkpoint_IsStopped (ClearStop c)"
  using assms
  by (auto simp: validateStopState_def stop_state_defs ClearStop_def clearStopPayload_cleared
      checkpoint_IsStopped_def stop_IsStopped_def stop_Valid_def stop_kind_defs)

text \<open>
  In every checkpoint that validates, a stop payload belongs to its stop kind: reset times only
  with a rate limit, provider metadata exactly with provider-unavailable, a gate failure exactly
  with the quality gate, guard evidence only with the guard; a completed result is kept only for
  the guard, the gate, a pending approval or a recovered summary; and a stop during a pending
  approval is transient and keeps the completed result.
\<close>

theorem validateStopState_payload_owner:
  assumes "validateStopState rt c = None"
  shows "stop_Valid (rc_StopKind c) \<and>
     (rc_ResetAtRFC3339 c \<noteq> [] \<longrightarrow> rc_StopKind c = ResumeStopRateLimited \<and>
        rt_ParseRFC3339 rt (rc_ResetAtRFC3339 c) \<noteq> None) \<and>
     (rc_StopKind c = ResumeStopProviderUnavailable \<longleftrightarrow>
        rc_ProviderUnavailableClassification c \<noteq> [] \<or> rc_ProviderUnavailableProbes c \<noteq> 0 \<or>
        rc_ProviderUnavailableStartedAt c \<noteq> 0) \<and>
     (rc_StopKind c = ResumeStopQualityGate \<longleftrightarrow> rc_QualityGateFailure c \<noteq> []) \<and>
     (rc_GuardFailure c \<noteq> [] \<or> rc_GuardRefChanges c \<noteq> [] \<longrightarrow> rc_StopKind c = ResumeStopGuardRecoverable) \<and>
     (rc_CompletedResult c \<noteq> None \<longrightarrow>
        rc_StopKind c \<in> {ResumeStopGuardRecoverable, ResumeStopQualityGate} \<or>
        rc_QualitySurfaceApprovalPending c \<or> rc_SummaryRecovered c) \<and>
     (rc_QualitySurfaceApprovalPending c \<and> checkpoint_IsStopped c \<longrightarrow>
        CanInterruptQualitySurfaceApproval (rc_StopKind c) \<and> rc_CompletedResult c \<noteq> None)"
proof -
  have parts: "stop_Valid (rc_StopKind c)" "validateQualitySurfaceApprovalStop c = None"
    "validateRateLimitStopPayload rt c = None" "validateProviderStopPayload c = None"
    "validateGuardStopPayload c = None" "validateQualityGateStopPayload c = None"
    using assms by (simp_all add: validateStopState_def del: first_err.simps split: if_splits)
  have "rc_ResetAtRFC3339 c \<noteq> [] \<longrightarrow> rc_StopKind c = ResumeStopRateLimited \<and>
        rt_ParseRFC3339 rt (rc_ResetAtRFC3339 c) \<noteq> None"
    using parts(3) by (auto simp: validateRateLimitStopPayload_def split: if_splits)
  moreover have "rc_StopKind c = ResumeStopProviderUnavailable \<longleftrightarrow>
        rc_ProviderUnavailableClassification c \<noteq> [] \<or> rc_ProviderUnavailableProbes c \<noteq> 0 \<or>
        rc_ProviderUnavailableStartedAt c \<noteq> 0"
    using parts(4) by (auto simp: validateProviderStopPayload_def split: if_splits)
  moreover have "rc_StopKind c = ResumeStopQualityGate \<longleftrightarrow> rc_QualityGateFailure c \<noteq> []"
    using parts(6) by (auto simp: validateQualityGateStopPayload_def split: if_splits)
  moreover have "(rc_GuardFailure c \<noteq> [] \<or> rc_GuardRefChanges c \<noteq> [] \<longrightarrow> rc_StopKind c = ResumeStopGuardRecoverable) \<and>
     (rc_CompletedResult c \<noteq> None \<longrightarrow>
        rc_StopKind c \<in> {ResumeStopGuardRecoverable, ResumeStopQualityGate} \<or>
        rc_QualitySurfaceApprovalPending c \<or> rc_SummaryRecovered c)"
    using parts(5) by (auto simp: validateGuardStopPayload_def Let_def split: if_splits)
  moreover have "rc_QualitySurfaceApprovalPending c \<and> checkpoint_IsStopped c \<longrightarrow>
        CanInterruptQualitySurfaceApproval (rc_StopKind c) \<and> rc_CompletedResult c \<noteq> None"
    using parts(2) by (auto simp: validateQualitySurfaceApprovalStop_def split: if_splits)
  ultimately show ?thesis
    using parts(1) by blast
qed

lemma stop_state_stored:
  "validateStopState rt c = None \<Longrightarrow> validateStopState rt (c\<lparr>rc_Version := v, rc_ResetAtCST := []\<rparr>) = None"
proof -
  let ?c = "c\<lparr>rc_Version := v, rc_ResetAtCST := []\<rparr>"
  have "validateSummaryRecoveryStop rt ?c = validateSummaryRecoveryStop rt c"
    by (cases "rc_CompletedResult c") (simp_all add: validateSummaryRecoveryStop_def)
  moreover have "validateQualitySurfaceApprovalStop ?c = validateQualitySurfaceApprovalStop c"
    by (simp add: validateQualitySurfaceApprovalStop_def checkpoint_IsStopped_def)
  moreover have "validateProviderStopPayload ?c = validateProviderStopPayload c"
    by (simp add: validateProviderStopPayload_def)
  moreover have "validateGuardStopPayload ?c = validateGuardStopPayload c"
    by (auto simp: validateGuardStopPayload_def Let_def)
  moreover have "validateQualityGateStopPayload ?c = validateQualityGateStopPayload c"
    by (simp add: validateQualityGateStopPayload_def)
  moreover have "validateRateLimitStopPayload rt c = None \<Longrightarrow> validateRateLimitStopPayload rt ?c = None"
    by (auto simp: validateRateLimitStopPayload_def split: if_splits)
  ultimately show "validateStopState rt c = None \<Longrightarrow> validateStopState rt ?c = None"
    by (simp add: validateStopState_def del: first_err.simps split: if_splits)
qed

text \<open>A concrete checkpoint for witnesses: a worker call of the first milestone.\<close>

definition sample_checkpoint :: ResumeCheckpoint where
  "sample_checkpoint = \<lparr>rc_Version = 6, rc_Stage = ''worker'', rc_Phase = ''worker-new'', rc_Role = ''worker'',
     rc_Model = ''glm'', rc_ReadOnly = False, rc_Effort = [], rc_Prompt = ''p'', rc_OriginalPrompt = [],
     rc_Request = ''r'', rc_Decision = [], rc_ActivatedRuleFiles = [], rc_DecisionBoundaryApplied = False,
     rc_ExecutionMilestoneID = [], rc_WorkerResult = None, rc_CompletedResult = None, rc_ReviewNumber = 0,
     rc_AutoFixes = 0, rc_StopKind = [], rc_ResetAtCST = [], rc_ResetAtRFC3339 = [],
     rc_ResultCorrection = False, rc_SummaryRecovered = False, rc_ReportOnly = False, rc_EffectiveRisk = [],
     rc_EffectiveRiskSource = [], rc_ProviderUnavailableClassification = [],
     rc_ProviderUnavailableProbes = 0, rc_ProviderUnavailableStartedAt = 0, rc_GuardFailure = [],
     rc_GuardRefBeforeDigest = [], rc_GuardRefAfterDigest = [], rc_GuardRefChanges = [],
     rc_GuardRefChangesTruncated = False, rc_QualityGateFailure = [],
     rc_QualitySurfaceApprovalPending = False, rc_QualitySurfaceApprovalActivated = False,
     rc_StopGitSnapshot = None, rc_StopDirtyFiles = []\<rparr>"

definition sample_runtime :: go_runtime where
  "sample_runtime = \<lparr>rt_unicode = ascii_tables,
     rt_ParseRFC3339 = (\<lambda>s. if s = ''2026-01-01T00:00:00Z'' then Some 1767225600 else None),
     rt_FormatCST = itoa, rt_FormatRFC3339Nano = (\<lambda>_. ''2026-01-01T00:00:00Z''),
     rt_SHA256 = (\<lambda>_. replicate 64 CHR ''0''),
     rt_CaptureGitSnapshot = (\<lambda>_ root. if root = [] then None
       else Some \<lparr>gs_Head = ''h'', gs_IndexDigest = ''i'', gs_WorktreeDigest = ''w'',
         gs_WorktreeDigestExcludingParent = [], gs_ParentFiles = None\<rparr>)\<rparr>"

lemmas sample_defs = sample_checkpoint_def sample_runtime_def

theorem ClearStop_validates_witness:
  "validateStopState sample_runtime (ClearStop (sample_checkpoint\<lparr>rc_StopKind := ResumeStopInterrupted\<rparr>)) = None"
  using ClearStop_validates [of "sample_checkpoint\<lparr>rc_StopKind := ResumeStopInterrupted\<rparr>" sample_runtime]
  by (simp add: sample_checkpoint_def)

theorem validateStopState_payload_owner_witness:
  "rc_StopKind (sample_checkpoint\<lparr>rc_StopKind := ResumeStopRateLimited,
      rc_ResetAtRFC3339 := ''2026-01-01T00:00:00Z''\<rparr>) = ResumeStopRateLimited"
  using validateStopState_payload_owner [of sample_runtime
      "sample_checkpoint\<lparr>rc_StopKind := ResumeStopRateLimited,
      rc_ResetAtRFC3339 := ''2026-01-01T00:00:00Z''\<rparr>"]
  by (simp add: sample_defs validateStopState_def stop_state_defs stop_kind_defs stop_Valid_def
      checkpoint_IsStopped_def)

end
