(* ===== verification/Uuid.thy ===== *)
theory Uuid
  imports Go_Json "HOL-Library.Word"
begin

text \<open>
  \<^verbatim>\<open>internal/state/store_util.go\<close>: generation and recognition of the version-4 UUIDs that identify
  tasks, sessions and reviews. The sixteen bytes of \<^verbatim>\<open>crypto/rand\<close> are the argument of \<open>NewUUID\<close>, at
  their width of eight bits.
\<close>

unbundle bit_operations_syntax

definition hex_byte :: "8 word \<Rightarrow> string" where
  "hex_byte b = [hex_digit (unat b div 16), hex_digit (unat b mod 16)]"

definition hex_bytes :: "8 word list \<Rightarrow> string" where
  "hex_bytes bs = concat (map hex_byte bs)"

definition NewUUID :: "8 word list \<Rightarrow> string" where
  "NewUUID bytes =
     (let value = bytes[6 := (bytes ! 6 AND 0x0f) OR 0x40];
          value = value[8 := (value ! 8 AND 0x3f) OR 0x80]
      in hex_bytes (take 4 value) @ ''-'' @ hex_bytes (take 2 (drop 4 value)) @ ''-'' @
         hex_bytes (take 2 (drop 6 value)) @ ''-'' @ hex_bytes (take 2 (drop 8 value)) @ ''-'' @
         hex_bytes (take 6 (drop 10 value)))"

definition isLowerHexDigit :: "char \<Rightarrow> bool" where
  "isLowerHexDigit c \<longleftrightarrow> (48 \<le> byte c \<and> byte c \<le> 57) \<or> (97 \<le> byte c \<and> byte c \<le> 102)"

definition ValidUUIDFormat :: "string \<Rightarrow> bool" where
  "ValidUUIDFormat s \<longleftrightarrow> length s = 36 \<and>
     list_all (\<lambda>i. if i \<in> {8, 13, 18, 23} then s ! i = CHR ''-'' else isLowerHexDigit (s ! i)) [0..<36]"

definition ValidGeneratedUUID :: "string \<Rightarrow> bool" where
  "ValidGeneratedUUID s \<longleftrightarrow> ValidUUIDFormat s \<and> s ! 14 = CHR ''4'' \<and> s ! 19 \<in> set ''89ab''"

lemma hex_digit_lower: "n < 16 \<Longrightarrow> isLowerHexDigit (hex_digit n)"
  by (auto simp: isLowerHexDigit_def hex_digit_def)

lemma unat_byte_bounds: "unat (b :: 8 word) div 16 < 16" "unat (b :: 8 word) mod 16 < 16"
proof -
  have "unat b < 256" using unsigned_less [of b] by simp
  then show "unat b div 16 < 16" "unat b mod 16 < 16" by auto
qed

lemma hex_byte_lower:
  "isLowerHexDigit (hex_byte b ! 0)" "isLowerHexDigit (hex_byte b ! Suc 0)"
  by (simp_all add: hex_byte_def hex_digit_lower unat_byte_bounds)

lemma version_nibble: "unat ((b AND 0x0f) OR 0x40 :: 8 word) div 16 = 4"
proof -
  have "drop_bit 4 ((b AND 0x0f) OR 0x40 :: 8 word) = 4"
    by (rule bit_word_eqI) (auto simp: bit_simps bit_numeral_rec less_Suc_eq numeral_eq_Suc)
  then have "unat (drop_bit 4 ((b AND 0x0f) OR 0x40 :: 8 word)) = 4" by simp
  then show ?thesis unfolding unat_drop_bit_eq by (simp add: drop_bit_eq_div)
qed

lemma variant_nibble: "unat ((b AND 0x3f) OR 0x80 :: 8 word) div 16 \<in> {8, 9, 10, 11}"
proof -
  have "drop_bit 6 ((b AND 0x3f) OR 0x80 :: 8 word) = 2"
    by (rule bit_word_eqI) (auto simp: bit_simps bit_numeral_rec less_Suc_eq numeral_eq_Suc)
  then have "unat (drop_bit 6 ((b AND 0x3f) OR 0x80 :: 8 word)) = 2" by simp
  then have "unat ((b AND 0x3f) OR 0x80 :: 8 word) div 64 = 2"
    unfolding unat_drop_bit_eq by (simp add: drop_bit_eq_div)
  then have "128 \<le> unat ((b AND 0x3f) OR 0x80 :: 8 word)" "unat ((b AND 0x3f) OR 0x80 :: 8 word) < 192"
    by (auto simp: div_nat_eqI)
  then show ?thesis by auto
qed

lemma hex_digit_values:
  "hex_digit 4 = CHR ''4''" "hex_digit 8 = CHR ''8''" "hex_digit 9 = CHR ''9''"
  "hex_digit 10 = CHR ''a''" "hex_digit 11 = CHR ''b''"
  by code_simp+

lemma length_16_cases:
  assumes "length bs = 16"
  obtains b0 b1 b2 b3 b4 b5 b6 b7 b8 b9 ba bb bc bd be bf where
    "bs = [b0, b1, b2, b3, b4, b5, b6, b7, b8, b9, ba, bb, bc, bd, be, bf]"
  using assms by (auto simp: length_Suc_conv numeral_eq_Suc)

lemma NewUUID_generated:
  assumes "length bytes = 16"
  shows "ValidGeneratedUUID (NewUUID bytes)"
proof -
  obtain b0 b1 b2 b3 b4 b5 b6 b7 b8 b9 ba bb bc bd be bf where
    bytes: "bytes = [b0, b1, b2, b3, b4, b5, b6, b7, b8, b9, ba, bb, bc, bd, be, bf]"
    using length_16_cases [OF assms] .
  let ?v = "(b6 AND 0x0f) OR 0x40" and ?w = "(b8 AND 0x3f) OR 0x80"
  have expand: "NewUUID bytes = hex_byte b0 @ hex_byte b1 @ hex_byte b2 @ hex_byte b3 @ ''-'' @
      hex_byte b4 @ hex_byte b5 @ ''-'' @ hex_byte ?v @ hex_byte b7 @ ''-'' @ hex_byte ?w @ hex_byte b9 @
      ''-'' @ hex_byte ba @ hex_byte bb @ hex_byte bc @ hex_byte bd @ hex_byte be @ hex_byte bf"
    by (simp add: NewUUID_def bytes hex_bytes_def Let_def numeral_eq_Suc)
  have "ValidUUIDFormat (NewUUID bytes)"
    unfolding expand
    by (simp add: ValidUUIDFormat_def upt_rec hex_byte_def hex_digit_lower unat_byte_bounds)
  moreover have "NewUUID bytes ! 14 = hex_digit (unat ?v div 16)"
    unfolding expand by (simp add: hex_byte_def)
  moreover have "NewUUID bytes ! 19 = hex_digit (unat ?w div 16)"
    unfolding expand by (simp add: hex_byte_def)
  ultimately show ?thesis
    using version_nibble [of b6] variant_nibble [of b8]
    by (auto simp: ValidGeneratedUUID_def hex_digit_values)
qed

text \<open>
  Every identifier that \<open>NewUUID\<close> builds from sixteen random bytes is recognised as a generated
  UUID: 36 characters, lower-case hexadecimal digits with four hyphens, version 4 and variant
  8 to b.
\<close>

theorem NewUUID_valid: "length bytes = 16 \<Longrightarrow> ValidGeneratedUUID (NewUUID bytes)"
  by (rule NewUUID_generated)

theorem NewUUID_valid_witness: "ValidGeneratedUUID (NewUUID (map of_nat [0..<16]))"
  using NewUUID_valid [of "map of_nat [0..<16]"] by simp

end
