(* ===== verification/Review_State.thy ===== *)
theory Review_State
  imports Resume Uuid
begin

text \<open>
  \<^verbatim>\<open>internal/state/parent_review_state.go\<close>, \<^verbatim>\<open>parent_review_evidence.go\<close>, \<^verbatim>\<open>parent_review_coverage.go\<close>
  and the declarations of \<^verbatim>\<open>parent_review.go\<close>: the parent's open review of a task, the evidence bound
  to it and the completion outcome, with the rules a stored state must obey. This theory holds the
  types and the pure functions; the operations on the store are in \<open>Store\<close>.
\<close>

section \<open>Types\<close>

record SnapshotDigest =
  sd_Head :: string
  sd_IndexDigest :: string
  sd_WorktreeDigest :: string
  sd_WorktreeDigestExcludingParent :: string

record ParentReviewOpenState =
  pro_PacketStatus :: string
  pro_Role :: string
  pro_ModelAlias :: string
  pro_Risk :: string

record ParentReviewProducer =
  prp_Role :: string
  prp_Model :: string

record ParentReviewEvidenceClaim =
  ec_Kind :: string
  ec_Digest :: string
  ec_Locator :: string

record ParentReviewEvidenceProof =
  ep_ReviewID :: string
  ep_OwnerCallID :: string
  ep_Snapshot :: SnapshotDigest
  ep_Claims :: "ParentReviewEvidenceClaim list"

record ParentReviewTargetCoverageClaim =
  tc_Target :: string
  tc_Evidence :: ParentReviewEvidenceClaim
  tc_OwnerCallID :: string

record ParentReviewEvidenceCoverage =
  cov_ReviewID :: string
  cov_Lease :: int
  cov_Snapshot :: SnapshotDigest
  cov_Claims :: "ParentReviewTargetCoverageClaim list"

record ParentReviewBinding =
  rb_ID :: string
  rb_PacketSHA256 :: string
  rb_Targets :: "string list"
  rb_SolQuestion :: string
  rb_Snapshot :: SnapshotDigest
  rb_Coverage :: "ParentReviewEvidenceCoverage option"
  rb_Proof :: "ParentReviewEvidenceProof option"

record ParentCompletionOutcome =
  pco_Terminal :: string
  pco_Risk :: string
  pco_Source :: "SnapshotDigest option"
  pco_Review :: "ParentReviewBinding option"

record ParentReviewState =
  prs_Version :: int
  prs_TaskID :: string
  prs_Open :: "ParentReviewOpenState option"
  prs_Review :: "ParentReviewBinding option"
  prs_Completion :: "ParentCompletionOutcome option"

definition parentReviewStateFile :: string where "parentReviewStateFile = ''parent-review-state.json''"
definition parentReviewStateVersion :: int where "parentReviewStateVersion = 1"
definition SessionRotationTerminalAccept :: string where "SessionRotationTerminalAccept = ''accept''"
definition SessionRotationTerminalNoGo :: string where "SessionRotationTerminalNoGo = ''no-go''"
definition roundCommentNone :: string where "roundCommentNone = ''none''"

definition ParentOutcomeAccepted :: string where "ParentOutcomeAccepted = ''accepted''"
definition ParentOutcomeFix :: string where "ParentOutcomeFix = ''fix''"
definition ParentOutcomeDecision :: string where "ParentOutcomeDecision = ''decision''"
definition ParentOutcomeUnknown :: string where "ParentOutcomeUnknown = ''unknown''"
definition ParentOutcomeNoGo :: string where "ParentOutcomeNoGo = ''no-go''"

lemmas outcome_defs = ParentOutcomeAccepted_def ParentOutcomeFix_def ParentOutcomeDecision_def
  ParentOutcomeUnknown_def ParentOutcomeNoGo_def SessionRotationTerminalAccept_def
  SessionRotationTerminalNoGo_def

definition ParentOriginUnknown :: string where "ParentOriginUnknown = ''unknown''"

definition ValidParentOrigin :: "string \<Rightarrow> bool" where
  "ValidParentOrigin value \<longleftrightarrow> value \<in> {''codex-review'', ''glm-reviewer'', ''user-amendment'',
     ''external-review'', ''metadata-repair''}"

definition ValidParentCause :: "string \<Rightarrow> bool" where
  "ValidParentCause value \<longleftrightarrow> value \<in> {''parent-orchestration'', ''requirement-preservation'', ''worker'',
     ''reviewer'', ''sol-gate'', ''production-wiring'', ''test-scenario'', ''cross-cutting-invariant'',
     ''unknown''}"

definition parentOutcomeKinds :: "string \<Rightarrow> bool" where
  "parentOutcomeKinds kind \<longleftrightarrow> kind \<in> {ParentOutcomeAccepted, ParentOutcomeFix, ParentOutcomeDecision,
     ParentOutcomeUnknown, ParentOutcomeNoGo}"

definition parentPhaseOfKind :: "string \<Rightarrow> string" where
  "parentPhaseOfKind kind =
     (if kind = ParentOutcomeAccepted then ''parent-accept''
      else if kind = ParentOutcomeFix then ''parent-fix''
      else if kind = ParentOutcomeDecision then ''parent-decision''
      else ''parent-close'')"

definition validateParentFixDeclaration :: "string \<Rightarrow> string \<Rightarrow> state_error option" where
  "validateParentFixDeclaration origin cause =
     (if origin \<noteq> [] \<and> \<not> ValidParentOrigin origin then Some (Errorf ''unknown parent fix origin'' [origin])
      else if cause \<noteq> [] \<and> \<not> ValidParentCause cause then Some (Errorf ''unknown parent fix cause'' [cause])
      else None)"

section \<open>Validation of a stored state\<close>

definition validParentReviewPacketStatus :: "string \<Rightarrow> bool" where
  "validParentReviewPacketStatus status \<longleftrightarrow>
     status \<in> {StatusNeedsSolDecision, StatusNeedsSolReview, StatusPass}"

definition completeParentReviewSnapshot :: "SnapshotDigest \<Rightarrow> bool" where
  "completeParentReviewSnapshot s \<longleftrightarrow> sd_Head s \<noteq> [] \<and> sd_IndexDigest s \<noteq> [] \<and> sd_WorktreeDigest s \<noteq> []"

definition sameParentReviewSnapshot :: "SnapshotDigest \<Rightarrow> SnapshotDigest \<Rightarrow> bool" where
  "sameParentReviewSnapshot l r \<longleftrightarrow>
     sd_Head l = sd_Head r \<and> sd_IndexDigest l = sd_IndexDigest r \<and> sd_WorktreeDigest l = sd_WorktreeDigest r"

definition snapshotDigest :: "GitSnapshot \<Rightarrow> SnapshotDigest" where
  "snapshotDigest s = \<lparr>sd_Head = gs_Head s, sd_IndexDigest = gs_IndexDigest s,
     sd_WorktreeDigest = gs_WorktreeDigest s,
     sd_WorktreeDigestExcludingParent = gs_WorktreeDigestExcludingParent s\<rparr>"

text \<open>\<^verbatim>\<open>hex.DecodeString\<close> succeeds on an even number of hexadecimal digits of either case.\<close>

definition hex_decodable :: "string \<Rightarrow> bool" where
  "hex_decodable s \<longleftrightarrow> even (length s) \<and>
     list_all (\<lambda>c. isLowerHexDigit c \<or> (65 \<le> byte c \<and> byte c \<le> 70)) s"

definition validParentReviewEvidenceClaim :: "ParentReviewEvidenceClaim \<Rightarrow> bool" where
  "validParentReviewEvidenceClaim c \<longleftrightarrow>
     (ec_Kind c = ''diff'' \<or> ec_Kind c = ''source'') \<and> ec_Digest c \<noteq> [] \<and> ec_Locator c \<noteq> []"

definition validateParentReviewBindingIdentity ::
    "ParentReviewState \<Rightarrow> ParentReviewBinding \<Rightarrow> state_error option" where
  "validateParentReviewBindingIdentity state binding =
     (if (case prs_Open state of None \<Rightarrow> True | Some open \<Rightarrow> pro_PacketStatus open \<noteq> StatusNeedsSolReview) then
        Some (Errorf ''parent review evidence binding exists without an open review'' [StatusNeedsSolReview])
      else if rb_ID binding = [] \<or> \<not> ValidUUIDFormat (rb_ID binding) \<or> length (rb_PacketSHA256 binding) \<noteq> 64 then
        Some (Errorf ''parent review evidence binding schema is invalid'' [])
      else if rb_Targets binding = [] \<or> trim_space (rb_SolQuestion binding) = [] \<or>
         \<not> completeParentReviewSnapshot (rb_Snapshot binding) then
        Some (Errorf ''parent review evidence binding schema is invalid'' [])
      else if \<not> hex_decodable (rb_PacketSHA256 binding) then
        Some (Errorf ''parent review packet digest is invalid'' [])
      else None)"

text \<open>\<open>coverage_claims_err\<close> is the loop over the claims of a coverage, with its \<^verbatim>\<open>seen\<close> set.\<close>

fun coverage_claims_err ::
    "string list \<Rightarrow> string list \<Rightarrow> ParentReviewTargetCoverageClaim list \<Rightarrow> state_error option" where
  "coverage_claims_err allowed seen [] = None"
| "coverage_claims_err allowed seen (covered # rest) =
     (if tc_Target covered \<notin> set allowed \<or> tc_OwnerCallID covered = [] \<or>
         \<not> validParentReviewEvidenceClaim (tc_Evidence covered) then
        Some (Errorf ''parent review evidence coverage claim schema is invalid'' [])
      else if tc_Target covered \<in> set seen then
        Some (Errorf ''parent review evidence coverage has duplicate target'' [tc_Target covered])
      else coverage_claims_err allowed (tc_Target covered # seen) rest)"

definition validateParentReviewEvidenceCoverage :: "ParentReviewBinding \<Rightarrow> state_error option" where
  "validateParentReviewEvidenceCoverage binding =
     (case rb_Coverage binding of
        None \<Rightarrow> None
      | Some coverage \<Rightarrow>
          if cov_ReviewID coverage \<noteq> rb_ID binding \<or> cov_Lease coverage < 0 \<or>
             \<not> sameParentReviewSnapshot (cov_Snapshot coverage) (rb_Snapshot binding) \<or>
             cov_Claims coverage = [] then
            Some (Errorf ''parent review evidence coverage schema is invalid'' [])
          else coverage_claims_err (rb_Targets binding) [] (cov_Claims coverage))"

definition validateParentReviewEvidenceProof :: "ParentReviewBinding \<Rightarrow> state_error option" where
  "validateParentReviewEvidenceProof binding =
     (case rb_Proof binding of
        None \<Rightarrow> None
      | Some proof' \<Rightarrow>
          if ep_ReviewID proof' \<noteq> rb_ID binding \<or> ep_OwnerCallID proof' = [] \<or>
             \<not> sameParentReviewSnapshot (ep_Snapshot proof') (rb_Snapshot binding) \<or> ep_Claims proof' = [] then
            Some (Errorf ''parent review evidence proof schema is invalid'' [])
          else if \<not> list_all validParentReviewEvidenceClaim (ep_Claims proof') then
            Some (Errorf ''parent review evidence claim schema is invalid'' [])
          else None)"

definition validateParentReviewBindingState :: "ParentReviewState \<Rightarrow> state_error option" where
  "validateParentReviewBindingState state =
     (case prs_Review state of
        None \<Rightarrow> None
      | Some binding \<Rightarrow> first_err
          [validateParentReviewBindingIdentity state binding,
           validateParentReviewEvidenceCoverage binding,
           validateParentReviewEvidenceProof binding])"

definition validateParentCompletionState :: "ParentReviewState \<Rightarrow> state_error option" where
  "validateParentCompletionState state =
     (case prs_Completion state of
        None \<Rightarrow> None
      | Some completion \<Rightarrow>
          if prs_Open state \<noteq> None \<or> prs_Review state \<noteq> None then
            Some (Errorf ''parent completion outcome exists with an open parent review'' [])
          else if pco_Terminal completion \<noteq> SessionRotationTerminalAccept \<and>
                  pco_Terminal completion \<noteq> SessionRotationTerminalNoGo then
            Some (Errorf ''parent completion outcome has invalid terminal'' [pco_Terminal completion])
          else if pco_Risk completion \<noteq> RiskLow \<and> pco_Risk completion \<noteq> RiskHigh then
            Some (Errorf ''parent completion outcome has invalid risk'' [pco_Risk completion])
          else None)"

definition decodeParentReviewState :: "ParentReviewState \<Rightarrow> (state_error, ParentReviewState) result" where
  "decodeParentReviewState state =
     (case first_err
        [if prs_Version state \<noteq> parentReviewStateVersion \<or> prs_TaskID state = []
         then Some (Errorf ''parent review state schema is invalid'' []) else None,
         case prs_Open state of
           None \<Rightarrow> None
         | Some open \<Rightarrow> if \<not> validParentReviewPacketStatus (pro_PacketStatus open)
             then Some (Errorf ''parent review state packet status is invalid'' [pro_PacketStatus open]) else None,
         validateParentReviewBindingState state,
         validateParentCompletionState state] of
        Some e \<Rightarrow> Inl e
      | None \<Rightarrow> Inr state)"

definition validateParentOutcomeResolution :: "string \<Rightarrow> string \<Rightarrow> string \<Rightarrow> string \<Rightarrow> state_error option" where
  "validateParentOutcomeResolution kind origin cause terminal =
     (if \<not> parentOutcomeKinds kind then Some (Errorf ''unknown parent outcome kind'' [kind])
      else case (if kind = ParentOutcomeFix then validateParentFixDeclaration origin cause else None) of
        Some e \<Rightarrow> Some e
      | None \<Rightarrow>
          if terminal = [] then None
          else if kind = ParentOutcomeAccepted \<and> terminal = SessionRotationTerminalAccept then None
          else if kind = ParentOutcomeNoGo \<and> terminal = SessionRotationTerminalNoGo then None
          else Some (Errorf ''parent outcome cannot resolve completion terminal'' [kind, terminal]))"

definition parentCompletionOutcome ::
    "string \<Rightarrow> string \<Rightarrow> (state_error, ParentCompletionOutcome option) result" where
  "parentCompletionOutcome terminal risk =
     (if terminal = [] then Inr None
      else
        let outcome = \<lparr>pco_Terminal = terminal, pco_Risk = risk, pco_Source = None, pco_Review = None\<rparr>;
            state = \<lparr>prs_Version = 0, prs_TaskID = [], prs_Open = None, prs_Review = None, prs_Completion = Some outcome\<rparr>
        in case validateParentCompletionState state of Some e \<Rightarrow> Inl e | None \<Rightarrow> Inr (Some outcome))"

section \<open>Coverage of the review targets\<close>

definition parentReviewTargetSet :: "string list \<Rightarrow> string set" where
  "parentReviewTargetSet targets = set targets"

definition parentReviewCoverageComplete :: "ParentReviewBinding \<Rightarrow> bool" where
  "parentReviewCoverageComplete binding \<longleftrightarrow>
     (case rb_Coverage binding of
        None \<Rightarrow> False
      | Some coverage \<Rightarrow>
          let covered = set (map tc_Target (cov_Claims coverage))
          in (\<forall>target \<in> parentReviewTargetSet (rb_Targets binding). target \<in> covered) \<and> covered \<noteq> {})"

fun orderedCoverageClaims ::
    "string list \<Rightarrow> string list \<Rightarrow> (string \<Rightarrow> ParentReviewTargetCoverageClaim option) \<Rightarrow>
     ParentReviewTargetCoverageClaim list" where
  "orderedCoverageClaims seen [] claims = []"
| "orderedCoverageClaims seen (target # targets) claims =
     (if target \<in> set seen then orderedCoverageClaims seen targets claims
      else case claims target of
        None \<Rightarrow> orderedCoverageClaims seen targets claims
      | Some claim \<Rightarrow> claim # orderedCoverageClaims (target # seen) targets claims)"

definition reusableParentReviewCoverage ::
    "ParentReviewEvidenceCoverage option \<Rightarrow> string \<Rightarrow> int \<Rightarrow> SnapshotDigest \<Rightarrow> ParentReviewEvidenceCoverage" where
  "reusableParentReviewCoverage coverage reviewID lease current =
     (let fresh = \<lparr>cov_ReviewID = reviewID, cov_Lease = lease, cov_Snapshot = current, cov_Claims = []\<rparr>
      in case coverage of
           None \<Rightarrow> fresh
         | Some cov \<Rightarrow>
             if cov_ReviewID cov \<noteq> reviewID \<or> cov_Lease cov \<noteq> lease \<or>
                \<not> sameParentReviewSnapshot (cov_Snapshot cov) current
             then fresh else cov)"

definition by_target ::
    "ParentReviewTargetCoverageClaim list \<Rightarrow> string \<Rightarrow> ParentReviewTargetCoverageClaim option" where
  "by_target claims = map_of (rev (map (\<lambda>c. (tc_Target c, c)) claims))"

fun merge_claims ::
    "string list \<Rightarrow> string \<Rightarrow> (string \<Rightarrow> ParentReviewTargetCoverageClaim option) \<Rightarrow>
     ParentReviewTargetCoverageClaim list \<Rightarrow>
     (state_error, string \<Rightarrow> ParentReviewTargetCoverageClaim option) result" where
  "merge_claims targets owner m [] = Inr m"
| "merge_claims targets owner m (claim # rest) =
     (if tc_Target claim \<notin> parentReviewTargetSet targets \<or> \<not> validParentReviewEvidenceClaim (tc_Evidence claim)
      then Inl (Errorf ''parent review evidence coverage claim is invalid for target'' [tc_Target claim])
      else merge_claims targets owner (m(tc_Target claim \<mapsto> claim\<lparr>tc_OwnerCallID := owner\<rparr>)) rest)"

definition mergeParentReviewCoverageClaims ::
    "string list \<Rightarrow> ParentReviewEvidenceCoverage \<Rightarrow> ParentReviewTargetCoverageClaim list \<Rightarrow> string \<Rightarrow>
     (state_error, ParentReviewEvidenceCoverage) result" where
  "mergeParentReviewCoverageClaims targets coverage claims owner =
     (case merge_claims targets owner (by_target (cov_Claims coverage)) claims of
        Inl e \<Rightarrow> Inl e
      | Inr m \<Rightarrow> Inr (coverage\<lparr>cov_Claims := orderedCoverageClaims [] targets m\<rparr>))"

definition materializeParentReviewCoverageProof ::
    "ParentReviewBinding \<Rightarrow> string \<Rightarrow> string \<Rightarrow> SnapshotDigest \<Rightarrow> bool \<times> ParentReviewBinding" where
  "materializeParentReviewCoverageProof binding reviewID owner current =
     (if \<not> parentReviewCoverageComplete binding then (False, binding\<lparr>rb_Proof := None\<rparr>)
      else
        let claims = (case rb_Coverage binding of None \<Rightarrow> [] | Some cov \<Rightarrow> map tc_Evidence (cov_Claims cov))
        in (True, binding\<lparr>rb_Proof := Some \<lparr>ep_ReviewID = reviewID, ep_OwnerCallID = owner,
              ep_Snapshot = current, ep_Claims = claims\<rparr>\<rparr>))"

text \<open>
  The part of \<^verbatim>\<open>AccumulateParentReviewEvidenceCoverage\<close> between loading and writing the state: the
  new binding of the review and whether its coverage is complete.
\<close>

definition accumulate_binding ::
    "ParentReviewBinding \<Rightarrow> string \<Rightarrow> int \<Rightarrow> SnapshotDigest \<Rightarrow> ParentReviewTargetCoverageClaim list \<Rightarrow> string \<Rightarrow>
     (state_error, bool \<times> ParentReviewBinding) result" where
  "accumulate_binding binding reviewID lease current claims owner =
     (let coverage = reusableParentReviewCoverage (rb_Coverage binding) reviewID lease current
      in case mergeParentReviewCoverageClaims (rb_Targets binding) coverage claims owner of
           Inl e \<Rightarrow> Inl e
         | Inr coverage \<Rightarrow>
             let (complete, binding) = materializeParentReviewCoverageProof
                   (binding\<lparr>rb_Coverage := Some coverage\<rparr>) reviewID owner current
             in Inr (complete, if cov_Claims coverage = [] then binding\<lparr>rb_Coverage := None\<rparr> else binding))"

text \<open>A claim map is well formed when each entry is filed under its own target and is a valid claim.\<close>

definition claim_map_ok :: "string list \<Rightarrow> (string \<Rightarrow> ParentReviewTargetCoverageClaim option) \<Rightarrow> bool" where
  "claim_map_ok targets m \<longleftrightarrow> (\<forall>t c. m t = Some c \<longrightarrow> tc_Target c = t \<and> t \<in> set targets \<and>
     tc_OwnerCallID c \<noteq> [] \<and> validParentReviewEvidenceClaim (tc_Evidence c))"

lemma coverage_claims_err_None_iff:
  "coverage_claims_err allowed seen claims = None \<longleftrightarrow>
     distinct (map tc_Target claims) \<and> set (map tc_Target claims) \<inter> set seen = {} \<and>
     (\<forall>c \<in> set claims. tc_Target c \<in> set allowed \<and> tc_OwnerCallID c \<noteq> [] \<and>
        validParentReviewEvidenceClaim (tc_Evidence c))"
  by (induction claims arbitrary: seen) auto

lemma by_target_ok:
  assumes "coverage_claims_err targets [] claims = None"
  shows "claim_map_ok targets (by_target claims)"
  unfolding claim_map_ok_def by_target_def
  using assms by (auto simp: coverage_claims_err_None_iff dest!: map_of_SomeD)

lemma by_target_dom: "dom (by_target cs) = tc_Target ` set cs"
  by (simp add: by_target_def dom_map_of_conv_image_fst image_image)

lemma claim_map_ok_upd:
  "claim_map_ok targets m \<Longrightarrow> tc_Target c \<in> set targets \<Longrightarrow> tc_OwnerCallID c \<noteq> [] \<Longrightarrow>
   validParentReviewEvidenceClaim (tc_Evidence c) \<Longrightarrow> claim_map_ok targets (m(tc_Target c \<mapsto> c))"
  by (simp add: claim_map_ok_def)

lemma merge_claims_ok:
  "merge_claims targets owner m claims = Inr m' \<Longrightarrow> claim_map_ok targets m \<Longrightarrow> owner \<noteq> [] \<Longrightarrow>
   claim_map_ok targets m'"
proof (induction claims arbitrary: m)
  case (Cons c claims)
  let ?c = "c\<lparr>tc_OwnerCallID := owner\<rparr>"
  from Cons.prems(1) have c: "tc_Target c \<in> set targets" "validParentReviewEvidenceClaim (tc_Evidence c)"
    and rest: "merge_claims targets owner (m(tc_Target c \<mapsto> ?c)) claims = Inr m'"
    by (auto simp: parentReviewTargetSet_def split: if_splits)
  have "claim_map_ok targets (m(tc_Target ?c \<mapsto> ?c))"
    using c Cons.prems by (intro claim_map_ok_upd) simp_all
  then have "claim_map_ok targets (m(tc_Target c \<mapsto> ?c))" by simp
  from Cons.IH [OF rest this Cons.prems(3)] show ?case .
qed simp

lemma merge_claims_dom:
  "merge_claims targets owner m claims = Inr m' \<Longrightarrow> dom m' = dom m \<union> tc_Target ` set claims"
  by (induction claims arbitrary: m) (auto split: if_splits)

lemma ordered_set:
  "set (orderedCoverageClaims seen ts m) = {c. \<exists>t \<in> set ts - set seen. m t = Some c}"
  by (induction ts arbitrary: seen) (auto split: option.splits)

lemma ordered_distinct:
  "claim_map_ok targets m \<Longrightarrow> distinct (map tc_Target (orderedCoverageClaims seen ts m))"
proof (induction ts arbitrary: seen)
  case (Cons t ts)
  have "tc_Target c = t" if "m t = Some c" for c
    using Cons.prems that by (simp add: claim_map_ok_def)
  moreover have "t \<notin> tc_Target ` {c. \<exists>u \<in> set ts - set (t # seen). m u = Some c}"
    using Cons.prems by (auto simp: claim_map_ok_def)
  ultimately show ?case
    using Cons by (auto simp: ordered_set split: option.splits)
qed simp

lemma ordered_targets:
  "claim_map_ok targets m \<Longrightarrow> tc_Target ` set (orderedCoverageClaims [] targets m) = dom m"
  by (force simp: ordered_set claim_map_ok_def)

lemma ordered_valid:
  assumes "claim_map_ok targets m"
  shows "coverage_claims_err targets [] (orderedCoverageClaims [] targets m) = None"
  using assms ordered_distinct [OF assms]
  by (auto simp: coverage_claims_err_None_iff ordered_set claim_map_ok_def)

lemma sameParentReviewSnapshot_trans:
  "sameParentReviewSnapshot a b \<Longrightarrow> sameParentReviewSnapshot b c \<Longrightarrow> sameParentReviewSnapshot a c"
  by (simp add: sameParentReviewSnapshot_def)

lemma reusable_coverage_ok:
  assumes "validateParentReviewEvidenceCoverage binding = None"
  shows "coverage_claims_err (rb_Targets binding) []
      (cov_Claims (reusableParentReviewCoverage (rb_Coverage binding) reviewID lease current)) = None"
  using assms
  by (auto simp: validateParentReviewEvidenceCoverage_def reusableParentReviewCoverage_def Let_def
      split: option.splits if_splits)

lemma reusable_coverage_identity:
  "cov_ReviewID (reusableParentReviewCoverage cov reviewID lease current) = reviewID"
  "cov_Lease (reusableParentReviewCoverage cov reviewID lease current) = lease"
  "sameParentReviewSnapshot (cov_Snapshot (reusableParentReviewCoverage cov reviewID lease current)) current"
  by (auto simp: reusableParentReviewCoverage_def Let_def sameParentReviewSnapshot_def split: option.splits)

text \<open>
  C11. Accumulating evidence on an open review keeps its coverage and its proof valid: the covered
  targets are those covered before (while the review, the lease and the snapshot are unchanged)
  together with the targets of the new claims, and the review has a proof exactly when every one of
  its targets is covered.
\<close>

theorem accumulate_binding_correct:
  assumes valid: "validateParentReviewEvidenceCoverage binding = None"
    and owner: "owner \<noteq> []" and lease: "0 \<le> lease" and rid: "reviewID = rb_ID binding"
    and targets: "rb_Targets binding \<noteq> []"
    and snap: "sameParentReviewSnapshot current (rb_Snapshot binding)"
    and acc: "accumulate_binding binding reviewID lease current claims owner = Inr (complete, b')"
  shows "validateParentReviewEvidenceCoverage b' = None \<and> validateParentReviewEvidenceProof b' = None \<and>
     (complete \<longleftrightarrow> rb_Proof b' \<noteq> None) \<and>
     (let covered = (case rb_Coverage b' of None \<Rightarrow> {} | Some cov \<Rightarrow> tc_Target ` set (cov_Claims cov));
          before = tc_Target ` set (cov_Claims
            (reusableParentReviewCoverage (rb_Coverage binding) reviewID lease current))
      in covered = before \<union> tc_Target ` set claims \<and> (complete \<longleftrightarrow> set (rb_Targets binding) \<subseteq> covered))"
proof -
  let ?cov = "reusableParentReviewCoverage (rb_Coverage binding) reviewID lease current"
  obtain m where m: "merge_claims (rb_Targets binding) owner (by_target (cov_Claims ?cov)) claims = Inr m"
    using acc by (auto simp: accumulate_binding_def mergeParentReviewCoverageClaims_def Let_def
        split: sum.splits)
  let ?claims = "orderedCoverageClaims [] (rb_Targets binding) m"
  let ?new = "?cov\<lparr>cov_Claims := ?claims\<rparr>"
  have ok0: "claim_map_ok (rb_Targets binding) (by_target (cov_Claims ?cov))"
    by (rule by_target_ok [OF reusable_coverage_ok [OF valid]])
  have ok: "claim_map_ok (rb_Targets binding) m"
    by (rule merge_claims_ok [OF m ok0 owner])
  have covered: "tc_Target ` set ?claims = tc_Target ` set (cov_Claims ?cov) \<union> tc_Target ` set claims"
    using ordered_targets [OF ok] merge_claims_dom [OF m] by (simp add: by_target_dom)
  have complete_iff: "parentReviewCoverageComplete (binding\<lparr>rb_Coverage := Some ?new\<rparr>) \<longleftrightarrow>
      set (rb_Targets binding) \<subseteq> tc_Target ` set ?claims"
    using targets by (auto simp: parentReviewCoverageComplete_def parentReviewTargetSet_def)
  have claims_ok: "coverage_claims_err (rb_Targets binding) [] ?claims = None"
    by (rule ordered_valid [OF ok])
  then have evidence_ok: "list_all validParentReviewEvidenceClaim (map tc_Evidence ?claims)"
    by (auto simp: coverage_claims_err_None_iff list_all_iff)
  have res: "Inr (complete, b') = (let (done, b) = materializeParentReviewCoverageProof
       (binding\<lparr>rb_Coverage := Some ?new\<rparr>) reviewID owner current
     in Inr (done, if ?claims = [] then b\<lparr>rb_Coverage := None\<rparr> else b) :: (state_error, bool \<times> ParentReviewBinding) result)"
    using acc m by (simp add: accumulate_binding_def mergeParentReviewCoverageClaims_def Let_def)
  have snap': "sameParentReviewSnapshot (cov_Snapshot ?cov) (rb_Snapshot binding)"
    using sameParentReviewSnapshot_trans [OF reusable_coverage_identity(3) snap] .
  show ?thesis
  proof (cases "set (rb_Targets binding) \<subseteq> tc_Target ` set ?claims")
    case True
    with targets have ne: "?claims \<noteq> []" by auto
    with True res complete_iff have "complete" "b' = binding\<lparr>rb_Coverage := Some ?new,
        rb_Proof := Some \<lparr>ep_ReviewID = reviewID, ep_OwnerCallID = owner, ep_Snapshot = current,
          ep_Claims = map tc_Evidence ?claims\<rparr>\<rparr>"
      by (auto simp: materializeParentReviewCoverageProof_def)
    with ne True covered claims_ok evidence_ok owner lease rid snap snap' show ?thesis
      by (simp add: validateParentReviewEvidenceCoverage_def validateParentReviewEvidenceProof_def
          reusable_coverage_identity)
  next
    case False
    with res complete_iff have "\<not> complete" "b' = binding\<lparr>rb_Coverage := (if ?claims = [] then None else Some ?new),
        rb_Proof := None\<rparr>"
      by (auto simp: materializeParentReviewCoverageProof_def)
    with False covered claims_ok lease rid snap' show ?thesis
      by (auto simp: validateParentReviewEvidenceCoverage_def validateParentReviewEvidenceProof_def
          reusable_coverage_identity)
  qed
qed

definition sample_snapshot :: SnapshotDigest where
  "sample_snapshot = \<lparr>sd_Head = ''h'', sd_IndexDigest = ''i'', sd_WorktreeDigest = ''w'',
     sd_WorktreeDigestExcludingParent = []\<rparr>"

definition sample_binding :: ParentReviewBinding where
  "sample_binding = \<lparr>rb_ID = ''r'', rb_PacketSHA256 = [], rb_Targets = [''a.go:1'', ''b.go:2''],
     rb_SolQuestion = ''q'', rb_Snapshot = sample_snapshot, rb_Coverage = None, rb_Proof = None\<rparr>"

definition sample_claim :: "string \<Rightarrow> ParentReviewTargetCoverageClaim" where
  "sample_claim t = \<lparr>tc_Target = t, tc_Evidence = \<lparr>ec_Kind = ''diff'', ec_Digest = ''d'', ec_Locator = ''l''\<rparr>,
     tc_OwnerCallID = []\<rparr>"

lemma sample_accumulate:
  "accumulate_binding sample_binding ''r'' 1 sample_snapshot [sample_claim ''b.go:2''] ''o'' =
     Inr (False, sample_binding\<lparr>rb_Coverage := Some \<lparr>cov_ReviewID = ''r'', cov_Lease = 1,
       cov_Snapshot = sample_snapshot, cov_Claims = [(sample_claim ''b.go:2'')\<lparr>tc_OwnerCallID := ''o''\<rparr>]\<rparr>\<rparr>)"
  by code_simp

theorem accumulate_binding_correct_witness:
  "\<exists>b'. accumulate_binding sample_binding ''r'' 1 sample_snapshot [sample_claim ''b.go:2''] ''o'' =
     Inr (False, b') \<and> validateParentReviewEvidenceCoverage b' = None"
proof -
  have "validateParentReviewEvidenceCoverage sample_binding = None" "rb_Targets sample_binding \<noteq> []"
    "''r'' = rb_ID sample_binding" "sameParentReviewSnapshot sample_snapshot (rb_Snapshot sample_binding)"
    by code_simp+
  from accumulate_binding_correct [OF this(1) _ _ this(3) this(2) this(4) sample_accumulate] sample_accumulate
  show ?thesis by simp
qed

end
