(* ===== verification/Task_Stats.thy ===== *)
theory Task_Stats
  imports Review_State "HOL-Library.AList"
begin

text \<open>
  The statistics of a task, \<^verbatim>\<open>internal/state/stats.go\<close>, \<^verbatim>\<open>stats_recording.go\<close> and the outcome counters
  of \<^verbatim>\<open>parent_review.go\<close>. They mirror the task for observation and are written best effort. This
  theory has the record and the pure updates; \<open>Store\<close> applies them to the stored document. A map
  of counters is an association list; a nil map is the empty list.
\<close>

type_synonym counters = "(string \<times> int) list"

record TaskStats =
  ts_Version :: int
  ts_TaskID :: string
  ts_StartedAt :: int
  ts_ArchivedAt :: "int option"
  ts_Status :: TaskStatus
  ts_ParentCodexThreadID :: string
  ts_ParentCodexSessionID :: string
  ts_ModelCalls :: int
  ts_ModelCallsByAlias :: counters
  ts_ModelDurationMSByAlias :: counters
  ts_RateLimitsByAlias :: counters
  ts_WorkerCalls :: int
  ts_ReviewerCalls :: int
  ts_FailurePathReviewerCalls :: int
  ts_DecisionCommands :: int
  ts_FixCommands :: int
  ts_ResumeCommands :: int
  ts_AutoFixRounds :: int
  ts_NeedsSolDecisionPackets :: int
  ts_NeedsSolReviewPackets :: int
  ts_PassPackets :: int
  ts_RateLimits :: int
  ts_SolPacketBytes :: int
  ts_ResultCorrections :: int
  ts_StructuredRetryExhausted :: int
  ts_ProviderUnavailable :: int
  ts_ProviderUnavailableByAlias :: counters
  ts_RiskFloorByCategory :: counters
  ts_SnapshotMismatches :: int
  ts_SnapshotMismatchByAxis :: counters
  ts_PacketRejectByCategory :: counters
  ts_ProbeOutcome :: counters
  ts_TransientRetries :: int
  ts_ParentReviewOpen :: "ParentReviewOpenState option"
  ts_ParentOutcomes :: counters
  ts_ParentFixOrigins :: counters
  ts_ParentOutcomesByModel :: counters
  ts_ParentOutcomesByRisk :: counters
  ts_AcceptedRisk :: string
  ts_CompletionTerminal :: string

definition currentStatsFile :: string where "currentStatsFile = ''task-stats.json''"
definition taskStatsVersion :: int where "taskStatsVersion = 3"

definition new_TaskStats :: "string \<Rightarrow> int \<Rightarrow> TaskStatus \<Rightarrow> TaskStats" where
  "new_TaskStats taskID startedAt status = \<lparr>ts_Version = taskStatsVersion, ts_TaskID = taskID,
     ts_StartedAt = startedAt, ts_ArchivedAt = None, ts_Status = status, ts_ParentCodexThreadID = [],
     ts_ParentCodexSessionID = [], ts_ModelCalls = 0, ts_ModelCallsByAlias = [],
     ts_ModelDurationMSByAlias = [], ts_RateLimitsByAlias = [], ts_WorkerCalls = 0,
     ts_ReviewerCalls = 0, ts_FailurePathReviewerCalls = 0, ts_DecisionCommands = 0, ts_FixCommands = 0,
     ts_ResumeCommands = 0, ts_AutoFixRounds = 0, ts_NeedsSolDecisionPackets = 0,
     ts_NeedsSolReviewPackets = 0, ts_PassPackets = 0, ts_RateLimits = 0, ts_SolPacketBytes = 0,
     ts_ResultCorrections = 0, ts_StructuredRetryExhausted = 0, ts_ProviderUnavailable = 0,
     ts_ProviderUnavailableByAlias = [], ts_RiskFloorByCategory = [],
     ts_SnapshotMismatches = 0, ts_SnapshotMismatchByAxis = [],
     ts_PacketRejectByCategory = [], ts_ProbeOutcome = [], ts_TransientRetries = 0,
     ts_ParentReviewOpen = None, ts_ParentOutcomes = [], ts_ParentFixOrigins = [],
     ts_ParentOutcomesByModel = [], ts_ParentOutcomesByRisk = [], ts_AcceptedRisk = [],
     ts_CompletionTerminal = []\<rparr>"

definition count :: "counters \<Rightarrow> string \<Rightarrow> int" where
  "count m k = (case map_of m k of None \<Rightarrow> 0 | Some n \<Rightarrow> n)"

definition bump :: "counters \<Rightarrow> string \<Rightarrow> int \<Rightarrow> counters" where
  "bump m k n = AList.update k (count m k + n) m"

definition addInt :: "counters \<Rightarrow> string \<Rightarrow> int \<Rightarrow> counters" where
  "addInt m k n = (if k = [] \<or> n = 0 then m else bump m k n)"

definition recordParentOutcomeFacets :: "ParentReviewOpenState \<Rightarrow> TaskStats \<Rightarrow> TaskStats" where
  "recordParentOutcomeFacets resolved stats =
     (let model = (if pro_ModelAlias resolved = [] then ParentOriginUnknown else pro_ModelAlias resolved);
          risk = (if pro_Risk resolved = [] then ParentOriginUnknown else pro_Risk resolved)
      in stats\<lparr>ts_ParentOutcomesByModel := addInt (ts_ParentOutcomesByModel stats) model 1,
               ts_ParentOutcomesByRisk := addInt (ts_ParentOutcomesByRisk stats) risk 1\<rparr>)"

definition recordParentOutcome :: "string \<Rightarrow> string \<Rightarrow> ParentReviewOpenState \<Rightarrow> TaskStats \<Rightarrow> TaskStats" where
  "recordParentOutcome kind origin resolved stats =
     (let stats = stats\<lparr>ts_ParentOutcomes := addInt (ts_ParentOutcomes stats) kind 1\<rparr>;
          stats = (if kind = ParentOutcomeFix then
              stats\<lparr>ts_ParentFixOrigins := addInt (ts_ParentFixOrigins stats)
                (if origin = [] then ParentOriginUnknown else origin) 1\<rparr>
            else stats)
      in recordParentOutcomeFacets resolved stats)"

definition resolveParentOutcome ::
    "string \<Rightarrow> string \<Rightarrow> string \<Rightarrow> TaskStats \<Rightarrow>
     (state_error, ParentReviewOpenState option) result \<times> TaskStats" where
  "resolveParentOutcome kind origin cause stats =
     (if \<not> parentOutcomeKinds kind then (Inl (Errorf ''unknown parent outcome kind'' [kind]), stats)
      else case (if kind = ParentOutcomeFix then validateParentFixDeclaration origin cause else None) of
        Some e \<Rightarrow> (Inl e, stats)
      | None \<Rightarrow>
          (case ts_ParentReviewOpen stats of
             None \<Rightarrow> (Inr None, stats)
           | Some open \<Rightarrow>
               if kind = ParentOutcomeAccepted \<and> pro_PacketStatus open = StatusNeedsSolDecision then
                 (Inl (Errorf ''pending Sol decision must be resolved with --decision before --accept'' []), stats)
               else (Inr (Some open), (recordParentOutcome kind origin open stats)\<lparr>ts_ParentReviewOpen := None\<rparr>)))"

definition openParentReview :: "string \<Rightarrow> string \<Rightarrow> ParentReviewProducer \<Rightarrow> TaskStats \<Rightarrow> TaskStats" where
  "openParentReview status risk producer stats =
     (snd (resolveParentOutcome ParentOutcomeUnknown [] [] stats))\<lparr>ts_ParentReviewOpen :=
        Some \<lparr>pro_PacketStatus = status, pro_Role = prp_Role producer, pro_ModelAlias = prp_Model producer,
              pro_Risk = risk\<rparr>\<rparr>"

definition model_call_stats :: "SessionRole \<Rightarrow> string \<Rightarrow> TaskStats \<Rightarrow> TaskStats" where
  "model_call_stats role model stats =
     (let stats = stats\<lparr>ts_ModelCalls := ts_ModelCalls stats + 1,
            ts_ModelCallsByAlias := bump (ts_ModelCallsByAlias stats) model 1\<rparr>
      in if role = ReviewerRole then stats\<lparr>ts_ReviewerCalls := ts_ReviewerCalls stats + 1\<rparr>
         else if role = FailurePathReviewerRole then
           stats\<lparr>ts_FailurePathReviewerCalls := ts_FailurePathReviewerCalls stats + 1\<rparr>
         else stats\<lparr>ts_WorkerCalls := ts_WorkerCalls stats + 1\<rparr>)"

definition snapshot_mismatch_stats :: "string \<Rightarrow> TaskStats \<Rightarrow> TaskStats" where
  "snapshot_mismatch_stats axis stats =
     (let stats = stats\<lparr>ts_SnapshotMismatches := ts_SnapshotMismatches stats + 1\<rparr>
      in foldl (\<lambda>s a. s\<lparr>ts_SnapshotMismatchByAxis := addInt (ts_SnapshotMismatchByAxis s) a 1\<rparr>) stats
           (split_on (CHR '','') axis))"

section \<open>Every review that was opened is counted once\<close>

lemma count_bump [simp]: "count (bump m k n) j = (if j = k then count m k + n else count m j)"
  by (simp add: count_def bump_def update_conv')

lemma recordParentOutcomeFacets_outcomes [simp]:
  "ts_ParentOutcomes (recordParentOutcomeFacets r s) = ts_ParentOutcomes s"
  "ts_ParentReviewOpen (recordParentOutcomeFacets r s) = ts_ParentReviewOpen s"
  by (simp_all add: recordParentOutcomeFacets_def Let_def)

lemma recordParentOutcome_outcomes:
  "kind \<noteq> [] \<Longrightarrow> ts_ParentOutcomes (recordParentOutcome kind origin r s) = bump (ts_ParentOutcomes s) kind 1"
  by (simp add: recordParentOutcome_def Let_def addInt_def)

text \<open>
  Opening a parent review closes one that was still open under the outcome \<^verbatim>\<open>unknown\<close>, and only
  then: the number of outcomes grows by one exactly when a review was open, and the new review is
  the open one.
\<close>

theorem openParentReview_closes_previous:
  "count (ts_ParentOutcomes (openParentReview status risk producer stats)) k =
     count (ts_ParentOutcomes stats) k +
     (if ts_ParentReviewOpen stats \<noteq> None \<and> k = ParentOutcomeUnknown then 1 else 0) \<and>
   map_option pro_PacketStatus (ts_ParentReviewOpen (openParentReview status risk producer stats)) = Some status"
  by (cases "ts_ParentReviewOpen stats")
    (auto simp: openParentReview_def resolveParentOutcome_def recordParentOutcome_outcomes
      parentOutcomeKinds_def outcome_defs)

end
