(* ===== verification/State_Docs.thy ===== *)
theory State_Docs
  imports Task_Stats
begin

text \<open>
  The JSON documents of the state directory beside the checkpoint, the review state and the
  statistics: publication records (\<^verbatim>\<open>publication_candidate.go\<close>, \<^verbatim>\<open>publication_reopen_lineage.go\<close>,
  \<^verbatim>\<open>publication_invalidation.go\<close>, \<^verbatim>\<open>runtime_install.go\<close>), controller records (\<^verbatim>\<open>defect_registration.go\<close>,
  \<^verbatim>\<open>controller_runtime_binding.go\<close>, \<^verbatim>\<open>controller_task_termination.go\<close>, \<^verbatim>\<open>runtime_disposition.go\<close>),
  observation executions (\<^verbatim>\<open>observation_execution.go\<close>), session rotation markers
  (\<^verbatim>\<open>session_rotation*.go\<close>), the identity of the parent session (\<^verbatim>\<open>parent_codex_identity.go\<close>), and the
  plan of milestones and the execution unit of a task (\<^verbatim>\<open>executionmilestone/state.go\<close>, \<^verbatim>\<open>executionunit\<close>).
  \<open>doc\<close> is their union; bytes that do not decode as the expected document are any other content.
\<close>

section \<open>Controller records\<close>

record PendingDefectRegistration =
  pdr_TaskID :: string
  pdr_SourceActiveTask :: string
  pdr_TaskPath :: string

record ControllerRuntimeBinding =
  crb_Version :: int
  crb_AttemptID :: string
  crb_TaskPath :: string
  crb_RequestID :: string
  crb_TaskContractDigest :: string

record ControllerTaskTermination =
  ctt_Version :: int
  ctt_TransitionID :: string
  ctt_SourceGeneration :: nat
  ctt_TaskPath :: string
  ctt_TaskContractDigest :: string
  ctt_AttemptID :: string
  ctt_Reason :: string
  ctt_PreviousRepoRoot :: string
  ctt_PrimaryRoot :: string
  ctt_PreviousStatus :: TaskStatus

record RuntimeDisposition =
  rd_Version :: int
  rd_TaskID :: string
  rd_TaskPath :: string
  rd_TransitionID :: string
  rd_EvidenceDigest :: string
  rd_Reason :: string
  rd_PreviousStatus :: TaskStatus

section \<open>Publication records\<close>

record PublicationCandidate =
  pc_Version :: int
  pc_TaskID :: string
  pc_BaseHead :: string
  pc_CommitOID :: string
  pc_TreeOID :: string
  pc_MessageDigest :: string
  pc_Snapshot :: SnapshotDigest
  pc_SnapshotID :: string
  pc_PreparedAt :: int

record PublicationReopenLineage =
  prl_Version :: int
  prl_TaskID :: string
  prl_TaskPath :: string
  prl_BaseHead :: string
  prl_CommitOID :: string

record PublicationInvalidatingFinding =
  pif_Version :: int
  pif_TaskID :: string
  pif_FindingID :: string
  pif_Disposition :: string
  pif_CandidateCommitOID :: string
  pif_CandidateSnapshotID :: string
  pif_Origin :: string
  pif_Cause :: string

record RuntimeInstallEvidence =
  rie_Version :: int
  rie_TaskID :: string
  rie_Head :: string
  rie_SourceDigest :: string
  rie_InstalledRevision :: string
  rie_SmokeResult :: string

section \<open>Observation executions\<close>

record ObservationExecutionRecord =
  ox_ExecutionID :: string
  ox_TaskID :: string
  ox_Operation :: string
  ox_ParamsDigest :: string
  ox_Status :: string
  ox_Detail :: string
  ox_Artifacts :: "string list"
  ox_ExitCode :: int
  ox_ExitSource :: string
  ox_DurationMS :: int
  ox_DeadlineMS :: int
  ox_Head :: string
  ox_IndexDigest :: string
  ox_WorktreeDigest :: string
  ox_DecisionRound :: int
  ox_StartedAtRFC3339 :: string
  ox_CompletedAtRFC3339 :: string

record observationFenceIdentity =
  of_ExecutionID :: string
  of_Operation :: string
  of_ParamsDigest :: string

record observationExecutionDocument =
  od_TaskID :: string
  od_Round :: int
  od_Fence :: "observationFenceIdentity list"
  od_Records :: "ObservationExecutionRecord list"

section \<open>Session rotation\<close>

record SessionRotationClaim =
  cl_ClaimID :: string
  cl_ClaimantThreadID :: string
  cl_TargetTaskID :: string
  cl_ClaimedAt :: string
  cl_BoundThreadID :: string
  cl_BoundAt :: string

record SessionRotationEvidence =
  ev_Trigger :: string
  ev_Field :: string
  ev_Value :: string
  ev_Source :: string

record SessionRotationDirective =
  di_DirectiveID :: string
  di_TaskID :: string
  di_Terminal :: string
  di_Epoch :: string
  di_Reason :: string
  di_Evidence :: "SessionRotationEvidence list"
  di_CreatedAt :: string

record SessionRotationIssued =
  is_BoundThreadID :: string
  is_IssuedAt :: string

record SessionLimitBaseline =
  lb_LimitID :: string
  lb_WindowResetsAt :: int
  lb_UsedPercent :: int
  lb_CapturedAt :: string

record SessionRotationEvaluationRecord =
  er_TaskID :: string
  er_Terminal :: string
  er_Required :: bool
  er_Reason :: string
  er_At :: string

record SessionRotationCreationOutcome =
  co_Version :: int
  co_Outcome :: string
  co_ParentThreadID :: string
  co_DirectiveID :: string
  co_ClaimID :: string
  co_TargetTaskID :: string
  co_RecordedAt :: string

record SessionRotationMarker =
  mk_Version :: int
  mk_ParentThreadID :: string
  mk_State :: string
  mk_Directive :: "SessionRotationDirective option"
  mk_Claim :: "SessionRotationClaim option"
  mk_Issued :: "SessionRotationIssued option"
  mk_LastCreationOutcome :: "SessionRotationCreationOutcome option"
  mk_LimitBaseline :: "SessionLimitBaseline option"
  mk_AcceptedTasks :: "int option"
  mk_LastEvaluation :: "SessionRotationEvaluationRecord option"
  mk_UpdatedAt :: string

record pendingSessionRotationRetirementRecommendation =
  rr_ParentThreadID :: string
  rr_DirectiveID :: string

record pendingSessionRotationRetirementStage =
  rs_Version :: int
  rs_CallerThreadID :: string
  rs_Recommendations :: "pendingSessionRotationRetirementRecommendation list"

record ParentCodexIdentity =
  ci_Version :: int
  ci_TaskID :: string
  ci_ThreadID :: string
  ci_SessionID :: string

section \<open>Execution milestones\<close>

record MilestoneDefinition =
  md_ID :: string
  md_Scope :: string
  md_Acceptance :: string
  md_FreshWorker :: bool

record Completion =
  cm_CompletedAt :: int
  cm_CallID :: string
  cm_WorkerSessionID :: string
  cm_Summary :: string
  cm_TaskContractSHA256 :: string
  cm_Snapshot :: GitSnapshot

record Record =
  mr_MilestoneDefinition :: MilestoneDefinition
  mr_Status :: string
  mr_Completion :: "Completion option"

record Plan =
  pl_Version :: int
  pl_TaskID :: string
  pl_ActiveTaskPath :: string
  pl_TaskContractSHA256 :: string
  pl_CurrentIndex :: int
  pl_Milestones :: "Record list"
  pl_UpdatedAt :: int

record Disposition =
  du_Version :: int
  du_TaskID :: string
  du_ActiveTaskPath :: string
  du_ExecutionUnit :: string
  du_UpdatedAt :: int

section \<open>The documents\<close>

datatype doc =
    CheckpointD CheckpointDoc
  | ReviewD ParentReviewState
  | StatsD TaskStats
  | SnapshotD GitSnapshot
  | RegistrationsD int "PendingDefectRegistration list"
  | BindingD ControllerRuntimeBinding
  | TerminationD ControllerTaskTermination
  | DispositionD RuntimeDisposition
  | BeginD int string TaskStatus "bool \<times> doc content" "bool \<times> doc content"
  | ReopenD int string TaskStatus "(string \<times> bool \<times> doc content) list"
  | CandidateD PublicationCandidate
  | LineageD PublicationReopenLineage
  | FindingD PublicationInvalidatingFinding
  | InstallD RuntimeInstallEvidence
  | ObservationD observationExecutionDocument
  | MarkerD SessionRotationMarker
  | RetirementD pendingSessionRotationRetirementStage
  | IdentityD ParentCodexIdentity
  | MilestonesD Plan
  | UnitD Disposition

type_synonym store = "doc StateStore"
type_synonym 'a sop = "(doc, 'a) op"
type_synonym filemap = "string \<Rightarrow> doc content option"

end
