(* ===== verification/Store.thy ===== *)
theory Store
  imports State_Docs
begin

text \<open>
  The operations of \<^verbatim>\<open>internal/state\<close> on the state directory: \<^verbatim>\<open>store.go\<close>, saving and loading of the
  resume checkpoint (\<^verbatim>\<open>resume.go\<close>), the stored statistics (\<^verbatim>\<open>stats.go\<close>, \<^verbatim>\<open>stats_recording.go\<close>), the
  lifecycle log (\<^verbatim>\<open>lifecycle.go\<close>), the evidence lease (\<^verbatim>\<open>parentevidence.go\<close>) and the parent review
  state (\<^verbatim>\<open>parent_review_state.go\<close>, \<^verbatim>\<open>parent_review.go\<close>). \<close>

text \<open>The bytes of a content as text; a document reads as some text that is no status or number.\<close>

fun text_of :: "doc content \<Rightarrow> string" where
  "text_of (Text s) = s"
| "text_of (Doc _) = ''{}''"
| "text_of Directory = []"

section \<open>Files\<close>

definition Exists :: "string \<Rightarrow> bool sop" where
  "Exists name = bindE (attempt (Stat name)) (\<lambda>r. returnE (case r of Inl _ \<Rightarrow> False | Inr _ \<Rightarrow> True))"

definition Read :: "string \<Rightarrow> string sop" where
  "Read name = bindE (ReadFile name) (\<lambda>c. returnE (trim_space (text_of c)))"

definition ReadOr :: "string \<Rightarrow> string \<Rightarrow> string sop" where
  "ReadOr name fallback = bindE (attempt (Read name))
     (\<lambda>r. returnE (case r of Inl _ \<Rightarrow> fallback | Inr v \<Rightarrow> if v = [] then fallback else v))"

definition trim_newline :: "string \<Rightarrow> string" where
  "trim_newline s = (if s \<noteq> [] \<and> last s = CHR 0x0A then butlast s else s)"

definition readExact :: "string \<Rightarrow> string sop" where
  "readExact name = bindE (attempt (ReadFile name))
     (\<lambda>r. returnE (case r of Inl _ \<Rightarrow> [] | Inr c \<Rightarrow> trim_newline (text_of c)))"

definition Write :: "string \<Rightarrow> string \<Rightarrow> unit sop" where
  "Write name value = wrapE ''state write'' (writeFileAtomic name (Text (value @ [CHR 0x0A])))"

definition Touch :: "string \<Rightarrow> unit sop" where
  "Touch name = Write name ''1''"

fun Remove :: "string list \<Rightarrow> unit sop" where
  "Remove [] = returnE ()"
| "Remove (name # names) = thenE
     (catchE (removeStatePath name)
        (\<lambda>e. if is_not_exist e then returnE () else throwE (Wrapf ''state remove'' e)))
     (Remove names)"

section \<open>Task identity and status\<close>

definition TaskID :: "string sop" where
  "TaskID = bindE (attempt (Read ''task.id''))
     (\<lambda>r. case r of
        Inl _ \<Rightarrow> throwE (Errorf ''no task.id'' [])
      | Inr taskID \<Rightarrow> if taskID = [] then throwE (Errorf ''no task.id'' []) else returnE taskID)"

definition get_TaskStatus :: "TaskStatus sop" where
  "get_TaskStatus = bindE (attempt (Read ''task.status''))
     (\<lambda>r. returnE (case r of Inl _ \<Rightarrow> TaskStatusNone | Inr s \<Rightarrow> if s = [] then TaskStatusNone else s))"

fun lstat_none :: "string list \<Rightarrow> bool sop" where
  "lstat_none [] = returnE True"
| "lstat_none (name # names) = bindE (attempt (Stat name))
     (\<lambda>r. case r of
        Inr _ \<Rightarrow> returnE False
      | Inl e \<Rightarrow> if is_not_exist e then lstat_none names else throwE e)"

definition UnstartedTaskRuntime :: "bool sop" where
  "UnstartedTaskRuntime = lstat_none [''task.id'', ''task.status'', ''worker.id'', ''reviewer.id'',
     ''parent-review-state.json'', ''resume-checkpoint.json'', ''execution-milestones.json'',
     ''controller-runtime-binding.json'']"

definition taskLifecycleLogVersion :: int where "taskLifecycleLogVersion = 1"

definition AppendTaskLifecycle :: "TaskLifecycleRecord \<Rightarrow> unit sop" where
  "AppendTaskLifecycle record st =
     (let record = (if lr_Version record = 0 then record\<lparr>lr_Version := taskLifecycleLogVersion\<rparr> else record);
          record = (if lr_Timestamp record = 0 then record\<lparr>lr_Timestamp := now st\<rparr> else record)
      in if fault st (access st) then (Inl (IoFault ''lifecycle''), tick st)
         else (Inr (), (tick st)\<lparr>lifecycle_log := lifecycle_log st @ [record]\<rparr>))"

definition appendTaskStatusLifecycle :: "TaskStatus \<Rightarrow> TaskStatus \<Rightarrow> unit sop" where
  "appendTaskStatusLifecycle previous next' =
     bindE (ReadOr ''task.id'' []) (\<lambda>taskID.
       if taskID = [] then returnE ()
       else bindE Now (\<lambda>t.
         bindE (attempt (AppendTaskLifecycle \<lparr>lr_Version = 0, lr_TaskID = taskID, lr_Timestamp = t,
             lr_From = previous, lr_To = next'\<rparr>))
           (\<lambda>_. returnE ())))"

section \<open>Statistics\<close>

definition loadTaskStats :: "TaskStats sop" where
  "loadTaskStats = bindE (ReadFile currentStatsFile)
     (\<lambda>c. case c of
        Doc (StatsD stats) \<Rightarrow>
          if ts_Version stats \<noteq> taskStatsVersion
          then throwE (Errorf ''unsupported task stats version'' [itoa (ts_Version stats)])
          else returnE stats
      | _ \<Rightarrow> throwE (Errorf ''task stats are unreadable'' []))"

definition writeTaskStats :: "TaskStats \<Rightarrow> unit sop" where
  "writeTaskStats stats = writeFileAtomic currentStatsFile (Doc (StatsD stats))"

definition bootstrapTaskStats :: "TaskStats sop" where
  "bootstrapTaskStats = bindE (attempt (Read ''task.id''))
     (\<lambda>r. case r of
        Inl _ \<Rightarrow> throwE (Errorf ''no task.id'' [])
      | Inr taskID \<Rightarrow>
          if taskID = [] then throwE (Errorf ''no task.id'' [])
          else bindE Now (\<lambda>t. bindE get_TaskStatus (\<lambda>status. returnE (new_TaskStats taskID t status))))"

text \<open>A failed load is warned about and the statistics start afresh; a failed write is warned about.\<close>

definition recoverTaskStats :: "state_error \<Rightarrow> TaskStats sop" where
  "recoverTaskStats loadErr = bootstrapTaskStats"

definition UpdateTaskStats :: "(TaskStats \<Rightarrow> TaskStats) \<Rightarrow> unit sop" where
  "UpdateTaskStats update =
     bindE (attempt (catchE loadTaskStats recoverTaskStats))
       (\<lambda>r. case r of
          Inl _ \<Rightarrow> returnE ()
        | Inr stats \<Rightarrow> bindE (attempt (writeTaskStats (update stats))) (\<lambda>_. returnE ()))"

definition InitializeTaskStats :: "string \<Rightarrow> unit sop" where
  "InitializeTaskStats taskID = bindE Now (\<lambda>t.
     bindE (attempt (writeTaskStats (new_TaskStats taskID t TaskStatusActive))) (\<lambda>_. returnE ()))"

definition SetTaskStatus :: "TaskStatus \<Rightarrow> unit sop" where
  "SetTaskStatus status =
     bindE get_TaskStatus (\<lambda>previous.
       thenE (Write ''task.status'' status)
         (thenE (UpdateTaskStats (\<lambda>stats. stats\<lparr>ts_Status := status\<rparr>))
            (if previous \<noteq> status then appendTaskStatusLifecycle previous status else returnE ())))"

definition RecordModelCall :: "SessionRole \<Rightarrow> string \<Rightarrow> unit sop" where
  "RecordModelCall role model = UpdateTaskStats (model_call_stats role model)"

definition RecordTransientRetry :: "unit sop" where
  "RecordTransientRetry = UpdateTaskStats (\<lambda>s. s\<lparr>ts_TransientRetries := ts_TransientRetries s + 1\<rparr>)"

definition RecordModelDuration :: "string \<Rightarrow> int \<Rightarrow> unit sop" where
  "RecordModelDuration model milliseconds = UpdateTaskStats (\<lambda>s.
     s\<lparr>ts_ModelDurationMSByAlias := bump (ts_ModelDurationMSByAlias s) model milliseconds\<rparr>)"

definition RecordDecision :: "unit sop" where
  "RecordDecision = UpdateTaskStats (\<lambda>s. s\<lparr>ts_DecisionCommands := ts_DecisionCommands s + 1\<rparr>)"

definition RecordFix :: "unit sop" where
  "RecordFix = UpdateTaskStats (\<lambda>s. s\<lparr>ts_FixCommands := ts_FixCommands s + 1\<rparr>)"

definition RecordResume :: "unit sop" where
  "RecordResume = UpdateTaskStats (\<lambda>s. s\<lparr>ts_ResumeCommands := ts_ResumeCommands s + 1\<rparr>)"

definition RecordAutoFix :: "unit sop" where
  "RecordAutoFix = UpdateTaskStats (\<lambda>s. s\<lparr>ts_AutoFixRounds := ts_AutoFixRounds s + 1\<rparr>)"

definition RecordRateLimit :: "string \<Rightarrow> unit sop" where
  "RecordRateLimit model = UpdateTaskStats (\<lambda>s. s\<lparr>ts_RateLimits := ts_RateLimits s + 1,
     ts_RateLimitsByAlias := bump (ts_RateLimitsByAlias s) model 1\<rparr>)"

definition RecordProviderUnavailable :: "string \<Rightarrow> unit sop" where
  "RecordProviderUnavailable model = UpdateTaskStats (\<lambda>s.
     s\<lparr>ts_ProviderUnavailable := ts_ProviderUnavailable s + 1,
       ts_ProviderUnavailableByAlias := bump (ts_ProviderUnavailableByAlias s) model 1\<rparr>)"

definition RecordResultCorrection :: "unit sop" where
  "RecordResultCorrection = UpdateTaskStats (\<lambda>s. s\<lparr>ts_ResultCorrections := ts_ResultCorrections s + 1\<rparr>)"

definition RecordStructuredRetryExhausted :: "unit sop" where
  "RecordStructuredRetryExhausted =
     UpdateTaskStats (\<lambda>s. s\<lparr>ts_StructuredRetryExhausted := ts_StructuredRetryExhausted s + 1\<rparr>)"

definition RecordRiskFloor :: "string \<Rightarrow> unit sop" where
  "RecordRiskFloor category = (if category = [] then returnE ()
     else UpdateTaskStats (\<lambda>s. s\<lparr>ts_RiskFloorByCategory := addInt (ts_RiskFloorByCategory s) category 1\<rparr>))"

definition RecordSnapshotMismatch :: "string \<Rightarrow> unit sop" where
  "RecordSnapshotMismatch axis = (if axis = [] then returnE ()
     else UpdateTaskStats (snapshot_mismatch_stats axis))"

definition RecordPacketReject :: "string \<Rightarrow> unit sop" where
  "RecordPacketReject category = (if category = [] then returnE ()
     else UpdateTaskStats (\<lambda>s. s\<lparr>ts_PacketRejectByCategory := addInt (ts_PacketRejectByCategory s) category 1\<rparr>))"

definition RecordProbeOutcome :: "string \<Rightarrow> unit sop" where
  "RecordProbeOutcome outcome = (if outcome = [] then returnE ()
     else UpdateTaskStats (\<lambda>s. s\<lparr>ts_ProbeOutcome := addInt (ts_ProbeOutcome s) outcome 1\<rparr>))"

section \<open>Sessions\<close>

definition SessionID :: "8 word list \<Rightarrow> SessionRole \<Rightarrow> (string \<times> bool) sop" where
  "SessionID random role =
     (let idName = role @ ''.id'' in
      bindE (attempt (Read idName)) (\<lambda>r.
        let fresh = bindE (Write idName (NewUUID random)) (\<lambda>_. returnE (NewUUID random, False))
        in case r of
             Inl _ \<Rightarrow> fresh
           | Inr sid \<Rightarrow> if sid = [] then fresh
               else bindE (Exists (role @ ''.ready'')) (\<lambda>ready. returnE (sid, ready))))"

definition MarkReady :: "SessionRole \<Rightarrow> unit sop" where
  "MarkReady role = Touch (role @ ''.ready'')"

definition RemoveUnreadySession :: "SessionRole \<Rightarrow> unit sop" where
  "RemoveUnreadySession role = bindE (Exists (role @ ''.ready''))
     (\<lambda>ready. if ready then returnE () else Remove [role @ ''.id''])"

definition InvalidateSession :: "SessionRole \<Rightarrow> unit sop" where
  "InvalidateSession role = Remove [role @ ''.id'', role @ ''.ready'']"

definition InvalidateAllSessions :: "unit sop" where
  "InvalidateAllSessions = thenE (InvalidateSession WorkerRole)
     (thenE (InvalidateSession ReviewerRole) (InvalidateSession FailurePathReviewerRole))"

definition IsolationPolicy :: "string sop" where
  "IsolationPolicy = ReadOr ''isolation.policy'' []"

definition SetIsolationPolicy :: "string \<Rightarrow> unit sop" where
  "SetIsolationPolicy version = Write ''isolation.policy'' version"

definition ResetSessionsForPolicy :: "string \<Rightarrow> unit sop" where
  "ResetSessionsForPolicy currentPolicy = bindE IsolationPolicy
     (\<lambda>p. if p = currentPolicy then returnE () else InvalidateAllSessions)"

section \<open>The resume checkpoint\<close>

definition SaveResumeCheckpoint :: "go_runtime \<Rightarrow> ResumeCheckpoint \<Rightarrow> unit sop" where
  "SaveResumeCheckpoint rt c =
     (if rc_Model c = [] then throwE (Errorf ''resume state model is required'' [])
      else thenE (check (validateStopState rt c))
        (wrapE ''resume state write''
          (writeFileAtomic resumeStateFile (Doc (CheckpointD (marshal_checkpoint (c\<lparr>rc_Version := resumeStateVersion\<rparr>)))))))"

definition LoadResumeCheckpoint :: "go_runtime \<Rightarrow> ResumeCheckpoint sop" where
  "LoadResumeCheckpoint rt =
     bindE (catchE (ReadFile resumeStateFile) (\<lambda>e. throwE (if is_not_exist e then NoResumeCheckpoint else e)))
       (\<lambda>c. case c of
          Doc (CheckpointD d) \<Rightarrow> of_result (decode_checkpoint rt d)
        | _ \<Rightarrow> throwE (Errorf ''resume state is unreadable'' []))"

definition ClearResumeCheckpoint :: "unit sop" where
  "ClearResumeCheckpoint = Remove [resumeStateFile]"

section \<open>The evidence lease\<close>

definition parentEvidenceLeasePath :: string where "parentEvidenceLeasePath = ''parent-evidence-lease''"
definition parentEvidenceLedgerPath :: string where "parentEvidenceLedgerPath = ''parent-evidence-ledger.json''"
definition ParentEvidenceLedgerLockFile :: string where
  "ParentEvidenceLedgerLockFile = ''parent-evidence-ledger.lock''"

text \<open>An \<^verbatim>\<open>int64\<close> sum wraps around.\<close>

definition wrap64 :: "int \<Rightarrow> int" where
  "wrap64 i = (i + 2 ^ 63) mod 2 ^ 64 - 2 ^ 63"

definition ParentEvidenceLeaseEpoch :: "int sop" where
  "ParentEvidenceLeaseEpoch =
     bindE (attempt (ReadFile parentEvidenceLeasePath)) (\<lambda>r. case r of
         Inl e \<Rightarrow> if is_not_exist e then returnE 0 else throwE (Wrapf ''parent evidence lease'' e)
       | Inr c \<Rightarrow> (case atoi (trim_space (text_of c)) of
             None \<Rightarrow> throwE (Errorf ''parent evidence lease is unreadable'' [])
           | Some epoch \<Rightarrow> returnE epoch))"

definition advanceParentEvidenceLeaseUnlocked :: "unit sop" where
  "advanceParentEvidenceLeaseUnlocked = bindE ParentEvidenceLeaseEpoch (\<lambda>epoch.
     writeFileAtomic parentEvidenceLeasePath (Text (itoa (wrap64 (epoch + 1)) @ [CHR 0x0A])))"

definition AdvanceParentEvidenceLease :: "unit sop" where
  "AdvanceParentEvidenceLease =
     thenE (wrapE ''parent evidence ledger lock'' (AcquireWait ParentEvidenceLedgerLockFile))
       advanceParentEvidenceLeaseUnlocked"

definition ClearParentEvidenceLedger :: "unit sop" where
  "ClearParentEvidenceLedger = catchE (removeStatePath parentEvidenceLedgerPath)
     (\<lambda>e. if is_not_exist e then returnE () else throwE (Wrapf ''parent evidence ledger remove'' e))"

definition RotateParentEvidenceLease :: "unit sop" where
  "RotateParentEvidenceLease =
     thenE (wrapE ''parent evidence ledger lock'' (AcquireWait ParentEvidenceLedgerLockFile))
       (thenE ClearParentEvidenceLedger advanceParentEvidenceLeaseUnlocked)"

section \<open>The parent review state\<close>

definition writeParentReviewState :: "ParentReviewState \<Rightarrow> unit sop" where
  "writeParentReviewState state =
     wrapE ''parent review state write'' (writeFileAtomic parentReviewStateFile (Doc (ReviewD state)))"

definition initializeParentReviewState :: "string \<Rightarrow> unit sop" where
  "initializeParentReviewState taskID = writeParentReviewState
     \<lparr>prs_Version = parentReviewStateVersion, prs_TaskID = taskID, prs_Open = None, prs_Review = None,
      prs_Completion = None\<rparr>"

text \<open>The state decoded from the file must be valid and belong to the current task.\<close>

definition review_for_task :: "ParentReviewState \<Rightarrow> ParentReviewState sop" where
  "review_for_task raw = bindE (of_result (decodeParentReviewState raw)) (\<lambda>state.
     bindE TaskID (\<lambda>taskID.
       if prs_TaskID state \<noteq> taskID then throwE (Errorf ''parent review state schema is invalid'' [])
       else returnE state))"

definition loadParentReviewState :: "ParentReviewState sop" where
  "loadParentReviewState = bindE (ReadFile parentReviewStateFile) (\<lambda>c.
     case c of
       Doc (ReviewD raw) \<Rightarrow> review_for_task raw
     | _ \<Rightarrow> throwE (Errorf ''parent review state is unreadable'' []))"

definition CurrentParentCompletionOutcome :: "ParentCompletionOutcome option sop" where
  "CurrentParentCompletionOutcome = bindE loadParentReviewState (\<lambda>state. returnE (prs_Completion state))"

text \<open>Both readers below treat a task without an identity as one without a review.\<close>

definition with_task_review :: "'a \<Rightarrow> (ParentReviewState \<Rightarrow> 'a) \<Rightarrow> 'a sop" where
  "with_task_review absent f =
     bindE (attempt (Read ''task.id'')) (\<lambda>r. case r of
         Inl e \<Rightarrow> if is_not_exist e then returnE absent else throwE e
       | Inr taskID \<Rightarrow> if taskID = [] then returnE absent
           else bindE loadParentReviewState (\<lambda>state. returnE (f state)))"

definition CurrentParentReview :: "ParentReviewOpenState option sop" where
  "CurrentParentReview = with_task_review None prs_Open"

definition parentReviewResolutionState :: "(ParentReviewState \<times> ParentReviewOpenState) option sop" where
  "parentReviewResolutionState = with_task_review None
     (\<lambda>state. map_option (\<lambda>open. (state, open)) (prs_Open state))"

definition parentReopenTransactionStateFile :: string where
  "parentReopenTransactionStateFile = ''parent-reopen-transaction.json''"

definition CurrentParentReviewLabel :: "string sop" where
  "CurrentParentReviewLabel = bindE (Exists parentReopenTransactionStateFile) (\<lambda>pending.
     if pending then throwE (Errorf ''parent reopen transition recovery is pending'' [])
     else bindE CurrentParentReview (\<lambda>open. returnE
       (case open of None \<Rightarrow> roundCommentNone | Some o' \<Rightarrow> pro_PacketStatus o')))"

definition OpenParentReviewLabel :: "string sop" where
  "OpenParentReviewLabel = bindE (attempt CurrentParentReviewLabel)
     (\<lambda>r. returnE (case r of Inl _ \<Rightarrow> ''unavailable'' | Inr label \<Rightarrow> label))"

definition openParentReviewState :: "string \<Rightarrow> string \<Rightarrow> ParentReviewProducer \<Rightarrow> unit sop" where
  "openParentReviewState status risk producer =
     (if \<not> validParentReviewPacketStatus status
      then throwE (Errorf ''parent review packet status is invalid'' [status])
      else bindE loadParentReviewState (\<lambda>state. writeParentReviewState
        (state\<lparr>prs_Open := Some \<lparr>pro_PacketStatus = status, pro_Role = prp_Role producer,
                 pro_ModelAlias = prp_Model producer, pro_Risk = risk\<rparr>,
               prs_Review := None, prs_Completion := None\<rparr>)))"

definition workerEndSnapshotFile :: string where "workerEndSnapshotFile = ''snapshot-worker-end.json''"

definition LoadWorkerEndSnapshot :: "GitSnapshot sop" where
  "LoadWorkerEndSnapshot = bindE (ReadFile workerEndSnapshotFile) (\<lambda>c.
     case c of Doc (SnapshotD s) \<Rightarrow> returnE s | _ \<Rightarrow> throwE (Errorf ''snapshot is unreadable'' []))"

text \<open>
  The working tree may change while a command runs: \<open>rt_CaptureGitSnapshot\<close> is asked for the state of the
  repository at the moment of the capture, counted in accesses, and a capture is an access of its own.
\<close>

definition CaptureGitSnapshot :: "go_runtime \<Rightarrow> string \<Rightarrow> GitSnapshot sop" where
  "CaptureGitSnapshot rt root st = (case rt_CaptureGitSnapshot rt (access st) root of
       None \<Rightarrow> (Inl (Errorf ''git snapshot'' [root]), tick st)
     | Some snapshot \<Rightarrow> (Inr snapshot, tick st))"

definition bindCompletionSource ::
    "go_runtime \<Rightarrow> ParentCompletionOutcome \<Rightarrow> ParentReviewBinding option \<Rightarrow> ParentCompletionOutcome sop" where
  "bindCompletionSource rt completion review =
     (case review of
        Some r \<Rightarrow> bindE (ReadOr ''repo-root'' []) (\<lambda>root.
          bindE (CaptureGitSnapshot rt root) (\<lambda>current.
            if \<not> sameParentReviewSnapshot (snapshotDigest current) (rb_Snapshot r)
            then throwE (Errorf ''parent completion source changed during acceptance'' [])
            else returnE (completion\<lparr>pco_Source := Some (snapshotDigest current), pco_Review := Some r\<rparr>)))
      | None \<Rightarrow> bindE (Exists workerEndSnapshotFile) (\<lambda>e.
          if \<not> e then returnE completion
          else bindE LoadWorkerEndSnapshot (\<lambda>s. returnE (completion\<lparr>pco_Source := Some (snapshotDigest s)\<rparr>))))"

definition completion_with_source ::
    "go_runtime \<Rightarrow> string \<Rightarrow> ParentReviewBinding option \<Rightarrow> ParentCompletionOutcome option \<Rightarrow>
     ParentCompletionOutcome option sop" where
  "completion_with_source rt terminal review completion =
     (case completion of
        Some c \<Rightarrow> if terminal = SessionRotationTerminalAccept
          then bindE (bindCompletionSource rt c review) (\<lambda>c. returnE (Some c)) else returnE completion
      | None \<Rightarrow> returnE None)"

definition close_review ::
    "go_runtime \<Rightarrow> string \<Rightarrow> string \<Rightarrow> ParentReviewState \<Rightarrow> ParentReviewOpenState \<Rightarrow>
     ParentReviewOpenState option sop" where
  "close_review rt kind terminal state resolved =
     (if kind = ParentOutcomeAccepted \<and> pro_PacketStatus resolved = StatusNeedsSolDecision
      then throwE (Errorf ''pending Sol decision must be resolved with --decision before --accept'' [])
      else bindE (of_result (parentCompletionOutcome terminal (pro_Risk resolved))) (\<lambda>completion.
        bindE (completion_with_source rt terminal (prs_Review state) completion) (\<lambda>completion.
          thenE (writeParentReviewState
              (state\<lparr>prs_Open := None, prs_Review := None, prs_Completion := completion\<rparr>))
            (returnE (Some resolved)))))"

definition resolveParentReviewStateWithCompletion ::
    "go_runtime \<Rightarrow> string \<Rightarrow> string \<Rightarrow> string \<Rightarrow> string \<Rightarrow> ParentReviewOpenState option sop" where
  "resolveParentReviewStateWithCompletion rt kind origin cause terminal =
     thenE (check (validateParentOutcomeResolution kind origin cause terminal))
       (bindE parentReviewResolutionState (\<lambda>available. case available of
           None \<Rightarrow> returnE None
         | Some (state, resolved) \<Rightarrow> close_review rt kind terminal state resolved))"

definition resolveParentReviewState ::
    "go_runtime \<Rightarrow> string \<Rightarrow> string \<Rightarrow> string \<Rightarrow> ParentReviewOpenState option sop" where
  "resolveParentReviewState rt kind origin cause =
     resolveParentReviewStateWithCompletion rt kind origin cause []"

definition resolveParentCompletionState ::
    "go_runtime \<Rightarrow> string \<Rightarrow> string \<Rightarrow> ParentReviewOpenState option sop" where
  "resolveParentCompletionState rt kind terminal =
     resolveParentReviewStateWithCompletion rt kind [] [] terminal"

text \<open>The outcome event goes to the call log of the task, best effort.\<close>

definition appendParentOutcomeEvent ::
    "string \<Rightarrow> string \<Rightarrow> string \<Rightarrow> string \<Rightarrow> string \<Rightarrow> ParentReviewOpenState \<Rightarrow> unit sop" where
  "appendParentOutcomeEvent taskID phase kind origin cause resolved st =
     (if fault st (access st) then (Inr (), tick st)
      else (Inr (), (tick st)\<lparr>outcome_log := outcome_log st @
        [\<lparr>oe_TaskID = taskID, oe_Phase = phase, oe_Role = pro_Role resolved, oe_Outcome = kind,
          oe_PacketStatus = pro_PacketStatus resolved, oe_ModelAlias = pro_ModelAlias resolved,
          oe_WorkerReportedRisk = pro_Risk resolved, oe_ParentOrigin = origin, oe_ParentCause = cause\<rparr>]\<rparr>))"

definition RecordParentOutcome :: "go_runtime \<Rightarrow> string \<Rightarrow> string \<Rightarrow> string \<Rightarrow> bool sop" where
  "RecordParentOutcome rt kind origin cause =
     bindE TaskID (\<lambda>taskID.
       bindE (resolveParentReviewState rt kind origin cause) (\<lambda>r. case r of
           None \<Rightarrow> returnE False
         | Some resolved \<Rightarrow>
             thenE (UpdateTaskStats (\<lambda>stats. recordParentOutcome kind origin resolved (stats\<lparr>ts_ParentReviewOpen := None\<rparr>)))
               (thenE (appendParentOutcomeEvent taskID (parentPhaseOfKind kind) kind origin cause resolved)
                  (returnE True))))"

section \<open>Laws of the store operations\<close>

text \<open>
  \<open>state_is F\<close> says that the files of a store are those of \<open>F\<close>, the best-effort statistics left
  aside. A clean operation that fails has changed nothing: its error assertion is \<open>state_is F\<close>
  again. \<open>unchanged F\<close> is the error assertion of a transition with a rollback.
\<close>

definition state_is :: "filemap \<Rightarrow> store \<Rightarrow> bool" where
  "state_is F st \<longleftrightarrow> (\<forall>n. n \<noteq> currentStatsFile \<longrightarrow> files st n = F n)"

definition unchanged :: "filemap \<Rightarrow> state_error \<Rightarrow> store \<Rightarrow> bool" where
  "unchanged F e st \<longleftrightarrow> (\<not> rollback_failed e \<longrightarrow> state_is F st)"

named_theorems clean \<open>triples of operations that leave the state alone when they fail\<close>

lemma state_is_tick [simp]: "state_is F (tick st) = state_is F st"
  by (simp add: state_is_def)

lemma state_is_stats [simp]: "state_is (G(currentStatsFile := v)) = state_is G"
  by (auto simp: state_is_def fun_eq_iff)

lemma state_is_self: "state_is (files st) st"
  by (simp add: state_is_def)

lemma clean_unchanged: "triple P m Q (\<lambda>_. state_is F) \<Longrightarrow> triple P m Q (unchanged F)"
  by (erule triple_weaken) (simp_all add: unchanged_def)

lemma never_fails: "triple P m Q (\<lambda>_ _. False) \<Longrightarrow> triple P m Q E"
  by (erule triple_weaken) simp_all

lemma file_names_not_stats [simp]:
  "resumeStateFile \<noteq> currentStatsFile" "parentReviewStateFile \<noteq> currentStatsFile"
  "parentEvidenceLeasePath \<noteq> currentStatsFile" "''task.status'' \<noteq> currentStatsFile"
  "''task.id'' \<noteq> currentStatsFile" "''pending-decision'' \<noteq> currentStatsFile"
  "parentReopenTransactionStateFile \<noteq> currentStatsFile" "workerEndSnapshotFile \<noteq> currentStatsFile"
  "''repo-root'' \<noteq> currentStatsFile" "''last-decision'' \<noteq> currentStatsFile"
  "parentEvidenceLedgerPath \<noteq> currentStatsFile"
  by (simp_all add: resumeStateFile_def currentStatsFile_def parentReviewStateFile_def
      parentEvidenceLeasePath_def parentReopenTransactionStateFile_def workerEndSnapshotFile_def
      parentEvidenceLedgerPath_def)

lemma ReadFile_clean:
  "n \<noteq> currentStatsFile \<Longrightarrow> triple (state_is F) (ReadFile n)
     (\<lambda>c st. (F n = Some c \<and> c \<noteq> Directory) \<and> state_is F st)
     (\<lambda>e st. (is_not_exist e \<longrightarrow> F n = None) \<and> state_is F st)"
  by (rule tripleI) (auto simp: ReadFile_def state_is_def split: if_splits option.splits content.splits)

lemma Stat_clean:
  "n \<noteq> currentStatsFile \<Longrightarrow> triple (state_is F) (Stat n)
     (\<lambda>d st. (F n \<noteq> None \<and> (d \<longleftrightarrow> F n = Some Directory)) \<and> state_is F st)
     (\<lambda>e st. (is_not_exist e \<longrightarrow> F n = None) \<and> state_is F st)"
  by (rule tripleI) (auto simp: Stat_def state_is_def split: if_splits option.splits content.splits)

lemma writeFileAtomic_clean:
  "triple (state_is F) (writeFileAtomic n c) (\<lambda>_. state_is (F(n \<mapsto> c))) (\<lambda>_. state_is F)"
  by (rule tripleI) (auto simp: writeFileAtomic_def state_is_def split: if_splits option.splits content.splits)

lemma removeStatePath_clean:
  "triple (state_is F) (removeStatePath n) (\<lambda>_. state_is (F(n := None)))
     (\<lambda>e st. (is_not_exist e \<and> n \<noteq> currentStatsFile \<longrightarrow> F n = None) \<and> state_is F st)"
  by (rule tripleI) (auto simp: removeStatePath_def state_is_def split: if_splits option.splits content.splits)

lemma reading:
  assumes "\<And>F. triple (on F) m (\<lambda>_. on F) (\<lambda>_. on F)"
  shows "triple (state_is F) m (\<lambda>_. state_is F) (\<lambda>_. state_is F)"
proof (rule tripleI)
  show "state_is F st'" if "state_is F st" "m st = (Inl e, st')" for st e st'
    using triple_InlD [OF assms _ that(2), of "files st"] that(1) by (simp add: on_def state_is_def)
  show "state_is F st'" if "state_is F st" "m st = (Inr v, st')" for st v st'
    using triple_InrD [OF assms _ that(2), of "files st"] that(1) by (simp add: on_def state_is_def)
qed

lemma ReadFile_frame: "triple (state_is F) (ReadFile n) (\<lambda>_. state_is F) (\<lambda>_. state_is F)"
  by (rule reading, rule triple_weaken [OF ReadFile_triple]) auto

lemma Stat_frame: "triple (state_is F) (Stat n) (\<lambda>_. state_is F) (\<lambda>_. state_is F)"
  by (rule reading, rule triple_weaken [OF Stat_triple]) auto

lemma AcquireWait_clean: "triple (state_is F) (AcquireWait n) (\<lambda>_. state_is F) (\<lambda>_. state_is F)"
  by (rule reading, rule triple_weaken [OF AcquireWait_triple]) auto

lemma Now_clean: "triple (state_is F) Now (\<lambda>_. state_is F) E"
  by (simp add: triple_def Now_def)

lemma attempt_frame:
  "triple (state_is F) m (\<lambda>_. state_is F) (\<lambda>_. state_is F) \<Longrightarrow>
   triple (state_is F) (attempt m) (\<lambda>_. state_is F) E"
  by (rule triple_attempt) simp

lemma Exists_clean: "triple (state_is F) (Exists n) (\<lambda>_. state_is F) E"
  unfolding Exists_def
  by (rule triple_bind [OF attempt_frame [OF Stat_frame]]) (auto intro: triple_return)

lemma Read_clean: "triple (state_is F) (Read n) (\<lambda>_. state_is F) (\<lambda>_. state_is F)"
  unfolding Read_def by (rule triple_bind [OF ReadFile_frame]) (auto intro: triple_return)

lemma ReadOr_clean: "triple (state_is F) (ReadOr n d) (\<lambda>_. state_is F) E"
  unfolding ReadOr_def
  by (rule triple_bind [OF attempt_frame [OF Read_clean]]) (auto intro: triple_return)

lemma get_TaskStatus_clean: "triple (state_is F) get_TaskStatus (\<lambda>_. state_is F) E"
  unfolding get_TaskStatus_def
  by (rule triple_bind [OF attempt_frame [OF Read_clean]]) (auto intro: triple_return)

text \<open>\<open>status_of F\<close> is the status that the files record; a failed read counts as no task.\<close>

definition status_of :: "filemap \<Rightarrow> TaskStatus" where
  "status_of F = (case F ''task.status'' of
      None \<Rightarrow> TaskStatusNone
    | Some c \<Rightarrow> if trim_space (text_of c) = [] then TaskStatusNone else trim_space (text_of c))"

lemma Read_content:
  "n \<noteq> currentStatsFile \<Longrightarrow> triple (state_is F) (Read n)
     (\<lambda>v st. (\<exists>c. F n = Some c \<and> v = trim_space (text_of c)) \<and> state_is F st) (\<lambda>_. state_is F)"
  unfolding Read_def
  by (rule triple_bind [OF triple_weaken [OF ReadFile_clean, where Q = "\<lambda>c st. F n = Some c \<and> state_is F st"]])
    (auto intro: triple_return)

lemma get_TaskStatus_read:
  "triple (state_is F) get_TaskStatus (\<lambda>s st. s \<in> {TaskStatusNone, status_of F} \<and> state_is F st) E"
  unfolding get_TaskStatus_def
proof (rule triple_bind)
  show "triple (state_is F) (attempt (Read ''task.status''))
      (\<lambda>r st. (\<forall>v. r = Inr v \<longrightarrow> (\<exists>c. F ''task.status'' = Some c \<and> v = trim_space (text_of c))) \<and> state_is F st) E"
    by (rule triple_attempt, rule triple_weaken [OF Read_content]) auto
qed (rule triple_assume, auto simp: status_of_def split: sum.splits intro!: triple_return)

lemma TaskID_clean: "triple (state_is F) TaskID (\<lambda>_. state_is F) (\<lambda>_. state_is F)"
  unfolding TaskID_def
  by (rule triple_bind [OF attempt_frame [OF Read_clean]])
    (auto split: sum.splits intro: triple_return triple_throw)

lemma Write_clean:
  "triple (state_is F) (Write n v) (\<lambda>_. state_is (F(n \<mapsto> Text (v @ [CHR 0x0A])))) (\<lambda>_. state_is F)"
  unfolding Write_def by (rule triple_wrap) (rule writeFileAtomic_clean)

lemma Touch_clean:
  "triple (state_is F) (Touch n) (\<lambda>_. state_is (F(n \<mapsto> Text [CHR ''1'', CHR 0x0A]))) (\<lambda>_. state_is F)"
  unfolding Touch_def by (rule triple_weaken [OF Write_clean]) auto

lemma Remove_one_clean:
  "triple (state_is F) (Remove [n]) (\<lambda>_. state_is (F(n := None))) (\<lambda>_. state_is F)"
  unfolding Remove.simps
proof (rule triple_then, rule triple_catch)
  show "triple (state_is F) (removeStatePath n) (\<lambda>_. state_is (F(n := None)))
     (\<lambda>e st. (is_not_exist e \<and> n \<noteq> currentStatsFile \<longrightarrow> F n = None) \<and> state_is F st)"
    by (rule removeStatePath_clean)
qed (auto simp: triple_def returnE_def throwE_def state_is_def)

lemma loadTaskStats_frame: "triple (state_is F) loadTaskStats (\<lambda>_. state_is F) (\<lambda>_. state_is F)"
  unfolding loadTaskStats_def
  by (rule triple_bind [OF ReadFile_frame])
    (auto split: content.splits doc.splits intro: triple_return triple_throw)

lemma bootstrapTaskStats_frame: "triple (state_is F) bootstrapTaskStats (\<lambda>_. state_is F) (\<lambda>_. state_is F)"
  unfolding bootstrapTaskStats_def
  by (rule triple_bind [OF attempt_frame [OF Read_clean]])
    (auto split: sum.splits intro!: triple_throw triple_bind [OF Now_clean]
      triple_bind [OF get_TaskStatus_clean] triple_return)

lemma writeTaskStats_frame: "triple (state_is F) (writeTaskStats s) (\<lambda>_. state_is F) (\<lambda>_. state_is F)"
  unfolding writeTaskStats_def
  by (rule triple_weaken [OF writeFileAtomic_clean]) (auto simp: state_is_def)

lemma UpdateTaskStats_clean: "triple (state_is F) (UpdateTaskStats u) (\<lambda>_. state_is F) E"
  unfolding UpdateTaskStats_def recoverTaskStats_def
  by (rule triple_bind [OF attempt_frame [OF triple_catch [OF loadTaskStats_frame bootstrapTaskStats_frame]]])
    (auto split: sum.splits intro: triple_return triple_bind [OF attempt_frame [OF writeTaskStats_frame]])

lemma AppendTaskLifecycle_frame:
  "triple (state_is F) (AppendTaskLifecycle r) (\<lambda>_. state_is F) (\<lambda>_. state_is F)"
  by (rule tripleI) (auto simp: AppendTaskLifecycle_def state_is_def Let_def split: if_splits)

lemma appendTaskStatusLifecycle_clean:
  "triple (state_is F) (appendTaskStatusLifecycle p n) (\<lambda>_. state_is F) E"
  unfolding appendTaskStatusLifecycle_def
  by (rule triple_bind [OF ReadOr_clean])
    (auto intro!: triple_return triple_bind [OF Now_clean]
      triple_bind [OF attempt_frame [OF AppendTaskLifecycle_frame]])

lemma SetTaskStatus_clean:
  "triple (state_is F) (SetTaskStatus s)
     (\<lambda>_. state_is (F(''task.status'' \<mapsto> Text (s @ [CHR 0x0A])))) (\<lambda>_. state_is F)"
  unfolding SetTaskStatus_def
proof (rule triple_bind [OF get_TaskStatus_clean], rule triple_then [OF Write_clean],
    rule triple_then [OF UpdateTaskStats_clean])
  fix p
  let ?F = "F(''task.status'' \<mapsto> Text (s @ [CHR 0x0A]))"
  show "triple (state_is ?F) (if p \<noteq> s then appendTaskStatusLifecycle p s else returnE ())
      (\<lambda>_. state_is ?F) (\<lambda>_. state_is F)"
    by (auto intro: appendTaskStatusLifecycle_clean triple_return)
qed

definition saved_checkpoint :: "ResumeCheckpoint \<Rightarrow> doc content" where
  "saved_checkpoint c = Doc (CheckpointD (marshal_checkpoint (c\<lparr>rc_Version := resumeStateVersion\<rparr>)))"

definition saveable :: "go_runtime \<Rightarrow> ResumeCheckpoint \<Rightarrow> bool" where
  "saveable rt c \<longleftrightarrow> rc_Model c \<noteq> [] \<and> validateStopState rt c = None"

lemma SaveResumeCheckpoint_clean:
  "triple (state_is F) (SaveResumeCheckpoint rt c)
     (\<lambda>_ st. saveable rt c \<and> state_is (F(resumeStateFile \<mapsto> saved_checkpoint c)) st) (\<lambda>_. state_is F)"
  unfolding SaveResumeCheckpoint_def
proof (rule triple_if, rule triple_throw, assumption, rule triple_then)
  show "triple (state_is F) (check (validateStopState rt c))
      (\<lambda>_ st. validateStopState rt c = None \<and> state_is F st) (\<lambda>_. state_is F)"
    by (rule triple_check) simp_all
  show "triple (\<lambda>st. validateStopState rt c = None \<and> state_is F st)
      (wrapE ''resume state write''
          (writeFileAtomic resumeStateFile (Doc (CheckpointD (marshal_checkpoint (c\<lparr>rc_Version := resumeStateVersion\<rparr>))))))
      (\<lambda>_ st. saveable rt c \<and> state_is (F(resumeStateFile \<mapsto> saved_checkpoint c)) st) (\<lambda>_. state_is F)"
    if "rc_Model c \<noteq> []"
    by (rule triple_assume, rule triple_wrap, rule triple_weaken [OF writeFileAtomic_clean])
      (use that in \<open>auto simp: saved_checkpoint_def saveable_def\<close>)
qed

lemma LoadResumeCheckpoint_clean:
  "triple (state_is F) (LoadResumeCheckpoint rt) (\<lambda>_. state_is F) (\<lambda>_. state_is F)"
  unfolding LoadResumeCheckpoint_def
  by (rule triple_bind [OF triple_catch [OF ReadFile_frame]])
    (auto split: content.splits doc.splits intro: triple_throw triple_of_result)

lemma LoadResumeCheckpoint_content:
  "triple (state_is F) (LoadResumeCheckpoint rt)
     (\<lambda>c st. (\<exists>d. F resumeStateFile = Some (Doc (CheckpointD d)) \<and> decode_checkpoint rt d = Inr c) \<and> state_is F st)
     (\<lambda>_. state_is F)"
  unfolding LoadResumeCheckpoint_def
proof (rule triple_bind)
  show "triple (state_is F) (catchE (ReadFile resumeStateFile)
        (\<lambda>e. throwE (if is_not_exist e then NoResumeCheckpoint else e)))
      (\<lambda>c st. F resumeStateFile = Some c \<and> state_is F st) (\<lambda>_. state_is F)"
    by (rule triple_catch [OF triple_weaken [OF ReadFile_clean, where E = "\<lambda>_. state_is F"]])
      (auto intro: triple_throw)
qed (rule triple_assume, auto split: content.splits doc.splits intro!: triple_throw triple_of_result)

lemma ClearResumeCheckpoint_clean:
  "triple (state_is F) ClearResumeCheckpoint (\<lambda>_. state_is (F(resumeStateFile := None))) (\<lambda>_. state_is F)"
  unfolding ClearResumeCheckpoint_def by (rule Remove_one_clean)

lemma triple_exists_pre: "(\<And>x. triple (P x) m Q E) \<Longrightarrow> triple (\<lambda>st. \<exists>x. P x st) m Q E"
  by (rule tripleI) (blast dest: triple_InlD triple_InrD)+

text \<open>\<open>lease_epoch F\<close> is the epoch that the lease file holds; \<open>lease_text\<close> is the file of an epoch.\<close>

definition lease_epoch :: "filemap \<Rightarrow> int option" where
  "lease_epoch F = (case F parentEvidenceLeasePath of None \<Rightarrow> Some 0 | Some c \<Rightarrow> atoi (trim_space (text_of c)))"

definition lease_text :: "int \<Rightarrow> doc content" where
  "lease_text n = Text (itoa n @ [CHR 0x0A])"

definition lease_advanced :: "filemap \<Rightarrow> filemap \<Rightarrow> bool" where
  "lease_advanced F G \<longleftrightarrow> (\<exists>n. lease_epoch F = Some n \<and>
     G = F(parentEvidenceLeasePath \<mapsto> lease_text (wrap64 (n + 1))))"

lemma ParentEvidenceLeaseEpoch_clean:
  "triple (state_is F) ParentEvidenceLeaseEpoch (\<lambda>n st. lease_epoch F = Some n \<and> state_is F st) (\<lambda>_. state_is F)"
  unfolding ParentEvidenceLeaseEpoch_def
proof (rule triple_bind)
  show "triple (state_is F) (attempt (ReadFile parentEvidenceLeasePath))
      (\<lambda>r st. (case r of Inl e \<Rightarrow> is_not_exist e \<longrightarrow> F parentEvidenceLeasePath = None
         | Inr c \<Rightarrow> F parentEvidenceLeasePath = Some c) \<and> state_is F st) (\<lambda>_. state_is F)"
    by (rule triple_attempt, rule triple_weaken [OF ReadFile_clean]) auto
qed (rule triple_assume, auto simp: lease_epoch_def split: sum.splits option.splits
    intro!: triple_return triple_throw)

lemma AdvanceParentEvidenceLease_clean:
  "triple (state_is F) AdvanceParentEvidenceLease
     (\<lambda>_ st. \<exists>G. lease_advanced F G \<and> state_is G st) (\<lambda>_. state_is F)"
  unfolding AdvanceParentEvidenceLease_def advanceParentEvidenceLeaseUnlocked_def
  by (rule triple_then [OF triple_wrap [OF AcquireWait_clean]],
      rule triple_bind [OF ParentEvidenceLeaseEpoch_clean], rule triple_assume,
      rule triple_weaken [OF writeFileAtomic_clean])
    (auto simp: lease_advanced_def lease_text_def)

lemma writeParentReviewState_clean:
  "triple (state_is F) (writeParentReviewState s)
     (\<lambda>_. state_is (F(parentReviewStateFile \<mapsto> Doc (ReviewD s)))) (\<lambda>_. state_is F)"
  unfolding writeParentReviewState_def by (rule triple_wrap) (rule writeFileAtomic_clean)

lemma ReadFile_content:
  "n \<noteq> currentStatsFile \<Longrightarrow> triple (state_is F) (ReadFile n)
     (\<lambda>c st. F n = Some c \<and> state_is F st) (\<lambda>_. state_is F)"
  by (rule triple_weaken [OF ReadFile_clean]) auto

lemma decodeParentReviewState_same: "decodeParentReviewState raw = Inr s \<Longrightarrow> s = raw"
  by (auto simp: decodeParentReviewState_def split: option.splits)

lemma review_for_task_clean:
  "triple (state_is F) (review_for_task raw)
     (\<lambda>s st. (s = raw \<and> decodeParentReviewState s = Inr s) \<and> state_is F st) (\<lambda>_. state_is F)"
  unfolding review_for_task_def
proof (rule triple_bind)
  show "triple (state_is F) (of_result (decodeParentReviewState raw))
      (\<lambda>s st. (s = raw \<and> decodeParentReviewState s = Inr s) \<and> state_is F st) (\<lambda>_. state_is F)"
    by (rule triple_of_result) (auto dest: decodeParentReviewState_same)
qed (rule triple_assume, rule triple_bind [OF TaskID_clean], auto intro: triple_throw triple_return)

lemma loadParentReviewState_clean:
  "triple (state_is F) loadParentReviewState
     (\<lambda>s st. (F parentReviewStateFile = Some (Doc (ReviewD s)) \<and> decodeParentReviewState s = Inr s) \<and> state_is F st)
     (\<lambda>_. state_is F)"
  unfolding loadParentReviewState_def
proof (rule triple_bind [OF ReadFile_content], simp, rule triple_assume)
  fix c assume c: "F parentReviewStateFile = Some c"
  show "triple (state_is F)
      (case c of Doc (ReviewD raw) \<Rightarrow> review_for_task raw
       | _ \<Rightarrow> throwE (Errorf ''parent review state is unreadable'' []))
      (\<lambda>s st. (F parentReviewStateFile = Some (Doc (ReviewD s)) \<and> decodeParentReviewState s = Inr s) \<and> state_is F st)
      (\<lambda>_. state_is F)"
  proof (cases "\<exists>raw. c = Doc (ReviewD raw)")
    case True
    then obtain raw where raw: "c = Doc (ReviewD raw)" ..
    have "triple (state_is F) (review_for_task raw)
      (\<lambda>s st. (F parentReviewStateFile = Some (Doc (ReviewD s)) \<and> decodeParentReviewState s = Inr s) \<and> state_is F st)
      (\<lambda>_. state_is F)"
      by (rule triple_weaken [OF review_for_task_clean]) (auto simp: c raw)
    with raw show ?thesis by simp
  qed (auto split: content.splits doc.splits intro: triple_throw)
qed

lemma loadParentReviewState_frame:
  "triple (state_is F) loadParentReviewState (\<lambda>_. state_is F) (\<lambda>_. state_is F)"
  by (rule triple_weaken [OF loadParentReviewState_clean]) auto

lemma with_task_review_frame:
  "triple (state_is F) (with_task_review a f) (\<lambda>_. state_is F) (\<lambda>_. state_is F)"
  unfolding with_task_review_def
  by (rule triple_bind [OF attempt_frame [OF Read_clean]])
    (auto split: sum.splits intro!: triple_return triple_throw triple_bind [OF loadParentReviewState_frame])

lemma CurrentParentReviewLabel_clean:
  "triple (state_is F) CurrentParentReviewLabel (\<lambda>_. state_is F) (\<lambda>_. state_is F)"
  unfolding CurrentParentReviewLabel_def CurrentParentReview_def
  by (rule triple_bind [OF Exists_clean])
    (auto intro!: triple_throw triple_return triple_bind [OF with_task_review_frame])

lemma CaptureGitSnapshot_clean:
  "triple (state_is F) (CaptureGitSnapshot rt root) (\<lambda>_. state_is F) (\<lambda>_. state_is F)"
  by (simp add: triple_def CaptureGitSnapshot_def state_is_def tick_def split: option.split)

lemma bindCompletionSource_clean:
  "triple (state_is F) (bindCompletionSource rt c r) (\<lambda>_. state_is F) (\<lambda>_. state_is F)"
proof -
  have load: "triple (state_is F) LoadWorkerEndSnapshot (\<lambda>_. state_is F) (\<lambda>_. state_is F)"
    unfolding LoadWorkerEndSnapshot_def
    by (rule triple_bind [OF ReadFile_frame])
      (auto split: content.splits doc.splits intro: triple_return triple_throw)
  show ?thesis
    unfolding bindCompletionSource_def
    by (auto split: option.splits intro!: triple_bind [OF ReadOr_clean] triple_bind [OF Exists_clean]
        triple_bind [OF load] triple_bind [OF CaptureGitSnapshot_clean] triple_return triple_throw)
qed

text \<open>
  Resolving a review writes the review state once, as its last step, so a failure has changed
  nothing. When it reports a resolved review, the stored state is that of a valid open review with
  the review closed and the given completion.
\<close>

lemma completion_with_source_clean:
  "triple (state_is F) (completion_with_source rt terminal review completion) (\<lambda>_. state_is F) (\<lambda>_. state_is F)"
  unfolding completion_with_source_def
  by (auto split: option.splits intro!: triple_return triple_bind [OF bindCompletionSource_clean])

lemma check_clean: "triple (state_is F) (check c) (\<lambda>_. state_is F) (\<lambda>_. state_is F)"
  by (rule triple_check)

lemma of_result_clean: "triple (state_is F) (of_result r) (\<lambda>_. state_is F) (\<lambda>_. state_is F)"
  by (rule triple_of_result)

definition review_written :: "filemap \<Rightarrow> 'a option \<Rightarrow> store \<Rightarrow> bool" where
  "review_written F r st \<longleftrightarrow>
     (case r of None \<Rightarrow> state_is F st | Some _ \<Rightarrow> \<exists>c. state_is (F(parentReviewStateFile \<mapsto> c)) st)"

lemma review_written_simps:
  "review_written F None = state_is F"
  "review_written F (Some a) = (\<lambda>st. \<exists>c. state_is (F(parentReviewStateFile \<mapsto> c)) st)"
  by (simp_all add: fun_eq_iff review_written_def)

lemma close_review_clean:
  "triple (state_is F) (close_review rt kind terminal state resolved) (review_written F) (\<lambda>_. state_is F)"
  unfolding close_review_def
  by (intro triple_if triple_throw triple_bind [OF of_result_clean]
      triple_bind [OF completion_with_source_clean] triple_then [OF writeParentReviewState_clean]
      triple_return) (auto simp: review_written_def)

lemma resolveParentReviewStateWithCompletion_clean:
  "triple (state_is F) (resolveParentReviewStateWithCompletion rt kind origin cause terminal)
     (review_written F) (\<lambda>_. state_is F)"
  unfolding resolveParentReviewStateWithCompletion_def parentReviewResolutionState_def
  by (rule triple_then [OF check_clean], rule triple_bind [OF with_task_review_frame])
    (auto simp: review_written_def split: option.splits intro: triple_return close_review_clean)

lemma appendParentOutcomeEvent_clean:
  "triple (state_is F) (appendParentOutcomeEvent t p k og c r) (\<lambda>_. state_is F) E"
  by (rule tripleI) (auto simp: appendParentOutcomeEvent_def state_is_def split: if_splits)

lemma RecordParentOutcome_clean:
  "triple (state_is F) (RecordParentOutcome rt kind origin cause)
     (\<lambda>r. review_written F (if r then Some () else None)) (\<lambda>_. state_is F)"
  unfolding RecordParentOutcome_def resolveParentReviewState_def
proof (rule triple_bind [OF TaskID_clean], rule triple_bind [OF resolveParentReviewStateWithCompletion_clean])
  fix taskID r
  show "triple (review_written F r) (case r of
           None \<Rightarrow> returnE False
         | Some resolved \<Rightarrow>
             thenE (UpdateTaskStats (\<lambda>stats. recordParentOutcome kind origin resolved (stats\<lparr>ts_ParentReviewOpen := None\<rparr>)))
               (thenE (appendParentOutcomeEvent taskID (parentPhaseOfKind kind) kind origin cause resolved)
                  (returnE True)))
      (\<lambda>r. review_written F (if r then Some () else None)) (\<lambda>_. state_is F)"
    by (cases r) (auto simp: review_written_simps intro!: triple_return triple_exists_pre
        triple_then [OF UpdateTaskStats_clean] triple_then [OF appendParentOutcomeEvent_clean])
qed

text \<open>A store with an active task and a given pattern of faults, for witnesses.\<close>

definition sample_store :: "(nat \<Rightarrow> bool) \<Rightarrow> store" where
  "sample_store faults = \<lparr>files = [''task.status'' \<mapsto> Text (''active'' @ [CHR 0x0A]), ''task.id'' \<mapsto> Text ''t1''],
     listing = [''task.id'', ''task.status''], access = 0, fault = faults, now = 7, lifecycle_log = [], outcome_log = []\<rparr>"

end
