(* ===== verification/Lifecycle.thy ===== *)
theory Lifecycle
  imports Store
begin

text \<open>
  \<^verbatim>\<open>internal/state/lifecycle_transition.go\<close>, \<^verbatim>\<open>quality_surface_recovery.go\<close> and the phase categories of
  \<^verbatim>\<open>callstats.go\<close>: the transitions of a task between its statuses. A transition takes snapshots of
  the files it is about to change, applies its changes one write at a time, and restores the
  snapshots in reverse order when a write fails. The theorems show that a failed transition leaves
  every file but the best-effort statistics as it was, unless it reports that the rollback failed
  too, whatever the pattern of file system faults; only the activation of a quality-surface approval
  may also leave the parent review closed.
\<close>

section \<open>Phases\<close>

definition WorkerPhaseCategoryNew :: string where "WorkerPhaseCategoryNew = ''worker-new''"
definition WorkerPhaseCategoryExplicitFix :: string where "WorkerPhaseCategoryExplicitFix = ''worker-explicit-fix''"
definition WorkerPhaseCategoryAutoFix :: string where "WorkerPhaseCategoryAutoFix = ''worker-auto-fix''"
definition WorkerPhaseCategoryDecision :: string where "WorkerPhaseCategoryDecision = ''worker-decision''"
definition workerReportOnlyPhasePrefix :: string where "workerReportOnlyPhasePrefix = ''worker-report-only-''"

lemmas phase_defs = WorkerPhaseCategoryNew_def WorkerPhaseCategoryExplicitFix_def
  WorkerPhaseCategoryAutoFix_def WorkerPhaseCategoryDecision_def workerReportOnlyPhasePrefix_def

definition WorkerPhaseCategory :: "string \<Rightarrow> string" where
  "WorkerPhaseCategory phase =
     (if phase = WorkerPhaseCategoryNew \<or> has_prefix phase (WorkerPhaseCategoryNew @ ''-'')
      then WorkerPhaseCategoryNew
      else if has_prefix phase WorkerPhaseCategoryExplicitFix then WorkerPhaseCategoryExplicitFix
      else if has_prefix phase (WorkerPhaseCategoryAutoFix @ ''-'') \<or> has_prefix phase workerReportOnlyPhasePrefix
      then WorkerPhaseCategoryAutoFix
      else if has_prefix phase WorkerPhaseCategoryDecision then WorkerPhaseCategoryDecision
      else phase)"

section \<open>Snapshots and rollback\<close>

record lifecycleFileSnapshot =
  ls_name :: string
  ls_data :: "doc content"
  ls_exists :: bool

definition snapshotLifecycleFile :: "string \<Rightarrow> lifecycleFileSnapshot sop" where
  "snapshotLifecycleFile name = bindE (attempt (ReadFile name)) (\<lambda>r. case r of
       Inl e \<Rightarrow> if is_not_exist e then returnE \<lparr>ls_name = name, ls_data = Text [], ls_exists = False\<rparr>
         else throwE (Wrapf ''state before transition'' e)
     | Inr data \<Rightarrow> returnE \<lparr>ls_name = name, ls_data = data, ls_exists = True\<rparr>)"

definition restoreLifecycleFile :: "lifecycleFileSnapshot \<Rightarrow> unit sop" where
  "restoreLifecycleFile snapshot =
     (if \<not> ls_exists snapshot then Remove [ls_name snapshot]
      else wrapE ''state rollback'' (writeFileAtomic (ls_name snapshot) (ls_data snapshot)))"

text \<open>\<open>restore_all\<close> restores a list of snapshots in order and collects the errors.\<close>

fun restore_all :: "lifecycleFileSnapshot list \<Rightarrow> state_error list sop" where
  "restore_all [] = returnE []"
| "restore_all (s # ss) = bindE (attempt (restoreLifecycleFile s)) (\<lambda>r.
     bindE (restore_all ss) (\<lambda>errs. returnE (case r of Inl e \<Rightarrow> e # errs | Inr _ \<Rightarrow> errs)))"

definition rollbackLifecycleFiles :: "state_error \<Rightarrow> lifecycleFileSnapshot list \<Rightarrow> 'a sop" where
  "rollbackLifecycleFiles cause snapshots = bindE (restore_all (rev snapshots)) (\<lambda>errs.
     throwE (if errs \<noteq> [] then RollbackErr ''lifecycle transition'' cause (JoinErr errs) else cause))"

section \<open>Transitions\<close>

abbreviation pending_decision :: string where
  "pending_decision \<equiv> ''pending-decision''"

text \<open>A refusal that names the status, which the code reads once more for the message.\<close>

definition refuse_status :: "string \<Rightarrow> 'a sop" where
  "refuse_status msg = bindE get_TaskStatus (\<lambda>status. throwE (Errorf msg [status]))"

definition WaitForDecision :: "unit sop" where
  "WaitForDecision = bindE get_TaskStatus (\<lambda>status.
     if status \<noteq> TaskStatusActive then refuse_status ''wait-for-decision transition requires active task''
     else bindE (snapshotLifecycleFile pending_decision) (\<lambda>pending.
       bindE (snapshotLifecycleFile parentEvidenceLeasePath) (\<lambda>lease.
         thenE AdvanceParentEvidenceLease
           (thenE (catchE (Touch pending_decision) (\<lambda>e. rollbackLifecycleFiles e [pending, lease]))
              (catchE (SetTaskStatus TaskStatusWaitingDecision)
                 (\<lambda>e. rollbackLifecycleFiles e [pending, lease]))))))"

definition ContinueAfterWorkerResult :: "unit sop" where
  "ContinueAfterWorkerResult = bindE get_TaskStatus (\<lambda>status.
     if status \<noteq> TaskStatusActive then refuse_status ''continue-worker transition requires active task''
     else bindE (snapshotLifecycleFile pending_decision) (\<lambda>pending.
       thenE (Remove [pending_decision])
         (catchE (SetTaskStatus TaskStatusActive) (\<lambda>e. rollbackLifecycleFiles e [pending]))))"

definition FinishReview :: "TaskStatus \<Rightarrow> unit sop" where
  "FinishReview status =
     (if status \<noteq> TaskStatusComplete \<and> status \<noteq> TaskStatusWaitingSolReview
      then throwE (Errorf ''review transition cannot enter status'' [status])
      else bindE get_TaskStatus (\<lambda>current.
        if current \<noteq> TaskStatusActive then refuse_status ''review transition requires active task''
        else if status \<noteq> TaskStatusWaitingSolReview then SetTaskStatus status
        else bindE (snapshotLifecycleFile parentEvidenceLeasePath) (\<lambda>lease.
          thenE AdvanceParentEvidenceLease
            (catchE (SetTaskStatus status) (\<lambda>e. rollbackLifecycleFiles e [lease])))))"

definition WaitForSolReview :: "unit sop" where
  "WaitForSolReview = bindE get_TaskStatus (\<lambda>previous.
     if previous \<notin> {TaskStatusNone, TaskStatusActive, TaskStatusWaitingDecision, TaskStatusWaitingSolReview}
     then refuse_status ''wait-for-sol-review transition is invalid''
     else if previous = TaskStatusWaitingSolReview then SetTaskStatus TaskStatusWaitingSolReview
     else bindE (snapshotLifecycleFile parentEvidenceLeasePath) (\<lambda>lease.
       thenE AdvanceParentEvidenceLease
         (catchE (SetTaskStatus TaskStatusWaitingSolReview) (\<lambda>e. rollbackLifecycleFiles e [lease]))))"

definition verifyPendingDecisionContinuation :: "string \<Rightarrow> unit sop" where
  "verifyPendingDecisionContinuation phase =
     (if WorkerPhaseCategory phase \<noteq> WorkerPhaseCategoryDecision then
        throwE (Errorf ''quality-surface review wait cannot clear a pending decision outside the worker-decision continuation'' [phase])
      else bindE (attempt (Read ''last-decision'')) (\<lambda>r. case r of
          Inl _ \<Rightarrow> throwE (Errorf ''quality-surface review wait requires the saved decision binding'' [])
        | Inr decision \<Rightarrow> if decision = []
            then throwE (Errorf ''quality-surface review wait requires the saved decision binding'' [])
            else returnE ()))"

definition WaitForQualitySurfaceReview :: "string \<Rightarrow> unit sop" where
  "WaitForQualitySurfaceReview phase = bindE (snapshotLifecycleFile pending_decision) (\<lambda>pending.
     thenE (if ls_exists pending then verifyPendingDecisionContinuation phase else returnE ())
       (thenE (Remove [pending_decision])
          (catchE WaitForSolReview (\<lambda>e. rollbackLifecycleFiles e [pending]))))"

definition EnterQualitySurfaceApprovalWait :: "go_runtime \<Rightarrow> ResumeCheckpoint \<Rightarrow> unit sop" where
  "EnterQualitySurfaceApprovalWait rt c = bindE get_TaskStatus (\<lambda>status.
     if status \<noteq> TaskStatusActive then refuse_status ''quality-surface approval wait requires an active task''
     else if \<not> rc_QualitySurfaceApprovalPending c \<or> checkpoint_IsStopped c
     then throwE (Errorf ''quality-surface approval wait requires an unstopped approval checkpoint'' [])
     else if rc_CompletedResult c = None
     then throwE (Errorf ''quality-surface approval wait requires a completed worker result'' [])
     else bindE (snapshotLifecycleFile resumeStateFile) (\<lambda>resume.
       bindE (snapshotLifecycleFile pending_decision) (\<lambda>pending.
         bindE (snapshotLifecycleFile parentEvidenceLeasePath) (\<lambda>lease.
           thenE (SaveResumeCheckpoint rt c)
             (thenE (catchE (Remove [pending_decision]) (\<lambda>e. rollbackLifecycleFiles e [resume]))
               (thenE (catchE AdvanceParentEvidenceLease (\<lambda>e. rollbackLifecycleFiles e [resume, pending, lease]))
                 (catchE (SetTaskStatus TaskStatusWaitingSolReview)
                    (\<lambda>e. rollbackLifecycleFiles e [resume, pending, lease]))))))))"

definition DiscardResumeAndWaitForSolReview :: "unit sop" where
  "DiscardResumeAndWaitForSolReview = bindE (snapshotLifecycleFile resumeStateFile) (\<lambda>resume.
     thenE ClearResumeCheckpoint
       (catchE WaitForSolReview (\<lambda>e. rollbackLifecycleFiles e [resume])))"

definition closeApprovedQualitySurfaceReview :: "go_runtime \<Rightarrow> unit sop" where
  "closeApprovedQualitySurfaceReview rt =
     bindE (wrapE ''quality-surface activation cannot read parent review state'' CurrentParentReviewLabel) (\<lambda>label.
       if label = roundCommentNone then returnE ()
       else if label = StatusNeedsSolReview then
         bindE (wrapE ''quality-surface activation cannot close the open parent review''
             (RecordParentOutcome rt ParentOutcomeAccepted [] [])) (\<lambda>resolved.
           bindE (wrapE ''quality-surface activation cannot verify parent review closure''
               CurrentParentReviewLabel) (\<lambda>after.
             if \<not> resolved \<or> after \<noteq> roundCommentNone
             then throwE (Errorf ''quality-surface activation could not close the open review'' [StatusNeedsSolReview])
             else returnE ()))
       else throwE (Errorf ''quality-surface activation requires no open parent review'' [label]))"

definition ActivateQualitySurfaceApproval :: "go_runtime \<Rightarrow> unit sop" where
  "ActivateQualitySurfaceApproval rt = bindE get_TaskStatus (\<lambda>status.
     if status \<noteq> TaskStatusWaitingSolReview then refuse_status ''quality-surface activation requires waiting-sol-review''
     else bindE (LoadResumeCheckpoint rt) (\<lambda>c.
       if \<not> rc_QualitySurfaceApprovalPending c \<or> checkpoint_IsStopped c
       then throwE (Errorf ''quality-surface activation requires retained approval checkpoint'' [])
       else bindE (snapshotLifecycleFile currentStatsFile) (\<lambda>stats.
         bindE (snapshotLifecycleFile parentReviewStateFile) (\<lambda>review.
           bindE (snapshotLifecycleFile resumeStateFile) (\<lambda>resume.
             thenE (closeApprovedQualitySurfaceReview rt)
               (thenE (catchE ClearResumeCheckpoint (\<lambda>e. rollbackLifecycleFiles e [stats, review, resume]))
                 (catchE (SetTaskStatus TaskStatusActive)
                    (\<lambda>e. rollbackLifecycleFiles e [stats, review, resume]))))))))"

definition stopKindClearsPendingDecision :: "ResumeStopKind \<Rightarrow> bool" where
  "stopKindClearsPendingDecision kind \<longleftrightarrow> kind = ResumeStopGuardRecoverable \<or> kind = ResumeStopQualityGate \<or>
     kind = ResumeStopResultFormat"

definition EnterStop :: "go_runtime \<Rightarrow> ResumeCheckpoint \<Rightarrow> unit sop" where
  "EnterStop rt c =
     (if \<not> checkpoint_IsStopped c then throwE (Errorf ''stop transition requires a resumable stop kind'' [])
      else if stop_TaskStatus (rc_StopKind c) = TaskStatusActive
      then throwE (Errorf ''stop transition has no stopped task status'' [rc_StopKind c])
      else bindE (attempt (snapshotLifecycleFile resumeStateFile)) (\<lambda>r. case r of
          Inl err \<Rightarrow> bindE (attempt (Stat resumeStateFile)) (\<lambda>d.
            if d = Inr True then SaveResumeCheckpoint rt c else throwE err)
        | Inr resume \<Rightarrow> bindE (snapshotLifecycleFile pending_decision) (\<lambda>pending.
            thenE (SaveResumeCheckpoint rt c)
              (thenE (if stopKindClearsPendingDecision (rc_StopKind c)
                  then catchE (Remove [pending_decision]) (\<lambda>e. rollbackLifecycleFiles e [resume])
                  else returnE ())
                (catchE (SetTaskStatus (stop_TaskStatus (rc_StopKind c)))
                   (\<lambda>e. rollbackLifecycleFiles e [resume, pending]))))))"

definition BeginResume :: "go_runtime \<Rightarrow> ResumeCheckpoint \<Rightarrow> unit sop" where
  "BeginResume rt c =
     (if \<not> checkpoint_IsStopped c then throwE (Errorf ''resume transition requires stopped checkpoint'' [])
      else bindE get_TaskStatus (\<lambda>status.
        if status \<noteq> stop_TaskStatus (rc_StopKind c) then refuse_status ''resume transition status mismatch''
        else bindE (LoadResumeCheckpoint rt) (\<lambda>saved.
          if rc_StopKind saved \<noteq> rc_StopKind c
          then throwE (Errorf ''resume transition checkpoint mismatch'' [rc_StopKind saved, rc_StopKind c])
          else thenE (SetTaskStatus TaskStatusActive) RecordResume)))"

definition RestoreResumeStop :: "go_runtime \<Rightarrow> ResumeCheckpoint \<Rightarrow> unit sop" where
  "RestoreResumeStop rt previous = bindE get_TaskStatus (\<lambda>status.
     if status \<noteq> TaskStatusActive then returnE ()
     else bindE (attempt (LoadResumeCheckpoint rt)) (\<lambda>r.
       let c = (case r of Inr saved \<Rightarrow> if checkpoint_IsStopped saved then saved else previous | Inl _ \<Rightarrow> previous)
       in if \<not> checkpoint_IsStopped c
          then throwE (Errorf ''cannot restore resume stop without stopped checkpoint'' [])
          else wrapE ''restore resume stop'' (EnterStop rt c)))"

definition CompleteLifecycle :: "unit sop" where
  "CompleteLifecycle = bindE get_TaskStatus (\<lambda>status.
     if status \<noteq> TaskStatusActive then refuse_status ''complete transition requires active task''
     else SetTaskStatus TaskStatusComplete)"

section \<open>Snapshots restore\<close>

definition snap :: "filemap \<Rightarrow> string \<Rightarrow> lifecycleFileSnapshot \<Rightarrow> bool" where
  "snap F n s \<longleftrightarrow> ls_name s = n \<and>
     (n \<noteq> currentStatsFile \<longrightarrow> F n = (if ls_exists s then Some (ls_data s) else None))"

lemma snapshotLifecycleFile_clean:
  "triple (state_is F) (snapshotLifecycleFile n) (\<lambda>s st. snap F n s \<and> state_is F st) (\<lambda>_. state_is F)"
  unfolding snapshotLifecycleFile_def
proof (rule triple_bind)
  show "triple (state_is F) (attempt (ReadFile n))
      (\<lambda>r st. (n \<noteq> currentStatsFile \<longrightarrow> (case r of Inl e \<Rightarrow> is_not_exist e \<longrightarrow> F n = None
         | Inr c \<Rightarrow> F n = Some c)) \<and> state_is F st) (\<lambda>_. state_is F)"
  proof (rule triple_attempt, cases "n = currentStatsFile")
    case False
    then show "triple (state_is F) (ReadFile n)
      (\<lambda>v st. (n \<noteq> currentStatsFile \<longrightarrow> (case Inr v of Inl e \<Rightarrow> is_not_exist e \<longrightarrow> F n = None
         | Inr c \<Rightarrow> F n = Some c)) \<and> state_is F st)
      (\<lambda>e st. (n \<noteq> currentStatsFile \<longrightarrow> (case Inl e of Inl e \<Rightarrow> is_not_exist e \<longrightarrow> F n = None
         | Inr c \<Rightarrow> F n = Some c)) \<and> state_is F st)"
      by (intro triple_weaken [OF ReadFile_clean]) auto
  qed (auto intro: ReadFile_frame)
qed (rule triple_assume, auto simp: snap_def split: sum.splits intro!: triple_return triple_throw)

lemma restoreLifecycleFile_clean:
  assumes "snap F n s"
  shows "triple (state_is G) (restoreLifecycleFile s) (\<lambda>_. state_is (G(n := F n))) (\<lambda>_. state_is G)"
proof -
  have same: "state_is (G(n := v)) st \<Longrightarrow> n \<noteq> currentStatsFile \<longrightarrow> F n = v \<Longrightarrow> state_is (G(n := F n)) st" for v st
    by (auto simp: state_is_def)
  show ?thesis
    using assms unfolding restoreLifecycleFile_def snap_def
    by (intro triple_if triple_wrap triple_weaken [OF Remove_one_clean]
        triple_weaken [OF writeFileAtomic_clean]) (auto intro: same)
qed

lemma restore_all_clean:
  assumes "\<And>s. s \<in> set ss \<Longrightarrow> snap F (ls_name s) s"
  shows "triple (state_is G) (restore_all ss)
     (\<lambda>errs st. errs = [] \<longrightarrow> state_is (override_on G F (ls_name ` set ss)) st) E"
  using assms
proof (induction ss arbitrary: G)
  case Nil
  then show ?case by (auto intro: triple_return)
next
  case (Cons s ss)
  have one: "triple (state_is G) (attempt (restoreLifecycleFile s))
     (\<lambda>r. case r of Inr _ \<Rightarrow> state_is (G(ls_name s := F (ls_name s))) | Inl _ \<Rightarrow> state_is G) E"
    by (rule triple_attempt) (use restoreLifecycleFile_clean [OF Cons.prems, of s] in simp)
  have merge: "override_on (G(ls_name s := F (ls_name s))) F (ls_name ` set ss) =
      override_on G F (ls_name ` set (s # ss))"
    by (auto simp: override_on_def)
  have rest: "triple (case r of Inr _ \<Rightarrow> state_is (G(ls_name s := F (ls_name s))) | Inl _ \<Rightarrow> state_is G)
      (bindE (restore_all ss) (\<lambda>errs. returnE (case r of Inl e \<Rightarrow> e # errs | Inr _ \<Rightarrow> errs)))
      (\<lambda>errs st. errs = [] \<longrightarrow> state_is (override_on G F (ls_name ` set (s # ss))) st) E" for r
  proof (cases r)
    case (Inl e)
    then show ?thesis
      using Cons by (auto intro!: triple_bind [OF Cons.IH] triple_return)
  next
    case (Inr v)
    show ?thesis
      unfolding Inr merge [symmetric]
      using Cons.prems by (auto intro!: triple_bind [OF Cons.IH] triple_return)
  qed
  show ?case
    unfolding restore_all.simps by (rule triple_bind [OF one rest])
qed

lemma rollback_restores:
  assumes "list_all2 (snap F) ns snaps" "\<And>n. n \<notin> set ns \<Longrightarrow> G n = F n"
  shows "triple (state_is G) (rollbackLifecycleFiles cause snaps) Q (unchanged F)"
proof -
  have names: "map ls_name snaps = ns"
    using assms(1) by (induction rule: list_all2_induct) (auto simp: snap_def)
  have snaps: "snap F (ls_name s) s" if "s \<in> set snaps" for s
    using assms(1) that by (induction rule: list_all2_induct) (auto simp: snap_def)
  have restored: "override_on G F (ls_name ` set snaps) = F"
    using assms(2) names by (auto simp: override_on_def)
  have "triple (state_is G) (restore_all (rev snaps)) (\<lambda>errs st. errs = [] \<longrightarrow> state_is F st) (unchanged F)"
    using restore_all_clean [of "rev snaps" F G] snaps restored by simp
  then show ?thesis
    unfolding rollbackLifecycleFiles_def
    by (rule triple_bind) (auto simp: unchanged_def intro: triple_throw)
qed

section \<open>Steps of a transition\<close>

abbreviation with_status :: "filemap \<Rightarrow> TaskStatus \<Rightarrow> filemap" where
  "with_status F s \<equiv> F(''task.status'' \<mapsto> Text (s @ [CHR 0x0A]))"

abbreviation with_marker :: "filemap \<Rightarrow> filemap" where
  "with_marker F \<equiv> F(pending_decision \<mapsto> Text [CHR ''1'', CHR 0x0A])"

lemma refuse_status_unchanged: "triple (state_is F) (refuse_status msg) Q (unchanged F)"
  unfolding refuse_status_def
  by (rule triple_bind [OF get_TaskStatus_clean]) (auto simp: unchanged_def intro: triple_throw)

lemma throw_unchanged: "triple (state_is F) (throwE e) Q (unchanged F)"
  by (rule triple_throw) (simp add: unchanged_def)

lemma status_step:
  assumes "\<And>s. s \<in> {TaskStatusNone, status_of F} \<Longrightarrow> triple (state_is F) (k s) Q (unchanged F)"
  shows "triple (state_is F) (bindE get_TaskStatus k) Q (unchanged F)"
  by (rule triple_bind [OF get_TaskStatus_read], rule triple_assume, rule assms)

lemma snapshot_step:
  assumes "\<And>s. snap F n s \<Longrightarrow> triple (state_is F) (k s) Q (unchanged F)"
  shows "triple (state_is F) (bindE (snapshotLifecycleFile n) k) Q (unchanged F)"
  by (rule triple_bind [OF clean_unchanged [OF snapshotLifecycleFile_clean]], rule triple_assume, rule assms)

lemma lease_step:
  assumes "\<And>G. lease_advanced F G \<Longrightarrow> triple (state_is G) k Q (unchanged F)"
  shows "triple (state_is F) (thenE AdvanceParentEvidenceLease k) Q (unchanged F)"
  by (rule triple_then [OF clean_unchanged [OF AdvanceParentEvidenceLease_clean]],
      rule triple_exists_pre, rule triple_assume, rule assms)

text \<open>A write after which a failure rolls the snapshots back.\<close>

lemma guarded_step:
  assumes "triple (state_is G) m Q (\<lambda>_. state_is G)" "list_all2 (snap F) ns snaps"
    "\<And>n. n \<notin> set ns \<Longrightarrow> G n = F n"
  shows "triple (state_is G) (catchE m (\<lambda>e. rollbackLifecycleFiles e snaps)) Q (unchanged F)"
  by (rule triple_catch [OF assms(1)], rule rollback_restores [OF assms(2,3)])

lemma lease_advanced_other: "lease_advanced F G \<Longrightarrow> n \<noteq> parentEvidenceLeasePath \<Longrightarrow> G n = F n"
  by (auto simp: lease_advanced_def)

lemmas first_step = clean_unchanged

lemma WaitForDecision_triple:
  "triple (state_is F) WaitForDecision
     (\<lambda>_ st. status_of F = TaskStatusActive \<and>
        (\<exists>G. lease_advanced F G \<and> state_is (with_status (with_marker G) TaskStatusWaitingDecision) st))
     (unchanged F)"
  unfolding WaitForDecision_def
proof (intro status_step triple_if refuse_status_unchanged snapshot_step lease_step)
  fix s pending lease G
  assume "s \<in> {TaskStatusNone, status_of F}" "\<not> s \<noteq> TaskStatusActive"
  then have active: "status_of F = TaskStatusActive" by (auto simp: task_status_defs)
  assume snaps: "snap F pending_decision pending" "snap F parentEvidenceLeasePath lease"
    and G: "lease_advanced F G"
  have snaps': "list_all2 (snap F) [pending_decision, parentEvidenceLeasePath] [pending, lease]"
    using snaps by simp
  show "triple (state_is G)
      (thenE (catchE (Touch pending_decision) (\<lambda>e. rollbackLifecycleFiles e [pending, lease]))
         (catchE (SetTaskStatus TaskStatusWaitingDecision) (\<lambda>e. rollbackLifecycleFiles e [pending, lease])))
      (\<lambda>_ st. status_of F = TaskStatusActive \<and>
        (\<exists>G. lease_advanced F G \<and> state_is (with_status (with_marker G) TaskStatusWaitingDecision) st))
      (unchanged F)"
    by (rule triple_then [OF guarded_step [OF Touch_clean snaps']],
        use lease_advanced_other [OF G] in simp,
        rule guarded_step [OF triple_weaken [OF SetTaskStatus_clean] snaps'])
      (use lease_advanced_other [OF G] active G in auto)
qed

lemma ContinueAfterWorkerResult_triple:
  "triple (state_is F) ContinueAfterWorkerResult
     (\<lambda>_ st. status_of F = TaskStatusActive \<and>
        state_is (with_status (F(pending_decision := None)) TaskStatusActive) st) (unchanged F)"
  unfolding ContinueAfterWorkerResult_def
proof (intro status_step triple_if refuse_status_unchanged snapshot_step)
  fix s pending
  assume "s \<in> {TaskStatusNone, status_of F}" "\<not> s \<noteq> TaskStatusActive"
  then have active: "status_of F = TaskStatusActive" by (auto simp: task_status_defs)
  assume "snap F pending_decision pending"
  then have snaps: "list_all2 (snap F) [pending_decision] [pending]" by simp
  show "triple (state_is F) (thenE (Remove [pending_decision])
         (catchE (SetTaskStatus TaskStatusActive) (\<lambda>e. rollbackLifecycleFiles e [pending])))
      (\<lambda>_ st. status_of F = TaskStatusActive \<and>
        state_is (with_status (F(pending_decision := None)) TaskStatusActive) st) (unchanged F)"
    by (rule triple_then [OF clean_unchanged [OF Remove_one_clean]],
        rule guarded_step [OF triple_weaken [OF SetTaskStatus_clean] snaps]) (use active in auto)
qed

lemma advance_and_set:
  "triple (state_is F) (bindE (snapshotLifecycleFile parentEvidenceLeasePath) (\<lambda>lease.
       thenE AdvanceParentEvidenceLease
         (catchE (SetTaskStatus s) (\<lambda>e. rollbackLifecycleFiles e [lease]))))
     (\<lambda>_ st. \<exists>G. lease_advanced F G \<and> state_is (with_status G s) st) (unchanged F)"
proof (intro snapshot_step lease_step)
  fix lease G
  assume "snap F parentEvidenceLeasePath lease" and G: "lease_advanced F G"
  then have snaps: "list_all2 (snap F) [parentEvidenceLeasePath] [lease]" by simp
  show "triple (state_is G) (catchE (SetTaskStatus s) (\<lambda>e. rollbackLifecycleFiles e [lease]))
      (\<lambda>_ st. \<exists>G. lease_advanced F G \<and> state_is (with_status G s) st) (unchanged F)"
    by (rule guarded_step [OF triple_weaken [OF SetTaskStatus_clean] snaps])
      (use lease_advanced_other [OF G] G in auto)
qed

lemma FinishReview_triple:
  "triple (state_is F) (FinishReview status)
     (\<lambda>_ st. status_of F = TaskStatusActive \<and>
        (if status = TaskStatusWaitingSolReview
         then \<exists>G. lease_advanced F G \<and> state_is (with_status G status) st
         else status = TaskStatusComplete \<and> state_is (with_status F status) st)) (unchanged F)"
  unfolding FinishReview_def
proof (intro triple_if throw_unchanged status_step refuse_status_unchanged)
  fix s
  assume "s \<in> {TaskStatusNone, status_of F}" "\<not> s \<noteq> TaskStatusActive"
  then have active: "status_of F = TaskStatusActive" by (auto simp: task_status_defs)
  assume known: "\<not> (status \<noteq> TaskStatusComplete \<and> status \<noteq> TaskStatusWaitingSolReview)"
  show "triple (state_is F) (SetTaskStatus status)
      (\<lambda>_ st. status_of F = TaskStatusActive \<and>
        (if status = TaskStatusWaitingSolReview
         then \<exists>G. lease_advanced F G \<and> state_is (with_status G status) st
         else status = TaskStatusComplete \<and> state_is (with_status F status) st)) (unchanged F)"
    if "status \<noteq> TaskStatusWaitingSolReview"
    by (rule clean_unchanged, rule triple_weaken [OF SetTaskStatus_clean]) (use that known active in auto)
  show "triple (state_is F) (bindE (snapshotLifecycleFile parentEvidenceLeasePath) (\<lambda>lease.
          thenE AdvanceParentEvidenceLease
            (catchE (SetTaskStatus status) (\<lambda>e. rollbackLifecycleFiles e [lease]))))
      (\<lambda>_ st. status_of F = TaskStatusActive \<and>
        (if status = TaskStatusWaitingSolReview
         then \<exists>G. lease_advanced F G \<and> state_is (with_status G status) st
         else status = TaskStatusComplete \<and> state_is (with_status F status) st)) (unchanged F)"
    if "\<not> status \<noteq> TaskStatusWaitingSolReview"
    by (rule triple_weaken [OF advance_and_set]) (use that active in auto)
qed

definition sol_review_entered :: "filemap \<Rightarrow> store \<Rightarrow> bool" where
  "sol_review_entered F st \<longleftrightarrow>
     (\<exists>G. (lease_advanced F G \<or> G = F) \<and> state_is (with_status G TaskStatusWaitingSolReview) st)"

lemma WaitForSolReview_triple:
  "triple (state_is F) WaitForSolReview (\<lambda>_. sol_review_entered F) (unchanged F)"
  unfolding WaitForSolReview_def
proof (intro status_step triple_if refuse_status_unchanged)
  show "triple (state_is F) (SetTaskStatus TaskStatusWaitingSolReview) (\<lambda>_. sol_review_entered F) (unchanged F)"
    by (rule clean_unchanged, rule triple_weaken [OF SetTaskStatus_clean]) (auto simp: sol_review_entered_def)
qed (rule triple_weaken [OF advance_and_set], auto simp: sol_review_entered_def)

text \<open>
  A transition that runs inside another one: when it fails without having changed anything the
  outer snapshots are restored, when its rollback failed the error says so.
\<close>

lemma restore_all_total: "\<exists>errs st'. restore_all ss st = (Inr errs, st')"
proof (induction ss arbitrary: st)
  case (Cons s ss)
  obtain r st1 where 1: "restoreLifecycleFile s st = (r, st1)" by fastforce
  obtain errs st2 where "restore_all ss st1 = (Inr errs, st2)" using Cons.IH by blast
  with 1 show ?case by (simp add: bindE_def attempt_def returnE_def)
qed (simp add: returnE_def)

lemma rollback_keeps_failure:
  assumes "rollback_failed cause"
  shows "triple P (rollbackLifecycleFiles cause snaps) Q (unchanged F)"
proof (rule tripleI)
  fix st v st'
  obtain errs st1 where "restore_all (rev snaps) st = (Inr errs, st1)" using restore_all_total by blast
  then have run: "rollbackLifecycleFiles cause snaps st =
      (Inl (if errs \<noteq> [] then RollbackErr ''lifecycle transition'' cause (JoinErr errs) else cause), st1)"
    by (simp add: rollbackLifecycleFiles_def bindE_def throwE_def)
  show "unchanged F e st'" if "rollbackLifecycleFiles cause snaps st = (Inl e, st')" for e
    using that assms unfolding run by (auto simp: unchanged_def split: if_splits)
  show "Q v st'" if "rollbackLifecycleFiles cause snaps st = (Inr v, st')"
    using that unfolding run by simp
qed

lemma nested_step:
  assumes "triple (state_is G) m Q (unchanged G)" "list_all2 (snap F) ns snaps"
    "\<And>n. n \<notin> set ns \<Longrightarrow> G n = F n"
  shows "triple (state_is G) (catchE m (\<lambda>e. rollbackLifecycleFiles e snaps)) Q (unchanged F)"
proof (rule triple_catch [OF assms(1)])
  fix e
  show "triple (unchanged G e) (rollbackLifecycleFiles e snaps) Q (unchanged F)"
  proof (cases "rollback_failed e")
    case False
    then have "unchanged G e = state_is G" by (simp add: unchanged_def fun_eq_iff)
    then show ?thesis using rollback_restores [OF assms(2,3)] by simp
  qed (rule rollback_keeps_failure)
qed

lemma verifyPendingDecisionContinuation_clean:
  "triple (state_is F) (verifyPendingDecisionContinuation phase) (\<lambda>_. state_is F) (\<lambda>_. state_is F)"
  unfolding verifyPendingDecisionContinuation_def
  by (intro triple_if triple_throw triple_bind [OF attempt_frame [OF Read_clean]])
    (auto split: sum.splits intro: triple_return triple_throw)

lemma WaitForQualitySurfaceReview_triple:
  "triple (state_is F) (WaitForQualitySurfaceReview phase)
     (\<lambda>_. sol_review_entered (F(pending_decision := None))) (unchanged F)"
  unfolding WaitForQualitySurfaceReview_def
proof (rule snapshot_step)
  fix pending assume "snap F pending_decision pending"
  then have snaps: "list_all2 (snap F) [pending_decision] [pending]" by simp
  have verify: "triple (state_is F) (if ls_exists pending then verifyPendingDecisionContinuation phase else returnE ())
      (\<lambda>_. state_is F) (unchanged F)"
    by (intro triple_if clean_unchanged verifyPendingDecisionContinuation_clean triple_return)
  show "triple (state_is F)
      (thenE (if ls_exists pending then verifyPendingDecisionContinuation phase else returnE ())
        (thenE (Remove [pending_decision])
           (catchE WaitForSolReview (\<lambda>e. rollbackLifecycleFiles e [pending]))))
      (\<lambda>_. sol_review_entered (F(pending_decision := None))) (unchanged F)"
    by (rule triple_then [OF verify], rule triple_then [OF clean_unchanged [OF Remove_one_clean]],
        rule nested_step [OF WaitForSolReview_triple snaps]) auto
qed

lemma DiscardResumeAndWaitForSolReview_triple:
  "triple (state_is F) DiscardResumeAndWaitForSolReview
     (\<lambda>_. sol_review_entered (F(resumeStateFile := None))) (unchanged F)"
  unfolding DiscardResumeAndWaitForSolReview_def
proof (rule snapshot_step)
  fix resume assume "snap F resumeStateFile resume"
  then have snaps: "list_all2 (snap F) [resumeStateFile] [resume]" by simp
  show "triple (state_is F) (thenE ClearResumeCheckpoint
       (catchE WaitForSolReview (\<lambda>e. rollbackLifecycleFiles e [resume])))
      (\<lambda>_. sol_review_entered (F(resumeStateFile := None))) (unchanged F)"
    by (rule triple_then [OF clean_unchanged [OF ClearResumeCheckpoint_clean]],
        rule nested_step [OF WaitForSolReview_triple snaps]) auto
qed

lemma EnterQualitySurfaceApprovalWait_triple:
  "triple (state_is F) (EnterQualitySurfaceApprovalWait rt c)
     (\<lambda>_ st. (status_of F = TaskStatusActive \<and> saveable rt c \<and> rc_QualitySurfaceApprovalPending c \<and>
        \<not> checkpoint_IsStopped c \<and> rc_CompletedResult c \<noteq> None) \<and>
        (\<exists>G. lease_advanced (F(resumeStateFile \<mapsto> saved_checkpoint c, pending_decision := None)) G \<and>
          state_is (with_status G TaskStatusWaitingSolReview) st)) (unchanged F)"
  unfolding EnterQualitySurfaceApprovalWait_def
proof (intro status_step triple_if refuse_status_unchanged throw_unchanged snapshot_step)
  fix s resume pending lease
  assume "s \<in> {TaskStatusNone, status_of F}" "\<not> s \<noteq> TaskStatusActive"
  then have active: "status_of F = TaskStatusActive" by (auto simp: task_status_defs)
  assume c: "\<not> (\<not> rc_QualitySurfaceApprovalPending c \<or> checkpoint_IsStopped c)" "rc_CompletedResult c \<noteq> None"
    and snaps: "snap F resumeStateFile resume" "snap F pending_decision pending"
      "snap F parentEvidenceLeasePath lease"
  let ?G1 = "F(resumeStateFile \<mapsto> saved_checkpoint c)"
  let ?G2 = "?G1(pending_decision := None)"
  let ?Q = "\<lambda>_ st. (status_of F = TaskStatusActive \<and> saveable rt c \<and> rc_QualitySurfaceApprovalPending c \<and>
        \<not> checkpoint_IsStopped c \<and> rc_CompletedResult c \<noteq> None) \<and>
        (\<exists>G. lease_advanced ?G2 G \<and> state_is (with_status G TaskStatusWaitingSolReview) st)"
  let ?ns = "[resumeStateFile, pending_decision, parentEvidenceLeasePath]"
  have one: "list_all2 (snap F) [resumeStateFile] [resume]" using snaps by simp
  have all: "list_all2 (snap F) ?ns [resume, pending, lease]" using snaps by simp
  have set_status: "triple (state_is G) (catchE (SetTaskStatus TaskStatusWaitingSolReview)
      (\<lambda>e. rollbackLifecycleFiles e [resume, pending, lease])) ?Q (unchanged F)"
    if "lease_advanced ?G2 G" "saveable rt c" for G
    by (rule guarded_step [OF triple_weaken [OF SetTaskStatus_clean] all])
      (use that active c lease_advanced_other [OF that(1)] in auto)
  have tail: "triple (state_is ?G2) (thenE (catchE AdvanceParentEvidenceLease
        (\<lambda>e. rollbackLifecycleFiles e [resume, pending, lease]))
      (catchE (SetTaskStatus TaskStatusWaitingSolReview)
        (\<lambda>e. rollbackLifecycleFiles e [resume, pending, lease]))) ?Q (unchanged F)" if "saveable rt c"
  proof (rule triple_then [OF guarded_step [OF AdvanceParentEvidenceLease_clean all]])
    show "triple (\<lambda>st. \<exists>G. lease_advanced ?G2 G \<and> state_is G st)
        (catchE (SetTaskStatus TaskStatusWaitingSolReview)
          (\<lambda>e. rollbackLifecycleFiles e [resume, pending, lease])) ?Q (unchanged F)"
      by (rule triple_exists_pre, rule triple_assume, erule set_status, rule that)
  qed auto
  show "triple (state_is F) (thenE (SaveResumeCheckpoint rt c)
      (thenE (catchE (Remove [pending_decision]) (\<lambda>e. rollbackLifecycleFiles e [resume]))
        (thenE (catchE AdvanceParentEvidenceLease (\<lambda>e. rollbackLifecycleFiles e [resume, pending, lease]))
          (catchE (SetTaskStatus TaskStatusWaitingSolReview)
            (\<lambda>e. rollbackLifecycleFiles e [resume, pending, lease]))))) ?Q (unchanged F)"
    by (rule triple_then [OF clean_unchanged [OF SaveResumeCheckpoint_clean]], rule triple_assume,
        rule triple_then [OF guarded_step [OF Remove_one_clean one] tail]) auto
qed

lemma SaveResumeCheckpoint_directory:
  "F resumeStateFile = Some Directory \<Longrightarrow>
   triple (state_is F) (SaveResumeCheckpoint rt c) Q (\<lambda>_. state_is F)"
  by (rule tripleI) (auto simp: SaveResumeCheckpoint_def thenE_def bindE_def wrapE_def catchE_def throwE_def
      check_def writeFileAtomic_def state_is_def split: if_splits option.splits content.splits)

text \<open>The files after a stop: the checkpoint is saved and some kinds drop the pending decision.\<close>

definition stop_files :: "filemap \<Rightarrow> ResumeCheckpoint \<Rightarrow> filemap" where
  "stop_files F c = (let G = F(resumeStateFile \<mapsto> saved_checkpoint c)
     in if stopKindClearsPendingDecision (rc_StopKind c) then G(pending_decision := None) else G)"

lemma EnterStop_triple:
  "triple (state_is F) (EnterStop rt c)
     (\<lambda>_ st. (checkpoint_IsStopped c \<and> saveable rt c) \<and>
        state_is (with_status (stop_files F c) (stop_TaskStatus (rc_StopKind c))) st) (unchanged F)"
proof -
  let ?Q = "\<lambda>_ st. (checkpoint_IsStopped c \<and> saveable rt c) \<and>
        state_is (with_status (stop_files F c) (stop_TaskStatus (rc_StopKind c))) st"
  let ?G1 = "F(resumeStateFile \<mapsto> saved_checkpoint c)"
  have run: "triple (state_is F) (bindE (snapshotLifecycleFile pending_decision) (\<lambda>pending.
      thenE (SaveResumeCheckpoint rt c)
        (thenE (if stopKindClearsPendingDecision (rc_StopKind c)
            then catchE (Remove [pending_decision]) (\<lambda>e. rollbackLifecycleFiles e [resume]) else returnE ())
          (catchE (SetTaskStatus (stop_TaskStatus (rc_StopKind c)))
            (\<lambda>e. rollbackLifecycleFiles e [resume, pending]))))) ?Q (unchanged F)"
    if resume: "snap F resumeStateFile resume" and stopped: "checkpoint_IsStopped c" for resume
  proof (rule snapshot_step)
    fix pending assume "snap F pending_decision pending"
    with resume have one: "list_all2 (snap F) [resumeStateFile] [resume]"
      and both: "list_all2 (snap F) [resumeStateFile, pending_decision] [resume, pending]" by simp_all
    have drop: "triple (state_is ?G1) (if stopKindClearsPendingDecision (rc_StopKind c)
            then catchE (Remove [pending_decision]) (\<lambda>e. rollbackLifecycleFiles e [resume]) else returnE ())
          (\<lambda>_. state_is (stop_files F c)) (unchanged F)"
      by (intro triple_if guarded_step [OF triple_weaken [OF Remove_one_clean] one] triple_return)
        (auto simp: stop_files_def)
    show "triple (state_is F) (thenE (SaveResumeCheckpoint rt c)
        (thenE (if stopKindClearsPendingDecision (rc_StopKind c)
            then catchE (Remove [pending_decision]) (\<lambda>e. rollbackLifecycleFiles e [resume]) else returnE ())
          (catchE (SetTaskStatus (stop_TaskStatus (rc_StopKind c)))
            (\<lambda>e. rollbackLifecycleFiles e [resume, pending])))) ?Q (unchanged F)"
      by (rule triple_then [OF clean_unchanged [OF SaveResumeCheckpoint_clean]], rule triple_assume,
          rule triple_then [OF drop], rule guarded_step [OF triple_weaken [OF SetTaskStatus_clean] both])
        (use stopped in \<open>auto simp: stop_files_def Let_def\<close>)
  qed
  have dir: "triple (state_is F) (bindE (attempt (Stat resumeStateFile)) (\<lambda>d.
      if d = Inr True then SaveResumeCheckpoint rt c else throwE err)) ?Q (unchanged F)" for err
  proof (rule triple_bind)
    show "triple (state_is F) (attempt (Stat resumeStateFile))
        (\<lambda>d st. (d = Inr True \<longrightarrow> F resumeStateFile = Some Directory) \<and> state_is F st) (unchanged F)"
      by (rule triple_attempt, rule triple_weaken [OF Stat_clean]) auto
  qed (rule triple_assume, intro triple_if throw_unchanged clean_unchanged SaveResumeCheckpoint_directory, simp)
  show ?thesis
    unfolding EnterStop_def
  proof (intro triple_if throw_unchanged, rule triple_bind)
    show "triple (state_is F) (attempt (snapshotLifecycleFile resumeStateFile))
        (\<lambda>r st. (\<forall>s. r = Inr s \<longrightarrow> snap F resumeStateFile s) \<and> state_is F st) (unchanged F)"
      by (rule triple_attempt, rule triple_weaken [OF snapshotLifecycleFile_clean]) auto
  qed (rule triple_assume, rule triple_sum, rule dir, rule run, simp_all)
qed

lemma BeginResume_triple:
  "triple (state_is F) (BeginResume rt c)
     (\<lambda>_ st. (checkpoint_IsStopped c \<and> status_of F = stop_TaskStatus (rc_StopKind c) \<and>
        (\<exists>d saved. F resumeStateFile = Some (Doc (CheckpointD d)) \<and> decode_checkpoint rt d = Inr saved \<and>
           rc_StopKind saved = rc_StopKind c)) \<and> state_is (with_status F TaskStatusActive) st) (unchanged F)"
  unfolding BeginResume_def
proof (intro triple_if throw_unchanged status_step refuse_status_unchanged)
  fix s
  assume stopped: "\<not> \<not> checkpoint_IsStopped c"
    and "s \<in> {TaskStatusNone, status_of F}" "\<not> s \<noteq> stop_TaskStatus (rc_StopKind c)"
  then have status: "status_of F = stop_TaskStatus (rc_StopKind c)"
    by (auto simp: checkpoint_IsStopped_def IsStopped_cases stop_TaskStatus_def stop_kind_defs task_status_defs)
  let ?Q = "\<lambda>_ st. (checkpoint_IsStopped c \<and> status_of F = stop_TaskStatus (rc_StopKind c) \<and>
        (\<exists>d saved. F resumeStateFile = Some (Doc (CheckpointD d)) \<and> decode_checkpoint rt d = Inr saved \<and>
           rc_StopKind saved = rc_StopKind c)) \<and> state_is (with_status F TaskStatusActive) st"
  have finish: "triple (state_is F) (thenE (SetTaskStatus TaskStatusActive) RecordResume) ?Q (unchanged F)"
    if "\<exists>d. F resumeStateFile = Some (Doc (CheckpointD d)) \<and> decode_checkpoint rt d = Inr saved"
      "\<not> rc_StopKind saved \<noteq> rc_StopKind c" for saved
    by (rule triple_then [OF clean_unchanged [OF SetTaskStatus_clean]], unfold RecordResume_def,
        rule triple_weaken [OF UpdateTaskStats_clean]) (use that stopped status in auto)
  show "triple (state_is F) (bindE (LoadResumeCheckpoint rt) (\<lambda>saved.
          if rc_StopKind saved \<noteq> rc_StopKind c
          then throwE (Errorf ''resume transition checkpoint mismatch'' [rc_StopKind saved, rc_StopKind c])
          else thenE (SetTaskStatus TaskStatusActive) RecordResume)) ?Q (unchanged F)"
    by (rule triple_bind [OF clean_unchanged [OF LoadResumeCheckpoint_content]], rule triple_assume,
        intro triple_if throw_unchanged, rule finish)
qed

lemma wrap_unchanged: "triple P m Q (unchanged F) \<Longrightarrow> triple P (wrapE msg m) Q (unchanged F)"
  by (rule triple_wrap, erule triple_weaken) (simp_all add: unchanged_def)

lemma RestoreResumeStop_triple:
  "triple (state_is F) (RestoreResumeStop rt previous)
     (\<lambda>_ st. state_is F st \<or> (\<exists>c. (checkpoint_IsStopped c \<and> saveable rt c) \<and>
        state_is (with_status (stop_files F c) (stop_TaskStatus (rc_StopKind c))) st)) (unchanged F)"
  unfolding RestoreResumeStop_def Let_def
  by (intro status_step triple_if triple_return triple_bind [OF attempt_frame [OF LoadResumeCheckpoint_clean]]
      throw_unchanged wrap_unchanged triple_weaken [OF EnterStop_triple]) auto

lemma CompleteLifecycle_triple:
  "triple (state_is F) CompleteLifecycle
     (\<lambda>_ st. status_of F = TaskStatusActive \<and> state_is (with_status F TaskStatusComplete) st) (unchanged F)"
  unfolding CompleteLifecycle_def
proof (intro status_step triple_if refuse_status_unchanged clean_unchanged)
  fix s assume "s \<in> {TaskStatusNone, status_of F}" "\<not> s \<noteq> TaskStatusActive"
  then have "status_of F = TaskStatusActive" by (auto simp: task_status_defs)
  then show "triple (state_is F) (SetTaskStatus TaskStatusComplete)
     (\<lambda>_ st. status_of F = TaskStatusActive \<and> state_is (with_status F TaskStatusComplete) st) (\<lambda>_. state_is F)"
    by (intro triple_weaken [OF SetTaskStatus_clean]) auto
qed

section \<open>Activation of a quality-surface approval\<close>

definition review_only :: "filemap \<Rightarrow> filemap \<Rightarrow> bool" where
  "review_only F G \<longleftrightarrow> (\<exists>c. G = F(parentReviewStateFile := c))"

lemma review_only_refl: "review_only F F"
  unfolding review_only_def by (rule exI [of _ "F parentReviewStateFile"]) simp

lemma review_written_only:
  "review_written F r st \<Longrightarrow> \<exists>G. review_only F G \<and> state_is G st"
  using review_only_refl [of F] by (cases r) (auto simp: review_written_def, auto simp: review_only_def)

lemma closeApprovedQualitySurfaceReview_triple:
  "triple (state_is F) (closeApprovedQualitySurfaceReview rt)
     (\<lambda>_ st. \<exists>G. review_only F G \<and> state_is G st) (\<lambda>_ st. \<exists>G. review_only F G \<and> state_is G st)"
proof -
  let ?Q = "\<lambda>st. \<exists>G. review_only F G \<and> state_is G st"
  have keep: "state_is F st \<Longrightarrow> ?Q st" for st using review_only_refl by blast
  have label: "triple ?Q (wrapE m CurrentParentReviewLabel) (\<lambda>_. ?Q) (\<lambda>_. ?Q)" for m
    by (rule triple_exists_pre, rule triple_assume, rule triple_wrap,
        rule triple_weaken [OF CurrentParentReviewLabel_clean]) auto
  have outcome: "triple ?Q (wrapE m (RecordParentOutcome rt k og cs)) (\<lambda>_. ?Q) (\<lambda>_. ?Q)" for m k og cs
  proof (rule triple_exists_pre, rule triple_assume, rule triple_wrap, rule triple_weaken [OF RecordParentOutcome_clean])
    fix G r st assume G: "review_only F G" "review_written G (if r then Some () else None) st"
    then show "?Q st"
      using review_written_only [of G "if r then Some () else None" st] by (auto simp: review_only_def)
  qed auto
  have "triple ?Q (closeApprovedQualitySurfaceReview rt) (\<lambda>_. ?Q) (\<lambda>_. ?Q)"
    unfolding closeApprovedQualitySurfaceReview_def
    by (intro triple_bind [OF label] triple_if triple_bind [OF outcome] triple_return triple_throw)
  then show ?thesis by (rule triple_weaken) (auto intro: keep)
qed

lemma ActivateQualitySurfaceApproval_triple:
  "triple (state_is F) (ActivateQualitySurfaceApproval rt)
     (\<lambda>_ st. status_of F = TaskStatusWaitingSolReview \<and>
        (\<exists>G. review_only F G \<and> state_is (with_status (G(resumeStateFile := None)) TaskStatusActive) st))
     (\<lambda>e st. \<not> rollback_failed e \<longrightarrow> (\<exists>G. review_only F G \<and> state_is G st))"
proof -
  let ?E = "\<lambda>e st. \<not> rollback_failed e \<longrightarrow> (\<exists>G. review_only F G \<and> state_is G st)"
  let ?Q = "\<lambda>_ st. status_of F = TaskStatusWaitingSolReview \<and>
        (\<exists>G. review_only F G \<and> state_is (with_status (G(resumeStateFile := None)) TaskStatusActive) st)"
  have keep: "triple P m Q (unchanged F) \<Longrightarrow> triple P m Q ?E" for P Q and m :: "'a sop"
    by (erule triple_weaken) (auto simp: unchanged_def intro: review_only_refl)
  have tail: "triple (state_is G)
      (thenE (catchE ClearResumeCheckpoint (\<lambda>e. rollbackLifecycleFiles e [stats, review, resume]))
         (catchE (SetTaskStatus TaskStatusActive) (\<lambda>e. rollbackLifecycleFiles e [stats, review, resume]))) ?Q ?E"
    if "review_only F G" and status: "status_of F = TaskStatusWaitingSolReview"
      and snaps: "list_all2 (snap F) [currentStatsFile, parentReviewStateFile, resumeStateFile] [stats, review, resume]"
    for G stats review resume
  proof -
    from that(1) have G: "\<And>n. n \<noteq> parentReviewStateFile \<Longrightarrow> G n = F n" by (auto simp: review_only_def)
    have clear: "triple (state_is G) (catchE ClearResumeCheckpoint (\<lambda>e. rollbackLifecycleFiles e [stats, review, resume]))
        (\<lambda>_. state_is (G(resumeStateFile := None))) ?E"
      by (rule keep, rule guarded_step [OF ClearResumeCheckpoint_clean snaps]) (simp add: G)
    have set: "triple (state_is (G(resumeStateFile := None)))
        (catchE (SetTaskStatus TaskStatusActive) (\<lambda>e. rollbackLifecycleFiles e [stats, review, resume])) ?Q ?E"
      by (rule keep, rule guarded_step [OF triple_weaken [OF SetTaskStatus_clean] snaps])
        (use that(1) status in \<open>auto simp: G\<close>)
    show ?thesis by (rule triple_then [OF clear set])
  qed
  have "triple (state_is F) (bindE (LoadResumeCheckpoint rt) (\<lambda>c.
       if \<not> rc_QualitySurfaceApprovalPending c \<or> checkpoint_IsStopped c
       then throwE (Errorf ''quality-surface activation requires retained approval checkpoint'' [])
       else bindE (snapshotLifecycleFile currentStatsFile) (\<lambda>stats.
         bindE (snapshotLifecycleFile parentReviewStateFile) (\<lambda>review.
           bindE (snapshotLifecycleFile resumeStateFile) (\<lambda>resume.
             thenE (closeApprovedQualitySurfaceReview rt)
               (thenE (catchE ClearResumeCheckpoint (\<lambda>e. rollbackLifecycleFiles e [stats, review, resume]))
                 (catchE (SetTaskStatus TaskStatusActive)
                    (\<lambda>e. rollbackLifecycleFiles e [stats, review, resume]))))))))  ?Q ?E"
    if status: "status_of F = TaskStatusWaitingSolReview"
  proof (rule triple_bind [OF keep [OF clean_unchanged [OF LoadResumeCheckpoint_clean]]],
      intro triple_if, rule keep [OF throw_unchanged],
      (rule triple_bind [OF keep [OF clean_unchanged [OF snapshotLifecycleFile_clean]]], rule triple_assume)+,
      rule triple_then)
    show "triple (state_is F) (closeApprovedQualitySurfaceReview rt)
        (\<lambda>_ st. \<exists>G. review_only F G \<and> state_is G st) ?E"
      by (rule triple_weaken [OF closeApprovedQualitySurfaceReview_triple]) auto
  qed (rule triple_exists_pre, rule triple_assume, rule tail, auto simp: status)
  then show ?thesis
    unfolding ActivateQualitySurfaceApproval_def
  proof (intro triple_bind [OF get_TaskStatus_read] triple_assume triple_if)
    fix s assume "s \<in> {TaskStatusNone, status_of F}"
    show "triple (state_is F) (refuse_status ''quality-surface activation requires waiting-sol-review'') ?Q ?E"
      by (rule keep [OF refuse_status_unchanged])
  qed (auto simp: task_status_defs)
qed

section \<open>The task life cycle as a machine\<close>

text \<open>
  The interface of a transition system whose commands may fail: \<open>view\<close> is the persistent state. The
  provider promises that a clean failure keeps the view and that a success keeps the invariant; the
  client derives what holds along every sequence of commands.
\<close>

locale failure_atomic =
  fixes run :: "'c \<Rightarrow> 's \<Rightarrow> (state_error, unit) result \<times> 's" and view :: "'s \<Rightarrow> 'v"
  assumes clean_failure: "run c s = (Inl e, s') \<Longrightarrow> \<not> rollback_failed e \<Longrightarrow> view s' = view s"
begin

inductive steps :: "'s \<Rightarrow> ('c \<times> (state_error, unit) result) list \<Rightarrow> 's \<Rightarrow> bool" where
  steps_Nil: "steps s [] s"
| steps_Cons: "run c s = (r, s') \<Longrightarrow> (\<And>e. r = Inl e \<Longrightarrow> \<not> rollback_failed e) \<Longrightarrow> steps s' cs s'' \<Longrightarrow>
    steps s ((c, r) # cs) s''"

lemma failures_keep_view:
  "steps s trace s' \<Longrightarrow> (\<And>c r. (c, r) \<in> set trace \<Longrightarrow> \<exists>e. r = Inl e) \<Longrightarrow> view s' = view s"
proof (induction rule: steps.induct)
  case (steps_Cons c s r s' cs s'')
  then obtain e where "r = Inl e" by fastforce
  with steps_Cons have "view s' = view s" by (intro clean_failure) auto
  with steps_Cons show ?case by fastforce
qed simp

end

locale lifecycle_machine = failure_atomic run view
  for run :: "'c \<Rightarrow> 's \<Rightarrow> (state_error, unit) result \<times> 's" and view :: "'s \<Rightarrow> 'v" +
  fixes inv :: "'v \<Rightarrow> bool"
  assumes success_inv: "run c s = (Inr (), s') \<Longrightarrow> inv (view s) \<Longrightarrow> inv (view s')"
begin

lemma steps_inv: "steps s trace s' \<Longrightarrow> inv (view s) \<Longrightarrow> inv (view s')"
proof (induction rule: steps.induct)
  case (steps_Cons c s r s' cs s'')
  have "inv (view s')"
  proof (cases r)
    case (Inl e)
    with steps_Cons show ?thesis using clean_failure by metis
  next
    case (Inr u)
    with steps_Cons show ?thesis using success_inv by (metis unit.exhaust)
  qed
  with steps_Cons.IH show ?case .
qed

end

datatype transition =
    TWaitForDecision
  | TContinueAfterWorkerResult
  | TFinishReview TaskStatus
  | TWaitForSolReview
  | TWaitForQualitySurfaceReview string
  | TEnterQualitySurfaceApprovalWait ResumeCheckpoint
  | TDiscardResumeAndWaitForSolReview
  | TActivateQualitySurfaceApproval
  | TEnterStop ResumeCheckpoint
  | TBeginResume ResumeCheckpoint
  | TRestoreResumeStop ResumeCheckpoint
  | TCompleteLifecycle

fun run_transition :: "go_runtime \<Rightarrow> transition \<Rightarrow> unit sop" where
  "run_transition rt TWaitForDecision = WaitForDecision"
| "run_transition rt TContinueAfterWorkerResult = ContinueAfterWorkerResult"
| "run_transition rt (TFinishReview status) = FinishReview status"
| "run_transition rt TWaitForSolReview = WaitForSolReview"
| "run_transition rt (TWaitForQualitySurfaceReview phase) = WaitForQualitySurfaceReview phase"
| "run_transition rt (TEnterQualitySurfaceApprovalWait c) = EnterQualitySurfaceApprovalWait rt c"
| "run_transition rt TDiscardResumeAndWaitForSolReview = DiscardResumeAndWaitForSolReview"
| "run_transition rt TActivateQualitySurfaceApproval = ActivateQualitySurfaceApproval rt"
| "run_transition rt (TEnterStop c) = EnterStop rt c"
| "run_transition rt (TBeginResume c) = BeginResume rt c"
| "run_transition rt (TRestoreResumeStop c) = RestoreResumeStop rt c"
| "run_transition rt TCompleteLifecycle = CompleteLifecycle"

text \<open>
  The state that every clean failure keeps: all files but the best-effort statistics and the record of
  the open parent review, which an activation that fails after it closed the review leaves closed.
\<close>

definition state_view :: "store \<Rightarrow> filemap" where
  "state_view st = (\<lambda>n. if n \<in> {currentStatsFile, parentReviewStateFile} then None else files st n)"

text \<open>
  The consistency of the files: the status is a known one; a task that waits for a decision has
  the marker of the pending decision; and a stopped task has a stored, valid checkpoint of the stop
  kind that belongs to its status.
\<close>

definition consistent :: "go_runtime \<Rightarrow> filemap \<Rightarrow> bool" where
  "consistent rt F \<longleftrightarrow> TaskStatus_Known (status_of F) \<and>
     (status_of F = TaskStatusWaitingDecision \<longrightarrow> F pending_decision \<noteq> None) \<and>
     (\<forall>k. stop_IsStopped k \<and> status_of F = stop_TaskStatus k \<longrightarrow>
        (\<exists>c. F resumeStateFile = Some (saved_checkpoint c) \<and> saveable rt c \<and> rc_StopKind c = k))"

lemma state_is_files: "state_is (files st) st"
  by (simp add: state_is_def)

lemma state_is_view_eq: "review_only (files st) G \<Longrightarrow> state_is G st' \<Longrightarrow> state_view st' = state_view st"
  by (auto simp: review_only_def state_is_def state_view_def fun_eq_iff)

lemma consistent_view: "state_is F st \<Longrightarrow> consistent rt (state_view st) = consistent rt F"
  by (simp add: state_is_def state_view_def consistent_def status_of_def parentReviewStateFile_def resumeStateFile_def
      currentStatsFile_def)

lemma run_transition_unchanged:
  "t \<noteq> TActivateQualitySurfaceApproval \<Longrightarrow>
   triple (state_is F) (run_transition rt t) (\<lambda>_ _. True) (unchanged F)"
  by (cases t)
    (auto intro: triple_weaken [OF WaitForDecision_triple] triple_weaken [OF ContinueAfterWorkerResult_triple]
      triple_weaken [OF FinishReview_triple] triple_weaken [OF WaitForSolReview_triple]
      triple_weaken [OF WaitForQualitySurfaceReview_triple]
      triple_weaken [OF EnterQualitySurfaceApprovalWait_triple]
      triple_weaken [OF DiscardResumeAndWaitForSolReview_triple] triple_weaken [OF EnterStop_triple]
      triple_weaken [OF BeginResume_triple] triple_weaken [OF RestoreResumeStop_triple]
      triple_weaken [OF CompleteLifecycle_triple])

lemma run_transition_review_only:
  "triple (state_is F) (run_transition rt t) (\<lambda>_ _. True)
     (\<lambda>e st. \<not> rollback_failed e \<longrightarrow>
        (\<exists>G. (if t = TActivateQualitySurfaceApproval then review_only F G else G = F) \<and> state_is G st))"
proof (cases "t = TActivateQualitySurfaceApproval")
  case True
  then show ?thesis by (auto intro: triple_weaken [OF ActivateQualitySurfaceApproval_triple])
next
  case False
  then show ?thesis
    by (auto intro!: triple_weaken [OF run_transition_unchanged [OF False]] simp: unchanged_def)
qed

lemma run_transition_clean_failure:
  assumes "run_transition rt t st = (Inl e, st')" "\<not> rollback_failed e"
  shows "\<exists>G. (if t = TActivateQualitySurfaceApproval then review_only (files st) G else G = files st) \<and> state_is G st'"
  using triple_InlD [OF run_transition_review_only state_is_files assms(1)] assms(2) by blast

lemma status_of_with_status:
  assumes "list_all graphic s" "s \<noteq> []"
  shows "status_of (with_status F s) = s"
  using assms trim_space_line [OF assms(1)] by (simp add: status_of_def)

lemma known_status_graphic: "TaskStatus_Known s \<Longrightarrow> list_all graphic s \<and> s \<noteq> []"
  by (auto simp: TaskStatus_Known_def task_status_defs graphic_def)

lemma stop_status_known: "TaskStatus_Known (stop_TaskStatus k)"
  by (simp add: TaskStatus_Known_def stop_TaskStatus_def)

lemma status_of_known: "TaskStatus_Known s \<Longrightarrow> status_of (with_status F s) = s"
  using known_status_graphic [of s] by (intro status_of_with_status) auto

lemma resting_not_stopped:
  "s \<in> {TaskStatusActive, TaskStatusWaitingSolReview, TaskStatusComplete, TaskStatusWaitingDecision} \<Longrightarrow>
   stop_IsStopped k \<Longrightarrow> s \<noteq> stop_TaskStatus k"
  by (auto simp: IsStopped_cases stop_TaskStatus_def stop_kind_defs task_status_defs)

lemma consistent_resting:
  assumes "s \<in> {TaskStatusActive, TaskStatusWaitingSolReview, TaskStatusComplete}"
  shows "consistent rt (with_status F s)"
proof -
  have known: "TaskStatus_Known s" using assms by (auto simp: TaskStatus_Known_def)
  then have "status_of (with_status F s) = s" by (rule status_of_known)
  moreover have "s \<noteq> TaskStatusWaitingDecision" using assms by (auto simp: task_status_defs)
  moreover have "stop_IsStopped k \<Longrightarrow> s \<noteq> stop_TaskStatus k" for k
    using assms by (intro resting_not_stopped) auto
  ultimately show ?thesis using known by (auto simp: consistent_def)
qed

lemma consistent_waiting:
  assumes "F pending_decision \<noteq> None"
  shows "consistent rt (with_status F TaskStatusWaitingDecision)"
proof -
  have known: "TaskStatus_Known TaskStatusWaitingDecision" by (simp add: TaskStatus_Known_def)
  then have st: "status_of (with_status F TaskStatusWaitingDecision) = TaskStatusWaitingDecision"
    by (rule status_of_known)
  have "stop_IsStopped k \<Longrightarrow> TaskStatusWaitingDecision \<noteq> stop_TaskStatus k" for k
    by (intro resting_not_stopped) auto
  with st known assms show ?thesis by (auto simp: consistent_def)
qed

lemma consistent_stopped:
  assumes "checkpoint_IsStopped c" "saveable rt c"
  shows "consistent rt (with_status (stop_files F c) (stop_TaskStatus (rc_StopKind c)))"
proof -
  let ?s = "stop_TaskStatus (rc_StopKind c)"
  have st: "status_of (with_status (stop_files F c) ?s) = ?s"
    by (rule status_of_known [OF stop_status_known])
  have resume: "with_status (stop_files F c) ?s resumeStateFile = Some (saved_checkpoint c)"
    by (simp add: stop_files_def Let_def resumeStateFile_def)
  have "?s \<noteq> TaskStatusWaitingDecision"
    using assms(1) resting_not_stopped [of TaskStatusWaitingDecision "rc_StopKind c"]
    by (simp add: checkpoint_IsStopped_def eq_commute)
  moreover have "k = rc_StopKind c" if "stop_IsStopped k" "?s = stop_TaskStatus k" for k
    using stop_TaskStatus_inj [of k "rc_StopKind c"] that assms(1) by (simp add: checkpoint_IsStopped_def)
  ultimately show ?thesis
    using assms(2) resume st stop_status_known by (auto simp: consistent_def)
qed

lemma sol_review_entered_consistent: "sol_review_entered F st \<Longrightarrow> consistent rt (state_view st)"
  by (auto simp: sol_review_entered_def consistent_view intro!: consistent_resting)

lemma pending_not_other [simp]:
  "pending_decision \<noteq> resumeStateFile" "pending_decision \<noteq> parentEvidenceLeasePath"
  "resumeStateFile \<noteq> parentEvidenceLeasePath"
  by (simp_all add: resumeStateFile_def parentEvidenceLeasePath_def)

lemma run_transition_consistent:
  assumes "consistent rt F"
  shows "triple (state_is F) (run_transition rt t) (\<lambda>_ st. consistent rt (state_view st)) (\<lambda>_ _. True)"
proof (cases t)
  case TWaitForDecision
  then show ?thesis
    by (auto intro!: triple_weaken [OF WaitForDecision_triple] consistent_waiting simp: consistent_view)
next
  case TContinueAfterWorkerResult
  then show ?thesis
    by (auto intro!: triple_weaken [OF ContinueAfterWorkerResult_triple] consistent_resting simp: consistent_view)
next
  case (TFinishReview status)
  then show ?thesis
    by (auto intro!: triple_weaken [OF FinishReview_triple] consistent_resting simp: consistent_view split: if_splits)
next
  case (TEnterQualitySurfaceApprovalWait c)
  then show ?thesis
    by (auto intro!: triple_weaken [OF EnterQualitySurfaceApprovalWait_triple] consistent_resting simp: consistent_view)
next
  case (TEnterStop c)
  then show ?thesis
    by (auto intro!: triple_weaken [OF EnterStop_triple] consistent_stopped simp: consistent_view)
next
  case (TBeginResume c)
  then show ?thesis
    by (auto intro!: triple_weaken [OF BeginResume_triple] consistent_resting simp: consistent_view)
next
  case (TRestoreResumeStop c)
  then show ?thesis
    using assms
    by (auto intro!: triple_weaken [OF RestoreResumeStop_triple] consistent_stopped simp: consistent_view)
next
  case TActivateQualitySurfaceApproval
  then show ?thesis
    by (auto intro!: triple_weaken [OF ActivateQualitySurfaceApproval_triple] consistent_resting
        simp: consistent_view)
next
  case TCompleteLifecycle
  then show ?thesis
    by (auto intro!: triple_weaken [OF CompleteLifecycle_triple] consistent_resting simp: consistent_view)
qed (auto intro!: triple_weaken [OF WaitForSolReview_triple] triple_weaken [OF WaitForQualitySurfaceReview_triple]
      triple_weaken [OF DiscardResumeAndWaitForSolReview_triple] sol_review_entered_consistent)

interpretation task: lifecycle_machine "run_transition rt" state_view "consistent rt" for rt
proof
  fix t s e s'
  show "state_view s' = state_view s" if "run_transition rt t s = (Inl e, s')" "\<not> rollback_failed e"
    using run_transition_clean_failure [OF that]
    by (auto intro: state_is_view_eq review_only_refl split: if_splits)
  show "consistent rt (state_view s')" if "run_transition rt t s = (Inr (), s')" "consistent rt (state_view s)"
  proof (rule triple_InrD [OF run_transition_consistent state_is_files that(1)])
    show "consistent rt (files s)" using that(2) by (simp add: consistent_view [OF state_is_files])
  qed
qed

text \<open>
  C1. Whatever the pattern of file system faults, a transition that fails leaves every state file
  as it was, unless its error reports that the rollback failed too. Two files are excepted: the
  best-effort statistics, and, for \<^verbatim>\<open>ActivateQualitySurfaceApproval\<close> alone, the parent review, which that
  transition does not restore when it fails while closing the review. The begin of a parent's decision
  or fix, which keeps a record of its own, is not a transition of this machine.
\<close>

theorem transition_failure_atomic:
  assumes "run_transition rt t st = (Inl e, st')" "\<not> rollback_failed e" "n \<noteq> ''task-stats.json''"
    and "t = TActivateQualitySurfaceApproval \<Longrightarrow> n \<noteq> parentReviewStateFile"
  shows "files st' n = files st n"
  using run_transition_clean_failure [OF assms(1,2)] assms(3,4)
  by (auto simp: review_only_def state_is_def currentStatsFile_def split: if_splits)

text \<open>
  C2. Along every sequence of transitions in which no error reports a failed rollback, the activation
  of an approval included, a consistent state directory stays consistent: the status is known, a task
  that waits for a decision has its marker, and a stopped task has a valid stored checkpoint of its
  stop kind.
\<close>

theorem lifecycle_consistent:
  assumes "task.steps rt st trace st'" "consistent rt (state_view st)"
  shows "consistent rt (state_view st')"
  using assms by (rule task.steps_inv)

lemma sample_fails:
  "fst (run_transition sample_runtime TWaitForDecision (sample_store (\<lambda>n. n = 6))) =
     Inl (Wrapf ''state write'' (IoFault ''pending-decision''))"
  by code_simp

theorem transition_failure_atomic_witness:
  "\<exists>e st'. run_transition sample_runtime TWaitForDecision (sample_store (\<lambda>n. n = 6)) = (Inl e, st') \<and>
     files st' ''parent-evidence-lease'' = None"
proof -
  obtain st' where run: "run_transition sample_runtime TWaitForDecision (sample_store (\<lambda>n. n = 6)) =
      (Inl (Wrapf ''state write'' (IoFault ''pending-decision'')), st')"
    using sample_fails by (metis prod.collapse)
  have "files st' ''parent-evidence-lease'' = files (sample_store (\<lambda>n. n = 6)) ''parent-evidence-lease''"
    by (rule transition_failure_atomic [OF run]) simp_all
  with run show ?thesis by (simp add: sample_store_def)
qed

lemma sample_consistent: "consistent rt (state_view (sample_store faults))"
proof -
  have "state_is (with_status [''task.id'' \<mapsto> Text ''t1''] TaskStatusActive) (sample_store faults)"
    by (simp add: state_is_def sample_store_def TaskStatusActive_def)
  then show ?thesis by (simp add: consistent_view consistent_resting)
qed

theorem lifecycle_consistent_witness:
  "\<exists>st'. task.steps sample_runtime (sample_store (\<lambda>n. n = 6))
      [(TWaitForDecision, Inl (Wrapf ''state write'' (IoFault ''pending-decision'')))] st' \<and>
     consistent sample_runtime (state_view st')"
proof -
  obtain st' where "run_transition sample_runtime TWaitForDecision (sample_store (\<lambda>n. n = 6)) =
      (Inl (Wrapf ''state write'' (IoFault ''pending-decision'')), st')"
    using sample_fails by (metis prod.collapse)
  then have steps: "task.steps sample_runtime (sample_store (\<lambda>n. n = 6))
      [(TWaitForDecision, Inl (Wrapf ''state write'' (IoFault ''pending-decision'')))] st'"
    by (intro task.steps_Cons [OF _ _ task.steps_Nil]) auto
  from lifecycle_consistent [OF steps sample_consistent] steps show ?thesis by blast
qed

end
