(* ===== verification/Store_Runs.thy ===== *)
theory Store_Runs
  imports Lifecycle
begin

text \<open>
  The laws of the store operations on a state directory without faults: what each operation
  returns there, and that it does return. \<open>calm F\<close> says that the files are those of \<open>F\<close>, the
  statistics left aside, and that no access fails any more; a triple whose error assertion is
  \<open>never\<close> states a run that returns. The statistics need no hypothesis, as every update of them is
  best effort.
\<close>

definition calm :: "filemap \<Rightarrow> store \<Rightarrow> bool" where
  "calm F st \<longleftrightarrow> state_is F st \<and> (\<forall>n. \<not> fault st n)"

abbreviation never :: "state_error \<Rightarrow> store \<Rightarrow> bool" where
  "never \<equiv> \<lambda>_ _. False"

lemma calm_returns: "triple (calm F) m Q never \<Longrightarrow> calm F st \<Longrightarrow> \<exists>v st'. m st = (Inr v, st') \<and> Q v st'"
  by (cases "fst (m st)"; cases "m st") (auto dest: triple_InlD triple_InrD)

lemma calm_tick [simp]: "calm F (tick st) = calm F st"
  by (simp add: calm_def tick_def state_is_def)

lemma calm_stats [simp]: "calm (G(currentStatsFile := v)) = calm G"
  by (simp add: calm_def fun_eq_iff)

lemma calm_fault: "calm F st \<Longrightarrow> \<not> fault st n"
  by (simp add: calm_def)

lemma calm_files: "calm F st \<Longrightarrow> n \<noteq> currentStatsFile \<Longrightarrow> files st n = F n"
  by (simp add: calm_def state_is_def)

lemma status_of_state_is: "state_is F st \<Longrightarrow> status_of (files st) = status_of F"
  by (simp add: state_is_def status_of_def)

lemma status_of_upd [simp]: "n \<noteq> ''task.status'' \<Longrightarrow> status_of (F(n := v)) = status_of F"
  by (simp add: status_of_def)

section \<open>File access\<close>

lemma ReadFile_runs:
  assumes "n \<noteq> currentStatsFile" "F n = Some c" "c \<noteq> Directory"
  shows "triple (calm F) (ReadFile n) (\<lambda>v st. v = c \<and> calm F st) never"
proof (rule triple_pre)
  fix st assume st: "calm F st"
  then have "ReadFile n st = (Inr c, tick st)"
    using assms by (cases c) (auto simp: ReadFile_def calm_fault calm_files)
  with st show "triple (\<lambda>st'. st' = st) (ReadFile n) (\<lambda>v st. v = c \<and> calm F st) never"
    by (simp add: triple_def)
qed

lemma attempt_ReadFile_runs:
  assumes "n \<noteq> currentStatsFile" "F n \<noteq> Some Directory"
  shows "triple (calm F) (attempt (ReadFile n))
     (\<lambda>v st. v = (case F n of None \<Rightarrow> Inl (NotExist n) | Some c \<Rightarrow> Inr c) \<and> calm F st) never"
proof (rule triple_pre)
  fix st assume st: "calm F st"
  then have "attempt (ReadFile n) st = (Inr (case F n of None \<Rightarrow> Inl (NotExist n) | Some c \<Rightarrow> Inr c), tick st)"
    using assms by (auto simp: ReadFile_def attempt_def calm_fault calm_files split: option.splits content.splits)
  with st show "triple (\<lambda>st'. st' = st) (attempt (ReadFile n))
     (\<lambda>v st. v = (case F n of None \<Rightarrow> Inl (NotExist n) | Some c \<Rightarrow> Inr c) \<and> calm F st) never"
    by (simp add: triple_def)
qed

lemma writeFileAtomic_runs:
  assumes "n \<noteq> currentStatsFile" "F n \<noteq> Some Directory"
  shows "triple (calm F) (writeFileAtomic n c) (\<lambda>_. calm (F(n \<mapsto> c))) never"
  using assms
  by (auto simp: triple_def writeFileAtomic_def calm_def state_is_def tick_def split: option.splits content.splits)

lemma Remove_one_runs:
  assumes "n \<noteq> currentStatsFile" "F n \<noteq> Some Directory"
  shows "triple (calm F) (Remove [n]) (\<lambda>_. calm (F(n := None))) never"
  using assms
  by (auto simp: triple_def removeStatePath_def thenE_def bindE_def catchE_def returnE_def calm_def
      state_is_def tick_def split: option.splits content.splits)

lemma Exists_runs:
  "n \<noteq> currentStatsFile \<Longrightarrow>
   triple (calm F) (Exists n) (\<lambda>v st. v = (F n \<noteq> None) \<and> calm F st) never"
  by (auto simp: triple_def Exists_def Stat_def attempt_def bindE_def returnE_def calm_def state_is_def
      tick_def split: option.splits)

section \<open>Identity, status and statistics\<close>

lemma attempt_Read_runs:
  assumes "n \<noteq> currentStatsFile" "F n \<noteq> Some Directory"
  shows "triple (calm F) (attempt (Read n))
     (\<lambda>v st. v = (case F n of None \<Rightarrow> Inl (NotExist n) | Some c \<Rightarrow> Inr (trim_space (text_of c))) \<and> calm F st) never"
proof (rule triple_pre)
  fix st assume st: "calm F st"
  then have "attempt (Read n) st =
      (Inr (case F n of None \<Rightarrow> Inl (NotExist n) | Some c \<Rightarrow> Inr (trim_space (text_of c))), tick st)"
    using assms by (auto simp: Read_def bindE_def returnE_def ReadFile_def attempt_def calm_fault calm_files
        split: option.splits content.splits)
  with st show "triple (\<lambda>st'. st' = st) (attempt (Read n))
     (\<lambda>v st. v = (case F n of None \<Rightarrow> Inl (NotExist n) | Some c \<Rightarrow> Inr (trim_space (text_of c))) \<and> calm F st) never"
    by (simp add: triple_def)
qed

lemma TaskID_runs:
  assumes "F ''task.id'' = Some c" "c \<noteq> Directory" "trim_space (text_of c) = t" "t \<noteq> []"
  shows "triple (calm F) TaskID (\<lambda>v st. v = t \<and> calm F st) never"
  unfolding TaskID_def
  by (rule triple_bind [OF attempt_Read_runs]) (use assms in \<open>auto simp: triple_def returnE_def throwE_def\<close>)

lemma get_TaskStatus_runs:
  assumes "F ''task.status'' \<noteq> Some Directory"
  shows "triple (calm F) get_TaskStatus (\<lambda>v st. v = status_of F \<and> calm F st) never"
  unfolding get_TaskStatus_def
  by (rule triple_bind [OF attempt_Read_runs])
    (use assms in \<open>auto simp: triple_def returnE_def status_of_def split: option.splits\<close>)

lemma fault_frame_bind:
  assumes "\<And>st. fault (snd (m st)) = fault st" "\<And>v st. fault (snd (k v st)) = fault st"
  shows "fault (snd (bindE m k st)) = fault st"
  using assms(1) [of st] assms(2) by (cases "m st"; cases "fst (m st)") (auto simp: bindE_def)

lemma fault_ReadFile [simp]: "fault (snd (ReadFile n st)) = fault st"
  by (auto simp: ReadFile_def tick_def split: option.splits content.splits)

lemma fault_writeFileAtomic [simp]: "fault (snd (writeFileAtomic n c st)) = fault st"
  by (auto simp: writeFileAtomic_def tick_def split: option.splits content.splits)

lemma fault_returnE [simp]: "fault (snd (returnE v st)) = fault st"
  by (simp add: returnE_def)

lemma fault_throwE [simp]: "fault (snd (throwE v st)) = fault st"
  by (simp add: throwE_def)

lemma fault_attempt [simp]: "fault (snd (attempt m st)) = fault (snd (m st))"
  by (simp add: attempt_def split: prod.splits)

lemma fault_Now [simp]: "fault (snd (Now st)) = fault st"
  by (simp add: Now_def)

lemma fault_catch:
  assumes "\<And>st. fault (snd (m st)) = fault st" "\<And>v st. fault (snd (h v st)) = fault st"
  shows "fault (snd (catchE m h st)) = fault st"
  using assms(1) [of st] assms(2) by (cases "m st"; cases "fst (m st)") (auto simp: catchE_def)

lemma fault_UpdateTaskStats: "fault (snd (UpdateTaskStats u st)) = fault st"
  unfolding UpdateTaskStats_def recoverTaskStats_def loadTaskStats_def bootstrapTaskStats_def
    writeTaskStats_def get_TaskStatus_def Read_def
  by (auto intro!: fault_frame_bind fault_catch split: sum.splits content.splits doc.splits)

lemma fault_appendTaskStatusLifecycle: "fault (snd (appendTaskStatusLifecycle p n st)) = fault st"
  unfolding appendTaskStatusLifecycle_def ReadOr_def Read_def
  by (auto intro!: fault_frame_bind) (simp add: AppendTaskLifecycle_def tick_def Let_def)

lemma runs_clean:
  assumes "triple (state_is F) m (\<lambda>_. state_is G) never" "\<And>st. fault (snd (m st)) = fault st"
  shows "triple (calm F) m (\<lambda>_. calm G) never"
proof (rule tripleI)
  fix st v st' assume "calm F st" "m st = (Inr v, st')"
  then show "calm G st'"
    using triple_InrD [OF assms(1), of st v st'] assms(2) [of st] by (auto simp: calm_def)
next
  fix st e st' assume "calm F st" "m st = (Inl e, st')"
  then show False using triple_InlD [OF assms(1), of st e st'] by (auto simp: calm_def)
qed

lemma UpdateTaskStats_runs: "triple (calm F) (UpdateTaskStats u) (\<lambda>_. calm F) never"
  by (rule runs_clean [OF UpdateTaskStats_clean fault_UpdateTaskStats])

lemma appendTaskStatusLifecycle_runs: "triple (calm F) (appendTaskStatusLifecycle p n) (\<lambda>_. calm F) never"
  by (rule runs_clean [OF appendTaskStatusLifecycle_clean fault_appendTaskStatusLifecycle])

lemma Write_runs:
  "n \<noteq> currentStatsFile \<Longrightarrow> F n \<noteq> Some Directory \<Longrightarrow>
   triple (calm F) (Write n v) (\<lambda>_. calm (F(n \<mapsto> Text (v @ [CHR 0x0A])))) never"
  unfolding Write_def by (rule triple_wrap) (rule writeFileAtomic_runs)

lemma SetTaskStatus_runs:
  assumes "F ''task.status'' \<noteq> Some Directory"
  shows "triple (calm F) (SetTaskStatus s) (\<lambda>_. calm (with_status F s)) never"
  unfolding SetTaskStatus_def
  by (rule triple_bind [OF get_TaskStatus_runs [of F, OF assms]], rule triple_assume,
      rule triple_then [OF Write_runs [of _ F]], simp, rule assms,
      rule triple_then [OF UpdateTaskStats_runs], rule triple_if,
      rule appendTaskStatusLifecycle_runs, rule triple_return) simp

section \<open>Snapshots and the review state\<close>

definition snapshot_of :: "filemap \<Rightarrow> string \<Rightarrow> lifecycleFileSnapshot" where
  "snapshot_of F n = (case F n of
       None \<Rightarrow> \<lparr>ls_name = n, ls_data = Text [], ls_exists = False\<rparr>
     | Some c \<Rightarrow> \<lparr>ls_name = n, ls_data = c, ls_exists = True\<rparr>)"

lemma snapshotLifecycleFile_runs:
  assumes "n \<noteq> currentStatsFile" "F n \<noteq> Some Directory"
  shows "triple (calm F) (snapshotLifecycleFile n) (\<lambda>s st. s = snapshot_of F n \<and> calm F st) never"
  unfolding snapshotLifecycleFile_def
  by (rule triple_bind [OF attempt_ReadFile_runs [of n F, OF assms]], rule triple_assume)
    (auto simp: snapshot_of_def intro: triple_return split: option.splits)

lemma restoreLifecycleFile_runs:
  assumes "n \<noteq> currentStatsFile" "F n \<noteq> Some Directory"
  shows "triple (calm F) (restoreLifecycleFile \<lparr>ls_name = n, ls_data = d, ls_exists = b\<rparr>)
     (\<lambda>_. calm (F(n := if b then Some d else None))) never"
  unfolding restoreLifecycleFile_def
  by (cases b)
    (simp_all add: Remove_one_runs [of _ F, OF assms] writeFileAtomic_runs [of _ F, OF assms] triple_wrap del: Remove.simps)

lemma loadParentReviewState_runs:
  assumes "F parentReviewStateFile = Some (Doc (ReviewD s))" "decodeParentReviewState s = Inr s"
    and "F ''task.id'' = Some c" "c \<noteq> Directory" "trim_space (text_of c) = prs_TaskID s" "prs_TaskID s \<noteq> []"
  shows "triple (calm F) loadParentReviewState (\<lambda>v st. v = s \<and> calm F st) never"
  unfolding loadParentReviewState_def review_for_task_def
  by (rule triple_bind [OF ReadFile_runs [of _ F, OF _ assms(1)]], simp, simp, rule triple_assume, clarsimp,
      rule triple_bind [where R = "\<lambda>v st. v = s \<and> calm F st"], rule triple_of_result, simp add: assms(2),
      simp add: assms(2), rule triple_assume, clarsimp,
      rule triple_bind [OF TaskID_runs [of F, OF assms(3-6)]], rule triple_assume, simp)
    (rule triple_return, simp)

section \<open>Operations advance the count of accesses\<close>

text \<open>
  \<open>advances m\<close>: the count of accesses, the clock against which the model dates a capture of the
  repository, does not go back.
\<close>

definition advances :: "'a sop \<Rightarrow> bool" where
  "advances m \<longleftrightarrow> (\<forall>st. access st \<le> access (snd (m st)))"

named_theorems advances_intro \<open>operations that advance the count of accesses\<close>

lemma advancesD: "advances m \<Longrightarrow> m st = (r, st') \<Longrightarrow> access st \<le> access st'"
  unfolding advances_def by (metis snd_conv)

lemma advancesI: "(\<And>st r st'. m st = (r, st') \<Longrightarrow> access st \<le> access st') \<Longrightarrow> advances m"
  unfolding advances_def by (metis prod.collapse)

lemma advances_bind [advances_intro]:
  assumes "advances m" "\<And>v. advances (k v)"
  shows "advances (bindE m k)"
proof (rule advancesI)
  fix st r st' assume run: "bindE m k st = (r, st')"
  obtain q st1 where m: "m st = (q, st1)" by (cases "m st")
  show "access st \<le> access st'"
    using run m advancesD [OF assms(1) m] advancesD [OF assms(2)]
    by (cases q) (auto simp: bindE_def intro: order_trans)
qed

lemma advances_catch [advances_intro]:
  assumes "advances m" "\<And>e. advances (h e)"
  shows "advances (catchE m h)"
proof (rule advancesI)
  fix st r st' assume run: "catchE m h st = (r, st')"
  obtain q st1 where m: "m st = (q, st1)" by (cases "m st")
  show "access st \<le> access st'"
    using run m advancesD [OF assms(1) m] advancesD [OF assms(2)]
    by (cases q) (auto simp: catchE_def intro: order_trans)
qed

lemma advances_basic [advances_intro]:
  "advances (returnE v)" "advances (throwE e)" "advances (of_result r)" "advances (check c)" "advances Now"
  "advances (ReadFile n)" "advances (Stat n)" "advances (ReadDir n)" "advances (writeFileAtomic n w)"
  "advances (removeStatePath n)" "advances (CaptureGitSnapshot rt root)" "advances (appendParentOutcomeEvent t p k og cs r')"
  by (auto simp: advances_def returnE_def throwE_def of_result_def check_def Now_def ReadFile_def Stat_def ReadDir_def
      writeFileAtomic_def removeStatePath_def CaptureGitSnapshot_def appendParentOutcomeEvent_def
      tick_def split: option.split content.split list.split)

lemma advances_attempt [advances_intro]: "advances m \<Longrightarrow> advances (attempt m)"
  by (auto simp: advances_def attempt_def split: prod.splits) (metis snd_conv)

lemma advances_then [advances_intro]: "advances m \<Longrightarrow> advances k \<Longrightarrow> advances (thenE m k)"
  unfolding thenE_def by (rule advances_bind)

lemma advances_wrap [advances_intro]: "advances m \<Longrightarrow> advances (wrapE msg m)"
  unfolding wrapE_def by (intro advances_intro)

lemma advances_cases [advances_intro]:
  "(c \<Longrightarrow> advances a) \<Longrightarrow> (\<not> c \<Longrightarrow> advances b) \<Longrightarrow> advances (if c then a else b)"
  "(x = None \<Longrightarrow> advances f) \<Longrightarrow> (\<And>v. x = Some v \<Longrightarrow> advances (g v)) \<Longrightarrow>
   advances (case x of None \<Rightarrow> f | Some v \<Rightarrow> g v)"
  "(\<And>e. r = Inl e \<Longrightarrow> advances (f' e)) \<Longrightarrow> (\<And>v. r = Inr v \<Longrightarrow> advances (g' v)) \<Longrightarrow>
   advances (case r of Inl e \<Rightarrow> f' e | Inr v \<Rightarrow> g' v)"
  by (auto split: option.split sum.split)

lemma advances_store [advances_intro]:
  "advances (Read n)" "advances (ReadOr n d)" "advances get_TaskStatus" "advances TaskID" "advances (Exists n)"
  "advances (Write n v)"
  unfolding Read_def ReadOr_def get_TaskStatus_def TaskID_def Exists_def Write_def
  by (intro advances_intro)+

section \<open>Operations that only read\<close>

text \<open>
  \<open>reads m\<close>: the operation changes no file. \<open>listed st\<close>: every stored file is in the listing, as it is
  in every directory that was only written through the store.
\<close>

definition reads :: "'a sop \<Rightarrow> bool" where
  "reads m \<longleftrightarrow> advances m \<and> (\<forall>st. files (snd (m st)) = files st \<and> listing (snd (m st)) = listing st)"

lemma reads_advances: "reads m \<Longrightarrow> advances m"
  by (simp add: reads_def)

lemma readsI:
  assumes "advances m" "\<And>st r st'. m st = (r, st') \<Longrightarrow> files st' = files st \<and> listing st' = listing st"
  shows "reads m"
  unfolding reads_def using assms by (metis prod.collapse)

definition listed :: "store \<Rightarrow> bool" where
  "listed st \<longleftrightarrow> (\<forall>n. files st n \<noteq> None \<longrightarrow> n \<in> set (listing st))"

named_theorems reads_intro \<open>operations that only read\<close>

lemma readsD: "reads m \<Longrightarrow> m st = (r, st') \<Longrightarrow> files st' = files st \<and> listing st' = listing st"
  unfolding reads_def by (metis snd_conv)

lemma reads_bind [reads_intro]:
  assumes "reads m" "\<And>v. reads (k v)"
  shows "reads (bindE m k)"
proof (rule readsI)
  show "advances (bindE m k)" using assms by (intro advances_bind reads_advances)
  fix st r st' assume run: "bindE m k st = (r, st')"
  obtain q st1 where m: "m st = (q, st1)" by (cases "m st")
  show "files st' = files st \<and> listing st' = listing st"
    using run m readsD [OF assms(1) m] readsD [OF assms(2)] by (cases q) (fastforce simp: bindE_def)+
qed

lemma reads_basic [reads_intro]:
  "reads (returnE v)" "reads (throwE e)" "reads (of_result r)" "reads (check c)" "reads Now"
  "reads (ReadFile n)" "reads (Stat n)" "reads (ReadDir n)" "reads (CaptureGitSnapshot rt root)"
  unfolding reads_def
  by (intro conjI advances_intro; auto simp: returnE_def throwE_def of_result_def check_def Now_def ReadFile_def Stat_def ReadDir_def
      CaptureGitSnapshot_def tick_def split: option.splits content.splits list.splits)+

lemma reads_attempt [reads_intro]: "reads m \<Longrightarrow> reads (attempt m)"
  by (rule readsI, erule advances_attempt [OF reads_advances]) (auto simp: attempt_def dest: readsD split: prod.splits)

lemma reads_catch [reads_intro]:
  assumes "reads m" "\<And>e. reads (h e)"
  shows "reads (catchE m h)"
proof (rule readsI)
  show "advances (catchE m h)" using assms by (intro advances_catch reads_advances)
  fix st r st' assume run: "catchE m h st = (r, st')"
  obtain q st1 where m: "m st = (q, st1)" by (cases "m st")
  show "files st' = files st \<and> listing st' = listing st"
    using run m readsD [OF assms(1) m] readsD [OF assms(2)] by (cases q) (fastforce simp: catchE_def)+
qed

lemma reads_then [reads_intro]: "reads m \<Longrightarrow> reads k \<Longrightarrow> reads (thenE m k)"
  unfolding thenE_def by (rule reads_bind)

lemma reads_cases [reads_intro]:
  "(c \<Longrightarrow> reads a) \<Longrightarrow> (\<not> c \<Longrightarrow> reads b) \<Longrightarrow> reads (if c then a else b)"
  "(x = None \<Longrightarrow> reads f) \<Longrightarrow> (\<And>v. x = Some v \<Longrightarrow> reads (g v)) \<Longrightarrow> reads (case x of None \<Rightarrow> f | Some v \<Rightarrow> g v)"
  "(\<And>e. r = Inl e \<Longrightarrow> reads (f' e)) \<Longrightarrow> (\<And>v. r = Inr v \<Longrightarrow> reads (g' v)) \<Longrightarrow>
   reads (case r of Inl e \<Rightarrow> f' e | Inr v \<Rightarrow> g' v)"
  by (auto split: option.split sum.split)

lemma reads_store [reads_intro]:
  "reads (Read n)" "reads (ReadOr n d)" "reads get_TaskStatus"
  unfolding Read_def ReadOr_def get_TaskStatus_def
  by (intro reads_intro)+

lemma reads_frame: "reads m \<Longrightarrow> triple (state_is F) m (\<lambda>_. state_is F) (\<lambda>_. state_is F)"
  by (rule tripleI) (auto simp: state_is_def dest: readsD)

lemma reads_wrap [reads_intro]: "reads m \<Longrightarrow> reads (wrapE msg m)"
  unfolding wrapE_def by (intro reads_intro)

lemma reads_identity [reads_intro]: "reads TaskID" "reads (Exists n)"
  unfolding TaskID_def Exists_def by (intro reads_intro)+

lemma check_checked: "triple P (check c) (\<lambda>_ st. c = None \<and> P st) (\<lambda>_. P)"
  by (rule triple_check) simp_all

lemma bind_InrD: "bindE m k st = (Inr v, st') \<Longrightarrow> \<exists>u st1. m st = (Inr u, st1) \<and> k u st1 = (Inr v, st')"
  by (auto simp: bindE_def split: prod.splits sum.splits)

lemma then_InrD: "thenE m k st = (Inr v, st') \<Longrightarrow> \<exists>u st1. m st = (Inr u, st1) \<and> k st1 = (Inr v, st')"
  unfolding thenE_def by (rule bind_InrD)

section \<open>Assertions with a moment\<close>

text \<open>\<open>since n F\<close>: the files are \<open>F\<close> and at least \<open>n\<close> accesses have been made.\<close>

definition since :: "nat \<Rightarrow> filemap \<Rightarrow> store \<Rightarrow> bool" where
  "since n F st \<longleftrightarrow> state_is F st \<and> n \<le> access st"

lemma sinceD: "since n F st \<Longrightarrow> state_is F st"
  by (simp add: since_def)

lemma since_self: "since (access st) (files st) st"
  by (simp add: since_def state_is_def)

lemma triple_since:
  assumes "advances m" "triple (state_is F) m Q E"
  shows "triple (since n F) m (\<lambda>v st. Q v st \<and> n \<le> access st) E"
proof (rule tripleI)
  fix st v st' assume st: "since n F st" and run: "m st = (Inr v, st')"
  show "Q v st' \<and> n \<le> access st'"
    using triple_InrD [OF assms(2) sinceD [OF st] run] advancesD [OF assms(1) run] st by (auto simp: since_def)
qed (rule triple_InlD [OF assms(2) sinceD])

lemma since_frame:
  assumes "advances m" "triple (state_is F) m (\<lambda>_. state_is F) E"
  shows "triple (since n F) m (\<lambda>_. since n F) E"
  unfolding since_def [of n F, abs_def] using triple_since [OF assms] by (simp add: since_def [abs_def])

lemma since_value:
  assumes "advances m" "triple (state_is F) m (\<lambda>v st. P v \<and> state_is F st) E"
  shows "triple (since n F) m (\<lambda>v st. P v \<and> since n F st) E"
  using triple_since [OF assms] by (simp add: since_def [abs_def] conj_assoc)

end
