(* ===== verification/Documents.thy ===== *)
theory Documents
  imports Store_Runs
begin

text \<open>
  The contract of a validated JSON document of the state directory: a loader that returns the document
  only when its file holds it and it is valid, reports an absent file as such, and succeeds on a valid
  document when no access fails. The loaders of the bindings, of the publication records and of the
  transactions are instances; what their callers need is proved here once.
\<close>

locale stored_document =
  fixes name :: string and wrap :: "'a \<Rightarrow> doc" and validate :: "'a \<Rightarrow> state_error option" and load :: "'a sop"
  assumes name_not_stats: "name \<noteq> currentStatsFile"
    and load_reads: "reads load"
    and load_stored: "load st = (Inr x, st') \<Longrightarrow> files st name = Some (Doc (wrap x)) \<and> validate x = None"
    and load_absent: "load st = (Inl e, st') \<Longrightarrow> is_not_exist e \<Longrightarrow> files st name = None"
    and load_valid: "\<not> fault st (access st) \<Longrightarrow> files st name = Some (Doc (wrap x)) \<Longrightarrow> validate x = None \<Longrightarrow>
      load st = (Inr x, tick st)"
    and load_missing: "\<not> fault st (access st) \<Longrightarrow> files st name = None \<Longrightarrow> load st = (Inl (NotExist name), tick st)"
begin

lemma load_triple:
  "triple (state_is F) load (\<lambda>x st. (F name = Some (Doc (wrap x)) \<and> validate x = None) \<and> state_is F st)
     (\<lambda>e st. (is_not_exist e \<longrightarrow> F name = None) \<and> state_is F st)"
proof (rule tripleI)
  fix st e st' assume st: "state_is F st" and run: "load st = (Inl e, st')"
  from readsD [OF load_reads run] load_absent [OF run] st name_not_stats
  show "(is_not_exist e \<longrightarrow> F name = None) \<and> state_is F st'" by (auto simp: state_is_def)
next
  fix st x st' assume st: "state_is F st" and run: "load st = (Inr x, st')"
  from readsD [OF load_reads run] load_stored [OF run] st name_not_stats
  show "(F name = Some (Doc (wrap x)) \<and> validate x = None) \<and> state_is F st'" by (auto simp: state_is_def)
qed

lemma load_clean:
  "triple (state_is F) load (\<lambda>x st. (F name = Some (Doc (wrap x)) \<and> validate x = None) \<and> state_is F st) (\<lambda>_. state_is F)"
  by (rule triple_weaken [OF load_triple]) auto

lemma attempt_load:
  "triple (state_is F) (attempt load) (\<lambda>r st. (case r of Inl e \<Rightarrow> is_not_exist e \<longrightarrow> F name = None
     | Inr x \<Rightarrow> F name = Some (Doc (wrap x)) \<and> validate x = None) \<and> state_is F st) E"
  by (rule triple_attempt, rule triple_weaken [OF load_triple]) auto

lemma load_runs:
  assumes "F name = Some (Doc (wrap x))" "validate x = None"
  shows "triple (calm F) load (\<lambda>v st. v = x \<and> calm F st) never"
proof (rule triple_pre)
  fix st assume st: "calm F st"
  then have "load st = (Inr x, tick st)"
    using assms by (intro load_valid) (simp_all add: calm_fault calm_files [OF _ name_not_stats])
  with st show "triple (\<lambda>st'. st' = st) load (\<lambda>v st. v = x \<and> calm F st) never"
    by (simp add: triple_def)
qed

lemma attempt_load_runs:
  assumes "F name = None \<or> (\<exists>x. F name = Some (Doc (wrap x)) \<and> validate x = None)"
  shows "triple (calm F) (attempt load) (\<lambda>v st. (case F name of None \<Rightarrow> v = Inl (NotExist name)
     | Some c \<Rightarrow> \<exists>x. c = Doc (wrap x) \<and> validate x = None \<and> v = Inr x) \<and> calm F st) never"
proof (rule triple_pre)
  fix st assume st: "calm F st"
  have stored: "files st name = F name" by (rule calm_files [OF st name_not_stats])
  consider "F name = None" | x where "F name = Some (Doc (wrap x))" "validate x = None" using assms by auto
  then show "triple (\<lambda>st'. st' = st) (attempt load) (\<lambda>v st. (case F name of None \<Rightarrow> v = Inl (NotExist name)
     | Some c \<Rightarrow> \<exists>x. c = Doc (wrap x) \<and> validate x = None \<and> v = Inr x) \<and> calm F st) never"
  proof cases
    case 1
    with load_missing [OF calm_fault [OF st]] stored st show ?thesis by (simp add: triple_def attempt_def)
  next
    case 2
    with load_valid [OF calm_fault [OF st], of x] stored st show ?thesis by (auto simp: triple_def attempt_def)
  qed
qed

text \<open>What is written is read back.\<close>

lemma write_load:
  assumes "validate x = None" "writeFileAtomic name (Doc (wrap x)) st = (Inr (), st')"
    and "files st'' name = files st' name" "\<not> fault st'' (access st'')"
  shows "load st'' = (Inr x, tick st'')"
proof (rule load_valid)
  have "files st' name = Some (Doc (wrap x))"
    using assms(2) by (auto simp: writeFileAtomic_def split: if_splits option.splits content.splits)
  then show "files st'' name = Some (Doc (wrap x))" using assms(3) by simp
qed (use assms in auto)

end

text \<open>The shape shared by the loaders, for the interpretations.\<close>

lemma loader_contract:
  assumes "name \<noteq> currentStatsFile"
    and load: "load = bindE (ReadFile name) (\<lambda>c. case decode c of None \<Rightarrow> throwE err
      | Some x \<Rightarrow> thenE (check (validate x)) (returnE x))"
    and decode: "\<And>c x. decode c = Some x \<longleftrightarrow> c = Doc (wrap x)"
    and err: "\<not> is_not_exist err" "\<And>x e. validate x = Some e \<Longrightarrow> \<not> is_not_exist e"
  shows "stored_document name wrap validate load"
proof
  have some: "decode (Doc (wrap x)) = Some x" for x using decode by blast
  show "name \<noteq> currentStatsFile" by fact
  show "reads load" unfolding load by (intro reads_intro)
  show "files st name = Some (Doc (wrap x)) \<and> validate x = None" if "load st = (Inr x, st')" for st x st'
    using that decode unfolding load
    by (auto simp: run_defs split: if_splits option.splits content.splits)
  show "files st name = None" if "load st = (Inl e, st')" "is_not_exist e" for st e st'
    using that err unfolding load
    by (auto simp: run_defs split: if_splits option.splits content.splits)
  show "load st = (Inr x, tick st)"
    if "\<not> fault st (access st)" "files st name = Some (Doc (wrap x))" "validate x = None" for st x
    using that unfolding load by (simp add: run_defs some)
  show "load st = (Inl (NotExist name), tick st)" if "\<not> fault st (access st)" "files st name = None" for st
    using that unfolding load by (simp add: run_defs)
qed

section \<open>Frames\<close>

text \<open>
  \<open>touches N m\<close>: whatever the operation returns and whatever accesses fail, it changes no file outside
  \<open>N\<close>, the statistics aside.
\<close>

definition touches :: "string set \<Rightarrow> 'a sop \<Rightarrow> bool" where
  "touches N m \<longleftrightarrow> (\<forall>st n. n \<notin> N \<and> n \<noteq> currentStatsFile \<longrightarrow> files (snd (m st)) n = files st n)"

named_theorems touches_intro \<open>frames of operations\<close>

lemma touchesD: "touches N m \<Longrightarrow> m st = (r, st') \<Longrightarrow> n \<notin> N \<Longrightarrow> n \<noteq> currentStatsFile \<Longrightarrow> files st' n = files st n"
  unfolding touches_def by (metis snd_conv)

lemma touches_bind [touches_intro]: "touches N m \<Longrightarrow> (\<And>v. touches N (k v)) \<Longrightarrow> touches N (bindE m k)"
  unfolding touches_def bindE_def
  by (auto split: prod.splits sum.splits) (metis snd_conv)+

lemma touches_then [touches_intro]: "touches N m \<Longrightarrow> touches N k \<Longrightarrow> touches N (thenE m k)"
  unfolding thenE_def by (rule touches_bind)

lemma touches_catch [touches_intro]: "touches N m \<Longrightarrow> (\<And>e. touches N (h e)) \<Longrightarrow> touches N (catchE m h)"
  unfolding touches_def catchE_def
  by (auto split: prod.splits sum.splits) (metis snd_conv)+

lemma touches_attempt [touches_intro]: "touches N m \<Longrightarrow> touches N (attempt m)"
  unfolding touches_def attempt_def by (auto split: prod.splits) (metis snd_conv)

lemma touches_wrap [touches_intro]: "touches N m \<Longrightarrow> touches N (wrapE msg m)"
  unfolding wrapE_def by (intro touches_intro) (simp_all add: touches_def throwE_def)

lemma touches_reads: "reads m \<Longrightarrow> touches N m"
  by (simp add: touches_def reads_def)

lemma touches_basic [touches_intro]:
  "touches N (returnE v)" "touches N (throwE e)" "touches N (of_result r)" "touches N (check c)" "touches N Now"
  "touches N TaskID" "touches N (ReadFile f)" "touches N (Exists f)" "touches N (ReadOr f d)" "touches N get_TaskStatus"
  by (rule touches_reads, intro reads_intro)+

lemma touches_access [touches_intro]:
  "n \<in> N \<Longrightarrow> touches N (writeFileAtomic n c)" "n \<in> N \<Longrightarrow> touches N (removeStatePath n)" "touches N (AcquireWait f)"
  by (auto simp: touches_def writeFileAtomic_def removeStatePath_def AcquireWait_def split: option.splits content.splits)

lemma touches_Remove [touches_intro]: "set ns \<subseteq> N \<Longrightarrow> touches N (Remove ns)"
  by (induction ns) (auto intro!: touches_intro)

lemma touches_Write [touches_intro]: "n \<in> N \<Longrightarrow> touches N (Write n v)" "n \<in> N \<Longrightarrow> touches N (Touch n)"
  unfolding Write_def Touch_def by (intro touches_intro; assumption)+

lemma touches_of_triple:
  assumes "\<And>F. triple (state_is F) m (\<lambda>_ st. \<exists>G. (\<forall>n. n \<notin> N \<longrightarrow> G n = F n) \<and> state_is G st)
      (\<lambda>_ st. \<exists>G. (\<forall>n. n \<notin> N \<longrightarrow> G n = F n) \<and> state_is G st)"
  shows "touches N m"
  unfolding touches_def
proof (intro allI impI)
  fix st n assume n: "n \<notin> N \<and> n \<noteq> currentStatsFile"
  obtain r st' where run: "m st = (r, st')" by fastforce
  from triple_bothD [OF assms state_is_self run] n show "files (snd (m st)) n = files st n"
    by (auto simp: run state_is_def)
qed

lemma touches_best_effort [touches_intro]: "touches N (UpdateTaskStats u)" "touches N (appendParentOutcomeEvent t p k o' c r)"
  by (rule touches_of_triple, rule triple_weaken [OF UpdateTaskStats_clean], auto)
    (simp add: touches_def appendParentOutcomeEvent_def)

lemma touches_SetTaskStatus [touches_intro]: "''task.status'' \<in> N \<Longrightarrow> touches N (SetTaskStatus s)"
proof (rule touches_of_triple, rule triple_weaken [OF SetTaskStatus_clean])
  fix F :: filemap and v :: unit and st assume "''task.status'' \<in> N" "state_is (with_status F s) st"
  then show "\<exists>G. (\<forall>n. n \<notin> N \<longrightarrow> G n = F n) \<and> state_is G st" by (intro exI [of _ "with_status F s"]) auto
qed auto

lemma touches_restore [touches_intro]: "ls_name s \<in> N \<Longrightarrow> touches N (restoreLifecycleFile s)"
  unfolding restoreLifecycleFile_def by (auto intro!: touches_intro)

lemma touches_restore_all [touches_intro]: "ls_name ` set ss \<subseteq> N \<Longrightarrow> touches N (restore_all ss)"
  by (induction ss) (auto intro!: touches_intro)

lemma reads_snapshot [reads_intro]: "reads (snapshotLifecycleFile n)"
  unfolding snapshotLifecycleFile_def by (intro reads_intro)

lemma touches_cases [touches_intro]:
  "(c \<Longrightarrow> touches N a) \<Longrightarrow> (\<not> c \<Longrightarrow> touches N b) \<Longrightarrow> touches N (if c then a else b)"
  "(x = None \<Longrightarrow> touches N f) \<Longrightarrow> (\<And>v. x = Some v \<Longrightarrow> touches N (g v)) \<Longrightarrow> touches N (case x of None \<Rightarrow> f | Some v \<Rightarrow> g v)"
  "(\<And>e. r = Inl e \<Longrightarrow> touches N (f' e)) \<Longrightarrow> (\<And>v. r = Inr v \<Longrightarrow> touches N (g' v)) \<Longrightarrow>
   touches N (case r of Inl e \<Rightarrow> f' e | Inr v \<Rightarrow> g' v)"
  by (auto split: option.split sum.split)

text \<open>The value of a snapshot, and the identity of the task.\<close>

lemma snapshotLifecycleFile_value:
  "n \<noteq> currentStatsFile \<Longrightarrow> triple (state_is F) (snapshotLifecycleFile n) (\<lambda>s st. s = snapshot_of F n \<and> state_is F st) (\<lambda>_. state_is F)"
  unfolding snapshotLifecycleFile_def
proof (rule triple_bind)
  assume "n \<noteq> currentStatsFile"
  then show "triple (state_is F) (attempt (ReadFile n)) (\<lambda>r st. (case r of Inl e \<Rightarrow> is_not_exist e \<longrightarrow> F n = None
         | Inr c \<Rightarrow> F n = Some c) \<and> state_is F st) (\<lambda>_. state_is F)"
    by (intro triple_attempt triple_weaken [OF ReadFile_clean]) auto
qed (rule triple_assume, auto simp: snapshot_of_def split: sum.splits option.splits intro!: triple_return triple_throw)

lemma snap_snapshot_of: "snap F n (snapshot_of F n)"
  by (simp add: snap_def snapshot_of_def split: option.split)

lemma ls_name_snapshot_of [simp]: "ls_name (snapshot_of F n) = n"
  by (simp add: snapshot_of_def split: option.split)

text \<open>\<open>task_of F\<close> is the identity of the current task.\<close>

definition task_of :: "filemap \<Rightarrow> string" where
  "task_of F = (case F ''task.id'' of None \<Rightarrow> [] | Some c \<Rightarrow> trim_space (text_of c))"

lemma TaskID_task:
  "triple (state_is F) TaskID (\<lambda>t st. (t = task_of F \<and> t \<noteq> [] \<and> F ''task.id'' \<notin> {None, Some Directory}) \<and> state_is F st) (\<lambda>_. state_is F)"
proof (rule tripleI)
  fix st t st' assume st: "state_is F st" and run: "TaskID st = (Inr t, st')"
  have files: "files st ''task.id'' = F ''task.id''" using st by (simp add: state_is_def)
  have "state_is F st'" by (rule triple_InrD [OF TaskID_clean st run])
  with run files show "(t = task_of F \<and> t \<noteq> [] \<and> F ''task.id'' \<notin> {None, Some Directory}) \<and> state_is F st'"
    by (auto simp: TaskID_def Read_def run_defs task_of_def split: if_splits option.splits content.splits)
qed (rule triple_InlD [OF TaskID_clean])

lemma get_TaskStatus_status:
  "s \<noteq> TaskStatusNone \<Longrightarrow> triple (state_is F) get_TaskStatus (\<lambda>v st. (v = s \<longrightarrow> status_of F = s) \<and> state_is F st) (\<lambda>_. state_is F)"
  by (rule triple_weaken [OF get_TaskStatus_read]) auto

text \<open>The outcome of a run, for the evaluation of concrete stores.\<close>

lemma run_returns: "\<not> isl (fst p) \<Longrightarrow> \<exists>v st'. p = (Inr v, st')"
  by (metis prod.collapse sum.collapse(2))

lemma run_fails: "isl (fst p) \<Longrightarrow> \<exists>e. p = (Inl e, snd p)"
  by (metis prod.collapse sum.collapse(1))

end
