(* ===== verification/Bindings.thy ===== *)
theory Bindings
  imports Documents
begin

text \<open>
  The bindings of a task to the controller: pending defect registrations (\<^verbatim>\<open>defect_registration.go\<close>),
  the binding of the runtime to a workflow task (\<^verbatim>\<open>controller_runtime_binding.go\<close>), the records that end
  a task (\<^verbatim>\<open>controller_task_termination.go\<close>, \<^verbatim>\<open>runtime_disposition.go\<close>) and the task authority
  (\<^verbatim>\<open>task_authority.go\<close>). The theorems show that the registrations behave as a map from task paths and
  that a termination or disposition record is written once.
\<close>

section \<open>Controller runtime binding\<close>

definition controllerRuntimeBindingStateFile :: string where
  "controllerRuntimeBindingStateFile = ''controller-runtime-binding.json''"
definition controllerRuntimeBindingVersion :: int where "controllerRuntimeBindingVersion = 1"

definition validateControllerRuntimeBinding :: "ControllerRuntimeBinding \<Rightarrow> state_error option" where
  "validateControllerRuntimeBinding b =
     (if crb_AttemptID b = [] then Some (Errorf ''controller runtime binding attempt ID is empty'' [])
      else if (crb_TaskPath b = []) = (crb_RequestID b = []) \<or> crb_TaskContractDigest b = [] \<or>
         crb_RequestID b \<noteq> [] \<and> \<not> ValidGeneratedUUID (crb_RequestID b)
      then Some (Errorf ''controller runtime binding semantic task identity is incomplete'' [])
      else None)"

definition SaveControllerRuntimeBinding :: "ControllerRuntimeBinding \<Rightarrow> unit sop" where
  "SaveControllerRuntimeBinding b = thenE (check (validateControllerRuntimeBinding b))
     (wrapE ''controller runtime binding write'' (writeFileAtomic controllerRuntimeBindingStateFile
        (Doc (BindingD (b\<lparr>crb_Version := controllerRuntimeBindingVersion\<rparr>)))))"

definition LoadControllerRuntimeBinding :: "ControllerRuntimeBinding sop" where
  "LoadControllerRuntimeBinding = bindE (ReadFile controllerRuntimeBindingStateFile) (\<lambda>c. case c of
       Doc (BindingD b) \<Rightarrow>
         if crb_Version b \<noteq> controllerRuntimeBindingVersion
         then throwE (Errorf ''unsupported controller runtime binding version'' [itoa (crb_Version b)])
         else thenE (check (validateControllerRuntimeBinding b)) (returnE b)
     | _ \<Rightarrow> throwE (Errorf ''controller runtime binding is unreadable'' []))"

definition CurrentWorkflowTaskPath :: "string sop" where
  "CurrentWorkflowTaskPath = bindE (attempt LoadControllerRuntimeBinding) (\<lambda>r. case r of
       Inr b \<Rightarrow> returnE (crb_TaskPath b)
     | Inl e \<Rightarrow> if \<not> is_not_exist e then throwE e else ReadOr ''active-task'' [])"

definition ClearControllerRuntimeBinding :: "unit sop" where
  "ClearControllerRuntimeBinding = Remove [controllerRuntimeBindingStateFile]"

section \<open>Defect registrations\<close>

definition pendingDefectRegistrationStateFile :: string where
  "pendingDefectRegistrationStateFile = ''pending-defect-registrations.json''"
definition pendingDefectRegistrationVersion :: int where "pendingDefectRegistrationVersion = 1"

definition validatePendingDefectRegistration :: "PendingDefectRegistration \<Rightarrow> state_error option" where
  "validatePendingDefectRegistration r =
     (if \<not> ValidGeneratedUUID (pdr_TaskID r)
      then Some (Errorf ''pending defect registration task identity is invalid'' [])
      else if pdr_SourceActiveTask r = [] \<or> pdr_TaskPath r = []
      then Some (Errorf ''pending defect registration is missing task binding'' [])
      else None)"

fun registrations_error :: "string list \<Rightarrow> PendingDefectRegistration list \<Rightarrow> state_error option" where
  "registrations_error seen [] = None"
| "registrations_error seen (r # rs) =
     (case validatePendingDefectRegistration r of
        Some e \<Rightarrow> Some e
      | None \<Rightarrow> if pdr_TaskPath r \<in> set seen
          then Some (Errorf ''pending defect registration task path is duplicated'' [pdr_TaskPath r])
          else registrations_error (pdr_TaskPath r # seen) rs)"

definition PendingDefectRegistrations :: "PendingDefectRegistration list sop" where
  "PendingDefectRegistrations = bindE (attempt (ReadFile pendingDefectRegistrationStateFile)) (\<lambda>r. case r of
       Inl e \<Rightarrow> if is_not_exist e then returnE [] else throwE e
     | Inr (Doc (RegistrationsD version registrations)) \<Rightarrow>
         if version \<noteq> pendingDefectRegistrationVersion
         then throwE (Errorf ''unsupported pending defect registration state version'' [itoa version])
         else if registrations = []
         then throwE (Errorf ''pending defect registration state has no registrations'' [])
         else thenE (check (registrations_error [] registrations)) (returnE (sort_key pdr_TaskPath registrations))
     | Inr _ \<Rightarrow> throwE (Errorf ''pending defect registration state cannot be read'' []))"

definition savePendingDefectRegistrations :: "PendingDefectRegistration list \<Rightarrow> unit sop" where
  "savePendingDefectRegistrations registrations =
     (if registrations = [] then throwE (Errorf ''cannot save empty pending defect registration state'' [])
      else wrapE ''state write'' (writeFileAtomic pendingDefectRegistrationStateFile
        (Doc (RegistrationsD pendingDefectRegistrationVersion (sort_key pdr_TaskPath registrations)))))"

definition RecordPendingDefectRegistration :: "string \<Rightarrow> string \<Rightarrow> (PendingDefectRegistration \<times> bool) sop" where
  "RecordPendingDefectRegistration taskPath sourceActiveTask = bindE TaskID (\<lambda>taskID.
     if sourceActiveTask = [] \<or> taskPath = []
     then throwE (Errorf ''defect registration requires source active task and target task path'' [])
     else bindE PendingDefectRegistrations (\<lambda>registrations.
       case find (\<lambda>r. pdr_TaskPath r = taskPath) registrations of
         Some r \<Rightarrow> if pdr_TaskID r \<noteq> taskID \<or> pdr_SourceActiveTask r \<noteq> sourceActiveTask
           then throwE (Errorf ''defect registration is already bound to a different task identity'' [taskPath])
           else returnE (r, False)
       | None \<Rightarrow>
           let registration = \<lparr>pdr_TaskID = taskID, pdr_SourceActiveTask = sourceActiveTask, pdr_TaskPath = taskPath\<rparr> in
           thenE (savePendingDefectRegistrations (registrations @ [registration])) (returnE (registration, True))))"

definition CurrentPendingDefectRegistrations :: "PendingDefectRegistration list sop" where
  "CurrentPendingDefectRegistrations = bindE PendingDefectRegistrations (\<lambda>registrations.
     if registrations = [] then returnE registrations
     else bindE TaskID (\<lambda>taskID.
       bindE (wrapE ''pending defect registration current task binding is unreadable'' CurrentWorkflowTaskPath) (\<lambda>activeTask.
         if activeTask = [] then throwE (Errorf ''pending defect registration has no current active task binding'' [])
         else case find (\<lambda>r. pdr_TaskID r \<noteq> taskID \<or> pdr_SourceActiveTask r \<noteq> activeTask) registrations of
           Some r \<Rightarrow> throwE (Errorf ''pending defect registration is stale or bound to a different active task'' [pdr_TaskPath r])
         | None \<Rightarrow> returnE registrations)))"

definition BindPendingDefectRegistration :: "string \<Rightarrow> PendingDefectRegistration sop" where
  "BindPendingDefectRegistration taskPath = bindE CurrentPendingDefectRegistrations (\<lambda>registrations.
     case find (\<lambda>r. pdr_TaskPath r = taskPath) registrations of
       None \<Rightarrow> throwE (Errorf ''no pending defect registration'' [taskPath])
     | Some bound \<Rightarrow>
         let rest = takeWhile (\<lambda>r. pdr_TaskPath r \<noteq> taskPath) registrations @
               tl (dropWhile (\<lambda>r. pdr_TaskPath r \<noteq> taskPath) registrations) in
         if rest = []
         then thenE (catchE (Remove [pendingDefectRegistrationStateFile])
             (\<lambda>e. if is_not_exist e then returnE () else throwE e)) (returnE bound)
         else thenE (savePendingDefectRegistrations rest) (returnE bound))"

section \<open>Termination and disposition\<close>

definition controllerTaskTerminationFile :: string where
  "controllerTaskTerminationFile = ''controller-task-termination.json''"

definition validControllerTaskTermination :: "ControllerTaskTermination \<Rightarrow> bool" where
  "validControllerTaskTermination r \<longleftrightarrow> ctt_Version r = 1 \<and> ctt_TransitionID r \<noteq> [] \<and> ctt_SourceGeneration r \<noteq> 0 \<and>
     ctt_Reason r \<noteq> [] \<and> ctt_PrimaryRoot r \<noteq> [] \<and> ctt_PreviousRepoRoot r \<noteq> [] \<and>
     ctt_PreviousStatus r = TaskStatusAwaitingParentCompletion"

definition verifyControllerTaskTerminationSource :: "ControllerTaskTermination \<Rightarrow> unit sop" where
  "verifyControllerTaskTerminationSource r = bindE LoadControllerRuntimeBinding (\<lambda>b.
     if crb_TaskPath b \<noteq> ctt_TaskPath r \<or> crb_TaskContractDigest b \<noteq> ctt_TaskContractDigest r \<or> crb_AttemptID b \<noteq> ctt_AttemptID r
     then throwE (Errorf ''controller Task termination runtime binding differs'' [])
     else bindE get_TaskStatus (\<lambda>status.
       bindE (if status = ctt_PreviousStatus r then returnE status else get_TaskStatus) (\<lambda>again.
         if status \<noteq> ctt_PreviousStatus r \<and> again \<noteq> TaskStatusUserTerminated
         then throwE (Errorf ''controller Task termination runtime status changed'' [])
         else bindE (ReadOr ''repo-root'' []) (\<lambda>root.
           if root \<noteq> ctt_PreviousRepoRoot r \<and> root \<noteq> ctt_PrimaryRoot r
           then throwE (Errorf ''controller Task termination runtime workspace changed'' [])
           else returnE ()))))"

definition verifyExistingControllerTaskTermination :: "ControllerTaskTermination \<Rightarrow> unit sop" where
  "verifyExistingControllerTaskTermination r = bindE (attempt (ReadFile controllerTaskTerminationFile)) (\<lambda>res. case res of
       Inl e \<Rightarrow> if is_not_exist e then returnE () else throwE e
     | Inr (Doc (TerminationD previous)) \<Rightarrow>
         if previous \<noteq> r then throwE (Errorf ''controller Task termination record was replaced'' []) else returnE ()
     | Inr _ \<Rightarrow> throwE (Errorf ''controller Task termination record is unreadable'' []))"

definition RecordControllerTaskTermination :: "ControllerTaskTermination \<Rightarrow> unit sop" where
  "RecordControllerTaskTermination r =
     (if \<not> validControllerTaskTermination r
      then throwE (Errorf ''controller Task termination authority is incomplete'' [])
      else thenE (verifyControllerTaskTerminationSource r) (thenE (verifyExistingControllerTaskTermination r)
        (thenE (writeFileAtomic controllerTaskTerminationFile (Doc (TerminationD r)))
          (thenE (Write ''repo-root'' (ctt_PrimaryRoot r)) (SetTaskStatus TaskStatusUserTerminated)))))"

definition RuntimeDispositionFile :: string where "RuntimeDispositionFile = ''runtime-disposition.json''"

definition validRuntimeDisposition :: "RuntimeDisposition \<Rightarrow> bool" where
  "validRuntimeDisposition r \<longleftrightarrow> rd_Version r = 1 \<and> rd_TaskID r \<noteq> [] \<and> rd_TaskPath r \<noteq> [] \<and> rd_TransitionID r \<noteq> [] \<and>
     rd_EvidenceDigest r \<noteq> [] \<and> trim_space (rd_Reason r) \<noteq> [] \<and> TaskStatus_Known (rd_PreviousStatus r) \<and>
     rd_PreviousStatus r \<notin> {TaskStatusNone, TaskStatusComplete, TaskStatusUserTerminated}"

definition verify_existing_disposition :: "RuntimeDisposition \<Rightarrow> unit sop" where
  "verify_existing_disposition r = bindE (attempt (ReadFile RuntimeDispositionFile)) (\<lambda>res. case res of
       Inl e \<Rightarrow> if is_not_exist e then returnE () else throwE e
     | Inr (Doc (DispositionD previous)) \<Rightarrow>
         if previous \<noteq> r then throwE (Errorf ''runtime disposition cannot be replaced'' []) else returnE ()
     | Inr _ \<Rightarrow> throwE (Errorf ''runtime disposition is unreadable'' []))"

definition RecordRuntimeDisposition :: "RuntimeDisposition \<Rightarrow> unit sop" where
  "RecordRuntimeDisposition r =
     bindE (if \<not> validRuntimeDisposition r then returnE False
            else bindE (ReadOr ''task.id'' []) (\<lambda>t. returnE (t = rd_TaskID r))) (\<lambda>ok.
       if \<not> ok then throwE (Errorf ''runtime disposition identity is invalid'' [])
       else bindE get_TaskStatus (\<lambda>status.
         bindE (if status = rd_PreviousStatus r then returnE status else get_TaskStatus) (\<lambda>again.
           if status \<noteq> rd_PreviousStatus r \<and> again \<noteq> TaskStatusUserTerminated
           then throwE (Errorf ''runtime disposition status changed'' [])
           else thenE (verify_existing_disposition r)
             (thenE (writeFileAtomic RuntimeDispositionFile (Doc (DispositionD r)))
               (SetTaskStatus TaskStatusUserTerminated)))))"

section \<open>Task authority\<close>

definition taskAuthorityDir :: string where "taskAuthorityDir = ''task-authority''"

definition TaskAuthorityDir :: "string \<Rightarrow> string" where
  "TaskAuthorityDir taskID = taskAuthorityDir @ ''/'' @ taskID"

definition TaskAuthorityPathPath :: "string \<Rightarrow> string" where
  "TaskAuthorityPathPath taskID = TaskAuthorityDir taskID @ ''/active-task.path''"

definition TaskAuthorityContentPath :: "string \<Rightarrow> string" where
  "TaskAuthorityContentPath taskID = TaskAuthorityDir taskID @ ''/active-task.md''"

text \<open>Directories need no content of their own: creating one is an access that can fail.\<close>

definition MkdirAll :: "string \<Rightarrow> unit sop" where "MkdirAll name = AcquireWait name"

definition SaveCurrentTaskAuthority :: "string \<Rightarrow> string \<Rightarrow> unit sop" where
  "SaveCurrentTaskAuthority taskPath content =
     (if taskPath = [] then returnE ()
      else bindE TaskID (\<lambda>taskID.
        thenE (wrapE ''task authority directory'' (MkdirAll (TaskAuthorityDir taskID)))
          (thenE (wrapE ''task authority content'' (writeFileAtomic (TaskAuthorityContentPath taskID) (Text content)))
            (wrapE ''task authority path'' (writeFileAtomic (TaskAuthorityPathPath taskID) (Text (taskPath @ [CHR 0x0A])))))))"

definition CurrentTaskAuthorityPath :: "string sop" where
  "CurrentTaskAuthorityPath = bindE TaskID (\<lambda>taskID.
     bindE (wrapE ''task authority path is unreadable'' (ReadFile (TaskAuthorityPathPath taskID))) (\<lambda>c.
       let path = trim_space (text_of c) in
       if path = [] then throwE (Errorf ''task authority path is empty'' [])
       else if CHR 0x0D \<in> set path \<or> CHR 0x0A \<in> set path
       then throwE (Errorf ''task authority path is not unique'' [])
       else returnE path))"

section \<open>The runtime binding as a stored document\<close>

definition binding_error :: "ControllerRuntimeBinding \<Rightarrow> state_error option" where
  "binding_error b = (if crb_Version b \<noteq> controllerRuntimeBindingVersion
     then Some (Errorf ''unsupported controller runtime binding version'' [itoa (crb_Version b)])
     else validateControllerRuntimeBinding b)"

interpretation binding: stored_document controllerRuntimeBindingStateFile BindingD binding_error LoadControllerRuntimeBinding
proof (rule loader_contract)
  let ?decode = "\<lambda>c. case c of Doc (BindingD b) \<Rightarrow> Some b | _ \<Rightarrow> None"
  show "LoadControllerRuntimeBinding = bindE (ReadFile controllerRuntimeBindingStateFile) (\<lambda>c. case ?decode c of
      None \<Rightarrow> throwE (Errorf ''controller runtime binding is unreadable'' [])
    | Some x \<Rightarrow> thenE (check (binding_error x)) (returnE x))"
    unfolding LoadControllerRuntimeBinding_def binding_error_def
    by (rule arg_cong [where f = "bindE _"])
      (auto simp: fun_eq_iff check_def thenE_def bindE_def throwE_def split: content.split doc.split)
  show "?decode c = Some x \<longleftrightarrow> c = Doc (BindingD x)" for c x by (auto split: content.splits doc.splits)
qed (auto simp: controllerRuntimeBindingStateFile_def currentStatsFile_def binding_error_def
    validateControllerRuntimeBinding_def split: if_splits)

section \<open>The registrations as a map\<close>

definition pending_map :: "PendingDefectRegistration list \<Rightarrow> string \<rightharpoonup> string \<times> string" where
  "pending_map rs = map_of (map (\<lambda>r. (pdr_TaskPath r, (pdr_TaskID r, pdr_SourceActiveTask r))) rs)"

definition pending_of :: "filemap \<Rightarrow> string \<rightharpoonup> string \<times> string" where
  "pending_of F = (case F pendingDefectRegistrationStateFile of
     Some (Doc (RegistrationsD v rs)) \<Rightarrow> pending_map rs | _ \<Rightarrow> Map.empty)"

lemma registrations_not_stats [simp]: "pendingDefectRegistrationStateFile \<noteq> currentStatsFile"
  by (simp add: pendingDefectRegistrationStateFile_def currentStatsFile_def)

lemma registrations_error_distinct:
  "registrations_error seen rs = None \<Longrightarrow> distinct (map pdr_TaskPath rs) \<and> set seen \<inter> set (map pdr_TaskPath rs) = {}"
  by (induction seen rs rule: registrations_error.induct) (auto split: option.splits if_splits)

lemma pending_map_perm:
  assumes "set xs = set ys" "distinct (map pdr_TaskPath xs)" "distinct (map pdr_TaskPath ys)"
  shows "pending_map xs = pending_map ys"
  unfolding pending_map_def using assms by (subst map_of_inject_set) (auto simp: comp_def)

lemma pending_map_find:
  "find (\<lambda>r. pdr_TaskPath r = p) rs = map_option (\<lambda>(t, s). \<lparr>pdr_TaskID = t, pdr_SourceActiveTask = s, pdr_TaskPath = p\<rparr>) (pending_map rs p)"
  by (induction rs) (auto simp: pending_map_def)

lemma pending_map_append:
  "pending_map rs p = None \<Longrightarrow>
   pending_map (rs @ [\<lparr>pdr_TaskID = t, pdr_SourceActiveTask = s, pdr_TaskPath = p\<rparr>]) = (pending_map rs)(p \<mapsto> (t, s))"
  by (auto simp: pending_map_def map_add_def fun_eq_iff split: option.split)

lemma pending_map_remove:
  assumes "distinct (map pdr_TaskPath rs)"
  shows "pending_map (takeWhile (\<lambda>r. pdr_TaskPath r \<noteq> p) rs @ tl (dropWhile (\<lambda>r. pdr_TaskPath r \<noteq> p) rs)) = (pending_map rs)(p := None)"
    and "distinct (map pdr_TaskPath (takeWhile (\<lambda>r. pdr_TaskPath r \<noteq> p) rs @ tl (dropWhile (\<lambda>r. pdr_TaskPath r \<noteq> p) rs)))"
proof -
  let ?rest = "\<lambda>rs. takeWhile (\<lambda>r. pdr_TaskPath r \<noteq> p) rs @ tl (dropWhile (\<lambda>r. pdr_TaskPath r \<noteq> p) rs)"
  have sub: "set (?rest rs) \<subseteq> set rs" for rs :: "PendingDefectRegistration list"
    by (induction rs) auto
  have "pending_map (?rest rs) = (pending_map rs)(p := None) \<and> distinct (map pdr_TaskPath (?rest rs))"
    using assms
  proof (induction rs)
    case (Cons r rs)
    have cons: "pending_map (r # xs) = (pending_map xs)(pdr_TaskPath r \<mapsto> (pdr_TaskID r, pdr_SourceActiveTask r))" for xs
      by (simp add: pending_map_def)
    have none: "pending_map rs p = None" if "p \<notin> pdr_TaskPath ` set rs"
      using that by (auto simp: pending_map_def map_of_eq_None_iff)
    show ?case
    proof (cases "pdr_TaskPath r = p")
      case True
      with Cons.prems none show ?thesis by (auto simp: cons fun_eq_iff)
    next
      case False
      then have "?rest (r # rs) = r # ?rest rs" by simp
      moreover have "pdr_TaskPath r \<notin> set (map pdr_TaskPath (?rest rs))" using Cons.prems sub [of rs] by auto
      ultimately show ?thesis using Cons False by (auto simp: cons fun_eq_iff)
    qed
  qed (simp add: pending_map_def)
  then show "pending_map (?rest rs) = (pending_map rs)(p := None)" "distinct (map pdr_TaskPath (?rest rs))" by auto
qed

definition registry :: "filemap \<Rightarrow> PendingDefectRegistration list \<Rightarrow> bool" where
  "registry F rs \<longleftrightarrow> pending_of F = pending_map rs \<and> distinct (map pdr_TaskPath rs) \<and> sorted (map pdr_TaskPath rs)"

lemma PendingDefectRegistrations_triple:
  "triple (state_is F) PendingDefectRegistrations (\<lambda>rs st. registry F rs \<and> state_is F st) (\<lambda>_. state_is F)"
  unfolding PendingDefectRegistrations_def
proof (rule triple_bind)
  show "triple (state_is F) (attempt (ReadFile pendingDefectRegistrationStateFile))
      (\<lambda>r st. (case r of Inl e \<Rightarrow> is_not_exist e \<longrightarrow> F pendingDefectRegistrationStateFile = None
          | Inr c \<Rightarrow> F pendingDefectRegistrationStateFile = Some c) \<and> state_is F st) (\<lambda>_. state_is F)"
    by (rule triple_attempt, rule triple_weaken [OF ReadFile_clean]) auto
  have sorted: "registry F (sort_key pdr_TaskPath rs)"
    if "F pendingDefectRegistrationStateFile = Some (Doc (RegistrationsD v rs))" "registrations_error [] rs = None" for v rs
    using that registrations_error_distinct [OF that(2)]
    by (auto simp: registry_def pending_of_def intro!: pending_map_perm simp del: set_map
        simp flip: distinct_map) (simp_all add: distinct_map)
  fix r
  show "triple (\<lambda>st. (case r of Inl e \<Rightarrow> is_not_exist e \<longrightarrow> F pendingDefectRegistrationStateFile = None
          | Inr c \<Rightarrow> F pendingDefectRegistrationStateFile = Some c) \<and> state_is F st)
      (case r of Inl e \<Rightarrow> if is_not_exist e then returnE [] else throwE e
     | Inr (Doc (RegistrationsD version registrations)) \<Rightarrow>
         if version \<noteq> pendingDefectRegistrationVersion
         then throwE (Errorf ''unsupported pending defect registration state version'' [itoa version])
         else if registrations = []
         then throwE (Errorf ''pending defect registration state has no registrations'' [])
         else thenE (check (registrations_error [] registrations)) (returnE (sort_key pdr_TaskPath registrations))
     | Inr _ \<Rightarrow> throwE (Errorf ''pending defect registration state cannot be read'' []))
      (\<lambda>rs st. registry F rs \<and> state_is F st) (\<lambda>_. state_is F)"
  proof (rule triple_assume)
    assume r: "case r of Inl e \<Rightarrow> is_not_exist e \<longrightarrow> F pendingDefectRegistrationStateFile = None
          | Inr c \<Rightarrow> F pendingDefectRegistrationStateFile = Some c"
    have "triple (state_is F) (thenE (check (registrations_error [] rs)) (returnE (sort_key pdr_TaskPath rs)))
       (\<lambda>rs st. registry F rs \<and> state_is F st) (\<lambda>_. state_is F)"
      if "F pendingDefectRegistrationStateFile = Some (Doc (RegistrationsD v rs))" for v rs
      by (rule triple_then [OF check_checked], rule triple_assume, rule triple_return) (use sorted that in blast)
    with r show "triple (state_is F) (case r of Inl e \<Rightarrow> if is_not_exist e then returnE [] else throwE e
     | Inr (Doc (RegistrationsD version registrations)) \<Rightarrow>
         if version \<noteq> pendingDefectRegistrationVersion
         then throwE (Errorf ''unsupported pending defect registration state version'' [itoa version])
         else if registrations = []
         then throwE (Errorf ''pending defect registration state has no registrations'' [])
         else thenE (check (registrations_error [] registrations)) (returnE (sort_key pdr_TaskPath registrations))
     | Inr _ \<Rightarrow> throwE (Errorf ''pending defect registration state cannot be read'' []))
      (\<lambda>rs st. registry F rs \<and> state_is F st) (\<lambda>_. state_is F)"
      by (auto intro!: triple_throw triple_return split: sum.split content.split doc.split
          simp: registry_def pending_of_def pending_map_def)
  qed
qed

text \<open>The abstract registry: a map from task paths to the task and its source.\<close>

datatype registry_op = Register string string | Bind string

fun registry_spec :: "string \<Rightarrow> registry_op \<Rightarrow> (string \<rightharpoonup> string \<times> string) \<Rightarrow> string \<rightharpoonup> string \<times> string" where
  "registry_spec task (Register path source) m = m(path \<mapsto> (task, source))"
| "registry_spec task (Bind path) m = m(path := None)"

fun run_registry :: "registry_op \<Rightarrow> PendingDefectRegistration sop" where
  "run_registry (Register path source) = bindE (RecordPendingDefectRegistration path source) (\<lambda>(r, new). returnE r)"
| "run_registry (Bind path) = BindPendingDefectRegistration path"

definition registered :: "filemap \<Rightarrow> registry_op \<Rightarrow> PendingDefectRegistration \<Rightarrow> store \<Rightarrow> bool" where
  "registered F p r st \<longleftrightarrow> (\<exists>v. state_is (F(pendingDefectRegistrationStateFile := v)) st \<and>
     pending_of (F(pendingDefectRegistrationStateFile := v)) = registry_spec (pdr_TaskID r) p (pending_of F) \<and>
     (case p of Register path source \<Rightarrow> pdr_TaskPath r = path \<and> pdr_SourceActiveTask r = source \<and>
         (\<forall>x. pending_of F path = Some x \<longrightarrow> x = (pdr_TaskID r, source))
      | Bind path \<Rightarrow> pdr_TaskPath r = path \<and> pending_of F path = Some (pdr_TaskID r, pdr_SourceActiveTask r)))"

lemma pending_of_saved:
  assumes "distinct (map pdr_TaskPath rs)"
  shows "pending_of (F(pendingDefectRegistrationStateFile \<mapsto> Doc (RegistrationsD v (sort_key pdr_TaskPath rs)))) = pending_map rs"
proof -
  have "distinct (map pdr_TaskPath (sort_key pdr_TaskPath rs))" using assms by (simp add: distinct_map)
  then show ?thesis using assms by (auto simp: pending_of_def intro: pending_map_perm)
qed

lemma savePendingDefectRegistrations_triple:
  "triple (state_is F) (savePendingDefectRegistrations rs)
     (\<lambda>_. state_is (F(pendingDefectRegistrationStateFile \<mapsto>
        Doc (RegistrationsD pendingDefectRegistrationVersion (sort_key pdr_TaskPath rs))))) (\<lambda>_. state_is F)"
  unfolding savePendingDefectRegistrations_def
  by (rule triple_if, rule triple_throw, assumption, rule triple_wrap, rule writeFileAtomic_clean)

lemma register_new:
  assumes "registry F rs" "pending_map rs path = None"
  shows "triple (state_is F) (savePendingDefectRegistrations
      (rs @ [\<lparr>pdr_TaskID = t, pdr_SourceActiveTask = source, pdr_TaskPath = path\<rparr>]))
    (\<lambda>_. registered F (Register path source) \<lparr>pdr_TaskID = t, pdr_SourceActiveTask = source, pdr_TaskPath = path\<rparr>) (\<lambda>_. state_is F)"
proof (rule triple_weaken [OF savePendingDefectRegistrations_triple])
  fix v st
  let ?rs = "rs @ [\<lparr>pdr_TaskID = t, pdr_SourceActiveTask = source, pdr_TaskPath = path\<rparr>]"
  let ?d = "Doc (RegistrationsD pendingDefectRegistrationVersion (sort_key pdr_TaskPath ?rs))"
  assume st: "state_is (F(pendingDefectRegistrationStateFile \<mapsto> ?d)) st"
  have "path \<notin> set (map pdr_TaskPath rs)"
    using assms(2) by (auto simp: pending_map_def map_of_eq_None_iff image_image)
  with assms(1) have "pending_of (F(pendingDefectRegistrationStateFile \<mapsto> ?d)) = pending_map ?rs"
    by (intro pending_of_saved) (simp add: registry_def)
  with st assms show "registered F (Register path source) \<lparr>pdr_TaskID = t, pdr_SourceActiveTask = source, pdr_TaskPath = path\<rparr> st"
    unfolding registered_def
    by (intro exI [of _ "Some ?d"]) (simp add: registry_def pending_map_append)
qed auto

lemma registered_again:
  assumes "pending_of F path = Some (t, source)" "state_is F st"
  shows "registered F (Register path source) \<lparr>pdr_TaskID = t, pdr_SourceActiveTask = source, pdr_TaskPath = path\<rparr> st"
  unfolding registered_def
  by (rule exI [of _ "F pendingDefectRegistrationStateFile"]) (use assms in \<open>auto simp: fun_eq_iff\<close>)

lemma RecordPendingDefectRegistration_triple:
  "triple (state_is F) (RecordPendingDefectRegistration path source)
     (\<lambda>(r, new). registered F (Register path source) r) (\<lambda>_. state_is F)"
  unfolding RecordPendingDefectRegistration_def Let_def
proof (rule triple_bind [OF reads_frame [OF reads_identity(1)]], rule triple_if, rule triple_throw, assumption,
    rule triple_bind [OF PendingDefectRegistrations_triple], rule triple_assume)
  fix t rs assume rs: "registry F rs"
  show "triple (state_is F) (case find (\<lambda>r. pdr_TaskPath r = path) rs of
         Some r \<Rightarrow> if pdr_TaskID r \<noteq> t \<or> pdr_SourceActiveTask r \<noteq> source
           then throwE (Errorf ''defect registration is already bound to a different task identity'' [path])
           else returnE (r, False)
       | None \<Rightarrow> thenE (savePendingDefectRegistrations
           (rs @ [\<lparr>pdr_TaskID = t, pdr_SourceActiveTask = source, pdr_TaskPath = path\<rparr>]))
           (returnE (\<lparr>pdr_TaskID = t, pdr_SourceActiveTask = source, pdr_TaskPath = path\<rparr>, True)))
     (\<lambda>(r, new). registered F (Register path source) r) (\<lambda>_. state_is F)"
  proof (cases "pending_map rs path")
    case None
    show ?thesis
      by (simp add: pending_map_find None, rule triple_then [OF register_new [OF rs None]], rule triple_return) simp
  next
    case (Some x)
    with rs have "pending_of F path = Some x" by (simp add: registry_def)
    with Some show ?thesis
      by (cases x) (auto simp: pending_map_find intro!: triple_throw triple_return registered_again)
  qed
qed

lemma reads_bindings [reads_intro]: "reads LoadControllerRuntimeBinding" "reads CurrentWorkflowTaskPath"
  unfolding CurrentWorkflowTaskPath_def by (intro reads_intro binding.load_reads)+

lemma CurrentPendingDefectRegistrations_triple:
  "triple (state_is F) CurrentPendingDefectRegistrations (\<lambda>rs st. registry F rs \<and> state_is F st) (\<lambda>_. state_is F)"
  unfolding CurrentPendingDefectRegistrations_def
  by (rule triple_bind [OF PendingDefectRegistrations_triple], rule triple_assume, rule triple_if, rule triple_return, simp,
      rule triple_bind [OF reads_frame [OF reads_identity(1)]],
      rule triple_bind [OF reads_frame [OF reads_wrap [OF reads_bindings(2)]]], rule triple_if, rule triple_throw, assumption,
      rule triple_option, rule triple_return, simp, rule triple_throw)

lemma remove_absent: "triple (state_is F) (catchE (Remove [n]) (\<lambda>e. if is_not_exist e then returnE () else throwE e))
    (\<lambda>_. state_is (F(n := None))) (\<lambda>_. state_is F)" if "n \<noteq> currentStatsFile"
  using that
  by (auto simp: triple_def removeStatePath_def thenE_def bindE_def catchE_def returnE_def throwE_def
      state_is_def tick_def split: option.splits content.splits)

lemma BindPendingDefectRegistration_triple:
  "triple (state_is F) (BindPendingDefectRegistration path) (\<lambda>r. registered F (Bind path) r) (\<lambda>_. state_is F)"
  unfolding BindPendingDefectRegistration_def Let_def
proof (rule triple_bind [OF CurrentPendingDefectRegistrations_triple], rule triple_assume, rule triple_option, rule triple_throw, assumption)
  fix rs r
  assume rs: "registry F rs" and "find (\<lambda>r. pdr_TaskPath r = path) rs = Some r"
  then have r: "pdr_TaskPath r = path" "pending_of F path = Some (pdr_TaskID r, pdr_SourceActiveTask r)"
    by (auto simp: pending_map_find registry_def)
  let ?rest = "takeWhile (\<lambda>r. pdr_TaskPath r \<noteq> path) rs @ tl (dropWhile (\<lambda>r. pdr_TaskPath r \<noteq> path) rs)"
  have rest: "pending_map ?rest = (pending_of F)(path := None)" "distinct (map pdr_TaskPath ?rest)"
    using pending_map_remove [of rs path] rs unfolding registry_def by (simp_all only:)
  have bound: "registered F (Bind path) r st"
    if "state_is (F(pendingDefectRegistrationStateFile := v)) st"
      "pending_of (F(pendingDefectRegistrationStateFile := v)) = pending_map ?rest" for v st
    unfolding registered_def using that r rest by auto
  show "triple (state_is F) (if ?rest = []
         then thenE (catchE (Remove [pendingDefectRegistrationStateFile])
             (\<lambda>e. if is_not_exist e then returnE () else throwE e)) (returnE r)
         else thenE (savePendingDefectRegistrations ?rest) (returnE r))
     (\<lambda>r. registered F (Bind path) r) (\<lambda>_. state_is F)"
  proof (rule triple_if)
    assume empty: "?rest = []"
    then have "pending_map ?rest = Map.empty" unfolding pending_map_def by simp
    then show "triple (state_is F) (thenE (catchE (Remove [pendingDefectRegistrationStateFile])
             (\<lambda>e. if is_not_exist e then returnE () else throwE e)) (returnE r))
      (\<lambda>r. registered F (Bind path) r) (\<lambda>_. state_is F)"
      by (intro triple_then [OF remove_absent] triple_return bound [of None]) (simp_all add: pending_of_def)
  next
    show "triple (state_is F) (thenE (savePendingDefectRegistrations ?rest) (returnE r))
      (\<lambda>r. registered F (Bind path) r) (\<lambda>_. state_is F)"
      by (rule triple_then [OF savePendingDefectRegistrations_triple], rule triple_return, rule bound [OF _ pending_of_saved [OF rest(2)]])
  qed
qed

lemma run_registry_triple: "triple (state_is F) (run_registry p) (\<lambda>r. registered F p r) (\<lambda>_. state_is F)"
proof (cases p)
  case (Register path source)
  show ?thesis unfolding Register run_registry.simps
    by (rule triple_bind [OF RecordPendingDefectRegistration_triple]) (auto intro: triple_return)
next
  case (Bind path)
  then show ?thesis by (simp add: BindPendingDefectRegistration_triple)
qed

text \<open>
  C38. The pending defect registrations refine a map from task paths: for every pattern of file system
  faults, a recorded registration binds its path to the current task and source and never rebinds a
  path, binding a registration returns what was recorded for the path and removes that path only, no
  other file but the statistics changes, and an operation that fails changes nothing.
\<close>

theorem registry_refines_map:
  assumes "run_registry p st = (res, st')"
  shows "(\<forall>n. n \<noteq> pendingDefectRegistrationStateFile \<and> n \<noteq> currentStatsFile \<longrightarrow> files st' n = files st n) \<and>
    (case res of
       Inl _ \<Rightarrow> pending_of (files st') = pending_of (files st)
     | Inr r \<Rightarrow> pending_of (files st') = registry_spec (pdr_TaskID r) p (pending_of (files st)) \<and>
         (case p of Register path source \<Rightarrow> \<forall>x. pending_of (files st) path = Some x \<longrightarrow> x = (pdr_TaskID r, source)
          | Bind path \<Rightarrow> pending_of (files st) path = Some (pdr_TaskID r, pdr_SourceActiveTask r)))"
proof (cases res)
  case (Inl e)
  from triple_InlD [OF run_registry_triple state_is_self assms [unfolded Inl]] show ?thesis
    by (simp add: Inl state_is_def pending_of_def)
next
  case (Inr r)
  from triple_InrD [OF run_registry_triple state_is_self assms [unfolded Inr]] obtain v where
    v: "state_is ((files st)(pendingDefectRegistrationStateFile := v)) st'"
      "pending_of ((files st)(pendingDefectRegistrationStateFile := v)) = registry_spec (pdr_TaskID r) p (pending_of (files st))"
      "case p of Register path source \<Rightarrow> \<forall>x. pending_of (files st) path = Some x \<longrightarrow> x = (pdr_TaskID r, source)
          | Bind path \<Rightarrow> pending_of (files st) path = Some (pdr_TaskID r, pdr_SourceActiveTask r)"
    by (auto simp: registered_def split: registry_op.splits)
  then have "pending_of (files st') = pending_of ((files st)(pendingDefectRegistrationStateFile := v))"
    by (simp add: pending_of_def state_is_def)
  with v show ?thesis by (simp add: Inr state_is_def)
qed

text \<open>A store whose task has a defect registration, and a second one to record.\<close>

definition defect_store :: store where
  "defect_store = \<lparr>files = [''task.id'' \<mapsto> Text ''123e4567-e89b-42d3-a456-426614174000'', ''active-task'' \<mapsto> Text ''tasks/a.md'',
       ''pending-defect-registrations.json'' \<mapsto> Doc (RegistrationsD 1
         [\<lparr>pdr_TaskID = ''123e4567-e89b-42d3-a456-426614174000'', pdr_SourceActiveTask = ''tasks/a.md'', pdr_TaskPath = ''tasks/d1.md''\<rparr>])],
     listing = [''active-task'', ''pending-defect-registrations.json'', ''task.id''], access = 0, fault = (\<lambda>_. False), now = 7,
     lifecycle_log = [], outcome_log = []\<rparr>"

theorem registry_refines_map_witness:
  "\<exists>r st'. run_registry (Bind ''tasks/d1.md'') defect_store = (Inr r, st') \<and> pending_of (files st') ''tasks/d1.md'' = None \<and>
     pending_of (files defect_store) ''tasks/d1.md'' = Some (pdr_TaskID r, pdr_SourceActiveTask r)"
proof -
  have "case fst (run_registry (Bind ''tasks/d1.md'') defect_store) of Inl e \<Rightarrow> False | Inr r \<Rightarrow> True" by code_simp
  then obtain r st' where run: "run_registry (Bind ''tasks/d1.md'') defect_store = (Inr r, st')"
    by (cases "run_registry (Bind ''tasks/d1.md'') defect_store") (auto split: sum.splits)
  with registry_refines_map [OF run] show ?thesis by auto
qed

section \<open>Records that are written once\<close>

text \<open>What the two records that end a task have in common: the file holds the record or nothing before it is written.\<close>

lemma termination_not_stats [simp]: "controllerTaskTerminationFile \<noteq> currentStatsFile"
    "RuntimeDispositionFile \<noteq> currentStatsFile" "RuntimeDispositionFile \<noteq> ''task.status''"
    "controllerTaskTerminationFile \<noteq> ''task.status''" "controllerTaskTerminationFile \<noteq> ''repo-root''"
    "''repo-root'' \<noteq> controllerTaskTerminationFile"
  by (simp_all add: controllerTaskTerminationFile_def RuntimeDispositionFile_def currentStatsFile_def)

lemma verify_existing_disposition_triple:
  "triple (state_is F) (verify_existing_disposition r)
     (\<lambda>_ st. F RuntimeDispositionFile \<in> {None, Some (Doc (DispositionD r))} \<and> state_is F st) (\<lambda>_. state_is F)"
  unfolding verify_existing_disposition_def
proof (rule triple_bind)
  show "triple (state_is F) (attempt (ReadFile RuntimeDispositionFile))
      (\<lambda>res st. (case res of Inl e \<Rightarrow> is_not_exist e \<longrightarrow> F RuntimeDispositionFile = None
          | Inr c \<Rightarrow> F RuntimeDispositionFile = Some c) \<and> state_is F st) (\<lambda>_. state_is F)"
    by (rule triple_attempt, rule triple_weaken [OF ReadFile_clean]) auto
qed (rule triple_assume, auto intro!: triple_throw triple_return split: sum.split content.split doc.split)

lemma verifyExistingControllerTaskTermination_triple:
  "triple (state_is F) (verifyExistingControllerTaskTermination r)
     (\<lambda>_ st. F controllerTaskTerminationFile \<in> {None, Some (Doc (TerminationD r))} \<and> state_is F st) (\<lambda>_. state_is F)"
  unfolding verifyExistingControllerTaskTermination_def
proof (rule triple_bind)
  show "triple (state_is F) (attempt (ReadFile controllerTaskTerminationFile))
      (\<lambda>res st. (case res of Inl e \<Rightarrow> is_not_exist e \<longrightarrow> F controllerTaskTerminationFile = None
          | Inr c \<Rightarrow> F controllerTaskTerminationFile = Some c) \<and> state_is F st) (\<lambda>_. state_is F)"
    by (rule triple_attempt, rule triple_weaken [OF ReadFile_clean]) auto
qed (rule triple_assume, auto intro!: triple_throw triple_return split: sum.split content.split doc.split)

text \<open>
  \<open>once n d m\<close>: the operation puts the record \<open>d\<close> into the file \<open>n\<close>, only if the file was absent or
  already held it, and ends the task; when it fails the file is as before or newly holds \<open>d\<close>.
\<close>

definition once :: "string \<Rightarrow> doc content \<Rightarrow> unit sop \<Rightarrow> bool" where
  "once n d m \<longleftrightarrow> (\<forall>F. triple (state_is F) m
     (\<lambda>_ st. F n \<in> {None, Some d} \<and> files st n = Some d \<and> status_of (files st) = TaskStatusUserTerminated)
     (\<lambda>_ st. files st n = F n \<or> F n = None \<and> files st n = Some d))"

lemma once_tail:
  assumes n: "n \<noteq> currentStatsFile" "n \<noteq> ''task.status''" and d: "F n \<in> {None, Some d}" "F n = G n"
  shows "triple (state_is (G(n \<mapsto> d))) (SetTaskStatus TaskStatusUserTerminated)
     (\<lambda>_ st. F n \<in> {None, Some d} \<and> files st n = Some d \<and> status_of (files st) = TaskStatusUserTerminated)
     (\<lambda>_ st. files st n = F n \<or> F n = None \<and> files st n = Some d)"
proof (rule triple_weaken [OF SetTaskStatus_clean])
  fix v st assume st: "state_is (with_status (G(n \<mapsto> d)) TaskStatusUserTerminated) st"
  have "TaskStatus_Known TaskStatusUserTerminated" by code_simp
  from status_of_known [OF this] st n d
  show "F n \<in> {None, Some d} \<and> files st n = Some d \<and> status_of (files st) = TaskStatusUserTerminated"
    by (simp add: status_of_state_is) (simp add: state_is_def)
next
  fix e st assume "state_is (G(n \<mapsto> d)) st"
  with n d show "files st n = F n \<or> F n = None \<and> files st n = Some d" by (auto simp: state_is_def)
qed

lemma once_write:
  assumes "F n \<in> {None, Some d}" "n \<noteq> currentStatsFile"
    and "triple (state_is (F(n \<mapsto> d))) m Q (\<lambda>_ st. files st n = F n \<or> F n = None \<and> files st n = Some d)"
  shows "triple (state_is F) (thenE (writeFileAtomic n d) m) Q (\<lambda>_ st. files st n = F n \<or> F n = None \<and> files st n = Some d)"
  by (rule triple_then [OF triple_weaken [OF writeFileAtomic_clean [of F n d]] assms(3)])
    (use assms in \<open>auto simp: state_is_def\<close>)

lemma RecordRuntimeDisposition_once: "once RuntimeDispositionFile (Doc (DispositionD r)) (RecordRuntimeDisposition r)"
  unfolding once_def RecordRuntimeDisposition_def
proof
  fix F
  let ?n = RuntimeDispositionFile and ?d = "Doc (DispositionD r)"
  let ?E = "\<lambda>_ st. files st ?n = F ?n \<or> F ?n = None \<and> files st ?n = Some ?d"
  have keep: "state_is F st \<Longrightarrow> files st ?n = F ?n \<or> F ?n = None \<and> files st ?n = Some ?d" for st
    by (simp add: state_is_def)
  have read: "triple (state_is F) m (\<lambda>_. state_is F) ?E" if "reads m" for m :: "'a sop"
    by (rule triple_weaken [OF reads_frame [OF that]]) (use keep in \<open>blast+\<close>)
  have verify: "triple (state_is F) (verify_existing_disposition r) (\<lambda>_ st. F ?n \<in> {None, Some ?d} \<and> state_is F st) ?E"
    by (rule triple_weaken [OF verify_existing_disposition_triple]) (use keep in \<open>blast+\<close>)
  have tail: "triple (state_is F) (thenE (verify_existing_disposition r)
             (thenE (writeFileAtomic ?n ?d) (SetTaskStatus TaskStatusUserTerminated)))
     (\<lambda>_ st. F ?n \<in> {None, Some ?d} \<and> files st ?n = Some ?d \<and> status_of (files st) = TaskStatusUserTerminated) ?E"
    by (rule triple_then [OF verify], rule triple_assume, rule once_write, assumption, simp, rule once_tail) simp_all
  show "triple (state_is F) (bindE (if \<not> validRuntimeDisposition r then returnE False
            else bindE (ReadOr ''task.id'' []) (\<lambda>t. returnE (t = rd_TaskID r))) (\<lambda>ok.
       if \<not> ok then throwE (Errorf ''runtime disposition identity is invalid'' [])
       else bindE get_TaskStatus (\<lambda>status.
         bindE (if status = rd_PreviousStatus r then returnE status else get_TaskStatus) (\<lambda>again.
           if status \<noteq> rd_PreviousStatus r \<and> again \<noteq> TaskStatusUserTerminated
           then throwE (Errorf ''runtime disposition status changed'' [])
           else thenE (verify_existing_disposition r)
             (thenE (writeFileAtomic ?n ?d) (SetTaskStatus TaskStatusUserTerminated))))))
     (\<lambda>_ st. F ?n \<in> {None, Some ?d} \<and> files st ?n = Some ?d \<and> status_of (files st) = TaskStatusUserTerminated) ?E"
    by (rule triple_bind [OF read], intro reads_intro, rule triple_if, rule triple_throw, erule keep,
        rule triple_bind [OF read], intro reads_intro, rule triple_bind [OF read], intro reads_intro,
        rule triple_if, rule triple_throw, erule keep, rule tail)
qed

lemma reads_termination [reads_intro]: "reads (verifyControllerTaskTerminationSource r)"
  unfolding verifyControllerTaskTerminationSource_def by (intro reads_intro)

lemma RecordControllerTaskTermination_once:
  "once controllerTaskTerminationFile (Doc (TerminationD r)) (RecordControllerTaskTermination r)"
  unfolding once_def RecordControllerTaskTermination_def
proof
  fix F
  let ?n = controllerTaskTerminationFile and ?d = "Doc (TerminationD r)"
  let ?E = "\<lambda>_ st. files st ?n = F ?n \<or> F ?n = None \<and> files st ?n = Some ?d"
  have keep: "state_is F st \<Longrightarrow> files st ?n = F ?n \<or> F ?n = None \<and> files st ?n = Some ?d" for st
    by (simp add: state_is_def)
  have read: "triple (state_is F) m (\<lambda>_. state_is F) ?E" if "reads m" for m :: "'a sop"
    by (rule triple_weaken [OF reads_frame [OF that]]) (use keep in \<open>blast+\<close>)
  have verify: "triple (state_is F) (verifyExistingControllerTaskTermination r) (\<lambda>_ st. F ?n \<in> {None, Some ?d} \<and> state_is F st) ?E"
    by (rule triple_weaken [OF verifyExistingControllerTaskTermination_triple]) (use keep in \<open>blast+\<close>)
  have root: "triple (state_is (F(?n \<mapsto> ?d))) (Write ''repo-root'' (ctt_PrimaryRoot r))
      (\<lambda>_. state_is ((F(''repo-root'' \<mapsto> Text (ctt_PrimaryRoot r @ [CHR 0x0A])))(?n \<mapsto> ?d))) ?E" if "F ?n \<in> {None, Some ?d}"
    by (rule triple_weaken [OF Write_clean [of "F(?n \<mapsto> ?d)"]])
      (use that in \<open>auto simp: state_is_def fun_upd_twist\<close>)
  show "triple (state_is F) (if \<not> validControllerTaskTermination r
      then throwE (Errorf ''controller Task termination authority is incomplete'' [])
      else thenE (verifyControllerTaskTerminationSource r) (thenE (verifyExistingControllerTaskTermination r)
        (thenE (writeFileAtomic ?n ?d) (thenE (Write ''repo-root'' (ctt_PrimaryRoot r)) (SetTaskStatus TaskStatusUserTerminated)))))
     (\<lambda>_ st. F ?n \<in> {None, Some ?d} \<and> files st ?n = Some ?d \<and> status_of (files st) = TaskStatusUserTerminated) ?E"
    by (rule triple_if, rule triple_throw, erule keep, rule triple_then [OF read], intro reads_intro,
        rule triple_then [OF verify], rule triple_assume, rule once_write, assumption, simp,
        rule triple_then [OF root], assumption, rule once_tail) simp_all
qed

text \<open>
  C39. The record that ends a task is written once: for every pattern of faults, recording a
  disposition or a controller termination succeeds only when none is recorded or the very same one
  is, and the task is then user-terminated; whether it succeeds or not, a record that is already in
  the directory is never replaced.
\<close>

theorem task_end_recorded_once:
  assumes "(n, d, m) \<in> {(RuntimeDispositionFile, Doc (DispositionD r), RecordRuntimeDisposition r),
      (controllerTaskTerminationFile, Doc (TerminationD t), RecordControllerTaskTermination t)}"
    and "m st = (res, st')"
  shows "(files st n \<noteq> None \<longrightarrow> files st' n = files st n) \<and>
    (case res of Inl _ \<Rightarrow> files st' n \<in> {files st n, Some d}
     | Inr _ \<Rightarrow> files st n \<in> {None, Some d} \<and> files st' n = Some d \<and> status_of (files st') = TaskStatusUserTerminated)"
proof -
  have "once n d m" using assms(1) RecordRuntimeDisposition_once RecordControllerTaskTermination_once by auto
  then have m: "triple (state_is (files st)) m
     (\<lambda>_ st'. files st n \<in> {None, Some d} \<and> files st' n = Some d \<and> status_of (files st') = TaskStatusUserTerminated)
     (\<lambda>_ st'. files st' n = files st n \<or> files st n = None \<and> files st' n = Some d)"
    by (simp add: once_def)
  show ?thesis
    using triple_InlD [OF m state_is_self] triple_InrD [OF m state_is_self] assms(2) by (cases res) auto
qed

definition sample_disposition :: "string \<Rightarrow> RuntimeDisposition" where
  "sample_disposition reason = \<lparr>rd_Version = 1, rd_TaskID = ''t1'', rd_TaskPath = ''tasks/a.md'', rd_TransitionID = ''x'',
     rd_EvidenceDigest = ''e'', rd_Reason = reason, rd_PreviousStatus = ''active''\<rparr>"

theorem task_end_recorded_once_witness:
  "\<exists>st1 e st2. RecordRuntimeDisposition (sample_disposition ''a'') (sample_store (\<lambda>_. False)) = (Inr (), st1) \<and>
     RecordRuntimeDisposition (sample_disposition ''b'') st1 = (Inl e, st2) \<and>
     files st2 RuntimeDispositionFile = Some (Doc (DispositionD (sample_disposition ''a'')))"
proof -
  let ?m = "RecordRuntimeDisposition (sample_disposition ''a'')" and ?m' = "RecordRuntimeDisposition (sample_disposition ''b'')"
  let ?st = "sample_store (\<lambda>_. False)"
  have 1: "fst (?m ?st) = Inr ()" by code_simp
  have 2: "case fst (?m' (snd (?m ?st))) of Inl e \<Rightarrow> True | Inr _ \<Rightarrow> False" by code_simp
  obtain st1 where st1: "?m ?st = (Inr (), st1)" using 1 by (metis prod.collapse)
  obtain e st2 where st2: "?m' st1 = (Inl e, st2)"
    using 2 st1 by (cases "?m' st1") (auto split: sum.splits)
  have "files st1 RuntimeDispositionFile = Some (Doc (DispositionD (sample_disposition ''a'')))"
    using task_end_recorded_once [of RuntimeDispositionFile _ ?m _ undefined, OF _ st1] by auto
  moreover have "files st2 RuntimeDispositionFile = files st1 RuntimeDispositionFile"
    using task_end_recorded_once [of RuntimeDispositionFile _ ?m' _ undefined, OF _ st2] calculation by auto
  ultimately show ?thesis using st1 st2 by auto
qed

end
