(* ===== verification/Publication.thy ===== *)
theory Publication
  imports Bindings
begin

text \<open>
  The publication records of an accepted task: the prepared candidate (\<^verbatim>\<open>publication_candidate.go\<close>),
  the finding that invalidates it (\<^verbatim>\<open>publication_invalidation.go\<close>), the lineage of a reopened task
  (\<^verbatim>\<open>publication_reopen_lineage.go\<close>) and the evidence of an installed runtime (\<^verbatim>\<open>runtime_install.go\<close>),
  with \<^verbatim>\<open>ValidationSnapshotID\<close> of \<^verbatim>\<open>validation.go\<close>. Times are integers, 0 is the zero time.
\<close>

section \<open>Hexadecimal identities\<close>

definition ValidationResultPass :: string where "ValidationResultPass = ''pass''"

definition ValidationSnapshotID :: "go_runtime \<Rightarrow> string \<Rightarrow> string \<Rightarrow> string \<Rightarrow> string" where
  "ValidationSnapshotID rt head indexDigest worktreeDigest =
     (if head = [] \<or> indexDigest = [] \<or> worktreeDigest = [] then []
      else rt_SHA256 rt (head @ [CHR 0x00] @ indexDigest @ [CHR 0x00] @ worktreeDigest))"

definition validPublicationHex :: "string \<Rightarrow> nat \<Rightarrow> bool" where
  "validPublicationHex value n \<longleftrightarrow> length value = n \<and>
     list_all (\<lambda>c. CHR ''0'' \<le> c \<and> c \<le> CHR ''9'' \<or> CHR ''a'' \<le> c \<and> c \<le> CHR ''f'') value"

definition validPublicationOID :: "string \<Rightarrow> bool" where "validPublicationOID value = validPublicationHex value 40"
definition validPublicationDigest :: "string \<Rightarrow> bool" where "validPublicationDigest value = validPublicationHex value 64"

section \<open>The candidate\<close>

definition publicationCandidateStateFile :: string where "publicationCandidateStateFile = ''publication-candidate.json''"
definition publicationCandidateVersion :: int where "publicationCandidateVersion = 1"

definition validatePublicationCandidateIdentity :: "PublicationCandidate \<Rightarrow> state_error option" where
  "validatePublicationCandidateIdentity c =
     (if pc_Version c \<noteq> publicationCandidateVersion
      then Some (Errorf ''unsupported publication candidate version'' [itoa (pc_Version c)])
      else if \<not> ValidGeneratedUUID (pc_TaskID c) then Some (Errorf ''publication candidate task ID is invalid'' [])
      else if \<not> validPublicationOID (pc_BaseHead c) \<or> \<not> validPublicationOID (pc_CommitOID c) \<or> \<not> validPublicationOID (pc_TreeOID c)
      then Some (Errorf ''publication candidate git identity is invalid'' [])
      else if \<not> validPublicationDigest (pc_MessageDigest c)
      then Some (Errorf ''publication candidate commit message digest is invalid'' [])
      else None)"

definition validatePublicationCandidateSnapshot :: "go_runtime \<Rightarrow> PublicationCandidate \<Rightarrow> state_error option" where
  "validatePublicationCandidateSnapshot rt c = (let s = pc_Snapshot c in
     if sd_Head s \<noteq> pc_BaseHead c \<or> sd_IndexDigest s = [] \<or> sd_WorktreeDigest s = []
     then Some (Errorf ''publication candidate snapshot identity is invalid'' [])
     else let expected = ValidationSnapshotID rt (sd_Head s) (sd_IndexDigest s) (sd_WorktreeDigest s) in
       if expected = [] \<or> pc_SnapshotID c \<noteq> expected
       then Some (Errorf ''publication candidate snapshot ID does not match'' [])
       else None)"

definition validatePublicationCandidate :: "go_runtime \<Rightarrow> PublicationCandidate \<Rightarrow> state_error option" where
  "validatePublicationCandidate rt c = first_err
     [validatePublicationCandidateIdentity c, validatePublicationCandidateSnapshot rt c,
      if pc_PreparedAt c = 0 then Some (Errorf ''publication candidate has no prepared_at'' []) else None]"

definition SavePublicationCandidate :: "go_runtime \<Rightarrow> PublicationCandidate \<Rightarrow> unit sop" where
  "SavePublicationCandidate rt c = thenE (check (validatePublicationCandidate rt c)) (bindE TaskID (\<lambda>taskID.
     if pc_TaskID c \<noteq> taskID
     then throwE (Errorf ''publication candidate task does not match current task'' [pc_TaskID c, taskID])
     else wrapE ''state write'' (writeFileAtomic publicationCandidateStateFile (Doc (CandidateD c)))))"

definition LoadPublicationCandidate :: "go_runtime \<Rightarrow> PublicationCandidate sop" where
  "LoadPublicationCandidate rt = bindE (ReadFile publicationCandidateStateFile) (\<lambda>content. case content of
       Doc (CandidateD c) \<Rightarrow> thenE (check (validatePublicationCandidate rt c)) (returnE c)
     | _ \<Rightarrow> throwE (Errorf ''publication candidate is unreadable'' []))"

definition ClearPublicationCandidate :: "unit sop" where
  "ClearPublicationCandidate = Remove [publicationCandidateStateFile]"

section \<open>The lineage of a reopened task\<close>

definition publicationReopenLineageStateFile :: string where
  "publicationReopenLineageStateFile = ''publication-reopen-lineage.json''"
definition publicationReopenLineageVersion :: int where "publicationReopenLineageVersion = 1"

definition validatePublicationReopenLineage :: "PublicationReopenLineage \<Rightarrow> state_error option" where
  "validatePublicationReopenLineage l =
     (if prl_Version l \<noteq> publicationReopenLineageVersion
      then Some (Errorf ''unsupported publication reopen lineage version'' [itoa (prl_Version l)])
      else if \<not> ValidGeneratedUUID (prl_TaskID l) then Some (Errorf ''publication reopen lineage task ID is invalid'' [])
      else if trim_space (prl_TaskPath l) = [] \<or> contains_any (prl_TaskPath l) [CHR 0x0D, CHR 0x0A]
      then Some (Errorf ''publication reopen lineage task path is invalid'' [])
      else if \<not> validPublicationOID (prl_BaseHead l) \<or> \<not> validPublicationOID (prl_CommitOID l)
      then Some (Errorf ''publication reopen lineage git identity is invalid'' [])
      else None)"

definition LoadPublicationReopenLineage :: "PublicationReopenLineage sop" where
  "LoadPublicationReopenLineage = bindE (ReadFile publicationReopenLineageStateFile) (\<lambda>content. case content of
       Doc (LineageD l) \<Rightarrow> thenE (check (validatePublicationReopenLineage l)) (returnE l)
     | _ \<Rightarrow> throwE (Errorf ''publication reopen lineage is unreadable'' []))"

definition validateCurrentPublicationReopenLineage :: "PublicationReopenLineage \<Rightarrow> unit sop" where
  "validateCurrentPublicationReopenLineage l = bindE TaskID (\<lambda>taskID.
     if prl_TaskID l \<noteq> taskID
     then throwE (Errorf ''publication reopen lineage task does not match current task'' [prl_TaskID l, taskID])
     else bindE (wrapE ''publication reopen task authority unavailable'' CurrentTaskAuthorityPath) (\<lambda>taskPath.
       if prl_TaskPath l \<noteq> taskPath
       then throwE (Errorf ''publication reopen lineage task path does not match canonical task authority'' [prl_TaskPath l, taskPath])
       else returnE ()))"

definition CapturePublicationReopenLineage :: "PublicationCandidate \<Rightarrow> unit sop" where
  "CapturePublicationReopenLineage c = bindE TaskID (\<lambda>taskID.
     if pc_TaskID c \<noteq> taskID
     then throwE (Errorf ''publication reopen candidate task does not match current task'' [pc_TaskID c, taskID])
     else bindE (attempt LoadPublicationReopenLineage) (\<lambda>r. case r of
         Inr existing \<Rightarrow> validateCurrentPublicationReopenLineage existing
       | Inl e \<Rightarrow> if \<not> is_not_exist e then throwE e
           else bindE (wrapE ''publication reopen task authority unavailable'' CurrentTaskAuthorityPath) (\<lambda>taskPath.
             let lineage = \<lparr>prl_Version = publicationReopenLineageVersion, prl_TaskID = taskID, prl_TaskPath = taskPath,
                   prl_BaseHead = pc_BaseHead c, prl_CommitOID = pc_CommitOID c\<rparr> in
             thenE (check (validatePublicationReopenLineage lineage))
               (wrapE ''state write'' (writeFileAtomic publicationReopenLineageStateFile (Doc (LineageD lineage)))))))"

section \<open>Installed runtime\<close>

definition runtimeInstallEvidenceFile :: string where "runtimeInstallEvidenceFile = ''runtime-install-evidence.json''"
definition runtimeInstallEvidenceVersion :: int where "runtimeInstallEvidenceVersion = 1"

definition validateRuntimeInstallEvidence :: "RuntimeInstallEvidence \<Rightarrow> state_error option" where
  "validateRuntimeInstallEvidence e =
     (if rie_Version e \<noteq> runtimeInstallEvidenceVersion
      then Some (Errorf ''unsupported runtime install evidence version'' [itoa (rie_Version e)])
      else if \<not> ValidGeneratedUUID (rie_TaskID e) then Some (Errorf ''runtime install evidence task ID is invalid'' [])
      else if rie_Head e = [] \<or> rie_SourceDigest e = [] \<or> rie_InstalledRevision e = []
      then Some (Errorf ''runtime install evidence identity is incomplete'' [])
      else if rie_InstalledRevision e \<noteq> rie_Head e
      then Some (Errorf ''runtime install evidence installed revision does not match source HEAD'' [])
      else if rie_SmokeResult e \<noteq> ValidationResultPass
      then Some (Errorf ''runtime install evidence smoke result is not pass'' [])
      else None)"

definition SaveRuntimeInstallEvidence :: "RuntimeInstallEvidence \<Rightarrow> unit sop" where
  "SaveRuntimeInstallEvidence e = thenE (check (validateRuntimeInstallEvidence e)) (bindE TaskID (\<lambda>taskID.
     if rie_TaskID e \<noteq> taskID
     then throwE (Errorf ''runtime install evidence task does not match current task'' [rie_TaskID e, taskID])
     else wrapE ''runtime install evidence write'' (writeFileAtomic runtimeInstallEvidenceFile (Doc (InstallD e)))))"

definition LoadRuntimeInstallEvidence :: "RuntimeInstallEvidence sop" where
  "LoadRuntimeInstallEvidence = bindE (ReadFile runtimeInstallEvidenceFile) (\<lambda>content. case content of
       Doc (InstallD e) \<Rightarrow> thenE (check (validateRuntimeInstallEvidence e)) (returnE e)
     | _ \<Rightarrow> throwE (Errorf ''runtime install evidence is unreadable'' []))"

definition ClearRuntimeInstallEvidence :: "unit sop" where
  "ClearRuntimeInstallEvidence = Remove [runtimeInstallEvidenceFile]"

section \<open>Invalidating findings\<close>

definition publicationInvalidatingFindingStateFile :: string where
  "publicationInvalidatingFindingStateFile = ''publication-invalidating-finding.json''"
definition publicationInvalidatingFindingVersion :: int where "publicationInvalidatingFindingVersion = 1"
definition PublicationFindingCorrectnessDefect :: string where "PublicationFindingCorrectnessDefect = ''correctness-defect''"

record publicationInvalidatingFindingTarget_t =
  ft_taskID :: string
  ft_candidate :: PublicationCandidate

definition validatePublicationInvalidatingFinding :: "PublicationInvalidatingFinding \<Rightarrow> state_error option" where
  "validatePublicationInvalidatingFinding f =
     (if pif_Version f \<noteq> publicationInvalidatingFindingVersion
      then Some (Errorf ''unsupported publication invalidating finding version'' [itoa (pif_Version f)])
      else if \<not> ValidGeneratedUUID (pif_TaskID f) \<or> \<not> ValidGeneratedUUID (pif_FindingID f)
      then Some (Errorf ''publication invalidating finding identity is invalid'' [])
      else if pif_Disposition f \<noteq> PublicationFindingCorrectnessDefect
      then Some (Errorf ''publication invalidating finding disposition is invalid'' [pif_Disposition f])
      else if \<not> validPublicationOID (pif_CandidateCommitOID f) \<or> \<not> validPublicationDigest (pif_CandidateSnapshotID f)
      then Some (Errorf ''publication invalidating finding candidate identity is invalid'' [])
      else validateParentFixDeclaration (pif_Origin f) (pif_Cause f))"

definition LoadPublicationInvalidatingFinding :: "PublicationInvalidatingFinding sop" where
  "LoadPublicationInvalidatingFinding = bindE (ReadFile publicationInvalidatingFindingStateFile) (\<lambda>content. case content of
       Doc (FindingD f) \<Rightarrow> thenE (check (validatePublicationInvalidatingFinding f)) (returnE f)
     | _ \<Rightarrow> throwE (Errorf ''publication invalidating finding cannot be read'' []))"

definition publicationInvalidatingFindingTarget ::
    "go_runtime \<Rightarrow> publicationInvalidatingFindingTarget_t sop" where
  "publicationInvalidatingFindingTarget rt = bindE get_TaskStatus (\<lambda>status.
     if status \<noteq> TaskStatusAwaitingParentCompletion
     then bindE get_TaskStatus (\<lambda>again. throwE (Errorf ''publication invalidating finding requires awaiting-parent-completion'' [again]))
     else bindE CurrentParentCompletionOutcome (\<lambda>completion.
       if (case completion of None \<Rightarrow> True | Some o' \<Rightarrow> pco_Terminal o' \<noteq> SessionRotationTerminalAccept)
       then throwE (Errorf ''publication invalidating finding requires an accepted parent completion outcome'' [])
       else bindE (wrapE ''publication invalidating finding requires current publication candidate'' (LoadPublicationCandidate rt)) (\<lambda>candidate.
         bindE TaskID (\<lambda>taskID.
           if pc_TaskID candidate \<noteq> taskID
           then throwE (Errorf ''publication invalidating finding candidate task does not match current task'' [pc_TaskID candidate, taskID])
           else returnE \<lparr>ft_taskID = taskID, ft_candidate = candidate\<rparr>))))"

definition reusablePublicationInvalidatingFinding ::
    "publicationInvalidatingFindingTarget_t \<Rightarrow> string \<Rightarrow> string \<Rightarrow> PublicationInvalidatingFinding option sop" where
  "reusablePublicationInvalidatingFinding target origin cause = bindE (attempt LoadPublicationInvalidatingFinding) (\<lambda>r. case r of
       Inl e \<Rightarrow> if is_not_exist e then returnE None else throwE e
     | Inr f \<Rightarrow>
         if pif_TaskID f = ft_taskID target \<and> pif_Disposition f = PublicationFindingCorrectnessDefect \<and>
            pif_CandidateCommitOID f = pc_CommitOID (ft_candidate target) \<and>
            pif_CandidateSnapshotID f = pc_SnapshotID (ft_candidate target) \<and> pif_Origin f = origin \<and> pif_Cause f = cause
         then returnE (Some f)
         else throwE (Errorf ''a different publication invalidating finding is already recorded'' []))"

definition writePublicationInvalidatingFinding ::
    "8 word list \<Rightarrow> publicationInvalidatingFindingTarget_t \<Rightarrow> string \<Rightarrow> string \<Rightarrow> PublicationInvalidatingFinding sop" where
  "writePublicationInvalidatingFinding random target origin cause =
     (let finding = \<lparr>pif_Version = publicationInvalidatingFindingVersion, pif_TaskID = ft_taskID target,
            pif_FindingID = NewUUID random, pif_Disposition = PublicationFindingCorrectnessDefect,
            pif_CandidateCommitOID = pc_CommitOID (ft_candidate target),
            pif_CandidateSnapshotID = pc_SnapshotID (ft_candidate target), pif_Origin = origin, pif_Cause = cause\<rparr> in
      thenE (check (validatePublicationInvalidatingFinding finding))
        (thenE (wrapE ''state write'' (writeFileAtomic publicationInvalidatingFindingStateFile (Doc (FindingD finding))))
          (returnE finding)))"

definition RecordPublicationInvalidatingFinding ::
    "go_runtime \<Rightarrow> 8 word list \<Rightarrow> string \<Rightarrow> string \<Rightarrow> PublicationInvalidatingFinding sop" where
  "RecordPublicationInvalidatingFinding rt random origin cause =
     thenE (check (validateParentFixDeclaration origin cause)) (bindE (publicationInvalidatingFindingTarget rt) (\<lambda>target.
       bindE (reusablePublicationInvalidatingFinding target origin cause) (\<lambda>r. case r of
         Some existing \<Rightarrow> returnE existing
       | None \<Rightarrow> writePublicationInvalidatingFinding random target origin cause)))"

definition CurrentPublicationInvalidatingFinding :: "go_runtime \<Rightarrow> PublicationInvalidatingFinding option sop" where
  "CurrentPublicationInvalidatingFinding rt = bindE (attempt LoadPublicationInvalidatingFinding) (\<lambda>r. case r of
       Inl e \<Rightarrow> if is_not_exist e then returnE None else throwE e
     | Inr f \<Rightarrow> bindE TaskID (\<lambda>taskID.
         if pif_TaskID f \<noteq> taskID
         then throwE (Errorf ''publication invalidating finding task does not match current task'' [pif_TaskID f, taskID])
         else bindE (wrapE ''publication invalidating finding candidate is unavailable'' (LoadPublicationCandidate rt)) (\<lambda>candidate.
           if pc_TaskID candidate \<noteq> taskID \<or> pif_CandidateCommitOID f \<noteq> pc_CommitOID candidate \<or>
              pif_CandidateSnapshotID f \<noteq> pc_SnapshotID candidate
           then throwE (Errorf ''publication invalidating finding is stale or unrelated to the current publication candidate'' [])
           else returnE (Some f))))"

definition ClearPublicationInvalidatingFinding :: "unit sop" where
  "ClearPublicationInvalidatingFinding = Remove [publicationInvalidatingFindingStateFile]"

section \<open>The records as stored documents\<close>

text \<open>No validator reports a missing file.\<close>

lemma fix_declaration_present: "validateParentFixDeclaration origin cause = Some e \<Longrightarrow> \<not> is_not_exist e"
  by (auto simp: validateParentFixDeclaration_def split: if_splits)

lemma candidate_error_present: "validatePublicationCandidate rt c = Some e \<Longrightarrow> \<not> is_not_exist e"
  by (auto simp: validatePublicationCandidate_def validatePublicationCandidateIdentity_def
      validatePublicationCandidateSnapshot_def Let_def split: if_splits option.splits)

interpretation candidate: stored_document publicationCandidateStateFile CandidateD "validatePublicationCandidate rt" "LoadPublicationCandidate rt" for rt
proof (rule loader_contract)
  let ?decode = "\<lambda>c. case c of Doc (CandidateD x) \<Rightarrow> Some x | _ \<Rightarrow> None"
  show "LoadPublicationCandidate rt = bindE (ReadFile publicationCandidateStateFile) (\<lambda>c. case ?decode c of
      None \<Rightarrow> throwE (Errorf ''publication candidate is unreadable'' [])
    | Some x \<Rightarrow> thenE (check (validatePublicationCandidate rt x)) (returnE x))"
    unfolding LoadPublicationCandidate_def
    by (rule arg_cong [where f = "bindE _"]) (auto simp: fun_eq_iff split: content.split doc.split)
  show "?decode c = Some x \<longleftrightarrow> c = Doc (CandidateD x)" for c x by (auto split: content.splits doc.splits)
qed (auto simp: publicationCandidateStateFile_def currentStatsFile_def
    candidate_error_present split: if_splits option.splits)

interpretation lineage: stored_document publicationReopenLineageStateFile LineageD validatePublicationReopenLineage LoadPublicationReopenLineage
proof (rule loader_contract)
  let ?decode = "\<lambda>c. case c of Doc (LineageD x) \<Rightarrow> Some x | _ \<Rightarrow> None"
  show "LoadPublicationReopenLineage = bindE (ReadFile publicationReopenLineageStateFile) (\<lambda>c. case ?decode c of
      None \<Rightarrow> throwE (Errorf ''publication reopen lineage is unreadable'' [])
    | Some x \<Rightarrow> thenE (check (validatePublicationReopenLineage x)) (returnE x))"
    unfolding LoadPublicationReopenLineage_def
    by (rule arg_cong [where f = "bindE _"]) (auto simp: fun_eq_iff split: content.split doc.split)
  show "?decode c = Some x \<longleftrightarrow> c = Doc (LineageD x)" for c x by (auto split: content.splits doc.splits)
qed (auto simp: publicationReopenLineageStateFile_def currentStatsFile_def
    validatePublicationReopenLineage_def split: if_splits option.splits)

interpretation install: stored_document runtimeInstallEvidenceFile InstallD validateRuntimeInstallEvidence LoadRuntimeInstallEvidence
proof (rule loader_contract)
  let ?decode = "\<lambda>c. case c of Doc (InstallD x) \<Rightarrow> Some x | _ \<Rightarrow> None"
  show "LoadRuntimeInstallEvidence = bindE (ReadFile runtimeInstallEvidenceFile) (\<lambda>c. case ?decode c of
      None \<Rightarrow> throwE (Errorf ''runtime install evidence is unreadable'' [])
    | Some x \<Rightarrow> thenE (check (validateRuntimeInstallEvidence x)) (returnE x))"
    unfolding LoadRuntimeInstallEvidence_def
    by (rule arg_cong [where f = "bindE _"]) (auto simp: fun_eq_iff split: content.split doc.split)
  show "?decode c = Some x \<longleftrightarrow> c = Doc (InstallD x)" for c x by (auto split: content.splits doc.splits)
qed (auto simp: runtimeInstallEvidenceFile_def currentStatsFile_def
    validateRuntimeInstallEvidence_def split: if_splits option.splits)

interpretation finding: stored_document publicationInvalidatingFindingStateFile FindingD validatePublicationInvalidatingFinding LoadPublicationInvalidatingFinding
proof (rule loader_contract)
  let ?decode = "\<lambda>c. case c of Doc (FindingD x) \<Rightarrow> Some x | _ \<Rightarrow> None"
  show "LoadPublicationInvalidatingFinding = bindE (ReadFile publicationInvalidatingFindingStateFile) (\<lambda>c. case ?decode c of
      None \<Rightarrow> throwE (Errorf ''publication invalidating finding cannot be read'' [])
    | Some x \<Rightarrow> thenE (check (validatePublicationInvalidatingFinding x)) (returnE x))"
    unfolding LoadPublicationInvalidatingFinding_def
    by (rule arg_cong [where f = "bindE _"]) (auto simp: fun_eq_iff split: content.split doc.split)
  show "?decode c = Some x \<longleftrightarrow> c = Doc (FindingD x)" for c x by (auto split: content.splits doc.splits)
qed (auto simp: publicationInvalidatingFindingStateFile_def currentStatsFile_def
    validatePublicationInvalidatingFinding_def fix_declaration_present split: if_splits option.splits)

section \<open>A finding invalidates the current candidate\<close>

lemma publication_names [simp]:
  "publicationCandidateStateFile \<noteq> currentStatsFile" "publicationReopenLineageStateFile \<noteq> currentStatsFile"
  "runtimeInstallEvidenceFile \<noteq> currentStatsFile" "publicationInvalidatingFindingStateFile \<noteq> currentStatsFile"
  by (rule candidate.name_not_stats lineage.name_not_stats install.name_not_stats finding.name_not_stats)+

lemma publication_apart [simp]:
  "publicationCandidateStateFile \<noteq> publicationReopenLineageStateFile" "publicationCandidateStateFile \<noteq> runtimeInstallEvidenceFile"
  "publicationCandidateStateFile \<noteq> publicationInvalidatingFindingStateFile" "publicationCandidateStateFile \<noteq> parentReviewStateFile"
  "publicationCandidateStateFile \<noteq> ''task.status''" "publicationCandidateStateFile \<noteq> ''task.id''"
  "publicationReopenLineageStateFile \<noteq> publicationCandidateStateFile" "publicationReopenLineageStateFile \<noteq> runtimeInstallEvidenceFile"
  "publicationReopenLineageStateFile \<noteq> publicationInvalidatingFindingStateFile" "publicationReopenLineageStateFile \<noteq> parentReviewStateFile"
  "publicationReopenLineageStateFile \<noteq> ''task.status''" "publicationReopenLineageStateFile \<noteq> ''task.id''"
  "runtimeInstallEvidenceFile \<noteq> publicationCandidateStateFile" "runtimeInstallEvidenceFile \<noteq> publicationReopenLineageStateFile"
  "runtimeInstallEvidenceFile \<noteq> publicationInvalidatingFindingStateFile" "runtimeInstallEvidenceFile \<noteq> parentReviewStateFile"
  "runtimeInstallEvidenceFile \<noteq> ''task.status''" "runtimeInstallEvidenceFile \<noteq> ''task.id''"
  "publicationInvalidatingFindingStateFile \<noteq> publicationCandidateStateFile" "publicationInvalidatingFindingStateFile \<noteq> publicationReopenLineageStateFile"
  "publicationInvalidatingFindingStateFile \<noteq> runtimeInstallEvidenceFile" "publicationInvalidatingFindingStateFile \<noteq> parentReviewStateFile"
  "publicationInvalidatingFindingStateFile \<noteq> ''task.status''" "publicationInvalidatingFindingStateFile \<noteq> ''task.id''"
  "parentReviewStateFile \<noteq> publicationCandidateStateFile" "parentReviewStateFile \<noteq> publicationReopenLineageStateFile"
  "parentReviewStateFile \<noteq> runtimeInstallEvidenceFile" "parentReviewStateFile \<noteq> publicationInvalidatingFindingStateFile"
  "parentReviewStateFile \<noteq> ''task.status''" "parentReviewStateFile \<noteq> ''task.id''"
  "''task.status'' \<noteq> publicationCandidateStateFile" "''task.status'' \<noteq> publicationReopenLineageStateFile"
  "''task.status'' \<noteq> runtimeInstallEvidenceFile" "''task.status'' \<noteq> publicationInvalidatingFindingStateFile"
  "''task.status'' \<noteq> parentReviewStateFile" "''task.id'' \<noteq> publicationCandidateStateFile"
  "''task.id'' \<noteq> publicationReopenLineageStateFile" "''task.id'' \<noteq> runtimeInstallEvidenceFile"
  "''task.id'' \<noteq> publicationInvalidatingFindingStateFile" "''task.id'' \<noteq> parentReviewStateFile"
  by (simp_all add: publicationCandidateStateFile_def publicationReopenLineageStateFile_def runtimeInstallEvidenceFile_def
      publicationInvalidatingFindingStateFile_def parentReviewStateFile_def)

text \<open>\<open>accepted F\<close>: the review of the task ended with an acceptance.\<close>

definition accepted :: "filemap \<Rightarrow> ParentCompletionOutcome \<Rightarrow> bool" where
  "accepted F o' \<longleftrightarrow> (\<exists>s. F parentReviewStateFile = Some (Doc (ReviewD s)) \<and> prs_Completion s = Some o' \<and>
     pco_Terminal o' = SessionRotationTerminalAccept)"

definition candidate_of :: "go_runtime \<Rightarrow> filemap \<Rightarrow> PublicationCandidate \<Rightarrow> bool" where
  "candidate_of rt F c \<longleftrightarrow> F publicationCandidateStateFile = Some (Doc (CandidateD c)) \<and>
     validatePublicationCandidate rt c = None \<and> pc_TaskID c = task_of F"

definition names :: "filemap \<Rightarrow> PublicationCandidate \<Rightarrow> PublicationInvalidatingFinding \<Rightarrow> bool" where
  "names F c f \<longleftrightarrow> pif_TaskID f = task_of F \<and> pif_CandidateCommitOID f = pc_CommitOID c \<and>
     pif_CandidateSnapshotID f = pc_SnapshotID c \<and> validatePublicationInvalidatingFinding f = None"

lemma completion_accepted:
  "triple (state_is F) CurrentParentCompletionOutcome
     (\<lambda>v st. (\<forall>o'. v = Some o' \<and> pco_Terminal o' = SessionRotationTerminalAccept \<longrightarrow> accepted F o') \<and> state_is F st) (\<lambda>_. state_is F)"
  unfolding CurrentParentCompletionOutcome_def
  by (rule triple_bind [OF loadParentReviewState_clean], rule triple_assume, rule triple_return) (auto simp: accepted_def)

lemma finding_target_triple:
  "triple (state_is F) (publicationInvalidatingFindingTarget rt)
     (\<lambda>t st. (status_of F = TaskStatusAwaitingParentCompletion \<and> (\<exists>o'. accepted F o') \<and> candidate_of rt F (ft_candidate t) \<and>
        ft_taskID t = task_of F) \<and> state_is F st) (\<lambda>_. state_is F)"
  unfolding publicationInvalidatingFindingTarget_def
proof (rule triple_bind [OF get_TaskStatus_status [of TaskStatusAwaitingParentCompletion]], simp add: task_status_defs, rule triple_assume)
  fix status assume status: "status = TaskStatusAwaitingParentCompletion \<longrightarrow> status_of F = TaskStatusAwaitingParentCompletion"
  have wait: "triple (state_is F) (bindE get_TaskStatus (\<lambda>again. throwE (Errorf ''publication invalidating finding requires awaiting-parent-completion'' [again])))
      Q (\<lambda>_. state_is F)" for Q :: "publicationInvalidatingFindingTarget_t \<Rightarrow> store \<Rightarrow> bool"
    by (rule triple_bind [OF get_TaskStatus_clean], rule triple_throw)
  have target: "triple (state_is F) (bindE TaskID (\<lambda>taskID.
           if pc_TaskID c \<noteq> taskID
           then throwE (Errorf ''publication invalidating finding candidate task does not match current task'' [pc_TaskID c, taskID])
           else returnE \<lparr>ft_taskID = taskID, ft_candidate = c\<rparr>))
      (\<lambda>t st. (candidate_of rt F (ft_candidate t) \<and> ft_taskID t = task_of F) \<and> state_is F st) (\<lambda>_. state_is F)"
    if "F publicationCandidateStateFile = Some (Doc (CandidateD c)) \<and> validatePublicationCandidate rt c = None" for c
    by (rule triple_bind [OF TaskID_task], rule triple_assume, rule triple_if, rule triple_throw, assumption, rule triple_return)
      (use that in \<open>auto simp: candidate_of_def\<close>)
  have completed: "triple (state_is F) (bindE (wrapE m (LoadPublicationCandidate rt)) (\<lambda>candidate.
         bindE TaskID (\<lambda>taskID.
           if pc_TaskID candidate \<noteq> taskID
           then throwE (Errorf ''publication invalidating finding candidate task does not match current task'' [pc_TaskID candidate, taskID])
           else returnE \<lparr>ft_taskID = taskID, ft_candidate = candidate\<rparr>)))
      (\<lambda>t st. (candidate_of rt F (ft_candidate t) \<and> ft_taskID t = task_of F) \<and> state_is F st) (\<lambda>_. state_is F)" for m
    by (rule triple_bind [OF triple_wrap [OF candidate.load_clean]], rule triple_assume, rule target)
  show "triple (state_is F) (if status \<noteq> TaskStatusAwaitingParentCompletion
     then bindE get_TaskStatus (\<lambda>again. throwE (Errorf ''publication invalidating finding requires awaiting-parent-completion'' [again]))
     else bindE CurrentParentCompletionOutcome (\<lambda>completion.
       if (case completion of None \<Rightarrow> True | Some o' \<Rightarrow> pco_Terminal o' \<noteq> SessionRotationTerminalAccept)
       then throwE (Errorf ''publication invalidating finding requires an accepted parent completion outcome'' [])
       else bindE (wrapE ''publication invalidating finding requires current publication candidate'' (LoadPublicationCandidate rt)) (\<lambda>candidate.
         bindE TaskID (\<lambda>taskID.
           if pc_TaskID candidate \<noteq> taskID
           then throwE (Errorf ''publication invalidating finding candidate task does not match current task'' [pc_TaskID candidate, taskID])
           else returnE \<lparr>ft_taskID = taskID, ft_candidate = candidate\<rparr>))))
     (\<lambda>t st. (status_of F = TaskStatusAwaitingParentCompletion \<and> (\<exists>o'. accepted F o') \<and> candidate_of rt F (ft_candidate t) \<and>
        ft_taskID t = task_of F) \<and> state_is F st) (\<lambda>_. state_is F)"
    by (rule triple_if, rule wait, rule triple_bind [OF completion_accepted], rule triple_assume, rule triple_if, rule triple_throw,
        assumption, rule triple_weaken [OF completed]) (use status in \<open>auto split: option.splits\<close>)
qed

definition invalidated :: "go_runtime \<Rightarrow> filemap \<Rightarrow> string \<Rightarrow> string \<Rightarrow> PublicationInvalidatingFinding \<Rightarrow> bool" where
  "invalidated rt F origin cause f \<longleftrightarrow> status_of F = TaskStatusAwaitingParentCompletion \<and> (\<exists>o'. accepted F o') \<and>
     (\<exists>c. candidate_of rt F c \<and> names F c f) \<and> pif_Origin f = origin \<and> pif_Cause f = cause"

lemma reusable_triple:
  assumes "candidate_of rt F (ft_candidate t)" "ft_taskID t = task_of F"
  shows "triple (state_is F) (reusablePublicationInvalidatingFinding t origin cause)
     (\<lambda>v st. (\<forall>f. v = Some f \<longrightarrow> F publicationInvalidatingFindingStateFile = Some (Doc (FindingD f)) \<and> names F (ft_candidate t) f \<and>
        pif_Origin f = origin \<and> pif_Cause f = cause) \<and> state_is F st) (\<lambda>_. state_is F)"
  unfolding reusablePublicationInvalidatingFinding_def
  by (rule triple_bind [OF finding.attempt_load], rule triple_assume)
    (use assms in \<open>auto intro!: triple_return triple_throw simp: names_def split: sum.splits\<close>)

lemma write_finding_triple:
  assumes "ft_taskID t = task_of F"
  shows "triple (state_is F) (writePublicationInvalidatingFinding random t origin cause)
     (\<lambda>f st. (names F (ft_candidate t) f \<and> pif_Origin f = origin \<and> pif_Cause f = cause) \<and>
        state_is (F(publicationInvalidatingFindingStateFile \<mapsto> Doc (FindingD f))) st) (\<lambda>_. state_is F)"
  unfolding writePublicationInvalidatingFinding_def Let_def
  by (rule triple_then [OF check_checked], rule triple_assume, rule triple_then [OF triple_wrap [OF writeFileAtomic_clean]],
      rule triple_return) (use assms in \<open>simp add: names_def\<close>)

lemma RecordPublicationInvalidatingFinding_triple:
  "triple (state_is F) (RecordPublicationInvalidatingFinding rt random origin cause)
     (\<lambda>f st. invalidated rt F origin cause f \<and> state_is (F(publicationInvalidatingFindingStateFile \<mapsto> Doc (FindingD f))) st)
     (\<lambda>_. state_is F)"
  unfolding RecordPublicationInvalidatingFinding_def
proof (rule triple_then [OF check_checked], rule triple_assume, rule triple_bind [OF finding_target_triple], rule triple_assume)
  fix t :: publicationInvalidatingFindingTarget_t
  assume t: "status_of F = TaskStatusAwaitingParentCompletion \<and> (\<exists>o'. accepted F o') \<and> candidate_of rt F (ft_candidate t) \<and> ft_taskID t = task_of F"
  then have done': "invalidated rt F origin cause f" if "names F (ft_candidate t) f \<and> pif_Origin f = origin \<and> pif_Cause f = cause" for f
    using that by (auto simp: invalidated_def)
  have again: "F(n \<mapsto> v) = F" if "F n = Some v" for n v using that by (auto simp: fun_eq_iff)
  have reuse: "triple (state_is F) (reusablePublicationInvalidatingFinding t origin cause)
     (\<lambda>v st. (\<forall>f. v = Some f \<longrightarrow> F publicationInvalidatingFindingStateFile = Some (Doc (FindingD f)) \<and> names F (ft_candidate t) f \<and>
        pif_Origin f = origin \<and> pif_Cause f = cause) \<and> state_is F st) (\<lambda>_. state_is F)"
    using t by (intro reusable_triple) auto
  have new: "triple (state_is F) (writePublicationInvalidatingFinding random t origin cause)
     (\<lambda>f st. invalidated rt F origin cause f \<and> state_is (F(publicationInvalidatingFindingStateFile \<mapsto> Doc (FindingD f))) st)
     (\<lambda>_. state_is F)"
    by (rule triple_weaken [OF write_finding_triple]) (use t done' in auto)
  show "triple (state_is F) (bindE (reusablePublicationInvalidatingFinding t origin cause) (\<lambda>r. case r of
         Some existing \<Rightarrow> returnE existing
       | None \<Rightarrow> writePublicationInvalidatingFinding random t origin cause))
     (\<lambda>f st. invalidated rt F origin cause f \<and> state_is (F(publicationInvalidatingFindingStateFile \<mapsto> Doc (FindingD f))) st)
     (\<lambda>_. state_is F)"
    by (rule triple_bind [OF reuse], rule triple_assume, rule triple_option, rule new, rule triple_return)
      (use done' again in auto)
qed

lemma no_empty_uuid: "\<not> ValidGeneratedUUID []"
  by code_simp

lemma CurrentPublicationInvalidatingFinding_runs:
  assumes "F publicationInvalidatingFindingStateFile = Some (Doc (FindingD f))" "names F c f" "candidate_of rt F c"
    and "F ''task.id'' \<notin> {None, Some Directory}" "task_of F \<noteq> []"
  shows "triple (calm F) (CurrentPublicationInvalidatingFinding rt) (\<lambda>v st. v = Some f \<and> calm F st) never"
proof -
  obtain t where t: "F ''task.id'' = Some t" "t \<noteq> Directory" using assms(4) by auto
  have task: "triple (calm F) TaskID (\<lambda>v st. v = task_of F \<and> calm F st) never"
    by (rule TaskID_runs [of F t, OF t]) (use assms(5) in \<open>simp_all add: task_of_def t\<close>)
  have cand: "triple (calm F) (LoadPublicationCandidate rt) (\<lambda>v st. v = c \<and> calm F st) never"
    using assms(3) by (intro candidate.load_runs) (auto simp: candidate_of_def)
  have "triple (calm F) (attempt LoadPublicationInvalidatingFinding) (\<lambda>v st. v = Inr f \<and> calm F st) never"
    by (rule triple_weaken [OF finding.attempt_load_runs]) (use assms(1,2) in \<open>auto simp: names_def\<close>)
  then show ?thesis
    unfolding CurrentPublicationInvalidatingFinding_def
    by (rule triple_bind, intro triple_assume, clarsimp, intro triple_bind [OF task] triple_assume, clarsimp)
      (use assms(2,3) in \<open>auto simp: names_def candidate_of_def intro!: triple_bind [OF triple_wrap [OF cand]] triple_assume triple_return\<close>)
qed

text \<open>
  A finding always invalidates the candidate it names: recording one succeeds only for a task that
  awaits its completion after an acceptance; the finding names the task and the commit and snapshot
  of the valid candidate of that task, it is stored and nothing else changes, and as long as the
  files stay and no access fails \<open>CurrentPublicationInvalidatingFinding\<close> returns it. A recording that
  fails changes nothing.
\<close>

theorem finding_invalidates_candidate:
  assumes "RecordPublicationInvalidatingFinding rt random origin cause st = (res, st')"
  shows "case res of
      Inl _ \<Rightarrow> \<forall>n. n \<noteq> currentStatsFile \<longrightarrow> files st' n = files st n
    | Inr f \<Rightarrow> status_of (files st) = TaskStatusAwaitingParentCompletion \<and> (\<exists>o'. accepted (files st) o') \<and>
        (\<exists>c. candidate_of rt (files st) c \<and> pif_TaskID f = pc_TaskID c \<and> pif_CandidateCommitOID f = pc_CommitOID c \<and>
          pif_CandidateSnapshotID f = pc_SnapshotID c) \<and> pif_Origin f = origin \<and> pif_Cause f = cause \<and>
        (\<forall>n. n \<noteq> currentStatsFile \<longrightarrow> files st' n =
          (if n = publicationInvalidatingFindingStateFile then Some (Doc (FindingD f)) else files st n)) \<and>
        (\<forall>s. files s = files st' \<and> (\<forall>n. \<not> fault s n) \<longrightarrow> fst (CurrentPublicationInvalidatingFinding rt s) = Inr (Some f))"
proof (cases res)
  case (Inl e)
  from triple_InlD [OF RecordPublicationInvalidatingFinding_triple state_is_self assms [unfolded Inl]] show ?thesis
    by (simp add: Inl state_is_def)
next
  case (Inr f)
  from triple_InrD [OF RecordPublicationInvalidatingFinding_triple state_is_self assms [unfolded Inr]]
  have inv: "invalidated rt (files st) origin cause f"
    and st': "state_is ((files st)(publicationInvalidatingFindingStateFile \<mapsto> Doc (FindingD f))) st'" by auto
  then obtain c where c: "candidate_of rt (files st) c" "names (files st) c f" by (auto simp: invalidated_def)
  let ?G = "files st'"
  have G: "?G ''task.id'' = files st ''task.id''" "?G publicationCandidateStateFile = files st publicationCandidateStateFile"
      "?G publicationInvalidatingFindingStateFile = Some (Doc (FindingD f))"
    using st' by (auto simp: state_is_def)
  have uuid: "ValidGeneratedUUID (pc_TaskID c)"
    using c(1) by (auto simp: candidate_of_def validatePublicationCandidate_def validatePublicationCandidateIdentity_def
        split: option.splits if_splits)
  have "task_of (files st) \<noteq> []"
    using uuid c(1) no_empty_uuid by (auto simp: candidate_of_def)
  then have task: "?G ''task.id'' \<notin> {None, Some Directory}" "task_of ?G \<noteq> []"
    using G(1) by (auto simp: task_of_def split: option.splits)
  have "candidate_of rt ?G c" "names ?G c f" using c G by (auto simp: candidate_of_def names_def task_of_def)
  note current = CurrentPublicationInvalidatingFinding_runs [OF G(3) this(2,1) task]
  have "fst (CurrentPublicationInvalidatingFinding rt s) = Inr (Some f)" if "files s = ?G" "\<forall>n. \<not> fault s n" for s
    using calm_returns [OF current, of s] that by (auto simp: calm_def state_is_self [of s, simplified that(1)])
  moreover have "pif_TaskID f = pc_TaskID c \<and> pif_CandidateCommitOID f = pc_CommitOID c \<and> pif_CandidateSnapshotID f = pc_SnapshotID c"
    using c by (simp add: candidate_of_def names_def)
  ultimately show ?thesis using inv st' c(1) by (auto simp: Inr invalidated_def state_is_def)
qed

text \<open>A store with an accepted task, its publication candidate and its task authority.\<close>

definition sample_candidate :: PublicationCandidate where
  "sample_candidate = \<lparr>pc_Version = 1, pc_TaskID = ''123e4567-e89b-42d3-a456-426614174000'',
     pc_BaseHead = replicate 40 CHR ''a'', pc_CommitOID = replicate 40 CHR ''b'', pc_TreeOID = replicate 40 CHR ''c'',
     pc_MessageDigest = replicate 64 CHR ''d'',
     pc_Snapshot = \<lparr>sd_Head = replicate 40 CHR ''a'', sd_IndexDigest = ''i'', sd_WorktreeDigest = ''w'', sd_WorktreeDigestExcludingParent = []\<rparr>,
     pc_SnapshotID = replicate 64 CHR ''0'', pc_PreparedAt = 5\<rparr>"

definition accepted_review :: ParentReviewState where
  "accepted_review = \<lparr>prs_Version = parentReviewStateVersion, prs_TaskID = ''123e4567-e89b-42d3-a456-426614174000'',
     prs_Open = None, prs_Review = None,
     prs_Completion = Some \<lparr>pco_Terminal = SessionRotationTerminalAccept, pco_Risk = RiskHigh, pco_Source = None, pco_Review = None\<rparr>\<rparr>"

definition accepted_store :: "(nat \<Rightarrow> bool) \<Rightarrow> store" where
  "accepted_store faults = \<lparr>files = [''task.id'' \<mapsto> Text ''123e4567-e89b-42d3-a456-426614174000'',
       ''task.status'' \<mapsto> Text ''awaiting-parent-completion'', ''parent-review-state.json'' \<mapsto> Doc (ReviewD accepted_review),
       ''publication-candidate.json'' \<mapsto> Doc (CandidateD sample_candidate),
       ''task-authority/123e4567-e89b-42d3-a456-426614174000/active-task.path'' \<mapsto> Text ''tasks/a.md''],
     listing = [], access = 0, fault = faults, now = 7, lifecycle_log = [], outcome_log = []\<rparr>"

definition record_finding :: "PublicationInvalidatingFinding sop" where
  "record_finding = RecordPublicationInvalidatingFinding sample_runtime (replicate 16 0) ''codex-review'' ''worker''"

theorem finding_invalidates_candidate_witness:
  "\<exists>f st'. record_finding (accepted_store (\<lambda>_. False)) = (Inr f, st') \<and> pif_Cause f = ''worker'' \<and>
     (\<exists>c. candidate_of sample_runtime (files (accepted_store (\<lambda>_. False))) c \<and> pif_CandidateCommitOID f = pc_CommitOID c) \<and>
     files st' publicationInvalidatingFindingStateFile = Some (Doc (FindingD f))"
proof -
  have "case fst (record_finding (accepted_store (\<lambda>_. False))) of Inl _ \<Rightarrow> False | Inr _ \<Rightarrow> True" by code_simp
  then obtain f st' where run: "record_finding (accepted_store (\<lambda>_. False)) = (Inr f, st')"
    by (cases "record_finding (accepted_store (\<lambda>_. False))") (auto split: sum.splits)
  from finding_invalidates_candidate [OF run [unfolded record_finding_def]] run show ?thesis by auto
qed

end
