(* ===== verification/Parent_Reopen.thy ===== *)
theory Parent_Reopen
  imports Publication
begin

text \<open>
  Reopening an accepted task whose publication candidate has been invalidated
  (\<^verbatim>\<open>parent_reopen.go\<close>, \<^verbatim>\<open>parent_reopen_transaction.go\<close>). The transition changes six files; before the
  first change their contents go into a transaction record, and a transition that failed or was
  interrupted is undone from it. The theorems show that after any run, with any accesses failing from
  any point on, the directory is unchanged, completely reopened or holds the record, and that
  recovery from the record restores everything and returns when no access fails.
\<close>

section \<open>The transaction record\<close>

definition parentReopenTransactionVersion :: int where "parentReopenTransactionVersion = 1"

record parentReopenTransactionRecord =
  rtr_Version :: int
  rtr_TaskID :: string
  rtr_SourceStatus :: TaskStatus
  rtr_Snapshots :: "(string \<times> bool \<times> doc content) list"

definition reopen_document :: "parentReopenTransactionRecord \<Rightarrow> doc content" where
  "reopen_document r = Doc (ReopenD (rtr_Version r) (rtr_TaskID r) (rtr_SourceStatus r) (rtr_Snapshots r))"

definition parentReopenSnapshotStateFiles :: "string list" where
  "parentReopenSnapshotStateFiles = [parentReviewStateFile, ''task.status'', publicationCandidateStateFile,
     runtimeInstallEvidenceFile, publicationReopenLineageStateFile, publicationInvalidatingFindingStateFile]"

fun snapshots_error :: "(string \<times> bool \<times> doc content) list \<Rightarrow> string list \<Rightarrow> state_error option" where
  "snapshots_error ((name, exists, data) # ss) (expected # es) =
     (if name \<noteq> expected then Some (Errorf ''parent reopen transaction snapshot has an unexpected name'' [name, expected])
      else if \<not> exists \<and> data \<noteq> Text []
      then Some (Errorf ''parent reopen transaction snapshot has data for a missing state file'' [name])
      else snapshots_error ss es)"
| "snapshots_error _ _ = None"

definition validateParentReopenTransactionRecord :: "parentReopenTransactionRecord \<Rightarrow> state_error option" where
  "validateParentReopenTransactionRecord r =
     (if rtr_Version r \<noteq> parentReopenTransactionVersion
      then Some (Errorf ''unsupported parent reopen transaction version'' [itoa (rtr_Version r)])
      else if rtr_TaskID r = [] then Some (Errorf ''parent reopen transaction has no task identity'' [])
      else if rtr_SourceStatus r \<noteq> TaskStatusAwaitingParentCompletion
      then Some (Errorf ''parent reopen transaction has invalid source status'' [rtr_SourceStatus r])
      else if length (rtr_Snapshots r) \<noteq> length parentReopenSnapshotStateFiles
      then Some (Errorf ''parent reopen transaction has a wrong number of snapshots'' [])
      else case snapshots_error (rtr_Snapshots r) parentReopenSnapshotStateFiles of
        Some e \<Rightarrow> Some e
      | None \<Rightarrow> (case rtr_Snapshots r ! 1 of (name, exists, data) \<Rightarrow>
          if \<not> exists \<or> trim_space (text_of data) \<noteq> rtr_SourceStatus r
          then Some (Errorf ''parent reopen transaction task status snapshot does not match source status'' [rtr_SourceStatus r])
          else None))"

definition reopen_record :: "string \<Rightarrow> lifecycleFileSnapshot list \<Rightarrow> parentReopenTransactionRecord" where
  "reopen_record taskID snapshots = \<lparr>rtr_Version = parentReopenTransactionVersion, rtr_TaskID = taskID,
     rtr_SourceStatus = TaskStatusAwaitingParentCompletion,
     rtr_Snapshots = map (\<lambda>s. (ls_name s, ls_exists s, ls_data s)) snapshots\<rparr>"

definition saveParentReopenTransaction :: "lifecycleFileSnapshot list \<Rightarrow> unit sop" where
  "saveParentReopenTransaction snapshots = bindE (Exists parentReopenTransactionStateFile) (\<lambda>pending.
     if pending then throwE (Errorf ''parent reopen transition is already pending'' [])
     else bindE TaskID (\<lambda>taskID. let r = reopen_record taskID snapshots in
       thenE (check (validateParentReopenTransactionRecord r))
         (wrapE ''parent reopen transaction record write'' (writeFileAtomic parentReopenTransactionStateFile (reopen_document r)))))"

definition loadParentReopenTransaction :: "parentReopenTransactionRecord sop" where
  "loadParentReopenTransaction = bindE (attempt (ReadFile parentReopenTransactionStateFile)) (\<lambda>res. case res of
       Inl e \<Rightarrow> if is_not_exist e then throwE NoParentReopenTransaction else throwE e
     | Inr (Doc (ReopenD v t s snapshots)) \<Rightarrow>
         let r = \<lparr>rtr_Version = v, rtr_TaskID = t, rtr_SourceStatus = s, rtr_Snapshots = snapshots\<rparr> in
         thenE (check (validateParentReopenTransactionRecord r)) (returnE r)
     | Inr _ \<Rightarrow> throwE (Errorf ''parent reopen transaction record is unreadable'' []))"

section \<open>The transition\<close>

definition reopenableParentCompletion ::
    "go_runtime \<Rightarrow> (ParentCompletionOutcome \<times> PublicationInvalidatingFinding) sop" where
  "reopenableParentCompletion rt = bindE get_TaskStatus (\<lambda>status.
     if status \<noteq> TaskStatusAwaitingParentCompletion
     then refuse_status ''reopen requires awaiting-parent-completion''
     else bindE CurrentParentCompletionOutcome (\<lambda>completion. case completion of
         Some o' \<Rightarrow>
           if pco_Terminal o' \<noteq> SessionRotationTerminalAccept
           then throwE (Errorf ''reopen requires an accepted parent completion outcome to invalidate'' [])
           else bindE (CurrentPublicationInvalidatingFinding rt) (\<lambda>finding. case finding of
               None \<Rightarrow> throwE (Errorf ''reopen requires a durable invalidating correctness finding'' [])
             | Some f \<Rightarrow> returnE (o', f))
       | None \<Rightarrow> throwE (Errorf ''reopen requires an accepted parent completion outcome to invalidate'' [])))"

fun snapshot_files :: "string list \<Rightarrow> lifecycleFileSnapshot list sop" where
  "snapshot_files [] = returnE []"
| "snapshot_files (n # ns) = bindE (snapshotLifecycleFile n) (\<lambda>s. bindE (snapshot_files ns) (\<lambda>ss. returnE (s # ss)))"

definition snapshotReopenStateFiles :: "lifecycleFileSnapshot list sop" where
  "snapshotReopenStateFiles = snapshot_files parentReopenSnapshotStateFiles"

definition applyReopenTransition :: "ParentCompletionOutcome \<Rightarrow> PublicationCandidate \<Rightarrow> unit sop" where
  "applyReopenTransition completion candidate =
     thenE (CapturePublicationReopenLineage candidate) (thenE ClearPublicationCandidate (thenE ClearRuntimeInstallEvidence
       (thenE ClearPublicationInvalidatingFinding
         (thenE (openParentReviewState StatusNeedsSolReview (pco_Risk completion) \<lparr>prp_Role = [], prp_Model = []\<rparr>)
           (SetTaskStatus TaskStatusWaitingSolReview)))))"

text \<open>
  The loader's error \<^verbatim>\<open>errNoParentReopenTransaction\<close> means that there is nothing to recover. The
  boolean that the code returns beside an error is not modelled: every caller looks at the error first.
\<close>

definition snapshot_of_record :: "string \<times> bool \<times> doc content \<Rightarrow> lifecycleFileSnapshot" where
  "snapshot_of_record = (\<lambda>(name, exists, data). \<lparr>ls_name = name, ls_data = data, ls_exists = exists\<rparr>)"

definition RecoverInterruptedParentReopen :: "go_runtime \<Rightarrow> bool sop" where
  "RecoverInterruptedParentReopen rt = bindE (attempt loadParentReopenTransaction) (\<lambda>res. case res of
       Inl e \<Rightarrow> if e = NoParentReopenTransaction then returnE False else throwE e
     | Inr r \<Rightarrow> bindE TaskID (\<lambda>taskID.
         if rtr_TaskID r \<noteq> taskID
         then throwE (Errorf ''parent reopen recovery task identity changed'' [rtr_TaskID r, taskID])
         else bindE (restore_all (rev (map snapshot_of_record (rtr_Snapshots r)))) (\<lambda>errs.
           if errs \<noteq> [] then throwE (Wrapf ''parent reopen recovery could not restore source state'' (JoinErr errs))
           else thenE (wrapE ''parent reopen recovery restored invalid source state'' (reopenableParentCompletion rt))
             (thenE (wrapE ''parent reopen recovery restored no usable publication candidate'' (LoadPublicationCandidate rt))
               (thenE (wrapE ''parent reopen recovery could not clear transaction record'' (Remove [parentReopenTransactionStateFile]))
                 (returnE True))))))"

definition rollbackParentReopenTransaction :: "go_runtime \<Rightarrow> state_error \<Rightarrow> 'a sop" where
  "rollbackParentReopenTransaction rt cause = bindE (attempt (RecoverInterruptedParentReopen rt)) (\<lambda>res. case res of
       Inl e \<Rightarrow> throwE (RollbackErr ''parent reopen transition'' cause e)
     | Inr recovered \<Rightarrow> if \<not> recovered
         then throwE (Wrapf ''parent reopen transition failed without a durable recovery record'' cause)
         else throwE cause)"

definition recordReopenedParentOutcome :: "string \<Rightarrow> string \<Rightarrow> string \<Rightarrow> string \<Rightarrow> unit sop" where
  "recordReopenedParentOutcome taskID origin cause risk =
     (let reopened = \<lparr>pro_PacketStatus = StatusNeedsSolReview, pro_Role = [], pro_ModelAlias = [], pro_Risk = risk\<rparr> in
      thenE (UpdateTaskStats (\<lambda>stats. (recordParentOutcome ParentOutcomeFix origin reopened stats)\<lparr>ts_ParentReviewOpen := Some reopened\<rparr>))
        (appendParentOutcomeEvent taskID ''parent-fix'' ParentOutcomeFix origin cause reopened))"

definition ReopenAcceptedParentCompletion :: "go_runtime \<Rightarrow> unit sop" where
  "ReopenAcceptedParentCompletion rt = thenE (RecoverInterruptedParentReopen rt)
     (bindE (reopenableParentCompletion rt) (\<lambda>(completion, finding). bindE TaskID (\<lambda>taskID.
       bindE (LoadPublicationCandidate rt) (\<lambda>candidate. bindE snapshotReopenStateFiles (\<lambda>snapshots.
         thenE (saveParentReopenTransaction snapshots)
           (thenE (catchE (applyReopenTransition completion candidate) (rollbackParentReopenTransaction rt))
             (thenE (wrapE ''parent reopen transition committed state but could not clear recovery record''
                 (Remove [parentReopenTransactionStateFile]))
               (recordReopenedParentOutcome taskID (pif_Origin finding) (pif_Cause finding) (pco_Risk completion)))))))))"

section \<open>The journal\<close>

abbreviation six :: "string set" where "six \<equiv> set parentReopenSnapshotStateFiles"

lemma six_iff: "n \<in> six \<longleftrightarrow> n = parentReviewStateFile \<or> n = ''task.status'' \<or> n = publicationCandidateStateFile \<or>
    n = runtimeInstallEvidenceFile \<or> n = publicationReopenLineageStateFile \<or> n = publicationInvalidatingFindingStateFile"
  by (simp add: parentReopenSnapshotStateFiles_def)

lemma reopen_names [simp]: "parentReopenTransactionStateFile \<notin> six" "currentStatsFile \<notin> six" "''task.id'' \<notin> six"
    "TaskAuthorityPathPath t \<notin> six" "TaskAuthorityPathPath t \<noteq> currentStatsFile"
    "TaskAuthorityPathPath t \<noteq> parentReopenTransactionStateFile" "''task.id'' \<noteq> parentReopenTransactionStateFile"
  by (simp_all add: six_iff parentReopenTransactionStateFile_def parentReviewStateFile_def publicationCandidateStateFile_def
      runtimeInstallEvidenceFile_def publicationReopenLineageStateFile_def publicationInvalidatingFindingStateFile_def
      currentStatsFile_def TaskAuthorityPathPath_def TaskAuthorityDir_def taskAuthorityDir_def)

definition journal :: "filemap \<Rightarrow> parentReopenTransactionRecord" where
  "journal F = reopen_record (task_of F) (map (snapshot_of F) parentReopenSnapshotStateFiles)"

definition with_journal :: "filemap \<Rightarrow> filemap" where
  "with_journal F = F(parentReopenTransactionStateFile \<mapsto> reopen_document (journal F))"

text \<open>
  \<open>journalled F G\<close>: the directory \<open>G\<close> holds the valid record of \<open>F\<close> and differs from \<open>F\<close> only in the
  record and the six files (and the statistics).
\<close>

definition journalled :: "filemap \<Rightarrow> filemap \<Rightarrow> bool" where
  "journalled F G \<longleftrightarrow> F parentReopenTransactionStateFile = None \<and>
     G parentReopenTransactionStateFile = Some (reopen_document (journal F)) \<and>
     validateParentReopenTransactionRecord (journal F) = None \<and>
     (\<forall>n. n \<notin> six \<and> n \<noteq> parentReopenTransactionStateFile \<and> n \<noteq> currentStatsFile \<longrightarrow> G n = F n)"

lemma journalled_touches:
  assumes "journalled F (files st)" "touches six m" "m st = (r, st')"
  shows "journalled F (files st')"
  using assms(1) touchesD [OF assms(2,3)] unfolding journalled_def by simp

lemma journalled_triple: "touches six m \<Longrightarrow> triple (\<lambda>st. journalled F (files st)) m (\<lambda>_ st. journalled F (files st)) (\<lambda>_ st. journalled F (files st))"
  by (rule tripleI) (auto dest: journalled_touches)

lemma with_journal_journalled:
  assumes "state_is (with_journal F) st" "F parentReopenTransactionStateFile = None" "validateParentReopenTransactionRecord (journal F) = None"
  shows "journalled F (files st)"
  using assms by (auto simp: journalled_def with_journal_def state_is_def)

lemma reads_review [reads_intro]: "reads loadParentReviewState" "reads CurrentParentCompletionOutcome" "reads CurrentTaskAuthorityPath"
proof -
  show load: "reads loadParentReviewState"
    unfolding loadParentReviewState_def review_for_task_def
    by (intro reads_intro) (auto intro!: reads_intro split: content.split doc.split)
  show "reads CurrentParentCompletionOutcome" unfolding CurrentParentCompletionOutcome_def by (intro reads_intro load)
  show "reads CurrentTaskAuthorityPath" unfolding CurrentTaskAuthorityPath_def Let_def by (intro reads_intro)
qed

lemma reads_reopenable [reads_intro]: "reads (CurrentPublicationInvalidatingFinding rt)" "reads (reopenableParentCompletion rt)"
  "reads loadParentReopenTransaction"
  unfolding CurrentPublicationInvalidatingFinding_def reopenableParentCompletion_def refuse_status_def loadParentReopenTransaction_def Let_def
  by (intro reads_intro finding.load_reads candidate.load_reads;
      auto intro!: reads_intro finding.load_reads candidate.load_reads split: content.split doc.split)+

lemma touches_lineage: "publicationReopenLineageStateFile \<in> N \<Longrightarrow> touches N (CapturePublicationReopenLineage c)"
  unfolding CapturePublicationReopenLineage_def validateCurrentPublicationReopenLineage_def Let_def
  by (intro touches_intro touches_reads [OF lineage.load_reads] touches_reads [OF reads_review(3)])

lemma touches_open: "parentReviewStateFile \<in> N \<Longrightarrow> touches N (openParentReviewState status risk producer)"
  unfolding openParentReviewState_def writeParentReviewState_def
  by (intro touches_intro touches_reads [OF reads_review(1)])

lemma touches_apply: "touches six (applyReopenTransition o' c)"
  unfolding applyReopenTransition_def ClearPublicationCandidate_def ClearRuntimeInstallEvidence_def ClearPublicationInvalidatingFinding_def
  by (intro touches_intro touches_lineage touches_open) (simp_all add: six_iff)

section \<open>Recovery\<close>

lemma loadParentReopenTransaction_absent:
  "F parentReopenTransactionStateFile = None \<Longrightarrow>
   triple (state_is F) loadParentReopenTransaction (\<lambda>_ _. False) (\<lambda>_. state_is F)"
  unfolding loadParentReopenTransaction_def
proof (rule triple_bind)
  assume none: "F parentReopenTransactionStateFile = None"
  show "triple (state_is F) (attempt (ReadFile parentReopenTransactionStateFile)) (\<lambda>r st. (\<exists>e. r = Inl e) \<and> state_is F st) (\<lambda>_. state_is F)"
    by (rule triple_attempt, rule triple_weaken [OF ReadFile_clean]) (use none in auto)
qed (auto intro!: triple_assume triple_throw)

lemma Recover_absent:
  assumes "F parentReopenTransactionStateFile = None"
  shows "triple (state_is F) (RecoverInterruptedParentReopen rt) (\<lambda>_. state_is F) (\<lambda>_. state_is F)"
  unfolding RecoverInterruptedParentReopen_def
  by (rule triple_bind [OF triple_attempt [where Q = "\<lambda>r st. (\<exists>e. r = Inl e) \<and> state_is F st"]],
      rule triple_weaken [OF loadParentReopenTransaction_absent [of F, OF assms]])
    (auto intro!: triple_assume triple_throw triple_return)

lemma record_fields: "\<lparr>rtr_Version = rtr_Version r, rtr_TaskID = rtr_TaskID r, rtr_SourceStatus = rtr_SourceStatus r,
    rtr_Snapshots = rtr_Snapshots r\<rparr> = (r :: parentReopenTransactionRecord)"
  by simp

lemma journalled_load:
  "triple (\<lambda>st. journalled F (files st)) loadParentReopenTransaction
     (\<lambda>r st. r = journal F \<and> journalled F (files st)) (\<lambda>e st. e \<noteq> NoParentReopenTransaction \<and> journalled F (files st))"
proof (rule tripleI)
  let ?n = parentReopenTransactionStateFile
  fix st r st' assume J: "journalled F (files st)" and run: "loadParentReopenTransaction st = (Inr r, st')"
  from J run have "r = journal F"
    by (auto simp: loadParentReopenTransaction_def run_defs Let_def journalled_def reopen_document_def record_fields split: if_splits option.splits)
  with J readsD [OF reads_reopenable(3) run] show "r = journal F \<and> journalled F (files st')" by simp
next
  fix st e st' assume J: "journalled F (files st)" and run: "loadParentReopenTransaction st = (Inl e, st')"
  from J run have "e \<noteq> NoParentReopenTransaction"
    by (auto simp: loadParentReopenTransaction_def run_defs Let_def journalled_def reopen_document_def record_fields split: if_splits option.splits)
  with J readsD [OF reads_reopenable(3) run] show "e \<noteq> NoParentReopenTransaction \<and> journalled F (files st')" by simp
qed

lemma journal_snapshots: "map snapshot_of_record (rtr_Snapshots (journal F)) = map (snapshot_of F) parentReopenSnapshotStateFiles"
  by (simp add: journal_def reopen_record_def snapshot_of_record_def comp_def)

lemma journalled_restore:
  "triple (\<lambda>st. journalled F (files st)) (restore_all (rev (map snapshot_of_record (rtr_Snapshots (journal F)))))
     (\<lambda>errs st. journalled F (files st) \<and> (errs = [] \<longrightarrow> state_is (with_journal F) st)) (\<lambda>_ st. journalled F (files st))"
proof -
  let ?ss = "rev (map snapshot_of_record (rtr_Snapshots (journal F)))"
  have names: "ls_name ` set ?ss = six" unfolding journal_snapshots by (simp add: image_image)
  have snaps: "snap F (ls_name s) s" if "s \<in> set ?ss" for s
    using that snap_snapshot_of unfolding journal_snapshots by auto
  have J: "journalled F (files st')" if "journalled F (files st)" "restore_all ?ss st = (r, st')" for st r st'
    by (rule journalled_touches [OF that(1) touches_restore_all that(2)]) (rule eq_refl [OF names])
  show ?thesis
  proof (rule tripleI, simp add: J)
    fix st errs st' assume st: "journalled F (files st)" and run: "restore_all ?ss st = (Inr errs, st')"
    have "errs = [] \<longrightarrow> state_is (override_on (files st) F six) st'"
      using triple_InrD [OF restore_all_clean [of ?ss F "files st", OF snaps] state_is_self run] names by simp
    moreover have "state_is (override_on (files st) F six) st' \<Longrightarrow> state_is (with_journal F) st'"
      using st by (auto simp: state_is_def override_on_def with_journal_def journalled_def)
    ultimately show "journalled F (files st') \<and> (errs = [] \<longrightarrow> state_is (with_journal F) st')" using J [OF st run] by blast
  qed
qed

lemma clear_journal:
  assumes "F parentReopenTransactionStateFile = None"
  shows "triple (state_is (with_journal F)) (Remove [parentReopenTransactionStateFile]) (\<lambda>_. state_is F) (\<lambda>_. state_is (with_journal F))"
proof (rule triple_weaken [OF Remove_one_clean])
  fix st assume "state_is ((with_journal F)(parentReopenTransactionStateFile := None)) st"
  moreover have "(with_journal F)(parentReopenTransactionStateFile := None) = F"
    using assms by (auto simp: with_journal_def fun_eq_iff)
  ultimately show "state_is F st" by simp
qed auto

lemma Recover_journalled:
  "triple (\<lambda>st. journalled F (files st)) (RecoverInterruptedParentReopen rt) (\<lambda>b st. b \<and> state_is F st) (\<lambda>_ st. journalled F (files st))"
proof -
  let ?J = "\<lambda>st. journalled F (files st)"
  show ?thesis
  proof (cases "F parentReopenTransactionStateFile = None \<and> validateParentReopenTransactionRecord (journal F) = None")
    case True
    then have wj: "state_is (with_journal F) st \<Longrightarrow> ?J st" for st by (blast intro: with_journal_journalled)
    have tail: "triple (state_is (with_journal F)) (thenE (wrapE a (reopenableParentCompletion rt))
             (thenE (wrapE b (LoadPublicationCandidate rt))
               (thenE (wrapE c (Remove [parentReopenTransactionStateFile])) (returnE True))))
        (\<lambda>b st. b \<and> state_is F st) (\<lambda>_. ?J)" for a b c
      by (rule triple_weaken [where E' = "\<lambda>_. state_is (with_journal F)"],
          rule triple_then [OF reads_frame [OF reads_wrap [OF reads_reopenable(2)]]],
          rule triple_then [OF reads_frame [OF reads_wrap [OF candidate.load_reads]]],
          rule triple_then [OF triple_wrap [OF clear_journal]], rule conjunct1 [OF True], rule triple_return)
        (auto intro: wj)
    have loaded: "triple ?J (attempt loadParentReopenTransaction)
        (\<lambda>res st. (case res of Inl e \<Rightarrow> e \<noteq> NoParentReopenTransaction | Inr r \<Rightarrow> r = journal F) \<and> ?J st) (\<lambda>_. ?J)"
      by (rule triple_attempt, rule triple_weaken [OF journalled_load]) auto
    have task: "triple ?J TaskID (\<lambda>_. ?J) (\<lambda>_. ?J)" by (rule journalled_triple [OF touches_basic(6)])
    have restore: "triple ?J (bindE (restore_all (rev (map snapshot_of_record (rtr_Snapshots (journal F))))) (\<lambda>errs.
           if errs \<noteq> [] then throwE (e errs) else thenE (wrapE a (reopenableParentCompletion rt))
             (thenE (wrapE b (LoadPublicationCandidate rt))
               (thenE (wrapE c (Remove [parentReopenTransactionStateFile])) (returnE True)))))
        (\<lambda>b st. b \<and> state_is F st) (\<lambda>_. ?J)" for a b c e
    proof (rule triple_bind [OF journalled_restore], rule triple_if)
      show "triple (\<lambda>st. ?J st \<and> (errs = [] \<longrightarrow> state_is (with_journal F) st)) (throwE (e errs)) (\<lambda>b st. b \<and> state_is F st) (\<lambda>_. ?J)" for errs
        by (rule triple_throw) simp
      show "triple (\<lambda>st. ?J st \<and> (errs = [] \<longrightarrow> state_is (with_journal F) st)) (thenE (wrapE a (reopenableParentCompletion rt))
             (thenE (wrapE b (LoadPublicationCandidate rt))
               (thenE (wrapE c (Remove [parentReopenTransactionStateFile])) (returnE True)))) (\<lambda>b st. b \<and> state_is F st) (\<lambda>_. ?J)"
        if "\<not> errs \<noteq> []" for errs
        by (rule triple_weaken [OF tail]) (use that in auto)
    qed
    show ?thesis
      unfolding RecoverInterruptedParentReopen_def
      by (rule triple_bind [OF loaded], rule triple_assume)
        (auto intro!: triple_throw triple_bind [OF task] triple_if restore split: sum.splits)
  next
    case False
    then show ?thesis by (auto simp: triple_def journalled_def)
  qed
qed

section \<open>The transition as a whole\<close>

definition lineage_ok :: "filemap \<Rightarrow> PublicationCandidate \<Rightarrow> PublicationReopenLineage \<Rightarrow> bool" where
  "lineage_ok F c l \<longleftrightarrow> validatePublicationReopenLineage l = None \<and> prl_TaskID l = task_of F \<and>
     (F publicationReopenLineageStateFile = None \<and> prl_BaseHead l = pc_BaseHead c \<and> prl_CommitOID l = pc_CommitOID c \<or>
      F publicationReopenLineageStateFile = Some (Doc (LineageD l)))"

definition reopened_review :: "string \<Rightarrow> ParentReviewState \<Rightarrow> ParentReviewState" where
  "reopened_review risk s = s\<lparr>prs_Open := Some \<lparr>pro_PacketStatus = StatusNeedsSolReview, pro_Role = [], pro_ModelAlias = [], pro_Risk = risk\<rparr>,
     prs_Review := None, prs_Completion := None\<rparr>"

definition reopened_files :: "filemap \<Rightarrow> PublicationReopenLineage \<Rightarrow> ParentReviewState \<Rightarrow> string \<Rightarrow> filemap" where
  "reopened_files F l s risk = F(publicationReopenLineageStateFile \<mapsto> Doc (LineageD l), publicationCandidateStateFile := None,
     runtimeInstallEvidenceFile := None, publicationInvalidatingFindingStateFile := None,
     parentReviewStateFile \<mapsto> Doc (ReviewD (reopened_review risk s)),
     ''task.status'' \<mapsto> Text (TaskStatusWaitingSolReview @ [CHR 0x0A]))"

lemma same_upd: "F n = Some v \<Longrightarrow> F(n \<mapsto> v) = F"
  by (auto simp: fun_eq_iff)

lemma lineage_triple:
  "triple (state_is F) (CapturePublicationReopenLineage c)
     (\<lambda>_ st. \<exists>l. lineage_ok F c l \<and> state_is (F(publicationReopenLineageStateFile \<mapsto> Doc (LineageD l))) st) (\<lambda>_. state_is F)"
  unfolding CapturePublicationReopenLineage_def Let_def
proof (rule triple_bind [OF TaskID_task], rule triple_assume, rule triple_if, rule triple_throw, assumption,
    rule triple_bind [OF lineage.attempt_load], rule triple_assume, rule triple_sum)
  fix t res
  assume t: "t = task_of F \<and> t \<noteq> [] \<and> F ''task.id'' \<notin> {None, Some Directory}"
    and res: "case res of Inl e \<Rightarrow> is_not_exist e \<longrightarrow> F publicationReopenLineageStateFile = None
     | Inr x \<Rightarrow> F publicationReopenLineageStateFile = Some (Doc (LineageD x)) \<and> validatePublicationReopenLineage x = None"
  let ?Q = "\<lambda>_ st. \<exists>l. lineage_ok F c l \<and> state_is (F(publicationReopenLineageStateFile \<mapsto> Doc (LineageD l))) st"
  show "triple (state_is F) (validateCurrentPublicationReopenLineage l) ?Q (\<lambda>_. state_is F)" if "res = Inr l" for l
  proof -
    have l: "F publicationReopenLineageStateFile = Some (Doc (LineageD l))" "validatePublicationReopenLineage l = None"
      using res that by auto
    show ?thesis
      unfolding validateCurrentPublicationReopenLineage_def
      by (rule triple_bind [OF TaskID_task], rule triple_assume, rule triple_if, rule triple_throw, assumption,
          rule triple_bind [OF reads_frame [OF reads_wrap [OF reads_review(3)]]], rule triple_if, rule triple_throw, assumption,
          rule triple_return) (use l in \<open>auto simp: lineage_ok_def same_upd intro!: exI [of _ l]\<close>)
  qed
  show "triple (state_is F) (if \<not> is_not_exist e then throwE e
           else bindE (wrapE ''publication reopen task authority unavailable'' CurrentTaskAuthorityPath) (\<lambda>taskPath.
             thenE (check (validatePublicationReopenLineage \<lparr>prl_Version = publicationReopenLineageVersion, prl_TaskID = t, prl_TaskPath = taskPath,
                   prl_BaseHead = pc_BaseHead c, prl_CommitOID = pc_CommitOID c\<rparr>))
               (wrapE ''state write'' (writeFileAtomic publicationReopenLineageStateFile (Doc (LineageD \<lparr>prl_Version = publicationReopenLineageVersion, prl_TaskID = t, prl_TaskPath = taskPath,
                   prl_BaseHead = pc_BaseHead c, prl_CommitOID = pc_CommitOID c\<rparr>)))))) ?Q (\<lambda>_. state_is F)" if "res = Inl e" for e
    by (rule triple_if, rule triple_throw, assumption, rule triple_bind [OF reads_frame [OF reads_wrap [OF reads_review(3)]]],
        rule triple_then [OF check_checked], rule triple_assume, rule triple_wrap, rule triple_weaken [OF writeFileAtomic_clean])
      (use res that t in \<open>auto simp: lineage_ok_def intro!: exI\<close>)
qed

lemma open_triple:
  "triple (state_is F) (openParentReviewState StatusNeedsSolReview risk \<lparr>prp_Role = [], prp_Model = []\<rparr>)
     (\<lambda>_ st. \<exists>s. F parentReviewStateFile = Some (Doc (ReviewD s)) \<and>
        state_is (F(parentReviewStateFile \<mapsto> Doc (ReviewD (reopened_review risk s)))) st) (\<lambda>_. state_is F)"
  unfolding openParentReviewState_def
  by (rule triple_if, rule triple_throw, assumption, rule triple_bind [OF loadParentReviewState_clean], rule triple_assume,
      rule triple_weaken [OF writeParentReviewState_clean]) (auto simp: reopened_review_def)

lemma apply_triple:
  "triple (state_is F) (applyReopenTransition o' c)
     (\<lambda>_ st. \<exists>l s. lineage_ok F c l \<and> F parentReviewStateFile = Some (Doc (ReviewD s)) \<and>
        state_is (reopened_files F l s (pco_Risk o')) st) (\<lambda>_ _. True)"
proof -
  have any: "triple P m Q E \<Longrightarrow> triple P m Q (\<lambda>_ _. True)" for P m Q and E :: "state_error \<Rightarrow> store \<Rightarrow> bool"
    by (erule triple_weaken) auto
  show ?thesis
    unfolding applyReopenTransition_def ClearPublicationCandidate_def ClearRuntimeInstallEvidence_def
      ClearPublicationInvalidatingFinding_def
    by (rule triple_then [OF any [OF lineage_triple]], rule triple_exists_pre, rule triple_assume,
        rule triple_then [OF any [OF Remove_one_clean]], rule triple_then [OF any [OF Remove_one_clean]],
        rule triple_then [OF any [OF Remove_one_clean]], rule triple_then [OF any [OF open_triple]],
        rule triple_exists_pre, rule triple_assume, rule triple_weaken [OF SetTaskStatus_clean], assumption,
        intro exI conjI, assumption, simp, simp only: reopened_files_def, simp)
qed

lemma snapshot_files_value:
  "currentStatsFile \<notin> set ns \<Longrightarrow>
   triple (state_is F) (snapshot_files ns) (\<lambda>ss st. ss = map (snapshot_of F) ns \<and> state_is F st) (\<lambda>_. state_is F)"
proof (induction ns)
  case Nil
  show ?case by (auto intro: triple_return)
next
  case (Cons n ns)
  then have n: "n \<noteq> currentStatsFile" and rest: "triple (state_is F) (snapshot_files ns) (\<lambda>ss st. ss = map (snapshot_of F) ns \<and> state_is F st) (\<lambda>_. state_is F)"
    by auto
  show ?case unfolding snapshot_files.simps
    by (rule triple_bind [OF snapshotLifecycleFile_value [OF n]], rule triple_assume, rule triple_bind [OF rest], rule triple_assume, rule triple_return) simp
qed

lemma save_triple:
  "triple (state_is F) (saveParentReopenTransaction (map (snapshot_of F) parentReopenSnapshotStateFiles))
     (\<lambda>_ st. validateParentReopenTransactionRecord (journal F) = None \<and> state_is (with_journal F) st) (\<lambda>_. state_is F)"
  unfolding saveParentReopenTransaction_def Let_def
proof (rule triple_bind [OF Exists_clean], rule triple_if, rule triple_throw, assumption,
    rule triple_bind [OF TaskID_task], rule triple_assume)
  fix t assume "t = task_of F \<and> t \<noteq> [] \<and> F ''task.id'' \<notin> {None, Some Directory}"
  then have t: "reopen_record t (map (snapshot_of F) parentReopenSnapshotStateFiles) = journal F" by (simp add: journal_def)
  show "triple (state_is F) (thenE (check (validateParentReopenTransactionRecord (reopen_record t (map (snapshot_of F) parentReopenSnapshotStateFiles))))
         (wrapE ''parent reopen transaction record write'' (writeFileAtomic parentReopenTransactionStateFile
            (reopen_document (reopen_record t (map (snapshot_of F) parentReopenSnapshotStateFiles))))))
     (\<lambda>_ st. validateParentReopenTransactionRecord (journal F) = None \<and> state_is (with_journal F) st) (\<lambda>_. state_is F)"
    unfolding t by (rule triple_then [OF check_checked], rule triple_assume, rule triple_wrap, rule triple_weaken [OF writeFileAtomic_clean])
      (auto simp: with_journal_def)
qed

text \<open>\<open>committed\<close>: the transition is complete.\<close>

definition committed :: "go_runtime \<Rightarrow> filemap \<Rightarrow> filemap \<Rightarrow> bool" where
  "committed rt F G \<longleftrightarrow> (\<exists>l s o' c. lineage_ok F c l \<and> F parentReviewStateFile = Some (Doc (ReviewD s)) \<and> accepted F o' \<and>
     F publicationCandidateStateFile = Some (Doc (CandidateD c)) \<and> validatePublicationCandidate rt c = None \<and>
     (\<forall>n. n \<noteq> currentStatsFile \<longrightarrow> G n = reopened_files F l s (pco_Risk o') n))"

lemma triple_conj: "triple P m Q E \<Longrightarrow> triple P m Q' E' \<Longrightarrow> triple P m (\<lambda>v st. Q v st \<and> Q' v st) (\<lambda>e st. E e st \<and> E' e st)"
  by (auto simp: triple_def split: prod.splits sum.splits)

lemma with_journal_same: "n \<noteq> parentReopenTransactionStateFile \<Longrightarrow> with_journal F n = F n"
  by (simp add: with_journal_def)

lemma lineage_ok_journal: "lineage_ok (with_journal F) c l = lineage_ok F c l"
  by (simp add: lineage_ok_def task_of_def with_journal_def)
    (simp add: publicationReopenLineageStateFile_def parentReopenTransactionStateFile_def)

lemma reopened_clear:
  assumes "F parentReopenTransactionStateFile = None"
  shows "(reopened_files (with_journal F) l s risk)(parentReopenTransactionStateFile := None) = reopened_files F l s risk"
  using assms reopen_names(1)
  by (auto simp: fun_eq_iff reopened_files_def with_journal_def six_iff)

lemma applied_triple:
  assumes F: "F parentReopenTransactionStateFile = None" "validateParentReopenTransactionRecord (journal F) = None"
  shows "triple (state_is (with_journal F)) (catchE (applyReopenTransition o' c) (rollbackParentReopenTransaction rt))
     (\<lambda>_ st. journalled F (files st) \<and> (\<exists>l s. lineage_ok F c l \<and> F parentReviewStateFile = Some (Doc (ReviewD s)) \<and>
        state_is (reopened_files (with_journal F) l s (pco_Risk o')) st))
     (\<lambda>_ st. state_is F st \<or> journalled F (files st))"
proof (rule triple_catch)
  have J: "triple (state_is (with_journal F)) (applyReopenTransition o' c) (\<lambda>_ st. journalled F (files st)) (\<lambda>_ st. journalled F (files st))"
    by (rule triple_weaken [OF journalled_triple [OF touches_apply]]) (use F with_journal_journalled in blast)+
  have "with_journal F parentReviewStateFile = F parentReviewStateFile"
    by (rule with_journal_same) (simp add: parentReopenTransactionStateFile_def parentReviewStateFile_def)
  with triple_conj [OF J apply_triple [of "with_journal F" o' c]]
  show "triple (state_is (with_journal F)) (applyReopenTransition o' c)
     (\<lambda>_ st. journalled F (files st) \<and> (\<exists>l s. lineage_ok F c l \<and> F parentReviewStateFile = Some (Doc (ReviewD s)) \<and>
        state_is (reopened_files (with_journal F) l s (pco_Risk o')) st)) (\<lambda>_ st. journalled F (files st))"
    by (simp add: lineage_ok_journal)
  show "triple (\<lambda>st. journalled F (files st)) (rollbackParentReopenTransaction rt e) Q (\<lambda>_ st. state_is F st \<or> journalled F (files st))"
    for e and Q :: "unit \<Rightarrow> store \<Rightarrow> bool"
    unfolding rollbackParentReopenTransaction_def
    by (rule triple_bind [OF triple_attempt [where Q = "\<lambda>_ st. state_is F st \<or> journalled F (files st)"]],
        rule triple_weaken [OF Recover_journalled]) (auto intro!: triple_throw triple_if triple_sum)
qed

lemma committed_same:
  assumes "committed rt F G" "\<And>n. n \<noteq> currentStatsFile \<Longrightarrow> G' n = G n"
  shows "committed rt F G'"
proof -
  have "(\<forall>n. n \<noteq> currentStatsFile \<longrightarrow> G' n = H n) = (\<forall>n. n \<noteq> currentStatsFile \<longrightarrow> G n = H n)" for H using assms(2) by simp
  with assms(1) show ?thesis unfolding committed_def by (simp only: )
qed

lemma committed_frame:
  assumes "touches {} m"
  shows "triple (\<lambda>st. committed rt F (files st)) m (\<lambda>_ st. committed rt F (files st)) (\<lambda>_ st. committed rt F (files st))"
proof -
  have keep: "committed rt F (files st')" if "committed rt F (files st)" "m st = (r, st')" for st r st'
    by (rule committed_same [OF that(1)], rule touchesD [OF assms that(2)]) simp_all
  show ?thesis by (rule tripleI) (erule (1) keep)+
qed

lemma finish_triple:
  assumes F: "F parentReopenTransactionStateFile = None" "accepted F o'" "F publicationCandidateStateFile = Some (Doc (CandidateD c))"
    "validatePublicationCandidate rt c = None"
  shows "triple (\<lambda>st. journalled F (files st) \<and> (\<exists>l s. lineage_ok F c l \<and> F parentReviewStateFile = Some (Doc (ReviewD s)) \<and>
        state_is (reopened_files (with_journal F) l s (pco_Risk o')) st))
     (thenE (wrapE msg (Remove [parentReopenTransactionStateFile])) (recordReopenedParentOutcome t origin cause risk))
     (\<lambda>_ st. committed rt F (files st)) (\<lambda>_ st. state_is F st \<or> journalled F (files st) \<or> committed rt F (files st))"
proof (rule triple_then)
  let ?G = "\<lambda>l s. reopened_files (with_journal F) l s (pco_Risk o')"
  have "triple (\<lambda>st. journalled F (files st) \<and> lineage_ok F c l \<and> F parentReviewStateFile = Some (Doc (ReviewD s)) \<and> state_is (?G l s) st)
      (Remove [parentReopenTransactionStateFile]) (\<lambda>_ st. committed rt F (files st)) (\<lambda>_ st. journalled F (files st))" for l s
  proof (rule tripleI)
    fix st e st' assume st: "journalled F (files st) \<and> lineage_ok F c l \<and> F parentReviewStateFile = Some (Doc (ReviewD s)) \<and> state_is (?G l s) st"
      and run: "Remove [parentReopenTransactionStateFile] st = (Inl e, st')"
    from triple_InlD [OF Remove_one_clean state_is_self run] st show "journalled F (files st')"
      by (auto simp: journalled_def state_is_def currentStatsFile_def parentReopenTransactionStateFile_def)
  next
    fix st v st' assume st: "journalled F (files st) \<and> lineage_ok F c l \<and> F parentReviewStateFile = Some (Doc (ReviewD s)) \<and> state_is (?G l s) st"
      and run: "Remove [parentReopenTransactionStateFile] st = (Inr v, st')"
    from triple_InrD [OF Remove_one_clean [of "?G l s"] _ run] st
    have "state_is (reopened_files F l s (pco_Risk o')) st'" unfolding reopened_clear [of F, OF F(1)] by blast
    with st F show "committed rt F (files st')" unfolding committed_def state_is_def by blast
  qed
  then show "triple (\<lambda>st. journalled F (files st) \<and> (\<exists>l s. lineage_ok F c l \<and> F parentReviewStateFile = Some (Doc (ReviewD s)) \<and>
        state_is (?G l s) st)) (wrapE msg (Remove [parentReopenTransactionStateFile]))
     (\<lambda>_ st. committed rt F (files st)) (\<lambda>_ st. state_is F st \<or> journalled F (files st) \<or> committed rt F (files st))"
    by (intro triple_wrap) (fastforce simp: triple_def split: prod.splits sum.splits)
  have "touches {} (recordReopenedParentOutcome t origin cause risk)"
    unfolding recordReopenedParentOutcome_def Let_def by (intro touches_intro)
  then show "triple (\<lambda>st. committed rt F (files st)) (recordReopenedParentOutcome t origin cause risk)
     (\<lambda>_ st. committed rt F (files st)) (\<lambda>_ st. state_is F st \<or> journalled F (files st) \<or> committed rt F (files st))"
    by (rule triple_weaken [OF committed_frame]) blast+
qed

lemma reopenable_accepted:
  "triple (state_is F) (reopenableParentCompletion rt) (\<lambda>(o', f) st. accepted F o' \<and> state_is F st) (\<lambda>_. state_is F)"
proof -
  have finding': "triple (state_is F) (bindE (CurrentPublicationInvalidatingFinding rt) (\<lambda>finding. case finding of
               None \<Rightarrow> throwE (Errorf ''reopen requires a durable invalidating correctness finding'' [])
             | Some f \<Rightarrow> returnE (o', f))) (\<lambda>(o', f) st. accepted F o' \<and> state_is F st) (\<lambda>_. state_is F)" if "accepted F o'" for o'
    by (rule triple_bind [OF reads_frame [OF reads_reopenable(1)]]) (use that in \<open>auto intro!: triple_throw triple_return split: option.split\<close>)
  have refuse: "triple (state_is F) (refuse_status m) Q (\<lambda>_. state_is F)"
    for m and Q :: "ParentCompletionOutcome \<times> PublicationInvalidatingFinding \<Rightarrow> store \<Rightarrow> bool"
    unfolding refuse_status_def by (rule triple_bind [OF get_TaskStatus_clean], rule triple_throw)
  show ?thesis
    unfolding reopenableParentCompletion_def
    by (rule triple_bind [OF get_TaskStatus_clean], rule triple_if, rule refuse, rule triple_bind [OF completion_accepted], rule triple_assume)
      (auto intro!: triple_throw triple_if finding' split: option.split)
qed

lemma Reopen_triple:
  assumes F: "F parentReopenTransactionStateFile = None"
  shows "triple (state_is F) (ReopenAcceptedParentCompletion rt) (\<lambda>_ st. committed rt F (files st))
     (\<lambda>_ st. state_is F st \<or> journalled F (files st) \<or> committed rt F (files st))"
proof -
  let ?E = "\<lambda>_ st. state_is F st \<or> journalled F (files st) \<or> committed rt F (files st)"
  have weak: "triple P m Q (\<lambda>_. state_is F) \<Longrightarrow> triple P m Q ?E" for P m and Q :: "'a \<Rightarrow> store \<Rightarrow> bool"
    by (erule triple_weaken) auto
  have weak': "triple P m Q (\<lambda>_ st. state_is F st \<or> journalled F (files st)) \<Longrightarrow> triple P m Q ?E" for P m and Q :: "'a \<Rightarrow> store \<Rightarrow> bool"
    by (erule triple_weaken) auto
  have recover: "triple (state_is F) (RecoverInterruptedParentReopen rt) (\<lambda>_. state_is F) (\<lambda>_. state_is F)"
    by (rule Recover_absent [of F, OF F])
  have snaps: "triple (state_is F) snapshotReopenStateFiles (\<lambda>ss st. ss = map (snapshot_of F) parentReopenSnapshotStateFiles \<and> state_is F st) (\<lambda>_. state_is F)"
    unfolding snapshotReopenStateFiles_def by (rule snapshot_files_value) simp
  have apply': "triple (state_is F) (bindE snapshotReopenStateFiles (\<lambda>snapshots.
         thenE (saveParentReopenTransaction snapshots)
           (thenE (catchE (applyReopenTransition o' c) (rollbackParentReopenTransaction rt))
             (thenE (wrapE msg (Remove [parentReopenTransactionStateFile])) (recordReopenedParentOutcome t origin cause risk)))))
      (\<lambda>_ st. committed rt F (files st)) ?E"
    if "accepted F o'" "F publicationCandidateStateFile = Some (Doc (CandidateD c))" "validatePublicationCandidate rt c = None"
    for o' c msg t origin cause risk
    by (rule triple_bind [OF weak [OF snaps]], rule triple_assume, simp only:, rule triple_then [OF weak [OF save_triple]], rule triple_assume,
        rule triple_then [OF weak' [OF applied_triple]], rule F, assumption, rule finish_triple [of F, OF F that])
  have "triple (state_is F) (bindE TaskID (\<lambda>taskID. bindE (LoadPublicationCandidate rt) (\<lambda>candidate. bindE snapshotReopenStateFiles (\<lambda>snapshots.
         thenE (saveParentReopenTransaction snapshots)
           (thenE (catchE (applyReopenTransition o' candidate) (rollbackParentReopenTransaction rt))
             (thenE (wrapE msg (Remove [parentReopenTransactionStateFile])) (recordReopenedParentOutcome taskID origin cause risk)))))))
      (\<lambda>_ st. committed rt F (files st)) ?E" if "accepted F o'" for o' msg origin cause risk
    by (rule triple_bind [OF weak [OF TaskID_clean]], rule triple_bind [OF weak [OF candidate.load_clean]], rule triple_assume, elim conjE, rule apply' [OF that])
  then show ?thesis
    unfolding ReopenAcceptedParentCompletion_def
    by (intro triple_then [OF weak [OF recover]] triple_bind [OF weak [OF reopenable_accepted]]) (auto intro!: triple_assume split: prod.split)
qed

lemma journal_name: "parentReopenTransactionStateFile \<noteq> currentStatsFile"
  by (simp add: parentReopenTransactionStateFile_def currentStatsFile_def)

lemma committed_journal:
  assumes F: "F parentReopenTransactionStateFile = None" and G: "committed rt F G"
  shows "G parentReopenTransactionStateFile = None"
proof -
  from G obtain l s o' c where c: "lineage_ok F c l \<and> F parentReviewStateFile = Some (Doc (ReviewD s)) \<and> accepted F o' \<and>
     F publicationCandidateStateFile = Some (Doc (CandidateD c)) \<and> validatePublicationCandidate rt c = None \<and>
     (\<forall>n. n \<noteq> currentStatsFile \<longrightarrow> G n = reopened_files F l s (pco_Risk o') n)"
    unfolding committed_def by (elim exE) (rule that)
  from c have "\<forall>n. n \<noteq> currentStatsFile \<longrightarrow> G n = reopened_files F l s (pco_Risk o') n" by (elim conjE)
  with journal_name have "G parentReopenTransactionStateFile = reopened_files F l s (pco_Risk o') parentReopenTransactionStateFile" by blast
  with F reopen_names(1) show ?thesis by (simp add: reopened_files_def six_iff)
qed

text \<open>A store in which a finding has invalidated the accepted result, and reopenings of it, interrupted or not.\<close>

definition sample_finding :: PublicationInvalidatingFinding where
  "sample_finding = \<lparr>pif_Version = 1, pif_TaskID = pc_TaskID sample_candidate,
     pif_FindingID = ''00000000-0000-4000-8000-000000000000'', pif_Disposition = PublicationFindingCorrectnessDefect,
     pif_CandidateCommitOID = pc_CommitOID sample_candidate, pif_CandidateSnapshotID = pc_SnapshotID sample_candidate,
     pif_Origin = ''codex-review'', pif_Cause = ''worker''\<rparr>"

definition found_store :: "(nat \<Rightarrow> bool) \<Rightarrow> store" where
  "found_store faults = (accepted_store faults)\<lparr>files := (files (accepted_store faults))
     (''publication-invalidating-finding.json'' \<mapsto> Doc (FindingD sample_finding))\<rparr>"

definition reopen :: "(nat \<Rightarrow> bool) \<Rightarrow> (state_error + unit) \<times> store" where
  "reopen faults = ReopenAcceptedParentCompletion sample_runtime (found_store faults)"

definition interrupted_store :: store where
  "interrupted_store = (snd (reopen (\<lambda>n. 30 \<le> n)))\<lparr>fault := \<lambda>_. False\<rparr>"

lemma found_files: "files (found_store f) parentReopenTransactionStateFile = None" "files (found_store f) = files (found_store g)"
  by (simp_all add: found_store_def accepted_store_def parentReopenTransactionStateFile_def)

lemma interrupted_journalled: "journalled (files (found_store (\<lambda>n. 30 \<le> n))) (files interrupted_store)"
proof -
  let ?F = "files (found_store (\<lambda>n. 30 \<le> n))"
  let ?run = "ReopenAcceptedParentCompletion sample_runtime"
  have once: "case reopen (\<lambda>n. 30 \<le> n) of (r, st) \<Rightarrow> isl r \<and> files st parentReopenTransactionStateFile \<noteq> None" by code_simp
  have ev: "files (snd (reopen (\<lambda>n. 30 \<le> n))) parentReopenTransactionStateFile \<noteq> None" "isl (fst (reopen (\<lambda>n. 30 \<le> n)))"
    using once by (cases "reopen (\<lambda>n. 30 \<le> n)"; simp)+
  from run_fails [OF ev(2) [unfolded reopen_def]]
  obtain e where run: "?run (found_store (\<lambda>n. 30 \<le> n)) = (Inl e, snd (reopen (\<lambda>n. 30 \<le> n)))" by (auto simp: reopen_def)
  have none: "?F parentReopenTransactionStateFile = None" by (rule found_files)
  have "\<not> committed sample_runtime ?F (files (snd (reopen (\<lambda>n. 30 \<le> n))))"
  proof
    assume "committed sample_runtime ?F (files (snd (reopen (\<lambda>n. 30 \<le> n))))"
    from committed_journal [OF none this] ev(1) show False by simp
  qed
  moreover have "\<not> state_is ?F (snd (reopen (\<lambda>n. 30 \<le> n)))" 
    using ev(1) none journal_name by (metis state_is_def)
  ultimately show ?thesis
    using triple_InlD [OF Reopen_triple [of ?F, OF none] state_is_self run] by (simp add: interrupted_store_def)
qed

text \<open>
  C22. Reopening an accepted task is a transaction: started without a pending transaction record, for
  every pattern of failing accesses (a crash is the pattern in which every access from some point on
  fails), it ends in one of three ways. It succeeds, and then the task waits for a review with its
  old risk, the lineage of the publication is recorded, and candidate, installation evidence and
  finding are gone; or it fails with every file as before; or it fails (the rollback or the last
  removal failed) and the directory still holds the valid transaction record of the old contents,
  with nothing changed outside the six files the record covers, or only the bookkeeping after the
  completed transition failed.
\<close>

theorem reopen_transaction:
  assumes "files st parentReopenTransactionStateFile = None" "ReopenAcceptedParentCompletion rt st = (res, st')"
  shows "case res of
      Inr _ \<Rightarrow> committed rt (files st) (files st')
    | Inl _ \<Rightarrow> (\<forall>n. n \<noteq> currentStatsFile \<longrightarrow> files st' n = files st n) \<or> journalled (files st) (files st') \<or>
        committed rt (files st) (files st')"
proof -
  note run = Reopen_triple [of "files st" rt, OF assms(1)]
  show ?thesis
  proof (cases res)
    case (Inl e)
    from triple_InlD [OF run state_is_self assms(2) [unfolded Inl]] show ?thesis by (simp add: Inl state_is_def)
  next
    case (Inr v)
    from triple_InrD [OF run state_is_self assms(2) [unfolded Inr]] show ?thesis by (simp add: Inr)
  qed
qed

theorem reopen_transaction_witness:
  "\<exists>st'. ReopenAcceptedParentCompletion sample_runtime (found_store (\<lambda>_. False)) = (Inr (), st') \<and>
     committed sample_runtime (files (found_store (\<lambda>_. False))) (files st')"
proof -
  have "\<not> isl (fst (reopen (\<lambda>_. False)))" by code_simp
  from run_returns [OF this [unfolded reopen_def]]
  obtain st' where run: "ReopenAcceptedParentCompletion sample_runtime (found_store (\<lambda>_. False)) = (Inr (), st')" by auto
  with reopen_transaction [OF found_files(1) run] show ?thesis by auto
qed

text \<open>
  C23. Recovery undoes an interrupted reopening: in a directory that holds the transaction record of
  some earlier contents and differs from them only in the six covered files, a recovery that returns
  has restored every file (the statistics aside) and removed the record, and one that fails leaves
  the record in place, so that it can be repeated.
\<close>

theorem reopen_recovery:
  assumes "journalled F (files st)" "RecoverInterruptedParentReopen rt st = (res, st')"
  shows "case res of Inr b \<Rightarrow> b \<and> (\<forall>n. n \<noteq> currentStatsFile \<longrightarrow> files st' n = F n) | Inl _ \<Rightarrow> journalled F (files st')"
proof (cases res)
  case (Inl e)
  from triple_InlD [OF Recover_journalled assms(1) assms(2) [unfolded Inl]] show ?thesis by (simp add: Inl)
next
  case (Inr b)
  from triple_InrD [OF Recover_journalled assms(1) assms(2) [unfolded Inr]] show ?thesis by (simp add: Inr state_is_def)
qed

theorem reopen_recovery_witness:
  "\<exists>st'. RecoverInterruptedParentReopen sample_runtime interrupted_store = (Inr True, st') \<and>
     (\<forall>n. n \<noteq> currentStatsFile \<longrightarrow> files st' n = files (found_store (\<lambda>n. 30 \<le> n)) n)"
proof -
  have "\<not> isl (fst (RecoverInterruptedParentReopen sample_runtime interrupted_store))" by code_simp
  from run_returns [OF this]
  obtain b st' where run: "RecoverInterruptedParentReopen sample_runtime interrupted_store = (Inr b, st')" by auto
  from reopen_recovery [OF interrupted_journalled run] run show ?thesis by auto
qed

end
