(* ===== verification/Session_Rotation.thy ===== *)
theory Session_Rotation
  imports Store_Runs
begin

text \<open>
  Session rotation, \<^verbatim>\<open>internal/state/session_rotation.go\<close> with \<^verbatim>\<open>session_rotation_accepted_tasks.go\<close>,
  \<^verbatim>\<open>session_rotation_failure.go\<close> and \<^verbatim>\<open>session_rotation_boundary.go\<close>, and the identity of the parent
  session (\<^verbatim>\<open>parent_codex_identity.go\<close>). The directory \<open>rotation\<close> holds one marker per parent thread.
  A marker goes from no directive to a pending directive, is claimed by its thread, bound to the
  thread of the next session and issued once that thread has started the target task; a claim may
  be released after a failed creation, and a pending directive may be retired by an ordinary task
  start. The UUIDs a step generates are built from random bytes given as arguments.
\<close>

section \<open>Constants\<close>

definition sessionRotationMarkerVersion :: int where "sessionRotationMarkerVersion = 3"
definition SessionRotationStatePending :: string where "SessionRotationStatePending = ''pending''"
definition SessionRotationStateClaimed :: string where "SessionRotationStateClaimed = ''claimed''"
definition SessionRotationStateBound :: string where "SessionRotationStateBound = ''bound''"
definition SessionRotationStateIssued :: string where "SessionRotationStateIssued = ''issued''"

definition SessionRotationReasons :: "string list" where
  "SessionRotationReasons = [''high-risk'', ''compaction'', ''model-turns'', ''tool-output-bytes'',
     ''repeated-events'', ''limit-window'', ''default-two-tasks'', ''evidence-unavailable'']"

definition sessionRotationReasonKnown :: "string \<Rightarrow> bool" where
  "sessionRotationReasonKnown reason \<longleftrightarrow> reason \<in> set SessionRotationReasons"

definition SessionRotationProjectionNotRequired :: string where
  "SessionRotationProjectionNotRequired = ''not-required''"
definition SessionRotationProjectionUnavailable :: string where
  "SessionRotationProjectionUnavailable = ''unavailable''"
definition sessionRotationDirectory :: string where "sessionRotationDirectory = ''rotation''"
definition SessionRotationCreationResultVersion :: int where "SessionRotationCreationResultVersion = 1"
definition SessionRotationCreationOutcomeFailed :: string where
  "SessionRotationCreationOutcomeFailed = ''failed''"

lemmas rotation_state_defs = SessionRotationStatePending_def SessionRotationStateClaimed_def
  SessionRotationStateBound_def SessionRotationStateIssued_def

section \<open>Validation of a marker\<close>

definition validateSessionRotationCreationIdentity ::
    "int \<Rightarrow> string \<Rightarrow> string \<Rightarrow> string \<Rightarrow> string \<Rightarrow> string \<Rightarrow> state_error option" where
  "validateSessionRotationCreationIdentity version outcome parentThreadID directiveID claimID targetTaskID =
     (if version \<noteq> SessionRotationCreationResultVersion
      then Some (Errorf ''session rotation creation result version is unsupported'' [itoa version])
      else if outcome \<noteq> SessionRotationCreationOutcomeFailed
      then Some (Errorf ''session rotation creation outcome is not a confirmed failure'' [outcome])
      else if \<not> ValidUUIDFormat parentThreadID \<or> \<not> ValidGeneratedUUID directiveID \<or>
        \<not> ValidGeneratedUUID claimID \<or> \<not> ValidGeneratedUUID targetTaskID
      then Some (Errorf ''session rotation creation result identity is invalid'' [])
      else None)"

definition outcome_validate :: "go_runtime \<Rightarrow> SessionRotationCreationOutcome \<Rightarrow> state_error option" where
  "outcome_validate rt outcome = first_err
     [validateSessionRotationCreationIdentity (co_Version outcome) (co_Outcome outcome) (co_ParentThreadID outcome)
        (co_DirectiveID outcome) (co_ClaimID outcome) (co_TargetTaskID outcome),
      if rt_ParseRFC3339 rt (co_RecordedAt outcome) = None
      then Some (Errorf ''session rotation creation outcome recorded_at is invalid'' []) else None]"

definition validateCreationOutcome :: "go_runtime \<Rightarrow> SessionRotationMarker \<Rightarrow> state_error option" where
  "validateCreationOutcome rt marker = (case mk_LastCreationOutcome marker of
       None \<Rightarrow> None
     | Some outcome \<Rightarrow> (case mk_Directive marker of
           None \<Rightarrow> Some (Errorf ''session rotation creation outcome has no directive'' [])
         | Some directive \<Rightarrow>
             if co_DirectiveID outcome \<noteq> di_DirectiveID directive
             then Some (Errorf ''session rotation creation outcome does not match the current directive'' [])
             else outcome_validate rt outcome))"

definition validateCreationOutcomeAndAcceptedTasks :: "go_runtime \<Rightarrow> SessionRotationMarker \<Rightarrow> state_error option" where
  "validateCreationOutcomeAndAcceptedTasks rt marker = first_err
     [validateCreationOutcome rt marker,
      case mk_AcceptedTasks marker of None \<Rightarrow> None
      | Some n \<Rightarrow> if n < 0 then Some (Errorf ''session rotation marker accepted_tasks is invalid'' [itoa n]) else None]"

definition validateNoSessionRotationRecords :: "SessionRotationMarker \<Rightarrow> state_error option" where
  "validateNoSessionRotationRecords marker =
     (if mk_Directive marker \<noteq> None \<or> mk_Claim marker \<noteq> None \<or> mk_Issued marker \<noteq> None
      then Some (Errorf ''session rotation marker without directive has directive or issued records'' [mk_State marker])
      else None)"

definition validatePendingSessionRotationRecords :: "SessionRotationMarker \<Rightarrow> state_error option" where
  "validatePendingSessionRotationRecords marker =
     (if mk_Directive marker = None
      then Some (Errorf ''pending session rotation marker has no directive'' [])
      else if mk_Claim marker \<noteq> None \<or> mk_Issued marker \<noteq> None
      then Some (Errorf ''pending session rotation marker has claim or issued records'' [])
      else None)"

definition validateClaimedSessionRotationRecords :: "SessionRotationMarker \<Rightarrow> state_error option" where
  "validateClaimedSessionRotationRecords marker =
     (if mk_Directive marker = None \<or> (case mk_Claim marker of None \<Rightarrow> True | Some c \<Rightarrow> cl_BoundThreadID c \<noteq> []) \<or>
         mk_Issued marker \<noteq> None
      then Some (Errorf ''claimed session rotation marker state records are invalid'' []) else None)"

definition validateBoundSessionRotationRecords :: "SessionRotationMarker \<Rightarrow> state_error option" where
  "validateBoundSessionRotationRecords marker =
     (if mk_Directive marker = None \<or>
         (case mk_Claim marker of None \<Rightarrow> True | Some c \<Rightarrow> \<not> ValidUUIDFormat (cl_BoundThreadID c) \<or> cl_BoundAt c = []) \<or>
         mk_Issued marker \<noteq> None
      then Some (Errorf ''bound session rotation marker state records are invalid'' []) else None)"

definition validateIssuedSessionRotationRecords :: "SessionRotationMarker \<Rightarrow> state_error option" where
  "validateIssuedSessionRotationRecords marker =
     (case mk_Issued marker of
        None \<Rightarrow> Some (Errorf ''issued session rotation marker has no bound thread ID'' [])
      | Some issued \<Rightarrow>
          if mk_Directive marker = None \<or> \<not> ValidUUIDFormat (is_BoundThreadID issued)
          then Some (Errorf ''issued session rotation marker has no bound thread ID'' [])
          else case mk_Claim marker of
            None \<Rightarrow> None
          | Some c \<Rightarrow> if cl_BoundThreadID c \<noteq> is_BoundThreadID issued
              then Some (Errorf ''issued session rotation marker bound thread ID does not match the claim'' []) else None)"

definition validateStateRecords :: "SessionRotationMarker \<Rightarrow> state_error option" where
  "validateStateRecords marker =
     (if mk_State marker = [] then validateNoSessionRotationRecords marker
      else if mk_State marker = SessionRotationStatePending then validatePendingSessionRotationRecords marker
      else if mk_State marker = SessionRotationStateClaimed then validateClaimedSessionRotationRecords marker
      else if mk_State marker = SessionRotationStateBound then validateBoundSessionRotationRecords marker
      else if mk_State marker = SessionRotationStateIssued then validateIssuedSessionRotationRecords marker
      else Some (Errorf ''session rotation marker state is invalid'' [mk_State marker]))"

definition claim_err :: "SessionRotationMarker \<Rightarrow> state_error option" where
  "claim_err marker = (case mk_Claim marker of
       None \<Rightarrow> None
     | Some c \<Rightarrow>
         if \<not> ValidGeneratedUUID (cl_ClaimID c) \<or> \<not> ValidUUIDFormat (cl_ClaimantThreadID c) \<or>
            \<not> ValidGeneratedUUID (cl_TargetTaskID c) \<or> cl_ClaimedAt c = []
         then Some (Errorf ''session rotation claim is invalid'' [])
         else if cl_ClaimantThreadID c \<noteq> mk_ParentThreadID marker
         then Some (Errorf ''session rotation claimant thread ID does not match the parent thread ID'' [])
         else None)"

definition validateLifecycle :: "go_runtime \<Rightarrow> SessionRotationMarker \<Rightarrow> state_error option" where
  "validateLifecycle rt marker = first_err
     [validateStateRecords marker, claim_err marker, validateCreationOutcomeAndAcceptedTasks rt marker]"

definition directive_validate :: "SessionRotationDirective \<Rightarrow> state_error option" where
  "directive_validate d =
     (if \<not> ValidGeneratedUUID (di_DirectiveID d)
      then Some (Errorf ''session rotation directive ID is invalid'' [di_DirectiveID d])
      else if di_TaskID d = [] \<or> di_CreatedAt d = []
      then Some (Errorf ''session rotation directive has no task ID or created_at'' [])
      else if di_Terminal d \<noteq> SessionRotationTerminalAccept \<and> di_Terminal d \<noteq> SessionRotationTerminalNoGo
      then Some (Errorf ''session rotation directive terminal is invalid'' [di_Terminal d])
      else if di_Epoch d \<noteq> di_TaskID d @ '':'' @ di_Terminal d
      then Some (Errorf ''session rotation directive epoch does not match task and terminal'' [di_Epoch d])
      else if \<not> sessionRotationReasonKnown (di_Reason d)
      then Some (Errorf ''session rotation directive reason is invalid'' [di_Reason d])
      else None)"

definition baseline_validate :: "SessionLimitBaseline \<Rightarrow> state_error option" where
  "baseline_validate b =
     (if lb_LimitID b = [] \<or> lb_WindowResetsAt b \<le> 0
      then Some (Errorf ''session rotation limit baseline is incomplete'' [])
      else if lb_UsedPercent b < 0 \<or> lb_UsedPercent b > 100 \<or> lb_CapturedAt b = []
      then Some (Errorf ''session rotation limit baseline is invalid'' [])
      else None)"

definition marker_validate :: "go_runtime \<Rightarrow> SessionRotationMarker \<Rightarrow> state_error option" where
  "marker_validate rt marker = first_err
     [if mk_Version marker \<noteq> sessionRotationMarkerVersion
      then Some (Errorf ''session rotation marker version is invalid'' [itoa (mk_Version marker)]) else None,
      if \<not> ValidUUIDFormat (mk_ParentThreadID marker)
      then Some (Errorf ''session rotation marker parent thread ID is invalid'' [mk_ParentThreadID marker]) else None,
      validateLifecycle rt marker,
      case mk_Directive marker of None \<Rightarrow> None | Some d \<Rightarrow> directive_validate d,
      case mk_LimitBaseline marker of None \<Rightarrow> None | Some b \<Rightarrow> baseline_validate b,
      case mk_LastEvaluation marker of None \<Rightarrow> None
      | Some e \<Rightarrow> if er_TaskID e = [] \<or> er_At e = []
          then Some (Errorf ''session rotation marker last_evaluation is incomplete'' []) else None,
      if mk_UpdatedAt marker = [] then Some (Errorf ''session rotation marker has no updated_at'' []) else None]"

section \<open>Storing and loading markers\<close>

definition SessionRotationMarkerPath :: "string \<Rightarrow> string" where
  "SessionRotationMarkerPath threadID = sessionRotationDirectory @ ''/'' @ threadID @ ''.json''"

definition new_marker :: "string \<Rightarrow> SessionRotationMarker" where
  "new_marker threadID = \<lparr>mk_Version = sessionRotationMarkerVersion, mk_ParentThreadID = threadID, mk_State = [],
     mk_Directive = None, mk_Claim = None, mk_Issued = None, mk_LastCreationOutcome = None,
     mk_LimitBaseline = None, mk_AcceptedTasks = None, mk_LastEvaluation = None, mk_UpdatedAt = []\<rparr>"

definition decodeSessionRotationMarker :: "go_runtime \<Rightarrow> doc content \<Rightarrow> (state_error, SessionRotationMarker) result" where
  "decodeSessionRotationMarker rt c = (case c of
       Doc (MarkerD marker) \<Rightarrow> (case marker_validate rt marker of None \<Rightarrow> Inr marker | Some e \<Rightarrow> Inl e)
     | _ \<Rightarrow> Inl (Errorf ''session rotation marker schema is invalid'' []))"

definition LoadSessionRotationMarker :: "go_runtime \<Rightarrow> string \<Rightarrow> SessionRotationMarker option sop" where
  "LoadSessionRotationMarker rt threadID =
     (if \<not> ValidUUIDFormat threadID
      then throwE (Errorf ''session rotation marker parent thread ID is invalid'' [threadID])
      else bindE (attempt (ReadFile (SessionRotationMarkerPath threadID))) (\<lambda>r. case r of
          Inl e \<Rightarrow> if is_not_exist e then returnE None else throwE (Wrapf ''session rotation marker'' e)
        | Inr c \<Rightarrow> bindE (of_result (decodeSessionRotationMarker rt c)) (\<lambda>m. returnE (Some m))))"

definition writeSessionRotationMarker :: "go_runtime \<Rightarrow> SessionRotationMarker \<Rightarrow> unit sop" where
  "writeSessionRotationMarker rt marker = bindE Now (\<lambda>t.
     let marker = marker\<lparr>mk_UpdatedAt := rt_FormatRFC3339Nano rt t\<rparr> in
     thenE (check (marker_validate rt marker))
       (writeFileAtomic (SessionRotationMarkerPath (mk_ParentThreadID marker)) (Doc (MarkerD marker))))"

record SessionLimitReading =
  lr_LimitID :: string
  lr_UsedPercent :: int
  lr_ResetsAt :: int
  lr_CapturedAt :: int

definition sessionLimitBaselineFromReading :: "go_runtime \<Rightarrow> SessionLimitReading \<Rightarrow> SessionLimitBaseline" where
  "sessionLimitBaselineFromReading rt reading = \<lparr>lb_LimitID = lr_LimitID reading, lb_WindowResetsAt = lr_ResetsAt reading,
     lb_UsedPercent = lr_UsedPercent reading, lb_CapturedAt = rt_FormatRFC3339Nano rt (lr_CapturedAt reading)\<rparr>"

definition SaveSessionLimitBaseline :: "go_runtime \<Rightarrow> string \<Rightarrow> SessionLimitReading \<Rightarrow> unit sop" where
  "SaveSessionLimitBaseline rt threadID reading = bindE (LoadSessionRotationMarker rt threadID) (\<lambda>m.
     let marker = (case m of None \<Rightarrow> new_marker threadID | Some marker \<Rightarrow> marker) in
     if (case mk_LimitBaseline marker of None \<Rightarrow> False
         | Some b \<Rightarrow> lb_LimitID b = lr_LimitID reading \<and> lb_WindowResetsAt b = lr_ResetsAt reading)
     then returnE ()
     else writeSessionRotationMarker rt (marker\<lparr>mk_LimitBaseline := Some (sessionLimitBaselineFromReading rt reading)\<rparr>))"

section \<open>Claiming, releasing and binding\<close>

definition reusableSessionRotationClaim :: "SessionRotationMarker \<Rightarrow> string \<Rightarrow> SessionRotationClaim option" where
  "reusableSessionRotationClaim marker parentThreadID =
     (if mk_State marker \<noteq> SessionRotationStateClaimed \<and> mk_State marker \<noteq> SessionRotationStateBound then None
      else case mk_Claim marker of
        None \<Rightarrow> None
      | Some c \<Rightarrow> if cl_ClaimantThreadID c \<noteq> parentThreadID then None else Some c)"

definition ClaimSessionRotation ::
    "go_runtime \<Rightarrow> 8 word list \<Rightarrow> 8 word list \<Rightarrow> string \<Rightarrow> string \<Rightarrow> SessionRotationClaim sop" where
  "ClaimSessionRotation rt claim_bytes task_bytes parentThreadID directiveID =
     bindE (LoadSessionRotationMarker rt parentThreadID) (\<lambda>m. case m of
         None \<Rightarrow> throwE (Errorf ''session rotation directive not found'' [])
       | Some marker \<Rightarrow>
           if (case mk_Directive marker of None \<Rightarrow> True | Some d \<Rightarrow> di_DirectiveID d \<noteq> directiveID)
           then throwE (Errorf ''session rotation directive not found'' [])
           else case reusableSessionRotationClaim marker parentThreadID of
             Some existing \<Rightarrow> returnE existing
           | None \<Rightarrow>
               if mk_State marker \<noteq> SessionRotationStatePending
               then throwE (Errorf ''session rotation directive is already claimed'' [mk_State marker])
               else bindE Now (\<lambda>t.
                 let claim = \<lparr>cl_ClaimID = NewUUID claim_bytes, cl_ClaimantThreadID = parentThreadID,
                        cl_TargetTaskID = NewUUID task_bytes, cl_ClaimedAt = rt_FormatRFC3339Nano rt t,
                        cl_BoundThreadID = [], cl_BoundAt = []\<rparr>
                 in thenE (writeSessionRotationMarker rt
                       (marker\<lparr>mk_State := SessionRotationStateClaimed, mk_Claim := Some claim\<rparr>))
                     (returnE claim)))"

text \<open>\<open>SessionRotationCreationResult\<close> is what the creator of the next session reports back.\<close>

record SessionRotationCreationResult =
  cr_Version :: int
  cr_Outcome :: string
  cr_ParentThreadID :: string
  cr_DirectiveID :: string
  cr_ClaimID :: string
  cr_TargetTaskID :: string

definition validateForRelease ::
    "SessionRotationCreationResult \<Rightarrow> string \<Rightarrow> string \<Rightarrow> string \<Rightarrow> string \<Rightarrow> state_error option" where
  "validateForRelease result parentThreadID directiveID claimID targetTaskID = first_err
     [validateSessionRotationCreationIdentity (cr_Version result) (cr_Outcome result) (cr_ParentThreadID result)
        (cr_DirectiveID result) (cr_ClaimID result) (cr_TargetTaskID result),
      if cr_ParentThreadID result \<noteq> parentThreadID \<or> cr_DirectiveID result \<noteq> directiveID \<or>
         cr_ClaimID result \<noteq> claimID \<or> cr_TargetTaskID result \<noteq> targetTaskID
      then Some (Errorf ''session rotation creation result does not match the current claim identity'' []) else None]"

definition newSessionRotationCreationOutcome ::
    "go_runtime \<Rightarrow> int \<Rightarrow> SessionRotationCreationResult \<Rightarrow> SessionRotationCreationOutcome" where
  "newSessionRotationCreationOutcome rt t result = \<lparr>co_Version = cr_Version result, co_Outcome = cr_Outcome result,
     co_ParentThreadID = cr_ParentThreadID result, co_DirectiveID = cr_DirectiveID result,
     co_ClaimID = cr_ClaimID result, co_TargetTaskID = cr_TargetTaskID result,
     co_RecordedAt = rt_FormatRFC3339Nano rt t\<rparr>"

text \<open>\<open>with_claim\<close>: the marker of a thread whose directive and claim have the given identities.\<close>

definition with_claim ::
    "go_runtime \<Rightarrow> string \<Rightarrow> string \<Rightarrow> string \<Rightarrow> (SessionRotationMarker \<Rightarrow> SessionRotationClaim \<Rightarrow> 'a sop) \<Rightarrow> 'a sop" where
  "with_claim rt parentThreadID directiveID claimID k =
     bindE (LoadSessionRotationMarker rt parentThreadID) (\<lambda>m. case m of
         None \<Rightarrow> throwE (Errorf ''session rotation claim does not match'' [])
       | Some marker \<Rightarrow> (case (mk_Directive marker, mk_Claim marker) of
             (Some d, Some c) \<Rightarrow>
               if di_DirectiveID d \<noteq> directiveID \<or> cl_ClaimID c \<noteq> claimID
               then throwE (Errorf ''session rotation claim does not match'' [])
               else k marker c
           | _ \<Rightarrow> throwE (Errorf ''session rotation claim does not match'' [])))"

definition ReleaseSessionRotationClaim ::
    "go_runtime \<Rightarrow> string \<Rightarrow> string \<Rightarrow> string \<Rightarrow> SessionRotationCreationResult \<Rightarrow> unit sop" where
  "ReleaseSessionRotationClaim rt parentThreadID directiveID claimID result =
     with_claim rt parentThreadID directiveID claimID (\<lambda>marker claim.
       if mk_State marker \<noteq> SessionRotationStateClaimed
       then throwE (Errorf ''bound or completed session rotation claim cannot be released'' [mk_State marker])
       else thenE (check (validateForRelease result parentThreadID directiveID claimID (cl_TargetTaskID claim)))
         (bindE Now (\<lambda>t. writeSessionRotationMarker rt
            (marker\<lparr>mk_LastCreationOutcome := Some (newSessionRotationCreationOutcome rt t result),
                    mk_State := SessionRotationStatePending, mk_Claim := None\<rparr>))))"

definition BindSessionRotationClaim ::
    "go_runtime \<Rightarrow> string \<Rightarrow> string \<Rightarrow> string \<Rightarrow> string \<Rightarrow> unit sop" where
  "BindSessionRotationClaim rt parentThreadID directiveID claimID boundThreadID =
     (if \<not> ValidUUIDFormat boundThreadID \<or> boundThreadID = parentThreadID
      then throwE (Errorf ''session rotation bind target thread ID is invalid'' [boundThreadID])
      else with_claim rt parentThreadID directiveID claimID (\<lambda>marker claim.
        if mk_State marker = SessionRotationStateBound \<and> cl_BoundThreadID claim = boundThreadID then returnE ()
        else if mk_State marker \<noteq> SessionRotationStateClaimed
        then throwE (Errorf ''session rotation claim cannot be bound'' [mk_State marker])
        else bindE Now (\<lambda>t. writeSessionRotationMarker rt
          (marker\<lparr>mk_State := SessionRotationStateBound,
             mk_Claim := Some (claim\<lparr>cl_BoundThreadID := boundThreadID, cl_BoundAt := rt_FormatRFC3339Nano rt t\<rparr>)\<rparr>))))"

section \<open>The identity of the parent session\<close>

definition parentCodexIdentityFile :: string where "parentCodexIdentityFile = ''parent-codex-identity.json''"
definition parentCodexIdentityVersion :: int where "parentCodexIdentityVersion = 1"

definition readParentCodexIdentity :: "ParentCodexIdentity sop" where
  "readParentCodexIdentity = bindE (ReadFile parentCodexIdentityFile) (\<lambda>c. case c of
       Doc (IdentityD i) \<Rightarrow> bindE (ReadOr ''task.id'' []) (\<lambda>taskID.
         if ci_Version i \<noteq> parentCodexIdentityVersion \<or> ci_TaskID i = [] \<or> ci_TaskID i \<noteq> taskID \<or>
            \<not> ValidUUIDFormat (ci_ThreadID i) \<or> \<not> ValidUUIDFormat (ci_SessionID i)
         then throwE (Errorf ''parent Codex identity schema is invalid'' [])
         else returnE i)
     | _ \<Rightarrow> throwE (Errorf ''parent Codex identity is unreadable'' []))"

definition CurrentParentCodexIdentity :: "ParentCodexIdentity sop" where
  "CurrentParentCodexIdentity = readParentCodexIdentity"

definition writeParentCodexIdentity :: "ParentCodexIdentity \<Rightarrow> unit sop" where
  "writeParentCodexIdentity identity = writeFileAtomic parentCodexIdentityFile (Doc (IdentityD identity))"

definition parentCodexIdentityAlreadyBound :: "string \<Rightarrow> string \<Rightarrow> string \<Rightarrow> bool sop" where
  "parentCodexIdentityAlreadyBound taskID threadID sessionID =
     bindE (attempt readParentCodexIdentity) (\<lambda>r. case r of
         Inl e \<Rightarrow> if is_not_exist e then returnE False else throwE e
       | Inr i \<Rightarrow> if ci_TaskID i \<noteq> taskID \<or> ci_ThreadID i \<noteq> threadID \<or> ci_SessionID i \<noteq> sessionID
           then throwE (Errorf ''stored parent Codex identity conflicts'' [ci_ThreadID i, ci_SessionID i, threadID, sessionID])
           else returnE True)"

text \<open>\<open>readSessionLimit\<close> is the callback of the caller: absent, or the reading it returns, if any.\<close>

definition captureParentCodexLimitBaseline ::
    "go_runtime \<Rightarrow> string \<Rightarrow> SessionLimitReading option option \<Rightarrow> unit sop" where
  "captureParentCodexLimitBaseline rt threadID readSessionLimit = (case readSessionLimit of
       Some (Some reading) \<Rightarrow> SaveSessionLimitBaseline rt threadID reading
     | _ \<Rightarrow> returnE ())"

definition SetParentCodexIdentity ::
    "go_runtime \<Rightarrow> string \<Rightarrow> string \<Rightarrow> SessionLimitReading option option \<Rightarrow> unit sop" where
  "SetParentCodexIdentity rt threadID sessionID readSessionLimit =
     (if \<not> ValidUUIDFormat threadID \<or> \<not> ValidUUIDFormat sessionID
      then throwE (Errorf ''parent Codex identity is invalid'' [threadID, sessionID])
      else bindE (ReadOr ''task.id'' []) (\<lambda>taskID.
        if taskID = [] then returnE ()
        else bindE (parentCodexIdentityAlreadyBound taskID threadID sessionID) (\<lambda>bound.
          if bound then returnE ()
          else thenE (captureParentCodexLimitBaseline rt threadID readSessionLimit)
            (writeParentCodexIdentity \<lparr>ci_Version = parentCodexIdentityVersion, ci_TaskID = taskID,
               ci_ThreadID = threadID, ci_SessionID = sessionID\<rparr>))))"

section \<open>Listing the markers\<close>

definition trim_ext :: "string \<Rightarrow> string" where
  "trim_ext name = (if CHR ''.'' \<in> set name then rev (tl (dropWhile (\<lambda>c. c \<noteq> CHR ''.'') (rev name))) else name)"

definition sessionRotationMarkerThreadID :: "string \<Rightarrow> string" where
  "sessionRotationMarkerThreadID name = (if ValidUUIDFormat (trim_ext name) then trim_ext name else [])"

fun load_markers :: "go_runtime \<Rightarrow> string list \<Rightarrow> SessionRotationMarker list sop" where
  "load_markers rt [] = returnE []"
| "load_markers rt (entry # entries) =
     (if sessionRotationMarkerThreadID entry = [] then load_markers rt entries
      else bindE (LoadSessionRotationMarker rt (sessionRotationMarkerThreadID entry)) (\<lambda>m.
        bindE (load_markers rt entries) (\<lambda>markers.
          returnE (case m of None \<Rightarrow> markers | Some marker \<Rightarrow> marker # markers))))"

definition loadSessionRotationMarkers :: "go_runtime \<Rightarrow> SessionRotationMarker list sop" where
  "loadSessionRotationMarkers rt = bindE (attempt (ReadDir sessionRotationDirectory)) (\<lambda>r. case r of
       Inl e \<Rightarrow> if is_not_exist e then returnE [] else throwE (Wrapf ''session rotation markers'' e)
     | Inr entries \<Rightarrow> load_markers rt entries)"

definition has_claim :: "string \<Rightarrow> SessionRotationMarker \<Rightarrow> bool" where
  "has_claim claimID marker = (case mk_Claim marker of None \<Rightarrow> False | Some c \<Rightarrow> cl_ClaimID c = claimID)"

definition findSessionRotationClaim :: "go_runtime \<Rightarrow> string \<Rightarrow> SessionRotationMarker sop" where
  "findSessionRotationClaim rt claimID = bindE (loadSessionRotationMarkers rt) (\<lambda>markers.
     case filter (has_claim claimID) markers of
       [] \<Rightarrow> throwE (Errorf ''session rotation claim not found'' [])
     | [marker] \<Rightarrow> returnE marker
     | _ \<Rightarrow> throwE (Errorf ''session rotation claim is duplicated'' []))"

definition AcknowledgeSessionRotationClaim :: "go_runtime \<Rightarrow> string \<Rightarrow> string \<Rightarrow> unit sop" where
  "AcknowledgeSessionRotationClaim rt claimID boundThreadID =
     bindE (findSessionRotationClaim rt claimID) (\<lambda>marker.
       if mk_State marker = SessionRotationStateIssued \<and>
          (case mk_Issued marker of None \<Rightarrow> False | Some i \<Rightarrow> is_BoundThreadID i = boundThreadID)
       then returnE ()
       else case mk_Claim marker of
         None \<Rightarrow> throwE (Errorf ''session rotation claim cannot be acknowledged by this thread'' [])
       | Some claim \<Rightarrow>
           if mk_State marker \<noteq> SessionRotationStateBound \<or> cl_BoundThreadID claim \<noteq> boundThreadID
           then throwE (Errorf ''session rotation claim cannot be acknowledged by this thread'' [])
           else bindE (ReadOr ''task.id'' []) (\<lambda>taskID.
             if taskID \<noteq> cl_TargetTaskID claim
             then throwE (Errorf ''session rotation claim target task has not started'' [])
             else bindE (attempt CurrentParentCodexIdentity) (\<lambda>r.
               if (case r of Inl _ \<Rightarrow> True
                   | Inr i \<Rightarrow> ci_ThreadID i \<noteq> boundThreadID \<or> ci_TaskID i \<noteq> cl_TargetTaskID claim)
               then throwE (Errorf ''session rotation claim parent identity does not match the bound thread'' [])
               else bindE Now (\<lambda>t. writeSessionRotationMarker rt
                 (marker\<lparr>mk_State := SessionRotationStateIssued,
                    mk_Issued := Some \<lparr>is_BoundThreadID = boundThreadID,
                      is_IssuedAt = rt_FormatRFC3339Nano rt t\<rparr>\<rparr>)))))"

section \<open>Incomplete rotations\<close>

record IncompleteSessionRotation =
  ir_ParentThreadID :: string
  ir_State :: string
  ir_DirectiveID :: string
  ir_ClaimID :: string
  ir_BoundThreadID :: string

definition incompleteSessionRotationFromMarker :: "SessionRotationMarker \<Rightarrow> IncompleteSessionRotation option" where
  "incompleteSessionRotationFromMarker marker = (case mk_Directive marker of
       None \<Rightarrow> None
     | Some d \<Rightarrow>
         if mk_State marker \<noteq> SessionRotationStatePending \<and> mk_State marker \<noteq> SessionRotationStateClaimed \<and>
            mk_State marker \<noteq> SessionRotationStateBound then None
         else Some \<lparr>ir_ParentThreadID = mk_ParentThreadID marker, ir_State = mk_State marker,
           ir_DirectiveID = di_DirectiveID d,
           ir_ClaimID = (case mk_Claim marker of None \<Rightarrow> [] | Some c \<Rightarrow> cl_ClaimID c),
           ir_BoundThreadID = (case mk_Claim marker of None \<Rightarrow> [] | Some c \<Rightarrow> cl_BoundThreadID c)\<rparr>)"

text \<open>The rotations are sorted by parent thread; each thread has one marker file.\<close>

definition IncompleteSessionRotations :: "go_runtime \<Rightarrow> IncompleteSessionRotation list sop" where
  "IncompleteSessionRotations rt = bindE (loadSessionRotationMarkers rt) (\<lambda>markers.
     returnE (sort_key ir_ParentThreadID (List.map_filter incompleteSessionRotationFromMarker markers)))"

section \<open>Admission of a new task\<close>

definition sessionRotationStartRetryable :: "go_runtime \<Rightarrow> bool sop" where
  "sessionRotationStartRetryable rt = bindE get_TaskStatus (\<lambda>status.
     if status \<noteq> TaskStatusActive then returnE False
     else bindE (attempt (LoadResumeCheckpoint rt)) (\<lambda>r. returnE (case r of
         Inl _ \<Rightarrow> False | Inr c \<Rightarrow> rc_Phase c = ''worker-new'' \<and> rc_Role c = WorkerRole)))"

definition sessionRotationSourceTaskAdmitted :: "SessionRotationMarker \<Rightarrow> string \<Rightarrow> bool sop" where
  "sessionRotationSourceTaskAdmitted marker currentTaskID =
     (if (case mk_Directive marker of None \<Rightarrow> False | Some d \<Rightarrow> currentTaskID = di_TaskID d) \<or>
         (case mk_Claim marker of None \<Rightarrow> False | Some c \<Rightarrow> currentTaskID = cl_TargetTaskID c) then returnE True
      else if currentTaskID = [] then returnE False
      else case mk_LastEvaluation marker of
        None \<Rightarrow> returnE False
      | Some evaluation \<Rightarrow>
          if er_TaskID evaluation \<noteq> currentTaskID \<or> \<not> er_Required evaluation then returnE False
          else if er_Terminal evaluation \<noteq> SessionRotationTerminalAccept \<and>
                  er_Terminal evaluation \<noteq> SessionRotationTerminalNoGo then returnE False
          else bindE get_TaskStatus (\<lambda>status. returnE (status = TaskStatusComplete)))"

definition admitClaimedSessionRotation :: "go_runtime \<Rightarrow> string \<Rightarrow> string \<Rightarrow> bool sop" where
  "admitClaimedSessionRotation rt callerThreadID claimID =
     bindE (findSessionRotationClaim rt claimID) (\<lambda>marker. case mk_Claim marker of
         None \<Rightarrow> throwE (Errorf ''session rotation claim or bound thread does not match'' [])
       | Some claim \<Rightarrow>
           if cl_BoundThreadID claim \<noteq> callerThreadID
           then throwE (Errorf ''session rotation claim or bound thread does not match'' [])
           else bindE (ReadOr ''task.id'' []) (\<lambda>currentTaskID.
             if mk_State marker = SessionRotationStateIssued then
               bindE (if currentTaskID = cl_TargetTaskID claim then sessionRotationStartRetryable rt else returnE False) (\<lambda>ok.
                 if ok then returnE True
                 else throwE (Errorf ''session rotation claim is already complete'' []))
             else if mk_State marker \<noteq> SessionRotationStateBound
             then throwE (Errorf ''session rotation claim cannot be used to start'' [mk_State marker])
             else bindE (sessionRotationSourceTaskAdmitted marker currentTaskID) (\<lambda>admitted.
               if \<not> admitted then throwE (Errorf ''session rotation task identity does not match'' [])
               else returnE (currentTaskID = cl_TargetTaskID claim))))"

definition sessionRotationMarkerTargets :: "SessionRotationMarker \<Rightarrow> string \<Rightarrow> string \<Rightarrow> bool" where
  "sessionRotationMarkerTargets marker callerThreadID taskID = (case mk_Claim marker of
       None \<Rightarrow> False
     | Some c \<Rightarrow> cl_BoundThreadID c = callerThreadID \<and> cl_TargetTaskID c = taskID \<and>
         (mk_State marker = SessionRotationStateBound \<or> mk_State marker = SessionRotationStateIssued))"

definition incompleteSessionRotationTarget :: "go_runtime \<Rightarrow> string \<Rightarrow> bool sop" where
  "incompleteSessionRotationTarget rt callerThreadID =
     (if \<not> ValidUUIDFormat callerThreadID then returnE False
      else bindE get_TaskStatus (\<lambda>status.
        if status \<noteq> TaskStatusActive then returnE False
        else bindE (loadSessionRotationMarkers rt) (\<lambda>markers.
          bindE (ReadOr ''task.id'' []) (\<lambda>currentTaskID.
            returnE (list_ex (\<lambda>m. sessionRotationMarkerTargets m callerThreadID currentTaskID) markers)))))"

definition rejectRetiredSessionRotationCaller :: "go_runtime \<Rightarrow> string \<Rightarrow> unit sop" where
  "rejectRetiredSessionRotationCaller rt callerThreadID =
     (if \<not> ValidUUIDFormat callerThreadID then returnE ()
      else bindE (LoadSessionRotationMarker rt callerThreadID) (\<lambda>m.
        if (case m of None \<Rightarrow> False | Some marker \<Rightarrow> mk_State marker = SessionRotationStateIssued)
        then throwE (Errorf ''a retired session rotation parent cannot start a new task'' [])
        else returnE ()))"

definition rejectIncompleteSessionRotation :: "go_runtime \<Rightarrow> string \<Rightarrow> unit sop" where
  "rejectIncompleteSessionRotation rt callerThreadID = bindE (IncompleteSessionRotations rt) (\<lambda>rotations.
     case rotations of
       [] \<Rightarrow> returnE ()
     | rotation # _ \<Rightarrow>
         if ir_State rotation = SessionRotationStateBound \<and> ir_BoundThreadID rotation = callerThreadID
         then throwE (Errorf ''start the session rotation bound to this thread with its claim'' [ir_ClaimID rotation])
         else throwE (Errorf ''complete the incomplete session rotation first''
           [ir_ParentThreadID rotation, ir_State rotation, ir_DirectiveID rotation]))"

definition admitUnclaimedNewTask :: "go_runtime \<Rightarrow> string \<Rightarrow> bool sop" where
  "admitUnclaimedNewTask rt callerThreadID =
     bindE (incompleteSessionRotationTarget rt callerThreadID) (\<lambda>incomplete.
       if incomplete then throwE (Errorf ''retrying a session rotation start requires its claim'' [])
       else thenE (rejectRetiredSessionRotationCaller rt callerThreadID)
         (thenE (rejectIncompleteSessionRotation rt callerThreadID) (returnE False)))"

definition AdmitNewTaskRotation :: "go_runtime \<Rightarrow> string \<Rightarrow> string \<Rightarrow> bool sop" where
  "AdmitNewTaskRotation rt callerThreadID claimID =
     (if claimID \<noteq> [] then admitClaimedSessionRotation rt callerThreadID claimID
      else admitUnclaimedNewTask rt callerThreadID)"

definition ValidateNewTaskRotation :: "go_runtime \<Rightarrow> string \<Rightarrow> string \<Rightarrow> unit sop" where
  "ValidateNewTaskRotation rt callerThreadID claimID =
     thenE (AdmitNewTaskRotation rt callerThreadID claimID) (returnE ())"

section \<open>Committing an evaluation\<close>

record SessionRotationDecision =
  rd_Required :: bool
  rd_DecisionReason :: string
  rd_Evidence :: "SessionRotationEvidence list"

record SessionRotationEvaluation =
  se_ParentThreadID :: string
  se_TaskID :: string
  se_Terminal :: string
  se_Decision :: SessionRotationDecision
  se_AcceptedTasks :: int
  se_AcceptedTasksUnavailable :: bool
  se_LimitBaselineUpdate :: "SessionLimitBaseline option"

definition sessionRotationAcceptedTasksForCommit :: "SessionRotationEvaluation \<Rightarrow> int option" where
  "sessionRotationAcceptedTasksForCommit evaluation =
     (if se_AcceptedTasksUnavailable evaluation then None else Some (se_AcceptedTasks evaluation))"

text \<open>\<open>evaluated_marker\<close> enters the evaluation, \<open>directed_marker\<close> the new directive it asks for.\<close>

definition evaluated_marker ::
    "go_runtime \<Rightarrow> int \<Rightarrow> SessionRotationEvaluation \<Rightarrow> SessionRotationMarker \<Rightarrow> SessionRotationMarker" where
  "evaluated_marker rt t evaluation marker = marker\<lparr>
     mk_AcceptedTasks := sessionRotationAcceptedTasksForCommit evaluation,
     mk_LimitBaseline := (case se_LimitBaselineUpdate evaluation of
         None \<Rightarrow> mk_LimitBaseline marker | Some b \<Rightarrow> Some b),
     mk_LastEvaluation := Some \<lparr>er_TaskID = se_TaskID evaluation, er_Terminal = se_Terminal evaluation,
       er_Required = rd_Required (se_Decision evaluation), er_Reason = rd_DecisionReason (se_Decision evaluation),
       er_At = rt_FormatRFC3339Nano rt t\<rparr>\<rparr>"

definition directed_marker ::
    "go_runtime \<Rightarrow> 8 word list \<Rightarrow> int \<Rightarrow> SessionRotationEvaluation \<Rightarrow> SessionRotationMarker \<Rightarrow> SessionRotationMarker" where
  "directed_marker rt bytes t evaluation marker = marker\<lparr>
     mk_State := SessionRotationStatePending, mk_Claim := None, mk_Issued := None,
     mk_Directive := Some \<lparr>di_DirectiveID = NewUUID bytes, di_TaskID = se_TaskID evaluation,
       di_Terminal = se_Terminal evaluation, di_Epoch = se_TaskID evaluation @ '':'' @ se_Terminal evaluation,
       di_Reason = rd_DecisionReason (se_Decision evaluation), di_Evidence = rd_Evidence (se_Decision evaluation),
       di_CreatedAt = rt_FormatRFC3339Nano rt t\<rparr>\<rparr>"

definition commit_marker ::
    "go_runtime \<Rightarrow> 8 word list \<Rightarrow> int \<Rightarrow> SessionRotationEvaluation \<Rightarrow> SessionRotationMarker \<Rightarrow> SessionRotationMarker" where
  "commit_marker rt bytes t evaluation marker =
     (let marker = evaluated_marker rt t evaluation marker in
      if rd_Required (se_Decision evaluation) \<and> mk_State marker \<noteq> SessionRotationStatePending \<and>
         \<not> (mk_State marker = SessionRotationStateClaimed \<or> mk_State marker = SessionRotationStateBound)
      then directed_marker rt bytes t evaluation marker else marker)"

definition commitSessionRotation ::
    "go_runtime \<Rightarrow> 8 word list \<Rightarrow> SessionRotationEvaluation option \<Rightarrow> unit sop" where
  "commitSessionRotation rt bytes evaluation' = (case evaluation' of
       None \<Rightarrow> returnE ()
     | Some evaluation \<Rightarrow>
         if \<not> ValidUUIDFormat (se_ParentThreadID evaluation)
         then throwE (Errorf ''session rotation requires a valid parent Codex thread identity'' [se_ParentThreadID evaluation])
         else if se_TaskID evaluation = []
         then throwE (Errorf ''session rotation requires the current task ID'' [])
         else bindE (LoadSessionRotationMarker rt (se_ParentThreadID evaluation)) (\<lambda>m.
           bindE Now (\<lambda>t. writeSessionRotationMarker rt (commit_marker rt bytes t evaluation
             (case m of None \<Rightarrow> new_marker (se_ParentThreadID evaluation) | Some marker \<Rightarrow> marker)))))"

section \<open>Accepted tasks and projection\<close>

definition sessionRotationMarkerHasTaskHistory :: "SessionRotationMarker option \<Rightarrow> bool" where
  "sessionRotationMarkerHasTaskHistory m = (case m of None \<Rightarrow> False
     | Some marker \<Rightarrow> mk_State marker \<noteq> [] \<or> mk_Directive marker \<noteq> None \<or> mk_Claim marker \<noteq> None \<or>
         mk_Issued marker \<noteq> None \<or> mk_LastEvaluation marker \<noteq> None)"

definition issued_to :: "string \<Rightarrow> SessionRotationMarker \<Rightarrow> bool" where
  "issued_to threadID marker \<longleftrightarrow> mk_State marker = SessionRotationStateIssued \<and>
     (case mk_Issued marker of None \<Rightarrow> False | Some i \<Rightarrow> is_BoundThreadID i = threadID)"

fun issued_source :: "go_runtime \<Rightarrow> string \<Rightarrow> string \<Rightarrow> string list \<Rightarrow> string sop" where
  "issued_source rt threadID found [] = returnE found"
| "issued_source rt threadID found (entry # entries) =
     (let sourceThreadID = sessionRotationMarkerThreadID entry in
      if sourceThreadID = [] \<or> sourceThreadID = threadID then issued_source rt threadID found entries
      else bindE (LoadSessionRotationMarker rt sourceThreadID) (\<lambda>m.
        if (case m of None \<Rightarrow> True | Some marker \<Rightarrow> \<not> issued_to threadID marker)
        then issued_source rt threadID found entries
        else if found \<noteq> []
        then throwE (Errorf ''session rotation accepted-task source is duplicated'' [threadID])
        else issued_source rt threadID (SessionRotationMarkerPath sourceThreadID) entries))"

definition sessionRotationIssuedSourceForThread :: "go_runtime \<Rightarrow> string \<Rightarrow> (string \<times> bool) sop" where
  "sessionRotationIssuedSourceForThread rt threadID =
     bindE (attempt (ReadDir sessionRotationDirectory)) (\<lambda>r. case r of
         Inl e \<Rightarrow> if is_not_exist e then returnE ([], False) else throwE (Wrapf ''session rotation markers'' e)
       | Inr entries \<Rightarrow> bindE (issued_source rt threadID [] entries) (\<lambda>found. returnE (found, found \<noteq> [])))"

definition SessionRotationAcceptedTaskCount :: "go_runtime \<Rightarrow> string \<Rightarrow> (int \<times> bool \<times> string) sop" where
  "SessionRotationAcceptedTaskCount rt threadID =
     (let markerPath = SessionRotationMarkerPath threadID in
      bindE (LoadSessionRotationMarker rt threadID) (\<lambda>m.
        case Option.bind m mk_AcceptedTasks of
          Some n \<Rightarrow> returnE (n, True, markerPath)
        | None \<Rightarrow>
            if sessionRotationMarkerHasTaskHistory m then returnE (0, False, markerPath)
            else bindE (sessionRotationIssuedSourceForThread rt threadID) (\<lambda>(source, found).
              returnE (if found then (0, True, source) else (0, False, markerPath)))))"

record SessionRotationProjection =
  sp_ParentThreadID :: string
  sp_State :: string
  sp_Directive :: "SessionRotationDirective option"
  sp_Claim :: "SessionRotationClaim option"
  sp_LastEvaluation :: "SessionRotationEvaluationRecord option"
  sp_Reason :: string
  sp_Incomplete :: "IncompleteSessionRotation list"

definition ProjectSessionRotation :: "go_runtime \<Rightarrow> string \<Rightarrow> SessionRotationProjection sop" where
  "ProjectSessionRotation rt threadID = bindE (IncompleteSessionRotations rt) (\<lambda>incomplete.
     let blank = \<lparr>sp_ParentThreadID = threadID, sp_State = SessionRotationProjectionUnavailable, sp_Directive = None,
           sp_Claim = None, sp_LastEvaluation = None, sp_Reason = [], sp_Incomplete = incomplete\<rparr> in
     if threadID = [] then returnE (blank\<lparr>sp_Reason := ''parent-thread-identity-unbound''\<rparr>)
     else if \<not> ValidUUIDFormat threadID
     then throwE (Errorf ''session rotation parent thread ID is invalid'' [threadID])
     else bindE (LoadSessionRotationMarker rt threadID) (\<lambda>m. case m of
         None \<Rightarrow> returnE (blank\<lparr>sp_Reason := ''no-session-rotation-evaluation''\<rparr>)
       | Some marker \<Rightarrow>
           (let projection = blank\<lparr>sp_State := SessionRotationProjectionNotRequired,
                  sp_LastEvaluation := mk_LastEvaluation marker\<rparr>
            in returnE (if mk_State marker \<in> {SessionRotationStatePending, SessionRotationStateClaimed, SessionRotationStateBound}
              then projection\<lparr>sp_State := mk_State marker, sp_Directive := mk_Directive marker, sp_Claim := mk_Claim marker\<rparr>
              else projection))))"

section \<open>Retiring pending recommendations at an ordinary start\<close>

definition pendingSessionRotationRetirementStateFile :: string where
  "pendingSessionRotationRetirementStateFile = ''pending-session-rotation-retirement.json''"
definition pendingSessionRotationRetirementVersion :: int where "pendingSessionRotationRetirementVersion = 1"

fun boundary_error :: "string \<Rightarrow> IncompleteSessionRotation list \<Rightarrow> state_error option" where
  "boundary_error callerThreadID [] = None"
| "boundary_error callerThreadID (rotation # rotations) =
     (if ir_State rotation = SessionRotationStatePending then boundary_error callerThreadID rotations
      else if ir_State rotation = SessionRotationStateBound \<and> ir_BoundThreadID rotation = callerThreadID
      then Some (Errorf ''start the session rotation bound to this thread with its claim'' [ir_ClaimID rotation])
      else if ir_State rotation = SessionRotationStateBound \<or> ir_State rotation = SessionRotationStateClaimed
      then Some (Errorf ''complete the claimed session rotation first''
        [ir_ParentThreadID rotation, ir_State rotation, ir_DirectiveID rotation])
      else Some (Errorf ''unsupported session rotation state'' [ir_State rotation]))"

definition AdmitNewTaskRotationBoundary :: "go_runtime \<Rightarrow> string \<Rightarrow> string \<Rightarrow> bool sop" where
  "AdmitNewTaskRotationBoundary rt callerThreadID claimID =
     (if claimID \<noteq> [] then AdmitNewTaskRotation rt callerThreadID claimID
      else bindE (incompleteSessionRotationTarget rt callerThreadID) (\<lambda>incomplete.
        if incomplete then throwE (Errorf ''retrying a session rotation start requires its claim'' [])
        else thenE (rejectRetiredSessionRotationCaller rt callerThreadID)
          (bindE (IncompleteSessionRotations rt) (\<lambda>rotations.
            thenE (check (boundary_error callerThreadID rotations)) (returnE False)))))"

definition ClearPendingSessionRotationRecommendationRetirement :: "unit sop" where
  "ClearPendingSessionRotationRecommendationRetirement = Remove [pendingSessionRotationRetirementStateFile]"

definition recommendation_of :: "IncompleteSessionRotation \<Rightarrow> pendingSessionRotationRetirementRecommendation" where
  "recommendation_of rotation = \<lparr>rr_ParentThreadID = ir_ParentThreadID rotation, rr_DirectiveID = ir_DirectiveID rotation\<rparr>"

definition StagePendingSessionRotationRecommendationRetirement :: "go_runtime \<Rightarrow> string \<Rightarrow> unit sop" where
  "StagePendingSessionRotationRecommendationRetirement rt callerThreadID =
     bindE (AdmitNewTaskRotationBoundary rt callerThreadID []) (\<lambda>resume.
       if resume then throwE (Errorf ''ordinary task start cannot resume a claimed session rotation'' [])
       else bindE (IncompleteSessionRotations rt) (\<lambda>rotations.
         case find (\<lambda>r. ir_State r \<noteq> SessionRotationStatePending) rotations of
           Some r \<Rightarrow> throwE (Errorf ''session rotation changed before ordinary task start''
             [ir_ParentThreadID r, ir_State r, ir_DirectiveID r])
         | None \<Rightarrow>
             if rotations = [] then ClearPendingSessionRotationRecommendationRetirement
             else writeFileAtomic pendingSessionRotationRetirementStateFile
               (Doc (RetirementD \<lparr>rs_Version = pendingSessionRotationRetirementVersion,
                  rs_CallerThreadID = callerThreadID, rs_Recommendations = map recommendation_of rotations\<rparr>))))"

fun stage_error :: "string list \<Rightarrow> pendingSessionRotationRetirementRecommendation list \<Rightarrow> state_error option" where
  "stage_error seen [] = None"
| "stage_error seen (r # rs) =
     (if \<not> ValidUUIDFormat (rr_ParentThreadID r) \<or> \<not> ValidGeneratedUUID (rr_DirectiveID r)
      then Some (Errorf ''pending session rotation retirement identity is invalid'' [])
      else if rr_ParentThreadID r \<in> set seen
      then Some (Errorf ''pending session rotation retirement parent thread is duplicated'' [rr_ParentThreadID r])
      else stage_error (rr_ParentThreadID r # seen) rs)"

definition loadPendingSessionRotationRecommendationRetirement ::
    "pendingSessionRotationRetirementStage option sop" where
  "loadPendingSessionRotationRecommendationRetirement =
     bindE (attempt (ReadFile pendingSessionRotationRetirementStateFile)) (\<lambda>r. case r of
         Inl e \<Rightarrow> if is_not_exist e then returnE None else throwE (Wrapf ''pending session rotation retirement'' e)
       | Inr (Doc (RetirementD stage)) \<Rightarrow>
           if rs_Version stage \<noteq> pendingSessionRotationRetirementVersion \<or> rs_Recommendations stage = []
           then throwE (Errorf ''pending session rotation retirement is invalid'' [])
           else thenE (check (stage_error [] (rs_Recommendations stage))) (returnE (Some stage))
       | Inr _ \<Rightarrow> throwE (Errorf ''pending session rotation retirement schema is invalid'' []))"

definition validatePendingSessionRotationRecommendationRetirementBoundary :: "go_runtime \<Rightarrow> unit sop" where
  "validatePendingSessionRotationRecommendationRetirementBoundary rt =
     bindE loadPendingSessionRotationRecommendationRetirement (\<lambda>stage'. case stage' of
         None \<Rightarrow> returnE ()
       | Some stage \<Rightarrow> bindE (AdmitNewTaskRotationBoundary rt (rs_CallerThreadID stage) []) (\<lambda>resume.
           if resume then throwE (Errorf ''ordinary task start cannot resume a claimed session rotation'' [])
           else returnE ()))"

definition pendingSessionRotationRetirementTransitionFiles :: "string list sop" where
  "pendingSessionRotationRetirementTransitionFiles =
     bindE loadPendingSessionRotationRecommendationRetirement (\<lambda>stage'. returnE (case stage' of
         None \<Rightarrow> []
       | Some stage \<Rightarrow> pendingSessionRotationRetirementStateFile #
           map (\<lambda>r. SessionRotationMarkerPath (rr_ParentThreadID r)) (rs_Recommendations stage)))"

definition validatePendingSessionRotationRecommendationSet ::
    "go_runtime \<Rightarrow> pendingSessionRotationRetirementStage \<Rightarrow> unit sop" where
  "validatePendingSessionRotationRecommendationSet rt stage =
     (let expected = map (\<lambda>r. (rr_ParentThreadID r, rr_DirectiveID r)) (rs_Recommendations stage) in
      bindE (IncompleteSessionRotations rt) (\<lambda>rotations.
        if length rotations \<noteq> length (remdups (map fst expected)) \<or>
           \<not> list_all (\<lambda>r. map_of (rev expected) (ir_ParentThreadID r) = Some (ir_DirectiveID r) \<and>
               ir_State r = SessionRotationStatePending) rotations
        then throwE (Errorf ''pending session rotation recommendations changed before ordinary task start'' [])
        else returnE ()))"

fun load_recommended :: "go_runtime \<Rightarrow> pendingSessionRotationRetirementRecommendation list \<Rightarrow> SessionRotationMarker list sop" where
  "load_recommended rt [] = returnE []"
| "load_recommended rt (r # rs) = bindE (LoadSessionRotationMarker rt (rr_ParentThreadID r)) (\<lambda>m.
     case m of
       Some marker \<Rightarrow>
         if mk_State marker \<noteq> SessionRotationStatePending \<or>
            (case mk_Directive marker of None \<Rightarrow> True | Some d \<Rightarrow> di_DirectiveID d \<noteq> rr_DirectiveID r)
         then throwE (Errorf ''pending session rotation recommendation changed before ordinary task start''
           [rr_ParentThreadID r, rr_DirectiveID r])
         else bindE (load_recommended rt rs) (\<lambda>markers. returnE (marker # markers))
     | None \<Rightarrow> throwE (Errorf ''pending session rotation recommendation changed before ordinary task start''
         [rr_ParentThreadID r, rr_DirectiveID r]))"

definition loadPendingSessionRotationRecommendationMarkers ::
    "go_runtime \<Rightarrow> pendingSessionRotationRetirementStage \<Rightarrow> SessionRotationMarker list sop" where
  "loadPendingSessionRotationRecommendationMarkers rt stage = load_recommended rt (rs_Recommendations stage)"

fun retirePendingSessionRotationRecommendationMarkers :: "go_runtime \<Rightarrow> SessionRotationMarker list \<Rightarrow> unit sop" where
  "retirePendingSessionRotationRecommendationMarkers rt [] = Remove [pendingSessionRotationRetirementStateFile]"
| "retirePendingSessionRotationRecommendationMarkers rt (marker # markers) =
     thenE (writeSessionRotationMarker rt (marker\<lparr>mk_State := [], mk_Directive := None\<rparr>))
       (retirePendingSessionRotationRecommendationMarkers rt markers)"

definition commitPendingSessionRotationRecommendationRetirement :: "go_runtime \<Rightarrow> unit sop" where
  "commitPendingSessionRotationRecommendationRetirement rt =
     bindE loadPendingSessionRotationRecommendationRetirement (\<lambda>stage'. case stage' of
         None \<Rightarrow> returnE ()
       | Some stage \<Rightarrow> thenE (validatePendingSessionRotationRecommendationSet rt stage)
           (bindE (loadPendingSessionRotationRecommendationMarkers rt stage)
              (retirePendingSessionRotationRecommendationMarkers rt)))"

end
