(* ===== verification/Rotation_Protocol.thy ===== *)
theory Rotation_Protocol
  imports Session_Rotation
begin

text \<open>
  Session rotation implements a protocol. \<open>rotation\<close> is the abstract state of a parent thread and
  \<open>rotation_step\<close> its protocol; \<open>rotation_of\<close> maps a stored marker to it. Every operation of
  \<^verbatim>\<open>session_rotation*.go\<close> that writes markers is a run that moves each thread by at most one step and
  keeps the directory well formed, whatever accesses fail.
\<close>

section \<open>The protocol\<close>

datatype rotation =
    NoDirective
  | PendingDirective (directive: string)
  | Claimed (directive: string) (claim: string) (target: string)
  | Bound (directive: string) (claim: string) (target: string) (thread: string)
  | Issued (directive: string) (thread: string)

inductive rotation_step :: "rotation \<Rightarrow> rotation \<Rightarrow> bool" where
  propose: "rotation_step NoDirective (PendingDirective d)"
| propose_again: "rotation_step (Issued d' th) (PendingDirective d)"
| claim: "rotation_step (PendingDirective d) (Claimed d c t)"
| release: "rotation_step (Claimed d c t) (PendingDirective d)"
| bind: "rotation_step (Claimed d c t) (Bound d c t th)"
| acknowledge: "rotation_step (Bound d c t th) (Issued d th)"
| retire: "rotation_step (PendingDirective d) NoDirective"

inductive_cases rotation_step_BoundE: "rotation_step (Bound d c t th) r"
inductive_cases rotation_step_IssuedE: "rotation_step (Issued d th) r"

definition rotation_of :: "SessionRotationMarker \<Rightarrow> rotation" where
  "rotation_of m = (case mk_Directive m of
       None \<Rightarrow> NoDirective
     | Some d \<Rightarrow>
         if mk_State m = SessionRotationStatePending then PendingDirective (di_DirectiveID d)
         else case mk_Claim m of
           Some c \<Rightarrow>
             if mk_State m = SessionRotationStateClaimed then Claimed (di_DirectiveID d) (cl_ClaimID c) (cl_TargetTaskID c)
             else if mk_State m = SessionRotationStateBound
             then Bound (di_DirectiveID d) (cl_ClaimID c) (cl_TargetTaskID c) (cl_BoundThreadID c)
             else (case mk_Issued m of None \<Rightarrow> NoDirective | Some i \<Rightarrow> Issued (di_DirectiveID d) (is_BoundThreadID i))
         | None \<Rightarrow> (case mk_Issued m of None \<Rightarrow> NoDirective | Some i \<Rightarrow> Issued (di_DirectiveID d) (is_BoundThreadID i)))"

definition marker_at :: "filemap \<Rightarrow> string \<Rightarrow> SessionRotationMarker option" where
  "marker_at F t = (case F (SessionRotationMarkerPath t) of Some (Doc (MarkerD m)) \<Rightarrow> Some m | _ \<Rightarrow> None)"

definition rotation_at :: "filemap \<Rightarrow> string \<Rightarrow> rotation" where
  "rotation_at F t = (case marker_at F t of None \<Rightarrow> NoDirective | Some m \<Rightarrow> rotation_of m)"

definition rotation_wf :: "go_runtime \<Rightarrow> filemap \<Rightarrow> bool" where
  "rotation_wf rt F \<longleftrightarrow> (\<forall>t m. marker_at F t = Some m \<longrightarrow> mk_ParentThreadID m = t \<and> marker_validate rt m = None)"

section \<open>What a write does\<close>

lemma marker_path_inj [simp]: "SessionRotationMarkerPath a = SessionRotationMarkerPath b \<longleftrightarrow> a = b"
  by (simp add: SessionRotationMarkerPath_def)

lemma marker_path_names [simp]:
  "SessionRotationMarkerPath a \<noteq> currentStatsFile" "SessionRotationMarkerPath a \<noteq> pendingSessionRotationRetirementStateFile"
  "SessionRotationMarkerPath a \<noteq> parentCodexIdentityFile"
  by (simp_all add: SessionRotationMarkerPath_def sessionRotationDirectory_def currentStatsFile_def
      pendingSessionRotationRetirementStateFile_def parentCodexIdentityFile_def)

lemma marker_at_write [simp]:
  "marker_at (F(SessionRotationMarkerPath a \<mapsto> Doc (MarkerD m))) t = (if t = a then Some m else marker_at F t)"
  by (simp add: marker_at_def)

lemma marker_at_other [simp]: "n \<noteq> SessionRotationMarkerPath t \<Longrightarrow> marker_at (F(n := v)) t = marker_at F t"
  by (simp add: marker_at_def)

lemma marker_at_state_is: "state_is F st \<Longrightarrow> marker_at (files st) t = marker_at F t"
  by (simp add: marker_at_def state_is_def)

definition marker_written :: "go_runtime \<Rightarrow> filemap \<Rightarrow> SessionRotationMarker \<Rightarrow> store \<Rightarrow> bool" where
  "marker_written rt F m st \<longleftrightarrow> (\<exists>u. marker_validate rt (m\<lparr>mk_UpdatedAt := u\<rparr>) = None \<and>
     state_is (F(SessionRotationMarkerPath (mk_ParentThreadID m) \<mapsto> Doc (MarkerD (m\<lparr>mk_UpdatedAt := u\<rparr>)))) st)"

lemma writeSessionRotationMarker_clean:
  "triple (state_is F) (writeSessionRotationMarker rt m) (\<lambda>_. marker_written rt F m) (\<lambda>_. state_is F)"
proof -
  have check': "triple (state_is F) (check c) (\<lambda>_ st. c = None \<and> state_is F st) (\<lambda>_. state_is F)" for c
    by (rule triple_check) simp_all
  show ?thesis
    unfolding writeSessionRotationMarker_def Let_def
    by (rule triple_bind [OF Now_clean], rule triple_then [OF check'], rule triple_assume,
        rule triple_weaken [OF writeFileAtomic_clean]) (auto simp: marker_written_def)
qed

lemma rotation_of_updated [simp]: "rotation_of (m\<lparr>mk_UpdatedAt := u\<rparr>) = rotation_of m"
  by (simp add: rotation_of_def split: option.split)

definition loaded :: "go_runtime \<Rightarrow> filemap \<Rightarrow> string \<Rightarrow> SessionRotationMarker option \<Rightarrow> bool" where
  "loaded rt F t m \<longleftrightarrow> ValidUUIDFormat t \<and> (case m of
       None \<Rightarrow> F (SessionRotationMarkerPath t) = None
     | Some marker \<Rightarrow> marker_at F t = Some marker \<and> marker_validate rt marker = None)"

lemma decodeSessionRotationMarker_loaded:
  "decodeSessionRotationMarker rt c = Inr m \<Longrightarrow> c = Doc (MarkerD m) \<and> marker_validate rt m = None"
  by (auto simp: decodeSessionRotationMarker_def split: content.splits doc.splits option.splits)

lemma LoadSessionRotationMarker_clean:
  "triple (state_is F) (LoadSessionRotationMarker rt t) (\<lambda>m st. loaded rt F t m \<and> state_is F st) (\<lambda>_. state_is F)"
  unfolding LoadSessionRotationMarker_def
proof (intro triple_if triple_throw)
  assume t: "\<not> \<not> ValidUUIDFormat t"
  have read: "triple (state_is F) (attempt (ReadFile (SessionRotationMarkerPath t)))
      (\<lambda>r st. (case r of Inl e \<Rightarrow> is_not_exist e \<longrightarrow> F (SessionRotationMarkerPath t) = None
         | Inr c \<Rightarrow> F (SessionRotationMarkerPath t) = Some c) \<and> state_is F st) (\<lambda>_. state_is F)"
    by (rule triple_attempt, rule triple_weaken [OF ReadFile_clean]) auto
  show "triple (state_is F) (bindE (attempt (ReadFile (SessionRotationMarkerPath t))) (\<lambda>r. case r of
          Inl e \<Rightarrow> if is_not_exist e then returnE None else throwE (Wrapf ''session rotation marker'' e)
        | Inr c \<Rightarrow> bindE (of_result (decodeSessionRotationMarker rt c)) (\<lambda>m. returnE (Some m))))
      (\<lambda>m st. loaded rt F t m \<and> state_is F st) (\<lambda>_. state_is F)"
  proof (rule triple_bind [OF read], rule triple_assume, rule triple_sum)
    fix r e assume "case r of Inl e \<Rightarrow> is_not_exist e \<longrightarrow> F (SessionRotationMarkerPath t) = None
         | Inr c \<Rightarrow> F (SessionRotationMarkerPath t) = Some c" "r = Inl e"
    then show "triple (state_is F) (if is_not_exist e then returnE None else throwE (Wrapf ''session rotation marker'' e))
        (\<lambda>m st. loaded rt F t m \<and> state_is F st) (\<lambda>_. state_is F)"
      using t by (intro triple_if triple_return triple_throw) (auto simp: loaded_def)
  next
    fix r c assume c: "case r of Inl e \<Rightarrow> is_not_exist e \<longrightarrow> F (SessionRotationMarkerPath t) = None
         | Inr c \<Rightarrow> F (SessionRotationMarkerPath t) = Some c" "r = Inr c"
    have "triple (state_is F) (of_result (decodeSessionRotationMarker rt c))
        (\<lambda>m st. loaded rt F t (Some m) \<and> state_is F st) (\<lambda>_. state_is F)"
      by (rule triple_of_result) (use c t in \<open>auto simp: loaded_def marker_at_def dest!: decodeSessionRotationMarker_loaded\<close>)
    then show "triple (state_is F) (bindE (of_result (decodeSessionRotationMarker rt c)) (\<lambda>m. returnE (Some m)))
        (\<lambda>m st. loaded rt F t m \<and> state_is F st) (\<lambda>_. state_is F)"
      by (rule triple_bind) (rule triple_return)
  qed
qed auto

section \<open>One step per operation\<close>

text \<open>
  \<open>stepped rt F\<close>: the markers are well formed if those of \<open>F\<close> were, and each thread is where it was
  in \<open>F\<close> or one step further.
\<close>

definition moved :: "go_runtime \<Rightarrow> filemap \<Rightarrow> filemap \<Rightarrow> bool" where
  "moved rt F G \<longleftrightarrow> (rotation_wf rt F \<longrightarrow> rotation_wf rt G \<and> (\<forall>t. rotation_step\<^sup>=\<^sup>= (rotation_at F t) (rotation_at G t)))"

definition stepped :: "go_runtime \<Rightarrow> filemap \<Rightarrow> store \<Rightarrow> bool" where
  "stepped rt F st \<longleftrightarrow> (\<exists>G. moved rt F G \<and> state_is G st)"

lemma moved_refl: "moved rt F F"
  by (simp add: moved_def)

lemma stepped_refl: "state_is F st \<Longrightarrow> stepped rt F st"
  using moved_refl by (auto simp: stepped_def)

lemma marker_written_stepped:
  assumes "marker_written rt F m' st"
    and "rotation_wf rt F \<Longrightarrow> mk_ParentThreadID m' = t \<and> rotation_step\<^sup>=\<^sup>= (rotation_at F t) (rotation_of m')"
  shows "stepped rt F st"
proof -
  from assms(1) obtain u where u: "marker_validate rt (m'\<lparr>mk_UpdatedAt := u\<rparr>) = None"
    "state_is (F(SessionRotationMarkerPath (mk_ParentThreadID m') \<mapsto> Doc (MarkerD (m'\<lparr>mk_UpdatedAt := u\<rparr>)))) st"
    by (auto simp: marker_written_def)
  have "moved rt F (F(SessionRotationMarkerPath (mk_ParentThreadID m') \<mapsto> Doc (MarkerD (m'\<lparr>mk_UpdatedAt := u\<rparr>))))"
    using assms(2) u(1) by (auto simp: moved_def rotation_wf_def rotation_at_def)
  with u(2) show ?thesis by (auto simp: stepped_def)
qed

lemma write_step:
  assumes "rotation_wf rt F \<Longrightarrow> mk_ParentThreadID m' = t \<and> rotation_step\<^sup>=\<^sup>= (rotation_at F t) (rotation_of m')"
  shows "triple (state_is F) (writeSessionRotationMarker rt m') (\<lambda>_. stepped rt F) (\<lambda>_. stepped rt F)"
  by (rule triple_weaken [OF writeSessionRotationMarker_clean])
    (auto intro: stepped_refl marker_written_stepped [OF _ assms])

lemma keep_step: "triple (state_is F) m Q (\<lambda>_. state_is F) \<Longrightarrow> triple (state_is F) m Q (\<lambda>_. stepped rt F)"
  by (erule triple_weaken) (auto intro: stepped_refl)

lemma throw_step: "triple (state_is F) (throwE e) Q (\<lambda>_. stepped rt F)"
  by (rule triple_throw) (rule stepped_refl)

lemma return_step: "triple (state_is F) (returnE v) (\<lambda>_. stepped rt F) E"
  by (rule triple_return) (rule stepped_refl)

lemmas step_rules = triple_if throw_step return_step

lemma loaded_at: "loaded rt F t (Some m) \<Longrightarrow> rotation_wf rt F \<Longrightarrow> mk_ParentThreadID m = t \<and> rotation_at F t = rotation_of m"
  by (auto simp: loaded_def rotation_wf_def rotation_at_def)

lemma loaded_None: "loaded rt F t None \<Longrightarrow> rotation_at F t = NoDirective"
  by (simp add: loaded_def rotation_at_def marker_at_def)

lemma load_step:
  assumes "\<And>m. loaded rt F t m \<Longrightarrow> triple (state_is F) (k m) Q (\<lambda>_. stepped rt F)"
  shows "triple (state_is F) (bindE (LoadSessionRotationMarker rt t) k) Q (\<lambda>_. stepped rt F)"
  by (rule triple_bind [OF keep_step [OF LoadSessionRotationMarker_clean]]) (rule triple_assume [OF assms])

lemma now_step:
  assumes "\<And>v. triple (state_is F) (k v) Q E" shows "triple (state_is F) (bindE Now k) Q E"
  by (rule triple_bind [OF Now_clean]) (rule assms)

lemma valid_state_records: "marker_validate rt m = None \<Longrightarrow> validateStateRecords m = None"
  by (simp add: marker_validate_def validateLifecycle_def del: first_err.simps)

lemma SaveSessionLimitBaseline_step:
  "triple (state_is F) (SaveSessionLimitBaseline rt t reading) (\<lambda>_. stepped rt F) (\<lambda>_. stepped rt F)"
  unfolding SaveSessionLimitBaseline_def Let_def
proof (rule load_step, intro step_rules write_step)
  fix m assume "loaded rt F t m" "rotation_wf rt F"
  then show "mk_ParentThreadID ((case m of None \<Rightarrow> new_marker t | Some marker \<Rightarrow> marker)
        \<lparr>mk_LimitBaseline := Some (sessionLimitBaselineFromReading rt reading)\<rparr>) = t \<and>
     rotation_step\<^sup>=\<^sup>= (rotation_at F t) (rotation_of ((case m of None \<Rightarrow> new_marker t | Some marker \<Rightarrow> marker)
        \<lparr>mk_LimitBaseline := Some (sessionLimitBaselineFromReading rt reading)\<rparr>))"
    by (cases m) (auto simp: new_marker_def loaded_None loaded_at rotation_of_def split: option.splits)
qed

lemma ClaimSessionRotation_step:
  "triple (state_is F) (ClaimSessionRotation rt b1 b2 t d) (\<lambda>_. stepped rt F) (\<lambda>_. stepped rt F)"
  unfolding ClaimSessionRotation_def Let_def
proof (rule load_step, rule triple_option, rule throw_step, intro triple_if throw_step triple_option return_step now_step
    triple_then [OF write_step])
  fix m marker v
  assume m: "loaded rt F t m" "m = Some marker"
    and d: "\<not> (case mk_Directive marker of None \<Rightarrow> True | Some d' \<Rightarrow> di_DirectiveID d' \<noteq> d)"
    and pending: "\<not> mk_State marker \<noteq> SessionRotationStatePending" and wf: "rotation_wf rt F"
  show "mk_ParentThreadID (marker\<lparr>mk_State := SessionRotationStateClaimed, mk_Claim := Some c\<rparr>) = t \<and>
     rotation_step\<^sup>=\<^sup>= (rotation_at F t) (rotation_of (marker\<lparr>mk_State := SessionRotationStateClaimed, mk_Claim := Some c\<rparr>))" for c
    using loaded_at [OF m(1) [unfolded m(2)] wf] d pending
    by (auto simp: rotation_of_def rotation_state_defs split: option.splits intro: rotation_step.intros)
qed (auto intro: triple_return)

lemma with_claim_step:
  assumes "\<And>m d' c'. loaded rt F t (Some m) \<Longrightarrow> mk_Directive m = Some d' \<Longrightarrow> mk_Claim m = Some c' \<Longrightarrow>
      triple (state_is F) (k m c') Q (\<lambda>_. stepped rt F)"
  shows "triple (state_is F) (with_claim rt t d c k) Q (\<lambda>_. stepped rt F)"
  unfolding with_claim_def
  by (rule load_step, rule triple_option, rule throw_step)
    (auto split: option.splits intro!: throw_step assms triple_if)

lemma check_step:
  assumes "triple (state_is F) k Q (\<lambda>_. stepped rt F)"
  shows "triple (state_is F) (thenE (check c) k) Q (\<lambda>_. stepped rt F)"
  by (rule triple_then [OF keep_step [OF check_clean] assms])

lemma ReleaseSessionRotationClaim_step:
  "triple (state_is F) (ReleaseSessionRotationClaim rt t d c result) (\<lambda>_. stepped rt F) (\<lambda>_. stepped rt F)"
  unfolding ReleaseSessionRotationClaim_def
proof (rule with_claim_step, intro triple_if throw_step check_step now_step write_step)
  fix m d' c' v
  assume m: "loaded rt F t (Some m)" "mk_Directive m = Some d'" "mk_Claim m = Some c'"
    and claimed: "\<not> mk_State m \<noteq> SessionRotationStateClaimed" and wf: "rotation_wf rt F"
  show "mk_ParentThreadID (m\<lparr>mk_LastCreationOutcome := o', mk_State := SessionRotationStatePending, mk_Claim := None\<rparr>) = t \<and>
     rotation_step\<^sup>=\<^sup>= (rotation_at F t)
       (rotation_of (m\<lparr>mk_LastCreationOutcome := o', mk_State := SessionRotationStatePending, mk_Claim := None\<rparr>))" for o'
    using loaded_at [OF m(1) wf] m(2,3) claimed
    by (auto simp: rotation_of_def rotation_state_defs intro: rotation_step.intros)
qed

lemma BindSessionRotationClaim_step:
  "triple (state_is F) (BindSessionRotationClaim rt t d c th) (\<lambda>_. stepped rt F) (\<lambda>_. stepped rt F)"
  unfolding BindSessionRotationClaim_def
proof (intro triple_if throw_step with_claim_step return_step now_step write_step)
  fix m d' c' v
  assume m: "loaded rt F t (Some m)" "mk_Directive m = Some d'" "mk_Claim m = Some c'"
    and claimed: "\<not> mk_State m \<noteq> SessionRotationStateClaimed" and wf: "rotation_wf rt F"
  show "mk_ParentThreadID (m\<lparr>mk_State := SessionRotationStateBound, mk_Claim := Some (c'\<lparr>cl_BoundThreadID := th, cl_BoundAt := at\<rparr>)\<rparr>) = t \<and>
     rotation_step\<^sup>=\<^sup>= (rotation_at F t)
       (rotation_of (m\<lparr>mk_State := SessionRotationStateBound, mk_Claim := Some (c'\<lparr>cl_BoundThreadID := th, cl_BoundAt := at\<rparr>)\<rparr>))" for at
    using loaded_at [OF m(1) wf] m(2,3) claimed
    by (auto simp: rotation_of_def rotation_state_defs intro: rotation_step.intros)
qed

section \<open>Reading all markers\<close>

lemma load_markers_clean:
  "triple (state_is F) (load_markers rt entries)
     (\<lambda>ms st. (\<forall>m \<in> set ms. \<exists>t. loaded rt F t (Some m)) \<and> state_is F st) (\<lambda>_. state_is F)"
proof (induction entries)
  case Nil show ?case by (simp add: triple_return)
next
  case (Cons e es)
  show ?case
    unfolding load_markers.simps
    by (rule triple_if, rule Cons.IH, rule triple_bind [OF LoadSessionRotationMarker_clean], rule triple_assume,
        rule triple_bind [OF Cons.IH], rule triple_assume, rule triple_return)
      (auto split: option.splits)
qed

lemma ReadDir_clean: "triple (state_is F) (ReadDir d) (\<lambda>_. state_is F) (\<lambda>_. state_is F)"
  by (rule reading, rule triple_weaken [OF ReadDir_triple]) auto

lemma loadSessionRotationMarkers_clean:
  "triple (state_is F) (loadSessionRotationMarkers rt)
     (\<lambda>ms st. (\<forall>m \<in> set ms. \<exists>t. loaded rt F t (Some m)) \<and> state_is F st) (\<lambda>_. state_is F)"
  unfolding loadSessionRotationMarkers_def
  by (rule triple_bind [OF attempt_frame [OF ReadDir_clean]], rule triple_sum)
    (auto intro!: triple_if triple_return triple_throw load_markers_clean)

lemma findSessionRotationClaim_clean:
  "triple (state_is F) (findSessionRotationClaim rt c)
     (\<lambda>m st. (\<exists>t. loaded rt F t (Some m)) \<and> state_is F st) (\<lambda>_. state_is F)"
  unfolding findSessionRotationClaim_def
proof (rule triple_bind [OF loadSessionRotationMarkers_clean], rule triple_assume)
  fix ms assume ms: "\<forall>m \<in> set ms. \<exists>t. loaded rt F t (Some m)"
  show "triple (state_is F) (case filter (has_claim c) ms of
       [] \<Rightarrow> throwE (Errorf ''session rotation claim not found'' [])
     | [marker] \<Rightarrow> returnE marker
     | _ \<Rightarrow> throwE (Errorf ''session rotation claim is duplicated'' []))
     (\<lambda>m st. (\<exists>t. loaded rt F t (Some m)) \<and> state_is F st) (\<lambda>_. state_is F)"
  proof (cases "filter (has_claim c) ms" rule: remdups_adj.cases)
    case (2 m)
    then have "m \<in> set (filter (has_claim c) ms)" by simp
    then have "m \<in> set ms" by simp
    with 2 ms show ?thesis by (simp add: triple_return)
  qed (simp_all add: triple_throw)
qed

lemma readParentCodexIdentity_clean:
  "triple (state_is F) readParentCodexIdentity (\<lambda>_. state_is F) (\<lambda>_. state_is F)"
  unfolding readParentCodexIdentity_def
  by (rule triple_bind [OF ReadFile_frame])
    (auto split: content.splits doc.splits intro!: triple_throw triple_return triple_bind [OF ReadOr_clean] triple_if)

lemma AcknowledgeSessionRotationClaim_step:
  "triple (state_is F) (AcknowledgeSessionRotationClaim rt c th) (\<lambda>_. stepped rt F) (\<lambda>_. stepped rt F)"
  unfolding AcknowledgeSessionRotationClaim_def CurrentParentCodexIdentity_def
proof (rule triple_bind [OF keep_step [OF findSessionRotationClaim_clean]], rule triple_assume,
    intro triple_if return_step triple_option throw_step triple_bind [OF ReadOr_clean]
      triple_bind [OF attempt_frame [OF readParentCodexIdentity_clean]] now_step write_step)
  fix m c' taskID r v
  assume "\<exists>t. loaded rt F t (Some m)" and claim: "mk_Claim m = Some c'"
    and bound: "\<not> (mk_State m \<noteq> SessionRotationStateBound \<or> cl_BoundThreadID c' \<noteq> th)" and wf: "rotation_wf rt F"
  then obtain t where m: "loaded rt F t (Some m)" by blast
  have "validateStateRecords m = None" using m valid_state_records by (auto simp: loaded_def)
  with bound obtain d where "mk_Directive m = Some d"
    by (auto simp: validateStateRecords_def rotation_state_defs validateBoundSessionRotationRecords_def split: if_splits)
  with loaded_at [OF m wf] claim bound
  show "mk_ParentThreadID (m\<lparr>mk_State := SessionRotationStateIssued,
        mk_Issued := Some \<lparr>is_BoundThreadID = th, is_IssuedAt = rt_FormatRFC3339Nano rt v\<rparr>\<rparr>) = mk_ParentThreadID m \<and>
     rotation_step\<^sup>=\<^sup>= (rotation_at F (mk_ParentThreadID m)) (rotation_of (m\<lparr>mk_State := SessionRotationStateIssued,
        mk_Issued := Some \<lparr>is_BoundThreadID = th, is_IssuedAt = rt_FormatRFC3339Nano rt v\<rparr>\<rparr>))"
    by (auto simp: rotation_of_def rotation_state_defs intro: rotation_step.intros)
qed

section \<open>Commit and retirement\<close>

lemma commit_marker_step:
  assumes "validateStateRecords m = None"
  shows "mk_ParentThreadID (commit_marker rt b v e m) = mk_ParentThreadID m \<and>
    rotation_step\<^sup>=\<^sup>= (rotation_of m) (rotation_of (commit_marker rt b v e m))"
proof -
  have same: "rotation_of (evaluated_marker rt v e m) = rotation_of m" "mk_State (evaluated_marker rt v e m) = mk_State m"
    by (simp_all add: evaluated_marker_def rotation_of_def split: option.split)
  have rest: "rotation_of m = NoDirective \<or> (\<exists>d th. rotation_of m = Issued d th)"
    if "mk_State m \<notin> {SessionRotationStatePending, SessionRotationStateClaimed, SessionRotationStateBound}"
    using assms that
    by (auto simp: validateStateRecords_def validateNoSessionRotationRecords_def validateIssuedSessionRotationRecords_def
        rotation_of_def rotation_state_defs split: if_splits option.splits)
  have directed: "rotation_of (directed_marker rt b v e m') = PendingDirective (NewUUID b)" for m'
    by (simp add: directed_marker_def rotation_of_def)
  have parent: "mk_ParentThreadID (evaluated_marker rt v e m) = mk_ParentThreadID m"
    "mk_ParentThreadID (directed_marker rt b v e m') = mk_ParentThreadID m'" for m'
    by (simp_all add: evaluated_marker_def directed_marker_def)
  show ?thesis
    using rest unfolding commit_marker_def Let_def same directed parent
    by (auto simp: same directed parent rotation_step.propose rotation_step.propose_again)
qed

lemma commitSessionRotation_step:
  "triple (state_is F) (commitSessionRotation rt b e) (\<lambda>_. stepped rt F) (\<lambda>_. stepped rt F)"
  unfolding commitSessionRotation_def
proof (intro triple_option triple_if return_step throw_step load_step now_step write_step)
  fix ev :: SessionRotationEvaluation and m v assume m: "loaded rt F (se_ParentThreadID ev) m" and wf: "rotation_wf rt F"
  let ?m = "case m of None \<Rightarrow> new_marker (se_ParentThreadID ev) | Some marker \<Rightarrow> marker"
  have "validateStateRecords ?m = None"
  proof (cases m)
    case None
    then show ?thesis by (simp add: new_marker_def validateStateRecords_def validateNoSessionRotationRecords_def)
  next
    case (Some marker)
    with m show ?thesis by (auto simp: loaded_def dest: valid_state_records)
  qed
  moreover have "mk_ParentThreadID ?m = se_ParentThreadID ev \<and> rotation_at F (se_ParentThreadID ev) = rotation_of ?m"
    using m wf by (cases m) (auto simp: loaded_None loaded_at, auto simp: new_marker_def rotation_of_def)
  ultimately show "mk_ParentThreadID (commit_marker rt b v ev ?m) = se_ParentThreadID ev \<and>
      rotation_step\<^sup>=\<^sup>= (rotation_at F (se_ParentThreadID ev)) (rotation_of (commit_marker rt b v ev ?m))"
    using commit_marker_step [of ?m rt b v ev] by simp
qed

definition retired :: "go_runtime \<Rightarrow> filemap \<Rightarrow> string set \<Rightarrow> filemap \<Rightarrow> bool" where
  "retired rt F S G \<longleftrightarrow> (\<forall>t. marker_at G t = marker_at F t \<or>
     t \<in> S \<and> (\<exists>m. marker_at G t = Some m \<and> mk_ParentThreadID m = t \<and> marker_validate rt m = None \<and> rotation_of m = NoDirective))"

lemma retired_moved:
  assumes "retired rt F S G" "\<And>t. t \<in> S \<Longrightarrow> rotation_wf rt F \<Longrightarrow> \<exists>d. rotation_at F t = PendingDirective d"
  shows "moved rt F G"
  unfolding moved_def
proof (intro impI conjI allI)
  assume wf: "rotation_wf rt F"
  show "rotation_wf rt G"
    using wf assms(1) unfolding rotation_wf_def retired_def by (metis option.inject)
  fix t
  show "rotation_step\<^sup>=\<^sup>= (rotation_at F t) (rotation_at G t)"
  proof (cases "marker_at G t = marker_at F t")
    case True then show ?thesis by (simp add: rotation_at_def)
  next
    case False
    with assms(1) obtain m where "t \<in> S" "marker_at G t = Some m" "rotation_of m = NoDirective"
      by (auto simp: retired_def)
    moreover from assms(2) [OF this(1) wf] obtain d where "rotation_at F t = PendingDirective d" ..
    ultimately show ?thesis by (auto simp: rotation_at_def intro: rotation_step.intros)
  qed
qed

lemma retire_markers_triple:
  "triple (\<lambda>st. \<exists>G. retired rt F S G \<and> state_is G st) (retirePendingSessionRotationRecommendationMarkers rt ms)
     (\<lambda>_ st. \<exists>G. retired rt F (S \<union> mk_ParentThreadID ` set ms) G \<and> state_is G st)
     (\<lambda>_ st. \<exists>G. retired rt F (S \<union> mk_ParentThreadID ` set ms) G \<and> state_is G st)"
proof (induction ms arbitrary: S)
  case Nil
  have "retired rt F S G \<Longrightarrow> retired rt F S (G(pendingSessionRotationRetirementStateFile := None))" for G
    unfolding retired_def
    by (simp add: marker_at_def marker_path_names(2) [THEN not_sym])
  then show ?case
    by (simp del: Remove.simps)
      (rule triple_exists_pre, rule triple_assume, rule triple_weaken [OF Remove_one_clean]; blast)
next
  case (Cons m ms)
  let ?S = "S \<union> mk_ParentThreadID ` set (m # ms)"
  have grow: "retired rt F S G \<Longrightarrow> S \<subseteq> T \<Longrightarrow> retired rt F T G" for G S T
    unfolding retired_def by blast
  have wrote: "triple (\<lambda>st. \<exists>G. retired rt F S G \<and> state_is G st)
      (writeSessionRotationMarker rt (m\<lparr>mk_State := [], mk_Directive := None\<rparr>))
      (\<lambda>_ st. \<exists>G. retired rt F (insert (mk_ParentThreadID m) S) G \<and> state_is G st)
      (\<lambda>_ st. \<exists>G. retired rt F ?S G \<and> state_is G st)"
  proof (rule triple_exists_pre, rule triple_assume, rule triple_weaken [OF writeSessionRotationMarker_clean])
    fix G v st assume G: "retired rt F S G"
      and st: "marker_written rt G (m\<lparr>mk_State := [], mk_Directive := None\<rparr>) st"
    let ?m = "\<lambda>u. m\<lparr>mk_State := [], mk_Directive := None, mk_UpdatedAt := u\<rparr>"
    obtain u where u: "marker_validate rt (?m u) = None"
      "state_is (G(SessionRotationMarkerPath (mk_ParentThreadID m) \<mapsto> Doc (MarkerD (?m u)))) st"
      using st by (auto simp: marker_written_def)
    have "retired rt F (insert (mk_ParentThreadID m) S)
        (G(SessionRotationMarkerPath (mk_ParentThreadID m) \<mapsto> Doc (MarkerD (?m u))))"
      using G u(1) by (auto simp: retired_def rotation_of_def)
    with u(2) show "\<exists>G. retired rt F (insert (mk_ParentThreadID m) S) G \<and> state_is G st" by blast
  next
    fix G and e :: state_error and st assume "retired rt F S G" "state_is G st"
    then show "\<exists>G. retired rt F ?S G \<and> state_is G st" using grow [of S G ?S] by auto
  qed auto
  have "?S = insert (mk_ParentThreadID m) S \<union> mk_ParentThreadID ` set ms" by auto
  with wrote Cons.IH [of "insert (mk_ParentThreadID m) S"] show ?case
    by (simp add: triple_then)
qed

lemma load_recommended_clean:
  "triple (state_is F) (load_recommended rt rs)
     (\<lambda>ms st. (\<forall>m \<in> set ms. (\<exists>t. loaded rt F t (Some m)) \<and> mk_State m = SessionRotationStatePending \<and> mk_Directive m \<noteq> None) \<and>
        state_is F st) (\<lambda>_. state_is F)"
proof (induction rs)
  case Nil show ?case by (simp add: triple_return)
next
  case (Cons r rs)
  show ?case
    unfolding load_recommended.simps
    by (rule triple_bind [OF LoadSessionRotationMarker_clean], rule triple_assume, rule triple_option, rule triple_throw,
        assumption, rule triple_if, rule triple_throw, assumption, rule triple_bind [OF Cons.IH], rule triple_assume,
        rule triple_return) (auto split: option.splits)
qed

lemma loadPendingSessionRotationRecommendationRetirement_clean:
  "triple (state_is F) loadPendingSessionRotationRecommendationRetirement (\<lambda>_. state_is F) (\<lambda>_. state_is F)"
  unfolding loadPendingSessionRotationRecommendationRetirement_def
  by (rule triple_bind [OF attempt_frame [OF ReadFile_frame]])
    (auto split: sum.splits content.splits doc.splits
      intro!: triple_throw triple_return triple_if triple_then [OF check_clean])

lemma IncompleteSessionRotations_clean:
  "triple (state_is F) (IncompleteSessionRotations rt) (\<lambda>_. state_is F) (\<lambda>_. state_is F)"
  unfolding IncompleteSessionRotations_def
  by (rule triple_bind [OF loadSessionRotationMarkers_clean]) (auto intro: triple_return)

lemma commitPendingSessionRotationRecommendationRetirement_step:
  "triple (state_is F) (commitPendingSessionRotationRecommendationRetirement rt) (\<lambda>_. stepped rt F) (\<lambda>_. stepped rt F)"
proof -
  have set': "triple (state_is F) (validatePendingSessionRotationRecommendationSet rt stage) (\<lambda>_. state_is F) (\<lambda>_. state_is F)" for stage
    unfolding validatePendingSessionRotationRecommendationSet_def Let_def
    by (intro triple_bind [OF IncompleteSessionRotations_clean] triple_if triple_throw triple_return)
  have retire: "triple (state_is F) (retirePendingSessionRotationRecommendationMarkers rt ms) (\<lambda>_. stepped rt F) (\<lambda>_. stepped rt F)"
    if ms: "\<forall>m \<in> set ms. (\<exists>t. loaded rt F t (Some m)) \<and> mk_State m = SessionRotationStatePending \<and> mk_Directive m \<noteq> None" for ms
  proof (rule triple_weaken [OF retire_markers_triple [of rt F "{}"]])
    have "\<exists>d. rotation_at F t = PendingDirective d" if "t \<in> mk_ParentThreadID ` set ms" "rotation_wf rt F" for t
      using that ms loaded_at by (fastforce simp: rotation_of_def)
    then have "retired rt F ({} \<union> mk_ParentThreadID ` set ms) G \<Longrightarrow> moved rt F G" for G
      by (intro retired_moved) auto
    then show "stepped rt F st" if "\<exists>G. retired rt F ({} \<union> mk_ParentThreadID ` set ms) G \<and> state_is G st" for st
      using that by (auto simp: stepped_def)
    then show "stepped rt F st" if "\<exists>G. retired rt F ({} \<union> mk_ParentThreadID ` set ms) G \<and> state_is G st" for st
      using that by blast
  qed (auto simp: retired_def)
  show ?thesis
    unfolding commitPendingSessionRotationRecommendationRetirement_def loadPendingSessionRotationRecommendationMarkers_def
    by (rule triple_bind [OF keep_step [OF loadPendingSessionRotationRecommendationRetirement_clean]],
        rule triple_option, rule return_step, rule triple_then [OF keep_step [OF set']],
        rule triple_bind [OF keep_step [OF load_recommended_clean]], rule triple_assume, rule retire)
qed

section \<open>The protocol theorem\<close>

text \<open>The operations that write markers.\<close>

datatype rotation_op =
    LimitBaselineOp string SessionLimitReading
  | ClaimOp "8 word list" "8 word list" string string
  | ReleaseOp string string string SessionRotationCreationResult
  | BindOp string string string string
  | AcknowledgeOp string string
  | CommitOp "8 word list" "SessionRotationEvaluation option"
  | RetireOp

fun run_rotation :: "go_runtime \<Rightarrow> rotation_op \<Rightarrow> unit sop" where
  "run_rotation rt (LimitBaselineOp threadID reading) = SaveSessionLimitBaseline rt threadID reading"
| "run_rotation rt (ClaimOp b1 b2 threadID directiveID) =
     thenE (ClaimSessionRotation rt b1 b2 threadID directiveID) (returnE ())"
| "run_rotation rt (ReleaseOp threadID directiveID claimID result) =
     ReleaseSessionRotationClaim rt threadID directiveID claimID result"
| "run_rotation rt (BindOp threadID directiveID claimID boundThreadID) =
     BindSessionRotationClaim rt threadID directiveID claimID boundThreadID"
| "run_rotation rt (AcknowledgeOp claimID boundThreadID) = AcknowledgeSessionRotationClaim rt claimID boundThreadID"
| "run_rotation rt (CommitOp bytes evaluation) = commitSessionRotation rt bytes evaluation"
| "run_rotation rt RetireOp = commitPendingSessionRotationRecommendationRetirement rt"

lemma run_rotation_step:
  "triple (state_is F) (run_rotation rt p) (\<lambda>_. stepped rt F) (\<lambda>_. stepped rt F)"
proof (cases p)
  case (ClaimOp b1 b2 t d)
  then show ?thesis
    by (simp add: triple_then [OF ClaimSessionRotation_step] triple_return)
qed (simp_all add: SaveSessionLimitBaseline_step ReleaseSessionRotationClaim_step BindSessionRotationClaim_step
    AcknowledgeSessionRotationClaim_step commitSessionRotation_step commitPendingSessionRotationRecommendationRetirement_step)

text \<open>
  C18. Session rotation refines its protocol: let the markers of a state directory be valid and
  stored under the thread they belong to. Then every operation that writes markers (saving a limit
  baseline, claim, release, bind, acknowledge, the commit of an evaluation, the retirement of
  pending recommendations), whether it succeeds or fails and whatever accesses fail, leaves the
  markers valid and in place, and moves each thread by at most one step of the protocol: a directive
  is proposed only to a thread that has none or whose last one is issued, it is claimed when
  pending, released or bound only while claimed and not yet bound, issued only to the thread it is
  bound to, and retired only while pending.
\<close>

theorem rotation_refines_protocol:
  assumes "rotation_wf rt (files st)" "run_rotation rt p st = (r, st')"
  shows "rotation_wf rt (files st') \<and> (\<forall>t. rotation_step\<^sup>=\<^sup>= (rotation_at (files st) t) (rotation_at (files st') t))"
proof -
  have "stepped rt (files st) st'"
    by (rule triple_bothD [OF run_rotation_step state_is_self assms(2)])
  then obtain G where G: "moved rt (files st) G" "state_is G st'" by (auto simp: stepped_def)
  have same: "marker_at (files st') t = marker_at G t" for t by (rule marker_at_state_is [OF G(2)])
  have "rotation_wf rt (files st') = rotation_wf rt G" "rotation_at (files st') t = rotation_at G t" for t
    by (simp_all only: rotation_wf_def rotation_at_def same)
  moreover have "rotation_wf rt G \<and> (\<forall>t. rotation_step\<^sup>=\<^sup>= (rotation_at (files st) t) (rotation_at G t))"
    using G(1) assms(1) unfolding moved_def by blast
  ultimately show ?thesis by simp
qed

definition sample_thread :: string where "sample_thread = ''00000000-0000-4000-8000-000000000001''"
definition sample_next :: string where "sample_next = ''00000000-0000-4000-8000-000000000002''"

definition sample_directive :: SessionRotationDirective where
  "sample_directive = \<lparr>di_DirectiveID = ''00000000-0000-4000-8000-0000000000d1'', di_TaskID = ''t1'', di_Terminal = ''accept'',
     di_Epoch = ''t1:accept'', di_Reason = ''compaction'', di_Evidence = [], di_CreatedAt = ''c''\<rparr>"

definition sample_marker :: SessionRotationMarker where
  "sample_marker = (new_marker sample_thread)\<lparr>mk_State := ''pending'', mk_Directive := Some sample_directive, mk_UpdatedAt := ''u''\<rparr>"

definition rotation_store :: store where
  "rotation_store = (sample_store (\<lambda>_. False))\<lparr>files := [SessionRotationMarkerPath sample_thread \<mapsto> Doc (MarkerD sample_marker)],
     listing := [SessionRotationMarkerPath sample_thread]\<rparr>"

lemma rotation_store_marker: "marker_at (files rotation_store) t = (if t = sample_thread then Some sample_marker else None)"
  by (simp add: rotation_store_def marker_at_def)

lemma rotation_store_wf: "rotation_wf sample_runtime (files rotation_store)"
proof -
  have "marker_validate sample_runtime sample_marker = None" by code_simp
  then show ?thesis
    by (auto simp: rotation_wf_def rotation_store_marker, simp add: sample_marker_def new_marker_def)
qed

theorem rotation_refines_protocol_witness:
  "\<exists>r st'. run_rotation sample_runtime (ClaimOp (replicate 16 0) (replicate 16 1) sample_thread (di_DirectiveID sample_directive))
      rotation_store = (r, st') \<and> rotation_step\<^sup>=\<^sup>= (PendingDirective (di_DirectiveID sample_directive)) (rotation_at (files st') sample_thread)"
proof -
  obtain r st' where run: "run_rotation sample_runtime
      (ClaimOp (replicate 16 0) (replicate 16 1) sample_thread (di_DirectiveID sample_directive)) rotation_store = (r, st')"
    by fastforce
  have "rotation_at (files rotation_store) sample_thread = PendingDirective (di_DirectiveID sample_directive)"
    by (simp add: rotation_at_def rotation_store_marker) code_simp
  with rotation_refines_protocol [OF rotation_store_wf run] run show ?thesis by metis
qed

section \<open>A released claim blocks the retirement\<close>

lemma write_stale_outcome_fails:
  assumes "mk_Directive m = None" "mk_LastCreationOutcome m = Some o'"
  shows "triple P (writeSessionRotationMarker rt m) (\<lambda>_ _. False) (\<lambda>_ _. True)"
proof -
  have "marker_validate rt (m\<lparr>mk_UpdatedAt := u\<rparr>) \<noteq> None" for u
    using assms by (simp add: marker_validate_def validateLifecycle_def validateCreationOutcomeAndAcceptedTasks_def
        validateCreationOutcome_def del: first_err.simps)
  then have "\<exists>e. marker_validate rt (m\<lparr>mk_UpdatedAt := u\<rparr>) = Some e" for u by blast
  then obtain e where "\<And>u. marker_validate rt (m\<lparr>mk_UpdatedAt := u\<rparr>) = Some (e u)" by metis
  then show ?thesis
    by (simp add: triple_def writeSessionRotationMarker_def Now_def bindE_def thenE_def check_def Let_def)
qed

lemma retire_stale_outcome_fails:
  "m \<in> set ms \<Longrightarrow> mk_LastCreationOutcome m = Some o' \<Longrightarrow>
   triple P (retirePendingSessionRotationRecommendationMarkers rt ms) (\<lambda>_ _. False) (\<lambda>_ _. True)"
proof (induction ms arbitrary: P)
  case (Cons m' ms)
  have any: "triple P (writeSessionRotationMarker rt m'') (\<lambda>_ _. True) (\<lambda>_ _. True)" for P m''
    by (simp add: triple_def split: sum.splits)
  show ?case
  proof (cases "m = m'")
    case True
    with Cons.prems(2) show ?thesis
      unfolding retirePendingSessionRotationRecommendationMarkers.simps
      by (intro triple_then [OF write_stale_outcome_fails]) (simp_all add: triple_def)
  next
    case False
    with Cons show ?thesis
      unfolding retirePendingSessionRotationRecommendationMarkers.simps
      by (intro triple_then [OF any]) auto
  qed
qed simp

lemma load_recommended_all:
  "triple (state_is F) (load_recommended rt rs)
     (\<lambda>ms st. (\<forall>r \<in> set rs. \<exists>m \<in> set ms. marker_at F (rr_ParentThreadID r) = Some m) \<and> state_is F st) (\<lambda>_. state_is F)"
proof (induction rs)
  case Nil show ?case by (simp add: triple_return)
next
  case (Cons r rs)
  show ?case
    unfolding load_recommended.simps
    by (rule triple_bind [OF LoadSessionRotationMarker_clean], rule triple_assume, rule triple_option, rule triple_throw,
        assumption, rule triple_if, rule triple_throw, assumption, rule triple_bind [OF Cons.IH], rule triple_assume,
        rule triple_return) (auto simp: loaded_def)
qed

text \<open>
  Releasing a claim after a failed session creation blocks every later retirement of its recommendation: the
  marker keeps the outcome of the failed creation when its directive is retired, and a marker with
  an outcome but no directive is refused. So once a recommendation staged for retirement has been
  claimed and released, \<open>commitPendingSessionRotationRecommendationRetirement\<close> fails on every state
  directory, with or without faults.
\<close>

theorem retirement_blocked_by_release:
  assumes stage: "files st pendingSessionRotationRetirementStateFile = Some (Doc (RetirementD stage))"
    and "r \<in> set (rs_Recommendations stage)" "marker_at (files st) (rr_ParentThreadID r) = Some m"
    and "mk_LastCreationOutcome m = Some o'"
  shows "\<not> (\<exists>st'. commitPendingSessionRotationRecommendationRetirement rt st = (Inr (), st'))"
proof -
  let ?F = "files st"
  have name: "pendingSessionRotationRetirementStateFile \<noteq> currentStatsFile"
    by (simp add: pendingSessionRotationRetirementStateFile_def currentStatsFile_def)
  have read: "triple (state_is ?F) (attempt (ReadFile pendingSessionRotationRetirementStateFile))
      (\<lambda>x st. (\<forall>c. x = Inr c \<longrightarrow> c = Doc (RetirementD stage)) \<and> (\<forall>e. x = Inl e \<longrightarrow> \<not> is_not_exist e) \<and> state_is ?F st) (\<lambda>_ _. True)"
    by (rule triple_attempt, rule triple_weaken [OF ReadFile_clean [OF name]]) (auto simp: stage)
  have checked: "triple (state_is ?F) (check c) (\<lambda>_. state_is ?F) (\<lambda>_ _. True)" for c
    by (rule triple_weaken [OF check_clean]) simp_all
  have load: "triple (state_is ?F) loadPendingSessionRotationRecommendationRetirement
      (\<lambda>s st. s = Some stage \<and> state_is ?F st) (\<lambda>_ _. True)"
    unfolding loadPendingSessionRotationRecommendationRetirement_def
    by (rule triple_bind [OF read], rule triple_assume, rule triple_assume)
      (auto split: sum.splits content.splits doc.splits intro!: triple_throw triple_if triple_return
         triple_then [OF checked])
  have any: "triple P k Q E \<Longrightarrow> triple P k Q (\<lambda>_ _. True)" for P Q E and k :: "'x sop"
    by (erule triple_weaken) simp_all
  have set': "triple (state_is ?F) (validatePendingSessionRotationRecommendationSet rt stage) (\<lambda>_. state_is ?F) (\<lambda>_. state_is ?F)"
    unfolding validatePendingSessionRotationRecommendationSet_def Let_def
    by (intro triple_bind [OF IncompleteSessionRotations_clean] triple_if triple_throw triple_return)
  have "triple (state_is ?F) (commitPendingSessionRotationRecommendationRetirement rt) (\<lambda>_ _. False) (\<lambda>_ _. True)"
    unfolding commitPendingSessionRotationRecommendationRetirement_def loadPendingSessionRotationRecommendationMarkers_def
  proof (rule triple_bind [OF load], rule triple_assume, simp only: option.case, rule triple_then [OF any [OF set']],
      rule triple_bind [OF any [OF load_recommended_all]], rule triple_assume)
    fix ms assume "\<forall>r \<in> set (rs_Recommendations stage). \<exists>m \<in> set ms. marker_at ?F (rr_ParentThreadID r) = Some m"
    with assms(2,3) have "m \<in> set ms" by fastforce
    then show "triple (state_is ?F) (retirePendingSessionRotationRecommendationMarkers rt ms) (\<lambda>_ _. False) (\<lambda>_ _. True)"
      by (rule retire_stale_outcome_fails [OF _ assms(4)])
  qed
  from triple_InrD [OF this state_is_self] show ?thesis by blast
qed

definition released_marker :: SessionRotationMarker where
  "released_marker = sample_marker\<lparr>mk_LastCreationOutcome := Some \<lparr>co_Version = 1, co_Outcome = ''failed'',
     co_ParentThreadID = sample_thread, co_DirectiveID = di_DirectiveID sample_directive,
     co_ClaimID = ''00000000-0000-4000-8000-0000000000c1'', co_TargetTaskID = ''00000000-0000-4000-8000-0000000000e1'',
     co_RecordedAt = ''2026-01-01T00:00:00Z''\<rparr>\<rparr>"

definition staged_store :: store where
  "staged_store = rotation_store\<lparr>files := [SessionRotationMarkerPath sample_thread \<mapsto> Doc (MarkerD released_marker),
     pendingSessionRotationRetirementStateFile \<mapsto> Doc (RetirementD \<lparr>rs_Version = 1, rs_CallerThreadID = sample_next,
       rs_Recommendations = [\<lparr>rr_ParentThreadID = sample_thread, rr_DirectiveID = di_DirectiveID sample_directive\<rparr>]\<rparr>)]\<rparr>"

theorem retirement_blocked_by_release_witness:
  "marker_validate sample_runtime released_marker = None \<and>
   \<not> (\<exists>st'. commitPendingSessionRotationRecommendationRetirement sample_runtime staged_store = (Inr (), st'))"
proof (intro conjI)
  show "marker_validate sample_runtime released_marker = None" by code_simp
  let ?r = "\<lparr>rr_ParentThreadID = sample_thread, rr_DirectiveID = di_DirectiveID sample_directive\<rparr>"
  show "\<not> (\<exists>st'. commitPendingSessionRotationRecommendationRetirement sample_runtime staged_store = (Inr (), st'))"
  proof (rule retirement_blocked_by_release [where r = ?r and m = released_marker])
    show "files staged_store pendingSessionRotationRetirementStateFile = Some (Doc (RetirementD \<lparr>rs_Version = 1,
        rs_CallerThreadID = sample_next, rs_Recommendations = [?r]\<rparr>))"
      by (simp add: staged_store_def)
    show "marker_at (files staged_store) (rr_ParentThreadID ?r) = Some released_marker"
      by (simp add: marker_at_def staged_store_def)
    show "mk_LastCreationOutcome released_marker = Some (the (mk_LastCreationOutcome released_marker))"
      by (simp add: released_marker_def)
  qed simp
qed

section \<open>Claim and bind return\<close>

lemma LoadSessionRotationMarker_runs:
  assumes "ValidUUIDFormat t" "marker_at F t = Some m" "marker_validate rt m = None"
  shows "triple (calm F) (LoadSessionRotationMarker rt t) (\<lambda>v st. v = Some m \<and> calm F st) never"
proof -
  have content': "F (SessionRotationMarkerPath t) = Some (Doc (MarkerD m))"
    using assms(2) by (auto simp: marker_at_def split: option.splits content.splits doc.splits)
  have read: "triple (calm F) (attempt (ReadFile (SessionRotationMarkerPath t)))
      (\<lambda>v st. v = Inr (Doc (MarkerD m)) \<and> calm F st) never"
    by (rule triple_weaken [OF attempt_ReadFile_runs [of _ F]]) (simp_all add: content')
  have "decodeSessionRotationMarker rt (Doc (MarkerD m)) = Inr m"
    by (simp add: decodeSessionRotationMarker_def assms(3))
  then have "triple (calm F) (bindE (of_result (decodeSessionRotationMarker rt (Doc (MarkerD m)))) (\<lambda>m. returnE (Some m)))
      (\<lambda>v st. v = Some m \<and> calm F st) never"
    by (simp add: triple_def bindE_def of_result_def returnE_def)
  then show ?thesis
    unfolding LoadSessionRotationMarker_def
    by (simp add: assms(1)) (rule triple_bind [OF read], rule triple_assume, simp)
qed

lemma writeSessionRotationMarker_runs:
  assumes "\<And>t. marker_validate rt (m\<lparr>mk_UpdatedAt := rt_FormatRFC3339Nano rt t\<rparr>) = None"
    and "F (SessionRotationMarkerPath (mk_ParentThreadID m)) \<noteq> Some Directory"
  shows "triple (calm F) (writeSessionRotationMarker rt m) (\<lambda>_ st. \<exists>t. calm (F(SessionRotationMarkerPath (mk_ParentThreadID m) \<mapsto>
     Doc (MarkerD (m\<lparr>mk_UpdatedAt := rt_FormatRFC3339Nano rt t\<rparr>)))) st) never"
proof -
  have now': "triple (calm F) Now (\<lambda>_. calm F) never" by (simp add: triple_def Now_def)
  have "triple (calm F) (check (marker_validate rt (m\<lparr>mk_UpdatedAt := rt_FormatRFC3339Nano rt t\<rparr>))) (\<lambda>_. calm F) never" for t
    by (simp add: triple_def check_def assms(1))
  moreover have "triple (calm F) (writeFileAtomic (SessionRotationMarkerPath (mk_ParentThreadID m)) (Doc (MarkerD (m\<lparr>mk_UpdatedAt := rt_FormatRFC3339Nano rt v\<rparr>))))
      (\<lambda>_ st. \<exists>t. calm (F(SessionRotationMarkerPath (mk_ParentThreadID m) \<mapsto> Doc (MarkerD (m\<lparr>mk_UpdatedAt := rt_FormatRFC3339Nano rt t\<rparr>)))) st) never" for v
    by (rule triple_weaken [OF writeFileAtomic_runs [of _ F, OF marker_path_names(1) assms(2)]]) (assumption | erule exI)+
  ultimately show ?thesis
    unfolding writeSessionRotationMarker_def Let_def
    by (intro triple_bind [OF now'] triple_then) simp_all
qed

lemma marker_validate_iff:
  "marker_validate rt m = None \<longleftrightarrow> mk_Version m = sessionRotationMarkerVersion \<and> ValidUUIDFormat (mk_ParentThreadID m) \<and>
     validateStateRecords m = None \<and> claim_err m = None \<and> validateCreationOutcomeAndAcceptedTasks rt m = None \<and>
     (\<forall>d. mk_Directive m = Some d \<longrightarrow> directive_validate d = None) \<and>
     (\<forall>b. mk_LimitBaseline m = Some b \<longrightarrow> baseline_validate b = None) \<and>
     (\<forall>e. mk_LastEvaluation m = Some e \<longrightarrow> er_TaskID e \<noteq> [] \<and> er_At e \<noteq> []) \<and> mk_UpdatedAt m \<noteq> []"
  by (simp add: marker_validate_def validateLifecycle_def split: option.split del: first_err.simps)

lemma marker_validate_claimed:
  assumes "marker_validate rt m = None" "mk_Directive m = Some d" "mk_Issued m = None"
    and "ValidGeneratedUUID (cl_ClaimID c)" "ValidGeneratedUUID (cl_TargetTaskID c)" "cl_ClaimedAt c \<noteq> []"
      "cl_ClaimantThreadID c = mk_ParentThreadID m"
    and "s = SessionRotationStateClaimed \<and> cl_BoundThreadID c = [] \<or>
      s = SessionRotationStateBound \<and> ValidUUIDFormat (cl_BoundThreadID c) \<and> cl_BoundAt c \<noteq> []"
    and "u \<noteq> []"
  shows "marker_validate rt (m\<lparr>mk_State := s, mk_Claim := Some c, mk_UpdatedAt := u\<rparr>) = None"
proof -
  let ?m = "m\<lparr>mk_State := s, mk_Claim := Some c, mk_UpdatedAt := u\<rparr>"
  note old = assms(1) [unfolded marker_validate_iff]
  have "validateCreationOutcomeAndAcceptedTasks rt ?m = validateCreationOutcomeAndAcceptedTasks rt m"
    by (simp add: validateCreationOutcomeAndAcceptedTasks_def validateCreationOutcome_def split: option.split)
  moreover have "validateStateRecords ?m = None"
    using assms(2,3,8) by (auto simp: validateStateRecords_def validateClaimedSessionRotationRecords_def
        validateBoundSessionRotationRecords_def rotation_state_defs)
  moreover have "claim_err ?m = None"
    using assms(4-7) old by (auto simp: claim_err_def split: if_splits)
  ultimately show ?thesis
    unfolding marker_validate_iff using old assms(9) by simp
qed

text \<open>
  A pending directive can always be claimed and bound: in a state directory without faults
  whose marker of a thread is valid and pending, \<open>ClaimSessionRotation\<close> with the directive returns a
  new claim, \<open>BindSessionRotationClaim\<close> with that claim and any other thread then succeeds, and the
  directive is bound to that thread.
\<close>

theorem claim_and_bind_return:
  assumes calm': "\<forall>n. \<not> fault st n"
    and m: "ValidUUIDFormat t" "marker_at (files st) t = Some m" "mk_ParentThreadID m = t" "marker_validate rt m = None"
      "mk_State m = SessionRotationStatePending" "mk_Directive m = Some d"
    and th: "ValidUUIDFormat th" "th \<noteq> t"
    and b: "length b1 = 16" "length b2 = 16" and format: "\<And>v. rt_FormatRFC3339Nano rt v \<noteq> []"
  shows "\<exists>c st1 st2. ClaimSessionRotation rt b1 b2 t (di_DirectiveID d) st = (Inr c, st1) \<and>
    BindSessionRotationClaim rt t (di_DirectiveID d) (cl_ClaimID c) th st1 = (Inr (), st2) \<and>
    rotation_at (files st2) t = Bound (di_DirectiveID d) (NewUUID b1) (NewUUID b2) th"
proof -
  let ?F = "files st" and ?p = "SessionRotationMarkerPath t"
  let ?c = "\<lambda>v. \<lparr>cl_ClaimID = NewUUID b1, cl_ClaimantThreadID = t, cl_TargetTaskID = NewUUID b2,
     cl_ClaimedAt = rt_FormatRFC3339Nano rt v, cl_BoundThreadID = [], cl_BoundAt = []\<rparr>"
  let ?m1 = "\<lambda>v u. m\<lparr>mk_State := SessionRotationStateClaimed, mk_Claim := Some (?c v), mk_UpdatedAt := u\<rparr>"
  let ?m2 = "\<lambda>v w u. m\<lparr>mk_State := SessionRotationStateBound, mk_Claim := Some ((?c v)\<lparr>cl_BoundThreadID := th, cl_BoundAt := rt_FormatRFC3339Nano rt w\<rparr>), mk_UpdatedAt := u\<rparr>"
  have issued: "mk_Issued m = None"
    using valid_state_records [OF m(4)] m(5)
    by (auto simp: validateStateRecords_def validatePendingSessionRotationRecords_def rotation_state_defs split: if_splits)
  have v1: "marker_validate rt (?m1 v u) = None" if "u \<noteq> []" for v u
    by (rule marker_validate_claimed [OF m(4,6) issued]) (use that b m(3) format in \<open>simp_all add: NewUUID_generated\<close>)
  have v2: "marker_validate rt (?m2 v w u) = None" if "u \<noteq> []" for v w u
    by (rule marker_validate_claimed [OF m(4,6) issued]) (use that b m(3) th format in \<open>simp_all add: NewUUID_generated\<close>)
  have now': "triple (calm F) Now (\<lambda>_. calm F) never" for F by (simp add: triple_def Now_def)
  have dir: "?F ?p \<noteq> Some Directory" using m(2) by (auto simp: marker_at_def)
  define G where "G v u = ?F(?p \<mapsto> Doc (MarkerD (?m1 v u)))" for v u
  have write1: "triple (calm ?F) (writeSessionRotationMarker rt (m\<lparr>mk_State := SessionRotationStateClaimed, mk_Claim := Some (?c v)\<rparr>))
      (\<lambda>_ st. \<exists>u. u \<noteq> [] \<and> calm (G v u) st) never" for v
    by (rule triple_weaken [OF writeSessionRotationMarker_runs [where F = ?F]])
      (use m(3) v1 format dir in \<open>auto simp: G_def\<close>)
  have claim: "triple (calm ?F) (ClaimSessionRotation rt b1 b2 t (di_DirectiveID d))
      (\<lambda>c st. \<exists>v u. c = ?c v \<and> u \<noteq> [] \<and> calm (G v u) st) never"
    unfolding ClaimSessionRotation_def
    by (rule triple_bind [OF LoadSessionRotationMarker_runs [of t ?F, OF m(1,2,4)]], rule triple_assume)
      (use m(5,6) in \<open>auto simp: reusableSessionRotationClaim_def rotation_state_defs Let_def
         intro!: triple_bind [OF now'] triple_then [OF write1 [unfolded rotation_state_defs]] triple_return\<close>)
  from calm_returns [OF this, of st] calm' obtain c st1 v u where
    1: "ClaimSessionRotation rt b1 b2 t (di_DirectiveID d) st = (Inr c, st1)" "c = ?c v" "u \<noteq> []" "calm (G v u) st1"
    by (auto simp: calm_def state_is_self)
  have load: "triple (calm (G v u)) (LoadSessionRotationMarker rt t) (\<lambda>r st. r = Some (?m1 v u) \<and> calm (G v u) st) never"
    by (rule LoadSessionRotationMarker_runs [OF m(1)]) (simp_all add: G_def v1 1(3))
  have write2: "triple (calm (G v u)) (writeSessionRotationMarker rt ((?m1 v u)\<lparr>mk_State := SessionRotationStateBound,
        mk_Claim := Some ((?c v)\<lparr>cl_BoundThreadID := th, cl_BoundAt := rt_FormatRFC3339Nano rt w\<rparr>)\<rparr>))
      (\<lambda>_ st. \<exists>w u'. calm ((G v u)(?p \<mapsto> Doc (MarkerD (?m2 v w u')))) st) never" for w
    by (rule triple_weaken [OF writeSessionRotationMarker_runs [where F = "G v u"]])
      (use m(3) v2 format in \<open>auto simp: G_def\<close>)
  have "triple (calm (G v u)) (BindSessionRotationClaim rt t (di_DirectiveID d) (NewUUID b1) th)
      (\<lambda>_ st. \<exists>w u'. calm ((G v u)(?p \<mapsto> Doc (MarkerD (?m2 v w u')))) st) never"
    unfolding BindSessionRotationClaim_def with_claim_def
    using th
    by (simp only: simp_thms if_False, rule_tac triple_bind [OF load], rule_tac triple_assume)
      (use m(6) triple_bind [OF now' write2] in \<open>simp add: rotation_state_defs\<close>)
  from calm_returns [OF this 1(4)] obtain st2 w u' where
    2: "BindSessionRotationClaim rt t (di_DirectiveID d) (NewUUID b1) th st1 = (Inr (), st2)"
    "calm ((G v u)(?p \<mapsto> Doc (MarkerD (?m2 v w u')))) st2" by auto
  have "rotation_at (files st2) t = rotation_of (?m2 v w u')"
    using calm_files [OF 2(2), of ?p] by (simp add: rotation_at_def marker_at_def)
  also have "\<dots> = Bound (di_DirectiveID d) (NewUUID b1) (NewUUID b2) th"
    by (simp add: rotation_of_def m(6) rotation_state_defs)
  finally show ?thesis using 1(1,2) 2(1) by auto
qed

theorem claim_and_bind_return_witness:
  "\<exists>c st1 st2. ClaimSessionRotation sample_runtime (replicate 16 0) (replicate 16 1) sample_thread
      (di_DirectiveID sample_directive) rotation_store = (Inr c, st1) \<and>
    BindSessionRotationClaim sample_runtime sample_thread (di_DirectiveID sample_directive) (cl_ClaimID c) sample_next st1 = (Inr (), st2) \<and>
    rotation_at (files st2) sample_thread =
      Bound (di_DirectiveID sample_directive) (NewUUID (replicate 16 0)) (NewUUID (replicate 16 1)) sample_next"
proof (rule claim_and_bind_return)
  show "ValidUUIDFormat sample_thread" "ValidUUIDFormat sample_next" "sample_next \<noteq> sample_thread"
    "marker_validate sample_runtime sample_marker = None" by code_simp+
  show "marker_at (files rotation_store) sample_thread = Some sample_marker" by (simp add: rotation_store_marker)
  show "mk_Directive sample_marker = Some sample_directive" "mk_ParentThreadID sample_marker = sample_thread"
    "mk_State sample_marker = SessionRotationStatePending"
    by (simp_all add: sample_marker_def new_marker_def rotation_state_defs)
qed (simp_all add: rotation_store_def sample_store_def sample_runtime_def)

section \<open>Admission of an ordinary new task\<close>

lemma reads_marker [reads_intro]: "reads (LoadSessionRotationMarker rt t)"
  unfolding LoadSessionRotationMarker_def by (intro reads_intro)

lemma reads_markers [reads_intro]: "reads (load_markers rt es)" "reads (loadSessionRotationMarkers rt)"
proof -
  show all: "reads (load_markers rt es)" for es
    by (induction es) (auto intro!: reads_intro)
  show "reads (loadSessionRotationMarkers rt)"
    unfolding loadSessionRotationMarkers_def by (intro reads_intro all)
qed

lemma dir_entries_marker:
  assumes "listed st" "files st (SessionRotationMarkerPath t) \<noteq> None" "ValidUUIDFormat t"
  shows "t @ ''.json'' \<in> set (dir_entries sessionRotationDirectory st)"
proof -
  have "isLowerHexDigit c \<or> c = CHR ''-''" if "c \<in> set t" for c
  proof -
    from that obtain i where i: "i < 36" "c = t ! i" using assms(3) by (auto simp: in_set_conv_nth ValidUUIDFormat_def)
    then have "if i \<in> {8, 13, 18, 23} then t ! i = CHR ''-'' else isLowerHexDigit (t ! i)"
      using assms(3) unfolding ValidUUIDFormat_def list_all_iff by (metis atLeastLessThan_iff set_upt zero_le)
    with i(2) show ?thesis by (auto split: if_splits)
  qed
  then have "CHR ''/'' \<notin> set t" by (force simp: isLowerHexDigit_def)
  then have "SessionRotationMarkerPath t \<in> set (filter (\<lambda>n. prefix (sessionRotationDirectory @ ''/'') n \<and>
      CHR ''/'' \<notin> set (drop (length sessionRotationDirectory + 1) n) \<and> stored st n) (listing st))"
    using assms(1,2) by (auto simp: listed_def stored_def SessionRotationMarkerPath_def)
  then show ?thesis
    unfolding dir_entries_def by (force simp: SessionRotationMarkerPath_def image_iff)
qed

lemma load_markers_all:
  "load_markers rt es st = (Inr ms, st') \<Longrightarrow> t @ ''.json'' \<in> set es \<Longrightarrow> ValidUUIDFormat t \<Longrightarrow>
   marker_at (files st) t = Some m \<Longrightarrow> m \<in> set ms"
proof (induction es arbitrary: st st' ms)
  case (Cons e es)
  have name: "sessionRotationMarkerThreadID (t @ ''.json'') = t" "t \<noteq> []"
    using Cons.prems(3) by (auto simp: sessionRotationMarkerThreadID_def trim_ext_def ValidUUIDFormat_def)
  show ?case
  proof (cases "sessionRotationMarkerThreadID e = []")
    case True
    with Cons name show ?thesis by (auto split: if_splits)
  next
    case False
    with Cons.prems(1) obtain om st1 ms1 st2 where
      1: "LoadSessionRotationMarker rt (sessionRotationMarkerThreadID e) st = (Inr om, st1)"
      and 2: "load_markers rt es st1 = (Inr ms1, st2)"
      and ms: "ms = (case om of None \<Rightarrow> ms1 | Some marker \<Rightarrow> marker # ms1)"
      by (auto dest!: bind_InrD simp: returnE_def)
    have files: "files st1 = files st" using readsD [OF reads_marker 1] by simp
    show ?thesis
    proof (cases "e = t @ ''.json''")
      case True
      have "loaded rt (files st) t om"
        using triple_InrD [OF LoadSessionRotationMarker_clean state_is_self 1] name(1) True by simp
      then have "om = Some m" using Cons.prems(4) by (cases om) (auto simp: loaded_def marker_at_def)
      then show ?thesis by (simp add: ms)
    next
      case False
      then have "m \<in> set ms1" using Cons.IH [OF 2] Cons.prems files by simp
      then show ?thesis by (simp add: ms split: option.split)
    qed
  qed
qed simp

lemma loadSessionRotationMarkers_all:
  assumes "loadSessionRotationMarkers rt st = (Inr ms, st')" "listed st" "ValidUUIDFormat t" "marker_at (files st) t = Some m"
  shows "m \<in> set ms"
proof -
  have "files st (SessionRotationMarkerPath t) \<noteq> None" using assms(4) by (auto simp: marker_at_def split: option.splits)
  note entry = dir_entries_marker [OF assms(2) this assms(3)]
  from assms(1) obtain r st1 where
    1: "attempt (ReadDir sessionRotationDirectory) st = (Inr r, st1)"
    and 2: "(case r of Inl e \<Rightarrow> if is_not_exist e then returnE [] else throwE (Wrapf ''session rotation markers'' e)
     | Inr entries \<Rightarrow> load_markers rt entries) st1 = (Inr ms, st')"
    unfolding loadSessionRotationMarkers_def by (auto dest!: bind_InrD)
  have files: "files st1 = files st" using readsD [OF reads_attempt [OF reads_basic(8)] 1] by simp
  have "\<exists>es. r = Inr es \<and> t @ ''.json'' \<in> set es"
    using 1 2 entry by (auto simp: attempt_def ReadDir_def throwE_def split: if_splits list.splits)
  then show ?thesis using 2 load_markers_all assms(3,4) files by auto
qed

text \<open>
  An ordinary new task never overtakes a session rotation: when \<open>AdmitNewTaskRotation\<close> without a
  claim admits a caller, no marker of the directory holds a pending, claimed or bound directive,
  the marker of the calling thread is not issued, and the admission is not a retry.
\<close>

theorem ordinary_start_admission:
  assumes "listed st" "AdmitNewTaskRotation rt caller [] st = (Inr retry, st')"
  shows "\<not> retry \<and> (\<forall>t m. ValidUUIDFormat t \<and> marker_at (files st) t = Some m \<longrightarrow>
    incompleteSessionRotationFromMarker m = None \<and> (t = caller \<longrightarrow> mk_State m \<noteq> SessionRotationStateIssued))"
proof -
  have target: "reads (incompleteSessionRotationTarget rt caller)"
    unfolding incompleteSessionRotationTarget_def by (intro reads_intro)
  have retired': "reads (rejectRetiredSessionRotationCaller rt caller)"
    unfolding rejectRetiredSessionRotationCaller_def by (intro reads_intro)
  from assms(2) obtain b st1 st2 st3 where
    1: "incompleteSessionRotationTarget rt caller st = (Inr b, st1)"
    and 2: "rejectRetiredSessionRotationCaller rt caller st1 = (Inr (), st2)"
    and 3: "rejectIncompleteSessionRotation rt caller st2 = (Inr (), st3)" and retry: "\<not> retry"
    unfolding AdmitNewTaskRotation_def admitUnclaimedNewTask_def
    by (auto dest!: bind_InrD then_InrD simp: returnE_def throwE_def split: if_splits)
  have same1: "files st1 = files st" "listing st1 = listing st" using readsD [OF target 1] by simp_all
  have same2: "files st2 = files st" "listing st2 = listing st" using readsD [OF retired' 2] same1 by simp_all
  then have listed2: "listed st2" using assms(1) by (simp add: listed_def)
  from 3 obtain ms st4 where ms: "loadSessionRotationMarkers rt st2 = (Inr ms, st4)"
    and none: "sort_key ir_ParentThreadID (List.map_filter incompleteSessionRotationFromMarker ms) = []"
    unfolding rejectIncompleteSessionRotation_def IncompleteSessionRotations_def
    by (auto dest!: bind_InrD simp: returnE_def throwE_def split: list.splits if_splits)
  from none have "set (List.map_filter incompleteSessionRotationFromMarker ms) = {}" by (metis set_sort list.set(1))
  then have idle: "m \<in> set ms \<Longrightarrow> incompleteSessionRotationFromMarker m = None" for m
    by (auto simp: List.map_filter_def)
  have "mk_State m \<noteq> SessionRotationStateIssued"
    if "ValidUUIDFormat caller" "marker_at (files st) caller = Some m" for m
  proof -
    from 2 that(1) obtain om st5 where om: "LoadSessionRotationMarker rt caller st1 = (Inr om, st5)"
      "\<not> (case om of None \<Rightarrow> False | Some marker \<Rightarrow> mk_State marker = SessionRotationStateIssued)"
      unfolding rejectRetiredSessionRotationCaller_def
      by (auto dest!: bind_InrD simp: throwE_def split: if_splits)
    have "loaded rt (files st) caller om"
      using triple_InrD [OF LoadSessionRotationMarker_clean state_is_self om(1)] same1 by simp
    with that om(2) show ?thesis by (cases om) (auto simp: loaded_def marker_at_def)
  qed
  then show ?thesis
    using retry idle loadSessionRotationMarkers_all [OF ms listed2] same2(1) by auto
qed

theorem ordinary_start_admission_witness:
  "\<exists>st'. AdmitNewTaskRotation sample_runtime sample_next [] (rotation_store\<lparr>files := Map.empty\<rparr>) = (Inr False, st') \<and>
     (\<forall>t m. ValidUUIDFormat t \<and> marker_at Map.empty t = Some m \<longrightarrow> incompleteSessionRotationFromMarker m = None)"
proof -
  have ok: "fst (AdmitNewTaskRotation sample_runtime sample_next [] (rotation_store\<lparr>files := Map.empty\<rparr>)) = Inr False"
    by code_simp
  then obtain st' where run: "AdmitNewTaskRotation sample_runtime sample_next [] (rotation_store\<lparr>files := Map.empty\<rparr>) = (Inr False, st')"
    by (metis prod.collapse)
  have "listed (rotation_store\<lparr>files := Map.empty\<rparr>)" by (simp add: listed_def)
  from ordinary_start_admission [OF this run] run show ?thesis by simp
qed

lemma retired_caller_refused:
  assumes "rejectRetiredSessionRotationCaller rt caller st = (Inr (), st')" "ValidUUIDFormat caller" "marker_at (files st) caller = Some m"
  shows "mk_State m \<noteq> SessionRotationStateIssued"
proof -
  from assms(1,2) obtain om st1 where om: "LoadSessionRotationMarker rt caller st = (Inr om, st1)"
    "\<not> (case om of None \<Rightarrow> False | Some marker \<Rightarrow> mk_State marker = SessionRotationStateIssued)"
    unfolding rejectRetiredSessionRotationCaller_def by (auto dest!: bind_InrD simp: throwE_def split: if_splits)
  have "loaded rt (files st) caller om"
    using triple_InrD [OF LoadSessionRotationMarker_clean state_is_self om(1)] by simp
  with assms(3) om(2) show ?thesis by (cases om) (auto simp: loaded_def marker_at_def)
qed

lemma incomplete_all:
  assumes "IncompleteSessionRotations rt st = (Inr rotations, st')" "listed st" "ValidUUIDFormat t" "marker_at (files st) t = Some m"
    and "incompleteSessionRotationFromMarker m = Some r"
  shows "r \<in> set rotations"
proof -
  from assms(1) obtain ms st1 where ms: "loadSessionRotationMarkers rt st = (Inr ms, st1)"
    and rotations: "rotations = sort_key ir_ParentThreadID (List.map_filter incompleteSessionRotationFromMarker ms)"
    unfolding IncompleteSessionRotations_def by (auto dest!: bind_InrD simp: returnE_def)
  have "m \<in> set ms" by (rule loadSessionRotationMarkers_all [OF ms assms(2-4)])
  with assms(5) show ?thesis unfolding rotations by (force simp: List.map_filter_def)
qed

lemma reads_start [reads_intro]:
  "reads (incompleteSessionRotationTarget rt caller)" "reads (rejectRetiredSessionRotationCaller rt caller)"
  "reads (IncompleteSessionRotations rt)"
  unfolding incompleteSessionRotationTarget_def rejectRetiredSessionRotationCaller_def IncompleteSessionRotations_def
  by (intro reads_intro)+

text \<open>
  C19. An ordinary start declines recommendations, and nothing more: when
  \<open>StagePendingSessionRotationRecommendationRetirement\<close> returns, no rotation of the directory is claimed or
  bound, the calling thread is not one whose rotation was issued, every rotation that is only
  recommended is staged for retirement with its own directive, and no file but the stage has changed.
\<close>

theorem ordinary_start_stages:
  assumes "listed st" "StagePendingSessionRotationRecommendationRetirement rt caller st = (Inr (), st')"
  shows "(\<forall>t m r. ValidUUIDFormat t \<and> marker_at (files st) t = Some m \<and> incompleteSessionRotationFromMarker m = Some r \<longrightarrow>
      mk_State m = SessionRotationStatePending \<and>
      (\<exists>stage. files st' pendingSessionRotationRetirementStateFile = Some (Doc (RetirementD stage)) \<and>
        rs_CallerThreadID stage = caller \<and> recommendation_of r \<in> set (rs_Recommendations stage))) \<and>
    (\<forall>m. ValidUUIDFormat caller \<and> marker_at (files st) caller = Some m \<longrightarrow> mk_State m \<noteq> SessionRotationStateIssued) \<and>
    (\<forall>n. n \<noteq> pendingSessionRotationRetirementStateFile \<longrightarrow> files st' n = files st n)"
proof -
  from assms(2) obtain st0 rotations st5 st6 where
    boundary: "AdmitNewTaskRotationBoundary rt caller [] st = (Inr False, st0)"
    and again: "IncompleteSessionRotations rt st0 = (Inr rotations, st5)"
    and pending: "find (\<lambda>r. ir_State r \<noteq> SessionRotationStatePending) rotations = None"
    and store: "(if rotations = [] then ClearPendingSessionRotationRecommendationRetirement
             else writeFileAtomic pendingSessionRotationRetirementStateFile
               (Doc (RetirementD \<lparr>rs_Version = pendingSessionRotationRetirementVersion,
                  rs_CallerThreadID = caller, rs_Recommendations = map recommendation_of rotations\<rparr>))) st5 = (Inr (), st')"
    unfolding StagePendingSessionRotationRecommendationRetirement_def
    by (auto dest!: bind_InrD simp: throwE_def split: if_splits option.splits)
  from boundary obtain b st1 st2 where
    1: "incompleteSessionRotationTarget rt caller st = (Inr b, st1)"
    and 2: "rejectRetiredSessionRotationCaller rt caller st1 = (Inr (), st2)"
    unfolding AdmitNewTaskRotationBoundary_def
    by (auto dest!: bind_InrD then_InrD simp: returnE_def throwE_def split: if_splits)
  have "reads (AdmitNewTaskRotationBoundary rt caller [])"
    unfolding AdmitNewTaskRotationBoundary_def by (simp, intro reads_intro)
  from readsD [OF this boundary] have same0: "files st0 = files st" "listing st0 = listing st" by simp_all
  have same1: "files st1 = files st" using readsD [OF reads_start(1) 1] by simp
  have same5: "files st5 = files st" using readsD [OF reads_start(3) again] same0 by simp
  have listed0: "listed st0" using assms(1) same0 by (simp add: listed_def)
  have staged: "ir_State r = SessionRotationStatePending \<and> (\<exists>stage. files st' pendingSessionRotationRetirementStateFile = Some (Doc (RetirementD stage)) \<and>
        rs_CallerThreadID stage = caller \<and> recommendation_of r \<in> set (rs_Recommendations stage))"
    if r: "r \<in> set rotations" for r
  proof (intro conjI)
    show "ir_State r = SessionRotationStatePending" using pending r by (auto simp: find_None_iff)
    from r have "rotations \<noteq> []" by auto
    with store r show "\<exists>stage. files st' pendingSessionRotationRetirementStateFile = Some (Doc (RetirementD stage)) \<and>
        rs_CallerThreadID stage = caller \<and> recommendation_of r \<in> set (rs_Recommendations stage)"
      by (auto simp: writeFileAtomic_def split: if_splits option.splits content.splits)
  qed
  have state: "ir_State r = mk_State m" if "incompleteSessionRotationFromMarker m = Some r" for m r
    using that by (auto simp: incompleteSessionRotationFromMarker_def split: option.splits if_splits)
  have frame: "files st' n = files st n" if "n \<noteq> pendingSessionRotationRetirementStateFile" for n
    using store same5 that
    by (auto simp: ClearPendingSessionRotationRecommendationRetirement_def writeFileAtomic_def removeStatePath_def run_defs
        split: if_splits option.splits content.splits)
  show ?thesis
  proof (intro conjI allI impI)
    fix t m r assume m: "ValidUUIDFormat t \<and> marker_at (files st) t = Some m \<and> incompleteSessionRotationFromMarker m = Some r"
    then have "r \<in> set rotations" using incomplete_all [OF again listed0, of t m r] same0(1) by simp
    then show "mk_State m = SessionRotationStatePending"
      "\<exists>stage. files st' pendingSessionRotationRetirementStateFile = Some (Doc (RetirementD stage)) \<and>
        rs_CallerThreadID stage = caller \<and> recommendation_of r \<in> set (rs_Recommendations stage)"
      using staged [of r] state m by auto
  next
    fix m assume "ValidUUIDFormat caller \<and> marker_at (files st) caller = Some m"
    then show "mk_State m \<noteq> SessionRotationStateIssued" using retired_caller_refused [OF 2] same1 by simp
  qed (rule frame)
qed

text \<open>A directory in which one thread has a recommended rotation.\<close>

definition recommended_store :: store where
  "recommended_store = rotation_store\<lparr>files := [SessionRotationMarkerPath sample_thread \<mapsto> Doc (MarkerD sample_marker)],
     listing := [SessionRotationMarkerPath sample_thread]\<rparr>"

theorem ordinary_start_stages_witness:
  "\<exists>st' stage. StagePendingSessionRotationRecommendationRetirement sample_runtime sample_next recommended_store = (Inr (), st') \<and>
     files st' pendingSessionRotationRetirementStateFile = Some (Doc (RetirementD stage)) \<and>
     recommendation_of (the (incompleteSessionRotationFromMarker sample_marker)) \<in> set (rs_Recommendations stage)"
proof -
  have ok: "fst (StagePendingSessionRotationRecommendationRetirement sample_runtime sample_next recommended_store) = Inr ()"
    by code_simp
  then obtain st' where run: "StagePendingSessionRotationRecommendationRetirement sample_runtime sample_next recommended_store = (Inr (), st')"
    by (metis prod.collapse)
  have "listed recommended_store" by (simp add: listed_def recommended_store_def)
  moreover have "ValidUUIDFormat sample_thread" by code_simp
  moreover have "marker_at (files recommended_store) sample_thread = Some sample_marker"
    by (simp add: marker_at_def recommended_store_def)
  moreover have "incompleteSessionRotationFromMarker sample_marker \<noteq> None" by code_simp
  ultimately show ?thesis using ordinary_start_stages [OF _ run] run by fastforce
qed

end
