(* ===== verification/Observation.thy ===== *)
theory Observation
  imports Store_Runs
begin

text \<open>
  \<^verbatim>\<open>internal/state/observation_execution.go\<close>: the ledger of observations that a parent executes while a
  decision is pending. A document holds the records of executions, at most sixteen of them completed,
  and the replay fence of the current decision round, the identities of all executions reserved in
  that round. Times are nanoseconds. What the artifact checks ask of the file system (the resolution
  of symbolic links, the walk that protects the artifact directory) is an argument.
\<close>

section \<open>Constants and validation\<close>

definition observationExecutionsStateFile :: string where "observationExecutionsStateFile = ''observation-executions''"
definition observationExecutionsRetention :: nat where "observationExecutionsRetention = 16"
definition observationReplayFenceLimit :: nat where "observationReplayFenceLimit = 1024"
definition observationExecutionRecoveryGrace :: int where "observationExecutionRecoveryGrace = 10000000000"
definition ObservationExecutionStatusInFlight :: string where "ObservationExecutionStatusInFlight = ''in-flight''"
definition ObservationExecutionStatusPass :: string where "ObservationExecutionStatusPass = ''pass''"
definition ObservationExecutionStatusFail :: string where "ObservationExecutionStatusFail = ''fail''"
definition ObservationExecutionStatusIndeterminate :: string where
  "ObservationExecutionStatusIndeterminate = ''indeterminate''"

lemmas observation_status_defs = ObservationExecutionStatusInFlight_def ObservationExecutionStatusPass_def
  ObservationExecutionStatusFail_def ObservationExecutionStatusIndeterminate_def

definition in_flight :: "ObservationExecutionRecord \<Rightarrow> bool" where
  "in_flight r \<longleftrightarrow> ox_Status r = ObservationExecutionStatusInFlight"

definition validateObservationInFlightRecord :: "ObservationExecutionRecord \<Rightarrow> state_error option" where
  "validateObservationInFlightRecord r =
     (if ox_ExecutionID r = [] \<or> ox_TaskID r = [] \<or> ox_Operation r = [] \<or> ox_ParamsDigest r = [] \<or>
         ox_StartedAtRFC3339 r = [] \<or> ox_DeadlineMS r \<le> 0
      then Some (Errorf ''observation in-flight record lacks required fields'' [])
      else if \<not> in_flight r \<or> ox_CompletedAtRFC3339 r \<noteq> [] \<or> ox_Artifacts r \<noteq> []
      then Some (Errorf ''observation in-flight record lifecycle fields are invalid'' [])
      else None)"

definition validObservationTerminal :: "ObservationExecutionRecord \<Rightarrow> bool" where
  "validObservationTerminal r \<longleftrightarrow> ox_Status r \<in> {ObservationExecutionStatusPass, ObservationExecutionStatusFail,
     ObservationExecutionStatusIndeterminate} \<and> ox_CompletedAtRFC3339 r \<noteq> []"

text \<open>The fence is checked entry by entry; the key of an identity joins operation and parameter digest with a NUL byte.\<close>

definition identity_key :: "observationFenceIdentity \<Rightarrow> string" where
  "identity_key e = of_Operation e @ [CHR 0x00] @ of_ParamsDigest e"

fun fence_error :: "string list \<Rightarrow> string list \<Rightarrow> observationFenceIdentity list \<Rightarrow> state_error option" where
  "fence_error ids identities [] = None"
| "fence_error ids identities (e # es) =
     (if of_ExecutionID e = [] \<or> of_Operation e = [] \<or> of_ParamsDigest e = [] \<or> of_ExecutionID e \<in> set ids \<or>
         identity_key e \<in> set identities
      then Some (Errorf ''observation replay fence duplicate or invalid identity'' [])
      else fence_error (of_ExecutionID e # ids) (identity_key e # identities) es)"

definition validateObservationFence :: "observationFenceIdentity list \<Rightarrow> state_error option" where
  "validateObservationFence entries = fence_error [] [] entries"

definition validateObservationDetailIdentity ::
    "observationExecutionDocument \<Rightarrow> string list \<Rightarrow> ObservationExecutionRecord \<Rightarrow> state_error option" where
  "validateObservationDetailIdentity d visible r =
     (if ox_ExecutionID r = [] \<or> ox_TaskID r \<noteq> od_TaskID d \<or> ox_Operation r = [] \<or> ox_ParamsDigest r = [] \<or>
         ox_DecisionRound r < 0 \<or> ox_DecisionRound r > od_Round d \<or> ox_ExecutionID r \<in> set visible
      then Some (Errorf ''observation record identity is invalid'' [])
      else if ox_DecisionRound r = od_Round d \<and>
         (case find (\<lambda>e. of_ExecutionID e = ox_ExecutionID r) (od_Fence d) of
            None \<Rightarrow> True | Some e \<Rightarrow> of_Operation e \<noteq> ox_Operation r \<or> of_ParamsDigest e \<noteq> ox_ParamsDigest r)
      then Some (Errorf ''observation record is missing replay fence'' [])
      else None)"

fun details_error :: "observationExecutionDocument \<Rightarrow> string list \<Rightarrow> nat \<Rightarrow> ObservationExecutionRecord list \<Rightarrow> state_error option" where
  "details_error d visible terminals [] =
     (if terminals > observationExecutionsRetention
      then Some (Errorf ''observation terminal retention overflow'' []) else None)"
| "details_error d visible terminals (r # rs) =
     (case validateObservationDetailIdentity d visible r of
        Some e \<Rightarrow> Some e
      | None \<Rightarrow>
          if in_flight r then
            (if ox_DecisionRound r \<noteq> od_Round d \<or> validateObservationInFlightRecord r \<noteq> None
             then Some (Errorf ''observation in-flight record is invalid'' [])
             else details_error d (ox_ExecutionID r # visible) terminals rs)
          else if \<not> validObservationTerminal r
          then Some (Errorf ''observation terminal record is invalid'' [])
          else details_error d (ox_ExecutionID r # visible) (Suc terminals) rs)"

definition validateObservationDetails :: "observationExecutionDocument \<Rightarrow> state_error option" where
  "validateObservationDetails d = details_error d [] 0 (od_Records d)"

definition validateObservationDocument :: "observationExecutionDocument \<Rightarrow> state_error option" where
  "validateObservationDocument d = first_err
     [if od_TaskID d = [] \<or> od_Round d < 0 \<or> length (od_Fence d) > observationReplayFenceLimit \<or>
         od_Round d = 0 \<and> od_Fence d \<noteq> []
      then Some (Errorf ''observation current-format document is invalid'' []) else None,
      validateObservationFence (od_Fence d), validateObservationDetails d]"

section \<open>Reading and writing the document\<close>

definition readObservationDocument :: "observationExecutionDocument sop" where
  "readObservationDocument =
     bindE (wrapE ''observation state unavailable'' (ReadFile observationExecutionsStateFile)) (\<lambda>c. case c of
         Doc (ObservationD d) \<Rightarrow>
           thenE (check (validateObservationDocument d)) (bindE TaskID (\<lambda>taskID.
             if od_TaskID d \<noteq> taskID then throwE (Errorf ''observation document task mismatch'' [])
             else returnE d))
       | _ \<Rightarrow> throwE (Errorf ''observation current-format decode'' []))"

fun drop_completed :: "nat \<Rightarrow> ObservationExecutionRecord list \<Rightarrow> ObservationExecutionRecord list" where
  "drop_completed n [] = []"
| "drop_completed n (r # rs) =
     (if \<not> in_flight r \<and> n > 0 then drop_completed (n - 1) rs else r # drop_completed n rs)"

definition trimObservationExecutions :: "ObservationExecutionRecord list \<Rightarrow> ObservationExecutionRecord list" where
  "trimObservationExecutions records =
     (let completed = length (filter (\<lambda>r. \<not> in_flight r) records) in
      if completed \<le> observationExecutionsRetention then records
      else drop_completed (completed - observationExecutionsRetention) records)"

definition writeObservationDocument :: "observationExecutionDocument \<Rightarrow> unit sop" where
  "writeObservationDocument d = (let d = d\<lparr>od_Records := trimObservationExecutions (od_Records d)\<rparr> in
     thenE (check (validateObservationDocument d))
       (wrapE ''state write'' (writeFileAtomic observationExecutionsStateFile (Doc (ObservationD d)))))"

definition initObservationDocument :: "string \<Rightarrow> unit sop" where
  "initObservationDocument taskID =
     writeObservationDocument \<lparr>od_TaskID = taskID, od_Round = 0, od_Fence = [], od_Records = []\<rparr>"

section \<open>Rounds and reservations\<close>

definition advanceObservationRound ::
    "observationExecutionDocument \<Rightarrow> int \<Rightarrow> (state_error, observationExecutionDocument) result" where
  "advanceObservationRound d round =
     (if round < od_Round d \<or> round \<le> 0 then Inl (Errorf ''stale observation decision round'' [])
      else if round = od_Round d then Inr d
      else if list_ex in_flight (od_Records d) then Inl (Errorf ''previous-round observation remains in-flight'' [])
      else Inr (d\<lparr>od_Round := round, od_Fence := []\<rparr>))"

fun reserve_error :: "ObservationExecutionRecord \<Rightarrow> observationFenceIdentity list \<Rightarrow> state_error option" where
  "reserve_error r [] = None"
| "reserve_error r (e # es) =
     (if of_ExecutionID e = ox_ExecutionID r
      then Some (Errorf ''observation execution id already reserved'' [ox_ExecutionID r])
      else if of_Operation e = ox_Operation r \<and> of_ParamsDigest e = ox_ParamsDigest r
      then Some (Errorf ''re-execution of the same operation in one decision round is refused'' [ox_Operation r])
      else reserve_error r es)"

definition reserveObservationIdentity ::
    "observationExecutionDocument \<Rightarrow> ObservationExecutionRecord \<Rightarrow> (state_error, observationExecutionDocument) result" where
  "reserveObservationIdentity d r = (case reserve_error r (od_Fence d) of
       Some e \<Rightarrow> Inl e
     | None \<Rightarrow>
         if list_ex (\<lambda>p. ox_ExecutionID p = ox_ExecutionID r) (od_Records d)
         then Inl (Errorf ''observation execution id still in record history'' [])
         else if length (od_Fence d) \<ge> observationReplayFenceLimit
         then Inl (Errorf ''observation replay fence capacity exceeded'' [itoa (int observationReplayFenceLimit)])
         else Inr (d\<lparr>od_Fence := od_Fence d @ [\<lparr>of_ExecutionID = ox_ExecutionID r, of_Operation = ox_Operation r,
                       of_ParamsDigest = ox_ParamsDigest r\<rparr>],
                     od_Records := od_Records d @ [r]\<rparr>))"

definition ObservationExecutionRound :: "int sop" where
  "ObservationExecutionRound = bindE (attempt (Stat parentEvidenceLeasePath)) (\<lambda>r. case r of
       Inl e \<Rightarrow> if is_not_exist e then throwE (Errorf ''decision round has no canonical lifecycle identity'' [])
         else throwE (Wrapf ''decision round canonical lifecycle identity cannot be checked'' e)
     | Inr _ \<Rightarrow> bindE (wrapE ''decision round canonical lifecycle identity'' ParentEvidenceLeaseEpoch) (\<lambda>epoch.
         if epoch \<le> 0 then throwE (Errorf ''decision round canonical lifecycle identity is invalid'' [itoa epoch])
         else returnE epoch))"

record ObservationExecutionAdmission =
  oa_TaskID :: string
  oa_Round :: int

definition ObservationExecuteAdmission :: "ObservationExecutionAdmission sop" where
  "ObservationExecuteAdmission = bindE get_TaskStatus (\<lambda>status.
     bindE (if status \<noteq> TaskStatusWaitingDecision then returnE False else Exists ''pending-decision'') (\<lambda>pending.
       if \<not> pending
       then throwE (Errorf ''observation capability is only available at the pending Sol decision boundary'' [])
       else bindE (wrapE ''pending decision parent review state'' CurrentParentReview) (\<lambda>open'.
         if (case open' of None \<Rightarrow> True | Some r \<Rightarrow> pro_PacketStatus r \<noteq> StatusNeedsSolDecision)
         then throwE (Errorf ''observation capability is only available while NEEDS_SOL_DECISION is pending'' [])
         else bindE TaskID (\<lambda>taskID. bindE ObservationExecutionRound (\<lambda>round.
           returnE \<lparr>oa_TaskID = taskID, oa_Round = round\<rparr>)))))"

definition ValidateObservationExecuteAdmission :: "ObservationExecutionAdmission \<Rightarrow> unit sop" where
  "ValidateObservationExecuteAdmission expected = bindE ObservationExecuteAdmission (\<lambda>current.
     if current \<noteq> expected
     then throwE (Errorf ''observation lifecycle admission changed'' [oa_TaskID current, itoa (oa_Round current)])
     else returnE ())"

definition ObservationExecutions :: "ObservationExecutionRecord list sop" where
  "ObservationExecutions = bindE readObservationDocument (\<lambda>d. returnE (od_Records d))"

definition ObservationExecutionsForRound :: "int \<Rightarrow> ObservationExecutionRecord list sop" where
  "ObservationExecutionsForRound round = bindE TaskID (\<lambda>taskID. bindE ObservationExecutions (\<lambda>records.
     returnE (filter (\<lambda>r. ox_TaskID r = taskID \<and> ox_DecisionRound r = round \<and> \<not> in_flight r) records)))"

definition HasObservationExecution :: "string \<Rightarrow> string \<Rightarrow> int \<Rightarrow> bool sop" where
  "HasObservationExecution operation paramsDigest round = bindE ObservationExecutionRound (\<lambda>current.
     if current \<noteq> round then throwE (Errorf ''observation request has noncanonical round'' [])
     else bindE readObservationDocument (\<lambda>d.
       if od_Round d > round then throwE (Errorf ''observation fence is ahead of canonical lifecycle'' [])
       else if od_Round d < round then
         (if list_ex in_flight (od_Records d)
          then throwE (Errorf ''old in-flight observation blocks round switch'' []) else returnE False)
       else returnE (list_ex (\<lambda>e. of_Operation e = operation \<and> of_ParamsDigest e = paramsDigest) (od_Fence d))))"

section \<open>Recovery of stale executions\<close>

definition recovery_detail :: string where
  "recovery_detail = ''observation execution crossed its durable recovery horizon without completion; the operation may have run and automatic replay is refused''"

definition recovered_record :: "go_runtime \<Rightarrow> int \<Rightarrow> ObservationExecutionRecord \<Rightarrow> ObservationExecutionRecord" where
  "recovered_record rt now' r = r\<lparr>ox_Status := ObservationExecutionStatusIndeterminate, ox_Detail := recovery_detail,
     ox_ExitSource := ''recovery'', ox_CompletedAtRFC3339 := rt_FormatRFC3339Nano rt now'\<rparr>"

text \<open>The sum of durations wraps as \<^verbatim>\<open>int64\<close> arithmetic does.\<close>

definition recovery_horizon :: "int \<Rightarrow> ObservationExecutionRecord \<Rightarrow> int" where
  "recovery_horizon startedAt r =
     startedAt + wrap64 (wrap64 (ox_DeadlineMS r * 1000000) + observationExecutionRecoveryGrace)"

fun recover_records ::
    "go_runtime \<Rightarrow> int \<Rightarrow> ObservationExecutionRecord list \<Rightarrow> (state_error, bool \<times> ObservationExecutionRecord list) result" where
  "recover_records rt now' [] = Inr (False, [])"
| "recover_records rt now' (r # rs) =
     (if \<not> in_flight r then map_sum id (\<lambda>(changed, out). (changed, r # out)) (recover_records rt now' rs)
      else case validateObservationInFlightRecord r of
        Some e \<Rightarrow> Inl (Wrapf ''observation in-flight record cannot be recovered'' e)
      | None \<Rightarrow> (case rt_ParseRFC3339 rt (ox_StartedAtRFC3339 r) of
            None \<Rightarrow> Inl (Errorf ''observation in-flight record started_at is invalid'' [])
          | Some startedAt \<Rightarrow>
              if now' < recovery_horizon startedAt r
              then map_sum id (\<lambda>(changed, out). (changed, r # out)) (recover_records rt now' rs)
              else map_sum id (\<lambda>(changed, out). (True, recovered_record rt now' r # out)) (recover_records rt now' rs)))"

definition RecoverStaleObservationExecutions :: "go_runtime \<Rightarrow> int \<Rightarrow> unit sop" where
  "RecoverStaleObservationExecutions rt now' = bindE readObservationDocument (\<lambda>d.
     bindE (of_result (recover_records rt now' (od_Records d))) (\<lambda>(changed, records).
       if \<not> changed then returnE () else writeObservationDocument (d\<lparr>od_Records := records\<rparr>)))"

text \<open>The record of one execution is resolved by hand; a record that is no longer in flight is left alone.\<close>

fun resolve_in :: "go_runtime \<Rightarrow> string \<Rightarrow> string \<Rightarrow> int \<Rightarrow> ObservationExecutionRecord list \<Rightarrow>
    (state_error, ObservationExecutionRecord list option) result" where
  "resolve_in rt i detail completedAt [] = Inl (Errorf ''observation execution has no durable in-flight identity'' [i])"
| "resolve_in rt i detail completedAt (r # rs) =
     (if ox_ExecutionID r \<noteq> i then map_sum id (map_option ((#) r)) (resolve_in rt i detail completedAt rs)
      else if \<not> in_flight r then Inr None
      else Inr (Some (r\<lparr>ox_Status := ObservationExecutionStatusIndeterminate, ox_Detail := trim_space detail,
        ox_ExitSource := ''recovery'', ox_CompletedAtRFC3339 := rt_FormatRFC3339Nano rt completedAt\<rparr> # rs)))"

definition ResolveObservationExecutionIndeterminate :: "go_runtime \<Rightarrow> string \<Rightarrow> string \<Rightarrow> int \<Rightarrow> unit sop" where
  "ResolveObservationExecutionIndeterminate rt executionID detail completedAt = bindE readObservationDocument (\<lambda>d.
     bindE (of_result (resolve_in rt executionID detail completedAt (od_Records d))) (\<lambda>res. case res of
       None \<Rightarrow> returnE ()
     | Some records \<Rightarrow> writeObservationDocument (d\<lparr>od_Records := records\<rparr>)))"

section \<open>Beginning and completing executions\<close>

definition inside_dir :: "string \<Rightarrow> string \<Rightarrow> bool" where
  "inside_dir root p \<longleftrightarrow> p = root \<or> prefix (root @ ''/'') p"

fun artifact_error :: "(string \<Rightarrow> string option) \<Rightarrow> string \<Rightarrow> string list \<Rightarrow> state_error option" where
  "artifact_error eval root [] = None"
| "artifact_error eval root (a # as) =
     (if a = [] then Some (Errorf ''observation artifacts have an empty path'' [])
      else if hd a \<noteq> CHR ''/'' then Some (Errorf ''observation artifact must be an absolute path'' [a])
      else case eval a of
        None \<Rightarrow> Some (Errorf ''observation artifact cannot be resolved'' [a])
      | Some resolved \<Rightarrow>
          if \<not> inside_dir root resolved
          then Some (Errorf ''observation artifact is outside the task artifact directory'' [a])
          else artifact_error eval root as)"

definition validateObservationExecutionArtifacts ::
    "(string \<Rightarrow> string option) \<Rightarrow> string \<Rightarrow> string list \<Rightarrow> state_error option" where
  "validateObservationExecutionArtifacts eval artifactRoot artifacts =
     artifact_error eval (case eval artifactRoot of None \<Rightarrow> artifactRoot | Some root \<Rightarrow> root) artifacts"

definition validateObservationExecutionRecord ::
    "(string \<Rightarrow> string option) \<Rightarrow> ObservationExecutionRecord \<Rightarrow> string \<Rightarrow> state_error option" where
  "validateObservationExecutionRecord eval r artifactRoot =
     (if ox_ExecutionID r = [] \<or> ox_TaskID r = [] \<or> ox_Operation r = [] \<or> ox_ParamsDigest r = []
      then Some (Errorf ''observation execution record lacks required fields'' [])
      else if ox_Status r \<notin> {ObservationExecutionStatusPass, ObservationExecutionStatusFail, ObservationExecutionStatusIndeterminate}
      then Some (Errorf ''observation execution status must be pass, fail or indeterminate'' [ox_Status r])
      else if ox_CompletedAtRFC3339 r = []
      then Some (Errorf ''observation execution record has no completion time'' [])
      else validateObservationExecutionArtifacts eval artifactRoot (ox_Artifacts r))"

definition sameObservationExecutionIdentity :: "ObservationExecutionRecord \<Rightarrow> ObservationExecutionRecord \<Rightarrow> bool" where
  "sameObservationExecutionIdentity left right \<longleftrightarrow> ox_TaskID left = ox_TaskID right \<and>
     ox_Operation left = ox_Operation right \<and> ox_ParamsDigest left = ox_ParamsDigest right \<and>
     ox_DecisionRound left = ox_DecisionRound right"

text \<open>\<open>fs_EvalSymlinks\<close>, \<open>fs_StateDir\<close> and \<open>fs_walk\<close> are what the artifact checks take from the file system.\<close>

record artifact_fs =
  fs_EvalSymlinks :: "string \<Rightarrow> string option"
  fs_StateDir :: string
  fs_walk :: "string \<Rightarrow> state_error option"

definition ArtifactDir :: "artifact_fs \<Rightarrow> string \<Rightarrow> string" where
  "ArtifactDir fs taskID = fs_StateDir fs @ ''/artifacts/'' @ taskID"

definition validateArtifactTaskID :: "string \<Rightarrow> state_error option" where
  "validateArtifactTaskID taskID =
     (if taskID = [] \<or> taskID = ''.'' \<or> taskID = ''..'' \<or> CHR ''/'' \<in> set taskID \<or> CHR 0x5C \<in> set taskID
      then Some (Errorf ''artifact task ID is invalid'' [taskID]) else None)"

definition SecureArtifactDir :: "artifact_fs \<Rightarrow> unit sop" where
  "SecureArtifactDir fs = bindE TaskID (\<lambda>taskID. thenE (check (validateArtifactTaskID taskID))
     (case fs_walk fs (ArtifactDir fs taskID) of
        None \<Rightarrow> returnE ()
      | Some e \<Rightarrow> if is_not_exist e then returnE () else throwE (Wrapf ''artifact permissions'' e)))"

definition BeginObservationExecution :: "ObservationExecutionRecord \<Rightarrow> unit sop" where
  "BeginObservationExecution record' = bindE TaskID (\<lambda>taskID.
     let r = (if ox_TaskID record' = [] then record'\<lparr>ox_TaskID := taskID\<rparr> else record') in
     if ox_TaskID r \<noteq> taskID then throwE (Errorf ''observation in-flight task mismatch'' [])
     else thenE (check (validateObservationInFlightRecord r)) (bindE ObservationExecutionRound (\<lambda>round.
       if round \<noteq> ox_DecisionRound r then throwE (Errorf ''observation request round is noncanonical'' [])
       else bindE readObservationDocument (\<lambda>d.
         bindE (of_result (advanceObservationRound d round)) (\<lambda>d.
           bindE (of_result (reserveObservationIdentity d r)) writeObservationDocument)))))"

fun complete_in :: "ObservationExecutionRecord \<Rightarrow> ObservationExecutionRecord list \<Rightarrow> (state_error, ObservationExecutionRecord list) result" where
  "complete_in r [] = Inl (Errorf ''observation completion lacks durable in-flight identity'' [])"
| "complete_in r (e # es) =
     (if ox_ExecutionID e \<noteq> ox_ExecutionID r then map_sum id ((#) e) (complete_in r es)
      else if \<not> in_flight e \<or> \<not> sameObservationExecutionIdentity e r
      then Inl (Errorf ''observation completion does not match durable in-flight identity'' [])
      else Inr (r # es))"

definition completeObservationInDocument ::
    "artifact_fs \<Rightarrow> observationExecutionDocument \<Rightarrow> ObservationExecutionRecord \<Rightarrow> unit sop" where
  "completeObservationInDocument fs d r = bindE (of_result (complete_in r (od_Records d))) (\<lambda>records.
     thenE (writeObservationDocument (d\<lparr>od_Records := records\<rparr>)) (SecureArtifactDir fs))"

definition CompleteObservationExecution :: "artifact_fs \<Rightarrow> ObservationExecutionRecord \<Rightarrow> unit sop" where
  "CompleteObservationExecution fs r = bindE TaskID (\<lambda>taskID.
     if ox_TaskID r \<noteq> taskID then throwE (Errorf ''observation completion task mismatch'' [])
     else thenE (check (validateObservationExecutionRecord (fs_EvalSymlinks fs) r (ArtifactDir fs taskID)))
       (bindE ObservationExecutionRound (\<lambda>round.
         if round \<noteq> ox_DecisionRound r then throwE (Errorf ''observation completion round changed'' [])
         else bindE readObservationDocument (\<lambda>d.
           if od_Round d \<noteq> round then throwE (Errorf ''observation completion fence round mismatch'' [])
           else completeObservationInDocument fs d r))))"

definition AppendObservationExecution :: "artifact_fs \<Rightarrow> ObservationExecutionRecord \<Rightarrow> unit sop" where
  "AppendObservationExecution fs record' = bindE TaskID (\<lambda>taskID.
     let r = (if ox_TaskID record' = [] then record'\<lparr>ox_TaskID := taskID\<rparr> else record') in
     if ox_TaskID r \<noteq> taskID then throwE (Errorf ''observation append task mismatch'' [])
     else thenE (check (validateObservationExecutionRecord (fs_EvalSymlinks fs) r (ArtifactDir fs taskID)))
       (bindE ObservationExecutionRound (\<lambda>round.
         if round \<noteq> ox_DecisionRound r then throwE (Errorf ''observation append round noncanonical'' [])
         else bindE readObservationDocument (\<lambda>d.
           bindE (of_result (advanceObservationRound d round)) (\<lambda>d.
             bindE (of_result (reserveObservationIdentity d r)) (\<lambda>d.
               thenE (writeObservationDocument d) (SecureArtifactDir fs)))))))"

section \<open>Documents before and after an operation\<close>

lemma obs_not_stats [simp]: "observationExecutionsStateFile \<noteq> currentStatsFile"
  by (simp add: observationExecutionsStateFile_def currentStatsFile_def)

lemma reads_observation [reads_intro]:
  "reads ObservationExecutionRound" "reads (SecureArtifactDir fs)"
  unfolding ObservationExecutionRound_def ParentEvidenceLeaseEpoch_def SecureArtifactDir_def
  by (intro reads_intro)+

text \<open>
  \<open>rewritten F R\<close>: the document of \<open>F\<close> was valid and has been replaced by one that \<open>R\<close> relates to it;
  no other file has changed.
\<close>

definition recorded :: "filemap \<Rightarrow> observationExecutionDocument \<Rightarrow> bool" where
  "recorded F d \<longleftrightarrow> F observationExecutionsStateFile = Some (Doc (ObservationD d)) \<and> validateObservationDocument d = None"

definition rewritten :: "filemap \<Rightarrow> (observationExecutionDocument \<Rightarrow> observationExecutionDocument \<Rightarrow> bool) \<Rightarrow> store \<Rightarrow> bool" where
  "rewritten F R st \<longleftrightarrow> (\<exists>d d'. recorded F d \<and> validateObservationDocument d' = None \<and> R d d' \<and>
     state_is (F(observationExecutionsStateFile \<mapsto> Doc (ObservationD d'))) st)"

definition trimmed :: "observationExecutionDocument \<Rightarrow> observationExecutionDocument" where
  "trimmed d = d\<lparr>od_Records := trimObservationExecutions (od_Records d)\<rparr>"

lemma readObservationDocument_triple:
  "triple (state_is F) readObservationDocument
     (\<lambda>d st. recorded F d \<and> state_is F st) (\<lambda>_. state_is F)"
  unfolding readObservationDocument_def
proof (rule triple_bind)
  show "triple (state_is F) (wrapE ''observation state unavailable'' (ReadFile observationExecutionsStateFile))
     (\<lambda>c st. (F observationExecutionsStateFile = Some c \<and> c \<noteq> Directory) \<and> state_is F st) (\<lambda>_. state_is F)"
    by (rule triple_wrap, rule triple_weaken [OF ReadFile_clean]) auto
next
  fix c
  have "triple (state_is F) (thenE (check (validateObservationDocument d)) (bindE TaskID (\<lambda>taskID.
             if od_TaskID d \<noteq> taskID then throwE (Errorf ''observation document task mismatch'' []) else returnE d)))
     (\<lambda>d' st. (d' = d \<and> validateObservationDocument d = None) \<and> state_is F st) (\<lambda>_. state_is F)" for d
    by (rule triple_then [OF check_checked], rule triple_assume, rule triple_bind [OF reads_frame [OF reads_identity(1)]])
      (auto intro: triple_if triple_throw triple_return)
  then have "triple (state_is F) (thenE (check (validateObservationDocument d)) (bindE TaskID (\<lambda>taskID.
             if od_TaskID d \<noteq> taskID then throwE (Errorf ''observation document task mismatch'' []) else returnE d)))
     (\<lambda>d st. recorded F d \<and> state_is F st) (\<lambda>_. state_is F)" if "F observationExecutionsStateFile = Some (Doc (ObservationD d))" for d
    by (rule triple_weaken) (use that in \<open>auto simp: recorded_def\<close>)
  then show "triple (\<lambda>st. (F observationExecutionsStateFile = Some c \<and> c \<noteq> Directory) \<and> state_is F st)
      (case c of Doc (ObservationD d) \<Rightarrow> thenE (check (validateObservationDocument d)) (bindE TaskID (\<lambda>taskID.
             if od_TaskID d \<noteq> taskID then throwE (Errorf ''observation document task mismatch'' []) else returnE d))
       | _ \<Rightarrow> throwE (Errorf ''observation current-format decode'' []))
      (\<lambda>d st. recorded F d \<and> state_is F st) (\<lambda>_. state_is F)"
    by (intro triple_assume) (auto intro: triple_throw split: content.split doc.split)
qed

lemma writeObservationDocument_triple:
  assumes "recorded F d"
    and "R d (trimmed d')"
  shows "triple (state_is F) (writeObservationDocument d') (\<lambda>_. rewritten F R) (\<lambda>_. state_is F)"
  unfolding writeObservationDocument_def Let_def
proof (rule triple_then)
  show "triple (state_is F) (check (validateObservationDocument (d'\<lparr>od_Records := trimObservationExecutions (od_Records d')\<rparr>)))
      (\<lambda>_ st. validateObservationDocument (trimmed d') = None \<and> state_is F st) (\<lambda>_. state_is F)"
    by (rule triple_check) (simp_all add: trimmed_def)
  show "triple (\<lambda>st. validateObservationDocument (trimmed d') = None \<and> state_is F st)
      (wrapE ''state write'' (writeFileAtomic observationExecutionsStateFile
        (Doc (ObservationD (d'\<lparr>od_Records := trimObservationExecutions (od_Records d')\<rparr>)))))
      (\<lambda>_. rewritten F R) (\<lambda>_. state_is F)"
    by (rule triple_assume, rule triple_wrap, rule triple_weaken [OF writeFileAtomic_clean])
      (use assms in \<open>auto simp: rewritten_def trimmed_def\<close>)
qed

section \<open>What the operations do to the document\<close>

text \<open>
  \<open>keeps\<close>: round and fence are kept. \<open>reserves r\<close>: the document is at the round of \<open>r\<close> and the identity
  of \<open>r\<close> is a new last entry of its fence, which otherwise is the old fence or, in a new round, empty.
\<close>

definition keeps :: "observationExecutionDocument \<Rightarrow> observationExecutionDocument \<Rightarrow> bool" where
  "keeps d d' \<longleftrightarrow> od_Round d' = od_Round d \<and> od_Fence d' = od_Fence d"

definition entry_of :: "ObservationExecutionRecord \<Rightarrow> observationFenceIdentity" where
  "entry_of r = \<lparr>of_ExecutionID = ox_ExecutionID r, of_Operation = ox_Operation r, of_ParamsDigest = ox_ParamsDigest r\<rparr>"

definition clashes :: "ObservationExecutionRecord \<Rightarrow> observationFenceIdentity \<Rightarrow> bool" where
  "clashes r e \<longleftrightarrow> of_ExecutionID e = ox_ExecutionID r \<or>
     of_Operation e = ox_Operation r \<and> of_ParamsDigest e = ox_ParamsDigest r"

definition reserves :: "ObservationExecutionRecord \<Rightarrow> observationExecutionDocument \<Rightarrow> observationExecutionDocument \<Rightarrow> bool" where
  "reserves r d d' \<longleftrightarrow> od_Round d' = ox_DecisionRound r \<and>
     (\<exists>old. od_Fence d' = old @ [entry_of r] \<and> (\<forall>e\<in>set old. \<not> clashes r e) \<and>
       (od_Round d < od_Round d' \<and> old = [] \<or> od_Round d = od_Round d' \<and> old = od_Fence d))"

lemma reserve_error_None: "reserve_error r es = None \<longleftrightarrow> (\<forall>e\<in>set es. \<not> clashes r e)"
  by (induction es) (auto simp: clashes_def)

lemma reserves_intro:
  assumes "advanceObservationRound d (ox_DecisionRound r) = Inr d1" "reserveObservationIdentity d1 r = Inr d2"
  shows "reserves r d (trimmed d2)"
  using assms
  by (auto simp: advanceObservationRound_def reserveObservationIdentity_def reserves_def trimmed_def entry_of_def
      reserve_error_None split: if_splits option.splits)

lemma reserve_triple:
  assumes "recorded F d"
    and "\<And>d2. triple (rewritten F (reserves r)) (k d2) (\<lambda>_. rewritten F (reserves r)) E"
    and "\<And>e st. state_is F st \<Longrightarrow> E e st"
  shows "triple (state_is F) (bindE (of_result (advanceObservationRound d (ox_DecisionRound r))) (\<lambda>d1.
     bindE (of_result (reserveObservationIdentity d1 r)) (\<lambda>d2. thenE (writeObservationDocument d2) (k d2))))
     (\<lambda>_. rewritten F (reserves r)) E"
proof (rule triple_bind)
  show "triple (state_is F) (of_result (advanceObservationRound d (ox_DecisionRound r)))
      (\<lambda>d1 st. advanceObservationRound d (ox_DecisionRound r) = Inr d1 \<and> state_is F st) E"
    by (rule triple_of_result) (simp_all add: assms(3))
  fix d1
  have "triple (state_is F) (writeObservationDocument d2) (\<lambda>_. rewritten F (reserves r)) E"
    if "advanceObservationRound d (ox_DecisionRound r) = Inr d1" "reserveObservationIdentity d1 r = Inr d2" for d2
    by (rule triple_weaken [OF writeObservationDocument_triple [where R = "reserves r", OF assms(1) reserves_intro [OF that]]])
      (simp_all add: assms(3))
  moreover have "triple (state_is F) (of_result (reserveObservationIdentity d1 r))
      (\<lambda>d2 st. reserveObservationIdentity d1 r = Inr d2 \<and> state_is F st) E"
    by (rule triple_of_result) (simp_all add: assms(3))
  ultimately show "triple (\<lambda>st. advanceObservationRound d (ox_DecisionRound r) = Inr d1 \<and> state_is F st)
      (bindE (of_result (reserveObservationIdentity d1 r)) (\<lambda>d2. thenE (writeObservationDocument d2) (k d2)))
      (\<lambda>_. rewritten F (reserves r)) E"
    by (intro triple_assume, elim triple_bind, intro triple_assume triple_then [OF _ assms(2)]) simp
qed

text \<open>\<open>with_task t r\<close> is the record with the task filled in.\<close>

definition with_task :: "string \<Rightarrow> ObservationExecutionRecord \<Rightarrow> ObservationExecutionRecord" where
  "with_task t r = (if ox_TaskID r = [] then r\<lparr>ox_TaskID := t\<rparr> else r)"

lemma with_task_identity [simp]: "entry_of (with_task t r) = entry_of r" "clashes (with_task t r) = clashes r"
    "ox_DecisionRound (with_task t r) = ox_DecisionRound r"
  by (auto simp: with_task_def entry_of_def clashes_def fun_eq_iff)

lemma reserves_with_task [simp]: "reserves (with_task t r) = reserves r"
  by (simp add: reserves_def fun_eq_iff)

lemma BeginObservationExecution_triple:
  "triple (state_is F) (BeginObservationExecution r) (\<lambda>_. rewritten F (reserves r)) (\<lambda>_. state_is F)"
  unfolding BeginObservationExecution_def Let_def with_task_def [symmetric]
proof (rule triple_bind [OF reads_frame [OF reads_identity(1)]], rule triple_if, rule triple_throw, assumption,
    rule triple_then [OF triple_check [of _ "state_is F"]], assumption, assumption,
    rule triple_bind [OF reads_frame [OF reads_observation(1)]], rule triple_if, rule triple_throw, assumption,
    rule triple_bind [OF readObservationDocument_triple], rule triple_assume)
  fix t round d
  assume d: "recorded F d"
    and "\<not> round \<noteq> ox_DecisionRound (with_task t r)"
  then have round: "round = ox_DecisionRound (with_task t r)" by simp
  have "triple (state_is F) (bindE (of_result (advanceObservationRound d (ox_DecisionRound (with_task t r)))) (\<lambda>d1.
     bindE (of_result (reserveObservationIdentity d1 (with_task t r))) (\<lambda>d2. thenE (writeObservationDocument d2) (returnE ()))))
     (\<lambda>_. rewritten F (reserves (with_task t r))) (\<lambda>_. state_is F)"
    by (rule reserve_triple [where k = "\<lambda>_. returnE ()", OF d]) (auto intro: triple_return)
  moreover have "thenE m (returnE ()) = m" for m :: "unit sop"
    by (auto simp: thenE_def bindE_def returnE_def fun_eq_iff split: prod.split sum.split)
  ultimately show "triple (state_is F) (bindE (of_result (advanceObservationRound d round)) (\<lambda>d.
       bindE (of_result (reserveObservationIdentity d (with_task t r))) writeObservationDocument))
     (\<lambda>_. rewritten F (reserves r)) (\<lambda>_. state_is F)"
    unfolding round by simp
qed

lemma rewritten_files: "rewritten F R st \<Longrightarrow> files st' = files st \<Longrightarrow> rewritten F R st'"
  by (simp add: rewritten_def state_is_def)

lemma AppendObservationExecution_triple:
  "triple (state_is F) (AppendObservationExecution fs r) (\<lambda>_. rewritten F (reserves r))
     (\<lambda>_ st. state_is F st \<or> rewritten F (reserves r) st)"
  unfolding AppendObservationExecution_def Let_def with_task_def [symmetric]
proof -
  let ?E = "\<lambda>_ st. state_is F st \<or> rewritten F (reserves r) st"
  have read: "triple (state_is F) m (\<lambda>_. state_is F) ?E" if "reads m" for m :: "'a sop"
    by (rule triple_weaken [OF reads_frame [OF that]]) auto
  have secure: "triple (rewritten F (reserves r)) (SecureArtifactDir fs) (\<lambda>_. rewritten F (reserves r)) ?E"
    by (rule tripleI) (use rewritten_files readsD [OF reads_observation(2)] in blast)+
  have document: "triple (state_is F) readObservationDocument (\<lambda>d st. recorded F d \<and> state_is F st) ?E"
    by (rule triple_weaken [OF readObservationDocument_triple]) auto
  have body: "triple (state_is F) (bindE (of_result (advanceObservationRound d (ox_DecisionRound (with_task t r)))) (\<lambda>d1.
     bindE (of_result (reserveObservationIdentity d1 (with_task t r))) (\<lambda>d2. thenE (writeObservationDocument d2) (SecureArtifactDir fs))))
     (\<lambda>_. rewritten F (reserves r)) ?E" if "recorded F d" for d t
    using reserve_triple [where k = "\<lambda>_. SecureArtifactDir fs" and r = "with_task t r", OF that] secure by simp
  show "triple (state_is F) (bindE TaskID (\<lambda>taskID.
     if ox_TaskID (with_task taskID r) \<noteq> taskID then throwE (Errorf ''observation append task mismatch'' [])
     else thenE (check (validateObservationExecutionRecord (fs_EvalSymlinks fs) (with_task taskID r) (ArtifactDir fs taskID)))
       (bindE ObservationExecutionRound (\<lambda>round.
         if round \<noteq> ox_DecisionRound (with_task taskID r) then throwE (Errorf ''observation append round noncanonical'' [])
         else bindE readObservationDocument (\<lambda>d.
           bindE (of_result (advanceObservationRound d round)) (\<lambda>d.
             bindE (of_result (reserveObservationIdentity d (with_task taskID r))) (\<lambda>d.
               thenE (writeObservationDocument d) (SecureArtifactDir fs))))))))
     (\<lambda>_. rewritten F (reserves r)) ?E"
    by (rule triple_bind [OF read [OF reads_identity(1)]], rule triple_if, rule triple_throw, simp,
        rule triple_then [OF triple_check [of _ "state_is F"]], assumption, simp,
        rule triple_bind [OF read [OF reads_observation(1)]], rule triple_if, rule triple_throw, simp,
        rule triple_bind [OF document], rule triple_assume) (use body in simp)
qed

lemma complete_in_length: "complete_in r es = Inr es' \<Longrightarrow> length es' = length es"
  by (induction es arbitrary: es') (auto split: if_splits sum.splits simp: map_sum_def)

lemma keep_write:
  assumes "recorded F d"
  shows "triple (state_is F) (writeObservationDocument (d\<lparr>od_Records := rs\<rparr>)) (\<lambda>_. rewritten F keeps) (\<lambda>_. state_is F)"
  by (rule writeObservationDocument_triple [OF assms]) (simp add: keeps_def trimmed_def)

text \<open>\<open>kept F\<close>: the document is untouched, or rewritten with its round and fence.\<close>

definition kept :: "filemap \<Rightarrow> store \<Rightarrow> bool" where
  "kept F st \<longleftrightarrow> state_is F st \<or> rewritten F keeps st"

lemma kept_reads: "reads m \<Longrightarrow> triple (kept F) m (\<lambda>_. kept F) (\<lambda>_. kept F)"
  by (rule tripleI) (auto simp: kept_def state_is_def dest: readsD intro: rewritten_files)

lemma kept_write:
  "recorded F d \<Longrightarrow> triple (state_is F) (writeObservationDocument (d\<lparr>od_Records := rs\<rparr>)) (\<lambda>_. kept F) (\<lambda>_. kept F)"
  by (rule triple_weaken [OF keep_write]) (auto simp: kept_def)

lemma kept_document:
  "triple (state_is F) readObservationDocument (\<lambda>d st. recorded F d \<and> state_is F st) (\<lambda>_. kept F)"
  by (rule triple_weaken [OF readObservationDocument_triple]) (auto simp: kept_def)

lemma kept_read: "reads m \<Longrightarrow> triple (state_is F) m (\<lambda>_. state_is F) (\<lambda>_. kept F)"
  by (rule triple_weaken [OF reads_frame]) (auto simp: kept_def)

lemma state_kept: "state_is F st \<Longrightarrow> kept F st"
  by (simp add: kept_def)

lemma CompleteObservationExecution_triple:
  "triple (state_is F) (CompleteObservationExecution fs r) (\<lambda>_. kept F) (\<lambda>_. kept F)"
  unfolding CompleteObservationExecution_def completeObservationInDocument_def
  by (rule triple_bind [OF kept_read [OF reads_identity(1)]], rule triple_if, rule triple_throw, erule state_kept,
      rule triple_then [OF triple_check [of _ "state_is F"]], assumption, erule state_kept,
      rule triple_bind [OF kept_read [OF reads_observation(1)]], rule triple_if, rule triple_throw, erule state_kept,
      rule triple_bind [OF kept_document], rule triple_assume, rule triple_if, rule triple_throw, erule state_kept,
      rule triple_bind [OF triple_of_result [where Q = "\<lambda>_. state_is F"]], assumption, erule state_kept,
      rule triple_then [OF kept_write kept_reads [OF reads_observation(2)]])

lemma RecoverStaleObservationExecutions_triple:
  "triple (state_is F) (RecoverStaleObservationExecutions rt now') (\<lambda>_. kept F) (\<lambda>_. kept F)"
  unfolding RecoverStaleObservationExecutions_def
  by (rule triple_bind [OF kept_document], rule triple_assume,
      rule triple_bind [OF triple_of_result [where Q = "\<lambda>_. state_is F"]], assumption, erule state_kept)
    (auto intro: triple_if triple_return state_kept kept_write split: prod.split)

lemma ResolveObservationExecutionIndeterminate_triple:
  "triple (state_is F) (ResolveObservationExecutionIndeterminate rt i detail t) (\<lambda>_. kept F) (\<lambda>_. kept F)"
  unfolding ResolveObservationExecutionIndeterminate_def
  by (rule triple_bind [OF kept_document], rule triple_assume,
      rule triple_bind [OF triple_of_result [where Q = "\<lambda>_. state_is F"]], assumption, erule state_kept)
    (auto intro: triple_return state_kept kept_write split: option.split)

section \<open>No observation is executed twice\<close>

text \<open>
  A run of the state directory: any sequence of reservations, completions and recoveries, with any
  other steps in between that leave the observation document alone. The log holds round, execution
  ID, operation and parameters of every reservation that was granted.
\<close>

type_synonym reservation = "int \<times> string \<times> string \<times> string"

definition reservation_of :: "ObservationExecutionRecord \<Rightarrow> reservation" where
  "reservation_of r = (ox_DecisionRound r, ox_ExecutionID r, ox_Operation r, ox_ParamsDigest r)"

inductive observation_run :: "store \<Rightarrow> reservation list \<Rightarrow> store \<Rightarrow> bool" for st0 where
  run_start: "observation_run st0 [] st0"
| run_other: "observation_run st0 l st \<Longrightarrow>
    files st' observationExecutionsStateFile = files st observationExecutionsStateFile \<Longrightarrow> observation_run st0 l st'"
| run_reserved: "observation_run st0 l st \<Longrightarrow> m \<in> {BeginObservationExecution r, AppendObservationExecution fs r} \<Longrightarrow>
    m st = (Inr (), st') \<Longrightarrow> observation_run st0 (reservation_of r # l) st'"
| run_refused: "observation_run st0 l st \<Longrightarrow> m \<in> {BeginObservationExecution r, AppendObservationExecution fs r} \<Longrightarrow>
    m st = (Inl e, st') \<Longrightarrow> observation_run st0 l st'"
| run_settled: "observation_run st0 l st \<Longrightarrow> m \<in> {CompleteObservationExecution fs r, RecoverStaleObservationExecutions rt now',
      ResolveObservationExecutionIndeterminate rt i detail now'} \<Longrightarrow>
    m st = (v, st') \<Longrightarrow> observation_run st0 l st'"

text \<open>Every logged reservation is of an older round or is fenced by the document.\<close>

definition fenced :: "observationExecutionDocument \<Rightarrow> reservation \<Rightarrow> bool" where
  "fenced d = (\<lambda>(round, i, operation, params). round < od_Round d \<or> round = od_Round d \<and>
     \<lparr>of_ExecutionID = i, of_Operation = operation, of_ParamsDigest = params\<rparr> \<in> set (od_Fence d))"

definition log_fenced :: "filemap \<Rightarrow> reservation list \<Rightarrow> bool" where
  "log_fenced F l \<longleftrightarrow> l = [] \<or> (\<exists>d. F observationExecutionsStateFile = Some (Doc (ObservationD d)) \<and> (\<forall>x\<in>set l. fenced d x))"

lemma fenced_keeps: "keeps d d' \<Longrightarrow> fenced d' x = fenced d x"
  by (cases x) (simp add: fenced_def keeps_def)

lemma fenced_reserves: "reserves r d d' \<Longrightarrow> fenced d x \<Longrightarrow> fenced d' x"
  by (cases x) (auto simp: fenced_def reserves_def)

lemma fenced_new: "reserves r d d' \<Longrightarrow> fenced d' (reservation_of r)"
  by (auto simp: fenced_def reserves_def reservation_of_def entry_of_def)

lemma fenced_fresh:
  assumes "reserves r d d'" "fenced d (round, i, operation, params)" "round = ox_DecisionRound r"
  shows "i \<noteq> ox_ExecutionID r \<and> (operation, params) \<noteq> (ox_Operation r, ox_ParamsDigest r)"
proof -
  obtain old where old: "\<forall>e\<in>set old. \<not> clashes r e"
      "od_Round d < ox_DecisionRound r \<or> od_Round d = ox_DecisionRound r \<and> old = od_Fence d"
    using assms(1) unfolding reserves_def by metis
  then have "\<lparr>of_ExecutionID = i, of_Operation = operation, of_ParamsDigest = params\<rparr> \<in> set old"
    using assms(2,3) by (auto simp: fenced_def)
  with old(1) show ?thesis by (auto simp: clashes_def)
qed

lemma log_fenced_rewritten:
  assumes "rewritten F R st" "\<And>d d' x. R d d' \<Longrightarrow> fenced d x \<Longrightarrow> fenced d' x" "log_fenced F l"
  shows "log_fenced (files st) l"
proof -
  obtain d d' where d: "F observationExecutionsStateFile = Some (Doc (ObservationD d))" "R d d'"
      "files st observationExecutionsStateFile = Some (Doc (ObservationD d'))"
    using assms(1) by (auto simp: rewritten_def recorded_def state_is_def)
  with assms(2,3) show ?thesis by (auto simp: log_fenced_def)
qed

lemma log_fenced_same:
  "files st' observationExecutionsStateFile = F observationExecutionsStateFile \<Longrightarrow> log_fenced F l \<Longrightarrow> log_fenced (files st') l"
  by (simp add: log_fenced_def)

lemma log_fenced_state_is: "state_is F st \<Longrightarrow> log_fenced F l \<Longrightarrow> log_fenced (files st) l"
  by (simp add: log_fenced_def state_is_def)

lemma log_fenced_kept: "kept F st \<Longrightarrow> log_fenced F l \<Longrightarrow> log_fenced (files st) l"
  unfolding kept_def by (auto intro: log_fenced_state_is log_fenced_rewritten [where R = keeps] simp: fenced_keeps)

definition unrepeated :: "reservation list \<Rightarrow> bool" where
  "unrepeated l \<longleftrightarrow> distinct (map (\<lambda>(round, i, operation, params). (round, operation, params)) l) \<and>
     distinct (map (\<lambda>(round, i, operation, params). (round, i)) l)"

lemma log_fenced_reserved:
  assumes "rewritten F (reserves r) st" "log_fenced F l" "unrepeated l"
  shows "log_fenced (files st) (reservation_of r # l) \<and> unrepeated (reservation_of r # l)"
proof -
  obtain d d' where d: "F observationExecutionsStateFile = Some (Doc (ObservationD d))" "reserves r d d'"
      "files st observationExecutionsStateFile = Some (Doc (ObservationD d'))"
    using assms(1) by (auto simp: rewritten_def recorded_def state_is_def)
  then have old: "\<forall>x\<in>set l. fenced d x" using assms(2) by (auto simp: log_fenced_def)
  have "log_fenced (files st) (reservation_of r # l)"
    using d old fenced_new [OF d(2)] fenced_reserves [OF d(2)] by (auto simp: log_fenced_def)
  moreover have "(ox_DecisionRound r, operation, params) \<noteq> (round, ox_Operation r, ox_ParamsDigest r) \<and>
      (ox_DecisionRound r, i) \<noteq> (round, ox_ExecutionID r)" if "(round, i, operation, params) \<in> set l" for round i operation params
    using fenced_fresh [OF d(2), of round i operation params] old that by auto
  then have "unrepeated (reservation_of r # l)"
    using assms(3) by (fastforce simp: unrepeated_def reservation_of_def)
  ultimately show ?thesis ..
qed

lemma observation_run_fenced: "observation_run st0 l st \<Longrightarrow> log_fenced (files st) l \<and> unrepeated l"
proof (induction rule: observation_run.induct)
  case run_start
  show ?case by (simp add: log_fenced_def unrepeated_def)
next
  case (run_other l st st')
  then show ?case using log_fenced_same [of st' "files st"] by simp
next
  case (run_reserved l st m r fs st')
  have "rewritten (files st) (reserves r) st'"
    using run_reserved.hyps(2,3) triple_InrD [OF BeginObservationExecution_triple state_is_self]
      triple_InrD [OF AppendObservationExecution_triple state_is_self] by blast
  with run_reserved.IH show ?case by (intro log_fenced_reserved) auto
next
  case (run_refused l st m r fs e st')
  have "state_is (files st) st' \<or> rewritten (files st) (reserves r) st'"
    using run_refused.hyps(2,3) triple_InlD [OF BeginObservationExecution_triple state_is_self]
      triple_InlD [OF AppendObservationExecution_triple state_is_self] by blast
  with run_refused.IH show ?case
    by (auto intro: log_fenced_state_is log_fenced_rewritten [where R = "reserves r"] fenced_reserves)
next
  case (run_settled l st m fs r rt now' i detail v st')
  then have "kept (files st) st'"
    using triple_bothD [OF CompleteObservationExecution_triple state_is_self]
      triple_bothD [OF RecoverStaleObservationExecutions_triple state_is_self]
      triple_bothD [OF ResolveObservationExecutionIndeterminate_triple state_is_self] by blast
  with run_settled.IH show ?case by (simp add: log_fenced_kept)
qed

text \<open>
  C20. No observation is executed twice in a decision round: along every run of the state directory,
  whatever accesses fail and whatever other files change in between, the reservations granted by
  \<open>BeginObservationExecution\<close> and \<open>AppendObservationExecution\<close> have pairwise different operation and
  parameters within a round, and pairwise different execution IDs within a round. Completing,
  recovering or trimming a record never frees its identity.
\<close>

theorem observation_never_replayed:
  assumes "observation_run st0 l st"
  shows "distinct (map (\<lambda>(round, i, operation, params). (round, operation, params)) l) \<and>
    distinct (map (\<lambda>(round, i, operation, params). (round, i)) l)"
  using observation_run_fenced [OF assms] by (simp add: unrepeated_def)

text \<open>A store at decision round 1 with an empty observation document, and a request to execute.\<close>

definition observing_store :: store where
  "observing_store = \<lparr>files = [''task.id'' \<mapsto> Text ''t1'', ''parent-evidence-lease'' \<mapsto> Text ''1'',
       ''observation-executions'' \<mapsto> Doc (ObservationD \<lparr>od_TaskID = ''t1'', od_Round = 0, od_Fence = [], od_Records = []\<rparr>)],
     listing = [''observation-executions'', ''parent-evidence-lease'', ''task.id''], access = 0, fault = (\<lambda>_. False), now = 7,
     lifecycle_log = [], outcome_log = []\<rparr>"

definition sample_request :: "string \<Rightarrow> string \<Rightarrow> ObservationExecutionRecord" where
  "sample_request i operation = \<lparr>ox_ExecutionID = i, ox_TaskID = [], ox_Operation = operation, ox_ParamsDigest = ''p'',
     ox_Status = ''in-flight'', ox_Detail = [], ox_Artifacts = [], ox_ExitCode = 0, ox_ExitSource = [], ox_DurationMS = 0,
     ox_DeadlineMS = 1000, ox_Head = [], ox_IndexDigest = [], ox_WorktreeDigest = [], ox_DecisionRound = 1,
     ox_StartedAtRFC3339 = ''2026-01-01T00:00:00Z'', ox_CompletedAtRFC3339 = []\<rparr>"

theorem observation_never_replayed_witness:
  "\<exists>st. observation_run observing_store [(1, ''e2'', ''logs'', ''p''), (1, ''e1'', ''test'', ''p'')] st \<and>
     distinct [(1::int, ''logs'', ''p''), (1, ''test'', ''p'')]"
proof -
  let ?m = "BeginObservationExecution (sample_request ''e1'' ''test'')"
  let ?m' = "BeginObservationExecution (sample_request ''e2'' ''logs'')"
  have 1: "fst (?m observing_store) = Inr ()" by code_simp
  have 2: "fst (?m' (snd (?m observing_store))) = Inr ()" by code_simp
  have "observation_run observing_store [reservation_of (sample_request ''e1'' ''test'')] (snd (?m observing_store))"
    by (rule run_reserved [OF run_start, of ?m _ undefined]) (use 1 in \<open>auto simp: prod_eq_iff\<close>)
  then have run: "observation_run observing_store [reservation_of (sample_request ''e2'' ''logs''),
      reservation_of (sample_request ''e1'' ''test'')] (snd (?m' (snd (?m observing_store))))"
    by (rule run_reserved [of _ _ _ ?m' _ undefined]) (use 2 in \<open>auto simp: prod_eq_iff\<close>)
  with observation_never_replayed [OF run] show ?thesis
    by (auto simp: reservation_of_def sample_request_def)
qed

section \<open>Retention\<close>

lemma drop_completed_split:
  "filter in_flight (drop_completed n rs) = filter in_flight rs"
  "filter (\<lambda>r. \<not> in_flight r) (drop_completed n rs) = drop n (filter (\<lambda>r. \<not> in_flight r) rs)"
  "subseq (drop_completed n rs) rs"
  by (induction n rs rule: drop_completed.induct) (auto simp: drop_Cons' intro: subseq_Cons')

lemma trim_split:
  "filter in_flight (trimObservationExecutions rs) = filter in_flight rs"
  "filter (\<lambda>r. \<not> in_flight r) (trimObservationExecutions rs) =
     (let completed = filter (\<lambda>r. \<not> in_flight r) rs in drop (length completed - 16) completed)"
  "subseq (trimObservationExecutions rs) rs"
  by (simp_all add: trimObservationExecutions_def Let_def drop_completed_split observationExecutionsRetention_def)

text \<open>
  Trimming keeps the record history: every execution in flight stays, of the completed ones the
  latest sixteen stay, and the order of the records that stay is kept.
\<close>

theorem trim_keeps_latest:
  "filter in_flight (trimObservationExecutions rs) = filter in_flight rs \<and>
   filter (\<lambda>r. \<not> in_flight r) (trimObservationExecutions rs) =
     (let completed = filter (\<lambda>r. \<not> in_flight r) rs in drop (length completed - 16) completed) \<and>
   subseq (trimObservationExecutions rs) rs"
  by (intro conjI trim_split)

section \<open>Recovery unblocks a round\<close>

text \<open>A document is valid when every record is and no execution ID is repeated.\<close>

definition record_ok :: "observationExecutionDocument \<Rightarrow> ObservationExecutionRecord \<Rightarrow> bool" where
  "record_ok d r \<longleftrightarrow> validateObservationDetailIdentity d [] r = None \<and>
     (if in_flight r then ox_DecisionRound r = od_Round d \<and> validateObservationInFlightRecord r = None
      else validObservationTerminal r)"

lemma identity_visible:
  "validateObservationDetailIdentity d visible r = None \<longleftrightarrow>
   validateObservationDetailIdentity d [] r = None \<and> ox_ExecutionID r \<notin> set visible"
  by (auto simp: validateObservationDetailIdentity_def)

lemma details_error_None:
  "details_error d visible n rs = None \<longleftrightarrow> (\<forall>r\<in>set rs. record_ok d r) \<and> distinct (map ox_ExecutionID rs) \<and>
     set (map ox_ExecutionID rs) \<inter> set visible = {} \<and> n + length (filter (\<lambda>r. \<not> in_flight r) rs) \<le> observationExecutionsRetention"
proof (induction rs arbitrary: visible n)
  case (Cons r rs)
  show ?case
  proof (cases "validateObservationDetailIdentity d visible r")
    case None
    then have "validateObservationDetailIdentity d [] r = None \<and> ox_ExecutionID r \<notin> set visible"
      by (rule identity_visible [THEN iffD1])
    with None show ?thesis by (auto simp: record_ok_def Cons.IH)
  next
    case (Some e)
    then have "\<not> (validateObservationDetailIdentity d [] r = None \<and> ox_ExecutionID r \<notin> set visible)"
      using identity_visible [of d visible r] by simp
    with Some show ?thesis by (auto simp: record_ok_def)
  qed
qed auto

lemma record_ok_records [simp]: "record_ok (d\<lparr>od_Records := rs\<rparr>) = record_ok d"
  by (simp add: record_ok_def validateObservationDetailIdentity_def fun_eq_iff)

lemma subseq_records: "subseq xs ys \<Longrightarrow> set xs \<subseteq> set ys \<and> (distinct (map f ys) \<longrightarrow> distinct (map f xs))"
  by (induction rule: list_emb.induct) auto

lemma trimmed_valid:
  assumes "validateObservationDocument d = None" "\<forall>r\<in>set rs. record_ok d r" "distinct (map ox_ExecutionID rs)"
  shows "validateObservationDocument (trimmed (d\<lparr>od_Records := rs\<rparr>)) = None"
proof -
  let ?t = "trimObservationExecutions rs"
  have "set ?t \<subseteq> set rs" "distinct (map ox_ExecutionID ?t)"
    using trim_split(3) [of rs] assms(3) by (simp_all add: subseq_records)
  moreover have "length (filter (\<lambda>r. \<not> in_flight r) ?t) \<le> observationExecutionsRetention"
    by (simp add: trim_split Let_def observationExecutionsRetention_def)
  ultimately have "details_error (d\<lparr>od_Records := ?t\<rparr>) [] 0 ?t = None"
    using assms(2) by (auto simp: details_error_None)
  with assms(1) show ?thesis
    by (simp add: trimmed_def validateObservationDocument_def validateObservationDetails_def split: option.splits if_splits)
qed

definition stale :: "go_runtime \<Rightarrow> int \<Rightarrow> ObservationExecutionRecord \<Rightarrow> bool" where
  "stale rt now' r \<longleftrightarrow> in_flight r \<and> (case rt_ParseRFC3339 rt (ox_StartedAtRFC3339 r) of
     None \<Rightarrow> False | Some startedAt \<Rightarrow> recovery_horizon startedAt r \<le> now')"

lemma recovered_simps [simp]:
  "\<not> in_flight (recovered_record rt t r)" "ox_ExecutionID (recovered_record rt t r) = ox_ExecutionID r"
  by (simp_all add: in_flight_def recovered_record_def observation_status_defs)

lemma recovered_filter:
  "filter in_flight (map (\<lambda>r. if stale rt t r then recovered_record rt t r else r) rs) =
   filter (\<lambda>r. in_flight r \<and> \<not> stale rt t r) rs"
  by (induction rs) auto

lemma recovered_ok:
  assumes "record_ok d r" "rt_FormatRFC3339Nano rt t \<noteq> []"
  shows "record_ok d (recovered_record rt t r)"
proof -
  have "validateObservationDetailIdentity d [] (recovered_record rt t r) = validateObservationDetailIdentity d [] r"
    by (auto simp: validateObservationDetailIdentity_def recovered_record_def split: option.split)
  with assms show ?thesis
    by (simp add: record_ok_def) (simp add: validObservationTerminal_def recovered_record_def)
qed

lemma recover_records_map:
  assumes "\<forall>r\<in>set rs. in_flight r \<longrightarrow> validateObservationInFlightRecord r = None \<and> rt_ParseRFC3339 rt (ox_StartedAtRFC3339 r) \<noteq> None"
  shows "recover_records rt t rs = Inr (list_ex (stale rt t) rs, map (\<lambda>r. if stale rt t r then recovered_record rt t r else r) rs)"
  using assms by (induction rs) (auto simp: stale_def not_less)

lemma bind_Inr: "bindE (of_result (Inr v)) k = k v"
  by (simp add: bindE_def of_result_def fun_eq_iff)

lemma recover_write_runs:
  assumes "recorded F d" "\<forall>r\<in>set rs. record_ok d r" "distinct (map ox_ExecutionID rs)"
  shows "triple (calm F) (writeObservationDocument (d\<lparr>od_Records := rs\<rparr>))
    (\<lambda>_. calm (F(observationExecutionsStateFile \<mapsto> Doc (ObservationD (trimmed (d\<lparr>od_Records := rs\<rparr>)))))) never"
proof -
  have "validateObservationDocument (trimmed (d\<lparr>od_Records := rs\<rparr>)) = None"
    using assms by (intro trimmed_valid) (auto simp: recorded_def)
  then show ?thesis
    unfolding writeObservationDocument_def Let_def trimmed_def
    by (intro triple_then [OF triple_check [where P = "calm F" and Q = "\<lambda>_. calm F"]] triple_wrap writeFileAtomic_runs)
      (use assms(1) in \<open>auto simp: recorded_def\<close>)
qed

lemma readObservationDocument_runs:
  assumes "recorded F d" "F ''task.id'' = Some c" "c \<noteq> Directory" "trim_space (text_of c) = od_TaskID d"
  shows "triple (calm F) readObservationDocument (\<lambda>v st. v = d \<and> calm F st) never"
proof -
  have d: "F observationExecutionsStateFile = Some (Doc (ObservationD d))" "validateObservationDocument d = None"
    using assms(1) by (auto simp: recorded_def)
  then have "od_TaskID d \<noteq> []"
    by (auto simp: validateObservationDocument_def split: option.splits if_splits)
  note task = TaskID_runs [of F, OF assms(2-4) this]
  show ?thesis
    unfolding readObservationDocument_def
    by (rule triple_bind [OF triple_wrap [OF ReadFile_runs [of _ F, OF _ d(1)]]], simp, simp, rule triple_assume, clarsimp,
        rule triple_then [OF triple_check [where P = "calm F" and Q = "\<lambda>_. calm F"]], simp, simp add: d(2),
        rule triple_bind [OF task], rule triple_assume) (auto intro: triple_return)
qed

text \<open>
  C21. A lost observation blocks its decision round exactly until its recovery horizon: in a state
  directory without faults that holds a valid observation document of the current task whose start
  times can be parsed, \<open>RecoverStaleObservationExecutions\<close> returns; round and fence stay, the
  executions still in flight are exactly those whose deadline and grace period have not passed, and
  the document then advances to a later round, with an empty fence, if no execution is left before its
  horizon, and is refused otherwise.
\<close>

theorem recovery_unblocks:
  assumes calm': "\<forall>n. \<not> fault st n"
    and doc: "files st observationExecutionsStateFile = Some (Doc (ObservationD d))" "validateObservationDocument d = None"
    and task: "files st ''task.id'' = Some c" "c \<noteq> Directory" "trim_space (text_of c) = od_TaskID d"
    and times: "\<forall>r\<in>set (od_Records d). in_flight r \<longrightarrow> rt_ParseRFC3339 rt (ox_StartedAtRFC3339 r) \<noteq> None"
    and format: "\<forall>t. rt_FormatRFC3339Nano rt t \<noteq> []"
  shows "\<exists>st' d'. RecoverStaleObservationExecutions rt now' st = (Inr (), st') \<and>
    files st' observationExecutionsStateFile = Some (Doc (ObservationD d')) \<and>
    od_Round d' = od_Round d \<and> od_Fence d' = od_Fence d \<and>
    filter in_flight (od_Records d') = filter (\<lambda>r. in_flight r \<and> \<not> stale rt now' r) (od_Records d) \<and>
    (\<forall>round > od_Round d. advanceObservationRound d' round =
      (if \<exists>r\<in>set (od_Records d). in_flight r \<and> \<not> stale rt now' r
       then Inl (Errorf ''previous-round observation remains in-flight'' [])
       else Inr (d'\<lparr>od_Round := round, od_Fence := []\<rparr>)))"
proof -
  let ?F = "files st" and ?rs = "map (\<lambda>r. if stale rt now' r then recovered_record rt now' r else r) (od_Records d)"
  let ?d = "trimmed (d\<lparr>od_Records := ?rs\<rparr>)"
  let ?G = "if list_ex (stale rt now') (od_Records d) then ?F(observationExecutionsStateFile \<mapsto> Doc (ObservationD ?d)) else ?F"
  have rec: "recorded ?F d" using doc by (simp add: recorded_def)
  have ok: "\<forall>r\<in>set (od_Records d). record_ok d r" "distinct (map ox_ExecutionID (od_Records d))" "od_Round d \<ge> 0"
    using doc(2) by (auto simp: validateObservationDocument_def validateObservationDetails_def details_error_None
        split: option.splits if_splits)
  have map: "recover_records rt now' (od_Records d) = Inr (list_ex (stale rt now') (od_Records d), ?rs)"
    by (rule recover_records_map) (use ok(1) times in \<open>auto simp: record_ok_def\<close>)
  have rs: "\<forall>r\<in>set ?rs. record_ok d r" "map ox_ExecutionID ?rs = map ox_ExecutionID (od_Records d)"
    using ok(1) format recovered_ok by auto
  have keep: "filter in_flight ?rs = filter (\<lambda>r. in_flight r \<and> \<not> stale rt now' r) (od_Records d)"
    by (rule recovered_filter)
  have "triple (calm ?F) (RecoverStaleObservationExecutions rt now') (\<lambda>_. calm ?G) never"
    unfolding RecoverStaleObservationExecutions_def
  proof (rule triple_bind [OF readObservationDocument_runs [of ?F, OF rec task]], rule triple_assume)
    fix v assume "v = d"
    then show "triple (calm ?F) (bindE (of_result (recover_records rt now' (od_Records v))) (\<lambda>(changed, records).
        if \<not> changed then returnE () else writeObservationDocument (v\<lparr>od_Records := records\<rparr>))) (\<lambda>_. calm ?G) never"
      using recover_write_runs [of ?F d ?rs, OF rec rs(1)] ok(2) unfolding rs(2) [symmetric]
      by (auto simp: map bind_Inr intro: triple_return)
  qed
  from calm_returns [OF this, of st] calm' obtain st' where st': "RecoverStaleObservationExecutions rt now' st = (Inr (), st')" "calm ?G st'"
    by (auto simp: calm_def state_is_self)
  let ?d' = "if list_ex (stale rt now') (od_Records d) then ?d else d"
  have fields: "od_Round ?d' = od_Round d" "od_Fence ?d' = od_Fence d" by (simp_all add: trimmed_def)
  have left: "filter in_flight (od_Records ?d') = filter (\<lambda>r. in_flight r \<and> \<not> stale rt now' r) (od_Records d)"
    using keep by (auto simp: trimmed_def trim_split list_ex_iff intro: filter_cong)
  have "files st' observationExecutionsStateFile = Some (Doc (ObservationD ?d'))"
    using st'(2) doc(1) by (auto simp: calm_files)
  moreover have "advanceObservationRound ?d' round =
      (if \<exists>r\<in>set (od_Records d). in_flight r \<and> \<not> stale rt now' r
       then Inl (Errorf ''previous-round observation remains in-flight'' [])
       else Inr (?d'\<lparr>od_Round := round, od_Fence := []\<rparr>))"
    if round: "od_Round d < round" for round
  proof -
    have "list_ex in_flight (od_Records ?d') \<longleftrightarrow> filter in_flight (od_Records ?d') \<noteq> []"
      by (auto simp: list_ex_iff filter_empty_conv)
    also have "\<dots> \<longleftrightarrow> (\<exists>r\<in>set (od_Records d). in_flight r \<and> \<not> stale rt now' r)"
      unfolding left by (auto simp: filter_empty_conv)
    finally show ?thesis using round ok(3) fields(1) by (simp add: advanceObservationRound_def del: if_split)
  qed
  ultimately show ?thesis
    using st'(1) fields left by (intro exI [of _ st'] exI [of _ ?d'] conjI) blast+
qed

definition lost_document :: observationExecutionDocument where
  "lost_document = \<lparr>od_TaskID = ''t1'', od_Round = 1, od_Fence = [entry_of (sample_request ''e1'' ''test'')],
     od_Records = [(sample_request ''e1'' ''test'')\<lparr>ox_TaskID := ''t1''\<rparr>]\<rparr>"

theorem recovery_unblocks_witness:
  "\<exists>st' d'. RecoverStaleObservationExecutions sample_runtime 99000000000
      (observing_store\<lparr>files := (files observing_store)(''observation-executions'' \<mapsto> Doc (ObservationD lost_document))\<rparr>) = (Inr (), st') \<and>
     files st' observationExecutionsStateFile = Some (Doc (ObservationD d')) \<and> filter in_flight (od_Records d') = [] \<and>
     advanceObservationRound d' 2 = Inr (d'\<lparr>od_Round := 2, od_Fence := []\<rparr>)"
proof -
  let ?st = "observing_store\<lparr>files := (files observing_store)(''observation-executions'' \<mapsto> Doc (ObservationD lost_document))\<rparr>"
  have "validateObservationDocument lost_document = None" by code_simp
  moreover have "trim_space (text_of (Text ''t1'')) = od_TaskID lost_document" by code_simp
  moreover have all: "list_all (\<lambda>r. in_flight r \<longrightarrow> rt_ParseRFC3339 sample_runtime (ox_StartedAtRFC3339 r) \<noteq> None \<and>
      stale sample_runtime 99000000000 r) (od_Records lost_document)" by code_simp
  ultimately obtain st' d' where "RecoverStaleObservationExecutions sample_runtime 99000000000 ?st = (Inr (), st')"
    "files st' observationExecutionsStateFile = Some (Doc (ObservationD d'))"
    "filter in_flight (od_Records d') = filter (\<lambda>r. in_flight r \<and> \<not> stale sample_runtime 99000000000 r) (od_Records lost_document)"
    "\<forall>round > od_Round lost_document. advanceObservationRound d' round =
      (if \<exists>r\<in>set (od_Records lost_document). in_flight r \<and> \<not> stale sample_runtime 99000000000 r
       then Inl (Errorf ''previous-round observation remains in-flight'' [])
       else Inr (d'\<lparr>od_Round := round, od_Fence := []\<rparr>))"
    using recovery_unblocks [of ?st lost_document "Text ''t1''" sample_runtime 99000000000]
    by (auto simp: observing_store_def observationExecutionsStateFile_def list_all_iff sample_runtime_def)
  moreover have "filter (\<lambda>r. in_flight r \<and> \<not> stale sample_runtime 99000000000 r) (od_Records lost_document) = []"
    using all by (auto simp: list_all_iff filter_empty_conv)
  moreover have "od_Round lost_document < 2" by (simp add: lost_document_def)
  moreover have "\<not> (\<exists>r\<in>set (od_Records lost_document). in_flight r \<and> \<not> stale sample_runtime 99000000000 r)"
    using all by (auto simp: list_all_iff)
  ultimately show ?thesis by - (rule exI [of _ st'], rule exI [of _ d'], simp)
qed

end
