(* ===== verification/Parent_Complete.thy ===== *)
theory Parent_Complete
  imports Documents Rotation_Protocol Observation
begin

text \<open>
  The completion of a task by its parent, from \<^verbatim>\<open>state/parent_review_evidence.go\<close>,
  \<^verbatim>\<open>state/parent_review_coverage.go\<close>, \<^verbatim>\<open>state/parent_accept.go\<close>, \<^verbatim>\<open>state/parent_no_go.go\<close>,
  \<^verbatim>\<open>state/parent_complete.go\<close>, \<^verbatim>\<open>state/parent_completion_transition.go\<close>,
  \<^verbatim>\<open>state/parent_completion_projection.go\<close> and the recording of a result packet in
  \<^verbatim>\<open>state/stats_recording.go\<close>: opening a bound review, collecting its evidence, the readiness test,
  acceptance, the terminal no-go and the final completion.
\<close>

section \<open>Opening a bound review\<close>

text \<open>
  Whether a parsed target can be addressed in the repository is decided by reading the repository;
  that test is the argument \<open>addressable\<close>.
\<close>

type_synonym addressing = "string \<Rightarrow> Target \<Rightarrow> state_error option"

fun review_targets_error :: "go_runtime \<Rightarrow> addressing \<Rightarrow> string \<Rightarrow> string list \<Rightarrow> state_error option" where
  "review_targets_error rt addressable repoRoot [] = None"
| "review_targets_error rt addressable repoRoot (raw # rest) =
     (case ParseTarget (rt_unicode rt) raw of
        Inl _ \<Rightarrow> Some (PacketErr (newConstraintError ''targets-review-shape'' (TargetReviewShape raw)))
      | Inr t \<Rightarrow> (case addressable repoRoot t of
            Some e \<Rightarrow> Some e
          | None \<Rightarrow> review_targets_error rt addressable repoRoot rest))"

definition ValidateReviewTargetProof :: "go_runtime \<Rightarrow> addressing \<Rightarrow> string \<Rightarrow> string list \<Rightarrow> state_error option" where
  "ValidateReviewTargetProof rt addressable repoRoot targets =
     (if repoRoot = [] then Some (Errorf ''review target repository root is unavailable'' [])
      else review_targets_error rt addressable repoRoot targets)"

definition validateCanonicalReviewTargets :: "go_runtime \<Rightarrow> addressing \<Rightarrow> string list \<Rightarrow> unit sop" where
  "validateCanonicalReviewTargets rt addressable targets = bindE (ReadOr ''repo-root'' []) (\<lambda>repoRoot.
     wrapE ''review target admission rejected before binding'' (check (ValidateReviewTargetProof rt addressable repoRoot targets)))"

definition newParentReviewBinding ::
    "go_runtime \<Rightarrow> 8 word list \<Rightarrow> Result \<Rightarrow> SnapshotDigest \<Rightarrow> (state_error, ParentReviewBinding) result" where
  "newParentReviewBinding rt random value snapshot =
     (if r_Status value \<noteq> StatusNeedsSolReview
      then Inl (Errorf ''review evidence binding requires NEEDS_SOL_REVIEW'' [r_Status value])
      else if \<not> completeParentReviewSnapshot snapshot
      then Inl (Errorf ''review evidence binding requires a complete Git snapshot'' [])
      else if r_Targets value = [] \<or> trim_space (r_SolQuestion value) = []
      then Inl (Errorf ''review evidence binding requires targets and sol_question'' [])
      else case MachineJSON value of
        Inl e \<Rightarrow> Inl (PacketErr e)
      | Inr machine \<Rightarrow> Inr \<lparr>rb_ID = NewUUID random, rb_PacketSHA256 = rt_SHA256 rt machine, rb_Targets = r_Targets value,
          rb_SolQuestion = r_SolQuestion value, rb_Snapshot = snapshot, rb_Coverage = None, rb_Proof = None\<rparr>)"

definition openBoundParentReviewState ::
    "go_runtime \<Rightarrow> addressing \<Rightarrow> 8 word list \<Rightarrow> Result \<Rightarrow> ParentReviewProducer \<Rightarrow> SnapshotDigest \<Rightarrow> unit sop" where
  "openBoundParentReviewState rt addressable random value producer snapshot =
     thenE (validateCanonicalReviewTargets rt addressable (r_Targets value))
       (bindE (of_result (newParentReviewBinding rt random value snapshot)) (\<lambda>binding.
         bindE loadParentReviewState (\<lambda>state. writeParentReviewState (state\<lparr>
           prs_Open := Some \<lparr>pro_PacketStatus = r_Status value, pro_Role = prp_Role producer,
             pro_ModelAlias = prp_Model producer, pro_Risk = r_Risk value\<rparr>,
           prs_Review := Some binding, prs_Completion := None\<rparr>))))"

definition sol_outcome_stats :: "Result \<Rightarrow> ParentReviewProducer \<Rightarrow> nat \<Rightarrow> TaskStats \<Rightarrow> TaskStats" where
  "sol_outcome_stats value producer bytes stats =
     (let stats = stats\<lparr>ts_SolPacketBytes := ts_SolPacketBytes stats + int bytes\<rparr>;
          stats = (if r_Status value = StatusNeedsSolDecision
                     then stats\<lparr>ts_NeedsSolDecisionPackets := ts_NeedsSolDecisionPackets stats + 1\<rparr>
                   else if r_Status value = StatusNeedsSolReview
                     then stats\<lparr>ts_NeedsSolReviewPackets := ts_NeedsSolReviewPackets stats + 1\<rparr>
                   else if r_Status value = StatusPass
                     then stats\<lparr>ts_PassPackets := ts_PassPackets stats + 1\<rparr>
                   else stats)
      in openParentReview (r_Status value) (r_Risk value) producer stats)"

definition recordSolOutcomeStats :: "Result \<Rightarrow> ParentReviewProducer \<Rightarrow> unit sop" where
  "recordSolOutcomeStats value producer = (case ByteSize value of
       Inl e \<Rightarrow> throwE (PacketErr e)
     | Inr bytes \<Rightarrow> UpdateTaskStats (sol_outcome_stats value producer bytes))"

definition recordSolResult ::
    "go_runtime \<Rightarrow> addressing \<Rightarrow> 8 word list \<Rightarrow> Result \<Rightarrow> ParentReviewProducer \<Rightarrow> SnapshotDigest option \<Rightarrow> unit sop" where
  "recordSolResult rt addressable random value producer reviewSnapshot =
     thenE (case (r_Status value = StatusNeedsSolReview, reviewSnapshot) of
         (True, Some snapshot) \<Rightarrow> openBoundParentReviewState rt addressable random value producer snapshot
       | _ \<Rightarrow> openParentReviewState (r_Status value) (r_Risk value) producer)
       (recordSolOutcomeStats value producer)"

definition RecordSolResult :: "go_runtime \<Rightarrow> addressing \<Rightarrow> 8 word list \<Rightarrow> Result \<Rightarrow> ParentReviewProducer \<Rightarrow> unit sop" where
  "RecordSolResult rt addressable random value producer = recordSolResult rt addressable random value producer None"

definition RecordSolResultWithReviewSnapshot ::
    "go_runtime \<Rightarrow> addressing \<Rightarrow> 8 word list \<Rightarrow> Result \<Rightarrow> ParentReviewProducer \<Rightarrow> SnapshotDigest \<Rightarrow> unit sop" where
  "RecordSolResultWithReviewSnapshot rt addressable random value producer snapshot =
     recordSolResult rt addressable random value producer (Some snapshot)"

section \<open>The evidence of a review\<close>

definition CurrentParentReviewBinding :: "ParentReviewBinding option sop" where
  "CurrentParentReviewBinding = bindE CurrentParentReview (\<lambda>open'.
     if (case open' of None \<Rightarrow> True | Some r \<Rightarrow> pro_PacketStatus r \<noteq> StatusNeedsSolReview) then returnE None
     else bindE loadParentReviewState (\<lambda>state. returnE (prs_Review state)))"

definition captureCurrentParentReviewSnapshot :: "go_runtime \<Rightarrow> SnapshotDigest sop" where
  "captureCurrentParentReviewSnapshot rt = bindE (ReadOr ''repo-root'' []) (\<lambda>repoRoot.
     if repoRoot = [] then throwE (Errorf ''parent review evidence requires repository root'' [])
     else bindE (wrapE ''parent review evidence cannot capture current Git snapshot'' (CaptureGitSnapshot rt repoRoot)) (\<lambda>s.
       returnE \<lparr>sd_Head = gs_Head s, sd_IndexDigest = gs_IndexDigest s, sd_WorktreeDigest = gs_WorktreeDigest s,
         sd_WorktreeDigestExcludingParent = []\<rparr>))"

text \<open>The review of the state, when the state has an open review with the given identity.\<close>

definition open_binding :: "string \<Rightarrow> ParentReviewState \<Rightarrow> ParentReviewBinding option" where
  "open_binding reviewID state = (case (prs_Open state, prs_Review state) of
       (Some o', Some b) \<Rightarrow> if pro_PacketStatus o' = StatusNeedsSolReview \<and> rb_ID b = reviewID then Some b else None
     | _ \<Rightarrow> None)"

definition MarkParentReviewEvidence ::
    "go_runtime \<Rightarrow> string \<Rightarrow> string \<Rightarrow> ParentReviewEvidenceClaim list \<Rightarrow> unit sop" where
  "MarkParentReviewEvidence rt reviewID ownerCallID claims =
     (if reviewID = [] \<or> ownerCallID = [] \<or> claims = []
      then throwE (Errorf ''parent review evidence proof is incomplete'' [])
      else bindE loadParentReviewState (\<lambda>state. case open_binding reviewID state of
          None \<Rightarrow> throwE (Errorf ''parent review evidence no longer matches the open review'' [])
        | Some b \<Rightarrow> bindE (captureCurrentParentReviewSnapshot rt) (\<lambda>current.
            if \<not> sameParentReviewSnapshot current (rb_Snapshot b)
            then throwE (Errorf ''parent review evidence snapshot changed; request fresh review evidence'' [])
            else writeParentReviewState (state\<lparr>prs_Review := Some (b\<lparr>rb_Proof :=
              Some \<lparr>ep_ReviewID = reviewID, ep_OwnerCallID = ownerCallID, ep_Snapshot = current, ep_Claims = claims\<rparr>\<rparr>)\<rparr>))))"

definition currentParentReviewCoverageState ::
    "go_runtime \<Rightarrow> string \<Rightarrow> int \<Rightarrow> (ParentReviewState \<times> ParentReviewBinding \<times> SnapshotDigest) sop" where
  "currentParentReviewCoverageState rt reviewID lease = bindE loadParentReviewState (\<lambda>state. case open_binding reviewID state of
       None \<Rightarrow> throwE (Errorf ''parent review evidence coverage no longer matches the open review'' [])
     | Some b \<Rightarrow> bindE ParentEvidenceLeaseEpoch (\<lambda>currentLease.
         if currentLease \<noteq> lease
         then throwE (Errorf ''parent review evidence lease changed; request fresh review evidence'' [])
         else bindE (captureCurrentParentReviewSnapshot rt) (\<lambda>current.
           if \<not> sameParentReviewSnapshot current (rb_Snapshot b)
           then throwE (Errorf ''parent review evidence snapshot changed; request fresh review evidence'' [])
           else returnE (state, b, current))))"

definition AccumulateParentReviewEvidenceCoverage ::
    "go_runtime \<Rightarrow> string \<Rightarrow> string \<Rightarrow> int \<Rightarrow> ParentReviewTargetCoverageClaim list \<Rightarrow> bool sop" where
  "AccumulateParentReviewEvidenceCoverage rt reviewID ownerCallID lease claims =
     (if reviewID = [] \<or> ownerCallID = [] \<or> lease < 0
      then throwE (Errorf ''parent review evidence coverage identity is incomplete'' [])
      else bindE (currentParentReviewCoverageState rt reviewID lease) (\<lambda>(state, b, current).
        bindE (of_result (accumulate_binding b reviewID lease current claims ownerCallID)) (\<lambda>(complete, b').
          thenE (writeParentReviewState (state\<lparr>prs_Review := Some b'\<rparr>)) (returnE complete))))"

definition parentReviewCoverageLeaseCurrent :: "ParentReviewBinding \<Rightarrow> bool sop" where
  "parentReviewCoverageLeaseCurrent b = (case rb_Coverage b of
       None \<Rightarrow> returnE True
     | Some coverage \<Rightarrow> bindE ParentEvidenceLeaseEpoch (\<lambda>lease.
         returnE (cov_Lease coverage = lease \<and> parentReviewCoverageComplete b)))"

definition ParentReviewAcceptReady :: "go_runtime \<Rightarrow> bool sop" where
  "ParentReviewAcceptReady rt = bindE CurrentParentReview (\<lambda>open'.
     if (case open' of None \<Rightarrow> True | Some r \<Rightarrow> pro_PacketStatus r \<noteq> StatusNeedsSolReview) then returnE True
     else bindE loadParentReviewState (\<lambda>state. case prs_Review state of
         None \<Rightarrow> returnE False
       | Some b \<Rightarrow> (case rb_Proof b of
           None \<Rightarrow> returnE False
         | Some p \<Rightarrow> if ep_ReviewID p \<noteq> rb_ID b then returnE False
             else bindE (parentReviewCoverageLeaseCurrent b) (\<lambda>coverageCurrent.
               if \<not> coverageCurrent then returnE False
               else bindE (captureCurrentParentReviewSnapshot rt) (\<lambda>current.
                 returnE (sameParentReviewSnapshot current (rb_Snapshot b) \<and>
                   sameParentReviewSnapshot current (ep_Snapshot p)))))))"

definition RequireParentReviewAcceptanceEvidence :: "go_runtime \<Rightarrow> unit sop" where
  "RequireParentReviewAcceptanceEvidence rt = bindE (ParentReviewAcceptReady rt) (\<lambda>ready.
     if \<not> ready then throwE (Errorf ''accept requires matching current target evidence for the open review'' [StatusNeedsSolReview])
     else returnE ())"

section \<open>The completion transition\<close>

record parentCompletionTransitionResult =
  tr_transitionErr :: "state_error option"
  tr_rollbackStatusErr :: "state_error option"
  tr_rollbackPendingErr :: "state_error option"

abbreviation completed_transition :: parentCompletionTransitionResult where
  "completed_transition \<equiv> \<lparr>tr_transitionErr = None, tr_rollbackStatusErr = None, tr_rollbackPendingErr = None\<rparr>"

text \<open>The error of an operation that is tried, as Go's \<^verbatim>\<open>err := op()\<close> has it.\<close>

definition error_of :: "unit sop \<Rightarrow> state_error option sop" where
  "error_of m = bindE (attempt m) (\<lambda>r. returnE (case r of Inl e \<Rightarrow> Some e | Inr _ \<Rightarrow> None))"

definition rollback_pending :: "bool \<Rightarrow> state_error option sop" where
  "rollback_pending clearPending = (if clearPending then error_of (Touch ''pending-decision'') else returnE None)"

definition rollbackParentCompletion ::
    "TaskStatus \<Rightarrow> bool \<Rightarrow> state_error \<Rightarrow> parentCompletionTransitionResult sop" where
  "rollbackParentCompletion previousStatus clearPending transitionErr =
     bindE (error_of (SetTaskStatus previousStatus)) (\<lambda>statusErr. bindE (rollback_pending clearPending) (\<lambda>pendingErr.
       returnE \<lparr>tr_transitionErr = Some transitionErr, tr_rollbackStatusErr = statusErr, tr_rollbackPendingErr = pendingErr\<rparr>))"

text \<open>
  The evaluation of the session rotation is a callback of the caller. The completion calls it with the
  accepted risk; it may read the state directory.
\<close>

type_synonym SessionRotationEvaluator = "string \<Rightarrow> SessionRotationEvaluation option sop"
type_synonym sessionRotationBuild = "SessionRotationEvaluation option sop"

definition sessionRotationBuildFor :: "SessionRotationEvaluator option \<Rightarrow> string \<Rightarrow> sessionRotationBuild option" where
  "sessionRotationBuildFor evaluate acceptedRisk = map_option (\<lambda>f. f acceptedRisk) evaluate"

definition commitParentCompletion ::
    "go_runtime \<Rightarrow> 8 word list \<Rightarrow> TaskStatus \<Rightarrow> bool \<Rightarrow> sessionRotationBuild option \<Rightarrow> parentCompletionTransitionResult sop" where
  "commitParentCompletion rt random status clearPending build = bindE get_TaskStatus (\<lambda>previousStatus.
     bindE (error_of (if clearPending then Remove [''pending-decision''] else returnE ())) (\<lambda>removed. case removed of
       Some e \<Rightarrow> returnE (completed_transition\<lparr>tr_transitionErr := Some e\<rparr>)
     | None \<Rightarrow> bindE (error_of (SetTaskStatus status)) (\<lambda>set'. case set' of
         Some e \<Rightarrow> bindE (rollback_pending clearPending) (\<lambda>pendingErr.
           returnE (completed_transition\<lparr>tr_transitionErr := Some e, tr_rollbackPendingErr := pendingErr\<rparr>))
       | None \<Rightarrow> (case build of
           None \<Rightarrow> returnE completed_transition
         | Some evaluate \<Rightarrow> bindE (error_of (bindE evaluate (commitSessionRotation rt random))) (\<lambda>rotated. case rotated of
             Some e \<Rightarrow> rollbackParentCompletion previousStatus clearPending e
           | None \<Rightarrow> returnE completed_transition)))))"

definition projectParentCompletionOutcome :: "string \<Rightarrow> ParentReviewOpenState \<Rightarrow> string \<Rightarrow> unit sop" where
  "projectParentCompletionOutcome kind resolved terminal = UpdateTaskStats (\<lambda>stats.
     (recordParentOutcome kind [] resolved (stats\<lparr>ts_ParentReviewOpen := None\<rparr>))\<lparr>ts_AcceptedRisk := pro_Risk resolved,
       ts_CompletionTerminal := terminal\<rparr>)"

definition projectCurrentParentCompletionOutcome :: "ParentCompletionOutcome \<Rightarrow> unit sop" where
  "projectCurrentParentCompletionOutcome outcome = UpdateTaskStats (\<lambda>stats.
     stats\<lparr>ts_AcceptedRisk := pco_Risk outcome, ts_CompletionTerminal := pco_Terminal outcome\<rparr>)"

text \<open>The errors among several results, joined as \<^verbatim>\<open>errors.Join\<close> does.\<close>

definition joined :: "state_error option list \<Rightarrow> state_error" where
  "joined es = JoinErr (map the (filter (\<lambda>e. e \<noteq> None) es))"

definition AcceptParentReview :: "go_runtime \<Rightarrow> 8 word list \<Rightarrow> bool sop" where
  "AcceptParentReview rt random = thenE (RequireParentReviewAcceptanceEvidence rt)
     (bindE (snapshotLifecycleFile parentReviewStateFile) (\<lambda>review.
       bindE (resolveParentCompletionState rt ParentOutcomeAccepted SessionRotationTerminalAccept) (\<lambda>r. case r of
         None \<Rightarrow> returnE False
       | Some resolved \<Rightarrow>
           bindE (catchE TaskID (\<lambda>err. bindE (error_of (restoreLifecycleFile review)) (\<lambda>restoreErr.
             throwE (case restoreErr of None \<Rightarrow> err | Some e \<Rightarrow> JoinErr [err, e])))) (\<lambda>taskID.
           bindE (commitParentCompletion rt random TaskStatusAwaitingParentCompletion False None) (\<lambda>result.
           case tr_transitionErr result of
             Some err \<Rightarrow> bindE (error_of (restoreLifecycleFile review)) (\<lambda>restoreErr.
               throwE (if tr_rollbackStatusErr result \<noteq> None \<or> restoreErr \<noteq> None
                 then RollbackErr ''parent accept'' err (joined [tr_rollbackStatusErr result, restoreErr])
                 else Wrapf ''parent accept outcome could not be stored'' err))
           | None \<Rightarrow> thenE (projectParentCompletionOutcome ParentOutcomeAccepted resolved SessionRotationTerminalAccept)
               (thenE (appendParentOutcomeEvent taskID ''parent-accept'' ParentOutcomeAccepted [] [] resolved) (returnE True)))))))"

definition AwaitObservationNoGo :: "go_runtime \<Rightarrow> 8 word list \<Rightarrow> ObservationExecutionAdmission \<Rightarrow> bool sop" where
  "AwaitObservationNoGo rt random expected =
     thenE (wrapE ''terminal no-go lifecycle admission is no longer valid'' (ValidateObservationExecuteAdmission expected))
     (bindE (snapshotLifecycleFile parentReviewStateFile) (\<lambda>review.
       bindE (resolveParentCompletionState rt ParentOutcomeNoGo SessionRotationTerminalNoGo) (\<lambda>r. case r of
         None \<Rightarrow> returnE False
       | Some resolved \<Rightarrow>
           bindE (commitParentCompletion rt random TaskStatusAwaitingParentCompletion True None) (\<lambda>result.
           case tr_transitionErr result of
             Some err \<Rightarrow> bindE (error_of (restoreLifecycleFile review)) (\<lambda>restoreErr.
               throwE (if tr_rollbackStatusErr result \<noteq> None \<or> tr_rollbackPendingErr result \<noteq> None \<or> restoreErr \<noteq> None
                 then RollbackErr ''terminal no-go'' err
                   (joined [tr_rollbackStatusErr result, tr_rollbackPendingErr result, restoreErr])
                 else Wrapf ''terminal no-go outcome could not be stored'' err))
           | None \<Rightarrow> thenE (projectParentCompletionOutcome ParentOutcomeNoGo resolved SessionRotationTerminalNoGo)
               (thenE (appendParentOutcomeEvent (oa_TaskID expected) ''parent-close'' ParentOutcomeNoGo [] [] resolved) (returnE True))))))"

definition CompleteParentAwaiting :: "go_runtime \<Rightarrow> 8 word list \<Rightarrow> SessionRotationEvaluator option \<Rightarrow> bool sop" where
  "CompleteParentAwaiting rt random evaluate = bindE get_TaskStatus (\<lambda>status.
     if status \<noteq> TaskStatusAwaitingParentCompletion
     then refuse_status ''parent completion transition requires awaiting-parent-completion''
     else bindE (wrapE ''parent completion outcome is unreadable'' CurrentParentCompletionOutcome) (\<lambda>outcome. case outcome of
         None \<Rightarrow> throwE (Errorf ''parent completion outcome is unavailable'' [])
       | Some o' \<Rightarrow> bindE (commitParentCompletion rt random TaskStatusComplete False (sessionRotationBuildFor evaluate (pco_Risk o')))
           (\<lambda>result. case tr_transitionErr result of
             Some err \<Rightarrow> throwE (if tr_rollbackStatusErr result \<noteq> None \<or> tr_rollbackPendingErr result \<noteq> None
                 then RollbackErr ''parent completion'' err (joined [tr_rollbackStatusErr result, tr_rollbackPendingErr result])
                 else Wrapf ''parent completion outcome could not be stored'' err)
           | None \<Rightarrow> thenE (projectCurrentParentCompletionOutcome o') (returnE True))))"

section \<open>What the readers return\<close>

lemma error_of_triple: "triple P m (\<lambda>_. Q None) (\<lambda>e. Q (Some e)) \<Longrightarrow> triple P (error_of m) Q E"
  unfolding error_of_def by (rule triple_bind [OF triple_attempt [where Q = "\<lambda>r. Q (case r of Inl e \<Rightarrow> Some e | Inr _ \<Rightarrow> None)"]])
    (auto intro: triple_return)

lemma with_task_review_value:
  "triple (state_is F) (with_task_review a f)
     (\<lambda>v st. (if task_of F = [] then v = a else \<exists>s. F parentReviewStateFile = Some (Doc (ReviewD s)) \<and> v = f s) \<and> state_is F st)
     (\<lambda>_. state_is F)"
  unfolding with_task_review_def
proof (rule triple_bind)
  show "triple (state_is F) (attempt (Read ''task.id''))
     (\<lambda>r st. (case r of Inl e \<Rightarrow> is_not_exist e \<longrightarrow> task_of F = [] | Inr t \<Rightarrow> t = task_of F) \<and> state_is F st) (\<lambda>_. state_is F)"
  proof (rule triple_attempt, rule tripleI)
    fix st e st' assume st: "state_is F st" and run: "Read ''task.id'' st = (Inl e, st')"
    have "files st ''task.id'' = F ''task.id''" using st by (simp add: state_is_def)
    with run triple_InlD [OF Read_clean st run]
    show "(case Inl e of Inl e \<Rightarrow> is_not_exist e \<longrightarrow> task_of F = [] | Inr t \<Rightarrow> t = task_of F) \<and> state_is F st'"
      by (auto simp: Read_def run_defs task_of_def split: if_splits option.splits content.splits)
  next
    fix st v st' assume st: "state_is F st" and run: "Read ''task.id'' st = (Inr v, st')"
    have "files st ''task.id'' = F ''task.id''" using st by (simp add: state_is_def)
    with run triple_InrD [OF Read_clean st run]
    show "(case Inr v of Inl e \<Rightarrow> is_not_exist e \<longrightarrow> task_of F = [] | Inr t \<Rightarrow> t = task_of F) \<and> state_is F st'"
      by (auto simp: Read_def run_defs task_of_def split: if_splits option.splits content.splits)
  qed
  fix r
  have load: "triple (state_is F) (bindE loadParentReviewState (\<lambda>state. returnE (f state)))
     (\<lambda>v st. (\<exists>s. F parentReviewStateFile = Some (Doc (ReviewD s)) \<and> v = f s) \<and> state_is F st) (\<lambda>_. state_is F)"
    by (rule triple_bind [OF loadParentReviewState_clean], rule triple_assume, rule triple_return) auto
  show "triple (\<lambda>st. (case r of Inl e \<Rightarrow> is_not_exist e \<longrightarrow> task_of F = [] | Inr t \<Rightarrow> t = task_of F) \<and> state_is F st)
     (case r of Inl e \<Rightarrow> if is_not_exist e then returnE a else throwE e
       | Inr taskID \<Rightarrow> if taskID = [] then returnE a else bindE loadParentReviewState (\<lambda>state. returnE (f state)))
     (\<lambda>v st. (if task_of F = [] then v = a else \<exists>s. F parentReviewStateFile = Some (Doc (ReviewD s)) \<and> v = f s) \<and> state_is F st)
     (\<lambda>_. state_is F)"
    using load by (intro triple_assume) (auto split: sum.splits intro!: triple_return triple_throw)
qed

text \<open>\<open>root_of F\<close> is the recorded repository root.\<close>

definition root_of :: "filemap \<Rightarrow> string" where
  "root_of F = (case F ''repo-root'' of None \<Rightarrow> [] | Some c \<Rightarrow> trim_space (text_of c))"

lemma ReadOr_root: "triple (state_is F) (ReadOr ''repo-root'' []) (\<lambda>v st. v \<in> {[], root_of F} \<and> state_is F st) E"
proof (rule tripleI)
  fix st e st' assume "ReadOr ''repo-root'' [] st = (Inl e, st')"
  then show "E e st'" by (auto simp: ReadOr_def run_defs split: prod.splits sum.splits)
next
  fix st v st' assume st: "state_is F st" and run: "ReadOr ''repo-root'' [] st = (Inr v, st')"
  have "files st ''repo-root'' = F ''repo-root''" using st by (simp add: state_is_def currentStatsFile_def)
  with run triple_InrD [OF ReadOr_clean st run] show "v \<in> {[], root_of F} \<and> state_is F st'"
    by (auto simp: ReadOr_def Read_def run_defs root_of_def split: if_splits option.splits content.splits)
qed

lemma advances_review [advances_intro]:
  "advances (Remove ns)" "advances (readExact n)" "advances loadParentReviewState" "advances (with_task_review a f)"
  "advances CurrentParentReview" "advances ParentEvidenceLeaseEpoch" "advances (parentReviewCoverageLeaseCurrent b)"
  "advances (writeParentReviewState s)" "advances (UpdateTaskStats u)" "advances (SetTaskStatus t)"
  "advances (snapshotLifecycleFile n)" "advances (restoreLifecycleFile l)" "advances (appendTaskStatusLifecycle t1 t2)"
proof -
  have remove: "advances (Remove ns)" for ns by (induction ns) (auto intro!: advances_intro)
  then show "advances (Remove ns)" .
  have review: "advances loadParentReviewState"
    unfolding loadParentReviewState_def review_for_task_def
    by (auto split: content.split doc.split intro!: advances_intro)
  then show "advances loadParentReviewState" .
  from review show "advances (with_task_review a f)" for a :: 'b and f
    unfolding with_task_review_def by (intro advances_intro)
  from review show "advances CurrentParentReview"
    unfolding CurrentParentReview_def with_task_review_def by (intro advances_intro)
  have lease: "advances ParentEvidenceLeaseEpoch"
    unfolding ParentEvidenceLeaseEpoch_def by (intro advances_intro)
  then show "advances ParentEvidenceLeaseEpoch" .
  from lease show "advances (parentReviewCoverageLeaseCurrent b)"
    unfolding parentReviewCoverageLeaseCurrent_def by (intro advances_intro)
  have stats: "advances (UpdateTaskStats u)" for u
    unfolding UpdateTaskStats_def loadTaskStats_def recoverTaskStats_def bootstrapTaskStats_def writeTaskStats_def
    by (auto split: content.split doc.split intro!: advances_intro)
  then show "advances (UpdateTaskStats u)" .
  have lifecycle: "advances (appendTaskStatusLifecycle t1 t2)" for t1 t2
  proof -
    have "advances (AppendTaskLifecycle l)" for l
      by (simp add: advances_def AppendTaskLifecycle_def Let_def tick_def)
    then show ?thesis unfolding appendTaskStatusLifecycle_def by (intro advances_intro)
  qed
  then show "advances (appendTaskStatusLifecycle t1 t2)" .
  from stats lifecycle show "advances (SetTaskStatus t)" unfolding SetTaskStatus_def by (intro advances_intro)
  from remove show "advances (restoreLifecycleFile l)" unfolding restoreLifecycleFile_def by (intro advances_intro)
qed (unfold readExact_def writeParentReviewState_def snapshotLifecycleFile_def, (intro advances_intro)+)

text \<open>
  \<open>snapshot_at rt t F\<close>: the digest of the repository at the moment \<open>t\<close>; \<open>evidence rt t F s\<close>: the open
  review has a proof of its own for the state of the repository at that moment, and a coverage that it
  has is of the current lease and complete.
\<close>

definition snapshot_at :: "go_runtime \<Rightarrow> nat \<Rightarrow> filemap \<Rightarrow> SnapshotDigest \<Rightarrow> bool" where
  "snapshot_at rt t F d \<longleftrightarrow> (\<exists>s. rt_CaptureGitSnapshot rt t (root_of F) = Some s \<and> sd_Head d = gs_Head s \<and>
     sd_IndexDigest d = gs_IndexDigest s \<and> sd_WorktreeDigest d = gs_WorktreeDigest s)"

definition evidence :: "go_runtime \<Rightarrow> nat \<Rightarrow> filemap \<Rightarrow> ParentReviewState \<Rightarrow> bool" where
  "evidence rt t F s \<longleftrightarrow> (\<exists>b p d. prs_Review s = Some b \<and> rb_Proof b = Some p \<and> ep_ReviewID p = rb_ID b \<and>
     snapshot_at rt t F d \<and> sameParentReviewSnapshot d (rb_Snapshot b) \<and> sameParentReviewSnapshot d (ep_Snapshot p) \<and>
     (\<forall>c. rb_Coverage b = Some c \<longrightarrow> lease_epoch F = Some (cov_Lease c) \<and> set (rb_Targets b) \<subseteq> tc_Target ` set (cov_Claims c)))"

lemma CaptureGitSnapshot_since:
  "triple (since n F) (CaptureGitSnapshot rt root)
     (\<lambda>s st. \<exists>t\<ge>n. rt_CaptureGitSnapshot rt t root = Some s \<and> since t F st) (\<lambda>_. state_is F)"
  by (auto simp: triple_def CaptureGitSnapshot_def since_def state_is_def tick_def split: option.split
      intro!: exI [of _ "access _"])

lemma capture_triple:
  "triple (since n F) (captureCurrentParentReviewSnapshot rt) (\<lambda>d st. \<exists>t\<ge>n. snapshot_at rt t F d \<and> since t F st) (\<lambda>_. state_is F)"
  unfolding captureCurrentParentReviewSnapshot_def
proof (rule triple_bind [OF since_value [OF advances_store(2) ReadOr_root]], rule triple_assume, rule triple_if, rule triple_throw,
    erule sinceD, rule triple_bind)
  fix root assume root: "root \<in> {[], root_of F}" "\<not> root = []"
  show "triple (since n F) (wrapE m (CaptureGitSnapshot rt root))
      (\<lambda>s st. \<exists>t\<ge>n. rt_CaptureGitSnapshot rt t root = Some s \<and> since t F st) (\<lambda>_. state_is F)" for m
    by (rule triple_wrap, rule CaptureGitSnapshot_since)
  fix s
  from root show "triple (\<lambda>st. \<exists>t\<ge>n. rt_CaptureGitSnapshot rt t root = Some s \<and> since t F st)
      (returnE \<lparr>sd_Head = gs_Head s, sd_IndexDigest = gs_IndexDigest s, sd_WorktreeDigest = gs_WorktreeDigest s,
         sd_WorktreeDigestExcludingParent = []\<rparr>) (\<lambda>d st. \<exists>t\<ge>n. snapshot_at rt t F d \<and> since t F st) (\<lambda>_. state_is F)"
    by (intro triple_return) (auto simp: snapshot_at_def)
qed

lemma lease_triple:
  "triple (state_is F) (parentReviewCoverageLeaseCurrent b)
     (\<lambda>v st. (v \<longrightarrow> (\<forall>c. rb_Coverage b = Some c \<longrightarrow> lease_epoch F = Some (cov_Lease c) \<and>
        set (rb_Targets b) \<subseteq> tc_Target ` set (cov_Claims c))) \<and> state_is F st) (\<lambda>_. state_is F)"
  unfolding parentReviewCoverageLeaseCurrent_def
  by (rule triple_option, rule triple_return, simp, rule triple_bind [OF ParentEvidenceLeaseEpoch_clean], rule triple_assume, rule triple_return)
    (auto simp: parentReviewCoverageComplete_def parentReviewTargetSet_def Let_def)

definition ready :: "go_runtime \<Rightarrow> nat \<Rightarrow> filemap \<Rightarrow> bool" where
  "ready rt t F \<longleftrightarrow> task_of F = [] \<or> (\<forall>s o'. F parentReviewStateFile = Some (Doc (ReviewD s)) \<and> prs_Open s = Some o' \<and>
     pro_PacketStatus o' = StatusNeedsSolReview \<longrightarrow> evidence rt t F s)"

lemma ready_triple:
  "triple (since n F) (ParentReviewAcceptReady rt) (\<lambda>v st. \<exists>t\<ge>n. (v \<longrightarrow> ready rt t F) \<and> since t F st) (\<lambda>_. state_is F)"
  (is "triple _ _ ?Q _")
  unfolding ParentReviewAcceptReady_def CurrentParentReview_def
proof (rule triple_bind [OF since_value [OF advances_review(4) with_task_review_value]], rule triple_assume)
  fix open'
  assume open': "if task_of F = [] then open' = None else \<exists>s. F parentReviewStateFile = Some (Doc (ReviewD s)) \<and> open' = prs_Open s"
  have none: "(case open' of None \<Rightarrow> True | Some r \<Rightarrow> pro_PacketStatus r \<noteq> StatusNeedsSolReview) \<Longrightarrow> ready rt n F"
    using open' by (auto simp: ready_def split: if_splits)
  have unready: "triple (since n F) (returnE False) ?Q (\<lambda>_. state_is F)" by (rule triple_return) auto
  have proof': "triple (since n F) (bindE (parentReviewCoverageLeaseCurrent b) (\<lambda>coverageCurrent.
               if \<not> coverageCurrent then returnE False
               else bindE (captureCurrentParentReviewSnapshot rt) (\<lambda>current.
                 returnE (sameParentReviewSnapshot current (rb_Snapshot b) \<and> sameParentReviewSnapshot current (ep_Snapshot p)))))
      ?Q (\<lambda>_. state_is F)"
    if "F parentReviewStateFile = Some (Doc (ReviewD s))" "prs_Review s = Some b" "rb_Proof b = Some p" "ep_ReviewID p = rb_ID b" for s b p
    by (rule triple_bind [OF since_value [OF advances_review(7) lease_triple]], rule triple_assume, rule triple_if, rule unready,
        rule triple_bind [OF capture_triple], rule triple_return)
      (use that in \<open>auto simp: ready_def evidence_def\<close>)
  show "triple (since n F) (if (case open' of None \<Rightarrow> True | Some r \<Rightarrow> pro_PacketStatus r \<noteq> StatusNeedsSolReview) then returnE True
     else bindE loadParentReviewState (\<lambda>state. case prs_Review state of
         None \<Rightarrow> returnE False
       | Some b \<Rightarrow> (case rb_Proof b of
           None \<Rightarrow> returnE False
         | Some p \<Rightarrow> if ep_ReviewID p \<noteq> rb_ID b then returnE False
             else bindE (parentReviewCoverageLeaseCurrent b) (\<lambda>coverageCurrent.
               if \<not> coverageCurrent then returnE False
               else bindE (captureCurrentParentReviewSnapshot rt) (\<lambda>current.
                 returnE (sameParentReviewSnapshot current (rb_Snapshot b) \<and> sameParentReviewSnapshot current (ep_Snapshot p)))))))
     ?Q (\<lambda>_. state_is F)"
    by (rule triple_if, rule triple_return, use none in blast,
        rule triple_bind [OF since_value [OF advances_review(3) loadParentReviewState_clean]], rule triple_assume,
        elim conjE, intro triple_option triple_if) (auto intro: unready proof')
qed

section \<open>Resolution and commit\<close>

text \<open>\<open>closing F terminal o' G\<close>: \<open>G\<close> is \<open>F\<close> with the open review \<open>o'\<close> closed under the terminal.\<close>

definition closing :: "filemap \<Rightarrow> string \<Rightarrow> ParentReviewOpenState \<Rightarrow> filemap \<Rightarrow> bool" where
  "closing F terminal o' G \<longleftrightarrow> task_of F \<noteq> [] \<and> (\<exists>s c. F parentReviewStateFile = Some (Doc (ReviewD s)) \<and> prs_Open s = Some o' \<and>
     pco_Terminal c = terminal \<and> pco_Risk c = pro_Risk o' \<and>
     G = F(parentReviewStateFile \<mapsto> Doc (ReviewD (s\<lparr>prs_Open := None, prs_Review := None, prs_Completion := Some c\<rparr>))))"

text \<open>
  \<open>bound_to rt t F b c\<close>: the completion \<open>c\<close> names the review \<open>b\<close> and, as its source, the state of the
  repository at the moment \<open>t\<close>, which is the reviewed state. (A repository root that cannot be read is
  the empty path.) \<open>sourced rt t F G\<close> says so of the completion that \<open>G\<close> stores for the review of \<open>F\<close>.
\<close>

definition bound_to :: "go_runtime \<Rightarrow> nat \<Rightarrow> filemap \<Rightarrow> ParentReviewBinding \<Rightarrow> ParentCompletionOutcome \<Rightarrow> bool" where
  "bound_to rt t F b c \<longleftrightarrow> pco_Review c = Some b \<and> (\<exists>root g. root \<in> {[], root_of F} \<and> rt_CaptureGitSnapshot rt t root = Some g \<and>
     sameParentReviewSnapshot (snapshotDigest g) (rb_Snapshot b) \<and> pco_Source c = Some (snapshotDigest g))"

definition sourced :: "go_runtime \<Rightarrow> nat \<Rightarrow> filemap \<Rightarrow> filemap \<Rightarrow> bool" where
  "sourced rt t F G \<longleftrightarrow> (\<forall>s b s' c. F parentReviewStateFile = Some (Doc (ReviewD s)) \<and> prs_Review s = Some b \<and>
     G parentReviewStateFile = Some (Doc (ReviewD s')) \<and> prs_Completion s' = Some c \<longrightarrow> bound_to rt t F b c)"

lemma bind_source:
  "triple (since n F) (bindCompletionSource rt c review)
     (\<lambda>c' st. \<exists>t\<ge>n. (pco_Terminal c' = pco_Terminal c \<and> pco_Risk c' = pco_Risk c \<and> (\<forall>b. review = Some b \<longrightarrow> bound_to rt t F b c')) \<and>
        since t F st) (\<lambda>_. state_is F)" (is "triple _ _ ?Q _")
proof (cases review)
  case None
  have "triple (state_is F) (bindCompletionSource rt c review)
      (\<lambda>c' st. (pco_Terminal c' = pco_Terminal c \<and> pco_Risk c' = pco_Risk c) \<and> state_is F st) (\<lambda>_. state_is F)"
    unfolding bindCompletionSource_def LoadWorkerEndSnapshot_def None
    by (auto split: option.splits content.splits doc.splits intro!: triple_bind [OF Exists_clean]
        triple_bind [OF triple_bind [OF ReadFile_frame]] triple_return triple_throw
        triple_bind [where R = "\<lambda>_. state_is F", OF triple_bind [OF ReadFile_frame]])
  moreover have "advances (bindCompletionSource rt c review)"
    unfolding bindCompletionSource_def LoadWorkerEndSnapshot_def
    by (auto split: content.split doc.split intro!: advances_intro)
  ultimately have "triple (since n F) (bindCompletionSource rt c review)
      (\<lambda>c' st. (pco_Terminal c' = pco_Terminal c \<and> pco_Risk c' = pco_Risk c) \<and> since n F st) (\<lambda>_. state_is F)"
    by (intro since_value)
  then show ?thesis by (rule triple_weaken) (auto simp: None)
next
  case (Some b)
  have capture: "triple (since n F) (CaptureGitSnapshot rt root)
      (\<lambda>s st. \<exists>t. (n \<le> t \<and> rt_CaptureGitSnapshot rt t root = Some s) \<and> since t F st) (\<lambda>_. state_is F)" for root
    by (rule triple_weaken [OF CaptureGitSnapshot_since]) auto
  show ?thesis
    unfolding bindCompletionSource_def Some option.case
    by (rule triple_bind [OF since_value [OF advances_store(2) ReadOr_root]], rule triple_assume, rule triple_bind [OF capture],
        intro triple_exists_pre triple_assume triple_if triple_throw triple_return)
      (auto simp: bound_to_def dest: sinceD)
qed

lemma completion_source_kept:
  "triple (since n F) (completion_with_source rt terminal review (Some c))
     (\<lambda>v st. \<exists>t. (n \<le> t \<and> (\<exists>c'. v = Some c' \<and> pco_Terminal c' = pco_Terminal c \<and> pco_Risk c' = pco_Risk c \<and>
        (terminal = SessionRotationTerminalAccept \<longrightarrow> (\<forall>b. review = Some b \<longrightarrow> bound_to rt t F b c')))) \<and> since t F st) (\<lambda>_. state_is F)"
  unfolding completion_with_source_def option.case
  by (rule triple_if, rule triple_bind [OF bind_source], rule triple_return, blast, rule triple_return, auto)

lemma resolve_since:
  assumes "terminal \<noteq> []"
  shows "triple (since n F) (resolveParentCompletionState rt kind terminal)
     (\<lambda>r st. case r of None \<Rightarrow> since n F st
        | Some o' \<Rightarrow> (kind = ParentOutcomeAccepted \<longrightarrow> pro_PacketStatus o' \<noteq> StatusNeedsSolDecision) \<and>
            (\<exists>t G. (n \<le> t \<and> closing F terminal o' G \<and> (terminal = SessionRotationTerminalAccept \<longrightarrow> sourced rt t F G)) \<and> since t G st))
     (\<lambda>_. state_is F)" (is "triple _ _ ?Q _")
  unfolding resolveParentCompletionState_def resolveParentReviewStateWithCompletion_def parentReviewResolutionState_def
proof (rule triple_then [OF since_frame [OF advances_basic(4) check_clean]],
    rule triple_bind [OF since_value [OF advances_review(4) with_task_review_value]], rule triple_assume, rule triple_option)
  fix v x assume v: "if task_of F = [] then v = None else \<exists>s. F parentReviewStateFile = Some (Doc (ReviewD s)) \<and>
      v = map_option (\<lambda>open. (s, open)) (prs_Open s)" and x: "v = Some x"
  then obtain s o' where s: "task_of F \<noteq> []" "F parentReviewStateFile = Some (Doc (ReviewD s))" "prs_Open s = Some o'" "x = (s, o')"
    by (auto simp: map_option_case split: if_splits option.splits)
  have outcome: "triple (since n F) (of_result (parentCompletionOutcome terminal (pro_Risk o')))
      (\<lambda>v st. (\<exists>c. v = Some c \<and> pco_Terminal c = terminal \<and> pco_Risk c = pro_Risk o') \<and> since n F st) (\<lambda>_. state_is F)"
    using assms by (intro triple_of_result) (auto simp: parentCompletionOutcome_def Let_def since_def split: option.splits)
  have stored: "triple (since t F)
        (thenE (writeParentReviewState (s\<lparr>prs_Open := None, prs_Review := None, prs_Completion := completion\<rparr>)) (returnE (Some o')))
        ?Q (\<lambda>_. state_is F)"
    if dec: "\<not> (kind = ParentOutcomeAccepted \<and> pro_PacketStatus o' = StatusNeedsSolDecision)" and t: "n \<le> t"
      "\<exists>c'. completion = Some c' \<and> pco_Terminal c' = terminal \<and> pco_Risk c' = pro_Risk o' \<and>
        (terminal = SessionRotationTerminalAccept \<longrightarrow> (\<forall>b. prs_Review s = Some b \<longrightarrow> bound_to rt t F b c'))" for t completion
  proof (rule triple_then [OF triple_since [OF advances_review(8) writeParentReviewState_clean]], rule triple_return)
    let ?G = "F(parentReviewStateFile \<mapsto> Doc (ReviewD (s\<lparr>prs_Open := None, prs_Review := None, prs_Completion := completion\<rparr>)))"
    fix st assume "state_is ?G st \<and> t \<le> access st"
    moreover have "closing F terminal o' ?G" using t s by (auto simp: closing_def)
    moreover have "terminal = SessionRotationTerminalAccept \<longrightarrow> sourced rt t F ?G" using t s by (auto simp: sourced_def)
    ultimately show "?Q (Some o') st" using dec t(1) by (auto simp: since_def)
  qed
  show "triple (since n F) (case x of (state, resolved) \<Rightarrow> close_review rt kind terminal state resolved) ?Q (\<lambda>_. state_is F)"
    unfolding s(4) prod.case close_review_def
  proof (rule triple_if, rule triple_throw, erule sinceD, rule triple_bind [OF outcome], rule triple_assume, elim exE conjE)
    fix v and c :: ParentCompletionOutcome assume dec: "\<not> (kind = ParentOutcomeAccepted \<and> pro_PacketStatus o' = StatusNeedsSolDecision)"
      and v: "v = Some c" "pco_Terminal c = terminal" "pco_Risk c = pro_Risk o'"
    show "triple (since n F) (bindE (completion_with_source rt terminal (prs_Review s) v) (\<lambda>completion.
          thenE (writeParentReviewState (s\<lparr>prs_Open := None, prs_Review := None, prs_Completion := completion\<rparr>)) (returnE (Some o'))))
       ?Q (\<lambda>_. state_is F)"
      unfolding v(1)
      by (rule triple_bind [OF completion_source_kept], intro triple_exists_pre triple_assume, rule stored [OF dec]) (use v in auto)
  qed
qed (rule triple_return, simp)

lemma resolve_triple:
  assumes "terminal \<noteq> []"
  shows "triple (state_is F) (resolveParentCompletionState rt kind terminal)
     (\<lambda>r st. case r of None \<Rightarrow> state_is F st
        | Some o' \<Rightarrow> (kind = ParentOutcomeAccepted \<longrightarrow> pro_PacketStatus o' \<noteq> StatusNeedsSolDecision) \<and> (\<exists>G. closing F terminal o' G \<and> state_is G st))
     (\<lambda>_. state_is F)"
  by (rule triple_weaken [OF resolve_since [OF assms, of 0]]) (auto simp: since_def split: option.splits)

lemma commit_plain:
  "triple (state_is F) (commitParentCompletion rt random s False None)
     (\<lambda>r st. (case tr_transitionErr r of None \<Rightarrow> state_is (with_status F s) st | Some _ \<Rightarrow> state_is F st) \<and>
        tr_rollbackStatusErr r = None) E"
  unfolding commitParentCompletion_def rollback_pending_def
  by (rule triple_bind [OF get_TaskStatus_clean], simp, rule triple_bind [OF error_of_triple [where Q = "\<lambda>e st. e = None \<and> state_is F st"]],
      rule triple_return, simp, rule triple_assume, simp,
      rule triple_bind [OF error_of_triple [where Q = "\<lambda>e. state_is (case e of None \<Rightarrow> with_status F s | Some _ \<Rightarrow> F)"]],
      rule triple_weaken [OF SetTaskStatus_clean])
    (auto split: option.splits intro!: triple_return triple_bind [where R = "\<lambda>_. state_is F"])

abbreviation marked :: "filemap \<Rightarrow> filemap" where
  "marked F \<equiv> F(''pending-decision'' \<mapsto> Text [CHR ''1'', CHR 0x0A])"

lemma commit_pending:
  "triple (state_is F) (commitParentCompletion rt random s True None)
     (\<lambda>r st. (case tr_transitionErr r of None \<Rightarrow> state_is (with_status (F(''pending-decision'' := None)) s) st
        | Some _ \<Rightarrow> tr_rollbackPendingErr r = None \<longrightarrow> state_is F st \<or> state_is (marked F) st) \<and>
        (\<exists>G. state_is G st \<and> (\<forall>n. n \<notin> {''task.status'', ''pending-decision''} \<longrightarrow> G n = F n))) E"
  unfolding commitParentCompletion_def rollback_pending_def if_True option.case
proof (rule triple_bind [OF get_TaskStatus_clean],
    rule triple_bind [OF error_of_triple [where Q = "\<lambda>e. state_is (case e of None \<Rightarrow> F(''pending-decision'' := None) | Some _ \<Rightarrow> F)"]])
  let ?F = "F(''pending-decision'' := None)"
  show "triple (state_is F) (Remove [''pending-decision'']) (\<lambda>_. state_is (case None of None \<Rightarrow> ?F | Some _ \<Rightarrow> F))
      (\<lambda>e. state_is (case Some e of None \<Rightarrow> ?F | Some _ \<Rightarrow> F))"
    using Remove_one_clean [of F "''pending-decision''"] by simp
  have set': "triple (state_is ?F) (error_of (SetTaskStatus s)) (\<lambda>e. state_is (case e of None \<Rightarrow> with_status ?F s | Some _ \<Rightarrow> ?F)) E"
    by (rule error_of_triple, rule triple_weaken [OF SetTaskStatus_clean]) auto
  have touch: "triple (state_is ?F) (error_of (Touch ''pending-decision''))
      (\<lambda>e. state_is (case e of None \<Rightarrow> marked ?F | Some _ \<Rightarrow> ?F)) E"
    by (rule error_of_triple, rule triple_weaken [OF Touch_clean]) auto
  fix removed :: "state_error option"
  let ?post = "\<lambda>r st. (case tr_transitionErr r of None \<Rightarrow> state_is (with_status ?F s) st
        | Some _ \<Rightarrow> tr_rollbackPendingErr r = None \<longrightarrow> state_is F st \<or> state_is (marked F) st) \<and>
        (\<exists>G. state_is G st \<and> (\<forall>n. n \<notin> {''task.status'', ''pending-decision''} \<longrightarrow> G n = F n))"
  have undo: "triple (state_is ?F) (bindE (error_of (Touch ''pending-decision'')) (\<lambda>pendingErr.
      returnE (completed_transition\<lparr>tr_transitionErr := Some e, tr_rollbackPendingErr := pendingErr\<rparr>))) ?post E" for e
    by (rule triple_bind [OF touch], rule triple_return) (auto split: option.splits intro!: exI)
  show "triple (state_is (case removed of None \<Rightarrow> ?F | Some _ \<Rightarrow> F)) (case removed of
       Some e \<Rightarrow> returnE (completed_transition\<lparr>tr_transitionErr := Some e\<rparr>)
     | None \<Rightarrow> bindE (error_of (SetTaskStatus s)) (\<lambda>set'. case set' of
         Some e \<Rightarrow> bindE (error_of (Touch ''pending-decision'')) (\<lambda>pendingErr.
           returnE (completed_transition\<lparr>tr_transitionErr := Some e, tr_rollbackPendingErr := pendingErr\<rparr>))
       | None \<Rightarrow> returnE completed_transition)) ?post E"
  proof (cases removed)
    case None
    have "triple (state_is (case x of None \<Rightarrow> with_status ?F s | Some _ \<Rightarrow> ?F)) (case x of
         Some e \<Rightarrow> bindE (error_of (Touch ''pending-decision'')) (\<lambda>pendingErr.
           returnE (completed_transition\<lparr>tr_transitionErr := Some e, tr_rollbackPendingErr := pendingErr\<rparr>))
       | None \<Rightarrow> returnE completed_transition) ?post E" for x
    proof (cases x)
      case None
      then show ?thesis by (auto intro!: triple_return exI)
    qed (simp only: option.case undo)
    then show ?thesis unfolding None option.case by (rule triple_bind [OF set'])
  qed (auto intro!: triple_return)
qed

section \<open>Acceptance, no-go and completion\<close>

definition undo_failed :: "state_error \<Rightarrow> bool" where
  "undo_failed e \<longleftrightarrow> rollback_failed e \<or> (\<exists>es. e = JoinErr es)"

lemma closing_restored: "closing F t o' G \<Longrightarrow> G(parentReviewStateFile := F parentReviewStateFile) = F"
  by (auto simp: closing_def fun_eq_iff)

lemma review_not_status: "parentReviewStateFile \<noteq> ''task.status''" "parentReviewStateFile \<noteq> ''pending-decision''"
    "parentReviewStateFile \<noteq> currentStatsFile"
  by (simp_all add: parentReviewStateFile_def currentStatsFile_def)

lemma restore_review:
  assumes "snap F parentReviewStateFile r" "closing F t o' G"
  shows "triple (state_is G) (error_of (restoreLifecycleFile r)) (\<lambda>e st. e = None \<longrightarrow> state_is F st) E"
  using restoreLifecycleFile_clean [OF assms(1), of G] closing_restored [OF assms(2)]
  by (intro error_of_triple) (auto elim: triple_weaken)

lemma require_triple:
  "triple (since n F) (RequireParentReviewAcceptanceEvidence rt) (\<lambda>_ st. \<exists>t. (n \<le> t \<and> ready rt t F) \<and> since t F st) (\<lambda>_. state_is F)"
  unfolding RequireParentReviewAcceptanceEvidence_def
  by (rule triple_bind [OF ready_triple], intro triple_if triple_throw triple_return) (auto dest: sinceD)

lemma triple_keep: "triple (state_is F) m (\<lambda>_. state_is F) (\<lambda>_. state_is F) \<Longrightarrow>
    triple (\<lambda>st. state_is F st) m (\<lambda>_. state_is F) (\<lambda>e st. undo_failed e \<or> state_is F st)"
  by (erule triple_weaken) auto

lemma accept_tail:
  assumes G: "closing F SessionRotationTerminalAccept o' G" and snap: "snap F parentReviewStateFile review"
  shows "triple (state_is G)
     (bindE (catchE TaskID (\<lambda>err. bindE (error_of (restoreLifecycleFile review)) (\<lambda>restoreErr.
             throwE (case restoreErr of None \<Rightarrow> err | Some e \<Rightarrow> JoinErr [err, e])))) (\<lambda>taskID.
           bindE (commitParentCompletion rt random TaskStatusAwaitingParentCompletion False None) (\<lambda>result.
           case tr_transitionErr result of
             Some err \<Rightarrow> bindE (error_of (restoreLifecycleFile review)) (\<lambda>restoreErr.
               throwE (if tr_rollbackStatusErr result \<noteq> None \<or> restoreErr \<noteq> None
                 then RollbackErr ''parent accept'' err (joined [tr_rollbackStatusErr result, restoreErr])
                 else Wrapf ''parent accept outcome could not be stored'' err))
           | None \<Rightarrow> thenE (projectParentCompletionOutcome ParentOutcomeAccepted o' SessionRotationTerminalAccept)
               (thenE (appendParentOutcomeEvent taskID ''parent-accept'' ParentOutcomeAccepted [] [] o') (returnE True)))))
     (\<lambda>b st. b \<and> state_is (with_status G TaskStatusAwaitingParentCompletion) st) (\<lambda>e st. undo_failed e \<or> state_is F st)"
proof (rule triple_bind)
  let ?E = "\<lambda>e st. undo_failed e \<or> state_is F st"
  note restore = restore_review [OF snap G]
  show "triple (state_is G) (catchE TaskID (\<lambda>err. bindE (error_of (restoreLifecycleFile review)) (\<lambda>restoreErr.
             throwE (case restoreErr of None \<Rightarrow> err | Some e \<Rightarrow> JoinErr [err, e])))) (\<lambda>_. state_is G) ?E"
    by (rule triple_catch [OF TaskID_clean], rule triple_bind [OF restore], rule triple_throw)
      (auto simp: undo_failed_def split: option.splits)
  fix taskID
  have store: "triple (state_is (with_status G TaskStatusAwaitingParentCompletion))
      (thenE (projectParentCompletionOutcome ParentOutcomeAccepted o' SessionRotationTerminalAccept)
               (thenE (appendParentOutcomeEvent taskID ''parent-accept'' ParentOutcomeAccepted [] [] o') (returnE True)))
      (\<lambda>b st. b \<and> state_is (with_status G TaskStatusAwaitingParentCompletion) st) ?E"
    unfolding projectParentCompletionOutcome_def
    by (intro triple_then [OF UpdateTaskStats_clean] triple_then [OF appendParentOutcomeEvent_clean] triple_return) simp
  have fail: "triple (state_is G) (bindE (error_of (restoreLifecycleFile review)) (\<lambda>restoreErr.
               throwE (if r \<noteq> None \<or> restoreErr \<noteq> None
                 then RollbackErr ''parent accept'' err (joined [r, restoreErr])
                 else Wrapf ''parent accept outcome could not be stored'' err))) Q ?E" for r err and Q :: "bool \<Rightarrow> store \<Rightarrow> bool"
    by (rule triple_bind [OF restore], rule triple_throw) (auto simp: undo_failed_def)
  show "triple (state_is G) (bindE (commitParentCompletion rt random TaskStatusAwaitingParentCompletion False None) (\<lambda>result.
           case tr_transitionErr result of
             Some err \<Rightarrow> bindE (error_of (restoreLifecycleFile review)) (\<lambda>restoreErr.
               throwE (if tr_rollbackStatusErr result \<noteq> None \<or> restoreErr \<noteq> None
                 then RollbackErr ''parent accept'' err (joined [tr_rollbackStatusErr result, restoreErr])
                 else Wrapf ''parent accept outcome could not be stored'' err))
           | None \<Rightarrow> thenE (projectParentCompletionOutcome ParentOutcomeAccepted o' SessionRotationTerminalAccept)
               (thenE (appendParentOutcomeEvent taskID ''parent-accept'' ParentOutcomeAccepted [] [] o') (returnE True))))
     (\<lambda>b st. b \<and> state_is (with_status G TaskStatusAwaitingParentCompletion) st) ?E"
  proof (rule triple_bind [OF commit_plain], rule triple_assume', goal_cases)
    case (1 result)
    show ?case using store fail by (cases "tr_transitionErr result") simp_all
  qed
qed

lemma advances_commit [advances_intro]:
  "advances (error_of m)" if "advances m"
  unfolding error_of_def using that by (intro advances_intro)

lemma advances_accept_tail:
  "advances (bindE (catchE TaskID (\<lambda>err. bindE (error_of (restoreLifecycleFile review)) (\<lambda>restoreErr.
             throwE (case restoreErr of None \<Rightarrow> err | Some e \<Rightarrow> JoinErr [err, e])))) (\<lambda>taskID.
           bindE (commitParentCompletion rt random TaskStatusAwaitingParentCompletion False None) (\<lambda>result.
           case tr_transitionErr result of
             Some err \<Rightarrow> bindE (error_of (restoreLifecycleFile review)) (\<lambda>restoreErr.
               throwE (if tr_rollbackStatusErr result \<noteq> None \<or> restoreErr \<noteq> None
                 then RollbackErr ''parent accept'' err (joined [tr_rollbackStatusErr result, restoreErr])
                 else Wrapf ''parent accept outcome could not be stored'' err))
           | None \<Rightarrow> thenE (projectParentCompletionOutcome ParentOutcomeAccepted o' SessionRotationTerminalAccept)
               (thenE (appendParentOutcomeEvent taskID ''parent-accept'' ParentOutcomeAccepted [] [] o') (returnE True)))))"
  unfolding commitParentCompletion_def rollback_pending_def projectParentCompletionOutcome_def option.case Touch_def
  by (intro advances_intro)

lemma Accept_triple:
  "triple (since n F) (AcceptParentReview rt random)
     (\<lambda>b st. if b then \<exists>t t' G o'. (n \<le> t \<and> t \<le> t' \<and> ready rt t F \<and> pro_PacketStatus o' \<noteq> StatusNeedsSolDecision \<and>
          closing F SessionRotationTerminalAccept o' G \<and> sourced rt t' F G) \<and> since t' (with_status G TaskStatusAwaitingParentCompletion) st
        else state_is F st)
     (\<lambda>e st. undo_failed e \<or> state_is F st)" (is "triple _ _ ?Q _")
proof -
  let ?E = "\<lambda>e st. undo_failed e \<or> state_is F st"
  have require: "triple (since n F) (RequireParentReviewAcceptanceEvidence rt) (\<lambda>_ st. \<exists>t. (n \<le> t \<and> ready rt t F) \<and> since t F st) ?E"
    by (rule triple_weaken [OF require_triple]) auto
  have snap: "triple (since t F) (snapshotLifecycleFile parentReviewStateFile) (\<lambda>s st. snap F parentReviewStateFile s \<and> since t F st) ?E" for t
    by (rule since_value [OF advances_review(11)], rule triple_weaken [OF snapshotLifecycleFile_clean]) auto
  have resolve: "triple (since t F) (resolveParentCompletionState rt ParentOutcomeAccepted SessionRotationTerminalAccept)
     (\<lambda>r st. case r of None \<Rightarrow> state_is F st
        | Some o' \<Rightarrow> \<exists>t' G. (t \<le> t' \<and> pro_PacketStatus o' \<noteq> StatusNeedsSolDecision \<and>
            closing F SessionRotationTerminalAccept o' G \<and> sourced rt t' F G) \<and> since t' G st) ?E" for t
    by (rule triple_weaken [OF resolve_since [where terminal = SessionRotationTerminalAccept]])
      (auto simp: SessionRotationTerminalAccept_def dest: sinceD split: option.splits)
  have tail: "triple (since t' G)
     (bindE (catchE TaskID (\<lambda>err. bindE (error_of (restoreLifecycleFile review)) (\<lambda>restoreErr.
             throwE (case restoreErr of None \<Rightarrow> err | Some e \<Rightarrow> JoinErr [err, e])))) (\<lambda>taskID.
           bindE (commitParentCompletion rt random TaskStatusAwaitingParentCompletion False None) (\<lambda>result.
           case tr_transitionErr result of
             Some err \<Rightarrow> bindE (error_of (restoreLifecycleFile review)) (\<lambda>restoreErr.
               throwE (if tr_rollbackStatusErr result \<noteq> None \<or> restoreErr \<noteq> None
                 then RollbackErr ''parent accept'' err (joined [tr_rollbackStatusErr result, restoreErr])
                 else Wrapf ''parent accept outcome could not be stored'' err))
           | None \<Rightarrow> thenE (projectParentCompletionOutcome ParentOutcomeAccepted o' SessionRotationTerminalAccept)
               (thenE (appendParentOutcomeEvent taskID ''parent-accept'' ParentOutcomeAccepted [] [] o') (returnE True))))) ?Q ?E"
    if t: "n \<le> t" "ready rt t F" "t \<le> t'" "pro_PacketStatus o' \<noteq> StatusNeedsSolDecision" "sourced rt t' F G"
      and G: "closing F SessionRotationTerminalAccept o' G" and review: "snap F parentReviewStateFile review" for t t' G o' review
  proof (rule triple_weaken [OF triple_since [OF advances_accept_tail accept_tail [OF G review]]])
    fix b st assume "(b \<and> state_is (with_status G TaskStatusAwaitingParentCompletion) st) \<and> t' \<le> access st"
    then have "b" "since t' (with_status G TaskStatusAwaitingParentCompletion) st" by (simp_all add: since_def)
    with t G show "?Q b st" by auto
  qed
  show "?thesis"
    unfolding AcceptParentReview_def
  proof (rule triple_then [OF require], intro triple_exists_pre triple_assume, rule triple_bind [OF snap], rule triple_assume,
      rule triple_bind [OF resolve], goal_cases)
    case (1 t review r)
    show ?case
    proof (cases r)
      case (Some o')
      show ?thesis
        unfolding Some option.case
        by (intro triple_exists_pre triple_assume, rule tail [OF _ _ _ _ _ _ 1(2)]) (use 1 in auto)
    qed (simp add: triple_return)
  qed
qed

lemma Exists_true: "n \<noteq> currentStatsFile \<Longrightarrow> triple (state_is F) (Exists n) (\<lambda>b st. (b \<longrightarrow> F n \<noteq> None) \<and> state_is F st) E"
  unfolding Exists_def
  by (rule triple_bind [OF triple_attempt [OF triple_weaken [OF Stat_clean], where Q = "\<lambda>r st. (\<not> isl r \<longrightarrow> F n \<noteq> None) \<and> state_is F st"]])
    (auto intro!: triple_return split: sum.splits)

lemma admission_triple:
  "triple (state_is F) (ValidateObservationExecuteAdmission x)
     (\<lambda>_ st. (status_of F = TaskStatusWaitingDecision \<and> F ''pending-decision'' \<noteq> None) \<and> state_is F st) (\<lambda>_. state_is F)"
proof -
  have "reads CurrentParentReview"
    unfolding CurrentParentReview_def with_task_review_def Read_def loadParentReviewState_def review_for_task_def
    by (intro reads_intro) (auto intro!: reads_intro split: content.split doc.split)
  note review = reads_frame [OF reads_wrap [OF this]]
  have pending: "triple (state_is F) (if s \<noteq> TaskStatusWaitingDecision then returnE False else Exists ''pending-decision'')
      (\<lambda>b st. (b \<longrightarrow> s = TaskStatusWaitingDecision \<and> F ''pending-decision'' \<noteq> None) \<and> state_is F st) (\<lambda>_. state_is F)" for s
    by (rule triple_if, rule triple_return, simp, rule triple_weaken [OF Exists_true]) (auto simp: currentStatsFile_def)
  have "triple (state_is F) ObservationExecuteAdmission
     (\<lambda>_ st. (status_of F = TaskStatusWaitingDecision \<and> F ''pending-decision'' \<noteq> None) \<and> state_is F st) (\<lambda>_. state_is F)"
    unfolding ObservationExecuteAdmission_def
    by (rule triple_bind [OF get_TaskStatus_status [of TaskStatusWaitingDecision]], simp add: task_status_defs, rule triple_assume,
        rule triple_bind [OF pending], rule triple_assume, rule triple_if, rule triple_throw, assumption,
        rule triple_bind [OF review], rule triple_if, rule triple_throw, assumption, rule triple_bind [OF TaskID_clean],
        rule triple_bind [OF reads_frame [OF reads_observation(1)]], rule triple_return) auto
  then show ?thesis
    unfolding ValidateObservationExecuteAdmission_def
    by (rule triple_bind, intro triple_assume triple_if triple_throw triple_return) auto
qed

lemma no_go_tail:
  assumes G: "closing F SessionRotationTerminalNoGo o' G" and snap: "snap F parentReviewStateFile review"
  shows "triple (state_is G)
     (bindE (commitParentCompletion rt random TaskStatusAwaitingParentCompletion True None) (\<lambda>result.
           case tr_transitionErr result of
             Some err \<Rightarrow> bindE (error_of (restoreLifecycleFile review)) (\<lambda>restoreErr.
               throwE (if tr_rollbackStatusErr result \<noteq> None \<or> tr_rollbackPendingErr result \<noteq> None \<or> restoreErr \<noteq> None
                 then RollbackErr ''terminal no-go'' err
                   (joined [tr_rollbackStatusErr result, tr_rollbackPendingErr result, restoreErr])
                 else Wrapf ''terminal no-go outcome could not be stored'' err))
           | None \<Rightarrow> thenE (projectParentCompletionOutcome ParentOutcomeNoGo o' SessionRotationTerminalNoGo)
               (thenE (appendParentOutcomeEvent t ''parent-close'' ParentOutcomeNoGo [] [] o') (returnE True))))
     (\<lambda>b st. b \<and> state_is (with_status (G(''pending-decision'' := None)) TaskStatusAwaitingParentCompletion) st)
     (\<lambda>e st. undo_failed e \<or> state_is F st \<or> state_is (marked F) st)"
proof (rule triple_bind [OF commit_pending], goal_cases)
  case (1 result)
  let ?E = "\<lambda>e st. undo_failed e \<or> state_is F st \<or> state_is (marked F) st"
  have store: "triple (state_is H)
      (thenE (projectParentCompletionOutcome ParentOutcomeNoGo o' SessionRotationTerminalNoGo)
               (thenE (appendParentOutcomeEvent t ''parent-close'' ParentOutcomeNoGo [] [] o') (returnE True)))
      (\<lambda>b st. b \<and> state_is H st) ?E" for H
    unfolding projectParentCompletionOutcome_def
    by (intro triple_then [OF UpdateTaskStats_clean] triple_then [OF appendParentOutcomeEvent_clean] triple_return) simp
  have restore: "triple (state_is H) (error_of (restoreLifecycleFile review))
      (\<lambda>e st. e = None \<longrightarrow> state_is (H(parentReviewStateFile := F parentReviewStateFile)) st) E" for H E
    using restoreLifecycleFile_clean [OF snap, of H] by (intro error_of_triple) (auto elim: triple_weaken)
  have undone: "(marked G)(parentReviewStateFile := F parentReviewStateFile) = marked F" "G(parentReviewStateFile := F parentReviewStateFile) = F"
    using closing_restored [OF G] review_not_status by (auto simp: fun_upd_twist)
  have fail: "triple (state_is H) (bindE (error_of (restoreLifecycleFile review)) (\<lambda>restoreErr.
               throwE (if tr_rollbackStatusErr result \<noteq> None \<or> tr_rollbackPendingErr result \<noteq> None \<or> restoreErr \<noteq> None
                 then RollbackErr ''terminal no-go'' err
                   (joined [tr_rollbackStatusErr result, tr_rollbackPendingErr result, restoreErr])
                 else Wrapf ''terminal no-go outcome could not be stored'' err))) Q ?E"
    if "tr_rollbackPendingErr result = None \<longrightarrow> H = G \<or> H = marked G" for H err and Q :: "bool \<Rightarrow> store \<Rightarrow> bool"
    by (rule triple_bind [OF restore], rule triple_throw) (use that undone in \<open>auto simp: undo_failed_def\<close>)
  show ?case
  proof (cases "tr_transitionErr result")
    case None
    show ?thesis unfolding None option.case by (rule triple_weaken [OF store]) auto
  next
    case (Some err)
    show ?thesis
      unfolding Some option.case
    proof (rule triple_pre, elim conjE exE)
      fix st H assume cl: "tr_rollbackPendingErr result = None \<longrightarrow> state_is G st \<or> state_is (marked G) st" and H: "state_is H st"
      have "\<exists>K. state_is K st \<and> (tr_rollbackPendingErr result = None \<longrightarrow> K = G \<or> K = marked G)"
      proof (cases "tr_rollbackPendingErr result")
        case None
        with cl have "state_is G st \<or> state_is (marked G) st" by simp
        then show ?thesis by (elim disjE) (rule exI, erule conjI, simp)+
      qed (use H in auto)
      then obtain K where "state_is K st" "tr_rollbackPendingErr result = None \<longrightarrow> K = G \<or> K = marked G" by (elim exE conjE)
      then show "triple (\<lambda>st'. st' = st) (bindE (error_of (restoreLifecycleFile review)) (\<lambda>restoreErr.
               throwE (if tr_rollbackStatusErr result \<noteq> None \<or> tr_rollbackPendingErr result \<noteq> None \<or> restoreErr \<noteq> None
                 then RollbackErr ''terminal no-go'' err
                   (joined [tr_rollbackStatusErr result, tr_rollbackPendingErr result, restoreErr])
                 else Wrapf ''terminal no-go outcome could not be stored'' err)))
          (\<lambda>b st. b \<and> state_is (with_status (G(''pending-decision'' := None)) TaskStatusAwaitingParentCompletion) st) ?E"
        by (intro triple_weaken [OF fail]) auto
    qed
  qed
qed

lemma NoGo_triple:
  "triple (state_is F) (AwaitObservationNoGo rt random x)
     (\<lambda>b st. if b then \<exists>o' G. closing F SessionRotationTerminalNoGo o' G \<and>
          state_is (with_status (G(''pending-decision'' := None)) TaskStatusAwaitingParentCompletion) st else state_is F st)
     (\<lambda>e st. undo_failed e \<or> state_is F st \<or> F ''pending-decision'' \<noteq> None \<and> state_is (marked F) st)"
proof -
  let ?E = "\<lambda>e st. undo_failed e \<or> state_is F st \<or> F ''pending-decision'' \<noteq> None \<and> state_is (marked F) st"
  have admit: "triple (state_is F) (wrapE m (ValidateObservationExecuteAdmission x)) (\<lambda>_ st. F ''pending-decision'' \<noteq> None \<and> state_is F st) ?E" for m
    by (rule triple_wrap, rule triple_weaken [OF admission_triple]) auto
  have snap: "triple (state_is F) (snapshotLifecycleFile parentReviewStateFile) (\<lambda>s st. snap F parentReviewStateFile s \<and> state_is F st) ?E"
    by (rule triple_weaken [OF snapshotLifecycleFile_clean]) auto
  have resolve: "triple (state_is F) (resolveParentCompletionState rt ParentOutcomeNoGo SessionRotationTerminalNoGo)
     (\<lambda>r st. case r of None \<Rightarrow> state_is F st | Some o' \<Rightarrow> (\<exists>G. closing F SessionRotationTerminalNoGo o' G \<and> state_is G st)) ?E"
    by (rule triple_weaken [OF resolve_triple]) (auto simp: SessionRotationTerminalNoGo_def split: option.splits)
  show ?thesis
    unfolding AwaitObservationNoGo_def
  proof (rule triple_then [OF admit], rule triple_assume, rule triple_bind [OF snap], rule triple_assume, rule triple_bind [OF resolve], goal_cases)
    case (1 review r)
    show ?case
    proof (cases r)
      case (Some o')
      show ?thesis
        unfolding Some option.case
        by (intro triple_exists_pre triple_assume, rule triple_weaken [OF no_go_tail]) (use 1 in auto)
    qed (simp add: triple_return)
  qed
qed

lemma bindE_return: "bindE (returnE v) k = k v"
  by (simp add: bindE_def returnE_def fun_eq_iff)

text \<open>A failed commit of a rotation changes nothing, a successful one only marker files.\<close>

definition but_markers :: "filemap \<Rightarrow> filemap \<Rightarrow> bool" where
  "but_markers F G \<longleftrightarrow> (\<forall>n. (\<forall>a. n \<noteq> SessionRotationMarkerPath a) \<longrightarrow> G n = F n)"

lemma but_markers_refl [simp]: "but_markers F F"
  by (simp add: but_markers_def)

lemma marker_written_only:
  "marker_written rt F m st \<Longrightarrow> \<exists>G. but_markers F G \<and> state_is G st"
  unfolding marker_written_def by (elim exE conjE, rule exI, erule conjI [rotated]) (simp add: but_markers_def)

lemma rotation_commit_triple:
  "triple (state_is F) (commitSessionRotation rt random ev)
     (\<lambda>_ st. \<exists>G. but_markers F G \<and> state_is G st) (\<lambda>_. state_is F)"
  unfolding commitSessionRotation_def
  by (intro triple_option triple_if triple_throw triple_return triple_bind [OF LoadSessionRotationMarker_clean] triple_assume
      triple_bind [where R = "\<lambda>_. state_is F", OF reads_frame [OF reads_basic(5)]] triple_weaken [OF writeSessionRotationMarker_clean])
    (auto dest: marker_written_only intro: exI [of _ F])

lemma marker_path_other [simp]: "SessionRotationMarkerPath a \<noteq> ''task.status''" "SessionRotationMarkerPath a \<noteq> parentReviewStateFile"
  by (simp_all add: SessionRotationMarkerPath_def sessionRotationDirectory_def parentReviewStateFile_def)

definition read_only :: "SessionRotationEvaluator option \<Rightarrow> bool" where
  "read_only evaluate \<longleftrightarrow> (\<forall>f risk. evaluate = Some f \<longrightarrow> touches {} (f risk))"

lemma touches_frame: "touches {} m \<Longrightarrow> triple (state_is F) m (\<lambda>_. state_is F) (\<lambda>_. state_is F)"
  by (rule tripleI) (auto simp: state_is_def touchesD)

lemma commit_rotating:
  assumes "read_only evaluate"
  shows "triple (state_is F) (commitParentCompletion rt random s False (sessionRotationBuildFor evaluate risk))
     (\<lambda>r st. case tr_transitionErr r of
          None \<Rightarrow> \<exists>G. but_markers (with_status F s) G \<and> state_is G st
        | Some _ \<Rightarrow> tr_rollbackStatusErr r = None \<longrightarrow> state_is F st \<or> (\<exists>p \<in> {TaskStatusNone, status_of F}. state_is (with_status F p) st)) E"
  unfolding commitParentCompletion_def rollback_pending_def rollbackParentCompletion_def if_False
proof (rule triple_bind [OF get_TaskStatus_read], rule triple_assume,
    rule triple_bind [OF error_of_triple [where Q = "\<lambda>e st. e = None \<and> state_is F st"]], rule triple_return, simp,
    rule triple_assume, simp only: option.case,
    rule triple_bind [OF error_of_triple [where Q = "\<lambda>e. state_is (case e of None \<Rightarrow> with_status F s | Some _ \<Rightarrow> F)"]],
    rule triple_weaken [OF SetTaskStatus_clean], simp, simp, simp, goal_cases)
  case (1 previous removed set')
  let ?S = "with_status F s"
  let ?ok = "\<lambda>st. \<exists>G. but_markers ?S G \<and> state_is G st"
  let ?Q = "\<lambda>r st. case tr_transitionErr r of None \<Rightarrow> ?ok st
        | Some _ \<Rightarrow> tr_rollbackStatusErr r = None \<longrightarrow> state_is F st \<or> (\<exists>p \<in> {TaskStatusNone, status_of F}. state_is (with_status F p) st)"
  have evaluated: "triple (state_is ?S) (error_of (bindE (f risk) (commitSessionRotation rt random)))
      (\<lambda>e st. case e of None \<Rightarrow> ?ok st | Some _ \<Rightarrow> state_is ?S st) E" if "evaluate = Some f" for f
    by (rule error_of_triple [where Q = "\<lambda>e st. case e of None \<Rightarrow> ?ok st | Some _ \<Rightarrow> state_is ?S st"], simp only: option.case,
        rule triple_bind [OF touches_frame rotation_commit_triple]) (use assms that in \<open>simp add: read_only_def\<close>)
  have status': "triple (state_is ?S) (error_of (SetTaskStatus previous)) (\<lambda>e st. e = None \<longrightarrow> state_is (with_status F previous) st) E"
    by (rule error_of_triple, rule triple_weaken [OF SetTaskStatus_clean [of ?S]]) auto
  have undo: "triple (state_is ?S) (bindE (error_of (SetTaskStatus previous)) (\<lambda>statusErr. bindE (returnE None) (\<lambda>pendingErr.
       returnE \<lparr>tr_transitionErr = Some e, tr_rollbackStatusErr = statusErr, tr_rollbackPendingErr = pendingErr\<rparr>))) ?Q E" for e
    unfolding bindE_return by (rule triple_bind [OF status'], rule triple_return) (use 1 in auto)
  have failed: "triple (state_is F) (bindE (returnE None) (\<lambda>pendingErr.
       returnE (completed_transition\<lparr>tr_transitionErr := Some e, tr_rollbackPendingErr := pendingErr\<rparr>))) ?Q E" for e
    unfolding bindE_return by (rule triple_return) simp
  have rotated: "triple (\<lambda>st. case r of None \<Rightarrow> ?ok st | Some _ \<Rightarrow> state_is ?S st) (case r of
       Some e \<Rightarrow> bindE (error_of (SetTaskStatus previous)) (\<lambda>statusErr. bindE (returnE None) (\<lambda>pendingErr.
         returnE \<lparr>tr_transitionErr = Some e, tr_rollbackStatusErr = statusErr, tr_rollbackPendingErr = pendingErr\<rparr>))
     | None \<Rightarrow> returnE completed_transition) ?Q E" for r
    by (cases r) (simp_all only: option.case undo, rule triple_return, simp)
  show ?case
  proof (cases set')
    case None
    show ?thesis
      unfolding None option.case sessionRotationBuildFor_def
      by (cases evaluate) (auto intro!: triple_return exI [of _ ?S] triple_bind [OF evaluated rotated])
  qed (simp only: option.case failed)
qed

lemma Complete_triple:
  assumes "read_only evaluate"
  shows "triple (state_is F) (CompleteParentAwaiting rt random evaluate)
     (\<lambda>_ st. status_of F = TaskStatusAwaitingParentCompletion \<and>
        (\<exists>s c. F parentReviewStateFile = Some (Doc (ReviewD s)) \<and> prs_Completion s = Some c) \<and>
        (\<exists>G. but_markers (with_status F TaskStatusComplete) G \<and> state_is G st))
     (\<lambda>e st. undo_failed e \<or> state_is F st \<or> status_of F = TaskStatusAwaitingParentCompletion \<and>
        (\<exists>p \<in> {TaskStatusNone, TaskStatusAwaitingParentCompletion}. state_is (with_status F p) st))"
proof -
  let ?E = "\<lambda>e st. undo_failed e \<or> state_is F st \<or> status_of F = TaskStatusAwaitingParentCompletion \<and>
        (\<exists>p \<in> {TaskStatusNone, TaskStatusAwaitingParentCompletion}. state_is (with_status F p) st)"
  have status: "triple (state_is F) get_TaskStatus (\<lambda>v st. (v = TaskStatusAwaitingParentCompletion \<longrightarrow>
      status_of F = TaskStatusAwaitingParentCompletion) \<and> state_is F st) ?E"
    by (rule triple_weaken [OF get_TaskStatus_status [of TaskStatusAwaitingParentCompletion]]) (auto simp: task_status_defs)
  have refuse: "triple (state_is F) (refuse_status m) Q ?E" for m and Q :: "bool \<Rightarrow> store \<Rightarrow> bool"
    unfolding refuse_status_def by (rule triple_bind [OF get_TaskStatus_clean], rule triple_throw) simp
  have outcome: "triple (state_is F) (wrapE m CurrentParentCompletionOutcome)
      (\<lambda>v st. (\<forall>c. v = Some c \<longrightarrow> (\<exists>s. F parentReviewStateFile = Some (Doc (ReviewD s)) \<and> prs_Completion s = Some c)) \<and> state_is F st) ?E" for m
    unfolding CurrentParentCompletionOutcome_def
    by (rule triple_wrap, rule triple_bind, rule triple_weaken [OF loadParentReviewState_clean], assumption, assumption, simp,
        rule triple_assume, rule triple_return) auto
  show ?thesis
    unfolding CompleteParentAwaiting_def projectCurrentParentCompletionOutcome_def
  proof (rule triple_bind [OF status], rule triple_assume, rule triple_if, rule refuse, rule triple_bind [OF outcome], rule triple_assume,
      rule triple_option, rule triple_throw, simp, rule triple_bind [OF commit_rotating [OF assms]], goal_cases)
    case (1 status outcome c result)
    show ?case
    proof (cases "tr_transitionErr result")
      case None
      show ?thesis
        unfolding None option.case
        by (intro triple_exists_pre triple_assume triple_then [OF UpdateTaskStats_clean] triple_return) (use 1 in auto)
    next
      case (Some e)
      show ?thesis unfolding Some option.case by (rule triple_throw) (use 1 in \<open>auto simp: undo_failed_def\<close>)
    qed
  qed
qed

text \<open>
  C5. Acceptance needs evidence and is atomic: for every pattern of faults, and whatever happens to the
  repository meanwhile, accepting a task returns true only when the current task has an open review that
  is not a pending decision. If that review asks for a parent review (\<^verbatim>\<open>NEEDS_SOL_REVIEW\<close>) it has a
  proof that belongs to it and was made for the state the repository had at a moment during the call,
  and, if it has a coverage, the coverage is of the current lease and names every target. The review is
  then closed under the terminal \<^verbatim>\<open>accept\<close> with its risk, by a completion whose source, for a review with
  a binding, is a later capture of the repository that agrees with the reviewed state; the task awaits
  its completion, and nothing else has changed. When it returns false or fails nothing has changed,
  unless the error says that undoing failed too.
\<close>

theorem accept_requires_evidence:
  assumes "AcceptParentReview rt random st = (res, st')"
  shows "case res of
      Inl e \<Rightarrow> undo_failed e \<or> (\<forall>n. n \<noteq> currentStatsFile \<longrightarrow> files st' n = files st n)
    | Inr False \<Rightarrow> \<forall>n. n \<noteq> currentStatsFile \<longrightarrow> files st' n = files st n
    | Inr True \<Rightarrow> \<exists>s o' c t t'. files st parentReviewStateFile = Some (Doc (ReviewD s)) \<and> prs_Open s = Some o' \<and>
        access st \<le> t \<and> t \<le> t' \<and> t' \<le> access st' \<and>
        pro_PacketStatus o' \<noteq> StatusNeedsSolDecision \<and> (pro_PacketStatus o' = StatusNeedsSolReview \<longrightarrow> evidence rt t (files st) s) \<and>
        pco_Terminal c = SessionRotationTerminalAccept \<and> pco_Risk c = pro_Risk o' \<and>
        (\<forall>b. prs_Review s = Some b \<longrightarrow> bound_to rt t' (files st) b c) \<and>
        (\<forall>n. n \<noteq> currentStatsFile \<longrightarrow> files st' n = ((files st)
          (parentReviewStateFile \<mapsto> Doc (ReviewD (s\<lparr>prs_Open := None, prs_Review := None, prs_Completion := Some c\<rparr>)),
           ''task.status'' \<mapsto> Text (TaskStatusAwaitingParentCompletion @ [CHR 0x0A]))) n)"
proof (cases res)
  case (Inl e)
  from triple_InlD [OF Accept_triple since_self assms [unfolded Inl]] show ?thesis by (simp add: Inl state_is_def)
next
  case (Inr b)
  note run = triple_InrD [OF Accept_triple since_self assms [unfolded Inr]]
  show ?thesis
  proof (cases b)
    case True
    with run obtain t t' o' G where o': "pro_PacketStatus o' \<noteq> StatusNeedsSolDecision" "closing (files st) SessionRotationTerminalAccept o' G"
      "since t' (with_status G TaskStatusAwaitingParentCompletion) st'" and t: "access st \<le> t" "t \<le> t'"
      and ready: "ready rt t (files st)" and source: "sourced rt t' (files st) G" by auto
    from o'(2) obtain s c where s: "files st parentReviewStateFile = Some (Doc (ReviewD s))" "prs_Open s = Some o'" "task_of (files st) \<noteq> []"
      "pco_Terminal c = SessionRotationTerminalAccept" "pco_Risk c = pro_Risk o'"
      "G = (files st)(parentReviewStateFile \<mapsto> Doc (ReviewD (s\<lparr>prs_Open := None, prs_Review := None, prs_Completion := Some c\<rparr>)))"
      unfolding closing_def by auto
    have evidence: "pro_PacketStatus o' = StatusNeedsSolReview \<longrightarrow> evidence rt t (files st) s" using ready s by (auto simp: ready_def)
    have bound: "\<forall>b. prs_Review s = Some b \<longrightarrow> bound_to rt t' (files st) b c" using source s by (simp add: sourced_def)
    have true: "res = Inr True" using True Inr by simp
    from o' s t evidence bound show ?thesis
      unfolding true sum.case bool.case
      by (intro exI [of _ s] exI [of _ o'] exI [of _ c] exI [of _ t] exI [of _ t'] conjI) (simp_all add: since_def state_is_def)
  qed (use run Inr in \<open>simp add: state_is_def\<close>)
qed

text \<open>A store whose task has an open review with a complete coverage and a proof.\<close>

definition proven_claims :: "ParentReviewTargetCoverageClaim list" where
  "proven_claims = map (\<lambda>t. (sample_claim t)\<lparr>tc_OwnerCallID := ''call''\<rparr>) (rb_Targets sample_binding)"

definition proven_review :: ParentReviewState where
  "proven_review = \<lparr>prs_Version = parentReviewStateVersion, prs_TaskID = ''t1'',
     prs_Open = Some \<lparr>pro_PacketStatus = StatusNeedsSolReview, pro_Role = ''worker'', pro_ModelAlias = ''m'', pro_Risk = RiskHigh\<rparr>,
     prs_Review = Some (sample_binding\<lparr>rb_ID := ''123e4567-e89b-42d3-a456-426614174000'', rb_PacketSHA256 := replicate 64 CHR ''0'',
       rb_Coverage := Some \<lparr>cov_ReviewID = ''123e4567-e89b-42d3-a456-426614174000'', cov_Lease = 0,
         cov_Snapshot = rb_Snapshot sample_binding, cov_Claims = proven_claims\<rparr>,
       rb_Proof := Some \<lparr>ep_ReviewID = ''123e4567-e89b-42d3-a456-426614174000'', ep_OwnerCallID = ''call'',
       ep_Snapshot = rb_Snapshot sample_binding, ep_Claims = map tc_Evidence proven_claims\<rparr>\<rparr>), prs_Completion = None\<rparr>"

definition proven_store :: "(nat \<Rightarrow> bool) \<Rightarrow> store" where
  "proven_store faults = \<lparr>files = [''task.id'' \<mapsto> Text ''t1'', ''task.status'' \<mapsto> Text ''waiting-sol-review'', ''repo-root'' \<mapsto> Text ''/r'',
       ''parent-review-state.json'' \<mapsto> Doc (ReviewD proven_review)],
     listing = [], access = 0, fault = faults, now = 7, lifecycle_log = [], outcome_log = []\<rparr>"

theorem accept_requires_evidence_witness:
  "\<exists>st'. AcceptParentReview sample_runtime [] (proven_store (\<lambda>_. False)) = (Inr True, st') \<and>
     (\<exists>t. evidence sample_runtime t (files (proven_store (\<lambda>_. False))) proven_review) \<and>
     files st' ''task.status'' = Some (Text (TaskStatusAwaitingParentCompletion @ [CHR 0x0A]))"
proof -
  have "fst (AcceptParentReview sample_runtime [] (proven_store (\<lambda>_. False))) = Inr True" by code_simp
  then obtain st' where run: "AcceptParentReview sample_runtime [] (proven_store (\<lambda>_. False)) = (Inr True, st')" by (metis prod.collapse)
  have "files (proven_store (\<lambda>_. False)) parentReviewStateFile = Some (Doc (ReviewD proven_review))"
    by (simp add: proven_store_def parentReviewStateFile_def)
  moreover have "map_option pro_PacketStatus (prs_Open proven_review) = Some StatusNeedsSolReview" by (simp add: proven_review_def)
  ultimately show ?thesis
    using accept_requires_evidence [OF run] run by (auto simp: currentStatsFile_def)
qed

text \<open>
  C24. A terminal no-go closes the pending decision: for every pattern of faults it returns true only
  for a task that has an open review, which is then closed under the terminal \<^verbatim>\<open>no-go\<close>, with the marker of the
  pending decision gone and the task awaiting its completion. When it returns false nothing has
  changed; when it fails, and does not report that undoing failed, nothing but the text of the
  marker has changed, which is there exactly when it was there before.
\<close>

theorem no_go_closes_decision:
  assumes "AwaitObservationNoGo rt random x st = (res, st')"
  shows "case res of
      Inl e \<Rightarrow> undo_failed e \<or> (\<forall>n. n \<noteq> currentStatsFile \<and> n \<noteq> ''pending-decision'' \<longrightarrow> files st' n = files st n) \<and>
        (files st' ''pending-decision'' = None \<longleftrightarrow> files st ''pending-decision'' = None)
    | Inr False \<Rightarrow> \<forall>n. n \<noteq> currentStatsFile \<longrightarrow> files st' n = files st n
    | Inr True \<Rightarrow> \<exists>o' G. closing (files st) SessionRotationTerminalNoGo o' G \<and>
        (\<forall>n. n \<noteq> currentStatsFile \<longrightarrow> files st' n =
          (G(''pending-decision'' := None, ''task.status'' \<mapsto> Text (TaskStatusAwaitingParentCompletion @ [CHR 0x0A]))) n)"
proof (cases res)
  case (Inl e)
  from triple_InlD [OF NoGo_triple state_is_self assms [unfolded Inl]] show ?thesis
    by (auto simp: Inl state_is_def currentStatsFile_def)
next
  case (Inr b)
  from triple_InrD [OF NoGo_triple state_is_self assms [unfolded Inr]] show ?thesis
    by (cases b) (simp_all add: Inr state_is_def)
qed

definition decision_review :: ParentReviewState where
  "decision_review = proven_review\<lparr>prs_Open := Some \<lparr>pro_PacketStatus = StatusNeedsSolDecision, pro_Role = ''worker'', pro_ModelAlias = ''m'',
     pro_Risk = RiskHigh\<rparr>, prs_Review := None\<rparr>"

definition decision_store :: store where
  "decision_store = (proven_store (\<lambda>_. False))\<lparr>files := [''task.id'' \<mapsto> Text ''t1'', ''task.status'' \<mapsto> Text ''waiting-decision'',
     ''pending-decision'' \<mapsto> Text ''1'', ''parent-evidence-lease'' \<mapsto> Text ''3'', ''parent-review-state.json'' \<mapsto> Doc (ReviewD decision_review)]\<rparr>"

theorem no_go_closes_decision_witness:
  "\<exists>st' o' G. AwaitObservationNoGo sample_runtime [] \<lparr>oa_TaskID = ''t1'', oa_Round = 3\<rparr> decision_store = (Inr True, st') \<and>
     closing (files decision_store) SessionRotationTerminalNoGo o' G \<and> files st' ''pending-decision'' = None"
proof -
  have "fst (AwaitObservationNoGo sample_runtime [] \<lparr>oa_TaskID = ''t1'', oa_Round = 3\<rparr> decision_store) = Inr True" by code_simp
  then obtain st' where run: "AwaitObservationNoGo sample_runtime [] \<lparr>oa_TaskID = ''t1'', oa_Round = 3\<rparr> decision_store = (Inr True, st')"
    by (metis prod.collapse)
  from no_go_closes_decision [OF run] run show ?thesis by (auto simp: currentStatsFile_def)
qed

text \<open>
  C40. A task is completed only from a recorded outcome: with a rotation evaluation that changes no
  file, and for every pattern of faults, completion succeeds only for a task that awaits it and whose
  review state holds a completion outcome; the task is then complete, and nothing else has changed
  but rotation markers. When it fails, and does not report that undoing failed, nothing but the
  status file has changed, and the status reads as before or, after a read of it failed, as none.
\<close>

theorem completion_needs_outcome:
  assumes "read_only evaluate" "CompleteParentAwaiting rt random evaluate st = (res, st')"
  shows "case res of
      Inl e \<Rightarrow> undo_failed e \<or> (\<forall>n. n \<noteq> currentStatsFile \<and> n \<noteq> ''task.status'' \<longrightarrow> files st' n = files st n) \<and>
        status_of (files st') \<in> {status_of (files st), TaskStatusNone}
    | Inr _ \<Rightarrow> status_of (files st) = TaskStatusAwaitingParentCompletion \<and>
        (\<exists>s c. files st parentReviewStateFile = Some (Doc (ReviewD s)) \<and> prs_Completion s = Some c) \<and>
        status_of (files st') = TaskStatusComplete \<and>
        (\<forall>n. n \<noteq> currentStatsFile \<and> n \<noteq> ''task.status'' \<and> (\<forall>a. n \<noteq> SessionRotationMarkerPath a) \<longrightarrow> files st' n = files st n)"
proof -
  note run = Complete_triple [OF assms(1), of "files st" rt random]
  have known: "status_of (with_status F p) = p" if "p \<in> {TaskStatusNone, TaskStatusAwaitingParentCompletion, TaskStatusComplete}" for F p
    using that by (intro status_of_with_status) (auto simp: task_status_defs graphic_def)
  show ?thesis
  proof (cases res)
    case (Inl e)
    from triple_InlD [OF run state_is_self assms(2) [unfolded Inl]] show ?thesis
      unfolding Inl sum.case
      by (auto simp: known dest: status_of_state_is) (auto simp: state_is_def)
  next
    case (Inr b)
    from triple_InrD [OF run state_is_self assms(2) [unfolded Inr]] obtain G where
      G: "but_markers (with_status (files st) TaskStatusComplete) G" "state_is G st'" and
      F: "status_of (files st) = TaskStatusAwaitingParentCompletion"
        "\<exists>s c. files st parentReviewStateFile = Some (Doc (ReviewD s)) \<and> prs_Completion s = Some c" by blast
    have "\<forall>a. ''task.status'' \<noteq> SessionRotationMarkerPath a" using marker_path_other(1) by metis
    with G(1) have "G ''task.status'' = with_status (files st) TaskStatusComplete ''task.status''" unfolding but_markers_def by blast
    then have "status_of G = status_of (with_status (files st) TaskStatusComplete)" by (simp add: status_of_def)
    with F G show ?thesis
      by (simp add: Inr status_of_state_is [OF G(2)] known) (simp add: but_markers_def state_is_def)
  qed
qed

definition awaiting_store :: store where
  "awaiting_store = (proven_store (\<lambda>_. False))\<lparr>files := [''task.id'' \<mapsto> Text ''t1'', ''task.status'' \<mapsto> Text ''awaiting-parent-completion'',
     ''parent-review-state.json'' \<mapsto> Doc (ReviewD (proven_review\<lparr>prs_Open := None, prs_Review := None,
       prs_Completion := Some \<lparr>pco_Terminal = SessionRotationTerminalAccept, pco_Risk = RiskHigh, pco_Source = None, pco_Review = None\<rparr>\<rparr>))]\<rparr>"

theorem completion_needs_outcome_witness:
  "\<exists>st'. CompleteParentAwaiting sample_runtime [] (Some (\<lambda>_. returnE None)) awaiting_store = (Inr True, st') \<and>
     status_of (files st') = TaskStatusComplete"
proof -
  have "fst (CompleteParentAwaiting sample_runtime [] (Some (\<lambda>_. returnE None)) awaiting_store) = Inr True" by code_simp
  then obtain st' where run: "CompleteParentAwaiting sample_runtime [] (Some (\<lambda>_. returnE None)) awaiting_store = (Inr True, st')"
    by (metis prod.collapse)
  have "read_only (Some (\<lambda>_. returnE None))" by (simp add: read_only_def touches_basic)
  from completion_needs_outcome [OF this run] run show ?thesis by auto
qed

end
