(* ===== verification/Parent_Reentry.thy ===== *)
theory Parent_Reentry
  imports Parent_Reopen Parent_Complete
begin

text \<open>
  Reentry into an accepted task and the repair of a reentered review, from
  \<^verbatim>\<open>state/parent_reentry.go\<close>, \<^verbatim>\<open>state/unsealed_parent_completion.go\<close> and the Git snapshots of
  \<^verbatim>\<open>state/snapshot.go\<close> that they save. Every transition takes snapshots of the files it replaces and
  restores them when a step fails.
\<close>

section \<open>Snapshots\<close>

definition EqualGitSnapshot :: "GitSnapshot \<Rightarrow> GitSnapshot \<Rightarrow> bool" where
  "EqualGitSnapshot a b \<longleftrightarrow> gs_Head a = gs_Head b \<and> gs_IndexDigest a = gs_IndexDigest b \<and> gs_WorktreeDigest a = gs_WorktreeDigest b"

definition reviewStartSnapshotFile :: string where "reviewStartSnapshotFile = ''snapshot-review-start.json''"

definition writeSnapshot :: "string \<Rightarrow> GitSnapshot \<Rightarrow> unit sop" where
  "writeSnapshot path snap' = writeFileAtomic path (Doc (SnapshotD snap'))"

definition SaveWorkerEndSnapshot :: "GitSnapshot \<Rightarrow> unit sop" where
  "SaveWorkerEndSnapshot snap' = wrapE ''worker-end snapshot'' (writeSnapshot workerEndSnapshotFile snap')"

definition SaveReviewStartSnapshot :: "GitSnapshot \<Rightarrow> unit sop" where
  "SaveReviewStartSnapshot snap' = wrapE ''review-start snapshot'' (writeSnapshot reviewStartSnapshotFile snap')"

section \<open>Reentry from the controller\<close>

record ControllerReentryAuthority =
  cra_PredecessorTaskContractDigest :: string
  cra_PredecessorAttemptID :: string
  cra_AttemptID :: string
  cra_TaskPath :: string
  cra_TaskContractDigest :: string

definition verifyControllerReentryBinding :: "ControllerRuntimeBinding \<Rightarrow> ControllerReentryAuthority \<Rightarrow> state_error option" where
  "verifyControllerReentryBinding binding authority =
     (if cra_AttemptID authority = [] \<or> crb_AttemptID binding = cra_AttemptID authority \<or>
         crb_AttemptID binding \<noteq> cra_PredecessorAttemptID authority
      then Some (Errorf ''workflow session does not belong to the canonical attempt predecessor'' [])
      else if cra_TaskContractDigest authority = [] \<or> cra_PredecessorTaskContractDigest authority = [] \<or>
         crb_TaskPath binding \<noteq> cra_TaskPath authority \<or> crb_TaskContractDigest binding \<noteq> cra_PredecessorTaskContractDigest authority
      then Some (Errorf ''controller runtime reentry task identity does not match the workflow binding'' [])
      else None)"

definition controllerReentryCompletionAuthority :: "ControllerReentryAuthority \<Rightarrow> ParentCompletionOutcome sop" where
  "controllerReentryCompletionAuthority authority = bindE CurrentParentCompletionOutcome (\<lambda>completion. case completion of
       None \<Rightarrow> throwE (Errorf ''controller runtime reentry requires an accepted parent completion outcome'' [])
     | Some c \<Rightarrow> if pco_Terminal c \<noteq> SessionRotationTerminalAccept
         then throwE (Errorf ''controller runtime reentry requires an accepted parent completion outcome'' [])
         else bindE LoadControllerRuntimeBinding (\<lambda>binding.
           thenE (check (verifyControllerReentryBinding binding authority)) (returnE c)))"

definition applyControllerReentryTransition :: "string \<Rightarrow> unit sop" where
  "applyControllerReentryTransition risk = bindE (snapshotLifecycleFile parentReviewStateFile) (\<lambda>review.
     bindE (snapshotLifecycleFile ''task.status'') (\<lambda>status.
       thenE (catchE (openParentReviewState StatusNeedsSolReview risk \<lparr>prp_Role = [], prp_Model = []\<rparr>)
           (\<lambda>e. rollbackLifecycleFiles e [review, status]))
         (catchE (SetTaskStatus TaskStatusWaitingSolReview) (\<lambda>e. rollbackLifecycleFiles e [review, status]))))"

definition reentryReviewRiskFloor :: "string \<Rightarrow> string" where
  "reentryReviewRiskFloor completionRisk = (if completionRisk \<noteq> RiskLow then completionRisk else RiskHigh)"

definition ReenterAcceptedCompletionFromController :: "ControllerReentryAuthority \<Rightarrow> bool sop" where
  "ReenterAcceptedCompletionFromController authority = bindE get_TaskStatus (\<lambda>status.
     if status \<noteq> TaskStatusAwaitingParentCompletion then returnE False
     else bindE (controllerReentryCompletionAuthority authority) (\<lambda>completion. bindE TaskID (\<lambda>taskID.
       thenE (applyControllerReentryTransition (reentryReviewRiskFloor (pco_Risk completion)))
         (thenE (recordReopenedParentOutcome taskID ''user-amendment'' ''sol-gate'' (reentryReviewRiskFloor (pco_Risk completion)))
           (returnE True)))))"

section \<open>Completion that is not sealed yet\<close>

record unsealedParentCompletion =
  upc_Binding :: ControllerRuntimeBinding
  upc_Review :: ParentReviewState

text \<open>The version is a field of the stored document only, so comparing two bindings leaves it aside.\<close>

definition same_binding :: "ControllerRuntimeBinding \<Rightarrow> ControllerRuntimeBinding \<Rightarrow> bool" where
  "same_binding a b \<longleftrightarrow> crb_AttemptID a = crb_AttemptID b \<and> crb_TaskPath a = crb_TaskPath b \<and> crb_RequestID a = crb_RequestID b \<and>
     crb_TaskContractDigest a = crb_TaskContractDigest b"

definition admitUnsealedCompletionCapture :: "go_runtime \<Rightarrow> ControllerRuntimeBinding \<Rightarrow> unit sop" where
  "admitUnsealedCompletionCapture rt binding = bindE get_TaskStatus (\<lambda>status.
     bindE (if status \<noteq> TaskStatusAwaitingParentCompletion then returnE True else Exists ''pending-decision'') (\<lambda>refused.
       if refused then throwE (Errorf ''unsealed completion reentry requires accepted completion without pending decision'' [])
       else bindE (attempt (LoadResumeCheckpoint rt)) (\<lambda>checkpoint.
         if checkpoint \<noteq> Inl NoResumeCheckpoint
         then throwE (case checkpoint of Inl e \<Rightarrow> Wrapf ''unsealed completion reentry requires no resume checkpoint'' e
           | Inr _ \<Rightarrow> Errorf ''unsealed completion reentry requires no resume checkpoint'' [])
         else bindE (attempt (LoadPublicationCandidate rt)) (\<lambda>candidate.
           if (case candidate of Inl e \<Rightarrow> \<not> is_not_exist e | Inr _ \<Rightarrow> True)
           then throwE (case candidate of Inl e \<Rightarrow> Wrapf ''unsealed completion reentry cannot replace a publication candidate'' e
             | Inr _ \<Rightarrow> Errorf ''unsealed completion reentry cannot replace a publication candidate'' [])
           else bindE LoadControllerRuntimeBinding (\<lambda>current.
             if \<not> same_binding current binding \<or> crb_AttemptID binding = [] \<or> crb_TaskPath binding = [] \<or> crb_TaskContractDigest binding = []
             then throwE (Errorf ''unsealed completion reentry runtime binding differs'' [])
             else returnE ())))))"

definition CaptureUnsealedParentCompletion :: "go_runtime \<Rightarrow> ControllerRuntimeBinding \<Rightarrow> unsealedParentCompletion sop" where
  "CaptureUnsealedParentCompletion rt binding = thenE (admitUnsealedCompletionCapture rt binding)
     (bindE loadParentReviewState (\<lambda>review.
       if (case prs_Completion review of None \<Rightarrow> True | Some c \<Rightarrow> pco_Terminal c \<noteq> SessionRotationTerminalAccept)
       then throwE (Errorf ''unsealed completion reentry requires an accepted parent outcome'' [])
       else returnE \<lparr>upc_Binding = binding, upc_Review = review\<rparr>))"

text \<open>
  The capture travels as JSON; it is in decoded form here. Dereferencing a missing completion would
  panic, which the model shows as an error.
\<close>

definition ReopenUnsealedParentCompletion :: "go_runtime \<Rightarrow> unsealedParentCompletion option \<Rightarrow> unit sop" where
  "ReopenUnsealedParentCompletion rt source = (case source of
       None \<Rightarrow> throwE (Errorf ''unsealed parent completion is unreadable'' [])
     | Some before \<Rightarrow> bindE (CaptureUnsealedParentCompletion rt (upc_Binding before)) (\<lambda>current.
         if current \<noteq> before then throwE (Errorf ''unsealed parent completion changed before reentry'' [])
         else case prs_Completion (upc_Review before) of
           None \<Rightarrow> throwE (Errorf ''nil pointer dereference'' [])
         | Some c \<Rightarrow> thenE (applyControllerReentryTransition (reentryReviewRiskFloor (pco_Risk c)))
             (recordReopenedParentOutcome (prs_TaskID (upc_Review before)) ''codex-review'' ''production-wiring''
               (reentryReviewRiskFloor (pco_Risk c)))))"

section \<open>The stop of a reentered review\<close>

definition machine_review :: "ParentReviewOpenState option \<Rightarrow> bool" where
  "machine_review open' = (case open' of None \<Rightarrow> False
     | Some o' \<Rightarrow> pro_Role o' = [] \<and> pro_ModelAlias o' = [] \<and> pro_PacketStatus o' = StatusNeedsSolReview)"

definition admitReenteredReviewStop :: "ResumeCheckpoint \<Rightarrow> unit sop" where
  "admitReenteredReviewStop c = bindE get_TaskStatus (\<lambda>status.
     if status \<noteq> TaskStatusWaitingSolReview \<or> rc_Stage c \<noteq> ResumeStageReview \<or> rc_Role c \<noteq> ReviewerRole \<or> \<not> rc_ReadOnly c \<or>
        rc_ResultCorrection c \<or> rc_StopKind c \<noteq> ResumeStopInterrupted
     then throwE (Errorf ''reentered review stop requires its normal read-only Reviewer contract'' [])
     else bindE CurrentParentReview (\<lambda>open'.
       if \<not> machine_review open' then throwE (Errorf ''reentered review stop cannot resolve an actual model review'' [])
       else returnE ()))"

definition EnterReenteredReviewStop :: "go_runtime \<Rightarrow> ResumeCheckpoint \<Rightarrow> unit sop" where
  "EnterReenteredReviewStop rt c = thenE (admitReenteredReviewStop c)
     (bindE (snapshotLifecycleFile parentReviewStateFile) (\<lambda>review.
       thenE (resolveParentReviewState rt ParentOutcomeFix ''user-amendment'' ''sol-gate'')
         (catchE (EnterStop rt c) (\<lambda>e. rollbackLifecycleFiles e [review]))))"

definition reenteredReviewerCheckpoint :: "ResumeCheckpoint \<Rightarrow> bool" where
  "reenteredReviewerCheckpoint c \<longleftrightarrow> rc_Stage c = ResumeStageReview \<and> rc_Role c = ReviewerRole \<and> rc_ReadOnly c \<and>
     \<not> rc_ResultCorrection c \<and> \<not> rc_ReportOnly c \<and> rc_StopKind c = ResumeStopInterrupted \<and> rc_WorkerResult c \<noteq> None"

definition ReenteredReviewerStopRetained :: "go_runtime \<Rightarrow> bool sop" where
  "ReenteredReviewerStopRetained rt = bindE get_TaskStatus (\<lambda>status.
     if status \<noteq> TaskStatusInterrupted then returnE False
     else bindE (LoadResumeCheckpoint rt) (\<lambda>c.
       if \<not> reenteredReviewerCheckpoint c then returnE False
       else bindE LoadWorkerEndSnapshot (\<lambda>workerEnd.
         returnE (case rc_StopGitSnapshot c of None \<Rightarrow> False | Some s \<Rightarrow> EqualGitSnapshot workerEnd s))))"

definition ReenteredReviewStopRepairable :: "go_runtime \<Rightarrow> bool sop" where
  "ReenteredReviewStopRepairable rt = bindE CurrentParentReview (\<lambda>open'.
     if \<not> machine_review open' then returnE False else ReenteredReviewerStopRetained rt)"

definition replaceReenteredReviewSnapshots :: "go_runtime \<Rightarrow> ResumeCheckpoint \<Rightarrow> GitSnapshot \<Rightarrow> unit sop" where
  "replaceReenteredReviewSnapshots rt target' snap' =
     bindE (snapshotLifecycleFile workerEndSnapshotFile) (\<lambda>workerEnd.
       bindE (snapshotLifecycleFile reviewStartSnapshotFile) (\<lambda>reviewStart.
         thenE (catchE (SaveWorkerEndSnapshot snap') (\<lambda>e. rollbackLifecycleFiles e [workerEnd, reviewStart]))
           (thenE (catchE (SaveReviewStartSnapshot snap') (\<lambda>e. rollbackLifecycleFiles e [workerEnd, reviewStart]))
             (catchE (EnterStop rt target') (\<lambda>e. rollbackLifecycleFiles e [workerEnd, reviewStart])))))"

definition replaceReenteredReviewStop :: "go_runtime \<Rightarrow> ResumeCheckpoint \<Rightarrow> GitSnapshot \<Rightarrow> unit sop" where
  "replaceReenteredReviewStop rt target' snap' =
     bindE (snapshotLifecycleFile parentReviewStateFile) (\<lambda>review.
       bindE (snapshotLifecycleFile workerEndSnapshotFile) (\<lambda>workerEnd.
         bindE (snapshotLifecycleFile reviewStartSnapshotFile) (\<lambda>reviewStart.
           thenE (resolveParentReviewState rt ParentOutcomeFix ''user-amendment'' ''sol-gate'')
             (catchE (replaceReenteredReviewSnapshots rt target' snap')
               (\<lambda>e. rollbackLifecycleFiles e [review, workerEnd, reviewStart])))))"

definition ReplaceReenteredReviewStop :: "go_runtime \<Rightarrow> ResumeCheckpoint \<Rightarrow> ResumeCheckpoint \<Rightarrow> unit sop" where
  "ReplaceReenteredReviewStop rt source target' = bindE (ReenteredReviewStopRepairable rt) (\<lambda>repairable.
     if \<not> repairable \<or> \<not> reenteredReviewerCheckpoint target'
     then throwE (Errorf ''reentered review repair requires its retained read-only checkpoint'' [])
     else bindE (LoadResumeCheckpoint rt) (\<lambda>saved.
       if saved \<noteq> source then throwE (Errorf ''reentered review repair checkpoint changed'' [])
       else case rc_StopGitSnapshot target' of
         None \<Rightarrow> throwE (Errorf ''review repair lacks its new snapshot'' [])
       | Some s \<Rightarrow> replaceReenteredReviewStop rt target' s))"

definition UpdateReenteredReviewStop :: "go_runtime \<Rightarrow> ResumeCheckpoint \<Rightarrow> ResumeCheckpoint \<Rightarrow> unit sop" where
  "UpdateReenteredReviewStop rt source target' = bindE CurrentParentReview (\<lambda>open'.
     bindE (ReenteredReviewerStopRetained rt) (\<lambda>retained.
       case (if open' \<noteq> None \<or> \<not> retained \<or> \<not> reenteredReviewerCheckpoint target' then None else rc_StopGitSnapshot target') of
         None \<Rightarrow> throwE (Errorf ''review update requires a retained queued read-only Reviewer'' [])
       | Some s \<Rightarrow> bindE (LoadResumeCheckpoint rt) (\<lambda>saved.
           if saved \<noteq> source then throwE (Errorf ''review update checkpoint changed'' [])
           else replaceReenteredReviewSnapshots rt target' s)))"

definition ReviseParentSourceReviewCheckpoint :: "go_runtime \<Rightarrow> ParentReviewOpenState \<Rightarrow> ResumeCheckpoint \<Rightarrow> unit sop" where
  "ReviseParentSourceReviewCheckpoint rt source target' = bindE get_TaskStatus (\<lambda>status.
     case (if status \<noteq> TaskStatusWaitingSolReview \<or> pro_Role source \<noteq> ''reviewer'' \<or> pro_PacketStatus source \<noteq> StatusNeedsSolReview \<or>
         \<not> reenteredReviewerCheckpoint target' then None else rc_StopGitSnapshot target') of
       None \<Rightarrow> throwE (Errorf ''source revision requires its actual independent Review and read-only continuation'' [])
     | Some s \<Rightarrow> bindE CurrentParentReview (\<lambda>open'.
         if open' \<noteq> Some source then throwE (Errorf ''parent source review producer changed'' [])
         else bindE (snapshotLifecycleFile parentReviewStateFile) (\<lambda>review.
           thenE (resolveParentReviewState rt ParentOutcomeFix ''codex-review'' ''test-scenario'')
             (catchE (replaceReenteredReviewSnapshots rt target' s) (\<lambda>e. rollbackLifecycleFiles e [review])))))"

section \<open>Reentry is atomic\<close>

datatype reentry_op =
    ReenterAccepted ControllerReentryAuthority
  | ReopenUnsealed "unsealedParentCompletion option"
  | EnterReentered ResumeCheckpoint
  | ReplaceReentered ResumeCheckpoint ResumeCheckpoint
  | UpdateReentered ResumeCheckpoint ResumeCheckpoint
  | ReviseSource ParentReviewOpenState ResumeCheckpoint

fun run_reentry :: "go_runtime \<Rightarrow> reentry_op \<Rightarrow> unit sop" where
  "run_reentry rt (ReenterAccepted a) = bindE (ReenterAcceptedCompletionFromController a) (\<lambda>_. returnE ())"
| "run_reentry rt (ReopenUnsealed s) = ReopenUnsealedParentCompletion rt s"
| "run_reentry rt (EnterReentered c) = EnterReenteredReviewStop rt c"
| "run_reentry rt (ReplaceReentered s t) = ReplaceReenteredReviewStop rt s t"
| "run_reentry rt (UpdateReentered s t) = UpdateReenteredReviewStop rt s t"
| "run_reentry rt (ReviseSource s t) = ReviseParentSourceReviewCheckpoint rt s t"

text \<open>
  \<open>waiting F st\<close>: the review is open again, not at low risk, and the task waits for it; \<open>stopped rt F st\<close>:
  the task is interrupted with a stored valid checkpoint, and only the files of the reentry differ.
\<close>

abbreviation reentry_files :: "string set" where
  "reentry_files \<equiv> {parentReviewStateFile, workerEndSnapshotFile, reviewStartSnapshotFile}"

definition waiting :: "filemap \<Rightarrow> store \<Rightarrow> bool" where
  "waiting F st \<longleftrightarrow> (\<exists>s risk. F parentReviewStateFile = Some (Doc (ReviewD s)) \<and> risk \<noteq> RiskLow \<and>
     state_is (with_status (F(parentReviewStateFile \<mapsto> Doc (ReviewD (reopened_review risk s)))) TaskStatusWaitingSolReview) st)"

definition stopped :: "go_runtime \<Rightarrow> filemap \<Rightarrow> store \<Rightarrow> bool" where
  "stopped rt F st \<longleftrightarrow> (\<exists>G c. (\<forall>n. n \<notin> reentry_files \<longrightarrow> G n = F n) \<and> checkpoint_IsStopped c \<and> saveable rt c \<and>
     rc_StopKind c = ResumeStopInterrupted \<and> state_is (with_status (stop_files G c) TaskStatusInterrupted) st)"

lemma reads_current_review [reads_intro]: "reads CurrentParentReview"
  unfolding CurrentParentReview_def with_task_review_def Read_def by (intro reads_intro)

lemma reads_reentry [reads_intro]:
  "reads (controllerReentryCompletionAuthority a)" "reads (LoadResumeCheckpoint rt)" "reads LoadWorkerEndSnapshot"
  "reads (ReenteredReviewerStopRetained rt)" "reads (ReenteredReviewStopRepairable rt)" "reads (admitReenteredReviewStop c)"
  "reads (CaptureUnsealedParentCompletion rt b)"
proof -
  have binding: "reads LoadControllerRuntimeBinding" by (rule binding.load_reads)
  have candidate: "reads (LoadPublicationCandidate rt)" by (rule candidate.load_reads)
  show load: "reads (LoadResumeCheckpoint rt)"
    unfolding LoadResumeCheckpoint_def by (intro reads_intro) (auto intro!: reads_intro split: content.split doc.split)
  show worker: "reads LoadWorkerEndSnapshot"
    unfolding LoadWorkerEndSnapshot_def by (intro reads_intro) (auto intro!: reads_intro split: content.split doc.split)
  show "reads (controllerReentryCompletionAuthority a)"
    unfolding controllerReentryCompletionAuthority_def by (intro reads_intro binding)
  show retained: "reads (ReenteredReviewerStopRetained rt)"
    unfolding ReenteredReviewerStopRetained_def by (intro reads_intro load worker)
  show "reads (ReenteredReviewStopRepairable rt)" unfolding ReenteredReviewStopRepairable_def by (intro reads_intro retained)
  show "reads (admitReenteredReviewStop c)" unfolding admitReenteredReviewStop_def by (intro reads_intro)
  show "reads (CaptureUnsealedParentCompletion rt b)"
    unfolding CaptureUnsealedParentCompletion_def admitUnsealedCompletionCapture_def by (intro reads_intro binding candidate load)
qed

lemma read_step: "reads m \<Longrightarrow> (\<And>v. triple (state_is F) (k v) Q (unchanged F)) \<Longrightarrow> triple (state_is F) (bindE m k) Q (unchanged F)"
  by (rule triple_bind [OF clean_unchanged [OF reads_frame]])

lemma read_then: "reads m \<Longrightarrow> triple (state_is F) k Q (unchanged F) \<Longrightarrow> triple (state_is F) (thenE m k) Q (unchanged F)"
  unfolding thenE_def by (rule read_step)

lemma risk_floor: "reentryReviewRiskFloor r \<noteq> RiskLow"
  by (simp add: reentryReviewRiskFloor_def RiskLow_def RiskHigh_def)

lemma transition_triple:
  assumes "risk \<noteq> RiskLow"
  shows "triple (state_is F) (applyControllerReentryTransition risk) (\<lambda>_. waiting F) (unchanged F)"
  unfolding applyControllerReentryTransition_def
proof (intro snapshot_step)
  fix review status assume snaps: "snap F parentReviewStateFile review" "snap F ''task.status'' status"
  then have snaps': "list_all2 (snap F) [parentReviewStateFile, ''task.status''] [review, status]" by simp
  show "triple (state_is F) (thenE (catchE (openParentReviewState StatusNeedsSolReview risk \<lparr>prp_Role = [], prp_Model = []\<rparr>)
           (\<lambda>e. rollbackLifecycleFiles e [review, status]))
         (catchE (SetTaskStatus TaskStatusWaitingSolReview) (\<lambda>e. rollbackLifecycleFiles e [review, status]))) (\<lambda>_. waiting F) (unchanged F)"
  proof (rule triple_then [OF guarded_step [OF open_triple snaps']], simp, intro triple_exists_pre triple_assume)
    fix s assume s: "F parentReviewStateFile = Some (Doc (ReviewD s))"
    let ?G = "F(parentReviewStateFile \<mapsto> Doc (ReviewD (reopened_review risk s)))"
    show "triple (state_is ?G) (catchE (SetTaskStatus TaskStatusWaitingSolReview) (\<lambda>e. rollbackLifecycleFiles e [review, status]))
        (\<lambda>_. waiting F) (unchanged F)"
      by (rule guarded_step [OF triple_weaken [OF SetTaskStatus_clean] snaps']) (use s assms in \<open>auto simp: waiting_def\<close>)
  qed
qed

lemma recorded_kept: "triple (waiting F) (recordReopenedParentOutcome t origin cause risk) (\<lambda>_. waiting F) (unchanged F)"
  unfolding recordReopenedParentOutcome_def Let_def waiting_def
  by (intro triple_exists_pre triple_assume triple_then [OF UpdateTaskStats_clean] triple_weaken [OF appendParentOutcomeEvent_clean])
    auto

lemma reentry_names [simp]: "workerEndSnapshotFile \<noteq> reviewStartSnapshotFile" "parentReviewStateFile \<noteq> workerEndSnapshotFile"
    "parentReviewStateFile \<noteq> reviewStartSnapshotFile"
  by (simp_all add: workerEndSnapshotFile_def reviewStartSnapshotFile_def parentReviewStateFile_def)

lemma stop_step:
  assumes "rc_StopKind c = ResumeStopInterrupted" "\<And>n. n \<notin> reentry_files \<Longrightarrow> G n = F n"
  shows "triple (state_is G) (EnterStop rt c) (\<lambda>_. stopped rt F) (unchanged G)"
proof (rule triple_weaken [OF EnterStop_triple])
  have status: "stop_TaskStatus (rc_StopKind c) = TaskStatusInterrupted"
    using assms(1) by (simp add: stop_TaskStatus_def stop_kind_defs)
  fix v :: unit and st
  assume "(checkpoint_IsStopped c \<and> saveable rt c) \<and> state_is (with_status (stop_files G c) (stop_TaskStatus (rc_StopKind c))) st"
  with assms status show "stopped rt F st" unfolding stopped_def by (intro exI [of _ G] exI [of _ c]) auto
qed auto

lemma snapshots_triple:
  assumes "rc_StopKind c = ResumeStopInterrupted" "\<And>n. n \<notin> reentry_files \<Longrightarrow> G n = F n"
  shows "triple (state_is G) (replaceReenteredReviewSnapshots rt c s) (\<lambda>_. stopped rt F) (unchanged G)"
  unfolding replaceReenteredReviewSnapshots_def
proof (intro snapshot_step)
  fix w r assume "snap G workerEndSnapshotFile w" "snap G reviewStartSnapshotFile r"
  then have snaps: "list_all2 (snap G) [workerEndSnapshotFile, reviewStartSnapshotFile] [w, r]" by simp
  let ?G1 = "G(workerEndSnapshotFile \<mapsto> Doc (SnapshotD s))"
  let ?G2 = "?G1(reviewStartSnapshotFile \<mapsto> Doc (SnapshotD s))"
  have save1: "triple (state_is G) (SaveWorkerEndSnapshot s) (\<lambda>_. state_is ?G1) (\<lambda>_. state_is G)"
    and save2: "triple (state_is ?G1) (SaveReviewStartSnapshot s) (\<lambda>_. state_is ?G2) (\<lambda>_. state_is ?G1)"
    unfolding SaveWorkerEndSnapshot_def SaveReviewStartSnapshot_def writeSnapshot_def by (rule triple_wrap, rule writeFileAtomic_clean)+
  have stop: "triple (state_is ?G2) (EnterStop rt c) (\<lambda>_. stopped rt F) (unchanged ?G2)"
    by (rule stop_step) (use assms in auto)
  show "triple (state_is G) (thenE (catchE (SaveWorkerEndSnapshot s) (\<lambda>e. rollbackLifecycleFiles e [w, r]))
           (thenE (catchE (SaveReviewStartSnapshot s) (\<lambda>e. rollbackLifecycleFiles e [w, r]))
             (catchE (EnterStop rt c) (\<lambda>e. rollbackLifecycleFiles e [w, r])))) (\<lambda>_. stopped rt F) (unchanged G)"
    by (rule triple_then [OF guarded_step [OF save1 snaps]], simp, rule triple_then [OF guarded_step [OF save2 snaps]], simp,
        rule nested_step [OF stop snaps]) simp
qed

lemma resolve_only:
  "triple (state_is F) (resolveParentReviewState rt kind origin cause)
     (\<lambda>_ st. \<exists>G. (\<forall>n. n \<noteq> parentReviewStateFile \<longrightarrow> G n = F n) \<and> state_is G st) (unchanged F)"
  unfolding resolveParentReviewState_def
proof (rule clean_unchanged, rule triple_weaken [OF resolveParentReviewStateWithCompletion_clean])
  fix v :: "ParentReviewOpenState option" and st assume "review_written F v st"
  then show "\<exists>G. (\<forall>n. n \<noteq> parentReviewStateFile \<longrightarrow> G n = F n) \<and> state_is G st"
    unfolding review_written_def by (cases v) (auto intro: exI [of _ F], (rule exI, rule conjI [rotated], assumption, simp)+)
qed auto

text \<open>After the review is resolved, a step that fails is undone together with the resolution.\<close>

lemma resolved_step:
  assumes snaps: "list_all2 (snap F) (parentReviewStateFile # ns) snaps" "set ns \<subseteq> reentry_files"
    and m: "\<And>G. (\<And>n. n \<noteq> parentReviewStateFile \<Longrightarrow> G n = F n) \<Longrightarrow> triple (state_is G) m (\<lambda>_. stopped rt F) (unchanged G)"
  shows "triple (state_is F) (thenE (resolveParentReviewState rt kind origin cause) (catchE m (\<lambda>e. rollbackLifecycleFiles e snaps)))
     (\<lambda>_. stopped rt F) (unchanged F)"
proof (rule triple_then [OF resolve_only], intro triple_exists_pre triple_assume)
  fix G assume G: "\<forall>n. n \<noteq> parentReviewStateFile \<longrightarrow> G n = F n"
  show "triple (state_is G) (catchE m (\<lambda>e. rollbackLifecycleFiles e snaps)) (\<lambda>_. stopped rt F) (unchanged F)"
    by (rule nested_step [OF m snaps(1)]) (use G in auto)
qed

lemma interrupted_kind: "reenteredReviewerCheckpoint c \<Longrightarrow> rc_StopKind c = ResumeStopInterrupted"
  by (simp add: reenteredReviewerCheckpoint_def)

lemma replace_triple:
  assumes "rc_StopKind c = ResumeStopInterrupted"
  shows "triple (state_is F) (replaceReenteredReviewStop rt c s) (\<lambda>_. stopped rt F) (unchanged F)"
  unfolding replaceReenteredReviewStop_def
  by (intro snapshot_step resolved_step [where ns = "[workerEndSnapshotFile, reviewStartSnapshotFile]"] snapshots_triple) (use assms in auto)

lemma run_reentry_triple:
  "triple (state_is F) (run_reentry rt op) (\<lambda>_ st. state_is F st \<or> waiting F st \<or> stopped rt F st) (unchanged F)"
proof (cases op)
  case (ReenterAccepted a)
  have "triple (state_is F) (ReenterAcceptedCompletionFromController a) (\<lambda>b st. if b then waiting F st else state_is F st) (unchanged F)"
    unfolding ReenterAcceptedCompletionFromController_def
    by (intro status_step triple_if triple_return read_step reads_reentry reads_identity triple_then [OF transition_triple [OF risk_floor]]
        triple_then [OF recorded_kept]) simp_all
  then show ?thesis unfolding ReenterAccepted run_reentry.simps by (rule triple_bind) (auto intro!: triple_return split: if_splits)
next
  case (ReopenUnsealed source)
  show ?thesis
    unfolding ReopenUnsealed run_reentry.simps ReopenUnsealedParentCompletion_def
    by (intro triple_option throw_unchanged read_step reads_reentry triple_if triple_then [OF transition_triple [OF risk_floor]]
        triple_weaken [OF recorded_kept]) auto
next
  case (EnterReentered c)
  have kind: "triple (state_is F) (admitReenteredReviewStop c) (\<lambda>_ st. rc_StopKind c = ResumeStopInterrupted \<and> state_is F st) (unchanged F)"
    unfolding admitReenteredReviewStop_def
    by (intro status_step triple_if throw_unchanged read_step reads_current_review triple_return) auto
  have "triple (state_is F) (EnterReenteredReviewStop rt c) (\<lambda>_. stopped rt F) (unchanged F)"
    unfolding EnterReenteredReviewStop_def
    by (rule triple_then [OF kind], rule triple_assume, rule snapshot_step, rule resolved_step [where ns = "[]"]) (auto intro: stop_step)
  then show ?thesis unfolding EnterReentered run_reentry.simps by (rule triple_weaken) auto
next
  case (ReplaceReentered source c)
  have "triple (state_is F) (ReplaceReenteredReviewStop rt source c) (\<lambda>_. stopped rt F) (unchanged F)"
    unfolding ReplaceReenteredReviewStop_def
    by (intro read_step reads_reentry triple_if throw_unchanged triple_option replace_triple) (auto intro: interrupted_kind)
  then show ?thesis unfolding ReplaceReentered run_reentry.simps by (rule triple_weaken) auto
next
  case (UpdateReentered source c)
  have "triple (state_is F) (UpdateReenteredReviewStop rt source c) (\<lambda>_. stopped rt F) (unchanged F)"
    unfolding UpdateReenteredReviewStop_def
    by (intro read_step reads_reentry reads_current_review triple_if throw_unchanged triple_option snapshots_triple)
      (auto intro: interrupted_kind split: if_splits)
  then show ?thesis unfolding UpdateReentered run_reentry.simps by (rule triple_weaken) auto
next
  case (ReviseSource source c)
  have "triple (state_is F) (ReviseParentSourceReviewCheckpoint rt source c) (\<lambda>_. stopped rt F) (unchanged F)"
    unfolding ReviseParentSourceReviewCheckpoint_def
    by (intro status_step triple_option throw_unchanged read_step reads_current_review triple_if snapshot_step resolved_step [where ns = "[]"] snapshots_triple)
      (auto intro: interrupted_kind split: if_splits)
  then show ?thesis unfolding ReviseSource run_reentry.simps by (rule triple_weaken) auto
qed

text \<open>
  C28. Reentry is atomic and keeps the state consistent: for every pattern of faults, each of the six
  operations that reenter an accepted task or enter, repair, update or revise the stop of a
  reentered review either succeeds, and then only the review state, the two snapshots, the checkpoint
  and the status have changed, the task is as before, waits for a review that is not at low risk, or
  is interrupted with a valid stored checkpoint, and a consistent directory is consistent again; or
  it fails and nothing has changed, unless the error reports a failed rollback.
\<close>

theorem reentry_atomic:
  assumes "run_reentry rt op st = (res, st')"
  shows "case res of
      Inl e \<Rightarrow> rollback_failed e \<or> (\<forall>n. n \<noteq> currentStatsFile \<longrightarrow> files st' n = files st n)
    | Inr _ \<Rightarrow> (\<forall>n. n \<notin> {currentStatsFile, ''task.status'', resumeStateFile} \<union> reentry_files \<longrightarrow> files st' n = files st n) \<and>
        status_of (files st') \<in> {status_of (files st), TaskStatusWaitingSolReview, TaskStatusInterrupted} \<and>
        (consistent rt (files st) \<longrightarrow> consistent rt (files st'))"
proof -
  have same: "consistent rt (files st'') = consistent rt G" if "state_is G st''" for G st''
    using that by (simp add: consistent_def state_is_def status_of_def resumeStateFile_def currentStatsFile_def)
  have known: "TaskStatus_Known TaskStatusWaitingSolReview" "TaskStatus_Known TaskStatusInterrupted" by (simp_all add: TaskStatus_Known_def)
  show ?thesis
  proof (cases res)
    case (Inl e)
    from triple_InlD [OF run_reentry_triple state_is_self assms [unfolded Inl]] show ?thesis
      by (auto simp: Inl unchanged_def state_is_def)
  next
    case (Inr v)
    from triple_InrD [OF run_reentry_triple state_is_self assms [unfolded Inr]]
    consider "state_is (files st) st'" | "waiting (files st) st'" | "stopped rt (files st) st'" by blast
    then show ?thesis
    proof cases
      case 1
      then show ?thesis by (simp add: Inr same status_of_state_is [OF 1]) (simp add: state_is_def)
    next
      case 2
      then obtain v where v: "state_is (with_status ((files st)(parentReviewStateFile \<mapsto> v)) TaskStatusWaitingSolReview) st'"
        unfolding waiting_def by blast
      have "consistent rt (files st')" unfolding same [OF v] by (rule consistent_resting) simp
      then show ?thesis
        using v by (simp add: Inr status_of_state_is [OF v] status_of_known [OF known(1)] state_is_def)
    next
      case 3
      then obtain G c where G: "\<forall>n. n \<notin> reentry_files \<longrightarrow> G n = files st n" "checkpoint_IsStopped c" "saveable rt c"
          "rc_StopKind c = ResumeStopInterrupted" "state_is (with_status (stop_files G c) TaskStatusInterrupted) st'"
        unfolding stopped_def by blast
      have stop: "stop_TaskStatus (rc_StopKind c) = TaskStatusInterrupted" "\<not> stopKindClearsPendingDecision (rc_StopKind c)"
        using G(4) by (simp_all add: stop_TaskStatus_def stopKindClearsPendingDecision_def stop_kind_defs)
      have "consistent rt (files st')" unfolding same [OF G(5)] stop(1) [symmetric] by (rule consistent_stopped [OF G(2,3)])
      then show ?thesis
        using G(1,5) stop(2) by (simp add: Inr status_of_state_is [OF G(5)] status_of_known [OF known(2)] state_is_def stop_files_def)
    qed
  qed
qed

text \<open>A store whose task waits for a reentered review, and the checkpoint of its reviewer.\<close>

definition reentered_store :: store where
  "reentered_store = (proven_store (\<lambda>_. False))\<lparr>files := [''task.id'' \<mapsto> Text ''t1'', ''task.status'' \<mapsto> Text ''waiting-sol-review'',
     ''parent-review-state.json'' \<mapsto> Doc (ReviewD (reopened_review RiskHigh proven_review))]\<rparr>"

definition reviewer_checkpoint :: ResumeCheckpoint where
  "reviewer_checkpoint = (ClearStop sample_checkpoint)\<lparr>rc_Stage := ResumeStageReview, rc_Role := ReviewerRole, rc_ReadOnly := True,
     rc_StopKind := ResumeStopInterrupted\<rparr>"

theorem reentry_atomic_witness:
  "\<exists>st'. run_reentry sample_runtime (EnterReentered reviewer_checkpoint) reentered_store = (Inr (), st') \<and>
     files st' ''task.id'' = files reentered_store ''task.id'' \<and>
     status_of (files st') \<in> {TaskStatusWaitingSolReview, TaskStatusInterrupted}"
proof -
  have "\<not> isl (fst (run_reentry sample_runtime (EnterReentered reviewer_checkpoint) reentered_store))"
    and old: "status_of (files reentered_store) = TaskStatusWaitingSolReview" by code_simp+
  from run_returns [OF this(1)] obtain st' where
    run: "run_reentry sample_runtime (EnterReentered reviewer_checkpoint) reentered_store = (Inr (), st')" by auto
  have "''task.id'' \<notin> {currentStatsFile, ''task.status'', resumeStateFile} \<union> reentry_files"
    by (simp add: currentStatsFile_def resumeStateFile_def parentReviewStateFile_def workerEndSnapshotFile_def reviewStartSnapshotFile_def)
  with reentry_atomic [OF run] run old show ?thesis by (auto simp del: run_reentry.simps)
qed

end
