(* ===== verification/Parent_Plan.thy ===== *)
theory Parent_Plan
  imports Parent_Reentry
begin

text \<open>
  What the parent may do next: \<^verbatim>\<open>state/parent_action.go\<close>, with the plans for a terminated task in
  \<^verbatim>\<open>state/controller_task_termination.go\<close> and \<^verbatim>\<open>state/runtime_disposition.go\<close>. The plan is computed
  from the stored status, the pending decision, the open review and the checkpoint; a combination
  that no transition produces is an error.
\<close>

section \<open>Actions and plans\<close>

type_synonym ParentAction = string

definition ParentActionNone :: ParentAction where "ParentActionNone = ''none''"
definition ParentActionDecision :: ParentAction where "ParentActionDecision = ''decision''"
definition ParentActionNoGo :: ParentAction where "ParentActionNoGo = ''no-go''"
definition ParentActionBindDefectTask :: ParentAction where "ParentActionBindDefectTask = ''bind-defect-task''"
definition ParentActionReview :: ParentAction where "ParentActionReview = ''parent-review''"
definition ParentActionApproveSurface :: ParentAction where "ParentActionApproveSurface = ''approve-surface''"
definition ParentActionAccept :: ParentAction where "ParentActionAccept = ''accept''"
definition ParentActionReopen :: ParentAction where "ParentActionReopen = ''reopen''"
definition ParentActionComplete :: ParentAction where "ParentActionComplete = ''complete''"
definition ParentActionInstall :: ParentAction where "ParentActionInstall = ''install''"
definition ParentActionFix :: ParentAction where "ParentActionFix = ''fix''"
definition ParentActionResume :: ParentAction where "ParentActionResume = ''resume''"
definition ParentActionPark :: ParentAction where "ParentActionPark = ''park''"
definition ParentActionObservationExecute :: ParentAction where "ParentActionObservationExecute = ''observation-execute''"
definition ParentActionRepairGuardThenResume :: ParentAction where "ParentActionRepairGuardThenResume = ''repair-guard-then-resume''"
definition ParentActionRepairQualityGateThenResume :: ParentAction where
  "ParentActionRepairQualityGateThenResume = ''repair-quality-gate-then-resume''"
definition ParentActionResubmitReport :: ParentAction where "ParentActionResubmitReport = ''resubmit-report''"
definition ParentActionRepairReentryReview :: ParentAction where "ParentActionRepairReentryReview = ''repair-reentry-review''"

lemmas parent_action_defs = ParentActionNone_def ParentActionDecision_def ParentActionNoGo_def ParentActionBindDefectTask_def
  ParentActionReview_def ParentActionApproveSurface_def ParentActionAccept_def ParentActionReopen_def ParentActionComplete_def
  ParentActionInstall_def ParentActionFix_def ParentActionResume_def ParentActionPark_def ParentActionObservationExecute_def
  ParentActionRepairGuardThenResume_def ParentActionRepairQualityGateThenResume_def ParentActionResubmitReport_def
  ParentActionRepairReentryReview_def

record ParentActionPlan =
  pap_RequiredAction :: ParentAction
  pap_AllowedActions :: "ParentAction list"
  pap_ResumeKind :: string
  pap_RequiredActionParameters :: "(string \<times> string) list"

definition approveSurfaceParameters :: "(string \<times> string) list" where
  "approveSurfaceParameters = [(''accepted-scope'', ''current-diff'')]"

definition actionPlan :: "ParentAction \<Rightarrow> string \<Rightarrow> ParentAction list \<Rightarrow> ParentActionPlan" where
  "actionPlan required resumeKind allowed = \<lparr>pap_RequiredAction = required, pap_AllowedActions = allowed,
     pap_ResumeKind = resumeKind, pap_RequiredActionParameters = []\<rparr>"

definition Allows :: "ParentActionPlan \<Rightarrow> ParentAction \<Rightarrow> bool" where
  "Allows p action \<longleftrightarrow> action \<in> set (pap_AllowedActions p)"

definition AdmitsCommand :: "ParentActionPlan \<Rightarrow> ParentAction \<Rightarrow> bool" where
  "AdmitsCommand p action \<longleftrightarrow> Allows p action \<or> action = ParentActionAccept \<and>
     pap_RequiredAction p \<notin> {ParentActionDecision, ParentActionBindDefectTask, ParentActionReview, ParentActionApproveSurface,
       ParentActionAccept, ParentActionComplete}"

definition withoutParentAction :: "ParentAction list \<Rightarrow> ParentAction \<Rightarrow> ParentAction list" where
  "withoutParentAction actions unwanted = filter (\<lambda>a. a \<noteq> unwanted) actions"

definition stop_ParentAction :: "ResumeStopKind \<Rightarrow> ParentAction" where
  "stop_ParentAction kind =
     (if kind = ResumeStopRateLimited \<or> kind = ResumeStopProviderUnavailable \<or> kind = ResumeStopInterrupted then ParentActionResume
      else if kind = ResumeStopGuardRecoverable then ParentActionRepairGuardThenResume
      else if kind = ResumeStopQualityGate then ParentActionRepairQualityGateThenResume
      else if kind = ResumeStopResultFormat then ParentActionResubmitReport
      else ParentActionNone)"

section \<open>Plans per status\<close>

definition lifecycleInconsistency :: "TaskStatus \<Rightarrow> string \<Rightarrow> state_error" where
  "lifecycleInconsistency status detail = LifecycleInconsistency status detail None"

text \<open>An error whose text goes into the detail of an inconsistency.\<close>

definition inconsistent :: "TaskStatus \<Rightarrow> string \<Rightarrow> 'a sop \<Rightarrow> 'a sop" where
  "inconsistent status detail m = catchE m (\<lambda>e. throwE (LifecycleInconsistency status detail (Some e)))"

definition unexpectedOpenReview :: "string \<Rightarrow> string \<Rightarrow> bool" where
  "unexpectedOpenReview openReview expected \<longleftrightarrow> openReview \<noteq> roundCommentNone \<and> openReview \<noteq> expected"

definition waitingDecisionActionPlan :: "TaskStatus \<Rightarrow> bool \<Rightarrow> string \<Rightarrow> ResumeStopKind \<Rightarrow> (state_error, ParentActionPlan) result" where
  "waitingDecisionActionPlan status pending openReview stopKind =
     (if \<not> pending \<or> stopKind \<noteq> ResumeStopNone \<or> unexpectedOpenReview openReview StatusNeedsSolDecision
      then Inl (lifecycleInconsistency status ''waiting decision state does not match pending decision, parent review, and resume state'')
      else Inr (actionPlan ParentActionDecision [] [ParentActionDecision, ParentActionPark]))"

definition waitingReviewActionPlan ::
    "TaskStatus \<Rightarrow> bool \<Rightarrow> string \<Rightarrow> ResumeStopKind \<Rightarrow> bool \<Rightarrow> (state_error, ParentActionPlan) result" where
  "waitingReviewActionPlan status pending openReview stopKind qualitySurfaceApproval =
     (if pending \<or> stopKind \<noteq> ResumeStopNone \<or> unexpectedOpenReview openReview StatusNeedsSolReview
      then Inl (lifecycleInconsistency status ''waiting review state does not match parent review and resume state'')
      else if qualitySurfaceApproval
      then Inr \<lparr>pap_RequiredAction = ParentActionApproveSurface,
        pap_AllowedActions = [ParentActionApproveSurface, ParentActionFix, ParentActionPark], pap_ResumeKind = [],
        pap_RequiredActionParameters = approveSurfaceParameters\<rparr>
      else Inr (actionPlan ParentActionReview [] [ParentActionAccept, ParentActionFix, ParentActionPark]))"

definition waitingReviewActionPlanWithEvidenceReadiness ::
    "go_runtime \<Rightarrow> TaskStatus \<Rightarrow> bool \<Rightarrow> string \<Rightarrow> ResumeStopKind \<Rightarrow> bool \<Rightarrow> ParentActionPlan sop" where
  "waitingReviewActionPlanWithEvidenceReadiness rt status pending openReview stopKind qualitySurfaceApproval =
     bindE (of_result (waitingReviewActionPlan status pending openReview stopKind qualitySurfaceApproval)) (\<lambda>plan.
       if pap_RequiredAction plan \<noteq> ParentActionReview then returnE plan
       else let without = plan\<lparr>pap_AllowedActions := withoutParentAction (pap_AllowedActions plan) ParentActionAccept\<rparr> in
         bindE (inconsistent status ''parent review evidence state is unreadable'' CurrentParentReviewBinding) (\<lambda>binding.
           if binding = None then returnE without
           else bindE (inconsistent status ''parent review accept readiness is unreadable'' (ParentReviewAcceptReady rt)) (\<lambda>ready.
             returnE (if \<not> ready then without else plan))))"

definition awaitingParentCompletionActionPlan ::
    "go_runtime \<Rightarrow> TaskStatus \<Rightarrow> bool \<Rightarrow> string \<Rightarrow> ResumeStopKind \<Rightarrow> ParentActionPlan sop" where
  "awaitingParentCompletionActionPlan rt status pending openReview stopKind =
     (if pending \<or> stopKind \<noteq> ResumeStopNone \<or> openReview \<noteq> roundCommentNone
      then throwE (lifecycleInconsistency status ''awaiting parent completion task has unresolved parent or resume state'')
      else bindE (inconsistent status ''publication invalidating finding state is invalid'' (CurrentPublicationInvalidatingFinding rt))
        (\<lambda>finding. returnE (if finding \<noteq> None then actionPlan ParentActionReopen [] [ParentActionReopen]
           else actionPlan ParentActionComplete [] [ParentActionComplete, ParentActionInstall])))"

definition stoppedActionPlan ::
    "TaskStatus \<Rightarrow> bool \<Rightarrow> bool \<Rightarrow> string \<Rightarrow> ResumeStopKind \<Rightarrow> ParentAction \<Rightarrow> (state_error, ParentActionPlan) result" where
  "stoppedActionPlan status pending pendingDecisionResume openReview stopKind required =
     (if pending \<and> \<not> pendingDecisionResume \<or> openReview \<noteq> roundCommentNone
      then Inl (lifecycleInconsistency status ''stopped task status does not match pending decision, parent review, and resume checkpoint'')
      else if required = ParentActionResubmitReport then Inr (actionPlan required stopKind [ParentActionResubmitReport])
      else Inr (actionPlan required stopKind [ParentActionResume]))"

definition stoppedParentActionPlan ::
    "TaskStatus \<Rightarrow> bool \<Rightarrow> bool \<Rightarrow> string \<Rightarrow> ResumeStopKind \<Rightarrow> (state_error, ParentActionPlan) result" where
  "stoppedParentActionPlan status pending pendingDecisionResume openReview stopKind =
     (if status \<notin> {TaskStatusRateLimited, TaskStatusProviderUnavailable, TaskStatusInterrupted, TaskStatusGuardRecoverable,
         TaskStatusQualityGateRecoverable, TaskStatusResultFormatRecoverable}
      then Inl (lifecycleInconsistency status ''unknown task status'')
      else if \<not> stop_IsStopped stopKind \<or> stop_TaskStatus stopKind \<noteq> status
      then Inl (lifecycleInconsistency status ''stopped task status does not match pending decision, parent review, and resume checkpoint'')
      else stoppedActionPlan status pending pendingDecisionResume openReview stopKind (stop_ParentAction stopKind))"

definition inactiveParentActionPlan :: "TaskStatus \<Rightarrow> bool \<Rightarrow> string \<Rightarrow> ResumeStopKind \<Rightarrow> (state_error, ParentActionPlan) result" where
  "inactiveParentActionPlan status pending openReview stopKind =
     (if pending \<or> openReview \<noteq> roundCommentNone \<or> stopKind \<noteq> ResumeStopNone
      then Inl (lifecycleInconsistency status ''non-waiting task has unresolved parent or resume state'')
      else Inr (actionPlan ParentActionNone [] []))"

definition completeActionPlan :: "TaskStatus \<Rightarrow> bool \<Rightarrow> string \<Rightarrow> ResumeStopKind \<Rightarrow> (state_error, ParentActionPlan) result" where
  "completeActionPlan status pending openReview stopKind =
     (if pending \<or> stopKind \<noteq> ResumeStopNone
      then Inl (lifecycleInconsistency status ''complete task has pending decision or resumable stop state'')
      else if openReview = roundCommentNone then Inr (actionPlan ParentActionNone [] [])
      else if openReview = StatusPass then Inr (actionPlan ParentActionAccept [] [ParentActionAccept])
      else Inl (lifecycleInconsistency status ''complete task has a non-PASS parent review''))"

definition parentActionPlanForStatus ::
    "go_runtime \<Rightarrow> TaskStatus \<Rightarrow> bool \<Rightarrow> bool \<Rightarrow> string \<Rightarrow> ResumeStopKind \<Rightarrow> bool \<Rightarrow> ParentActionPlan sop" where
  "parentActionPlanForStatus rt status pending pendingDecisionResume openReview stopKind qualitySurfaceApproval =
     (if status = TaskStatusWaitingDecision then of_result (waitingDecisionActionPlan status pending openReview stopKind)
      else if status = TaskStatusWaitingSolReview
      then waitingReviewActionPlanWithEvidenceReadiness rt status pending openReview stopKind qualitySurfaceApproval
      else if status = TaskStatusAwaitingParentCompletion
      then awaitingParentCompletionActionPlan rt status pending openReview stopKind
      else if status = TaskStatusComplete then of_result (completeActionPlan status pending openReview stopKind)
      else if status = TaskStatusActive \<or> status = TaskStatusNone
      then of_result (inactiveParentActionPlan status pending openReview stopKind)
      else bindE (ReenteredReviewStopRepairable rt) (\<lambda>repairable.
        if repairable then returnE (actionPlan ParentActionRepairReentryReview [] [ParentActionRepairReentryReview])
        else of_result (stoppedParentActionPlan status pending pendingDecisionResume openReview stopKind)))"

definition pendingDecisionContinuesCheckpoint :: "bool \<Rightarrow> ResumeCheckpoint \<Rightarrow> string \<Rightarrow> bool" where
  "pendingDecisionContinuesCheckpoint pending c lastDecision \<longleftrightarrow> pending \<and>
     rc_StopKind c \<in> {ResumeStopRateLimited, ResumeStopProviderUnavailable, ResumeStopInterrupted} \<and>
     rc_Stage c = ResumeStageWorker \<and> WorkerPhaseCategory (rc_Phase c) = WorkerPhaseCategoryDecision \<and>
     trim_space (rc_Decision c) \<noteq> [] \<and> rc_Decision c = lastDecision"

section \<open>The plan of the store\<close>

definition runtimeDispositionActionPlan :: "ParentActionPlan sop" where
  "runtimeDispositionActionPlan = bindE (ReadFile RuntimeDispositionFile) (\<lambda>c. case c of
       Doc (DispositionD r) \<Rightarrow>
         bindE (if \<not> validRuntimeDisposition r then returnE False
           else bindE (ReadOr ''task.id'' []) (\<lambda>taskID. if taskID \<noteq> rd_TaskID r then returnE False
             else bindE get_TaskStatus (\<lambda>status. returnE (status = TaskStatusUserTerminated)))) (\<lambda>ok.
           if \<not> ok then throwE (Errorf ''runtime disposition terminal authority differs'' [])
           else returnE (actionPlan ParentActionNone [] []))
     | _ \<Rightarrow> throwE (Errorf ''runtime disposition is unreadable'' []))"

definition userTerminatedActionPlan :: "ParentActionPlan sop" where
  "userTerminatedActionPlan = bindE (Exists RuntimeDispositionFile) (\<lambda>disposed.
     if disposed then runtimeDispositionActionPlan
     else bindE (ReadFile controllerTaskTerminationFile) (\<lambda>c. case c of
         Doc (TerminationD r) \<Rightarrow>
           if \<not> validControllerTaskTermination r then throwE (Errorf ''user terminated runtime authority is invalid'' [])
           else thenE (verifyControllerTaskTerminationSource r) (returnE (actionPlan ParentActionNone [] []))
       | _ \<Rightarrow> throwE (Errorf ''controller task termination is unreadable'' [])))"

definition get_ParentActionPlan :: "go_runtime \<Rightarrow> ParentActionPlan sop" where
  "get_ParentActionPlan rt = bindE get_TaskStatus (\<lambda>status.
     if status = TaskStatusUserTerminated then userTerminatedActionPlan
     else bindE (inconsistent status ''pending defect registration state is unreadable'' CurrentPendingDefectRegistrations) (\<lambda>registrations.
       case registrations of
         r # _ \<Rightarrow> returnE \<lparr>pap_RequiredAction = ParentActionBindDefectTask, pap_AllowedActions = [ParentActionBindDefectTask],
           pap_ResumeKind = [], pap_RequiredActionParameters = [(''task'', pdr_TaskPath r)]\<rparr>
       | [] \<Rightarrow> bindE (Exists ''pending-decision'') (\<lambda>pending.
           bindE (inconsistent status ''parent review state is unreadable'' CurrentParentReviewLabel) (\<lambda>openReview.
             bindE (attempt (LoadResumeCheckpoint rt)) (\<lambda>r. case r of
               Inl e \<Rightarrow> if e \<noteq> NoResumeCheckpoint
                 then throwE (LifecycleInconsistency status ''resume checkpoint is unreadable'' (Some e))
                 else parentActionPlanForStatus rt status pending False openReview ResumeStopNone False
             | Inr c \<Rightarrow> bindE (readExact ''last-decision'') (\<lambda>lastDecision.
                 parentActionPlanForStatus rt status pending (pendingDecisionContinuesCheckpoint pending c lastDecision) openReview
                   (rc_StopKind c) (rc_QualitySurfaceApprovalPending c \<and> \<not> checkpoint_IsStopped c)))))))"

definition rejectResumeBeforeRateLimitReset :: "go_runtime \<Rightarrow> unit sop" where
  "rejectResumeBeforeRateLimitReset rt = bindE (attempt (LoadResumeCheckpoint rt)) (\<lambda>r. case r of
       Inl e \<Rightarrow> if e = NoResumeCheckpoint then returnE () else throwE (Wrapf ''resume checkpoint evidence is unreadable'' e)
     | Inr c \<Rightarrow>
         if rc_StopKind c \<noteq> ResumeStopRateLimited then returnE ()
         else if rc_ResetAtRFC3339 c = [] then throwE (Errorf ''rate-limit reset evidence is missing'' [])
         else case rt_ParseRFC3339 rt (rc_ResetAtRFC3339 c) of
           None \<Rightarrow> throwE (Errorf ''rate-limit reset evidence is unreadable'' [rc_ResetAtRFC3339 c])
         | Some resetAt \<Rightarrow> bindE Now (\<lambda>t.
             if t < resetAt then throwE (Errorf ''rate-limited task cannot resume before the reset'' [rc_ResetAtRFC3339 c])
             else returnE ()))"

definition AdmitParentAction :: "go_runtime \<Rightarrow> ParentAction \<Rightarrow> (ParentActionPlan \<times> bool) sop" where
  "AdmitParentAction rt action = bindE (get_ParentActionPlan rt) (\<lambda>plan. bindE get_TaskStatus (\<lambda>status.
     let admitted = (AdmitsCommand plan action \<and> status \<noteq> TaskStatusUserTerminated) in
     thenE (if action = ParentActionResume \<and> admitted then rejectResumeBeforeRateLimitReset rt else returnE ())
       (returnE (plan, admitted))))"

definition AdmitNewTask :: "go_runtime \<Rightarrow> (ParentActionPlan \<times> bool) sop" where
  "AdmitNewTask rt = bindE (get_ParentActionPlan rt) (\<lambda>plan. returnE (plan, pap_RequiredAction plan = ParentActionNone))"

section \<open>Plans are well formed\<close>

definition parent_actions :: "ParentAction set" where
  "parent_actions = {ParentActionNone, ParentActionDecision, ParentActionNoGo, ParentActionBindDefectTask, ParentActionReview,
     ParentActionApproveSurface, ParentActionAccept, ParentActionReopen, ParentActionComplete, ParentActionInstall, ParentActionFix,
     ParentActionResume, ParentActionPark, ParentActionObservationExecute, ParentActionRepairGuardThenResume,
     ParentActionRepairQualityGateThenResume, ParentActionResubmitReport, ParentActionRepairReentryReview}"

definition well_formed :: "ParentActionPlan \<Rightarrow> bool" where
  "well_formed p \<longleftrightarrow> pap_RequiredAction p \<in> parent_actions \<and> set (pap_AllowedActions p) \<subseteq> parent_actions \<and>
     distinct (pap_AllowedActions p) \<and> (pap_AllowedActions p = [] \<longleftrightarrow> pap_RequiredAction p = ParentActionNone) \<and>
     (pap_ResumeKind p = [] \<longleftrightarrow> pap_RequiredAction p \<notin> {ParentActionResume, ParentActionRepairGuardThenResume,
        ParentActionRepairQualityGateThenResume, ParentActionResubmitReport}) \<and>
     (pap_ResumeKind p \<noteq> [] \<longrightarrow> stop_IsStopped (pap_ResumeKind p) \<and> pap_RequiredAction p = stop_ParentAction (pap_ResumeKind p)) \<and>
     (pap_RequiredActionParameters p = [] \<longleftrightarrow> pap_RequiredAction p \<notin> {ParentActionApproveSurface, ParentActionBindDefectTask}) \<and>
     (ParentActionAccept \<in> set (pap_AllowedActions p) \<longrightarrow> pap_RequiredAction p \<in> {ParentActionReview, ParentActionAccept})"

lemma triple_any: "triple P m (\<lambda>_ _. True) (\<lambda>_ _. True)"
  by (simp add: triple_def split: prod.splits sum.splits)

lemma any_step: "(\<And>v. triple (\<lambda>_. True) (k v) Q (\<lambda>_ _. True)) \<Longrightarrow> triple (\<lambda>_. True) (bindE m k) Q (\<lambda>_ _. True)"
  by (rule triple_bind [OF triple_any])

lemma then_step: "triple (\<lambda>_. True) k Q (\<lambda>_ _. True) \<Longrightarrow> triple (\<lambda>_. True) (thenE m k) Q (\<lambda>_ _. True)"
  unfolding thenE_def by (rule any_step)

lemma throw_any: "triple P (throwE e) Q (\<lambda>_ _. True)"
  by (rule triple_throw) simp

lemma result_step: "(\<And>v. r = Inr v \<Longrightarrow> P v) \<Longrightarrow> triple (\<lambda>_. True) (of_result r) (\<lambda>v _. P v) (\<lambda>_ _. True)"
  by (rule triple_of_result) auto

lemma bind_plan: "well_formed \<lparr>pap_RequiredAction = ParentActionBindDefectTask, pap_AllowedActions = [ParentActionBindDefectTask],
    pap_ResumeKind = [], pap_RequiredActionParameters = [x]\<rparr>"
  by code_simp

lemma approve_plan: "well_formed \<lparr>pap_RequiredAction = ParentActionApproveSurface,
    pap_AllowedActions = [ParentActionApproveSurface, ParentActionFix, ParentActionPark], pap_ResumeKind = [],
    pap_RequiredActionParameters = approveSurfaceParameters\<rparr>"
  by code_simp

lemma review_plans:
  "well_formed (actionPlan ParentActionReview [] [ParentActionAccept, ParentActionFix, ParentActionPark])"
  "well_formed (actionPlan ParentActionReview [] [ParentActionFix, ParentActionPark])"
  by code_simp+

lemma fixed_plans:
  "well_formed (actionPlan ParentActionNone [] [])"
  "well_formed (actionPlan ParentActionDecision [] [ParentActionDecision, ParentActionPark])"
  "well_formed (actionPlan ParentActionReopen [] [ParentActionReopen])"
  "well_formed (actionPlan ParentActionComplete [] [ParentActionComplete, ParentActionInstall])"
  "well_formed (actionPlan ParentActionAccept [] [ParentActionAccept])"
  "well_formed (actionPlan ParentActionRepairReentryReview [] [ParentActionRepairReentryReview])"
  by code_simp+

definition stop_plan :: "ResumeStopKind \<Rightarrow> ParentActionPlan" where
  "stop_plan k = actionPlan (stop_ParentAction k) k [if stop_ParentAction k = ParentActionResubmitReport then ParentActionResubmitReport
     else ParentActionResume]"

lemma stop_plans: "stop_IsStopped k \<Longrightarrow> well_formed (stop_plan k)"
  unfolding IsStopped_cases insert_iff empty_iff by (elim disjE FalseE; simp only:; code_simp)

lemmas well_formed_plans = bind_plan approve_plan review_plans fixed_plans

lemma plain_plans:
  "waitingDecisionActionPlan s p o' k = Inr plan \<Longrightarrow> well_formed plan"
  "completeActionPlan s p o' k = Inr plan \<Longrightarrow> well_formed plan"
  "inactiveParentActionPlan s p o' k = Inr plan \<Longrightarrow> well_formed plan"
  by (auto simp: waitingDecisionActionPlan_def completeActionPlan_def inactiveParentActionPlan_def well_formed_plans split: if_splits)

lemma stopped_plan: "stoppedParentActionPlan s p r o' k = Inr plan \<Longrightarrow> plan = stop_plan k \<and> stop_IsStopped k"
  by (auto simp: stoppedParentActionPlan_def stoppedActionPlan_def stop_plan_def split: if_splits)

text \<open>A plan that waits for a review is the approval plan or the plan of the review itself.\<close>

lemma review_plan_cases:
  "waitingReviewActionPlan s p o' k q = Inr plan \<Longrightarrow> well_formed plan \<and>
     (pap_RequiredAction plan = ParentActionReview \<longrightarrow>
        plan = actionPlan ParentActionReview [] [ParentActionAccept, ParentActionFix, ParentActionPark])"
proof -
  have "ParentActionApproveSurface \<noteq> ParentActionReview" by (simp add: parent_action_defs)
  then show "waitingReviewActionPlan s p o' k q = Inr plan \<Longrightarrow> ?thesis"
    by (auto simp: waitingReviewActionPlan_def well_formed_plans split: if_splits)
qed

lemma without_accept:
  "(actionPlan ParentActionReview [] [ParentActionAccept, ParentActionFix, ParentActionPark])\<lparr>pap_AllowedActions :=
     withoutParentAction (pap_AllowedActions (actionPlan ParentActionReview [] [ParentActionAccept, ParentActionFix, ParentActionPark]))
       ParentActionAccept\<rparr> = actionPlan ParentActionReview [] [ParentActionFix, ParentActionPark]"
  by (simp add: actionPlan_def withoutParentAction_def parent_action_defs)

lemma plan_for_status_well_formed:
  "triple (\<lambda>_. True) (parentActionPlanForStatus rt s p r o' k q) (\<lambda>plan _. well_formed plan) (\<lambda>_ _. True)"
proof -
  have result: "triple (\<lambda>_. True) (of_result (waitingReviewActionPlan s p o' k q))
      (\<lambda>v _. waitingReviewActionPlan s p o' k q = Inr v) (\<lambda>_ _. True)"
    by (rule triple_of_result) auto
  have review: "triple (\<lambda>_. True) (waitingReviewActionPlanWithEvidenceReadiness rt s p o' k q) (\<lambda>plan _. well_formed plan) (\<lambda>_ _. True)"
    unfolding waitingReviewActionPlanWithEvidenceReadiness_def Let_def
  proof (rule triple_bind [OF result], rule triple_pre)
    fix plan and st :: store assume "waitingReviewActionPlan s p o' k q = Inr plan"
    then show "triple (\<lambda>st'. st' = st) (if pap_RequiredAction plan \<noteq> ParentActionReview then returnE plan
       else bindE (inconsistent s ''parent review evidence state is unreadable'' CurrentParentReviewBinding) (\<lambda>binding.
           if binding = None then returnE (plan\<lparr>pap_AllowedActions := withoutParentAction (pap_AllowedActions plan) ParentActionAccept\<rparr>)
           else bindE (inconsistent s ''parent review accept readiness is unreadable'' (ParentReviewAcceptReady rt)) (\<lambda>ready.
             returnE (if \<not> ready then plan\<lparr>pap_AllowedActions := withoutParentAction (pap_AllowedActions plan) ParentActionAccept\<rparr> else plan))))
        (\<lambda>plan _. well_formed plan) (\<lambda>_ _. True)"
      using review_plan_cases [of s p o' k q plan]
      by (intro triple_if triple_return triple_bind [OF triple_any]) (auto simp: without_accept well_formed_plans)
  qed
  show ?thesis
    unfolding parentActionPlanForStatus_def awaitingParentCompletionActionPlan_def
    by (intro triple_if review result_step any_step triple_return throw_any)
      (auto simp: well_formed_plans stop_plans intro: plain_plans dest: stopped_plan)
qed

text \<open>
  C27. Every plan is well formed, whatever the state directory holds and whatever accesses fail: its
  actions are known and distinct, it allows nothing exactly when it requires nothing, it names a
  resume kind exactly when it requires the action of that stopped kind, it has parameters exactly
  when the required action takes some, and it allows acceptance only when a review or an acceptance
  is what it requires.
\<close>

theorem plan_well_formed:
  assumes "get_ParentActionPlan rt st = (Inr plan, st')"
  shows "well_formed plan"
proof -
  have none: "triple (\<lambda>_. True) (returnE (actionPlan ParentActionNone [] [])) (\<lambda>plan _. well_formed plan) (\<lambda>_ _. True)"
    by (rule triple_return) (simp add: well_formed_plans)
  have disposed: "triple (\<lambda>_. True) userTerminatedActionPlan (\<lambda>plan _. well_formed plan) (\<lambda>_ _. True)"
    unfolding userTerminatedActionPlan_def runtimeDispositionActionPlan_def
    by (rule any_step) (auto intro!: any_step then_step throw_any none split: content.split doc.split)
  have "triple (\<lambda>_. True) (get_ParentActionPlan rt) (\<lambda>plan _. well_formed plan) (\<lambda>_ _. True)"
    unfolding get_ParentActionPlan_def
    by (rule any_step, rule triple_if, rule disposed, rule any_step)
      (auto intro!: any_step throw_any triple_return plan_for_status_well_formed simp: well_formed_plans split: list.split sum.split)
  from triple_InrD [OF this TrueI assms] show ?thesis .
qed

section \<open>Admission\<close>

lemma attempt_checkpoint:
  "triple (state_is F) (attempt (LoadResumeCheckpoint rt))
     (\<lambda>r st. (case r of
         Inl e \<Rightarrow> e = NoResumeCheckpoint \<longrightarrow> (\<nexists>d c. F resumeStateFile = Some (Doc (CheckpointD d)) \<and> decode_checkpoint rt d = Inr c)
       | Inr c \<Rightarrow> \<exists>d. F resumeStateFile = Some (Doc (CheckpointD d)) \<and> decode_checkpoint rt d = Inr c) \<and> state_is F st) E"
proof (rule triple_attempt, rule triple_weaken [where P = "state_is F"])
  show "triple (state_is F) (LoadResumeCheckpoint rt)
     (\<lambda>c st. (\<exists>d. F resumeStateFile = Some (Doc (CheckpointD d)) \<and> decode_checkpoint rt d = Inr c) \<and> state_is F st)
     (\<lambda>e st. (e = NoResumeCheckpoint \<longrightarrow> (\<nexists>d c. F resumeStateFile = Some (Doc (CheckpointD d)) \<and> decode_checkpoint rt d = Inr c)) \<and> state_is F st)"
  proof (rule tripleI)
    fix st e st' assume st: "state_is F st" and run: "LoadResumeCheckpoint rt st = (Inl e, st')"
    have "files st resumeStateFile = F resumeStateFile"
      using st by (simp add: state_is_def resumeStateFile_def currentStatsFile_def)
    with run triple_InlD [OF LoadResumeCheckpoint_clean st run]
    show "(e = NoResumeCheckpoint \<longrightarrow> (\<nexists>d c. F resumeStateFile = Some (Doc (CheckpointD d)) \<and> decode_checkpoint rt d = Inr c)) \<and> state_is F st'"
      by (auto simp: LoadResumeCheckpoint_def run_defs split: if_splits option.splits content.splits doc.splits sum.splits)
  qed (rule triple_InrD [OF LoadResumeCheckpoint_content])
qed auto

text \<open>\<open>rested rt F t\<close>: a rate-limited checkpoint of \<open>F\<close> names a reset time that is not after \<open>t\<close>.\<close>

definition rested :: "go_runtime \<Rightarrow> filemap \<Rightarrow> int \<Rightarrow> bool" where
  "rested rt F t \<longleftrightarrow> (\<forall>d c. F resumeStateFile = Some (Doc (CheckpointD d)) \<and> decode_checkpoint rt d = Inr c \<and>
     rc_StopKind c = ResumeStopRateLimited \<longrightarrow> (\<exists>reset. rt_ParseRFC3339 rt (rc_ResetAtRFC3339 c) = Some reset \<and> reset \<le> t))"

lemma Now_step: "(\<And>t. triple (\<lambda>st. now st = t \<and> P st) (k t) Q E) \<Longrightarrow> triple P (bindE Now k) Q E"
  unfolding triple_def bindE_def Now_def by auto

lemma reject_triple:
  "triple (state_is F) (rejectResumeBeforeRateLimitReset rt) (\<lambda>_ st. rested rt F (now st) \<and> state_is F st) (\<lambda>_. state_is F)"
  unfolding rejectResumeBeforeRateLimitReset_def
proof (rule triple_bind [OF attempt_checkpoint], rule triple_assume, rule triple_sum)
  fix r e assume "case r of
         Inl e \<Rightarrow> e = NoResumeCheckpoint \<longrightarrow> (\<nexists>d c. F resumeStateFile = Some (Doc (CheckpointD d)) \<and> decode_checkpoint rt d = Inr c)
       | Inr c \<Rightarrow> \<exists>d. F resumeStateFile = Some (Doc (CheckpointD d)) \<and> decode_checkpoint rt d = Inr c" "r = Inl e"
  then show "triple (state_is F) (if e = NoResumeCheckpoint then returnE () else throwE (Wrapf ''resume checkpoint evidence is unreadable'' e))
     (\<lambda>_ st. rested rt F (now st) \<and> state_is F st) (\<lambda>_. state_is F)"
    by (intro triple_if triple_return triple_throw) (auto simp: rested_def)
next
  fix r c assume "case r of
         Inl e \<Rightarrow> e = NoResumeCheckpoint \<longrightarrow> (\<nexists>d c. F resumeStateFile = Some (Doc (CheckpointD d)) \<and> decode_checkpoint rt d = Inr c)
       | Inr c \<Rightarrow> \<exists>d. F resumeStateFile = Some (Doc (CheckpointD d)) \<and> decode_checkpoint rt d = Inr c" "r = Inr c"
  then obtain d where d: "F resumeStateFile = Some (Doc (CheckpointD d))" "decode_checkpoint rt d = Inr c" by auto
  show "triple (state_is F) (if rc_StopKind c \<noteq> ResumeStopRateLimited then returnE ()
         else if rc_ResetAtRFC3339 c = [] then throwE (Errorf ''rate-limit reset evidence is missing'' [])
         else case rt_ParseRFC3339 rt (rc_ResetAtRFC3339 c) of
           None \<Rightarrow> throwE (Errorf ''rate-limit reset evidence is unreadable'' [rc_ResetAtRFC3339 c])
         | Some resetAt \<Rightarrow> bindE Now (\<lambda>t.
             if t < resetAt then throwE (Errorf ''rate-limited task cannot resume before the reset'' [rc_ResetAtRFC3339 c])
             else returnE ())) (\<lambda>_ st. rested rt F (now st) \<and> state_is F st) (\<lambda>_. state_is F)"
    by (intro triple_if triple_option Now_step triple_return triple_throw) (use d in \<open>auto simp: rested_def\<close>)
qed

definition accept_ok :: "go_runtime \<Rightarrow> nat \<Rightarrow> filemap \<Rightarrow> ParentActionPlan \<Rightarrow> bool" where
  "accept_ok rt t F p \<longleftrightarrow> (pap_RequiredAction p = ParentActionReview \<and> ParentActionAccept \<in> set (pap_AllowedActions p) \<longrightarrow> ready rt t F)"

lemma accept_ok_other: "pap_RequiredAction p \<noteq> ParentActionReview \<Longrightarrow> accept_ok rt t F p"
  by (simp add: accept_ok_def)

lemma reads_reject: "reads (rejectResumeBeforeRateLimitReset rt)"
  unfolding rejectResumeBeforeRateLimitReset_def by (intro reads_intro)

lemma inconsistent_clean:
  "triple P m Q (\<lambda>_. state_is F) \<Longrightarrow> triple P (inconsistent s d m) Q (\<lambda>_. state_is F)"
  unfolding inconsistent_def by (erule triple_catch) (rule triple_throw)

lemma reads_plan [reads_intro]: "reads CurrentPendingDefectRegistrations" "reads CurrentParentReviewLabel"
    "reads CurrentParentReviewBinding" "reads (readExact n)" "reads userTerminatedActionPlan"
  unfolding CurrentPendingDefectRegistrations_def PendingDefectRegistrations_def CurrentParentReviewLabel_def CurrentParentReviewBinding_def
    readExact_def userTerminatedActionPlan_def runtimeDispositionActionPlan_def ReadOr_def Read_def
  by (intro reads_intro; auto intro!: reads_intro split: content.split doc.split)+

lemma since_reads: "reads m \<Longrightarrow> triple (since n F) m (\<lambda>_. since n F) (\<lambda>_. state_is F)"
  by (rule since_frame [OF reads_advances reads_frame])

lemma reads_value:
  assumes "reads m" "triple (\<lambda>_. True) m (\<lambda>v _. P v) (\<lambda>_ _. True)"
  shows "triple (state_is F) m (\<lambda>v st. P v \<and> state_is F st) (\<lambda>_. state_is F)"
proof -
  have "triple (state_is F) m (\<lambda>v _. P v) (\<lambda>_ _. True)" by (rule triple_weaken [OF assms(2)]) auto
  from triple_conj [OF reads_frame [OF assms(1)] this] show ?thesis by (rule triple_weaken) auto
qed

lemma not_review:
  "ParentActionNone \<noteq> ParentActionReview" "ParentActionDecision \<noteq> ParentActionReview" "ParentActionAccept \<noteq> ParentActionReview"
  "stop_ParentAction k \<noteq> ParentActionReview"
  by (simp_all add: parent_action_defs stop_ParentAction_def)

lemma other_plans:
  "waitingDecisionActionPlan s p o' k = Inr plan \<Longrightarrow> accept_ok rt t F plan"
  "completeActionPlan s p o' k = Inr plan \<Longrightarrow> accept_ok rt t F plan"
  "inactiveParentActionPlan s p o' k = Inr plan \<Longrightarrow> accept_ok rt t F plan"
  "stoppedParentActionPlan s p r o' k = Inr plan \<Longrightarrow> accept_ok rt t F plan"
  by (rule accept_ok_other; auto simp: waitingDecisionActionPlan_def completeActionPlan_def inactiveParentActionPlan_def
      stoppedParentActionPlan_def stoppedActionPlan_def actionPlan_def not_review split: if_splits)+

text \<open>\<open>plan_evidenced rt n F plan st\<close>: acceptance is in the plan only with the evidence of a moment after \<open>n\<close>.\<close>

definition plan_evidenced :: "go_runtime \<Rightarrow> nat \<Rightarrow> filemap \<Rightarrow> ParentActionPlan \<Rightarrow> store \<Rightarrow> bool" where
  "plan_evidenced rt n F plan st \<longleftrightarrow> (\<exists>t\<ge>n. accept_ok rt t F plan \<and> since t F st)"

lemma planned_other: "since n F st \<Longrightarrow> (\<And>t. accept_ok rt t F plan) \<Longrightarrow> plan_evidenced rt n F plan st"
  unfolding plan_evidenced_def by blast

lemma review_plan_accept_ok:
  "triple (since n F) (waitingReviewActionPlanWithEvidenceReadiness rt s p o' k q) (plan_evidenced rt n F) (\<lambda>_. state_is F)"
  unfolding waitingReviewActionPlanWithEvidenceReadiness_def Let_def
proof (rule triple_bind [OF since_frame [OF advances_basic(3) of_result_clean]], intro triple_if triple_return,
    erule planned_other, simp add: accept_ok_def, rule triple_bind [OF inconsistent_clean [OF since_reads [OF reads_plan(3)]]],
    intro triple_if triple_return, erule planned_other, simp add: accept_ok_def withoutParentAction_def,
    rule triple_bind [OF inconsistent_clean [OF ready_triple]], rule triple_return)
  fix plan v st assume "\<exists>t\<ge>n. (v \<longrightarrow> ready rt t F) \<and> since t F st"
  then show "plan_evidenced rt n F (if \<not> v then plan\<lparr>pap_AllowedActions := withoutParentAction (pap_AllowedActions plan) ParentActionAccept\<rparr> else plan) st"
    by (auto simp: plan_evidenced_def accept_ok_def withoutParentAction_def)
qed

lemma plan_for_status_accept_ok:
  "triple (since n F) (parentActionPlanForStatus rt s p r o' k q) (plan_evidenced rt n F) (\<lambda>_. state_is F)"
proof -
  have other: "accept_ok rt t F (actionPlan ParentActionReopen [] [ParentActionReopen])"
    "accept_ok rt t F (actionPlan ParentActionComplete [] [ParentActionComplete, ParentActionInstall])"
    "accept_ok rt t F (actionPlan ParentActionRepairReentryReview [] [ParentActionRepairReentryReview])" for t
    by (rule accept_ok_other, simp add: actionPlan_def parent_action_defs)+
  have result: "triple (since n F) (of_result x) (plan_evidenced rt n F) (\<lambda>_. state_is F)"
    if "\<And>plan t. x = Inr plan \<Longrightarrow> accept_ok rt t F plan" for x
    using that by (intro triple_of_result) (auto intro: planned_other dest: sinceD)
  have finding: "triple (since n F) (inconsistent s d (CurrentPublicationInvalidatingFinding rt)) (\<lambda>_. since n F) (\<lambda>_. state_is F)" for s d
    by (rule inconsistent_clean [OF since_reads [OF reads_reopenable(1)]])
  show ?thesis
    unfolding parentActionPlanForStatus_def awaitingParentCompletionActionPlan_def
    by (intro triple_if review_plan_accept_ok result triple_throw triple_bind [OF finding]
        triple_bind [OF since_reads [OF reads_reentry(5)]] triple_return)
      (auto simp: other intro: other_plans planned_other dest: sinceD)
qed

lemma plan_accept_ok:
  "triple (since n F) (get_ParentActionPlan rt) (plan_evidenced rt n F) (\<lambda>_. state_is F)"
proof -
  have none: "accept_ok rt t F (actionPlan ParentActionNone [] [])"
    and bind': "accept_ok rt t F \<lparr>pap_RequiredAction = ParentActionBindDefectTask, pap_AllowedActions = [ParentActionBindDefectTask],
       pap_ResumeKind = [], pap_RequiredActionParameters = [x]\<rparr>" for x t
    by (rule accept_ok_other, simp add: actionPlan_def parent_action_defs)+
  have "triple (\<lambda>_. True) userTerminatedActionPlan (\<lambda>p _. \<forall>t. accept_ok rt t F p) (\<lambda>_ _. True)"
    unfolding userTerminatedActionPlan_def runtimeDispositionActionPlan_def
    by (rule any_step) (auto intro!: any_step then_step throw_any triple_return simp: none split: content.split doc.split)
  note disposed' = since_value [OF reads_advances [OF reads_plan(5)] reads_value [OF reads_plan(5) this]]
  have disposed: "triple (since n F) userTerminatedActionPlan (plan_evidenced rt n F) (\<lambda>_. state_is F)"
    by (rule triple_weaken [OF disposed']) (auto intro: planned_other)
  have rest: "triple (since n F) (bindE (attempt (LoadResumeCheckpoint rt)) (\<lambda>r. case r of
               Inl e \<Rightarrow> if e \<noteq> NoResumeCheckpoint
                 then throwE (LifecycleInconsistency status ''resume checkpoint is unreadable'' (Some e))
                 else parentActionPlanForStatus rt status pending False openReview ResumeStopNone False
             | Inr c \<Rightarrow> bindE (readExact ''last-decision'') (\<lambda>lastDecision.
                 parentActionPlanForStatus rt status pending (pendingDecisionContinuesCheckpoint pending c lastDecision) openReview
                   (rc_StopKind c) (rc_QualitySurfaceApprovalPending c \<and> \<not> checkpoint_IsStopped c))))
      (plan_evidenced rt n F) (\<lambda>_. state_is F)" for status pending openReview
    by (intro triple_bind [OF since_reads [OF reads_attempt [OF reads_reentry(2)]]]
        triple_sum triple_if triple_throw plan_for_status_accept_ok
        triple_bind [OF since_reads [OF reads_plan(4)]]) (erule sinceD)
  show ?thesis
    unfolding get_ParentActionPlan_def
  proof (rule triple_bind [OF since_reads [OF reads_store(3)]], rule triple_if, rule disposed,
      rule triple_bind [OF inconsistent_clean [OF since_reads [OF reads_plan(1)]]], goal_cases)
    case (1 status registrations)
    show ?case
    proof (cases registrations)
      case Nil
      show ?thesis
        unfolding Nil list.case
        by (rule triple_bind [OF since_reads [OF reads_identity(2)]],
            rule triple_bind [OF inconsistent_clean [OF since_reads [OF reads_plan(2)]]], rule rest)
    next
      case (Cons r rs)
      show ?thesis unfolding Cons list.case by (rule triple_return, erule planned_other) (simp add: bind')
    qed
  qed
qed

text \<open>
  C25. What is admitted may be done: for every pattern of faults, admitting an action changes no file;
  an acceptance that is admitted while a review is required has its evidence for the state of the
  repository at a moment during the call, and a resumption that is admitted for a rate-limited checkpoint
  comes no earlier than the reset time it names.
\<close>

theorem admission_sound:
  assumes "AdmitParentAction rt action st = (Inr (plan, True), st')"
  shows "(\<forall>n. n \<noteq> currentStatsFile \<longrightarrow> files st' n = files st n) \<and>
    (action = ParentActionAccept \<and> pap_RequiredAction plan = ParentActionReview \<longrightarrow>
      (\<exists>t. access st \<le> t \<and> t \<le> access st' \<and> ready rt t (files st))) \<and>
    (action = ParentActionResume \<longrightarrow> rested rt (files st) (now st'))"
proof -
  let ?F = "files st" and ?n = "access st"
  have review: "AdmitsCommand plan ParentActionAccept \<Longrightarrow> pap_RequiredAction plan = ParentActionReview \<Longrightarrow>
      ParentActionAccept \<in> set (pap_AllowedActions plan)" for plan
    by (simp add: AdmitsCommand_def Allows_def)
  from assms obtain p st1 status st2 r where
    1: "get_ParentActionPlan rt st = (Inr p, st1)" and 2: "get_TaskStatus st1 = (Inr status, st2)"
    and 3: "(if action = ParentActionResume \<and> AdmitsCommand p action \<and> status \<noteq> TaskStatusUserTerminated
      then rejectResumeBeforeRateLimitReset rt else returnE ()) st2 = (Inr r, st')"
    and plan: "plan = p" "AdmitsCommand p action" "status \<noteq> TaskStatusUserTerminated"
    unfolding AdmitParentAction_def Let_def by (auto dest!: bind_InrD then_InrD simp: returnE_def)
  from triple_InrD [OF plan_accept_ok since_self 1] obtain t where
    t: "?n \<le> t" "accept_ok rt t ?F p" "since t ?F st1" unfolding plan_evidenced_def by blast
  have s2: "since t ?F st2" using triple_InrD [OF since_reads [OF reads_store(3)] t(3) 2] .
  have end': "state_is ?F st' \<and> access st2 \<le> access st' \<and> (action = ParentActionResume \<longrightarrow> rested rt ?F (now st'))"
  proof (cases "action = ParentActionResume")
    case True
    then have run: "rejectResumeBeforeRateLimitReset rt st2 = (Inr r, st')" using 3 plan by simp
    then show ?thesis
      using triple_InrD [OF reject_triple sinceD [OF s2] run] advancesD [OF reads_advances [OF reads_reject] run] by simp
  next
    case False
    then show ?thesis using 3 sinceD [OF s2] by (simp add: returnE_def)
  qed
  then show ?thesis using t s2 plan review by (auto simp: since_def state_is_def accept_ok_def)
qed

section \<open>A stopped task can be continued\<close>

lemma readExact_runs: "triple (calm F) (readExact n) (\<lambda>_. calm F) never"
  unfolding readExact_def
  by (rule tripleI) (auto simp: attempt_def ReadFile_def bindE_def returnE_def split: if_splits option.splits content.splits)

lemma inconsistent_runs: "triple P m Q never \<Longrightarrow> triple P (inconsistent s d m) Q never"
  unfolding inconsistent_def by (erule triple_catch) (simp add: triple_def)

lemma checkpoint_runs:
  assumes "F resumeStateFile = Some (saved_checkpoint c)" "saveable rt c"
  shows "triple (calm F) (attempt (LoadResumeCheckpoint rt)) (\<lambda>v st. (\<exists>c'. v = Inr c' \<and> rc_StopKind c' = rc_StopKind c) \<and> calm F st) never"
proof (rule tripleI)
  fix st v st' assume st: "calm F st" and run: "attempt (LoadResumeCheckpoint rt) st = (Inr v, st')"
  have valid: "validateStopState rt c = None" "rc_Model c \<noteq> []" using assms(2) by (simp_all add: saveable_def)
  have "files st resumeStateFile = Some (saved_checkpoint c)" "\<not> fault st (access st)"
    using st assms(1) by (simp_all add: calm_files calm_fault resumeStateFile_def currentStatsFile_def)
  with st run valid stop_state_stored [OF valid(1), of resumeStateVersion]
  show "(\<exists>c'. v = Inr c' \<and> rc_StopKind c' = rc_StopKind c) \<and> calm F st'"
    by (auto simp: LoadResumeCheckpoint_def run_defs saved_checkpoint_def decode_checkpoint_def marshal_checkpoint_def
        validateResumePersistedKeys_def Let_def calm_def state_is_def)
qed (simp add: attempt_def split: prod.splits)

lemma stopped_status:
  assumes "stop_IsStopped k"
  shows "stop_TaskStatus k \<in> {TaskStatusRateLimited, TaskStatusProviderUnavailable, TaskStatusInterrupted,
      TaskStatusGuardRecoverable, TaskStatusQualityGateRecoverable, TaskStatusResultFormatRecoverable}"
    and "stop_TaskStatus k \<notin> {TaskStatusWaitingDecision, TaskStatusWaitingSolReview, TaskStatusAwaitingParentCompletion,
      TaskStatusComplete, TaskStatusActive, TaskStatusNone}"
  using assms unfolding IsStopped_cases by (elim insertE; simp add: stop_TaskStatus_def stop_kind_defs task_status_defs)+

lemma stopped_not_terminated: "stop_IsStopped k \<Longrightarrow> stop_TaskStatus k \<noteq> TaskStatusUserTerminated"
  unfolding IsStopped_cases by (elim insertE; simp add: stop_TaskStatus_def stop_kind_defs task_status_defs)

lemma stopped_resubmits: "stop_IsStopped k \<Longrightarrow> stop_ParentAction k = ParentActionResubmitReport \<longleftrightarrow> k = ResumeStopResultFormat"
  unfolding IsStopped_cases by (elim insertE; simp add: stop_ParentAction_def stop_kind_defs parent_action_defs)

lemma of_result_Inr: "of_result (Inr v) = returnE v"
  by (simp add: of_result_def returnE_def fun_eq_iff)

lemma stopped_plan_for_status:
  assumes "stop_IsStopped k"
  shows "parentActionPlanForStatus rt (stop_TaskStatus k) False r roundCommentNone k q =
      bindE (ReenteredReviewStopRepairable rt) (\<lambda>repairable.
        if repairable then returnE (actionPlan ParentActionRepairReentryReview [] [ParentActionRepairReentryReview])
        else returnE (actionPlan (stop_ParentAction k) k
          [if k = ResumeStopResultFormat then ParentActionResubmitReport else ParentActionResume]))"
proof -
  have "stoppedParentActionPlan (stop_TaskStatus k) False r roundCommentNone k = Inr (actionPlan (stop_ParentAction k) k
      [if k = ResumeStopResultFormat then ParentActionResubmitReport else ParentActionResume])"
    using assms stopped_status(1) [OF assms] stopped_resubmits [OF assms]
    by (simp add: stoppedParentActionPlan_def stoppedActionPlan_def split del: if_split) simp
  with stopped_status(2) [OF assms] show ?thesis by (simp add: parentActionPlanForStatus_def of_result_Inr cong: if_cong)
qed

lemma closed_review_runs:
  assumes "F parentReviewStateFile = Some (Doc (ReviewD s))" "decodeParentReviewState s = Inr s" "prs_Open s = None"
    and "F ''task.id'' = Some c" "c \<noteq> Directory" "trim_space (text_of c) = prs_TaskID s" "prs_TaskID s \<noteq> []"
  shows "triple (calm F) CurrentParentReview (\<lambda>v st. v = None \<and> calm F st) never"
  unfolding CurrentParentReview_def with_task_review_def
proof (rule triple_bind [OF attempt_Read_runs], goal_cases)
  case (3 v)
  show ?case
    by (rule triple_assume) (use assms in \<open>auto intro!: triple_bind [OF loadParentReviewState_runs [of F s c]] triple_assume triple_return\<close>)
qed (use assms(4,5) in \<open>simp_all add: currentStatsFile_def\<close>)

lemma no_registrations_runs:
  assumes "F pendingDefectRegistrationStateFile = None"
  shows "triple (calm F) CurrentPendingDefectRegistrations (\<lambda>v st. v = [] \<and> calm F st) never"
proof -
  have name: "pendingDefectRegistrationStateFile \<noteq> currentStatsFile"
    by (simp add: currentStatsFile_def pendingDefectRegistrationStateFile_def)
  show ?thesis
    unfolding CurrentPendingDefectRegistrations_def PendingDefectRegistrations_def
    by (rule triple_bind [where R = "\<lambda>v st. v = [] \<and> calm F st"], rule triple_bind [OF attempt_ReadFile_runs [OF name]])
      (use assms in \<open>auto intro!: triple_assume triple_return simp: triple_def returnE_def\<close>)
qed

lemma closed_label_runs:
  assumes "triple (calm F) CurrentParentReview (\<lambda>v st. v = None \<and> calm F st) never" "F parentReopenTransactionStateFile = None"
  shows "triple (calm F) CurrentParentReviewLabel (\<lambda>v st. v = roundCommentNone \<and> calm F st) never"
proof -
  have name: "parentReopenTransactionStateFile \<noteq> currentStatsFile"
    by (simp add: currentStatsFile_def parentReopenTransactionStateFile_def)
  show ?thesis
    unfolding CurrentParentReviewLabel_def
    by (rule triple_bind [OF Exists_runs [OF name]], rule triple_assume, simp add: assms(2), rule triple_bind [OF assms(1)],
        rule triple_assume, rule triple_return) simp
qed

text \<open>
  C26. A stopped task can be continued when nothing else is due first: let a directory be consistent, its
  task be stopped, with no decision pending, no defect registration, no transaction record of a
  reopening and a valid review state of the task without an open review. Then, when no access fails, the
  plan is found, and it requires the action of the very stop kind and allows to resume or, for a report
  in the wrong form, to submit it again.
\<close>

theorem stopped_task_has_plan:
  assumes cons: "consistent rt (files st)" and k: "stop_IsStopped k" "status_of (files st) = stop_TaskStatus k"
    and calm: "\<forall>n. \<not> fault st n"
    and absent: "files st ''pending-decision'' = None" "files st pendingDefectRegistrationStateFile = None"
      "files st parentReopenTransactionStateFile = None"
    and review: "files st parentReviewStateFile = Some (Doc (ReviewD s))" "decodeParentReviewState s = Inr s" "prs_Open s = None"
    and task: "files st ''task.id'' = Some c" "c \<noteq> Directory" "trim_space (text_of c) = prs_TaskID s" "prs_TaskID s \<noteq> []"
  shows "\<exists>st'. get_ParentActionPlan rt st = (Inr (actionPlan (stop_ParentAction k) k
     [if k = ResumeStopResultFormat then ParentActionResubmitReport else ParentActionResume]), st')"
proof -
  let ?F = "files st"
  have name: "''pending-decision'' \<noteq> currentStatsFile" by (simp add: currentStatsFile_def)
  from cons k obtain ck where ck: "?F resumeStateFile = Some (saved_checkpoint ck)" "saveable rt ck" "rc_StopKind ck = k"
    unfolding consistent_def by blast
  have "status_of ?F \<noteq> TaskStatusNone" using k by (auto simp: IsStopped_cases stop_TaskStatus_def stop_kind_defs task_status_defs)
  then have "?F ''task.status'' \<noteq> Some Directory" by (auto simp: status_of_def split: if_splits)
  note status = get_TaskStatus_runs [of ?F, OF this]
  note registrations = no_registrations_runs [of ?F, OF absent(2)]
  note current = closed_review_runs [of ?F s c, OF review task]
  note label = closed_label_runs [of ?F, OF current absent(3)]
  have repairable: "triple (calm ?F) (ReenteredReviewStopRepairable rt) (\<lambda>v st. \<not> v \<and> calm ?F st) never"
    unfolding ReenteredReviewStopRepairable_def
    by (rule triple_bind [OF current], rule triple_assume, simp add: machine_review_def, rule triple_return) simp
  define plan where "plan = actionPlan (stop_ParentAction k) k [if k = ResumeStopResultFormat then ParentActionResubmitReport else ParentActionResume]"
  note kind = stopped_not_terminated [OF k(1), folded k(2)] stopped_plan_for_status [OF k(1), folded k(2) plan_def]
  have "triple (calm ?F) (get_ParentActionPlan rt) (\<lambda>v st. v = plan \<and> calm ?F st) never"
    unfolding get_ParentActionPlan_def
    by (rule triple_bind [OF status], rule triple_assume, simp only: kind(1) if_False, rule triple_bind [OF inconsistent_runs [OF registrations]],
        rule triple_assume, simp, rule triple_bind [OF Exists_runs [OF name]], rule triple_assume, simp add: absent(1),
        rule triple_bind [OF inconsistent_runs [OF label]], rule triple_assume, simp,
        rule triple_bind [OF checkpoint_runs [of ?F ck rt, OF ck(1,2)]], rule triple_assume, elim exE conjE, simp add: ck(3),
        rule triple_bind [OF readExact_runs], simp add: kind(2), rule triple_bind [OF repairable], rule triple_assume, simp, rule triple_return) simp
  from calm_returns [OF this, of st] calm show ?thesis by (auto simp: calm_def state_is_def plan_def [symmetric])
qed

section \<open>Samples\<close>

definition stopped_review :: ParentReviewState where
  "stopped_review = proven_review\<lparr>prs_Open := None, prs_Review := None\<rparr>"

definition stopped_store :: store where
  "stopped_store = (proven_store (\<lambda>_. False))\<lparr>files := [''task.id'' \<mapsto> Text ''t1'', ''task.status'' \<mapsto> Text ''interrupted'',
     ''resume-state.json'' \<mapsto> saved_checkpoint reviewer_checkpoint, ''parent-review-state.json'' \<mapsto> Doc (ReviewD stopped_review)]\<rparr>"

theorem plan_well_formed_witness:
  "\<exists>plan st'. get_ParentActionPlan sample_runtime (proven_store (\<lambda>_. False)) = (Inr plan, st') \<and> well_formed plan \<and>
     pap_AllowedActions plan \<noteq> []"
proof -
  let ?run = "get_ParentActionPlan sample_runtime (proven_store (\<lambda>_. False))"
  have "case fst ?run of Inl _ \<Rightarrow> False | Inr p \<Rightarrow> pap_AllowedActions p \<noteq> []" by code_simp
  then obtain plan st' where run: "?run = (Inr plan, st')" and "pap_AllowedActions plan \<noteq> []"
    by (cases ?run) (auto split: sum.splits)
  with plan_well_formed [OF run] show ?thesis by simp
qed

theorem admission_sound_witness:
  "\<exists>plan st'. AdmitParentAction sample_runtime ParentActionAccept (proven_store (\<lambda>_. False)) = (Inr (plan, True), st') \<and>
     (\<exists>t. ready sample_runtime t (files (proven_store (\<lambda>_. False))))"
proof -
  let ?run = "AdmitParentAction sample_runtime ParentActionAccept (proven_store (\<lambda>_. False))"
  have "case fst ?run of Inl _ \<Rightarrow> False | Inr (p, admitted) \<Rightarrow> admitted \<and> pap_RequiredAction p = ParentActionReview" by code_simp
  then obtain plan st' where run: "?run = (Inr (plan, True), st')" "pap_RequiredAction plan = ParentActionReview"
    by (cases ?run) (auto split: sum.splits)
  with admission_sound [OF run(1)] show ?thesis by blast
qed

theorem stopped_task_has_plan_witness:
  "\<exists>st'. get_ParentActionPlan sample_runtime stopped_store =
     (Inr (actionPlan ParentActionResume ResumeStopInterrupted [ParentActionResume]), st')"
proof -
  have ck: "saveable sample_runtime reviewer_checkpoint" "rc_StopKind reviewer_checkpoint = ResumeStopInterrupted"
    and status: "status_of (files stopped_store) = stop_TaskStatus ResumeStopInterrupted" "stop_IsStopped ResumeStopInterrupted"
    and known: "TaskStatus_Known (status_of (files stopped_store))" "status_of (files stopped_store) \<noteq> TaskStatusWaitingDecision"
    and review: "decodeParentReviewState stopped_review = Inr stopped_review" "prs_Open stopped_review = None"
      "prs_TaskID stopped_review = ''t1''" "trim_space ''t1'' = ''t1''"
    and action: "stop_ParentAction ResumeStopInterrupted = ParentActionResume" "ResumeStopInterrupted \<noteq> ResumeStopResultFormat"
    by code_simp+
  have "files stopped_store resumeStateFile = Some (saved_checkpoint reviewer_checkpoint)"
    by (simp add: stopped_store_def resumeStateFile_def)
  with ck status known have cons: "consistent sample_runtime (files stopped_store)"
    using stop_TaskStatus_inj unfolding consistent_def by metis
  have here: "files stopped_store ''pending-decision'' = None" "files stopped_store pendingDefectRegistrationStateFile = None"
    "files stopped_store parentReopenTransactionStateFile = None" "files stopped_store ''task.id'' = Some (Text ''t1'')"
    "files stopped_store parentReviewStateFile = Some (Doc (ReviewD stopped_review))" "\<forall>n. \<not> fault stopped_store n"
    by (simp_all add: stopped_store_def proven_store_def parentReviewStateFile_def pendingDefectRegistrationStateFile_def
        parentReopenTransactionStateFile_def)
  from stopped_task_has_plan [OF cons status(2,1) here(6,1,2,3,5) review(1,2) here(4)] review action show ?thesis by simp
qed

end
