(* ===== verification/Parent_Begin.thy ===== *)
theory Parent_Begin
  imports Documents
begin

text \<open>
  The begin transaction of a parent's decision or fix: \<^verbatim>\<open>BeginParentDecision\<close>, \<^verbatim>\<open>BeginParentFix\<close> and the
  rollback of \<^verbatim>\<open>internal/state/lifecycle_transition.go\<close>, and the durable begin record of
  \<^verbatim>\<open>parent_action_begin.go\<close> with its commit and its recovery after a crash; the recovery operations of
  \<^verbatim>\<open>quality_surface_recovery.go\<close>.
\<close>

section \<open>The begin transaction\<close>

record ParentActionRollback =
  par_status :: TaskStatus
  par_pending :: lifecycleFileSnapshot
  par_review :: lifecycleFileSnapshot

definition parentActionBeginStateFile :: string where
  "parentActionBeginStateFile = ''parent-action-begin.json''"
definition parentActionBeginStateVersion :: int where "parentActionBeginStateVersion = 1"

record parentActionBeginRecord =
  pab_Version :: int
  pab_TaskID :: string
  pab_SourceStatus :: TaskStatus
  pab_Pending :: "bool \<times> doc content"
  pab_Review :: "bool \<times> doc content"

definition begin_document :: "parentActionBeginRecord \<Rightarrow> doc content" where
  "begin_document r = Doc (BeginD (pab_Version r) (pab_TaskID r) (pab_SourceStatus r) (pab_Pending r) (pab_Review r))"

definition snapshotParentActionRollback :: "ParentActionRollback sop" where
  "snapshotParentActionRollback =
     bindE (snapshotLifecycleFile pending_decision) (\<lambda>pending.
       bindE (snapshotLifecycleFile parentReviewStateFile) (\<lambda>review.
         bindE get_TaskStatus (\<lambda>status.
           returnE \<lparr>par_status = status, par_pending = pending, par_review = review\<rparr>)))"

definition parentActionSnapshotFromLifecycle :: "lifecycleFileSnapshot \<Rightarrow> bool \<times> doc content" where
  "parentActionSnapshotFromLifecycle s = (ls_exists s, ls_data s)"

definition saveParentActionBegin :: "ParentActionRollback \<Rightarrow> unit sop" where
  "saveParentActionBegin rollback =
     (if par_status rollback \<noteq> TaskStatusWaitingDecision \<and> par_status rollback \<noteq> TaskStatusWaitingSolReview
      then throwE (Errorf ''parent action begin source is not a parent waiting state'' [par_status rollback])
      else if par_status rollback = TaskStatusWaitingDecision \<and> \<not> ls_exists (par_pending rollback)
      then throwE (Errorf ''parent action begin decision source has no pending decision snapshot'' [])
      else if par_status rollback = TaskStatusWaitingSolReview \<and> ls_exists (par_pending rollback)
      then throwE (Errorf ''parent action begin fix source has an unexpected pending decision snapshot'' [])
      else bindE (Exists parentActionBeginStateFile) (\<lambda>exists'.
        if exists' then throwE (Errorf ''parent action begin transition is already pending'' [])
        else bindE TaskID (\<lambda>taskID.
          wrapE ''parent action begin record write'' (writeFileAtomic parentActionBeginStateFile
            (begin_document \<lparr>pab_Version = parentActionBeginStateVersion, pab_TaskID = taskID,
               pab_SourceStatus = par_status rollback,
               pab_Pending = parentActionSnapshotFromLifecycle (par_pending rollback),
               pab_Review = parentActionSnapshotFromLifecycle (par_review rollback)\<rparr>)))))"

definition joinParentActionRollbackFailure :: "state_error \<Rightarrow> state_error \<Rightarrow> state_error" where
  "joinParentActionRollbackFailure cause rollbackErr = RollbackErr ''parent action begin'' cause rollbackErr"

definition rollbackParentAction :: "ParentActionRollback \<Rightarrow> state_error \<Rightarrow> 'a sop" where
  "rollbackParentAction rollback cause =
     (let failed = (\<lambda>e. throwE (joinParentActionRollbackFailure cause e)) in
      thenE (catchE (restoreLifecycleFile (par_review rollback)) failed)
        (thenE (catchE (restoreLifecycleFile (par_pending rollback)) failed)
          (thenE (catchE (SetTaskStatus (par_status rollback)) failed)
            (thenE (catchE (Remove [parentActionBeginStateFile]) failed) (throwE cause)))))"

definition begin_parent_action ::
    "go_runtime \<Rightarrow> unit sop \<Rightarrow> string \<Rightarrow> string \<Rightarrow> string \<Rightarrow> ParentActionRollback sop" where
  "begin_parent_action rt record_command outcome origin cause =
     bindE snapshotParentActionRollback (\<lambda>rollback.
       thenE (saveParentActionBegin rollback)
         (thenE (catchE (SetTaskStatus TaskStatusActive) (rollbackParentAction rollback))
           (thenE record_command
             (thenE (catchE (RecordParentOutcome rt outcome origin cause) (rollbackParentAction rollback))
               (returnE rollback)))))"

definition BeginParentDecision :: "go_runtime \<Rightarrow> ParentActionRollback sop" where
  "BeginParentDecision rt = bindE get_TaskStatus (\<lambda>status.
     bindE (if status \<noteq> TaskStatusWaitingDecision then returnE False else Exists pending_decision) (\<lambda>ok.
       if \<not> ok then throwE (Errorf ''parent decision transition requires waiting-decision with pending decision'' [])
       else begin_parent_action rt RecordDecision ParentOutcomeDecision [] []))"

definition BeginParentFix :: "go_runtime \<Rightarrow> string \<Rightarrow> string \<Rightarrow> ParentActionRollback sop" where
  "BeginParentFix rt origin cause = bindE get_TaskStatus (\<lambda>status.
     bindE (if status \<noteq> TaskStatusWaitingSolReview then returnE True else Exists pending_decision) (\<lambda>bad.
       if bad then throwE (Errorf ''parent fix transition requires waiting-sol-review without pending decision'' [])
       else begin_parent_action rt RecordFix ParentOutcomeFix origin cause))"

definition RollbackParentAction :: "ParentActionRollback \<Rightarrow> state_error \<Rightarrow> 'a sop" where
  "RollbackParentAction rollback cause = rollbackParentAction rollback cause"

section \<open>The begin record\<close>

definition validateParentActionBeginSource :: "parentActionBeginRecord \<Rightarrow> state_error option" where
  "validateParentActionBeginSource r =
     (if pab_SourceStatus r = TaskStatusWaitingDecision then
        (if \<not> fst (pab_Pending r)
         then Some (Errorf ''parent action begin decision record has no pending decision snapshot'' []) else None)
      else if pab_SourceStatus r = TaskStatusWaitingSolReview then
        (if fst (pab_Pending r)
         then Some (Errorf ''parent action begin fix record has an unexpected pending decision snapshot'' []) else None)
      else Some (Errorf ''parent action begin record has invalid source status'' [pab_SourceStatus r]))"

definition validateParentActionBeginSnapshotShape :: "parentActionBeginRecord \<Rightarrow> state_error option" where
  "validateParentActionBeginSnapshotShape r =
     (if \<not> fst (pab_Pending r) \<and> snd (pab_Pending r) \<noteq> Text []
      then Some (Errorf ''parent action begin record has data for a missing pending decision snapshot'' [])
      else if \<not> fst (pab_Review r) \<and> snd (pab_Review r) \<noteq> Text []
      then Some (Errorf ''parent action begin record has data for a missing review snapshot'' [])
      else None)"

definition validateParentActionBeginReviewSnapshot :: "parentActionBeginRecord \<Rightarrow> state_error option" where
  "validateParentActionBeginReviewSnapshot r =
     (if \<not> fst (pab_Review r) then None
      else case snd (pab_Review r) of
        Doc (ReviewD review) \<Rightarrow>
          if prs_Version review \<noteq> parentReviewStateVersion \<or> prs_TaskID review \<noteq> pab_TaskID r
          then Some (Errorf ''parent action begin review snapshot schema is invalid'' [])
          else first_err
            [case prs_Open review of None \<Rightarrow> None
             | Some open \<Rightarrow> if validParentReviewPacketStatus (pro_PacketStatus open) then None
                 else Some (Errorf ''parent action begin review snapshot packet status is invalid'' [pro_PacketStatus open]),
             validateParentReviewBindingState review, validateParentCompletionState review]
      | _ \<Rightarrow> Some (Errorf ''parent action begin review snapshot is unreadable'' []))"

definition validateParentActionBeginRecord :: "parentActionBeginRecord \<Rightarrow> state_error option" where
  "validateParentActionBeginRecord r = first_err
     [if pab_Version r \<noteq> parentActionBeginStateVersion
      then Some (Errorf ''unsupported parent action begin record version'' [itoa (pab_Version r)]) else None,
      if pab_TaskID r = [] then Some (Errorf ''parent action begin record has no task identity'' []) else None,
      validateParentActionBeginSource r, validateParentActionBeginSnapshotShape r,
      validateParentActionBeginReviewSnapshot r]"

definition loadParentActionBegin :: "parentActionBeginRecord sop" where
  "loadParentActionBegin =
     bindE (catchE (ReadFile parentActionBeginStateFile)
         (\<lambda>e. throwE (if is_not_exist e then NoParentActionBegin else e))) (\<lambda>c.
       case c of
         Doc (BeginD version taskID status pending review) \<Rightarrow>
           (let r = \<lparr>pab_Version = version, pab_TaskID = taskID, pab_SourceStatus = status,
                     pab_Pending = pending, pab_Review = review\<rparr>
            in thenE (check (validateParentActionBeginRecord r)) (returnE r))
       | _ \<Rightarrow> throwE (Errorf ''parent action begin record is unreadable'' []))"

definition CommitParentActionBegin :: "unit sop" where
  "CommitParentActionBegin = bindE (attempt loadParentActionBegin) (\<lambda>r. case r of
       Inl e \<Rightarrow> if e = NoParentActionBegin then returnE () else throwE e
     | Inr r \<Rightarrow> bindE TaskID (\<lambda>taskID.
         if pab_TaskID r \<noteq> taskID
         then throwE (Errorf ''parent action begin task identity changed'' [pab_TaskID r, taskID])
         else bindE get_TaskStatus (\<lambda>status.
           if status \<noteq> TaskStatusActive then refuse_status ''parent action begin commit requires active task''
           else Remove [parentActionBeginStateFile])))"

definition sameParentActionSnapshot :: "lifecycleFileSnapshot \<Rightarrow> bool \<times> doc content \<Rightarrow> bool" where
  "sameParentActionSnapshot current saved \<longleftrightarrow> ls_exists current = fst saved \<and> ls_data current = snd saved"

definition validateParentActionBeginCurrentSnapshots :: "parentActionBeginRecord \<Rightarrow> unit sop" where
  "validateParentActionBeginCurrentSnapshots r =
     bindE (snapshotLifecycleFile pending_decision) (\<lambda>pending.
       if \<not> sameParentActionSnapshot pending (pab_Pending r)
       then throwE (Errorf ''parent action recovery pending decision no longer matches the begin transaction'' [])
       else bindE (snapshotLifecycleFile parentReviewStateFile) (\<lambda>review.
         if sameParentActionSnapshot review (pab_Review r) then returnE ()
         else if \<not> ls_exists review \<or> \<not> fst (pab_Review r)
         then throwE (Errorf ''parent action recovery review state no longer matches the begin transaction'' [])
         else bindE loadParentReviewState (\<lambda>current.
           if prs_Open current \<noteq> None \<or> prs_Review current \<noteq> None
           then throwE (Errorf ''parent action recovery review state no longer matches the begin transaction'' [])
           else returnE ())))"

definition validateParentActionBeginRecovery :: "parentActionBeginRecord \<Rightarrow> TaskStatus sop" where
  "validateParentActionBeginRecovery r = bindE TaskID (\<lambda>taskID.
     if pab_TaskID r \<noteq> taskID
     then throwE (Errorf ''parent action recovery task identity changed'' [pab_TaskID r, taskID])
     else bindE get_TaskStatus (\<lambda>status.
       if status \<noteq> TaskStatusActive \<and> status \<noteq> pab_SourceStatus r
       then throwE (Errorf ''parent action recovery requires active task or retry'' [pab_SourceStatus r, status])
       else thenE (validateParentActionBeginCurrentSnapshots r) (returnE status)))"

definition restoreParentActionBeginSnapshots :: "parentActionBeginRecord \<Rightarrow> unit sop" where
  "restoreParentActionBeginSnapshots r =
     thenE (restoreLifecycleFile \<lparr>ls_name = parentReviewStateFile, ls_data = snd (pab_Review r),
         ls_exists = fst (pab_Review r)\<rparr>)
       (restoreLifecycleFile \<lparr>ls_name = pending_decision, ls_data = snd (pab_Pending r),
         ls_exists = fst (pab_Pending r)\<rparr>)"

definition clearParentActionBeginResume :: "go_runtime \<Rightarrow> parentActionBeginRecord \<Rightarrow> unit sop" where
  "clearParentActionBeginResume rt r = bindE (attempt (LoadResumeCheckpoint rt)) (\<lambda>l. case l of
       Inl e \<Rightarrow> if e = NoResumeCheckpoint then returnE () else throwE e
     | Inr c \<Rightarrow>
         if checkpoint_IsStopped c \<or> rc_CompletedResult c \<noteq> None \<or> rc_QualitySurfaceApprovalPending c
         then throwE (Errorf ''parent action recovery cannot discard a checkpoint after model-call admission'' [])
         else if rc_Stage c \<noteq> ResumeStageWorker \<or> rc_Role c \<noteq> WorkerRole
         then throwE (Errorf ''parent action recovery checkpoint is not a worker pre-call checkpoint'' [])
         else if WorkerPhaseCategory (rc_Phase c) \<noteq>
             (if pab_SourceStatus r = TaskStatusWaitingDecision then WorkerPhaseCategoryDecision
              else WorkerPhaseCategoryExplicitFix)
         then throwE (Errorf ''parent action recovery checkpoint phase does not match source'' [rc_Phase c, pab_SourceStatus r])
         else ClearResumeCheckpoint)"

definition RecoverParentActionBeginFromState :: "go_runtime \<Rightarrow> TaskStatus sop" where
  "RecoverParentActionBeginFromState rt = bindE loadParentActionBegin (\<lambda>r.
     bindE (validateParentActionBeginRecovery r) (\<lambda>status.
       thenE (clearParentActionBeginResume rt r)
         (thenE (restoreParentActionBeginSnapshots r)
           (thenE (if status = TaskStatusActive then SetTaskStatus (pab_SourceStatus r) else returnE ())
             (thenE (Remove [parentActionBeginStateFile]) (returnE (pab_SourceStatus r)))))))"

section \<open>A failed begin restores the source state\<close>

text \<open>
  \<open>restored F\<close>: every file but the statistics is that of \<open>F\<close> again, and the recorded status is the
  same (its file is rewritten, so its bytes may differ in surrounding white space).
\<close>

definition restored :: "filemap \<Rightarrow> store \<Rightarrow> bool" where
  "restored F st \<longleftrightarrow> (\<forall>n. n \<noteq> currentStatsFile \<and> n \<noteq> ''task.status'' \<longrightarrow> files st n = F n) \<and>
     status_of (files st) = status_of F"

lemma state_is_restored: "state_is F st \<Longrightarrow> restored F st"
  by (simp add: restored_def state_is_def status_of_def)

lemma begin_names [simp]:
  "parentActionBeginStateFile \<noteq> currentStatsFile" "parentActionBeginStateFile \<noteq> ''task.status''"
  "parentActionBeginStateFile \<noteq> parentReviewStateFile" "parentActionBeginStateFile \<noteq> pending_decision"
  "parentReviewStateFile \<noteq> ''task.status''" "pending_decision \<noteq> parentReviewStateFile"
  "parentActionBeginStateFile \<noteq> resumeStateFile" "parentReviewStateFile \<noteq> resumeStateFile"
  "resumeStateFile \<noteq> ''task.status''" "parentActionBeginStateFile \<noteq> ''task.id''"
  "parentReviewStateFile \<noteq> ''task.id''"
  by (simp_all add: parentActionBeginStateFile_def currentStatsFile_def parentReviewStateFile_def resumeStateFile_def)

definition rollback_of :: "filemap \<Rightarrow> ParentActionRollback \<Rightarrow> bool" where
  "rollback_of F r \<longleftrightarrow> snap F pending_decision (par_pending r) \<and> snap F parentReviewStateFile (par_review r) \<and>
     par_status r \<in> {TaskStatusNone, status_of F}"

lemma snapshotParentActionRollback_clean:
  "triple (state_is F) snapshotParentActionRollback (\<lambda>r st. rollback_of F r \<and> state_is F st) (\<lambda>_. state_is F)"
  unfolding snapshotParentActionRollback_def
  by (rule triple_bind [OF snapshotLifecycleFile_clean], rule triple_assume,
      rule triple_bind [OF snapshotLifecycleFile_clean], rule triple_assume,
      rule triple_bind [OF get_TaskStatus_read], rule triple_assume, rule triple_return)
    (simp add: rollback_of_def)

definition begin_record :: "string \<Rightarrow> ParentActionRollback \<Rightarrow> parentActionBeginRecord" where
  "begin_record taskID r = \<lparr>pab_Version = parentActionBeginStateVersion, pab_TaskID = taskID,
     pab_SourceStatus = par_status r, pab_Pending = parentActionSnapshotFromLifecycle (par_pending r),
     pab_Review = parentActionSnapshotFromLifecycle (par_review r)\<rparr>"

definition begin_source :: "ParentActionRollback \<Rightarrow> bool" where
  "begin_source r \<longleftrightarrow> par_status r = TaskStatusWaitingDecision \<and> ls_exists (par_pending r) \<or>
     par_status r = TaskStatusWaitingSolReview \<and> \<not> ls_exists (par_pending r)"

lemma saveParentActionBegin_clean:
  "triple (state_is F) (saveParentActionBegin r)
     (\<lambda>_ st. \<exists>taskID. begin_source r \<and>
        state_is (F(parentActionBeginStateFile \<mapsto> begin_document (begin_record taskID r))) st) (\<lambda>_. state_is F)"
  unfolding saveParentActionBegin_def
proof (intro triple_if triple_throw triple_bind [OF Exists_clean] triple_bind [OF TaskID_clean] triple_wrap)
  fix taskID
  assume src: "\<not> (par_status r \<noteq> TaskStatusWaitingDecision \<and> par_status r \<noteq> TaskStatusWaitingSolReview)"
    "\<not> (par_status r = TaskStatusWaitingDecision \<and> \<not> ls_exists (par_pending r))"
    "\<not> (par_status r = TaskStatusWaitingSolReview \<and> ls_exists (par_pending r))"
  then have source: "begin_source r" by (auto simp: begin_source_def)
  show "triple (state_is F) (writeFileAtomic parentActionBeginStateFile
      (begin_document \<lparr>pab_Version = parentActionBeginStateVersion, pab_TaskID = taskID,
         pab_SourceStatus = par_status r, pab_Pending = parentActionSnapshotFromLifecycle (par_pending r),
         pab_Review = parentActionSnapshotFromLifecycle (par_review r)\<rparr>))
     (\<lambda>_ st. \<exists>taskID. begin_source r \<and>
        state_is (F(parentActionBeginStateFile \<mapsto> begin_document (begin_record taskID r))) st) (\<lambda>_. state_is F)"
    by (rule triple_weaken [OF writeFileAtomic_clean]) (use source in \<open>auto simp: begin_record_def\<close>)
qed auto

lemma rollback_step:
  assumes "triple (state_is G) m (\<lambda>_. state_is H) (\<lambda>_. state_is G)"
  shows "triple (state_is G) (catchE m (\<lambda>e. throwE (joinParentActionRollbackFailure cause e)))
     (\<lambda>_. state_is H) (\<lambda>e st. \<not> rollback_failed e \<longrightarrow> P st)"
  by (rule triple_catch [OF assms], rule triple_throw) (simp add: joinParentActionRollbackFailure_def)

lemma rollbackParentAction_restores:
  assumes r: "rollback_of F r" "par_status r = status_of F" "TaskStatus_Known (status_of F)"
    and F: "F parentActionBeginStateFile = None"
    and G: "\<And>n. n \<notin> {parentActionBeginStateFile, ''task.status'', parentReviewStateFile, pending_decision} \<Longrightarrow> G n = F n"
  shows "triple (state_is G) (rollbackParentAction r cause) Q (\<lambda>e st. \<not> rollback_failed e \<longrightarrow> restored F st)"
proof -
  let ?H1 = "G(parentReviewStateFile := F parentReviewStateFile)"
  let ?H2 = "?H1(pending_decision := F pending_decision)"
  let ?H3 = "with_status ?H2 (status_of F)"
  let ?H4 = "?H3(parentActionBeginStateFile := None)"
  have snaps: "snap F parentReviewStateFile (par_review r)" "snap F pending_decision (par_pending r)"
    using r(1) by (auto simp: rollback_of_def)
  have finished: "restored F st" if "state_is ?H4 st" for st
  proof -
    have "status_of (files st) = status_of ?H4" by (rule status_of_state_is [OF that])
    also have "\<dots> = status_of (with_status ?H2 (status_of F))"
      by (simp add: status_of_def parentActionBeginStateFile_def)
    also have "\<dots> = status_of F" by (rule status_of_known [OF r(3)])
    finally show ?thesis
      using that G F by (auto simp: restored_def state_is_def)
  qed
  show ?thesis
    unfolding rollbackParentAction_def Let_def
    by (rule triple_then [OF rollback_step [OF restoreLifecycleFile_clean [OF snaps(1)]]],
        rule triple_then [OF rollback_step [OF restoreLifecycleFile_clean [OF snaps(2)]]],
        rule triple_then [OF rollback_step [OF SetTaskStatus_clean]], unfold r(2),
        rule triple_then [OF rollback_step [OF Remove_one_clean]], rule triple_throw)
      (simp add: finished)
qed

lemma begin_source_status:
  "rollback_of F r \<Longrightarrow> begin_source r \<Longrightarrow> par_status r = status_of F \<and> TaskStatus_Known (status_of F)"
  by (auto simp: rollback_of_def begin_source_def TaskStatus_Known_def task_status_defs)

definition begun :: "filemap \<Rightarrow> ParentActionRollback \<Rightarrow> store \<Rightarrow> bool" where
  "begun F r st \<longleftrightarrow> rollback_of F r \<and> begin_source r \<and> (\<exists>taskID G. review_only F G \<and>
     state_is (with_status (G(parentActionBeginStateFile \<mapsto> begin_document (begin_record taskID r))) TaskStatusActive) st)"

lemma begin_parent_action_triple:
  assumes F: "F parentActionBeginStateFile = None"
    and cmd: "\<And>G E. triple (state_is G) cmd (\<lambda>_. state_is G) E"
  shows "triple (state_is F) (begin_parent_action rt cmd outcome origin cause) (\<lambda>r. begun F r)
     (\<lambda>e st. \<not> rollback_failed e \<longrightarrow> restored F st)"
proof -
  let ?E = "\<lambda>e st. \<not> rollback_failed e \<longrightarrow> restored F st"
  have keep: "triple P m Q (\<lambda>_. state_is F) \<Longrightarrow> triple P m Q ?E" for P Q and m :: "'a sop"
    by (erule triple_weaken) (auto intro: state_is_restored)
  have tail: "triple (state_is G1) (thenE (catchE (SetTaskStatus TaskStatusActive) (rollbackParentAction r))
           (thenE cmd (thenE (catchE (RecordParentOutcome rt outcome origin cause) (rollbackParentAction r))
               (returnE r)))) (\<lambda>r. begun F r) ?E"
    if r: "rollback_of F r" "begin_source r"
      and G1: "G1 = F(parentActionBeginStateFile \<mapsto> begin_document (begin_record taskID r))" for r taskID G1
  proof -
    let ?G2 = "with_status G1 TaskStatusActive"
    note status = begin_source_status [OF r]
    have undo: "triple (state_is G) (rollbackParentAction r e) Q ?E" if "G = G1 \<or> G = ?G2" for G e Q
      by (rule rollbackParentAction_restores [OF r(1) _ _ F]) (use status that G1 in auto)
    have active: "triple (state_is G1) (catchE (SetTaskStatus TaskStatusActive) (rollbackParentAction r))
        (\<lambda>_. state_is ?G2) ?E"
      by (rule triple_catch [OF SetTaskStatus_clean], rule undo) simp
    have outcome: "triple (state_is ?G2) (catchE (RecordParentOutcome rt outcome origin cause) (rollbackParentAction r))
        (\<lambda>b. review_written ?G2 (if b then Some () else None)) ?E"
      by (rule triple_catch [OF RecordParentOutcome_clean], rule undo) simp
    have result: "triple (\<lambda>st. \<exists>b. review_written ?G2 (if b then Some () else None) st) (returnE r) (\<lambda>r. begun F r) ?E"
    proof (rule triple_return)
      fix st assume "\<exists>b. review_written ?G2 (if b then Some () else None) st"
      then obtain c where c: "state_is (?G2(parentReviewStateFile := c)) st"
        using review_written_only by (force simp: review_only_def)
      have eq: "?G2(parentReviewStateFile := c) =
          with_status ((F(parentReviewStateFile := c))(parentActionBeginStateFile \<mapsto>
            begin_document (begin_record taskID r))) TaskStatusActive"
        by (rule ext) (simp add: G1)
      have only: "review_only F (F(parentReviewStateFile := c))" by (auto simp: review_only_def)
      show "begun F r st"
        unfolding begun_def
        by (intro conjI exI [of _ taskID] exI [of _ "F(parentReviewStateFile := c)"])
          (rule r only c [unfolded eq])+
    qed
    have "triple (state_is ?G2) (thenE (catchE (RecordParentOutcome rt outcome origin cause) (rollbackParentAction r))
        (returnE r)) (\<lambda>r. begun F r) ?E"
      unfolding thenE_def
      by (rule triple_bind [OF outcome], rule triple_weaken [OF result]) blast+
    then show ?thesis
      by (intro triple_then [OF active] triple_then [OF cmd])
  qed
  show ?thesis
    unfolding begin_parent_action_def
    by (rule triple_bind [OF keep [OF snapshotParentActionRollback_clean]], rule triple_assume,
        rule triple_then [OF keep [OF saveParentActionBegin_clean]], rule triple_exists_pre, rule triple_assume,
        rule tail) simp_all
qed

lemma begin_guard_step:
  assumes "\<And>b. triple (state_is F) (k b) Q (\<lambda>e st. \<not> rollback_failed e \<longrightarrow> restored F st)"
  shows "triple (state_is F) (bindE get_TaskStatus (\<lambda>s. bindE (if c s then returnE d else Exists n) k)) Q
     (\<lambda>e st. \<not> rollback_failed e \<longrightarrow> restored F st)"
  by (rule triple_bind [OF get_TaskStatus_clean], rule triple_bind [where R = "\<lambda>_. state_is F"])
    (auto intro: triple_return Exists_clean assms)

lemma record_command_clean:
  "triple (state_is G) RecordDecision (\<lambda>_. state_is G) E" "triple (state_is G) RecordFix (\<lambda>_. state_is G) E"
  unfolding RecordDecision_def RecordFix_def by (rule UpdateTaskStats_clean)+

lemma BeginParentDecision_triple:
  "F parentActionBeginStateFile = None \<Longrightarrow>
   triple (state_is F) (BeginParentDecision rt) (\<lambda>r. begun F r) (\<lambda>e st. \<not> rollback_failed e \<longrightarrow> restored F st)"
  unfolding BeginParentDecision_def
  by (rule begin_guard_step) (auto intro: triple_throw state_is_restored
      begin_parent_action_triple record_command_clean)

lemma BeginParentFix_triple:
  "F parentActionBeginStateFile = None \<Longrightarrow>
   triple (state_is F) (BeginParentFix rt origin cause) (\<lambda>r. begun F r) (\<lambda>e st. \<not> rollback_failed e \<longrightarrow> restored F st)"
  unfolding BeginParentFix_def
  by (rule begin_guard_step) (auto intro: triple_throw state_is_restored
      begin_parent_action_triple record_command_clean)

section \<open>Recovery of an interrupted begin\<close>

text \<open>
  \<open>interrupted F\<close> describes the states in which a process may die between the first write of a
  begin transaction on \<open>F\<close> and its commit: the begin record of \<open>F\<close> is stored, the pending decision
  is that of \<open>F\<close>, and the status, the review state and the checkpoint of the next model call may
  have been written.
\<close>

definition interrupted :: "filemap \<Rightarrow> filemap \<Rightarrow> bool" where
  "interrupted F G \<longleftrightarrow> F parentActionBeginStateFile = None \<and>
     (\<exists>taskID r. rollback_of F r \<and> begin_source r \<and> G parentActionBeginStateFile = Some (begin_document (begin_record taskID r))) \<and>
     (\<forall>n. n \<notin> {parentActionBeginStateFile, ''task.status'', parentReviewStateFile, resumeStateFile} \<longrightarrow> G n = F n)"

lemma begun_interrupted:
  assumes "F parentActionBeginStateFile = None" "begun F r st"
  shows "\<exists>G. interrupted F G \<and> state_is G st"
proof -
  from assms(2) obtain taskID G where r: "rollback_of F r" "begin_source r" and G: "review_only F G"
    and st: "state_is (with_status (G(parentActionBeginStateFile \<mapsto> begin_document (begin_record taskID r))) TaskStatusActive) st"
    by (auto simp: begun_def)
  have "interrupted F (with_status (G(parentActionBeginStateFile \<mapsto> begin_document (begin_record taskID r))) TaskStatusActive)"
    using assms(1) r G by (auto simp: interrupted_def review_only_def)
  with st show ?thesis by blast
qed

lemma begin_document_inj: "begin_document r = begin_document r' \<Longrightarrow> r = (r' :: parentActionBeginRecord)"
  by (simp add: begin_document_def)

lemma loadParentActionBegin_clean:
  "triple (state_is G) loadParentActionBegin
     (\<lambda>r st. (G parentActionBeginStateFile = Some (begin_document r) \<and> validateParentActionBeginRecord r = None) \<and> state_is G st)
     (\<lambda>_. state_is G)"
  unfolding loadParentActionBegin_def
  by (rule triple_bind [OF triple_catch [OF ReadFile_content]])
    (auto simp: begin_document_def Let_def split: content.splits doc.splits
       intro!: triple_throw triple_assume triple_then [OF check_checked] triple_return)

lemma snapshotLifecycleFile_frame:
  "triple (state_is F) (snapshotLifecycleFile n) (\<lambda>_. state_is F) (\<lambda>_. state_is F)"
  by (rule triple_weaken [OF snapshotLifecycleFile_clean]) simp_all

lemma validateParentActionBeginCurrentSnapshots_clean:
  "triple (state_is G) (validateParentActionBeginCurrentSnapshots r) (\<lambda>_. state_is G) (\<lambda>_. state_is G)"
  unfolding validateParentActionBeginCurrentSnapshots_def
  by (intro triple_bind [OF snapshotLifecycleFile_frame] triple_if triple_throw triple_return
      triple_bind [OF loadParentReviewState_frame])

lemma validateParentActionBeginRecovery_clean:
  "triple (state_is G) (validateParentActionBeginRecovery r)
     (\<lambda>s st. (s = TaskStatusActive \<or> s = pab_SourceStatus r \<and> s \<in> {TaskStatusNone, status_of G}) \<and> state_is G st)
     (\<lambda>_. state_is G)"
  unfolding validateParentActionBeginRecovery_def
  by (intro triple_bind [OF TaskID_clean] triple_if triple_throw triple_bind [OF get_TaskStatus_read] triple_assume
      triple_then [OF validateParentActionBeginCurrentSnapshots_clean] triple_return) auto

lemma clearParentActionBeginResume_clean:
  "triple (state_is G) (clearParentActionBeginResume rt r)
     (\<lambda>_ st. \<exists>c. state_is (G(resumeStateFile := c)) st) (\<lambda>_. state_is G)"
proof -
  have keep: "state_is G st \<Longrightarrow> \<exists>c. state_is (G(resumeStateFile := c)) st" for st
    by (rule exI [of _ "G resumeStateFile"]) simp
  show ?thesis
    unfolding clearParentActionBeginResume_def
    by (rule triple_bind [OF attempt_frame [OF LoadResumeCheckpoint_clean]], rule triple_sum;
        intro triple_if triple_throw triple_return triple_weaken [OF ClearResumeCheckpoint_clean])
      (blast intro: keep)+
qed

lemma recovery_tail:
  assumes r: "rollback_of F rb" "begin_source rb" and F: "F parentActionBeginStateFile = None"
    and G: "\<And>n. n \<notin> {parentActionBeginStateFile, ''task.status'', parentReviewStateFile, resumeStateFile} \<Longrightarrow> G n = F n"
    and s: "s = TaskStatusActive \<or> status_of G = status_of F"
  shows "triple (state_is G) (thenE (restoreParentActionBeginSnapshots (begin_record taskID rb))
           (thenE (if s = TaskStatusActive then SetTaskStatus (par_status rb) else returnE ())
             (thenE (Remove [parentActionBeginStateFile]) (returnE (par_status rb)))))
     (\<lambda>v st. v = status_of F \<and> restored (F(resumeStateFile := G resumeStateFile)) st) (\<lambda>_ _. True)"
proof -
  let ?H = "G(parentReviewStateFile := F parentReviewStateFile, pending_decision := F pending_decision)"
  let ?S = "if s = TaskStatusActive then with_status ?H (status_of F) else ?H"
  note status = begin_source_status [OF r]
  have rest: "par_review rb = \<lparr>ls_name = parentReviewStateFile, ls_data = ls_data (par_review rb), ls_exists = ls_exists (par_review rb)\<rparr>"
    "par_pending rb = \<lparr>ls_name = pending_decision, ls_data = ls_data (par_pending rb), ls_exists = ls_exists (par_pending rb)\<rparr>"
    using r(1) by (auto simp: rollback_of_def snap_def)
  have snaps: "snap F parentReviewStateFile (par_review rb)" "snap F pending_decision (par_pending rb)"
    using r(1) by (auto simp: rollback_of_def)
  have any: "triple P m Q E \<Longrightarrow> triple P m Q (\<lambda>_ _. True)" for P Q E and m :: "'b sop"
    by (erule triple_weaken) simp_all
  have restore: "triple (state_is G) (restoreParentActionBeginSnapshots (begin_record taskID rb)) (\<lambda>_. state_is ?H) (\<lambda>_ _. True)"
    unfolding restoreParentActionBeginSnapshots_def begin_record_def parentActionSnapshotFromLifecycle_def
    by (simp add: rest [symmetric],
        rule triple_then [OF any [OF restoreLifecycleFile_clean [OF snaps(1)]] any [OF restoreLifecycleFile_clean [OF snaps(2)]]])
  have set: "triple (state_is ?H) (if s = TaskStatusActive then SetTaskStatus (par_status rb) else returnE ())
      (\<lambda>_. state_is ?S) (\<lambda>_ _. True)"
    by (rule triple_if; (rule any [OF triple_weaken [OF SetTaskStatus_clean]] triple_return; simp add: status))
  have "status_of ?S = status_of F"
  proof (cases "s = TaskStatusActive")
    case True then show ?thesis using status_of_known [OF conjunct2 [OF status]] by simp
  next
    case False then show ?thesis using s by simp
  qed
  then have final: "restored (F(resumeStateFile := G resumeStateFile)) st"
    if st: "state_is (?S(parentActionBeginStateFile := None)) st" for st
    unfolding restored_def
  proof (intro conjI allI impI)
    fix n assume n: "n \<noteq> currentStatsFile \<and> n \<noteq> ''task.status''"
    then have "files st n = (?S(parentActionBeginStateFile := None)) n" using st by (simp add: state_is_def)
    also have "\<dots> = (F(resumeStateFile := G resumeStateFile)) n" using n F G [of n] by auto
    finally show "files st n = (F(resumeStateFile := G resumeStateFile)) n" .
  next
    assume "status_of ?S = status_of F"
    then show "status_of (files st) = status_of (F(resumeStateFile := G resumeStateFile))"
      by (simp add: status_of_state_is [OF st])
  qed
  show ?thesis
    by (rule triple_then [OF restore], rule triple_then [OF set],
        rule triple_then [OF any [OF Remove_one_clean]], rule triple_return) (simp add: final status)
qed

lemma recovery_triple:
  assumes "interrupted F G"
  shows "triple (state_is G) (RecoverParentActionBeginFromState rt)
     (\<lambda>v st. v = status_of F \<and> (\<exists>c. restored (F(resumeStateFile := c)) st)) (\<lambda>_ _. True)"
proof -
  from assms obtain taskID rb where F: "F parentActionBeginStateFile = None"
    and rb: "rollback_of F rb" "begin_source rb"
    and G: "G parentActionBeginStateFile = Some (begin_document (begin_record taskID rb))"
      "\<And>n. n \<notin> {parentActionBeginStateFile, ''task.status'', parentReviewStateFile, resumeStateFile} \<Longrightarrow> G n = F n"
    unfolding interrupted_def by blast
  note status = begin_source_status [OF rb]
  have any: "triple P m Q E \<Longrightarrow> triple P m Q (\<lambda>_ _. True)" for P Q E and m :: "'b sop"
    by (erule triple_weaken) simp_all
  have tail: "triple (state_is (G(resumeStateFile := c))) (thenE (restoreParentActionBeginSnapshots r)
           (thenE (if s = TaskStatusActive then SetTaskStatus (pab_SourceStatus r) else returnE ())
             (thenE (Remove [parentActionBeginStateFile]) (returnE (pab_SourceStatus r)))))
       (\<lambda>v st. v = status_of F \<and> (\<exists>c. restored (F(resumeStateFile := c)) st)) (\<lambda>_ _. True)"
    if r: "G parentActionBeginStateFile = Some (begin_document r)"
      and s: "s = TaskStatusActive \<or> s = pab_SourceStatus r \<and> s \<in> {TaskStatusNone, status_of G}" for r s c
  proof -
    have r: "r = begin_record taskID rb" using r G(1) by (auto dest: begin_document_inj)
    have src: "pab_SourceStatus r = par_status rb" by (simp add: r begin_record_def)
    have "s = TaskStatusActive \<or> status_of (G(resumeStateFile := c)) = status_of F"
      using s status src rb(2) by (auto simp: begin_source_def task_status_defs)
    then show ?thesis
      unfolding src unfolding r
      by (intro triple_weaken [OF recovery_tail [OF rb F, of "G(resumeStateFile := c)" s taskID]]) (use G(2) in auto)
  qed
  show ?thesis
    unfolding RecoverParentActionBeginFromState_def
    by (rule triple_bind [OF any [OF loadParentActionBegin_clean]], rule triple_assume,
        rule triple_bind [OF any [OF validateParentActionBeginRecovery_clean]], rule triple_assume,
        rule triple_then [OF any [OF clearParentActionBeginResume_clean]], rule triple_exists_pre, rule tail) simp_all
qed

lemma validateParentActionBeginCurrentSnapshots_runs:
  assumes pending: "G pending_decision \<noteq> Some Directory" "sameParentActionSnapshot (snapshot_of G pending_decision) (pab_Pending r)"
    and dirs: "G parentReviewStateFile \<noteq> Some Directory"
    and task: "G ''task.id'' = Some c" "c \<noteq> Directory" "trim_space (text_of c) = pab_TaskID r" "pab_TaskID r \<noteq> []"
    and review: "sameParentActionSnapshot (snapshot_of G parentReviewStateFile) (pab_Review r) \<or>
      fst (pab_Review r) \<and> (\<exists>s. G parentReviewStateFile = Some (Doc (ReviewD s)) \<and> decodeParentReviewState s = Inr s \<and>
        prs_TaskID s = pab_TaskID r \<and> prs_Open s = None \<and> prs_Review s = None)"
  shows "triple (calm G) (validateParentActionBeginCurrentSnapshots r) (\<lambda>_. calm G) never"
proof -
  have read: "triple (calm G) (snapshotLifecycleFile n) (\<lambda>s st. s = snapshot_of G n \<and> calm G st) never"
    if "n = pending_decision \<or> n = parentReviewStateFile" for n
    using that pending(1) dirs by (elim disjE) (simp_all add: snapshotLifecycleFile_runs)
  let ?tail = "\<lambda>v. if sameParentActionSnapshot v (pab_Review r) then returnE ()
         else if \<not> ls_exists v \<or> \<not> fst (pab_Review r)
         then throwE (Errorf ''parent action recovery review state no longer matches the begin transaction'' [])
         else bindE loadParentReviewState (\<lambda>current.
           if prs_Open current \<noteq> None \<or> prs_Review current \<noteq> None
           then throwE (Errorf ''parent action recovery review state no longer matches the begin transaction'' [])
           else returnE ())"
  have tail: "triple (calm G) (?tail (snapshot_of G parentReviewStateFile)) (\<lambda>_. calm G) never"
  proof (cases "sameParentActionSnapshot (snapshot_of G parentReviewStateFile) (pab_Review r)")
    case True then show ?thesis by (simp add: triple_return)
  next
    case False
    with review obtain s where s: "fst (pab_Review r)" "G parentReviewStateFile = Some (Doc (ReviewD s))"
      "decodeParentReviewState s = Inr s" "prs_TaskID s = pab_TaskID r" "prs_Open s = None" "prs_Review s = None"
      by blast
    have load: "triple (calm G) loadParentReviewState (\<lambda>v st. v = s \<and> calm G st) never"
      by (rule loadParentReviewState_runs [of G, OF s(2,3) task(1,2)]) (use s(4) task in simp_all)
    have "ls_exists (snapshot_of G parentReviewStateFile)" by (simp add: snapshot_of_def s(2))
    with False s(1) have "?tail (snapshot_of G parentReviewStateFile) = bindE loadParentReviewState (\<lambda>current.
           if prs_Open current \<noteq> None \<or> prs_Review current \<noteq> None
           then throwE (Errorf ''parent action recovery review state no longer matches the begin transaction'' [])
           else returnE ())" by simp
    then show ?thesis
      by (simp only:) (rule triple_bind [OF load], rule triple_assume, use s(5,6) in \<open>simp add: triple_return\<close>)
  qed
  have "triple (calm G) (bindE (snapshotLifecycleFile parentReviewStateFile) ?tail) (\<lambda>_. calm G) never"
    by (rule triple_bind [OF read], simp, rule triple_assume, simp only: tail)
  then show ?thesis
    unfolding validateParentActionBeginCurrentSnapshots_def
    by (intro triple_bind [OF read] triple_assume) (simp_all add: pending(2))
qed

lemma begin_record_eta [simp]:
  "\<lparr>pab_Version = pab_Version r, pab_TaskID = pab_TaskID r, pab_SourceStatus = pab_SourceStatus r,
     pab_Pending = pab_Pending r, pab_Review = pab_Review r\<rparr> = r"
  by simp

lemma loadParentActionBegin_runs:
  assumes "G parentActionBeginStateFile = Some (begin_document r)" "validateParentActionBeginRecord r = None"
  shows "triple (calm G) loadParentActionBegin (\<lambda>v st. v = r \<and> calm G st) never"
  unfolding loadParentActionBegin_def
proof (rule triple_bind [OF triple_catch [OF ReadFile_runs [of _ G, OF _ assms(1)]]], goal_cases)
  case (4 v)
  then show ?case
    by (rule triple_assume) (use assms(2) in \<open>auto simp: begin_document_def Let_def check_def triple_def
      thenE_def bindE_def returnE_def\<close>)
qed (auto simp: begin_document_def intro: triple_throw)

text \<open>
  The checkpoint that recovery may discard is the one of the worker call that the action was about to
  make: not stopped, without a result, of the phase that belongs to the recorded source.
\<close>

definition discardable :: "parentActionBeginRecord \<Rightarrow> ResumeCheckpoint \<Rightarrow> bool" where
  "discardable r c \<longleftrightarrow> \<not> checkpoint_IsStopped c \<and> rc_CompletedResult c = None \<and> \<not> rc_QualitySurfaceApprovalPending c \<and>
     rc_Stage c = ResumeStageWorker \<and> rc_Role c = WorkerRole \<and>
     WorkerPhaseCategory (rc_Phase c) = (if pab_SourceStatus r = TaskStatusWaitingDecision then WorkerPhaseCategoryDecision
       else WorkerPhaseCategoryExplicitFix)"

text \<open>
  \<open>recoverable rt F r\<close>: the files \<open>F\<close> still belong to the begin record \<open>r\<close>. The task is the recorded one,
  its status the recorded source or active; the pending decision is the recorded one; the review state
  is the recorded one or has been closed by the action; and there is no checkpoint but one that may be
  discarded.
\<close>

definition closed_review :: "filemap \<Rightarrow> parentActionBeginRecord \<Rightarrow> bool" where
  "closed_review F r \<longleftrightarrow> fst (pab_Review r) \<and> (case F parentReviewStateFile of
     Some (Doc (ReviewD s)) \<Rightarrow> decodeParentReviewState s = Inr s \<and> prs_TaskID s = pab_TaskID r \<and> prs_Open s = None \<and> prs_Review s = None
   | _ \<Rightarrow> False)"

definition no_later_checkpoint :: "go_runtime \<Rightarrow> filemap \<Rightarrow> parentActionBeginRecord \<Rightarrow> bool" where
  "no_later_checkpoint rt F r \<longleftrightarrow> (case F resumeStateFile of
     None \<Rightarrow> True
   | Some (Doc (CheckpointD d)) \<Rightarrow> (case decode_checkpoint rt d of Inl _ \<Rightarrow> False | Inr c \<Rightarrow> discardable r c)
   | _ \<Rightarrow> False)"

definition recoverable :: "go_runtime \<Rightarrow> filemap \<Rightarrow> parentActionBeginRecord \<Rightarrow> bool" where
  "recoverable rt F r \<longleftrightarrow> task_of F = pab_TaskID r \<and> status_of F \<in> {TaskStatusActive, pab_SourceStatus r} \<and>
     sameParentActionSnapshot (snapshot_of F pending_decision) (pab_Pending r) \<and>
     (sameParentActionSnapshot (snapshot_of F parentReviewStateFile) (pab_Review r) \<or> closed_review F r) \<and>
     no_later_checkpoint rt F r"

text \<open>No validator of a stored checkpoint reports that there is none.\<close>

lemma stop_state_error: "validateStopState rt c = Some e \<Longrightarrow> e \<noteq> NoResumeCheckpoint"
proof -
  assume "validateStopState rt c = Some e"
  then have "Some e \<in> {if rc_SummaryRecovered c then validateSummaryRecoveryStop rt c else None,
      if \<not> stop_Valid (rc_StopKind c) then Some (Errorf ''unknown resume stop kind'' [rc_StopKind c]) else None,
      validateQualitySurfaceApprovalStop c, validateRateLimitStopPayload rt c, validateProviderStopPayload c,
      validateGuardStopPayload c, validateQualityGateStopPayload c}"
    unfolding validateStopState_def by (auto split: option.splits if_splits)
  moreover have "validateSummaryRecoveryStop rt c \<noteq> Some NoResumeCheckpoint"
    by (simp add: validateSummaryRecoveryStop_def split: option.split)
  moreover have "validateQualitySurfaceApprovalStop c \<noteq> Some NoResumeCheckpoint"
    by (simp add: validateQualitySurfaceApprovalStop_def)
  moreover have "validateRateLimitStopPayload rt c \<noteq> Some NoResumeCheckpoint"
    by (simp add: validateRateLimitStopPayload_def)
  moreover have "validateProviderStopPayload c \<noteq> Some NoResumeCheckpoint"
    by (simp add: validateProviderStopPayload_def)
  moreover have "validateGuardStopPayload c \<noteq> Some NoResumeCheckpoint"
    by (simp add: validateGuardStopPayload_def Let_def)
  moreover have "validateQualityGateStopPayload c \<noteq> Some NoResumeCheckpoint"
    by (simp add: validateQualityGateStopPayload_def)
  ultimately show ?thesis by (auto split: if_splits)
qed

lemma decode_checkpoint_error: "decode_checkpoint rt d = Inl e \<Longrightarrow> e \<noteq> NoResumeCheckpoint"
  by (auto simp: decode_checkpoint_def Let_def validateResumePersistedKeys_def dest: stop_state_error split: if_splits option.splits)

lemma clearParentActionBeginResume_runs:
  assumes "no_later_checkpoint rt G r"
  shows "triple (calm G) (clearParentActionBeginResume rt r) (\<lambda>_. calm (G(resumeStateFile := None))) never"
proof (rule triple_pre)
  fix st assume st: "calm G st"
  consider "G resumeStateFile = None"
    | d c where "G resumeStateFile = Some (Doc (CheckpointD d))" "decode_checkpoint rt d = Inr c" "discardable r c"
    using assms by (auto simp: no_later_checkpoint_def split: option.splits content.splits doc.splits sum.splits)
  then show "triple (\<lambda>st'. st' = st) (clearParentActionBeginResume rt r) (\<lambda>_. calm (G(resumeStateFile := None))) never"
  proof cases
    case 1
    then have "G(resumeStateFile := None) = G" by (simp add: fun_eq_iff)
    moreover have "clearParentActionBeginResume rt r st = (Inr (), tick st)"
      using 1 st by (simp add: clearParentActionBeginResume_def LoadResumeCheckpoint_def run_defs calm_fault calm_files)
    ultimately show ?thesis using st by (simp add: triple_def)
  next
    case 2
    have "LoadResumeCheckpoint rt st = (Inr c, tick st)"
      using 2(1,2) st by (simp add: LoadResumeCheckpoint_def run_defs calm_fault calm_files)
    then have "clearParentActionBeginResume rt r st = ClearResumeCheckpoint (tick st)"
      using 2(3) by (simp add: clearParentActionBeginResume_def attempt_def bindE_def discardable_def del: if_split)
    moreover have "triple (calm G) ClearResumeCheckpoint (\<lambda>_. calm (G(resumeStateFile := None))) never"
      unfolding ClearResumeCheckpoint_def by (rule Remove_one_runs) (use 2(1) in auto)
    ultimately show ?thesis using st by (simp add: triple_def)
  qed
qed

text \<open>Conversely, what recovery checks before it changes a file.\<close>

lemma snapshot_value:
  assumes "n \<noteq> currentStatsFile" "F n \<noteq> Some Directory"
  shows "triple (state_is F) (snapshotLifecycleFile n) (\<lambda>s st. s = snapshot_of F n \<and> state_is F st) (\<lambda>_. state_is F)"
proof (rule tripleI)
  fix st s st' assume st: "state_is F st" and run: "snapshotLifecycleFile n st = (Inr s, st')"
  have "state_is F st'" by (rule triple_InrD [OF snapshotLifecycleFile_frame st run])
  moreover have "files st n = F n" using st assms(1) by (simp add: state_is_def)
  ultimately show "s = snapshot_of F n \<and> state_is F st'"
    using run assms(2) by (auto simp: snapshotLifecycleFile_def snapshot_of_def run_defs split: if_splits option.splits content.splits)
qed (rule triple_InlD [OF snapshotLifecycleFile_frame])

lemma loaded_review:
  "triple (state_is F) loadParentReviewState
     (\<lambda>s st. (F parentReviewStateFile = Some (Doc (ReviewD s)) \<and> decodeParentReviewState s = Inr s \<and> prs_TaskID s = task_of F) \<and>
        state_is F st) (\<lambda>_. state_is F)"
proof -
  have "triple (state_is F) (review_for_task raw)
      (\<lambda>s st. (s = raw \<and> decodeParentReviewState s = Inr s \<and> prs_TaskID s = task_of F) \<and> state_is F st) (\<lambda>_. state_is F)" for raw
    unfolding review_for_task_def
  proof (rule triple_bind)
    show "triple (state_is F) (of_result (decodeParentReviewState raw))
        (\<lambda>s st. (s = raw \<and> decodeParentReviewState s = Inr s) \<and> state_is F st) (\<lambda>_. state_is F)"
      by (rule triple_of_result) (auto dest: decodeParentReviewState_same)
  qed (rule triple_assume, rule triple_bind [OF TaskID_task], rule triple_assume, auto intro!: triple_throw triple_return)
  note review = triple_weaken [OF this]
  show ?thesis
    unfolding loadParentReviewState_def
    by (rule triple_bind [OF ReadFile_content], simp, rule triple_assume)
      (auto split: content.split doc.split intro!: triple_throw review)
qed

lemma current_snapshots_checked:
  assumes "F pending_decision \<noteq> Some Directory" "F parentReviewStateFile \<noteq> Some Directory" "task_of F = pab_TaskID r"
  shows "triple (state_is F) (validateParentActionBeginCurrentSnapshots r)
     (\<lambda>_ st. (sameParentActionSnapshot (snapshot_of F pending_decision) (pab_Pending r) \<and>
        (sameParentActionSnapshot (snapshot_of F parentReviewStateFile) (pab_Review r) \<or> closed_review F r)) \<and> state_is F st)
     (\<lambda>_. state_is F)"
proof -
  have read: "triple (state_is F) (snapshotLifecycleFile n) (\<lambda>s st. s = snapshot_of F n \<and> state_is F st) (\<lambda>_. state_is F)"
    if "n = pending_decision \<or> n = parentReviewStateFile" for n
    using that assms(1,2) by (intro snapshot_value) (auto simp: parentReviewStateFile_def currentStatsFile_def)
  show ?thesis
    unfolding validateParentActionBeginCurrentSnapshots_def
    by (rule triple_bind [OF read], simp, rule triple_assume, rule triple_if, rule triple_throw, assumption,
        rule triple_bind [OF read], simp, rule triple_assume, rule triple_if, rule triple_return, simp,
        rule triple_if, rule triple_throw, assumption, rule triple_bind [OF loaded_review], rule triple_assume,
        rule triple_if, rule triple_throw, assumption, rule triple_return)
      (use assms(3) in \<open>auto simp: closed_review_def\<close>)
qed

lemma recovery_validated:
  assumes "F pending_decision \<noteq> Some Directory" "F parentReviewStateFile \<noteq> Some Directory"
    and "validateParentActionBeginRecord r = None"
  shows "triple (state_is F) (validateParentActionBeginRecovery r)
     (\<lambda>_ st. (task_of F = pab_TaskID r \<and> status_of F \<in> {TaskStatusActive, pab_SourceStatus r} \<and>
        sameParentActionSnapshot (snapshot_of F pending_decision) (pab_Pending r) \<and>
        (sameParentActionSnapshot (snapshot_of F parentReviewStateFile) (pab_Review r) \<or> closed_review F r)) \<and> state_is F st)
     (\<lambda>_. state_is F)"
proof -
  have source: "pab_SourceStatus r \<noteq> TaskStatusNone" "TaskStatusActive \<noteq> TaskStatusNone"
    using assms(3) by (auto simp: validateParentActionBeginRecord_def validateParentActionBeginSource_def task_status_defs split: if_splits option.splits)
  show ?thesis
    unfolding validateParentActionBeginRecovery_def
    by (rule triple_bind [OF TaskID_task], rule triple_assume, rule triple_if, rule triple_throw, assumption,
        rule triple_bind [OF get_TaskStatus_read], rule triple_assume, rule triple_if, rule triple_throw, assumption,
        rule triple_then [OF current_snapshots_checked [OF assms(1,2)]], simp, rule triple_assume, rule triple_return)
      (use source in auto)
qed

lemma checkpoint_discarded:
  assumes "F resumeStateFile \<noteq> Some Directory"
  shows "triple (state_is F) (clearParentActionBeginResume rt r) (\<lambda>_ _. no_later_checkpoint rt F r) (\<lambda>_ _. True)"
proof (rule tripleI)
  fix st v st' assume st: "state_is F st" and run: "clearParentActionBeginResume rt r st = (Inr v, st')"
  have "files st resumeStateFile = F resumeStateFile"
    using st by (simp add: state_is_def resumeStateFile_def currentStatsFile_def)
  with run assms show "no_later_checkpoint rt F r"
    by (auto simp: clearParentActionBeginResume_def LoadResumeCheckpoint_def run_defs no_later_checkpoint_def discardable_def
        dest: decode_checkpoint_error split: if_splits option.splits content.splits doc.splits sum.splits)
qed simp

lemma recovery_requires:
  assumes "F parentActionBeginStateFile = Some (begin_document r)" "validateParentActionBeginRecord r = None"
    and "\<And>n. n \<in> {pending_decision, parentReviewStateFile, resumeStateFile} \<Longrightarrow> F n \<noteq> Some Directory"
  shows "triple (state_is F) (RecoverParentActionBeginFromState rt) (\<lambda>_ _. recoverable rt F r) (\<lambda>_ _. True)"
proof -
  have any: "triple P m Q E \<Longrightarrow> triple P m Q (\<lambda>_ _. True)" for P Q E and m :: "'b sop"
    by (erule triple_weaken) simp_all
  have rest: "triple (\<lambda>_. C) (m :: 'b sop) (\<lambda>_ _. C) (\<lambda>_ _. True)" for C m
    by (simp add: triple_def split: prod.split sum.split)
  show ?thesis
    unfolding RecoverParentActionBeginFromState_def
  proof (rule triple_bind [OF any [OF loadParentActionBegin_clean]], rule triple_assume, goal_cases)
    case (1 q)
    then have q: "q = r" using assms(1) by (auto dest: begin_document_inj)
    show ?case
      unfolding q
      by (rule triple_bind [OF any [OF recovery_validated]], simp add: assms(3), simp add: assms(3), rule assms(2),
          rule triple_assume, rule triple_then [OF checkpoint_discarded], simp add: assms(3), rule triple_weaken [OF rest])
        (auto simp: recoverable_def)
  qed
qed

section \<open>The properties of the begin transaction\<close>

text \<open>
  C15. A parent decision or fix that cannot be begun leaves no trace of the attempt: in a state
  directory without the record of an earlier begin, for every pattern of file system faults, if
  \<open>BeginParentDecision\<close> or \<open>BeginParentFix\<close> fails and does not report a failed rollback, then every
  file but the statistics has its old content and the recorded status is the old one. (An earlier
  record can be lost: when the test for it fails, it counts as absent, and the record that is written
  in its place is removed again.)
\<close>

theorem begin_failure_restores:
  assumes "files st parentActionBeginStateFile = None"
    and "begin' \<in> {BeginParentDecision rt, BeginParentFix rt origin cause}"
    and "begin' st = (Inl e, st')" "\<not> rollback_failed e"
  shows "(\<forall>n. n \<noteq> currentStatsFile \<and> n \<noteq> ''task.status'' \<longrightarrow> files st' n = files st n) \<and>
    status_of (files st') = status_of (files st)"
proof -
  have "triple (state_is (files st)) begin' (\<lambda>r. begun (files st) r)
      (\<lambda>e st'. \<not> rollback_failed e \<longrightarrow> restored (files st) st')"
    using assms(1,2) BeginParentDecision_triple BeginParentFix_triple by auto
  from triple_InlD [OF this state_is_self assms(3)] assms(4) show ?thesis
    by (simp add: restored_def)
qed

definition waiting_store :: "(nat \<Rightarrow> bool) \<Rightarrow> store" where
  "waiting_store faults = \<lparr>files = [''task.status'' \<mapsto> Text (''waiting-decision'' @ [CHR 0x0A]), ''task.id'' \<mapsto> Text ''t1'',
     ''pending-decision'' \<mapsto> Text ''1''], listing = [''pending-decision'', ''task.id'', ''task.status''], access = 0, fault = faults, now = 7, lifecycle_log = [], outcome_log = []\<rparr>"

theorem begin_failure_restores_witness:
  "\<exists>e st'. BeginParentDecision sample_runtime (waiting_store (\<lambda>n. n = 9)) = (Inl e, st') \<and> \<not> rollback_failed e \<and>
     files st' ''pending-decision'' = Some (Text ''1'') \<and> status_of (files st') = TaskStatusWaitingDecision"
proof -
  obtain e st' where run: "BeginParentDecision sample_runtime (waiting_store (\<lambda>n. n = 9)) = (Inl e, st')"
      "\<not> rollback_failed e"
  proof -
    have "case fst (BeginParentDecision sample_runtime (waiting_store (\<lambda>n. n = 9))) of Inl e \<Rightarrow> \<not> rollback_failed e | Inr _ \<Rightarrow> False"
      by code_simp
    then show thesis
      using that by (cases "BeginParentDecision sample_runtime (waiting_store (\<lambda>n. n = 9))") (auto split: sum.splits)
  qed
  have "files (waiting_store (\<lambda>n. n = 9)) parentActionBeginStateFile = None"
    by (simp add: waiting_store_def parentActionBeginStateFile_def)
  from begin_failure_restores [of _ "BeginParentDecision sample_runtime", OF this _ run, of sample_runtime "[]" "[]"]
  have "files st' ''pending-decision'' = files (waiting_store (\<lambda>n. n = 9)) ''pending-decision''"
    "status_of (files st') = status_of (files (waiting_store (\<lambda>n. n = 9)))" by simp_all
  moreover have "status_of (files (waiting_store (\<lambda>n. n = 9))) = TaskStatusWaitingDecision" by code_simp
  ultimately show ?thesis using run by (simp add: waiting_store_def)
qed

text \<open>
  C16. A process that dies after a parent action has begun loses nothing: let \<open>BeginParentDecision\<close>
  or \<open>BeginParentFix\<close> succeed, and let the process stop at any later point at which at most a
  checkpoint was saved. When \<open>RecoverParentActionBeginFromState\<close> returns, it returns the status of
  the waiting task, that status is recorded again, and every file but the statistics and the
  checkpoint has the content from before the action: the open review and the pending decision are
  back and the begin record is gone.
\<close>

theorem begin_recover_restores:
  assumes "files st parentActionBeginStateFile = None"
    and "begin' \<in> {BeginParentDecision rt, BeginParentFix rt origin cause}"
    and "begin' st = (Inr r, st1)"
    and "\<forall>n. n \<noteq> resumeStateFile \<and> n \<noteq> currentStatsFile \<longrightarrow> files st2 n = files st1 n"
    and "RecoverParentActionBeginFromState rt st2 = (Inr s, st3)"
  shows "s = status_of (files st) \<and> status_of (files st3) = status_of (files st) \<and>
    (\<forall>n. n \<notin> {currentStatsFile, ''task.status'', resumeStateFile} \<longrightarrow> files st3 n = files st n)"
proof -
  let ?F = "files st"
  have "triple (state_is ?F) begin' (\<lambda>r. begun ?F r) (\<lambda>e st'. \<not> rollback_failed e \<longrightarrow> restored ?F st')"
    using assms(1,2) BeginParentDecision_triple BeginParentFix_triple by auto
  from triple_InrD [OF this state_is_self assms(3)] have "begun ?F r st1" .
  then obtain G where G: "interrupted ?F G" "state_is G st1"
    using begun_interrupted [of ?F, OF assms(1)] by blast
  let ?G = "G(resumeStateFile := files st2 resumeStateFile)"
  have "interrupted ?F ?G" "state_is ?G st2"
    using G assms(4) by (auto simp: interrupted_def state_is_def)
  from triple_InrD [OF recovery_triple [OF this(1)] this(2) assms(5)]
  show ?thesis by (auto simp: restored_def)
qed

definition reviewed_store :: store where
  "reviewed_store = (waiting_store (\<lambda>_. False))\<lparr>files := (files (waiting_store (\<lambda>_. False)))
     (''parent-review-state.json'' \<mapsto> Doc (ReviewD \<lparr>prs_Version = 1, prs_TaskID = ''t1'',
        prs_Open = Some \<lparr>pro_PacketStatus = ''NEEDS_SOL_DECISION'', pro_Role = ''worker'', pro_ModelAlias = ''m'', pro_Risk = ''low''\<rparr>,
        prs_Review = None, prs_Completion = None\<rparr>))\<rparr>"

theorem begin_recover_restores_witness:
  "\<exists>r st1 s st3. BeginParentDecision sample_runtime reviewed_store = (Inr r, st1) \<and>
     RecoverParentActionBeginFromState sample_runtime st1 = (Inr s, st3) \<and> s = TaskStatusWaitingDecision \<and>
     files st3 parentReviewStateFile = files reviewed_store parentReviewStateFile \<and>
     files st3 parentActionBeginStateFile = None"
proof -
  let ?st1 = "snd (BeginParentDecision sample_runtime reviewed_store)"
  have "case fst (BeginParentDecision sample_runtime reviewed_store) of Inl _ \<Rightarrow> False | Inr _ \<Rightarrow> True"
    "case fst (RecoverParentActionBeginFromState sample_runtime ?st1) of Inl _ \<Rightarrow> False | Inr _ \<Rightarrow> True"
    by code_simp+
  then obtain r s st3 where run: "BeginParentDecision sample_runtime reviewed_store = (Inr r, ?st1)"
    "RecoverParentActionBeginFromState sample_runtime ?st1 = (Inr s, st3)"
    by (cases "fst (BeginParentDecision sample_runtime reviewed_store)";
        cases "RecoverParentActionBeginFromState sample_runtime ?st1")
      (auto simp: prod_eq_iff split: sum.splits)
  have fresh: "files reviewed_store parentActionBeginStateFile = None"
    by (simp add: reviewed_store_def waiting_store_def parentActionBeginStateFile_def)
  have "s = status_of (files reviewed_store) \<and> status_of (files st3) = status_of (files reviewed_store) \<and>
    (\<forall>n. n \<notin> {currentStatsFile, ''task.status'', resumeStateFile} \<longrightarrow> files st3 n = files reviewed_store n)"
    by (rule begin_recover_restores [of _ "BeginParentDecision sample_runtime" sample_runtime "[]" "[]" r ?st1 ?st1])
      (use fresh run in auto)
  moreover have "status_of (files reviewed_store) = TaskStatusWaitingDecision" by code_simp
  ultimately show ?thesis
    by (intro exI [of _ r] exI [of _ ?st1] exI [of _ s] exI [of _ st3] conjI run) (simp_all add: fresh)
qed

lemma recovery_returns:
  assumes calm: "\<forall>n. \<not> fault st n"
    and record': "files st parentActionBeginStateFile = Some (begin_document r)" "validateParentActionBeginRecord r = None"
    and files': "\<And>n. n \<in> {''task.id'', ''task.status'', pending_decision, parentReviewStateFile} \<Longrightarrow> files st n \<noteq> Some Directory"
    and rec: "recoverable rt (files st) r"
  shows "\<exists>st'. RecoverParentActionBeginFromState rt st = (Inr (pab_SourceStatus r), st')"
proof -
  let ?G = "files st" and ?R = "(files st)(resumeStateFile := None)"
  have named: "pab_TaskID r \<noteq> []"
    using record'(2) by (auto simp: validateParentActionBeginRecord_def split: if_splits option.splits)
  with rec files' obtain c where task: "?G ''task.id'' = Some c" "c \<noteq> Directory" "trim_space (text_of c) = pab_TaskID r"
    by (auto simp: recoverable_def task_of_def split: option.splits)
  have dirs: "?G ''task.status'' \<noteq> Some Directory" "?G pending_decision \<noteq> Some Directory" "?G parentReviewStateFile \<noteq> Some Directory"
    using files' by auto
  have pending: "sameParentActionSnapshot (snapshot_of ?G pending_decision) (pab_Pending r)" using rec by (simp add: recoverable_def)
  have review: "sameParentActionSnapshot (snapshot_of ?G parentReviewStateFile) (pab_Review r) \<or>
       fst (pab_Review r) \<and> (\<exists>s. ?G parentReviewStateFile = Some (Doc (ReviewD s)) \<and> decodeParentReviewState s = Inr s \<and>
         prs_TaskID s = pab_TaskID r \<and> prs_Open s = None \<and> prs_Review s = None)"
    using rec by (auto simp: recoverable_def closed_review_def split: option.splits content.splits doc.splits)
  have valid: "triple (calm ?G) (validateParentActionBeginRecovery r) (\<lambda>s st. s = status_of ?G \<and> calm ?G st) never"
    unfolding validateParentActionBeginRecovery_def
    by (rule triple_bind [OF TaskID_runs [of ?G, OF task named]], rule triple_assume, simp,
        rule triple_bind [OF get_TaskStatus_runs [of ?G, OF dirs(1)]], rule triple_assume)
      (use rec in \<open>auto simp: recoverable_def intro!: triple_return triple_then [OF validateParentActionBeginCurrentSnapshots_runs
         [of ?G, OF dirs(2) pending dirs(3) task named review]]\<close>)
  let ?H = "?R(parentReviewStateFile := (if fst (pab_Review r) then Some (snd (pab_Review r)) else None))"
  let ?I = "?H(pending_decision := (if fst (pab_Pending r) then Some (snd (pab_Pending r)) else None))"
  have clear: "triple (calm ?G) (clearParentActionBeginResume rt r) (\<lambda>_. calm ?R) never"
    using rec by (intro clearParentActionBeginResume_runs) (simp add: recoverable_def)
  have restore: "triple (calm ?R) (restoreParentActionBeginSnapshots r) (\<lambda>_. calm ?I) never"
    unfolding restoreParentActionBeginSnapshots_def
    by (rule triple_then [OF restoreLifecycleFile_runs restoreLifecycleFile_runs]) (use dirs in simp_all)
  have set: "triple (calm ?I) (if status_of ?G = TaskStatusActive then SetTaskStatus (pab_SourceStatus r) else returnE ())
      (\<lambda>_ st. \<exists>J. J parentActionBeginStateFile = Some (begin_document r) \<and> calm J st) never"
  proof -
    have I: "?I parentActionBeginStateFile = Some (begin_document r)" "?I ''task.status'' \<noteq> Some Directory"
      using record'(1) dirs(1) by (simp_all add: parentReviewStateFile_def parentActionBeginStateFile_def resumeStateFile_def)
    then have "with_status ?I (pab_SourceStatus r) parentActionBeginStateFile = Some (begin_document r)"
      by (simp add: parentActionBeginStateFile_def)
    then show ?thesis
      by (intro triple_if triple_weaken [OF SetTaskStatus_runs [of ?I, OF I(2)]] triple_return) (use I(1) in blast)+
  qed
  have remove: "triple (\<lambda>st. \<exists>J. J parentActionBeginStateFile = Some (begin_document r) \<and> calm J st)
      (Remove [parentActionBeginStateFile]) (\<lambda>_ _. True) never"
    by (rule triple_exists_pre, rule triple_assume, rule triple_weaken [OF Remove_one_runs])
      (auto simp: begin_document_def)
  have "triple (calm ?G) (RecoverParentActionBeginFromState rt) (\<lambda>v _. v = pab_SourceStatus r) never"
    unfolding RecoverParentActionBeginFromState_def
    by (rule triple_bind [OF loadParentActionBegin_runs [of ?G, OF record']], rule triple_assume, simp only:,
        rule triple_bind [OF valid], rule triple_assume, simp only:, rule triple_then [OF clear],
        rule triple_then [OF restore], rule triple_then [OF set], rule triple_then [OF remove], rule triple_return) simp
  from calm_returns [OF this, of st] calm show ?thesis
    by (auto simp: calm_def state_is_self)
qed

text \<open>
  C17. Recovery of a begun parent action succeeds exactly when the state directory still belongs to the
  action: where no file system fault occurs, a valid begin record is stored and none of the files
  involved is a directory, \<open>RecoverParentActionBeginFromState\<close> returns the recorded source status if the
  task is the recorded one, its status is the recorded source or active, the pending decision is the
  recorded one, the review state is the recorded one or has been closed by the action, and there is no
  checkpoint, or only the one of the worker call that the action was about to make (not stopped,
  without a result or a pending approval, of the phase of that source); and it fails in every other
  case.
\<close>

theorem recovery_iff:
  assumes "\<forall>n. \<not> fault st n"
    and "files st parentActionBeginStateFile = Some (begin_document r)" "validateParentActionBeginRecord r = None"
    and "\<forall>n\<in>{''task.id'', ''task.status'', pending_decision, parentReviewStateFile, resumeStateFile}. files st n \<noteq> Some Directory"
  shows "case RecoverParentActionBeginFromState rt st of
      (Inr s, st') \<Rightarrow> recoverable rt (files st) r \<and> s = pab_SourceStatus r
    | (Inl e, st') \<Rightarrow> \<not> recoverable rt (files st) r"
proof (cases "recoverable rt (files st) r")
  case True
  then obtain st' where "RecoverParentActionBeginFromState rt st = (Inr (pab_SourceStatus r), st')"
    using recovery_returns [OF assms(1-3), of rt] assms(4) by auto
  with True show ?thesis by simp
next
  case False
  have "triple (state_is (files st)) (RecoverParentActionBeginFromState rt) (\<lambda>_ _. recoverable rt (files st) r) (\<lambda>_ _. True)"
    using assms(4) by (intro recovery_requires [of "files st" r, OF assms(2,3)]) auto
  from triple_InrD [OF this state_is_self] False show ?thesis
    by (auto split: prod.split sum.split)
qed

definition sample_begin :: parentActionBeginRecord where
  "sample_begin = \<lparr>pab_Version = 1, pab_TaskID = ''t1'', pab_SourceStatus = ''waiting-decision'',
     pab_Pending = (True, Text ''1''), pab_Review = (False, Text [])\<rparr>"

definition begun_store :: store where
  "begun_store = (waiting_store (\<lambda>_. False))\<lparr>files := [''task.status'' \<mapsto> Text ''active'', ''task.id'' \<mapsto> Text ''t1'',
     ''pending-decision'' \<mapsto> Text ''1'', ''parent-action-begin.json'' \<mapsto> begin_document sample_begin]\<rparr>"

text \<open>The same store with a checkpoint of an approval that waits for the parent.\<close>

definition approval_store :: store where
  "approval_store = begun_store\<lparr>files := (files begun_store)(resumeStateFile \<mapsto>
     saved_checkpoint (sample_checkpoint\<lparr>rc_QualitySurfaceApprovalPending := True\<rparr>))\<rparr>"

theorem recovery_iff_witness:
  "(\<exists>st'. RecoverParentActionBeginFromState sample_runtime begun_store = (Inr TaskStatusWaitingDecision, st')) \<and>
   (\<exists>e st'. RecoverParentActionBeginFromState sample_runtime approval_store = (Inl e, st'))"
proof -
  have valid: "validateParentActionBeginRecord sample_begin = None" by code_simp
  have yes: "recoverable sample_runtime (files begun_store) sample_begin" by code_simp
  have no: "\<not> recoverable sample_runtime (files approval_store) sample_begin" by code_simp
  have source: "pab_SourceStatus sample_begin = TaskStatusWaitingDecision" by (simp add: sample_begin_def TaskStatusWaitingDecision_def)
  note stores = begun_store_def approval_store_def waiting_store_def parentActionBeginStateFile_def parentReviewStateFile_def
    resumeStateFile_def saved_checkpoint_def
  have 1: "case RecoverParentActionBeginFromState sample_runtime begun_store of
      (Inr s, st') \<Rightarrow> recoverable sample_runtime (files begun_store) sample_begin \<and> s = pab_SourceStatus sample_begin
    | (Inl e, st') \<Rightarrow> \<not> recoverable sample_runtime (files begun_store) sample_begin"
    by (rule recovery_iff [OF _ _ valid]) (simp_all add: stores)
  have 2: "case RecoverParentActionBeginFromState sample_runtime approval_store of
      (Inr s, st') \<Rightarrow> recoverable sample_runtime (files approval_store) sample_begin \<and> s = pab_SourceStatus sample_begin
    | (Inl e, st') \<Rightarrow> \<not> recoverable sample_runtime (files approval_store) sample_begin"
    by (rule recovery_iff [OF _ _ valid]) (simp_all add: stores)
  show ?thesis using 1 2 yes no source by (auto split: prod.splits sum.splits)
qed

text \<open>
  Why an earlier record matters: here one is stored, the test for it fails, and the attempt that then
  fails removes it together with the record it had put in its place.
\<close>

lemma earlier_begin_lost:
  "let st = (waiting_store (\<lambda>n. n = 5))\<lparr>files := (files (waiting_store (\<lambda>n. n = 5)))(parentActionBeginStateFile \<mapsto> begin_document sample_begin)\<rparr>
   in (case BeginParentDecision sample_runtime st of
        (Inl e, st') \<Rightarrow> \<not> rollback_failed e \<and> files st' parentActionBeginStateFile = None | _ \<Rightarrow> False)"
  by code_simp

section \<open>Recovery at a quality-surface wait\<close>

definition matchRecoveryTaskID :: "string \<Rightarrow> unit sop" where
  "matchRecoveryTaskID expectedTaskID = bindE TaskID (\<lambda>taskID.
     if taskID \<noteq> expectedTaskID
     then throwE (Errorf ''quality-surface recovery requires the caller-bound task'' [expectedTaskID, taskID])
     else returnE ())"

definition retainedDecisionWaitApprovalCheckpoint :: "ResumeCheckpoint \<Rightarrow> state_error option" where
  "retainedDecisionWaitApprovalCheckpoint c =
     (if rc_StopKind c \<noteq> ResumeStopNone \<or> \<not> rc_QualitySurfaceApprovalPending c
      then Some (Errorf ''quality-surface decision wait recovery requires a retained unstopped approval checkpoint'' [])
      else if (case rc_CompletedResult c of None \<Rightarrow> True | Some r \<Rightarrow> r_Status r \<noteq> StatusImplemented)
      then Some (Errorf ''quality-surface decision wait recovery requires a completed IMPLEMENTED worker result'' [])
      else if rc_Stage c \<noteq> ResumeStageWorker \<or> WorkerPhaseCategory (rc_Phase c) \<noteq> WorkerPhaseCategoryDecision
      then Some (Errorf ''quality-surface decision wait recovery requires the worker-decision checkpoint phase'' [rc_Phase c])
      else None)"

definition RecoverQualitySurfaceDecisionWait :: "go_runtime \<Rightarrow> string \<Rightarrow> unit sop" where
  "RecoverQualitySurfaceDecisionWait rt expectedTaskID =
     thenE (matchRecoveryTaskID expectedTaskID) (bindE get_TaskStatus (\<lambda>status.
       if status \<noteq> TaskStatusWaitingSolReview
       then refuse_status ''quality-surface decision wait recovery requires waiting-sol-review''
       else bindE (Exists pending_decision) (\<lambda>pending.
         if \<not> pending
         then throwE (Errorf ''quality-surface decision wait recovery requires the leftover pending decision marker'' [])
         else bindE (LoadResumeCheckpoint rt) (\<lambda>checkpoint.
           thenE (check (retainedDecisionWaitApprovalCheckpoint checkpoint))
             (bindE (wrapE ''quality-surface decision wait recovery cannot read parent review state'' CurrentParentReviewLabel) (\<lambda>label.
               if label \<noteq> roundCommentNone \<and> label \<noteq> StatusNeedsSolReview
               then throwE (Errorf ''quality-surface decision wait recovery requires no open parent review or an open NEEDS_SOL_REVIEW review'' [label])
               else Remove [pending_decision]))))))"

definition StoppedTaskStatus :: "TaskStatus \<Rightarrow> bool" where
  "StoppedTaskStatus status \<longleftrightarrow> status \<in> {TaskStatusRateLimited, TaskStatusProviderUnavailable,
     TaskStatusInterrupted, TaskStatusGuardRecoverable, TaskStatusQualityGateRecoverable}"

definition retainedAutoFixStopProvenance :: "TaskStatus \<Rightarrow> ResumeCheckpoint \<Rightarrow> state_error option" where
  "retainedAutoFixStopProvenance status c =
     (if \<not> checkpoint_IsStopped c \<or> stop_TaskStatus (rc_StopKind c) \<noteq> status
      then Some (Errorf ''approved quality-surface review recovery requires a stop checkpoint matching the status'' [status])
      else if rc_Stage c \<noteq> ResumeStageAutoFix \<or> WorkerPhaseCategory (rc_Phase c) \<noteq> WorkerPhaseCategoryAutoFix
      then Some (Errorf ''approved quality-surface review recovery requires the post-approval auto-fix checkpoint provenance''
        [rc_Stage c, rc_Phase c])
      else None)"

definition RecoverApprovedQualitySurfaceReview :: "go_runtime \<Rightarrow> string \<Rightarrow> unit sop" where
  "RecoverApprovedQualitySurfaceReview rt expectedTaskID =
     thenE (matchRecoveryTaskID expectedTaskID) (bindE get_TaskStatus (\<lambda>status.
       if \<not> StoppedTaskStatus status
       then throwE (Errorf ''approved quality-surface review recovery requires a stopped task'' [status])
       else bindE (LoadResumeCheckpoint rt) (\<lambda>checkpoint.
         thenE (check (retainedAutoFixStopProvenance status checkpoint))
           (bindE (Exists pending_decision) (\<lambda>pending.
             if pending
             then throwE (Errorf ''approved quality-surface review recovery requires no leftover pending decision marker'' [])
             else bindE (wrapE ''approved quality-surface review recovery cannot read parent review state'' CurrentParentReviewLabel) (\<lambda>label.
               if label \<noteq> StatusNeedsSolReview
               then throwE (Errorf ''approved quality-surface review recovery requires a stale NEEDS_SOL_REVIEW parent review'' [label])
               else bindE (wrapE ''approved quality-surface review recovery cannot close the stale parent review''
                   (RecordParentOutcome rt ParentOutcomeAccepted [] [])) (\<lambda>resolved.
                 bindE (wrapE ''approved quality-surface review recovery cannot verify parent review closure'' CurrentParentReviewLabel) (\<lambda>after.
                   if \<not> resolved \<or> after \<noteq> roundCommentNone
                   then throwE (Errorf ''approved quality-surface review recovery could not close the stale parent review'' [])
                   else returnE ()))))))))"

lemma matchRecoveryTaskID_clean: "triple (state_is F) (matchRecoveryTaskID t) (\<lambda>_. state_is F) (\<lambda>_. state_is F)"
  unfolding matchRecoveryTaskID_def
  by (intro triple_bind [OF TaskID_clean] triple_if triple_throw triple_return)

lemma refuse_status_clean: "triple (state_is F) (refuse_status m) Q (\<lambda>_. state_is F)"
  unfolding refuse_status_def by (intro triple_bind [OF get_TaskStatus_clean] triple_throw)

lemma RecoverQualitySurfaceDecisionWait_triple:
  "triple (state_is F) (RecoverQualitySurfaceDecisionWait rt t)
     (\<lambda>_ st. status_of F = TaskStatusWaitingSolReview \<and>
        (\<exists>d c. F resumeStateFile = Some (Doc (CheckpointD d)) \<and> decode_checkpoint rt d = Inr c \<and>
           rc_StopKind c = ResumeStopNone \<and> rc_QualitySurfaceApprovalPending c) \<and>
        state_is (F(pending_decision := None)) st) (\<lambda>_. state_is F)"
  unfolding RecoverQualitySurfaceDecisionWait_def
proof (rule triple_then [OF matchRecoveryTaskID_clean], rule triple_bind [OF get_TaskStatus_read], rule triple_assume,
    intro triple_if refuse_status_clean triple_bind [OF Exists_clean] triple_throw,
    goal_cases)
  case (2 s pending)
  have label: "triple (state_is F) (wrapE m CurrentParentReviewLabel) (\<lambda>_. state_is F) (\<lambda>_. state_is F)" for m
    by (rule triple_wrap, rule triple_weaken [OF CurrentParentReviewLabel_clean]) simp_all
  from 2 have status: "status_of F = TaskStatusWaitingSolReview" by (auto simp: task_status_defs)
  show ?case
  proof (rule triple_bind [OF LoadResumeCheckpoint_content], rule triple_assume, rule triple_then [OF check_checked],
      rule triple_assume, intro triple_bind [OF label] triple_if triple_throw triple_weaken [OF Remove_one_clean])
    fix c v st assume "\<exists>d. F resumeStateFile = Some (Doc (CheckpointD d)) \<and> decode_checkpoint rt d = Inr c"
      "retainedDecisionWaitApprovalCheckpoint c = None" "state_is (F(pending_decision := None)) st"
    with status show "status_of F = TaskStatusWaitingSolReview \<and>
        (\<exists>d c. F resumeStateFile = Some (Doc (CheckpointD d)) \<and> decode_checkpoint rt d = Inr c \<and>
           rc_StopKind c = ResumeStopNone \<and> rc_QualitySurfaceApprovalPending c) \<and> state_is (F(pending_decision := None)) st"
      by (auto simp: retainedDecisionWaitApprovalCheckpoint_def split: if_splits)
  qed assumption+
qed assumption

text \<open>
  The recovery of a quality-surface decision wait only repairs: when it succeeds the task waits
  for a review with a stored, unstopped checkpoint whose approval is pending, and of all files (the
  statistics aside) only the leftover decision marker is gone; when it fails nothing has changed.
\<close>

theorem decision_wait_recovery:
  assumes "RecoverQualitySurfaceDecisionWait rt t st = (r, st')"
  shows "case r of
      Inr _ \<Rightarrow> status_of (files st) = TaskStatusWaitingSolReview \<and>
        (\<exists>d c. files st resumeStateFile = Some (Doc (CheckpointD d)) \<and> decode_checkpoint rt d = Inr c \<and>
           rc_StopKind c = ResumeStopNone \<and> rc_QualitySurfaceApprovalPending c) \<and>
        (\<forall>n. n \<noteq> currentStatsFile \<longrightarrow> files st' n = (if n = pending_decision then None else files st n))
    | Inl _ \<Rightarrow> \<forall>n. n \<noteq> currentStatsFile \<longrightarrow> files st' n = files st n"
proof (cases r)
  case (Inl e)
  with triple_InlD [OF RecoverQualitySurfaceDecisionWait_triple state_is_self] assms show ?thesis
    by (fastforce simp: state_is_def)
next
  case (Inr v)
  with triple_InrD [OF RecoverQualitySurfaceDecisionWait_triple state_is_self] assms show ?thesis
    by (fastforce simp: state_is_def)
qed

theorem decision_wait_recovery_witness:
  "\<exists>e st'. RecoverQualitySurfaceDecisionWait sample_runtime ''t1'' (waiting_store (\<lambda>_. False)) = (Inl e, st') \<and>
     files st' ''pending-decision'' = Some (Text ''1'')"
proof -
  have "case fst (RecoverQualitySurfaceDecisionWait sample_runtime ''t1'' (waiting_store (\<lambda>_. False))) of Inl _ \<Rightarrow> True | Inr _ \<Rightarrow> False"
    by code_simp
  then obtain e st' where run: "RecoverQualitySurfaceDecisionWait sample_runtime ''t1'' (waiting_store (\<lambda>_. False)) = (Inl e, st')"
    by (cases "RecoverQualitySurfaceDecisionWait sample_runtime ''t1'' (waiting_store (\<lambda>_. False))") (auto split: sum.splits)
  from decision_wait_recovery [OF run] have "files st' ''pending-decision'' = files (waiting_store (\<lambda>_. False)) ''pending-decision''"
    by simp
  with run show ?thesis by (simp add: waiting_store_def)
qed

end
