(* ===== verification/New_Task.thy ===== *)
theory New_Task
  imports Parent_Plan Parent_Begin
begin

text \<open>
  Starting a task (\<^verbatim>\<open>state/new_task_transition.go\<close>, \<^verbatim>\<open>state/task_state_lifetime.go\<close> and the resumption
  of a started task in \<^verbatim>\<open>state/store.go\<close>). The transition snapshots every file that belongs to the
  old task, clears them, writes the files of the new task, retires the staged recommendations of a
  session rotation, and restores the snapshots when any of this fails. The callback after the
  commit is an argument, as it is in the code.
\<close>

section \<open>The files bound to a task\<close>

datatype taskBoundStateLifetime = taskBoundStateFreshTaskClear | taskBoundStateTaskIDBound

record taskBoundStatePolicy =
  tp_name :: string
  tp_lifetime :: taskBoundStateLifetime

definition QualitySurfaceBaselineStateFile :: string where "QualitySurfaceBaselineStateFile = ''quality-surface-baseline''"
definition RepositoryHarnessActivationStateFile :: string where "RepositoryHarnessActivationStateFile = ''repository-harness''"
definition InstructionSurfaceBaselineStateFile :: string where
  "InstructionSurfaceBaselineStateFile = ''instruction-surface-baseline-v1''"
definition ExecutionUnitDispositionStateFile :: string where "ExecutionUnitDispositionStateFile = ''execution-unit-disposition.json''"
definition AcceptedResultRuleRecoveryStateFile :: string where
  "AcceptedResultRuleRecoveryStateFile = ''accepted-result-rule-recovery.json''"
definition FinalValidationObligationKey :: string where "FinalValidationObligationKey = ''final-validation-obligation''"
definition ExecutionMilestonesStateFile :: string where "ExecutionMilestonesStateFile = ''execution-milestones.json''"
definition ResultCorrectionStateFile :: string where "ResultCorrectionStateFile = ''result-correction.json''"
definition baselineUntrackedFile :: string where "baselineUntrackedFile = ''baseline-untracked''"
definition stopWorktreePatchFile :: string where "stopWorktreePatchFile = ''stop-worktree.patch''"
definition stopIndexPatchFile :: string where "stopIndexPatchFile = ''stop-index.patch''"
definition reportOnlyStartSnapshotFile :: string where "reportOnlyStartSnapshotFile = ''snapshot-report-only-start.json''"
definition poCStartSnapshotFile :: string where "poCStartSnapshotFile = ''snapshot-poc-start.json''"
definition snapshotComparisonFile :: string where "snapshotComparisonFile = ''snapshot-comparison.json''"
definition improvementSignalDispositionStateFile :: string where
  "improvementSignalDispositionStateFile = ''improvement-signal-dispositions.json''"

abbreviation cleared_at_start :: "string \<Rightarrow> taskBoundStatePolicy" where
  "cleared_at_start n \<equiv> \<lparr>tp_name = n, tp_lifetime = taskBoundStateFreshTaskClear\<rparr>"

definition taskBoundStatePolicies :: "taskBoundStatePolicy list" where
  "taskBoundStatePolicies = map cleared_at_start
     [observationExecutionsStateFile, RuntimeDispositionFile, controllerRuntimeBindingStateFile, ''task.status'',
      parentCodexIdentityFile, ''isolation.policy'', ''active-task'', ''last-request'', ''last-decision'', ''pending-decision'',
      parentActionBeginStateFile, parentReopenTransactionStateFile, parentReviewStateFile, ''last-review'',
      FinalValidationObligationKey, ''baseline-status'', ''baseline-head'', ''baseline-worktree.patch'',
      ''baseline-index.patch'', baselineUntrackedFile, ''accepted-fix-scope.json'', ExecutionMilestonesStateFile,
      ExecutionUnitDispositionStateFile, ResultCorrectionStateFile, AcceptedResultRuleRecoveryStateFile,
      stopWorktreePatchFile, stopIndexPatchFile, resumeStateFile, workerEndSnapshotFile, reviewStartSnapshotFile,
      reportOnlyStartSnapshotFile, poCStartSnapshotFile, snapshotComparisonFile, runtimeInstallEvidenceFile,
      publicationCandidateStateFile, publicationReopenLineageStateFile, publicationInvalidatingFindingStateFile,
      pendingDefectRegistrationStateFile, improvementSignalDispositionStateFile, QualitySurfaceBaselineStateFile,
      RepositoryHarnessActivationStateFile] @
     [\<lparr>tp_name = InstructionSurfaceBaselineStateFile, tp_lifetime = taskBoundStateTaskIDBound\<rparr>]"

definition newTaskTransitionStateFileNames :: "string list" where
  "newTaskTransitionStateFileNames =
     map tp_name (filter (\<lambda>p. tp_lifetime p = taskBoundStateFreshTaskClear) taskBoundStatePolicies)"

definition newTaskCanonicalStateFileNames :: "string list" where
  "newTaskCanonicalStateFileNames =
     [''task.id'', ''worker.id'', ''worker.ready'', ''reviewer.id'', ''reviewer.ready'', ''failure-path-reviewer.id'',
      ''failure-path-reviewer.ready'', parentEvidenceLedgerPath, parentEvidenceLeasePath] @ newTaskTransitionStateFileNames"

text \<open>The additional names are appended in order, each only once.\<close>

fun add_unseen :: "string list \<Rightarrow> string list \<Rightarrow> string list" where
  "add_unseen seen [] = seen"
| "add_unseen seen (n # ns) = (if n \<in> set seen then add_unseen seen ns else add_unseen (seen @ [n]) ns)"

definition newTaskTransitionSnapshotFileNames :: "string list \<Rightarrow> string list" where
  "newTaskTransitionSnapshotFileNames additional = add_unseen newTaskCanonicalStateFileNames additional"

section \<open>Snapshots\<close>

record newTaskTransitionFileSnapshot =
  tf_data :: "doc content"
  tf_exists :: bool

text \<open>A Go map: a name that is not in it reads as the zero value.\<close>

type_synonym newTaskTransitionSnapshot = "string \<Rightarrow> newTaskTransitionFileSnapshot"

definition no_file :: newTaskTransitionFileSnapshot where
  "no_file = \<lparr>tf_data = Text [], tf_exists = False\<rparr>"

fun capture_files :: "newTaskTransitionSnapshot \<Rightarrow> string list \<Rightarrow> newTaskTransitionSnapshot sop" where
  "capture_files snapshot [] = returnE snapshot"
| "capture_files snapshot (name # ns) = bindE (attempt (ReadFile name)) (\<lambda>r. case r of
       Inl e \<Rightarrow> if is_not_exist e then capture_files (snapshot(name := no_file)) ns
         else throwE (Wrapf ''new task transition state'' e)
     | Inr data \<Rightarrow> capture_files (snapshot(name := \<lparr>tf_data = data, tf_exists = True\<rparr>)) ns)"

definition captureNewTaskTransitionSnapshotWithAdditional :: "string list \<Rightarrow> newTaskTransitionSnapshot sop" where
  "captureNewTaskTransitionSnapshotWithAdditional additional =
     capture_files (\<lambda>_. no_file) (newTaskTransitionSnapshotFileNames additional)"

definition captureNewTaskTransitionSnapshot :: "newTaskTransitionSnapshot sop" where
  "captureNewTaskTransitionSnapshot = captureNewTaskTransitionSnapshotWithAdditional []"

definition captureNewTaskTransitionSnapshotForFiles :: "string list \<Rightarrow> newTaskTransitionSnapshot sop" where
  "captureNewTaskTransitionSnapshotForFiles additional =
     (if additional = [] then captureNewTaskTransitionSnapshot else captureNewTaskTransitionSnapshotWithAdditional additional)"

definition restoreNewTaskTransitionFile :: "string \<Rightarrow> newTaskTransitionFileSnapshot \<Rightarrow> unit sop" where
  "restoreNewTaskTransitionFile name snapshot =
     (if \<not> tf_exists snapshot
      then catchE (removeStatePath name) (\<lambda>e. if is_not_exist e then returnE () else throwE (Wrapf ''rollback remove'' e))
      else wrapE ''rollback restore'' (writeFileAtomic name (tf_data snapshot)))"

fun restore_files :: "newTaskTransitionSnapshot \<Rightarrow> string list \<Rightarrow> state_error list sop" where
  "restore_files snapshot [] = returnE []"
| "restore_files snapshot (name # ns) =
     (if name = ''task.id'' then restore_files snapshot ns
      else bindE (attempt (restoreNewTaskTransitionFile name (snapshot name))) (\<lambda>r.
        bindE (restore_files snapshot ns) (\<lambda>errs. returnE (case r of Inl e \<Rightarrow> e # errs | Inr _ \<Rightarrow> errs))))"

definition restoreNewTaskTransitionSnapshotWithAdditional :: "newTaskTransitionSnapshot \<Rightarrow> string list \<Rightarrow> unit sop" where
  "restoreNewTaskTransitionSnapshotWithAdditional snapshot additional =
     bindE (restore_files snapshot (newTaskTransitionSnapshotFileNames additional)) (\<lambda>errs.
       if errs \<noteq> [] then throwE (JoinErr errs)
       else restoreNewTaskTransitionFile ''task.id'' (snapshot ''task.id''))"

definition restoreNewTaskTransitionSnapshot :: "newTaskTransitionSnapshot \<Rightarrow> unit sop" where
  "restoreNewTaskTransitionSnapshot snapshot = restoreNewTaskTransitionSnapshotWithAdditional snapshot []"

definition restoreNewTaskTransitionSnapshotForFiles :: "newTaskTransitionSnapshot \<Rightarrow> string list \<Rightarrow> unit sop" where
  "restoreNewTaskTransitionSnapshotForFiles snapshot additional =
     (if additional = [] then restoreNewTaskTransitionSnapshot snapshot
      else restoreNewTaskTransitionSnapshotWithAdditional snapshot additional)"

section \<open>The transition\<close>

definition validateObservationTaskRetirement :: "go_runtime \<Rightarrow> unit sop" where
  "validateObservationTaskRetirement rt = bindE (Exists ''task.id'') (\<lambda>started.
     if \<not> started then returnE ()
     else bindE Now (\<lambda>t. thenE (wrapE ''cannot recover old task observation state'' (RecoverStaleObservationExecutions rt t))
       (bindE (wrapE ''cannot retire old task observation state'' readObservationDocument) (\<lambda>old.
         if list_ex (\<lambda>r. ox_Status r = ObservationExecutionStatusInFlight) (od_Records old)
         then throwE (Errorf ''unresolved observation prevents task retirement'' [])
         else returnE ()))))"

definition applyNewTaskCanonicalState :: "go_runtime \<Rightarrow> string \<Rightarrow> unit sop" where
  "applyNewTaskCanonicalState rt taskID = thenE (validateObservationTaskRetirement rt)
     (thenE (Remove [''task.id''])
     (thenE InvalidateAllSessions
     (thenE (Remove newTaskTransitionStateFileNames)
     (thenE ClearParentEvidenceLedger
     (thenE advanceParentEvidenceLeaseUnlocked
     (thenE (initializeParentReviewState taskID)
     (thenE (initObservationDocument taskID)
     (thenE (Write ''task.status'' TaskStatusActive)
       (Write ''task.id'' taskID)))))))))"

definition rollback_new_task :: "newTaskTransitionSnapshot \<Rightarrow> string list \<Rightarrow> state_error \<Rightarrow> 'a sop" where
  "rollback_new_task snapshot additionalFiles cause =
     bindE (attempt (restoreNewTaskTransitionSnapshotForFiles snapshot additionalFiles)) (\<lambda>r. case r of
       Inl rollbackErr \<Rightarrow> throwE (RollbackErr ''new task transition'' cause rollbackErr)
     | Inr _ \<Rightarrow> throwE cause)"

definition commitNewTaskCanonicalState :: "go_runtime \<Rightarrow> string \<Rightarrow> unit sop option \<Rightarrow> unit sop" where
  "commitNewTaskCanonicalState rt taskID afterCanonicalCommit =
     thenE (wrapE ''parent evidence ledger lock'' (AcquireWait ParentEvidenceLedgerLockFile))
     (bindE pendingSessionRotationRetirementTransitionFiles (\<lambda>additionalFiles.
      bindE (captureNewTaskTransitionSnapshotForFiles additionalFiles) (\<lambda>snapshot.
      thenE (validatePendingSessionRotationRecommendationRetirementBoundary rt)
        (catchE
          (thenE (applyNewTaskCanonicalState rt taskID)
            (thenE (commitPendingSessionRotationRecommendationRetirement rt)
              (case afterCanonicalCommit of None \<Rightarrow> returnE () | Some after \<Rightarrow> after)))
          (rollback_new_task snapshot additionalFiles)))))"

text \<open>Resuming a task whose session rotation is retried.\<close>

definition resumeTaskWithID :: "string \<Rightarrow> string sop" where
  "resumeTaskWithID taskID = bindE (attempt loadTaskStats) (\<lambda>r.
     thenE (case r of
         Inl _ \<Rightarrow> InitializeTaskStats taskID
       | Inr stats \<Rightarrow> if ts_TaskID stats \<noteq> taskID then InitializeTaskStats taskID else returnE ())
     (thenE (wrapE ''session rotation retry cannot verify parent review state'' (bindE loadParentReviewState (\<lambda>_. returnE ())))
       (thenE (SetTaskStatus TaskStatusActive) (returnE taskID))))"

section \<open>Frames\<close>

definition off :: "string set \<Rightarrow> filemap \<Rightarrow> store \<Rightarrow> bool" where
  "off N F st \<longleftrightarrow> (\<forall>n. n \<notin> N \<and> n \<noteq> currentStatsFile \<longrightarrow> files st n = F n)"

lemma off_empty: "off {} F = state_is F"
  by (auto simp: off_def state_is_def)

lemma off_mono: "off N F st \<Longrightarrow> N \<subseteq> M \<Longrightarrow> off M F st"
  by (auto simp: off_def)

lemma state_is_off: "state_is G st \<Longrightarrow> (\<And>n. n \<notin> N \<Longrightarrow> G n = F n) \<Longrightarrow> off N F st"
  by (auto simp: off_def state_is_def)

lemma touches_off: "touches N m \<Longrightarrow> triple (off N F) m (\<lambda>_. off N F) (\<lambda>_. off N F)"
  by (rule tripleI) (auto simp: off_def dest: touchesD)

lemma add_unseen_set [simp]: "set (add_unseen seen ns) = set seen \<union> set ns"
  by (induction ns arbitrary: seen) auto

lemma snapshot_names [simp]:
  "set (newTaskTransitionSnapshotFileNames additional) = set newTaskCanonicalStateFileNames \<union> set additional"
  by (simp add: newTaskTransitionSnapshotFileNames_def)

lemma snapshot_ForFiles:
  "captureNewTaskTransitionSnapshotForFiles additional = captureNewTaskTransitionSnapshotWithAdditional additional"
  "restoreNewTaskTransitionSnapshotForFiles snapshot additional = restoreNewTaskTransitionSnapshotWithAdditional snapshot additional"
  by (simp_all add: captureNewTaskTransitionSnapshotForFiles_def captureNewTaskTransitionSnapshot_def
      restoreNewTaskTransitionSnapshotForFiles_def restoreNewTaskTransitionSnapshot_def)

section \<open>The snapshots restore\<close>

definition snapped :: "filemap \<Rightarrow> string \<Rightarrow> newTaskTransitionFileSnapshot \<Rightarrow> bool" where
  "snapped F n s \<longleftrightarrow> (n \<noteq> currentStatsFile \<longrightarrow> F n = (if tf_exists s then Some (tf_data s) else None))"

lemma capture_files_clean:
  "triple (state_is F) (capture_files s0 ns)
     (\<lambda>s st. ((\<forall>n. n \<in> set ns \<longrightarrow> snapped F n (s n)) \<and> (\<forall>n. n \<notin> set ns \<longrightarrow> s n = s0 n)) \<and> state_is F st) (\<lambda>_. state_is F)"
proof (induction ns arbitrary: s0)
  case Nil show ?case by (simp add: triple_return)
next
  case (Cons n ns)
  have read: "triple (state_is F) (attempt (ReadFile n))
      (\<lambda>r st. (n \<noteq> currentStatsFile \<longrightarrow> (case r of Inl e \<Rightarrow> is_not_exist e \<longrightarrow> F n = None
         | Inr c \<Rightarrow> F n = Some c)) \<and> state_is F st) (\<lambda>_. state_is F)"
    by (rule tripleI) (auto simp: run_defs state_is_def split: if_splits option.splits content.splits)
  have next': "triple (state_is F) (capture_files (s0(n := x)) ns)
     (\<lambda>s st. ((\<forall>m. m \<in> set (n # ns) \<longrightarrow> snapped F m (s m)) \<and> (\<forall>m. m \<notin> set (n # ns) \<longrightarrow> s m = s0 m)) \<and> state_is F st)
     (\<lambda>_. state_is F)" if "snapped F n x" for x
    by (rule triple_weaken [OF Cons.IH]) (use that in \<open>auto split: if_splits\<close>)
  have absent: "snapped F n no_file" if "n \<noteq> currentStatsFile \<longrightarrow> F n = None" using that by (simp add: snapped_def no_file_def)
  have there: "snapped F n \<lparr>tf_data = c, tf_exists = True\<rparr>" if "n \<noteq> currentStatsFile \<longrightarrow> F n = Some c" for c
    using that by (simp add: snapped_def)
  show ?case
    unfolding capture_files.simps
    by (rule triple_bind [OF read], rule triple_assume, rule triple_sum, rule triple_if)
      (rule next' absent there triple_throw | simp)+
qed

lemma restore_file:
  assumes "snapped F n s"
  shows "triple (off N F) (restoreNewTaskTransitionFile n s) (\<lambda>_. off (N - {n}) F) (\<lambda>_. off N F)"
proof (rule tripleI)
  fix st v st' assume st: "off N F st" and run: "restoreNewTaskTransitionFile n s st = (Inr v, st')"
  from run assms have "files st' = (files st)(n := F n) \<or> n = currentStatsFile \<and> (\<forall>m. m \<noteq> n \<longrightarrow> files st' m = files st m)"
    by (auto simp: restoreNewTaskTransitionFile_def snapped_def run_defs fun_eq_iff split: if_splits option.splits content.splits)
  with st show "off (N - {n}) F st'" by (auto simp: off_def)
next
  fix st e st' assume st: "off N F st" and run: "restoreNewTaskTransitionFile n s st = (Inl e, st')"
  from run have "files st' = files st"
    by (auto simp: restoreNewTaskTransitionFile_def run_defs split: if_splits option.splits content.splits)
  with st show "off N F st'" by (simp add: off_def)
qed

lemma restore_files_off:
  assumes "\<And>n. n \<in> set ns \<Longrightarrow> snapped F n (s n)"
  shows "triple (off N F) (restore_files s ns) (\<lambda>errs st. errs = [] \<longrightarrow> off (N - (set ns - {''task.id''})) F st) E"
  using assms
proof (induction ns arbitrary: N)
  case Nil show ?case by (simp add: triple_return)
next
  case (Cons n ns)
  show ?case
  proof (cases "n = ''task.id''")
    case True
    with Cons.IH [of N] Cons.prems show ?thesis by (simp add: insert_Diff_if)
  next
    case False
    have one: "triple (off N F) (attempt (restoreNewTaskTransitionFile n (s n)))
       (\<lambda>r. case r of Inr _ \<Rightarrow> off (N - {n}) F | Inl _ \<Rightarrow> off N F) E"
      by (rule triple_attempt) (use restore_file [OF Cons.prems, of n N] in simp)
    have "N - (set (n # ns) - {''task.id''}) = N - {n} - (set ns - {''task.id''})" using False by auto
    then have rest: "triple (case r of Inr _ \<Rightarrow> off (N - {n}) F | Inl _ \<Rightarrow> off N F)
      (bindE (restore_files s ns) (\<lambda>errs. returnE (case r of Inl e \<Rightarrow> e # errs | Inr _ \<Rightarrow> errs)))
      (\<lambda>errs st. errs = [] \<longrightarrow> off (N - (set (n # ns) - {''task.id''})) F st) E" for r
      using Cons by (cases r) (auto intro!: triple_bind [OF Cons.IH] triple_return)
    show ?thesis using False by (simp only: restore_files.simps if_False) (rule triple_bind [OF one rest])
  qed
qed

text \<open>A rollback restores everything that was snapshotted, or the error says that it could not.\<close>

lemma rollback_new_task_restores:
  assumes "\<And>n. n \<in> set (newTaskTransitionSnapshotFileNames additional) \<Longrightarrow> snapped F n (s n)"
    and "N \<subseteq> set (newTaskTransitionSnapshotFileNames additional)"
  shows "triple (\<lambda>st. \<not> rollback_failed cause \<longrightarrow> off N F st) (rollback_new_task s additional cause) Q (unchanged F)"
proof (cases "rollback_failed cause")
  case True
  then show ?thesis
    unfolding rollback_new_task_def
    by (intro triple_bind [of _ _ "\<lambda>_ _. True"] triple_sum triple_throw) (auto simp: unchanged_def triple_def attempt_def split: prod.split)
next
  case False
  have id: "''task.id'' \<in> set (newTaskTransitionSnapshotFileNames additional)"
    by (simp add: newTaskCanonicalStateFileNames_def)
  let ?M = "N - (set (newTaskTransitionSnapshotFileNames additional) - {''task.id''})"
  have "?M - {''task.id''} = {}" using assms(2) by blast
  from restore_file [OF assms(1) [OF id], of ?M, unfolded this off_empty]
  have last: "triple (off ?M F) (restoreNewTaskTransitionFile ''task.id'' (s ''task.id'')) (\<lambda>_. state_is F) (\<lambda>_ _. True)"
    by (rule triple_weaken) simp_all
  have "triple (off N F) (restoreNewTaskTransitionSnapshotForFiles s additional) (\<lambda>_. state_is F) (\<lambda>_ _. True)"
    unfolding snapshot_ForFiles restoreNewTaskTransitionSnapshotWithAdditional_def
    by (intro triple_bind [OF restore_files_off [OF assms(1)]] triple_if triple_throw triple_weaken [OF last]) simp_all
  then have "triple (off N F) (attempt (restoreNewTaskTransitionSnapshotForFiles s additional))
      (\<lambda>r st. case r of Inl _ \<Rightarrow> True | Inr _ \<Rightarrow> state_is F st) (unchanged F)"
    by (intro triple_attempt) simp
  with False show ?thesis
    unfolding rollback_new_task_def
    by (intro triple_bind [of "\<lambda>st. \<not> rollback_failed cause \<longrightarrow> off N F st"]) (auto intro!: triple_throw simp: unchanged_def split: sum.split)
qed

section \<open>Retiring staged recommendations\<close>

definition staged :: "filemap \<Rightarrow> pendingSessionRotationRetirementStage option" where
  "staged F = (case F pendingSessionRotationRetirementStateFile of Some (Doc (RetirementD stage)) \<Rightarrow> Some stage | _ \<Rightarrow> None)"

definition staged_files :: "filemap \<Rightarrow> string list" where
  "staged_files F = (case staged F of None \<Rightarrow> [] | Some stage \<Rightarrow> pendingSessionRotationRetirementStateFile #
     map (\<lambda>r. SessionRotationMarkerPath (rr_ParentThreadID r)) (rs_Recommendations stage))"

lemma pending_retirement_name [simp]: "pendingSessionRotationRetirementStateFile \<noteq> currentStatsFile"
  by (simp add: pendingSessionRotationRetirementStateFile_def currentStatsFile_def)

lemma load_staged:
  "triple (state_is F) loadPendingSessionRotationRecommendationRetirement (\<lambda>v st. v = staged F \<and> state_is F st) (\<lambda>_. state_is F)"
proof (rule tripleI)
  fix st v st' assume st: "state_is F st" and run: "loadPendingSessionRotationRecommendationRetirement st = (Inr v, st')"
  have "files st pendingSessionRotationRetirementStateFile = F pendingSessionRotationRetirementStateFile"
    using st by (simp add: state_is_def)
  with run have "v = staged F"
    by (auto simp: loadPendingSessionRotationRecommendationRetirement_def staged_def run_defs
        split: if_splits option.splits content.splits doc.splits)
  with triple_InrD [OF loadPendingSessionRotationRecommendationRetirement_clean st run] show "v = staged F \<and> state_is F st'" by simp
qed (rule triple_InlD [OF loadPendingSessionRotationRecommendationRetirement_clean])

lemma transition_files:
  "triple (state_is F) pendingSessionRotationRetirementTransitionFiles (\<lambda>v st. v = staged_files F \<and> state_is F st) (\<lambda>_. state_is F)"
  unfolding pendingSessionRotationRetirementTransitionFiles_def
  by (rule triple_bind [OF load_staged], rule triple_assume, rule triple_return) (simp add: staged_files_def)

lemma load_recommended_threads:
  "triple (state_is F) (load_recommended rt rs)
     (\<lambda>ms st. (\<forall>m \<in> set ms. \<exists>r \<in> set rs. marker_at F (rr_ParentThreadID r) = Some m) \<and> state_is F st) (\<lambda>_. state_is F)"
proof (induction rs)
  case Nil show ?case by (simp add: triple_return)
next
  case (Cons r rs)
  show ?case
    unfolding load_recommended.simps
    by (rule triple_bind [OF LoadSessionRotationMarker_clean], rule triple_assume, rule triple_option, rule triple_throw,
        assumption, rule triple_if, rule triple_throw, assumption, rule triple_bind [OF Cons.IH], rule triple_assume,
        rule triple_return) (auto simp: loaded_def)
qed

lemma touches_retire:
  "pendingSessionRotationRetirementStateFile \<in> N \<Longrightarrow> (\<And>m. m \<in> set ms \<Longrightarrow> SessionRotationMarkerPath (mk_ParentThreadID m) \<in> N) \<Longrightarrow>
   touches N (retirePendingSessionRotationRecommendationMarkers rt ms)"
  unfolding writeSessionRotationMarker_def Let_def
  by (induction ms) (auto simp: writeSessionRotationMarker_def Let_def simp del: Remove.simps intro!: touches_intro)

text \<open>Retirement writes only the stage and the markers it names, as long as every marker names its own thread.\<close>

lemma retirement_frame:
  assumes wf: "rotation_wf rt F"
  shows "triple (state_is F) (commitPendingSessionRotationRecommendationRetirement rt)
     (\<lambda>_. off (set (staged_files F)) F) (\<lambda>_. off (set (staged_files F)) F)"
proof -
  have keep: "state_is F st \<Longrightarrow> off N F st" for N st by (simp add: off_def state_is_def)
  have set': "triple (state_is F) (validatePendingSessionRotationRecommendationSet rt stage) (\<lambda>_. state_is F) (\<lambda>_. off N F)" for stage N
    unfolding validatePendingSessionRotationRecommendationSet_def Let_def
    by (intro triple_bind [OF triple_weaken [OF IncompleteSessionRotations_clean]] triple_if triple_throw triple_return) (auto intro: keep)
  have retire: "triple (state_is F) (retirePendingSessionRotationRecommendationMarkers rt ms)
      (\<lambda>_. off (set (staged_files F)) F) (\<lambda>_. off (set (staged_files F)) F)"
    if "staged F = Some stage" "\<forall>m \<in> set ms. \<exists>r \<in> set (rs_Recommendations stage). marker_at F (rr_ParentThreadID r) = Some m" for ms stage
  proof (rule triple_weaken [OF touches_off keep], rule touches_retire)
    fix m assume "m \<in> set ms"
    with that(2) obtain r where "r \<in> set (rs_Recommendations stage)" "marker_at F (rr_ParentThreadID r) = Some m" by blast
    moreover from this(2) wf have "mk_ParentThreadID m = rr_ParentThreadID r" by (simp add: rotation_wf_def)
    ultimately show "SessionRotationMarkerPath (mk_ParentThreadID m) \<in> set (staged_files F)"
      by (auto simp: staged_files_def that(1))
  qed (auto simp: staged_files_def that(1))
  show ?thesis
    unfolding commitPendingSessionRotationRecommendationRetirement_def loadPendingSessionRotationRecommendationMarkers_def
    by (rule triple_bind [OF triple_weaken [OF load_staged]], assumption, assumption, erule keep, rule triple_assume, rule triple_option,
        rule triple_return, erule keep, rule triple_then [OF set'],
        rule triple_bind [OF triple_weaken [OF load_recommended_threads]], assumption, assumption, erule keep,
        rule triple_assume, rule retire) simp_all
qed

section \<open>The fresh state\<close>

lemma canonical_names [simp]:
  "''task.id'' \<in> set newTaskCanonicalStateFileNames" "''task.status'' \<in> set newTaskCanonicalStateFileNames"
  "parentEvidenceLedgerPath \<in> set newTaskCanonicalStateFileNames" "parentEvidenceLeasePath \<in> set newTaskCanonicalStateFileNames"
  "parentReviewStateFile \<in> set newTaskCanonicalStateFileNames" "observationExecutionsStateFile \<in> set newTaskCanonicalStateFileNames"
  "set newTaskTransitionStateFileNames \<subseteq> set newTaskCanonicalStateFileNames"
  by (simp_all add: newTaskCanonicalStateFileNames_def newTaskTransitionStateFileNames_def taskBoundStatePolicies_def)

lemma not_canonical [simp]:
  "currentStatsFile \<notin> set newTaskCanonicalStateFileNames"
  "pendingSessionRotationRetirementStateFile \<notin> set newTaskCanonicalStateFileNames"
  "''repo-root'' \<notin> set newTaskCanonicalStateFileNames"
  by code_simp+

lemma marker_not_canonical [simp]: "SessionRotationMarkerPath t \<notin> set newTaskCanonicalStateFileNames"
proof -
  have "list_all (\<lambda>n. \<not> prefix sessionRotationDirectory n) newTaskCanonicalStateFileNames" by code_simp
  moreover have "prefix sessionRotationDirectory (SessionRotationMarkerPath t)" by (simp add: SessionRotationMarkerPath_def)
  ultimately show ?thesis by (auto simp: list_all_iff)
qed

lemma touches_recover: "observationExecutionsStateFile \<in> N \<Longrightarrow> touches N (RecoverStaleObservationExecutions rt t)"
  unfolding touches_def
proof (intro allI impI, elim conjE)
  fix st n assume "observationExecutionsStateFile \<in> N" "n \<notin> N" "n \<noteq> currentStatsFile"
  moreover have "kept (files st) (snd (RecoverStaleObservationExecutions rt t st))"
    by (rule triple_bothD [OF RecoverStaleObservationExecutions_triple state_is_self]) (rule surjective_pairing)
  ultimately show "files (snd (RecoverStaleObservationExecutions rt t st)) n = files st n"
    by (auto simp: kept_def rewritten_def state_is_def)
qed

lemma reads_document: "reads readObservationDocument"
  unfolding readObservationDocument_def by (intro reads_intro) (auto intro!: reads_intro split: content.split doc.split)

lemma touches_validate: "observationExecutionsStateFile \<in> N \<Longrightarrow> touches N (validateObservationTaskRetirement rt)"
  unfolding validateObservationTaskRetirement_def
  by (intro touches_intro touches_recover) (assumption | rule touches_reads [OF reads_document])+

lemma touches_sessions: "set newTaskCanonicalStateFileNames \<subseteq> N \<Longrightarrow> touches N InvalidateAllSessions"
  unfolding InvalidateAllSessions_def InvalidateSession_def
  by (intro touches_intro)
    (auto simp: newTaskCanonicalStateFileNames_def WorkerRole_def ReviewerRole_def FailurePathReviewerRole_def)

lemma touches_ledger: "parentEvidenceLedgerPath \<in> N \<Longrightarrow> touches N ClearParentEvidenceLedger"
  unfolding ClearParentEvidenceLedger_def by (intro touches_intro)

lemma touches_lease: "parentEvidenceLeasePath \<in> N \<Longrightarrow> touches N advanceParentEvidenceLeaseUnlocked"
  unfolding advanceParentEvidenceLeaseUnlocked_def ParentEvidenceLeaseEpoch_def by (intro touches_intro)

lemma touches_documents:
  "parentReviewStateFile \<in> N \<Longrightarrow> touches N (initializeParentReviewState taskID)"
  "observationExecutionsStateFile \<in> N \<Longrightarrow> touches N (initObservationDocument taskID)"
  unfolding initializeParentReviewState_def writeParentReviewState_def initObservationDocument_def writeObservationDocument_def Let_def
  by (intro touches_intro; assumption)+

lemma touches_new_task: "touches (set newTaskCanonicalStateFileNames) (applyNewTaskCanonicalState rt taskID)"
  unfolding applyNewTaskCanonicalState_def
  by (intro touches_intro touches_validate touches_sessions touches_ledger touches_lease touches_documents) simp_all

definition new_review :: "string \<Rightarrow> ParentReviewState" where
  "new_review taskID = \<lparr>prs_Version = parentReviewStateVersion, prs_TaskID = taskID, prs_Open = None, prs_Review = None,
     prs_Completion = None\<rparr>"

definition new_observations :: "string \<Rightarrow> observationExecutionDocument" where
  "new_observations taskID = \<lparr>od_TaskID = taskID, od_Round = 0, od_Fence = [], od_Records = []\<rparr>"

text \<open>
  The files of a new task over the files \<open>F\<close> of the old one: identity, status, review state and
  observations are new, the evidence lease has advanced, and every other file bound to a task is gone.
\<close>

definition fresh :: "filemap \<Rightarrow> string \<Rightarrow> filemap \<Rightarrow> bool" where
  "fresh F taskID G \<longleftrightarrow>
     G ''task.id'' = Some (Text (taskID @ [CHR 0x0A])) \<and>
     G ''task.status'' = Some (Text (TaskStatusActive @ [CHR 0x0A])) \<and>
     G parentReviewStateFile = Some (Doc (ReviewD (new_review taskID))) \<and>
     G observationExecutionsStateFile = Some (Doc (ObservationD (new_observations taskID))) \<and>
     (\<exists>n. lease_epoch F = Some n \<and> G parentEvidenceLeasePath = Some (lease_text (wrap64 (n + 1)))) \<and>
     (\<forall>n \<in> set newTaskCanonicalStateFileNames - {''task.id'', ''task.status'', parentReviewStateFile,
        observationExecutionsStateFile, parentEvidenceLeasePath}. G n = None)"

definition without :: "string set \<Rightarrow> filemap \<Rightarrow> filemap" where
  "without N F = (\<lambda>n. if n \<in> N then None else F n)"

lemma Remove_without: "triple (state_is F) (Remove ns) (\<lambda>_. state_is (without (set ns) F)) (\<lambda>_ _. True)"
proof (induction ns arbitrary: F)
  case Nil show ?case by (simp add: without_def triple_return)
next
  case (Cons n ns)
  have "without (set (n # ns)) F = without (set ns) (F(n := None))" by (auto simp: without_def)
  moreover have "Remove (n # ns) = thenE (Remove [n]) (Remove ns)"
    by (auto simp: run_defs fun_eq_iff split: prod.splits sum.splits if_splits)
  ultimately show ?case
    by (simp only:) (rule triple_then [OF triple_weaken [OF Remove_one_clean] Cons.IH], assumption+, rule TrueI)
qed

lemma validate_observation:
  "triple (state_is F) (validateObservationTaskRetirement rt)
     (\<lambda>_ st. \<exists>G. (\<forall>n. n \<noteq> observationExecutionsStateFile \<longrightarrow> G n = F n) \<and> state_is G st) (\<lambda>_ _. True)"
proof (rule tripleI)
  fix st v st' assume "state_is F st" "validateObservationTaskRetirement rt st = (Inr v, st')"
  with touchesD [OF touches_validate [of "{observationExecutionsStateFile}"]]
  show "\<exists>G. (\<forall>n. n \<noteq> observationExecutionsStateFile \<longrightarrow> G n = F n) \<and> state_is G st'"
    by (intro exI [of _ "F(observationExecutionsStateFile := files st' observationExecutionsStateFile)"]) (auto simp: state_is_def)
qed simp

lemma sessions_removed:
  "triple (state_is F) InvalidateAllSessions (\<lambda>_. state_is (without {''worker.id'', ''worker.ready'', ''reviewer.id'', ''reviewer.ready'',
     ''failure-path-reviewer.id'', ''failure-path-reviewer.ready''} F)) (\<lambda>_ _. True)"
proof -
  have "without {''worker.id'', ''worker.ready'', ''reviewer.id'', ''reviewer.ready'', ''failure-path-reviewer.id'', ''failure-path-reviewer.ready''} F =
     without (set [FailurePathReviewerRole @ ''.id'', FailurePathReviewerRole @ ''.ready''])
      (without (set [ReviewerRole @ ''.id'', ReviewerRole @ ''.ready'']) (without (set [WorkerRole @ ''.id'', WorkerRole @ ''.ready'']) F))"
    by (auto simp: without_def WorkerRole_def ReviewerRole_def FailurePathReviewerRole_def)
  then show ?thesis
    unfolding InvalidateAllSessions_def InvalidateSession_def
    by (simp only:) (rule triple_then [OF Remove_without triple_then [OF Remove_without Remove_without]])
qed

lemma ledger_cleared: "triple (state_is F) ClearParentEvidenceLedger (\<lambda>_. state_is (F(parentEvidenceLedgerPath := None))) (\<lambda>_ _. True)"
  by (rule tripleI)
    (auto simp: ClearParentEvidenceLedger_def run_defs state_is_def split: if_splits option.splits content.splits)

lemma lease_advances:
  "triple (state_is F) advanceParentEvidenceLeaseUnlocked (\<lambda>_ st. \<exists>G. lease_advanced F G \<and> state_is G st) (\<lambda>_ _. True)"
  unfolding advanceParentEvidenceLeaseUnlocked_def
  by (rule triple_bind [OF triple_weaken [OF ParentEvidenceLeaseEpoch_clean]], assumption, assumption, simp, rule triple_assume,
      rule triple_weaken [OF writeFileAtomic_clean]) (auto simp: lease_advanced_def lease_text_def)

lemma observations_initialised:
  "triple (state_is F) (initObservationDocument taskID)
     (\<lambda>_. state_is (F(observationExecutionsStateFile \<mapsto> Doc (ObservationD (new_observations taskID))))) (\<lambda>_ _. True)"
proof -
  have "(new_observations taskID)\<lparr>od_Records := trimObservationExecutions (od_Records (new_observations taskID))\<rparr> = new_observations taskID"
    by (simp add: new_observations_def trimObservationExecutions_def)
  then show ?thesis
    unfolding initObservationDocument_def writeObservationDocument_def new_observations_def [symmetric] Let_def
    by (simp only:) (intro triple_then [OF triple_check [of _ "state_is F" "\<lambda>_. state_is F"]] triple_wrap triple_weaken [OF writeFileAtomic_clean]; simp)
qed

lemma apply_fresh:
  "triple (state_is F) (applyNewTaskCanonicalState rt taskID)
     (\<lambda>_ st. \<exists>G. fresh F taskID G \<and> (\<forall>n. n \<notin> set newTaskCanonicalStateFileNames \<longrightarrow> G n = F n) \<and> state_is G st) (\<lambda>_ _. True)"
proof -
  let ?S = "{''worker.id'', ''worker.ready'', ''reviewer.id'', ''reviewer.ready'', ''failure-path-reviewer.id'', ''failure-path-reviewer.ready''}"
  let ?N = "set newTaskTransitionStateFileNames"
  let ?C = "\<lambda>G0. (without ?N (without ?S (without {''task.id''} G0)))(parentEvidenceLedgerPath := None)"
  let ?W = "\<lambda>G1. G1(parentReviewStateFile \<mapsto> Doc (ReviewD (new_review taskID)),
      observationExecutionsStateFile \<mapsto> Doc (ObservationD (new_observations taskID)),
      ''task.status'' \<mapsto> Text (TaskStatusActive @ [CHR 0x0A]), ''task.id'' \<mapsto> Text (taskID @ [CHR 0x0A]))"
  have set': "set newTaskCanonicalStateFileNames = {''task.id'', parentEvidenceLedgerPath, parentEvidenceLeasePath} \<union> ?S \<union> ?N"
    by (auto simp: newTaskCanonicalStateFileNames_def)
  have differ: "distinct [''task.id'', ''task.status'', parentReviewStateFile, observationExecutionsStateFile, parentEvidenceLeasePath, parentEvidenceLedgerPath]"
    and lease: "parentEvidenceLeasePath \<notin> ?N \<union> ?S \<union> {''task.id'', parentEvidenceLedgerPath, observationExecutionsStateFile}"
    and ids: "''task.status'' \<in> ?N" "parentReviewStateFile \<in> ?N" "observationExecutionsStateFile \<in> ?N"
    by code_simp+
  have fresh: "fresh F taskID (?W G1) \<and> (\<forall>n. n \<notin> set newTaskCanonicalStateFileNames \<longrightarrow> ?W G1 n = F n)"
    if G0: "\<forall>n. n \<noteq> observationExecutionsStateFile \<longrightarrow> G0 n = F n" and G1: "lease_advanced (?C G0) G1" for G0 G1
  proof -
    have "lease_epoch (?C G0) = lease_epoch F" using lease G0 by (auto simp: lease_epoch_def without_def)
    with G1 obtain k where G1: "lease_epoch F = Some k" "G1 = (?C G0)(parentEvidenceLeasePath \<mapsto> lease_text (wrap64 (k + 1)))"
      by (auto simp: lease_advanced_def)
    have "?W G1 n = F n" if "n \<notin> set newTaskCanonicalStateFileNames" for n
      using that G0 ids unfolding set' G1(2) by (auto simp: without_def)
    moreover have "G1 n = None" if "n \<in> set newTaskCanonicalStateFileNames - {parentEvidenceLeasePath}" for n
      using that unfolding set' G1(2) by (auto simp: without_def)
    ultimately show ?thesis using differ G1 by (auto simp: fresh_def)
  qed
  have set1: "set [''task.id''] = {''task.id''}" by simp
  show ?thesis
    unfolding applyNewTaskCanonicalState_def initializeParentReviewState_def new_review_def [symmetric]
    by (rule triple_then [OF validate_observation], rule triple_exists_pre, rule triple_assume,
        rule triple_then [OF Remove_without], unfold set1, rule triple_then [OF sessions_removed], rule triple_then [OF Remove_without],
        rule triple_then [OF ledger_cleared], rule triple_then [OF lease_advances], rule triple_exists_pre, rule triple_assume,
        rule triple_then [OF triple_weaken [OF writeParentReviewState_clean]], assumption, assumption, rule TrueI,
        rule triple_then [OF observations_initialised], rule triple_then [OF triple_weaken [OF Write_clean]], assumption, assumption, rule TrueI,
        rule triple_weaken [OF Write_clean], assumption, rule exI, rule conjI, rule fresh [THEN conjunct1], assumption, assumption,
        rule conjI, rule fresh [THEN conjunct2], assumption, assumption, assumption, rule TrueI)
qed

section \<open>The transition is atomic\<close>

lemma reads_boundary: "reads (validatePendingSessionRotationRecommendationRetirementBoundary rt)"
proof -
  have "reads (incompleteSessionRotationTarget rt t)" "reads (rejectRetiredSessionRotationCaller rt t)" "reads (IncompleteSessionRotations rt)" for t
    unfolding incompleteSessionRotationTarget_def rejectRetiredSessionRotationCaller_def IncompleteSessionRotations_def by (intro reads_intro)+
  moreover have "reads loadPendingSessionRotationRecommendationRetirement"
    unfolding loadPendingSessionRotationRecommendationRetirement_def
    by (intro reads_intro) (auto intro!: reads_intro split: content.split doc.split)
  ultimately show ?thesis
    unfolding validatePendingSessionRotationRecommendationRetirementBoundary_def AdmitNewTaskRotationBoundary_def
    by (auto intro!: reads_intro)
qed

text \<open>The whole work after the snapshots.\<close>

lemma work_triple:
  assumes wf: "rotation_wf rt F"
    and after: "\<And>a G. after = Some a \<Longrightarrow> triple (state_is G) a (\<lambda>_. off S G) (unchanged G)"
  shows "triple (state_is F)
      (thenE (applyNewTaskCanonicalState rt taskID) (thenE (commitPendingSessionRotationRecommendationRetirement rt)
         (case after of None \<Rightarrow> returnE () | Some a \<Rightarrow> a)))
      (\<lambda>_ st. \<exists>G. fresh F taskID G \<and> (\<forall>n. n \<notin> set newTaskCanonicalStateFileNames \<longrightarrow> G n = F n) \<and>
         off (set (staged_files F) \<union> S) G st)
      (\<lambda>e st. \<not> rollback_failed e \<longrightarrow> off (set newTaskCanonicalStateFileNames \<union> set (staged_files F)) F st)"
    (is "triple _ _ ?Q ?E")
proof -
  let ?C = "set newTaskCanonicalStateFileNames"
  have E: "state_is F st \<Longrightarrow> off N F st" for N st by (simp add: off_def state_is_def)
  have apply': "triple (state_is F) (applyNewTaskCanonicalState rt taskID)
      (\<lambda>_ st. \<exists>G. (fresh F taskID G \<and> (\<forall>n. n \<notin> ?C \<longrightarrow> G n = F n)) \<and> state_is G st) ?E"
  proof (rule tripleI)
    fix st v st' assume "state_is F st" "applyNewTaskCanonicalState rt taskID st = (Inr v, st')"
    from triple_InrD [OF apply_fresh this]
    show "\<exists>G. (fresh F taskID G \<and> (\<forall>n. n \<notin> ?C \<longrightarrow> G n = F n)) \<and> state_is G st'" by simp
  next
    fix st e st' assume "state_is F st" "applyNewTaskCanonicalState rt taskID st = (Inl e, st')"
    with triple_InlD [OF touches_off [OF touches_new_task] E this(2)] have "off ?C F st'" by blast
    then show "\<not> rollback_failed e \<longrightarrow> off (?C \<union> set (staged_files F)) F st'" by (blast intro: off_mono)
  qed
  have rest: "triple (state_is G) (thenE (commitPendingSessionRotationRecommendationRetirement rt)
       (case after of None \<Rightarrow> returnE () | Some a \<Rightarrow> a)) ?Q ?E" if G: "fresh F taskID G" "\<forall>n. n \<notin> ?C \<longrightarrow> G n = F n" for G
  proof -
    have "marker_at G t = marker_at F t" for t using G(2) by (simp add: marker_at_def)
    with wf have wf': "rotation_wf rt G" by (simp add: rotation_wf_def)
    have same: "staged_files G = staged_files F" using G(2) by (simp add: staged_files_def staged_def)
    have weaker: "off N G st \<Longrightarrow> off (?C \<union> N) F st" for N st using G(2) by (auto simp: off_def)
    have run: "triple (off (set (staged_files F)) G) (case after of None \<Rightarrow> returnE () | Some a \<Rightarrow> a)
        (\<lambda>_. off (set (staged_files F) \<union> S) G) ?E"
    proof (cases after)
      case None then show ?thesis by (auto intro!: triple_return elim: off_mono)
    next
      case (Some a)
      show ?thesis
        unfolding Some option.case
      proof (rule tripleI)
        fix st v st' assume "off (set (staged_files F)) G st" "a st = (Inr v, st')"
        with triple_InrD [OF after [OF Some] state_is_self this(2)]
        show "off (set (staged_files F) \<union> S) G st'" by (auto simp: off_def)
      next
        fix st e st' assume "off (set (staged_files F)) G st" "a st = (Inl e, st')"
        with triple_InlD [OF after [OF Some] state_is_self this(2)] weaker
        show "?E e st'" by (auto simp: off_def unchanged_def state_is_def)
      qed
    qed
    have "triple (state_is G) (commitPendingSessionRotationRecommendationRetirement rt) (\<lambda>_. off (set (staged_files F)) G) ?E"
      by (rule triple_weaken [OF retirement_frame [OF wf']]) (auto simp: same intro: weaker)
    from triple_then [OF this run] show ?thesis by (rule triple_weaken) (use G in auto)
  qed
  show ?thesis
    by (rule triple_then [OF apply'], rule triple_exists_pre, rule triple_assume, elim conjE, rule rest)
qed

lemma capture_clean:
  "triple (state_is F) (captureNewTaskTransitionSnapshotForFiles additional)
     (\<lambda>s st. (\<forall>n. n \<in> set (newTaskTransitionSnapshotFileNames additional) \<longrightarrow> snapped F n (s n)) \<and> state_is F st) (\<lambda>_. state_is F)"
  unfolding snapshot_ForFiles captureNewTaskTransitionSnapshotWithAdditional_def
  by (rule triple_weaken [OF capture_files_clean]) auto

lemma commit_triple:
  assumes wf: "rotation_wf rt F"
    and after: "\<And>a G. after = Some a \<Longrightarrow> triple (state_is G) a (\<lambda>_. off S G) (unchanged G)"
  shows "triple (state_is F) (commitNewTaskCanonicalState rt taskID after)
      (\<lambda>_ st. \<exists>G. fresh F taskID G \<and> (\<forall>n. n \<notin> set newTaskCanonicalStateFileNames \<longrightarrow> G n = F n) \<and>
         off (set (staged_files F) \<union> S) G st) (unchanged F)"
proof -
  have early: "state_is F st \<Longrightarrow> unchanged F e st" for e st by (simp add: unchanged_def)
  have work: "triple (state_is F)
      (catchE (thenE (applyNewTaskCanonicalState rt taskID) (thenE (commitPendingSessionRotationRecommendationRetirement rt)
         (case after of None \<Rightarrow> returnE () | Some a \<Rightarrow> a))) (rollback_new_task s (staged_files F)))
      (\<lambda>_ st. \<exists>G. fresh F taskID G \<and> (\<forall>n. n \<notin> set newTaskCanonicalStateFileNames \<longrightarrow> G n = F n) \<and>
         off (set (staged_files F) \<union> S) G st) (unchanged F)"
    if "\<forall>n. n \<in> set (newTaskTransitionSnapshotFileNames (staged_files F)) \<longrightarrow> snapped F n (s n)" for s
    by (rule triple_catch [OF work_triple [OF wf after]], assumption, rule rollback_new_task_restores) (use that in auto)
  show ?thesis
    unfolding commitNewTaskCanonicalState_def
    by (rule triple_then [OF triple_weaken [OF triple_wrap [OF AcquireWait_clean]]], assumption, assumption, erule early,
        rule triple_bind [OF triple_weaken [OF transition_files]], assumption, assumption, erule early, rule triple_assume, hypsubst,
        rule triple_bind [OF triple_weaken [OF capture_clean]], assumption, assumption, erule early, rule triple_assume,
        rule triple_then [OF triple_weaken [OF reads_frame [OF reads_boundary]]], assumption, assumption, erule early, rule work, assumption)
qed

text \<open>
  C29. Starting a task is atomic: when the committing of its state fails, for every pattern of faults,
  every file of the state directory but the statistics is as before, unless the error reports a
  failed rollback; when it succeeds the new identity, the active status, an empty review state and an
  empty observation document are stored, the evidence lease has advanced, every other file bound
  to a task is gone, and no file changes but those, the staged recommendations of a session
  rotation with their markers, and what the callback writes. The callback is assumed to
  change nothing when it fails.
\<close>

theorem new_task_atomic:
  assumes "rotation_wf rt (files st)"
    and "\<forall>a \<in> set_option after. \<forall>G. triple (state_is G) a (\<lambda>_. off S G) (unchanged G)"
    and "commitNewTaskCanonicalState rt taskID after st = (res, st')"
  shows "case res of
      Inl e \<Rightarrow> rollback_failed e \<or> (\<forall>n. n \<noteq> currentStatsFile \<longrightarrow> files st' n = files st n)
    | Inr _ \<Rightarrow> \<exists>G. fresh (files st) taskID G \<and> (\<forall>n. n \<notin> set newTaskCanonicalStateFileNames \<longrightarrow> G n = files st n) \<and>
        (\<forall>n. n \<notin> set (staged_files (files st)) \<union> S \<and> n \<noteq> currentStatsFile \<longrightarrow> files st' n = G n)"
proof -
  have "triple (state_is G) a (\<lambda>_. off S G) (unchanged G)" if "after = Some a" for a G using assms(2) that by simp
  from commit_triple [OF assms(1) this, of after] have
    run: "triple (state_is (files st)) (commitNewTaskCanonicalState rt taskID after)
      (\<lambda>_ st'. \<exists>G. fresh (files st) taskID G \<and> (\<forall>n. n \<notin> set newTaskCanonicalStateFileNames \<longrightarrow> G n = files st n) \<and>
         off (set (staged_files (files st)) \<union> S) G st') (unchanged (files st))" by simp
  show ?thesis
  proof (cases res)
    case (Inl e)
    with triple_InlD [OF run state_is_self] assms(3) show ?thesis by (simp add: unchanged_def state_is_def) blast
  next
    case (Inr v)
    with triple_InrD [OF run state_is_self] assms(3) show ?thesis by (auto simp: off_def)
  qed
qed

definition old_task_store :: store where
  "old_task_store = (proven_store (\<lambda>_. False))\<lparr>files := [''task.id'' \<mapsto> Text ''t1'', ''task.status'' \<mapsto> Text ''complete'',
     ''worker.id'' \<mapsto> Text ''w'', ''observation-executions'' \<mapsto> Doc (ObservationD (new_observations ''t1''))]\<rparr>"

lemma old_task_wf: "rotation_wf sample_runtime (files old_task_store)"
  by (simp add: rotation_wf_def marker_at_def old_task_store_def SessionRotationMarkerPath_def sessionRotationDirectory_def)

theorem new_task_atomic_witness:
  "\<exists>st'. commitNewTaskCanonicalState sample_runtime ''t2'' (Some (Write ''stats/t1.json'' ''old'')) old_task_store = (Inr (), st') \<and>
     files st' ''task.id'' = Some (Text (''t2'' @ [CHR 0x0A])) \<and> files st' ''worker.id'' = None"
proof -
  let ?run = "commitNewTaskCanonicalState sample_runtime ''t2'' (Some (Write ''stats/t1.json'' ''old'')) old_task_store"
  have "\<not> isl (fst ?run)" by code_simp
  then obtain st' where run: "?run = (Inr (), st')" using run_returns [of ?run] by auto
  have none: "files old_task_store pendingSessionRotationRetirementStateFile = None"
    by (simp add: old_task_store_def pendingSessionRotationRetirementStateFile_def)
  have after: "\<forall>a \<in> set_option (Some (Write ''stats/t1.json'' ''old'')). \<forall>G.
      triple (state_is G) a (\<lambda>_. off {''stats/t1.json''} G) (unchanged G)"
    by (auto intro!: triple_weaken [OF Write_clean] simp: off_def state_is_def unchanged_def)
  have worker: "''worker.id'' \<in> set newTaskCanonicalStateFileNames - {''task.id'', ''task.status'', parentReviewStateFile,
      observationExecutionsStateFile, parentEvidenceLeasePath}" by code_simp
  have "staged_files (files old_task_store) = []" by (simp add: staged_files_def staged_def none)
  with new_task_atomic [OF old_task_wf after run] obtain G where G: "fresh (files old_task_store) ''t2'' G"
    "\<And>n. n \<noteq> ''stats/t1.json'' \<Longrightarrow> n \<noteq> currentStatsFile \<Longrightarrow> files st' n = G n"
    by (simp only: sum.case) auto
  have "files st' ''task.id'' = G ''task.id''" "files st' ''worker.id'' = G ''worker.id''"
    by (rule G(2); simp add: currentStatsFile_def)+
  moreover have "G ''task.id'' = Some (Text (''t2'' @ [CHR 0x0A]))" "G ''worker.id'' = None"
    using G(1) worker unfolding fresh_def by blast+
  ultimately show ?thesis using run by (intro exI [of _ st']) simp
qed

text \<open>
  The fence of the old task is only consulted when \<^verbatim>\<open>Exists\<close> says that a task is there, and \<^verbatim>\<open>Exists\<close>
  takes every error of \<^verbatim>\<open>os.Stat\<close> for absence. So an execution still in flight keeps a task from being
  replaced, but not when that one access fails.
\<close>

definition observing_task_store :: "(nat \<Rightarrow> bool) \<Rightarrow> store" where
  "observing_task_store faults = (proven_store faults)\<lparr>files := [''task.id'' \<mapsto> Text (od_TaskID lost_document),
     ''task.status'' \<mapsto> Text ''waiting-decision'', ''observation-executions'' \<mapsto> Doc (ObservationD lost_document)]\<rparr>"

lemma stat_fault_drops_fence:
  "isl (fst (validateObservationTaskRetirement sample_runtime (observing_task_store (\<lambda>_. False))))"
  "fst (validateObservationTaskRetirement sample_runtime (observing_task_store (\<lambda>n. n = 0))) = Inr ()"
  by code_simp+

end
