(* ===== verification/Milestones.thy ===== *)
theory Milestones
  imports New_Task
begin

text \<open>
  Execution units and milestones: the validation of milestone definitions and of decision payloads
  (\<^verbatim>\<open>executionunit/preflight.go\<close>), the disposition of a task (\<^verbatim>\<open>executionunit/state.go\<close>), the durable plan of
  milestones with its revision (\<^verbatim>\<open>executionmilestone/state.go\<close>), and the part of the workflow that opens,
  completes and reports milestones (\<^verbatim>\<open>workflow/execution_milestone_state.go\<close>, \<^verbatim>\<open>execution_milestone_flow.go\<close>,
  \<^verbatim>\<open>execution_unit_decision.go\<close>, \<^verbatim>\<open>execution_progress.go\<close>). The working tree is the record \<open>repository\<close>: reading a
  file of it, the SHA-256 digest and the Git snapshot are its members. The JSON decoder of a payload is an
  argument. The theorems show that the stored plan stays consistent along every sequence of these
  operations, that a revision keeps what is completed, and that the reported progress never goes back.
\<close>

record repository =
  repo_ReadFile :: "string \<Rightarrow> (state_error, string) result"
  repo_sha256 :: "string \<Rightarrow> string"
  repo_snapshot :: "(state_error, GitSnapshot) result"

section \<open>Definitions and payloads\<close>

record Decision =
  dc_Decision :: string
  dc_ExecutionUnit :: string
  dc_Milestones :: "MilestoneDefinition list"

definition ExecutionUnitSingle :: string where "ExecutionUnitSingle = ''single''"
definition ExecutionUnitMilestones :: string where "ExecutionUnitMilestones = ''milestones''"
definition executionUnitPrefix :: string where "executionUnitPrefix = ''EXECUTION_UNIT: ''"
definition milestonesJSONPrefix :: string where "milestonesJSONPrefix = ''MILESTONES_JSON: ''"
definition decisionMarker :: string where "decisionMarker = ''DECISION:''"
definition milestoneMaxCount :: nat where "milestoneMaxCount = 8"
definition milestoneMaxIDBytes :: nat where "milestoneMaxIDBytes = 64"
definition milestoneMaxTextBytes :: nat where "milestoneMaxTextBytes = 2048"

definition validateMilestoneDefinition :: "MilestoneDefinition \<Rightarrow> string list \<Rightarrow> state_error option" where
  "validateMilestoneDefinition d seen =
     (if md_ID d = [] \<or> milestoneMaxIDBytes < length (md_ID d)
      then Some (Errorf ''execution milestone id must be 1-64 bytes'' [])
      else if md_ID d \<in> set seen then Some (Errorf ''duplicate execution milestone id'' [md_ID d])
      else if md_Scope d = [] \<or> milestoneMaxTextBytes < length (md_Scope d)
      then Some (Errorf ''execution milestone scope must be 1-2048 bytes'' [md_ID d])
      else if md_Acceptance d = [] \<or> milestoneMaxTextBytes < length (md_Acceptance d)
      then Some (Errorf ''execution milestone acceptance must be 1-2048 bytes'' [md_ID d])
      else None)"

text \<open>The loop trims the definitions in place, so that its result is the trimmed list.\<close>

definition trimmed_definition :: "MilestoneDefinition \<Rightarrow> MilestoneDefinition" where
  "trimmed_definition d = d\<lparr>md_ID := trim_space (md_ID d), md_Scope := trim_space (md_Scope d),
     md_Acceptance := trim_space (md_Acceptance d)\<rparr>"

fun validate_definitions :: "string list \<Rightarrow> MilestoneDefinition list \<Rightarrow> (state_error, MilestoneDefinition list) result" where
  "validate_definitions seen [] = Inr []"
| "validate_definitions seen (d # ds) =
     (let d' = trimmed_definition d in
      case validateMilestoneDefinition d' seen of
        Some e \<Rightarrow> Inl e
      | None \<Rightarrow> (case validate_definitions (md_ID d' # seen) ds of Inl e \<Rightarrow> Inl e | Inr r \<Rightarrow> Inr (d' # r)))"

definition ValidateMilestoneDefinitions :: "MilestoneDefinition list \<Rightarrow> (state_error, MilestoneDefinition list) result" where
  "ValidateMilestoneDefinitions ds =
     (if length ds < 2 \<or> milestoneMaxCount < length ds then Inl (Errorf ''execution milestones require 2-8 entries'' [])
      else validate_definitions [] ds)"

definition ParseMilestonePayload ::
    "(string \<Rightarrow> (state_error, MilestoneDefinition list) result) \<Rightarrow> string \<Rightarrow> (state_error, MilestoneDefinition list) result" where
  "ParseMilestonePayload decodeJSON payload = (case decodeJSON payload of
       Inl e \<Rightarrow> Inl e
     | Inr ds \<Rightarrow> if ds \<noteq> [] then ValidateMilestoneDefinitions ds else Inr ds)"

definition ParseTaskPlanPayload ::
    "(string \<Rightarrow> (state_error, string \<times> MilestoneDefinition list) result) \<Rightarrow> string \<Rightarrow>
     (state_error, string \<times> MilestoneDefinition list) result" where
  "ParseTaskPlanPayload decodeJSON payload = (case decodeJSON payload of
       Inl e \<Rightarrow> Inl e
     | Inr (request, ds) \<Rightarrow>
         if trim_space request = [] then Inl (Errorf ''execution milestone task request is required'' [])
         else (case ValidateMilestoneDefinitions ds of Inl e \<Rightarrow> Inl e | Inr r \<Rightarrow> Inr (trim_space request, r)))"

definition validateDecision :: "Decision \<Rightarrow> state_error option" where
  "validateDecision input =
     (if dc_ExecutionUnit input = ExecutionUnitSingle
      then if dc_Milestones input \<noteq> [] then Some (Errorf ''execution-unit single cannot include milestone definitions'' []) else None
      else if dc_ExecutionUnit input = ExecutionUnitMilestones
      then if dc_Milestones input \<noteq> []
        then (case ValidateMilestoneDefinitions (dc_Milestones input) of Inl e \<Rightarrow> Some e | Inr _ \<Rightarrow> None) else None
      else Some (Errorf ''execution unit must be single or milestones'' []))"

definition IsPayload :: "string \<Rightarrow> bool" where
  "IsPayload payload = has_prefix payload executionUnitPrefix"

definition ParsePayload ::
    "(string \<Rightarrow> (state_error, MilestoneDefinition list) result) \<Rightarrow> string \<Rightarrow> (state_error, Decision) result" where
  "ParsePayload decodeJSON payload = (case split_n 4 CHR 0x0A payload of
       [unit_line, milestones_line, marker, text] \<Rightarrow>
         if \<not> has_prefix unit_line executionUnitPrefix \<or> \<not> has_prefix milestones_line milestonesJSONPrefix \<or>
            marker \<noteq> decisionMarker
         then Inl (Errorf ''decision payload must use the machine-owned execution-unit template'' [])
         else if trim_space text = [] then Inl (Errorf ''decision payload is empty'' [])
         else (case ParseMilestonePayload decodeJSON (trim_space (trim_prefix milestones_line milestonesJSONPrefix)) of
             Inl e \<Rightarrow> Inl e
           | Inr ms \<Rightarrow>
               let input = \<lparr>dc_Decision = trim_space text,
                   dc_ExecutionUnit = trim_space (trim_prefix unit_line executionUnitPrefix), dc_Milestones = ms\<rparr> in
               case validateDecision input of Some e \<Rightarrow> Inl e | None \<Rightarrow> Inr input)
     | _ \<Rightarrow> Inl (Errorf ''decision payload must use the machine-owned execution-unit template'' []))"

section \<open>The disposition of a task\<close>

definition DispositionVersion :: int where "DispositionVersion = 1"

definition RecordDisposition :: "string \<Rightarrow> string \<Rightarrow> int \<Rightarrow> unit sop" where
  "RecordDisposition activeTaskPath executionUnit t =
     (if executionUnit \<noteq> ExecutionUnitSingle \<and> executionUnit \<noteq> ExecutionUnitMilestones
      then throwE (Errorf ''unsupported execution-unit disposition'' [executionUnit])
      else bindE TaskID (\<lambda>taskID.
        if trim_space activeTaskPath = [] then throwE (Errorf ''execution-unit disposition requires an ACTIVE task'' [])
        else wrapE ''state write'' (writeFileAtomic ExecutionUnitDispositionStateFile
          (Doc (UnitD \<lparr>du_Version = DispositionVersion, du_TaskID = taskID, du_ActiveTaskPath = trim_space activeTaskPath,
             du_ExecutionUnit = executionUnit, du_UpdatedAt = t\<rparr>)))))"

definition disposition_error :: "Disposition \<Rightarrow> state_error option" where
  "disposition_error d =
     (if du_Version d \<noteq> DispositionVersion
      then Some (Errorf ''unsupported execution-unit disposition version'' [itoa (du_Version d)])
      else if du_TaskID d = [] \<or> trim_space (du_ActiveTaskPath d) = []
      then Some (Errorf ''execution-unit disposition authority is incomplete'' [])
      else if du_ExecutionUnit d \<noteq> ExecutionUnitSingle \<and> du_ExecutionUnit d \<noteq> ExecutionUnitMilestones
      then Some (Errorf ''unsupported execution-unit disposition'' [du_ExecutionUnit d])
      else None)"

definition LoadDisposition :: "Disposition option sop" where
  "LoadDisposition = bindE (attempt (ReadFile ExecutionUnitDispositionStateFile)) (\<lambda>r. case r of
       Inl e \<Rightarrow> if is_not_exist e then returnE None else throwE e
     | Inr c \<Rightarrow> (case c of
           Doc (UnitD d) \<Rightarrow> thenE (check (disposition_error d)) (returnE (Some d))
         | _ \<Rightarrow> throwE (Errorf ''read execution-unit disposition'' [])))"

definition CurrentDisposition :: "Disposition option sop" where
  "CurrentDisposition = bindE LoadDisposition (\<lambda>r. case r of
       None \<Rightarrow> returnE None
     | Some d \<Rightarrow> bindE TaskID (\<lambda>taskID.
         if du_TaskID d \<noteq> taskID
         then throwE (Errorf ''execution-unit disposition task identity changed'' [du_TaskID d, taskID])
         else bindE (wrapE ''execution-unit disposition task binding is unavailable'' CurrentWorkflowTaskPath) (\<lambda>path.
           if trim_space path = [] \<or> du_ActiveTaskPath d \<noteq> trim_space path
           then throwE (Errorf ''execution-unit disposition ACTIVE task changed'' [du_ActiveTaskPath d, trim_space path])
           else returnE (Some d))))"

section \<open>The plan\<close>

record Revision =
  rv_Status :: string
  rv_TaskID :: string
  rv_CurrentIndex :: int
  rv_MilestoneCount :: int
  rv_CurrentID :: string

record revisionAuthority =
  ra_taskID :: string
  ra_activeTaskPath :: string
  ra_digest :: string

definition PlanVersion :: int where "PlanVersion = 1"
definition StatusPending :: string where "StatusPending = ''pending''"
definition StatusComplete :: string where "StatusComplete = ''complete''"

definition pending_record :: "MilestoneDefinition \<Rightarrow> Record" where
  "pending_record d = \<lparr>mr_MilestoneDefinition = d, mr_Status = StatusPending, mr_Completion = None\<rparr>"

definition NewPlan :: "string \<Rightarrow> string \<Rightarrow> string \<Rightarrow> MilestoneDefinition list \<Rightarrow> int \<Rightarrow> Plan" where
  "NewPlan taskID activeTaskPath digest definitions t =
     \<lparr>pl_Version = PlanVersion, pl_TaskID = taskID, pl_ActiveTaskPath = activeTaskPath, pl_TaskContractSHA256 = digest,
      pl_CurrentIndex = 0, pl_Milestones = map pending_record definitions, pl_UpdatedAt = t\<rparr>"

definition plan_error :: "Plan \<Rightarrow> state_error option" where
  "plan_error p =
     (if pl_Version p \<noteq> PlanVersion
      then Some (Errorf ''unsupported execution milestone state version'' [itoa (pl_Version p)])
      else if pl_CurrentIndex p < 0 \<or> int (length (pl_Milestones p)) < pl_CurrentIndex p
      then Some (Errorf ''invalid execution milestone current index'' [itoa (pl_CurrentIndex p)])
      else None)"

definition LoadPlan :: "Plan option sop" where
  "LoadPlan = bindE (attempt (ReadFile ExecutionMilestonesStateFile)) (\<lambda>r. case r of
       Inl e \<Rightarrow> if is_not_exist e then returnE None else throwE e
     | Inr c \<Rightarrow> (case c of
           Doc (MilestonesD p) \<Rightarrow> thenE (check (plan_error p)) (returnE (Some p))
         | _ \<Rightarrow> throwE (Errorf ''read execution milestone state'' [])))"

definition SavePlan :: "Plan \<Rightarrow> unit sop" where
  "SavePlan p = wrapE ''state write'' (writeFileAtomic ExecutionMilestonesStateFile (Doc (MilestonesD p)))"

definition TaskContractDigest :: "repository \<Rightarrow> string \<Rightarrow> (state_error, string) result" where
  "TaskContractDigest repo activeTaskPath =
     (if trim_space activeTaskPath = [] then Inl (Errorf ''execution milestones require a Plan-selected ACTIVE task'' [])
      else case repo_ReadFile repo activeTaskPath of
        Inl e \<Rightarrow> Inl (Wrapf ''read execution milestone ACTIVE task'' e)
      | Inr content \<Rightarrow> Inr (repo_sha256 repo content))"

definition currentAuthority :: "repository \<Rightarrow> revisionAuthority sop" where
  "currentAuthority repo = bindE TaskID (\<lambda>taskID. bindE CurrentWorkflowTaskPath (\<lambda>path.
     bindE (of_result (TaskContractDigest repo path)) (\<lambda>digest.
       returnE \<lparr>ra_taskID = taskID, ra_activeTaskPath = path, ra_digest = digest\<rparr>)))"

definition ValidateAuthority :: "repository \<Rightarrow> Plan option \<Rightarrow> unit sop" where
  "ValidateAuthority repo plan = (case plan of
       None \<Rightarrow> throwE (Errorf ''execution milestone plan is missing'' [])
     | Some p \<Rightarrow> bindE (currentAuthority repo) (\<lambda>a.
         if ra_taskID a \<noteq> pl_TaskID p
         then throwE (Errorf ''execution milestone task identity changed'' [pl_TaskID p, ra_taskID a])
         else if ra_activeTaskPath a \<noteq> pl_ActiveTaskPath p
         then throwE (Errorf ''execution milestone ACTIVE task changed'' [pl_ActiveTaskPath p, ra_activeTaskPath a])
         else if ra_digest a \<noteq> pl_TaskContractSHA256 p
         then throwE (Errorf ''execution milestone task contract changed'' [])
         else returnE ()))"

text \<open>No milestone of the plan is open any more.\<close>

definition plan_finished :: "Plan \<Rightarrow> bool" where
  "plan_finished p \<longleftrightarrow> int (length (pl_Milestones p)) \<le> pl_CurrentIndex p"

definition current_record :: "Plan \<Rightarrow> Record" where
  "current_record p = pl_Milestones p ! nat (pl_CurrentIndex p)"

abbreviation current_definition :: "Plan \<Rightarrow> MilestoneDefinition" where
  "current_definition p \<equiv> mr_MilestoneDefinition (current_record p)"

definition HasPending :: "repository \<Rightarrow> bool sop" where
  "HasPending repo = bindE LoadPlan (\<lambda>r. case r of
       None \<Rightarrow> returnE False
     | Some p \<Rightarrow> if plan_finished p then returnE False
         else thenE (ValidateAuthority repo (Some p)) (returnE True))"

definition RevisionStatusAllowed :: "TaskStatus \<Rightarrow> bool" where
  "RevisionStatusAllowed status \<longleftrightarrow> status \<in> {TaskStatusWaitingDecision, TaskStatusWaitingSolReview, TaskStatusRateLimited,
     TaskStatusProviderUnavailable, TaskStatusGuardRecoverable, TaskStatusQualityGateRecoverable, TaskStatusInterrupted}"

fun completed_error :: "Record list \<Rightarrow> MilestoneDefinition list \<Rightarrow> state_error option" where
  "completed_error (r # rs) (d # ds) =
     (if mr_MilestoneDefinition r \<noteq> d
      then Some (Errorf ''completed execution milestone is immutable'' [md_ID (mr_MilestoneDefinition r)])
      else completed_error rs ds)"
| "completed_error _ _ = None"

definition validateCompleted :: "Plan \<Rightarrow> MilestoneDefinition list \<Rightarrow> state_error option" where
  "validateCompleted p definitions = completed_error (take (nat (pl_CurrentIndex p)) (pl_Milestones p)) definitions"

definition preserveStopped :: "go_runtime \<Rightarrow> Plan \<Rightarrow> MilestoneDefinition list \<Rightarrow> unit sop" where
  "preserveStopped rt p definitions = bindE (attempt (LoadResumeCheckpoint rt)) (\<lambda>r. case r of
       Inl e \<Rightarrow> if e = NoResumeCheckpoint then returnE () else throwE e
     | Inr c \<Rightarrow>
         if rc_ExecutionMilestoneID c = [] then returnE ()
         else if rc_ExecutionMilestoneID c \<noteq> md_ID (current_definition p) \<or>
            current_definition p \<noteq> definitions ! nat (pl_CurrentIndex p)
         then throwE (Errorf ''cannot revise the stopped in-flight execution milestone'' [rc_ExecutionMilestoneID c])
         else returnE ())"

definition validateRevisionPlan :: "go_runtime \<Rightarrow> Plan \<Rightarrow> revisionAuthority \<Rightarrow> MilestoneDefinition list \<Rightarrow> unit sop" where
  "validateRevisionPlan rt p authority definitions =
     (if pl_TaskID p \<noteq> ra_taskID authority \<or> pl_ActiveTaskPath p \<noteq> ra_activeTaskPath authority
      then throwE (Errorf ''execution milestone plan does not belong to the active task'' [])
      else if plan_finished p then throwE (Errorf ''all execution milestones are already complete'' [])
      else if int (length definitions) \<le> pl_CurrentIndex p
      then throwE (Errorf ''revised execution milestones must preserve all completed milestones and one current milestone'' [])
      else thenE (check (validateCompleted p definitions)) (preserveStopped rt p definitions))"

definition revisedRecords :: "Plan \<Rightarrow> MilestoneDefinition list \<Rightarrow> Record list" where
  "revisedRecords p definitions = take (nat (pl_CurrentIndex p)) (pl_Milestones p) @
     map pending_record (drop (nat (pl_CurrentIndex p)) definitions)"

text \<open>The time is \<open>None\<close> where the code passes the zero time.\<close>

definition prepareRevision :: "go_runtime \<Rightarrow> repository \<Rightarrow> MilestoneDefinition list \<Rightarrow> int option \<Rightarrow> Plan sop" where
  "prepareRevision rt repo definitions t = bindE (of_result (ValidateMilestoneDefinitions definitions)) (\<lambda>ds.
     bindE get_TaskStatus (\<lambda>status.
       if \<not> RevisionStatusAllowed status
       then throwE (Errorf ''execution milestones can only be revised at a stopped worker parent boundary'' [])
       else bindE LoadPlan (\<lambda>r. bindE (currentAuthority repo) (\<lambda>a. case r of
           None \<Rightarrow> returnE (NewPlan (ra_taskID a) (ra_activeTaskPath a) (ra_digest a) ds (case t of None \<Rightarrow> 0 | Some n \<Rightarrow> n))
         | Some p \<Rightarrow> thenE (validateRevisionPlan rt p a ds)
             (returnE (p\<lparr>pl_Milestones := revisedRecords p ds, pl_TaskContractSHA256 := ra_digest a,
                pl_UpdatedAt := (case t of None \<Rightarrow> pl_UpdatedAt p | Some n \<Rightarrow> n)\<rparr>))))))"

definition ValidateRevision :: "go_runtime \<Rightarrow> repository \<Rightarrow> MilestoneDefinition list \<Rightarrow> unit sop" where
  "ValidateRevision rt repo definitions = bindE (prepareRevision rt repo definitions None) (\<lambda>_. returnE ())"

definition bindStoppedCheckpoint :: "go_runtime \<Rightarrow> Plan \<Rightarrow> unit sop" where
  "bindStoppedCheckpoint rt p =
     (if plan_finished p then returnE ()
      else bindE (attempt (LoadResumeCheckpoint rt)) (\<lambda>r. case r of
          Inl e \<Rightarrow> if e = NoResumeCheckpoint then returnE () else throwE e
        | Inr c \<Rightarrow>
            let currentID = md_ID (current_definition p) in
            if rc_ExecutionMilestoneID c \<noteq> [] \<and> rc_ExecutionMilestoneID c \<noteq> currentID
            then throwE (Errorf ''stopped checkpoint belongs to another execution milestone'' [rc_ExecutionMilestoneID c, currentID])
            else SaveResumeCheckpoint rt (c\<lparr>rc_ExecutionMilestoneID := currentID\<rparr>)))"

definition revisionResult :: "Plan \<Rightarrow> Revision" where
  "revisionResult p = \<lparr>rv_Status = ''updated'', rv_TaskID = pl_TaskID p, rv_CurrentIndex = pl_CurrentIndex p,
     rv_MilestoneCount = int (length (pl_Milestones p)),
     rv_CurrentID = (if plan_finished p then [] else md_ID (current_definition p))\<rparr>"

definition Revise :: "go_runtime \<Rightarrow> repository \<Rightarrow> MilestoneDefinition list \<Rightarrow> int \<Rightarrow> Revision sop" where
  "Revise rt repo definitions t = bindE (prepareRevision rt repo definitions (Some t)) (\<lambda>p.
     thenE (bindStoppedCheckpoint rt p) (thenE (SavePlan p) (returnE (revisionResult p))))"

definition SyncTaskContract :: "string \<Rightarrow> string \<Rightarrow> string \<Rightarrow> string \<Rightarrow> int \<Rightarrow> unit sop" where
  "SyncTaskContract taskID activeTaskPath previousDigest digest t = bindE LoadPlan (\<lambda>r. case r of
       None \<Rightarrow> returnE ()
     | Some p \<Rightarrow>
         if pl_TaskID p \<noteq> taskID \<or> pl_ActiveTaskPath p \<noteq> activeTaskPath
         then throwE (Errorf ''execution milestone plan does not belong to the synced Task'' [])
         else if pl_TaskContractSHA256 p = digest then returnE ()
         else if pl_TaskContractSHA256 p \<noteq> previousDigest
         then throwE (Errorf ''execution milestone contract is outside the task authority sync lineage'' [])
         else SavePlan (p\<lparr>pl_TaskContractSHA256 := digest, pl_UpdatedAt := t\<rparr>))"

definition ValidateCurrent :: "Plan option \<Rightarrow> string \<Rightarrow> state_error option" where
  "ValidateCurrent plan milestoneID = (case plan of
       None \<Rightarrow> Some (Errorf ''execution milestone has no active durable plan'' [milestoneID])
     | Some p \<Rightarrow>
         if plan_finished p then Some (Errorf ''execution milestone has no active durable plan'' [milestoneID])
         else if md_ID (current_definition p) \<noteq> milestoneID \<or> mr_Status (current_record p) \<noteq> StatusPending
         then Some (Errorf ''execution milestone state mismatch''
           [milestoneID, md_ID (current_definition p), mr_Status (current_record p)])
         else None)"

text \<open>\<^verbatim>\<open>Preflight\<close> validates the definitions in place, so that the caller goes on with the trimmed ones.\<close>

definition Preflight :: "go_runtime \<Rightarrow> repository \<Rightarrow> Decision \<Rightarrow> bool sop" where
  "Preflight rt repo input = bindE (HasPending repo) (\<lambda>active.
     if dc_ExecutionUnit input = ExecutionUnitSingle
     then if active then throwE (Errorf ''execution-unit single cannot bypass pending execution milestones'' []) else returnE active
     else if dc_ExecutionUnit input = ExecutionUnitMilestones
     then if dc_Milestones input = []
       then if \<not> active
         then throwE (Errorf ''execution-unit milestones requires 2-8 milestone definitions or an existing pending milestone plan'' [])
         else returnE active
       else thenE (ValidateRevision rt repo (dc_Milestones input)) (returnE active)
     else throwE (Errorf ''unsupported execution-unit disposition'' [dc_ExecutionUnit input]))"

section \<open>Optional documents\<close>

text \<open>
  The contract of a document that may be absent: the loader returns \<open>None\<close> only when the file is absent, a document only
  when the file holds it and it is valid, and it changes nothing. The plan and the disposition are instances.
\<close>

definition holds_document :: "string \<Rightarrow> ('a \<Rightarrow> doc) \<Rightarrow> ('a \<Rightarrow> state_error option) \<Rightarrow> filemap \<Rightarrow> 'a option \<Rightarrow> bool" where
  "holds_document name wrap validate F x =
     (case x of None \<Rightarrow> F name = None | Some p \<Rightarrow> F name = Some (Doc (wrap p)) \<and> validate p = None)"

locale optional_document =
  fixes name :: string and wrap :: "'a \<Rightarrow> doc" and validate :: "'a \<Rightarrow> state_error option" and load :: "'a option sop"
  assumes name_not_stats: "name \<noteq> currentStatsFile"
    and load_reads: "reads load"
    and load_some: "load st = (Inr (Some x), st') \<Longrightarrow> files st name = Some (Doc (wrap x)) \<and> validate x = None"
    and load_none: "load st = (Inr None, st') \<Longrightarrow> files st name = None"
    and load_valid: "\<not> fault st (access st) \<Longrightarrow> files st name = Some (Doc (wrap x)) \<Longrightarrow> validate x = None \<Longrightarrow>
      load st = (Inr (Some x), tick st)"
    and load_missing: "\<not> fault st (access st) \<Longrightarrow> files st name = None \<Longrightarrow> load st = (Inr None, tick st)"
begin

abbreviation holds :: "filemap \<Rightarrow> 'a option \<Rightarrow> bool" where "holds \<equiv> holds_document name wrap validate"

lemma load_triple: "triple (state_is F) load (\<lambda>x st. holds F x \<and> state_is F st) (\<lambda>_. state_is F)"
proof (rule tripleI)
  show "state_is F st'" if "state_is F st" "load st = (Inl e, st')" for st e st'
    using readsD [OF load_reads that(2)] that(1) by (simp add: state_is_def)
  show "holds F x \<and> state_is F st'" if "state_is F st" "load st = (Inr x, st')" for st x st'
    using readsD [OF load_reads that(2)] that load_some load_none name_not_stats
    by (cases x) (auto simp: state_is_def holds_document_def)
qed

lemma load_runs:
  assumes "holds F x"
  shows "triple (calm F) load (\<lambda>v st. v = x \<and> calm F st) never"
proof (rule triple_pre)
  fix st assume st: "calm F st"
  then have "load st = (Inr x, tick st)"
    using assms load_valid [OF calm_fault [OF st]] load_missing [OF calm_fault [OF st]]
    by (auto simp: holds_document_def calm_files [OF st name_not_stats] split: option.splits)
  with st show "triple (\<lambda>st'. st' = st) load (\<lambda>v st. v = x \<and> calm F st) never"
    by (simp add: triple_def)
qed

end

lemma optional_contract:
  assumes "name \<noteq> currentStatsFile"
    and load: "load = bindE (attempt (ReadFile name)) (\<lambda>r. case r of
        Inl e \<Rightarrow> if is_not_exist e then returnE None else throwE e
      | Inr c \<Rightarrow> (case decode c of None \<Rightarrow> throwE err | Some x \<Rightarrow> thenE (check (validate x)) (returnE (Some x))))"
    and decode: "\<And>c x. decode c = Some x \<longleftrightarrow> c = Doc (wrap x)"
  shows "optional_document name wrap validate load"
proof
  have some: "decode (Doc (wrap x)) = Some x" for x using decode by blast
  show "name \<noteq> currentStatsFile" by fact
  show "reads load" unfolding load by (intro reads_intro)
  show "files st name = Some (Doc (wrap x)) \<and> validate x = None" if "load st = (Inr (Some x), st')" for st x st'
    using that decode unfolding load by (auto simp: run_defs split: if_splits option.splits content.splits)
  show "files st name = None" if "load st = (Inr None, st')" for st st'
    using that unfolding load by (auto simp: run_defs split: if_splits option.splits content.splits)
  show "load st = (Inr (Some x), tick st)"
    if "\<not> fault st (access st)" "files st name = Some (Doc (wrap x))" "validate x = None" for st x
    using that unfolding load by (simp add: run_defs some)
  show "load st = (Inr None, tick st)" if "\<not> fault st (access st)" "files st name = None" for st
    using that unfolding load by (simp add: run_defs)
qed

lemma milestone_names [simp]:
  "ExecutionMilestonesStateFile \<noteq> currentStatsFile" "ExecutionUnitDispositionStateFile \<noteq> currentStatsFile"
  "ExecutionMilestonesStateFile \<noteq> ExecutionUnitDispositionStateFile" "ExecutionMilestonesStateFile \<noteq> resumeStateFile"
  "ExecutionMilestonesStateFile \<noteq> ''task.status''" "ExecutionMilestonesStateFile \<noteq> ''task.id''"
  "ExecutionMilestonesStateFile \<noteq> controllerRuntimeBindingStateFile" "ExecutionMilestonesStateFile \<noteq> ''pending-decision''"
  "ExecutionMilestonesStateFile \<noteq> parentEvidenceLeasePath" "ExecutionMilestonesStateFile \<noteq> ''worker.id''"
  "ExecutionMilestonesStateFile \<noteq> ''worker.ready''"
  by (simp_all add: ExecutionMilestonesStateFile_def ExecutionUnitDispositionStateFile_def currentStatsFile_def resumeStateFile_def
      controllerRuntimeBindingStateFile_def parentEvidenceLeasePath_def)

interpretation plan_file: optional_document ExecutionMilestonesStateFile MilestonesD plan_error LoadPlan
proof (rule optional_contract)
  let ?decode = "\<lambda>c. case c of Doc (MilestonesD p) \<Rightarrow> Some p | _ \<Rightarrow> None"
  show "LoadPlan = bindE (attempt (ReadFile ExecutionMilestonesStateFile)) (\<lambda>r. case r of
      Inl e \<Rightarrow> if is_not_exist e then returnE None else throwE e
    | Inr c \<Rightarrow> (case ?decode c of None \<Rightarrow> throwE (Errorf ''read execution milestone state'' [])
        | Some x \<Rightarrow> thenE (check (plan_error x)) (returnE (Some x))))"
    unfolding LoadPlan_def by (rule arg_cong [where f = "bindE _"]) (auto simp: fun_eq_iff split: sum.split content.split doc.split)
  show "?decode c = Some x \<longleftrightarrow> c = Doc (MilestonesD x)" for c x by (auto split: content.splits doc.splits)
qed simp

interpretation disposition_file: optional_document ExecutionUnitDispositionStateFile UnitD disposition_error LoadDisposition
proof (rule optional_contract)
  let ?decode = "\<lambda>c. case c of Doc (UnitD p) \<Rightarrow> Some p | _ \<Rightarrow> None"
  show "LoadDisposition = bindE (attempt (ReadFile ExecutionUnitDispositionStateFile)) (\<lambda>r. case r of
      Inl e \<Rightarrow> if is_not_exist e then returnE None else throwE e
    | Inr c \<Rightarrow> (case ?decode c of None \<Rightarrow> throwE (Errorf ''read execution-unit disposition'' [])
        | Some x \<Rightarrow> thenE (check (disposition_error x)) (returnE (Some x))))"
    unfolding LoadDisposition_def by (rule arg_cong [where f = "bindE _"]) (auto simp: fun_eq_iff split: sum.split content.split doc.split)
  show "?decode c = Some x \<longleftrightarrow> c = Doc (UnitD x)" for c x by (auto split: content.splits doc.splits)
qed simp

section \<open>Validated definitions\<close>

definition well_defined :: "MilestoneDefinition \<Rightarrow> bool" where
  "well_defined d \<longleftrightarrow> md_ID d \<noteq> [] \<and> length (md_ID d) \<le> milestoneMaxIDBytes \<and>
     md_Scope d \<noteq> [] \<and> length (md_Scope d) \<le> milestoneMaxTextBytes \<and>
     md_Acceptance d \<noteq> [] \<and> length (md_Acceptance d) \<le> milestoneMaxTextBytes"

lemma validateMilestoneDefinition_None:
  "validateMilestoneDefinition d seen = None \<longleftrightarrow> well_defined d \<and> md_ID d \<notin> set seen"
  by (auto simp: validateMilestoneDefinition_def well_defined_def)

lemma validate_definitions_iff:
  "validate_definitions seen ds = Inr r \<longleftrightarrow> r = map trimmed_definition ds \<and> list_all well_defined r \<and>
     distinct (map md_ID r) \<and> (\<forall>d\<in>set r. md_ID d \<notin> set seen)"
proof (induction seen ds arbitrary: r rule: validate_definitions.induct)
  case (2 seen d ds)
  show ?case
  proof (cases "validateMilestoneDefinition (trimmed_definition d) seen")
    case None
    have "validate_definitions seen (d # ds) = Inr r \<longleftrightarrow>
        (\<exists>r'. validate_definitions (md_ID (trimmed_definition d) # seen) ds = Inr r' \<and> r = trimmed_definition d # r')"
      using None by (auto simp: Let_def split: sum.splits)
    also have "\<dots> \<longleftrightarrow> (\<exists>r'. (r' = map trimmed_definition ds \<and> list_all well_defined r' \<and>
        distinct (map md_ID r') \<and> (\<forall>d'\<in>set r'. md_ID d' \<notin> set (md_ID (trimmed_definition d) # seen))) \<and> r = trimmed_definition d # r')"
      using 2 [OF refl None] by simp
    also have "\<dots> \<longleftrightarrow> r = map trimmed_definition (d # ds) \<and> list_all well_defined r \<and>
        distinct (map md_ID r) \<and> (\<forall>d\<in>set r. md_ID d \<notin> set seen)"
      using None unfolding validateMilestoneDefinition_None by (auto simp: image_iff) metis+
    finally show ?thesis .
  next
    case (Some e)
    then have "\<not> (well_defined (trimmed_definition d) \<and> md_ID (trimmed_definition d) \<notin> set seen)"
      using validateMilestoneDefinition_None [of "trimmed_definition d" seen] by simp
    with Some show ?thesis by (auto simp: Let_def)
  qed
qed auto

lemma trimmed_definition_idem [simp]: "trimmed_definition (trimmed_definition d) = trimmed_definition d"
  by (simp add: trimmed_definition_def trim_space_idem)

lemma ValidateMilestoneDefinitions_iff:
  "ValidateMilestoneDefinitions ds = Inr r \<longleftrightarrow> r = map trimmed_definition ds \<and> 2 \<le> length r \<and> length r \<le> milestoneMaxCount \<and>
     list_all well_defined r \<and> distinct (map md_ID r)"
  by (auto simp: ValidateMilestoneDefinitions_def validate_definitions_iff)

lemma validated_again: "ValidateMilestoneDefinitions ds = Inr r \<Longrightarrow> ValidateMilestoneDefinitions r = Inr r"
  by (auto simp: ValidateMilestoneDefinitions_iff comp_def)

section \<open>Revisions\<close>

definition checkpoint_in :: "go_runtime \<Rightarrow> filemap \<Rightarrow> ResumeCheckpoint \<Rightarrow> bool" where
  "checkpoint_in rt F c \<longleftrightarrow> (\<exists>d. F resumeStateFile = Some (Doc (CheckpointD d)) \<and> decode_checkpoint rt d = Inr c)"

lemma checkpoint_in_unique: "checkpoint_in rt F c \<Longrightarrow> checkpoint_in rt F c' \<Longrightarrow> c = c'"
  by (auto simp: checkpoint_in_def)

text \<open>
  What a revision may do to a plan: the completed milestones stay as they are and head the new definitions, the rest is
  pending, and a milestone in flight keeps its definition.
\<close>

definition revised :: "go_runtime \<Rightarrow> filemap \<Rightarrow> Plan \<Rightarrow> MilestoneDefinition list \<Rightarrow> Plan \<Rightarrow> bool" where
  "revised rt F p ds p' \<longleftrightarrow> (let i = nat (pl_CurrentIndex p) in
     \<not> plan_finished p \<and> i < length ds \<and>
     pl_Version p' = pl_Version p \<and> pl_TaskID p' = pl_TaskID p \<and> pl_ActiveTaskPath p' = pl_ActiveTaskPath p \<and>
     pl_CurrentIndex p' = pl_CurrentIndex p \<and>
     take i (pl_Milestones p') = take i (pl_Milestones p) \<and> drop i (pl_Milestones p') = map pending_record (drop i ds) \<and>
     map mr_MilestoneDefinition (pl_Milestones p') = ds \<and>
     (\<forall>c. checkpoint_in rt F c \<and> rc_ExecutionMilestoneID c \<noteq> [] \<longrightarrow>
        rc_ExecutionMilestoneID c = md_ID (current_definition p) \<and> current_definition p' = current_definition p))"

definition authorised :: "repository \<Rightarrow> filemap \<Rightarrow> Plan \<Rightarrow> bool" where
  "authorised repo F p \<longleftrightarrow> pl_TaskID p = task_of F \<and> TaskContractDigest repo (pl_ActiveTaskPath p) = Inr (pl_TaskContractSHA256 p)"

lemma completed_error_None:
  "length rs \<le> length ds \<Longrightarrow> completed_error rs ds = None \<longleftrightarrow> map mr_MilestoneDefinition rs = take (length rs) ds"
  by (induction rs ds rule: completed_error.induct) auto

lemma map_pending_record [simp]: "map mr_MilestoneDefinition (map pending_record ds) = ds"
  by (simp add: comp_def pending_record_def)

lemma plan_error_None: "plan_error p = None \<longleftrightarrow> pl_Version p = PlanVersion \<and> 0 \<le> pl_CurrentIndex p \<and> pl_CurrentIndex p \<le> int (length (pl_Milestones p))"
  by (auto simp: plan_error_def)

lemma revisedI:
  assumes "plan_error p = None" "\<not> plan_finished p" "pl_CurrentIndex p < int (length ds)" "validateCompleted p ds = None"
    and stopped: "\<And>c. checkpoint_in rt F c \<Longrightarrow> rc_ExecutionMilestoneID c \<noteq> [] \<Longrightarrow>
      rc_ExecutionMilestoneID c = md_ID (current_definition p) \<and> current_definition p = ds ! nat (pl_CurrentIndex p)"
  shows "revised rt F p ds (p\<lparr>pl_Milestones := revisedRecords p ds, pl_TaskContractSHA256 := digest, pl_UpdatedAt := t\<rparr>)"
proof -
  let ?i = "nat (pl_CurrentIndex p)"
  have i: "?i < length (pl_Milestones p)" "?i < length ds"
    using assms(1-3) by (auto simp: plan_error_None plan_finished_def)
  have "map mr_MilestoneDefinition (take ?i (pl_Milestones p)) = take ?i ds"
    using assms(4) i by (simp add: validateCompleted_def completed_error_None)
  then have "map mr_MilestoneDefinition (revisedRecords p ds) = ds"
    by (simp add: revisedRecords_def del: map_map)
  moreover have "revisedRecords p ds ! ?i = pending_record (ds ! ?i)"
    using i by (simp add: revisedRecords_def nth_append)
  ultimately show ?thesis
    using assms i by (auto simp: revised_def Let_def current_record_def pending_record_def revisedRecords_def)
qed

lemma currentAuthority_triple:
  "triple (state_is F) (currentAuthority repo)
     (\<lambda>a st. (ra_taskID a = task_of F \<and> TaskContractDigest repo (ra_activeTaskPath a) = Inr (ra_digest a)) \<and> state_is F st) (\<lambda>_. state_is F)"
  unfolding currentAuthority_def
proof (rule triple_bind [OF TaskID_task], rule triple_assume, rule triple_bind [OF reads_frame [OF reads_bindings(2)]])
  fix t path assume t: "t = task_of F \<and> t \<noteq> [] \<and> F ''task.id'' \<notin> {None, Some Directory}"
  show "triple (state_is F) (bindE (of_result (TaskContractDigest repo path))
        (\<lambda>digest. returnE \<lparr>ra_taskID = t, ra_activeTaskPath = path, ra_digest = digest\<rparr>))
      (\<lambda>a st. (ra_taskID a = task_of F \<and> TaskContractDigest repo (ra_activeTaskPath a) = Inr (ra_digest a)) \<and> state_is F st) (\<lambda>_. state_is F)"
    by (rule triple_bind [where R = "\<lambda>d st. TaskContractDigest repo path = Inr d \<and> state_is F st"], rule triple_of_result)
      (use t in \<open>auto intro!: triple_assume triple_return\<close>)
qed

lemma preserveStopped_triple:
  "triple (state_is F) (preserveStopped rt p ds) (\<lambda>_ st. (\<forall>c. checkpoint_in rt F c \<and> rc_ExecutionMilestoneID c \<noteq> [] \<longrightarrow>
      rc_ExecutionMilestoneID c = md_ID (current_definition p) \<and> current_definition p = ds ! nat (pl_CurrentIndex p)) \<and> state_is F st)
     (\<lambda>_. state_is F)"
  unfolding preserveStopped_def
  by (rule triple_bind [OF attempt_checkpoint], rule triple_assume, rule triple_sum)
    (auto simp: checkpoint_in_def intro!: triple_if triple_return triple_throw)

definition plan_from :: "go_runtime \<Rightarrow> repository \<Rightarrow> filemap \<Rightarrow> MilestoneDefinition list \<Rightarrow> Plan \<Rightarrow> bool" where
  "plan_from rt repo F ds p' \<longleftrightarrow> (\<exists>r. ValidateMilestoneDefinitions ds = Inr r \<and> RevisionStatusAllowed (status_of F) \<and> authorised repo F p' \<and>
     (case F ExecutionMilestonesStateFile of
        None \<Rightarrow> \<exists>path digest t. p' = NewPlan (task_of F) path digest r t
      | Some c \<Rightarrow> \<exists>p. c = Doc (MilestonesD p) \<and> plan_error p = None \<and> revised rt F p r p'))"

lemma not_allowed_none: "\<not> RevisionStatusAllowed TaskStatusNone"
  by (simp add: RevisionStatusAllowed_def task_status_defs)

lemma validateRevisionPlan_triple:
  fixes a :: revisionAuthority
  assumes "plan_error p = None" "ra_taskID a = task_of F"
  shows "triple (state_is F) (validateRevisionPlan rt p a ds)
     (\<lambda>_ st. (pl_TaskID p = task_of F \<and> pl_ActiveTaskPath p = ra_activeTaskPath a \<and>
        (\<forall>digest t. revised rt F p ds (p\<lparr>pl_Milestones := revisedRecords p ds, pl_TaskContractSHA256 := digest, pl_UpdatedAt := t\<rparr>)))
        \<and> state_is F st) (\<lambda>_. state_is F)"
  unfolding validateRevisionPlan_def
proof (intro triple_if triple_throw)
  assume a: "\<not> (pl_TaskID p \<noteq> ra_taskID a \<or> pl_ActiveTaskPath p \<noteq> ra_activeTaskPath a)" "\<not> plan_finished p"
    "\<not> int (length ds) \<le> pl_CurrentIndex p"
  show "triple (state_is F) (thenE (check (validateCompleted p ds)) (preserveStopped rt p ds))
     (\<lambda>_ st. (pl_TaskID p = task_of F \<and> pl_ActiveTaskPath p = ra_activeTaskPath a \<and>
        (\<forall>digest t. revised rt F p ds (p\<lparr>pl_Milestones := revisedRecords p ds, pl_TaskContractSHA256 := digest, pl_UpdatedAt := t\<rparr>)))
        \<and> state_is F st) (\<lambda>_. state_is F)"
    by (rule triple_then [where R = "\<lambda>st. validateCompleted p ds = None \<and> state_is F st"], rule triple_check, simp, assumption,
        rule triple_assume, rule triple_weaken [OF preserveStopped_triple], assumption)
      (use assms a in \<open>auto intro!: revisedI\<close>)
qed

lemma prepareRevision_triple:
  "triple (state_is F) (prepareRevision rt repo ds t) (\<lambda>p st. plan_from rt repo F ds p \<and> state_is F st) (\<lambda>_. state_is F)"
  unfolding prepareRevision_def
proof (rule triple_bind [where R = "\<lambda>r st. ValidateMilestoneDefinitions ds = Inr r \<and> state_is F st"], goal_cases)
  case 1 show ?case by (rule triple_of_result) auto
next
  case (2 r)
  show ?case
  proof (rule triple_assume, rule triple_bind [OF get_TaskStatus_read], rule triple_assume, rule triple_if,
      rule triple_throw, assumption, rule triple_bind [OF plan_file.load_triple], rule triple_assume,
      rule triple_bind [OF currentAuthority_triple], rule triple_assume)
    fix status x and a :: revisionAuthority
    assume r: "ValidateMilestoneDefinitions ds = Inr r" and status: "status \<in> {TaskStatusNone, status_of F}"
      and allowed: "\<not> \<not> RevisionStatusAllowed status" and x: "holds_document ExecutionMilestonesStateFile MilestonesD plan_error F x"
      and a: "ra_taskID a = task_of F \<and> TaskContractDigest repo (ra_activeTaskPath a) = Inr (ra_digest a)"
    have status: "RevisionStatusAllowed (status_of F)" using status allowed not_allowed_none by auto
    show "triple (state_is F) (case x of
           None \<Rightarrow> returnE (NewPlan (ra_taskID a) (ra_activeTaskPath a) (ra_digest a) r (case t of None \<Rightarrow> 0 | Some n \<Rightarrow> n))
         | Some p \<Rightarrow> thenE (validateRevisionPlan rt p a r)
             (returnE (p\<lparr>pl_Milestones := revisedRecords p r, pl_TaskContractSHA256 := ra_digest a,
                pl_UpdatedAt := (case t of None \<Rightarrow> pl_UpdatedAt p | Some n \<Rightarrow> n)\<rparr>)))
        (\<lambda>p st. plan_from rt repo F ds p \<and> state_is F st) (\<lambda>_. state_is F)"
    proof (rule triple_option)
      assume "x = None"
      with r status a x show "triple (state_is F)
          (returnE (NewPlan (ra_taskID a) (ra_activeTaskPath a) (ra_digest a) r (case t of None \<Rightarrow> 0 | Some n \<Rightarrow> n)))
          (\<lambda>p st. plan_from rt repo F ds p \<and> state_is F st) (\<lambda>_. state_is F)"
        by (intro triple_return) (auto simp: plan_from_def authorised_def NewPlan_def holds_document_def)
    next
      fix p assume "x = Some p"
      with x have p: "F ExecutionMilestonesStateFile = Some (Doc (MilestonesD p))" "plan_error p = None"
        by (auto simp: holds_document_def)
      show "triple (state_is F) (thenE (validateRevisionPlan rt p a r)
             (returnE (p\<lparr>pl_Milestones := revisedRecords p r, pl_TaskContractSHA256 := ra_digest a,
                pl_UpdatedAt := (case t of None \<Rightarrow> pl_UpdatedAt p | Some n \<Rightarrow> n)\<rparr>)))
          (\<lambda>p st. plan_from rt repo F ds p \<and> state_is F st) (\<lambda>_. state_is F)"
        by (rule triple_then [OF validateRevisionPlan_triple], use p a in simp_all, rule triple_return)
          (use p a r status in \<open>auto simp: plan_from_def authorised_def\<close>)
    qed
  qed
qed

text \<open>
  \<open>rebound rt F i v\<close>: the content \<open>v\<close> is the checkpoint of \<open>F\<close>, which had no milestone or the milestone
  \<open>i\<close>, bound to \<open>i\<close>. The checkpoint after a revision is bound to the current milestone of the new plan;
  only where there is none, or no milestone is left, nothing is written.
\<close>

definition rebound :: "go_runtime \<Rightarrow> filemap \<Rightarrow> string \<Rightarrow> doc content option \<Rightarrow> bool" where
  "rebound rt F i v \<longleftrightarrow> (\<exists>c. checkpoint_in rt F c \<and> rc_ExecutionMilestoneID c \<in> {[], i} \<and>
     v = Some (saved_checkpoint (c\<lparr>rc_ExecutionMilestoneID := i\<rparr>)))"

definition bound_checkpoint :: "go_runtime \<Rightarrow> Plan \<Rightarrow> filemap \<Rightarrow> doc content option \<Rightarrow> bool" where
  "bound_checkpoint rt p F v \<longleftrightarrow> (if plan_finished p \<or> F resumeStateFile = None then v = F resumeStateFile
     else rebound rt F (md_ID (current_definition p)) v)"

lemma revised_unfinished:
  assumes "revised rt F p ds p'"
  shows "\<not> plan_finished p'"
proof -
  have "map mr_MilestoneDefinition (pl_Milestones p') = ds" using assms by (simp add: revised_def Let_def)
  then have "length (pl_Milestones p') = length ds" by (metis length_map)
  moreover have "nat (pl_CurrentIndex p') < length ds" using assms by (simp add: revised_def Let_def)
  ultimately show ?thesis unfolding plan_finished_def by linarith
qed

lemma absent_checkpoint:
  "triple (state_is F) (attempt (LoadResumeCheckpoint rt))
     (\<lambda>r st. ((r = Inl NoResumeCheckpoint \<longrightarrow> F resumeStateFile = None) \<and> (\<forall>c. r = Inr c \<longrightarrow> checkpoint_in rt F c \<and> F resumeStateFile \<noteq> None)) \<and>
        state_is F st) E"
proof (rule tripleI)
  fix st r st' assume st: "state_is F st" and run: "attempt (LoadResumeCheckpoint rt) st = (Inr r, st')"
  have "files st resumeStateFile = F resumeStateFile"
    using st by (simp add: state_is_def resumeStateFile_def currentStatsFile_def)
  with run triple_InrD [OF attempt_checkpoint st run]
  show "((r = Inl NoResumeCheckpoint \<longrightarrow> F resumeStateFile = None) \<and> (\<forall>c. r = Inr c \<longrightarrow> checkpoint_in rt F c \<and> F resumeStateFile \<noteq> None)) \<and>
      state_is F st'"
    by (auto simp: LoadResumeCheckpoint_def run_defs checkpoint_in_def dest: decode_checkpoint_error
        split: if_splits option.splits content.splits doc.splits sum.splits)
qed (simp add: attempt_def split: prod.splits)

lemma bindStoppedCheckpoint_triple:
  "triple (state_is F) (bindStoppedCheckpoint rt p) (\<lambda>_ st. \<exists>v. bound_checkpoint rt p F v \<and> state_is (F(resumeStateFile := v)) st) (\<lambda>_. state_is F)"
proof -
  have same: "\<exists>v. bound_checkpoint rt p F v \<and> state_is (F(resumeStateFile := v)) st"
    if "state_is F st" "plan_finished p \<or> F resumeStateFile = None" for st
    using that by (intro exI [of _ "F resumeStateFile"]) (simp add: bound_checkpoint_def)
  show ?thesis
    unfolding bindStoppedCheckpoint_def
  proof (rule triple_if, rule triple_return, erule same, simp, rule triple_bind [OF absent_checkpoint], rule triple_assume, rule triple_sum, goal_cases)
    case (1 r e) then show ?case by (intro triple_if triple_return triple_throw same) auto
  next
    case (2 r c)
    then have c: "checkpoint_in rt F c" "F resumeStateFile \<noteq> None" "\<not> plan_finished p" by auto
    show ?case unfolding Let_def
      by (rule triple_if, rule triple_throw, assumption, rule triple_weaken [OF SaveResumeCheckpoint_clean], assumption)
        (use c in \<open>auto simp: bound_checkpoint_def rebound_def\<close>)
  qed
qed

lemma SavePlan_clean:
  "triple (state_is F) (SavePlan p) (\<lambda>_. state_is (F(ExecutionMilestonesStateFile \<mapsto> Doc (MilestonesD p)))) (\<lambda>_. state_is F)"
  unfolding SavePlan_def by (rule triple_wrap) (rule writeFileAtomic_clean)

text \<open>The outcome of a revision; when it fails, the checkpoint may have been bound already.\<close>

definition revision_done :: "go_runtime \<Rightarrow> repository \<Rightarrow> filemap \<Rightarrow> MilestoneDefinition list \<Rightarrow> bool \<Rightarrow> store \<Rightarrow> bool" where
  "revision_done rt repo F ds ok st \<longleftrightarrow> (\<exists>p' v. plan_from rt repo F ds p' \<and> bound_checkpoint rt p' F v \<and>
     state_is (if ok then F(resumeStateFile := v, ExecutionMilestonesStateFile \<mapsto> Doc (MilestonesD p')) else F(resumeStateFile := v)) st)"

lemma Revise_triple:
  "triple (state_is F) (Revise rt repo ds t) (\<lambda>r st. revision_done rt repo F ds True st)
     (\<lambda>_ st. state_is F st \<or> revision_done rt repo F ds False st)"
  unfolding Revise_def
proof (rule triple_bind [OF triple_weaken [OF prepareRevision_triple]], assumption, assumption, simp, rule triple_assume)
  fix p assume p: "plan_from rt repo F ds p"
  show "triple (state_is F) (thenE (bindStoppedCheckpoint rt p) (thenE (SavePlan p) (returnE (revisionResult p))))
      (\<lambda>r st. revision_done rt repo F ds True st) (\<lambda>_ st. state_is F st \<or> revision_done rt repo F ds False st)"
  proof (rule triple_then [OF triple_weaken [OF bindStoppedCheckpoint_triple]], assumption, assumption, simp, rule triple_exists_pre, rule triple_assume)
    fix v assume v: "bound_checkpoint rt p F v"
    show "triple (state_is (F(resumeStateFile := v))) (thenE (SavePlan p) (returnE (revisionResult p)))
      (\<lambda>r st. revision_done rt repo F ds True st) (\<lambda>_ st. state_is F st \<or> revision_done rt repo F ds False st)"
      by (rule triple_then [OF triple_weaken [OF SavePlan_clean]], assumption, assumption)
        (use p v in \<open>auto simp: revision_done_def intro!: triple_return\<close>)
  qed
qed

text \<open>
  C31. A revision of a milestone plan, whatever accesses fail, changes no file but the plan and the checkpoint. When it fails,
  the plan is as it was; when it succeeds, the new plan has the completed milestones of the old one with their completions,
  the same current index and the validated new definitions as its milestones, all further ones pending; a milestone in
  flight keeps its definition, and the plan is bound to the contract of the task as it is now. The stopped checkpoint, if there
  is one, had no milestone or the current one of the new plan, and is the same checkpoint bound to the current milestone of the
  new plan. After a failure it is as it was, or already bound so.
\<close>

theorem revision_keeps_completed:
  assumes run: "Revise rt repo ds t st = (r, st')"
    and plan: "files st ExecutionMilestonesStateFile = Some (Doc (MilestonesD p))"
  shows "(\<forall>n. n \<notin> {ExecutionMilestonesStateFile, resumeStateFile, currentStatsFile} \<longrightarrow> files st' n = files st n) \<and>
     (case r of
        Inl _ \<Rightarrow> files st' ExecutionMilestonesStateFile = files st ExecutionMilestonesStateFile \<and>
          (files st' resumeStateFile = files st resumeStateFile \<or>
           (\<exists>p' ds'. ValidateMilestoneDefinitions ds = Inr ds' \<and> revised rt (files st) p ds' p' \<and>
              rebound rt (files st) (md_ID (current_definition p')) (files st' resumeStateFile)))
      | Inr _ \<Rightarrow> \<exists>p' ds'. files st' ExecutionMilestonesStateFile = Some (Doc (MilestonesD p')) \<and>
          ValidateMilestoneDefinitions ds = Inr ds' \<and> revised rt (files st) p ds' p' \<and> authorised repo (files st) p' \<and>
          (if files st resumeStateFile = None then files st' resumeStateFile = None
           else rebound rt (files st) (md_ID (current_definition p')) (files st' resumeStateFile)))"
proof -
  have rf: "resumeStateFile \<noteq> currentStatsFile" "resumeStateFile \<noteq> ExecutionMilestonesStateFile"
    using milestone_names(4) by (simp_all del: milestone_names)
  have bound: "\<exists>ds'. ValidateMilestoneDefinitions ds = Inr ds' \<and> revised rt (files st) p ds' p' \<and> authorised repo (files st) p' \<and>
      (if files st resumeStateFile = None then v = None else rebound rt (files st) (md_ID (current_definition p')) v)"
    if "plan_from rt repo (files st) ds p'" "bound_checkpoint rt p' (files st) v" for p' v
    using that plan revised_unfinished unfolding plan_from_def bound_checkpoint_def by (auto split: if_splits)
  show ?thesis
  proof (cases r)
    case (Inl e)
    with triple_InlD [OF Revise_triple state_is_self, of rt repo ds t st e st'] run
    consider "state_is (files st) st'"
      | p' v where "plan_from rt repo (files st) ds p'" "bound_checkpoint rt p' (files st) v" "state_is ((files st)(resumeStateFile := v)) st'"
      by (auto simp: revision_done_def)
    then show ?thesis
    proof cases
      case 1 then show ?thesis using Inl rf by (simp add: state_is_def)
    next
      case 2
      have "files st' resumeStateFile = v" "\<forall>n. n \<noteq> resumeStateFile \<and> n \<noteq> currentStatsFile \<longrightarrow> files st' n = files st n"
        using 2(3) rf by (auto simp: state_is_def)
      with bound [OF 2(1,2)] Inl rf show ?thesis by (auto split: if_splits)
    qed
  next
    case (Inr v)
    with triple_InrD [OF Revise_triple state_is_self, of rt repo ds t st v st'] run
    obtain p' w where p': "plan_from rt repo (files st) ds p'" "bound_checkpoint rt p' (files st) w"
        "state_is ((files st)(resumeStateFile := w, ExecutionMilestonesStateFile \<mapsto> Doc (MilestonesD p'))) st'"
      by (auto simp: revision_done_def)
    from p'(3) have "files st' resumeStateFile = w" using rf by (simp add: state_is_def)
    with p'(3) Inr rf bound [OF p'(1,2)] show ?thesis by (auto simp: state_is_def)
  qed
qed

section \<open>Concrete plans\<close>

definition sample_repository :: repository where
  "sample_repository = \<lparr>repo_ReadFile = (\<lambda>path. if path = ''tasks/a.md'' then Inr ''contract'' else Inl (NotExist path)),
     repo_sha256 = rev, repo_snapshot = Inr \<lparr>gs_Head = ''h'', gs_IndexDigest = ''i'', gs_WorktreeDigest = ''w'',
       gs_WorktreeDigestExcludingParent = [], gs_ParentFiles = None\<rparr>\<rparr>"

definition sample_definition :: "string \<Rightarrow> bool \<Rightarrow> MilestoneDefinition" where
  "sample_definition i restart = \<lparr>md_ID = i, md_Scope = ''scope'', md_Acceptance = ''done'', md_FreshWorker = restart\<rparr>"

definition sample_completion :: Completion where
  "sample_completion = \<lparr>cm_CompletedAt = 3, cm_CallID = ''c'', cm_WorkerSessionID = ''w'', cm_Summary = ''s'',
     cm_TaskContractSHA256 = rev ''contract'', cm_Snapshot = \<lparr>gs_Head = ''h'', gs_IndexDigest = ''i'', gs_WorktreeDigest = ''w'',
       gs_WorktreeDigestExcludingParent = [], gs_ParentFiles = None\<rparr>\<rparr>"

definition sample_plan :: Plan where
  "sample_plan = \<lparr>pl_Version = 1, pl_TaskID = ''t1'', pl_ActiveTaskPath = ''tasks/a.md'', pl_TaskContractSHA256 = rev ''contract'',
     pl_CurrentIndex = 1, pl_Milestones = [\<lparr>mr_MilestoneDefinition = sample_definition ''m1'' False, mr_Status = ''complete'',
       mr_Completion = Some sample_completion\<rparr>, pending_record (sample_definition ''m2'' False),
       pending_record (sample_definition ''m3'' True)], pl_UpdatedAt = 3\<rparr>"

definition milestone_store :: "string \<Rightarrow> bool \<Rightarrow> (nat \<Rightarrow> bool) \<Rightarrow> store" where
  "milestone_store status planned faults =
     \<lparr>files = [''task.status'' \<mapsto> Text status, ''task.id'' \<mapsto> Text ''t1'', ''active-task'' \<mapsto> Text ''tasks/a.md'',
        ''resume-state.json'' \<mapsto> saved_checkpoint sample_checkpoint](''execution-milestones.json'' :=
          (if planned then Some (Doc (MilestonesD sample_plan)) else None)),
      listing = [''active-task'', ''execution-milestones.json'', ''resume-state.json'', ''task.id'', ''task.status''],
      access = 0, fault = faults, now = 7, lifecycle_log = [], outcome_log = []\<rparr>"

definition sample_revision :: "MilestoneDefinition list" where
  "sample_revision = [sample_definition ''m1'' False, sample_definition '' m2b '' False]"

theorem revision_keeps_completed_witness:
  "\<exists>v st' p' ds'. Revise sample_runtime sample_repository sample_revision 9 (milestone_store ''waiting-decision'' True (\<lambda>_. False)) = (Inr v, st') \<and>
     rv_CurrentID v = ''m2b'' \<and> files st' ExecutionMilestonesStateFile = Some (Doc (MilestonesD p')) \<and>
     revised sample_runtime (files (milestone_store ''waiting-decision'' True (\<lambda>_. False))) sample_plan ds' p' \<and>
     rebound sample_runtime (files (milestone_store ''waiting-decision'' True (\<lambda>_. False))) (md_ID (current_definition p'))
       (files st' resumeStateFile)"
proof -
  let ?st = "milestone_store ''waiting-decision'' True (\<lambda>_. False)"
  have v: "case fst (Revise sample_runtime sample_repository sample_revision 9 ?st) of Inl _ \<Rightarrow> False | Inr v \<Rightarrow> rv_CurrentID v = ''m2b''"
    by code_simp
  then obtain v st' where run: "Revise sample_runtime sample_repository sample_revision 9 ?st = (Inr v, st')" and v: "rv_CurrentID v = ''m2b''"
    by (cases "Revise sample_runtime sample_repository sample_revision 9 ?st") (auto split: sum.splits)
  have plan: "files ?st ExecutionMilestonesStateFile = Some (Doc (MilestonesD sample_plan))"
    by (simp add: milestone_store_def ExecutionMilestonesStateFile_def)
  have "files ?st resumeStateFile \<noteq> None" by (simp add: milestone_store_def resumeStateFile_def)
  with revision_keeps_completed [OF run plan] obtain p' ds' where
    "files st' ExecutionMilestonesStateFile = Some (Doc (MilestonesD p'))" "revised sample_runtime (files ?st) sample_plan ds' p'"
    "rebound sample_runtime (files ?st) (md_ID (current_definition p')) (files st' resumeStateFile)"
    by auto
  with run v show ?thesis by blast
qed

text \<open>
  A revision binds the checkpoint before it saves the plan. When only the last write fails, the directory has a checkpoint
  that names a milestone and no plan: the milestone is not current for the checkpoint, and a revision whose current
  milestone has another identity is refused.
\<close>

lemma failed_save_leaves_binding:
  "case Revise sample_runtime sample_repository [sample_definition ''a'' False, sample_definition ''b'' False] 9
      (milestone_store ''waiting-decision'' False (\<lambda>n. n = 7)) of (r, st) \<Rightarrow>
     isl r \<and> files st ''execution-milestones.json'' = None \<and>
     (case fst (LoadResumeCheckpoint sample_runtime st) of Inl _ \<Rightarrow> False | Inr c \<Rightarrow> rc_ExecutionMilestoneID c = ''a'') \<and>
     isl (fst (Revise sample_runtime sample_repository [sample_definition ''x'' False, sample_definition ''b'' False] 9 st))"
  by code_simp

end
