(* ===== verification/Milestone_Progress.thy ===== *)
theory Milestone_Progress
  imports Milestones
begin

text \<open>
  The progress that is reported for a task (\<^verbatim>\<open>workflow/execution_progress.go\<close>): the consistency of the plan with the
  task, the stage of the current phase, the band of the progress and the projection built from them.
\<close>

record ExecutionProgressMilestone =
  pm_ID :: string
  pm_Position :: int
  pm_Count :: int

record ExecutionProgressProjection =
  pp_Status :: string
  pp_Band :: string
  pp_Basis :: string
  pp_Precision :: string
  pp_Reason :: string
  pp_PhaseStage :: string
  pp_CompletedMilestones :: "string list"
  pp_CurrentMilestone :: "ExecutionProgressMilestone option"
  pp_PendingMilestones :: "string list"

definition invalidMilestoneProgressStateReason :: string where
  "invalidMilestoneProgressStateReason = ''invalid-milestone-state''"

definition indeterminateExecutionProgress :: "string \<Rightarrow> string \<Rightarrow> string \<Rightarrow> ExecutionProgressProjection" where
  "indeterminateExecutionProgress phaseStage basis reason =
     \<lparr>pp_Status = ''indeterminate'', pp_Band = [], pp_Basis = basis, pp_Precision = ''unavailable'', pp_Reason = reason,
      pp_PhaseStage = phaseStage, pp_CompletedMilestones = [], pp_CurrentMilestone = None, pp_PendingMilestones = []\<rparr>"

text \<open>The loop over the records, with the index at which each record stands.\<close>

definition record_consistent :: "int \<Rightarrow> nat \<Rightarrow> Record \<Rightarrow> bool" where
  "record_consistent currentIndex index r =
     (if trim_space (md_ID (mr_MilestoneDefinition r)) = [] then False
      else if int index < currentIndex then mr_Status r = StatusComplete \<and> mr_Completion r \<noteq> None
      else mr_Status r = StatusPending \<and> mr_Completion r = None)"

definition executionProgressMilestonesConsistent :: "Plan \<Rightarrow> bool" where
  "executionProgressMilestonesConsistent p =
     list_all (\<lambda>(i, r). record_consistent (pl_CurrentIndex p) i r) (zip [0..<length (pl_Milestones p)] (pl_Milestones p))"

definition executionProgressPlanInconsistency :: "Plan \<Rightarrow> TaskStatus \<Rightarrow> string sop" where
  "executionProgressPlanInconsistency p taskStatus = bindE (ReadOr ''task.id'' []) (\<lambda>taskID.
     returnE (if taskID \<noteq> [] \<and> pl_TaskID p \<noteq> taskID then ''milestone-task-mismatch''
       else if length (pl_Milestones p) < 2 \<or> \<not> executionProgressMilestonesConsistent p then invalidMilestoneProgressStateReason
       else if taskStatus = TaskStatusComplete \<and> pl_CurrentIndex p \<noteq> int (length (pl_Milestones p))
       then ''lifecycle-milestone-inconsistent''
       else []))"

definition executionProgressPhaseStage :: "string \<Rightarrow> string \<Rightarrow> string" where
  "executionProgressPhaseStage currentPhase currentRole =
     (if currentRole = ReviewerRole \<or> has_prefix currentPhase ''reviewer-'' then ''review''
      else if WorkerPhaseCategory currentPhase = WorkerPhaseCategoryDecision then ''decision''
      else if currentRole = WorkerRole \<or> has_prefix currentPhase ''worker-'' then ''implementation''
      else if currentPhase = [] then ''unknown''
      else ''other'')"

definition executionProgressBand :: "int \<Rightarrow> int \<Rightarrow> string \<Rightarrow> TaskStatus \<Rightarrow> string" where
  "executionProgressBand currentIndex milestoneCount phaseStage taskStatus =
     (if taskStatus = TaskStatusComplete then ''complete''
      else if milestoneCount \<le> currentIndex then ''late''
      else if currentIndex = 0
      then if phaseStage = ''review'' \<or> phaseStage = ''decision'' then ''early-to-middle'' else ''early''
      else if currentIndex = milestoneCount - 1
      then if phaseStage = ''implementation'' \<or> phaseStage = ''unknown'' then ''middle-to-late'' else ''late''
      else if currentIndex * 3 < milestoneCount then ''early-to-middle''
      else if currentIndex * 3 > 2 * milestoneCount then ''middle-to-late''
      else ''middle'')"

definition projectNonMilestoneExecutionProgress :: "string \<Rightarrow> ExecutionProgressProjection sop" where
  "projectNonMilestoneExecutionProgress phaseStage = bindE (attempt CurrentDisposition) (\<lambda>r. returnE (case r of
       Inl _ \<Rightarrow> indeterminateExecutionProgress phaseStage ''machine-state'' ''execution-unit-disposition-unavailable''
     | Inr None \<Rightarrow> indeterminateExecutionProgress phaseStage ''single-or-untracked-execution-unit'' ''no-execution-milestones''
     | Inr (Some d) \<Rightarrow>
         if du_ExecutionUnit d = ExecutionUnitSingle
         then indeterminateExecutionProgress phaseStage ''explicit-single-execution-unit'' ''single-execution-unit''
         else if du_ExecutionUnit d = ExecutionUnitMilestones
         then indeterminateExecutionProgress phaseStage ''machine-state'' ''milestone-state-missing''
         else indeterminateExecutionProgress phaseStage ''machine-state'' ''execution-unit-disposition-unavailable''))"

definition add_milestone :: "Plan \<Rightarrow> nat \<times> Record \<Rightarrow> ExecutionProgressProjection \<Rightarrow> ExecutionProgressProjection" where
  "add_milestone p = (\<lambda>(index, r) pp. let ident = md_ID (mr_MilestoneDefinition r) in
     if int index < pl_CurrentIndex p then pp\<lparr>pp_CompletedMilestones := pp_CompletedMilestones pp @ [ident]\<rparr>
     else if int index = pl_CurrentIndex p
     then pp\<lparr>pp_CurrentMilestone := Some \<lparr>pm_ID = ident, pm_Position = int index + 1, pm_Count = int (length (pl_Milestones p))\<rparr>\<rparr>
     else pp\<lparr>pp_PendingMilestones := pp_PendingMilestones pp @ [ident]\<rparr>)"

definition project_plan :: "Plan \<Rightarrow> string \<Rightarrow> TaskStatus \<Rightarrow> ExecutionProgressProjection" where
  "project_plan p phaseStage taskStatus =
     (let start = \<lparr>pp_Status = ''estimated'', pp_Band = [], pp_Basis = ''execution-milestones+phase'', pp_Precision = ''coarse'',
          pp_Reason = [], pp_PhaseStage = phaseStage, pp_CompletedMilestones = [], pp_CurrentMilestone = None, pp_PendingMilestones = []\<rparr>;
          pp = fold (add_milestone p) (zip [0..<length (pl_Milestones p)] (pl_Milestones p)) start;
          pp = pp\<lparr>pp_Band := executionProgressBand (pl_CurrentIndex p) (int (length (pl_Milestones p))) phaseStage taskStatus\<rparr>
      in if taskStatus = TaskStatusComplete then pp\<lparr>pp_Status := ''complete'', pp_Precision := ''exact''\<rparr> else pp)"

definition ProjectExecutionProgress :: "string \<Rightarrow> string \<Rightarrow> ExecutionProgressProjection sop" where
  "ProjectExecutionProgress currentPhase currentRole =
     (let phaseStage = executionProgressPhaseStage currentPhase currentRole in
      bindE (attempt LoadPlan) (\<lambda>r. case r of
          Inl _ \<Rightarrow> returnE (indeterminateExecutionProgress phaseStage ''machine-state'' ''milestone-state-unavailable'')
        | Inr None \<Rightarrow> projectNonMilestoneExecutionProgress phaseStage
        | Inr (Some p) \<Rightarrow>
            if pl_Milestones p = [] then projectNonMilestoneExecutionProgress phaseStage
            else bindE get_TaskStatus (\<lambda>taskStatus.
              bindE (executionProgressPlanInconsistency p taskStatus) (\<lambda>reason.
                returnE (if reason \<noteq> [] then indeterminateExecutionProgress phaseStage ''machine-state'' reason
                  else project_plan p phaseStage taskStatus)))))"

section \<open>The projection\<close>

abbreviation milestone_ids :: "Record list \<Rightarrow> string list" where
  "milestone_ids rs \<equiv> map (\<lambda>r. md_ID (mr_MilestoneDefinition r)) rs"

lemma fold_milestones:
  assumes "0 \<le> pl_CurrentIndex p" "pp_CompletedMilestones pp = []" "pp_CurrentMilestone pp = None" "pp_PendingMilestones pp = []"
  shows "fold (add_milestone p) (zip [0..<length rs] rs) pp = (let i = nat (pl_CurrentIndex p) in
     pp\<lparr>pp_CompletedMilestones := milestone_ids (take i rs),
        pp_CurrentMilestone := (if i < length rs then Some \<lparr>pm_ID = md_ID (mr_MilestoneDefinition (rs ! i)),
          pm_Position = pl_CurrentIndex p + 1, pm_Count = int (length (pl_Milestones p))\<rparr> else None),
        pp_PendingMilestones := milestone_ids (drop (Suc i) rs)\<rparr>)"
proof (induction rs rule: rev_induct)
  case Nil
  from assms show ?case by simp
next
  case (snoc r rs)
  have split: "zip [0..<length (rs @ [r])] (rs @ [r]) = zip [0..<length rs] rs @ [(length rs, r)]" by simp
  consider "length rs < nat (pl_CurrentIndex p)" | "length rs = nat (pl_CurrentIndex p)" | "nat (pl_CurrentIndex p) < length rs"
    by linarith
  then show ?case
    unfolding split fold_append comp_apply snoc Let_def
    by cases (use assms(1) in \<open>auto simp: add_milestone_def nth_append Let_def\<close>)
qed

lemma consistent_nth:
  "executionProgressMilestonesConsistent p \<longleftrightarrow>
     (\<forall>i < length (pl_Milestones p). record_consistent (pl_CurrentIndex p) i (pl_Milestones p ! i))"
  by (auto simp: executionProgressMilestonesConsistent_def list_all_length)

lemma reads_milestones [reads_intro]: "reads LoadPlan" "reads LoadDisposition" "reads CurrentDisposition" "reads (currentAuthority repo)"
  unfolding CurrentDisposition_def currentAuthority_def
  by (intro reads_intro plan_file.load_reads disposition_file.load_reads | auto split: option.split intro!: reads_intro disposition_file.load_reads)+

section \<open>Bands\<close>

definition band_rank :: "string \<Rightarrow> nat" where
  "band_rank b = (if b = ''early'' then 0 else if b = ''early-to-middle'' then 1 else if b = ''middle'' then 2
     else if b = ''middle-to-late'' then 3 else if b = ''late'' then 4 else 5)"

lemma band_rank_simps [simp]:
  "band_rank ''early'' = 0" "band_rank ''early-to-middle'' = 1" "band_rank ''middle'' = 2" "band_rank ''middle-to-late'' = 3"
  "band_rank ''late'' = 4" "band_rank ''complete'' = 5"
  by (simp_all add: band_rank_def)

lemma band_bounds:
  assumes "0 \<le> i"
  shows "s = TaskStatusComplete \<Longrightarrow> band_rank (executionProgressBand i n ph s) = 5"
    and "s \<noteq> TaskStatusComplete \<Longrightarrow> n \<le> i \<Longrightarrow> band_rank (executionProgressBand i n ph s) = 4"
    and "s \<noteq> TaskStatusComplete \<Longrightarrow> i < n \<Longrightarrow> i = 0 \<Longrightarrow> band_rank (executionProgressBand i n ph s) \<le> 1"
    and "s \<noteq> TaskStatusComplete \<Longrightarrow> i < n \<Longrightarrow> i \<noteq> 0 \<Longrightarrow> i = n - 1 \<Longrightarrow> band_rank (executionProgressBand i n ph s) \<in> {3, 4}"
    and "s \<noteq> TaskStatusComplete \<Longrightarrow> i < n \<Longrightarrow> i \<noteq> 0 \<Longrightarrow> i \<noteq> n - 1 \<Longrightarrow> band_rank (executionProgressBand i n ph s) =
      (if i * 3 < n then 1 else if i * 3 > 2 * n then 3 else 2)"
  using assms by (simp_all add: executionProgressBand_def)

lemma band_monotone:
  assumes "0 \<le> i" "i < j" "s = TaskStatusComplete \<longrightarrow> s' = TaskStatusComplete"
  shows "band_rank (executionProgressBand i n ph s) \<le> band_rank (executionProgressBand j n ph' s')"
proof (cases "s' = TaskStatusComplete")
  case True
  have "band_rank b \<le> 5" for b by (simp add: band_rank_def)
  with band_bounds(1) [of j, OF _ True] assms show ?thesis by simp
next
  case False
  with assms have s: "s \<noteq> TaskStatusComplete" by blast
  have j: "0 \<le> j" "j \<noteq> 0" using assms by auto
  note low = band_bounds(2-5) [OF assms(1) s, of n ph] and high = band_bounds(2-5) [OF j(1) False, of n ph']
  consider "n \<le> i" | "i < n" "n \<le> j" | "i < j" "j = n - 1" | "j < n - 1"
    by atomize_elim (use assms(2) in linarith)
  then show ?thesis
  proof cases
    case 1 with low(1) high(1) assms(2) show ?thesis by simp
  next
    case 2
    have "band_rank (executionProgressBand i n ph s) \<le> 4"
      using low(2-4) 2 by (cases "i = 0"; cases "i = n - 1") auto
    with high(1) 2 show ?thesis by simp
  next
    case 3
    have "band_rank (executionProgressBand i n ph s) \<le> 3"
      using low(2,4) 3 by (cases "i = 0") auto
    with high(3) 3 j show ?thesis by auto
  next
    case 4
    show ?thesis
      using low(2,4) high(4) 4 j assms(2) by (cases "i = 0") (auto split: if_splits)
  qed
qed

text \<open>What the projection of a plan shows.\<close>

definition projects :: "Plan \<Rightarrow> string \<Rightarrow> TaskStatus \<Rightarrow> ExecutionProgressProjection \<Rightarrow> bool" where
  "projects p phaseStage status pp \<longleftrightarrow> (let i = nat (pl_CurrentIndex p); rs = pl_Milestones p in
     pp_CompletedMilestones pp = milestone_ids (take i rs) \<and> pp_PendingMilestones pp = milestone_ids (drop (Suc i) rs) \<and>
     pp_CurrentMilestone pp = (if i < length rs
       then Some \<lparr>pm_ID = md_ID (mr_MilestoneDefinition (rs ! i)), pm_Position = pl_CurrentIndex p + 1, pm_Count = int (length rs)\<rparr> else None) \<and>
     pp_Band pp = executionProgressBand (pl_CurrentIndex p) (int (length rs)) phaseStage status \<and>
     pp_PhaseStage pp = phaseStage \<and>
     pp_Status pp = (if status = TaskStatusComplete then ''complete'' else ''estimated''))"

lemma project_plan_projects: "0 \<le> pl_CurrentIndex p \<Longrightarrow> projects p phaseStage status (project_plan p phaseStage status)"
  by (simp add: project_plan_def projects_def Let_def fold_milestones)

lemma indeterminate_status [simp]: "pp_Status (indeterminateExecutionProgress ph basis reason) = ''indeterminate''"
  by (simp add: indeterminateExecutionProgress_def)

lemma non_milestone_status:
  "triple (\<lambda>_. True) (projectNonMilestoneExecutionProgress ph) (\<lambda>pp _. pp_Status pp = ''indeterminate'') (\<lambda>_ _. True)"
  unfolding projectNonMilestoneExecutionProgress_def
  by (rule any_step, rule triple_return) (auto split: sum.split option.split)

definition progress_sound :: "filemap \<Rightarrow> string \<Rightarrow> ExecutionProgressProjection \<Rightarrow> bool" where
  "progress_sound F phaseStage pp \<longleftrightarrow> pp_Status pp = ''indeterminate'' \<or>
     (\<exists>p status. F ExecutionMilestonesStateFile = Some (Doc (MilestonesD p)) \<and> plan_error p = None \<and> 2 \<le> length (pl_Milestones p) \<and>
        executionProgressMilestonesConsistent p \<and> status \<in> {TaskStatusNone, status_of F} \<and>
        (status = TaskStatusComplete \<longrightarrow> pl_CurrentIndex p = int (length (pl_Milestones p))) \<and> projects p phaseStage status pp)"

lemma inconsistency_triple:
  "triple (state_is F) (executionProgressPlanInconsistency p status)
     (\<lambda>reason st. (reason = [] \<longrightarrow> 2 \<le> length (pl_Milestones p) \<and> executionProgressMilestonesConsistent p \<and>
        (status = TaskStatusComplete \<longrightarrow> pl_CurrentIndex p = int (length (pl_Milestones p)))) \<and> state_is F st) (\<lambda>_. state_is F)"
  unfolding executionProgressPlanInconsistency_def
  by (rule triple_bind [OF ReadOr_clean], rule triple_return) (auto simp: invalidMilestoneProgressStateReason_def split: if_splits)

lemma progress_triple:
  "triple (state_is F) (ProjectExecutionProgress ph role)
     (\<lambda>pp st. progress_sound F (executionProgressPhaseStage ph role) pp \<and> state_is F st) (\<lambda>_. state_is F)"
  unfolding ProjectExecutionProgress_def Let_def
proof (rule triple_bind [where R = "\<lambda>r st. (\<forall>x. r = Inr x \<longrightarrow> holds_document ExecutionMilestonesStateFile MilestonesD plan_error F x) \<and> state_is F st"],
    goal_cases)
  case 1 show ?case by (rule triple_attempt, rule triple_weaken [OF plan_file.load_triple]) auto
next
  case (2 r)
  let ?Q = "\<lambda>pp st. progress_sound F (executionProgressPhaseStage ph role) pp \<and> state_is F st"
  have none: "triple (state_is F) (projectNonMilestoneExecutionProgress (executionProgressPhaseStage ph role)) ?Q (\<lambda>_. state_is F)"
  proof (rule triple_weaken [OF reads_value [OF _ non_milestone_status]])
    show "reads (projectNonMilestoneExecutionProgress (executionProgressPhaseStage ph role))"
      unfolding projectNonMilestoneExecutionProgress_def by (intro reads_intro)
  qed (auto simp: progress_sound_def)
  have plan: "triple (state_is F) (bindE get_TaskStatus (\<lambda>taskStatus.
              bindE (executionProgressPlanInconsistency p taskStatus) (\<lambda>reason.
                returnE (if reason \<noteq> [] then indeterminateExecutionProgress (executionProgressPhaseStage ph role) ''machine-state'' reason
                  else project_plan p (executionProgressPhaseStage ph role) taskStatus)))) ?Q (\<lambda>_. state_is F)"
    if p: "F ExecutionMilestonesStateFile = Some (Doc (MilestonesD p))" "plan_error p = None" for p
  proof (rule triple_bind [OF get_TaskStatus_read], rule triple_assume, rule triple_bind [OF inconsistency_triple], rule triple_assume,
      rule triple_return)
    fix status and reason :: string and st
    assume s: "status \<in> {TaskStatusNone, status_of F}" "state_is F st"
      and reason: "reason = [] \<longrightarrow> 2 \<le> length (pl_Milestones p) \<and> executionProgressMilestonesConsistent p \<and>
        (status = TaskStatusComplete \<longrightarrow> pl_CurrentIndex p = int (length (pl_Milestones p)))"
    let ?ph = "executionProgressPhaseStage ph role"
    have "projects p ?ph status (project_plan p ?ph status)" using p(2) by (simp add: project_plan_projects plan_error_None)
    then have "progress_sound F ?ph (project_plan p ?ph status)" if "reason = []"
      unfolding progress_sound_def using p s(1) reason that by (intro disjI2 exI [of _ p] exI [of _ status]) simp
    then show "?Q (if reason \<noteq> [] then indeterminateExecutionProgress ?ph ''machine-state'' reason else project_plan p ?ph status) st"
      using s(2) by (simp add: progress_sound_def)
  qed
  show ?case
    by (rule triple_assume, intro triple_sum triple_option triple_if none plan triple_return)
      (auto simp: progress_sound_def holds_document_def)
qed

text \<open>
  The reported progress is true and never goes back. A projection reads and changes nothing; one that is not
  indeterminate is that of the stored plan, which is consistent: the completed, the current and the pending
  milestones are those before, at and after the current index, and a complete task has none open. Between two such
  reports on plans with the same number of milestones the band of a plan that is further on is never the lower one,
  whatever the phases of the two reports, unless a complete task became incomplete.
\<close>

theorem progress_never_goes_back:
  assumes run: "ProjectExecutionProgress ph role st = (Inr pp, st1)"
    and run': "ProjectExecutionProgress ph' role' st' = (Inr pp', st1')"
    and determinate: "pp_Status pp \<noteq> ''indeterminate''" "pp_Status pp' \<noteq> ''indeterminate''"
  shows "\<exists>p p' status status'. state_is (files st) st1 \<and>
     files st ExecutionMilestonesStateFile = Some (Doc (MilestonesD p)) \<and> executionProgressMilestonesConsistent p \<and>
     projects p (executionProgressPhaseStage ph role) status pp \<and>
     files st' ExecutionMilestonesStateFile = Some (Doc (MilestonesD p')) \<and>
     projects p' (executionProgressPhaseStage ph' role') status' pp' \<and>
     (status = TaskStatusComplete \<longrightarrow> pl_CurrentIndex p = int (length (pl_Milestones p))) \<and>
     (length (pl_Milestones p) = length (pl_Milestones p') \<and> length (pp_CompletedMilestones pp) < length (pp_CompletedMilestones pp') \<and>
      (pp_Status pp = ''complete'' \<longrightarrow> pp_Status pp' = ''complete'') \<longrightarrow>
      band_rank (pp_Band pp) \<le> band_rank (pp_Band pp'))"
proof -
  note sound = triple_InrD [OF progress_triple state_is_self run] and sound' = triple_InrD [OF progress_triple state_is_self run']
  from sound determinate(1) obtain p status where p: "files st ExecutionMilestonesStateFile = Some (Doc (MilestonesD p))"
      "executionProgressMilestonesConsistent p" "projects p (executionProgressPhaseStage ph role) status pp" "state_is (files st) st1"
      "status = TaskStatusComplete \<longrightarrow> pl_CurrentIndex p = int (length (pl_Milestones p))" "0 \<le> pl_CurrentIndex p"
    by (auto simp: plan_error_None progress_sound_def)
  from sound' determinate(2) obtain p' status' where p': "files st' ExecutionMilestonesStateFile = Some (Doc (MilestonesD p'))"
      "projects p' (executionProgressPhaseStage ph' role') status' pp'"
    by (auto simp: progress_sound_def)
  have "band_rank (pp_Band pp) \<le> band_rank (pp_Band pp')"
    if "length (pl_Milestones p) = length (pl_Milestones p')" "length (pp_CompletedMilestones pp) < length (pp_CompletedMilestones pp')"
      "pp_Status pp = ''complete'' \<longrightarrow> pp_Status pp' = ''complete''"
  proof -
    have status: "status = TaskStatusComplete \<longrightarrow> status' = TaskStatusComplete"
      using that(3) p(3) p'(2) by (auto simp: projects_def Let_def split: if_splits)
    have less: "nat (pl_CurrentIndex p) < nat (pl_CurrentIndex p')"
      using that(1,2) p(3) p'(2) by (auto simp: projects_def Let_def)
    then have "pl_CurrentIndex p < pl_CurrentIndex p'" using p(6) by simp
    from band_monotone [OF p(6) this status] p(3) p'(2) that(1) show ?thesis by (simp add: projects_def Let_def)
  qed
  with p p' show ?thesis by blast
qed

theorem progress_never_goes_back_witness:
  "\<exists>pp st1. ProjectExecutionProgress ''worker-milestone-2'' ''worker'' (milestone_store ''active'' True (\<lambda>_. False)) = (Inr pp, st1) \<and>
     pp_Band pp = ''middle'' \<and> pp_CompletedMilestones pp = [''m1''] \<and> pp_PendingMilestones pp = [''m3'']"
proof -
  let ?run = "ProjectExecutionProgress ''worker-milestone-2'' ''worker'' (milestone_store ''active'' True (\<lambda>_. False))"
  have v: "case fst ?run of Inl _ \<Rightarrow> False | Inr pp \<Rightarrow> pp_Status pp \<noteq> ''indeterminate'' \<and> pp_Band pp = ''middle''" by code_simp
  then obtain pp st1 where run: "?run = (Inr pp, st1)" and pp: "pp_Status pp \<noteq> ''indeterminate''" "pp_Band pp = ''middle''"
    by (cases ?run) (auto split: sum.splits)
  have "files (milestone_store ''active'' True (\<lambda>_. False)) ExecutionMilestonesStateFile = Some (Doc (MilestonesD sample_plan))"
    by (simp add: milestone_store_def ExecutionMilestonesStateFile_def)
  with progress_never_goes_back [OF run run pp(1) pp(1)] run pp(2) show ?thesis
    by (auto simp: projects_def Let_def sample_plan_def sample_definition_def pending_record_def numeral_2_eq_2)
qed

end
