(* ===== verification/Convergence.thy ===== *)
theory Convergence
  imports Review_State "HOL-Library.AList" "HOL-Library.Multiset"
begin

text \<open>
  The comparison of review rounds (\<^verbatim>\<open>state/convergence.go\<close>): the class of a path, the digest of a file
  without its comments, and the difference between the records of two rounds. SHA-256 in hexadecimal
  is an argument \<open>digest\<close>, what the repository holds at a path is an argument \<open>node\<close>, and the order in which
  Go ranges over a map is an argument \<open>order\<close>: the theorem holds for each of them. The log of the
  rounds on disk is not modelled.
\<close>

section \<open>Records\<close>

record RoundPathState =
  rp_Path :: string
  rp_Class :: string
  rp_Deleted :: bool
  rp_FullDigest :: string
  rp_SemanticDigest :: string

record RoundRecord =
  rr_Version :: int
  rr_TaskID :: string
  rr_Seq :: int
  rr_ReviewNumber :: int
  rr_AutoFixes :: int
  rr_WorkerPhase :: string
  rr_CapturedAt :: int
  rr_Snapshot :: SnapshotDigest
  rr_Paths :: "RoundPathState list"
  rr_CaptureError :: string

record RoundDelta =
  dl_Class :: string
  dl_ChangedPaths :: int
  dl_SemanticPaths :: int
  dl_DocPaths :: int

definition RoundPathClassDoc :: string where "RoundPathClassDoc = ''doc''"
definition RoundPathClassCode :: string where "RoundPathClassCode = ''code''"
definition RoundPathClassOther :: string where "RoundPathClassOther = ''other''"
definition RoundDeltaBaseline :: string where "RoundDeltaBaseline = ''baseline''"
definition RoundDeltaInitial :: string where "RoundDeltaInitial = ''initial''"
definition RoundDeltaSameSnapshot :: string where "RoundDeltaSameSnapshot = ''same-snapshot''"
definition RoundDeltaCommentFormat :: string where "RoundDeltaCommentFormat = ''comment-format-only''"
definition RoundDeltaDocChange :: string where "RoundDeltaDocChange = ''doc-change''"
definition RoundDeltaSemantic :: string where "RoundDeltaSemantic = ''semantic-change''"
definition RoundDeltaUnknown :: string where "RoundDeltaUnknown = ''unknown''"
definition RoundWorkerPhaseBaseline :: string where "RoundWorkerPhaseBaseline = ''baseline''"
definition roundCommentSlash :: string where "roundCommentSlash = ''slash''"
definition roundCommentHash :: string where "roundCommentHash = ''hash''"

lemmas round_defs = RoundPathClassDoc_def RoundPathClassCode_def RoundPathClassOther_def RoundDeltaBaseline_def RoundDeltaInitial_def
  RoundDeltaSameSnapshot_def RoundDeltaCommentFormat_def RoundDeltaDocChange_def RoundDeltaSemantic_def RoundDeltaUnknown_def

section \<open>Paths\<close>

text \<open>
  \<^verbatim>\<open>filepath.Ext\<close> and \<^verbatim>\<open>filepath.Base\<close>. \<open>lower_ascii\<close> is \<^verbatim>\<open>strings.ToLower\<close> as far as a comparison with ASCII
  text can see: besides the capital letters, only U+212A and U+0130 have an ASCII letter as lower case.
\<close>

definition path_ext :: "string \<Rightarrow> string" where
  "path_ext path = (let name = takeWhile (\<lambda>c. c \<noteq> path_sep) (rev path); tail = takeWhile (\<lambda>c. c \<noteq> CHR ''.'') name in
     if length tail = length name then [] else CHR ''.'' # rev tail)"

definition path_base :: "string \<Rightarrow> string" where
  "path_base path = (if path = [] then ''.''
     else let name = takeWhile (\<lambda>c. c \<noteq> path_sep) (dropWhile (\<lambda>c. c = path_sep) (rev path)) in
       if name = [] then [path_sep] else rev name)"

fun lower_ascii :: "string \<Rightarrow> string" where
  "lower_ascii (a # b # c # s) =
     (if byte a = 226 \<and> byte b = 132 \<and> byte c = 170 then CHR ''k'' # lower_ascii s
      else if byte a = 196 \<and> byte b = 176 then CHR ''i'' # lower_ascii (c # s)
      else lower_byte a # lower_ascii (b # c # s))"
| "lower_ascii [a, b] = (if byte a = 196 \<and> byte b = 176 then ''i'' else [lower_byte a, lower_byte b])"
| "lower_ascii [a] = [lower_byte a]"
| "lower_ascii [] = []"

definition slash_extensions :: "string list" where
  "slash_extensions = [''.go'', ''.c'', ''.h'', ''.cpp'', ''.hpp'', ''.cc'', ''.hh'', ''.cxx'', ''.hxx'', ''.java'', ''.kt'', ''.kts'', ''.cs'',
     ''.swift'', ''.rs'', ''.dart'', ''.scala'', ''.m'', ''.mm'', ''.php'', ''.js'', ''.jsx'', ''.ts'', ''.tsx'', ''.mjs'', ''.cjs'']"

definition hash_extensions :: "string list" where
  "hash_extensions = [''.py'', ''.toml'', ''.ini'', ''.cfg'']"

definition RoundPathClass :: "string \<Rightarrow> string" where
  "RoundPathClass path = (let ext = lower_ascii (path_ext path) in
     if ext \<in> set [''.md'', ''.markdown'', ''.rst'', ''.adoc'', ''.txt''] then RoundPathClassDoc
     else if ext \<in> set (slash_extensions @ hash_extensions @ [''.json'', ''.css'', ''.scss'', ''.less'']) then RoundPathClassCode
     else if path_base path \<in> set [''LICENSE'', ''NOTICE'', ''CHANGELOG'', ''CHANGELOG.md''] then RoundPathClassDoc
     else RoundPathClassOther)"

definition roundCommentKind :: "string \<Rightarrow> string" where
  "roundCommentKind path = (let ext = lower_ascii (path_ext path) in
     if ext \<in> set slash_extensions then roundCommentSlash
     else if ext \<in> set hash_extensions then roundCommentHash
     else roundCommentNone)"

section \<open>Content without comments\<close>

definition roundSlashStringGuardMarkers :: "string \<Rightarrow> string list" where
  "roundSlashStringGuardMarkers ext =
     (let quotes = replicate 3 CHR 0x22 in
      if ext \<in> set [''.java'', ''.kt'', ''.kts'', ''.scala''] then [quotes]
      else if ext \<in> set [''.swift'', ''.dart''] then [quotes, replicate 3 CHR 0x27]
      else if ext = ''.cs'' then [quotes, [CHR ''@'', CHR 0x22]]
      else if ext = ''.rs'' then [[CHR ''r'', CHR 0x22], [CHR ''#'', CHR 0x22]]
      else if ext \<in> set [''.cpp'', ''.hpp'', ''.cc'', ''.hh'', ''.cxx'', ''.hxx'', ''.h'', ''.mm''] then [[CHR ''R'', CHR 0x22]]
      else [])"

definition roundSlashSemanticUnsafe :: "string \<Rightarrow> string \<Rightarrow> bool" where
  "roundSlashSemanticUnsafe content path \<longleftrightarrow> CHR 0x60 \<in> set content \<or>
     (let ext = lower_ascii (path_ext path) in
      (ext = ''.php'' \<and> contains content ''<<<'') \<or> list_ex (contains content) (roundSlashStringGuardMarkers ext))"

definition roundSemanticUnsafe :: "string \<Rightarrow> string \<Rightarrow> string \<Rightarrow> bool" where
  "roundSemanticUnsafe content path kind \<longleftrightarrow> contains content [CHR 0x5C, CHR 0x0A] \<or>
     (if kind = roundCommentSlash then roundSlashSemanticUnsafe content path
      else if kind = roundCommentHash then contains content (replicate 3 CHR 0x22) \<or> contains content (replicate 3 CHR 0x27)
      else False)"

definition isDirectiveIdentChar :: "char \<Rightarrow> bool \<Rightarrow> bool" where
  "isDirectiveIdentChar char first \<longleftrightarrow>
     (97 \<le> byte char \<and> byte char \<le> 122) \<or> (65 \<le> byte char \<and> byte char \<le> 90) \<or>
     (48 \<le> byte char \<and> byte char \<le> 57 \<and> \<not> first)"

fun directive_rest :: "string \<Rightarrow> bool" where
  "directive_rest [] = False"
| "directive_rest (c # cs) = (if c = CHR '':'' then True else if \<not> isDirectiveIdentChar c False then False else directive_rest cs)"

definition roundDirectiveComment :: "string \<Rightarrow> bool" where
  "roundDirectiveComment rest = (case rest of [] \<Rightarrow> False | c # cs \<Rightarrow> isDirectiveIdentChar c True \<and> directive_rest cs)"

definition trim_right_set :: "string \<Rightarrow> string \<Rightarrow> string" where
  "trim_right_set cs s = rev (dropWhile (\<lambda>c. c \<in> set cs) (rev s))"

definition roundCommentLine :: "string \<Rightarrow> string \<Rightarrow> bool" where
  "roundCommentLine line kind =
     (let trimmed = dropWhile (\<lambda>c. c \<in> {CHR '' '', CHR 0x09}) line;
          marker = (if kind = roundCommentSlash then Some ''//'' else if kind = roundCommentHash then Some ''#'' else None)
      in case marker of
           None \<Rightarrow> False
         | Some m \<Rightarrow> has_prefix trimmed m \<and>
             (let rest = drop (length m) trimmed in
              \<not> (kind = roundCommentHash \<and> (has_prefix rest ''!'' \<or> has_prefix rest ''-*-'')) \<and> \<not> roundDirectiveComment rest))"

definition kept_lines :: "string \<Rightarrow> string list \<Rightarrow> string list" where
  "kept_lines kind ls = filter (\<lambda>l. l \<noteq> [] \<and> \<not> (kind \<noteq> roundCommentNone \<and> roundCommentLine l kind))
     (map (trim_right_set [CHR '' '', CHR 0x09, CHR 0x0D]) ls)"

definition normalizeRoundContent :: "string \<Rightarrow> string \<Rightarrow> string" where
  "normalizeRoundContent content kind = join_with [CHR 0x0A] (kept_lines kind (split_on CHR 0x0A content))"

definition RoundSemanticDigest :: "(string \<Rightarrow> string) \<Rightarrow> string \<Rightarrow> string \<Rightarrow> string \<Rightarrow> string" where
  "RoundSemanticDigest digest content class path =
     (if content = [] \<or> class = RoundPathClassDoc then digest content
      else if class \<noteq> RoundPathClassCode then []
      else let kind = roundCommentKind path in
        if roundSemanticUnsafe content path kind then [] else digest (normalizeRoundContent content kind))"

text \<open>What the repository holds at a path, with the errors that joining the path, \<^verbatim>\<open>os.Lstat\<close> and reading can give.\<close>

datatype repo_node = OutsideRoot | Absent | Unreadable | RegularFile "string option" | SymbolicLink "string option" | OtherNode

definition ClassifyRoundPath :: "(string \<Rightarrow> string) \<Rightarrow> (string \<Rightarrow> repo_node) \<Rightarrow> string \<Rightarrow> RoundPathState" where
  "ClassifyRoundPath digest node relPath =
     (let entry = \<lparr>rp_Path = relPath, rp_Class = RoundPathClass relPath, rp_Deleted = False, rp_FullDigest = [], rp_SemanticDigest = []\<rparr>
      in case node relPath of
           Absent \<Rightarrow> entry\<lparr>rp_Deleted := True\<rparr>
         | RegularFile (Some content) \<Rightarrow> entry\<lparr>rp_FullDigest := digest content,
             rp_SemanticDigest := RoundSemanticDigest digest content (rp_Class entry) relPath\<rparr>
         | SymbolicLink (Some target) \<Rightarrow> entry\<lparr>rp_FullDigest := digest target\<rparr>
         | _ \<Rightarrow> entry)"

definition ClassifyRoundPaths :: "(string \<Rightarrow> string) \<Rightarrow> (string \<Rightarrow> repo_node) \<Rightarrow> string list \<Rightarrow> RoundPathState list" where
  "ClassifyRoundPaths digest node paths = map (ClassifyRoundPath digest node) (sort paths)"

section \<open>The difference of two rounds\<close>

text \<open>A Go map is an association list with distinct keys; \<^verbatim>\<open>range\<close> visits its entries in some order.\<close>

type_synonym path_index = "(string \<times> RoundPathState) list"

definition roundPathIndex :: "RoundPathState list \<Rightarrow> path_index" where
  "roundPathIndex paths = foldl (\<lambda>m entry. AList.update (rp_Path entry) entry m) [] paths"

definition roundSnapshotsEqual :: "SnapshotDigest \<Rightarrow> SnapshotDigest \<Rightarrow> bool" where
  "roundSnapshotsEqual prev cur \<longleftrightarrow>
     sd_IndexDigest prev \<noteq> [] \<and> sd_WorktreeDigest prev \<noteq> [] \<and> sd_IndexDigest cur \<noteq> [] \<and> sd_WorktreeDigest cur \<noteq> [] \<and>
     sd_Head prev = sd_Head cur \<and> sd_IndexDigest prev = sd_IndexDigest cur \<and> sd_WorktreeDigest prev = sd_WorktreeDigest cur"

definition round_delta :: "string \<Rightarrow> RoundDelta" where
  "round_delta class = \<lparr>dl_Class = class, dl_ChangedPaths = 0, dl_SemanticPaths = 0, dl_DocPaths = 0\<rparr>"

definition initialRoundDelta :: "RoundRecord option \<Rightarrow> RoundRecord option \<Rightarrow> RoundDelta option" where
  "initialRoundDelta prev cur = (case cur of
       None \<Rightarrow> Some (round_delta RoundDeltaUnknown)
     | Some c \<Rightarrow>
         if rr_WorkerPhase c = RoundWorkerPhaseBaseline then Some (round_delta RoundDeltaBaseline)
         else case prev of
           None \<Rightarrow> Some (round_delta RoundDeltaInitial)
         | Some p \<Rightarrow>
             if roundSnapshotsEqual (rr_Snapshot p) (rr_Snapshot c) then Some (round_delta RoundDeltaSameSnapshot)
             else if rr_CaptureError p \<noteq> [] \<or> rr_CaptureError c \<noteq> [] then Some (round_delta RoundDeltaUnknown)
             else None)"

definition addDocPath :: "RoundDelta \<Rightarrow> RoundDelta" where
  "addDocPath d = (let d = d\<lparr>dl_DocPaths := dl_DocPaths d + 1\<rparr> in
     if dl_Class d \<noteq> RoundDeltaSemantic then d\<lparr>dl_Class := RoundDeltaDocChange\<rparr> else d)"

definition roundPathDeltaNonSemantic :: "RoundPathState option \<Rightarrow> RoundPathState \<Rightarrow> bool" where
  "roundPathDeltaNonSemantic prev cur = (case prev of
       None \<Rightarrow> False
     | Some p \<Rightarrow> \<not> rp_Deleted cur \<and> \<not> rp_Deleted p \<and> rp_SemanticDigest p \<noteq> [] \<and> rp_SemanticDigest cur \<noteq> [] \<and>
         rp_SemanticDigest p = rp_SemanticDigest cur)"

definition semantic_path :: "RoundDelta \<Rightarrow> RoundDelta" where
  "semantic_path d = d\<lparr>dl_SemanticPaths := dl_SemanticPaths d + 1, dl_Class := RoundDeltaSemantic\<rparr>"

definition current_path :: "path_index \<Rightarrow> RoundDelta \<Rightarrow> string \<times> RoundPathState \<Rightarrow> RoundDelta" where
  "current_path previous d = (\<lambda>(path, cur). let prev = map_of previous path in
     if (case prev of None \<Rightarrow> False | Some p \<Rightarrow> rp_FullDigest p = rp_FullDigest cur \<and> rp_FullDigest cur \<noteq> []) then d
     else let d = d\<lparr>dl_ChangedPaths := dl_ChangedPaths d + 1\<rparr> in
       if rp_Class cur = RoundPathClassDoc \<or> (case prev of None \<Rightarrow> False | Some p \<Rightarrow> rp_Class p = RoundPathClassDoc)
       then addDocPath d
       else if roundPathDeltaNonSemantic prev cur then d
       else semantic_path d)"

definition removed_path :: "path_index \<Rightarrow> RoundDelta \<Rightarrow> string \<times> RoundPathState \<Rightarrow> RoundDelta" where
  "removed_path current d = (\<lambda>(path, prev).
     if map_of current path \<noteq> None then d
     else let d = d\<lparr>dl_ChangedPaths := dl_ChangedPaths d + 1\<rparr> in
       if rp_Class prev = RoundPathClassDoc then addDocPath d else semantic_path d)"

definition accumulateCurrentRoundPaths :: "(path_index \<Rightarrow> path_index) \<Rightarrow> RoundDelta \<Rightarrow> path_index \<Rightarrow> path_index \<Rightarrow> RoundDelta" where
  "accumulateCurrentRoundPaths order d previous current = foldl (current_path previous) d (order current)"

definition accumulateRemovedRoundPaths :: "(path_index \<Rightarrow> path_index) \<Rightarrow> RoundDelta \<Rightarrow> path_index \<Rightarrow> path_index \<Rightarrow> RoundDelta" where
  "accumulateRemovedRoundPaths order d previous current = foldl (removed_path current) d (order previous)"

definition CompareRoundRecords :: "(path_index \<Rightarrow> path_index) \<Rightarrow> RoundRecord option \<Rightarrow> RoundRecord option \<Rightarrow> RoundDelta" where
  "CompareRoundRecords order prev cur = (case initialRoundDelta prev cur of
       Some initial \<Rightarrow> initial
     | None \<Rightarrow>
         let previous = roundPathIndex (rr_Paths (the prev)); current = roundPathIndex (rr_Paths (the cur));
             d = accumulateRemovedRoundPaths order
               (accumulateCurrentRoundPaths order (round_delta RoundDeltaCommentFormat) previous current) previous current
         in if dl_ChangedPaths d = 0 then round_delta RoundDeltaUnknown else d)"

section \<open>Reference definition\<close>

text \<open>
  What happened to one path, from its states before and after, without any order: nothing, a change of
  documentation, a change of comments and layout only, or a change of meaning. The last state
  recorded for a path counts.
\<close>

datatype path_change = Same | DocChanged | Cosmetic | Meaning

definition last_state :: "RoundPathState list \<Rightarrow> string \<Rightarrow> RoundPathState option" where
  "last_state paths p = find (\<lambda>e. rp_Path e = p) (rev paths)"

definition path_change_of :: "RoundPathState option \<Rightarrow> RoundPathState option \<Rightarrow> path_change" where
  "path_change_of before after = (case (before, after) of
       (None, None) \<Rightarrow> Same
     | (Some b, Some a) \<Rightarrow>
         if rp_FullDigest b = rp_FullDigest a \<and> rp_FullDigest a \<noteq> [] then Same
         else if rp_Class b = RoundPathClassDoc \<or> rp_Class a = RoundPathClassDoc then DocChanged
         else if \<not> rp_Deleted b \<and> \<not> rp_Deleted a \<and> rp_SemanticDigest a \<noteq> [] \<and> rp_SemanticDigest b = rp_SemanticDigest a then Cosmetic
         else Meaning
     | (Some e, None) \<Rightarrow> if rp_Class e = RoundPathClassDoc then DocChanged else Meaning
     | (None, Some e) \<Rightarrow> if rp_Class e = RoundPathClassDoc then DocChanged else Meaning)"

definition paths_with :: "RoundPathState list \<Rightarrow> RoundPathState list \<Rightarrow> path_change set \<Rightarrow> string set" where
  "paths_with before after K = {p \<in> rp_Path ` (set before \<union> set after). path_change_of (last_state before p) (last_state after p) \<in> K}"

definition delta_spec :: "RoundPathState list \<Rightarrow> RoundPathState list \<Rightarrow> RoundDelta" where
  "delta_spec before after =
     \<lparr>dl_Class = (if paths_with before after {Meaning} \<noteq> {} then RoundDeltaSemantic
         else if paths_with before after {DocChanged} \<noteq> {} then RoundDeltaDocChange
         else if paths_with before after {Cosmetic} \<noteq> {} then RoundDeltaCommentFormat
         else RoundDeltaUnknown),
      dl_ChangedPaths = int (card (paths_with before after {Meaning, DocChanged, Cosmetic})),
      dl_SemanticPaths = int (card (paths_with before after {Meaning})),
      dl_DocPaths = int (card (paths_with before after {DocChanged}))\<rparr>"

section \<open>The accumulation is a count\<close>

definition account :: "RoundDelta \<Rightarrow> path_change \<Rightarrow> RoundDelta" where
  "account d k = (case k of
       Same \<Rightarrow> d
     | DocChanged \<Rightarrow> addDocPath (d\<lparr>dl_ChangedPaths := dl_ChangedPaths d + 1\<rparr>)
     | Cosmetic \<Rightarrow> d\<lparr>dl_ChangedPaths := dl_ChangedPaths d + 1\<rparr>
     | Meaning \<Rightarrow> semantic_path (d\<lparr>dl_ChangedPaths := dl_ChangedPaths d + 1\<rparr>))"

lemma current_path_account:
  "current_path previous d (p, c) = account d (path_change_of (map_of previous p) (Some c))"
  by (auto simp: current_path_def account_def path_change_of_def roundPathDeltaNonSemantic_def Let_def split: option.split)

lemma removed_path_account:
  "removed_path current d (p, b) = (if map_of current p \<noteq> None then d else account d (path_change_of (Some b) None))"
  by (auto simp: removed_path_def account_def path_change_of_def Let_def)

lemma account_fold:
  "foldl account d ks = \<lparr>dl_Class = (if Meaning \<in> set ks then RoundDeltaSemantic
        else if DocChanged \<in> set ks \<and> dl_Class d \<noteq> RoundDeltaSemantic then RoundDeltaDocChange else dl_Class d),
      dl_ChangedPaths = dl_ChangedPaths d + int (length (filter (\<lambda>k. k \<noteq> Same) ks)),
      dl_SemanticPaths = dl_SemanticPaths d + int (length (filter (\<lambda>k. k = Meaning) ks)),
      dl_DocPaths = dl_DocPaths d + int (length (filter (\<lambda>k. k = DocChanged) ks))\<rparr>"
  by (induction ks arbitrary: d)
    (auto simp: account_def addDocPath_def semantic_path_def Let_def round_defs split: path_change.split)

lemma index_update:
  "distinct (map fst (roundPathIndex paths)) \<and> map_of (roundPathIndex paths) = last_state paths \<and>
   fst ` set (roundPathIndex paths) = rp_Path ` set paths"
proof (induction paths rule: rev_induct)
  case Nil show ?case by (simp add: roundPathIndex_def last_state_def fun_eq_iff)
next
  case (snoc e es)
  then show ?case
    by (auto simp: roundPathIndex_def last_state_def AList.update_conv AList.distinct_update fun_eq_iff dom_update)
qed

text \<open>The paths in the order in which the two loops meet them.\<close>

definition visited :: "(path_index \<Rightarrow> path_index) \<Rightarrow> path_index \<Rightarrow> path_index \<Rightarrow> string list" where
  "visited order previous current =
     map fst (order current) @ filter (\<lambda>p. map_of current p = None) (map fst (order previous))"

lemma accumulated:
  assumes "distinct (map fst previous)" "distinct (map fst current)"
    and order: "\<And>m. mset (order m) = mset m"
  shows "accumulateRemovedRoundPaths order (accumulateCurrentRoundPaths order d previous current) previous current =
     foldl account d (map (\<lambda>p. path_change_of (map_of previous p) (map_of current p)) (visited order previous current))"
proof -
  let ?k = "\<lambda>p. path_change_of (map_of previous p) (map_of current p)"
  have sets: "set (order m) = set m" for m using order [of m] by (metis set_mset_mset)
  have "foldl (current_path previous) d xs = foldl account d (map (?k \<circ> fst) xs)" if "set xs \<subseteq> set current" for xs d
    using that assms(2) by (induction xs arbitrary: d) (auto simp: current_path_account)
  moreover have "foldl (removed_path current) d xs =
      foldl account d (map ?k (filter (\<lambda>p. map_of current p = None) (map fst xs)))" if "set xs \<subseteq> set previous" for xs d
    using that assms(1) by (induction xs arbitrary: d) (auto simp: removed_path_account)
  ultimately show ?thesis
    by (simp add: accumulateRemovedRoundPaths_def accumulateCurrentRoundPaths_def visited_def sets)
qed

lemma visited_paths:
  assumes "distinct (map fst previous)" "distinct (map fst current)" and order: "\<And>m. mset (order m) = mset m"
  shows "distinct (visited order previous current)" "set (visited order previous current) = fst ` set previous \<union> fst ` set current"
proof -
  have "mset (map fst (order m)) = mset (map fst m)" for m using order [of m] by simp
  then have "distinct (map fst (order m)) = distinct (map fst m)" "set (map fst (order m)) = fst ` set m" for m
    by (metis mset_eq_imp_distinct_iff, metis set_mset_mset set_map)
  with assms(1,2) show "distinct (visited order previous current)"
      "set (visited order previous current) = fst ` set previous \<union> fst ` set current"
    by (auto simp: visited_def map_of_eq_None_iff)
qed

text \<open>
  C30. The comparison of two rounds equals its reference definition, whatever order the maps are
  visited in: once the early cases are past, the numbers of changed, meaningfully changed and
  documentation paths are those of the paths with such a change, and the class is the gravest change found.
\<close>

theorem compare_rounds_spec:
  assumes "\<forall>m. mset (order m) = mset m"
  shows "CompareRoundRecords order prev cur =
     (case initialRoundDelta prev cur of Some initial \<Rightarrow> initial | None \<Rightarrow> delta_spec (rr_Paths (the prev)) (rr_Paths (the cur)))"
proof (cases "initialRoundDelta prev cur")
  case None
  let ?b = "rr_Paths (the prev)" and ?a = "rr_Paths (the cur)"
  let ?k = "\<lambda>p. path_change_of (last_state ?b p) (last_state ?a p)"
  let ?v = "visited order (roundPathIndex ?b) (roundPathIndex ?a)"
  note b = index_update [of ?b] and a = index_update [of ?a]
  have order: "\<And>m. mset (order m) = mset m" using assms by blast
  have v: "distinct ?v" "set ?v = rp_Path ` (set ?b \<union> set ?a)"
    using visited_paths [of "roundPathIndex ?b" "roundPathIndex ?a" order] a b order by (simp_all add: image_Un)
  have count: "length (filter (\<lambda>k. k \<in> K) (map ?k ?v)) = card (paths_with ?b ?a K)" for K
  proof -
    have "length (filter (\<lambda>k. k \<in> K) (map ?k ?v)) = length (filter (\<lambda>p. ?k p \<in> K) ?v)" by (simp add: filter_map comp_def)
    also have "\<dots> = card (set (filter (\<lambda>p. ?k p \<in> K) ?v))" by (rule distinct_card [symmetric]) (simp add: v(1))
    also have "set (filter (\<lambda>p. ?k p \<in> K) ?v) = paths_with ?b ?a K" using v(2) by (auto simp: paths_with_def)
    finally show ?thesis .
  qed
  have "(\<lambda>k. k \<noteq> Same) = (\<lambda>k. k \<in> {Meaning, DocChanged, Cosmetic})"
    by (rule ext) (simp, metis path_change.exhaust path_change.distinct)
  with count [of "{Meaning, DocChanged, Cosmetic}"] count [of "{Meaning}"] count [of "{DocChanged}"]
  have counts: "length (filter (\<lambda>k. k \<noteq> Same) (map ?k ?v)) = card (paths_with ?b ?a {Meaning, DocChanged, Cosmetic})"
    "length (filter (\<lambda>k. k = Meaning) (map ?k ?v)) = card (paths_with ?b ?a {Meaning})"
    "length (filter (\<lambda>k. k = DocChanged) (map ?k ?v)) = card (paths_with ?b ?a {DocChanged})" by simp_all
  have in_v: "(k \<in> set (map ?k ?v)) = (paths_with ?b ?a {k} \<noteq> {})" for k
    using v(2) by (auto simp: paths_with_def)
  have fin: "finite (paths_with ?b ?a K)" for K by (simp add: paths_with_def)
  have none: "paths_with ?b ?a {Meaning, DocChanged, Cosmetic} =
      paths_with ?b ?a {Meaning} \<union> paths_with ?b ?a {DocChanged} \<union> paths_with ?b ?a {Cosmetic}"
    by (auto simp: paths_with_def)
  have run: "accumulateRemovedRoundPaths order (accumulateCurrentRoundPaths order (round_delta RoundDeltaCommentFormat)
      (roundPathIndex ?b) (roundPathIndex ?a)) (roundPathIndex ?b) (roundPathIndex ?a) =
      \<lparr>dl_Class = (if paths_with ?b ?a {Meaning} \<noteq> {} then RoundDeltaSemantic
          else if paths_with ?b ?a {DocChanged} \<noteq> {} then RoundDeltaDocChange else RoundDeltaCommentFormat),
       dl_ChangedPaths = int (card (paths_with ?b ?a {Meaning, DocChanged, Cosmetic})),
       dl_SemanticPaths = int (card (paths_with ?b ?a {Meaning})), dl_DocPaths = int (card (paths_with ?b ?a {DocChanged}))\<rparr>"
    (is "?acc = _")
  proof -
    have "?acc = foldl account (round_delta RoundDeltaCommentFormat) (map ?k ?v)"
      using accumulated [of "roundPathIndex ?b" "roundPathIndex ?a" order "round_delta RoundDeltaCommentFormat"] a b order by simp
    then show ?thesis unfolding account_fold counts in_v by (simp add: round_delta_def round_defs)
  qed
  show ?thesis
    unfolding CompareRoundRecords_def None option.case Let_def run
    by (simp add: delta_spec_def round_delta_def card_eq_0_iff fin) (auto simp: none)
qed (simp add: CompareRoundRecords_def)

definition round_of :: "string \<Rightarrow> RoundPathState list \<Rightarrow> RoundRecord" where
  "round_of wt paths = \<lparr>rr_Version = 1, rr_TaskID = ''t1'', rr_Seq = 1, rr_ReviewNumber = 1, rr_AutoFixes = 0, rr_WorkerPhase = ''worker-new'',
     rr_CapturedAt = 0, rr_Snapshot = \<lparr>sd_Head = ''h'', sd_IndexDigest = ''i'', sd_WorktreeDigest = wt, sd_WorktreeDigestExcludingParent = []\<rparr>,
     rr_Paths = paths, rr_CaptureError = []\<rparr>"

definition code_path :: "string \<Rightarrow> string \<Rightarrow> RoundPathState" where
  "code_path p content = \<lparr>rp_Path = p, rp_Class = RoundPathClassCode, rp_Deleted = False, rp_FullDigest = content,
     rp_SemanticDigest = normalizeRoundContent content roundCommentSlash\<rparr>"

theorem compare_rounds_spec_witness:
  "CompareRoundRecords rev (Some (round_of ''w1'' [code_path ''a.go'' ''x // y'', code_path ''b.go'' ''//c'']))
     (Some (round_of ''w2'' [code_path ''a.go'' ''x // y '', code_path ''c.go'' ''z''])) =
   delta_spec [code_path ''a.go'' ''x // y'', code_path ''b.go'' ''//c''] [code_path ''a.go'' ''x // y '', code_path ''c.go'' ''z'']"
proof -
  have "\<forall>m :: path_index. mset (rev m) = mset m" by simp
  note compare_rounds_spec [OF this]
  moreover have "initialRoundDelta (Some (round_of ''w1'' P)) (Some (round_of ''w2'' Q)) = None" for P Q
    by (simp add: initialRoundDelta_def round_of_def roundSnapshotsEqual_def RoundWorkerPhaseBaseline_def)
  ultimately show ?thesis by (simp add: round_of_def)
qed

section \<open>Comments and layout are invisible\<close>

lemma trim_right_set_idem: "trim_right_set cs (trim_right_set cs s) = trim_right_set cs s"
  by (simp add: trim_right_set_def)

lemma trim_right_set_subset: "set (trim_right_set cs s) \<subseteq> set s"
  unfolding trim_right_set_def by (metis set_rev set_dropWhileD subsetI)

lemma kept_lines_idem: "kept_lines kind (kept_lines kind ls) = kept_lines kind ls"
proof -
  have "map (trim_right_set [CHR '' '', CHR 0x09, CHR 0x0D]) (kept_lines kind ls) = kept_lines kind ls"
    by (rule map_idI) (auto simp: kept_lines_def trim_right_set_idem)
  then show ?thesis by (subst kept_lines_def) (simp add: kept_lines_def)
qed

lemma normalize_idem: "normalizeRoundContent (normalizeRoundContent content kind) kind = normalizeRoundContent content kind"
proof -
  let ?ls = "kept_lines kind (split_on CHR 0x0A content)"
  have "\<forall>l \<in> set ?ls. CHR 0x0A \<notin> set l"
    unfolding kept_lines_def using split_on_parts_no_sep trim_right_set_subset by fastforce
  then have "?ls \<noteq> [] \<Longrightarrow> split_on CHR 0x0A (join_with [CHR 0x0A] ?ls) = ?ls" by (rule split_join [rotated])
  then show ?thesis
    unfolding normalizeRoundContent_def
    by (cases "?ls = []") (simp_all add: kept_lines_idem, simp add: kept_lines_def trim_right_set_def)
qed

lemma kept_line: "l \<in> set (kept_lines kind (split_on CHR 0x0A content)) \<Longrightarrow> CHR 0x0A \<notin> set l \<and> l \<noteq> []"
  unfolding kept_lines_def using split_on_parts_no_sep trim_right_set_subset by fastforce

lemma normalize_inj:
  "normalizeRoundContent x kind = normalizeRoundContent y kind \<longleftrightarrow>
   kept_lines kind (split_on CHR 0x0A x) = kept_lines kind (split_on CHR 0x0A y)" (is "_ \<longleftrightarrow> ?k x = ?k y")
proof
  have again: "?k z = (if normalizeRoundContent z kind = [] then [] else split_on CHR 0x0A (normalizeRoundContent z kind))" for z
  proof (cases "?k z" rule: list.exhaust)
    case (Cons l ls)
    with kept_line [of l kind z] have "join_with [CHR 0x0A] (?k z) \<noteq> []" by (cases ls) auto
    moreover have "split_on CHR 0x0A (join_with [CHR 0x0A] (?k z)) = ?k z"
      by (rule split_join) (use Cons in simp, use kept_line [of _ kind z] in blast)
    ultimately show ?thesis by (simp add: normalizeRoundContent_def)
  qed (simp add: normalizeRoundContent_def)
  show "normalizeRoundContent x kind = normalizeRoundContent y kind \<Longrightarrow> ?k x = ?k y" by (subst (1 2) again) simp
qed (simp add: normalizeRoundContent_def)

text \<open>
  The semantic digest of a code file sees exactly its code: for two contents of a path that the
  digest is taken of and that do not collide under SHA-256, the digests agree if and only if the lines
  agree once trailing blanks, empty lines and comment lines are dropped; and the digest of the
  normalised content is that of the content.
\<close>

theorem semantic_digest_iff:
  assumes "x \<noteq> []" "y \<noteq> []"
    and "\<not> roundSemanticUnsafe x path (roundCommentKind path)" "\<not> roundSemanticUnsafe y path (roundCommentKind path)"
    and "digest (normalizeRoundContent x (roundCommentKind path)) = digest (normalizeRoundContent y (roundCommentKind path)) \<longrightarrow>
      normalizeRoundContent x (roundCommentKind path) = normalizeRoundContent y (roundCommentKind path)"
  shows "(RoundSemanticDigest digest x RoundPathClassCode path = RoundSemanticDigest digest y RoundPathClassCode path \<longleftrightarrow>
      kept_lines (roundCommentKind path) (split_on CHR 0x0A x) = kept_lines (roundCommentKind path) (split_on CHR 0x0A y)) \<and>
    RoundSemanticDigest digest x RoundPathClassCode path = digest (normalizeRoundContent
      (normalizeRoundContent x (roundCommentKind path)) (roundCommentKind path))"
  using assms
  by (auto simp: RoundSemanticDigest_def normalize_idem Let_def round_defs normalize_inj [symmetric])

theorem semantic_digest_iff_witness:
  "RoundSemanticDigest (\<lambda>s. s) (''x'' @ [CHR 0x0A] @ ''// old'') RoundPathClassCode ''a.go'' =
   RoundSemanticDigest (\<lambda>s. s) (''// new'' @ [CHR 0x0A] @ ''x '') RoundPathClassCode ''a.go''"
proof -
  let ?x = "''x'' @ [CHR 0x0A] @ ''// old''" and ?y = "''// new'' @ [CHR 0x0A] @ ''x ''"
  have "\<not> roundSemanticUnsafe ?x ''a.go'' (roundCommentKind ''a.go'')" "\<not> roundSemanticUnsafe ?y ''a.go'' (roundCommentKind ''a.go'')"
    and "kept_lines (roundCommentKind ''a.go'') (split_on CHR 0x0A ?x) = kept_lines (roundCommentKind ''a.go'') (split_on CHR 0x0A ?y)"
    by code_simp+
  with semantic_digest_iff [of ?x ?y "''a.go''" "\<lambda>s. s"] show ?thesis by simp
qed

end
