(* ===== verification/Milestone_Prompt.thy ===== *)
theory Milestone_Prompt
  imports Milestones Convergence
begin

text \<open>
  The block of a prompt that tells a worker its milestone (\<^verbatim>\<open>workflow/execution_milestone_contract.go\<close>): its JSON text,
  the block around it, and the replacement of earlier blocks, a loop that removes one block after the other. The
  theorem shows that a prompt never collects blocks.
\<close>

section \<open>The milestone in the prompt\<close>

record executionMilestoneCompletedPrompt =
  ep_ID :: string
  ep_Summary :: string
  ep_CallID :: string
  ep_TaskContractSHA256 :: string
  ep_Snapshot :: GitSnapshot

record executionMilestonePrompt =
  em_TaskAuthority :: string
  em_TaskContractSHA256 :: string
  em_Current :: MilestoneDefinition
  em_Completed :: "executionMilestoneCompletedPrompt list"

definition executionMilestonePromptBegin :: string where "executionMilestonePromptBegin = ''BEGIN_EXECUTION_MILESTONE_JSON''"
definition executionMilestonePromptEnd :: string where "executionMilestonePromptEnd = ''END_EXECUTION_MILESTONE_JSON''"

text \<open>\<^verbatim>\<open>json.Marshal\<close>: as the encoder of packets, with the characters of HTML escaped.\<close>

definition escape_html :: "string \<Rightarrow> string" where
  "escape_html s = concat (map (\<lambda>c. if c = CHR ''<'' then CHR 0x5C # ''u003c'' else if c = CHR ''>'' then CHR 0x5C # ''u003e''
     else if c = CHR ''&'' then CHR 0x5C # ''u0026'' else [c]) s)"

definition marshal :: "json \<Rightarrow> string" where
  "marshal j = escape_html (encode_json j)"

definition omit_empty :: "string \<Rightarrow> string \<Rightarrow> (string \<times> json) list" where
  "omit_empty k v = (if v = [] then [] else [(k, JString v)])"

definition json_of_snapshot :: "GitSnapshot \<Rightarrow> json" where
  "json_of_snapshot s = JObj ([(''head'', JString (gs_Head s)), (''index_digest'', JString (gs_IndexDigest s)),
     (''worktree_digest'', JString (gs_WorktreeDigest s))] @
     omit_empty ''worktree_digest_excluding_parent'' (gs_WorktreeDigestExcludingParent s) @
     (case gs_ParentFiles s of None \<Rightarrow> [] | Some fs \<Rightarrow> [(''parent_files'',
        if fs = [] then JNull else JArr (map (\<lambda>f. JObj [(''path'', JString (pfs_Path f)), (''exists'', JBool (pfs_Exists f)),
          (''sha256'', JString (pfs_SHA256 f))]) fs))]))"

definition json_of_definition :: "MilestoneDefinition \<Rightarrow> json" where
  "json_of_definition d = JObj ([(''id'', JString (md_ID d)), (''scope'', JString (md_Scope d)),
     (''acceptance'', JString (md_Acceptance d))] @ (if md_FreshWorker d then [(''fresh_worker'', JBool True)] else []))"

definition json_of_completed :: "executionMilestoneCompletedPrompt \<Rightarrow> json" where
  "json_of_completed c = JObj ([(''id'', JString (ep_ID c)), (''summary'', JString (ep_Summary c))] @
     omit_empty ''call_id'' (ep_CallID c) @
     [(''task_contract_sha256'', JString (ep_TaskContractSHA256 c)), (''snapshot'', json_of_snapshot (ep_Snapshot c))])"

definition json_of_prompt :: "executionMilestonePrompt \<Rightarrow> json" where
  "json_of_prompt p = JObj ([(''task_authority'', JString (em_TaskAuthority p)),
     (''task_contract_sha256'', JString (em_TaskContractSHA256 p)), (''current'', json_of_definition (em_Current p))] @
     (if em_Completed p = [] then [] else [(''completed'', JArr (map json_of_completed (em_Completed p)))]))"

fun completed_prompts :: "Record list \<Rightarrow> (state_error, executionMilestoneCompletedPrompt list) result" where
  "completed_prompts [] = Inr []"
| "completed_prompts (r # rs) = (case mr_Completion r of
       None \<Rightarrow> Inl (Errorf ''completed execution milestone has no completion evidence'' [md_ID (mr_MilestoneDefinition r)])
     | Some c \<Rightarrow>
         if mr_Status r \<noteq> StatusComplete
         then Inl (Errorf ''completed execution milestone has no completion evidence'' [md_ID (mr_MilestoneDefinition r)])
         else (case completed_prompts rs of
             Inl e \<Rightarrow> Inl e
           | Inr ps \<Rightarrow> Inr (\<lparr>ep_ID = md_ID (mr_MilestoneDefinition r), ep_Summary = cm_Summary c, ep_CallID = cm_CallID c,
               ep_TaskContractSHA256 = cm_TaskContractSHA256 c, ep_Snapshot = cm_Snapshot c\<rparr> # ps)))"

definition executionMilestoneInstruction :: string where
  "executionMilestoneInstruction = ''ACTIVE task remains task-wide authority; implement only current.scope and satisfy current.acceptance. Do not redo completed milestones merely because a new worker begins. If an explicit semantic amendment changed the ACTIVE task after a completed milestone, its recorded task_contract_sha256 will differ from the current task_contract_sha256; amendment work may touch that completed scope only when current.scope explicitly requires the semantic delta. Milestone completion never completes or weakens task-wide Acceptance.''"

abbreviation nl :: char where "nl \<equiv> CHR 0x0A"

definition block_body :: "string \<Rightarrow> string" where
  "block_body data = [nl] @ data @ [nl] @ executionMilestoneInstruction @ [nl]"

definition block_marker :: string where
  "block_marker = [nl, nl] @ executionMilestonePromptBegin"

definition executionMilestonePromptBlock :: "Plan \<Rightarrow> (state_error, string) result" where
  "executionMilestonePromptBlock p =
     (case completed_prompts (take (nat (pl_CurrentIndex p)) (pl_Milestones p)) of
        Inl e \<Rightarrow> Inl e
      | Inr completed \<Rightarrow> Inr (block_marker @ block_body (marshal (json_of_prompt \<lparr>em_TaskAuthority = pl_ActiveTaskPath p,
          em_TaskContractSHA256 = pl_TaskContractSHA256 p, em_Current = current_definition p, em_Completed = completed\<rparr>)) @
          executionMilestonePromptEnd @ [nl]))"

text \<open>\<^verbatim>\<open>strings.Index\<close>.\<close>

fun str_index :: "string \<Rightarrow> string \<Rightarrow> nat option" where
  "str_index [] p = (if p = [] then Some 0 else None)"
| "str_index (c # cs) p = (if has_prefix (c # cs) p then Some 0 else map_option Suc (str_index cs p))"

lemma str_index_bound: "str_index s p = Some i \<Longrightarrow> i + length p \<le> length s"
proof (induction s arbitrary: i)
  case (Cons c cs)
  show ?case
  proof (cases "has_prefix (c # cs) p")
    case True
    then have "length p \<le> length (c # cs)" by (metis has_prefix_iff prefix_length_le)
    with True Cons.prems show ?thesis by simp
  qed (use Cons in auto)
qed (auto split: if_splits)

text \<open>The text of the prompt after a block that starts at \<open>start\<close>; \<open>None\<close> where the block has no end.\<close>

definition after_block :: "string \<Rightarrow> nat \<Rightarrow> string option" where
  "after_block prompt start = (case str_index (drop start prompt) executionMilestonePromptEnd of
       None \<Rightarrow> None
     | Some endRelative \<Rightarrow>
         Some (dropWhile (\<lambda>c. c = nl) (drop (start + endRelative + length executionMilestonePromptEnd) prompt)))"

lemma after_block_shorter:
  "after_block prompt start = Some rest \<Longrightarrow> length rest + start + length executionMilestonePromptEnd \<le> length prompt"
proof -
  assume "after_block prompt start = Some rest"
  then obtain i where i: "str_index (drop start prompt) executionMilestonePromptEnd = Some i"
      and rest: "rest = dropWhile (\<lambda>c. c = nl) (drop (start + i + length executionMilestonePromptEnd) prompt)"
    by (auto simp: after_block_def split: option.splits)
  have "length rest \<le> length prompt - (start + i + length executionMilestonePromptEnd)"
    unfolding rest using length_dropWhile_le by (metis length_drop)
  with str_index_bound [OF i] show ?thesis by (simp add: executionMilestonePromptEnd_def)
qed

function remove_blocks :: "string \<Rightarrow> string" where
  "remove_blocks prompt = (case str_index prompt block_marker of
       None \<Rightarrow> prompt
     | Some start \<Rightarrow> (case after_block prompt start of None \<Rightarrow> prompt | Some rest \<Rightarrow> remove_blocks (take start prompt @ rest)))"
  by pat_completeness auto
termination
  by (relation "measure length") (auto dest!: after_block_shorter simp: executionMilestonePromptEnd_def)

declare remove_blocks.simps [simp del]

definition replaceExecutionMilestonePromptBlock :: "string \<Rightarrow> string \<Rightarrow> string" where
  "replaceExecutionMilestonePromptBlock prompt block = trim_right_set [nl] (remove_blocks prompt) @ block"

section \<open>Replacing the block\<close>

lemma has_prefix_simps [simp]:
  "has_prefix s []" "\<not> has_prefix [] (d # p)" "has_prefix (c # s) (d # p) \<longleftrightarrow> c = d \<and> has_prefix s p"
  by (simp_all add: has_prefix_def)

lemma str_index_SomeI:
  assumes "prefix p (drop i s)" "i \<le> length s" "\<And>j. j < i \<Longrightarrow> \<not> prefix p (drop j s)"
  shows "str_index s p = Some i"
  using assms
proof (induction s arbitrary: i)
  case (Cons c cs)
  show ?case
  proof (cases i)
    case 0
    with Cons.prems(1) show ?thesis by (simp add: has_prefix_iff)
  next
    case (Suc k)
    have "\<not> prefix p (c # cs)" using Cons.prems(3) [of 0] Suc by simp
    moreover have "str_index cs p = Some k"
      by (rule Cons.IH) (use Cons.prems Suc Cons.prems(3) [of "Suc _"] in auto)
    ultimately show ?thesis using Suc by (simp add: has_prefix_iff)
  qed
qed simp

lemma str_index_None: "str_index s p = None \<Longrightarrow> j \<le> length s \<Longrightarrow> \<not> prefix p (drop j s)"
proof (induction s arbitrary: j)
  case (Cons c cs)
  then show ?case by (cases j) (auto simp: has_prefix_iff split: if_splits)
qed (auto split: if_splits)

text \<open>A pattern without the separator occurs before or after it, not across it.\<close>

lemma prefix_before: "d \<notin> set p \<Longrightarrow> prefix p (u @ d # v) \<longleftrightarrow> prefix p u"
  by (auto simp: prefix_append prefix_Cons)

lemma str_index_sep:
  assumes "d \<notin> set p" "p \<noteq> []"
  shows "str_index (u @ d # v) p = (case str_index u p of
     Some i \<Rightarrow> Some i | None \<Rightarrow> map_option (\<lambda>i. length u + 1 + i) (str_index v p))"
proof (induction u)
  case Nil
  have "\<not> prefix p (d # v)" using assms by (cases p) auto
  then show ?case using assms(2) by (simp add: has_prefix_iff) (cases "str_index v p"; simp)
next
  case (Cons c u)
  have "has_prefix (c # u @ d # v) p \<longleftrightarrow> has_prefix (c # u) p"
    using prefix_before [OF assms(1), of "c # u" v] by (simp add: has_prefix_iff)
  with Cons show ?case by (cases "str_index u p"; cases "str_index v p") (auto split: if_splits)
qed

definition block_of :: "string \<Rightarrow> string" where
  "block_of data = block_marker @ block_body data @ executionMilestonePromptEnd @ [nl]"

lemma prompt_block_of: "executionMilestonePromptBlock p = Inr b \<Longrightarrow> \<exists>data. b = block_of data"
  by (auto simp: executionMilestonePromptBlock_def block_of_def split: sum.splits)

text \<open>The end mark of a block is the first one in it.\<close>

definition ends_once :: "string \<Rightarrow> bool" where
  "ends_once b \<longleftrightarrow> str_index b executionMilestonePromptEnd = Some (length b - length executionMilestonePromptEnd - 1)"

text \<open>The end mark has a letter that the instruction does not have.\<close>

lemma str_index_missing:
  assumes "c \<in> set p" "list_all (\<lambda>x. x \<noteq> c) s"
  shows "str_index s p = None"
  using assms(2)
proof (induction s)
  case (Cons x s)
  have "\<not> prefix p (x # s)" using assms(1) Cons.prems set_mono_prefix [of p "x # s"] by (auto simp: list_all_iff)
  with Cons show ?case by (simp add: has_prefix_iff)
qed (use assms(1) in auto)

lemma end_mark: "nl \<notin> set executionMilestonePromptEnd" "executionMilestonePromptEnd \<noteq> []"
    "str_index executionMilestoneInstruction executionMilestonePromptEnd = None"
    "str_index executionMilestonePromptBegin executionMilestonePromptEnd = None"
    "str_index executionMilestonePromptEnd executionMilestonePromptEnd = Some 0"
proof -
  show "str_index executionMilestoneInstruction executionMilestonePromptEnd = None"
    by (rule str_index_missing [of "CHR ''J''"])
      (simp add: executionMilestonePromptEnd_def, simp add: executionMilestoneInstruction_def)
qed (simp_all add: executionMilestonePromptEnd_def executionMilestonePromptBegin_def)

lemma block_ends_once:
  assumes "str_index data executionMilestonePromptEnd = None"
  shows "ends_once (block_of data)"
proof -
  have "block_of data = [] @ nl # [] @ nl # executionMilestonePromptBegin @ nl # data @ nl # executionMilestoneInstruction @ nl #
      executionMilestonePromptEnd @ nl # []"
    by (simp add: block_of_def block_body_def block_marker_def)
  moreover have "str_index ([] @ nl # [] @ nl # executionMilestonePromptBegin @ nl # data @ nl # executionMilestoneInstruction @ nl #
      executionMilestonePromptEnd @ nl # []) executionMilestonePromptEnd =
      Some (length (block_of data) - length executionMilestonePromptEnd - 1)"
    unfolding str_index_sep [OF end_mark(1,2)] using assms
    by (simp add: end_mark block_of_def block_body_def block_marker_def)
  ultimately show ?thesis by (simp add: ends_once_def)
qed

lemma marker_newlines: "i < length block_marker \<Longrightarrow> block_marker ! i = nl \<Longrightarrow> i \<le> 1"
proof -
  have "list_all (\<lambda>c. c \<noteq> nl) executionMilestonePromptBegin" by code_simp
  then have "nl \<notin> set executionMilestonePromptBegin" by (auto simp: list_all_iff)
  then show "i < length block_marker \<Longrightarrow> block_marker ! i = nl \<Longrightarrow> i \<le> 1"
    by (cases i; cases "i - 1") (auto simp: block_marker_def dest: nth_mem)
qed

lemma marker_at_end:
  assumes none: "str_index q block_marker = None" and last: "q = [] \<or> last q \<noteq> nl"
  shows "str_index (q @ block_marker @ x) block_marker = Some (length q)"
proof (rule str_index_SomeI)
  fix j assume j: "j < length q"
  show "\<not> prefix block_marker (drop j (q @ block_marker @ x))"
  proof
    assume occ: "prefix block_marker (drop j (q @ block_marker @ x))"
    let ?k = "length q - j"
    have split: "drop j (q @ block_marker @ x) = drop j q @ block_marker @ x" using j by simp
    show False
    proof (cases "length block_marker \<le> ?k")
      case True
      with occ split have "prefix block_marker (drop j q)"
        by (metis length_drop prefix_length_prefix prefixI)
      with str_index_None [OF none, of j] j show False by simp
    next
      case False
      have at: "block_marker ! i = (drop j q @ block_marker @ x) ! i" if "i < length block_marker" for i
      proof -
        obtain zs where "drop j q @ block_marker @ x = block_marker @ zs" using occ split by (auto simp: prefix_def)
        with that show ?thesis by (simp add: nth_append_left)
      qed
      have "block_marker ! ?k = block_marker ! 0" using at [of ?k] False j by (simp add: nth_append block_marker_def)
      then have "block_marker ! ?k = nl" by (simp add: block_marker_def)
      with marker_newlines [of ?k] False j have k: "?k = 1" by simp
      have "q \<noteq> []" "j = length q - 1" using j k by auto
      then have "last q = (drop j q @ block_marker @ x) ! 0" using j by (simp add: nth_append last_conv_nth)
      also have "\<dots> = block_marker ! 0" using at [of 0] by (simp add: block_marker_def)
      finally have "last q = block_marker ! 0" .
      with last j show False by (auto simp: block_marker_def)
    qed
  qed
qed simp_all

lemma trim_right_last: "trim_right_set [nl] p = [] \<or> last (trim_right_set [nl] p) \<noteq> nl"
  using hd_dropWhile [of "\<lambda>c. c \<in> set [nl]" "rev p"] by (simp add: trim_right_set_def last_rev) blast

lemma trim_right_none: "str_index p m = None \<Longrightarrow> m \<noteq> [] \<Longrightarrow> str_index (trim_right_set cs p) m = None"
proof (rule ccontr)
  assume none: "str_index p m = None" "m \<noteq> []" and "str_index (trim_right_set cs p) m \<noteq> None"
  obtain z where z: "p = trim_right_set cs p @ z"
    by (metis rev_append rev_rev_ident takeWhile_dropWhile_id trim_right_set_def)
  have "str_index (a @ z) m \<noteq> None" if "str_index a m \<noteq> None" for a
    using that
  proof (induction a)
    case (Cons c a)
    then show ?case using prefix_prefix [of m "c # a" z] by (auto simp: has_prefix_iff split: if_splits)
  qed (simp add: none(2))
  with \<open>str_index (trim_right_set cs p) m \<noteq> None\<close> z none(1) show False by metis
qed

lemma replace_fresh: "str_index p block_marker = None \<Longrightarrow> replaceExecutionMilestonePromptBlock p b = trim_right_set [nl] p @ b"
  by (simp add: replaceExecutionMilestonePromptBlock_def remove_blocks.simps)

lemma replace_again:
  assumes none: "str_index q block_marker = None" and last: "q = [] \<or> last q \<noteq> nl" and once: "ends_once (block_of data)"
  shows "replaceExecutionMilestonePromptBlock (q @ block_of data) b = q @ b"
proof -
  have start: "str_index (q @ block_of data) block_marker = Some (length q)"
    unfolding block_of_def by (rule marker_at_end [OF none last])
  have "after_block (q @ block_of data) (length q) = Some []"
    using once by (simp add: after_block_def ends_once_def) (simp add: block_of_def)
  with start none have "remove_blocks (q @ block_of data) = q" by (simp add: remove_blocks.simps)
  moreover have "trim_right_set [nl] q = q"
    using last by (cases q rule: rev_cases) (auto simp: trim_right_set_def)
  ultimately show ?thesis by (simp add: replaceExecutionMilestonePromptBlock_def)
qed

text \<open>
  The prompt of a milestone never grows by its decorations: starting from a prompt without a block, any number of
  decorations with blocks of plans, as one resumption after the other makes them, leaves the prompt without its trailing
  line breaks followed by the last block alone. Each block must have its end mark only at its end, which holds when the
  encoded milestones do not contain that mark.
\<close>

theorem prompt_block_replaced:
  assumes fresh: "str_index prompt block_marker = None" and blocks: "blocks \<noteq> []"
    and block: "\<forall>b\<in>set blocks. (\<exists>p. executionMilestonePromptBlock p = Inr b) \<and> ends_once b"
  shows "foldl replaceExecutionMilestonePromptBlock prompt blocks = trim_right_set [nl] prompt @ last blocks"
  using blocks block
proof (induction blocks rule: rev_nonempty_induct)
  case (single b)
  with fresh show ?case by (simp add: replace_fresh)
next
  case (snoc b bs)
  have "executionMilestonePromptEnd \<noteq> []" "block_marker \<noteq> []" by (simp_all add: executionMilestonePromptEnd_def block_marker_def)
  moreover obtain data where "last bs = block_of data" "ends_once (block_of data)"
    using snoc.prems snoc.hyps prompt_block_of by (metis last_in_set butlast_snoc in_set_butlastD)
  ultimately show ?case
    using snoc replace_again [OF trim_right_none [OF fresh] trim_right_last] by simp
qed

definition short_plan :: Plan where
  "short_plan = NewPlan ''t'' ''p'' ''d'' [\<lparr>md_ID = ''m'', md_Scope = ''s'', md_Acceptance = ''a'', md_FreshWorker = False\<rparr>] 0"

lemma short_block: "\<exists>data. executionMilestonePromptBlock short_plan = Inr (block_of data) \<and> str_index data executionMilestonePromptEnd = None"
proof -
  let ?data = "marshal (json_of_prompt \<lparr>em_TaskAuthority = pl_ActiveTaskPath short_plan, em_TaskContractSHA256 = pl_TaskContractSHA256 short_plan,
     em_Current = current_definition short_plan, em_Completed = []\<rparr>)"
  have "str_index ?data executionMilestonePromptEnd = None"
    by (rule str_index_missing [of "CHR ''J''"])
      (simp add: executionMilestonePromptEnd_def, simp add: short_plan_def NewPlan_def pending_record_def current_record_def
        marshal_def json_of_prompt_def json_of_definition_def encode_string_def escape_string_plain plain_byte_def escape_html_def)
  moreover have "pl_CurrentIndex short_plan = 0" by (simp add: short_plan_def NewPlan_def)
  then have "executionMilestonePromptBlock short_plan = Inr (block_of ?data)"
    by (simp add: executionMilestonePromptBlock_def block_of_def)
  ultimately show ?thesis by blast
qed

theorem prompt_block_replaced_witness:
  "\<exists>b. executionMilestonePromptBlock short_plan = Inr b \<and>
     foldl replaceExecutionMilestonePromptBlock (''Do'' @ [nl, nl]) [b, b, b] = ''Do'' @ b"
proof -
  obtain data where b: "executionMilestonePromptBlock short_plan = Inr (block_of data)" "str_index data executionMilestonePromptEnd = None"
    using short_block by blast
  have "str_index (''Do'' @ [nl, nl]) block_marker = None" "trim_right_set [nl] (''Do'' @ [nl, nl]) = ''Do''"
    by (simp_all add: block_marker_def executionMilestonePromptBegin_def trim_right_set_def)
  with prompt_block_replaced [of "''Do'' @ [nl, nl]" "[block_of data, block_of data, block_of data]"] b block_ends_once [OF b(2)]
  show ?thesis by (intro exI [of _ "block_of data"]) auto
qed

text \<open>
  Without that condition a prompt does collect text: the removal stops at the first end mark, and the text of a milestone
  may contain it. The rest of the block then stays in the prompt.
\<close>

lemma block_left_over:
  assumes data: "data = u @ executionMilestonePromptEnd @ c # v" "c \<noteq> nl"
    and mark: "str_index data executionMilestonePromptEnd = Some (length u)"
  shows "after_block (q @ block_of data) (length q) =
     Some (c # v @ nl # executionMilestoneInstruction @ nl # executionMilestonePromptEnd @ [nl])"
proof -
  have block: "block_of data = [] @ nl # [] @ nl # executionMilestonePromptBegin @ nl # data @ nl # executionMilestoneInstruction @ nl #
      executionMilestonePromptEnd @ nl # []"
    by (simp add: block_of_def block_body_def block_marker_def)
  have "str_index (block_of data) executionMilestonePromptEnd = Some (length executionMilestonePromptBegin + length u + 3)"
    unfolding block str_index_sep [OF end_mark(1,2)] using mark by (simp add: end_mark)
  then show ?thesis
    using data by (simp add: after_block_def) (simp add: block_of_def block_body_def block_marker_def numeral_3_eq_3)
qed

end
