(* ===== verification/Milestone_Flow.thy ===== *)
theory Milestone_Flow
  imports Milestone_Progress Milestone_Prompt
begin

text \<open>
  The workflow over the milestones of a task (\<^verbatim>\<open>workflow/execution_milestone_flow.go\<close>,
  \<^verbatim>\<open>execution_milestone_state.go\<close>, \<^verbatim>\<open>execution_unit_decision.go\<close>): opening the plan of a new task, putting the
  current milestone into the checkpoint of a worker call, and accepting the result of a call by completing the milestone
  and starting the next one. The model call, the review, the gates and the composition of the task prompt are members of
  the record \<open>engine\<close>. The chain of calls is recursive in the code; here it has fuel, and \<open>None\<close> is a chain that ran
  out of it. The theorems show that the plan stays consistent along every sequence of operations, that the chain ends,
  and that the review of the task waits for the last milestone.
\<close>

section \<open>The milestone in the checkpoint\<close>

definition decorateExecutionMilestoneCheckpoint :: "repository \<Rightarrow> ResumeCheckpoint \<Rightarrow> ResumeCheckpoint sop" where
  "decorateExecutionMilestoneCheckpoint repo c = bindE LoadPlan (\<lambda>r. case r of
       None \<Rightarrow> throwE (Errorf ''no pending execution milestone is available'' [])
     | Some p \<Rightarrow>
         if plan_finished p then throwE (Errorf ''no pending execution milestone is available'' [])
         else thenE (ValidateAuthority repo (Some p))
           (if rc_ExecutionMilestoneID c \<noteq> [] \<and> rc_ExecutionMilestoneID c \<noteq> md_ID (current_definition p)
            then throwE (Errorf ''execution milestone checkpoint mismatch'' [rc_ExecutionMilestoneID c, md_ID (current_definition p)])
            else bindE (of_result (executionMilestonePromptBlock p)) (\<lambda>block.
              returnE (c\<lparr>rc_ExecutionMilestoneID := md_ID (current_definition p),
                rc_Prompt := replaceExecutionMilestonePromptBlock (rc_Prompt c) block,
                rc_OriginalPrompt := (if rc_OriginalPrompt c = [] then []
                  else replaceExecutionMilestonePromptBlock (rc_OriginalPrompt c) block)\<rparr>))))"

section \<open>Opening and completing a milestone\<close>

definition initializeExecutionMilestones :: "repository \<Rightarrow> MilestoneDefinition list \<Rightarrow> string \<Rightarrow> unit sop" where
  "initializeExecutionMilestones repo definitions activeTaskPath = bindE TaskID (\<lambda>taskID.
     bindE (of_result (TaskContractDigest repo activeTaskPath)) (\<lambda>digest. bindE Now (\<lambda>t.
       thenE (SavePlan (NewPlan taskID activeTaskPath digest definitions t))
         (bindE Now (\<lambda>t. RecordDisposition activeTaskPath ExecutionUnitMilestones t)))))"

definition complete_record :: "Completion \<Rightarrow> Record \<Rightarrow> Record" where
  "complete_record c r = r\<lparr>mr_Status := StatusComplete, mr_Completion := Some c\<rparr>"

definition completeCurrentExecutionMilestone :: "repository \<Rightarrow> string \<Rightarrow> Plan \<Rightarrow> Result \<Rightarrow> Plan sop" where
  "completeCurrentExecutionMilestone repo lastCallID p result =
     bindE (wrapE ''capture execution milestone completion snapshot'' (of_result (repo_snapshot repo))) (\<lambda>snapshot.
       bindE Now (\<lambda>t. bindE (ReadOr ''worker.id'' []) (\<lambda>session. bindE Now (\<lambda>t'.
         let i = nat (pl_CurrentIndex p);
             completion = \<lparr>cm_CompletedAt = t, cm_CallID = lastCallID, cm_WorkerSessionID = session,
               cm_Summary = r_Summary result, cm_TaskContractSHA256 = pl_TaskContractSHA256 p, cm_Snapshot = snapshot\<rparr>;
             p' = p\<lparr>pl_Milestones := (pl_Milestones p)[i := complete_record completion (pl_Milestones p ! i)],
               pl_CurrentIndex := pl_CurrentIndex p + 1, pl_UpdatedAt := t'\<rparr>
         in thenE (SavePlan p') (returnE p')))))"

definition validateExecutionMilestoneCheckpointAuthority :: "repository \<Rightarrow> ResumeCheckpoint \<Rightarrow> unit sop" where
  "validateExecutionMilestoneCheckpointAuthority repo c =
     (if rc_ExecutionMilestoneID c = [] then throwE (Errorf ''execution milestone checkpoint has no milestone identity'' [])
      else bindE LoadPlan (\<lambda>plan. thenE (ValidateAuthority repo plan)
        (check (ValidateCurrent plan (rc_ExecutionMilestoneID c)))))"

section \<open>The chain of worker calls\<close>

text \<open>
  What the chain calls: the gate on external feasibility, which reports the proof-of-concept stage of the task;
  the text of the task prompt; the worker call, which returns its result and the identity of the call; the check
  of the quality surface and of the proof-of-concept snapshots, which report whether they stopped the task;
  routing of a proof of concept; the review; and the output of a result.
\<close>

record engine =
  en_gateExternalFeasibility :: "string \<Rightarrow> bool sop"
  en_workerPrompt :: "string \<Rightarrow> string \<Rightarrow> bool \<Rightarrow> int \<Rightarrow> string sop"
  en_runWorker :: "ResumeCheckpoint \<Rightarrow> (Result \<times> string) sop"
  en_verifyQualitySurfaceBaseline :: "string \<Rightarrow> bool sop"
  en_savePoCStartSnapshot :: "bool sop"
  en_verifyPoCEndSnapshot :: "bool sop"
  en_routePoCWorkerResult :: "Result \<Rightarrow> unit sop"
  en_reviewUntilStable :: "string \<Rightarrow> Result \<Rightarrow> string \<Rightarrow> unit sop"
  en_emitResult :: "Result \<Rightarrow> unit sop"
  en_WorkerModel :: string
  en_RoutineEffort :: string

definition some_unit :: "unit sop \<Rightarrow> unit option sop" where
  "some_unit m = thenE m (returnE (Some ()))"

definition zero_checkpoint :: ResumeCheckpoint where
  "zero_checkpoint = \<lparr>rc_Version = 0, rc_Stage = [], rc_Phase = [], rc_Role = [],
     rc_Model = [], rc_ReadOnly = False, rc_Effort = [], rc_Prompt = [], rc_OriginalPrompt = [],
     rc_Request = [], rc_Decision = [], rc_ActivatedRuleFiles = [], rc_DecisionBoundaryApplied = False,
     rc_ExecutionMilestoneID = [], rc_WorkerResult = None, rc_CompletedResult = None, rc_ReviewNumber = 0,
     rc_AutoFixes = 0, rc_StopKind = [], rc_ResetAtCST = [], rc_ResetAtRFC3339 = [],
     rc_ResultCorrection = False, rc_SummaryRecovered = False, rc_ReportOnly = False, rc_EffectiveRisk = [],
     rc_EffectiveRiskSource = [], rc_ProviderUnavailableClassification = [],
     rc_ProviderUnavailableProbes = 0, rc_ProviderUnavailableStartedAt = 0, rc_GuardFailure = [],
     rc_GuardRefBeforeDigest = [], rc_GuardRefAfterDigest = [], rc_GuardRefChanges = [],
     rc_GuardRefChangesTruncated = False, rc_QualityGateFailure = [],
     rc_QualitySurfaceApprovalPending = False, rc_QualitySurfaceApprovalActivated = False,
     rc_StopGitSnapshot = None, rc_StopDirtyFiles = []\<rparr>"

definition newExecutionMilestoneCheckpoint ::
    "engine \<Rightarrow> string \<Rightarrow> string \<Rightarrow> string \<Rightarrow> string \<Rightarrow> bool \<Rightarrow> int \<Rightarrow> ResumeCheckpoint sop" where
  "newExecutionMilestoneCheckpoint en request activeTaskPath phase effort readOnly n =
     bindE (en_workerPrompt en request activeTaskPath readOnly n) (\<lambda>prompt.
       returnE (zero_checkpoint\<lparr>rc_Stage := ResumeStageWorker, rc_Phase := phase, rc_Role := WorkerRole,
         rc_Model := en_WorkerModel en, rc_ReadOnly := readOnly, rc_Effort := effort, rc_Prompt := prompt,
         rc_OriginalPrompt := prompt, rc_Request := request\<rparr>))"

definition startNextExecutionMilestone ::
    "(ResumeCheckpoint \<Rightarrow> bool \<Rightarrow> unit option sop) \<Rightarrow> engine \<Rightarrow> string \<Rightarrow> ResumeCheckpoint \<Rightarrow> Plan \<Rightarrow> unit option sop" where
  "startNextExecutionMilestone execute en request previous p =
     thenE (if md_FreshWorker (current_definition p) then InvalidateSession WorkerRole else returnE ())
       (let phase = ''worker-milestone-'' @ itoa (pl_CurrentIndex p + 1) in
        bindE (en_gateExternalFeasibility en phase) (\<lambda>pocStage.
          let effort = (if rc_Effort previous = [] then en_RoutineEffort en else rc_Effort previous) in
          bindE (newExecutionMilestoneCheckpoint en request (pl_ActiveTaskPath p) phase effort pocStage (pl_CurrentIndex p + 1))
            (\<lambda>c. execute (c\<lparr>rc_Decision := rc_Decision previous\<rparr>) pocStage)))"

definition advanceExecutionMilestone ::
    "(ResumeCheckpoint \<Rightarrow> bool \<Rightarrow> unit option sop) \<Rightarrow> engine \<Rightarrow> repository \<Rightarrow> string \<Rightarrow> Result \<Rightarrow> string \<Rightarrow> ResumeCheckpoint \<Rightarrow>
     (bool \<times> unit option) sop" where
  "advanceExecutionMilestone execute en repo request result lastCallID c =
     (if rc_ExecutionMilestoneID c = [] then throwE (Errorf ''execution milestone result has no checkpoint identity'' [])
      else bindE LoadPlan (\<lambda>plan. thenE (ValidateAuthority repo plan)
        (thenE (check (ValidateCurrent plan (rc_ExecutionMilestoneID c)))
          (bindE (completeCurrentExecutionMilestone repo lastCallID (the plan) result) (\<lambda>p.
            if plan_finished p then returnE (False, Some ())
            else bindE (startNextExecutionMilestone execute en request c p) (\<lambda>r. returnE (True, r)))))))"

definition acceptExecutionMilestoneWorkerResult ::
    "(ResumeCheckpoint \<Rightarrow> bool \<Rightarrow> unit option sop) \<Rightarrow> engine \<Rightarrow> repository \<Rightarrow> string \<Rightarrow> Result \<Rightarrow> string \<Rightarrow> ResumeCheckpoint \<Rightarrow>
     unit option sop" where
  "acceptExecutionMilestoneWorkerResult execute en repo request result lastCallID c =
     thenE ContinueAfterWorkerResult
       (bindE (advanceExecutionMilestone execute en repo request result lastCallID c) (\<lambda>(advanced, r).
          if advanced then returnE r else some_unit (en_reviewUntilStable en request result (rc_Phase c))))"

definition stopExecutionMilestoneForDecision :: "engine \<Rightarrow> Result \<Rightarrow> unit sop" where
  "stopExecutionMilestoneForDecision en result = thenE WaitForDecision (en_emitResult en result)"

definition handleExecutionMilestoneWorkerResult ::
    "(ResumeCheckpoint \<Rightarrow> bool \<Rightarrow> unit option sop) \<Rightarrow> engine \<Rightarrow> repository \<Rightarrow> string \<Rightarrow> Result \<Rightarrow> string \<Rightarrow> ResumeCheckpoint \<Rightarrow>
     unit option sop" where
  "handleExecutionMilestoneWorkerResult execute en repo request result lastCallID c =
     bindE (en_verifyQualitySurfaceBaseline en (rc_Phase c)) (\<lambda>stopped.
       if stopped then returnE (Some ())
       else if r_Status result = StatusNeedsSolDecision then some_unit (stopExecutionMilestoneForDecision en result)
       else if r_Status result = StatusImplemented
       then acceptExecutionMilestoneWorkerResult execute en repo request result lastCallID c
       else throwE (Errorf ''worker did not return a valid STATUS'' []))"

fun executeExecutionMilestoneWorkerCheckpoint ::
    "nat \<Rightarrow> engine \<Rightarrow> repository \<Rightarrow> string \<Rightarrow> ResumeCheckpoint \<Rightarrow> bool \<Rightarrow> unit option sop" where
  "executeExecutionMilestoneWorkerCheckpoint 0 en repo request c pocStage = returnE None"
| "executeExecutionMilestoneWorkerCheckpoint (Suc fuel) en repo request c pocStage =
     bindE (decorateExecutionMilestoneCheckpoint repo c) (\<lambda>c.
       bindE (if pocStage then en_savePoCStartSnapshot en else returnE False) (\<lambda>stopped.
         if stopped then returnE (Some ())
         else bindE (en_runWorker en c) (\<lambda>(result, lastCallID).
           bindE (if pocStage then en_verifyPoCEndSnapshot en else returnE False) (\<lambda>stopped.
             if stopped then returnE (Some ())
             else if pocStage \<and> r_Status result = StatusImplemented then some_unit (en_routePoCWorkerResult en result)
             else handleExecutionMilestoneWorkerResult (executeExecutionMilestoneWorkerCheckpoint fuel en repo request)
               en repo request result lastCallID c))))"

section \<open>The unit of a decision\<close>

definition recordExecutionUnitDisposition :: "string \<Rightarrow> unit sop" where
  "recordExecutionUnitDisposition executionUnit = bindE CurrentWorkflowTaskPath (\<lambda>path.
     bindE Now (\<lambda>t. RecordDisposition path executionUnit t))"

definition executeMilestoneExecutionUnitDecision ::
    "go_runtime \<Rightarrow> repository \<Rightarrow> (string \<Rightarrow> unit sop) \<Rightarrow> Decision \<Rightarrow> bool \<Rightarrow> unit sop" where
  "executeMilestoneExecutionUnitDecision rt repo decide input active =
     (if dc_Milestones input \<noteq> []
      then bindE Now (\<lambda>t. bindE (Revise rt repo (dc_Milestones input) t) (\<lambda>revision.
        thenE (recordExecutionUnitDisposition ExecutionUnitMilestones)
          (thenE (if \<not> active \<and> md_FreshWorker (dc_Milestones input ! nat (rv_CurrentIndex revision))
              then InvalidateSession WorkerRole else returnE ())
            (decide (dc_Decision input)))))
      else if \<not> active
      then throwE (Errorf ''execution-unit milestones requires 2-8 milestone definitions or an existing pending milestone plan'' [])
      else decide (dc_Decision input))"

text \<open>
  The two ways of carrying out a decision, \<^verbatim>\<open>ExecuteDecision\<close> and \<^verbatim>\<open>ExecuteDecisionWithExecutionMilestones\<close>, are
  arguments: they go on to call the model.
\<close>

definition ExecuteDecisionWithExecutionUnitPayload ::
    "go_runtime \<Rightarrow> repository \<Rightarrow> (string \<Rightarrow> (state_error, MilestoneDefinition list) result) \<Rightarrow> (string \<Rightarrow> unit sop) \<Rightarrow>
     (string \<Rightarrow> unit sop) \<Rightarrow> string \<Rightarrow> unit sop" where
  "ExecuteDecisionWithExecutionUnitPayload rt repo decodeJSON decide decideMilestones payload =
     (if \<not> IsPayload payload then decideMilestones payload
      else bindE (of_result (ParsePayload decodeJSON payload)) (\<lambda>input.
        bindE (Preflight rt repo input) (\<lambda>active.
          if dc_ExecutionUnit input = ExecutionUnitSingle
          then thenE (recordExecutionUnitDisposition ExecutionUnitSingle) (decide (dc_Decision input))
          else if dc_ExecutionUnit input = ExecutionUnitMilestones
          then executeMilestoneExecutionUnitDecision rt repo decideMilestones input active
          else throwE (Errorf ''unsupported execution-unit disposition'' [dc_ExecutionUnit input]))))"

section \<open>Consistent plans\<close>

definition plan_ok :: "Plan \<Rightarrow> bool" where
  "plan_ok p \<longleftrightarrow> plan_error p = None \<and> executionProgressMilestonesConsistent p \<and>
     ValidateMilestoneDefinitions (map mr_MilestoneDefinition (pl_Milestones p)) = Inr (map mr_MilestoneDefinition (pl_Milestones p))"

lemma validated_id:
  assumes "ValidateMilestoneDefinitions ds = Inr r" "d \<in> set r"
  shows "trim_space (md_ID d) \<noteq> []"
proof -
  from assms obtain d' where "d = trimmed_definition d'" "well_defined d"
    by (auto simp: ValidateMilestoneDefinitions_iff list_all_iff)
  then show ?thesis by (auto simp: trimmed_definition_def well_defined_def trim_space_idem)
qed

lemma pending_consistent:
  "ValidateMilestoneDefinitions ds = Inr r \<Longrightarrow> d \<in> set r \<Longrightarrow> i \<le> int j \<Longrightarrow> record_consistent i j (pending_record d)"
  by (simp add: record_consistent_def pending_record_def validated_id)

lemma new_plan_ok:
  assumes "ValidateMilestoneDefinitions ds = Inr r"
  shows "plan_ok (NewPlan taskID path digest r t)"
  using assms validated_again [OF assms]
  by (auto simp: plan_ok_def plan_error_None consistent_nth NewPlan_def intro!: pending_consistent)
    (simp add: comp_def pending_record_def)

lemma revised_plan_ok:
  assumes p: "plan_ok p" and r: "ValidateMilestoneDefinitions ds = Inr r" and rev: "revised rt F p r p'"
  shows "plan_ok p'"
proof -
  let ?i = "nat (pl_CurrentIndex p)"
  from rev have i: "?i < length r" and idx: "pl_CurrentIndex p' = pl_CurrentIndex p" and v: "pl_Version p' = pl_Version p"
    and head: "take ?i (pl_Milestones p') = take ?i (pl_Milestones p)"
    and tail: "drop ?i (pl_Milestones p') = map pending_record (drop ?i r)"
    and defs: "map mr_MilestoneDefinition (pl_Milestones p') = r" and open': "\<not> plan_finished p"
    by (simp_all add: revised_def Let_def)
  have len: "length (pl_Milestones p') = length r" using defs by (metis length_map)
  have bounds: "0 \<le> pl_CurrentIndex p" "?i < length (pl_Milestones p)"
    using p open' by (auto simp: plan_ok_def plan_error_None plan_finished_def)
  have "record_consistent (pl_CurrentIndex p) j (pl_Milestones p' ! j)" if j: "j < length r" for j
  proof (cases "j < ?i")
    case True
    then have "pl_Milestones p' ! j = pl_Milestones p ! j" using head by (metis nth_take)
    with p True bounds show ?thesis by (simp add: plan_ok_def consistent_nth)
  next
    case False
    with len j have "pl_Milestones p' ! j = drop ?i (pl_Milestones p') ! (j - ?i)" by simp
    also have "\<dots> = pending_record (r ! j)" using False j by (simp add: tail)
    finally show ?thesis using False j r by (auto intro: pending_consistent)
  qed
  with p r i idx v len defs validated_again [OF r] bounds show ?thesis
    by (simp add: plan_ok_def plan_error_None consistent_nth)
qed

text \<open>Completing the current milestone.\<close>

definition advanced_plan :: "Completion \<Rightarrow> int \<Rightarrow> Plan \<Rightarrow> Plan" where
  "advanced_plan c t p = (let i = nat (pl_CurrentIndex p) in
     p\<lparr>pl_Milestones := (pl_Milestones p)[i := complete_record c (pl_Milestones p ! i)],
       pl_CurrentIndex := pl_CurrentIndex p + 1, pl_UpdatedAt := t\<rparr>)"

lemma advanced_plan_ok:
  assumes p: "plan_ok p" and open': "\<not> plan_finished p"
  shows "plan_ok (advanced_plan c t p)"
proof -
  let ?i = "nat (pl_CurrentIndex p)" and ?p = "advanced_plan c t p"
  have i: "0 \<le> pl_CurrentIndex p" "?i < length (pl_Milestones p)"
    using assms by (auto simp: plan_ok_def plan_error_None plan_finished_def)
  have defs: "map mr_MilestoneDefinition (pl_Milestones ?p) = map mr_MilestoneDefinition (pl_Milestones p)"
    using i by (intro nth_equalityI) (auto simp: advanced_plan_def Let_def complete_record_def nth_list_update)
  have old: "record_consistent (pl_CurrentIndex p) j (pl_Milestones p ! j)" if "j < length (pl_Milestones p)" for j
    using p that by (simp add: plan_ok_def consistent_nth)
  have "record_consistent (pl_CurrentIndex p + 1) j (pl_Milestones ?p ! j)" if j: "j < length (pl_Milestones p)" for j
    using old [OF j] i j by (auto simp: advanced_plan_def Let_def complete_record_def record_consistent_def nth_list_update split: if_splits)
  then show ?thesis
    using p i defs by (simp add: plan_ok_def plan_error_None consistent_nth) (simp add: advanced_plan_def Let_def)
qed

section \<open>Plans only advance\<close>

text \<open>
  \<open>extends p p'\<close>: the later plan belongs to the same task and has the completed milestones of the earlier one, with their
  completions, and perhaps more. \<open>advance\<close> relates what the plan file held to what it holds.
\<close>

definition extends :: "Plan \<Rightarrow> Plan \<Rightarrow> bool" where
  "extends p p' \<longleftrightarrow> pl_TaskID p' = pl_TaskID p \<and> pl_ActiveTaskPath p' = pl_ActiveTaskPath p \<and>
     0 \<le> pl_CurrentIndex p \<and> pl_CurrentIndex p \<le> pl_CurrentIndex p' \<and>
     take (nat (pl_CurrentIndex p)) (pl_Milestones p') = take (nat (pl_CurrentIndex p)) (pl_Milestones p)"

definition consistent_file :: "doc content option \<Rightarrow> bool" where
  "consistent_file x \<longleftrightarrow> x = None \<or> (\<exists>p. x = Some (Doc (MilestonesD p)) \<and> plan_ok p)"

definition advance :: "doc content option \<Rightarrow> doc content option \<Rightarrow> bool" where
  "advance x y \<longleftrightarrow> (consistent_file x \<longrightarrow> consistent_file y \<and>
     (\<forall>p. x = Some (Doc (MilestonesD p)) \<longrightarrow> (\<exists>p'. y = Some (Doc (MilestonesD p')) \<and> extends p p')))"

lemma plan_ok_index: "plan_ok p \<Longrightarrow> 0 \<le> pl_CurrentIndex p"
  by (simp add: plan_ok_def plan_error_None)

lemma extends_refl: "plan_ok p \<Longrightarrow> extends p p"
  by (simp add: extends_def plan_ok_index)

lemma extends_trans: "extends p q \<Longrightarrow> extends q r \<Longrightarrow> extends p r"
proof -
  assume a: "extends p q" "extends q r"
  then have "nat (pl_CurrentIndex p) \<le> nat (pl_CurrentIndex q)" by (auto simp: extends_def intro: nat_mono)
  then have "take (nat (pl_CurrentIndex p)) (pl_Milestones r) =
      take (nat (pl_CurrentIndex p)) (take (nat (pl_CurrentIndex q)) (pl_Milestones r))"
    "take (nat (pl_CurrentIndex p)) (pl_Milestones q) =
      take (nat (pl_CurrentIndex p)) (take (nat (pl_CurrentIndex q)) (pl_Milestones q))"
    by (simp_all add: min_absorb1)
  with a show "extends p r" by (simp add: extends_def)
qed

lemma advance_refl: "advance x x"
  by (auto simp: advance_def consistent_file_def intro: extends_refl)

lemma advanceD: "advance x y \<Longrightarrow> consistent_file x \<Longrightarrow> x = Some (Doc (MilestonesD p)) \<Longrightarrow> \<exists>p'. y = Some (Doc (MilestonesD p')) \<and> extends p p'"
  by (simp add: advance_def)

lemma advance_trans:
  assumes xy: "advance x y" and yz: "advance y z"
  shows "advance x z"
  unfolding advance_def
proof (intro impI conjI allI)
  assume x: "consistent_file x"
  with xy have y: "consistent_file y" by (simp add: advance_def)
  with yz show "consistent_file z" by (simp add: advance_def)
  fix p assume "x = Some (Doc (MilestonesD p))"
  with advanceD [OF xy x] obtain q where q: "y = Some (Doc (MilestonesD q))" "extends p q" by blast
  with advanceD [OF yz y] obtain r where "z = Some (Doc (MilestonesD r))" "extends q r" by blast
  with q show "\<exists>p'. z = Some (Doc (MilestonesD p')) \<and> extends p p'" using extends_trans by blast
qed

lemma extends_revised: "plan_ok p \<Longrightarrow> revised rt F p r p' \<Longrightarrow> extends p p'"
  by (simp add: extends_def revised_def Let_def plan_ok_index)

lemma extends_advanced: "plan_ok p \<Longrightarrow> extends p (advanced_plan c t p)"
  by (simp add: extends_def advanced_plan_def Let_def plan_ok_index)

definition plan_is :: "doc content option \<Rightarrow> store \<Rightarrow> bool" where
  "plan_is x st \<longleftrightarrow> files st ExecutionMilestonesStateFile = x"

definition reached :: "doc content option \<Rightarrow> store \<Rightarrow> bool" where
  "reached x st \<longleftrightarrow> advance x (files st ExecutionMilestonesStateFile)"

definition advances_plan :: "'a sop \<Rightarrow> bool" where
  "advances_plan m \<longleftrightarrow> (\<forall>x. triple (plan_is x) m (\<lambda>_. reached x) (\<lambda>_. reached x))"

abbreviation keeps_plan :: "'a sop \<Rightarrow> bool" where
  "keeps_plan m \<equiv> touches (- {ExecutionMilestonesStateFile}) m"

named_theorems advances_plan_intro \<open>operations under which plans only advance\<close>

lemma plan_is_reached: "plan_is x st \<Longrightarrow> reached x st"
  by (simp add: plan_is_def reached_def advance_refl)

lemma keeps_triple: "keeps_plan m \<Longrightarrow> triple (plan_is x) m (\<lambda>_. plan_is x) (\<lambda>_. plan_is x)"
  by (rule tripleI) (auto simp: plan_is_def dest: touchesD)

lemma keeps_step:
  "keeps_plan m \<Longrightarrow> (\<And>e st. plan_is x st \<Longrightarrow> E e st) \<Longrightarrow> (\<And>v. triple (plan_is x) (k v) Q E) \<Longrightarrow> triple (plan_is x) (bindE m k) Q E"
  by (rule triple_bind [where R = "\<lambda>_. plan_is x"], rule triple_weaken [OF keeps_triple]) auto

lemma keeps_then:
  "keeps_plan m \<Longrightarrow> (\<And>e st. plan_is x st \<Longrightarrow> E e st) \<Longrightarrow> triple (plan_is x) k Q E \<Longrightarrow> triple (plan_is x) (thenE m k) Q E"
  unfolding thenE_def by (rule keeps_step)

lemma reached_triple:
  assumes "advances_plan m"
  shows "triple (reached x) m (\<lambda>_. reached x) (\<lambda>_. reached x)"
proof (rule triple_pre)
  fix st assume "reached x st"
  moreover have "triple (plan_is (files st ExecutionMilestonesStateFile)) m
      (\<lambda>_. reached (files st ExecutionMilestonesStateFile)) (\<lambda>_. reached (files st ExecutionMilestonesStateFile))"
    using assms by (simp add: advances_plan_def)
  ultimately show "triple (\<lambda>st'. st' = st) m (\<lambda>_. reached x) (\<lambda>_. reached x)"
    by (elim triple_weaken) (auto simp: plan_is_def reached_def intro: advance_trans)
qed

lemma advances_planI: "(\<And>x. triple (plan_is x) m (\<lambda>_. reached x) (\<lambda>_. reached x)) \<Longrightarrow> advances_plan m"
  by (simp add: advances_plan_def)

lemma advances_plan_keep: "keeps_plan m \<Longrightarrow> advances_plan m"
  by (intro advances_planI triple_weaken [OF keeps_triple]) (auto intro: plan_is_reached)

lemma advances_plan_bind [advances_plan_intro]: "advances_plan m \<Longrightarrow> (\<And>v. advances_plan (k v)) \<Longrightarrow> advances_plan (bindE m k)"
proof (rule advances_planI)
  fix x assume m: "advances_plan m" and k: "\<And>v. advances_plan (k v)"
  then have "triple (plan_is x) m (\<lambda>_. reached x) (\<lambda>_. reached x)" by (simp add: advances_plan_def)
  then show "triple (plan_is x) (bindE m k) (\<lambda>_. reached x) (\<lambda>_. reached x)"
    by (rule triple_bind) (rule reached_triple [OF k])
qed

lemma advances_plan_then [advances_plan_intro]: "advances_plan m \<Longrightarrow> advances_plan k \<Longrightarrow> advances_plan (thenE m k)"
  unfolding thenE_def by (rule advances_plan_bind)

lemma advances_plan_basic [advances_plan_intro]:
  "advances_plan (returnE v)" "advances_plan (throwE e)" "advances_plan (of_result r)" "advances_plan (check c)" "advances_plan Now"
  by (rule advances_plan_keep, intro touches_intro)+

lemma advances_plan_cases [advances_plan_intro]:
  "(c \<Longrightarrow> advances_plan a) \<Longrightarrow> (\<not> c \<Longrightarrow> advances_plan b) \<Longrightarrow> advances_plan (if c then a else b)"
  "(x = None \<Longrightarrow> advances_plan f) \<Longrightarrow> (\<And>v. x = Some v \<Longrightarrow> advances_plan (g v)) \<Longrightarrow> advances_plan (case x of None \<Rightarrow> f | Some v \<Rightarrow> g v)"
  "(\<And>a b. advances_plan (h a b)) \<Longrightarrow> advances_plan (case y of (a, b) \<Rightarrow> h a b)"
  by (auto split: option.split prod.split)

lemma reads_value_plan:
  assumes "\<And>F. triple (state_is F) m (\<lambda>v st. P F v \<and> state_is F st) (\<lambda>_. state_is F)"
  shows "triple (plan_is x) m (\<lambda>v st. (\<exists>F. F ExecutionMilestonesStateFile = x \<and> P F v) \<and> plan_is x st) (\<lambda>_. plan_is x)"
proof (rule triple_pre)
  fix st assume st: "plan_is x st"
  have "triple (state_is (files st)) m (\<lambda>v st'. P (files st) v \<and> state_is (files st) st') (\<lambda>_. state_is (files st))" by (rule assms)
  then show "triple (\<lambda>st'. st' = st) m (\<lambda>v st. (\<exists>F. F ExecutionMilestonesStateFile = x \<and> P F v) \<and> plan_is x st) (\<lambda>_. plan_is x)"
    by (rule triple_weaken) (use st in \<open>auto simp: state_is_self plan_is_def state_is_def intro!: exI [of _ "files st"]\<close>)
qed

lemma load_plan: "triple (plan_is x) LoadPlan (\<lambda>v st. (case v of None \<Rightarrow> x = None | Some p \<Rightarrow> x = Some (Doc (MilestonesD p)) \<and> plan_error p = None) \<and> plan_is x st)
   (\<lambda>_. plan_is x)"
  by (rule triple_weaken [OF reads_value_plan [OF plan_file.load_triple]]) (auto simp: holds_document_def split: option.splits)

lemma save_plan: "triple (plan_is x) (SavePlan p) (\<lambda>_. plan_is (Some (Doc (MilestonesD p)))) (\<lambda>_. plan_is x)"
proof (rule triple_pre)
  fix st assume st: "plan_is x st"
  show "triple (\<lambda>st'. st' = st) (SavePlan p) (\<lambda>_. plan_is (Some (Doc (MilestonesD p)))) (\<lambda>_. plan_is x)"
    by (rule triple_weaken [OF SavePlan_clean [of "files st"]]) (use st in \<open>auto simp: state_is_self plan_is_def state_is_def\<close>)
qed

lemma plan_step:
  assumes "x = None \<Longrightarrow> triple (plan_is x) (k None) Q E"
    and "\<And>p. x = Some (Doc (MilestonesD p)) \<Longrightarrow> plan_error p = None \<Longrightarrow> triple (plan_is x) (k (Some p)) Q E"
    and "\<And>e st. plan_is x st \<Longrightarrow> E e st"
  shows "triple (plan_is x) (bindE LoadPlan k) Q E"
proof (rule triple_bind [where R = "\<lambda>v st. (case v of None \<Rightarrow> x = None
      | Some p \<Rightarrow> x = Some (Doc (MilestonesD p)) \<and> plan_error p = None) \<and> plan_is x st"])
  show "triple (plan_is x) LoadPlan (\<lambda>v st. (case v of None \<Rightarrow> x = None
      | Some p \<Rightarrow> x = Some (Doc (MilestonesD p)) \<and> plan_error p = None) \<and> plan_is x st) E"
    by (rule triple_weaken [OF load_plan]) (use assms(3) in auto)
  fix v
  show "triple (\<lambda>st. (case v of None \<Rightarrow> x = None | Some p \<Rightarrow> x = Some (Doc (MilestonesD p)) \<and> plan_error p = None) \<and> plan_is x st) (k v) Q E"
    by (rule triple_assume, cases v) (use assms in auto)
qed

lemmas milestone_names_sym [simp] = milestone_names [THEN not_sym]

lemma keeps_checkpoint [touches_intro]: "keeps_plan (SaveResumeCheckpoint rt c)"
  unfolding SaveResumeCheckpoint_def by (auto intro!: touches_intro)

lemma reads_revision [reads_intro]: "reads (LoadResumeCheckpoint rt)"
  unfolding LoadResumeCheckpoint_def by (intro reads_intro) (auto split: content.split doc.split intro!: reads_intro)

lemma reads_authority [reads_intro]: "reads (ValidateAuthority repo p)"
  unfolding ValidateAuthority_def by (intro reads_intro)

lemma keeps_lease [touches_intro]: "keeps_plan AdvanceParentEvidenceLease"
  unfolding AdvanceParentEvidenceLease_def by (intro touches_intro touches_lease) simp_all

lemma keeps_rollback [touches_intro]: "ls_name ` set ss \<subseteq> N \<Longrightarrow> touches N (rollbackLifecycleFiles e ss)"
  unfolding rollbackLifecycleFiles_def by (intro touches_intro) auto

lemma touches_milestone_reads [touches_intro]:
  "touches N (ValidateAuthority repo plan)" "touches N CurrentWorkflowTaskPath" "touches N (LoadResumeCheckpoint rt)" "touches N LoadPlan"
  by (rule touches_reads, intro reads_intro)+

lemma keeps_milestone_ops [touches_intro]:
  "keeps_plan (RecordDisposition path u t)" "keeps_plan (bindStoppedCheckpoint rt p)" "keeps_plan (InvalidateSession WorkerRole)"
  unfolding RecordDisposition_def bindStoppedCheckpoint_def InvalidateSession_def Let_def
  by (auto intro!: touches_intro simp: WorkerRole_def)

lemma touches_snapshot:
  assumes "\<And>s. ls_name s = n \<Longrightarrow> touches N (k s)"
  shows "touches N (bindE (snapshotLifecycleFile n) k)"
  unfolding touches_def
proof (intro allI impI)
  fix st f assume f: "f \<notin> N \<and> f \<noteq> currentStatsFile"
  obtain r st' where run: "snapshotLifecycleFile n st = (r, st')" by fastforce
  have same: "files st' = files st" using readsD [OF reads_snapshot run] by simp
  show "files (snd (bindE (snapshotLifecycleFile n) k st)) f = files st f"
  proof (cases r)
    case (Inl e) with run same show ?thesis by (simp add: bindE_def)
  next
    case (Inr s)
    with run have "ls_name s = n"
      by (auto simp: snapshotLifecycleFile_def run_defs split: if_splits option.splits content.splits)
    with assms f have "files (snd (k s st')) f = files st' f" by (simp add: touches_def)
    with run Inr same show ?thesis by (simp add: bindE_def)
  qed
qed

lemma keeps_transitions [touches_intro]: "keeps_plan ContinueAfterWorkerResult" "keeps_plan WaitForDecision"
  unfolding ContinueAfterWorkerResult_def WaitForDecision_def refuse_status_def
  by (intro touches_bind touches_cases touches_snapshot touches_then touches_catch touches_basic
      touches_Remove touches_SetTaskStatus keeps_rollback keeps_lease touches_Write; auto)+

section \<open>The operations advance plans\<close>

lemma complete_triple:
  "triple (plan_is x) (completeCurrentExecutionMilestone repo lastCallID p result)
     (\<lambda>p' st. (\<exists>c t. p' = advanced_plan c t p) \<and> plan_is (Some (Doc (MilestonesD p'))) st) (\<lambda>_. plan_is x)"
  unfolding completeCurrentExecutionMilestone_def Let_def
  by (intro keeps_step touches_wrap touches_basic, assumption+, rule triple_then [OF save_plan], rule triple_return)
    (auto simp: advanced_plan_def Let_def)

lemma advance_step:
  assumes next': "\<And>p c t. x = Some (Doc (MilestonesD p)) \<Longrightarrow> plan_error p = None \<Longrightarrow> \<not> plan_finished p \<Longrightarrow>
      triple (plan_is (Some (Doc (MilestonesD (advanced_plan c t p)))))
        (if plan_finished (advanced_plan c t p) then returnE (False, Some ())
         else bindE (startNextExecutionMilestone execute en request ck (advanced_plan c t p)) (\<lambda>r. returnE (True, r))) Q E"
    and E: "\<And>e st. plan_is x st \<Longrightarrow> E e st"
  shows "triple (plan_is x) (advanceExecutionMilestone execute en repo request result lastCallID ck) Q E"
  unfolding advanceExecutionMilestone_def
proof (rule triple_if, rule triple_throw, erule E, rule plan_step)
  show "triple (plan_is x) (thenE (ValidateAuthority repo None) k) Q E" for k :: "(bool \<times> unit option) sop"
    unfolding ValidateAuthority_def by (rule triple_then [where R = "\<lambda>_. False"], simp, rule triple_throw, erule E) (simp add: triple_def)
next
  fix p assume p: "x = Some (Doc (MilestonesD p))" "plan_error p = None"
  have tail: "triple (plan_is x) (thenE (check (ValidateCurrent (Some p) (rc_ExecutionMilestoneID ck)))
      (bindE (completeCurrentExecutionMilestone repo lastCallID (the (Some p)) result) (\<lambda>p.
         if plan_finished p then returnE (False, Some ())
         else bindE (startNextExecutionMilestone execute en request ck p) (\<lambda>r. returnE (True, r))))) Q E"
  proof (rule triple_then [where R = "\<lambda>st. \<not> plan_finished p \<and> plan_is x st"])
    show "triple (plan_is x) (check (ValidateCurrent (Some p) (rc_ExecutionMilestoneID ck))) (\<lambda>_ st. \<not> plan_finished p \<and> plan_is x st) E"
      by (rule triple_check) (use E in \<open>auto simp: ValidateCurrent_def\<close>)
    show "triple (\<lambda>st. \<not> plan_finished p \<and> plan_is x st) (bindE (completeCurrentExecutionMilestone repo lastCallID (the (Some p)) result) (\<lambda>p.
         if plan_finished p then returnE (False, Some ())
         else bindE (startNextExecutionMilestone execute en request ck p) (\<lambda>r. returnE (True, r)))) Q E"
    proof (rule triple_assume, rule triple_bind [OF triple_weaken [OF complete_triple [of x]]], assumption, assumption, erule E, rule triple_assume)
      fix p' assume "\<not> plan_finished p" "\<exists>c t. p' = advanced_plan c t (the (Some p))"
      then obtain c t where "\<not> plan_finished p" and p': "p' = advanced_plan c t p" by auto
      then show "triple (plan_is (Some (Doc (MilestonesD p')))) (if plan_finished p' then returnE (False, Some ())
         else bindE (startNextExecutionMilestone execute en request ck p') (\<lambda>r. returnE (True, r))) Q E"
        unfolding p' by (intro next' p)
    qed
  qed
  show "triple (plan_is x) (thenE (ValidateAuthority repo (Some p)) (thenE (check (ValidateCurrent (Some p) (rc_ExecutionMilestoneID ck)))
      (bindE (completeCurrentExecutionMilestone repo lastCallID (the (Some p)) result) (\<lambda>p.
         if plan_finished p then returnE (False, Some ())
         else bindE (startNextExecutionMilestone execute en request ck p) (\<lambda>r. returnE (True, r)))))) Q E"
    by (rule keeps_then, rule touches_milestone_reads(1), erule E, rule tail)
qed (rule E)

definition engine_keeps :: "engine \<Rightarrow> bool" where
  "engine_keeps en \<longleftrightarrow> (\<forall>phase. keeps_plan (en_gateExternalFeasibility en phase)) \<and> (\<forall>q path ro n. keeps_plan (en_workerPrompt en q path ro n)) \<and>
     (\<forall>c. keeps_plan (en_runWorker en c)) \<and> (\<forall>phase. keeps_plan (en_verifyQualitySurfaceBaseline en phase)) \<and>
     keeps_plan (en_savePoCStartSnapshot en) \<and> keeps_plan (en_verifyPoCEndSnapshot en) \<and> (\<forall>r. keeps_plan (en_routePoCWorkerResult en r)) \<and>
     (\<forall>q r phase. keeps_plan (en_reviewUntilStable en q r phase)) \<and> (\<forall>r. keeps_plan (en_emitResult en r))"

lemma engine_keepsD:
  assumes "engine_keeps en"
  shows "keeps_plan (en_gateExternalFeasibility en phase)" "keeps_plan (en_workerPrompt en q path ro n)" "keeps_plan (en_runWorker en c)"
    "keeps_plan (en_verifyQualitySurfaceBaseline en phase)" "keeps_plan (en_savePoCStartSnapshot en)" "keeps_plan (en_verifyPoCEndSnapshot en)"
    "keeps_plan (en_routePoCWorkerResult en r)" "keeps_plan (en_reviewUntilStable en q r phase)" "keeps_plan (en_emitResult en r)"
  using assms unfolding engine_keeps_def by blast+

lemma keeps_decorate [touches_intro]: "keeps_plan (decorateExecutionMilestoneCheckpoint repo c)"
  unfolding decorateExecutionMilestoneCheckpoint_def by (intro touches_intro)

lemma keeps_new_checkpoint:
  "engine_keeps en \<Longrightarrow> keeps_plan (newExecutionMilestoneCheckpoint en request path phase effort ro n)"
  unfolding newExecutionMilestoneCheckpoint_def by (intro touches_intro engine_keepsD)

lemma keeps_some_unit: "keeps_plan m \<Longrightarrow> keeps_plan (some_unit m)"
  unfolding some_unit_def by (intro touches_intro)

text \<open>Up to the next call of the chain the plan stays as it is.\<close>

lemma start_step:
  assumes en: "engine_keeps en" and E: "\<And>e st. plan_is x st \<Longrightarrow> E e st"
    and execute: "\<And>c poc. triple (plan_is x) (execute c poc) Q E"
  shows "triple (plan_is x) (startNextExecutionMilestone execute en request previous p) Q E"
  unfolding startNextExecutionMilestone_def Let_def
  by (intro keeps_then keeps_step touches_intro engine_keepsD keeps_new_checkpoint en execute E)

text \<open>The chain up to the advance.\<close>

lemma handle_step:
  assumes en: "engine_keeps en" and E: "\<And>e st. plan_is x st \<Longrightarrow> E e st" and Q: "\<And>st. plan_is x st \<Longrightarrow> Q (Some ()) st"
    and accept: "triple (plan_is x) (bindE (advanceExecutionMilestone execute en repo request result lastCallID c) (\<lambda>(advanced, r).
          if advanced then returnE r else some_unit (en_reviewUntilStable en request result (rc_Phase c)))) Q E"
  shows "triple (plan_is x) (handleExecutionMilestoneWorkerResult execute en repo request result lastCallID c) Q E"
proof -
  have unit: "triple (plan_is x) (some_unit m) Q E" if "keeps_plan m" for m
    unfolding some_unit_def by (rule keeps_then [OF that E], assumption, rule triple_return, erule Q)
  show ?thesis
    unfolding handleExecutionMilestoneWorkerResult_def acceptExecutionMilestoneWorkerResult_def stopExecutionMilestoneForDecision_def
    by (intro keeps_step keeps_then triple_if triple_return triple_throw unit touches_intro engine_keepsD en accept E Q)
qed

lemma chain_step:
  assumes en: "engine_keeps en" and E: "\<And>e st. plan_is x st \<Longrightarrow> E e st" and Q: "\<And>st. plan_is x st \<Longrightarrow> Q (Some ()) st"
    and accept: "\<And>result lastCallID c. triple (plan_is x)
        (bindE (advanceExecutionMilestone (executeExecutionMilestoneWorkerCheckpoint fuel en repo request) en repo request result lastCallID c)
          (\<lambda>(advanced, r). if advanced then returnE r else some_unit (en_reviewUntilStable en request result (rc_Phase c)))) Q E"
  shows "triple (plan_is x) (executeExecutionMilestoneWorkerCheckpoint (Suc fuel) en repo request c poc) Q E"
proof -
  have unit: "triple (plan_is x) (some_unit m) Q E" if "keeps_plan m" for m
    unfolding some_unit_def by (rule keeps_then [OF that E], assumption, rule triple_return, erule Q)
  have result: "triple (plan_is x) (bindE (if poc then en_verifyPoCEndSnapshot en else returnE False) (\<lambda>stopped.
       if stopped then returnE (Some ())
       else if poc \<and> r_Status result = StatusImplemented then some_unit (en_routePoCWorkerResult en result)
       else handleExecutionMilestoneWorkerResult (executeExecutionMilestoneWorkerCheckpoint fuel en repo request)
         en repo request result lastCallID c)) Q E" for result lastCallID c
    by (intro keeps_step touches_intro triple_if triple_return unit engine_keepsD en E Q handle_step accept)
  show ?thesis
    unfolding executeExecutionMilestoneWorkerCheckpoint.simps
    by (intro keeps_step keeps_decorate touches_intro triple_if triple_return engine_keepsD en E Q; assumption?)
      (simp only: split_beta result)
qed

lemma advances_plan_chain:
  assumes en: "engine_keeps en"
  shows "advances_plan (executeExecutionMilestoneWorkerCheckpoint fuel en repo request c poc)"
proof (induction fuel arbitrary: c poc)
  case 0
  show ?case by (simp add: advances_plan_intro)
next
  case (Suc fuel)
  let ?execute = "executeExecutionMilestoneWorkerCheckpoint fuel en repo request"
  have advance: "advances_plan (advanceExecutionMilestone ?execute en repo request result lastCallID ck)" for result lastCallID ck
  proof (rule advances_planI, rule advance_step)
    fix x p and comp :: Completion and t
    let ?p = "advanced_plan comp t p"
    assume p: "x = Some (Doc (MilestonesD p))" "plan_error p = None" "\<not> plan_finished p"
    have x: "advance x (Some (Doc (MilestonesD ?p)))"
      using p(1,3) by (auto simp: advance_def consistent_file_def intro: advanced_plan_ok extends_advanced)
    have "triple (plan_is (Some (Doc (MilestonesD ?p)))) (startNextExecutionMilestone ?execute en request ck ?p)
        (\<lambda>_. reached (Some (Doc (MilestonesD ?p)))) (\<lambda>_. reached (Some (Doc (MilestonesD ?p))))"
      by (rule start_step [OF en], erule plan_is_reached) (use Suc in \<open>simp add: advances_plan_def\<close>)
    then have start: "triple (plan_is (Some (Doc (MilestonesD ?p)))) (startNextExecutionMilestone ?execute en request ck ?p) (\<lambda>_. reached x) (\<lambda>_. reached x)"
      by (rule triple_weaken) (auto simp: reached_def intro: advance_trans [OF x])
    show "triple (plan_is (Some (Doc (MilestonesD ?p)))) (if plan_finished ?p then returnE (False, Some ())
         else bindE (startNextExecutionMilestone ?execute en request ck ?p) (\<lambda>r. returnE (True, r))) (\<lambda>_. reached x) (\<lambda>_. reached x)"
      by (rule triple_if, intro triple_return, simp add: plan_is_def reached_def x, rule triple_bind [OF start], rule triple_return)
  qed (rule plan_is_reached)
  have "advances_plan (bindE (advanceExecutionMilestone ?execute en repo request result lastCallID ck)
      (\<lambda>(advanced, r). if advanced then returnE r else some_unit (en_reviewUntilStable en request result (rc_Phase ck))))" for result lastCallID ck
    by (intro advances_plan_bind advance advances_plan_cases advances_plan_basic advances_plan_keep keeps_some_unit engine_keepsD en)
  then show ?case
    by (intro advances_planI chain_step en) (auto intro: plan_is_reached simp: advances_plan_def)
qed

text \<open>Milestones that are not complete.\<close>

definition pending_count :: "Plan \<Rightarrow> int" where
  "pending_count p = int (length (pl_Milestones p)) - pl_CurrentIndex p"

lemma pending_advanced: "pending_count (advanced_plan c t p) = pending_count p - 1"
  by (simp add: pending_count_def advanced_plan_def Let_def)

lemma some_unit_any: "triple P (some_unit m) (\<lambda>r _. r \<noteq> None) (\<lambda>_ _. True)"
  unfolding some_unit_def by (rule triple_then [OF triple_any], rule triple_return) simp

lemma chain_ends:
  assumes en: "engine_keeps en" and "0 < fuel" "\<And>p. x = Some (Doc (MilestonesD p)) \<Longrightarrow> pending_count p < int fuel"
  shows "triple (plan_is x) (executeExecutionMilestoneWorkerCheckpoint fuel en repo request c poc) (\<lambda>r _. r \<noteq> None) (\<lambda>_ _. True)"
  using assms(2,3)
proof (induction fuel arbitrary: x c poc)
  case (Suc fuel)
  let ?execute = "executeExecutionMilestoneWorkerCheckpoint fuel en repo request"
  have advance: "triple (plan_is x) (advanceExecutionMilestone ?execute en repo request result lastCallID ck)
      (\<lambda>v _. snd v \<noteq> None) (\<lambda>_ _. True)" for result lastCallID ck
  proof (rule advance_step)
    fix p and comp :: Completion and t
    let ?p = "advanced_plan comp t p"
    assume p: "x = Some (Doc (MilestonesD p))"
    have "triple (plan_is (Some (Doc (MilestonesD ?p)))) (startNextExecutionMilestone ?execute en request ck ?p) (\<lambda>r _. r \<noteq> None) (\<lambda>_ _. True)"
      if "\<not> plan_finished ?p"
    proof (rule start_step [OF en], simp, rule Suc.IH)
      have "1 \<le> pending_count ?p" using that by (simp add: plan_finished_def pending_count_def)
      with Suc.prems(2) [OF p] show "0 < fuel" by (simp add: pending_advanced)
      show "pending_count q < int fuel" if "Some (Doc (MilestonesD ?p)) = Some (Doc (MilestonesD q))" for q
        using that Suc.prems(2) [OF p] pending_advanced [of comp t p] by simp
    qed
    then show "triple (plan_is (Some (Doc (MilestonesD ?p)))) (if plan_finished ?p then returnE (False, Some ())
         else bindE (startNextExecutionMilestone ?execute en request ck ?p) (\<lambda>r. returnE (True, r))) (\<lambda>v _. snd v \<noteq> None) (\<lambda>_ _. True)"
      by (intro triple_if triple_return triple_bind [where R = "\<lambda>r _. r \<noteq> None"]) auto
  qed simp
  have "triple (plan_is x) (bindE (advanceExecutionMilestone ?execute en repo request result lastCallID ck)
      (\<lambda>(advanced, r). if advanced then returnE r else some_unit (en_reviewUntilStable en request result (rc_Phase ck))))
      (\<lambda>r _. r \<noteq> None) (\<lambda>_ _. True)" for result lastCallID ck
    by (rule triple_bind [OF advance]) (auto intro!: triple_return some_unit_any [simplified])
  then show ?case by (intro chain_step en) auto
qed simp

lemma plan_from_advance:
  assumes "plan_from rt repo F ds p'"
  shows "advance (F ExecutionMilestonesStateFile) (Some (Doc (MilestonesD p')))"
proof (cases "F ExecutionMilestonesStateFile")
  case None
  with assms show ?thesis by (auto simp: plan_from_def advance_def consistent_file_def intro: new_plan_ok)
next
  case (Some c)
  with assms show ?thesis
    by (auto simp: plan_from_def advance_def consistent_file_def intro: revised_plan_ok extends_revised)
qed

lemma advances_plan_Revise: "advances_plan (Revise rt repo ds t)"
proof (rule advances_planI)
  fix x
  have tail: "triple (plan_is x) (thenE (bindStoppedCheckpoint rt p) (thenE (SavePlan p) (returnE (revisionResult p)))) (\<lambda>_. reached x) (\<lambda>_. reached x)"
    if "advance x (Some (Doc (MilestonesD p)))" for p
    by (rule keeps_then [OF keeps_milestone_ops(2)], erule plan_is_reached, rule triple_then [OF triple_weaken [OF save_plan [of x]]],
        assumption, assumption, erule plan_is_reached, rule triple_return) (use that in \<open>simp add: plan_is_def reached_def\<close>)
  show "triple (plan_is x) (Revise rt repo ds t) (\<lambda>_. reached x) (\<lambda>_. reached x)"
    unfolding Revise_def
    by (rule triple_bind [OF triple_weaken [OF reads_value_plan [OF prepareRevision_triple]]], assumption, assumption, erule plan_is_reached,
        rule triple_assume, rule tail) (use plan_from_advance in blast)
qed

lemma synced_plan: "plan_ok p \<Longrightarrow> plan_ok (p\<lparr>pl_TaskContractSHA256 := d, pl_UpdatedAt := t\<rparr>) \<and> extends p (p\<lparr>pl_TaskContractSHA256 := d, pl_UpdatedAt := t\<rparr>)"
  by (simp add: plan_ok_def plan_error_None consistent_nth extends_def)

lemma advances_plan_Sync: "advances_plan (SyncTaskContract taskID path previous digest t)"
  unfolding SyncTaskContract_def
proof (rule advances_planI, rule plan_step)
  fix x p assume p: "x = Some (Doc (MilestonesD p))"
  let ?p = "p\<lparr>pl_TaskContractSHA256 := digest, pl_UpdatedAt := t\<rparr>"
  have "triple (plan_is x) (SavePlan ?p) (\<lambda>_. reached x) (\<lambda>_. reached x)"
    by (rule triple_weaken [OF save_plan]) (use p synced_plan in \<open>auto simp: plan_is_def reached_def advance_def consistent_file_def extends_refl\<close>)
  then show "triple (plan_is x) (case Some p of None \<Rightarrow> returnE () | Some p \<Rightarrow>
         if pl_TaskID p \<noteq> taskID \<or> pl_ActiveTaskPath p \<noteq> path then throwE (Errorf ''execution milestone plan does not belong to the synced Task'' [])
         else if pl_TaskContractSHA256 p = digest then returnE ()
         else if pl_TaskContractSHA256 p \<noteq> previous
         then throwE (Errorf ''execution milestone contract is outside the task authority sync lineage'' [])
         else SavePlan (p\<lparr>pl_TaskContractSHA256 := digest, pl_UpdatedAt := t\<rparr>)) (\<lambda>_. reached x) (\<lambda>_. reached x)"
    by (simp, intro impI conjI triple_throw triple_return plan_is_reached)
qed (auto intro: triple_return plan_is_reached)

lemma keeps_preflight [touches_intro]: "keeps_plan (Preflight rt repo input)" "keeps_plan (recordExecutionUnitDisposition u)"
proof -
  have "reads (prepareRevision rt repo ds t)" for ds t
    unfolding prepareRevision_def validateRevisionPlan_def preserveStopped_def by (intro reads_intro)
  then show "keeps_plan (Preflight rt repo input)"
    unfolding Preflight_def HasPending_def ValidateRevision_def by (intro touches_intro touches_reads [of "prepareRevision _ _ _ _"])
  show "keeps_plan (recordExecutionUnitDisposition u)" unfolding recordExecutionUnitDisposition_def by (intro touches_intro)
qed

lemma advances_plan_decision:
  assumes "\<And>d. advances_plan (decide d)" "\<And>d. advances_plan (decideMilestones d)"
  shows "advances_plan (ExecuteDecisionWithExecutionUnitPayload rt repo decodeJSON decide decideMilestones payload)"
  unfolding ExecuteDecisionWithExecutionUnitPayload_def executeMilestoneExecutionUnitDecision_def
  by (intro advances_plan_intro assms advances_plan_Revise) (auto intro!: advances_plan_keep touches_intro)

section \<open>Runs\<close>

definition open_milestones :: "repository \<Rightarrow> MilestoneDefinition list \<Rightarrow> string \<Rightarrow> unit sop" where
  "open_milestones repo definitions activeTaskPath = bindE (of_result (ValidateMilestoneDefinitions definitions))
     (\<lambda>ds. initializeExecutionMilestones repo ds activeTaskPath)"

datatype milestone_op =
    ReviseMilestones "MilestoneDefinition list" int
  | SyncContract string string string string int
  | DecideUnit string
  | WorkerCalls nat string ResumeCheckpoint bool

fun run_milestone ::
    "go_runtime \<Rightarrow> engine \<Rightarrow> (string \<Rightarrow> (state_error, MilestoneDefinition list) result) \<Rightarrow> repository \<Rightarrow> milestone_op \<Rightarrow> unit sop" where
  "run_milestone rt en decodeJSON repo (ReviseMilestones ds t) = thenE (Revise rt repo ds t) (returnE ())"
| "run_milestone rt en decodeJSON repo (SyncContract taskID path previous digest t) = SyncTaskContract taskID path previous digest t"
| "run_milestone rt en decodeJSON repo (DecideUnit payload) =
     ExecuteDecisionWithExecutionUnitPayload rt repo decodeJSON (\<lambda>_. returnE ()) (\<lambda>_. returnE ()) payload"
| "run_milestone rt en decodeJSON repo (WorkerCalls fuel request c poc) =
     thenE (executeExecutionMilestoneWorkerCheckpoint fuel en repo request c poc) (returnE ())"

text \<open>
  A run of these operations and, between them, of any code that leaves the plan file alone; the working tree, the clock
  and the accesses that fail may be others at each step. The flag says whether a new plan was opened on the way.
\<close>

inductive milestone_run ::
    "go_runtime \<Rightarrow> engine \<Rightarrow> (string \<Rightarrow> (state_error, MilestoneDefinition list) result) \<Rightarrow> bool \<Rightarrow> store \<Rightarrow> store \<Rightarrow> bool"
  for rt en decodeJSON where
  start: "milestone_run rt en decodeJSON False st st"
| operate: "milestone_run rt en decodeJSON opened st st1 \<Longrightarrow> run_milestone rt en decodeJSON repo op st1 = (r, st2) \<Longrightarrow>
    milestone_run rt en decodeJSON opened st st2"
| reopen: "milestone_run rt en decodeJSON opened st st1 \<Longrightarrow> open_milestones repo ds path st1 = (r, st2) \<Longrightarrow>
    milestone_run rt en decodeJSON True st st2"
| elsewhere: "milestone_run rt en decodeJSON opened st st1 \<Longrightarrow>
    files st2 ExecutionMilestonesStateFile = files st1 ExecutionMilestonesStateFile \<Longrightarrow> milestone_run rt en decodeJSON opened st st2"

lemma advances_plan_run: "engine_keeps en \<Longrightarrow> advances_plan (run_milestone rt en decodeJSON repo op)"
  by (cases op) (auto intro!: advances_plan_intro advances_plan_Revise advances_plan_Sync advances_plan_chain advances_plan_decision)

lemma advances_plan_step: "advances_plan m \<Longrightarrow> m st = (r, st') \<Longrightarrow> advance (files st ExecutionMilestonesStateFile) (files st' ExecutionMilestonesStateFile)"
  using triple_bothD [of "plan_is (files st ExecutionMilestonesStateFile)" m "reached (files st ExecutionMilestonesStateFile)" st r st']
  by (simp add: advances_plan_def plan_is_def reached_def)

lemma opening_consistent:
  "triple (\<lambda>st. consistent_file (files st ExecutionMilestonesStateFile)) (open_milestones repo ds path)
     (\<lambda>_ st. consistent_file (files st ExecutionMilestonesStateFile)) (\<lambda>_ st. consistent_file (files st ExecutionMilestonesStateFile))"
proof (rule triple_pre)
  fix st :: store assume ok: "consistent_file (files st ExecutionMilestonesStateFile)"
  let ?x = "files st ExecutionMilestonesStateFile" and ?E = "\<lambda>(_ :: state_error) (st :: store). consistent_file (files st ExecutionMilestonesStateFile)"
  let ?Q = "\<lambda>(_ :: unit) (st :: store). consistent_file (files st ExecutionMilestonesStateFile)"
  have E: "plan_is ?x st' \<Longrightarrow> consistent_file (files st' ExecutionMilestonesStateFile)" for st' using ok by (simp add: plan_is_def)
  have tail: "triple (plan_is ?x) (initializeExecutionMilestones repo r path) ?Q ?E" if r: "ValidateMilestoneDefinitions ds = Inr r" for r
    unfolding initializeExecutionMilestones_def
  proof ((rule keeps_step, rule touches_basic, erule E)+, rule triple_then [OF triple_weaken [OF save_plan [of ?x]]], assumption, assumption, erule E)
    fix taskID digest t
    let ?y = "Some (Doc (MilestonesD (NewPlan taskID path digest r t)))"
    have "triple (plan_is ?y) (bindE Now (\<lambda>t. RecordDisposition path ExecutionUnitMilestones t)) (\<lambda>_. plan_is ?y) (\<lambda>_. plan_is ?y)"
      by (rule keeps_triple) (intro touches_intro)
    then show "triple (plan_is ?y) (bindE Now (\<lambda>t. RecordDisposition path ExecutionUnitMilestones t)) ?Q ?E"
      by (rule triple_weaken) (use new_plan_ok [OF r] in \<open>auto simp: plan_is_def consistent_file_def\<close>)
  qed
  have "triple (plan_is ?x) (open_milestones repo ds path) ?Q ?E"
    unfolding open_milestones_def
    by (rule triple_bind [where R = "\<lambda>r st. ValidateMilestoneDefinitions ds = Inr r \<and> plan_is ?x st"], rule triple_of_result)
      (auto intro: triple_assume tail E)
  then show "triple (\<lambda>st'. st' = st) (open_milestones repo ds path) ?Q ?E" by (rule triple_weaken) (auto simp: plan_is_def)
qed

text \<open>
  C7. The plan of a task is consistent in every state that its operations reach, whatever accesses fail: it has two to eight
  milestones with distinct identities, trimmed and within their bounds, an index within them, a completion for each
  milestone before the index and none after it. Unless a new plan is opened, completed milestones are final: the later
  plan belongs to the same task and has them in the same places with the same completions.
\<close>

theorem milestone_plan_invariant:
  assumes run: "milestone_run rt en decodeJSON opened st st'" and en: "engine_keeps en"
    and start: "consistent_file (files st ExecutionMilestonesStateFile)"
  shows "consistent_file (files st' ExecutionMilestonesStateFile) \<and>
     (\<not> opened \<longrightarrow> advance (files st ExecutionMilestonesStateFile) (files st' ExecutionMilestonesStateFile))"
  using run start
proof induction
  case (start st)
  then show ?case by (simp add: advance_refl)
next
  case (operate opened st st1 repo op r st2)
  have "advance (files st1 ExecutionMilestonesStateFile) (files st2 ExecutionMilestonesStateFile)"
    by (rule advances_plan_step [OF advances_plan_run [OF en] operate.hyps(2)])
  with operate show ?case by (auto simp: advance_def [of "files st1 _"] intro: advance_trans)
next
  case (reopen opened st st1 repo ds path r st2)
  with triple_bothD [OF opening_consistent _ reopen.hyps(2)] show ?case by simp
qed auto

section \<open>The chain ends with the review\<close>

lemma pending_bound: "plan_ok p \<Longrightarrow> pending_count p \<le> 8"
  by (auto simp: plan_ok_def pending_count_def plan_error_None ValidateMilestoneDefinitions_iff milestoneMaxCount_def)

text \<open>
  C32. The chain of worker calls ends: from a consistent plan, fuel for nine calls, one more than a plan can have
  milestones, is never used up, whatever the model answers and whatever accesses fail.
\<close>

theorem milestone_chain_ends:
  assumes en: "engine_keeps en" and plan: "consistent_file (files st ExecutionMilestonesStateFile)" and fuel: "9 \<le> fuel"
    and run: "executeExecutionMilestoneWorkerCheckpoint fuel en repo request c poc st = (r, st')"
  shows "r \<noteq> Inr None"
proof -
  have ends: "triple (plan_is (files st ExecutionMilestonesStateFile)) (executeExecutionMilestoneWorkerCheckpoint fuel en repo request c poc)
      (\<lambda>r _. r \<noteq> None) (\<lambda>_ _. True)"
  proof (rule chain_ends [OF en])
    fix p assume "files st ExecutionMilestonesStateFile = Some (Doc (MilestonesD p))"
    with plan have "pending_count p \<le> 8" by (simp add: consistent_file_def pending_bound)
    with fuel show "pending_count p < int fuel" by simp
  qed (use fuel in simp)
  show ?thesis
  proof
    assume "r = Inr None"
    with run have "executeExecutionMilestoneWorkerCheckpoint fuel en repo request c poc st = (Inr None, st')" by simp
    from triple_InrD [OF ends _ this] show False by (simp add: plan_is_def)
  qed
qed

lemma bind_cong:
  assumes "\<And>v st'. m st = (Inr v, st') \<Longrightarrow> k v st' = k' v st'"
  shows "bindE m k st = bindE m k' st"
  using assms by (auto simp: bindE_def split: prod.split sum.split)

lemma not_advanced:
  assumes "advanceExecutionMilestone execute en repo request result lastCallID c st = (Inr (False, r), st')"
  shows "\<exists>p. files st' ExecutionMilestonesStateFile = Some (Doc (MilestonesD p)) \<and> plan_finished p"
proof -
  have "triple (plan_is x) (advanceExecutionMilestone execute en repo request result lastCallID c)
      (\<lambda>v st. \<not> fst v \<longrightarrow> (\<exists>p. files st ExecutionMilestonesStateFile = Some (Doc (MilestonesD p)) \<and> plan_finished p)) (\<lambda>_ _. True)" for x
    by (rule advance_step, rule triple_if, rule triple_return, simp add: plan_is_def, rule triple_bind [OF triple_any], rule triple_return) simp_all
  from triple_InrD [OF this, of "files st ExecutionMilestonesStateFile", OF _ assms] show ?thesis by (simp add: plan_is_def)
qed

text \<open>
  C33. The review of the task waits for the last milestone. What the review does on a directory whose plan still has an open
  milestone makes no difference to the chain of worker calls, because the chain never reaches it there: any two reviews
  that agree once all milestones are complete give the same run, on every store and with every fuel.
\<close>

theorem review_waits_for_milestones:
  assumes agree: "\<And>q r phase st p. files st ExecutionMilestonesStateFile = Some (Doc (MilestonesD p)) \<Longrightarrow> plan_finished p \<Longrightarrow>
      review q r phase st = en_reviewUntilStable en q r phase st"
  shows "executeExecutionMilestoneWorkerCheckpoint fuel (en\<lparr>en_reviewUntilStable := review\<rparr>) repo request c poc =
     executeExecutionMilestoneWorkerCheckpoint fuel en repo request c poc"
proof (induction fuel arbitrary: c poc)
  case (Suc fuel)
  let ?en = "en\<lparr>en_reviewUntilStable := review\<rparr>"
  have execute: "executeExecutionMilestoneWorkerCheckpoint fuel ?en repo request = executeExecutionMilestoneWorkerCheckpoint fuel en repo request"
    by (intro ext) (simp add: Suc)
  have start: "startNextExecutionMilestone e ?en = startNextExecutionMilestone e en" for e
    by (intro ext) (simp add: startNextExecutionMilestone_def newExecutionMilestoneCheckpoint_def)
  have advance: "advanceExecutionMilestone e ?en = advanceExecutionMilestone e en" for e
    by (intro ext) (simp only: advanceExecutionMilestone_def start)
  have accept: "acceptExecutionMilestoneWorkerResult e ?en repo request result lastCallID ck =
      acceptExecutionMilestoneWorkerResult e en repo request result lastCallID ck" for e result lastCallID ck
    unfolding acceptExecutionMilestoneWorkerResult_def thenE_def advance
  proof (intro ext bind_cong)
    fix st' :: store and v st''
    assume run: "advanceExecutionMilestone e en repo request result lastCallID ck st' = (Inr v, st'')"
    have "some_unit (review request result (rc_Phase ck)) st'' = some_unit (en_reviewUntilStable en request result (rc_Phase ck)) st''"
      if "\<not> fst v"
    proof -
      from run that not_advanced [of e en repo request result lastCallID ck st' "snd v" st''] obtain p
        where "files st'' ExecutionMilestonesStateFile = Some (Doc (MilestonesD p))" "plan_finished p"
        by (cases v) auto
      from agree [OF this] show ?thesis by (simp add: some_unit_def thenE_def bindE_def)
    qed
    then show "(case v of (advanced, r) \<Rightarrow> if advanced then returnE r else some_unit (en_reviewUntilStable ?en request result (rc_Phase ck))) st'' =
        (case v of (advanced, r) \<Rightarrow> if advanced then returnE r else some_unit (en_reviewUntilStable en request result (rc_Phase ck))) st''"
      by (cases v) simp
  qed
  show ?case
    unfolding executeExecutionMilestoneWorkerCheckpoint.simps execute handleExecutionMilestoneWorkerResult_def
      stopExecutionMilestoneForDecision_def accept by (simp cong: if_cong split del: if_split)
qed simp

section \<open>A concrete run\<close>

definition sample_engine :: engine where
  "sample_engine = \<lparr>en_gateExternalFeasibility = (\<lambda>_. returnE False), en_workerPrompt = (\<lambda>q path ro n. returnE ''Do''),
     en_runWorker = (\<lambda>c. returnE (empty_Result\<lparr>r_Status := StatusImplemented\<rparr>, ''call'')),
     en_verifyQualitySurfaceBaseline = (\<lambda>_. returnE False), en_savePoCStartSnapshot = returnE False,
     en_verifyPoCEndSnapshot = returnE False, en_routePoCWorkerResult = (\<lambda>_. returnE ()), en_reviewUntilStable = (\<lambda>q r phase. returnE ()),
     en_emitResult = (\<lambda>_. returnE ()), en_WorkerModel = ''glm'', en_RoutineEffort = ''low''\<rparr>"

lemma sample_engine_keeps: "engine_keeps sample_engine"
  by (simp add: engine_keeps_def sample_engine_def touches_basic)

lemma sample_plan_ok: "plan_ok sample_plan"
proof -
  have "plan_error sample_plan = None \<and> executionProgressMilestonesConsistent sample_plan" by code_simp
  moreover have "ValidateMilestoneDefinitions (map mr_MilestoneDefinition (pl_Milestones sample_plan)) =
      Inr (map mr_MilestoneDefinition (pl_Milestones sample_plan))" by code_simp
  ultimately show ?thesis by (simp add: plan_ok_def)
qed

lemma milestone_store_plan: "files (milestone_store status True faults) ExecutionMilestonesStateFile = Some (Doc (MilestonesD sample_plan))"
  by (simp add: milestone_store_def ExecutionMilestonesStateFile_def)

theorem milestone_plan_invariant_witness:
  "\<exists>st' p'. milestone_run sample_runtime sample_engine (\<lambda>_. Inr []) False (milestone_store ''waiting-decision'' True (\<lambda>_. False)) st' \<and>
     files st' ExecutionMilestonesStateFile = Some (Doc (MilestonesD p')) \<and> plan_ok p' \<and> extends sample_plan p'"
proof -
  let ?st = "milestone_store ''waiting-decision'' True (\<lambda>_. False)"
  obtain r st' where run: "run_milestone sample_runtime sample_engine (\<lambda>_. Inr []) sample_repository (ReviseMilestones sample_revision 9) ?st = (r, st')"
    by fastforce
  have steps: "milestone_run sample_runtime sample_engine (\<lambda>_. Inr []) False ?st st'"
    by (rule milestone_run.operate [OF milestone_run.start run])
  have plan: "consistent_file (files ?st ExecutionMilestonesStateFile)"
    using sample_plan_ok by (simp add: milestone_store_plan consistent_file_def)
  from milestone_plan_invariant [OF steps sample_engine_keeps plan] plan steps show ?thesis
    by (auto simp: advance_def consistent_file_def milestone_store_plan)
qed

theorem milestone_chain_ends_witness:
  "fst (executeExecutionMilestoneWorkerCheckpoint 9 sample_engine sample_repository ''r'' zero_checkpoint False
     (milestone_store ''active'' True (\<lambda>n. n = 5))) \<noteq> Inr None"
proof -
  let ?st = "milestone_store ''active'' True (\<lambda>n. n = 5)"
  have "consistent_file (files ?st ExecutionMilestonesStateFile)"
    using sample_plan_ok by (simp add: milestone_store_plan consistent_file_def)
  from milestone_chain_ends [OF sample_engine_keeps this order_refl] show ?thesis by (metis prod.collapse)
qed

theorem review_waits_for_milestones_witness:
  "executeExecutionMilestoneWorkerCheckpoint 9 (sample_engine\<lparr>en_reviewUntilStable := (\<lambda>q r phase st.
       case files st ExecutionMilestonesStateFile of
         Some (Doc (MilestonesD p)) \<Rightarrow> if plan_finished p then returnE () st else throwE (Errorf ''too early'' []) st
       | _ \<Rightarrow> throwE (Errorf ''too early'' []) st)\<rparr>) sample_repository ''r'' zero_checkpoint False =
   executeExecutionMilestoneWorkerCheckpoint 9 sample_engine sample_repository ''r'' zero_checkpoint False"
  by (rule review_waits_for_milestones) (simp add: sample_engine_def)

end
