(* ===== verification/Authority_Sync.thy ===== *)
theory Authority_Sync
  imports Milestone_Flow
begin

text \<open>
  The synchronisation of a running task with a revised task contract (\<^verbatim>\<open>workflow/task_authority_sync.go\<close>). Before the
  contract is revised, the evidence of the attached task is captured; after it, the milestone plan, the runtime binding,
  the stored task authority and the boundary of a stopped checkpoint are brought up to date, one after the other. What the
  controller says of the live attempt and its task, and the two Git captures, are members of the record \<open>sync_view\<close>. The
  theorem shows that an interrupted completion can always be resumed with the same evidence.
\<close>

record TaskAuthoritySyncEvidence =
  se_Runtime :: string
  se_TaskID :: string
  se_Binding :: "ControllerRuntimeBinding option"

record sync_view =
  sv_Exists :: "(state_error, bool) result"
  sv_LiveAttemptID :: "(state_error, string) result"
  sv_ExecutionTask :: "(state_error, string \<times> string) result"
  sv_RepositoryBoundary :: "(state_error, GitSnapshot) result"
  sv_StopDirtyFiles :: "(state_error, StopDirtyFile list) result"
  sv_repository :: repository

definition TaskAuthorityRuntimeAttached :: string where "TaskAuthorityRuntimeAttached = ''attached''"
definition TaskAuthorityRuntimeUnstarted :: string where "TaskAuthorityRuntimeUnstarted = ''unstarted''"

definition verifyTaskAuthoritySyncMilestoneSource :: "string \<Rightarrow> ControllerRuntimeBinding \<Rightarrow> unit sop" where
  "verifyTaskAuthoritySyncMilestoneSource taskID binding = bindE LoadPlan (\<lambda>r. case r of
       None \<Rightarrow> returnE ()
     | Some p \<Rightarrow> if pl_TaskID p \<noteq> taskID \<or> pl_ActiveTaskPath p \<noteq> crb_TaskPath binding \<or>
           pl_TaskContractSHA256 p \<noteq> crb_TaskContractDigest binding
         then throwE (Errorf ''execution milestone authority differs from the task sync source binding'' []) else returnE ())"

definition CaptureTaskAuthoritySyncEvidence :: "TaskAuthoritySyncEvidence sop" where
  "CaptureTaskAuthoritySyncEvidence = bindE (Exists ''task.id'') (\<lambda>started.
     if \<not> started
     then bindE UnstartedTaskRuntime (\<lambda>unstarted.
       if \<not> unstarted then throwE (Errorf ''task identity is missing while retained runtime state exists'' [])
       else returnE \<lparr>se_Runtime = TaskAuthorityRuntimeUnstarted, se_TaskID = [], se_Binding = None\<rparr>)
     else bindE (wrapE ''task authority sync requires an intact runtime binding'' LoadControllerRuntimeBinding) (\<lambda>binding.
       bindE get_TaskStatus (\<lambda>status.
         if \<not> RevisionStatusAllowed status
         then throwE (Errorf ''task authority sync requires an admitted stopped runtime boundary'' [status])
         else bindE TaskID (\<lambda>taskID. thenE (verifyTaskAuthoritySyncMilestoneSource taskID binding)
           (returnE \<lparr>se_Runtime = TaskAuthorityRuntimeAttached, se_TaskID = taskID, se_Binding = Some binding\<rparr>)))))"

definition revisedTaskAuthorityBinding :: "sync_view \<Rightarrow> ControllerRuntimeBinding \<Rightarrow> ControllerRuntimeBinding sop" where
  "revisedTaskAuthorityBinding sv source = bindE (of_result (sv_Exists sv)) (\<lambda>exists.
     if \<not> exists then throwE (Errorf ''task authority sync lacks its controller authority'' [])
     else bindE (of_result (sv_LiveAttemptID sv)) (\<lambda>live. bindE (of_result (sv_ExecutionTask sv)) (\<lambda>(taskPath, contractDigest).
       bindE (of_result (TaskContractDigest (sv_repository sv) taskPath)) (\<lambda>digest.
         if digest \<noteq> contractDigest then throwE (Errorf ''revised Task contract digest differs from its file'' [])
         else if live \<noteq> crb_AttemptID source \<or> taskPath \<noteq> crb_TaskPath source
         then throwE (Errorf ''task authority sync changed runtime Task or attempt'' [])
         else returnE \<lparr>crb_Version = controllerRuntimeBindingVersion, crb_AttemptID = crb_AttemptID source, crb_TaskPath = taskPath,
           crb_RequestID = [], crb_TaskContractDigest = digest\<rparr>))))"

definition taskAuthorityCompletionBinding ::
    "sync_view \<Rightarrow> string \<Rightarrow> ControllerRuntimeBinding \<Rightarrow> (ControllerRuntimeBinding \<times> ControllerRuntimeBinding) sop" where
  "taskAuthorityCompletionBinding sv sourceTask source = bindE LoadControllerRuntimeBinding (\<lambda>binding. bindE TaskID (\<lambda>taskID.
     if sourceTask \<noteq> taskID then throwE (Errorf ''task authority sync changed Task or Attempt binding'' [])
     else bindE (revisedTaskAuthorityBinding sv source) (\<lambda>new_binding.
       if crb_AttemptID binding \<noteq> crb_AttemptID source \<or> crb_TaskPath binding \<noteq> crb_TaskPath source \<or>
          (crb_TaskContractDigest binding \<noteq> crb_TaskContractDigest source \<and> binding \<noteq> new_binding)
       then throwE (Errorf ''task authority sync runtime binding is outside its recovery lineage'' [])
       else returnE (binding, new_binding))))"

definition refreshRetainedTaskAuthorityBoundary :: "go_runtime \<Rightarrow> sync_view \<Rightarrow> unit sop" where
  "refreshRetainedTaskAuthorityBoundary rt sv = bindE (attempt (LoadResumeCheckpoint rt)) (\<lambda>r. case r of
       Inl e \<Rightarrow> if e = NoResumeCheckpoint then returnE () else throwE e
     | Inr c \<Rightarrow> bindE (of_result (sv_RepositoryBoundary sv)) (\<lambda>snapshot. bindE (of_result (sv_StopDirtyFiles sv)) (\<lambda>dirty.
         let c' = (SetStopRepositoryBoundary snapshot c)\<lparr>rc_StopDirtyFiles := dirty\<rparr> in
         if c' = c then returnE () else SaveResumeCheckpoint rt c')))"

definition CompleteTaskAuthoritySync :: "go_runtime \<Rightarrow> sync_view \<Rightarrow> TaskAuthoritySyncEvidence \<Rightarrow> unit sop" where
  "CompleteTaskAuthoritySync rt sv source =
     (if se_Runtime source = TaskAuthorityRuntimeUnstarted then returnE ()
      else case se_Binding source of
        None \<Rightarrow> throwE (Errorf ''task authority sync evidence is incomplete'' [])
      | Some sourceBinding \<Rightarrow>
          if se_Runtime source \<noteq> TaskAuthorityRuntimeAttached then throwE (Errorf ''task authority sync evidence is incomplete'' [])
          else bindE (taskAuthorityCompletionBinding sv (se_TaskID source) sourceBinding) (\<lambda>(binding, new_binding). bindE Now (\<lambda>t.
            thenE (SyncTaskContract (se_TaskID source) (crb_TaskPath new_binding) (crb_TaskContractDigest sourceBinding)
                (crb_TaskContractDigest new_binding) t)
              (thenE (if binding \<noteq> new_binding then SaveControllerRuntimeBinding new_binding else returnE ())
                (bindE (of_result (repo_ReadFile (sv_repository sv) (crb_TaskPath new_binding))) (\<lambda>content.
                  thenE (SaveCurrentTaskAuthority (crb_TaskPath new_binding) content)
                    (refreshRetainedTaskAuthorityBoundary rt sv)))))))"

section \<open>The lineage of a synchronisation\<close>

text \<open>
  Where an interrupted completion may stand: the binding and the contract digest of the plan are each that of the source
  or already the new one. \<open>revision\<close> is the new binding.
\<close>

definition revision :: "ControllerRuntimeBinding \<Rightarrow> string \<Rightarrow> ControllerRuntimeBinding" where
  "revision source digest = \<lparr>crb_Version = controllerRuntimeBindingVersion, crb_AttemptID = crb_AttemptID source,
     crb_TaskPath = crb_TaskPath source, crb_RequestID = [], crb_TaskContractDigest = digest\<rparr>"

definition plan_in_lineage :: "string \<Rightarrow> ControllerRuntimeBinding \<Rightarrow> string \<Rightarrow> doc content option \<Rightarrow> bool" where
  "plan_in_lineage taskID source digest x \<longleftrightarrow> x = None \<or> (\<exists>p. x = Some (Doc (MilestonesD p)) \<and> plan_error p = None \<and>
     pl_TaskID p = taskID \<and> pl_ActiveTaskPath p = crb_TaskPath source \<and>
     pl_TaskContractSHA256 p \<in> {crb_TaskContractDigest source, digest})"

definition in_lineage :: "go_runtime \<Rightarrow> string \<Rightarrow> ControllerRuntimeBinding \<Rightarrow> string \<Rightarrow> filemap \<Rightarrow> bool" where
  "in_lineage rt taskID source digest F \<longleftrightarrow>
     F ''task.id'' \<notin> {None, Some Directory} \<and> task_of F = taskID \<and> taskID \<noteq> [] \<and>
     (\<exists>b\<in>{source, revision source digest}. F controllerRuntimeBindingStateFile = Some (Doc (BindingD b))) \<and>
     plan_in_lineage taskID source digest (F ExecutionMilestonesStateFile) \<and>
     (F resumeStateFile = None \<or> (\<exists>c. checkpoint_in rt F c)) \<and>
     F (TaskAuthorityContentPath taskID) \<noteq> Some Directory \<and> F (TaskAuthorityPathPath taskID) \<noteq> Some Directory"

text \<open>What the controller and the working tree say after the revision.\<close>

definition revised_view :: "sync_view \<Rightarrow> ControllerRuntimeBinding \<Rightarrow> string \<Rightarrow> string \<Rightarrow> bool" where
  "revised_view sv source content digest \<longleftrightarrow> sv_Exists sv = Inr True \<and> sv_LiveAttemptID sv = Inr (crb_AttemptID source) \<and>
     sv_ExecutionTask sv = Inr (crb_TaskPath source, digest) \<and> repo_ReadFile (sv_repository sv) (crb_TaskPath source) = Inr content \<and>
     repo_sha256 (sv_repository sv) content = digest \<and> digest \<noteq> [] \<and> trim_space (crb_TaskPath source) \<noteq> [] \<and>
     (\<exists>s. sv_RepositoryBoundary sv = Inr s) \<and> (\<exists>fs. sv_StopDirtyFiles sv = Inr fs)"

lemma sync_names [simp]:
  "''task.id'' \<noteq> controllerRuntimeBindingStateFile" "resumeStateFile \<noteq> controllerRuntimeBindingStateFile"
  "''task.id'' \<noteq> resumeStateFile" "controllerRuntimeBindingStateFile \<noteq> currentStatsFile"
  by (simp_all add: controllerRuntimeBindingStateFile_def resumeStateFile_def currentStatsFile_def)

lemma authority_names [simp]:
  "n \<in> {''task.id'', controllerRuntimeBindingStateFile, ExecutionMilestonesStateFile, resumeStateFile, currentStatsFile} \<Longrightarrow>
     TaskAuthorityContentPath t \<noteq> n \<and> n \<noteq> TaskAuthorityContentPath t \<and> TaskAuthorityPathPath t \<noteq> n \<and> n \<noteq> TaskAuthorityPathPath t"
  "TaskAuthorityContentPath t \<noteq> TaskAuthorityPathPath t" "TaskAuthorityPathPath t \<noteq> TaskAuthorityContentPath t"
  by (auto simp: TaskAuthorityContentPath_def TaskAuthorityPathPath_def TaskAuthorityDir_def taskAuthorityDir_def
      controllerRuntimeBindingStateFile_def resumeStateFile_def currentStatsFile_def ExecutionMilestonesStateFile_def)

lemmas lineage_names [simp] = sync_names [THEN not_sym] milestone_names [THEN not_sym]
  authority_names(1) [THEN conjunct1] authority_names(1) [THEN conjunct2, THEN conjunct1]
  authority_names(1) [THEN conjunct2, THEN conjunct2, THEN conjunct1] authority_names(1) [THEN conjunct2, THEN conjunct2, THEN conjunct2]

lemma lineage_cong:
  assumes "F ''task.id'' = G ''task.id''" "F controllerRuntimeBindingStateFile = G controllerRuntimeBindingStateFile"
    "F ExecutionMilestonesStateFile = G ExecutionMilestonesStateFile" "F resumeStateFile = G resumeStateFile"
    "F (TaskAuthorityContentPath t) = G (TaskAuthorityContentPath t)" "F (TaskAuthorityPathPath t) = G (TaskAuthorityPathPath t)"
  shows "in_lineage rt t source digest F = in_lineage rt t source digest G"
  using assms by (simp add: in_lineage_def checkpoint_in_def task_of_def)

lemma lineage_state: "state_is F st \<Longrightarrow> in_lineage rt t source digest (files st) = in_lineage rt t source digest F"
  by (rule lineage_cong) (simp_all add: state_is_def)

text \<open>A decoded checkpoint can be saved with another boundary, and what is saved decodes.\<close>

lemma loaded_valid:
  assumes "decode_checkpoint rt d = Inr c"
  shows "saveable rt (c\<lparr>rc_StopGitSnapshot := s, rc_StopDirtyFiles := fs\<rparr>)"
proof -
  let ?c = "cd_checkpoint d"
  have c: "c = ?c\<lparr>rc_ResetAtCST := rateLimitResetAtCST rt (rc_ResetAtRFC3339 ?c)\<rparr>" and model: "rc_Model ?c \<noteq> []" and valid: "validateStopState rt ?c = None"
    using assms by (auto simp: decode_checkpoint_def Let_def split: if_splits option.splits)
  let ?c' = "c\<lparr>rc_StopGitSnapshot := s, rc_StopDirtyFiles := fs\<rparr>"
  have "validateSummaryRecoveryStop rt ?c' = validateSummaryRecoveryStop rt ?c"
    unfolding c by (cases "rc_CompletedResult ?c") (simp_all add: validateSummaryRecoveryStop_def)
  moreover have "validateQualitySurfaceApprovalStop ?c' = validateQualitySurfaceApprovalStop ?c"
    unfolding c by (simp add: validateQualitySurfaceApprovalStop_def checkpoint_IsStopped_def)
  moreover have "validateProviderStopPayload ?c' = validateProviderStopPayload ?c"
    unfolding c by (simp add: validateProviderStopPayload_def)
  moreover have "validateGuardStopPayload ?c' = validateGuardStopPayload ?c"
    unfolding c by (auto simp: validateGuardStopPayload_def Let_def)
  moreover have "validateQualityGateStopPayload ?c' = validateQualityGateStopPayload ?c"
    unfolding c by (simp add: validateQualityGateStopPayload_def)
  moreover have "validateRateLimitStopPayload rt ?c = None \<Longrightarrow> validateRateLimitStopPayload rt ?c' = None"
    unfolding c by (auto simp: validateRateLimitStopPayload_def rateLimitResetAtCST_def split: if_splits)
  moreover have "rc_SummaryRecovered ?c' = rc_SummaryRecovered ?c" "rc_StopKind ?c' = rc_StopKind ?c" "rc_Model ?c' = rc_Model ?c"
    unfolding c by simp_all
  ultimately show ?thesis
    using valid model by (simp add: saveable_def validateStopState_def del: first_err.simps split: if_splits)
qed

lemma saved_decodes:
  assumes "saveable rt c"
  shows "\<exists>d c'. saved_checkpoint c = Doc (CheckpointD d) \<and> decode_checkpoint rt d = Inr c'"
  using assms stop_state_stored [of rt c resumeStateVersion]
  by (simp add: saveable_def saved_checkpoint_def decode_checkpoint_def marshal_checkpoint_def validateResumePersistedKeys_def Let_def)

section \<open>Every step keeps the lineage\<close>

definition syncable :: "sync_view \<Rightarrow> ControllerRuntimeBinding \<Rightarrow> string \<Rightarrow> string \<Rightarrow> bool" where
  "syncable sv source content digest \<longleftrightarrow> revised_view sv source content digest \<and> binding_error source = None"

lemma new_binding_valid: "syncable sv source content digest \<Longrightarrow> binding_error (revision source digest) = None"
  by (auto simp: syncable_def binding_error_def revision_def validateControllerRuntimeBinding_def revised_view_def split: if_splits)

lemma revised_binding: "syncable sv source content digest \<Longrightarrow> revisedTaskAuthorityBinding sv source = returnE (revision source digest)"
  by (simp add: syncable_def revisedTaskAuthorityBinding_def revised_view_def of_result_Inr bindE_return TaskContractDigest_def revision_def)

lemma lineage_binding:
  "syncable sv source content digest \<Longrightarrow> in_lineage rt t source digest F \<Longrightarrow>
   \<exists>b. F controllerRuntimeBindingStateFile = Some (Doc (BindingD b)) \<and> binding_error b = None \<and> b \<in> {source, revision source digest}"
  using new_binding_valid [of sv source content digest] by (auto simp: in_lineage_def syncable_def)

lemma lineage_writes:
  assumes "in_lineage rt taskID source digest F"
  shows "in_lineage rt taskID source digest (F(controllerRuntimeBindingStateFile \<mapsto> Doc (BindingD (revision source digest))))"
    and "in_lineage rt taskID source digest (F(TaskAuthorityContentPath taskID \<mapsto> Text c))"
    and "in_lineage rt taskID source digest (F(TaskAuthorityPathPath taskID \<mapsto> Text c))"
    and "F ExecutionMilestonesStateFile = Some (Doc (MilestonesD p)) \<Longrightarrow>
     in_lineage rt taskID source digest (F(ExecutionMilestonesStateFile \<mapsto> Doc (MilestonesD (p\<lparr>pl_TaskContractSHA256 := digest, pl_UpdatedAt := n\<rparr>))))"
  using assms by (auto simp: in_lineage_def task_of_def checkpoint_in_def plan_in_lineage_def plan_error_None)

lemma lineage_checkpoint:
  assumes "in_lineage rt taskID source digest F" "saveable rt ck"
  shows "in_lineage rt taskID source digest (F(resumeStateFile \<mapsto> saved_checkpoint ck))"
proof -
  have "\<exists>c. checkpoint_in rt (F(resumeStateFile \<mapsto> saved_checkpoint ck)) c"
    using saved_decodes [OF assms(2)] by (auto simp: checkpoint_in_def)
  with assms(1) show ?thesis by (simp add: in_lineage_def task_of_def)
qed

text \<open>\<open>within\<close> is the lineage as an assertion; each step of a completion keeps it, when it fails too.\<close>

definition within :: "go_runtime \<Rightarrow> string \<Rightarrow> ControllerRuntimeBinding \<Rightarrow> string \<Rightarrow> store \<Rightarrow> bool" where
  "within rt taskID source digest st \<longleftrightarrow> in_lineage rt taskID source digest (files st)"

lemma within_triple:
  assumes "\<And>F. in_lineage rt taskID source digest F \<Longrightarrow> triple (state_is F) m
      (\<lambda>v st. \<exists>G. (P v \<and> in_lineage rt taskID source digest G) \<and> state_is G st) (\<lambda>_ st. \<exists>G. in_lineage rt taskID source digest G \<and> state_is G st)"
  shows "triple (within rt taskID source digest) m (\<lambda>v st. P v \<and> within rt taskID source digest st) (\<lambda>_. within rt taskID source digest)"
proof (rule triple_pre)
  fix st assume "within rt taskID source digest st"
  then have "in_lineage rt taskID source digest (files st)" by (simp add: within_def)
  from assms [OF this] show "triple (\<lambda>st'. st' = st) m (\<lambda>v st. P v \<and> within rt taskID source digest st) (\<lambda>_. within rt taskID source digest)"
    by (rule triple_weaken) (auto simp: state_is_self within_def lineage_state)
qed

lemma within_reads: "reads m \<Longrightarrow> triple (within rt taskID source digest) m (\<lambda>_. within rt taskID source digest) (\<lambda>_. within rt taskID source digest)"
  by (rule tripleI) (auto simp: within_def dest: readsD)

lemma within_write:
  assumes "\<And>F. in_lineage rt taskID source digest F \<Longrightarrow> in_lineage rt taskID source digest (F(n \<mapsto> c))"
  shows "triple (within rt taskID source digest) (writeFileAtomic n c) (\<lambda>_. within rt taskID source digest) (\<lambda>_. within rt taskID source digest)"
proof (rule triple_weaken [OF within_triple [where P = "\<lambda>_. True"]])
  fix F assume F: "in_lineage rt taskID source digest F"
  show "triple (state_is F) (writeFileAtomic n c) (\<lambda>v st. \<exists>G. (True \<and> in_lineage rt taskID source digest G) \<and> state_is G st)
      (\<lambda>_ st. \<exists>G. in_lineage rt taskID source digest G \<and> state_is G st)"
    by (rule triple_weaken [OF writeFileAtomic_clean]) (use F assms in auto)
qed auto

lemma within_sync:
  "triple (within rt taskID source digest) (SyncTaskContract taskID (crb_TaskPath source) (crb_TaskContractDigest source) digest t)
     (\<lambda>_. within rt taskID source digest) (\<lambda>_. within rt taskID source digest)"
proof (rule triple_weaken [OF within_triple [where P = "\<lambda>_. True"]])
  fix F assume F: "in_lineage rt taskID source digest F"
  let ?Q = "\<lambda>(_ :: unit) st. \<exists>G. (True \<and> in_lineage rt taskID source digest G) \<and> state_is G st"
  let ?E = "\<lambda>(_ :: state_error) st. \<exists>G. in_lineage rt taskID source digest G \<and> state_is G st"
  have same: "state_is F st \<Longrightarrow> ?E e st" "state_is F st \<Longrightarrow> ?Q v st" for e v st using F by auto
  show "triple (state_is F) (SyncTaskContract taskID (crb_TaskPath source) (crb_TaskContractDigest source) digest t) ?Q ?E"
    unfolding SyncTaskContract_def
  proof (rule triple_bind [OF triple_weaken [OF plan_file.load_triple]], assumption, assumption, erule same, rule triple_assume, rule triple_option)
    show "triple (state_is F) (returnE ()) ?Q ?E" by (rule triple_return) (erule same)
    fix x p assume "holds_document ExecutionMilestonesStateFile MilestonesD plan_error F x" "x = Some p"
    then have p: "F ExecutionMilestonesStateFile = Some (Doc (MilestonesD p))" by (simp add: holds_document_def)
    have "triple (state_is F) (SavePlan (p\<lparr>pl_TaskContractSHA256 := digest, pl_UpdatedAt := t\<rparr>)) ?Q ?E"
      by (rule triple_weaken [OF SavePlan_clean], assumption) (use lineage_writes(4) [OF F p] F in auto)
    then show "triple (state_is F) (if pl_TaskID p \<noteq> taskID \<or> pl_ActiveTaskPath p \<noteq> crb_TaskPath source
         then throwE (Errorf ''execution milestone plan does not belong to the synced Task'' [])
         else if pl_TaskContractSHA256 p = digest then returnE ()
         else if pl_TaskContractSHA256 p \<noteq> crb_TaskContractDigest source
         then throwE (Errorf ''execution milestone contract is outside the task authority sync lineage'' [])
         else SavePlan (p\<lparr>pl_TaskContractSHA256 := digest, pl_UpdatedAt := t\<rparr>)) ?Q ?E"
      by (intro triple_if triple_throw triple_return same)
  qed
qed auto

lemma revision_fields: "crb_TaskPath (revision source digest) = crb_TaskPath source" "crb_TaskContractDigest (revision source digest) = digest"
  by (simp_all add: revision_def)

lemma within_binding:
  "triple (within rt taskID source digest) (SaveControllerRuntimeBinding (revision source digest))
     (\<lambda>_. within rt taskID source digest) (\<lambda>_. within rt taskID source digest)"
proof -
  have "(revision source digest)\<lparr>crb_Version := controllerRuntimeBindingVersion\<rparr> = revision source digest" by (simp add: revision_def)
  then show ?thesis
    unfolding SaveControllerRuntimeBinding_def
    by (intro triple_then [OF within_reads] reads_intro triple_wrap) (simp add: within_write lineage_writes(1))
qed

lemma within_task:
  "triple (within rt taskID source digest) TaskID (\<lambda>t st. t = taskID \<and> within rt taskID source digest st) (\<lambda>_. within rt taskID source digest)"
proof (rule within_triple)
  fix F assume F: "in_lineage rt taskID source digest F"
  show "triple (state_is F) TaskID (\<lambda>t st. \<exists>G. (t = taskID \<and> in_lineage rt taskID source digest G) \<and> state_is G st)
      (\<lambda>_ st. \<exists>G. in_lineage rt taskID source digest G \<and> state_is G st)"
    by (rule triple_weaken [OF TaskID_task]) (use F in \<open>auto simp: in_lineage_def\<close>)
qed

lemma within_authority:
  "triple (within rt taskID source digest) (SaveCurrentTaskAuthority path content) (\<lambda>_. within rt taskID source digest) (\<lambda>_. within rt taskID source digest)"
proof -
  have mkdir: "triple (within rt taskID source digest) (MkdirAll n) (\<lambda>_. within rt taskID source digest) (\<lambda>_. within rt taskID source digest)" for n
    by (rule tripleI) (auto simp: MkdirAll_def AcquireWait_def within_def split: if_splits)
  show ?thesis
    unfolding SaveCurrentTaskAuthority_def
    by (intro triple_if triple_return triple_bind [OF within_task] triple_assume triple_then triple_wrap mkdir)
      (auto intro!: within_write lineage_writes mkdir)
qed

lemma within_refresh:
  "triple (within rt taskID source digest) (refreshRetainedTaskAuthorityBoundary rt sv) (\<lambda>_. within rt taskID source digest) (\<lambda>_. within rt taskID source digest)"
proof (rule triple_weaken [OF within_triple [where P = "\<lambda>_. True"]])
  fix F assume F: "in_lineage rt taskID source digest F"
  let ?Q = "\<lambda>(_ :: unit) st. \<exists>G. (True \<and> in_lineage rt taskID source digest G) \<and> state_is G st"
  let ?E = "\<lambda>(_ :: state_error) st. \<exists>G. in_lineage rt taskID source digest G \<and> state_is G st"
  have same: "state_is F st \<Longrightarrow> ?E e st" "state_is F st \<Longrightarrow> ?Q v st" for e v st using F by auto
  have save: "triple (state_is F) (SaveResumeCheckpoint rt (c\<lparr>rc_StopGitSnapshot := s, rc_StopDirtyFiles := fs\<rparr>)) ?Q ?E"
    if "decode_checkpoint rt d = Inr c" for d c s fs
    by (rule triple_weaken [OF SaveResumeCheckpoint_clean], assumption) (use lineage_checkpoint [OF F loaded_valid [OF that]] F in auto)
  show "triple (state_is F) (refreshRetainedTaskAuthorityBoundary rt sv) ?Q ?E"
    unfolding refreshRetainedTaskAuthorityBoundary_def
  proof (rule triple_bind [OF attempt_checkpoint], rule triple_assume, rule triple_sum, goal_cases)
    case (1 r e) show ?case by (intro triple_if triple_return triple_throw same)
  next
    case (2 r c)
    then obtain d where "decode_checkpoint rt d = Inr c" by auto
    from save [OF this] show ?case
      unfolding Let_def SetStopRepositoryBoundary_def
      by (intro triple_bind [where R = "\<lambda>_. state_is F"] triple_of_result triple_if triple_return same) auto
  qed
qed auto

lemma completion_binding_value:
  assumes "syncable sv source content digest"
  shows "triple (within rt taskID source digest) (taskAuthorityCompletionBinding sv t source)
     (\<lambda>v st. snd v = revision source digest \<and> within rt taskID source digest st) (\<lambda>_. within rt taskID source digest)"
  unfolding taskAuthorityCompletionBinding_def revised_binding [OF assms] bindE_return
  by (intro triple_bind [OF within_reads] reads_intro triple_if triple_throw triple_return) auto

lemma within_complete:
  assumes "syncable sv source content digest"
  shows "triple (within rt taskID source digest)
     (CompleteTaskAuthoritySync rt sv \<lparr>se_Runtime = TaskAuthorityRuntimeAttached, se_TaskID = taskID, se_Binding = Some source\<rparr>)
     (\<lambda>_. within rt taskID source digest) (\<lambda>_. within rt taskID source digest)"
proof -
  let ?W = "within rt taskID source digest"
  have tail: "triple ?W (thenE (SyncTaskContract taskID (crb_TaskPath source) (crb_TaskContractDigest source) digest t)
      (thenE (if b \<noteq> revision source digest then SaveControllerRuntimeBinding (revision source digest) else returnE ())
        (bindE (of_result r) (\<lambda>content. thenE (SaveCurrentTaskAuthority (crb_TaskPath source) content)
           (refreshRetainedTaskAuthorityBoundary rt sv))))) (\<lambda>_. ?W) (\<lambda>_. ?W)" for t b r
    by (rule triple_then [OF within_sync], rule triple_then [where R = ?W], intro triple_if within_binding triple_return, assumption,
        rule triple_bind [OF within_reads], intro reads_intro, rule triple_then [OF within_authority], rule within_refresh)
  have bound: "triple ?W (bindE Now (\<lambda>t. thenE (SyncTaskContract taskID (crb_TaskPath (snd v)) (crb_TaskContractDigest source) (crb_TaskContractDigest (snd v)) t)
      (thenE (if fst v \<noteq> snd v then SaveControllerRuntimeBinding (snd v) else returnE ())
        (bindE (of_result (repo_ReadFile (sv_repository sv) (crb_TaskPath (snd v)))) (\<lambda>content.
          thenE (SaveCurrentTaskAuthority (crb_TaskPath (snd v)) content) (refreshRetainedTaskAuthorityBoundary rt sv)))))) (\<lambda>_. ?W) (\<lambda>_. ?W)"
    if "snd v = revision source digest" for v
    unfolding that by (rule triple_bind [OF within_reads], intro reads_intro) (simp only: revision_fields tail)
  show ?thesis
    unfolding CompleteTaskAuthoritySync_def split_beta
    by (simp add: TaskAuthorityRuntimeAttached_def TaskAuthorityRuntimeUnstarted_def)
      (rule triple_bind [OF completion_binding_value [OF assms]], rule triple_assume, erule bound)
qed

section \<open>A completion without faults returns\<close>

definition plan_synced :: "string \<Rightarrow> filemap \<Rightarrow> bool" where
  "plan_synced digest F \<longleftrightarrow> (\<forall>p. F ExecutionMilestonesStateFile = Some (Doc (MilestonesD p)) \<longrightarrow> pl_TaskContractSHA256 p = digest)"

definition authority_synced :: "string \<Rightarrow> string \<Rightarrow> string \<Rightarrow> filemap \<Rightarrow> bool" where
  "authority_synced taskID path content F \<longleftrightarrow> F (TaskAuthorityContentPath taskID) = Some (Text content) \<and>
     F (TaskAuthorityPathPath taskID) = Some (Text (path @ [CHR 0x0A]))"

definition boundary_synced :: "go_runtime \<Rightarrow> sync_view \<Rightarrow> filemap \<Rightarrow> bool" where
  "boundary_synced rt sv F \<longleftrightarrow> (\<forall>c. checkpoint_in rt F c \<longrightarrow>
     map_option Inr (rc_StopGitSnapshot c) = Some (sv_RepositoryBoundary sv) \<and> Inr (rc_StopDirtyFiles c) = sv_StopDirtyFiles sv)"

lemma attempt_checkpoint_runs:
  "F resumeStateFile = None \<Longrightarrow> triple (calm F) (attempt (LoadResumeCheckpoint rt)) (\<lambda>r st. r = Inl NoResumeCheckpoint \<and> calm F st) never"
  "checkpoint_in rt F c \<Longrightarrow> triple (calm F) (attempt (LoadResumeCheckpoint rt)) (\<lambda>r st. r = Inr c \<and> calm F st) never"
proof (rule_tac [!] triple_pre)
  fix st assume st: "calm F st"
  have file': "files st resumeStateFile = F resumeStateFile" "\<not> fault st (access st)" using st by (simp_all add: calm_files calm_fault)
  show "triple (\<lambda>st'. st' = st) (attempt (LoadResumeCheckpoint rt)) (\<lambda>r st. r = Inl NoResumeCheckpoint \<and> calm F st) never"
    if "F resumeStateFile = None"
    using that file' st by (simp add: triple_def LoadResumeCheckpoint_def attempt_def bindE_def catchE_def throwE_def ReadFile_def)
  show "triple (\<lambda>st'. st' = st) (attempt (LoadResumeCheckpoint rt)) (\<lambda>r st. r = Inr c \<and> calm F st) never"
    if "checkpoint_in rt F c"
    using that file' st
    by (auto simp: checkpoint_in_def triple_def LoadResumeCheckpoint_def attempt_def bindE_def catchE_def of_result_def ReadFile_def)
qed

lemma MkdirAll_runs: "triple (calm F) (MkdirAll n) (\<lambda>_. calm F) never"
  by (rule tripleI) (auto simp: MkdirAll_def AcquireWait_def calm_fault split: if_splits)

lemma Now_runs: "triple (calm F) Now (\<lambda>_. calm F) never"
  by (simp add: triple_def Now_def)

lemma completion_binding_runs:
  assumes ok: "syncable sv source content digest" and F: "in_lineage rt taskID source digest F"
  shows "triple (calm F) (taskAuthorityCompletionBinding sv taskID source)
     (\<lambda>v st. (F controllerRuntimeBindingStateFile = Some (Doc (BindingD (fst v))) \<and> snd v = revision source digest) \<and> calm F st) never"
proof -
  obtain b where b: "F controllerRuntimeBindingStateFile = Some (Doc (BindingD b))" "binding_error b = None" "b \<in> {source, revision source digest}"
    using lineage_binding [OF ok F] by blast
  obtain c where c: "F ''task.id'' = Some c" "c \<noteq> Directory" "trim_space (text_of c) = taskID" "taskID \<noteq> []"
    using F by (auto simp: in_lineage_def task_of_def)
  show ?thesis
    unfolding taskAuthorityCompletionBinding_def revised_binding [OF ok] bindE_return
    by (rule triple_bind [OF binding.load_runs [of F b, OF b(1,2)]], rule triple_assume, rule triple_bind [OF TaskID_runs [of F c taskID, OF c]], rule triple_assume,
        intro triple_if triple_throw triple_return) (use b in \<open>auto simp: revision_def\<close>)
qed

lemma sync_runs:
  assumes F: "in_lineage rt taskID source digest F"
  shows "triple (calm F) (SyncTaskContract taskID (crb_TaskPath source) (crb_TaskContractDigest source) digest t)
     (\<lambda>_ st. \<exists>G. (in_lineage rt taskID source digest G \<and> plan_synced digest G \<and>
        G controllerRuntimeBindingStateFile = F controllerRuntimeBindingStateFile) \<and> calm G st) never"
proof (cases "F ExecutionMilestonesStateFile")
  case None
  then have "plan_file.holds F None" by (simp add: holds_document_def)
  from plan_file.load_runs [OF this] show ?thesis
    unfolding SyncTaskContract_def
    by (rule triple_bind, rule_tac triple_assume) (use None F in \<open>auto simp: plan_synced_def intro!: triple_return\<close>)
next
  case (Some x)
  with F obtain p where p: "F ExecutionMilestonesStateFile = Some (Doc (MilestonesD p))" "plan_error p = None" "pl_TaskID p = taskID"
      "pl_ActiveTaskPath p = crb_TaskPath source" "pl_TaskContractSHA256 p \<in> {crb_TaskContractDigest source, digest}"
    by (auto simp: in_lineage_def plan_in_lineage_def)
  then have "plan_file.holds F (Some p)" by (simp add: holds_document_def)
  let ?p = "p\<lparr>pl_TaskContractSHA256 := digest, pl_UpdatedAt := t\<rparr>"
  let ?Q = "\<lambda>(_ :: unit) st. \<exists>G. (in_lineage rt taskID source digest G \<and> plan_synced digest G \<and>
        G controllerRuntimeBindingStateFile = F controllerRuntimeBindingStateFile) \<and> calm G st"
  have save: "triple (calm F) (SavePlan ?p) ?Q never"
    unfolding SavePlan_def
    by (rule triple_wrap, rule triple_weaken [OF writeFileAtomic_runs])
      (use p(1) lineage_writes(4) [OF F p(1), of t] in
        \<open>auto simp: plan_synced_def intro!: exI [of _ "F(ExecutionMilestonesStateFile \<mapsto> Doc (MilestonesD ?p))"]\<close>)
  have return: "triple (calm F) (returnE ()) ?Q never" if "pl_TaskContractSHA256 p = digest"
    by (rule triple_return) (use p(1) F that in \<open>auto simp: plan_synced_def intro!: exI [of _ F]\<close>)
  have "triple (calm F) (if pl_TaskContractSHA256 p = digest then returnE ()
         else if pl_TaskContractSHA256 p \<noteq> crb_TaskContractDigest source
         then throwE (Errorf ''execution milestone contract is outside the task authority sync lineage'' [])
         else SavePlan ?p) ?Q never"
    by (intro triple_if return save triple_throw) (use p(5) in auto)
  with p(3,4) show ?thesis
    unfolding SyncTaskContract_def
    by (intro triple_bind [OF plan_file.load_runs [OF \<open>plan_file.holds F (Some p)\<close>]] triple_assume) simp
qed

lemma binding_runs:
  assumes ok: "syncable sv source content digest" and F: "in_lineage rt taskID source digest F" "plan_synced digest F"
    and b: "F controllerRuntimeBindingStateFile = Some (Doc (BindingD b))"
  shows "triple (calm F) (if b \<noteq> revision source digest then SaveControllerRuntimeBinding (revision source digest) else returnE ())
     (\<lambda>_ st. \<exists>G. (in_lineage rt taskID source digest G \<and> plan_synced digest G \<and>
        G controllerRuntimeBindingStateFile = Some (Doc (BindingD (revision source digest)))) \<and> calm G st) never"
proof -
  have v: "(revision source digest)\<lparr>crb_Version := controllerRuntimeBindingVersion\<rparr> = revision source digest" by (simp add: revision_def)
  have valid: "validateControllerRuntimeBinding (revision source digest) = None"
    using new_binding_valid [OF ok] by (simp add: binding_error_def revision_def)
  show ?thesis
    unfolding SaveControllerRuntimeBinding_def v valid
    by (rule triple_if, rule triple_then [where R = "calm F"], rule triple_check, simp, simp, rule triple_wrap, rule triple_weaken [OF writeFileAtomic_runs],
        rule sync_names(4)) (use b F lineage_writes(1) [OF F(1)] in \<open>auto simp: plan_synced_def intro!: triple_return\<close>)
qed

lemma authority_runs:
  assumes F: "in_lineage rt taskID source digest F" and path: "path \<noteq> []"
  shows "triple (calm F) (SaveCurrentTaskAuthority path content) (\<lambda>_ st. \<exists>G. (in_lineage rt taskID source digest G \<and>
     authority_synced taskID path content G \<and> G ExecutionMilestonesStateFile = F ExecutionMilestonesStateFile \<and>
     G controllerRuntimeBindingStateFile = F controllerRuntimeBindingStateFile) \<and> calm G st) never"
proof -
  obtain c where c: "F ''task.id'' = Some c" "c \<noteq> Directory" "trim_space (text_of c) = taskID" "taskID \<noteq> []"
    using F by (auto simp: in_lineage_def task_of_def)
  let ?F1 = "F(TaskAuthorityContentPath taskID \<mapsto> Text content)"
  let ?G = "?F1(TaskAuthorityPathPath taskID \<mapsto> Text (path @ [CHR 0x0A]))"
  have G: "in_lineage rt taskID source digest ?G \<and> authority_synced taskID path content ?G \<and>
      ?G ExecutionMilestonesStateFile = F ExecutionMilestonesStateFile \<and> ?G controllerRuntimeBindingStateFile = F controllerRuntimeBindingStateFile"
    using lineage_writes(3) [OF lineage_writes(2) [OF F]] by (simp add: authority_synced_def)
  have writes: "triple (calm F) (writeFileAtomic (TaskAuthorityContentPath taskID) (Text content)) (\<lambda>_. calm ?F1) never"
    "triple (calm ?F1) (writeFileAtomic (TaskAuthorityPathPath taskID) (Text (path @ [CHR 0x0A]))) (\<lambda>_. calm ?G) never"
    using F by (auto intro!: writeFileAtomic_runs simp: in_lineage_def)
  have "triple (calm F) (SaveCurrentTaskAuthority path content) (\<lambda>_. calm ?G) never"
    unfolding SaveCurrentTaskAuthority_def
    by (simp add: path, rule triple_bind [OF TaskID_runs [of F c taskID, OF c]], rule triple_assume, simp,
        rule triple_then [OF triple_wrap [OF MkdirAll_runs]], rule triple_then [OF triple_wrap [OF writes(1)]], rule triple_wrap, rule writes(2))
  then show ?thesis by (rule triple_weaken) (use G in auto)
qed

lemma refresh_runs:
  assumes ok: "syncable sv source content digest" and F: "in_lineage rt taskID source digest F"
  shows "triple (calm F) (refreshRetainedTaskAuthorityBoundary rt sv) (\<lambda>_ st. \<exists>v. boundary_synced rt sv (F(resumeStateFile := v)) \<and>
     calm (F(resumeStateFile := v)) st) never"
proof -
  obtain s fs where view: "sv_RepositoryBoundary sv = Inr s" "sv_StopDirtyFiles sv = Inr fs"
    using ok by (auto simp: syncable_def revised_view_def)
  let ?Q = "\<lambda>(_ :: unit) st. \<exists>v. boundary_synced rt sv (F(resumeStateFile := v)) \<and> calm (F(resumeStateFile := v)) st"
  from F consider "F resumeStateFile = None" | c where "checkpoint_in rt F c" by (auto simp: in_lineage_def)
  then show ?thesis
  proof cases
    case 1
    then have "boundary_synced rt sv (F(resumeStateFile := None))" by (simp add: boundary_synced_def checkpoint_in_def)
    moreover have "F(resumeStateFile := None) = F" using 1 by auto
    ultimately have "triple (calm F) (returnE ()) ?Q never" by (intro triple_return exI [of _ None]) simp
    then show ?thesis
      unfolding refreshRetainedTaskAuthorityBoundary_def
      by (intro triple_bind [OF attempt_checkpoint_runs(1) [of F rt, OF 1]] triple_assume) simp
  next
    case (2 c)
    let ?c = "c\<lparr>rc_StopGitSnapshot := Some s, rc_StopDirtyFiles := fs\<rparr>"
    obtain d where d: "F resumeStateFile = Some (Doc (CheckpointD d))" "decode_checkpoint rt d = Inr c" using 2 by (auto simp: checkpoint_in_def)
    have same: "triple (calm F) (returnE ()) ?Q never" if "?c = c"
    proof (rule triple_return)
      have "rc_StopGitSnapshot c = Some s" "rc_StopDirtyFiles c = fs" by (subst that [symmetric], simp)+
      then have "boundary_synced rt sv F" using 2 view by (auto simp: boundary_synced_def dest: checkpoint_in_unique)
      then show "?Q () st" if "calm F st" for st using that by (intro exI [of _ "F resumeStateFile"]) simp
    qed
    have save: "triple (calm F) (SaveResumeCheckpoint rt ?c) ?Q never"
    proof -
      have valid: "rc_Model ?c \<noteq> []" "validateStopState rt ?c = None" using loaded_valid [OF d(2), of fs "Some s"] unfolding saveable_def by blast+
      have "boundary_synced rt sv (F(resumeStateFile \<mapsto> saved_checkpoint ?c))"
        using view by (auto simp: boundary_synced_def checkpoint_in_def saved_checkpoint_def decode_checkpoint_def marshal_checkpoint_def
            Let_def split: if_splits option.splits)
      moreover have "triple (calm F) (SaveResumeCheckpoint rt ?c) (\<lambda>_. calm (F(resumeStateFile \<mapsto> saved_checkpoint ?c))) never"
        unfolding SaveResumeCheckpoint_def valid(2)
        by (simp only: valid(1) if_False, rule triple_then [where R = "calm F"], rule triple_check, simp, simp, rule triple_wrap)
          (use d(1) in \<open>auto simp: saved_checkpoint_def intro!: writeFileAtomic_runs\<close>)
      ultimately show ?thesis by (elim triple_weaken) auto
    qed
    show ?thesis
      unfolding refreshRetainedTaskAuthorityBoundary_def
      by (intro triple_bind [OF attempt_checkpoint_runs(2) [of rt F c, OF 2]] triple_assume)
        (auto simp: view of_result_Inr bindE_return Let_def SetStopRepositoryBoundary_def intro: same save)
  qed
qed

definition sync_complete :: "go_runtime \<Rightarrow> sync_view \<Rightarrow> string \<Rightarrow> ControllerRuntimeBinding \<Rightarrow> string \<Rightarrow> string \<Rightarrow> filemap \<Rightarrow> bool" where
  "sync_complete rt sv taskID source content digest F \<longleftrightarrow>
     F controllerRuntimeBindingStateFile = Some (Doc (BindingD (revision source digest))) \<and> plan_synced digest F \<and>
     authority_synced taskID (crb_TaskPath source) content F \<and> boundary_synced rt sv F"

abbreviation sync_evidence :: "string \<Rightarrow> ControllerRuntimeBinding \<Rightarrow> TaskAuthoritySyncEvidence" where
  "sync_evidence taskID source \<equiv> \<lparr>se_Runtime = TaskAuthorityRuntimeAttached, se_TaskID = taskID, se_Binding = Some source\<rparr>"

lemma complete_runs:
  assumes ok: "syncable sv source content digest" and F: "in_lineage rt taskID source digest F"
  shows "triple (calm F) (CompleteTaskAuthoritySync rt sv (sync_evidence taskID source))
     (\<lambda>_ st. \<exists>G. sync_complete rt sv taskID source content digest G \<and> calm G st) never"
proof -
  let ?g = "revision source digest"
  have path: "crb_TaskPath source \<noteq> []" and content: "repo_ReadFile (sv_repository sv) (crb_TaskPath source) = Inr content"
    using ok by (auto simp: syncable_def revised_view_def)
  let ?Q = "\<lambda>(_ :: unit) st. \<exists>G. sync_complete rt sv taskID source content digest G \<and> calm G st"
  have last: "triple (calm G) (refreshRetainedTaskAuthorityBoundary rt sv) ?Q never"
    if "in_lineage rt taskID source digest G" "plan_synced digest G" "G controllerRuntimeBindingStateFile = Some (Doc (BindingD ?g))"
      "authority_synced taskID (crb_TaskPath source) content G" for G
  proof (rule triple_weaken [OF refresh_runs [OF ok that(1)]])
    have "sync_complete rt sv taskID source content digest (G(resumeStateFile := v))"
      if "boundary_synced rt sv (G(resumeStateFile := v))" for v
      using that \<open>plan_synced digest G\<close> \<open>authority_synced _ _ _ G\<close> \<open>G controllerRuntimeBindingStateFile = _\<close>
      by (simp add: sync_complete_def plan_synced_def authority_synced_def)
    then show "?Q u st" if "\<exists>v. boundary_synced rt sv (G(resumeStateFile := v)) \<and> calm (G(resumeStateFile := v)) st" for u st
      using that by blast
  qed auto
  have authority: "triple (calm G) (bindE (of_result (repo_ReadFile (sv_repository sv) (crb_TaskPath source))) (\<lambda>content.
      thenE (SaveCurrentTaskAuthority (crb_TaskPath source) content) (refreshRetainedTaskAuthorityBoundary rt sv))) ?Q never"
    if "in_lineage rt taskID source digest G" "plan_synced digest G" "G controllerRuntimeBindingStateFile = Some (Doc (BindingD ?g))" for G
    unfolding content of_result_Inr bindE_return
    by (rule triple_then [OF authority_runs [OF that(1) path]], rule triple_exists_pre, rule triple_assume, rule last)
      (use that in \<open>auto simp: plan_synced_def\<close>)
  have binding: "triple (calm G) (thenE (if b \<noteq> ?g then SaveControllerRuntimeBinding ?g else returnE ())
      (bindE (of_result (repo_ReadFile (sv_repository sv) (crb_TaskPath source))) (\<lambda>content.
      thenE (SaveCurrentTaskAuthority (crb_TaskPath source) content) (refreshRetainedTaskAuthorityBoundary rt sv)))) ?Q never"
    if "in_lineage rt taskID source digest G" "plan_synced digest G" "G controllerRuntimeBindingStateFile = Some (Doc (BindingD b))" for G b
    by (rule triple_then [OF binding_runs [OF ok that]], rule triple_exists_pre, rule triple_assume, rule authority) auto
  have sync: "triple (calm F) (bindE Now (\<lambda>t. thenE (SyncTaskContract taskID (crb_TaskPath (snd v)) (crb_TaskContractDigest source) (crb_TaskContractDigest (snd v)) t)
      (thenE (if fst v \<noteq> snd v then SaveControllerRuntimeBinding (snd v) else returnE ())
        (bindE (of_result (repo_ReadFile (sv_repository sv) (crb_TaskPath (snd v)))) (\<lambda>content.
          thenE (SaveCurrentTaskAuthority (crb_TaskPath (snd v)) content) (refreshRetainedTaskAuthorityBoundary rt sv)))))) ?Q never"
    if "F controllerRuntimeBindingStateFile = Some (Doc (BindingD (fst v))) \<and> snd v = ?g" for v
    unfolding that [THEN conjunct2] revision_fields
    by (rule triple_bind [OF Now_runs], rule triple_then [OF sync_runs [OF F]], rule triple_exists_pre, rule triple_assume, rule binding)
      (use that in auto)
  show ?thesis
    unfolding CompleteTaskAuthoritySync_def split_beta
    by (simp add: TaskAuthorityRuntimeAttached_def TaskAuthorityRuntimeUnstarted_def)
      (rule triple_bind [OF completion_binding_runs [OF ok F]], rule triple_assume, erule sync)
qed

section \<open>A synchronisation can be resumed\<close>

lemma get_TaskStatus_same: "triple (state_is F) get_TaskStatus (\<lambda>_. state_is F) (\<lambda>_. state_is F)"
  by (rule triple_weaken [OF get_TaskStatus_read]) auto

definition captured :: "string \<Rightarrow> ControllerRuntimeBinding \<Rightarrow> filemap \<Rightarrow> bool" where
  "captured taskID source F \<longleftrightarrow> F ''task.id'' \<notin> {None, Some Directory} \<and> task_of F = taskID \<and> taskID \<noteq> [] \<and>
     F controllerRuntimeBindingStateFile = Some (Doc (BindingD source)) \<and> binding_error source = None \<and>
     (\<forall>digest. plan_in_lineage taskID source digest (F ExecutionMilestonesStateFile))"

lemma verify_source_triple:
  "triple (state_is F) (verifyTaskAuthoritySyncMilestoneSource taskID source)
     (\<lambda>_ st. (\<forall>digest. plan_in_lineage taskID source digest (F ExecutionMilestonesStateFile)) \<and> state_is F st) (\<lambda>_. state_is F)"
  unfolding verifyTaskAuthoritySyncMilestoneSource_def
proof (rule triple_bind [OF plan_file.load_triple], rule triple_assume, rule triple_option, goal_cases)
  case (1 x) then show ?case by (intro triple_return) (simp add: holds_document_def plan_in_lineage_def)
next
  case (2 x p) then show ?case by (intro triple_if triple_return triple_throw) (auto simp: holds_document_def plan_in_lineage_def)
qed

lemma reads_unstarted: "reads (lstat_none ns)" "reads UnstartedTaskRuntime"
proof -
  show "reads (lstat_none ns)" for ns by (induction ns) (auto intro!: reads_intro split: sum.split)
  then show "reads UnstartedTaskRuntime" unfolding UnstartedTaskRuntime_def .
qed

lemma capture_evidence:
  "triple (state_is F) CaptureTaskAuthoritySyncEvidence
     (\<lambda>ev st. (\<forall>source. se_Binding ev = Some source \<longrightarrow> ev = sync_evidence (se_TaskID ev) source \<and> captured (se_TaskID ev) source F) \<and> state_is F st)
     (\<lambda>_. state_is F)"
proof -
  let ?Q = "\<lambda>ev st. (\<forall>source. se_Binding ev = Some source \<longrightarrow> ev = sync_evidence (se_TaskID ev) source \<and> captured (se_TaskID ev) source F) \<and> state_is F st"
  have attached: "triple (state_is F) (bindE (wrapE w LoadControllerRuntimeBinding) (\<lambda>binding. bindE get_TaskStatus (\<lambda>status.
      if \<not> RevisionStatusAllowed status then throwE (e status)
      else bindE TaskID (\<lambda>taskID. thenE (verifyTaskAuthoritySyncMilestoneSource taskID binding) (returnE (sync_evidence taskID binding))))))
      ?Q (\<lambda>_. state_is F)" for w e
    by (rule triple_bind [OF triple_wrap [OF binding.load_clean]], rule triple_assume, rule triple_bind [OF get_TaskStatus_same],
        rule triple_if, rule triple_throw, assumption, rule triple_bind [OF TaskID_task], rule triple_assume,
        rule triple_then [OF verify_source_triple], rule triple_assume, rule triple_return) (simp add: captured_def)
  have unstarted: "triple (state_is F) (bindE UnstartedTaskRuntime (\<lambda>unstarted. if \<not> unstarted then throwE e
      else returnE \<lparr>se_Runtime = TaskAuthorityRuntimeUnstarted, se_TaskID = [], se_Binding = None\<rparr>)) ?Q (\<lambda>_. state_is F)" for e
    by (rule triple_bind [OF reads_frame [OF reads_unstarted(2)]]) (intro triple_if triple_throw triple_return, simp_all)
  show ?thesis
    unfolding CaptureTaskAuthoritySyncEvidence_def
    by (rule triple_bind [OF reads_frame [OF reads_identity(2)]], rule triple_if, rule unstarted, rule attached)
qed

inductive sync_attempts :: "go_runtime \<Rightarrow> sync_view \<Rightarrow> TaskAuthoritySyncEvidence \<Rightarrow> store \<Rightarrow> store \<Rightarrow> bool" for rt sv ev st where
  no_attempt: "sync_attempts rt sv ev st st"
| attempted: "sync_attempts rt sv ev st st1 \<Longrightarrow> CompleteTaskAuthoritySync rt sv ev st1 = (r, st2) \<Longrightarrow> sync_attempts rt sv ev st st2"
| restarted: "sync_attempts rt sv ev st st1 \<Longrightarrow> files st2 = files st1 \<Longrightarrow> sync_attempts rt sv ev st st2"

lemma attempts_within:
  assumes "sync_attempts rt sv (sync_evidence taskID source) st st'" "syncable sv source content digest" "within rt taskID source digest st"
  shows "within rt taskID source digest st'"
  using assms(1)
proof induction
  case no_attempt show ?case by (rule assms(3))
next
  case (attempted st1 r st2)
  then show ?case
    using triple_InlD [OF within_complete [OF assms(2)]] triple_InrD [OF within_complete [OF assms(2)]] by (cases r) blast+
next
  case (restarted st1 st2) then show ?case by (simp add: within_def)
qed

text \<open>
  C8. A synchronisation with a revised task contract can be interrupted anywhere and finished. Let \<open>ev\<close> be the evidence
  captured of an attached task whose binding is \<open>source\<close>, and let the controller and the working tree show the revised
  contract, of digest \<open>digest\<close>, for the same attempt and task file. Then, after any sequence of attempts to complete the
  synchronisation, failed at any file access or complete, and of restarts, a further attempt in which no access fails
  succeeds with the same evidence. It leaves the binding with the new digest, the milestone plan with the new digest, the
  stored task authority with the revised text, and a retained checkpoint with the current repository boundary.
\<close>

theorem sync_resumes:
  assumes capture: "CaptureTaskAuthoritySyncEvidence st0 = (Inr ev, st1)" and ev: "se_Binding ev = Some source"
    and view: "revised_view sv source content digest"
    and checkpoint: "files st0 resumeStateFile = None \<or> (\<exists>c. checkpoint_in rt (files st0) c)"
    and "files st0 (TaskAuthorityContentPath (se_TaskID ev)) \<noteq> Some Directory" "files st0 (TaskAuthorityPathPath (se_TaskID ev)) \<noteq> Some Directory"
    and attempts: "sync_attempts rt sv ev st1 st2" and "\<And>n. \<not> fault st2 n"
  shows "\<exists>st3. CompleteTaskAuthoritySync rt sv ev st2 = (Inr (), st3) \<and>
     sync_complete rt sv (se_TaskID ev) source content digest (files st3)"
proof -
  let ?F = "files st0" and ?t = "se_TaskID ev"
  have captured: "ev = sync_evidence ?t source" "captured ?t source ?F" "state_is ?F st1"
    using triple_InrD [OF capture_evidence state_is_self capture] ev by auto
  have ok: "syncable sv source content digest" using captured(2) view by (simp add: syncable_def captured_def)
  have "in_lineage rt ?t source digest ?F" using captured(2) assms(4-6) by (simp add: in_lineage_def captured_def)
  then have start: "within rt ?t source digest st1" using lineage_state [OF captured(3)] by (simp add: within_def)
  have "sync_attempts rt sv (sync_evidence ?t source) st1 st2" using attempts captured(1) by simp
  from attempts_within [OF this ok start] have F: "in_lineage rt ?t source digest (files st2)" by (simp add: within_def)
  have "calm (files st2) st2" using assms(8) by (simp add: calm_def state_is_self)
  from calm_returns [OF complete_runs [OF ok F] this] obtain st3 G where
    run: "CompleteTaskAuthoritySync rt sv (sync_evidence ?t source) st2 = (Inr (), st3)" and
    G: "sync_complete rt sv ?t source content digest G" "calm G st3" by auto
  have "sync_complete rt sv ?t source content digest (files st3)"
    using G by (simp add: sync_complete_def plan_synced_def authority_synced_def boundary_synced_def checkpoint_in_def calm_files)
  with run captured(1) show ?thesis by simp
qed

definition sample_source :: ControllerRuntimeBinding where
  "sample_source = \<lparr>crb_Version = 1, crb_AttemptID = ''a1'', crb_TaskPath = ''tasks/a.md'', crb_RequestID = [],
     crb_TaskContractDigest = rev ''contract''\<rparr>"

definition sample_view :: sync_view where
  "sample_view = \<lparr>sv_Exists = Inr True, sv_LiveAttemptID = Inr ''a1'', sv_ExecutionTask = Inr (''tasks/a.md'', rev ''revised''),
     sv_RepositoryBoundary = repo_snapshot sample_repository, sv_StopDirtyFiles = Inr [],
     sv_repository = sample_repository\<lparr>repo_ReadFile := (\<lambda>_. Inr ''revised'')\<rparr>\<rparr>"

definition sync_store :: store where
  "sync_store = (let st = milestone_store ''waiting-decision'' True (\<lambda>_. False)
     in st\<lparr>files := (files st)(controllerRuntimeBindingStateFile \<mapsto> Doc (BindingD sample_source))\<rparr>)"

definition sample_failure :: store where
  "sample_failure = snd (CompleteTaskAuthoritySync sample_runtime sample_view (sync_evidence ''t1'' sample_source)
     ((snd (CaptureTaskAuthoritySyncEvidence sync_store))\<lparr>fault := \<lambda>n. n = 11\<rparr>))"

lemma sample_failed:
  "isl (fst (CompleteTaskAuthoritySync sample_runtime sample_view (sync_evidence ''t1'' sample_source)
     ((snd (CaptureTaskAuthoritySyncEvidence sync_store))\<lparr>fault := \<lambda>n. n = 11\<rparr>)))"
  by code_simp

lemma sample_captured: "fst (CaptureTaskAuthoritySyncEvidence sync_store) = Inr (sync_evidence ''t1'' sample_source)"
  by code_simp

lemma sample_path: "trim_space ''tasks/a.md'' \<noteq> []"
  by code_simp

lemma sample_revised: "revised_view sample_view sample_source ''revised'' (rev ''revised'')"
  by (simp add: revised_view_def sample_view_def sample_source_def sample_repository_def sample_path)

lemma sample_saveable: "saveable sample_runtime sample_checkpoint"
  by code_simp

theorem sync_resumes_witness:
  "isl (fst (CompleteTaskAuthoritySync sample_runtime sample_view (sync_evidence ''t1'' sample_source)
     ((snd (CaptureTaskAuthoritySyncEvidence sync_store))\<lparr>fault := \<lambda>n. n = 11\<rparr>))) \<and>
   (\<exists>st3. CompleteTaskAuthoritySync sample_runtime sample_view (sync_evidence ''t1'' sample_source) (sample_failure\<lparr>fault := \<lambda>_. False\<rparr>) = (Inr (), st3) \<and>
     sync_complete sample_runtime sample_view ''t1'' sample_source ''revised'' (rev ''revised'') (files st3))"
proof -
  let ?ev = "sync_evidence ''t1'' sample_source" and ?st = "snd (CaptureTaskAuthoritySyncEvidence sync_store)"
  have capture: "CaptureTaskAuthoritySyncEvidence sync_store = (Inr ?ev, ?st)" by (simp flip: sample_captured)
  have "sync_attempts sample_runtime sample_view ?ev ?st (?st\<lparr>fault := \<lambda>n. n = 11\<rparr>)"
    by (rule sync_attempts.restarted [OF sync_attempts.no_attempt]) simp
  then have "sync_attempts sample_runtime sample_view ?ev ?st sample_failure"
    by (rule sync_attempts.attempted) (simp add: sample_failure_def prod_eq_iff)
  then have attempts: "sync_attempts sample_runtime sample_view ?ev ?st (sample_failure\<lparr>fault := \<lambda>_. False\<rparr>)"
    by (rule sync_attempts.restarted) simp
  have "\<exists>c. checkpoint_in sample_runtime (files sync_store) c"
    using saved_decodes [OF sample_saveable] by (auto simp: checkpoint_in_def sync_store_def milestone_store_def Let_def
        resumeStateFile_def controllerRuntimeBindingStateFile_def)
  then have "\<exists>st3. CompleteTaskAuthoritySync sample_runtime sample_view ?ev (sample_failure\<lparr>fault := \<lambda>_. False\<rparr>) = (Inr (), st3) \<and>
     sync_complete sample_runtime sample_view (se_TaskID ?ev) sample_source ''revised'' (rev ''revised'') (files st3)"
    by (intro sync_resumes [OF capture _ sample_revised _ _ _ attempts] disjI2)
      (simp_all add: sync_store_def milestone_store_def Let_def TaskAuthorityContentPath_def TaskAuthorityPathPath_def
        TaskAuthorityDir_def taskAuthorityDir_def controllerRuntimeBindingStateFile_def)
  with sample_failed show ?thesis by simp
qed

end
