(* ===== verification/Task_Document.thy ===== *)
theory Task_Document
  imports File_Store
begin

text \<open>
  Task documents (\<^verbatim>\<open>taskcontract/task.go\<close>, \<^verbatim>\<open>dependencies.go\<close>, \<^verbatim>\<open>execution_authority.go\<close>, \<^verbatim>\<open>machine_acceptance.go\<close>,
  \<^verbatim>\<open>darwin_acceptance.go\<close>) and the goal of a plan (\<^verbatim>\<open>goal.go\<close>). A document is a Markdown text; the code splits it into
  lines, skips what is inside code fences and reads the lines of one section. The loops that skip the fenced lines with
  \<^verbatim>\<open>continue\<close> are loops over \<open>outside\<close>, the list of the other lines. The decoder of the JSON section is an argument.
\<close>

abbreviation line_break :: char where "line_break \<equiv> CHR 0x0A"
abbreviation backtick :: char where "backtick \<equiv> CHR 0x60"

section \<open>Strings\<close>

text \<open>\<^verbatim>\<open>strings.Cut\<close>, \<^verbatim>\<open>strings.Count\<close> of one byte, \<^verbatim>\<open>strings.TrimSuffix\<close> and \<^verbatim>\<open>strings.CutPrefix\<close>.\<close>

fun cut_at :: "string \<Rightarrow> string \<Rightarrow> (string \<times> string) option" where
  "cut_at [] sep = (if sep = [] then Some ([], []) else None)"
| "cut_at (c # cs) sep = (if has_prefix (c # cs) sep then Some ([], drop (length sep) (c # cs))
     else map_option (\<lambda>(a, b). (c # a, b)) (cut_at cs sep))"

definition cut :: "string \<Rightarrow> string \<Rightarrow> string \<times> string \<times> bool" where
  "cut s sep = (case cut_at s sep of None \<Rightarrow> (s, [], False) | Some (a, b) \<Rightarrow> (a, b, True))"

definition count_byte :: "string \<Rightarrow> char \<Rightarrow> nat" where
  "count_byte s c = length (filter (\<lambda>d. d = c) s)"

definition trim_suffix :: "string \<Rightarrow> string \<Rightarrow> string" where
  "trim_suffix s p = (if has_suffix s p then take (length s - length p) s else s)"

definition cut_prefix :: "string \<Rightarrow> string \<Rightarrow> string option" where
  "cut_prefix s p = (if has_prefix s p then Some (drop (length p) s) else None)"

section \<open>Fences and sections\<close>

definition leadingBackticks :: "string \<Rightarrow> nat" where
  "leadingBackticks line = length (takeWhile (\<lambda>c. c = backtick) line)"

text \<open>The line is outside the fences, and the fence after it.\<close>

definition lineOutsideFence :: "string \<Rightarrow> nat \<Rightarrow> bool \<times> nat" where
  "lineOutsideFence line fence =
     (if 0 < fence then (False, if fence \<le> leadingBackticks line then 0 else fence)
      else if 3 \<le> leadingBackticks line then (False, leadingBackticks line)
      else (True, fence))"

fun outside :: "nat \<Rightarrow> string list \<Rightarrow> string list" where
  "outside fence [] = []"
| "outside fence (line # lines) = (case lineOutsideFence line fence of
     (out, fence') \<Rightarrow> if out then line # outside fence' lines else outside fence' lines)"

fun outside_indexed :: "nat \<Rightarrow> nat \<Rightarrow> string list \<Rightarrow> (nat \<times> string) list" where
  "outside_indexed i fence [] = []"
| "outside_indexed i fence (line # lines) = (case lineOutsideFence line fence of
     (out, fence') \<Rightarrow> if out then (i, line) # outside_indexed (Suc i) fence' lines else outside_indexed (Suc i) fence' lines)"

abbreviation heads :: "string \<Rightarrow> bool" where "heads line \<equiv> has_prefix line ''## ''"

definition matching_lines :: "string list \<Rightarrow> string \<Rightarrow> (nat \<times> string) list" where
  "matching_lines lines heading = filter (\<lambda>(i, line). heads line \<and> trim_space line = heading) (outside_indexed 0 0 lines)"

definition findUniqueTaskSection :: "string list \<Rightarrow> string \<Rightarrow> (state_error, nat option) result" where
  "findUniqueTaskSection lines heading = (case matching_lines lines heading of
       [] \<Rightarrow> Inr None
     | [(i, _)] \<Rightarrow> Inr (Some i)
     | ms \<Rightarrow> Inl (Errorf ''section occurs more than once'' [heading, nat_digits (length ms)]))"

text \<open>The lines of the section whose heading stands at an index.\<close>

definition section_lines :: "string list \<Rightarrow> nat \<Rightarrow> string list" where
  "section_lines lines headingAt = takeWhile (\<lambda>line. \<not> heads line) (outside 0 (drop (Suc headingAt) lines))"

abbreviation lines_of :: "string \<Rightarrow> string list" where "lines_of \<equiv> split_on line_break"

section \<open>Task paths\<close>

definition TasksDir :: string where "TasksDir = ''IMPLEMENTATION_TASKS''"

definition ValidateActiveTaskPath :: "string \<Rightarrow> state_error option" where
  "ValidateActiveTaskPath path =
     (if \<not> has_prefix path (TasksDir @ ''/'') then Some (Errorf ''ACTIVE task path must be under the tasks directory'' [path])
      else let rest = trim_prefix path (TasksDir @ ''/'') in
        if rest = [] \<or> contains path [CHR 0x5C] \<or> contains rest ''//''
        then Some (Errorf ''ACTIVE task path violates the placement contract'' [path])
        else if \<not> has_suffix path ''.md'' then Some (Errorf ''ACTIVE task path must name a .md file'' [path])
        else if list_ex (\<lambda>segment. segment = [] \<or> segment = ''.'' \<or> segment = ''..'') (split_on CHR ''/'' rest)
        then Some (Errorf ''ACTIVE task path violates the placement contract'' [path])
        else None)"

section \<open>Dependencies\<close>

record TaskDependencyState =
  td_Outstanding :: "string list"
  td_Fulfilled :: "string list"

record ReviewFindings =
  rf_Present :: bool
  rf_None :: bool

definition TaskDependenciesHeading :: string where "TaskDependenciesHeading = ''## Dependencies''"
definition TaskFulfilledDependenciesHeading :: string where "TaskFulfilledDependenciesHeading = ''## Fulfilled dependencies''"
definition ReviewFindingsHeading :: string where "ReviewFindingsHeading = ''## Review findings''"
definition reviewFindingsNone :: string where "reviewFindingsNone = ''none''"

definition dependencyListItem :: "string \<Rightarrow> string option" where
  "dependencyListItem line = (let trimmed = trim_space line in
     if \<not> has_prefix trimmed ''- '' then None else Some (trim_space (trim_prefix trimmed ''- '')))"

definition dependencyItemPath :: "string \<Rightarrow> (state_error, string option) result" where
  "dependencyItemPath item =
     (if \<not> contains item (TasksDir @ ''/'') then Inr None
      else if count_byte item backtick = 0 then Inr (Some item)
      else if count_byte item backtick = 2 \<and> has_prefix item [backtick] \<and> has_suffix item [backtick]
      then Inr (Some (butlast (tl item)))
      else Inl (Errorf ''dependency item violates the notation of a task path'' [item]))"

fun dependency_paths :: "string list \<Rightarrow> string list \<Rightarrow> (state_error, string list) result" where
  "dependency_paths paths [] = Inr paths"
| "dependency_paths paths (line # lines) = (case dependencyListItem line of
       None \<Rightarrow> dependency_paths paths lines
     | Some item \<Rightarrow> (case dependencyItemPath item of
           Inl e \<Rightarrow> Inl e
         | Inr None \<Rightarrow> dependency_paths paths lines
         | Inr (Some path) \<Rightarrow> (case ValidateActiveTaskPath path of
               Some e \<Rightarrow> Inl e
             | None \<Rightarrow> dependency_paths (if path \<in> set paths then paths else paths @ [path]) lines)))"

definition parseDependencyPaths :: "string list \<Rightarrow> nat \<Rightarrow> (state_error, string list) result" where
  "parseDependencyPaths lines headingAt = dependency_paths [] (section_lines lines headingAt)"

definition parseTaskDependencySection :: "string list \<Rightarrow> string \<Rightarrow> bool \<Rightarrow> (state_error, string list) result" where
  "parseTaskDependencySection lines heading required = (case findUniqueTaskSection lines heading of
       Inl e \<Rightarrow> Inl e
     | Inr None \<Rightarrow> if required then Inl (Errorf ''section is missing'' [heading]) else Inr []
     | Inr (Some headingAt) \<Rightarrow> parseDependencyPaths lines headingAt)"

definition ParseTaskDependencyState :: "string \<Rightarrow> (state_error, TaskDependencyState) result" where
  "ParseTaskDependencyState content = (let lines = lines_of content in
     case parseTaskDependencySection lines TaskDependenciesHeading True of
       Inl e \<Rightarrow> Inl e
     | Inr outstanding \<Rightarrow> (case parseTaskDependencySection lines TaskFulfilledDependenciesHeading False of
           Inl e \<Rightarrow> Inl e
         | Inr fulfilled \<Rightarrow> (case find (\<lambda>path. path \<in> set fulfilled) outstanding of
               Some path \<Rightarrow> Inl (Errorf ''dependency is both outstanding and fulfilled'' [path])
             | None \<Rightarrow> Inr \<lparr>td_Outstanding = outstanding, td_Fulfilled = fulfilled\<rparr>)))"

definition reviewFindingsBody :: "string list \<Rightarrow> nat \<Rightarrow> string" where
  "reviewFindingsBody lines headingAt =
     join_with [line_break] (filter (\<lambda>line. line \<noteq> []) (map trim_space (section_lines lines headingAt)))"

definition ParseReviewFindings :: "string \<Rightarrow> (state_error, ReviewFindings) result" where
  "ParseReviewFindings content = (let lines = lines_of content in
     case findUniqueTaskSection lines ReviewFindingsHeading of
       Inl e \<Rightarrow> Inl e
     | Inr None \<Rightarrow> Inr \<lparr>rf_Present = False, rf_None = True\<rparr>
     | Inr (Some headingAt) \<Rightarrow> (let body = reviewFindingsBody lines headingAt in
         if body = [] \<or> body = reviewFindingsNone
         then Inl (Errorf ''the section of review findings must be left out when there are none'' [])
         else Inr \<lparr>rf_Present = True, rf_None = False\<rparr>))"

section \<open>External feasibility\<close>

datatype FeasibilityRejectKind = FeasibilityRejectMissing | FeasibilityRejectMalformed | FeasibilityRejectUnverified

record FeasibilityError =
  fe_Kind :: FeasibilityRejectKind
  fe_Reason :: "string list"

record ExternalFeasibility =
  ef_Status :: string
  ef_Assumption :: string
  ef_EvidenceSource :: string
  ef_Evidence :: string
  ef_GoDecision :: string

definition ExternalFeasibilityHeading :: string where "ExternalFeasibilityHeading = ''## External feasibility''"
definition StatusNotApplicable :: string where "StatusNotApplicable = ''not-applicable''"
definition StatusPoC :: string where "StatusPoC = ''poc''"
definition StatusObservation :: string where "StatusObservation = ''observation''"
definition StatusImplementation :: string where "StatusImplementation = ''implementation''"
definition evidenceProducer :: string where "evidenceProducer = ''producer''"

definition feasibilityFieldKeys :: "string list" where
  "feasibilityFieldKeys = [''status'', ''assumption'', ''evidence-source'', ''evidence'', ''go'']"

definition feasibilityError :: "FeasibilityRejectKind \<Rightarrow> string list \<Rightarrow> FeasibilityError" where
  "feasibilityError kind reason = \<lparr>fe_Kind = kind, fe_Reason = reason\<rparr>"

definition knownFeasibilityKey :: "string \<Rightarrow> bool" where
  "knownFeasibilityKey key \<longleftrightarrow> list_ex (\<lambda>known. key = known) feasibilityFieldKeys"

definition findFeasibilitySection :: "string list \<Rightarrow> (FeasibilityError, nat) result" where
  "findFeasibilitySection lines = (case matching_lines lines ExternalFeasibilityHeading of
       [] \<Rightarrow> Inl (feasibilityError FeasibilityRejectMissing [''there is no section'', ExternalFeasibilityHeading])
     | [(i, _)] \<Rightarrow> Inr i
     | ms \<Rightarrow> Inl (feasibilityError FeasibilityRejectMalformed [''section occurs more than once'', nat_digits (length ms)]))"

text \<open>A Go map that lacks a key yields the empty string.\<close>

type_synonym field_values = "(string \<times> string) list"

definition field_value :: "field_values \<Rightarrow> string \<Rightarrow> string" where
  "field_value values key = (case map_of values key of None \<Rightarrow> [] | Some v \<Rightarrow> v)"

definition addFeasibilityValue :: "field_values \<Rightarrow> string \<Rightarrow> (FeasibilityError, field_values) result" where
  "addFeasibilityValue values line = (case cut line '':'' of (k, v, ok) \<Rightarrow>
     let key = trim_space k; value = trim_space v in
     if \<not> ok \<or> \<not> knownFeasibilityKey key
     then Inl (feasibilityError FeasibilityRejectMalformed [''line is not of the form key: value'', line])
     else if map_of values key \<noteq> None then Inl (feasibilityError FeasibilityRejectMalformed [''key is duplicated'', key])
     else if value = [] then Inl (feasibilityError FeasibilityRejectMalformed [''value is empty'', key])
     else Inr ((key, value) # values))"

fun feasibility_values :: "field_values \<Rightarrow> string list \<Rightarrow> (FeasibilityError, field_values) result" where
  "feasibility_values values [] = Inr values"
| "feasibility_values values (line # lines) =
     (if trim_space line = [] then feasibility_values values lines
      else case addFeasibilityValue values (trim_space line) of
          Inl e \<Rightarrow> Inl e
        | Inr values' \<Rightarrow> feasibility_values values' lines)"

definition parseFeasibilityValues :: "string list \<Rightarrow> nat \<Rightarrow> (FeasibilityError, field_values) result" where
  "parseFeasibilityValues lines headingAt = feasibility_values [] (section_lines lines headingAt)"

definition validateNotApplicable :: "field_values \<Rightarrow> FeasibilityError option" where
  "validateNotApplicable values = (case find (\<lambda>key. field_value values key \<noteq> []) (tl feasibilityFieldKeys) of
       None \<Rightarrow> None
     | Some key \<Rightarrow> Some (feasibilityError FeasibilityRejectMalformed [''not-applicable allows only the status'', key]))"

definition validateExploration :: "string \<Rightarrow> field_values \<Rightarrow> FeasibilityError option" where
  "validateExploration status values =
     (if field_value values ''assumption'' = []
      then Some (feasibilityError FeasibilityRejectMalformed [status, ''an assumption is required''])
      else case find (\<lambda>key. field_value values key \<noteq> []) [''evidence-source'', ''evidence'', ''go''] of
          None \<Rightarrow> None
        | Some key \<Rightarrow> Some (feasibilityError FeasibilityRejectMalformed [status, ''key is not allowed'', key]))"

definition validateImplementation :: "field_values \<Rightarrow> FeasibilityError option" where
  "validateImplementation values =
     (if field_value values ''assumption'' = []
      then Some (feasibilityError FeasibilityRejectMalformed [''implementation requires an assumption''])
      else if field_value values ''evidence-source'' = [] \<or> field_value values ''evidence'' = [] \<or> field_value values ''go'' = []
      then Some (feasibilityError FeasibilityRejectUnverified [''implementation requires evidence-source, evidence and go''])
      else if field_value values ''evidence-source'' \<noteq> evidenceProducer
      then Some (feasibilityError FeasibilityRejectUnverified [''the evidence must come from the producer''])
      else None)"

definition validateFeasibilityStatus :: "string \<Rightarrow> field_values \<Rightarrow> FeasibilityError option" where
  "validateFeasibilityStatus status values =
     (if status = [] then Some (feasibilityError FeasibilityRejectMalformed [''there is no status''])
      else if status = StatusNotApplicable then validateNotApplicable values
      else if status = StatusPoC \<or> status = StatusObservation then validateExploration status values
      else if status = StatusImplementation then validateImplementation values
      else Some (feasibilityError FeasibilityRejectMalformed [''status is unknown'', status]))"

definition validateFeasibilityFields :: "field_values \<Rightarrow> (FeasibilityError, ExternalFeasibility) result" where
  "validateFeasibilityFields values = (let status = field_value values ''status'' in
     case validateFeasibilityStatus status values of
       Some e \<Rightarrow> Inl e
     | None \<Rightarrow> Inr \<lparr>ef_Status = status, ef_Assumption = field_value values ''assumption'',
         ef_EvidenceSource = field_value values ''evidence-source'', ef_Evidence = field_value values ''evidence'',
         ef_GoDecision = field_value values ''go''\<rparr>)"

definition ParseExternalFeasibility :: "string \<Rightarrow> (FeasibilityError, ExternalFeasibility) result" where
  "ParseExternalFeasibility content = (let lines = lines_of content in
     case findFeasibilitySection lines of
       Inl e \<Rightarrow> Inl e
     | Inr headingAt \<Rightarrow> (case parseFeasibilityValues lines headingAt of
           Inl e \<Rightarrow> Inl e
         | Inr values \<Rightarrow> validateFeasibilityFields values))"

section \<open>Execution authority and acceptance\<close>

record ExecutionAuthority =
  ea_Present :: bool
  ea_Mode :: string

definition ExecutionAuthorityHeading :: string where "ExecutionAuthorityHeading = ''## Execution authority''"
definition ExecutionAuthorityModeParentOnly :: string where "ExecutionAuthorityModeParentOnly = ''parent-only''"
definition ExecutionAuthorityModeGLM :: string where "ExecutionAuthorityModeGLM = ''glm''"

text \<open>The map of the values has at most the key \<^verbatim>\<open>mode\<close>; it is the option of its value.\<close>

fun authority_mode :: "string option \<Rightarrow> string list \<Rightarrow> (state_error, string option) result" where
  "authority_mode mode [] = Inr mode"
| "authority_mode mode (line # lines) =
     (if trim_space line = [] then authority_mode mode lines
      else case cut (trim_space line) '':'' of (k, v, ok) \<Rightarrow>
        if \<not> ok \<or> trim_space k \<noteq> ''mode'' then Inl (Errorf ''line is not of the form mode: value'' [trim_space line])
        else if mode \<noteq> None then Inl (Errorf ''key is duplicated'' [''mode''])
        else if trim_space v = [] then Inl (Errorf ''value is empty'' [''mode''])
        else authority_mode (Some (trim_space v)) lines)"

definition parseExecutionAuthorityValues :: "string list \<Rightarrow> nat \<Rightarrow> (state_error, string option) result" where
  "parseExecutionAuthorityValues lines headingAt = authority_mode None (section_lines lines headingAt)"

definition ParseExecutionAuthority :: "string \<Rightarrow> (state_error, ExecutionAuthority) result" where
  "ParseExecutionAuthority content = (let lines = lines_of content in
     case findUniqueTaskSection lines ExecutionAuthorityHeading of
       Inl e \<Rightarrow> Inl e
     | Inr None \<Rightarrow> Inr \<lparr>ea_Present = False, ea_Mode = []\<rparr>
     | Inr (Some headingAt) \<Rightarrow> (case parseExecutionAuthorityValues lines headingAt of
           Inl e \<Rightarrow> Inl e
         | Inr None \<Rightarrow> Inl (Errorf ''section has no mode'' [ExecutionAuthorityHeading])
         | Inr (Some mode) \<Rightarrow>
             if mode = ExecutionAuthorityModeParentOnly \<or> mode = ExecutionAuthorityModeGLM
             then Inr \<lparr>ea_Present = True, ea_Mode = mode\<rparr>
             else Inl (Errorf ''mode is unknown'' [mode])))"

record MachineAcceptanceRequirement =
  mq_ID :: string
  mq_Fact :: string

record MachineAcceptance =
  ma_Present :: bool
  ma_Requirements :: "MachineAcceptanceRequirement list"

record machineAcceptanceDocument =
  mx_Schema :: string
  mx_Requirements :: "MachineAcceptanceRequirement list"

definition MachineAcceptanceHeading :: string where "MachineAcceptanceHeading = ''## Machine-verifiable acceptance''"
definition MachineAcceptanceSchema :: string where "MachineAcceptanceSchema = ''task-machine-acceptance/v1''"
definition MachineFactFailurePathAdvisoryObserved :: string where
  "MachineFactFailurePathAdvisoryObserved = ''failure-path-advisory-observed''"
definition MachineFactFailurePathAdvisoryShown :: string where
  "MachineFactFailurePathAdvisoryShown = ''failure-path-advisory-shown''"
definition machineAcceptanceMaxRequirements :: nat where "machineAcceptanceMaxRequirements = 16"

text \<open>The pattern \<^verbatim>\<open>^[a-z0-9][a-z0-9._-]{0,63}$\<close>.\<close>

definition id_start :: "char \<Rightarrow> bool" where
  "id_start c \<longleftrightarrow> 97 \<le> byte c \<and> byte c \<le> 122 \<or> 48 \<le> byte c \<and> byte c \<le> 57"

definition machineAcceptanceIDPattern :: "string \<Rightarrow> bool" where
  "machineAcceptanceIDPattern ident = (case ident of
       [] \<Rightarrow> False
     | c # cs \<Rightarrow> id_start c \<and> length cs \<le> 63 \<and> list_all (\<lambda>d. id_start d \<or> d \<in> set ''._-'') cs)"

definition machineAcceptanceFacts :: "string \<Rightarrow> bool" where
  "machineAcceptanceFacts name \<longleftrightarrow> name \<in> {MachineFactFailurePathAdvisoryObserved, MachineFactFailurePathAdvisoryShown}"

definition machineAcceptanceBody :: "string list \<Rightarrow> nat \<Rightarrow> string" where
  "machineAcceptanceBody lines headingAt =
     trim_space (join_with [line_break] (takeWhile (\<lambda>line. \<not> heads line) (drop (Suc headingAt) lines)))"

fun requirements_error :: "string list \<Rightarrow> MachineAcceptanceRequirement list \<Rightarrow> state_error option" where
  "requirements_error seen [] = None"
| "requirements_error seen (r # rs) =
     (if \<not> machineAcceptanceIDPattern (mq_ID r) then Some (Errorf ''id of a requirement is invalid'' [mq_ID r])
      else if mq_ID r \<in> set seen then Some (Errorf ''id of a requirement is duplicated'' [mq_ID r])
      else if \<not> machineAcceptanceFacts (mq_Fact r) then Some (Errorf ''fact of a requirement is unknown'' [mq_Fact r])
      else requirements_error (mq_ID r # seen) rs)"

definition validateMachineAcceptanceDocument :: "machineAcceptanceDocument \<Rightarrow> state_error option" where
  "validateMachineAcceptanceDocument d =
     (if mx_Schema d \<noteq> MachineAcceptanceSchema then Some (Errorf ''schema is invalid'' [mx_Schema d])
      else if mx_Requirements d = [] then Some (Errorf ''requirements are empty'' [])
      else if machineAcceptanceMaxRequirements < length (mx_Requirements d) then Some (Errorf ''too many requirements'' [])
      else requirements_error [] (mx_Requirements d))"

definition ParseMachineAcceptance ::
    "(string \<Rightarrow> (state_error, machineAcceptanceDocument) result) \<Rightarrow> string \<Rightarrow> (state_error, MachineAcceptance) result" where
  "ParseMachineAcceptance decodeMachineAcceptanceDocument content = (let lines = lines_of content in
     case findUniqueTaskSection lines MachineAcceptanceHeading of
       Inl e \<Rightarrow> Inl e
     | Inr None \<Rightarrow> Inr \<lparr>ma_Present = False, ma_Requirements = []\<rparr>
     | Inr (Some headingAt) \<Rightarrow> (let body = machineAcceptanceBody lines headingAt in
         if body = [] then Inl (Errorf ''the JSON of the section is empty'' [])
         else case decodeMachineAcceptanceDocument body of
             Inl e \<Rightarrow> Inl e
           | Inr d \<Rightarrow> (case validateMachineAcceptanceDocument d of
                 Some e \<Rightarrow> Inl e
               | None \<Rightarrow> Inr \<lparr>ma_Present = True, ma_Requirements = mx_Requirements d\<rparr>)))"

definition DarwinAcceptanceHeading :: string where "DarwinAcceptanceHeading = ''## Darwin acceptance''"

fun darwin_tests :: "string list \<Rightarrow> (state_error, string list) result" where
  "darwin_tests [] = Inr []"
| "darwin_tests (line # lines) =
     (if trim_space line = [] then darwin_tests lines
      else case cut_prefix line (''- '' @ [backtick]) of
          None \<Rightarrow> Inl (Errorf ''section requires a list of package:TestName entries'' [])
        | Some entry \<Rightarrow>
            if \<not> has_suffix entry [backtick] then Inl (Errorf ''section requires a list of package:TestName entries'' [])
            else map_sum id (\<lambda>tests. trim_suffix entry [backtick] # tests) (darwin_tests lines))"

definition ParseDarwinAcceptance :: "string \<Rightarrow> (state_error, string list) result" where
  "ParseDarwinAcceptance content = (let lines = lines_of content in
     case findUniqueTaskSection lines DarwinAcceptanceHeading of
       Inl e \<Rightarrow> Inl e
     | Inr None \<Rightarrow> Inr []
     | Inr (Some headingAt) \<Rightarrow>
         (case darwin_tests (takeWhile (\<lambda>line. \<not> heads line) (drop (Suc headingAt) lines)) of
            Inl e \<Rightarrow> Inl e
          | Inr [] \<Rightarrow> Inl (Errorf ''section does not declare a test'' [DarwinAcceptanceHeading])
          | Inr tests \<Rightarrow> Inr tests))"

section \<open>The goal of a plan\<close>

record PlanGoal =
  pg_Present :: bool
  pg_Status :: string

definition PlanGoalHeading :: string where "PlanGoalHeading = ''## GOAL''"
definition GoalStatusActive :: string where "GoalStatusActive = ''active''"
definition GoalStatusCompleted :: string where "GoalStatusCompleted = ''completed''"
definition goalStatusKey :: string where "goalStatusKey = ''status''"
definition goalStatusValues :: "string list" where "goalStatusValues = [GoalStatusActive, GoalStatusCompleted]"

definition knownGoalStatus :: "string \<Rightarrow> bool" where
  "knownGoalStatus value \<longleftrightarrow> list_ex (\<lambda>known. value = known) goalStatusValues"

definition findGoalSection :: "string list \<Rightarrow> (state_error, nat option) result" where
  "findGoalSection lines = (case matching_lines lines PlanGoalHeading of
       [] \<Rightarrow> Inr None
     | [(i, _)] \<Rightarrow> Inr (Some i)
     | ms \<Rightarrow> Inl (Errorf ''GOAL section occurs more than once'' [nat_digits (length ms)]))"

fun goal_status :: "string option \<Rightarrow> string list \<Rightarrow> (state_error, string) result" where
  "goal_status status [] = (case status of
       None \<Rightarrow> Inl (Errorf ''GOAL section has no status line'' [])
     | Some s \<Rightarrow> Inr s)"
| "goal_status status (line # lines) = (let trimmed = trim_space line in
     if trimmed = [] \<or> has_prefix trimmed ''-'' then goal_status status lines
     else case cut trimmed '':'' of (k, v, _) \<Rightarrow>
       if trim_space k \<noteq> goalStatusKey then goal_status status lines
       else if status \<noteq> None then Inl (Errorf ''GOAL section has more than one status'' [])
       else if \<not> knownGoalStatus (trim_space v) then Inl (Errorf ''status of the GOAL section is unknown'' [trim_space v])
       else goal_status (Some (trim_space v)) lines)"

definition parseGoalStatus :: "string list \<Rightarrow> nat \<Rightarrow> (state_error, string) result" where
  "parseGoalStatus lines headingAt = goal_status None (section_lines lines headingAt)"

definition ParsePlanGoal :: "string \<Rightarrow> (state_error, PlanGoal) result" where
  "ParsePlanGoal planContent = (let lines = lines_of planContent in
     case findGoalSection lines of
       Inl e \<Rightarrow> Inl e
     | Inr None \<Rightarrow> Inr \<lparr>pg_Present = False, pg_Status = []\<rparr>
     | Inr (Some headingAt) \<Rightarrow> map_sum id (\<lambda>s. \<lparr>pg_Present = True, pg_Status = s\<rparr>) (parseGoalStatus lines headingAt))"

end
