(* ===== verification/Plan_Schedule.thy ===== *)
theory Plan_Schedule
  imports Task_Document
begin

text \<open>
  The schedule of a plan (\<^verbatim>\<open>taskcontract/schedule.go\<close>) and its closure over the task files of the repository
  (\<^verbatim>\<open>taskcontract/corpus.go\<close>). Walking the directory of the task files is outside; its result is the list of entries. The
  theorem shows that a plan without closure failures schedules exactly the task files, each once.
\<close>

section \<open>The schedule\<close>

datatype planScheduleSection = planScheduleActive | planScheduleNext | planScheduleBlocked

fun section_name :: "planScheduleSection \<Rightarrow> string" where
  "section_name planScheduleActive = ''ACTIVE''"
| "section_name planScheduleNext = ''NEXT''"
| "section_name planScheduleBlocked = ''BLOCKED''"

record PlanSchedule =
  ps_Active :: "string list"
  ps_Next :: "string list"
  ps_Blocked :: "string list"
  ps_activeErr :: "state_error option"
  ps_nextErr :: "state_error option"
  ps_blockedErr :: "state_error option"

definition scheduleHeadingMatches :: "planScheduleSection \<Rightarrow> string \<Rightarrow> bool" where
  "scheduleHeadingMatches section heading =
     (if section = planScheduleActive then heading = section_name section else has_prefix heading (section_name section))"

definition scheduleEntryPath :: "planScheduleSection \<Rightarrow> string \<Rightarrow> (state_error, string) result" where
  "scheduleEntryPath section item =
     (let refused = Inl (Errorf ''item violates the bullet syntax of the schedule'' [section_name section, item]) in
      if count_byte item backtick = 0 then (if \<not> contains_any item ''[]()'' then Inr item else refused)
      else if count_byte item backtick = 2 then
        if has_prefix item [backtick] \<and> has_suffix item [backtick] then Inr (butlast (tl item))
        else if has_prefix item [CHR ''['', backtick] then
          (case cut (drop 2 item) [backtick, CHR '']'', CHR ''(''] of (label, destination, ok) \<Rightarrow>
             if ok \<and> destination = label @ '')'' then Inr label else refused)
        else refused
      else refused)"

definition heading_text :: "string \<Rightarrow> string" where
  "heading_text line = trim_space (trim_prefix line ''## '')"

text \<open>The loop over the lines, with its flag \<^verbatim>\<open>inSection\<close>.\<close>

fun section_entries :: "planScheduleSection \<Rightarrow> bool \<Rightarrow> string list \<Rightarrow> (state_error, string list) result" where
  "section_entries section inSection [] = Inr []"
| "section_entries section inSection (line # lines) =
     (if heads line then
        if inSection then Inr [] else section_entries section (scheduleHeadingMatches section (heading_text line)) lines
      else if \<not> inSection then section_entries section inSection lines
      else if trim_space line = [] then section_entries section inSection lines
      else if \<not> has_prefix (trim_space line) ''- ''
      then Inl (Errorf ''line violates the list notation of the schedule'' [section_name section, trim_space line])
      else case scheduleEntryPath section (trim_space (trim_prefix (trim_space line) ''- '')) of
          Inl e \<Rightarrow> Inl e
        | Inr path \<Rightarrow> map_sum id (\<lambda>entries. path # entries) (section_entries section inSection lines))"

definition parsePlanScheduleSection :: "string \<Rightarrow> planScheduleSection \<Rightarrow> (state_error, string list) result" where
  "parsePlanScheduleSection planContent section = section_entries section False (lines_of planContent)"

definition entries_of :: "(state_error, string list) result \<Rightarrow> string list" where
  "entries_of r = (case r of Inl _ \<Rightarrow> [] | Inr entries \<Rightarrow> entries)"

definition error_in :: "(state_error, string list) result \<Rightarrow> state_error option" where
  "error_in r = (case r of Inl e \<Rightarrow> Some e | Inr _ \<Rightarrow> None)"

definition ParsePlanSchedule :: "string \<Rightarrow> PlanSchedule" where
  "ParsePlanSchedule planContent =
     (let active = parsePlanScheduleSection planContent planScheduleActive;
          next_entries = parsePlanScheduleSection planContent planScheduleNext;
          blocked = parsePlanScheduleSection planContent planScheduleBlocked
      in \<lparr>ps_Active = entries_of active, ps_Next = entries_of next_entries, ps_Blocked = entries_of blocked,
          ps_activeErr = error_in active, ps_nextErr = error_in next_entries, ps_blockedErr = error_in blocked\<rparr>)"

definition ActiveEntries :: "PlanSchedule \<Rightarrow> (state_error, string list) result" where
  "ActiveEntries s = (case ps_activeErr s of Some e \<Rightarrow> Inl e | None \<Rightarrow> Inr (ps_Active s))"

definition NonActiveEntries :: "PlanSchedule \<Rightarrow> (state_error, string list \<times> string list) result" where
  "NonActiveEntries s = (case first_err [ps_nextErr s, ps_blockedErr s] of
     Some e \<Rightarrow> Inl e | None \<Rightarrow> Inr (ps_Next s, ps_Blocked s))"

definition ActiveTask :: "PlanSchedule \<Rightarrow> (state_error, string) result" where
  "ActiveTask s = (case ps_activeErr s of
       Some e \<Rightarrow> Inl e
     | None \<Rightarrow> (case ps_Active s of
           [] \<Rightarrow> Inl (Errorf ''the plan has no ACTIVE task file'' [])
         | [path] \<Rightarrow> (case ValidateActiveTaskPath path of Some e \<Rightarrow> Inl e | None \<Rightarrow> Inr path)
         | _ \<Rightarrow> Inl (Errorf ''the ACTIVE task file is not unique'' [nat_digits (length (ps_Active s))])))"

definition containsSchedulePath :: "string list \<Rightarrow> string \<Rightarrow> bool" where
  "containsSchedulePath entries path \<longleftrightarrow> list_ex (\<lambda>entry. entry = path) entries"

definition ValidateComplete :: "PlanSchedule \<Rightarrow> (state_error, string) result" where
  "ValidateComplete s = (case ActiveTask s of
       Inl e \<Rightarrow> Inl e
     | Inr active \<Rightarrow> (case first_err ([ps_nextErr s, ps_blockedErr s] @ map ValidateActiveTaskPath (ps_Next s @ ps_Blocked s)) of
           Some e \<Rightarrow> Inl e
         | None \<Rightarrow>
             if containsSchedulePath (ps_Next s) active \<or> containsSchedulePath (ps_Blocked s) active
             then Inl (Errorf ''ACTIVE task file is repeated in NEXT or BLOCKED'' [active])
             else Inr active))"

section \<open>The closure of the schedule\<close>

record TaskCorpusEntry =
  ce_Path :: string
  ce_Regular :: bool

record ScheduleClosureFailure =
  cf_Kind :: string
  cf_Path :: string
  cf_Reason :: "string list"

definition ScheduleClosureScheduleParse :: string where "ScheduleClosureScheduleParse = ''schedule-parse''"
definition ScheduleClosureInvalidTaskPath :: string where "ScheduleClosureInvalidTaskPath = ''invalid-task-path''"
definition ScheduleClosureDuplicateEntry :: string where "ScheduleClosureDuplicateEntry = ''duplicate-schedule-entry''"
definition ScheduleClosureMissingTask :: string where "ScheduleClosureMissingTask = ''missing-task''"
definition ScheduleClosureNonRegularTask :: string where "ScheduleClosureNonRegularTask = ''non-regular-task''"
definition ScheduleClosureUnscheduledTask :: string where "ScheduleClosureUnscheduledTask = ''unscheduled-task''"

definition schedule_parseError :: "PlanSchedule \<Rightarrow> state_error option" where
  "schedule_parseError s = first_err [ps_activeErr s, ps_nextErr s, ps_blockedErr s]"

abbreviation scheduled :: "PlanSchedule \<Rightarrow> string list" where
  "scheduled s \<equiv> ps_Active s @ ps_Next s @ ps_Blocked s"

text \<open>The map from paths to the number of their entries.\<close>

definition scheduleEntryCounts :: "PlanSchedule \<Rightarrow> string \<Rightarrow> nat" where
  "scheduleEntryCounts s path = count_list (scheduled s) path"

definition corpus_of :: "TaskCorpusEntry list \<Rightarrow> string \<Rightarrow> bool option" where
  "corpus_of entries = map_of (rev (map (\<lambda>entry. (ce_Path entry, ce_Regular entry)) entries))"

definition path_failures :: "PlanSchedule \<Rightarrow> TaskCorpusEntry list \<Rightarrow> string \<Rightarrow> ScheduleClosureFailure list" where
  "path_failures s entries path =
     (if ValidateActiveTaskPath path \<noteq> None
      then [\<lparr>cf_Kind = ScheduleClosureInvalidTaskPath, cf_Path = path, cf_Reason = [''schedule entry violates the placement contract'', path]\<rparr>]
      else (if 1 < scheduleEntryCounts s path
          then [\<lparr>cf_Kind = ScheduleClosureDuplicateEntry, cf_Path = path, cf_Reason =
            [''task is scheduled more than once'', path, nat_digits (scheduleEntryCounts s path)]\<rparr>] else []) @
        (case corpus_of entries path of
           None \<Rightarrow> [\<lparr>cf_Kind = ScheduleClosureMissingTask, cf_Path = path, cf_Reason = [''schedule entry has no task file'', path]\<rparr>]
         | Some False \<Rightarrow> [\<lparr>cf_Kind = ScheduleClosureNonRegularTask, cf_Path = path, cf_Reason = [''task is not a regular file'', path]\<rparr>]
         | Some True \<Rightarrow> []))"

definition scheduledClosureFailures :: "PlanSchedule \<Rightarrow> TaskCorpusEntry list \<Rightarrow> ScheduleClosureFailure list" where
  "scheduledClosureFailures s entries = concat (map (path_failures s entries) (sort (remdups (scheduled s))))"

definition unscheduledClosureFailures :: "PlanSchedule \<Rightarrow> TaskCorpusEntry list \<Rightarrow> ScheduleClosureFailure list" where
  "unscheduledClosureFailures s entries =
     map (\<lambda>entry. if \<not> ce_Regular entry
         then \<lparr>cf_Kind = ScheduleClosureNonRegularTask, cf_Path = ce_Path entry, cf_Reason = [''task is not a regular file'', ce_Path entry]\<rparr>
         else \<lparr>cf_Kind = ScheduleClosureUnscheduledTask, cf_Path = ce_Path entry, cf_Reason = [''task is not scheduled'', ce_Path entry]\<rparr>)
       (filter (\<lambda>entry. scheduleEntryCounts s (ce_Path entry) = 0) entries)"

definition ClosureFailures :: "PlanSchedule \<Rightarrow> TaskCorpusEntry list \<Rightarrow> ScheduleClosureFailure list" where
  "ClosureFailures s entries = (case schedule_parseError s of
       Some e \<Rightarrow> [\<lparr>cf_Kind = ScheduleClosureScheduleParse, cf_Path = [], cf_Reason = [''the schedule cannot be parsed'']\<rparr>]
     | None \<Rightarrow> sort_key (\<lambda>f. [cf_Path f, cf_Kind f])
         (scheduledClosureFailures s entries @ unscheduledClosureFailures s entries))"

section \<open>A closed schedule\<close>

lemma count_zero: "scheduleEntryCounts s path = 0 \<longleftrightarrow> path \<notin> set (scheduled s)"
  by (simp add: scheduleEntryCounts_def count_list_0_iff)

lemma count_once: "(\<forall>path\<in>set xs. count_list xs path \<le> 1) \<longleftrightarrow> distinct xs"
proof (induction xs)
  case (Cons x xs)
  have "count_list xs x = 0 \<longleftrightarrow> x \<notin> set xs" by (rule count_list_0_iff)
  moreover have "count_list (x # xs) y = count_list xs y" if "y \<in> set xs" "x \<notin> set xs" for y using that by auto
  ultimately show ?case using Cons by (auto simp: le_Suc_eq)
qed simp

definition closed :: "PlanSchedule \<Rightarrow> TaskCorpusEntry list \<Rightarrow> bool" where
  "closed s entries \<longleftrightarrow> schedule_parseError s = None \<and> distinct (scheduled s) \<and>
     (\<forall>path\<in>set (scheduled s). ValidateActiveTaskPath path = None) \<and>
     set (scheduled s) = ce_Path ` set entries \<and> (\<forall>entry\<in>set entries. ce_Regular entry)"

lemma corpus_entry:
  "distinct (map ce_Path entries) \<Longrightarrow> corpus_of entries path = Some regular \<longleftrightarrow>
     (\<exists>entry\<in>set entries. ce_Path entry = path \<and> ce_Regular entry = regular)"
  unfolding corpus_of_def by (subst map_of_eq_Some_iff) (auto simp: rev_map [symmetric] comp_def)

lemma corpus_missing: "corpus_of entries path = None \<longleftrightarrow> path \<notin> ce_Path ` set entries"
  unfolding corpus_of_def by (subst map_of_eq_None_iff) force

lemma path_closed:
  assumes "distinct (map ce_Path entries)"
  shows "path_failures s entries path = [] \<longleftrightarrow> ValidateActiveTaskPath path = None \<and> scheduleEntryCounts s path \<le> 1 \<and>
     (\<exists>entry\<in>set entries. ce_Path entry = path \<and> ce_Regular entry)"
  using corpus_entry [OF assms, of path True]
  by (auto simp: path_failures_def split: option.splits bool.splits)

lemma closure_iff:
  assumes "distinct (map ce_Path entries)"
  shows "ClosureFailures s entries = [] \<longleftrightarrow> closed s entries"
proof -
  have all: "concat (map f xs) = [] \<longleftrightarrow> (\<forall>x\<in>set xs. f x = [])" for f :: "'a \<Rightarrow> 'b list" and xs by auto
  have once: "(\<forall>path\<in>set (scheduled s). scheduleEntryCounts s path \<le> 1) \<longleftrightarrow> distinct (scheduled s)"
    unfolding scheduleEntryCounts_def by (rule count_once)
  have none: "sort_key f xs = [] \<longleftrightarrow> xs = []" for f :: "ScheduleClosureFailure \<Rightarrow> string list" and xs
    by (metis length_0_conv length_sort)
  have "scheduledClosureFailures s entries = [] \<longleftrightarrow> (\<forall>path\<in>set (scheduled s). ValidateActiveTaskPath path = None) \<and>
      distinct (scheduled s) \<and> (\<forall>path\<in>set (scheduled s). \<exists>entry\<in>set entries. ce_Path entry = path \<and> ce_Regular entry)"
    unfolding scheduledClosureFailures_def all path_closed [OF assms] once [symmetric] by auto
  moreover have "unscheduledClosureFailures s entries = [] \<longleftrightarrow> (\<forall>entry\<in>set entries. ce_Path entry \<in> set (scheduled s))"
    by (simp add: unscheduledClosureFailures_def filter_empty_conv count_zero del: set_append)
  moreover have "(\<forall>path\<in>S. \<exists>entry\<in>set entries. ce_Path entry = path \<and> ce_Regular entry) \<and> (\<forall>entry\<in>set entries. ce_Path entry \<in> S) \<longleftrightarrow>
      S = ce_Path ` set entries \<and> (\<forall>entry\<in>set entries. ce_Regular entry)" for S
  proof -
    have "ce_Regular entry" if "entry \<in> set entries" "entry' \<in> set entries" "ce_Path entry' = ce_Path entry" "ce_Regular entry'" for entry entry'
      using that assms by (metis distinct_map inj_onD)
    then show ?thesis by fast
  qed
  ultimately have "scheduledClosureFailures s entries @ unscheduledClosureFailures s entries = [] \<longleftrightarrow> distinct (scheduled s) \<and>
      (\<forall>path\<in>set (scheduled s). ValidateActiveTaskPath path = None) \<and> set (scheduled s) = ce_Path ` set entries \<and>
      (\<forall>entry\<in>set entries. ce_Regular entry)"
    unfolding append_is_Nil_conv by meson
  then show ?thesis
    unfolding ClosureFailures_def closed_def by (cases "schedule_parseError s") (simp_all only: none option.case simp_thms, simp)
qed

text \<open>
  C37. The closure check of a plan is exact: it reports no failure exactly when the schedule parses, its entries are
  valid task paths without repetition, and they are exactly the task files of the repository, all of them regular files.
\<close>

theorem closure_exact:
  assumes "distinct (map ce_Path entries)"
  shows "ClosureFailures s entries = [] \<longleftrightarrow> closed s entries"
  using assms by (rule closure_iff)


definition closed_plan :: string where
  "closed_plan = join_with [line_break] [''## ACTIVE'', ''- IMPLEMENTATION_TASKS/a.md'', ''## NEXT'', ''- IMPLEMENTATION_TASKS/b.md'']"

theorem closure_exact_witness:
  "let entries = [\<lparr>ce_Path = ''IMPLEMENTATION_TASKS/a.md'', ce_Regular = True\<rparr>, \<lparr>ce_Path = ''IMPLEMENTATION_TASKS/b.md'', ce_Regular = True\<rparr>];
       s = ParsePlanSchedule closed_plan
   in distinct (map ce_Path entries) \<and> closed s entries \<and> ClosureFailures s entries = []"
proof -
  let ?e = "[\<lparr>ce_Path = ''IMPLEMENTATION_TASKS/a.md'', ce_Regular = True\<rparr>, \<lparr>ce_Path = ''IMPLEMENTATION_TASKS/b.md'', ce_Regular = True\<rparr>]"
  have distinct: "distinct (map ce_Path ?e)" by simp
  have "closed (ParsePlanSchedule closed_plan) ?e" by code_simp
  with distinct closure_exact [OF distinct, of "ParsePlanSchedule closed_plan"] show ?thesis by (simp only: Let_def)
qed

end
