(* ===== verification/Task_Retirement.thy ===== *)
theory Task_Retirement
  imports Plan_Schedule
begin

text \<open>
  Retiring a finished task from the dependencies of another task document (\<^verbatim>\<open>taskcontract/retirement.go\<close>): the entry moves
  to the fulfilled dependencies. The code edits the text line by line; the theorem states what the edited text parses to.
\<close>

section \<open>Dependencies of a task document\<close>

definition retirementSectionEnd :: "string list \<Rightarrow> nat \<Rightarrow> nat" where
  "retirementSectionEnd lines start = Suc start + length (takeWhile (\<lambda>line. \<not> heads line) (drop (Suc start) lines))"

fun retirement_body :: "string list \<Rightarrow> string \<Rightarrow> string list \<Rightarrow> (state_error, string list) result" where
  "retirement_body seen remove [] = Inr []"
| "retirement_body seen remove (line # lines) =
     (if trim_space line = [] \<or> trim_space line = ''none'' then retirement_body seen remove lines
      else case dependencyListItem line of
          None \<Rightarrow> Inl (Errorf ''dependency retirement requires parent decision'' [line])
        | Some item \<Rightarrow> (case dependencyItemPath item of
              Inr (Some path) \<Rightarrow>
                if path \<in> set seen then Inl (Errorf ''ambiguous dependency retirement item'' [line])
                else map_sum id (\<lambda>body. if path \<noteq> remove then line # body else body) (retirement_body (path # seen) remove lines)
            | _ \<Rightarrow> Inl (Errorf ''ambiguous dependency retirement item'' [line])))"

definition retirementDependencyBody :: "string list \<Rightarrow> string \<Rightarrow> (state_error, string list) result" where
  "retirementDependencyBody lines remove =
     map_sum id (\<lambda>body. [[]] @ (if body = [] then [''none''] else body) @ [[]]) (retirement_body [] remove lines)"

definition replace_section :: "string list \<Rightarrow> nat \<Rightarrow> string list \<Rightarrow> string list" where
  "replace_section lines start body = take (Suc start) lines @ body @ drop (retirementSectionEnd lines start) lines"

definition section_body :: "string list \<Rightarrow> nat \<Rightarrow> string list" where
  "section_body lines start = take (retirementSectionEnd lines start - Suc start) (drop (Suc start) lines)"

definition fulfilled_entry :: "string \<Rightarrow> string" where
  "fulfilled_entry path = ''- '' @ [backtick] @ path @ [backtick]"

definition record_fulfilled :: "TaskDependencyState \<Rightarrow> string \<Rightarrow> string list \<Rightarrow> (state_error, string list) result" where
  "record_fulfilled state path lines = (case findUniqueTaskSection lines TaskFulfilledDependenciesHeading of
       Inl e \<Rightarrow> Inl e
     | Inr None \<Rightarrow> Inr (lines @ [[], TaskFulfilledDependenciesHeading, [], fulfilled_entry path, []])
     | Inr (Some fulfilled) \<Rightarrow> (case retirementDependencyBody (section_body lines fulfilled) [] of
           Inl e \<Rightarrow> Inl e
         | Inr body \<Rightarrow> Inr (replace_section lines fulfilled
             (if td_Fulfilled state = [] then [[], fulfilled_entry path, []] else body @ [fulfilled_entry path, []]))))"

text \<open>The parsed document has a section of dependencies, so that the missing one is out of reach.\<close>

definition RetireTaskDependency :: "string \<Rightarrow> string \<Rightarrow> (state_error, string \<times> bool) result" where
  "RetireTaskDependency content path = (case ParseTaskDependencyState content of
       Inl e \<Rightarrow> Inl e
     | Inr state \<Rightarrow>
         if \<not> containsSchedulePath (td_Outstanding state) path then Inr (content, False)
         else (let lines = lines_of content in case findUniqueTaskSection lines TaskDependenciesHeading of
             Inr (Some start) \<Rightarrow> (case retirementDependencyBody (section_body lines start) path of
                 Inl e \<Rightarrow> Inl e
               | Inr body \<Rightarrow> (case record_fulfilled state path (replace_section lines start body) of
                     Inl e \<Rightarrow> Inl e
                   | Inr lines \<Rightarrow> (let result = join_with [line_break] lines in
                       case ParseTaskDependencyState result of Inl e \<Rightarrow> Inl e | Inr _ \<Rightarrow> Inr (result, True))))
           | Inr None \<Rightarrow> Inl (Errorf ''section is missing'' [TaskDependenciesHeading])
           | Inl e \<Rightarrow> Inl e))"

section \<open>Sections of a document\<close>

text \<open>
  The fence after some lines, the body of the section that starts before the lines, and the bodies of all sections with a
  heading. \<open>plain\<close> lines belong to the section they stand in.
\<close>

fun fence_after :: "nat \<Rightarrow> string list \<Rightarrow> nat" where
  "fence_after fence [] = fence"
| "fence_after fence (line # lines) = fence_after (snd (lineOutsideFence line fence)) lines"

definition body_of :: "nat \<Rightarrow> string list \<Rightarrow> string list" where
  "body_of fence lines = takeWhile (\<lambda>line. \<not> heads line) (outside fence lines)"

fun bodies :: "string \<Rightarrow> nat \<Rightarrow> string list \<Rightarrow> string list list" where
  "bodies heading fence [] = []"
| "bodies heading fence (line # lines) = (case lineOutsideFence line fence of (out, fence') \<Rightarrow>
     if out \<and> heads line \<and> trim_space line = heading then body_of 0 lines # bodies heading fence' lines
     else bodies heading fence' lines)"

definition plain :: "string \<Rightarrow> bool" where
  "plain line \<longleftrightarrow> leadingBackticks line = 0 \<and> \<not> heads line"

lemma outside_line:
  "lineOutsideFence line fence = (True, fence') \<Longrightarrow> fence = 0 \<and> fence' = 0"
  "leadingBackticks line = 0 \<Longrightarrow> lineOutsideFence line 0 = (True, 0)"
  "leadingBackticks line = 0 \<Longrightarrow> 0 < fence \<Longrightarrow> lineOutsideFence line fence = (False, fence)"
  by (auto simp: lineOutsideFence_def split: if_splits)

lemma heads_outside: "heads line \<Longrightarrow> leadingBackticks line = 0"
  by (cases line) (auto simp: has_prefix_def leadingBackticks_def)

lemma outside_append: "outside fence (xs @ ys) = outside fence xs @ outside (fence_after fence xs) ys"
  by (induction xs arbitrary: fence) (auto split: prod.splits)

lemma fence_append: "fence_after fence (xs @ ys) = fence_after (fence_after fence xs) ys"
  by (induction xs arbitrary: fence) auto

lemma plain_lines:
  assumes "list_all plain B"
  shows "outside 0 B = B" "fence_after 0 B = 0" "fence_after 0 (B @ X) = fence_after 0 X" "bodies h 0 (B @ X) = bodies h 0 X"
    "takeWhile (\<lambda>line. \<not> heads line) B = B" "body_of 0 (B @ X) = B @ body_of 0 X"
proof -
  show out: "outside 0 B = B" and fence: "fence_after 0 B = 0" and "bodies h 0 (B @ X) = bodies h 0 X"
    using assms by (induction B) (auto simp: plain_def outside_line(2) split: prod.splits)
  then show "fence_after 0 (B @ X) = fence_after 0 X" by (simp add: fence_append)
  have "\<forall>line\<in>set B. \<not> heads line" using assms by (auto simp: plain_def list_all_iff)
  then show "takeWhile (\<lambda>line. \<not> heads line) B = B" and "body_of 0 (B @ X) = B @ body_of 0 X"
    by (simp_all add: body_of_def outside_append out fence takeWhile_append2)
qed

lemma body_stops:
  assumes "fence_after fence A = 0" "heads H"
  shows "body_of fence (A @ H # R) = takeWhile (\<lambda>line. \<not> heads line) (outside fence A)"
proof -
  have stop: "takeWhile P (xs @ y # ys) = takeWhile P xs" if "\<not> P y" for P :: "string \<Rightarrow> bool" and xs y ys
    using that by (induction xs) auto
  have "outside fence (A @ H # R) = outside fence A @ H # outside 0 R"
    using assms outside_line(2) [OF heads_outside, OF assms(2)] by (simp add: outside_append)
  with assms(2) show ?thesis by (simp add: body_of_def stop)
qed

lemma bodies_split:
  assumes "fence_after fence A = 0"
  shows "\<exists>P. \<forall>H R. heads H \<longrightarrow> bodies h fence (A @ H # R) = P @ (if trim_space H = h then [body_of 0 R] else []) @ bodies h 0 R"
  using assms
proof (induction A arbitrary: fence)
  case Nil
  then show ?case using outside_line(2) [OF heads_outside] by (intro exI [of _ "[]"]) simp
next
  case (Cons a A)
  obtain out fence' where a: "lineOutsideFence a fence = (out, fence')" by fastforce
  with Cons obtain P where P: "\<And>H R. heads H \<Longrightarrow> bodies h fence' (A @ H # R) = P @ (if trim_space H = h then [body_of 0 R] else []) @ bodies h 0 R"
    by (metis fence_after.simps(2) snd_conv)
  show ?case
  proof (cases "out \<and> heads a \<and> trim_space a = h")
    case True
    with a have "fence' = 0" using outside_line(1) [of a fence fence'] by simp
    with Cons.prems a have "fence_after 0 A = 0" by simp
    with True a P show ?thesis
      by (intro exI [of _ "takeWhile (\<lambda>line. \<not> heads line) (outside 0 A) # P"]) (simp add: body_stops)
  next
    case False
    with a P show ?thesis by (intro exI [of _ P]) auto
  qed
qed

lemma bodies_append: "bodies h fence L = [] \<Longrightarrow> bodies h fence (L @ X) = bodies h (fence_after fence L) X"
  by (induction L arbitrary: fence) (auto split: prod.splits if_splits)

text \<open>The sections the code finds are these bodies.\<close>

lemma matching_bodies: "map (\<lambda>m. section_lines lines (fst m)) (matching_lines lines heading) = bodies heading 0 lines"
proof -
  have "map (\<lambda>m. section_lines (pre @ ls) (fst m)) (filter (\<lambda>(i, line). heads line \<and> trim_space line = heading)
      (outside_indexed (length pre) fence ls)) = bodies heading fence ls" for pre fence ls
  proof (induction ls arbitrary: pre fence)
    case (Cons l ls)
    have "section_lines (pre @ l # ls) (length pre) = body_of 0 ls" by (simp add: section_lines_def body_of_def)
    moreover have "map (\<lambda>m. section_lines (pre @ l # ls) (fst m)) (filter (\<lambda>(i, line). heads line \<and> trim_space line = heading)
        (outside_indexed (Suc (length pre)) fence' ls)) = bodies heading fence' ls" for fence'
      using Cons [of "pre @ [l]"] by simp
    moreover obtain out fence' where "lineOutsideFence l fence = (out, fence')" by fastforce
    ultimately show ?case by auto
  qed simp
  from this [of "[]"] show ?thesis by (simp add: matching_lines_def)
qed

lemma matching_at:
  assumes "(i, line) \<in> set (matching_lines lines heading)"
  shows "\<exists>A R. lines = A @ line # R \<and> i = length A \<and> fence_after 0 A = 0 \<and> heads line \<and> trim_space line = heading"
proof -
  have "\<exists>A R. ls = A @ l # R \<and> i = n + length A \<and> fence_after fence A = 0" if "(i, l) \<in> set (outside_indexed n fence ls)" for i l n fence ls
    using that
  proof (induction ls arbitrary: n fence)
    case (Cons a ls)
    obtain out fence' where a: "lineOutsideFence a fence = (out, fence')" by fastforce
    with Cons.prems consider "out" "i = n" "l = a" | "(i, l) \<in> set (outside_indexed (Suc n) fence' ls)"
      by (auto split: if_splits)
    then show ?case
    proof cases
      case 1
      with a show ?thesis using outside_line(1) by (intro exI [of _ "[]"] exI [of _ ls]) auto
    next
      case 2
      from Cons.IH [OF this] a show ?thesis by (metis append_Cons fence_after.simps(2) length_Cons add_Suc_shift snd_conv)
    qed
  qed simp
  from this [of i line 0 0 lines] assms show ?thesis by (auto simp: matching_lines_def)
qed

definition parse_bodies :: "bool \<Rightarrow> string list list \<Rightarrow> string list option" where
  "parse_bodies required bs = (case bs of
       [] \<Rightarrow> if required then None else Some []
     | [b] \<Rightarrow> (case dependency_paths [] b of Inl _ \<Rightarrow> None | Inr paths \<Rightarrow> Some paths)
     | _ \<Rightarrow> None)"

lemma find_unique:
  "findUniqueTaskSection lines heading = Inr None \<longleftrightarrow> bodies heading 0 lines = []"
  "findUniqueTaskSection lines heading = Inr (Some i) \<Longrightarrow> bodies heading 0 lines = [section_lines lines i]"
  "findUniqueTaskSection lines heading = Inr (Some i) \<Longrightarrow>
     \<exists>A H R. lines = A @ H # R \<and> i = length A \<and> fence_after 0 A = 0 \<and> heads H \<and> trim_space H = heading"
  using matching_bodies [of lines heading] matching_at [of i _ lines heading]
  by (auto simp: findUniqueTaskSection_def split: list.splits prod.splits)

lemma parse_section:
  "parseTaskDependencySection lines heading required = Inr paths \<longleftrightarrow> parse_bodies required (bodies heading 0 lines) = Some paths"
proof (cases "findUniqueTaskSection lines heading")
  case (Inl e)
  then have "\<exists>b b' bs. bodies heading 0 lines = b # b' # bs"
    unfolding matching_bodies [symmetric] by (auto simp: findUniqueTaskSection_def split: list.splits prod.splits)
  with Inl show ?thesis by (auto simp: parseTaskDependencySection_def parse_bodies_def)
next
  case (Inr r)
  then show ?thesis
    using find_unique(1,2) [of lines heading]
    by (cases r) (auto simp: parseTaskDependencySection_def parse_bodies_def parseDependencyPaths_def split: sum.splits)
qed

lemma parse_state:
  "ParseTaskDependencyState content = Inr state \<longleftrightarrow>
     parse_bodies True (bodies TaskDependenciesHeading 0 (lines_of content)) = Some (td_Outstanding state) \<and>
     parse_bodies False (bodies TaskFulfilledDependenciesHeading 0 (lines_of content)) = Some (td_Fulfilled state) \<and>
     set (td_Outstanding state) \<inter> set (td_Fulfilled state) = {}"
proof -
  let ?p = "parseTaskDependencySection (lines_of content)"
  have "ParseTaskDependencyState content = Inr state \<longleftrightarrow> ?p TaskDependenciesHeading True = Inr (td_Outstanding state) \<and>
      ?p TaskFulfilledDependenciesHeading False = Inr (td_Fulfilled state) \<and> set (td_Outstanding state) \<inter> set (td_Fulfilled state) = {}"
    by (cases state) (auto simp: ParseTaskDependencyState_def Let_def find_None_iff find_Some_iff disjoint_iff in_set_conv_nth split: sum.splits option.splits)
  then show ?thesis by (simp only: parse_section)
qed

section \<open>The paths of a dependency list\<close>

lemma dependency_append:
  "dependency_paths acc (xs @ ys) = (case dependency_paths acc xs of Inl e \<Rightarrow> Inl e | Inr acc' \<Rightarrow> dependency_paths acc' ys)"
  by (induction xs arbitrary: acc) (auto split: option.splits sum.splits)

lemma no_item: "dependencyListItem [] = None" "dependencyListItem ''none'' = None"
  by code_simp+

lemma trim_ends: "graphic c \<Longrightarrow> graphic d \<Longrightarrow> trim_space (c # s @ [d]) = c # s @ [d]"
  by (simp add: trim_space_def trim_left_stop trim_back_stop ws_front_graphic ws_back_graphic)

lemma set_trim: "set (trim_space s) \<subseteq> set s"
proof -
  have "set (trim_space s) \<subseteq> set (trim_left s)"
    using set_mono_suffix [OF trim_back_suffix [of "rev (trim_left s)"]] by (simp add: trim_space_def)
  also have "\<dots> \<subseteq> set s" by (rule set_mono_suffix [OF trim_left_suffix])
  finally show ?thesis .
qed

lemma set_trim_prefix: "set (trim_prefix s p) \<subseteq> set s"
  by (auto simp: trim_prefix_def dest: in_set_dropD)

lemma trim_backtick: "leadingBackticks line \<noteq> 0 \<Longrightarrow> \<exists>t. trim_space line = backtick # t"
proof -
  assume "leadingBackticks line \<noteq> 0"
  then obtain s where line: "line = backtick # s" by (cases line) (auto simp: leadingBackticks_def split: if_splits)
  have g: "graphic backtick" by (simp add: graphic_def)
  have "suffix (trim_back (rev s @ [backtick])) (rev s @ [backtick])" by (rule trim_back_suffix)
  moreover have "trim_back (rev s @ [backtick]) \<noteq> []"
  proof
    assume "trim_back (rev s @ [backtick]) = []"
    have keep: "trim_back (xs @ [backtick]) \<noteq> []" for xs
    proof (induction "length xs" arbitrary: xs rule: less_induct)
      case less
      show ?case
      proof (cases "ws_back (xs @ [backtick]) = 0")
        case True
        then show ?thesis by (simp add: trim_back_stop)
      next
        case False
        let ?n = "ws_back (xs @ [backtick])"
        have "\<not> length xs < ?n"
        proof
          assume n: "length xs < ?n"
          then have "take ?n (xs @ [backtick]) = xs @ [backtick]" by simp
          have "?n \<le> 3" by (simp add: ws_back_def)
          with n False show False
            using space_code_hd [of "byte backtick" "rev (map byte xs)"]
            by (auto simp: ws_back_def graphic_def split: if_splits)
        qed
        then have "trim_back (xs @ [backtick]) = trim_back (drop ?n xs @ [backtick])" using False by (simp add: trim_back.simps [of "xs @ [backtick]"])
        moreover have "length (drop ?n xs) < length xs" using False \<open>\<not> length xs < ?n\<close> by (cases xs) auto
        ultimately show ?thesis using less by simp
      qed
    qed
    with \<open>trim_back (rev s @ [backtick]) = []\<close> show False by blast
  qed
  ultimately obtain t where "trim_back (rev s @ [backtick]) = t @ [backtick]" by (metis suffix_snoc)
  then show ?thesis using line g by (intro exI [of _ "rev t"]) (simp add: trim_space_def trim_left_stop ws_front_graphic)
qed

definition entry_path :: "string \<Rightarrow> bool" where
  "entry_path path \<longleftrightarrow> ValidateActiveTaskPath path = None \<and> backtick \<notin> set path \<and> line_break \<notin> set path"

lemma count_byte_simps [simp]:
  "count_byte [] c = 0" "count_byte (d # s) c = (if d = c then Suc (count_byte s c) else count_byte s c)"
  "count_byte (s @ t) c = count_byte s c + count_byte t c" "count_byte s c = 0 \<longleftrightarrow> c \<notin> set s"
  by (auto simp: count_byte_def filter_empty_conv)

lemma item_path:
  assumes "dependencyItemPath item = Inr (Some path)"
  shows "backtick \<notin> set path" "set path \<subseteq> set item"
proof -
  have inner: "backtick \<notin> set (butlast (tl item)) \<and> set (butlast (tl item)) \<subseteq> set item"
    if two: "count_byte item backtick = 2" and front: "has_prefix item [backtick]" and back_end: "has_suffix item [backtick]"
  proof -
    obtain s where s: "item = backtick # s" using front by (cases item) (auto simp: has_prefix_def)
    then have "s \<noteq> []" using two by auto
    with back_end s obtain t where "s = t @ [backtick]" by (cases s rule: rev_cases) (auto simp: has_suffix_def has_prefix_def)
    with s two show ?thesis by auto
  qed
  from assms show "backtick \<notin> set path" "set path \<subseteq> set item"
    using inner by (auto simp: dependencyItemPath_def split: if_splits)
qed

lemma map_sum_Inr: "map_sum id f r = Inr y \<longleftrightarrow> (\<exists>x. r = Inr x \<and> y = f x)"
  by (cases r) auto

text \<open>What a line adds to the list of the paths.\<close>

definition line_path :: "string \<Rightarrow> string option" where
  "line_path line = (case dependencyListItem line of
       None \<Rightarrow> None
     | Some item \<Rightarrow> (case dependencyItemPath item of Inr (Some path) \<Rightarrow> Some path | _ \<Rightarrow> None))"

definition add_path :: "string list \<Rightarrow> string option \<Rightarrow> string list" where
  "add_path acc r = (case r of None \<Rightarrow> acc | Some path \<Rightarrow> if path \<in> set acc then acc else acc @ [path])"

definition line_ok :: "string \<Rightarrow> bool" where
  "line_ok line \<longleftrightarrow> (\<forall>item e. dependencyListItem line = Some item \<longrightarrow> dependencyItemPath item \<noteq> Inl e) \<and>
     (\<forall>path. line_path line = Some path \<longrightarrow> ValidateActiveTaskPath path = None)"

lemma dependency_fold: "dependency_paths acc B = Inr out \<longleftrightarrow> list_all line_ok B \<and> out = foldl (\<lambda>acc line. add_path acc (line_path line)) acc B"
proof (induction B arbitrary: acc)
  case (Cons line B)
  show ?case
  proof (cases "dependencyListItem line")
    case None
    with Cons show ?thesis by (simp add: line_ok_def line_path_def add_path_def)
  next
    case (Some item)
    with Cons show ?thesis
      by (cases "dependencyItemPath item") (auto simp: line_ok_def line_path_def add_path_def split: option.splits)
  qed
qed auto

lemma line_path_entry:
  assumes "line_ok line" "line_path line = Some path" "line_break \<notin> set line"
  shows "entry_path path"
proof -
  obtain item where item: "dependencyListItem line = Some item" "dependencyItemPath item = Inr (Some path)"
    using assms(2) by (auto simp: line_path_def split: option.splits sum.splits)
  then have "set item \<subseteq> set line"
    using set_trim set_trim_prefix by (fastforce simp: dependencyListItem_def Let_def split: if_splits)
  with item_path [OF item(2)] assms show ?thesis by (auto simp: entry_path_def line_ok_def)
qed

lemma listed_path:
  assumes "dependency_paths [] B = Inr out" "\<forall>line\<in>set B. line_break \<notin> set line" "path \<in> set out"
  shows "entry_path path"
proof -
  have "set (foldl (\<lambda>acc line. add_path acc (line_path line)) acc B) \<subseteq> set acc \<union> {path. \<exists>line\<in>set B. line_path line = Some path}" for acc
    by (induction B arbitrary: acc) (fastforce simp: add_path_def split: option.splits if_splits)+
  from this [of "[]"] assms(1,3) have "list_all line_ok B" "\<exists>line\<in>set B. line_path line = Some path"
    by (auto simp: dependency_fold)
  with assms(2) show ?thesis using line_path_entry by (metis list_all_iff)
qed

text \<open>What a retirement keeps of a section: the lines are plain, and the list has lost the one path.\<close>

lemma entry_plain: "dependencyListItem line \<noteq> None \<or> trim_space line = [] \<or> trim_space line = ''none'' \<Longrightarrow> leadingBackticks line = 0"
  using trim_backtick [of line] by (cases "leadingBackticks line = 0") (auto simp: dependencyListItem_def Let_def has_prefix_def)

abbreviation paths_in :: "string list \<Rightarrow> string list" where
  "paths_in B \<equiv> List.map_filter line_path B"

lemma no_line_path: "trim_space line = [] \<or> trim_space line = ''none'' \<Longrightarrow> line_path line = None"
  by (auto simp: line_path_def dependencyListItem_def Let_def has_prefix_def)

lemma retirement_spec:
  assumes "retirement_body seen remove B = Inr body"
  shows "(\<forall>line\<in>set B. leadingBackticks line = 0) \<and> distinct (paths_in B) \<and> set (paths_in B) \<inter> set seen = {} \<and>
     body = filter (\<lambda>line. line_path line \<notin> {None, Some remove}) B"
  using assms
proof (induction B arbitrary: seen body)
  case (Cons line B)
  show ?case
  proof (cases "trim_space line = [] \<or> trim_space line = ''none''")
    case True
    with Cons.prems have "retirement_body seen remove B = Inr body" by simp
    from Cons.IH [OF this] True show ?thesis by (simp add: no_line_path entry_plain map_filter_simps)
  next
    case False
    then obtain item where item: "dependencyListItem line = Some item" using Cons.prems by (cases "dependencyListItem line") simp_all
    with False obtain path where path: "dependencyItemPath item = Inr (Some path)"
      using Cons.prems by (cases "dependencyItemPath item"; cases "projr (dependencyItemPath item)") auto
    from item path have line: "line_path line = Some path" "leadingBackticks line = 0" by (simp_all add: line_path_def entry_plain)
    from Cons.prems False item path obtain b where new: "path \<notin> set seen" and b: "retirement_body (path # seen) remove B = Inr b"
      and body: "body = (if path \<noteq> remove then line # b else b)"
      by (cases "path \<in> set seen") (auto simp: map_sum_Inr)
    from Cons.IH [OF b] line body new show ?thesis by (auto simp: map_filter_simps)
  qed
qed (simp add: map_filter_simps)

lemma fold_paths:
  "distinct (paths_in B) \<Longrightarrow> set (paths_in B) \<inter> set acc = {} \<Longrightarrow> foldl (\<lambda>acc line. add_path acc (line_path line)) acc B = acc @ paths_in B"
proof (induction B arbitrary: acc)
  case (Cons line B)
  then show ?case by (cases "line_path line") (auto simp: add_path_def map_filter_simps)
qed (simp add: map_filter_simps)

lemma paths_filter:
  "paths_in (filter (\<lambda>line. line_path line \<notin> {None, Some remove}) B) = filter (\<lambda>path. path \<noteq> remove) (paths_in B)"
  by (induction B) (auto simp: map_filter_simps split: option.splits)

text \<open>A retired section: its lines are plain, and exactly the one path is gone.\<close>

lemma retired_section:
  assumes body: "retirementDependencyBody B remove = Inr body" and B: "\<forall>line\<in>set B. \<not> heads line" and out: "dependency_paths [] B = Inr out"
  shows "list_all plain B \<and> list_all plain body \<and> set body \<subseteq> insert [] (insert ''none'' (set B)) \<and>
     dependency_paths [] body = Inr (filter (\<lambda>path. path \<noteq> remove) out)"
proof -
  obtain b where b: "retirement_body [] remove B = Inr b" and body: "body = [[]] @ (if b = [] then [''none''] else b) @ [[]]"
    using body by (auto simp: retirementDependencyBody_def map_sum_Inr)
  note spec = retirement_spec [OF b]
  have none: "plain []" "plain ''none''" "line_ok []" "line_ok ''none''" "line_path [] = None" "line_path ''none'' = None"
    by (simp_all add: plain_def leadingBackticks_def has_prefix_def line_ok_def line_path_def no_item)
  have B: "list_all plain B" using spec B by (simp add: list_all_iff plain_def)
  have ok: "list_all line_ok B" "out = paths_in B" using out spec by (simp_all add: dependency_fold fold_paths)
  have paths: "paths_in b = filter (\<lambda>path. path \<noteq> remove) out" using spec paths_filter [of remove B] ok(2) by simp
  have "paths_in body = paths_in b" using none by (simp add: body map_filter_def)
  moreover from this have "distinct (paths_in body)" using paths ok spec by simp
  moreover have "list_all line_ok body" using none ok spec by (auto simp: body list_all_iff)
  ultimately have "dependency_paths [] body = Inr (filter (\<lambda>path. path \<noteq> remove) out)"
    using paths unfolding dependency_fold by (simp add: fold_paths)
  moreover have "list_all plain body" "set body \<subseteq> insert [] (insert ''none'' (set B))"
    using none B spec by (auto simp: body list_all_iff)
  ultimately show ?thesis using B by blast
qed

section \<open>The edited document\<close>

lemma contains_prefix: "has_prefix s p \<Longrightarrow> contains s p"
  by (cases s) (auto simp: has_prefix_def)

lemma new_entry:
  assumes "entry_path path"
  shows "line_ok (fulfilled_entry path) \<and> line_path (fulfilled_entry path) = Some path \<and> plain (fulfilled_entry path) \<and>
     line_break \<notin> set (fulfilled_entry path)"
proof -
  let ?item = "backtick # path @ [backtick]"
  have g: "graphic (CHR ''-'')" "graphic backtick" by (simp_all add: graphic_def)
  have "trim_space (fulfilled_entry path) = fulfilled_entry path"
    using trim_ends [OF g, of "'' '' @ [backtick] @ path"] by (simp add: fulfilled_entry_def)
  moreover have "trim_prefix (fulfilled_entry path) ''- '' = ?item" by (simp add: trim_prefix_def fulfilled_entry_def has_prefix_def)
  moreover have "trim_space ?item = ?item" by (rule trim_ends [OF g(2) g(2)])
  ultimately have item: "dependencyListItem (fulfilled_entry path) = Some ?item"
    by (simp add: dependencyListItem_def) (simp add: fulfilled_entry_def has_prefix_def)
  have "has_prefix path (TasksDir @ ''/'')" using assms by (simp add: entry_path_def ValidateActiveTaskPath_def split: if_splits)
  then have "has_prefix (path @ [backtick]) (TasksDir @ ''/'')" by (auto simp: has_prefix_iff prefix_def)
  then have "contains ?item (TasksDir @ ''/'')" using contains_prefix by simp
  moreover have "count_byte ?item backtick = 2" using assms by (simp add: entry_path_def)
  moreover have "has_prefix ?item [backtick]" "has_suffix ?item [backtick]" by (simp_all add: has_prefix_def has_suffix_def)
  ultimately have "dependencyItemPath ?item = Inr (Some path)" by (simp add: dependencyItemPath_def)
  with item assms show ?thesis
    by (simp add: line_ok_def line_path_def entry_path_def) (simp add: plain_def leadingBackticks_def has_prefix_def fulfilled_entry_def)
qed

lemma entry_added: "entry_path path \<Longrightarrow> path \<notin> set acc \<Longrightarrow> dependency_paths acc [fulfilled_entry path, []] = Inr (acc @ [path])"
  unfolding dependency_fold using new_entry [of path] by (simp add: line_ok_def [of "[]"] line_path_def [of "[]"] no_item add_path_def)

lemma section_edit:
  assumes "findUniqueTaskSection lines heading = Inr (Some i)"
  obtains A H C where "lines = A @ H # section_body lines i @ C" "\<And>X. replace_section lines i X = A @ H # X @ C"
    "\<forall>line\<in>set (section_body lines i). \<not> heads line" "C = [] \<or> heads (hd C)" "heads H" "trim_space H = heading" "fence_after 0 A = 0"
proof -
  obtain A H R where L: "lines = A @ H # R" "i = length A" "fence_after 0 A = 0" "heads H" "trim_space H = heading"
    using find_unique(3) [OF assms] by blast
  let ?P = "\<lambda>line. \<not> heads line"
  have B: "section_body lines i = takeWhile ?P R" by (simp add: section_body_def retirementSectionEnd_def L takeWhile_eq_take [symmetric])
  have C: "drop (retirementSectionEnd lines i) lines = dropWhile ?P R"
    by (simp add: retirementSectionEnd_def L dropWhile_eq_drop)
  show ?thesis
  proof (rule that [of A H "dropWhile ?P R"])
    show "lines = A @ H # section_body lines i @ dropWhile ?P R" unfolding B using L(1) by simp
    show "replace_section lines i X = A @ H # X @ dropWhile ?P R" for X by (simp only: replace_section_def C) (simp add: L)
    show "\<forall>line\<in>set (section_body lines i). \<not> heads line" unfolding B by (auto dest: set_takeWhileD)
    show "dropWhile ?P R = [] \<or> heads (hd (dropWhile ?P R))" using hd_dropWhile [of ?P R] by blast
  qed (use L in auto)
qed

lemma stopped_body: "C = [] \<or> heads (hd C) \<Longrightarrow> body_of 0 C = []"
  by (cases C) (auto simp: body_of_def outside_line(2) [OF heads_outside])

lemma edited_bodies:
  assumes "fence_after 0 A = 0" "heads H" "C = [] \<or> heads (hd C)"
  obtains P where "\<And>B. list_all plain B \<Longrightarrow> bodies h 0 (A @ H # B @ C) = P @ (if trim_space H = h then [B] else []) @ bodies h 0 C"
  using bodies_split [OF assms(1), of h] assms(2) stopped_body [OF assms(3)] by (fastforce simp: plain_lines)

lemma edited_fence:
  assumes "fence_after 0 A = 0" "heads H" "list_all plain B"
  shows "fence_after 0 (A @ H # B @ C) = fence_after 0 C"
  using assms by (simp add: fence_append plain_lines outside_line(2) [OF heads_outside])

definition fulfilled_lost :: "string \<Rightarrow> bool" where
  "fulfilled_lost content \<longleftrightarrow> 0 < fence_after 0 (lines_of content) \<and>
     findUniqueTaskSection (lines_of content) TaskFulfilledDependenciesHeading = Inr None"

lemma headings [simp]:
  "TaskDependenciesHeading \<noteq> TaskFulfilledDependenciesHeading" "TaskFulfilledDependenciesHeading \<noteq> TaskDependenciesHeading"
  "heads TaskFulfilledDependenciesHeading" "trim_space TaskFulfilledDependenciesHeading = TaskFulfilledDependenciesHeading"
  "line_break \<notin> set TaskFulfilledDependenciesHeading" "leadingBackticks TaskFulfilledDependenciesHeading = 0" "leadingBackticks [] = 0"
  by code_simp+

text \<open>The two ways in which the fulfilled dependency is written.\<close>

lemma appended_section:
  assumes path: "entry_path path" and none: "bodies TaskFulfilledDependenciesHeading 0 L = []"
    and out: "parse_bodies True (bodies TaskDependenciesHeading 0 L) = Some out"
  defines "X \<equiv> [[], TaskFulfilledDependenciesHeading, [], fulfilled_entry path, []]"
  shows "parse_bodies True (bodies TaskDependenciesHeading 0 (L @ X)) = Some out"
    "parse_bodies False (bodies TaskFulfilledDependenciesHeading 0 (L @ X)) = Some (if 0 < fence_after 0 L then [] else [path])"
proof -
  note entry = new_entry [OF path]
  have inside: "bodies h fence X = []" if "0 < fence" for h fence
    using that entry by (simp add: X_def outside_line(3) plain_def)
  have last_body: "body_of fence (ls @ X) \<in> {body_of fence ls, body_of fence ls @ [[]]}" for fence ls
  proof -
    have "outside fence' X = []" if "0 < fence'" for fence' using that entry by (simp add: X_def outside_line(3) plain_def)
    moreover have "takeWhile (\<lambda>line. \<not> heads line) (outside 0 X) = [[]]" by (simp add: X_def outside_line(2) has_prefix_def [of "[]"])
    ultimately have "takeWhile (\<lambda>line. \<not> heads line) (outside (fence_after fence ls) X) \<in> {[], [[]]}" by (cases "fence_after fence ls = 0") simp_all
    then show ?thesis
      by (cases "\<exists>line\<in>set (outside fence ls). heads line")
        (auto simp: body_of_def outside_append takeWhile_append1 takeWhile_append2 takeWhile_eq_all_conv [THEN iffD2])
  qed
  have other: "bodies TaskDependenciesHeading fence X = []" for fence
    using inside entry by (cases "fence = 0") (simp_all add: X_def outside_line(2) has_prefix_def [of "[]"] plain_def)
  have once: "bodies TaskDependenciesHeading fence ls = [b] \<Longrightarrow> \<exists>z\<in>{[], [[]]}. bodies TaskDependenciesHeading fence (ls @ X) = [b @ z]" for fence ls b
  proof (induction ls arbitrary: fence)
    case (Cons l ls)
    then show ?case using last_body [of 0 ls] bodies_append [of TaskDependenciesHeading _ ls X] other
      by (auto split: prod.splits if_splits)
  qed simp
  obtain b where b: "bodies TaskDependenciesHeading 0 L = [b]" "dependency_paths [] b = Inr out"
    using out by (auto simp: parse_bodies_def split: list.splits sum.splits if_splits)
  obtain z where z: "z \<in> {[], [[]]}" "bodies TaskDependenciesHeading 0 (L @ X) = [b @ z]" using once [OF b(1)] by blast
  have "dependency_paths [] (b @ z) = Inr out" using z(1) b(2) by (auto simp: dependency_append no_item)
  with z(2) show "parse_bodies True (bodies TaskDependenciesHeading 0 (L @ X)) = Some out" by (simp only: parse_bodies_def list.case sum.case)
  have "bodies TaskFulfilledDependenciesHeading 0 X = [[[], fulfilled_entry path, []]]"
    using entry by (simp add: X_def outside_line(2) plain_def has_prefix_def [of "[]"] body_of_def)
  moreover have "dependency_paths [] [[], fulfilled_entry path, []] = Inr [path]"
    using entry_added [OF path, of "[]"] by (simp add: no_item)
  ultimately show "parse_bodies False (bodies TaskFulfilledDependenciesHeading 0 (L @ X)) = Some (if 0 < fence_after 0 L then [] else [path])"
    unfolding bodies_append [OF none] by (cases "fence_after 0 L = 0") (simp_all add: parse_bodies_def inside)
qed


lemma extended_section:
  assumes path: "entry_path path" and body: "retirementDependencyBody B [] = Inr body" and B: "\<forall>line\<in>set B. \<not> heads line"
    and ful: "dependency_paths [] B = Inr ful" "\<forall>q\<in>set ful. entry_path q" "path \<notin> set ful"
  defines "Y \<equiv> (if ful = [] then [[], fulfilled_entry path, []] else body @ [fulfilled_entry path, []])"
  shows "list_all plain Y \<and> dependency_paths [] Y = Inr (ful @ [path]) \<and> set Y \<subseteq> insert (fulfilled_entry path) (insert [] (insert ''none'' (set B)))"
proof -
  note retired = retired_section [OF body B ful(1)] and entry = new_entry [OF path]
  have "q \<noteq> []" if "q \<in> set ful" for q
    using ful(2) that by (auto simp: entry_path_def ValidateActiveTaskPath_def has_prefix_def TasksDir_def)
  then have keep: "filter (\<lambda>q. q \<noteq> []) ful = ful" by (simp add: filter_id_conv)
  have "plain []" by (simp add: plain_def has_prefix_def)
  moreover have "dependency_paths [] Y = Inr (ful @ [path])"
    using retired keep entry_added [OF path, of ful] entry_added [OF path, of "[]"] ful(3) by (simp add: Y_def dependency_append no_item)
  ultimately show ?thesis using retired entry by (auto simp: Y_def list_all_iff)
qed


lemma parse_bodies_one: "parse_bodies required [b] = Some paths \<longleftrightarrow> dependency_paths [] b = Inr paths"
  by (auto simp: parse_bodies_def split: sum.splits)

text \<open>Replacing the plain body of one section changes no other section.\<close>

lemma section_replaced:
  assumes find: "findUniqueTaskSection lines heading = Inr (Some i)"
    and plain: "list_all plain (section_body lines i)" "list_all plain X"
  shows "bodies heading 0 lines = [section_body lines i] \<and> bodies heading 0 (replace_section lines i X) = [X] \<and>
     (\<forall>h. h \<noteq> heading \<longrightarrow> bodies h 0 (replace_section lines i X) = bodies h 0 lines) \<and>
     fence_after 0 (replace_section lines i X) = fence_after 0 lines \<and>
     set (replace_section lines i X) \<subseteq> set lines \<union> set X \<and> set (section_body lines i) \<subseteq> set lines \<and> replace_section lines i X \<noteq> []"
proof -
  let ?B = "section_body lines i"
  obtain A H C where L: "lines = A @ H # ?B @ C" and L': "replace_section lines i X = A @ H # X @ C"
    and C: "C = [] \<or> heads (hd C)" and H: "heads H" "trim_space H = heading" and A: "fence_after 0 A = 0"
    using section_edit [OF find] by metis
  have *: "\<exists>P. \<forall>B. list_all plain B \<longrightarrow> bodies h 0 (A @ H # B @ C) = P @ (if h = heading then [B] else []) @ bodies h 0 C" for h
  proof -
    obtain P where "\<And>B. list_all plain B \<Longrightarrow> bodies h 0 (A @ H # B @ C) = P @ (if trim_space H = h then [B] else []) @ bodies h 0 C"
      using edited_bodies [OF A H(1) C, of h] by blast
    with H(2) show ?thesis by (intro exI [of _ P]) auto
  qed
  obtain P where P: "\<And>B. list_all plain B \<Longrightarrow> bodies heading 0 (A @ H # B @ C) = P @ [B] @ bodies heading 0 C"
    using * [of heading] by auto
  have D: "bodies heading 0 lines = P @ [?B] @ bodies heading 0 C" using P [OF plain(1)] L by metis
  then have PC: "P = []" "bodies heading 0 C = []" using find_unique(2) [OF find] by (cases P; auto)+
  have "bodies h 0 (replace_section lines i X) = bodies h 0 lines" if "h \<noteq> heading" for h
    using * [of h] that plain L L' by metis
  moreover have "bodies heading 0 (replace_section lines i X) = [X]" using P [OF plain(2)] PC by (simp add: L')
  moreover have "fence_after 0 (replace_section lines i X) = fence_after 0 lines"
    using edited_fence [OF A H(1) plain(2), of C] edited_fence [OF A H(1) plain(1), of C] L L' by metis
  moreover have "set lines = set A \<union> {H} \<union> set ?B \<union> set C" by (subst L) auto
  ultimately show ?thesis using D PC by (auto simp: L')
qed

lemma section_unheaded: "\<forall>line\<in>set (section_body lines i). \<not> heads line"
  by (auto simp: section_body_def retirementSectionEnd_def takeWhile_eq_take [symmetric] dest: set_takeWhileD)

lemma retired_plain: "retirementDependencyBody (section_body lines i) remove = Inr body \<Longrightarrow> list_all plain (section_body lines i)"
  using retirement_spec section_unheaded by (auto simp: retirementDependencyBody_def map_sum_Inr plain_def list_all_iff)

lemma dependency_removed:
  assumes find: "findUniqueTaskSection lines TaskDependenciesHeading = Inr (Some start)"
    and body: "retirementDependencyBody (section_body lines start) path = Inr body"
    and out: "parse_bodies True (bodies TaskDependenciesHeading 0 lines) = Some out"
  defines "lines' \<equiv> replace_section lines start body"
  shows "parse_bodies True (bodies TaskDependenciesHeading 0 lines') = Some (filter (\<lambda>q. q \<noteq> path) out) \<and>
     bodies TaskFulfilledDependenciesHeading 0 lines' = bodies TaskFulfilledDependenciesHeading 0 lines \<and>
     fence_after 0 lines' = fence_after 0 lines \<and> set lines' \<subseteq> insert [] (insert ''none'' (set lines)) \<and> lines' \<noteq> []"
proof -
  let ?B = "section_body lines start"
  have plain: "list_all plain ?B" by (rule retired_plain [OF body])
  have "bodies TaskDependenciesHeading 0 lines = [?B]" using section_replaced [OF find plain plain] by blast
  with out have "dependency_paths [] ?B = Inr out" by (simp add: parse_bodies_one)
  note retired = retired_section [OF body section_unheaded this]
  with section_replaced [OF find plain, of body] show ?thesis
    unfolding lines'_def by (auto simp: parse_bodies_one)
qed

lemma dependency_fulfilled:
  assumes find: "findUniqueTaskSection lines TaskFulfilledDependenciesHeading = Inr (Some i)"
    and body: "retirementDependencyBody (section_body lines i) [] = Inr body" and path: "entry_path path" "path \<notin> set ful"
    and ful: "parse_bodies False (bodies TaskFulfilledDependenciesHeading 0 lines) = Some ful" "\<forall>q\<in>set ful. entry_path q"
  defines "lines' \<equiv> replace_section lines i (if ful = [] then [[], fulfilled_entry path, []] else body @ [fulfilled_entry path, []])"
  shows "parse_bodies False (bodies TaskFulfilledDependenciesHeading 0 lines') = Some (ful @ [path]) \<and>
     bodies TaskDependenciesHeading 0 lines' = bodies TaskDependenciesHeading 0 lines \<and>
     set lines' \<subseteq> insert (fulfilled_entry path) (insert [] (insert ''none'' (set lines))) \<and> lines' \<noteq> []"
proof -
  let ?B = "section_body lines i"
  have plain: "list_all plain ?B" by (rule retired_plain [OF body])
  have "bodies TaskFulfilledDependenciesHeading 0 lines = [?B]" using section_replaced [OF find plain plain] by blast
  with ful(1) have B: "dependency_paths [] ?B = Inr ful" by (simp add: parse_bodies_one)
  note extended = extended_section [OF path(1) body section_unheaded B ful(2) path(2)]
  note replaced = section_replaced [OF find plain, OF extended [THEN conjunct1], folded lines'_def]
  have "parse_bodies False (bodies TaskFulfilledDependenciesHeading 0 lines') = Some (ful @ [path])"
    using replaced extended by (simp only: parse_bodies_one)
  moreover have "set lines' \<subseteq> insert (fulfilled_entry path) (insert [] (insert ''none'' (set lines)))" using replaced extended by blast
  ultimately show ?thesis using replaced by simp
qed

lemma bodies_within: "b \<in> set (bodies h fence ls) \<Longrightarrow> set b \<subseteq> set ls"
proof -
  have "set (outside fence ls) \<subseteq> set ls" for fence ls
    by (induction ls arbitrary: fence) (auto split: prod.splits if_splits)
  then have body: "set (body_of fence ls) \<subseteq> set ls" for fence ls by (auto simp: body_of_def dest!: set_takeWhileD)
  show "b \<in> set (bodies h fence ls) \<Longrightarrow> set b \<subseteq> set ls"
    by (induction ls arbitrary: fence) (use body in \<open>fastforce split: prod.splits if_splits\<close>)+
qed

lemma parsed_path:
  assumes "parse_bodies required (bodies h 0 (lines_of content)) = Some out" "path \<in> set out"
  shows "entry_path path"
proof -
  obtain b where b: "bodies h 0 (lines_of content) = [b]" "dependency_paths [] b = Inr out"
    using assms by (auto simp: parse_bodies_def split: list.splits sum.splits if_splits)
  then have "set b \<subseteq> set (lines_of content)" using bodies_within [of b h 0 "lines_of content"] by simp
  then have "\<forall>line\<in>set b. line_break \<notin> set line" using split_on_parts_no_sep by blast
  from listed_path [OF b(2) this assms(2)] show ?thesis .
qed

lemma retire_changed:
  assumes run: "RetireTaskDependency content path = Inr (result, True)"
  obtains state start body lines' where "ParseTaskDependencyState content = Inr state" "path \<in> set (td_Outstanding state)"
    "findUniqueTaskSection (lines_of content) TaskDependenciesHeading = Inr (Some start)"
    "retirementDependencyBody (section_body (lines_of content) start) path = Inr body"
    "record_fulfilled state path (replace_section (lines_of content) start body) = Inr lines'" "result = join_with [line_break] lines'"
  using run that by (auto simp: RetireTaskDependency_def containsSchedulePath_def list_ex_iff Let_def split: sum.splits option.splits if_splits)

lemma recorded:
  assumes run: "record_fulfilled state path lines = Inr lines'" and path: "entry_path path" "path \<notin> set (td_Fulfilled state)"
    and out: "parse_bodies True (bodies TaskDependenciesHeading 0 lines) = Some out"
    and ful: "parse_bodies False (bodies TaskFulfilledDependenciesHeading 0 lines) = Some (td_Fulfilled state)" "\<forall>q\<in>set (td_Fulfilled state). entry_path q"
  shows "parse_bodies True (bodies TaskDependenciesHeading 0 lines') = Some out \<and>
     parse_bodies False (bodies TaskFulfilledDependenciesHeading 0 lines') =
       Some (if 0 < fence_after 0 lines \<and> bodies TaskFulfilledDependenciesHeading 0 lines = [] then [] else td_Fulfilled state @ [path]) \<and>
     set lines' \<subseteq> insert TaskFulfilledDependenciesHeading (insert (fulfilled_entry path) (insert [] (insert ''none'' (set lines)))) \<and> lines' \<noteq> []"
proof (cases "findUniqueTaskSection lines TaskFulfilledDependenciesHeading")
  case (Inr r)
  show ?thesis
  proof (cases r)
    case None
    then have none: "bodies TaskFulfilledDependenciesHeading 0 lines = []" using Inr find_unique(1) by simp
    with ful(1) have empty: "td_Fulfilled state = []" by (simp add: parse_bodies_def)
    have "lines' = lines @ [[], TaskFulfilledDependenciesHeading, [], fulfilled_entry path, []]"
      using run Inr None by (simp add: record_fulfilled_def)
    with appended_section [OF path(1) none out] none empty show ?thesis by auto
  next
    case (Some i)
    with run Inr obtain body where body: "retirementDependencyBody (section_body lines i) [] = Inr body"
      and lines': "lines' = replace_section lines i (if td_Fulfilled state = [] then [[], fulfilled_entry path, []] else body @ [fulfilled_entry path, []])"
      by (auto simp: record_fulfilled_def split: sum.splits)
    have find: "findUniqueTaskSection lines TaskFulfilledDependenciesHeading = Inr (Some i)" using Inr Some by simp
    note full = dependency_fulfilled [OF find body path ful, folded lines']
    have "bodies TaskFulfilledDependenciesHeading 0 lines \<noteq> []" using find_unique(2) [OF find] by simp
    with full out show ?thesis by auto
  qed
qed (use run in \<open>simp add: record_fulfilled_def\<close>)

lemma dependency_retired:
  assumes run: "RetireTaskDependency content path = Inr (result, changed)"
  shows "\<exists>state. ParseTaskDependencyState content = Inr state \<and> (changed \<longleftrightarrow> path \<in> set (td_Outstanding state)) \<and>
     (if changed then ParseTaskDependencyState result = Inr \<lparr>td_Outstanding = filter (\<lambda>q. q \<noteq> path) (td_Outstanding state),
         td_Fulfilled = (if fulfilled_lost content then [] else td_Fulfilled state @ [path])\<rparr>
      else result = content)"
proof (cases changed)
  case False
  with run show ?thesis
    by (auto simp: RetireTaskDependency_def containsSchedulePath_def list_ex_iff Let_def split: sum.splits option.splits if_splits)
next
  case True
  let ?L = "lines_of content"
  obtain state start body lines' where state: "ParseTaskDependencyState content = Inr state" "path \<in> set (td_Outstanding state)"
    and find: "findUniqueTaskSection ?L TaskDependenciesHeading = Inr (Some start)"
    and body: "retirementDependencyBody (section_body ?L start) path = Inr body"
    and recording: "record_fulfilled state path (replace_section ?L start body) = Inr lines'" and result: "result = join_with [line_break] lines'"
    using retire_changed run True by metis
  note parsed = state(1) [unfolded parse_state]
  let ?L1 = "replace_section ?L start body"
  note removed = dependency_removed [OF find body parsed [THEN conjunct1]]
  have path: "entry_path path" "path \<notin> set (td_Fulfilled state)" using parsed parsed_path state(2) by blast+
  have ful: "\<forall>q\<in>set (td_Fulfilled state). entry_path q" using parsed parsed_path by blast
  have ful1: "parse_bodies False (bodies TaskFulfilledDependenciesHeading 0 ?L1) = Some (td_Fulfilled state)" using parsed removed by simp
  note ends = recorded [OF recording path removed [THEN conjunct1] ful1 ful]
  let ?S = "insert TaskFulfilledDependenciesHeading (insert (fulfilled_entry path) (insert [] (insert ''none'' (set ?L))))"
  have "\<forall>line\<in>set ?L. line_break \<notin> set line" using split_on_parts_no_sep by blast
  then have "\<forall>line\<in>?S. line_break \<notin> set line" using new_entry [OF path(1)] by simp
  moreover have "set lines' \<subseteq> ?S" using ends removed by blast
  ultimately have "\<forall>line\<in>set lines'. line_break \<notin> set line" by blast
  then have lines: "lines_of result = lines'" unfolding result using ends by (intro split_join) simp
  have lost: "0 < fence_after 0 ?L1 \<and> bodies TaskFulfilledDependenciesHeading 0 ?L1 = [] \<longleftrightarrow> fulfilled_lost content"
    using removed find_unique(1) by (simp add: fulfilled_lost_def)
  have "ParseTaskDependencyState result = Inr \<lparr>td_Outstanding = filter (\<lambda>q. q \<noteq> path) (td_Outstanding state),
      td_Fulfilled = (if fulfilled_lost content then [] else td_Fulfilled state @ [path])\<rparr>"
    unfolding parse_state lines using ends parsed lost by auto
  with state True show ?thesis by auto
qed

text \<open>
  C34. Retiring a dependency does exactly that. When it succeeds, the document parses; when the path was not an outstanding
  dependency, the document is as it was; when it was one, the new document parses to the same outstanding dependencies
  without the path and the same fulfilled ones with the path added at the end. There is one exception, in which the path
  is lost: the document ends inside a code fence that is never closed and has no section of fulfilled dependencies yet, and
  the section is appended inside the fence.
\<close>

theorem retire_dependency_exact:
  assumes run: "RetireTaskDependency content path = Inr (result, changed)"
  shows "\<exists>state. ParseTaskDependencyState content = Inr state \<and> (changed \<longleftrightarrow> path \<in> set (td_Outstanding state)) \<and>
     (if changed then ParseTaskDependencyState result = Inr \<lparr>td_Outstanding = filter (\<lambda>q. q \<noteq> path) (td_Outstanding state),
         td_Fulfilled = (if fulfilled_lost content then [] else td_Fulfilled state @ [path])\<rparr>
      else result = content)"
  using run by (rule dependency_retired)


definition sample_task :: string where
  "sample_task = join_with [line_break] [''# Task'', [], TaskDependenciesHeading, [], ''- IMPLEMENTATION_TASKS/a.md'',
     ''- '' @ [backtick] @ ''IMPLEMENTATION_TASKS/b.md'' @ [backtick], [], ''## Scope'', ''text'']"

theorem retire_dependency_exact_witness:
  "\<exists>result. RetireTaskDependency sample_task ''IMPLEMENTATION_TASKS/a.md'' = Inr (result, True) \<and>
     ParseTaskDependencyState result = Inr \<lparr>td_Outstanding = [''IMPLEMENTATION_TASKS/b.md''], td_Fulfilled = [''IMPLEMENTATION_TASKS/a.md'']\<rparr>"
proof -
  let ?p = "''IMPLEMENTATION_TASKS/a.md''"
  have "map_sum id snd (RetireTaskDependency sample_task ?p) = Inr True" by code_simp
  then obtain result where run: "RetireTaskDependency sample_task ?p = Inr (result, True)" by (auto simp: map_sum_Inr)
  have state: "ParseTaskDependencyState sample_task = Inr \<lparr>td_Outstanding = [?p, ''IMPLEMENTATION_TASKS/b.md''], td_Fulfilled = []\<rparr>"
    by code_simp
  have "\<not> fulfilled_lost sample_task" by code_simp
  with retire_dependency_exact [OF run] state run show ?thesis by auto
qed

end
