(* ===== verification/Plan_Retirement.thy ===== *)
theory Plan_Retirement
  imports Task_Retirement
begin

text \<open>
  Retiring a finished task from the schedule of a plan (\<^verbatim>\<open>taskcontract/retirement.go\<close>): its entry goes, and the first of the
  next tasks takes the place of a retired active one. The code edits the text line by line and thins out empty lines; the
  theorem states what the edited text parses to.
\<close>

section \<open>The schedule of a plan\<close>

definition retirementPlanSection :: "string \<Rightarrow> planScheduleSection option" where
  "retirementPlanSection line = find (\<lambda>section. scheduleHeadingMatches section (heading_text line))
     [planScheduleActive, planScheduleNext, planScheduleBlocked]"

definition link_entry :: "string \<Rightarrow> string" where
  "link_entry path = ''- ['' @ [backtick] @ path @ [backtick] @ ''](''  @ path @ '')''"

definition retirementPlanLine :: "string \<Rightarrow> planScheduleSection \<Rightarrow> string \<Rightarrow> string \<Rightarrow> (state_error, string) result" where
  "retirementPlanLine line section target successor =
     (case scheduleEntryPath section (trim_space (trim_prefix (trim_space line) ''- '')) of
        Inl e \<Rightarrow> Inl e
      | Inr path \<Rightarrow> Inr (
          if path = target then
            if section = planScheduleActive then
              if has_prefix (trim_space line) (''- ['' @ [backtick]) then link_entry successor else fulfilled_entry successor
            else []
          else if successor \<noteq> [] \<and> path = successor \<and> section = planScheduleNext then []
          else line))"

definition retirePlanScheduleLine ::
    "string \<Rightarrow> planScheduleSection option \<Rightarrow> string \<Rightarrow> string \<Rightarrow> (state_error, string \<times> bool) result" where
  "retirePlanScheduleLine line section target successor = (case section of
       None \<Rightarrow> Inr (line, False)
     | Some sec \<Rightarrow>
         if trim_space line = [] \<or> heads line then Inr (line, False)
         else map_sum id (\<lambda>updated. (updated, updated = [])) (retirementPlanLine line sec target successor))"

text \<open>The loop over the lines, with the lines written so far.\<close>

fun retire_lines ::
    "string list \<Rightarrow> planScheduleSection option \<Rightarrow> string \<Rightarrow> string \<Rightarrow> string list \<Rightarrow> (state_error, string list) result" where
  "retire_lines result section target successor [] = Inr result"
| "retire_lines result section target successor (line # lines) =
     (let section = (if heads line then retirementPlanSection line else section) in
      case retirePlanScheduleLine line section target successor of
        Inl e \<Rightarrow> Inl e
      | Inr (updated, removed) \<Rightarrow>
          retire_lines (if removed \<or> section \<noteq> None \<and> updated = [] \<and> result \<noteq> [] \<and> last result = [] then result else result @ [updated])
            section target successor lines)"

definition retirePlanScheduleLines :: "string \<Rightarrow> string \<Rightarrow> string \<Rightarrow> (state_error, string list) result" where
  "retirePlanScheduleLines plan target successor = retire_lines [] None target successor (lines_of plan)"

definition validateTerminalScheduleRetirement :: "string \<Rightarrow> string \<Rightarrow> string \<Rightarrow> state_error option" where
  "validateTerminalScheduleRetirement plan target successor = (let schedule = ParsePlanSchedule plan in
     case ValidateComplete schedule of
       Inl e \<Rightarrow> Some e
     | Inr active \<Rightarrow>
         if count_list (active # ps_Next schedule @ ps_Blocked schedule) target \<noteq> 1 \<or>
            (active = target \<and> (ps_Next schedule = [] \<or> hd (ps_Next schedule) \<noteq> successor)) \<or>
            (active \<noteq> target \<and> successor \<noteq> [])
         then Some (Errorf ''terminal schedule retirement is not mechanically determined'' []) else None)"

definition validateTerminalScheduleRetirementResult :: "string \<Rightarrow> string \<Rightarrow> string \<Rightarrow> state_error option" where
  "validateTerminalScheduleRetirementResult plan target successor = (let schedule = ParsePlanSchedule plan in
     case ValidateComplete schedule of
       Inl e \<Rightarrow> Some e
     | Inr active \<Rightarrow>
         if list_ex (\<lambda>path. path = target \<or> (successor \<noteq> [] \<and> path = successor \<and> active \<noteq> successor))
             (active # ps_Next schedule @ ps_Blocked schedule)
         then Some (Errorf ''terminal schedule retirement retained a retired or duplicated entry'' [])
         else if successor \<noteq> [] \<and> active \<noteq> successor
         then Some (Errorf ''terminal schedule retirement did not promote the successor'' []) else None)"

definition RetirePlanTask :: "string \<Rightarrow> string \<Rightarrow> string \<Rightarrow> (state_error, string) result" where
  "RetirePlanTask plan target successor = (case validateTerminalScheduleRetirement plan target successor of
       Some e \<Rightarrow> Inl e
     | None \<Rightarrow> (case retirePlanScheduleLines plan target successor of
           Inl e \<Rightarrow> Inl e
         | Inr lines \<Rightarrow> (let updated = join_with [line_break] lines in
             case validateTerminalScheduleRetirementResult updated target successor of Some e \<Rightarrow> Inl e | None \<Rightarrow> Inr updated)))"

section \<open>The edited plan\<close>

text \<open>The updated lines before the empty ones are thinned out.\<close>

fun updated_lines :: "planScheduleSection option \<Rightarrow> string \<Rightarrow> string \<Rightarrow> string list \<Rightarrow> (state_error, string list) result" where
  "updated_lines section target successor [] = Inr []"
| "updated_lines section target successor (line # lines) =
     (let section = (if heads line then retirementPlanSection line else section) in
      case retirePlanScheduleLine line section target successor of
        Inl e \<Rightarrow> Inl e
      | Inr (updated, _) \<Rightarrow> map_sum id (\<lambda>us. updated # us) (updated_lines section target successor lines))"

abbreviation written :: "string list \<Rightarrow> string list" where
  "written lines \<equiv> filter (\<lambda>line. line \<noteq> []) lines"

lemma removed_empty: "retirePlanScheduleLine line section target successor = Inr (updated, True) \<Longrightarrow> updated = []"
  by (auto simp: retirePlanScheduleLine_def map_sum_Inr split: option.splits if_splits)

lemma retire_updates:
  "retire_lines result section target successor lines = Inr out \<Longrightarrow>
   \<exists>us. updated_lines section target successor lines = Inr us \<and> written out = written result @ written us \<and> set out \<subseteq> set result \<union> set us"
proof (induction lines arbitrary: result "section")
  case (Cons line lines)
  let ?section = "if heads line then retirementPlanSection line else section"
  obtain updated removed where u: "retirePlanScheduleLine line ?section target successor = Inr (updated, removed)"
    using Cons.prems by (auto simp: Let_def split: sum.splits)
  define drops where "drops \<longleftrightarrow> removed \<or> ?section \<noteq> None \<and> updated = [] \<and> result \<noteq> [] \<and> last result = []"
  have drops: "updated = []" if drops
    using that removed_empty [of line ?section target successor updated] u unfolding drops_def by (cases removed) auto
  have "retire_lines (if drops then result else result @ [updated]) ?section target successor lines = Inr out"
    using Cons.prems u unfolding drops_def by (simp only: retire_lines.simps Let_def sum.case prod.case)
  from Cons.IH [OF this] obtain us where us: "updated_lines ?section target successor lines = Inr us"
    "written out = written (if drops then result else result @ [updated]) @ written us" "set out \<subseteq> set (if drops then result else result @ [updated]) \<union> set us"
    by blast
  have "updated_lines section target successor (line # lines) = Inr (updated # us)"
    using us(1) u by (simp only: updated_lines.simps Let_def sum.case prod.case map_sum.simps)
  moreover have "written out = written result @ written (updated # us)" using us(2) drops by (cases drops) simp_all
  moreover have "set out \<subseteq> set result \<union> set (updated # us)" using us(3) by (cases drops) auto
  ultimately show ?case by blast
qed auto

lemma entries_written: "section_entries section inSection (written lines) = section_entries section inSection lines"
proof (induction lines arbitrary: inSection)
  case (Cons line lines)
  show ?case
  proof (cases "line = []")
    case True
    then show ?thesis using Cons.IH by (simp add: has_prefix_def)
  qed (simp add: Cons.IH split: sum.split)
qed simp

subsection \<open>Entries\<close>

lemma cut_at_append: "cut_at s sep = Some (a, b) \<Longrightarrow> s = a @ sep @ b"
proof (induction s arbitrary: a)
  case (Cons c s)
  show ?case
  proof (cases "has_prefix (c # s) sep")
    case True
    with Cons.prems show ?thesis by (simp add: has_prefix_def) (metis append_take_drop_id)
  next
    case False
    with Cons.prems obtain a' where "cut_at s sep = Some (a', b)" "a = c # a'" by auto
    with Cons.IH show ?thesis by simp
  qed
qed (simp split: if_splits)

lemma cut_at_first: "c \<notin> set s \<Longrightarrow> cut_at (s @ (c # sep) @ rest) (c # sep) = Some (s, rest)"
  by (induction s) (auto simp: has_prefix_def)

lemma schedule_path_cases:
  assumes "scheduleEntryPath section item = Inr path"
  obtains "backtick \<notin> set item" "path = item"
    | "count_byte item backtick = 2" "has_prefix item [backtick]" "has_suffix item [backtick]" "path = butlast (tl item)"
    | "count_byte item backtick = 2" "has_prefix item [CHR ''['', backtick]"
      "cut_at (drop 2 item) [backtick, CHR '']'', CHR ''(''] = Some (path, path @ '')'')"
proof (cases "count_byte item backtick = 0")
  case True
  with assms show ?thesis by (intro that(1)) (simp_all add: scheduleEntryPath_def Let_def split: if_splits)
next
  case False
  with assms have two: "count_byte item backtick = 2" by (simp only: scheduleEntryPath_def Let_def sum.simps split: if_splits)
  show ?thesis
  proof (cases "has_prefix item [backtick] \<and> has_suffix item [backtick]")
    case True
    with assms two show ?thesis by (intro that(2)) (simp_all add: scheduleEntryPath_def Let_def)
  next
    case False
    obtain label destination ok where cut: "cut (drop 2 item) [backtick, CHR '']'', CHR ''(''] = (label, destination, ok)" by (metis prod_cases3)
    have "has_prefix item [CHR ''['', backtick]" "ok" "destination = label @ '')''" "label = path"
      using assms two False by (simp_all only: scheduleEntryPath_def Let_def cut prod.case sum.simps zero_neq_numeral [symmetric] if_False if_True refl split: if_splits)
    with cut show ?thesis by (intro that(3) two) (simp_all add: cut_def split: option.splits prod.splits)
  qed
qed

lemma schedule_entry:
  assumes "scheduleEntryPath section item = Inr path"
  shows "backtick \<notin> set path \<and> set path \<subseteq> set item"
  using assms
proof (cases rule: schedule_path_cases)
  case 2
  then obtain s where s: "item = backtick # s" by (cases item) (auto simp: has_prefix_def)
  with 2 obtain t where "s = t @ [backtick]" by (cases s rule: rev_cases) (auto simp: has_suffix_def has_prefix_def)
  with s 2 show ?thesis by auto
next
  case 3
  from cut_at_append [OF 3(3)] have "drop 2 item = path @ [backtick, CHR '']'', CHR ''(''] @ path @ '')''" .
  moreover have "take 2 item = [CHR ''['', backtick]" using 3(2) by (simp add: has_prefix_def numeral_2_eq_2)
  ultimately have item: "item = [CHR ''['', backtick] @ path @ [backtick, CHR '']'', CHR ''(''] @ path @ '')''"
    by (metis append_take_drop_id)
  have "count_byte item backtick = 2 + 2 * count_byte path backtick" by (subst item) simp
  with 3(1) have "backtick \<notin> set path" by simp
  moreover have "set path \<subseteq> set item" using arg_cong [OF item, of set] by auto
  ultimately show ?thesis by simp
qed simp

text \<open>The line written for the successor is an entry of it.\<close>

definition entry_line :: "planScheduleSection \<Rightarrow> string \<Rightarrow> string \<Rightarrow> bool" where
  "entry_line section line path \<longleftrightarrow> trim_space line \<noteq> [] \<and> \<not> heads line \<and> has_prefix (trim_space line) ''- '' \<and>
     scheduleEntryPath section (trim_space (trim_prefix (trim_space line) ''- '')) = Inr path"

lemma entry_line_trimmed:
  assumes "graphic d" "scheduleEntryPath section (c # s @ [d]) = Inr path" "graphic c"
  shows "entry_line section (''- '' @ c # s @ [d]) path"
proof -
  have dash: "graphic (CHR ''-'')" by (simp add: graphic_def)
  have "trim_space (''- '' @ c # s @ [d]) = ''- '' @ c # s @ [d]" using trim_ends [OF dash assms(1), of "'' '' @ c # s"] by simp
  moreover have "trim_space (c # s @ [d]) = c # s @ [d]" by (rule trim_ends [OF assms(3,1)])
  ultimately show ?thesis using assms(2) by (simp add: entry_line_def has_prefix_def trim_prefix_def)
qed

lemma successor_lines:
  assumes "backtick \<notin> set path"
  shows "entry_line section (fulfilled_entry path) path" "entry_line section (link_entry path) path"
proof -
  have g: "graphic backtick" "graphic (CHR ''['')" "graphic (CHR '')'')" by (simp_all add: graphic_def)
  have "scheduleEntryPath section (backtick # path @ [backtick]) = Inr path"
    using assms by (simp add: scheduleEntryPath_def has_prefix_def has_suffix_def)
  from entry_line_trimmed [OF g(1) this g(1)] show "entry_line section (fulfilled_entry path) path" by (simp add: fulfilled_entry_def)
  let ?s = "backtick # path @ [backtick, CHR '']'', CHR ''(''] @ path"
  have "cut_at (drop 2 (CHR ''['' # ?s @ [CHR '')''])) [backtick, CHR '']'', CHR ''(''] = Some (path, path @ '')'')"
    using cut_at_first [of backtick path "[CHR '']'', CHR ''('']" "path @ '')''"] assms by simp
  then have "scheduleEntryPath section (CHR ''['' # ?s @ [CHR '')'']) = Inr path"
    using assms by (simp add: scheduleEntryPath_def has_prefix_def has_suffix_def cut_def)
  from entry_line_trimmed [OF g(3) this g(2)] show "entry_line section (link_entry path) path" by (simp add: link_entry_def)
qed

lemma entry_line_entries:
  "entry_line section line path \<Longrightarrow> section_entries section True (line # lines) = map_sum id ((#) path) (section_entries section True lines)"
  by (simp add: entry_line_def)

text \<open>The entries of a section after the retirement.\<close>

fun retired_entries :: "planScheduleSection \<Rightarrow> string \<Rightarrow> string \<Rightarrow> string list \<Rightarrow> string list" where
  "retired_entries planScheduleActive target successor entries = map (\<lambda>path. if path = target then successor else path) entries"
| "retired_entries planScheduleNext target successor entries =
     filter (\<lambda>path. path \<noteq> target \<and> (successor = [] \<or> path \<noteq> successor)) entries"
| "retired_entries planScheduleBlocked target successor entries = filter (\<lambda>path. path \<noteq> target) entries"

lemma retired_entries_Cons:
  "retired_entries S target successor (path # entries) = retired_entries S target successor [path] @ retired_entries S target successor entries"
  "retired_entries S target successor [] = []"
  by (cases S; simp)+

lemma plan_section: "retirementPlanSection line = Some S \<longleftrightarrow> scheduleHeadingMatches S (heading_text line)"
proof (cases "heading_text line")
  case (Cons c cs)
  then show ?thesis by (cases S) (auto simp: retirementPlanSection_def scheduleHeadingMatches_def has_prefix_def)
qed (cases S; simp add: retirementPlanSection_def scheduleHeadingMatches_def has_prefix_def)

lemma updated_cases:
  assumes "retirePlanScheduleLine line sec target successor = Inr (u, r)"
  shows "u \<in> {line, [], fulfilled_entry successor, link_entry successor}"
proof -
  have "u = line \<or> (\<exists>S. retirementPlanLine line S target successor = Inr u)"
    using assms by (auto simp: retirePlanScheduleLine_def map_sum_Inr split: option.splits if_splits)
  moreover have "v \<in> {line, [], fulfilled_entry successor, link_entry successor}" if "retirementPlanLine line S target successor = Inr v" for S v
    using that by (simp add: retirementPlanLine_def split: sum.splits if_splits)
  ultimately show ?thesis by blast
qed

lemma updated_heads:
  assumes "retirePlanScheduleLine line sec target successor = Inr (u, r)" "\<not> heads line"
  shows "\<not> heads u"
proof -
  have "\<not> heads []" "\<not> heads (fulfilled_entry successor)" "\<not> heads (link_entry successor)"
    by (simp_all add: has_prefix_def fulfilled_entry_def link_entry_def)
  with updated_cases [OF assms(1)] assms(2) show ?thesis by auto
qed

lemma entry_updated:
  assumes line: "entry_line S line path" and named: "S = planScheduleActive \<Longrightarrow> path = target \<Longrightarrow> backtick \<notin> set successor"
    and run: "retirePlanScheduleLine line (Some S) target successor = Inr (u, r)"
  shows "section_entries S True (u # ls) = map_sum id ((@) (retired_entries S target successor [path])) (section_entries S True ls)"
proof -
  have empty: "section_entries S True ([] # ls) = section_entries S True ls" by (simp add: has_prefix_def)
  have same: "map_sum id ((@) []) r = r" for r :: "(state_error, string list) result" by (cases r) simp_all
  have one: "(@) [q] = (#) q" for q :: string by auto
  have u: "retirementPlanLine line S target successor = Inr u"
    using run line by (auto simp: retirePlanScheduleLine_def entry_line_def map_sum_Inr)
  have path: "scheduleEntryPath S (trim_space (trim_prefix (trim_space line) ''- '')) = Inr path" using line by (simp add: entry_line_def)
  consider "path = target" "S = planScheduleActive" "u \<in> {fulfilled_entry successor, link_entry successor}"
    | "path = target" "S \<noteq> planScheduleActive" "u = []"
    | "path \<noteq> target" "successor \<noteq> []" "path = successor" "S = planScheduleNext" "u = []"
    | "path \<noteq> target" "successor = [] \<or> path \<noteq> successor \<or> S \<noteq> planScheduleNext" "u = line"
    using u path unfolding retirementPlanLine_def by (simp split: if_splits)
  then show ?thesis
  proof cases
    case 1
    then have "entry_line S u successor" using successor_lines [OF named] by auto
    with 1 show ?thesis by (simp only: entry_line_entries) (simp add: one)
  next
    case 2
    then have "retired_entries S target successor [path] = []" by (cases S) auto
    with 2(3) show ?thesis by (simp only: empty same)
  next
    case 3
    then have "retired_entries S target successor [path] = []" by simp
    with 3(5) show ?thesis by (simp only: empty same)
  next
    case 4
    then have "retired_entries S target successor [path] = [path]" by (cases S) auto
    with 4 line show ?thesis by (simp only: entry_line_entries one)
  qed
qed

lemma line_retired:
  assumes plain: "\<not> heads line" and run: "retirePlanScheduleLine line (Some S) target successor = Inr (u, r)"
    and entries: "section_entries S True (line # lines) = Inr entries"
    and named: "S = planScheduleActive \<Longrightarrow> target \<in> set entries \<Longrightarrow> backtick \<notin> set successor"
  obtains added rest where "section_entries S True lines = Inr rest" "set rest \<subseteq> set entries"
    "retired_entries S target successor entries = added @ retired_entries S target successor rest"
    "\<And>ls. section_entries S True (u # ls) = map_sum id ((@) added) (section_entries S True ls)"
proof (cases "trim_space line = []")
  case True
  then have "u = line" using run by (simp add: retirePlanScheduleLine_def)
  moreover have "map_sum id ((@) []) r = r" for r :: "(state_error, string list) result" by (cases r) simp_all
  ultimately show ?thesis using that [of entries "[]"] True plain entries by simp
next
  case False
  obtain path where line: "entry_line S line path"
    using entries plain False by (auto simp: entry_line_def split: if_splits sum.splits)
  have "map_sum id ((#) path) (section_entries S True lines) = Inr entries"
    using entries entry_line_entries [OF line, of lines] by (simp only:)
  then obtain rest where rest: "section_entries S True lines = Inr rest" "entries = path # rest" by (auto simp: map_sum_Inr)
  have "S = planScheduleActive \<Longrightarrow> path = target \<Longrightarrow> backtick \<notin> set successor" using named rest(2) by auto
  note updated = entry_updated [OF line this run]
  show ?thesis by (rule that [OF rest(1) _ _ updated]) (simp_all only: rest(2) retired_entries_Cons(1) [of S target successor path rest], auto)
qed

lemma section_retired:
  assumes "inSection \<longleftrightarrow> sec = Some S" "section_entries S inSection lines = Inr entries" "updated_lines sec target successor lines = Inr us"
    "S = planScheduleActive \<Longrightarrow> target \<in> set entries \<Longrightarrow> backtick \<notin> set successor"
  shows "section_entries S inSection us = Inr (retired_entries S target successor entries)"
  using assms
proof (induction lines arbitrary: inSection sec entries us)
  case Nil
  then show ?case by (simp add: retired_entries_Cons)
next
  case (Cons line lines)
  let ?sec = "if heads line then retirementPlanSection line else sec"
  obtain u r us' where u: "retirePlanScheduleLine line ?sec target successor = Inr (u, r)"
    and us': "updated_lines ?sec target successor lines = Inr us'" and us: "us = u # us'"
    using Cons.prems(3) by (auto simp only: updated_lines.simps Let_def map_sum_Inr split: sum.splits prod.splits)
  show ?case
  proof (cases "heads line")
    case True
    then have "u = line" using u by (auto simp: retirePlanScheduleLine_def split: option.splits)
    show ?thesis
    proof (cases inSection)
      case True
      with Cons.prems(2) \<open>heads line\<close> \<open>u = line\<close> us show ?thesis by (simp add: retired_entries_Cons)
    next
      case False
      with Cons.prems(2) \<open>heads line\<close> have entries: "section_entries S (scheduleHeadingMatches S (heading_text line)) lines = Inr entries" by simp
      have "scheduleHeadingMatches S (heading_text line) \<longleftrightarrow> ?sec = Some S" using \<open>heads line\<close> plan_section by simp
      from Cons.IH [OF this entries us' Cons.prems(4)] False \<open>heads line\<close> \<open>u = line\<close> us show ?thesis by simp
    qed
  next
    case plain: False
    then have sec: "?sec = sec" by simp
    note u = u [unfolded sec] and us' = us' [unfolded sec]
    have "\<not> heads u" by (rule updated_heads [OF u plain])
    show ?thesis
    proof (cases inSection)
      case False
      with Cons.prems(2) plain have "section_entries S inSection lines = Inr entries" by simp
      from Cons.IH [OF Cons.prems(1) this us' Cons.prems(4)] False \<open>\<not> heads u\<close> us show ?thesis by simp
    next
      case True
      with Cons.prems(1) have S: "sec = Some S" "inSection = True" by simp_all
      obtain added rest where rest: "section_entries S inSection lines = Inr rest" "set rest \<subseteq> set entries"
        "retired_entries S target successor entries = added @ retired_entries S target successor rest"
        "\<And>ls. section_entries S inSection (u # ls) = map_sum id ((@) added) (section_entries S inSection ls)"
        using line_retired [OF plain u [unfolded S] Cons.prems(2) [unfolded S] Cons.prems(4)] unfolding S by metis
      have "S = planScheduleActive \<Longrightarrow> target \<in> set rest \<Longrightarrow> backtick \<notin> set successor" using Cons.prems(4) rest(2) by blast
      from Cons.IH [OF Cons.prems(1) rest(1) us' this] show ?thesis by (simp only: us rest(3,4) map_sum.simps)
    qed
  qed
qed

lemma section_path:
  "section_entries S inSection lines = Inr entries \<Longrightarrow> p \<in> set entries \<Longrightarrow> backtick \<notin> set p \<and> (\<exists>line\<in>set lines. set p \<subseteq> set line)"
proof (induction lines arbitrary: inSection entries)
  case (Cons line lines)
  show ?case
  proof (cases "\<not> heads line \<and> inSection \<and> trim_space line \<noteq> []")
    case True
    then obtain path rest where entry: "scheduleEntryPath S (trim_space (trim_prefix (trim_space line) ''- '')) = Inr path"
      and rest: "section_entries S inSection lines = Inr rest" "entries = path # rest"
      using Cons.prems(1) by (auto simp: map_sum_Inr split: if_splits sum.splits)
    have "set (trim_prefix (trim_space line) ''- '') \<subseteq> set (trim_space line)" by (auto simp: trim_prefix_def dest: in_set_dropD)
    then have "set (trim_space (trim_prefix (trim_space line) ''- '')) \<subseteq> set line" using set_trim by blast
    with schedule_entry [OF entry] have "backtick \<notin> set path \<and> set path \<subseteq> set line" by blast
    with Cons.IH [OF rest(1)] Cons.prems(2) rest(2) show ?thesis by auto
  next
    case False
    then have "\<exists>b. section_entries S b lines = Inr entries" using Cons.prems by (auto split: if_splits)
    with Cons.IH Cons.prems(2) show ?thesis by auto
  qed
qed simp

subsection \<open>The schedule after the retirement\<close>

definition retired_schedule :: "PlanSchedule \<Rightarrow> string \<Rightarrow> string \<Rightarrow> PlanSchedule" where
  "retired_schedule s target successor = s\<lparr>ps_Active := retired_entries planScheduleActive target successor (ps_Active s),
     ps_Next := retired_entries planScheduleNext target successor (ps_Next s),
     ps_Blocked := retired_entries planScheduleBlocked target successor (ps_Blocked s)\<rparr>"

definition retirable :: "PlanSchedule \<Rightarrow> string \<Rightarrow> string \<Rightarrow> bool" where
  "retirable s target successor \<longleftrightarrow> schedule_parseError s = None \<and> target \<in> set (scheduled s) \<and>
     (\<exists>active. ps_Active s = [active] \<and> (if active = target then ps_Next s \<noteq> [] \<and> hd (ps_Next s) = successor else successor = []))"

lemma complete_schedule:
  assumes "ValidateComplete s = Inr active"
  shows "schedule_parseError s = None \<and> ps_Active s = [active]"
proof -
  have active: "ActiveTask s = Inr active" using assms by (simp add: ValidateComplete_def split: sum.splits option.splits if_splits)
  then have "ps_activeErr s = None" "ps_Active s = [active]" by (simp_all add: ActiveTask_def split: option.splits list.splits)
  moreover have "ps_nextErr s = None" "ps_blockedErr s = None"
    using assms active by (auto simp: ValidateComplete_def split: option.splits)
  ultimately show ?thesis by (simp add: schedule_parseError_def)
qed

lemma validated_retirable:
  assumes "validateTerminalScheduleRetirement plan target successor = None"
  shows "retirable (ParsePlanSchedule plan) target successor"
proof -
  let ?s = "ParsePlanSchedule plan"
  obtain active where active: "ValidateComplete ?s = Inr active" and once: "count_list (active # ps_Next ?s @ ps_Blocked ?s) target = 1"
    and succ: "\<not> (active = target \<and> (ps_Next ?s = [] \<or> hd (ps_Next ?s) \<noteq> successor))" "\<not> (active \<noteq> target \<and> successor \<noteq> [])"
    using assms by (auto simp only: validateTerminalScheduleRetirement_def Let_def option.distinct split: sum.splits if_splits)
  note complete = complete_schedule [OF active]
  have "target \<in> set (active # ps_Next ?s @ ps_Blocked ?s)" using once by (metis count_list_0_iff zero_neq_one)
  with complete succ show ?thesis unfolding retirable_def by auto
qed

lemma updated_within:
  "updated_lines sec target successor lines = Inr us \<Longrightarrow> set us \<subseteq> set lines \<union> {[], fulfilled_entry successor, link_entry successor}"
proof (induction lines arbitrary: sec us)
  case (Cons line lines)
  let ?sec = "if heads line then retirementPlanSection line else sec"
  obtain u r us' where u: "retirePlanScheduleLine line ?sec target successor = Inr (u, r)"
    and us': "updated_lines ?sec target successor lines = Inr us'" and us: "us = u # us'"
    using Cons.prems by (auto simp only: updated_lines.simps Let_def map_sum_Inr split: sum.splits prod.splits)
  from Cons.IH [OF us'] updated_cases [OF u] us show ?case by auto
qed simp

lemma parsed_sections:
  assumes "schedule_parseError (ParsePlanSchedule plan) = None"
  shows "parsePlanScheduleSection plan planScheduleActive = Inr (ps_Active (ParsePlanSchedule plan))"
    "parsePlanScheduleSection plan planScheduleNext = Inr (ps_Next (ParsePlanSchedule plan))"
    "parsePlanScheduleSection plan planScheduleBlocked = Inr (ps_Blocked (ParsePlanSchedule plan))"
  using assms by (auto simp: schedule_parseError_def ParsePlanSchedule_def Let_def entries_of_def error_in_def split: sum.splits)

lemma successor_plain:
  assumes "retirable (ParsePlanSchedule plan) target successor"
  shows "backtick \<notin> set successor \<and> line_break \<notin> set successor"
proof (cases "successor = []")
  case False
  with assms have "ps_Next (ParsePlanSchedule plan) \<noteq> []" "hd (ps_Next (ParsePlanSchedule plan)) = successor"
    unfolding retirable_def by (auto split: if_splits)
  then have "successor \<in> set (ps_Next (ParsePlanSchedule plan))" by (metis hd_in_set)
  moreover have "section_entries planScheduleNext False (lines_of plan) = Inr (ps_Next (ParsePlanSchedule plan))"
    using assms parsed_sections(2) unfolding retirable_def parsePlanScheduleSection_def by blast
  ultimately have *: "backtick \<notin> set successor" "\<exists>line\<in>set (lines_of plan). set successor \<subseteq> set line" using section_path by blast+
  then have "line_break \<notin> set successor" using split_on_parts_no_sep [of _ line_break plan] by blast
  with * show ?thesis by blast
qed simp

lemma section_of_retired:
  assumes plan: "retirable (ParsePlanSchedule plan) target successor" and run: "retirePlanScheduleLines plan target successor = Inr out"
    and entries: "parsePlanScheduleSection plan S = Inr entries"
  shows "parsePlanScheduleSection (join_with [line_break] out) S = Inr (retired_entries S target successor entries)"
proof -
  from retire_updates [OF run [unfolded retirePlanScheduleLines_def]] obtain us
    where us: "updated_lines None target successor (lines_of plan) = Inr us" "written out = written us" "set out \<subseteq> set us" by auto
  note plain = successor_plain [OF plan]
  have "section_entries S False us = Inr (retired_entries S target successor entries)"
    by (rule section_retired [OF _ entries [unfolded parsePlanScheduleSection_def] us(1)]) (use plain in simp_all)
  then have edited: "section_entries S False out = Inr (retired_entries S target successor entries)" by (metis us(2) entries_written)
  have "\<forall>line\<in>set (lines_of plan) \<union> {[], fulfilled_entry successor, link_entry successor}. line_break \<notin> set line"
    using plain split_on_parts_no_sep [of _ line_break plan] by (auto simp: fulfilled_entry_def link_entry_def)
  then have breaks: "\<forall>line\<in>set out. line_break \<notin> set line" using updated_within [OF us(1)] us(3) by blast
  show ?thesis
  proof (cases "out = []")
    case True
    then show ?thesis using edited by (simp add: parsePlanScheduleSection_def has_prefix_def)
  qed (use edited split_join [OF _ breaks] in \<open>simp add: parsePlanScheduleSection_def\<close>)
qed

lemma scheduled_retired:
  assumes plan: "retirable s target successor" and valid: "\<forall>path\<in>set (scheduled s). ValidateActiveTaskPath path = None" and distinct: "distinct (scheduled s)"
  shows "distinct (scheduled (retired_schedule s target successor)) \<and> set (scheduled (retired_schedule s target successor)) = set (scheduled s) - {target}"
proof -
  obtain active where active: "ps_Active s = [active]"
    and succ: "if active = target then ps_Next s \<noteq> [] \<and> hd (ps_Next s) = successor else successor = []"
    using plan unfolding retirable_def by blast
  show ?thesis
  proof (cases "active = target")
    case True
    with succ obtain rest where rest: "ps_Next s = successor # rest" by (cases "ps_Next s") auto
    then have "ValidateActiveTaskPath successor = None" using valid by simp
    then have "successor \<noteq> []" by (auto simp: ValidateActiveTaskPath_def has_prefix_def TasksDir_def)
    then have "filter (\<lambda>path. path \<noteq> target \<and> (successor = [] \<or> path \<noteq> successor)) rest = rest" "filter (\<lambda>path. path \<noteq> target) (ps_Blocked s) = ps_Blocked s"
      using distinct active rest True by (auto simp: filter_id_conv)
    then have "scheduled (retired_schedule s target successor) = successor # rest @ ps_Blocked s"
      using active rest True \<open>successor \<noteq> []\<close> by (simp add: retired_schedule_def)
    with distinct active rest True show ?thesis by auto
  next
    case False
    with succ have "successor = []" by simp
    then have "scheduled (retired_schedule s target successor) = filter (\<lambda>path. path \<noteq> target) (scheduled s)"
      using active False by (simp add: retired_schedule_def)
    with distinct show ?thesis by (simp only: distinct_filter set_filter) auto
  qed
qed

lemma closed_retired:
  assumes plan: "retirable s target successor" and "closed s entries"
  shows "closed (retired_schedule s target successor) (filter (\<lambda>entry. ce_Path entry \<noteq> target) entries)"
proof -
  have error: "schedule_parseError (retired_schedule s target successor) = schedule_parseError s"
    by (simp add: schedule_parseError_def retired_schedule_def)
  have closed: "schedule_parseError s = None" "distinct (scheduled s)" "\<forall>path\<in>set (scheduled s). ValidateActiveTaskPath path = None"
      "set (scheduled s) = ce_Path ` set entries" "\<forall>entry\<in>set entries. ce_Regular entry"
    using assms(2) unfolding closed_def by blast+
  note retired = scheduled_retired [OF plan closed(3,2)]
  have "set (scheduled s) - {target} = ce_Path ` set (filter (\<lambda>entry. ce_Path entry \<noteq> target) entries)" unfolding closed(4) by auto
  with retired closed show ?thesis unfolding closed_def error by (metis DiffD1 filter_is_subset subsetD)
qed

lemma plan_retired:
  assumes run: "RetirePlanTask plan target successor = Inr updated"
  shows "ParsePlanSchedule updated = retired_schedule (ParsePlanSchedule plan) target successor \<and>
     (\<forall>entries. closed (ParsePlanSchedule plan) entries \<longrightarrow>
        closed (ParsePlanSchedule updated) (filter (\<lambda>entry. ce_Path entry \<noteq> target) entries))"
proof -
  obtain out where valid: "validateTerminalScheduleRetirement plan target successor = None"
    and lines: "retirePlanScheduleLines plan target successor = Inr out" and updated: "updated = join_with [line_break] out"
    using run by (auto simp: RetirePlanTask_def Let_def split: option.splits sum.splits)
  let ?s = "ParsePlanSchedule plan"
  have plan: "retirable ?s target successor" by (rule validated_retirable [OF valid])
  then have parsed: "schedule_parseError ?s = None" by (simp add: retirable_def)
  note sections = parsed_sections [OF parsed]
  note retired = sections [THEN section_of_retired [OF plan lines], folded updated]
  have "ps_activeErr ?s = None" "ps_nextErr ?s = None" "ps_blockedErr ?s = None" using parsed by (auto simp: schedule_parseError_def split: option.splits)
  then have "ParsePlanSchedule updated = retired_schedule ?s target successor"
    unfolding ParsePlanSchedule_def [of updated] Let_def retired by (simp add: retired_schedule_def entries_of_def error_in_def)
  with closed_retired [OF plan] show ?thesis by simp
qed

text \<open>
  C35. Retiring a task from a plan has exactly the intended effect on its schedule: when it succeeds, the edited text parses
  to the schedule in which the successor takes the place of the retired active task and leaves the next ones, or in which the
  retired task has gone from the next or blocked ones. A plan that was closed over the task files is closed over the
  files without that of the retired task.
\<close>

theorem retire_plan_exact:
  assumes run: "RetirePlanTask plan target successor = Inr updated"
  shows "ParsePlanSchedule updated = retired_schedule (ParsePlanSchedule plan) target successor \<and>
     (\<forall>entries. closed (ParsePlanSchedule plan) entries \<longrightarrow>
        closed (ParsePlanSchedule updated) (filter (\<lambda>entry. ce_Path entry \<noteq> target) entries))"
  using run by (rule plan_retired)

theorem retire_plan_exact_witness:
  "\<exists>updated. RetirePlanTask closed_plan ''IMPLEMENTATION_TASKS/a.md'' ''IMPLEMENTATION_TASKS/b.md'' = Inr updated \<and>
     ps_Active (ParsePlanSchedule updated) = [''IMPLEMENTATION_TASKS/b.md''] \<and> ps_Next (ParsePlanSchedule updated) = []"
proof -
  let ?a = "''IMPLEMENTATION_TASKS/a.md''" and ?b = "''IMPLEMENTATION_TASKS/b.md''"
  have "\<not> isl (RetirePlanTask closed_plan ?a ?b)" by code_simp
  then obtain updated where run: "RetirePlanTask closed_plan ?a ?b = Inr updated" by (cases "RetirePlanTask closed_plan ?a ?b") auto
  have "ps_Active (ParsePlanSchedule closed_plan) = [?a]" "ps_Next (ParsePlanSchedule closed_plan) = [?b]" by code_simp+
  with retire_plan_exact [OF run] run show ?thesis by (simp add: retired_schedule_def)
qed

end
