(* ===== verification/Task_Graph.thy ===== *)
theory Task_Graph
  imports Plan_Retirement
begin

text \<open>
  The graph of the dependencies of tasks (\<^verbatim>\<open>repositoryproject/graph.go\<close>). The nodes are mutable objects that the code reaches
  through pointers: \<open>tg_byPath\<close> holds the objects, and the list of pointers is the list of their paths. The contents of the
  task files are a Go map, here an association list in the order in which the map happens to be visited. The recursion of
  \<^verbatim>\<open>loadTask\<close> has fuel; the theorem shows that there is always enough, and that the graph is built exactly when the
  dependencies can be put in order.
\<close>

section \<open>The graph\<close>

record Dependency =
  dp_Task :: string
  dp_Outstanding :: "string list"
  dp_Fulfilled :: "string list"

record Blocker =
  bl_Task :: string
  bl_Section :: string
  bl_Reason :: string
  bl_Outstanding :: "string list"

record taskNode =
  tn_content :: string
  tn_outstanding :: "string list"
  tn_fulfilled :: "string list"
  tn_visiting :: bool

record TaskGraph =
  tg_nodes :: "string list"
  tg_byPath :: "string \<rightharpoonup> taskNode"

type_synonym task_contents = "(string \<times> string) list"

definition change_node :: "string \<Rightarrow> (taskNode \<Rightarrow> taskNode) \<Rightarrow> TaskGraph \<Rightarrow> TaskGraph" where
  "change_node path f g = g\<lparr>tg_byPath := (tg_byPath g)(path := map_option f (tg_byPath g path))\<rparr>"

definition add_node :: "string \<Rightarrow> string \<Rightarrow> TaskGraph \<Rightarrow> TaskGraph" where
  "add_node path content g = g\<lparr>tg_nodes := tg_nodes g @ [path],
     tg_byPath := (tg_byPath g)(path \<mapsto> \<lparr>tn_content = content, tn_outstanding = [], tn_fulfilled = [], tn_visiting = True\<rparr>)\<rparr>"

text \<open>The loop over the outstanding dependencies; \<open>None\<close> is a recursion that has run out of fuel.\<close>

fun load_outstanding :: "(string \<Rightarrow> TaskGraph \<Rightarrow> (state_error, TaskGraph) result option) \<Rightarrow> task_contents \<Rightarrow> string \<Rightarrow>
    string list \<Rightarrow> TaskGraph \<Rightarrow> (state_error, TaskGraph) result option" where
  "load_outstanding load contents path [] g = Some (Inr g)"
| "load_outstanding load contents path (dependency # dependencies) g =
     (if dependency = path then Some (Inl (Errorf ''task depends on itself'' [path]))
      else if map_of contents dependency = None
      then Some (Inl (Errorf ''dependency is neither in the tree nor fulfilled'' [path, dependency]))
      else case load dependency g of
          None \<Rightarrow> None
        | Some (Inl e) \<Rightarrow> Some (Inl e)
        | Some (Inr g') \<Rightarrow> load_outstanding load contents path dependencies
            (change_node path (\<lambda>node. node\<lparr>tn_outstanding := tn_outstanding node @ [dependency]\<rparr>) g'))"

fun loadTask :: "nat \<Rightarrow> task_contents \<Rightarrow> string \<Rightarrow> TaskGraph \<Rightarrow> (state_error, TaskGraph) result option" where
  "loadTask 0 contents path g = None"
| "loadTask (Suc fuel) contents path g = (case tg_byPath g path of
       Some node \<Rightarrow> Some (if tn_visiting node then Inl (Errorf ''task dependency cycle'' [path]) else Inr g)
     | None \<Rightarrow> (case map_of contents path of
           None \<Rightarrow> Some (Inl (Errorf ''content of the task file cannot be resolved'' [path]))
         | Some content \<Rightarrow> (case ParseTaskDependencyState content of
               Inl e \<Rightarrow> Some (Inl (Wrapf (''task '' @ path) e))
             | Inr dependencies \<Rightarrow>
                 if path \<in> set (td_Fulfilled dependencies) then Some (Inl (Errorf ''task has a fulfilled dependency on itself'' [path]))
                 else (case load_outstanding (loadTask fuel contents) contents path (td_Outstanding dependencies)
                     (change_node path (\<lambda>node. node\<lparr>tn_fulfilled := td_Fulfilled dependencies\<rparr>) (add_node path content g)) of
                       None \<Rightarrow> None
                     | Some (Inl e) \<Rightarrow> Some (Inl e)
                     | Some (Inr g') \<Rightarrow> Some (Inr (change_node path (\<lambda>node. node\<lparr>tn_visiting := False\<rparr>) g'))))))"

fun load_entries :: "nat \<Rightarrow> task_contents \<Rightarrow> string list \<Rightarrow> TaskGraph \<Rightarrow> (state_error, TaskGraph) result option" where
  "load_entries fuel contents [] g = Some (Inr g)"
| "load_entries fuel contents (entry # entries) g = (case loadTask fuel contents entry g of
       None \<Rightarrow> None
     | Some (Inl e) \<Rightarrow> Some (Inl e)
     | Some (Inr g') \<Rightarrow> load_entries fuel contents entries g')"

definition empty_graph :: TaskGraph where
  "empty_graph = \<lparr>tg_nodes = [], tg_byPath = Map.empty\<rparr>"

definition BuildTaskGraph :: "string list \<Rightarrow> task_contents \<Rightarrow> (state_error, TaskGraph) result option" where
  "BuildTaskGraph entries contents = load_entries (Suc (length contents)) contents entries empty_graph"

definition graph_Dependencies :: "TaskGraph \<Rightarrow> Dependency list" where
  "graph_Dependencies g = map (\<lambda>path. case tg_byPath g path of
       None \<Rightarrow> \<lparr>dp_Task = path, dp_Outstanding = [], dp_Fulfilled = []\<rparr>
     | Some node \<Rightarrow> \<lparr>dp_Task = path, dp_Outstanding = tn_outstanding node, dp_Fulfilled = tn_fulfilled node\<rparr>) (tg_nodes g)"

definition NextRunnable :: "TaskGraph \<Rightarrow> string list \<Rightarrow> string option" where
  "NextRunnable g next_entries = find (\<lambda>entry. case tg_byPath g entry of None \<Rightarrow> False | Some node \<Rightarrow> tn_outstanding node = []) next_entries"

definition Blockers :: "TaskGraph \<Rightarrow> string list \<Rightarrow> string list \<Rightarrow> Blocker list" where
  "Blockers g next_entries blocked =
     concat (map (\<lambda>entry. case tg_byPath g entry of
         None \<Rightarrow> []
       | Some node \<Rightarrow> if tn_outstanding node = [] then []
           else [\<lparr>bl_Task = entry, bl_Section = ''next'', bl_Reason = ''outstanding-dependencies'', bl_Outstanding = tn_outstanding node\<rparr>])
       next_entries) @
     map (\<lambda>entry. \<lparr>bl_Task = entry, bl_Section = ''blocked'', bl_Reason = ''blocked-section'',
         bl_Outstanding = (case tg_byPath g entry of None \<Rightarrow> [] | Some node \<Rightarrow> tn_outstanding node)\<rparr>) blocked"

definition TaskContent :: "TaskGraph \<Rightarrow> string \<Rightarrow> string option" where
  "TaskContent g path = map_option tn_content (tg_byPath g path)"

definition CompletionScheduleUnmet :: "string list \<Rightarrow> string list \<Rightarrow> string \<Rightarrow> string \<Rightarrow> (state_error, string list) result" where
  "CompletionScheduleUnmet next_entries blocked activeTask content = (case ParseReviewFindings content of
       Inl e \<Rightarrow> Inl (Wrapf (''task '' @ activeTask) e)
     | Inr findings \<Rightarrow> Inr ((if next_entries \<noteq> [] \<or> blocked \<noteq> [] then [''schedule_not_empty''] else []) @
         (if \<not> rf_None findings then [''open_findings''] else [])))"

section \<open>The graph is built exactly when the dependencies can be ordered\<close>

text \<open>The finished node of a task, and an order of tasks, the latest first, in which every task follows its dependencies.\<close>

definition task_node :: "task_contents \<Rightarrow> string \<Rightarrow> taskNode option" where
  "task_node contents path = (case map_of contents path of
       None \<Rightarrow> None
     | Some content \<Rightarrow> (case ParseTaskDependencyState content of
           Inl _ \<Rightarrow> None
         | Inr s \<Rightarrow> if path \<in> set (td_Fulfilled s) then None
             else Some \<lparr>tn_content = content, tn_outstanding = td_Outstanding s, tn_fulfilled = td_Fulfilled s, tn_visiting = False\<rparr>))"

fun ordered :: "task_contents \<Rightarrow> string list \<Rightarrow> bool" where
  "ordered contents [] = True"
| "ordered contents (path # earlier) = (path \<notin> set earlier \<and> ordered contents earlier \<and>
     (case task_node contents path of None \<Rightarrow> False | Some node \<Rightarrow> set (tn_outstanding node) \<subseteq> set earlier))"

definition visiting :: "TaskGraph \<Rightarrow> string set" where
  "visiting g = {path. case tg_byPath g path of None \<Rightarrow> False | Some node \<Rightarrow> tn_visiting node}"

definition finished :: "TaskGraph \<Rightarrow> string set" where
  "finished g = {path. case tg_byPath g path of None \<Rightarrow> False | Some node \<Rightarrow> \<not> tn_visiting node}"

definition built :: "task_contents \<Rightarrow> TaskGraph \<Rightarrow> bool" where
  "built contents g \<longleftrightarrow> (\<exists>order. ordered contents order \<and> set order = finished g) \<and>
     (\<forall>path\<in>finished g. tg_byPath g path = task_node contents path) \<and> distinct (tg_nodes g) \<and> set (tg_nodes g) = dom (tg_byPath g)"

definition grows :: "task_contents \<Rightarrow> string set \<Rightarrow> TaskGraph \<Rightarrow> TaskGraph \<Rightarrow> bool" where
  "grows contents P g g' \<longleftrightarrow> visiting g' = visiting g \<and> (\<forall>path\<in>visiting g - P. tg_byPath g' path = tg_byPath g path) \<and>
     finished g \<subseteq> finished g' \<and> (built contents g \<longrightarrow> built contents g')"

lemma seen_dom: "dom (tg_byPath g) = visiting g \<union> finished g"
  by (auto simp: visiting_def finished_def split: option.splits)

lemma grows_refl: "grows contents P g g"
  by (simp add: grows_def)

lemma grows_trans: "grows contents P g h \<Longrightarrow> grows contents P h k \<Longrightarrow> grows contents P g k"
  unfolding grows_def by (metis subset_trans)

lemma grows_weaken: "grows contents {} g h \<Longrightarrow> grows contents P g h"
  unfolding grows_def by auto

lemma grows_dom: "grows contents P g h \<Longrightarrow> dom (tg_byPath g) \<subseteq> dom (tg_byPath h)"
  unfolding grows_def seen_dom by auto

text \<open>Changing a node that is being visited.\<close>

lemma change_visiting:
  assumes node: "tg_byPath g path = Some node" "tn_visiting node" and keeps: "\<And>n. tn_visiting (f n) = tn_visiting n"
  shows "visiting (change_node path f g) = visiting g" "finished (change_node path f g) = finished g"
    "grows contents {path} g (change_node path f g)" "tg_byPath (change_node path f g) path = Some (f node)"
proof -
  let ?h = "change_node path f g"
  show at: "tg_byPath ?h path = Some (f node)" using node by (simp add: change_node_def)
  have off: "tg_byPath ?h q = tg_byPath g q" if "q \<noteq> path" for q using that by (simp add: change_node_def)
  have vis': "q \<in> visiting ?h \<longleftrightarrow> q \<in> visiting g" and fin': "q \<in> finished ?h \<longleftrightarrow> q \<in> finished g" for q
    by (cases "q = path"; simp add: visiting_def finished_def at off node keeps)+
  show vis: "visiting ?h = visiting g" and fin: "finished ?h = finished g" using vis' fin' by blast+
  have "path \<notin> finished g" using node by (simp add: finished_def)
  moreover have "dom (tg_byPath ?h) = dom (tg_byPath g)" using vis fin by (simp add: seen_dom)
  ultimately have "built contents g \<Longrightarrow> built contents ?h"
    unfolding built_def fin using off by (auto simp: change_node_def)
  with vis fin off show "grows contents {path} g ?h" by (auto simp: grows_def)
qed

lemma outstanding_loaded:
  assumes load: "\<And>d g g'. load d g = Some (Inr g') \<Longrightarrow> grows contents {} g g' \<and> d \<in> finished g'"
    and run: "load_outstanding load contents path ds g = Some (Inr g')" and node: "tg_byPath g path = Some node" "tn_visiting node"
  shows "grows contents {path} g g' \<and> tg_byPath g' path = Some (node\<lparr>tn_outstanding := tn_outstanding node @ ds\<rparr>) \<and>
     set ds \<subseteq> finished g' \<and> path \<notin> set ds"
  using run node
proof (induction ds arbitrary: g node)
  case Nil
  then show ?case by (simp add: grows_refl)
next
  case (Cons d ds)
  let ?f = "\<lambda>node. node\<lparr>tn_outstanding := tn_outstanding node @ [d]\<rparr>"
  obtain h where h: "load d g = Some (Inr h)" "load_outstanding load contents path ds (change_node path ?f h) = Some (Inr g')" "d \<noteq> path"
    using Cons.prems(1) by (auto split: if_splits option.splits sum.splits)
  note loaded = load [OF h(1)]
  have "path \<in> visiting g" using Cons.prems by (simp add: visiting_def)
  then have at: "tg_byPath h path = Some node" using loaded Cons.prems(2) unfolding grows_def by (metis Diff_empty)
  note changed = change_visiting [OF at Cons.prems(3), of ?f, simplified]
  have "grows contents {path} g (change_node path ?f h)" using grows_trans [OF grows_weaken changed(3)] loaded by blast
  moreover note Cons.IH [OF h(2) changed(4)]
  moreover have "d \<in> finished g'" if "grows contents {path} (change_node path ?f h) g'"
    using that loaded changed(2) unfolding grows_def by blast
  ultimately show ?case using h(3) Cons.prems(3) grows_trans [of contents "{path}" g "change_node path ?f h" g'] by simp
qed

lemma visit_added:
  fixes content :: string and fulfilled :: "string list"
  assumes "tg_byPath g path = None"
  defines "h \<equiv> change_node path (\<lambda>node. node\<lparr>tn_fulfilled := fulfilled\<rparr>) (add_node path content g)"
  shows "visiting h = insert path (visiting g)" "finished h = finished g" "built contents g \<Longrightarrow> built contents h"
    "tg_byPath h path = Some \<lparr>tn_content = content, tn_outstanding = [], tn_fulfilled = fulfilled, tn_visiting = True\<rparr>"
    "q \<noteq> path \<Longrightarrow> tg_byPath h q = tg_byPath g q"
proof -
  show at: "tg_byPath h path = Some \<lparr>tn_content = content, tn_outstanding = [], tn_fulfilled = fulfilled, tn_visiting = True\<rparr>"
    and off: "q \<noteq> path \<Longrightarrow> tg_byPath h q = tg_byPath g q" for q by (simp_all add: h_def change_node_def add_node_def)
  have vis': "q \<in> visiting h \<longleftrightarrow> q \<in> insert path (visiting g)" and fin': "q \<in> finished h \<longleftrightarrow> q \<in> finished g" for q
    by (cases "q = path"; simp add: visiting_def finished_def at off assms(1))+
  show vis: "visiting h = insert path (visiting g)" and fin: "finished h = finished g" using vis' fin' by blast+
  have "path \<notin> finished g" using assms(1) by (simp add: finished_def)
  moreover have "dom (tg_byPath h) = insert path (dom (tg_byPath g))" using vis fin by (simp add: seen_dom)
  moreover have "tg_nodes h = tg_nodes g @ [path]" "path \<notin> dom (tg_byPath g)" using assms by (auto simp: h_def change_node_def add_node_def)
  moreover have "\<forall>q\<in>finished g. tg_byPath h q = tg_byPath g q" using off calculation(1) by metis
  ultimately show "built contents g \<Longrightarrow> built contents h" unfolding built_def fin by auto
qed

lemma visit_finished:
  assumes node: "tg_byPath g path = Some node" "tn_visiting node" and spec: "task_node contents path = Some (node\<lparr>tn_visiting := False\<rparr>)"
    and loaded: "set (tn_outstanding node) \<subseteq> finished g"
  defines "h \<equiv> change_node path (\<lambda>node. node\<lparr>tn_visiting := False\<rparr>) g"
  shows "visiting h = visiting g - {path}" "finished h = insert path (finished g)" "built contents g \<Longrightarrow> built contents h"
    "q \<noteq> path \<Longrightarrow> tg_byPath h q = tg_byPath g q"
proof -
  have at: "tg_byPath h path = Some (node\<lparr>tn_visiting := False\<rparr>)" using node by (simp add: h_def change_node_def)
  show off: "q \<noteq> path \<Longrightarrow> tg_byPath h q = tg_byPath g q" for q by (simp add: h_def change_node_def)
  have vis': "q \<in> visiting h \<longleftrightarrow> q \<in> visiting g - {path}" and fin': "q \<in> finished h \<longleftrightarrow> q \<in> insert path (finished g)" for q
    by (cases "q = path"; simp add: visiting_def finished_def at off node)+
  show vis: "visiting h = visiting g - {path}" and fin: "finished h = insert path (finished g)" using vis' fin' by blast+
  have new: "path \<notin> finished g" using node by (simp add: finished_def)
  have "dom (tg_byPath h) = dom (tg_byPath g)" using node by (auto simp: h_def change_node_def)
  moreover have "tg_nodes h = tg_nodes g" by (simp add: h_def change_node_def)
  moreover have "ordered contents (path # order) \<and> set (path # order) = finished h" if "ordered contents order" "set order = finished g" for order
    using that new spec loaded fin by simp
  moreover have "\<forall>q\<in>finished h. tg_byPath h q = task_node contents q" if "\<forall>q\<in>finished g. tg_byPath g q = task_node contents q"
  proof
    fix q assume "q \<in> finished h"
    with that fin at off spec show "tg_byPath h q = task_node contents q" by (cases "q = path") auto
  qed
  ultimately show "built contents g \<Longrightarrow> built contents h" unfolding built_def by metis
qed

lemma task_loaded: "loadTask fuel contents path g = Some (Inr g') \<Longrightarrow> grows contents {} g g' \<and> path \<in> finished g'"
proof (induction fuel arbitrary: path g g')
  case (Suc fuel)
  show ?case
  proof (cases "tg_byPath g path")
    case (Some node)
    with Suc.prems show ?thesis by (auto simp: grows_refl finished_def split: if_splits)
  next
    case None
    obtain content s k where content: "map_of contents path = Some content" and s: "ParseTaskDependencyState content = Inr s" "path \<notin> set (td_Fulfilled s)"
      and run: "load_outstanding (loadTask fuel contents) contents path (td_Outstanding s)
        (change_node path (\<lambda>node. node\<lparr>tn_fulfilled := td_Fulfilled s\<rparr>) (add_node path content g)) = Some (Inr k)"
      and g': "g' = change_node path (\<lambda>node. node\<lparr>tn_visiting := False\<rparr>) k"
      using Suc.prems None by (auto split: option.splits sum.splits if_splits)
    note added = visit_added [OF None, where fulfilled = "td_Fulfilled s" and content = content]
    note loop = outstanding_loaded [OF Suc.IH run added(4), simplified]
    have at: "tg_byPath k path = Some \<lparr>tn_content = content, tn_outstanding = td_Outstanding s, tn_fulfilled = td_Fulfilled s, tn_visiting = True\<rparr>"
      using loop by simp
    have "task_node contents path = Some \<lparr>tn_content = content, tn_outstanding = td_Outstanding s, tn_fulfilled = td_Fulfilled s, tn_visiting = False\<rparr>"
      using content s by (simp add: task_node_def)
    then have spec: "task_node contents path = Some (\<lparr>tn_content = content, tn_outstanding = td_Outstanding s, tn_fulfilled = td_Fulfilled s, tn_visiting = True\<rparr>\<lparr>tn_visiting := False\<rparr>)"
      by simp
    note closed = visit_finished [OF at _ spec, folded g', simplified]
    have "path \<notin> visiting g" "path \<notin> finished g" using None by (simp_all add: visiting_def finished_def)
    have "tg_byPath g' q = tg_byPath g q" if "q \<in> visiting g" for q
    proof -
      have "q \<noteq> path" using that \<open>path \<notin> visiting g\<close> by blast
      with that closed(4) added(1,5) loop show ?thesis unfolding grows_def by (metis Diff_iff insertCI singletonD)
    qed
    moreover have "visiting g' = visiting g" using closed(1) loop added(1) \<open>path \<notin> visiting g\<close> unfolding grows_def by simp
    moreover have "built contents g \<Longrightarrow> built contents g'" using closed(3) loop added(3) unfolding grows_def by blast
    moreover have "finished g \<subseteq> finished g'" "path \<in> finished g'" using closed(2) loop added(2) unfolding grows_def by auto
    ultimately show ?thesis unfolding grows_def by blast
  qed
qed simp

text \<open>There is always enough fuel: every level of the recursion visits a task file for the first time.\<close>

definition unseen :: "task_contents \<Rightarrow> TaskGraph \<Rightarrow> string set" where
  "unseen contents g = fst ` set contents - dom (tg_byPath g)"

lemma outstanding_fuel:
  assumes load: "\<And>d g. unseen contents g \<subseteq> U \<Longrightarrow> load d g \<noteq> None"
    and mono: "\<And>d g g'. load d g = Some (Inr g') \<Longrightarrow> dom (tg_byPath g) \<subseteq> dom (tg_byPath g')"
  shows "unseen contents g \<subseteq> U \<Longrightarrow> load_outstanding load contents path ds g \<noteq> None"
proof (induction ds arbitrary: g)
  case (Cons d ds)
  have "load_outstanding load contents path ds (change_node path f g') \<noteq> None" if "load d g = Some (Inr g')" for f g'
  proof -
    have "dom (tg_byPath (change_node path f g')) = dom (tg_byPath g')" by (auto simp: change_node_def split: if_splits)
    with mono [OF that] have "unseen contents (change_node path f g') \<subseteq> unseen contents g" by (simp add: unseen_def Diff_mono)
    with Cons.prems have "unseen contents (change_node path f g') \<subseteq> U" by blast
    then show ?thesis by (rule Cons.IH)
  qed
  moreover obtain r where "load d g = Some r" using load [OF Cons.prems] by blast
  ultimately show ?case by (cases r) simp_all
qed simp

lemma task_fuel: "card (unseen contents g) < fuel \<Longrightarrow> loadTask fuel contents path g \<noteq> None"
proof (induction fuel arbitrary: path g)
  case (Suc fuel)
  have loop: "load_outstanding (loadTask fuel contents) contents path ds (change_node path f (add_node path content g)) \<noteq> None"
    if new: "tg_byPath g path = None" "map_of contents path = Some content" for ds f content
  proof (rule outstanding_fuel)
    let ?h = "change_node path f (add_node path content g)"
    have "dom (tg_byPath ?h) = insert path (dom (tg_byPath g))" by (auto simp: change_node_def add_node_def split: if_splits)
    then have "unseen contents ?h = unseen contents g - {path}" by (auto simp: unseen_def)
    moreover have "path \<in> unseen contents g" using new by (force simp: unseen_def dest: map_of_SomeD)
    moreover have "finite (unseen contents g)" by (simp add: unseen_def)
    ultimately have "card (unseen contents ?h) < fuel" using Suc.prems card_Diff1_less [of "unseen contents g" path] by simp
    then show "loadTask fuel contents d h \<noteq> None" if "unseen contents h \<subseteq> unseen contents ?h" for d h
      using that Suc.IH card_mono [of "unseen contents ?h" "unseen contents h"] by (simp add: unseen_def)
    show "dom (tg_byPath h) \<subseteq> dom (tg_byPath h')" if "loadTask fuel contents d h = Some (Inr h')" for d h h'
      using task_loaded [OF that] grows_dom by blast
  qed simp
  show ?case
    by (simp del: not_None_eq split: option.split sum.split) (intro allI impI notI, use loop in simp)
qed simp

lemma outstanding_progress:
  assumes load: "\<And>d g. d \<in> E \<Longrightarrow> visiting g \<inter> E = {} \<Longrightarrow> load d g \<noteq> Some (Inl e)"
    and grow: "\<And>d g g'. load d g = Some (Inr g') \<Longrightarrow> visiting g' = visiting g"
    and node: "\<And>d. d \<in> E \<Longrightarrow> map_of contents d \<noteq> None" "path \<notin> E"
  shows "set ds \<subseteq> E \<Longrightarrow> visiting g \<inter> E = {} \<Longrightarrow> path \<in> visiting g \<Longrightarrow> load_outstanding load contents path ds g \<noteq> Some (Inl e)"
proof (induction ds arbitrary: g)
  case (Cons d ds)
  let ?f = "\<lambda>node. node\<lparr>tn_outstanding := tn_outstanding node @ [d]\<rparr>"
  have "d \<in> E" using Cons.prems by simp
  then obtain content where d: "d \<noteq> path" "map_of contents d = Some content" "load d g \<noteq> Some (Inl e)" using Cons.prems node load by fastforce
  have "load_outstanding load contents path ds (change_node path ?f g') \<noteq> Some (Inl e)" if run: "load d g = Some (Inr g')" for g'
  proof -
    have "path \<in> visiting g'" using grow [OF run] Cons.prems(3) by simp
    then obtain n where "tg_byPath g' path = Some n" "tn_visiting n" by (auto simp: visiting_def split: option.splits)
    then have "visiting (change_node path ?f g') = visiting g" using change_visiting(1) [of g' path n ?f] grow [OF run] by simp
    with Cons.prems show ?thesis by (intro Cons.IH) auto
  qed
  with d show ?case by (auto split: option.split sum.split)
qed simp

text \<open>Tasks that are in order are loaded without an error.\<close>

lemma ordered_content: "ordered contents order \<Longrightarrow> path \<in> set order \<Longrightarrow> map_of contents path \<noteq> None"
  by (induction order) (auto simp: task_node_def split: option.splits)

lemma ordered_loads:
  "ordered contents order \<Longrightarrow> path \<in> set order \<Longrightarrow> visiting g \<inter> set order = {} \<Longrightarrow> loadTask fuel contents path g \<noteq> Some (Inl e)"
proof (induction order arbitrary: path g fuel)
  case (Cons x earlier)
  show ?case
  proof (cases "path \<in> set earlier")
    case True
    with Cons show ?thesis by auto
  next
    case False
    with Cons.prems have x: "path = x" "x \<notin> visiting g" by auto
    from Cons.prems(1) obtain content s where content: "map_of contents x = Some content" "ParseTaskDependencyState content = Inr s"
      and s: "x \<notin> set (td_Fulfilled s)" "set (td_Outstanding s) \<subseteq> set earlier" and earlier: "ordered contents earlier" "x \<notin> set earlier"
      by (auto simp: task_node_def split: option.splits sum.splits if_splits)
    show ?thesis
    proof (cases fuel)
      case (Suc f)
      show ?thesis
      proof (cases "tg_byPath g x")
        case (Some node)
        with x Suc show ?thesis by (simp add: visiting_def)
      next
        case None
        let ?h = "change_node x (\<lambda>node. node\<lparr>tn_fulfilled := td_Fulfilled s\<rparr>) (add_node x content g)"
        note added = visit_added [OF None, where fulfilled = "td_Fulfilled s" and content = content]
        have "load_outstanding (loadTask f contents) contents x (td_Outstanding s) ?h \<noteq> Some (Inl e)"
        proof (rule outstanding_progress [where E = "set earlier"])
          show "loadTask f contents d h \<noteq> Some (Inl e)" if "d \<in> set earlier" "visiting h \<inter> set earlier = {}" for d h
            using Cons.IH [OF earlier(1) that] .
          show "visiting h' = visiting h" if "loadTask f contents d h = Some (Inr h')" for d h h'
            using task_loaded [OF that] unfolding grows_def by blast
          show "map_of contents d \<noteq> None" if "d \<in> set earlier" for d by (rule ordered_content [OF earlier(1) that])
          show "visiting ?h \<inter> set earlier = {}" "x \<in> visiting ?h" using added(1) Cons.prems(3) earlier(2) by auto
        qed (use s earlier in auto)
        with Suc None content s x show ?thesis by (auto split: option.split sum.split)
      qed
    qed simp
  qed
qed simp

lemma entries_loaded:
  "load_entries fuel contents entries g = Some (Inr g') \<Longrightarrow> grows contents {} g g' \<and> set entries \<subseteq> finished g'"
proof (induction entries arbitrary: g)
  case Nil
  then show ?case by (simp add: grows_refl)
next
  case (Cons entry entries)
  then obtain h where h: "loadTask fuel contents entry g = Some (Inr h)" "load_entries fuel contents entries h = Some (Inr g')"
    by (auto split: option.splits sum.splits)
  have "finished h \<subseteq> finished g'" using Cons.IH [OF h(2)] unfolding grows_def by blast
  with task_loaded [OF h(1)] Cons.IH [OF h(2)] grows_trans [of contents "{}" g h g'] show ?case by auto
qed

lemma entries_fuel:
  "card (unseen contents g) < fuel \<Longrightarrow> load_entries fuel contents entries g \<noteq> None"
proof (induction entries arbitrary: g)
  case (Cons entry entries)
  have "load_entries fuel contents entries h \<noteq> None" if "loadTask fuel contents entry g = Some (Inr h)" for h
  proof -
    have "unseen contents h \<subseteq> unseen contents g"
      using grows_dom [of contents "{}" g h] task_loaded [OF that] by (simp add: unseen_def Diff_mono)
    then have "card (unseen contents h) \<le> card (unseen contents g)" by (simp add: card_mono unseen_def)
    with Cons.prems show ?thesis by (intro Cons.IH) simp
  qed
  moreover obtain r where "loadTask fuel contents entry g = Some r" using task_fuel [OF Cons.prems] by blast
  ultimately show ?case by (cases r) simp_all
qed simp

lemma entries_progress:
  assumes order: "ordered contents order"
  shows "set entries \<subseteq> set order \<Longrightarrow> visiting g = {} \<Longrightarrow> load_entries fuel contents entries g \<noteq> Some (Inl e)"
proof (induction entries arbitrary: g)
  case (Cons entry entries)
  have "loadTask fuel contents entry g \<noteq> Some (Inl e)" using ordered_loads [OF order, of entry g fuel e] Cons.prems by simp
  moreover have "load_entries fuel contents entries h \<noteq> Some (Inl e)" if "loadTask fuel contents entry g = Some (Inr h)" for h
    using task_loaded [OF that] Cons.prems Cons.IH [of h] unfolding grows_def by simp
  ultimately show ?case by (auto split: option.split sum.split)
qed simp

definition complete_graph :: "task_contents \<Rightarrow> string list \<Rightarrow> TaskGraph \<Rightarrow> bool" where
  "complete_graph contents entries g \<longleftrightarrow> (\<exists>order. ordered contents order \<and> set order = set (tg_nodes g)) \<and> distinct (tg_nodes g) \<and>
     set entries \<subseteq> set (tg_nodes g) \<and> tg_byPath g = (task_node contents) |` set (tg_nodes g)"

lemma graph_built:
  "\<exists>r. BuildTaskGraph entries contents = Some r \<and> (case r of
      Inl _ \<Rightarrow> \<nexists>order. ordered contents order \<and> set entries \<subseteq> set order
    | Inr g \<Rightarrow> complete_graph contents entries g)"
proof -
  have empty: "visiting empty_graph = {}" "finished empty_graph = {}" by (simp_all add: visiting_def finished_def empty_graph_def)
  have "card (unseen contents empty_graph) \<le> card (set contents)" by (simp add: unseen_def empty_graph_def card_image_le)
  then have "card (unseen contents empty_graph) < Suc (length contents)" using card_length [of contents] by simp
  then obtain r where r: "BuildTaskGraph entries contents = Some r" unfolding BuildTaskGraph_def using entries_fuel by blast
  show ?thesis
  proof (cases r)
    case (Inl e)
    with r entries_progress [OF _ _ empty(1)] show ?thesis unfolding BuildTaskGraph_def by auto
  next
    case (Inr g)
    with r have loaded: "grows contents {} empty_graph g" "set entries \<subseteq> finished g" unfolding BuildTaskGraph_def using entries_loaded by blast+
    have "built contents empty_graph" by (auto simp: built_def empty intro!: exI [of _ "[]"]) (simp_all add: empty_graph_def)
    with loaded(1) have built: "built contents g" "visiting g = {}" unfolding grows_def empty by blast+
    then have nodes: "set (tg_nodes g) = finished g" unfolding built_def seen_dom by simp
    have "tg_byPath g path = (task_node contents |` finished g) path" for path
      using built seen_dom [of g] unfolding built_def by (cases "path \<in> finished g") (auto simp: domIff restrict_map_def)
    then have "complete_graph contents entries g" using built loaded(2) unfolding complete_graph_def nodes built_def by blast
    with r Inr show ?thesis by simp
  qed
qed

text \<open>
  C10. The graph of the task dependencies is built exactly when it should be. Building it always returns. It succeeds
  exactly when there is an order of tasks, containing the entries, in which the file of every task exists and parses and
  every task comes after the ones it depends on, so that there is no cycle. The nodes of the graph are then the tasks of
  such an order, each once, with the content of the file and the dependencies that it declares.
\<close>

theorem task_graph_exact:
  "\<exists>r. BuildTaskGraph entries contents = Some r \<and> (case r of
      Inl _ \<Rightarrow> \<nexists>order. ordered contents order \<and> set entries \<subseteq> set order
    | Inr g \<Rightarrow> complete_graph contents entries g)"
  by (rule graph_built)

end
