(* ===== verification/Project_Plan.thy ===== *)
theory Project_Plan
  imports Task_Graph
begin

text \<open>
  The policy over a plan (\<^verbatim>\<open>repositoryproject/plan.go\<close>, \<^verbatim>\<open>continuation.go\<close>, \<^verbatim>\<open>selected_task_continuation.go\<close>,
  \<^verbatim>\<open>task_attribution.go\<close>, \<^verbatim>\<open>observation.go\<close>): what the plan is, what the parent is asked to do next, whether it may stop, and
  which task its work belongs to; then the projections over the directory (\<^verbatim>\<open>repositoryprojecttree/tree.go\<close>). SHA-256 and the
  answers of the file system are arguments. The theorem says when the completion of a request is admitted.
\<close>

section \<open>The plan\<close>

record ProjectStatePlan =
  sp_Goal :: PlanGoal
  sp_Schedule :: PlanSchedule
  sp_Active :: "string list"
  sp_Next :: "string list"
  sp_Blocked :: "string list"

record PostCompletionPlan =
  pc_Kind :: string
  pc_Goal :: PlanGoal
  pc_Schedule :: PlanSchedule
  pc_Active :: "string list"
  pc_Next :: "string list"
  pc_Blocked :: "string list"

record FinalHeadPlan =
  fh_Schedule :: PlanSchedule
  fh_ActiveTask :: string
  fh_Tasks :: "string list"

definition PostCompletionTerminal :: string where "PostCompletionTerminal = ''terminal''"
definition PostCompletionContinue :: string where "PostCompletionContinue = ''continue''"
definition PostCompletionBlocked :: string where "PostCompletionBlocked = ''blocked''"
definition PostCompletionExhausted :: string where "PostCompletionExhausted = ''exhausted''"
definition PostCompletionGraph :: string where "PostCompletionGraph = ''graph''"

definition completedGoalScheduleError :: "nat \<Rightarrow> nat \<Rightarrow> nat \<Rightarrow> state_error" where
  "completedGoalScheduleError active next_count blocked =
     Errorf ''a completed GOAL requires an empty schedule'' [nat_digits active, nat_digits next_count, nat_digits blocked]"

definition activeNotUniqueError :: "nat \<Rightarrow> state_error" where
  "activeNotUniqueError active = Errorf ''ACTIVE is not unique'' [nat_digits active]"

definition goal_completed :: "PlanGoal \<Rightarrow> bool" where
  "goal_completed goal \<longleftrightarrow> pg_Present goal \<and> pg_Status goal = GoalStatusCompleted"

definition PrepareProjectState :: "string \<Rightarrow> (state_error, ProjectStatePlan) result" where
  "PrepareProjectState plan = (case ParsePlanGoal plan of
       Inl e \<Rightarrow> Inl e
     | Inr goal \<Rightarrow> (let schedule = ParsePlanSchedule plan in case NonActiveEntries schedule of
           Inl e \<Rightarrow> Inl e
         | Inr (next_entries, blocked) \<Rightarrow>
             if goal_completed goal then (case ActiveEntries schedule of
                 Inl e \<Rightarrow> Inl e
               | Inr active \<Rightarrow>
                   if active \<noteq> [] \<or> next_entries \<noteq> [] \<or> blocked \<noteq> []
                   then Inl (completedGoalScheduleError (length active) (length next_entries) (length blocked))
                   else Inr \<lparr>sp_Goal = goal, sp_Schedule = schedule, sp_Active = [], sp_Next = [], sp_Blocked = []\<rparr>)
             else (case ValidateComplete schedule of
                 Inl e \<Rightarrow> Inl e
               | Inr activeTask \<Rightarrow>
                   Inr \<lparr>sp_Goal = goal, sp_Schedule = schedule, sp_Active = [activeTask], sp_Next = next_entries, sp_Blocked = blocked\<rparr>)))"

definition classifyNonGoalPostCompletion :: "PostCompletionPlan \<Rightarrow> (state_error, PostCompletionPlan) result" where
  "classifyNonGoalPostCompletion prepared =
     (if length (pc_Active prepared) = 1 then Inr (prepared\<lparr>pc_Kind := PostCompletionContinue\<rparr>)
      else if 1 < length (pc_Active prepared) then Inl (activeNotUniqueError (length (pc_Active prepared)))
      else if pc_Next prepared \<noteq> [] then Inl (Errorf ''completion of a plan without GOAL requires an ACTIVE task, only BLOCKED ones or none''
        [nat_digits (length (pc_Next prepared)), nat_digits (length (pc_Blocked prepared))])
      else if pc_Blocked prepared \<noteq> [] then Inr (prepared\<lparr>pc_Kind := PostCompletionBlocked\<rparr>)
      else Inr (prepared\<lparr>pc_Kind := PostCompletionExhausted\<rparr>))"

definition PreparePostCompletion :: "string \<Rightarrow> (state_error, PostCompletionPlan) result" where
  "PreparePostCompletion plan = (case ParsePlanGoal plan of
       Inl e \<Rightarrow> Inl e
     | Inr goal \<Rightarrow> (let schedule = ParsePlanSchedule plan in case ActiveEntries schedule of
           Inl e \<Rightarrow> Inl e
         | Inr active \<Rightarrow> (case NonActiveEntries schedule of
               Inl e \<Rightarrow> Inl e
             | Inr (next_entries, blocked) \<Rightarrow>
                 (let prepared = \<lparr>pc_Kind = [], pc_Goal = goal, pc_Schedule = schedule, pc_Active = active, pc_Next = next_entries,
                        pc_Blocked = blocked\<rparr> in
                  if goal_completed goal then
                    if active \<noteq> [] \<or> next_entries \<noteq> [] \<or> blocked \<noteq> []
                    then Inl (completedGoalScheduleError (length active) (length next_entries) (length blocked))
                    else Inr (prepared\<lparr>pc_Kind := PostCompletionTerminal\<rparr>)
                  else if \<not> pg_Present goal then classifyNonGoalPostCompletion prepared
                  else if 1 < length active then Inl (activeNotUniqueError (length active))
                  else Inr (prepared\<lparr>pc_Kind := PostCompletionGraph\<rparr>)))))"

definition post_Entries :: "PostCompletionPlan \<Rightarrow> string list" where
  "post_Entries p = pc_Active p @ pc_Next p @ pc_Blocked p"

definition RequiresTaskGraph :: "PostCompletionPlan \<Rightarrow> bool" where
  "RequiresTaskGraph p \<longleftrightarrow> pc_Kind p = PostCompletionGraph \<or> pc_Kind p = PostCompletionBlocked"

definition NonGoalCompletionSyncApplied :: "PostCompletionPlan \<Rightarrow> string \<Rightarrow> bool" where
  "NonGoalCompletionSyncApplied prepared completedTask \<longleftrightarrow> pg_Present (pc_Goal prepared) \<or>
     (completedTask \<noteq> [] \<and> \<not> list_ex (\<lambda>path. path = completedTask) (pc_Active prepared @ pc_Next prepared @ pc_Blocked prepared))"

definition prepareFinalHeadSchedule :: "PlanSchedule \<Rightarrow> (state_error, FinalHeadPlan) result" where
  "prepareFinalHeadSchedule schedule = map_sum id (\<lambda>activePath. \<lparr>fh_Schedule = schedule, fh_ActiveTask = activePath,
     fh_Tasks = activePath # ps_Next schedule @ ps_Blocked schedule\<rparr>) (ValidateComplete schedule)"

definition PrepareFinalHead :: "string \<Rightarrow> (state_error, FinalHeadPlan) result" where
  "PrepareFinalHead plan = prepareFinalHeadSchedule (ParsePlanSchedule plan)"

definition ValidateClosure :: "PlanSchedule \<Rightarrow> TaskCorpusEntry list \<Rightarrow> string \<Rightarrow> state_error option" where
  "ValidateClosure schedule entries what = (case ClosureFailures schedule entries of
       [] \<Rightarrow> None
     | failures \<Rightarrow> Some (Errorf what (concat (map cf_Reason failures))))"

definition ValidateActiveTaskContent :: "string \<Rightarrow> FeasibilityError option" where
  "ValidateActiveTaskContent content = (case ParseExternalFeasibility content of Inl e \<Rightarrow> Some e | Inr _ \<Rightarrow> None)"

section \<open>What the parent does next\<close>

record Continuation =
  ct_State :: string
  ct_Task :: string
  ct_RequiredAction :: string
  ct_Reason :: string
  ct_Blocker :: "Blocker option"

record ParentRequestCompletionProjection =
  pr_CompletionAdmitted :: bool
  pr_StopAdmitted :: bool
  pr_Continuation :: Continuation

record CompletionView =
  cv_Ready :: bool
  cv_Unmet :: "string list"

record ContinuationProjectView =
  cp_PlanPresent :: bool
  cp_ProjectReady :: bool
  cp_GoalPresent :: bool
  cp_GoalCompleted :: bool
  cp_Active :: "string list"
  cp_NextRunnable :: "string option"
  cp_Blockers :: "Blocker list"
  cp_Completion :: "CompletionView option"

record ContinuationLifecycle =
  cl_Interrupted :: bool
  cl_InterruptedResumeValid :: bool
  cl_PinnedTask :: string
  cl_TaskAbsent :: bool
  cl_TaskComplete :: bool
  cl_ParentActionKnown :: bool
  cl_RequiredAction :: string
  cl_NoRequiredAction :: bool
  cl_TemporaryBlockReason :: string
  cl_GoalTerminalCompatible :: bool

definition ContinuationContinueNow :: string where "ContinuationContinueNow = ''continue-now''"
definition ContinuationBlocked :: string where "ContinuationBlocked = ''blocked''"
definition ContinuationTerminal :: string where "ContinuationTerminal = ''terminal''"
definition ContinuationExplicitStop :: string where "ContinuationExplicitStop = ''explicit-stop''"
definition ContinuationDeferredByVerifiedAutomation :: string where
  "ContinuationDeferredByVerifiedAutomation = ''deferred-by-verified-automation''"
definition ContinuationUnknown :: string where "ContinuationUnknown = ''unknown''"

definition ReasonPlanAbsent :: string where "ReasonPlanAbsent = ''plan-absent''"
definition ReasonProjectStateIncomplete :: string where "ReasonProjectStateIncomplete = ''project-state-incomplete''"
definition ReasonLifecycleInconsistent :: string where "ReasonLifecycleInconsistent = ''lifecycle-inconsistent''"
definition ReasonUserInterruption :: string where "ReasonUserInterruption = ''user-interruption''"
definition ReasonGoalCompleted :: string where "ReasonGoalCompleted = ''goal-completed''"
definition ReasonGoalLifecycleInconsistent :: string where "ReasonGoalLifecycleInconsistent = ''goal-lifecycle-inconsistent''"
definition ReasonActiveTaskUnresolved :: string where "ReasonActiveTaskUnresolved = ''active-task-unresolved''"
definition ReasonActiveTaskNotStarted :: string where "ReasonActiveTaskNotStarted = ''active-task-not-started''"
definition ReasonActiveTaskMismatch :: string where "ReasonActiveTaskMismatch = ''active-task-mismatch''"
definition ReasonCurrentTask :: string where "ReasonCurrentTask = ''current-task''"
definition ReasonContinuationScopeUnbound :: string where "ReasonContinuationScopeUnbound = ''continuation-scope-unbound''"
definition ReasonNextRunnable :: string where "ReasonNextRunnable = ''next-runnable''"
definition ReasonScheduleExhausted :: string where "ReasonScheduleExhausted = ''schedule-exhausted''"
definition ReasonGoalAcceptancePending :: string where "ReasonGoalAcceptancePending = ''goal-acceptance-pending''"
definition ReasonCompletionStateInconsistent :: string where "ReasonCompletionStateInconsistent = ''completion-state-inconsistent''"
definition ReasonPostCompletionActive :: string where "ReasonPostCompletionActive = ''post-local-completion-active''"
definition ActionStart :: string where "ActionStart = ''start''"

definition UnknownContinuation :: "string \<Rightarrow> Continuation" where
  "UnknownContinuation reason =
     \<lparr>ct_State = ContinuationUnknown, ct_Task = [], ct_RequiredAction = [], ct_Reason = reason, ct_Blocker = None\<rparr>"

definition FirstBlocker :: "Blocker list \<Rightarrow> Blocker option" where
  "FirstBlocker blockers = (case blockers of [] \<Rightarrow> None | blocker # _ \<Rightarrow> Some blocker)"

definition interruptedContinuation :: "ContinuationProjectView \<Rightarrow> ContinuationLifecycle \<Rightarrow> Continuation" where
  "interruptedContinuation project lifecycle =
     (if \<not> cl_InterruptedResumeValid lifecycle then UnknownContinuation ReasonLifecycleInconsistent
      else \<lparr>ct_State = ContinuationExplicitStop,
        ct_Task = (if cl_PinnedTask lifecycle = [] \<and> length (cp_Active project) = 1 then hd (cp_Active project) else cl_PinnedTask lifecycle),
        ct_RequiredAction = cl_RequiredAction lifecycle, ct_Reason = ReasonUserInterruption, ct_Blocker = None\<rparr>)"

definition currentTaskContinuation :: "string \<Rightarrow> string \<Rightarrow> bool \<Rightarrow> Continuation" where
  "currentTaskContinuation task requiredAction noRequiredAction =
     \<lparr>ct_State = ContinuationContinueNow, ct_Task = task, ct_RequiredAction = (if noRequiredAction then [] else requiredAction),
       ct_Reason = ReasonCurrentTask, ct_Blocker = None\<rparr>"

definition completedActiveContinuation :: "ContinuationProjectView \<Rightarrow> string \<Rightarrow> Continuation" where
  "completedActiveContinuation project activeTask =
     (if \<not> cp_GoalPresent project then UnknownContinuation ReasonContinuationScopeUnbound
      else case cp_NextRunnable project of
        Some runnable \<Rightarrow> \<lparr>ct_State = ContinuationContinueNow, ct_Task = runnable, ct_RequiredAction = [],
          ct_Reason = ReasonNextRunnable, ct_Blocker = None\<rparr>
      | None \<Rightarrow> (case FirstBlocker (cp_Blockers project) of
          Some blocker \<Rightarrow> \<lparr>ct_State = ContinuationBlocked, ct_Task = bl_Task blocker, ct_RequiredAction = [],
            ct_Reason = bl_Reason blocker, ct_Blocker = Some blocker\<rparr>
        | None \<Rightarrow> (case cp_Completion project of
            None \<Rightarrow> UnknownContinuation ReasonProjectStateIncomplete
          | Some completion \<Rightarrow>
              if cv_Ready completion
              then \<lparr>ct_State = ContinuationContinueNow, ct_Task = activeTask, ct_RequiredAction = [],
                ct_Reason = ReasonGoalAcceptancePending, ct_Blocker = None\<rparr>
              else (case cv_Unmet completion of
                  unmet # _ \<Rightarrow> \<lparr>ct_State = ContinuationContinueNow, ct_Task = activeTask, ct_RequiredAction = [],
                    ct_Reason = unmet, ct_Blocker = None\<rparr>
                | [] \<Rightarrow> UnknownContinuation ReasonCompletionStateInconsistent))))"

definition activeContinuation :: "ContinuationProjectView \<Rightarrow> ContinuationLifecycle \<Rightarrow> string \<Rightarrow> Continuation" where
  "activeContinuation project lifecycle activeTask =
     (if cl_TaskAbsent lifecycle then
        if cl_PinnedTask lifecycle \<noteq> [] then UnknownContinuation ReasonActiveTaskMismatch
        else \<lparr>ct_State = ContinuationContinueNow, ct_Task = activeTask, ct_RequiredAction = [],
          ct_Reason = ReasonActiveTaskNotStarted, ct_Blocker = None\<rparr>
      else if cl_PinnedTask lifecycle \<noteq> activeTask then UnknownContinuation ReasonActiveTaskMismatch
      else if \<not> cl_ParentActionKnown lifecycle then UnknownContinuation ReasonLifecycleInconsistent
      else if cl_TemporaryBlockReason lifecycle \<noteq> []
      then \<lparr>ct_State = ContinuationBlocked, ct_Task = activeTask, ct_RequiredAction = cl_RequiredAction lifecycle,
        ct_Reason = cl_TemporaryBlockReason lifecycle, ct_Blocker = None\<rparr>
      else if \<not> cl_TaskComplete lifecycle \<or> \<not> cl_NoRequiredAction lifecycle
      then currentTaskContinuation activeTask (cl_RequiredAction lifecycle) (cl_NoRequiredAction lifecycle)
      else completedActiveContinuation project activeTask)"

definition DeriveContinuation :: "ContinuationProjectView \<Rightarrow> ContinuationLifecycle \<Rightarrow> Continuation" where
  "DeriveContinuation project lifecycle =
     (if cl_Interrupted lifecycle then interruptedContinuation project lifecycle
      else if \<not> cp_PlanPresent project then UnknownContinuation ReasonPlanAbsent
      else if \<not> cp_ProjectReady project then UnknownContinuation ReasonProjectStateIncomplete
      else if cp_GoalPresent project \<and> cp_GoalCompleted project then
        if \<not> cl_GoalTerminalCompatible lifecycle then UnknownContinuation ReasonGoalLifecycleInconsistent
        else \<lparr>ct_State = ContinuationTerminal, ct_Task = [], ct_RequiredAction = [], ct_Reason = ReasonGoalCompleted, ct_Blocker = None\<rparr>
      else case cp_Active project of
          [activeTask] \<Rightarrow> activeContinuation project lifecycle activeTask
        | _ \<Rightarrow> UnknownContinuation ReasonActiveTaskUnresolved)"

definition ParentRequestProjection :: "Continuation \<Rightarrow> bool \<Rightarrow> ParentRequestCompletionProjection" where
  "ParentRequestProjection continuation blockedStopAdmitted =
     (if ct_State continuation = ContinuationTerminal
      then \<lparr>pr_CompletionAdmitted = True, pr_StopAdmitted = True, pr_Continuation = continuation\<rparr>
      else if ct_State continuation = ContinuationBlocked
      then \<lparr>pr_CompletionAdmitted = False, pr_StopAdmitted = blockedStopAdmitted, pr_Continuation = continuation\<rparr>
      else \<lparr>pr_CompletionAdmitted = False, pr_StopAdmitted =
          ct_State continuation = ContinuationDeferredByVerifiedAutomation \<or> ct_State continuation = ContinuationExplicitStop,
        pr_Continuation = continuation\<rparr>)"

definition admittedCompletionProjection :: "Continuation \<Rightarrow> ParentRequestCompletionProjection" where
  "admittedCompletionProjection continuation =
     \<lparr>pr_CompletionAdmitted = True, pr_StopAdmitted = True, pr_Continuation = continuation\<rparr>"

definition blocked_by :: "Blocker \<Rightarrow> Continuation" where
  "blocked_by blocker = \<lparr>ct_State = ContinuationBlocked, ct_Task = bl_Task blocker, ct_RequiredAction = [],
     ct_Reason = bl_Reason blocker, ct_Blocker = Some blocker\<rparr>"

definition start_task :: "string \<Rightarrow> string \<Rightarrow> Continuation" where
  "start_task task reason = \<lparr>ct_State = ContinuationContinueNow, ct_Task = task, ct_RequiredAction = ActionStart,
     ct_Reason = reason, ct_Blocker = None\<rparr>"

definition nonGoalBlockedProjection :: "PostCompletionPlan \<Rightarrow> TaskGraph option \<Rightarrow> ParentRequestCompletionProjection" where
  "nonGoalBlockedProjection prepared graph = (case graph of
       None \<Rightarrow> ParentRequestProjection (UnknownContinuation ReasonProjectStateIncomplete) True
     | Some g \<Rightarrow> (case FirstBlocker (Blockers g (pc_Next prepared) (pc_Blocked prepared)) of
           None \<Rightarrow> ParentRequestProjection (UnknownContinuation ReasonActiveTaskUnresolved) True
         | Some blocker \<Rightarrow> admittedCompletionProjection (blocked_by blocker)))"

definition PostCompletionProjection :: "PostCompletionPlan \<Rightarrow> TaskGraph option \<Rightarrow> ParentRequestCompletionProjection" where
  "PostCompletionProjection prepared graph =
     (let unresolved = ParentRequestProjection (UnknownContinuation ReasonActiveTaskUnresolved) True in
      if pc_Kind prepared = PostCompletionTerminal
      then ParentRequestProjection \<lparr>ct_State = ContinuationTerminal, ct_Task = [], ct_RequiredAction = [],
        ct_Reason = ReasonGoalCompleted, ct_Blocker = None\<rparr> True
      else if pc_Kind prepared = PostCompletionContinue then (case pc_Active prepared of
          [active] \<Rightarrow> ParentRequestProjection (start_task active ReasonPostCompletionActive) False
        | _ \<Rightarrow> unresolved)
      else if pc_Kind prepared = PostCompletionBlocked then nonGoalBlockedProjection prepared graph
      else if pc_Kind prepared = PostCompletionExhausted
      then admittedCompletionProjection \<lparr>ct_State = ContinuationTerminal, ct_Task = [], ct_RequiredAction = [],
        ct_Reason = ReasonScheduleExhausted, ct_Blocker = None\<rparr>
      else case pc_Active prepared of
          [active] \<Rightarrow> ParentRequestProjection (start_task active ReasonPostCompletionActive) True
        | _ \<Rightarrow> (case graph of
              None \<Rightarrow> unresolved
            | Some g \<Rightarrow> (case NextRunnable g (pc_Next prepared) of
                  Some runnable \<Rightarrow> ParentRequestProjection (start_task runnable ReasonNextRunnable) True
                | None \<Rightarrow> (case FirstBlocker (Blockers g (pc_Next prepared) (pc_Blocked prepared)) of
                      Some blocker \<Rightarrow> ParentRequestProjection (blocked_by blocker) True
                    | None \<Rightarrow> unresolved))))"

section \<open>The projections of the directory\<close>

text \<open>
  What the file system answers during the call (\<^verbatim>\<open>repositoryprojecttree/tree.go\<close>, \<^verbatim>\<open>taskcontract/corpus.go\<close>), which
  asks about each file at most once: \<^verbatim>\<open>os.Stat\<close> of the tasks directory (false: it does not exist) and the entries that
  \<^verbatim>\<open>filepath.WalkDir\<close> visits below it, with their paths from the root; \<^verbatim>\<open>os.Lstat\<close> of a path (whether it is a regular
  file); and \<^verbatim>\<open>os.ReadFile\<close> (\<open>None\<close>: it does not exist).
\<close>

record project_tree =
  pt_Stat :: "(state_error, bool) result"
  pt_WalkDir :: "(state_error, TaskCorpusEntry list) result"
  pt_Lstat :: "string \<Rightarrow> (state_error, bool) result"
  pt_ReadFile :: "string \<Rightarrow> (state_error, string option) result"

definition plan_path :: string where "plan_path = ''IMPLEMENTATION_PLAN.local.md''"

definition EnumerateTaskCorpus :: "project_tree \<Rightarrow> (state_error, TaskCorpusEntry list) result" where
  "EnumerateTaskCorpus tree = (case pt_Stat tree of
       Inl e \<Rightarrow> Inl (Wrapf ''stat of the tasks directory'' e)
     | Inr False \<Rightarrow> Inr []
     | Inr True \<Rightarrow> (case pt_WalkDir tree of
           Inl e \<Rightarrow> Inl (Wrapf ''walk of the tasks directory'' e)
         | Inr entries \<Rightarrow> Inr (sort_key ce_Path
             (filter (\<lambda>entry. ce_Path entry \<noteq> TasksDir \<and> has_suffix (ce_Path entry) ''.md'') entries))))"

definition ReadPlan :: "project_tree \<Rightarrow> (state_error, string option) result" where
  "ReadPlan tree = map_sum (Wrapf ''read of the plan'') id (pt_ReadFile tree plan_path)"

definition validateClosure :: "project_tree \<Rightarrow> PlanSchedule \<Rightarrow> string \<Rightarrow> state_error option" where
  "validateClosure tree schedule what = (case EnumerateTaskCorpus tree of
       Inl e \<Rightarrow> Some e
     | Inr entries \<Rightarrow> ValidateClosure schedule entries what)"

definition readTask :: "project_tree \<Rightarrow> string \<Rightarrow> (state_error, string) result" where
  "readTask tree path = (case ValidateActiveTaskPath path of
       Some e \<Rightarrow> Inl e
     | None \<Rightarrow> (case pt_Lstat tree path of
           Inl e \<Rightarrow> Inl (Wrapf ''the task file cannot be inspected'' e)
         | Inr False \<Rightarrow> Inl (Errorf ''the task file is not a regular file'' [path])
         | Inr True \<Rightarrow> (case pt_ReadFile tree path of
               Inl e \<Rightarrow> Inl (Wrapf ''read of the task file'' e)
             | Inr None \<Rightarrow> Inl (Wrapf ''read of the task file'' (NotExist path))
             | Inr (Some content) \<Rightarrow> Inr content)))"

fun read_tasks :: "project_tree \<Rightarrow> string list \<Rightarrow> task_contents \<Rightarrow> (state_error, task_contents) result" where
  "read_tasks tree [] contents = Inr contents"
| "read_tasks tree (path # paths) contents =
     (if map_of contents path \<noteq> None then read_tasks tree paths contents
      else case readTask tree path of
          Inl e \<Rightarrow> Inl e
        | Inr content \<Rightarrow> read_tasks tree paths (contents @ [(path, content)]))"

definition loadGraph :: "project_tree \<Rightarrow> string list \<Rightarrow> (state_error, TaskGraph) result option" where
  "loadGraph tree entries = (case read_tasks tree entries [] of
       Inl e \<Rightarrow> Some (Inl e)
     | Inr contents \<Rightarrow> BuildTaskGraph entries contents)"

record ProjectState =
  ps_PlanPresent :: bool
  ps_Plan :: "ProjectStatePlan option"
  ps_Graph :: "TaskGraph option"

definition LoadProjectState :: "project_tree \<Rightarrow> (state_error, ProjectState) result option" where
  "LoadProjectState tree = (case ReadPlan tree of
       Inl e \<Rightarrow> Some (Inl e)
     | Inr None \<Rightarrow> Some (Inr \<lparr>ps_PlanPresent = False, ps_Plan = None, ps_Graph = None\<rparr>)
     | Inr (Some plan) \<Rightarrow> (case PrepareProjectState plan of
           Inl e \<Rightarrow> Some (Inl e)
         | Inr prepared \<Rightarrow> (case validateClosure tree (sp_Schedule prepared) ''the schedule and the task corpus are not closed'' of
               Some e \<Rightarrow> Some (Inl e)
             | None \<Rightarrow> map_option (map_sum id (\<lambda>graph. \<lparr>ps_PlanPresent = True, ps_Plan = Some prepared, ps_Graph = Some graph\<rparr>))
                 (loadGraph tree (sp_Active prepared @ sp_Next prepared @ sp_Blocked prepared)))))"

definition BuildParentRequestCompletionProjection ::
    "project_tree \<Rightarrow> string \<Rightarrow> (state_error, ParentRequestCompletionProjection) result option" where
  "BuildParentRequestCompletionProjection tree completedTask = (case ReadPlan tree of
       Inl e \<Rightarrow> Some (Inl e)
     | Inr None \<Rightarrow> Some (Inr \<lparr>pr_CompletionAdmitted = False, pr_StopAdmitted = False,
         pr_Continuation = UnknownContinuation ReasonPlanAbsent\<rparr>)
     | Inr (Some plan) \<Rightarrow> (case PreparePostCompletion plan of
           Inl e \<Rightarrow> Some (Inl e)
         | Inr prepared \<Rightarrow> (case validateClosure tree (pc_Schedule prepared) ''the schedule and the task corpus are not closed'' of
               Some e \<Rightarrow> Some (Inl e)
             | None \<Rightarrow>
                 if \<not> NonGoalCompletionSyncApplied prepared completedTask
                 then Some (Inr (ParentRequestProjection (UnknownContinuation ReasonContinuationScopeUnbound) True))
                 else if \<not> RequiresTaskGraph prepared then Some (Inr (PostCompletionProjection prepared None))
                 else map_option (map_sum id (\<lambda>graph. PostCompletionProjection prepared (Some graph)))
                   (loadGraph tree (post_Entries prepared)))))"

section \<open>The selected task and the attribution of work\<close>

record SelectedTaskContinuationInput =
  si_Task :: string
  si_RequiredAction :: string
  si_StartRequired :: bool
  si_TemporaryBlockReason :: string
  si_Interrupted :: bool

definition SelectedTaskParentRequestProjection :: "SelectedTaskContinuationInput \<Rightarrow> ParentRequestCompletionProjection" where
  "SelectedTaskParentRequestProjection i =
     (if si_Task i = [] then \<lparr>pr_CompletionAdmitted = False, pr_StopAdmitted = False,
        pr_Continuation = UnknownContinuation ReasonActiveTaskUnresolved\<rparr>
      else let continuation = \<lparr>ct_State = ContinuationContinueNow, ct_Task = si_Task i,
             ct_RequiredAction = (if si_StartRequired i then ActionStart else si_RequiredAction i), ct_Reason = ReasonCurrentTask, ct_Blocker = None\<rparr>;
           continuation = (if si_TemporaryBlockReason i \<noteq> []
             then continuation\<lparr>ct_State := ContinuationBlocked, ct_Reason := si_TemporaryBlockReason i\<rparr> else continuation);
           continuation = (if si_Interrupted i
             then continuation\<lparr>ct_State := ContinuationExplicitStop, ct_Reason := ReasonUserInterruption\<rparr> else continuation)
        in \<lparr>pr_CompletionAdmitted = False, pr_StopAdmitted = False, pr_Continuation = continuation\<rparr>)"

record TaskAttribution =
  at_LifecycleTask :: string
  at_AuthorityTask :: string
  at_ActiveTask :: string
  at_Matches :: bool
  at_Handover :: bool
  at_Reason :: string
  at_LegalNextAction :: string

definition DeriveTaskAttribution :: "string \<Rightarrow> string \<Rightarrow> Continuation \<Rightarrow> TaskAttribution" where
  "DeriveTaskAttribution lifecycleTask activeTask continuation =
     (let attribution = \<lparr>at_LifecycleTask = lifecycleTask, at_AuthorityTask = [], at_ActiveTask = activeTask, at_Matches = False,
            at_Handover = False, at_Reason = [], at_LegalNextAction = []\<rparr> in
      if activeTask = [] then attribution\<lparr>at_Reason := ReasonActiveTaskUnresolved\<rparr>
      else if lifecycleTask = [] then
        attribution\<lparr>at_Reason := ReasonActiveTaskNotStarted, at_LegalNextAction :=
          (if ct_State continuation = ContinuationContinueNow \<and> ct_Task continuation = activeTask then ActionStart else [])\<rparr>
      else if lifecycleTask = activeTask then
        attribution\<lparr>at_Matches := True, at_Reason := ReasonCurrentTask, at_LegalNextAction := ct_RequiredAction continuation\<rparr>
      else if ct_State continuation = ContinuationContinueNow \<and> ct_Task continuation = activeTask \<and> ct_RequiredAction continuation = ActionStart
      then attribution\<lparr>at_Handover := True, at_Reason := ct_Reason continuation, at_LegalNextAction := ActionStart\<rparr>
      else attribution\<lparr>at_Reason := ReasonActiveTaskMismatch\<rparr>)"

definition BindTaskAuthority :: "TaskAttribution \<Rightarrow> string \<Rightarrow> TaskAttribution" where
  "BindTaskAuthority attribution authorityTask =
     (let attribution = attribution\<lparr>at_AuthorityTask := authorityTask\<rparr> in
      if authorityTask \<noteq> [] \<and> authorityTask \<noteq> at_LifecycleTask attribution
      then attribution\<lparr>at_Matches := False, at_Handover := False, at_Reason := ReasonActiveTaskMismatch, at_LegalNextAction := []\<rparr>
      else if at_Handover attribution \<and> authorityTask = []
      then attribution\<lparr>at_Handover := False, at_Reason := ReasonActiveTaskMismatch, at_LegalNextAction := []\<rparr>
      else attribution)"

record ObservationCapabilityPolicy =
  oc_Status :: string
  oc_Admitted :: bool
  oc_AuthorityDigest :: string

definition EvaluateObservationCapability ::
    "(string \<Rightarrow> string) \<Rightarrow> string \<Rightarrow> (FeasibilityError, ObservationCapabilityPolicy) result" where
  "EvaluateObservationCapability sha256_hex content = map_sum id (\<lambda>declaration. \<lparr>oc_Status = ef_Status declaration,
     oc_Admitted = (ef_Status declaration = StatusPoC \<or> ef_Status declaration = StatusObservation),
     oc_AuthorityDigest = sha256_hex content\<rparr>) (ParseExternalFeasibility content)"

section \<open>Completion is admitted when the plan is at its end\<close>

lemmas completion_kinds = PostCompletionTerminal_def PostCompletionContinue_def PostCompletionBlocked_def PostCompletionExhausted_def
  PostCompletionGraph_def

lemmas continuation_states = ContinuationContinueNow_def ContinuationBlocked_def ContinuationTerminal_def ContinuationExplicitStop_def
  ContinuationDeferredByVerifiedAutomation_def ContinuationUnknown_def

lemma projection_states [simp]:
  "pr_CompletionAdmitted (ParentRequestProjection c b) \<longleftrightarrow> ct_State c = ContinuationTerminal"
  "pr_Continuation (ParentRequestProjection c b) = c"
  by (simp_all add: ParentRequestProjection_def)

lemma continuation_of [simp]:
  "ct_State (UnknownContinuation reason) = ContinuationUnknown" "ct_State (blocked_by blocker) = ContinuationBlocked"
  "ct_State (start_task task reason) = ContinuationContinueNow" "ct_Task (start_task task reason) = task"
  by (simp_all add: UnknownContinuation_def blocked_by_def start_task_def)

lemma first_blocker: "blocked \<noteq> [] \<Longrightarrow> \<exists>blocker. FirstBlocker (Blockers g [] blocked) = Some blocker"
  by (cases blocked) (simp_all add: FirstBlocker_def Blockers_def)

lemma prepared_kind:
  assumes "PreparePostCompletion plan = Inr p"
  shows "if goal_completed (pc_Goal p) then pc_Kind p = PostCompletionTerminal \<and> pc_Active p = [] \<and> pc_Next p = [] \<and> pc_Blocked p = []
     else if pg_Present (pc_Goal p) then pc_Kind p = PostCompletionGraph \<and> length (pc_Active p) \<le> 1
     else if pc_Active p \<noteq> [] then pc_Kind p = PostCompletionContinue \<and> length (pc_Active p) = 1
     else pc_Next p = [] \<and> pc_Kind p = (if pc_Blocked p = [] then PostCompletionExhausted else PostCompletionBlocked)"
proof -
  obtain q where "if goal_completed (pc_Goal q)
      then pc_Active q = [] \<and> pc_Next q = [] \<and> pc_Blocked q = [] \<and> p = q\<lparr>pc_Kind := PostCompletionTerminal\<rparr>
      else if \<not> pg_Present (pc_Goal q) then classifyNonGoalPostCompletion q = Inr p
      else length (pc_Active q) \<le> 1 \<and> p = q\<lparr>pc_Kind := PostCompletionGraph\<rparr>"
  proof -
    obtain goal active next_entries blocked where run: "ParsePlanGoal plan = Inr goal" "ActiveEntries (ParsePlanSchedule plan) = Inr active"
      "NonActiveEntries (ParsePlanSchedule plan) = Inr (next_entries, blocked)"
      using assms by (auto simp: PreparePostCompletion_def Let_def split: sum.splits)
    show ?thesis
      by (rule that [of "\<lparr>pc_Kind = [], pc_Goal = goal, pc_Schedule = ParsePlanSchedule plan, pc_Active = active, pc_Next = next_entries, pc_Blocked = blocked\<rparr>"])
        (use assms run in \<open>simp add: PreparePostCompletion_def Let_def split: if_splits\<close>)
  qed
  then show ?thesis by (cases "pc_Active q") (auto simp: classifyNonGoalPostCompletion_def split: if_splits)
qed

lemma projection_admitted:
  assumes prepared: "PreparePostCompletion plan = Inr p"
  shows "(pr_CompletionAdmitted (PostCompletionProjection p graph) \<longleftrightarrow> pc_Active p = [] \<and> pc_Next p = [] \<and>
       (if pg_Present (pc_Goal p) then goal_completed (pc_Goal p) \<and> pc_Blocked p = [] else pc_Blocked p = [] \<or> graph \<noteq> None)) \<and>
     (let c = pr_Continuation (PostCompletionProjection p graph) in ct_State c = ContinuationContinueNow \<longrightarrow>
        pc_Active p = [ct_Task c] \<or> (\<exists>g. graph = Some g \<and> NextRunnable g (pc_Next p) = Some (ct_Task c)))"
proof -
  note kind = prepared_kind [OF prepared]
  consider "goal_completed (pc_Goal p)" | "\<not> goal_completed (pc_Goal p)" "pg_Present (pc_Goal p)"
    | "\<not> pg_Present (pc_Goal p)" "pc_Active p \<noteq> []" | "\<not> pg_Present (pc_Goal p)" "pc_Active p = []" by blast
  then show ?thesis
  proof cases
    case 1
    with kind show ?thesis by (simp add: PostCompletionProjection_def goal_completed_def Let_def continuation_states)
  next
    case 2
    with kind have "pc_Kind p = PostCompletionGraph" by simp
    with 2 show ?thesis
      by (auto simp: PostCompletionProjection_def Let_def completion_kinds continuation_states split: list.split option.split)
  next
    case 3
    with kind obtain active where "pc_Kind p = PostCompletionContinue" "pc_Active p = [active]"
      by (auto simp: goal_completed_def length_Suc_conv)
    with 3 show ?thesis by (simp add: PostCompletionProjection_def Let_def completion_kinds continuation_states)
  next
    case 4
    with kind have k: "pc_Next p = []" "pc_Kind p = (if pc_Blocked p = [] then PostCompletionExhausted else PostCompletionBlocked)"
      by (simp_all add: goal_completed_def)
    show ?thesis
    proof (cases "pc_Blocked p = []")
      case True
      with k 4 show ?thesis
        by (simp add: PostCompletionProjection_def Let_def completion_kinds continuation_states admittedCompletionProjection_def)
    next
      case False
      have "PostCompletionProjection p graph = nonGoalBlockedProjection p graph"
        using k False by (simp add: PostCompletionProjection_def Let_def completion_kinds)
      moreover obtain blocker where "FirstBlocker (Blockers g [] (pc_Blocked p)) = Some (blocker g)" for g
        using first_blocker [OF False] by metis
      ultimately show ?thesis
        using k(1) 4 False by (cases graph) (simp_all add: nonGoalBlockedProjection_def admittedCompletionProjection_def continuation_states)
    qed
  qed
qed

definition blocked_plan :: string where
  "blocked_plan = join_with [line_break] [''## ACTIVE'', ''## NEXT'', ''## BLOCKED'', ''- IMPLEMENTATION_TASKS/a.md'']"

section \<open>The completion of a request over the directory\<close>

definition task_text :: "project_tree \<Rightarrow> string \<Rightarrow> string" where
  "task_text tree path = (case readTask tree path of Inl _ \<Rightarrow> [] | Inr content \<Rightarrow> content)"

text \<open>The tasks are known: their files can be read, and their dependencies, which are among them, can be put in order.\<close>

abbreviation task_files :: "project_tree \<Rightarrow> string list \<Rightarrow> task_contents" where
  "task_files tree paths \<equiv> map (\<lambda>path. (path, task_text tree path)) paths"

definition tasks_known :: "project_tree \<Rightarrow> string list \<Rightarrow> bool" where
  "tasks_known tree paths \<longleftrightarrow> (\<forall>path\<in>set paths. \<exists>content. readTask tree path = Inr content) \<and>
     (\<exists>order. ordered (task_files tree paths) order \<and> set paths \<subseteq> set order)"

lemma task_files [simp]: "map_of (task_files tree paths) path = (if path \<in> set paths then Some (task_text tree path) else None)"
  by (induction paths) simp_all

lemma tasks_read:
  "case read_tasks tree paths contents of
      Inl _ \<Rightarrow> \<exists>path\<in>set paths. \<nexists>content. readTask tree path = Inr content
    | Inr r \<Rightarrow> (\<forall>path\<in>set paths. map_of contents path = None \<longrightarrow> readTask tree path = Inr (task_text tree path)) \<and>
        (\<forall>path. map_of r path = (if path \<in> dom (map_of contents) then map_of contents path else map_of (task_files tree paths) path))"
proof (induction tree paths contents rule: read_tasks.induct)
  case (2 tree path paths contents)
  show ?case
  proof (cases "map_of contents path")
    case None
    show ?thesis
    proof (cases "readTask tree path")
      case read: (Inr content)
      then have shown: "task_text tree path = content" by (simp add: task_text_def)
      have grown: "map_of (contents @ [(path, content)]) p = (if p = path then Some content else map_of contents p)" for p
        using None by (auto simp: map_add_def split: option.splits)
      show ?thesis
      proof (cases "read_tasks tree paths (contents @ [(path, content)])")
        case (Inr r)
        with 2(2) None read
        have "\<forall>p\<in>set paths. p \<noteq> path \<longrightarrow> map_of contents p = None \<longrightarrow> readTask tree p = Inr (task_text tree p)"
          "map_of r p = (if p \<in> dom (map_of (contents @ [(path, content)])) then map_of (contents @ [(path, content)]) p
             else map_of (task_files tree paths) p)" for p by (auto simp: grown simp del: map_of_append)
        with Inr None read shown show ?thesis
          by (auto simp: grown domIff simp del: map_of_append)
      qed (use 2(2) None read in auto)
    qed (use None in auto)
  next
    case (Some content)
    then show ?thesis using 2(1) by (auto split: sum.splits)
  qed
qed (simp add: domIff)

lemma ordered_cong: "map_of contents = map_of contents' \<Longrightarrow> ordered contents order \<longleftrightarrow> ordered contents' order"
  by (induction order) (simp_all add: task_node_def)

lemma graph_loaded:
  "\<exists>r. loadGraph tree entries = Some r \<and> (case r of
      Inl _ \<Rightarrow> \<not> tasks_known tree entries
    | Inr g \<Rightarrow> tasks_known tree entries \<and> complete_graph (task_files tree entries) entries g)"
proof (cases "read_tasks tree entries []")
  case (Inl e)
  with tasks_read [where tree = tree and paths = entries and contents = "[]"] show ?thesis by (auto simp: loadGraph_def tasks_known_def)
next
  case (Inr contents)
  with tasks_read [where tree = tree and paths = entries and contents = "[]"] have read: "\<forall>path\<in>set entries. \<exists>content. readTask tree path = Inr content"
    and same: "map_of contents = map_of (task_files tree entries)" by (auto simp: fun_eq_iff)
  have node: "task_node contents = task_node (task_files tree entries)" using same by (simp add: fun_eq_iff task_node_def)
  from graph_built [of entries contents] obtain r where "BuildTaskGraph entries contents = Some r"
    and built: "case r of Inl _ \<Rightarrow> \<nexists>order. ordered contents order \<and> set entries \<subseteq> set order | Inr g \<Rightarrow> complete_graph contents entries g"
    by blast
  with Inr have "loadGraph tree entries = Some r" by (simp add: loadGraph_def)
  moreover have "case r of Inl _ \<Rightarrow> \<not> tasks_known tree entries
      | Inr g \<Rightarrow> tasks_known tree entries \<and> complete_graph (task_files tree entries) entries g"
    using built read by (auto simp: complete_graph_def tasks_known_def ordered_cong [OF same] node split: sum.splits)
  ultimately show ?thesis by blast
qed

text \<open>The task to go on with, and the state of the directory in which a request is completed.\<close>

definition task_continues :: "project_tree \<Rightarrow> PostCompletionPlan \<Rightarrow> string \<Rightarrow> bool" where
  "task_continues tree p task \<longleftrightarrow> pc_Active p = [task] \<or> task \<in> set (pc_Next p) \<and>
     (\<exists>content dependencies. readTask tree task = Inr content \<and> ParseTaskDependencyState content = Inr dependencies \<and>
       td_Outstanding dependencies = [])"

definition request_complete :: "project_tree \<Rightarrow> string \<Rightarrow> bool" where
  "request_complete tree completedTask \<longleftrightarrow> (\<exists>plan p entries. pt_ReadFile tree plan_path = Inr (Some plan) \<and>
     PreparePostCompletion plan = Inr p \<and> EnumerateTaskCorpus tree = Inr entries \<and> ClosureFailures (pc_Schedule p) entries = [] \<and>
     pc_Active p = [] \<and> pc_Next p = [] \<and>
     (if pg_Present (pc_Goal p) then goal_completed (pc_Goal p) \<and> pc_Blocked p = []
      else completedTask \<noteq> [] \<and> completedTask \<notin> set (pc_Blocked p) \<and> tasks_known tree (pc_Blocked p)))"

lemma runnable_continues:
  assumes "complete_graph (task_files tree (post_Entries p)) (post_Entries p) g" "NextRunnable g (pc_Next p) = Some task"
    "tasks_known tree (post_Entries p)"
  shows "task_continues tree p task"
proof -
  from assms(2) obtain node where task: "task \<in> set (pc_Next p)" "tg_byPath g task = Some node" "tn_outstanding node = []"
    by (auto simp: NextRunnable_def find_Some_iff split: option.splits)
  have "\<forall>path\<in>set (post_Entries p). \<exists>content. readTask tree path = Inr content" using assms(3) unfolding tasks_known_def by blast
  with task(1) obtain content where content: "readTask tree task = Inr content" by (auto simp: post_Entries_def)
  from task(2) assms(1) have "task_node (task_files tree (post_Entries p)) task = Some node"
    by (auto simp: complete_graph_def restrict_map_def split: if_splits)
  moreover have "task_text tree task = content" using content by (simp add: task_text_def)
  then have "map_of (task_files tree (post_Entries p)) task = Some content" using task(1) by (simp add: post_Entries_def del: map_append)
  ultimately show ?thesis using task content
    by (auto simp: task_node_def task_continues_def simp del: task_files split: sum.splits if_splits)
qed

lemma closed_directory:
  "validateClosure tree schedule what = None \<longleftrightarrow> (\<exists>entries. EnumerateTaskCorpus tree = Inr entries \<and> ClosureFailures schedule entries = [])"
  by (auto simp: validateClosure_def ValidateClosure_def split: sum.splits list.splits)

lemma request_iff:
  assumes "pt_ReadFile tree plan_path = Inr (Some plan)" "PreparePostCompletion plan = Inr p"
  shows "request_complete tree completedTask \<longleftrightarrow> validateClosure tree (pc_Schedule p) what = None \<and> pc_Active p = [] \<and> pc_Next p = [] \<and>
     (if pg_Present (pc_Goal p) then goal_completed (pc_Goal p) \<and> pc_Blocked p = []
      else completedTask \<noteq> [] \<and> completedTask \<notin> set (pc_Blocked p) \<and> tasks_known tree (pc_Blocked p))"
  using assms by (auto simp: request_complete_def closed_directory)

lemma projection_closed:
  assumes prepared: "PreparePostCompletion plan = Inr p" and found: "pt_ReadFile tree plan_path = Inr (Some plan)"
    and closed: "validateClosure tree (pc_Schedule p) ''the schedule and the task corpus are not closed'' = None"
    and sync: "NonGoalCompletionSyncApplied p completedTask"
  shows "\<exists>r. BuildParentRequestCompletionProjection tree completedTask = Some r \<and>
     ((\<exists>pr. r = Inr pr \<and> pr_CompletionAdmitted pr) \<longleftrightarrow> request_complete tree completedTask) \<and>
     (\<forall>pr. r = Inr pr \<and> ct_State (pr_Continuation pr) = ContinuationContinueNow \<longrightarrow> task_continues tree p (ct_Task (pr_Continuation pr)))"
proof -
  note kind = prepared_kind [OF prepared] and request = request_iff [OF found prepared, of completedTask "''the schedule and the task corpus are not closed''"]
  have run: "BuildParentRequestCompletionProjection tree completedTask =
      (if RequiresTaskGraph p then map_option (map_sum id (\<lambda>graph. PostCompletionProjection p (Some graph))) (loadGraph tree (post_Entries p))
       else Some (Inr (PostCompletionProjection p None)))"
    using assms by (simp add: BuildParentRequestCompletionProjection_def ReadPlan_def)
  have named: "pg_Present (pc_Goal p) \<or> completedTask \<noteq> [] \<and> completedTask \<notin> set (pc_Blocked p)"
    using sync by (auto simp: NonGoalCompletionSyncApplied_def list_ex_iff)
  have empty: "tasks_known tree []" by (auto simp: tasks_known_def intro: exI [of _ "[]"])
  show ?thesis
  proof (cases "RequiresTaskGraph p")
    case False
    with kind have "\<not> pg_Present (pc_Goal p) \<Longrightarrow> pc_Active p = [] \<Longrightarrow> pc_Blocked p = []"
      by (auto simp: RequiresTaskGraph_def goal_completed_def split: if_splits)
    with projection_admitted [OF prepared, of None] named empty closed
    have "pr_CompletionAdmitted (PostCompletionProjection p None) \<longleftrightarrow> request_complete tree completedTask" unfolding request by auto
    moreover have "BuildParentRequestCompletionProjection tree completedTask = Some (Inr (PostCompletionProjection p None))"
      using run False by simp
    ultimately show ?thesis using projection_admitted [OF prepared, of None] by (auto simp: Let_def task_continues_def)
  next
    case True
    with kind have goal: "\<not> goal_completed (pc_Goal p)" by (auto simp: RequiresTaskGraph_def completion_kinds split: if_splits)
    from graph_loaded [of tree "post_Entries p"] obtain r where r: "loadGraph tree (post_Entries p) = Some r"
      "case r of Inl _ \<Rightarrow> \<not> tasks_known tree (post_Entries p)
        | Inr g \<Rightarrow> tasks_known tree (post_Entries p) \<and> complete_graph (task_files tree (post_Entries p)) (post_Entries p) g" by blast
    have blocked: "pc_Active p = [] \<Longrightarrow> pc_Next p = [] \<Longrightarrow> post_Entries p = pc_Blocked p" by (simp add: post_Entries_def)
    show ?thesis
    proof (cases r)
      case (Inl e)
      with r blocked goal have "\<not> request_complete tree completedTask" by (auto simp: request split: if_splits)
      with run True r(1) Inl show ?thesis by simp
    next
      case (Inr g)
      with r have g: "tasks_known tree (post_Entries p)" "complete_graph (task_files tree (post_Entries p)) (post_Entries p) g" by simp_all
      have "pr_CompletionAdmitted (PostCompletionProjection p (Some g)) \<longleftrightarrow> request_complete tree completedTask"
        using projection_admitted [OF prepared, of "Some g"] named g(1) blocked goal closed unfolding request by auto
      moreover have "BuildParentRequestCompletionProjection tree completedTask = Some (Inr (PostCompletionProjection p (Some g)))"
        using run True r(1) Inr by simp
      moreover have "task_continues tree p task" if "pc_Active p = [task]" for task using that by (simp add: task_continues_def)
      ultimately show ?thesis using projection_admitted [OF prepared, of "Some g"] runnable_continues [OF g(2) _ g(1)]
        by (auto simp: Let_def)
    qed
  qed
qed

text \<open>
  C36. A request is completed only when its directory is at its end: the projection of the completion always returns, and
  it admits the completion exactly when the plan exists and parses, its schedule and the task files are closed, no task is
  active or next, and either the goal is completed and no task is blocked, or there is no goal, the completed task is
  named and is not blocked, and the blocked tasks that remain are known: the file of each is read, and the dependencies
  declared in them can be put in order. When the projection asks to go on, it names the active task, or a next task whose
  file declares no outstanding dependency.
\<close>

theorem completion_admitted_iff:
  "\<exists>r. BuildParentRequestCompletionProjection tree completedTask = Some r \<and>
     ((\<exists>pr. r = Inr pr \<and> pr_CompletionAdmitted pr) \<longleftrightarrow> request_complete tree completedTask) \<and>
     (\<forall>pr. r = Inr pr \<and> ct_State (pr_Continuation pr) = ContinuationContinueNow \<longrightarrow>
        (\<exists>plan p. pt_ReadFile tree plan_path = Inr (Some plan) \<and> PreparePostCompletion plan = Inr p \<and>
           task_continues tree p (ct_Task (pr_Continuation pr))))"
proof (cases "\<exists>plan p. pt_ReadFile tree plan_path = Inr (Some plan) \<and> PreparePostCompletion plan = Inr p")
  case True
  then obtain plan p where p: "PreparePostCompletion plan = Inr p" "pt_ReadFile tree plan_path = Inr (Some plan)" by blast
  note run = BuildParentRequestCompletionProjection_def ReadPlan_def
  consider "validateClosure tree (pc_Schedule p) ''the schedule and the task corpus are not closed'' \<noteq> None"
    | "validateClosure tree (pc_Schedule p) ''the schedule and the task corpus are not closed'' = None" "\<not> NonGoalCompletionSyncApplied p completedTask"
    | "validateClosure tree (pc_Schedule p) ''the schedule and the task corpus are not closed'' = None" "NonGoalCompletionSyncApplied p completedTask"
    by blast
  then show ?thesis
  proof cases
    case 1
    then have "\<not> request_complete tree completedTask" unfolding request_iff [OF p(2,1), of _ "''the schedule and the task corpus are not closed''"] by blast
    with 1 p show ?thesis by (auto simp: run)
  next
    case 2
    then have "\<not> request_complete tree completedTask"
      by (auto simp: request_iff [OF p(2,1), of _ "''the schedule and the task corpus are not closed''"] NonGoalCompletionSyncApplied_def list_ex_iff)
    with 2 p show ?thesis by (simp add: run continuation_states)
  next
    case 3
    from projection_closed [OF p 3] p show ?thesis by blast
  qed
next
  case False
  then have "\<not> request_complete tree completedTask" by (auto simp: request_complete_def)
  moreover have "\<exists>r. BuildParentRequestCompletionProjection tree completedTask = Some r \<and>
      (\<forall>pr. r = Inr pr \<longrightarrow> \<not> pr_CompletionAdmitted pr \<and> ct_State (pr_Continuation pr) \<noteq> ContinuationContinueNow)"
  proof (cases "pt_ReadFile tree plan_path")
    case (Inr found)
    with False show ?thesis
      by (cases found; cases "PreparePostCompletion (the found)")
        (auto simp: BuildParentRequestCompletionProjection_def ReadPlan_def continuation_states UnknownContinuation_def)
  qed (simp add: BuildParentRequestCompletionProjection_def ReadPlan_def)
  ultimately show ?thesis by blast
qed

text \<open>A plan in which one task is blocked; its file declares no dependencies, or one that is not in the tasks directory.\<close>

definition blocked_tree :: "string \<Rightarrow> project_tree" where
  "blocked_tree dependency = \<lparr>pt_Stat = Inr True,
     pt_WalkDir = Inr [\<lparr>ce_Path = TasksDir, ce_Regular = False\<rparr>, \<lparr>ce_Path = ''IMPLEMENTATION_TASKS/a.md'', ce_Regular = True\<rparr>],
     pt_Lstat = \<lambda>_. Inr True,
     pt_ReadFile = \<lambda>path. Inr (if path = plan_path then Some blocked_plan
       else if path = ''IMPLEMENTATION_TASKS/a.md'' then Some (join_with [line_break] [TaskDependenciesHeading, dependency])
       else None)\<rparr>"

theorem completion_admitted_iff_witness:
  "request_complete (blocked_tree ''none'') ''IMPLEMENTATION_TASKS/b.md'' \<and>
   \<not> request_complete (blocked_tree ''- IMPLEMENTATION_TASKS/b.md'') ''IMPLEMENTATION_TASKS/b.md'' \<and>
   \<not> request_complete (blocked_tree ''none'') ''IMPLEMENTATION_TASKS/a.md''"
proof -
  let ?run = "\<lambda>dependency. BuildParentRequestCompletionProjection (blocked_tree dependency)"
  have "case ?run ''none'' ''IMPLEMENTATION_TASKS/b.md'' of Some (Inr pr) \<Rightarrow> pr_CompletionAdmitted pr | _ \<Rightarrow> False" by code_simp
  moreover have "case ?run ''- IMPLEMENTATION_TASKS/b.md'' ''IMPLEMENTATION_TASKS/b.md'' of Some (Inl _) \<Rightarrow> True | _ \<Rightarrow> False" by code_simp
  moreover have "case ?run ''none'' ''IMPLEMENTATION_TASKS/a.md'' of Some (Inr pr) \<Rightarrow> \<not> pr_CompletionAdmitted pr | _ \<Rightarrow> False" by code_simp
  ultimately show ?thesis
    using completion_admitted_iff [of "blocked_tree ''none''" "''IMPLEMENTATION_TASKS/b.md''"]
      completion_admitted_iff [of "blocked_tree ''- IMPLEMENTATION_TASKS/b.md''" "''IMPLEMENTATION_TASKS/b.md''"]
      completion_admitted_iff [of "blocked_tree ''none''" "''IMPLEMENTATION_TASKS/a.md''"]
    by (auto split: option.splits sum.splits)
qed

end
