(* ===== verification/Project_Retirement.thy ===== *)
theory Project_Retirement
  imports Project_Plan
begin

text \<open>
  Retiring a task from a project (\<^verbatim>\<open>repositoryproject/retirement.go\<close>): the plan and the task files are checked, the
  dependencies on the task are retired in every other file, the successor is determined, the plan is edited, and what has
  to be written is returned. The theorem shows that what results is a project in order again.
\<close>

section \<open>The changes of a retirement\<close>

record TerminalMetadataChange =
  mc_Path :: string
  mc_NewBytes :: string
  mc_Delete :: bool

record TerminalMetadata =
  tm_Changes :: "TerminalMetadataChange list"
  tm_Successor :: string

definition corpus_entries :: "task_contents \<Rightarrow> TaskCorpusEntry list" where
  "corpus_entries tasks = map (\<lambda>(path, _). \<lparr>ce_Path = path, ce_Regular = True\<rparr>) tasks"

text \<open>The missing graph is out of reach: building it always returns.\<close>

definition validateRetirementCorpus :: "PlanSchedule \<Rightarrow> task_contents \<Rightarrow> state_error option" where
  "validateRetirementCorpus schedule tasks = (case ValidateComplete schedule of
       Inl e \<Rightarrow> Some e
     | Inr _ \<Rightarrow> (case ValidateClosure schedule (corpus_entries tasks) ''terminal metadata corpus is invalid'' of
           Some e \<Rightarrow> Some e
         | None \<Rightarrow> (case BuildTaskGraph (ps_Active schedule @ ps_Next schedule @ ps_Blocked schedule) tasks of
               Some (Inr _) \<Rightarrow> None
             | Some (Inl e) \<Rightarrow> Some e
             | None \<Rightarrow> Some (Errorf ''out of fuel'' []))))"

fun retireInboundDependencies :: "task_contents \<Rightarrow> string \<Rightarrow> string list \<Rightarrow> (state_error, task_contents \<times> string list) result" where
  "retireInboundDependencies [] target changedPaths = Inr ([], changedPaths)"
| "retireInboundDependencies ((path, content) # tasks) target changedPaths =
     (if path = target then retireInboundDependencies tasks target changedPaths
      else case RetireTaskDependency content target of
          Inl e \<Rightarrow> Inl (Wrapf (''retire inbound dependency '' @ path) e)
        | Inr (updated, changed) \<Rightarrow> map_sum id (\<lambda>(updatedTasks, paths). ((path, updated) # updatedTasks, paths))
            (retireInboundDependencies tasks target (if changed then changedPaths @ [path] else changedPaths)))"

definition task_bytes :: "task_contents \<Rightarrow> string \<Rightarrow> string" where
  "task_bytes tasks path = (case map_of tasks path of None \<Rightarrow> [] | Some content \<Rightarrow> content)"

definition terminalRetirementSuccessor :: "PlanSchedule \<Rightarrow> task_contents \<Rightarrow> bool \<Rightarrow> (state_error, string) result" where
  "terminalRetirementSuccessor schedule tasks blocker =
     (if blocker then Inr []
      else case ps_Next schedule of
          [] \<Rightarrow> Inl (Errorf ''terminal focus has no mechanical NEXT successor'' [])
        | successor # _ \<Rightarrow> (case ParseTaskDependencyState (task_bytes tasks successor) of
              Inr deps \<Rightarrow> if td_Outstanding deps = [] then Inr successor else Inl (Errorf ''first NEXT requires dependency/priority decision'' [])
            | Inl _ \<Rightarrow> Inl (Errorf ''first NEXT requires dependency/priority decision'' [])))"

fun metadata_changes :: "string \<Rightarrow> task_contents \<Rightarrow> string \<Rightarrow> string list \<Rightarrow> (state_error, TerminalMetadataChange list) result" where
  "metadata_changes plan tasks target [] = Inr []"
| "metadata_changes plan tasks target (path # paths) =
     (case (if path = target then Inr \<lparr>mc_Path = path, mc_NewBytes = [], mc_Delete = True\<rparr>
        else if path = plan_path then Inr \<lparr>mc_Path = path, mc_NewBytes = plan, mc_Delete = False\<rparr>
        else case map_of tasks path of
            None \<Rightarrow> Inl (Errorf ''terminal metadata changed Task is missing'' [path])
          | Some content \<Rightarrow> Inr \<lparr>mc_Path = path, mc_NewBytes = content, mc_Delete = False\<rparr>) of
        Inl e \<Rightarrow> Inl e
      | Inr change \<Rightarrow> map_sum id (\<lambda>changes. change # changes) (metadata_changes plan tasks target paths))"

definition terminalMetadataChanges ::
    "string \<Rightarrow> task_contents \<Rightarrow> string list \<Rightarrow> string \<Rightarrow> (state_error, TerminalMetadataChange list) result" where
  "terminalMetadataChanges plan tasks changedPaths target = metadata_changes plan tasks target (sort changedPaths)"

definition RetireTerminalMetadata :: "string \<Rightarrow> task_contents \<Rightarrow> string \<Rightarrow> bool \<Rightarrow> (state_error, TerminalMetadata) result" where
  "RetireTerminalMetadata plan tasks target blocker = (let schedule = ParsePlanSchedule plan in
     case ValidateComplete schedule of
       Inl e \<Rightarrow> Inl e
     | Inr active \<Rightarrow>
         if map_of tasks target = None \<or> blocker = (active = target) then Inl (Errorf ''terminal Task/focus identity is invalid'' [])
         else case validateRetirementCorpus schedule tasks of
             Some e \<Rightarrow> Inl e
           | None \<Rightarrow> (case retireInboundDependencies tasks target [target, plan_path] of
               Inl e \<Rightarrow> Inl e
             | Inr (updatedTasks, changedPaths) \<Rightarrow> (case terminalRetirementSuccessor schedule updatedTasks blocker of
                   Inl e \<Rightarrow> Inl e
                 | Inr successor \<Rightarrow> (case RetirePlanTask plan target successor of
                       Inl e \<Rightarrow> Inl e
                     | Inr updatedPlan \<Rightarrow> (case validateRetirementCorpus (ParsePlanSchedule updatedPlan) updatedTasks of
                           Some e \<Rightarrow> Inl e
                         | None \<Rightarrow> map_sum id (\<lambda>changes. \<lparr>tm_Changes = changes, tm_Successor = successor\<rparr>)
                             (terminalMetadataChanges updatedPlan updatedTasks changedPaths target))))))"

section \<open>The project after a retirement\<close>

definition after_changes :: "TerminalMetadataChange list \<Rightarrow> (string \<rightharpoonup> string) \<Rightarrow> (string \<rightharpoonup> string)" where
  "after_changes changes repo path = (case find (\<lambda>c. mc_Path c = path) changes of
       None \<Rightarrow> repo path
     | Some c \<Rightarrow> if mc_Delete c then None else Some (mc_NewBytes c))"

definition in_order :: "string \<Rightarrow> task_contents \<Rightarrow> bool" where
  "in_order plan tasks \<longleftrightarrow> closed (ParsePlanSchedule plan) (corpus_entries tasks) \<and> (\<exists>order. ordered tasks order \<and> set order = fst ` set tasks)"

lemma corpus_paths [simp]: "map ce_Path (corpus_entries tasks) = map fst tasks" "ce_Path ` set (corpus_entries tasks) = fst ` set tasks"
proof -
  show "map ce_Path (corpus_entries tasks) = map fst tasks" by (simp add: corpus_entries_def comp_def case_prod_beta)
  from arg_cong [OF this, of set] show "ce_Path ` set (corpus_entries tasks) = fst ` set tasks" by simp
qed

lemma corpus_validated:
  assumes "validateRetirementCorpus (ParsePlanSchedule plan) tasks = None" "distinct (map fst tasks)"
  shows "in_order plan tasks"
proof -
  let ?s = "ParsePlanSchedule plan"
  obtain g where closure: "ClosureFailures ?s (corpus_entries tasks) = []" and graph: "BuildTaskGraph (scheduled ?s) tasks = Some (Inr g)"
    using assms(1) by (auto simp: validateRetirementCorpus_def ValidateClosure_def split: sum.splits option.splits list.splits)
  have closed: "closed ?s (corpus_entries tasks)" using closure_iff [of "corpus_entries tasks" ?s] closure assms(2) by simp
  then have paths: "set (scheduled ?s) = fst ` set tasks" by (simp add: closed_def)
  have "complete_graph tasks (scheduled ?s) g" using graph_built [of "scheduled ?s" tasks] graph by auto
  then obtain order where order: "ordered tasks order" "fst ` set tasks \<subseteq> set order" unfolding complete_graph_def paths by auto
  have "map_of tasks path \<noteq> None" if "path \<in> set order" for path by (rule ordered_content [OF order(1) that])
  then have "set order \<subseteq> fst ` set tasks" by (auto simp: map_of_eq_None_iff)
  with order closed show ?thesis unfolding in_order_def by blast
qed

text \<open>What the retirement of the dependencies makes of one file.\<close>

definition retired_file :: "task_contents \<Rightarrow> string \<Rightarrow> string list \<Rightarrow> string \<times> string \<Rightarrow> bool" where
  "retired_file tasks target paths file = (\<exists>content changed. (fst file, content) \<in> set tasks \<and>
     RetireTaskDependency content target = Inr (snd file, changed) \<and> (changed \<longrightarrow> fst file \<in> set paths))"

lemma retired_file_Cons: "retired_file tasks target paths file \<Longrightarrow> retired_file (task # tasks) target paths file"
  unfolding retired_file_def by (meson list.set_intros(2))

lemma inbound_retired:
  "retireInboundDependencies tasks target before = Inr (updated, paths) \<Longrightarrow>
     map fst updated = filter (\<lambda>path. path \<noteq> target) (map fst tasks) \<and> set before \<subseteq> set paths \<and> set paths \<subseteq> set before \<union> fst ` set updated \<and>
     list_all (retired_file tasks target paths) updated"
proof (induction tasks arbitrary: before updated)
  case (Cons task tasks)
  obtain path content where task: "task = (path, content)" by fastforce
  have mono: "list_all (retired_file (task # tasks) target paths) files" if "list_all (retired_file tasks target paths) files" for files
    using that retired_file_Cons by (metis list_all_iff)
  show ?case
  proof (cases "path = target")
    case True
    with Cons.prems task have "retireInboundDependencies tasks target before = Inr (updated, paths)" by simp
    from Cons.IH [OF this] True task mono show ?thesis by simp
  next
    case False
    with Cons.prems task obtain content' changed rest where run: "RetireTaskDependency content target = Inr (content', changed)"
      "retireInboundDependencies tasks target (if changed then before @ [path] else before) = Inr (rest, paths)" "updated = (path, content') # rest"
      by (auto simp: map_sum_Inr split: sum.splits)
    note IH = Cons.IH [OF run(2)]
    have before: "set before \<subseteq> set paths" "changed \<longrightarrow> path \<in> set paths" using IH by (auto split: if_splits)
    have "retired_file (task # tasks) target paths (path, content')" unfolding retired_file_def using run(1) before(2) task by auto
    moreover have "set paths \<subseteq> set before \<union> fst ` set updated" using IH run(3) by (cases changed) auto
    ultimately show ?thesis using IH mono run(3) before(1) False task by simp
  qed
qed simp

lemma changes_found:
  "metadata_changes plan tasks target paths = Inr changes \<Longrightarrow> find (\<lambda>c. mc_Path c = path) changes =
     (if path \<notin> set paths then None
      else if path = target then Some \<lparr>mc_Path = path, mc_NewBytes = [], mc_Delete = True\<rparr>
      else if path = plan_path then Some \<lparr>mc_Path = path, mc_NewBytes = plan, mc_Delete = False\<rparr>
      else map_option (\<lambda>content. \<lparr>mc_Path = path, mc_NewBytes = content, mc_Delete = False\<rparr>) (map_of tasks path))"
proof (induction paths arbitrary: changes)
  case (Cons p paths)
  obtain change rest where change: "changes = change # rest" "metadata_changes plan tasks target paths = Inr rest" "mc_Path change = p"
    "Some change = (if p = target then Some \<lparr>mc_Path = p, mc_NewBytes = [], mc_Delete = True\<rparr>
      else if p = plan_path then Some \<lparr>mc_Path = p, mc_NewBytes = plan, mc_Delete = False\<rparr>
      else map_option (\<lambda>content. \<lparr>mc_Path = p, mc_NewBytes = content, mc_Delete = False\<rparr>) (map_of tasks p))"
    using Cons.prems by (auto simp: map_sum_Inr split: if_splits option.splits sum.splits)
  show ?case
  proof (cases "path = p")
    case True
    have "find (\<lambda>c. mc_Path c = path) changes = Some change" using change(1,3) True by simp
    with change(4) True show ?thesis by simp
  next
    case False
    have "find (\<lambda>c. mc_Path c = path) changes = find (\<lambda>c. mc_Path c = path) rest" using change(1,3) False by simp
    with Cons.IH [OF change(2)] False show ?thesis by simp
  qed
qed simp

lemma plan_not_task:
  assumes "in_order plan tasks" shows "plan_path \<notin> fst ` set tasks"
proof
  assume "plan_path \<in> fst ` set tasks"
  then have "ValidateActiveTaskPath plan_path = None" using assms unfolding in_order_def closed_def by simp
  then show False by (simp add: ValidateActiveTaskPath_def plan_path_def TasksDir_def has_prefix_def)
qed

lemma changes_applied:
  assumes distinct: "distinct (map fst tasks)" and target: "target \<in> fst ` set tasks" and plan: "plan_path \<notin> fst ` set tasks"
    and inbound: "retireInboundDependencies tasks target [target, plan_path] = Inr (updated, paths)"
    and changes: "terminalMetadataChanges plan' updated paths target = Inr changes"
  shows "after_changes changes ((map_of tasks)(plan_path \<mapsto> plan)) = (map_of updated)(plan_path \<mapsto> plan')"
proof
  fix path
  note retired = inbound_retired [OF inbound] and found = changes_found [OF changes [unfolded terminalMetadataChanges_def], of path, unfolded set_sort]
  have keys: "map_of updated path = None \<longleftrightarrow> path \<notin> fst ` set tasks - {target}"
    using arg_cong [OF retired [THEN conjunct1], of set] by (auto simp: map_of_eq_None_iff)
  have "target \<noteq> plan_path" using target plan by metis
  moreover have "target \<in> set paths" "plan_path \<in> set paths" using retired by simp_all
  ultimately have neq: "target \<noteq> plan_path" "target \<in> set paths" "plan_path \<in> set paths" by blast+
  consider "path = plan_path" | "path = target" | "path \<notin> {plan_path, target}" "path \<in> set paths" | "path \<notin> {plan_path, target}" "path \<notin> set paths" by blast
  then show "after_changes changes ((map_of tasks)(plan_path \<mapsto> plan)) path = ((map_of updated)(plan_path \<mapsto> plan')) path"
  proof cases
    case 4
    have "map_of updated path = map_of tasks path"
    proof (cases "map_of updated path")
      case None
      with keys 4(1) have "path \<notin> fst ` set tasks" by blast
      with None show ?thesis using map_of_eq_None_iff [of tasks path] by simp
    next
      case (Some content')
      then have "retired_file tasks target paths (path, content')" using retired by (auto simp: list_all_iff dest: map_of_SomeD)
      then obtain content where content: "(path, content) \<in> set tasks" "RetireTaskDependency content target = Inr (content', False)"
        using 4(2) unfolding retired_file_def by auto
      have "content' = content" using dependency_retired [OF content(2)] by auto
      with content(1) have "(path, content') \<in> set tasks" by simp
      then show ?thesis using Some distinct by (simp add: map_of_eq_Some_iff)
    qed
    with found 4 show ?thesis by (simp add: after_changes_def)
  next
    case 3
    then have "path \<in> fst ` set updated" using retired by auto
    then obtain content' where "map_of updated path = Some content'" by (metis map_of_eq_None_iff not_None_eq)
    with found 3 show ?thesis by (simp add: after_changes_def)
  qed (use found neq keys in \<open>auto simp: after_changes_def\<close>)
qed

lemma retired_dependencies:
  assumes "retired_file tasks target paths (path, content')"
  obtains content s s' where "(path, content) \<in> set tasks" "ParseTaskDependencyState content = Inr s"
    "ParseTaskDependencyState content' = Inr s'" "td_Outstanding s' = filter (\<lambda>q. q \<noteq> target) (td_Outstanding s)"
proof -
  obtain content changed where content: "(path, content) \<in> set tasks" and run: "RetireTaskDependency content target = Inr (content', changed)"
    using assms by (auto simp: retired_file_def)
  from dependency_retired [OF run] obtain s where s: "ParseTaskDependencyState content = Inr s" "changed \<longleftrightarrow> target \<in> set (td_Outstanding s)"
    and result: "if changed then ParseTaskDependencyState content' = Inr \<lparr>td_Outstanding = filter (\<lambda>q. q \<noteq> target) (td_Outstanding s),
        td_Fulfilled = (if fulfilled_lost content then [] else td_Fulfilled s @ [target])\<rparr> else content' = content" by blast
  show ?thesis
  proof (cases changed)
    case True
    with that [OF content s(1)] result show ?thesis by simp
  next
    case False
    with s(2) have "filter (\<lambda>q. q \<noteq> target) (td_Outstanding s) = td_Outstanding s" by (auto simp: filter_id_conv)
    with that [OF content s(1)] s(1) result False show ?thesis by simp
  qed
qed

definition dependencies_retired :: "task_contents \<Rightarrow> string \<Rightarrow> task_contents \<Rightarrow> bool" where
  "dependencies_retired tasks target tasks' \<longleftrightarrow> (\<forall>(path, content')\<in>set tasks'. \<exists>content s s'. (path, content) \<in> set tasks \<and>
     ParseTaskDependencyState content = Inr s \<and> ParseTaskDependencyState content' = Inr s' \<and>
     td_Outstanding s' = filter (\<lambda>q. q \<noteq> target) (td_Outstanding s))"

definition runnable :: "task_contents \<Rightarrow> string \<Rightarrow> bool" where
  "runnable tasks path \<longleftrightarrow> (\<exists>s. ParseTaskDependencyState (task_bytes tasks path) = Inr s \<and> td_Outstanding s = [])"

lemma retirement_steps:
  assumes "RetireTerminalMetadata plan tasks target blocker = Inr m"
  obtains updated paths plan' where "target \<in> fst ` set tasks" "validateRetirementCorpus (ParsePlanSchedule plan) tasks = None"
    "retireInboundDependencies tasks target [target, plan_path] = Inr (updated, paths)"
    "terminalRetirementSuccessor (ParsePlanSchedule plan) updated blocker = Inr (tm_Successor m)"
    "RetirePlanTask plan target (tm_Successor m) = Inr plan'" "validateRetirementCorpus (ParsePlanSchedule plan') updated = None"
    "terminalMetadataChanges plan' updated paths target = Inr (tm_Changes m)"
proof -
  obtain active where active: "ValidateComplete (ParsePlanSchedule plan) = Inr active" and target: "map_of tasks target \<noteq> None"
    and valid: "validateRetirementCorpus (ParsePlanSchedule plan) tasks = None"
    using assms by (auto simp: RetireTerminalMetadata_def Let_def split: sum.splits option.splits if_splits)
  obtain updated paths where inbound: "retireInboundDependencies tasks target [target, plan_path] = Inr (updated, paths)"
    using assms active valid by (auto simp: RetireTerminalMetadata_def Let_def split: sum.splits if_splits)
  have "target \<in> fst ` set tasks" using target by (simp add: map_of_eq_None_iff)
  moreover obtain plan' where "terminalRetirementSuccessor (ParsePlanSchedule plan) updated blocker = Inr (tm_Successor m)"
    "RetirePlanTask plan target (tm_Successor m) = Inr plan'" "validateRetirementCorpus (ParsePlanSchedule plan') updated = None"
    "terminalMetadataChanges plan' updated paths target = Inr (tm_Changes m)"
    using assms active valid inbound
    by (auto simp: RetireTerminalMetadata_def Let_def map_sum_Inr split: sum.splits option.splits if_splits)
  ultimately show ?thesis by (intro that [OF _ valid inbound])
qed

text \<open>
  C9. Retiring a task leaves the project in order. When the changes are found, writing them into a repository yields a
  plan and task files such that the file of the task is gone and no other, the schedule is the old one with the task
  retired, every other file declares its old outstanding dependencies without the task, the schedule lists exactly the
  remaining files, their dependencies have no cycle, and the successor of a retired active task has nothing outstanding.
\<close>

theorem retirement_keeps_order:
  assumes distinct: "distinct (map fst tasks)" and run: "RetireTerminalMetadata plan tasks target blocker = Inr m"
  shows "\<exists>plan' tasks'. after_changes (tm_Changes m) ((map_of tasks)(plan_path \<mapsto> plan)) = (map_of tasks')(plan_path \<mapsto> plan') \<and>
     map fst tasks' = filter (\<lambda>path. path \<noteq> target) (map fst tasks) \<and>
     ParsePlanSchedule plan' = retired_schedule (ParsePlanSchedule plan) target (tm_Successor m) \<and>
     dependencies_retired tasks target tasks' \<and> in_order plan' tasks' \<and> (blocker \<or> runnable tasks' (tm_Successor m))"
proof -
  obtain tasks' paths plan' where target: "target \<in> fst ` set tasks" and before: "validateRetirementCorpus (ParsePlanSchedule plan) tasks = None"
    and inbound: "retireInboundDependencies tasks target [target, plan_path] = Inr (tasks', paths)"
    and successor: "terminalRetirementSuccessor (ParsePlanSchedule plan) tasks' blocker = Inr (tm_Successor m)"
    and edit: "RetirePlanTask plan target (tm_Successor m) = Inr plan'" and after: "validateRetirementCorpus (ParsePlanSchedule plan') tasks' = None"
    and changes: "terminalMetadataChanges plan' tasks' paths target = Inr (tm_Changes m)"
    using retirement_steps [OF run] by metis
  note retired = inbound_retired [OF inbound]
  have "plan_path \<notin> fst ` set tasks" using plan_not_task corpus_validated [OF before distinct] by blast
  note applied = changes_applied [OF distinct target this inbound changes]
  have "dependencies_retired tasks target tasks'"
    unfolding dependencies_retired_def
  proof (intro ballI, clarify)
    fix path content' assume "(path, content') \<in> set tasks'"
    then have "retired_file tasks target paths (path, content')" using retired by (auto simp: list_all_iff)
    from retired_dependencies [OF this] show "\<exists>content s s'. (path, content) \<in> set tasks \<and> ParseTaskDependencyState content = Inr s \<and>
        ParseTaskDependencyState content' = Inr s' \<and> td_Outstanding s' = filter (\<lambda>q. q \<noteq> target) (td_Outstanding s)" by metis
  qed
  moreover have "distinct (map fst tasks')" using retired distinct by simp
  then have "in_order plan' tasks'" by (rule corpus_validated [OF after])
  moreover have "blocker \<or> runnable tasks' (tm_Successor m)"
    using successor by (auto simp: terminalRetirementSuccessor_def runnable_def split: if_splits list.splits sum.splits)
  ultimately show ?thesis
    by (intro exI [of _ plan'] exI [of _ tasks'] conjI applied retired [THEN conjunct1] plan_retired [OF edit, THEN conjunct1])
qed

definition sample_tasks :: task_contents where
  "sample_tasks = [(''IMPLEMENTATION_TASKS/a.md'', join_with [line_break] [TaskDependenciesHeading, ''none'']),
     (''IMPLEMENTATION_TASKS/b.md'', join_with [line_break] [TaskDependenciesHeading, ''- IMPLEMENTATION_TASKS/a.md''])]"

theorem retirement_keeps_order_witness:
  "\<exists>m plan' tasks'. RetireTerminalMetadata closed_plan sample_tasks ''IMPLEMENTATION_TASKS/a.md'' False = Inr m \<and>
     tm_Successor m = ''IMPLEMENTATION_TASKS/b.md'' \<and> map fst tasks' = [''IMPLEMENTATION_TASKS/b.md''] \<and> in_order plan' tasks' \<and>
     after_changes (tm_Changes m) ((map_of sample_tasks)(plan_path \<mapsto> closed_plan)) = (map_of tasks')(plan_path \<mapsto> plan')"
proof -
  let ?run = "RetireTerminalMetadata closed_plan sample_tasks ''IMPLEMENTATION_TASKS/a.md'' False"
  have "case ?run of Inl _ \<Rightarrow> False | Inr m \<Rightarrow> tm_Successor m = ''IMPLEMENTATION_TASKS/b.md''" by code_simp
  then obtain m where m: "?run = Inr m" "tm_Successor m = ''IMPLEMENTATION_TASKS/b.md''" by (cases ?run) auto
  have distinct: "distinct (map fst sample_tasks)" by (simp add: sample_tasks_def)
  have "filter (\<lambda>path. path \<noteq> ''IMPLEMENTATION_TASKS/a.md'') (map fst sample_tasks) = [''IMPLEMENTATION_TASKS/b.md'']"
    by (simp add: sample_tasks_def)
  with retirement_keeps_order [OF distinct m(1)] m(2) obtain plan' tasks' where "in_order plan' tasks'" "map fst tasks' = [''IMPLEMENTATION_TASKS/b.md'']"
    "after_changes (tm_Changes m) ((map_of sample_tasks)(plan_path \<mapsto> closed_plan)) = (map_of tasks')(plan_path \<mapsto> plan')" by metis
  with m show ?thesis by (intro exI [of _ m] exI [of _ plan'] exI [of _ tasks'] conjI)
qed

end
