(* ===== verification/Spec2Isabelle.thy ===== *)
theory Spec2Isabelle
  imports Authority_Sync Project_Retirement
begin

text \<open>
  Verification of the task state of \<^verbatim>\<open>glm-worker\<close>, the program that lets a parent session (Codex) drive a
  worker and a reviewer model through one task of a repository.

  \<^bold>\<open>The program.\<close> Every command is a short process. What a task is lives in a state directory, one per
  repository, that \<^verbatim>\<open>internal/state\<close> reads and writes: the identity and status of the task, the resume
  checkpoint of a stopped run, the open review with its evidence, the decisions and observations of
  the parent, the markers of a session rotation, the records of a publication. The models
  answer with packets that \<^verbatim>\<open>internal/packet\<close> validates, naming review targets that \<^verbatim>\<open>internal/reviewtarget\<close>
  parses. \<^verbatim>\<open>internal/workflow\<close>, \<^verbatim>\<open>internal/controller\<close> and the commands call these packages. A command
  may fail at any access of the file system and may be killed between any two; the code snapshots,
  journals and rolls back so that the directory stays usable. That is what is verified here.

  \<^bold>\<open>The model.\<close> A store (theory File_Store, record \<^verbatim>\<open>StateStore\<close>) maps file names to contents, has a clock,
  and an oracle that says which accesses fail; operations are functions from the store to a result or
  an error and the store after it, composed by \<^verbatim>\<open>bindE\<close>, \<^verbatim>\<open>thenE\<close> and \<^verbatim>\<open>catchE\<close> as the code composes its calls
  and early returns. Contents are texts or decoded JSON documents (State_Docs). A theorem
  \<open>for every pattern of faults\<close> quantifies over the oracle. Hoare triples (File_Store, Store) and frames
  (\<^verbatim>\<open>touches\<close>, \<^verbatim>\<open>reads\<close> in Documents and Store_Runs) carry the proofs; Store_Runs has the laws without faults,
  with which the theorems that something returns are proved. A crash between two accesses is the
  directory in the middle of a transaction: the recoveries start from every such directory.

  \<^bold>\<open>Theories and sources\<close> (paths under \<^verbatim>\<open>src/glm-worker/internal\<close>).
  \<^item> Prelude, Go_Json: Go strings as byte lists and what is used of \<^verbatim>\<open>strings\<close>, \<^verbatim>\<open>utf8\<close>, \<^verbatim>\<open>strconv\<close>, \<^verbatim>\<open>path\<close>
    and \<^verbatim>\<open>encoding/json\<close>.
  \<^item> Packet, Packet_Validate: \<^verbatim>\<open>packet/contract.go\<close>, \<^verbatim>\<open>result.go\<close>, \<^verbatim>\<open>validate.go\<close> with the locale
    \<^verbatim>\<open>violation_collector\<close> for the constraint collector. Review_Target: \<^verbatim>\<open>reviewtarget/target.go\<close>.
  \<^item> Uuid: \<^verbatim>\<open>state/store_util.go\<close>. Resume: \<^verbatim>\<open>resume.go\<close>. Task_Stats: \<^verbatim>\<open>stats.go\<close>, \<^verbatim>\<open>stats_recording.go\<close> and the
    counters of \<^verbatim>\<open>parent_review.go\<close>. Review_State: \<^verbatim>\<open>parent_review_state.go\<close>, \<^verbatim>\<open>parent_review_evidence.go\<close>,
    \<^verbatim>\<open>parent_review_coverage.go\<close>. State_Docs: the other documents.
  \<^item> File_Store, Store, Store_Runs: \<^verbatim>\<open>store.go\<close>, \<^verbatim>\<open>lifecycle.go\<close>, \<^verbatim>\<open>session_invalidation.go\<close>, the evidence lease
    of \<^verbatim>\<open>parentevidence.go\<close>. Lifecycle: \<^verbatim>\<open>lifecycle_transition.go\<close>, with the locales \<^verbatim>\<open>failure_atomic\<close> and
    \<^verbatim>\<open>lifecycle_machine\<close> interpreted on the transitions of the code.
  \<^item> Documents: the contract of a validated document (locale \<^verbatim>\<open>stored_document\<close>), interpreted in Bindings
    (\<^verbatim>\<open>defect_registration.go\<close>, \<^verbatim>\<open>controller_runtime_binding.go\<close>, \<^verbatim>\<open>controller_task_termination.go\<close>,
    \<^verbatim>\<open>runtime_disposition.go\<close>, \<^verbatim>\<open>task_authority.go\<close>) and Publication (\<^verbatim>\<open>publication_candidate.go\<close>,
    \<^verbatim>\<open>publication_invalidation.go\<close>, \<^verbatim>\<open>publication_reopen_lineage.go\<close>, \<^verbatim>\<open>runtime_install.go\<close>).
  \<^item> Parent_Begin: \<^verbatim>\<open>parent_action_begin.go\<close>, \<^verbatim>\<open>quality_surface_recovery.go\<close>. Parent_Reopen: \<^verbatim>\<open>parent_reopen.go\<close>,
    \<^verbatim>\<open>parent_reopen_transaction.go\<close>. Parent_Complete: \<^verbatim>\<open>parent_accept.go\<close>, \<^verbatim>\<open>parent_no_go.go\<close>,
    \<^verbatim>\<open>parent_complete.go\<close>, \<^verbatim>\<open>parent_completion_transition.go\<close> and the evidence operations. Parent_Reentry:
    \<^verbatim>\<open>parent_reentry.go\<close>, \<^verbatim>\<open>unsealed_parent_completion.go\<close>. Parent_Plan: \<^verbatim>\<open>parent_action.go\<close>. New_Task:
    \<^verbatim>\<open>new_task_transition.go\<close>, \<^verbatim>\<open>task_state_lifetime.go\<close>.
  \<^item> Session_Rotation, Rotation_Protocol: \<^verbatim>\<open>session_rotation.go\<close> and its companions, with the abstract
    protocol as an inductive relation. Observation: \<^verbatim>\<open>observation_execution.go\<close>. Convergence:
    \<^verbatim>\<open>convergence.go\<close>.
  \<^item> Milestones: \<^verbatim>\<open>executionunit/preflight.go\<close>, \<^verbatim>\<open>executionunit/state.go\<close>, \<^verbatim>\<open>executionmilestone/state.go\<close> (its \<^verbatim>\<open>Load\<close>
    and \<^verbatim>\<open>Save\<close> are \<^verbatim>\<open>LoadPlan\<close> and \<^verbatim>\<open>SavePlan\<close> here), with the locale \<^verbatim>\<open>optional_document\<close> interpreted on the plan and on
    the disposition. Milestone_Progress, Milestone_Prompt, Milestone_Flow: \<^verbatim>\<open>workflow/execution_progress.go\<close>,
    \<^verbatim>\<open>execution_milestone_contract.go\<close>, \<^verbatim>\<open>execution_milestone_flow.go\<close>, \<^verbatim>\<open>execution_milestone_state.go\<close>,
    \<^verbatim>\<open>execution_unit_decision.go\<close>. Authority_Sync: \<^verbatim>\<open>workflow/task_authority_sync.go\<close>.
  \<^item> Task_Document, Plan_Schedule, Task_Retirement, Plan_Retirement: the texts a repository keeps about its tasks, as
    \<^verbatim>\<open>internal/taskcontract\<close> reads and edits them. The first has the parsers of task documents and of the goal of a
    plan, the second the schedule of a plan (\<^verbatim>\<open>schedule.go\<close>, \<^verbatim>\<open>corpus.go\<close>), the others the retirement of a finished task
    from task documents and from the plan (\<^verbatim>\<open>retirement.go\<close>).
  \<^item> Task_Graph, Project_Plan, Project_Retirement: \<^verbatim>\<open>repositoryproject/graph.go\<close>, then \<^verbatim>\<open>plan.go\<close>, \<^verbatim>\<open>continuation.go\<close>,
    \<^verbatim>\<open>selected_task_continuation.go\<close>, \<^verbatim>\<open>task_attribution.go\<close> and \<^verbatim>\<open>observation.go\<close> with \<^verbatim>\<open>repositoryprojecttree/tree.go\<close>, then
    \<^verbatim>\<open>retirement.go\<close>. The nodes of the graph are
    objects that the code shares through pointers; the map by path is the store of them. The files of the tasks are an
    association list, in the order in which the code happens to visit the map.

  \<^bold>\<open>What is shown.\<close> The transactions (lifecycle transitions, begin, reopen, acceptance, no-go, reentry, the start
  of a task) are atomic under every pattern of faults, up to an error that itself reports a failed rollback and up to
  the exceptions that the theorems name: the activation of an approval does not restore the parent review, and a begin
  can lose the record of an earlier one. Recovery from an interrupted transaction restores what was recorded, and
  succeeds exactly when the directory still belongs to it. The directory stays
  consistent along every sequence of transitions in which no rollback fails, the acceptance of a review that asks for
  one needs evidence of the repository state at a moment during the call, plans are well formed and admission respects them, no observation is repeated, rotation
  markers implement their protocol, a task is ended once, defect registrations refine a map. An ordinary start declines the rotations
  that are only recommended and no others. Review targets print back to the text they were parsed from. The validation of packets accepts exactly the
  contract, advisories are bounded and bounding them terminates. The difference of two rounds equals its
  reference definition for every order of map iteration. Without faults the operations that must make
  progress return: recovery, claiming a rotation, recovering lost observations, the plan of a stopped task,
  a contract synchronisation after any number of failed ones, and below the plan of a task that has just
  been started. The plan of milestones stays consistent along every run, a revision keeps what is completed,
  the chain of worker calls ends and reaches the review only after the last milestone, a prompt keeps one
  milestone block, and the reported progress never goes back. The closure check of a
  plan accepts exactly the schedules that list every task file once, and retiring a dependency of a task document moves
  exactly that one to the fulfilled ones, with one exception that the theorem names. Retiring a task from a plan edits the
  schedule as it should, the graph of dependencies is built exactly when they have no cycle and nothing is missing, and the
  three together leave the project in order when a task is retired. A request is completed only when its
  directory is at its end.

  \<^bold>\<open>Arguments of the model\<close> stand for what lies outside: random bytes, parsing and printing of time stamps, the
  Unicode tables, the Git snapshot (asked for at a moment, counted in accesses, since the working tree may change during
  a command) and the addressing of review targets, SHA-256, the evaluation of session
  rotation signals, the resolution of artifact paths, and the callback of the start of a task. For the
  milestones they are the records \<^verbatim>\<open>repository\<close> (reading the contract, its digest, the Git snapshot), \<^verbatim>\<open>engine\<close>
  (the model call, the review and the gates, of which the theorems assume that they leave the plan alone), the
  decoder of a payload, and \<^verbatim>\<open>sync_view\<close> (what the controller says of the live attempt). For task documents it is the
  decoder of the JSON in a machine acceptance; for a retirement the task files are given, for the projections of a project
  the record \<^verbatim>\<open>project_tree\<close> has the answers of the file system. Integers are
  unbounded where the code only counts; the evidence lease wraps at 64 bits. The loops are structural or come
  with a termination proof (\<^verbatim>\<open>fit_loop\<close>, trimming, decoding of runes, \<^verbatim>\<open>remove_blocks\<close>). Only two recursions
  have fuel: for the chain of worker calls nine is enough, because a plan has at most eight milestones and each call
  completes one; for the task graph one more than the number of task files is enough, because every level visits a file
  for the first time. Both are theorems.

  \<^bold>\<open>Not modelled.\<close> Other processes working on the directory at the same time: the repository lock excludes
  them, and taking a lock is an access that may fail. Statistics, event logs and telemetry are written
  best-effort and no modelled decision reads them; the theorems leave the statistics file free. State documents
  are kept decoded: their JSON text is not printed and parsed, so nothing is claimed of tags and encodings, and file permissions are not represented.
  The rest of the control flow of \<^verbatim>\<open>workflow\<close> (prompts, model calls, review rounds, automatic fixes), \<^verbatim>\<open>controller\<close>, the
  commands, reports, installation and everything that runs Git, models or other processes is outside;
  the manifest lists each such part.
\<close>

section \<open>A started task\<close>

lemma checkpoint_absent:
  assumes "F resumeStateFile = None"
  shows "triple (calm F) (attempt (LoadResumeCheckpoint rt)) (\<lambda>v st. v = Inl NoResumeCheckpoint \<and> calm F st) never"
proof (rule tripleI)
  fix st v st' assume st: "calm F st" and run: "attempt (LoadResumeCheckpoint rt) st = (Inr v, st')"
  have "files st resumeStateFile = None" "\<not> fault st (access st)"
    using st assms by (simp_all add: calm_files calm_fault resumeStateFile_def currentStatsFile_def)
  with st run show "v = Inl NoResumeCheckpoint \<and> calm F st'"
    by (auto simp: LoadResumeCheckpoint_def run_defs calm_def state_is_def)
qed (simp add: attempt_def split: prod.splits)

lemma commit_started:
  assumes "rotation_wf rt (files st)" "commitNewTaskCanonicalState rt taskID None st = (Inr v, st')"
  shows "\<exists>G. fresh (files st) taskID G \<and> (\<forall>n. n \<in> set newTaskCanonicalStateFileNames \<longrightarrow> files st' n = G n)"
proof -
  from commit_triple [OF assms(1), of None "{}"] have
    "triple (state_is (files st)) (commitNewTaskCanonicalState rt taskID None)
      (\<lambda>_ st'. \<exists>G. fresh (files st) taskID G \<and> (\<forall>n. n \<notin> set newTaskCanonicalStateFileNames \<longrightarrow> G n = files st n) \<and>
         off (set (staged_files (files st)) \<union> {}) G st') (unchanged (files st))" by simp
  from triple_InrD [OF this state_is_self assms(2)] obtain G
    where G: "fresh (files st) taskID G" "off (set (staged_files (files st))) G st'" by auto
  have "set (staged_files (files st)) \<inter> set newTaskCanonicalStateFileNames = {}"
    by (auto simp: staged_files_def split: option.splits)
  with G(2) have "files st' n = G n" if "n \<in> set newTaskCanonicalStateFileNames" for n
    using that not_canonical(1) unfolding off_def by (metis disjoint_iff)
  with G(1) show ?thesis by blast
qed

lemma new_review_valid: "taskID \<noteq> [] \<Longrightarrow> decodeParentReviewState (new_review taskID) = Inr (new_review taskID)"
  by (simp add: decodeParentReviewState_def new_review_def validateParentReviewBindingState_def validateParentCompletionState_def)

lemma active_not_terminated: "TaskStatusActive \<noteq> TaskStatusUserTerminated" "TaskStatusActive \<noteq> TaskStatusWaitingDecision"
  by (simp_all add: task_status_defs)

lemma active_plan:
  "parentActionPlanForStatus rt TaskStatusActive False False roundCommentNone ResumeStopNone False = returnE (actionPlan ParentActionNone [] [])"
  by (simp add: parentActionPlanForStatus_def inactiveParentActionPlan_def of_result_Inr task_status_defs)

text \<open>
  C6. A task that has been started is ready to work: after a successful start the state directory
  is consistent, the task is active, and, as long as no later access fails, the parent's plan is
  found and requires nothing, so that no action of the parent stands in its way.
\<close>

theorem started_task_ready:
  assumes wf: "rotation_wf rt (files st)" and id: "list_all graphic taskID" "taskID \<noteq> []"
    and run: "commitNewTaskCanonicalState rt taskID None st = (Inr (), st')" and calm: "\<forall>n. \<not> fault st' n"
  shows "consistent rt (files st') \<and> status_of (files st') = TaskStatusActive \<and>
     (\<exists>st''. get_ParentActionPlan rt st' = (Inr (actionPlan ParentActionNone [] []), st''))"
proof -
  let ?F = "files st'"
  obtain G where G: "fresh (files st) taskID G"
    and files: "\<And>n. n \<in> set newTaskCanonicalStateFileNames \<Longrightarrow> ?F n = G n"
    using commit_started [OF wf run] by blast
  have gone: "?F n = None" if "n \<in> set newTaskCanonicalStateFileNames - {''task.id'', ''task.status'', parentReviewStateFile,
      observationExecutionsStateFile, parentEvidenceLeasePath}" for n
    using that files G unfolding fresh_def by (metis DiffD1)
  have names: "list_all (\<lambda>n. n \<in> set newTaskCanonicalStateFileNames - {''task.id'', ''task.status'', parentReviewStateFile,
      observationExecutionsStateFile, parentEvidenceLeasePath})
     [''pending-decision'', pendingDefectRegistrationStateFile, parentReopenTransactionStateFile, resumeStateFile]" by code_simp
  then have absent: "?F ''pending-decision'' = None" "?F pendingDefectRegistrationStateFile = None"
      "?F parentReopenTransactionStateFile = None" "?F resumeStateFile = None"
    using gone by (simp_all only: list.pred_inject)
  have there: "?F ''task.id'' = Some (Text (taskID @ [CHR 0x0A]))" "?F ''task.status'' = Some (Text (TaskStatusActive @ [CHR 0x0A]))"
      "?F parentReviewStateFile = Some (Doc (ReviewD (new_review taskID)))"
    using files G unfolding fresh_def by simp_all
  have active: "TaskStatus_Known TaskStatusActive" by (simp add: TaskStatus_Known_def)
  have status: "status_of ?F = TaskStatusActive"
    using status_of_known [OF active, of ?F] by (simp add: status_of_def there(2))
  from active have cons: "consistent rt ?F"
    unfolding consistent_def status using stop_TaskStatus_not_active active_not_terminated(2) by metis
  have name: "''pending-decision'' \<noteq> currentStatsFile" by (simp add: currentStatsFile_def)
  have current: "triple (calm ?F) CurrentParentReview (\<lambda>v st. v = None \<and> calm ?F st) never"
    by (rule closed_review_runs [of ?F "new_review taskID", OF there(3) _ _ there(1)])
      (use id trim_space_line [OF id(1)] in \<open>simp_all add: new_review_valid\<close>, simp_all add: new_review_def)
  have plan: "triple (calm ?F) (get_ParentActionPlan rt) (\<lambda>v st. v = actionPlan ParentActionNone [] [] \<and> calm ?F st) never"
    unfolding get_ParentActionPlan_def
    by (rule triple_bind [OF get_TaskStatus_runs [of ?F]], simp add: there(2), rule triple_assume, simp add: status active_not_terminated,
        rule triple_bind [OF inconsistent_runs [OF no_registrations_runs [of ?F, OF absent(2)]]], rule triple_assume, simp,
        rule triple_bind [OF Exists_runs [OF name]], rule triple_assume, simp add: absent(1),
        rule triple_bind [OF inconsistent_runs [OF closed_label_runs [of ?F, OF current absent(3)]]], rule triple_assume, simp,
        rule triple_bind [OF checkpoint_absent [of ?F rt, OF absent(4)]], rule triple_assume, simp add: active_plan, rule triple_return) simp
  have "calm ?F st'" using calm by (simp add: calm_def state_is_def)
  from calm_returns [OF plan this] cons status show ?thesis by auto
qed

theorem started_task_ready_witness:
  "\<exists>st' st''. commitNewTaskCanonicalState sample_runtime ''t2'' None old_task_store = (Inr (), st') \<and>
     consistent sample_runtime (files st') \<and>
     get_ParentActionPlan sample_runtime st' = (Inr (actionPlan ParentActionNone [] []), st'')"
proof -
  let ?run = "commitNewTaskCanonicalState sample_runtime ''t2'' None old_task_store"
  have once: "case ?run of (r, st) \<Rightarrow> \<not> isl r \<and> \<not> fault st n" for n by code_simp
  then have "\<not> isl (fst ?run)" by (simp add: case_prod_beta)
  then obtain st' where run: "?run = (Inr (), st')" using run_returns [of ?run] by auto
  with once have calm: "\<forall>n. \<not> fault st' n" by simp
  have graphic: "list_all graphic ''t2''" by code_simp
  from started_task_ready [OF old_task_wf graphic _ run calm] run show ?thesis by auto
qed

end
